(* ===== verification/Prelude.thy ===== *)
theory Prelude
  imports Main "HOL-Library.Word"
begin

text \<open>
  Shared ground of the development: the Rust data the components use (bytes, Unicode
  strings, \<open>Result\<close>), the operations of the Rust standard library on them, and the
  generic lemmas every component proof relies on.

  A Rust \<open>char\<close> is a Unicode scalar value, here the code point as a \<open>nat\<close>; a
  \<open>String\<close> or \<open>&str\<close> is the list of its code points (\<open>ustr\<close>).
  \<open>s.chars().count()\<close> is then \<open>length s\<close> and \<open>s.len()\<close> the number of bytes of
  \<open>utf8 s\<close>. A \<open>usize\<close> is a \<open>nat\<close>; where an operation on it could underflow,
  the models make the panic a result.
\<close>

unbundle bit_operations_syntax

named_theorems result_simps \<open>when a computation in the result type succeeds\<close>
named_theorems char_simps \<open>character classes of the Rust standard library\<close>

section \<open>Bytes and strings\<close>

type_synonym u8 = "8 word"
type_synonym uchar = nat
type_synonym ustr = "nat list"

definition lit :: "string \<Rightarrow> ustr" where
  "lit s = map of_char s"

lemma lit_Nil [simp]: "lit [] = []"
  and lit_Cons: "lit (c # cs) = of_char c # lit cs"
  by (simp_all add: lit_def)

text \<open>A literal in single quotes (39), as it occurs inside messages.\<close>

definition sq :: "string \<Rightarrow> ustr" where
  "sq s = 39 # lit s @ [39]"

definition is_control :: "uchar \<Rightarrow> bool" where
  "is_control c \<longleftrightarrow> c < 32 \<or> 127 \<le> c \<and> c < 160"

definition is_whitespace :: "uchar \<Rightarrow> bool" where
  "is_whitespace c \<longleftrightarrow> 9 \<le> c \<and> c \<le> 13 \<or> c = 32 \<or> c = 0x85 \<or> c = 0xA0 \<or> c = 0x1680 \<or>
     0x2000 \<le> c \<and> c \<le> 0x200A \<or> c = 0x2028 \<or> c = 0x2029 \<or> c = 0x202F \<or> c = 0x205F \<or> c = 0x3000"

definition is_ascii :: "uchar \<Rightarrow> bool" where
  "is_ascii c \<longleftrightarrow> c < 128"

definition is_ascii_digit :: "uchar \<Rightarrow> bool" where
  "is_ascii_digit c \<longleftrightarrow> 48 \<le> c \<and> c \<le> 57"

definition is_ascii_alphanumeric :: "uchar \<Rightarrow> bool" where
  "is_ascii_alphanumeric c \<longleftrightarrow>
     is_ascii_digit c \<or> 65 \<le> c \<and> c \<le> 90 \<or> 97 \<le> c \<and> c \<le> 122"

definition is_ascii_hexdigit :: "uchar \<Rightarrow> bool" where
  "is_ascii_hexdigit c \<longleftrightarrow> is_ascii_digit c \<or> 65 \<le> c \<and> c \<le> 70 \<or> 97 \<le> c \<and> c \<le> 102"

definition is_lower_hexdigit :: "uchar \<Rightarrow> bool" where
  "is_lower_hexdigit c \<longleftrightarrow> is_ascii_digit c \<or> 97 \<le> c \<and> c \<le> 102"

definition is_ascii_whitespace :: "uchar \<Rightarrow> bool" where
  "is_ascii_whitespace c \<longleftrightarrow> c = 32 \<or> c = 9 \<or> c = 10 \<or> c = 12 \<or> c = 13"

definition is_ascii_control :: "uchar \<Rightarrow> bool" where
  "is_ascii_control c \<longleftrightarrow> c < 32 \<or> c = 127"

lemmas char_class_defs [char_simps] =
  is_control_def is_whitespace_def is_ascii_def is_ascii_digit_def is_ascii_alphanumeric_def
  is_ascii_hexdigit_def is_lower_hexdigit_def is_ascii_whitespace_def is_ascii_control_def

text \<open>UTF-8: the bytes of a string, and \<open>str::len\<close>.\<close>

definition utf8_char :: "uchar \<Rightarrow> u8 list" where
  "utf8_char c =
     (if c < 0x80 then [word_of_nat c]
      else if c < 0x800 then [word_of_nat (0xC0 + c div 64), word_of_nat (0x80 + c mod 64)]
      else if c < 0x10000 then
        [word_of_nat (0xE0 + c div 4096), word_of_nat (0x80 + c div 64 mod 64),
         word_of_nat (0x80 + c mod 64)]
      else
        [word_of_nat (0xF0 + c div 262144), word_of_nat (0x80 + c div 4096 mod 64),
         word_of_nat (0x80 + c div 64 mod 64), word_of_nat (0x80 + c mod 64)])"

definition utf8 :: "ustr \<Rightarrow> u8 list" where
  "utf8 s = concat (map utf8_char s)"

definition str_len :: "ustr \<Rightarrow> nat" where
  "str_len s = length (utf8 s)"

lemma utf8_simps [simp]: "utf8 [] = []" "utf8 (c # s) = utf8_char c @ utf8 s"
  "utf8 (s @ t) = utf8 s @ utf8 t"
  by (simp_all add: utf8_def)

lemma length_utf8_char: "0 < length (utf8_char c)" "length (utf8_char c) \<le> 4"
  by (simp_all add: utf8_char_def)

lemma str_len_Nil [simp]: "str_len [] = 0"
  and str_len_append [simp]: "str_len (s @ t) = str_len s + str_len t"
  by (simp_all add: str_len_def)

lemma str_len_ge: "length s \<le> str_len s"
proof (induction s)
  case (Cons c s)
  then show ?case using length_utf8_char(1) [of c]
    by (simp add: str_len_def Suc_le_eq del: length_greater_0_conv)
qed simp

lemma str_len_le: "str_len s \<le> 4 * length s"
proof (induction s)
  case (Cons c s)
  then show ?case using length_utf8_char(2) [of c] by (simp add: str_len_def)
qed simp

lemma str_len_ascii: "list_all is_ascii s \<Longrightarrow> str_len s = length s"
  by (induction s) (auto simp: str_len_def utf8_char_def is_ascii_def)

lemma utf8_ascii: "list_all is_ascii s \<Longrightarrow> utf8 s = map word_of_nat s"
  by (induction s) (auto simp: utf8_char_def is_ascii_def)

text \<open>The code points of a Rust string are below \<open>0x110000\<close>. Against such a string, the bytes of
  an ASCII string determine it.\<close>

definition rust_str :: "ustr \<Rightarrow> bool" where
  "rust_str s \<longleftrightarrow> list_all (\<lambda>c. c < 0x110000) s"

lemma unat_of_small: "n < 256 \<Longrightarrow> unat (word_of_nat n :: u8) = n"
  by (simp add: unsigned_of_nat take_bit_nat_eq_self)

lemma utf8_char_head:
  assumes "c < 0x110000" "utf8_char c = b # bs"
  shows "unat b < 128 \<longleftrightarrow> c < 128" "c < 128 \<Longrightarrow> bs = [] \<and> unat b = c"
proof -
  have "0xC0 + c div 64 < 256" if "c < 0x800" using that by simp
  moreover have "0xE0 + c div 4096 < 256" if "c < 0x10000" using that by simp
  moreover have "0xF0 + c div 262144 < 256" using assms(1) by simp
  moreover have "c < 128 \<Longrightarrow> unat (word_of_nat c :: u8) = c" by (rule unat_of_small) simp
  ultimately show "unat b < 128 \<longleftrightarrow> c < 128" "c < 128 \<Longrightarrow> bs = [] \<and> unat b = c"
    using assms(2) by (auto simp: utf8_char_def unat_of_small simp del: of_nat_add split: if_splits)
qed

lemma utf8_class_iff:
  assumes "\<And>n. P n \<Longrightarrow> n < 128"
  shows "list_all (\<lambda>b. P (unat b)) (utf8 v) \<longleftrightarrow> list_all P v"
proof (induction v)
  case (Cons c v)
  have m: "unat (word_of_nat (128 + c mod 64) :: u8) = 128 + c mod 64"
    by (rule unat_of_small) (simp add: less_trans [OF mod_less_divisor])
  have "list_all (\<lambda>b. P (unat b)) (utf8_char c) \<longleftrightarrow> P c"
  proof (cases "c < 128")
    case True
    then show ?thesis using unat_of_small [of c] by (simp add: utf8_char_def)
  next
    case False
    have "\<not> P (unat (word_of_nat (128 + c mod 64) :: u8))" unfolding m using assms by fastforce
    moreover have "(word_of_nat (128 + c mod 64) :: u8) \<in> set (utf8_char c)"
      using False by (simp add: utf8_char_def)
    moreover have "\<not> P c" using False assms by blast
    ultimately show ?thesis by (auto simp: list_all_iff)
  qed
  with Cons show ?case by simp
qed simp

lemma utf8_ascii_inject:
  assumes "list_all is_ascii s" "rust_str t" "utf8 t = utf8 s"
  shows "t = s"
  using assms
proof (induction s arbitrary: t)
  case Nil
  have "utf8_char c \<noteq> []" for c using length_utf8_char(1) [of c] by auto
  with Nil show ?case by (cases t) auto
next
  case (Cons a s)
  then have a: "a < 128" "utf8_char a = [word_of_nat a]" by (simp_all add: is_ascii_def utf8_char_def)
  with Cons.prems obtain c t' where t: "t = c # t'" by (cases t) auto
  obtain b bs where cb: "utf8_char c = b # bs" using length_utf8_char(1) [of c] by (cases "utf8_char c") auto
  have c: "c < 0x110000" using Cons.prems(2) by (simp add: t rust_str_def)
  have b: "b = word_of_nat a" using Cons.prems(3) a cb by (simp add: t)
  then have "unat b = a" using a(1) unat_of_small by simp
  with utf8_char_head [OF c cb] a(1) have "bs = []" "c = a" by auto
  with Cons t a cb b show ?case by (auto simp: rust_str_def)
qed

section \<open>String operations\<close>

definition trim_end :: "ustr \<Rightarrow> ustr" where
  "trim_end s = rev (dropWhile is_whitespace (rev s))"

definition trim :: "ustr \<Rightarrow> ustr" where
  "trim s = trim_end (dropWhile is_whitespace s)"

definition blank :: "ustr \<Rightarrow> bool" where
  "blank s \<longleftrightarrow> list_all is_whitespace s"

lemma trim_eq_Nil [simp]: "trim s = [] \<longleftrightarrow> blank s"
proof -
  have "dropWhile P xs = [] \<longleftrightarrow> list_all P xs" for P and xs :: ustr
    by (simp add: dropWhile_eq_Nil_conv list_all_iff)
  moreover have "list_all is_whitespace (dropWhile is_whitespace s) \<longleftrightarrow> list_all is_whitespace s"
    by (induction s) auto
  ultimately show ?thesis
    by (simp add: trim_def trim_end_def blank_def list_all_iff)
qed

lemma blank_append [simp]: "blank (s @ t) \<longleftrightarrow> blank s \<and> blank t"
  and blank_Nil [simp]: "blank []"
  and blank_Cons [simp]: "blank (c # s) \<longleftrightarrow> is_whitespace c \<and> blank s"
  by (simp_all add: blank_def)

definition starts_with :: "ustr \<Rightarrow> ustr \<Rightarrow> bool" where
  "starts_with p s \<longleftrightarrow> take (length p) s = p"

lemma starts_with_append [simp]: "starts_with p (p @ s)"
  by (simp add: starts_with_def)

lemma starts_with_iff: "starts_with p s \<longleftrightarrow> (\<exists>t. s = p @ t)"
  by (metis append_eq_conv_conj append_take_drop_id starts_with_def)

fun split_on :: "uchar \<Rightarrow> ustr \<Rightarrow> ustr list" where
  "split_on c [] = [[]]"
| "split_on c (x # xs) =
     (if x = c then [] # split_on c xs
      else case split_on c xs of [] \<Rightarrow> [[x]] | h # t \<Rightarrow> (x # h) # t)"

fun join :: "ustr \<Rightarrow> ustr list \<Rightarrow> ustr" where
  "join sep [] = []"
| "join sep [x] = x"
| "join sep (x # y # ys) = x @ sep @ join sep (y # ys)"

definition split_once :: "uchar \<Rightarrow> ustr \<Rightarrow> (ustr \<times> ustr) option" where
  "split_once c s =
     (if c \<in> set s then Some (takeWhile (\<lambda>x. x \<noteq> c) s, tl (dropWhile (\<lambda>x. x \<noteq> c) s)) else None)"

definition rsplit_once :: "uchar \<Rightarrow> ustr \<Rightarrow> (ustr \<times> ustr) option" where
  "rsplit_once c s =
     (if c \<in> set s
      then Some (rev (tl (dropWhile (\<lambda>x. x \<noteq> c) (rev s))), rev (takeWhile (\<lambda>x. x \<noteq> c) (rev s)))
      else None)"

definition ascii_lower :: "uchar \<Rightarrow> uchar" where
  "ascii_lower c = (if 65 \<le> c \<and> c \<le> 90 then c + 32 else c)"

definition eq_ignore_ascii_case :: "ustr \<Rightarrow> ustr \<Rightarrow> bool" where
  "eq_ignore_ascii_case s t \<longleftrightarrow> map ascii_lower s = map ascii_lower t"

lemma split_on_not_Nil [simp]: "split_on c s \<noteq> []"
  by (induction s) (auto split: list.splits)

lemma split_on_absent: "c \<notin> set s \<Longrightarrow> split_on c s = [s]"
  by (induction s) auto

lemma split_on_append: "c \<notin> set s \<Longrightarrow> split_on c (s @ c # t) = s # split_on c t"
  by (induction s) auto

lemma split_on_join:
  "ps \<noteq> [] \<Longrightarrow> \<forall>p \<in> set ps. c \<notin> set p \<Longrightarrow> split_on c (join [c] ps) = ps"
  by (induction ps rule: induct_list012) (auto simp: split_on_absent split_on_append)

lemma join_Cons_not_Nil: "ps \<noteq> [] \<Longrightarrow> join sep (p # ps) = p @ sep @ join sep ps"
  by (cases ps) auto

lemma join_split_on: "join [c] (split_on c s) = s"
proof (induction s)
  case (Cons x xs)
  obtain h t where ht: "split_on c xs = h # t" by (cases "split_on c xs") auto
  with Cons show ?case by (cases t) (auto simp: join_Cons_not_Nil)
qed simp

lemma split_on_parts: "p \<in> set (split_on c s) \<Longrightarrow> c \<notin> set p \<and> set p \<subseteq> set s"
proof (induction s arbitrary: p)
  case (Cons x xs)
  obtain h t where ht: "split_on c xs = h # t" by (cases "split_on c xs") auto
  with Cons.IH [of h] Cons.IH [of p] Cons.prems show ?case
    by (auto split: if_splits)
qed simp

lemma split_once_append: "c \<notin> set s \<Longrightarrow> split_once c (s @ c # t) = Some (s, t)"
  by (induction s) (auto simp: split_once_def)

lemma split_once_SomeD:
  assumes "split_once c s = Some (k, v)"
  shows "s = k @ c # v \<and> c \<notin> set k"
proof -
  from assms have "c \<in> set s" and k: "k = takeWhile (\<lambda>x. x \<noteq> c) s"
    and v: "v = tl (dropWhile (\<lambda>x. x \<noteq> c) s)"
    by (auto simp: split_once_def split: if_splits)
  then have "dropWhile (\<lambda>x. x \<noteq> c) s = c # v"
    by (metis (mono_tags, lifting) dropWhile_eq_Nil_conv hd_dropWhile list.collapse)
  then have "s = k @ c # v" by (metis k takeWhile_dropWhile_id)
  moreover have "c \<notin> set k" unfolding k by (auto dest: set_takeWhileD)
  ultimately show ?thesis by blast
qed

fun show_nat :: "nat \<Rightarrow> ustr" where
  "show_nat n = (if n < 10 then [48 + n] else show_nat (n div 10) @ [48 + n mod 10])"

declare show_nat.simps [simp del]

lemma show_nat_digits: "show_nat n \<noteq> [] \<and> list_all is_ascii_digit (show_nat n)"
proof (induction n rule: show_nat.induct)
  case (1 n)
  then show ?case by (cases "n < 10") (simp_all add: show_nat.simps [of n] char_simps)
qed

lemma foldl_show_nat: "foldl (\<lambda>n d. 10 * n + (d - 48)) 0 (show_nat n) = n"
proof (induction n rule: show_nat.induct)
  case (1 n)
  then show ?case by (cases "n < 10") (simp_all add: show_nat.simps [of n])
qed

fun find_sub :: "ustr \<Rightarrow> ustr \<Rightarrow> nat option" where
  "find_sub p [] = (if p = [] then Some 0 else None)"
| "find_sub p (x # xs) =
     (if starts_with p (x # xs) then Some 0 else map_option Suc (find_sub p xs))"

section \<open>Lists\<close>

lemma list_all2_in1: "list_all2 P xs ys \<Longrightarrow> x \<in> set xs \<Longrightarrow> \<exists>y \<in> set ys. P x y"
  by (induction rule: list_all2_induct) auto

lemma list_all2_in2: "list_all2 P xs ys \<Longrightarrow> y \<in> set ys \<Longrightarrow> \<exists>x \<in> set xs. P x y"
  by (induction rule: list_all2_induct) auto

lemma ex1_list:
  assumes "\<And>i. i < n \<Longrightarrow> \<exists>!x. P i x"
  shows "\<exists>!xs. length xs = n \<and> (\<forall>i < n. P i (xs ! i))"
proof -
  from assms obtain f where f: "\<And>i. i < n \<Longrightarrow> P i (f i)" "\<And>i x. i < n \<Longrightarrow> P i x \<Longrightarrow> x = f i"
    by metis
  show ?thesis
  proof (rule ex1I [of _ "map f [0..<n]"])
    fix xs assume "length xs = n \<and> (\<forall>i < n. P i (xs ! i))"
    then show "xs = map f [0..<n]" using f(2) by (intro nth_equalityI) auto
  qed (use f(1) in auto)
qed

section \<open>Results\<close>

text \<open>\<open>Result<T, E>\<close> is \<open>'e + 'a\<close> with \<open>Inl\<close> for \<open>Err\<close>; \<open>bindR\<close> is the
  \<open>?\<close> operator, \<open>map_err\<close> is \<open>Result::map_err\<close> and \<open>try_for_each\<close> a loop
  that leaves at the first error.\<close>

fun bindR :: "'e + 'a \<Rightarrow> ('a \<Rightarrow> 'e + 'b) \<Rightarrow> 'e + 'b" where
  "bindR (Inl e) f = Inl e"
| "bindR (Inr x) f = f x"

fun map_err :: "('e \<Rightarrow> 'f) \<Rightarrow> 'e + 'a \<Rightarrow> 'f + 'a" where
  "map_err h (Inl e) = Inl (h e)"
| "map_err h (Inr x) = Inr x"

fun ok_or :: "'e \<Rightarrow> 'a option \<Rightarrow> 'e + 'a" where
  "ok_or e None = Inl e"
| "ok_or e (Some x) = Inr x"

fun try_for_each :: "('a \<Rightarrow> 'e + unit) \<Rightarrow> 'a list \<Rightarrow> 'e + unit" where
  "try_for_each f [] = Inr ()"
| "try_for_each f (x # xs) = bindR (f x) (\<lambda>_. try_for_each f xs)"

fun try_map :: "('a \<Rightarrow> 'e + 'b) \<Rightarrow> 'a list \<Rightarrow> 'e + 'b list" where
  "try_map f [] = Inr []"
| "try_map f (x # xs) = bindR (f x) (\<lambda>y. bindR (try_map f xs) (\<lambda>ys. Inr (y # ys)))"

lemma bindR_cong [fundef_cong]:
  "r = r' \<Longrightarrow> (\<And>x. r' = Inr x \<Longrightarrow> f x = g x) \<Longrightarrow> bindR r f = bindR r' g"
  by (cases r') auto

lemma bindR_eq_Inr [result_simps]:
  "bindR r f = Inr y \<longleftrightarrow> (\<exists>x. r = Inr x \<and> f x = Inr y)"
  by (cases r) auto

lemma bindR_eq_Inl:
  "bindR r f = Inl e \<longleftrightarrow> r = Inl e \<or> (\<exists>x. r = Inr x \<and> f x = Inl e)"
  by (cases r) auto

lemma bindR_unit_Inr [result_simps]:
  "r = Inr () \<Longrightarrow> bindR r f = f ()"
  by simp

lemma bindR_unit_eq: "bindR r f = Inr y \<longleftrightarrow> r = Inr () \<and> f () = Inr y"
  by (cases r) auto

lemma map_err_eq_Inr [result_simps]: "map_err h r = Inr x \<longleftrightarrow> r = Inr x"
  by (cases r) auto

lemma ok_or_eq_Inr [result_simps]: "ok_or e x = Inr y \<longleftrightarrow> x = Some y"
  by (cases x) auto

lemma if_Inl_eq_Inr [result_simps]:
  "(if b then Inl e else r) = Inr y \<longleftrightarrow> \<not> b \<and> r = Inr y"
  by simp

lemma try_for_each_ok [result_simps]:
  "try_for_each f xs = Inr () \<longleftrightarrow> (\<forall>x \<in> set xs. f x = Inr ())"
  by (induction xs) (auto simp: bindR_eq_Inr)

lemma try_map_ok:
  "try_map f xs = Inr ys \<longleftrightarrow> list_all2 (\<lambda>x y. f x = Inr y) xs ys"
  by (induction xs arbitrary: ys) (auto simp: bindR_eq_Inr list_all2_Cons1)

lemma try_map_inverse: "(\<And>x. x \<in> set xs \<Longrightarrow> f (g x) = Inr x) \<Longrightarrow> try_map f (map g xs) = Inr xs"
  by (induction xs) auto

lemma try_map_cong [fundef_cong]:
  "xs = ys \<Longrightarrow> (\<And>x. x \<in> set ys \<Longrightarrow> f x = g x) \<Longrightarrow> try_map f xs = try_map g ys"
  by (induction ys arbitrary: xs) auto

lemma unit_result_cases:
  fixes r :: "'e + unit"
  obtains (err) e where "r = Inl e" | (ok) "r = Inr ()"
  by (cases r) auto

end
