(* ===== verification/Errors.thy ===== *)
theory Errors
  imports Prelude
begin

text \<open>
  \<open>src/error.rs\<close>: the error type \<open>VectisError\<close> with its constructors, the boxed
  \<open>DynError\<close> that carries it or an error of another crate, the prefixing of messages, the
  classification of errors, and the sanitising of messages that may reflect untrusted input.

  \<open>Panic\<close> is the result of an operation that would panic (an index out of range, an
  unsigned subtraction below zero); the component theories show where it cannot occur.
\<close>

section \<open>Error values\<close>

datatype vectis_error =
    TokenDecodeBatchTooLarge
  | InvalidInput ustr
  | NotFound ustr
  | Conflict ustr
  | Forbidden ustr
  | InvalidSignature ustr
  | ConfigSignatureStale ustr
  | RemoteUnreachable ustr
  | Storage ustr
  | Overloaded ustr
  | Internal ustr

datatype io_error_kind = IoNotFound | IoInvalidInput | IoPermissionDenied | IoOther

datatype dyn_error =
    Vectis vectis_error
  | Io io_error_kind ustr
  | Foreign ustr
  | Panic ustr

type_synonym 'a result = "dyn_error + 'a"

definition UNTRUSTED_ERROR_DETAIL_MAX_CHARS :: nat where
  "UNTRUSTED_ERROR_DETAIL_MAX_CHARS = 256"

definition SANITIZED_SERDE_FALLBACK :: ustr where
  "SANITIZED_SERDE_FALLBACK = lit ''invalid JSON''"

definition invalid_input :: "ustr \<Rightarrow> dyn_error" where "invalid_input m = Vectis (InvalidInput m)"
definition not_found :: "ustr \<Rightarrow> dyn_error" where "not_found m = Vectis (NotFound m)"
definition conflict :: "ustr \<Rightarrow> dyn_error" where "conflict m = Vectis (Conflict m)"
definition forbidden :: "ustr \<Rightarrow> dyn_error" where "forbidden m = Vectis (Forbidden m)"
definition invalid_signature :: "ustr \<Rightarrow> dyn_error" where
  "invalid_signature m = Vectis (InvalidSignature m)"
definition config_signature_stale :: "ustr \<Rightarrow> dyn_error" where
  "config_signature_stale m = Vectis (ConfigSignatureStale m)"
definition remote_unreachable :: "ustr \<Rightarrow> dyn_error" where
  "remote_unreachable m = Vectis (RemoteUnreachable m)"
definition storage_error :: "ustr \<Rightarrow> dyn_error" where "storage_error m = Vectis (Storage m)"
definition overloaded_error :: "ustr \<Rightarrow> dyn_error" where "overloaded_error m = Vectis (Overloaded m)"
definition internal :: "ustr \<Rightarrow> dyn_error" where "internal m = Vectis (Internal m)"

fun vectis_to_string :: "vectis_error \<Rightarrow> ustr" where
  "vectis_to_string TokenDecodeBatchTooLarge =
     lit ''token decode batch exceeds maximum allowed envelope size''"
| "vectis_to_string (InvalidInput m) = m"
| "vectis_to_string (NotFound m) = m"
| "vectis_to_string (Conflict m) = m"
| "vectis_to_string (Forbidden m) = m"
| "vectis_to_string (InvalidSignature m) = m"
| "vectis_to_string (ConfigSignatureStale m) = m"
| "vectis_to_string (RemoteUnreachable m) = m"
| "vectis_to_string (Storage m) = m"
| "vectis_to_string (Overloaded m) = m"
| "vectis_to_string (Internal m) = m"

fun to_string :: "dyn_error \<Rightarrow> ustr" where
  "to_string (Vectis e) = vectis_to_string e"
| "to_string (Io _ m) = m"
| "to_string (Foreign m) = m"
| "to_string (Panic m) = m"

text \<open>Subtraction of unsigned integers, which panics below zero.\<close>

definition usize_sub :: "nat \<Rightarrow> nat \<Rightarrow> nat result" where
  "usize_sub a b = (if b \<le> a then Inr (a - b) else Inl (Panic (lit ''attempt to subtract with overflow'')))"

section \<open>Sanitising untrusted detail\<close>

definition sanitize_untrusted_error_detail :: "ustr \<Rightarrow> ustr" where
  "sanitize_untrusted_error_detail detail =
     (let cleaned = filter (\<lambda>c. \<not> is_control c) detail;
          bounded = take UNTRUSTED_ERROR_DETAIL_MAX_CHARS cleaned
      in if trim bounded = [] then SANITIZED_SERDE_FALLBACK else bounded)"

definition serde_markers :: "ustr list" where
  "serde_markers = [lit ''invalid type: '', lit ''invalid value: '']"

definition min_list_option :: "nat list \<Rightarrow> nat option" where
  "min_list_option xs = (if xs = [] then None else Some (Min (set xs)))"

definition find_index :: "('a \<Rightarrow> bool) \<Rightarrow> 'a list \<Rightarrow> nat option" where
  "find_index p xs =
     (let n = length (takeWhile (\<lambda>x. \<not> p x) xs) in if n < length xs then Some n else None)"

text \<open>The offsets of the source are byte offsets into the same string; here they count
  characters. 96 and 34 are the backquote and the double quote.\<close>

definition redact_serde_value :: "ustr \<Rightarrow> ustr" where
  "redact_serde_value message =
     (case min_list_option
        (List.map_filter
           (\<lambda>marker. map_option (\<lambda>p. p + length marker) (find_sub marker message))
           serde_markers) of
        None \<Rightarrow> message
      | Some value_region_start \<Rightarrow>
          (let value_region = drop value_region_start message in
           case find_index (\<lambda>c. c = 96 \<or> c = 34) value_region of
             None \<Rightarrow> message
           | Some open_offset \<Rightarrow>
               (let delimiter = value_region ! open_offset;
                    after_open = drop (open_offset + 1) value_region in
                case find_index (\<lambda>c. c = delimiter) after_open of
                  None \<Rightarrow> message
                | Some close_offset \<Rightarrow>
                    (let value_start = value_region_start + open_offset;
                         value_end = value_start + 1 + close_offset + 1
                     in trim_end (take value_start message) @ drop value_end message))))"

definition sanitized_serde_json_error_detail :: "ustr \<Rightarrow> ustr" where
  "sanitized_serde_json_error_detail error_text =
     sanitize_untrusted_error_detail (redact_serde_value error_text)"

definition invalid_json_input :: "ustr \<Rightarrow> ustr \<Rightarrow> dyn_error" where
  "invalid_json_input context error_text =
     invalid_input (context @ lit '': '' @ sanitized_serde_json_error_detail error_text)"

section \<open>Prefixing and classifying\<close>

fun with_prefix :: "ustr \<Rightarrow> dyn_error \<Rightarrow> dyn_error" where
  "with_prefix p (Vectis TokenDecodeBatchTooLarge) = Vectis TokenDecodeBatchTooLarge"
| "with_prefix p (Vectis (InvalidInput m)) = invalid_input (p @ lit '': '' @ m)"
| "with_prefix p (Vectis (NotFound m)) = not_found (p @ lit '': '' @ m)"
| "with_prefix p (Vectis (Conflict m)) = conflict (p @ lit '': '' @ m)"
| "with_prefix p (Vectis (Forbidden m)) = forbidden (p @ lit '': '' @ m)"
| "with_prefix p (Vectis (InvalidSignature m)) = invalid_signature (p @ lit '': '' @ m)"
| "with_prefix p (Vectis (ConfigSignatureStale m)) = config_signature_stale (p @ lit '': '' @ m)"
| "with_prefix p (Vectis (RemoteUnreachable m)) = remote_unreachable (p @ lit '': '' @ m)"
| "with_prefix p (Vectis (Storage m)) = storage_error (p @ lit '': '' @ m)"
| "with_prefix p (Vectis (Overloaded m)) = overloaded_error (p @ lit '': '' @ m)"
| "with_prefix p (Vectis (Internal m)) = internal (p @ lit '': '' @ m)"
| "with_prefix p (Panic m) = Panic m"
| "with_prefix p e = internal (p @ lit '': '' @ to_string e)"

definition is_config_signature_stale :: "dyn_error \<Rightarrow> bool" where
  "is_config_signature_stale e = (case e of Vectis (ConfigSignatureStale _) \<Rightarrow> True | _ \<Rightarrow> False)"

definition is_not_found :: "dyn_error \<Rightarrow> bool" where
  "is_not_found e =
     (case e of Vectis (NotFound _) \<Rightarrow> True | Io IoNotFound _ \<Rightarrow> True | _ \<Rightarrow> False)"

definition is_invalid_input :: "dyn_error \<Rightarrow> bool" where
  "is_invalid_input e = (case e of Vectis (InvalidInput _) \<Rightarrow> True | _ \<Rightarrow> False)"

lemmas error_defs =
  invalid_input_def not_found_def conflict_def forbidden_def invalid_signature_def
  config_signature_stale_def remote_unreachable_def storage_error_def overloaded_error_def internal_def

section \<open>Lemmas\<close>

lemma is_invalid_input_simps [simp]: "is_invalid_input (invalid_input m)"
  by (simp add: is_invalid_input_def invalid_input_def)

lemma find_index_None: "find_index p xs = None \<longleftrightarrow> (\<forall>x \<in> set xs. \<not> p x)"
proof -
  have "length (takeWhile (\<lambda>x. \<not> p x) xs) < length xs \<longleftrightarrow> takeWhile (\<lambda>x. \<not> p x) xs \<noteq> xs"
    by (metis length_takeWhile_le nat_less_le takeWhile_dropWhile_id append_Nil2
        append_eq_conv_conj length_append less_irrefl take_all_iff)
  then show ?thesis by (auto simp: find_index_def Let_def takeWhile_eq_all_conv)
qed

lemma find_index_append:
  "\<forall>x \<in> set xs. \<not> p x \<Longrightarrow> p y \<Longrightarrow> find_index p (xs @ y # ys) = Some (length xs)"
  by (simp add: find_index_def Let_def takeWhile_append2)

text \<open>The detail of an untrusted error that is put into a message has at most 256
  characters, none of them a control character, and is never blank.\<close>

theorem sanitized_detail_safe:
  "length (sanitized_serde_json_error_detail t) \<le> UNTRUSTED_ERROR_DETAIL_MAX_CHARS \<and>
   \<not> list_ex is_control (sanitized_serde_json_error_detail t) \<and>
   \<not> blank (sanitized_serde_json_error_detail t)"
proof -
  have f: "\<not> blank SANITIZED_SERDE_FALLBACK"
    "\<forall>c \<in> set SANITIZED_SERDE_FALLBACK. \<not> is_control c"
    "length SANITIZED_SERDE_FALLBACK \<le> UNTRUSTED_ERROR_DETAIL_MAX_CHARS"
    by (simp_all add: SANITIZED_SERDE_FALLBACK_def lit_def char_simps
        UNTRUSTED_ERROR_DETAIL_MAX_CHARS_def)
  show ?thesis
    using f
    by (auto simp: sanitized_serde_json_error_detail_def sanitize_untrusted_error_detail_def
        Let_def list_ex_iff dest: in_set_takeD)
qed

text \<open>What \<open>redact_serde_value\<close> does to a message that carries one marker and a quoted value.\<close>

lemma redact_quoted:
  assumes m: "min_list_option
      (List.map_filter (\<lambda>marker. map_option (\<lambda>p. p + length marker)
         (find_sub marker (pre @ mid @ q # v @ q # post))) serde_markers) = Some (length pre)"
    and q: "q = 96 \<or> q = 34" and mid: "\<forall>c \<in> set mid. c \<noteq> 96 \<and> c \<noteq> 34" and v: "q \<notin> set v"
  shows "redact_serde_value (pre @ mid @ q # v @ q # post) = trim_end (pre @ mid) @ post"
proof -
  have 1: "find_index (\<lambda>c. c = 96 \<or> c = 34) (mid @ q # v @ q # post) = Some (length mid)"
    using q mid by (intro find_index_append) auto
  have 2: "find_index (\<lambda>c. c = q) (v @ q # post) = Some (length v)"
    using v by (intro find_index_append) auto
  show ?thesis
    unfolding redact_serde_value_def m by (simp add: 1 2 Let_def)
qed

lemma find_sub_prefix [simp]: "find_sub p (p @ s) = Some 0"
  by (cases "p @ s") (use starts_with_append [of p s] in auto)

lemma find_sub_not_prefix:
  "\<not> starts_with p s \<Longrightarrow> find_sub p s = Some n \<Longrightarrow> 0 < n"
  by (cases s) (auto simp: starts_with_def split: if_splits)

lemma serde_marker_position:
  assumes "marker \<in> set serde_markers"
  shows "min_list_option
      (List.map_filter (\<lambda>m. map_option (\<lambda>p. p + length m) (find_sub m (marker @ rest))) serde_markers)
    = Some (length marker)"
proof -
  let ?t = "lit ''invalid type: ''" and ?v = "lit ''invalid value: ''"
  have len: "length ?t = 14" "length ?v = 15" by (simp_all add: lit_def)
  have nt: "\<not> starts_with ?v (?t @ rest)" and nv: "\<not> starts_with ?t (?v @ rest)"
    by (simp_all add: starts_with_def lit_def)
  from assms consider "marker = ?t" | "marker = ?v" by (auto simp: serde_markers_def)
  then show ?thesis
  proof cases
    case 1
    then show ?thesis using find_sub_not_prefix [OF nt] len
      by (cases "find_sub ?v (?t @ rest)")
        (auto simp: serde_markers_def map_filter_simps min_list_option_def min_def)
  next
    case 2
    then show ?thesis using find_sub_not_prefix [OF nv] len
      by (cases "find_sub ?t (?v @ rest)")
        (auto simp: serde_markers_def map_filter_simps min_list_option_def min_def)
  qed
qed

text \<open>A diagnostic of the JSON library that quotes a value of the caller is rendered
  without that value: the quoted text is cut out whole, whatever it contains, and only the
  text before and after it is kept.\<close>

theorem redact_removes_quoted_value:
  assumes "marker \<in> set serde_markers" and "q = 96 \<or> q = 34"
    and "\<forall>c \<in> set mid. c \<noteq> 96 \<and> c \<noteq> 34" and "q \<notin> set v"
  shows "redact_serde_value (marker @ mid @ q # v @ q # post) = trim_end (marker @ mid) @ post"
  using assms by (intro redact_quoted serde_marker_position) auto

theorem redact_removes_quoted_value_witness:
  "redact_serde_value (lit ''invalid type: integer `4111`, expected a string'')
     = lit ''invalid type: integer, expected a string''"
proof -
  have m: "lit ''invalid type: '' \<in> set serde_markers" by (simp add: serde_markers_def)
  have "redact_serde_value (lit ''invalid type: '' @ lit ''integer '' @ 96 # lit ''4111'' @ 96 # lit '', expected a string'')
      = trim_end (lit ''invalid type: '' @ lit ''integer '') @ lit '', expected a string''"
    using m by (rule redact_removes_quoted_value) (simp_all add: lit_def)
  then show ?thesis by (simp add: lit_def trim_end_def is_whitespace_def)
qed

end
