(* ===== verification/Crypto.thy ===== *)
theory Crypto
  imports Errors
begin

text \<open>
  The parts of \<open>src/core/crypto.rs\<close> that are Vectis's own logic: the table of hash
  algorithms with their digest sizes, the table of symmetric ciphers, and the comparison
  \<open>constant_time_eq\<close> that authenticates tags and API key digests. The primitives themselves
  (hash, HMAC, KMAC, HKDF, AEAD, random bytes) belong to other crates and are parameters of
  the operations that call them.
\<close>

section \<open>Algorithm tables\<close>

definition HASH_ALGORITHMS :: "ustr list" where
  "HASH_ALGORITHMS = map lit
     [''BLAKE2b(160)'', ''BLAKE2b(224)'', ''BLAKE2b(256)'', ''BLAKE2b(384)'', ''BLAKE2b(512)'',
      ''SHA-224'', ''SHA-256'', ''SHA-384'', ''SHA-512'', ''SHA-512-256'',
      ''SHA-3(224)'', ''SHA-3(256)'', ''SHA-3(384)'', ''SHA-3(512)'', ''Whirlpool'']"

definition hash_output_size_bytes :: "ustr \<Rightarrow> nat option" where
  "hash_output_size_bytes algorithm =
     (if algorithm = lit ''BLAKE2b(160)'' then Some 20
      else if algorithm \<in> {lit ''BLAKE2b(224)'', lit ''SHA-224'', lit ''SHA-3(224)''} then Some 28
      else if algorithm \<in> {lit ''BLAKE2b(256)'', lit ''SHA-256'', lit ''SHA-512-256'', lit ''SHA-3(256)''}
        then Some 32
      else if algorithm \<in> {lit ''BLAKE2b(384)'', lit ''SHA-384'', lit ''SHA-3(384)''} then Some 48
      else if algorithm \<in> {lit ''BLAKE2b(512)'', lit ''SHA-512'', lit ''SHA-3(512)'', lit ''Whirlpool''}
        then Some 64
      else None)"

record symmetric_cipher_spec =
  sc_algorithm :: ustr
  sc_key_size_bytes :: nat
  sc_nonce_size_bytes :: nat

definition symmetric_cipher :: "ustr \<Rightarrow> symmetric_cipher_spec option" where
  "symmetric_cipher name =
     (if name = lit ''ChaCha20Poly1305''
      then Some \<lparr>sc_algorithm = name, sc_key_size_bytes = 32, sc_nonce_size_bytes = 24\<rparr>
      else if name = lit ''AES-128/GCM''
      then Some \<lparr>sc_algorithm = name, sc_key_size_bytes = 16, sc_nonce_size_bytes = 12\<rparr>
      else if name = lit ''AES-192/GCM''
      then Some \<lparr>sc_algorithm = name, sc_key_size_bytes = 24, sc_nonce_size_bytes = 12\<rparr>
      else if name = lit ''AES-256/GCM''
      then Some \<lparr>sc_algorithm = name, sc_key_size_bytes = 32, sc_nonce_size_bytes = 12\<rparr>
      else None)"

section \<open>Constant-time comparison\<close>

fun xor_diff :: "u8 \<Rightarrow> u8 list \<Rightarrow> u8 list \<Rightarrow> u8" where
  "xor_diff diff (l # ls) (r # rs) = xor_diff (diff OR (l XOR r)) ls rs"
| "xor_diff diff _ _ = diff"

definition constant_time_eq :: "u8 list \<Rightarrow> u8 list \<Rightarrow> bool" where
  "constant_time_eq left right =
     (if length left \<noteq> length right then False else xor_diff 0 left right = 0)"

section \<open>Lemmas\<close>

lemma word_or_zero_iff: "(a :: u8) OR b = 0 \<longleftrightarrow> a = 0 \<and> b = 0"
  by (simp add: or_eq_0_iff)

lemma word_xor_zero_iff: "(a :: u8) XOR b = 0 \<longleftrightarrow> a = b"
  by (metis xor.assoc xor.left_neutral xor_self_eq)

lemma xor_diff_zero:
  "length ls = length rs \<Longrightarrow> xor_diff d ls rs = 0 \<longleftrightarrow> d = 0 \<and> ls = rs"
  by (induction d ls rs rule: xor_diff.induct) (auto simp: word_or_zero_iff word_xor_zero_iff)

lemma constant_time_eq_iff [simp]: "constant_time_eq l r \<longleftrightarrow> l = r"
  by (auto simp: constant_time_eq_def xor_diff_zero)

lemma hash_size_known: "a \<in> set HASH_ALGORITHMS \<Longrightarrow> hash_output_size_bytes a \<noteq> None"
  by (auto simp: HASH_ALGORITHMS_def hash_output_size_bytes_def)

end
