(* ===== verification/Validation.thy ===== *)
theory Validation
  imports Crypto
begin

text \<open>
  \<open>src/core/validation.rs\<close> (and \<open>validate_key_id\<close> of \<open>src/ops/keys.rs\<close>): the field checks every
  entry point runs before it acts, the construction and parsing of additional authenticated
  data (AAD), the labels of a profile's context, and the three-segment base64 envelopes of
  stored ciphertexts.

  The base64 decoder is a parameter (\<open>b64_decode\<close>); the checks on host names and socket
  addresses are not modelled here. Lemmas on a check say exactly when it succeeds; the AAD
  lemmas show that distinct field lists never share an encoding.
\<close>

section \<open>Constants of \<open>src/core/config.rs\<close>\<close>

definition CONFIG_NAME_MAX_CHARS :: nat where "CONFIG_NAME_MAX_CHARS = 128"
definition INTERNAL_REF_MAX_CHARS :: nat where "INTERNAL_REF_MAX_CHARS = 128"
definition STORAGE_TOKEN_ENVELOPE_MAX_CHARS :: nat where "STORAGE_TOKEN_ENVELOPE_MAX_CHARS = 131072"
definition INTERNAL_KEYS_HASH :: ustr where "INTERNAL_KEYS_HASH = lit ''BLAKE2b(256)''"

section \<open>JSON values\<close>

datatype json =
    JNull
  | JBool bool
  | JNumber int
  | JString ustr
  | JArray "json list"
  | JObject "(ustr \<times> json) list"

definition SERDE_JSON_PRIVATE_KEY_PREFIX :: ustr where
  "SERDE_JSON_PRIVATE_KEY_PREFIX = lit ''$serde_json::private::''"

definition MAX_JSON_DEPTH :: nat where "MAX_JSON_DEPTH = 128"

lemma try_for_each_cong [fundef_cong]:
  "xs = ys \<Longrightarrow> (\<And>x. x \<in> set ys \<Longrightarrow> f x = g x) \<Longrightarrow> try_for_each f xs = try_for_each g ys"
  by (induction ys arbitrary: xs) auto

fun validate_canonical_json_value_at_depth :: "ustr \<Rightarrow> json \<Rightarrow> nat \<Rightarrow> unit result" where
  "validate_canonical_json_value_at_depth field v depth =
     (if depth > MAX_JSON_DEPTH then Inl (invalid_input (field @ lit '' is nested too deeply''))
      else case v of
        JArray items \<Rightarrow>
          try_for_each
            (\<lambda>item. validate_canonical_json_value_at_depth field item (depth + 1)) items
      | JObject entries \<Rightarrow>
          try_for_each
            (\<lambda>(key, w).
               if starts_with SERDE_JSON_PRIVATE_KEY_PREFIX key
               then Inl (invalid_input (field @ lit '' contains a reserved JSON object key''))
               else validate_canonical_json_value_at_depth field w (depth + 1)) entries
      | _ \<Rightarrow> Inr ())"

declare validate_canonical_json_value_at_depth.simps [simp del]

definition validate_canonical_json_value :: "ustr \<Rightarrow> json \<Rightarrow> unit result" where
  "validate_canonical_json_value field v = validate_canonical_json_value_at_depth field v 0"

section \<open>Text fields\<close>

definition validate_text_field :: "ustr \<Rightarrow> ustr \<Rightarrow> unit result" where
  "validate_text_field field v =
     (if trim v = [] then Inl (invalid_input (field @ lit '' must not be empty''))
      else if list_ex is_control v
        then Inl (invalid_input (field @ lit '' must not contain control characters''))
      else Inr ())"

definition validate_bounded_text_field :: "ustr \<Rightarrow> ustr \<Rightarrow> nat \<Rightarrow> unit result" where
  "validate_bounded_text_field field v max_chars =
     bindR (validate_text_field field v) (\<lambda>_.
       if length v > max_chars
       then Inl (invalid_input (field @ lit '' exceeds maximum allowed length: '' @ show_nat max_chars))
       else Inr ())"

definition validate_config_name :: "ustr \<Rightarrow> ustr \<Rightarrow> unit result" where
  "validate_config_name field v =
     bindR (validate_text_field field v) (\<lambda>_.
       if length v > CONFIG_NAME_MAX_CHARS
       then Inl (invalid_input
              (field @ lit '' exceeds maximum allowed length: '' @ show_nat CONFIG_NAME_MAX_CHARS))
       else Inr ())"

text \<open>59 is the semicolon and 61 the equals sign.\<close>

definition reject_aad_delimiters :: "ustr \<Rightarrow> ustr \<Rightarrow> unit result" where
  "reject_aad_delimiters field v =
     (if 59 \<in> set v \<or> 61 \<in> set v
      then Inl (invalid_input (field @ lit '' must not contain '' @ sq '';'' @ lit '' or '' @ sq ''=''))
      else Inr ())"

definition validate_aad_value :: "ustr \<Rightarrow> ustr \<Rightarrow> unit result" where
  "validate_aad_value field v =
     bindR (validate_text_field field v) (\<lambda>_. reject_aad_delimiters field v)"

definition is_aad_key_char :: "uchar \<Rightarrow> bool" where
  "is_aad_key_char c \<longleftrightarrow> is_ascii_alphanumeric c \<or> c = 95 \<or> c = 46 \<or> c = 45"

definition validate_aad_key :: "ustr \<Rightarrow> ustr \<Rightarrow> unit result" where
  "validate_aad_key field key =
     bindR (validate_text_field field key) (\<lambda>_.
       if list_all is_aad_key_char key then Inr ()
       else Inl (invalid_input (field @ lit '' contains invalid characters'')))"

definition validate_aad_config_name :: "ustr \<Rightarrow> ustr \<Rightarrow> unit result" where
  "validate_aad_config_name field v =
     bindR (validate_config_name field v) (\<lambda>_. reject_aad_delimiters field v)"

definition validate_ref :: "ustr \<Rightarrow> ustr result" where
  "validate_ref v =
     bindR (validate_bounded_text_field (lit ''ref'') v INTERNAL_REF_MAX_CHARS) (\<lambda>_. Inr v)"

definition validate_allowed_value :: "ustr \<Rightarrow> ustr \<Rightarrow> ustr list \<Rightarrow> unit result" where
  "validate_allowed_value field v allowed_values =
     bindR (validate_text_field field v) (\<lambda>_.
       if v \<in> set allowed_values then Inr ()
       else Inl (invalid_input (field @ lit '' must be one of '' @ join (lit '', '') allowed_values)))"

section \<open>Additional authenticated data\<close>

definition build_aad :: "(ustr \<times> ustr) list \<Rightarrow> ustr" where
  "build_aad fs = join (lit '';'') (map (\<lambda>(key, v). key @ lit ''='' @ v) fs)"

definition build_validated_aad :: "(ustr \<times> ustr) list \<Rightarrow> ustr result" where
  "build_validated_aad fs =
     bindR (try_for_each
       (\<lambda>(key, v). bindR (validate_aad_key (lit ''aad key'') key)
          (\<lambda>_. validate_aad_value (lit ''aad.'' @ key) v)) fs)
     (\<lambda>_. Inr (build_aad fs))"

definition parse_aad_part :: "ustr \<Rightarrow> (ustr \<times> ustr) result" where
  "parse_aad_part part =
     (case split_on 61 part of
        [key, v] \<Rightarrow>
          bindR (validate_aad_key (lit ''aad key'') key) (\<lambda>_.
          bindR (validate_aad_value (lit ''aad value'') v) (\<lambda>_. Inr (key, v)))
      | _ \<Rightarrow> Inl (invalid_input (lit ''aad must contain key=value fields'')))"

definition parse_aad_fields :: "ustr \<Rightarrow> (ustr \<times> ustr) list result" where
  "parse_aad_fields aad =
     bindR (validate_text_field (lit ''aad'') aad) (\<lambda>_. try_map parse_aad_part (split_on 59 aad))"

definition aad_field :: "(ustr \<times> ustr) list \<Rightarrow> ustr \<Rightarrow> ustr result" where
  "aad_field fs key =
     ok_or (invalid_input (lit ''aad missing '' @ key))
       (map_option snd (find (\<lambda>(k, _). k = key) fs))"

section \<open>Labels\<close>

fun validate_label_loop :: "ustr \<Rightarrow> ustr set \<Rightarrow> ustr list \<Rightarrow> unit result" where
  "validate_label_loop field seen [] = Inr ()"
| "validate_label_loop field seen (label # labels) =
     (case split_once 61 label of
        None \<Rightarrow> Inl (invalid_input (field @ lit '' labels must use key=value format''))
      | Some (key, label_value) \<Rightarrow>
          if key = [] then Inl (invalid_input (field @ lit '' label key must not be empty''))
          else if label_value = []
            then Inl (invalid_input (field @ lit '' label value must not be empty''))
          else if 61 \<in> set label_value
            then Inl (invalid_input (field @ lit '' label value must not contain '' @ sq ''=''))
          else if \<not> list_all is_aad_key_char key
            then Inl (invalid_input (field @ lit '' label key contains invalid characters''))
          else if key \<in> seen
            then Inl (invalid_input (field @ lit '' label keys must be unique''))
          else validate_label_loop field (insert key seen) labels)"

definition validate_labels :: "ustr \<Rightarrow> ustr \<Rightarrow> nat \<Rightarrow> unit result" where
  "validate_labels field v max_chars =
     bindR (validate_text_field field v) (\<lambda>_.
       if length v > max_chars
       then Inl (invalid_input (field @ lit '' exceeds maximum allowed length: '' @ show_nat max_chars))
       else validate_label_loop field {} (split_on 59 v))"

section \<open>Hexadecimal fields and keys\<close>

definition validate_hex_field :: "ustr \<Rightarrow> ustr \<Rightarrow> unit result" where
  "validate_hex_field field v =
     (if v = [] then Inl (invalid_input (field @ lit '' must not be empty''))
      else if \<not> 2 dvd str_len v
        then Inl (invalid_input (field @ lit '' must have an even number of hex characters''))
      else if \<not> list_all (\<lambda>b. is_ascii_hexdigit (unat b)) (utf8 v)
        then Inl (invalid_input (field @ lit '' must contain only hexadecimal characters''))
      else Inr ())"

definition validate_hash_hex_field :: "ustr \<Rightarrow> ustr \<Rightarrow> ustr \<Rightarrow> unit result" where
  "validate_hash_hex_field field v hash_algorithm =
     bindR (validate_allowed_value (lit ''hash_algorithm'') hash_algorithm HASH_ALGORITHMS) (\<lambda>_.
     bindR (validate_hex_field field v) (\<lambda>_.
     bindR (ok_or (invalid_input (lit ''hash_algorithm is not supported''))
              (hash_output_size_bytes hash_algorithm)) (\<lambda>sz.
       let expected_hex_len = sz * 2 in
       if str_len v \<noteq> expected_hex_len
       then Inl (invalid_input (field @ lit '' must be '' @ show_nat expected_hex_len @
              lit '' hex characters for '' @ hash_algorithm @ lit '', got '' @ show_nat (str_len v)))
       else Inr ())))"

definition validate_symmetric_key :: "ustr \<Rightarrow> ustr \<Rightarrow> nat \<Rightarrow> unit result" where
  "validate_symmetric_key field key_hex sz =
     bindR (validate_hex_field field key_hex) (\<lambda>_.
       let expected_hex_len = sz * 2 in
       if str_len key_hex \<noteq> expected_hex_len
       then Inl (invalid_input (field @ lit '' must be '' @ show_nat expected_hex_len @
              lit '' hex characters for a '' @ show_nat sz @ lit ''-byte symmetric key, got '' @
              show_nat (str_len key_hex)))
       else Inr ())"

definition validate_encrypted_payload ::
    "ustr \<Rightarrow> ustr \<Rightarrow> ustr \<Rightarrow> ustr \<Rightarrow> ustr \<Rightarrow> ustr \<Rightarrow> nat \<Rightarrow> unit result" where
  "validate_encrypted_payload ciphertext_field ciphertext_hex nonce_field nonce_hex aad_name aad sz =
     bindR (validate_hex_field ciphertext_field ciphertext_hex) (\<lambda>_.
       if str_len ciphertext_hex < 32
       then Inl (invalid_input
              (ciphertext_field @ lit '' must include at least a 16-byte authentication tag''))
       else bindR (validate_hex_field nonce_field nonce_hex) (\<lambda>_.
         let expected_nonce_hex_len = sz * 2 in
         if str_len nonce_hex \<noteq> expected_nonce_hex_len
         then Inl (invalid_input (nonce_field @ lit '' must be '' @ show_nat expected_nonce_hex_len @
                lit '' hex characters for a '' @ show_nat sz @ lit ''-byte nonce, got '' @
                show_nat (str_len nonce_hex)))
         else if trim aad = [] then Inl (invalid_input (aad_name @ lit '' must not be empty''))
         else Inr ()))"

definition validate_key_id :: "ustr \<Rightarrow> unit result" where
  "validate_key_id kid = validate_hash_hex_field (lit ''id'') kid INTERNAL_KEYS_HASH"

section \<open>Base64 envelopes\<close>

text \<open>46 is the full stop that separates the segments.\<close>

definition split_base64_standard_envelope_segments ::
    "ustr \<Rightarrow> ustr \<Rightarrow> nat \<Rightarrow> (ustr \<times> ustr \<times> ustr) result" where
  "split_base64_standard_envelope_segments field v max_chars =
     (if v = [] then Inl (invalid_input (field @ lit '' must not be empty''))
      else if str_len v > max_chars
        then Inl (invalid_input (field @ lit '' exceeds maximum allowed length: '' @ show_nat max_chars))
      else if \<not> list_all is_ascii v \<or> list_ex (\<lambda>c. is_ascii_whitespace c \<or> is_ascii_control c) v
        then Inl (invalid_input (field @ lit '' contains invalid base64''))
      else case split_on 46 v of
        [ciphertext, nonce, aad] \<Rightarrow>
          if ciphertext = [] \<or> nonce = [] \<or> aad = []
          then Inl (invalid_input (field @ lit '' must have ciphertext.nonce.aad base64 sections''))
          else Inr (ciphertext, nonce, aad)
      | _ \<Rightarrow> Inl (invalid_input (field @ lit '' must have ciphertext.nonce.aad base64 sections'')))"

definition b64_segment :: "(ustr \<Rightarrow> u8 list option) \<Rightarrow> ustr \<Rightarrow> ustr \<Rightarrow> u8 list result" where
  "b64_segment b64_decode field part =
     ok_or (invalid_input (field @ lit '' contains invalid base64'')) (b64_decode part)"

definition validate_base64_standard_envelope_segments ::
    "(ustr \<Rightarrow> u8 list option) \<Rightarrow> ustr \<Rightarrow> ustr \<Rightarrow> nat \<Rightarrow> (ustr \<times> ustr \<times> ustr) result" where
  "validate_base64_standard_envelope_segments b64_decode field v max_chars =
     bindR (split_base64_standard_envelope_segments field v max_chars) (\<lambda>(ciphertext, nonce, aad).
     bindR (try_for_each (\<lambda>part. bindR (b64_segment b64_decode field part) (\<lambda>_. Inr ()))
              [ciphertext, nonce, aad]) (\<lambda>_.
       Inr (ciphertext, nonce, aad)))"

section \<open>When the checks succeed\<close>

lemma validate_text_field_ok [result_simps]:
  "validate_text_field f v = Inr () \<longleftrightarrow> \<not> blank v \<and> (\<forall>c \<in> set v. \<not> is_control c)"
  by (auto simp: validate_text_field_def list_ex_iff)

lemma validate_bounded_text_field_ok [result_simps]:
  "validate_bounded_text_field f v n = Inr () \<longleftrightarrow> validate_text_field f v = Inr () \<and> length v \<le> n"
  by (auto simp: validate_bounded_text_field_def bindR_eq_Inr)

lemma validate_config_name_ok [result_simps]:
  "validate_config_name f v = Inr () \<longleftrightarrow>
     validate_text_field f v = Inr () \<and> length v \<le> CONFIG_NAME_MAX_CHARS"
  by (auto simp: validate_config_name_def bindR_eq_Inr)

lemma reject_aad_delimiters_ok [result_simps]:
  "reject_aad_delimiters f v = Inr () \<longleftrightarrow> 59 \<notin> set v \<and> 61 \<notin> set v"
  by (simp add: reject_aad_delimiters_def)

lemma validate_aad_value_ok [result_simps]:
  "validate_aad_value f v = Inr () \<longleftrightarrow>
     \<not> blank v \<and> (\<forall>c \<in> set v. \<not> is_control c) \<and> 59 \<notin> set v \<and> 61 \<notin> set v"
  by (auto simp: validate_aad_value_def result_simps)

lemma validate_aad_config_name_ok [result_simps]:
  "validate_aad_config_name f v = Inr () \<longleftrightarrow>
     \<not> blank v \<and> (\<forall>c \<in> set v. \<not> is_control c) \<and> length v \<le> CONFIG_NAME_MAX_CHARS \<and>
     59 \<notin> set v \<and> 61 \<notin> set v"
  by (auto simp: validate_aad_config_name_def result_simps)

lemma aad_key_char: "is_aad_key_char c \<Longrightarrow> c \<noteq> 59 \<and> c \<noteq> 61 \<and> \<not> is_control c \<and> \<not> is_whitespace c"
  by (auto simp: is_aad_key_char_def char_simps)

lemma validate_aad_key_ok [result_simps]:
  "validate_aad_key f k = Inr () \<longleftrightarrow> k \<noteq> [] \<and> list_all is_aad_key_char k"
proof -
  have "\<not> blank k \<and> (\<forall>c \<in> set k. \<not> is_control c)" if "k \<noteq> []" "list_all is_aad_key_char k"
    using that by (cases k) (auto simp: list_all_iff dest: aad_key_char)
  then show ?thesis by (auto simp: validate_aad_key_def result_simps)
qed

lemma validate_allowed_value_ok [result_simps]:
  "validate_allowed_value f v as = Inr () \<longleftrightarrow> validate_text_field f v = Inr () \<and> v \<in> set as"
  by (auto simp: validate_allowed_value_def bindR_eq_Inr)

lemma utf8_hex_iff:
  "list_all (\<lambda>b. is_ascii_hexdigit (unat b)) (utf8 v) \<longleftrightarrow> list_all is_ascii_hexdigit v"
  by (rule utf8_class_iff) (auto simp: char_simps)

lemma hex_ascii: "list_all is_ascii_hexdigit v \<Longrightarrow> list_all is_ascii v"
  by (auto simp: list_all_iff char_simps)

lemma validate_hex_field_ok [result_simps]:
  "validate_hex_field f v = Inr () \<longleftrightarrow> v \<noteq> [] \<and> even (length v) \<and> list_all is_ascii_hexdigit v"
  by (auto simp: validate_hex_field_def utf8_hex_iff str_len_ascii [OF hex_ascii])

lemma validate_symmetric_key_ok [result_simps]:
  "0 < n \<Longrightarrow> validate_symmetric_key f v n = Inr () \<longleftrightarrow> length v = 2 * n \<and> list_all is_ascii_hexdigit v"
  by (auto simp: validate_symmetric_key_def result_simps Let_def str_len_ascii [OF hex_ascii])

lemma hash_alg_text: "validate_text_field f INTERNAL_KEYS_HASH = Inr ()"
  by (simp add: validate_text_field_ok INTERNAL_KEYS_HASH_def lit_def char_simps)

lemma validate_hash_hex_field_ok [result_simps]:
  "validate_hash_hex_field f v INTERNAL_KEYS_HASH = Inr () \<longleftrightarrow>
     length v = 64 \<and> list_all is_ascii_hexdigit v"
proof -
  have "INTERNAL_KEYS_HASH \<in> set HASH_ALGORITHMS"
    by (simp add: HASH_ALGORITHMS_def INTERNAL_KEYS_HASH_def)
  moreover have "hash_output_size_bytes INTERNAL_KEYS_HASH = Some 32"
    by (simp add: hash_output_size_bytes_def INTERNAL_KEYS_HASH_def lit_def)
  ultimately show ?thesis
    by (auto simp: validate_hash_hex_field_def result_simps Let_def hash_alg_text
        str_len_ascii [OF hex_ascii])
qed

lemma validate_key_id_ok [result_simps]:
  "validate_key_id k = Inr () \<longleftrightarrow> length k = 64 \<and> list_all is_ascii_hexdigit k"
  by (simp add: validate_key_id_def validate_hash_hex_field_ok)

lemma hex_not_delimiter:
  "list_all is_ascii_hexdigit k \<Longrightarrow> c \<in> set k \<Longrightarrow> c \<noteq> 59 \<and> c \<noteq> 61 \<and> c \<noteq> 42 \<and> \<not> is_control c"
  by (auto simp: list_all_iff char_simps)

section \<open>Additional authenticated data\<close>

lemma build_validated_aad_ok:
  "build_validated_aad fs = Inr s \<longleftrightarrow>
     s = build_aad fs \<and>
     (\<forall>(k, v) \<in> set fs. k \<noteq> [] \<and> list_all is_aad_key_char k \<and> \<not> blank v \<and>
        (\<forall>c \<in> set v. \<not> is_control c) \<and> 59 \<notin> set v \<and> 61 \<notin> set v)"
proof -
  have u: "(\<exists>x. r = Inr (x :: unit)) \<longleftrightarrow> r = Inr ()" for r :: "unit result" by auto
  show ?thesis
    unfolding build_validated_aad_def bindR_eq_Inr
    by (auto simp: try_for_each_ok result_simps split_beta u)
qed

lemma aad_key_no_delimiter: "list_all is_aad_key_char k \<Longrightarrow> 59 \<notin> set k \<and> 61 \<notin> set k"
  by (auto simp: list_all_iff dest: aad_key_char)

lemma parse_aad_part_built:
  assumes "k \<noteq> []" "list_all is_aad_key_char k" "\<not> blank v" "\<forall>c \<in> set v. \<not> is_control c"
    "59 \<notin> set v" "61 \<notin> set v"
  shows "parse_aad_part (k @ 61 # v) = Inr (k, v)"
proof -
  have "split_on 61 (k @ 61 # v) = [k, v]"
    using assms(2,6) by (simp add: split_on_append split_on_absent aad_key_no_delimiter)
  moreover have "validate_aad_key f k = Inr ()" "validate_aad_value f v = Inr ()" for f
    using assms by (simp_all add: result_simps)
  ultimately show ?thesis by (simp add: parse_aad_part_def)
qed

lemma build_aad_text:
  assumes "fs \<noteq> []" "build_validated_aad fs = Inr s"
  shows "\<not> blank s \<and> (\<forall>c \<in> set s. \<not> is_control c)"
proof -
  have set_join: "set (join sep ps) \<subseteq> set sep \<union> \<Union> (set (map set ps))" for sep and ps :: "ustr list"
    by (induction sep ps rule: join.induct) auto
  from assms(2) have s: "s = build_aad fs"
    and ok: "\<And>k v. (k, v) \<in> set fs \<Longrightarrow> k \<noteq> [] \<and> list_all is_aad_key_char k \<and> (\<forall>c \<in> set v. \<not> is_control c)"
    by (auto simp: build_validated_aad_ok)
  have "\<not> is_control c" if "c \<in> set s" for c
  proof -
    from that set_join [of "lit '';''" "map (\<lambda>(k, v). k @ lit ''='' @ v) fs"]
    consider "c = 59" | k v where "(k, v) \<in> set fs" "c \<in> set k \<or> c = 61 \<or> c \<in> set v"
      unfolding s build_aad_def by (auto simp: lit_def)
    then show ?thesis
    proof cases
      case 2
      moreover have "\<not> is_control 61" by (simp add: is_control_def)
      ultimately show ?thesis using ok [OF 2(1)] by (auto simp: list_all_iff dest: aad_key_char)
    qed (simp add: is_control_def)
  qed
  moreover obtain k v rest where fs: "fs = (k, v) # rest" using assms(1) by (cases fs) auto
  then obtain c k' where k: "k = c # k'" using ok [of k v] by (cases k) auto
  then have "\<not> is_whitespace c" using ok [of k v] fs by (auto dest: aad_key_char)
  moreover have "s = c # k' @ 61 # v \<or> (\<exists>t. s = c # k' @ 61 # v @ t)"
    unfolding s build_aad_def fs k by (cases rest) (auto simp: lit_def)
  ultimately show ?thesis by auto
qed

lemma aad_roundtrip_aux:
  assumes "build_validated_aad fs = Inr s" and "fs \<noteq> []"
  shows "parse_aad_fields s = Inr fs"
proof -
  let ?part = "\<lambda>(k, v). k @ lit ''='' @ v"
  from assms(1) have s: "s = build_aad fs"
    and ok: "\<forall>(k, v) \<in> set fs. k \<noteq> [] \<and> list_all is_aad_key_char k \<and> \<not> blank v \<and>
        (\<forall>c \<in> set v. \<not> is_control c) \<and> 59 \<notin> set v \<and> 61 \<notin> set v"
    by (auto simp: build_validated_aad_ok)
  have "\<forall>p \<in> set (map ?part fs). 59 \<notin> set p"
    using ok by (auto simp: lit_def dest: aad_key_no_delimiter)
  then have "split_on 59 s = map ?part fs"
    using assms(2) split_on_join [of "map ?part fs" 59] by (simp add: s build_aad_def lit_def)
  moreover have "try_map parse_aad_part (map ?part fs) = Inr fs"
    using ok by (intro try_map_inverse) (auto simp: lit_def intro!: parse_aad_part_built)
  moreover have "validate_text_field f s = Inr ()" for f
    using build_aad_text [OF assms(2,1)] by (simp add: validate_text_field_ok)
  ultimately show ?thesis by (simp add: parse_aad_fields_def)
qed

text \<open>What \<open>build_validated_aad\<close> encodes, \<open>parse_aad_fields\<close> reads back unchanged.\<close>

theorem aad_roundtrip:
  assumes "build_validated_aad fs = Inr s" and "fs \<noteq> []"
  shows "parse_aad_fields s = Inr fs"
  using assms by (rule aad_roundtrip_aux)

theorem aad_roundtrip_witness:
  "parse_aad_fields (lit ''kid=ab;profile=pan v1'') =
     Inr [(lit ''kid'', lit ''ab''), (lit ''profile'', lit ''pan v1'')]"
  by (rule aad_roundtrip)
    (simp_all add: build_validated_aad_ok build_aad_def lit_def is_aad_key_char_def char_simps)

lemma build_validated_aad_inj:
  assumes "build_validated_aad fs = Inr s" and "build_validated_aad gs = Inr s"
  shows "fs = gs"
proof -
  have ne: "s \<noteq> []" if "build_validated_aad hs = Inr s" "hs \<noteq> []" for hs
    using build_aad_text [OF that(2,1)] by auto
  have nil: "s = []" if "build_validated_aad [] = Inr s"
    using that by (simp add: build_validated_aad_ok build_aad_def)
  show ?thesis
  proof (cases "fs = []")
    case True
    then show ?thesis using nil ne assms by metis
  next
    case False
    then have "gs \<noteq> []" using nil ne assms by metis
    with False show ?thesis using aad_roundtrip_aux assms by (metis Inr_inject)
  qed
qed

text \<open>Two different field lists never produce the same AAD, so the contexts that key
  derivation, token storage and seed wrapping bind into their AAD are separated.\<close>

theorem aad_injective:
  assumes "build_validated_aad fs = Inr s" and "build_validated_aad gs = Inr s"
  shows "fs = gs"
  using assms by (rule build_validated_aad_inj)

theorem aad_injective_witness:
  "build_validated_aad [(lit ''a'', lit ''b'')] = Inr (lit ''a=b'') \<and>
   [(lit ''a'', lit ''b'')] = [(lit ''a'', lit ''b'')]"
proof -
  have "build_validated_aad [(lit ''a'', lit ''b'')] = Inr (lit ''a=b'')"
    by (simp add: build_validated_aad_ok build_aad_def lit_def is_aad_key_char_def char_simps)
  with aad_injective [OF this this] show ?thesis by simp
qed

section \<open>JSON values\<close>

text \<open>The specification of an acceptable value: its nesting depth, and no reserved key.\<close>

fun json_depth :: "json \<Rightarrow> nat" where
  "json_depth (JArray vs) = (if vs = [] then 0 else Suc (Max (json_depth ` set vs)))"
| "json_depth (JObject es) = (if es = [] then 0 else Suc (Max ((\<lambda>e. json_depth (snd e)) ` set es)))"
| "json_depth _ = 0"

fun json_keys :: "json \<Rightarrow> ustr set" where
  "json_keys (JArray vs) = (\<Union>v \<in> set vs. json_keys v)"
| "json_keys (JObject es) = fst ` set es \<union> (\<Union>e \<in> set es. json_keys (snd e))"
| "json_keys _ = {}"

lemma add_Max_le:
  fixes g :: "'a \<Rightarrow> nat"
  assumes "finite A" "A \<noteq> {}"
  shows "Suc (d + Max (g ` A)) \<le> m \<longleftrightarrow> (\<forall>a \<in> A. Suc (d + g a) \<le> m)"
proof -
  have "Max (g ` A) \<in> g ` A" using assms by (intro Max_in) auto
  moreover have "g a \<le> Max (g ` A)" if "a \<in> A" for a using assms that by simp
  ultimately show ?thesis by fastforce
qed

lemma canonical_json_at_depth_ok:
  "validate_canonical_json_value_at_depth f v d = Inr () \<longleftrightarrow>
     d + json_depth v \<le> MAX_JSON_DEPTH \<and>
     (\<forall>k \<in> json_keys v. \<not> starts_with SERDE_JSON_PRIVATE_KEY_PREFIX k)"
proof (induction f v d rule: validate_canonical_json_value_at_depth.induct)
  case (1 f v d)
  show ?case
  proof (cases "d > MAX_JSON_DEPTH")
    case False
    show ?thesis
    proof (cases v)
      case (JArray vs)
      then have "validate_canonical_json_value_at_depth f v d = Inr () \<longleftrightarrow>
          (\<forall>w \<in> set vs. d + 1 + json_depth w \<le> MAX_JSON_DEPTH \<and>
             (\<forall>k \<in> json_keys w. \<not> starts_with SERDE_JSON_PRIVATE_KEY_PREFIX k))"
        using False "1.IH"(1) [OF _ JArray]
        by (simp add: validate_canonical_json_value_at_depth.simps [of f "JArray vs" d] try_for_each_ok)
      then show ?thesis using False JArray by (cases "vs = []") (auto simp: add_Max_le)
    next
      case (JObject es)
      then have "validate_canonical_json_value_at_depth f v d = Inr () \<longleftrightarrow>
          (\<forall>e \<in> set es. \<not> starts_with SERDE_JSON_PRIVATE_KEY_PREFIX (fst e) \<and>
             d + 1 + json_depth (snd e) \<le> MAX_JSON_DEPTH \<and>
             (\<forall>k \<in> json_keys (snd e). \<not> starts_with SERDE_JSON_PRIVATE_KEY_PREFIX k))"
        using False "1.IH"(2) [OF _ JObject _ surjective_pairing [symmetric]]
        by (auto simp: validate_canonical_json_value_at_depth.simps [of f "JObject es" d]
            try_for_each_ok split_beta)
      then show ?thesis using False JObject by (cases "es = []") (auto simp: add_Max_le)
    qed (use False in \<open>simp_all add: validate_canonical_json_value_at_depth.simps\<close>)
  qed (simp add: validate_canonical_json_value_at_depth.simps)
qed

text \<open>A JSON value is accepted for canonical encoding exactly when it nests at most 128
  levels deep and no object key in it, at any level, is in the serializer's private
  namespace.\<close>

theorem canonical_json_value_accepted_iff:
  "validate_canonical_json_value f v = Inr () \<longleftrightarrow>
     json_depth v \<le> 128 \<and> \<not> (\<exists>k. k \<in> json_keys v \<and> starts_with (lit ''$serde_json::private::'') k)"
  by (auto simp add: validate_canonical_json_value_def canonical_json_at_depth_ok MAX_JSON_DEPTH_def
      SERDE_JSON_PRIVATE_KEY_PREFIX_def)

end
