(* ===== verification/Profiles.thy ===== *)
theory Profiles
  imports Validation
begin

text \<open>
  The part every family of profiles shares (masking, sharing, FPE, tokenization, MAC,
  commitments): a loop that validates the entries of a signed configuration section one by one
  and rejects a repeated name, and a state that keeps the profiles in order with an index from
  names to positions.

  The locale \<open>profile_registry\<close> is the interface of such a state, \<open>profile_loader\<close> that of
  the loop that fills it; each component interprets both on its own definitions.
\<close>

section \<open>Name index\<close>

text \<open>\<open>profiles.iter().enumerate().map(|(i, p)| (p.name.clone(), i)).collect()\<close> into a
  \<open>HashMap\<close>: a later entry replaces an earlier one of the same name.\<close>

definition index_by_name :: "('p \<Rightarrow> ustr) \<Rightarrow> 'p list \<Rightarrow> (ustr \<rightharpoonup> nat)" where
  "index_by_name name_of ps =
     fold (\<lambda>(i, p) m. m(name_of p \<mapsto> i)) (enumerate 0 ps) Map.empty"

definition list_get :: "'a list \<Rightarrow> nat \<Rightarrow> 'a option" where
  "list_get xs i = (if i < length xs then Some (xs ! i) else None)"

lemma index_by_name_snoc:
  "index_by_name nm (ps @ [p]) = (index_by_name nm ps)(nm p \<mapsto> length ps)"
  by (simp add: index_by_name_def enumerate_append_eq)

lemma index_by_name_Some:
  "index_by_name nm ps n = Some i \<Longrightarrow> i < length ps \<and> nm (ps ! i) = n"
proof (induction ps rule: rev_induct)
  case (snoc p ps)
  then show ?case by (auto simp: index_by_name_snoc nth_append split: if_splits)
qed (simp add: index_by_name_def)

lemma index_by_name_None: "index_by_name nm ps n = None \<longleftrightarrow> n \<notin> nm ` set ps"
proof (induction ps rule: rev_induct)
  case (snoc p ps)
  then show ?case by (auto simp: index_by_name_snoc)
qed (simp add: index_by_name_def)

section \<open>Interfaces\<close>

locale profile_registry =
  fixes name_of :: "'p \<Rightarrow> ustr"
    and mk :: "'p list \<Rightarrow> 's"
    and get :: "'s \<Rightarrow> ustr \<Rightarrow> 'p option"
  assumes get_mk: "get (mk ps) n = Option.bind (index_by_name name_of ps n) (list_get ps)"
begin

lemma get_sound:
  "get (mk ps) n = Some p \<Longrightarrow> p \<in> set ps \<and> name_of p = n"
  by (auto simp: get_mk list_get_def bind_eq_Some_conv dest!: index_by_name_Some split: if_splits)

lemma get_None: "get (mk ps) n = None \<longleftrightarrow> n \<notin> name_of ` set ps"
proof (cases "index_by_name name_of ps n")
  case None
  then show ?thesis using index_by_name_None [of name_of ps n] by (simp add: get_mk)
next
  case (Some i)
  then have "i < length ps" "name_of (ps ! i) = n" using index_by_name_Some by blast+
  then show ?thesis using Some by (auto simp: get_mk list_get_def)
qed

lemma get_distinct:
  assumes "distinct (map name_of ps)" "p \<in> set ps"
  shows "get (mk ps) (name_of p) = Some p"
proof -
  from assms(2) have "get (mk ps) (name_of p) \<noteq> None" by (simp add: get_None)
  then obtain q where q: "get (mk ps) (name_of p) = Some q" by blast
  then have "q \<in> set ps" "name_of q = name_of p" using get_sound by blast+
  with assms have "q = p" by (auto simp: distinct_map dest: inj_onD)
  with q show ?thesis by simp
qed

end

locale profile_loader = profile_registry name_of mk get
  for name_of :: "'p \<Rightarrow> ustr" and mk :: "'p list \<Rightarrow> 's"
    and get :: "'s \<Rightarrow> ustr \<Rightarrow> 'p option" +
  fixes input_name :: "'i \<Rightarrow> ustr"
    and check :: "'i \<Rightarrow> unit result"
    and dup_error :: "'i \<Rightarrow> dyn_error"
    and build :: "'i \<Rightarrow> 'p result"
    and loop :: "ustr set \<Rightarrow> 'i list \<Rightarrow> 'p list result"
    and load :: "'i list \<Rightarrow> 's result"
  assumes loop_Nil: "loop seen [] = Inr []"
    and loop_Cons: "loop seen (i # is) =
       bindR (check i) (\<lambda>_.
         if input_name i \<in> seen then Inl (dup_error i)
         else bindR (build i) (\<lambda>p.
           bindR (loop (insert (input_name i) seen) is) (\<lambda>ps. Inr (p # ps))))"
    and build_name: "build i = Inr p \<Longrightarrow> name_of p = input_name i"
    and load_eq: "load is = bindR (loop {} is) (\<lambda>ps. Inr (mk ps))"
begin

lemma loop_ok:
  "loop seen is = Inr ps \<longleftrightarrow>
     list_all2 (\<lambda>i p. check i = Inr () \<and> build i = Inr p) is ps \<and>
     distinct (map input_name is) \<and> input_name ` set is \<inter> seen = {}"
proof (induction "is" arbitrary: seen ps)
  case (Cons i "is")
  have "loop seen (i # is) = Inr ps \<longleftrightarrow>
      check i = Inr () \<and> input_name i \<notin> seen \<and>
      (\<exists>p qs. build i = Inr p \<and> loop (insert (input_name i) seen) is = Inr qs \<and> ps = p # qs)"
    by (auto simp: loop_Cons bindR_eq_Inr)
  then show ?case by (auto simp: Cons.IH list_all2_Cons1)
qed (auto simp: loop_Nil)

lemma list_all2_names:
  "list_all2 (\<lambda>i p. check i = Inr () \<and> build i = Inr p) is ps \<Longrightarrow> map name_of ps = map input_name is"
  by (induction rule: list_all2_induct) (auto dest: build_name)

text \<open>A loaded state holds exactly the profiles built from the entries, each under its own
  name.\<close>

lemma load_complete:
  assumes "load is = Inr st" "i \<in> set is"
  shows "\<exists>p. check i = Inr () \<and> build i = Inr p \<and> get st (input_name i) = Some p"
proof -
  from assms(1) obtain ps where ps: "loop {} is = Inr ps" "st = mk ps"
    by (auto simp: load_eq bindR_eq_Inr)
  then have rel: "list_all2 (\<lambda>i p. check i = Inr () \<and> build i = Inr p) is ps"
    and d: "distinct (map input_name is)" by (auto simp: loop_ok)
  from rel assms(2) obtain p where p: "p \<in> set ps" "check i = Inr ()" "build i = Inr p"
    by (blast dest: list_all2_in1)
  moreover have "distinct (map name_of ps)" using d list_all2_names [OF rel] by simp
  ultimately show ?thesis using get_distinct [of ps p] build_name [of i p] ps(2) by auto
qed

lemma load_sound:
  assumes "load is = Inr st" "get st n = Some p"
  shows "\<exists>i \<in> set is. check i = Inr () \<and> build i = Inr p \<and> input_name i = n"
proof -
  from assms(1) obtain ps where ps: "loop {} is = Inr ps" "st = mk ps"
    by (auto simp: load_eq bindR_eq_Inr)
  then have rel: "list_all2 (\<lambda>i p. check i = Inr () \<and> build i = Inr p) is ps"
    by (auto simp: loop_ok)
  from assms(2) ps(2) get_sound have "p \<in> set ps" "name_of p = n" by blast+
  with rel obtain i where "i \<in> set is" "check i = Inr ()" "build i = Inr p"
    by (blast dest: list_all2_in2)
  then show ?thesis using build_name [of i p] \<open>name_of p = n\<close> by auto
qed

end

section \<open>A concrete key id\<close>

definition example_kid :: ustr where "example_kid = replicate 64 97"

lemma example_key_id: "validate_key_id example_kid = Inr ()"
  by (simp add: validate_key_id_ok example_kid_def list_all_iff char_simps)

end
