(* ===== verification/Masking.thy ===== *)
theory Masking
  imports Profiles
begin

text \<open>
  \<open>src/core/masking.rs\<close>: masking profiles, their validation against the loaded keys, and
  \<open>mask\<close>, which shows the first and last characters of a value and replaces the rest. The
  lemmas show that a profile accepted by the loader never makes \<open>mask\<close> underflow, what the
  output is, and that it does not depend on the hidden characters.
\<close>

section \<open>Model\<close>

definition MASKING_PLAINTEXT_MAX_LEN :: nat where "MASKING_PLAINTEXT_MAX_LEN = 1024"

record masking_profile_input =
  mpi_name :: ustr
  mpi_kid :: ustr
  mpi_visible_first :: nat
  mpi_visible_last :: nat
  mpi_mask_char :: ustr
  mpi_min_len :: nat
  mpi_max_len :: nat

record masking_profile =
  mp_name :: ustr
  mp_kid :: ustr
  mp_visible_first :: nat
  mp_visible_last :: nat
  mp_mask_char :: ustr
  mp_min_len :: nat
  mp_max_len :: nat

record masking_profiles_state =
  mps_profiles :: "masking_profile list"
  mps_by_name :: "ustr \<rightharpoonup> nat"

definition masking_from_profiles :: "masking_profile list \<Rightarrow> masking_profiles_state" where
  "masking_from_profiles ps = \<lparr>mps_profiles = ps, mps_by_name = index_by_name mp_name ps\<rparr>"

definition masking_get :: "masking_profiles_state \<Rightarrow> ustr \<Rightarrow> masking_profile option" where
  "masking_get st n = Option.bind (mps_by_name st n) (\<lambda>i. list_get (mps_profiles st) i)"

definition validate_mask_char :: "ustr \<Rightarrow> unit result" where
  "validate_mask_char v =
     bindR (validate_text_field (lit ''masking_profiles.mask_char'') v) (\<lambda>_.
       if length v \<noteq> 1
       then Inl (invalid_input (lit ''masking_profiles.mask_char must be exactly one character''))
       else Inr ())"

definition validate_masking_lengths :: "nat \<Rightarrow> nat \<Rightarrow> nat \<Rightarrow> nat \<Rightarrow> unit result" where
  "validate_masking_lengths visible_first visible_last min_len max_len =
     (if min_len < 1 then Inl (invalid_input (lit ''masking_profiles.min_len must be at least 1''))
      else if max_len > MASKING_PLAINTEXT_MAX_LEN
        then Inl (invalid_input (lit ''masking_profiles.max_len exceeds maximum allowed value''))
      else if max_len < min_len
        then Inl (invalid_input
          (lit ''masking_profiles.max_len must be greater than or equal to min_len''))
      else if visible_first > max_len \<or> visible_last > max_len
        then Inl (invalid_input
          (lit ''masking_profiles.visible_first and visible_last must not exceed max_len''))
      else if visible_first + visible_last \<ge> min_len
        then Inl (invalid_input
          (lit ''masking_profiles.visible_first plus visible_last must be less than min_len''))
      else Inr ())"

definition validate_masking_profile_fields ::
    "ustr \<Rightarrow> ustr \<Rightarrow> nat \<Rightarrow> nat \<Rightarrow> ustr \<Rightarrow> nat \<Rightarrow> nat \<Rightarrow> unit result" where
  "validate_masking_profile_fields name kid visible_first visible_last mask_char min_len max_len =
     bindR (validate_aad_config_name (lit ''masking_profiles.name'') name) (\<lambda>_.
     bindR (map_err (\<lambda>err. invalid_input (lit ''masking_profiles.kid is invalid: '' @ to_string err))
              (validate_key_id kid)) (\<lambda>_.
     bindR (validate_mask_char mask_char) (\<lambda>_.
       validate_masking_lengths visible_first visible_last min_len max_len)))"

definition check_masking_input :: "(ustr \<Rightarrow> bool) \<Rightarrow> masking_profile_input \<Rightarrow> unit result" where
  "check_masking_input is_loaded_kid i =
     bindR (validate_masking_profile_fields (mpi_name i) (mpi_kid i) (mpi_visible_first i)
              (mpi_visible_last i) (mpi_mask_char i) (mpi_min_len i) (mpi_max_len i)) (\<lambda>_.
       if \<not> is_loaded_kid (mpi_kid i)
       then Inl (invalid_input
              (lit ''masking profile references kid not loaded in memory: '' @ mpi_kid i))
       else Inr ())"

definition masking_profile_of :: "masking_profile_input \<Rightarrow> masking_profile" where
  "masking_profile_of i =
     \<lparr>mp_name = mpi_name i, mp_kid = mpi_kid i, mp_visible_first = mpi_visible_first i,
      mp_visible_last = mpi_visible_last i, mp_mask_char = mpi_mask_char i,
      mp_min_len = mpi_min_len i, mp_max_len = mpi_max_len i\<rparr>"

fun validate_masking_loop ::
    "(ustr \<Rightarrow> bool) \<Rightarrow> ustr set \<Rightarrow> masking_profile_input list \<Rightarrow> masking_profile list result" where
  "validate_masking_loop is_loaded_kid seen_names [] = Inr []"
| "validate_masking_loop is_loaded_kid seen_names (i # is) =
     bindR (check_masking_input is_loaded_kid i) (\<lambda>_.
       if mpi_name i \<in> seen_names
       then Inl (invalid_input (lit ''masking profile has duplicated name: '' @ mpi_name i))
       else bindR (validate_masking_loop is_loaded_kid (insert (mpi_name i) seen_names) is)
              (\<lambda>ps. Inr (masking_profile_of i # ps)))"

definition validate_masking_profiles ::
    "(ustr \<Rightarrow> bool) \<Rightarrow> masking_profile_input list \<Rightarrow> masking_profiles_state result" where
  "validate_masking_profiles is_loaded_kid inputs =
     bindR (validate_masking_loop is_loaded_kid {} inputs) (\<lambda>ps. Inr (masking_from_profiles ps))"

definition validate_plaintext_for_profile :: "masking_profile \<Rightarrow> ustr \<Rightarrow> unit result" where
  "validate_plaintext_for_profile profile plaintext =
     bindR (validate_text_field (lit ''plaintext'') plaintext) (\<lambda>_.
       if length plaintext < mp_min_len profile \<or> length plaintext > mp_max_len profile
       then Inl (invalid_input (lit ''plaintext length is outside masking profile bounds''))
       else Inr ())"

definition mask :: "masking_profile \<Rightarrow> ustr \<Rightarrow> ustr result" where
  "mask profile plaintext =
     bindR (validate_plaintext_for_profile profile plaintext) (\<lambda>_.
       let chars = plaintext;
           prefix = take (mp_visible_first profile) chars in
       bindR (usize_sub (length chars) (mp_visible_last profile)) (\<lambda>skipped.
       let suffix = drop skipped chars in
       bindR (usize_sub (length chars) (mp_visible_first profile)) (\<lambda>rest.
       bindR (usize_sub rest (mp_visible_last profile)) (\<lambda>hidden_len.
       let masked = concat (replicate hidden_len (mp_mask_char profile)) in
         Inr (prefix @ masked @ suffix)))))"

section \<open>The profile registry\<close>

interpretation masking: profile_loader mp_name masking_from_profiles masking_get
    mpi_name "check_masking_input loaded"
    "\<lambda>i. invalid_input (lit ''masking profile has duplicated name: '' @ mpi_name i)"
    "\<lambda>i. Inr (masking_profile_of i)"
    "validate_masking_loop loaded" "validate_masking_profiles loaded"
  for loaded
  by unfold_locales
    (auto simp: masking_from_profiles_def masking_get_def masking_profile_of_def
      validate_masking_profiles_def)

section \<open>Well-formed profiles\<close>

definition masking_wf :: "masking_profile \<Rightarrow> bool" where
  "masking_wf p \<longleftrightarrow>
     mp_visible_first p + mp_visible_last p < mp_min_len p \<and> mp_min_len p \<le> mp_max_len p \<and>
     mp_max_len p \<le> 1024 \<and> length (mp_mask_char p) = 1"

lemma check_masking_input_wf:
  "check_masking_input loaded i = Inr () \<Longrightarrow>
     masking_wf (masking_profile_of i) \<and> loaded (mpi_kid i)"
  by (auto simp: check_masking_input_def validate_masking_profile_fields_def validate_mask_char_def
      validate_masking_lengths_def masking_wf_def masking_profile_of_def result_simps
      MASKING_PLAINTEXT_MAX_LEN_def)

lemma masking_get_wf:
  assumes "validate_masking_profiles loaded is = Inr st" "masking_get st n = Some p"
  shows "masking_wf p \<and> loaded (mp_kid p) \<and> mp_name p = n"
proof -
  from masking.load_sound [OF assms] obtain i where
    "check_masking_input loaded i = Inr ()" "p = masking_profile_of i" "mpi_name i = n"
    by auto
  then show ?thesis using check_masking_input_wf [of loaded i]
    by (simp add: masking_profile_of_def)
qed

lemma mask_wf:
  assumes "masking_wf p"
  shows "mask p pt =
    bindR (validate_plaintext_for_profile p pt) (\<lambda>_.
      Inr (take (mp_visible_first p) pt @
           replicate (length pt - mp_visible_first p - mp_visible_last p) (hd (mp_mask_char p)) @
           drop (length pt - mp_visible_last p) pt))"
proof -
  obtain c where c: "mp_mask_char p = [c]" using assms by (auto simp: masking_wf_def length_Suc_conv)
  have r: "concat (replicate n [c]) = replicate n c" for n by (induction n) auto
  show ?thesis
  proof (cases "validate_plaintext_for_profile p pt" rule: unit_result_cases)
    case ok
    then have "mp_min_len p \<le> length pt"
      by (auto simp: validate_plaintext_for_profile_def result_simps)
    then have "mp_visible_first p + mp_visible_last p \<le> length pt"
      using assms by (simp add: masking_wf_def)
    then show ?thesis using ok by (simp add: mask_def Let_def usize_sub_def c r)
  qed (simp add: mask_def)
qed

text \<open>On a profile obtained from a loaded configuration, \<open>mask\<close> either rejects the value
  with an input error or returns it with its length unchanged, its first \<open>visible_first\<close> and last
  \<open>visible_last\<close> characters shown, every other character replaced by the mask character, and
  at least one character replaced. It never panics.\<close>

theorem mask_correct:
  assumes "validate_masking_profiles loaded is = Inr st" and "masking_get st n = Some p"
  shows "(\<exists>e. mask p pt = Inl e \<and> is_invalid_input e) \<or>
    (\<exists>c out. mp_mask_char p = [c] \<and> mask p pt = Inr out \<and> length out = length pt \<and>
       mp_visible_first p + mp_visible_last p < length pt \<and>
       (\<forall>i < length pt. out ! i =
          (if i < mp_visible_first p \<or> length pt - mp_visible_last p \<le> i then pt ! i else c)))"
proof (cases "validate_plaintext_for_profile p pt" rule: unit_result_cases)
  case (err e)
  then have "is_invalid_input e"
    by (auto simp: validate_plaintext_for_profile_def validate_text_field_def bindR_eq_Inl
        split: if_splits)
  with err show ?thesis by (auto simp: mask_def)
next
  case ok
  have wf: "masking_wf p" using masking_get_wf [OF assms] by simp
  then obtain c where c: "mp_mask_char p = [c]" by (auto simp: masking_wf_def length_Suc_conv)
  let ?f = "mp_visible_first p" and ?l = "mp_visible_last p"
  from ok have "mp_min_len p \<le> length pt"
    by (auto simp: validate_plaintext_for_profile_def result_simps)
  with wf have lt: "?f + ?l < length pt" by (simp add: masking_wf_def)
  have "(take ?f pt @ replicate (length pt - ?f - ?l) c @ drop (length pt - ?l) pt) ! i =
      (if i < ?f \<or> length pt - ?l \<le> i then pt ! i else c)" if "i < length pt" for i
    using that lt by (auto simp: nth_append min_def)
  then show ?thesis using mask_wf [OF wf, of pt] ok c lt by (auto simp: min_def)
qed

definition example_masking_input :: masking_profile_input where
  "example_masking_input =
     \<lparr>mpi_name = lit ''pan'', mpi_kid = example_kid, mpi_visible_first = 6, mpi_visible_last = 4,
      mpi_mask_char = lit ''*'', mpi_min_len = 12, mpi_max_len = 19\<rparr>"

lemma example_masking_load:
  "validate_masking_profiles (\<lambda>_. True) [example_masking_input] =
     Inr (masking_from_profiles [masking_profile_of example_masking_input])"
proof -
  have t: "validate_aad_config_name f (lit ''pan'') = Inr ()"
    "validate_text_field f (lit ''*'') = Inr ()" for f
    by (simp_all add: result_simps lit_def char_simps CONFIG_NAME_MAX_CHARS_def)
  show ?thesis
    by (simp add: validate_masking_profiles_def check_masking_input_def
        validate_masking_profile_fields_def example_masking_input_def t example_key_id
        validate_mask_char_def validate_masking_lengths_def MASKING_PLAINTEXT_MAX_LEN_def)
      (simp add: lit_def)
qed

lemma example_masking_get:
  "masking_get (masking_from_profiles [masking_profile_of example_masking_input]) (lit ''pan'') =
     Some (masking_profile_of example_masking_input)"
  by (simp add: masking_get_def masking_from_profiles_def index_by_name_def masking_profile_of_def
      example_masking_input_def list_get_def)

theorem mask_correct_witness:
  "\<exists>out. mask (masking_profile_of example_masking_input) (lit ''4111111111111111'') = Inr out \<and>
     length out = 16 \<and> out ! 5 = 49 \<and> out ! 6 = 42"
proof -
  let ?p = "masking_profile_of example_masking_input"
  have "\<not> (\<exists>e. mask ?p (lit ''4111111111111111'') = Inl e \<and> is_invalid_input e)"
    by (simp add: mask_def validate_plaintext_for_profile_def validate_text_field_def
        masking_profile_of_def example_masking_input_def usize_sub_def lit_def char_simps)
  with mask_correct [OF example_masking_load example_masking_get, of "lit ''4111111111111111''"]
  show ?thesis
    by (auto simp: masking_profile_of_def example_masking_input_def lit_def)
qed

text \<open>The masked form reveals nothing about the hidden characters: two accepted values of
  the same length that agree on the shown prefix and suffix have the same masked form.\<close>

theorem mask_hides_middle:
  assumes "validate_masking_profiles loaded is = Inr st" and "masking_get st n = Some p"
    and "mask p pt = Inr out" and "mask p pt' = Inr out'" and "length pt = length pt'"
    and "take (mp_visible_first p) pt = take (mp_visible_first p) pt'"
    and "drop (length pt - mp_visible_last p) pt = drop (length pt - mp_visible_last p) pt'"
  shows "out = out'"
proof -
  have "masking_wf p" using masking_get_wf [OF assms(1,2)] by simp
  with assms(3-7) show ?thesis by (auto simp: mask_wf bindR_eq_Inr)
qed

theorem mask_hides_middle_witness:
  "mask (masking_profile_of example_masking_input) (lit ''4111112222221111'') =
     mask (masking_profile_of example_masking_input) (lit ''4111113333331111'')"
proof -
  let ?p = "masking_profile_of example_masking_input"
  let ?o = "lit ''411111******1111''"
  have 1: "mask ?p (lit ''4111112222221111'') = Inr ?o" and 2: "mask ?p (lit ''4111113333331111'') = Inr ?o"
    by code_simp+
  have "?o = ?o"
    by (rule mask_hides_middle [OF example_masking_load example_masking_get 1 2])
      (simp_all add: masking_profile_of_def example_masking_input_def lit_def)
  with 1 2 show ?thesis by simp
qed

end
