(* ===== verification/Crates.thy ===== *)
theory Crates
  imports Validation "HOL-Library.Countable"
begin

text \<open>
  The operations of other crates that the modelled code calls, as one record of functions that
  the definitions take as their first argument: base64 and hexadecimal codecs, the JSON
  serializer and parser, and the keyed and unkeyed primitives. Theorems name the documented
  behaviour they need of them as hypotheses (\<open>url_codec_ok\<close> and so on).

  \<open>canonical_json_v1\<close> (\<open>src/core/canonical.rs\<close>) is defined over them: objects are
  built with their keys in order, as the serializer's map keeps them.
\<close>

record crates =
  b64_decode :: "ustr \<Rightarrow> u8 list option"
  b64_encode :: "u8 list \<Rightarrow> ustr"
  url_decode :: "ustr \<Rightarrow> u8 list option"
  url_encode :: "u8 list \<Rightarrow> ustr"
  hex_decode :: "ustr \<Rightarrow> u8 list option"
  hex_encode :: "u8 list \<Rightarrow> ustr"
  json_to_vec :: "json \<Rightarrow> u8 list"
  json_to_vec_pretty :: "json \<Rightarrow> u8 list"
  json_from_slice :: "u8 list \<Rightarrow> json option"
  hash_bytes :: "ustr \<Rightarrow> u8 list \<Rightarrow> u8 list result"
  create_hmac_with_algorithm :: "ustr \<Rightarrow> u8 list \<Rightarrow> u8 list \<Rightarrow> u8 list result"
  create_kmac_with_algorithm :: "ustr \<Rightarrow> u8 list \<Rightarrow> u8 list \<Rightarrow> u8 list \<Rightarrow> u8 list result"
  create_hkdf :: "u8 list \<Rightarrow> u8 list \<Rightarrow> u8 list \<Rightarrow> nat \<Rightarrow> u8 list result"

definition url_codec_ok :: "crates \<Rightarrow> bool" where
  "url_codec_ok C \<longleftrightarrow> (\<forall>bs. url_decode C (url_encode C bs) = Some bs)"

definition hex_codec_ok :: "crates \<Rightarrow> bool" where
  "hex_codec_ok C \<longleftrightarrow> (\<forall>bs. hex_decode C (hex_encode C bs) = Some bs)"

text \<open>What the serializer and parser of JSON are relied on for: flat objects with different keys
  and string, boolean or unsigned 64-bit values read back as they were written.\<close>

fun scalar_json :: "json \<Rightarrow> bool" where
  "scalar_json (JString s) \<longleftrightarrow> True"
| "scalar_json (JBool b) \<longleftrightarrow> True"
| "scalar_json (JNumber n) \<longleftrightarrow> 0 \<le> n \<and> n < 2 ^ 64"
| "scalar_json _ \<longleftrightarrow> False"

fun flat_json :: "json \<Rightarrow> bool" where
  "flat_json (JObject fs) \<longleftrightarrow> distinct (map fst fs) \<and> list_all (\<lambda>(k, v). scalar_json v) fs"
| "flat_json _ \<longleftrightarrow> False"

definition json_codec_ok :: "crates \<Rightarrow> bool" where
  "json_codec_ok C \<longleftrightarrow> (\<forall>v. flat_json v \<longrightarrow> json_from_slice C (json_to_vec C v) = Some v)"

definition hex_format_ok :: "crates \<Rightarrow> bool" where
  "hex_format_ok C \<longleftrightarrow>
     (\<forall>bs. length (hex_encode C bs) = 2 * length bs \<and> list_all is_lower_hexdigit (hex_encode C bs))"

definition hash_size_ok :: "crates \<Rightarrow> bool" where
  "hash_size_ok C \<longleftrightarrow> (\<forall>m h. hash_bytes C INTERNAL_KEYS_HASH m = Inr h \<longrightarrow> length h = 32)"

text \<open>What \<open>serde\<close> reads out of an object for a string field and for a field that must occur once.\<close>

fun as_str :: "json \<Rightarrow> ustr option" where
  "as_str (JString s) = Some s"
| "as_str _ = None"

definition only_field :: "(ustr \<times> json) list \<Rightarrow> ustr \<Rightarrow> json option" where
  "only_field fs k = (case filter (\<lambda>(k', _). k' = k) fs of [(_, v)] \<Rightarrow> Some v | _ \<Rightarrow> None)"

fun as_u8 :: "json \<Rightarrow> u8 option" where
  "as_u8 (JNumber n) = (if 0 \<le> n \<and> n < 256 then Some (word_of_int n) else None)"
| "as_u8 _ = None"

text \<open>The values of the fields of a struct that ignores unknown fields: from an object that has every
  field once, or from an array of that many values.\<close>

fun struct_values :: "ustr list \<Rightarrow> json \<Rightarrow> json list option" where
  "struct_values ks (JObject fs) = those (map (only_field fs) ks)"
| "struct_values ks (JArray vs) = (if length vs = length ks then Some vs else None)"
| "struct_values ks _ = None"

definition canonical_json_v1 :: "crates \<Rightarrow> json \<Rightarrow> u8 list result" where
  "canonical_json_v1 C v =
     bindR (validate_canonical_json_value (lit ''canonical JSON'') v) (\<lambda>_. Inr (json_to_vec C v))"

text \<open>\<open>hex::decode(..)?\<close> turns the codec's error into a boxed error.\<close>

definition hex_decode_q :: "crates \<Rightarrow> ustr \<Rightarrow> u8 list result" where
  "hex_decode_q C v = ok_or (Foreign (lit ''hex'')) (hex_decode C v)"

text \<open>\<open>create_hmac\<close> of \<open>src/core/crypto.rs\<close>: the keyed hash of internal identifiers.\<close>

definition INTERNAL_KEYS_HMAC :: ustr where "INTERNAL_KEYS_HMAC = lit ''HMAC(BLAKE2b(256))''"

definition create_hmac :: "crates \<Rightarrow> u8 list \<Rightarrow> u8 list \<Rightarrow> u8 list result" where
  "create_hmac C key message = create_hmac_with_algorithm C INTERNAL_KEYS_HMAC key message"

lemma url_codec: "url_codec_ok C \<Longrightarrow> url_decode C (url_encode C bs) = Some bs"
  by (simp add: url_codec_ok_def)

lemma hex_codec: "hex_codec_ok C \<Longrightarrow> hex_decode C (hex_encode C bs) = Some bs"
  by (simp add: hex_codec_ok_def)

lemma canonical_json_ok:
  "canonical_json_v1 C v = Inr bs \<Longrightarrow> bs = json_to_vec C v"
  by (auto simp: canonical_json_v1_def bindR_eq_Inr)

lemma canonical_flat:
  assumes "list_all (\<lambda>(k, v). scalar_json v \<and> \<not> starts_with SERDE_JSON_PRIVATE_KEY_PREFIX k) fs"
  shows "canonical_json_v1 C (JObject fs) = Inr (json_to_vec C (JObject fs))"
proof -
  have "validate_canonical_json_value_at_depth f v 1 = Inr ()" if "scalar_json v" for f v
    using that by (cases v) (simp_all add: validate_canonical_json_value_at_depth.simps MAX_JSON_DEPTH_def)
  with assms show ?thesis
    by (auto simp: canonical_json_v1_def validate_canonical_json_value_def MAX_JSON_DEPTH_def bindR_eq_Inr
        validate_canonical_json_value_at_depth.simps [of _ "JObject fs"] try_for_each_ok list_all_iff)
qed

lemma json_codec: "json_codec_ok C \<Longrightarrow> flat_json v \<Longrightarrow> json_from_slice C (json_to_vec C v) = Some v"
  by (simp add: json_codec_ok_def)

section \<open>A concrete instance\<close>

text \<open>Codecs that keep the bytes as they are, an injective encoding of JSON that is short on
  \<open>v\<close>, and constant keyed functions: enough to apply the theorems at concrete inputs.\<close>

instance json :: countable
  by countable_datatype

definition hex_digit :: "nat \<Rightarrow> uchar" where
  "hex_digit n = (if n < 10 then 48 + n else 87 + n)"

definition unhex_digit :: "uchar \<Rightarrow> nat" where
  "unhex_digit c = (if c < 58 then c - 48 else c - 87)"

definition hex_byte :: "u8 \<Rightarrow> ustr" where
  "hex_byte b = [hex_digit (unat b div 16), hex_digit (unat b mod 16)]"

fun unhex :: "ustr \<Rightarrow> u8 list" where
  "unhex (h # l # s) = word_of_nat (16 * unhex_digit h + unhex_digit l) # unhex s"
| "unhex _ = []"

definition example_crates :: "json \<Rightarrow> crates" where
  "example_crates v =
     \<lparr>b64_decode = (\<lambda>s. Some (map word_of_nat s)), b64_encode = map unat,
      url_decode = (\<lambda>s. Some (map word_of_nat s)), url_encode = map unat,
      hex_decode = (\<lambda>s. Some (unhex s)), hex_encode = (\<lambda>bs. concat (map hex_byte bs)),
      json_to_vec = (\<lambda>w. if w = v then [1] else replicate (2 + to_nat w) 1),
      json_to_vec_pretty = (\<lambda>w. if w = v then [1] else replicate (2 + to_nat w) 1),
      json_from_slice = (\<lambda>bs. Some (if length bs = 1 then v else from_nat (length bs - 2))),
      hash_bytes = (\<lambda>_ _. Inr (replicate 32 2)), create_hmac_with_algorithm = (\<lambda>_ _ _. Inr [3]),
      create_kmac_with_algorithm = (\<lambda>_ _ _ _. Inr [4]),
      create_hkdf = (\<lambda>_ _ _ n. Inr (replicate n 5))\<rparr>"

lemma unat_byte: "unat (b :: u8) < 256"
proof -
  have "unat b < 2 ^ LENGTH(8)" by (rule unsigned_less)
  then show ?thesis by simp
qed

lemma unhex_hex: "unhex (concat (map hex_byte bs)) = bs"
proof (induction bs)
  case (Cons b bs)
  have "unat b < 256" by (rule unat_byte)
  then have "16 * unhex_digit (hex_digit (unat b div 16)) + unhex_digit (hex_digit (unat b mod 16)) = unat b"
    by (simp add: unhex_digit_def hex_digit_def)
  with Cons show ?case by (simp add: hex_byte_def)
qed simp

lemma hex_byte_format: "length (concat (map hex_byte bs)) = 2 * length bs"
  "list_all is_lower_hexdigit (concat (map hex_byte bs))"
proof -
  have "unat b div 16 < 16" for b :: u8
    using unat_byte [of b] by (simp add: div_less_iff_less_mult)
  moreover have "is_lower_hexdigit (hex_digit n)" if "n < 16" for n
    using that by (auto simp: hex_digit_def char_simps)
  ultimately have "list_all is_lower_hexdigit (hex_byte b)" for b
    by (simp add: hex_byte_def)
  then show "list_all is_lower_hexdigit (concat (map hex_byte bs))" by (induction bs) auto
  show "length (concat (map hex_byte bs)) = 2 * length bs" by (induction bs) (auto simp: hex_byte_def)
qed

lemma example_crates_codecs:
  "url_codec_ok (example_crates v)" "hex_codec_ok (example_crates v)" "json_codec_ok (example_crates v)"
  "hex_format_ok (example_crates v)" "hash_size_ok (example_crates v)"
  by (simp_all add: url_codec_ok_def hex_codec_ok_def json_codec_ok_def example_crates_def o_def unhex_hex
      hex_format_ok_def hash_size_ok_def hex_byte_format del: length_concat)

end
