(* ===== verification/Mac.thy ===== *)
theory Mac
  imports Crates Profiles
begin

text \<open>
  \<open>src/core/mac.rs\<close>: the choice of a keyed algorithm from a key's hash algorithm, the
  domain-separating AAD of a profile and its context labels, the derivation and use of keyed
  tags shared by MACs, commitments and share authentication, and the MAC profile registry.
\<close>

section \<open>Model\<close>

definition MAC_KEY_SALT :: "u8 list" where "MAC_KEY_SALT = utf8 (lit ''vectis/mac/v1'')"
definition MAC_HMAC_SUBKEY_SALT :: "u8 list" where
  "MAC_HMAC_SUBKEY_SALT = utf8 (lit ''vectis/mac/hmac/v1'')"
definition MAC_KEY_SIZE_BYTES :: nat where "MAC_KEY_SIZE_BYTES = 32"
definition MAC_CONTEXT_MAX_CHARS :: nat where "MAC_CONTEXT_MAX_CHARS = 128"

record mac_profile_input =
  mci_name :: ustr
  mci_kid :: ustr
  mci_context :: ustr

record mac_profile =
  mc_name :: ustr
  mc_kid :: ustr
  mc_context :: ustr
  mc_public_algorithm :: ustr
  mc_botan_algorithm :: ustr
  mc_customization :: ustr
  mc_mac_key :: "u8 list"

record mac_profiles_state =
  mcs_profiles :: "mac_profile list"
  mcs_by_name :: "ustr \<rightharpoonup> nat"

record key_derivation_request =
  kdr_profile_name :: ustr
  kdr_kid :: ustr
  kdr_context :: ustr
  kdr_hash_algorithm :: ustr

record derived_key =
  dk_public_algorithm :: ustr
  dk_botan_algorithm :: ustr
  dk_key :: "u8 list"

record resolved_mac_algorithm =
  rma_public_algorithm :: ustr
  rma_botan_algorithm :: ustr

definition mac_from_profiles :: "mac_profile list \<Rightarrow> mac_profiles_state" where
  "mac_from_profiles ps = \<lparr>mcs_profiles = ps, mcs_by_name = index_by_name mc_name ps\<rparr>"

definition mac_get :: "mac_profiles_state \<Rightarrow> ustr \<Rightarrow> mac_profile option" where
  "mac_get st n = Option.bind (mcs_by_name st n) (\<lambda>i. list_get (mcs_profiles st) i)"

definition validate_mac_profile_fields :: "ustr \<Rightarrow> ustr \<Rightarrow> unit result" where
  "validate_mac_profile_fields name context =
     bindR (validate_aad_config_name (lit ''mac_profiles.name'') name) (\<lambda>_.
     bindR (validate_labels (lit ''mac_profiles.context'') context MAC_CONTEXT_MAX_CHARS) (\<lambda>_.
       Inr ()))"

definition kmac_resolved :: "string \<Rightarrow> string \<Rightarrow> resolved_mac_algorithm" where
  "kmac_resolved public bits =
     \<lparr>rma_public_algorithm = lit public,
      rma_botan_algorithm = lit ''KMAC-256'' @ lit ''('' @ lit bits @ lit '')''\<rparr>"

definition resolve_mac_algorithm :: "ustr \<Rightarrow> resolved_mac_algorithm result" where
  "resolve_mac_algorithm hash_algorithm =
     bindR (validate_allowed_value (lit ''hash_algorithm'') hash_algorithm HASH_ALGORITHMS) (\<lambda>_.
       Inr (if hash_algorithm = lit ''SHA-3(224)'' then kmac_resolved ''KMAC-224'' ''224''
            else if hash_algorithm = lit ''SHA-3(256)'' then kmac_resolved ''KMAC-256'' ''256''
            else if hash_algorithm = lit ''SHA-3(384)'' then kmac_resolved ''KMAC-384'' ''384''
            else if hash_algorithm = lit ''SHA-3(512)'' then kmac_resolved ''KMAC-512'' ''512''
            else \<lparr>rma_public_algorithm = lit ''HMAC('' @ hash_algorithm @ lit '')'',
                  rma_botan_algorithm = lit ''HMAC('' @ hash_algorithm @ lit '')''\<rparr>))"

definition is_kmac_algorithm :: "ustr \<Rightarrow> bool" where
  "is_kmac_algorithm public_algorithm = starts_with (lit ''KMAC-'') public_algorithm"

definition context_label :: "ustr \<Rightarrow> (ustr \<times> ustr) result" where
  "context_label label =
     (case split_once 61 label of
        None \<Rightarrow> Inl (invalid_input (lit ''mac_profiles.context labels must use key=value format''))
      | Some (key, v) \<Rightarrow> Inr (lit ''context.'' @ key, v))"

definition build_mac_domain_aad :: "(ustr \<times> ustr) list \<Rightarrow> ustr \<Rightarrow> ustr result" where
  "build_mac_domain_aad base_fields context =
     bindR (validate_labels (lit ''mac_profiles.context'') context MAC_CONTEXT_MAX_CHARS) (\<lambda>_.
     bindR (try_map context_label (split_on 59 context)) (\<lambda>labels.
       build_validated_aad (base_fields @ labels)))"

definition derive_keyed_tag_subkey ::
    "crates \<Rightarrow> ustr \<Rightarrow> u8 list \<Rightarrow> u8 list \<Rightarrow> ustr \<Rightarrow> nat \<Rightarrow> u8 list result" where
  "derive_keyed_tag_subkey C public_algorithm derived_key hmac_subkey_salt customization key_size =
     (if is_kmac_algorithm public_algorithm then Inr derived_key
      else create_hkdf C derived_key hmac_subkey_salt (utf8 customization) key_size)"

definition compute_keyed_tag ::
    "crates \<Rightarrow> bool \<Rightarrow> ustr \<Rightarrow> u8 list \<Rightarrow> ustr \<Rightarrow> u8 list \<Rightarrow> u8 list result" where
  "compute_keyed_tag C uses_kmac botan_algorithm key customization payload =
     (if uses_kmac then create_kmac_with_algorithm C botan_algorithm key (utf8 customization) payload
      else create_hmac_with_algorithm C botan_algorithm key payload)"

definition derive_mac_key_for_profile ::
    "crates \<Rightarrow> ustr \<Rightarrow> key_derivation_request \<Rightarrow> derived_key result" where
  "derive_mac_key_for_profile C ops_symmetric_key_hex request =
     bindR (resolve_mac_algorithm (kdr_hash_algorithm request)) (\<lambda>resolved.
     bindR (hex_decode_q C ops_symmetric_key_hex) (\<lambda>ops_symmetric_key.
     bindR (build_mac_domain_aad
              [(lit ''purpose'', lit ''mac-key''), (lit ''profile'', kdr_profile_name request),
               (lit ''kid'', kdr_kid request), (lit ''algorithm'', rma_public_algorithm resolved)]
              (kdr_context request)) (\<lambda>info.
     bindR (create_hkdf C ops_symmetric_key MAC_KEY_SALT (utf8 info) MAC_KEY_SIZE_BYTES) (\<lambda>mac_key.
       Inr \<lparr>dk_public_algorithm = rma_public_algorithm resolved,
            dk_botan_algorithm = rma_botan_algorithm resolved, dk_key = mac_key\<rparr>))))"

definition check_mac_input :: "(ustr \<Rightarrow> bool) \<Rightarrow> mac_profile_input \<Rightarrow> unit result" where
  "check_mac_input is_loaded_kid i =
     bindR (validate_mac_profile_fields (mci_name i) (mci_context i)) (\<lambda>_.
     bindR (map_err (\<lambda>err. invalid_input (lit ''mac_profiles.kid is invalid: '' @ to_string err))
              (validate_key_id (mci_kid i))) (\<lambda>_.
       if \<not> is_loaded_kid (mci_kid i)
       then Inl (invalid_input (lit ''mac profile references kid not loaded in memory: '' @ mci_kid i))
       else Inr ()))"

definition build_mac_profile ::
    "crates \<Rightarrow> (ustr \<Rightarrow> ustr result) \<Rightarrow> (key_derivation_request \<Rightarrow> derived_key result) \<Rightarrow>
     mac_profile_input \<Rightarrow> mac_profile result" where
  "build_mac_profile C hash_algorithm_for_kid derive_mac_key i =
     bindR (hash_algorithm_for_kid (mci_kid i)) (\<lambda>hash_algorithm.
     bindR (derive_mac_key \<lparr>kdr_profile_name = mci_name i, kdr_kid = mci_kid i,
              kdr_context = mci_context i, kdr_hash_algorithm = hash_algorithm\<rparr>) (\<lambda>derived.
       if length (dk_key derived) \<noteq> MAC_KEY_SIZE_BYTES
       then Inl (internal (lit ''derived mac key has invalid length''))
       else
     bindR (build_mac_domain_aad [(lit ''profile'', mci_name i), (lit ''kid'', mci_kid i)]
              (mci_context i)) (\<lambda>customization.
     bindR (derive_keyed_tag_subkey C (dk_public_algorithm derived) (dk_key derived)
              MAC_HMAC_SUBKEY_SALT customization MAC_KEY_SIZE_BYTES) (\<lambda>mac_key.
       Inr \<lparr>mc_name = mci_name i, mc_kid = mci_kid i, mc_context = mci_context i,
            mc_public_algorithm = dk_public_algorithm derived,
            mc_botan_algorithm = dk_botan_algorithm derived,
            mc_customization = customization, mc_mac_key = mac_key\<rparr>))))"

fun validate_mac_loop ::
    "crates \<Rightarrow> (ustr \<Rightarrow> bool) \<Rightarrow> (ustr \<Rightarrow> ustr result) \<Rightarrow>
     (key_derivation_request \<Rightarrow> derived_key result) \<Rightarrow> ustr set \<Rightarrow> mac_profile_input list \<Rightarrow>
     mac_profile list result" where
  "validate_mac_loop C loaded hash_for derive seen_names [] = Inr []"
| "validate_mac_loop C loaded hash_for derive seen_names (i # is) =
     bindR (check_mac_input loaded i) (\<lambda>_.
       if mci_name i \<in> seen_names
       then Inl (invalid_input (lit ''mac profile has duplicated name: '' @ mci_name i))
       else bindR (build_mac_profile C hash_for derive i) (\<lambda>p.
         bindR (validate_mac_loop C loaded hash_for derive (insert (mci_name i) seen_names) is)
           (\<lambda>ps. Inr (p # ps))))"

definition validate_mac_profiles ::
    "crates \<Rightarrow> (ustr \<Rightarrow> bool) \<Rightarrow> (ustr \<Rightarrow> ustr result) \<Rightarrow>
     (key_derivation_request \<Rightarrow> derived_key result) \<Rightarrow> mac_profile_input list \<Rightarrow>
     mac_profiles_state result" where
  "validate_mac_profiles C loaded hash_for derive inputs =
     bindR (validate_mac_loop C loaded hash_for derive {} inputs) (\<lambda>ps. Inr (mac_from_profiles ps))"

section \<open>The profile registry\<close>

lemma build_mac_profile_name: "build_mac_profile C h d i = Inr p \<Longrightarrow> mc_name p = mci_name i"
  by (auto simp: build_mac_profile_def result_simps)

interpretation macs: profile_loader mc_name mac_from_profiles mac_get
    mci_name "check_mac_input loaded"
    "\<lambda>i. invalid_input (lit ''mac profile has duplicated name: '' @ mci_name i)"
    "build_mac_profile C hash_for derive"
    "validate_mac_loop C loaded hash_for derive" "validate_mac_profiles C loaded hash_for derive"
  for C loaded hash_for derive
  by unfold_locales
    (auto simp: mac_from_profiles_def mac_get_def validate_mac_profiles_def build_mac_profile_name)

section \<open>Domain separation\<close>

lemma context_label_ok:
  "context_label label = Inr (k, v) \<longleftrightarrow> (\<exists>key. k = lit ''context.'' @ key \<and> split_once 61 label = Some (key, v))"
  by (auto simp: context_label_def split: option.splits)

lemma context_label_inj:
  assumes "context_label a = Inr x" "context_label b = Inr x"
  shows "a = b"
  using assms by (cases x) (auto simp: context_label_ok dest!: split_once_SomeD)

lemma try_map_inj:
  assumes "\<And>a b x. f a = Inr x \<Longrightarrow> f b = Inr x \<Longrightarrow> a = b"
  shows "try_map f xs = Inr zs \<Longrightarrow> try_map f ys = Inr zs \<Longrightarrow> xs = ys"
proof (induction xs arbitrary: ys zs)
  case Nil
  then show ?case by (cases ys) (auto simp: bindR_eq_Inr)
next
  case (Cons a xs)
  then obtain b ys' where "ys = b # ys'" by (cases ys) (auto simp: bindR_eq_Inr)
  with Cons show ?case by (auto simp: bindR_eq_Inr dest: assms)
qed

text \<open>The domain string of a keyed profile determines the base fields (purpose, profile,
  key and algorithm) and the context it was built from: two derivations with as many base
  fields share a domain only if they agree on all of them.\<close>

theorem mac_domain_injective:
  assumes "build_mac_domain_aad bs c = Inr s" and "build_mac_domain_aad bs' c' = Inr s"
    and "length bs = length bs'"
  shows "bs = bs' \<and> c = c'"
proof -
  from assms(1) obtain ls where ls: "try_map context_label (split_on 59 c) = Inr ls"
    "build_validated_aad (bs @ ls) = Inr s"
    by (auto simp: build_mac_domain_aad_def result_simps)
  from assms(2) obtain ls' where ls': "try_map context_label (split_on 59 c') = Inr ls'"
    "build_validated_aad (bs' @ ls') = Inr s"
    by (auto simp: build_mac_domain_aad_def result_simps)
  from ls(2) ls'(2) have "bs @ ls = bs' @ ls'" by (rule build_validated_aad_inj)
  with assms(3) have eq: "bs = bs'" "ls = ls'" by auto
  then have "split_on 59 c = split_on 59 c'"
    using try_map_inj [of context_label] context_label_inj ls(1) ls'(1) by metis
  then have "c = c'" by (metis join_split_on)
  with eq show ?thesis by simp
qed

theorem mac_domain_injective_witness:
  "build_mac_domain_aad [(lit ''kid'', lit ''ab'')] (lit ''env=prod'') = Inr (lit ''kid=ab;context.env=prod'')
   \<and> lit ''env=prod'' = lit ''env=prod''"
proof -
  have "build_mac_domain_aad [(lit ''kid'', lit ''ab'')] (lit ''env=prod'') = Inr (lit ''kid=ab;context.env=prod'')"
    by (simp add: build_mac_domain_aad_def validate_labels_def validate_text_field_def
        MAC_CONTEXT_MAX_CHARS_def context_label_def split_once_def build_validated_aad_def
        validate_aad_key_def validate_aad_value_def reject_aad_delimiters_def build_aad_def
        lit_def char_simps is_aad_key_char_def)
  with mac_domain_injective [OF this this] show ?thesis by simp
qed

end
