(* ===== verification/GF256.thy ===== *)
theory GF256
  imports Prelude
begin

text \<open>
  The arithmetic of \<open>src/core/sharing.rs\<close> on bytes: \<open>bit_mask\<close>, the shift-and-reduce
  product \<open>gf_mul\<close> (reduction polynomial 0x11b) and the exponentiation \<open>gf_inverse\<close>
  (the 254th power). The theory shows that xor, \<open>gf_mul\<close> and \<open>gf_inverse\<close> are the
  operations of a field, as an instance of the library's class \<open>field\<close> on the type
  \<open>gf256\<close> of bytes, so that the library's sums and products apply to them.

  Multiplication is bilinear over xor, and every byte is a xor of iterates of \<open>xtime\<close>
  (multiplication by 2) on 1; the laws follow by the induction rule \<open>byte_induct\<close> that
  this gives.
\<close>

section \<open>The operations\<close>

definition bit_mask :: "u8 \<Rightarrow> u8" where
  "bit_mask b = 0 - (b AND 1)"

fun gf_mul_loop :: "nat \<Rightarrow> u8 \<Rightarrow> u8 \<Rightarrow> u8 \<Rightarrow> u8" where
  "gf_mul_loop 0 product left right = product"
| "gf_mul_loop (Suc n) product left right =
     (let product = product XOR (left AND bit_mask (right AND 1));
          carry = drop_bit 7 left;
          left = push_bit 1 left;
          left = left XOR (0x1b AND bit_mask carry);
          right = drop_bit 1 right
      in gf_mul_loop n product left right)"

definition gf_mul :: "u8 \<Rightarrow> u8 \<Rightarrow> u8" where
  "gf_mul left right = gf_mul_loop 8 0 left right"

fun gf_inverse_loop :: "nat \<Rightarrow> nat \<Rightarrow> u8 \<Rightarrow> u8 \<Rightarrow> u8" where
  "gf_inverse_loop 0 b result base = result"
| "gf_inverse_loop (Suc n) b result base =
     (let multiplied = gf_mul result base;
          mask = bit_mask (drop_bit b (254 :: u8) AND 1);
          result = (result AND NOT mask) OR (multiplied AND mask);
          base = gf_mul base base
      in gf_inverse_loop n (Suc b) result base)"

definition gf_inverse :: "u8 \<Rightarrow> u8" where
  "gf_inverse value = gf_inverse_loop 8 0 1 value"

section \<open>Multiplication by two, and the product as a sum of its iterates\<close>

definition xtime :: "u8 \<Rightarrow> u8" where
  "xtime a = push_bit 1 a XOR (if bit a 7 then 0x1b else 0)"

definition sel :: "bool \<Rightarrow> u8 \<Rightarrow> u8" where
  "sel b a = (if b then a else 0)"

lemma bit_mask_bit: "bit_mask b = (if bit b 0 then - 1 else 0)"
  by (auto simp: bit_mask_def and_one_eq bit_0 odd_iff_mod_2_eq_one)

lemma gf_mul_loop_Suc:
  "gf_mul_loop (Suc n) p l r =
    gf_mul_loop n (p XOR sel (bit r 0) l) (xtime l) (drop_bit 1 r)"
proof -
  have "bit (r AND 1) 0 = bit r 0" by (simp add: bit_and_iff)
  then show ?thesis
    by (simp add: bit_mask_bit Let_def xtime_def bit_drop_bit_eq sel_def)
qed

lemma gf_mul_alt:
  "gf_mul l r =
     sel (bit r 0) l XOR sel (bit r 1) (xtime l) XOR
     sel (bit r 2) ((xtime ^^ 2) l) XOR sel (bit r 3) ((xtime ^^ 3) l) XOR
     sel (bit r 4) ((xtime ^^ 4) l) XOR sel (bit r 5) ((xtime ^^ 5) l) XOR
     sel (bit r 6) ((xtime ^^ 6) l) XOR sel (bit r 7) ((xtime ^^ 7) l)"
proof -
  have e: "(8::nat) = Suc (Suc (Suc (Suc (Suc (Suc (Suc (Suc 0)))))))" by simp
  show ?thesis
    unfolding gf_mul_def e gf_mul_loop_Suc
    by (simp add: bit_drop_bit_eq numeral_eq_Suc xor.assoc)
qed

lemma xtime_xor: "xtime (a XOR b) = xtime a XOR xtime b"
  by (auto simp: xtime_def bit_xor_iff push_bit_xor ac_simps)

lemma xtime_0 [simp]: "xtime 0 = 0"
  by (simp add: xtime_def)

lemma sel_xor: "sel (b \<noteq> c) a = sel b a XOR sel c a"
  by (auto simp: sel_def)
lemma sel_xor2: "sel b (a XOR c) = sel b a XOR sel b c"
  by (auto simp: sel_def)
lemma xtime_sel: "xtime (sel b a) = sel b (xtime a)"
  by (auto simp: sel_def)

lemma xtime_pow_xor: "(xtime ^^ n) (a XOR b) = (xtime ^^ n) a XOR (xtime ^^ n) b"
  by (induction n) (auto simp: xtime_xor)

lemma gf_mul_xor_right: "gf_mul a (b XOR c) = gf_mul a b XOR gf_mul a c"
  unfolding gf_mul_alt bit_xor_iff sel_xor by (simp only: ac_simps)

lemma gf_mul_xor_left: "gf_mul (a XOR b) c = gf_mul a c XOR gf_mul b c"
  unfolding gf_mul_alt xtime_xor xtime_pow_xor sel_xor2 by (simp only: ac_simps)

lemma gf_mul_xtime_left: "gf_mul (xtime a) b = xtime (gf_mul a b)"
  unfolding gf_mul_alt xtime_xor xtime_sel by (simp add: funpow_swap1)

lemma byte_bits: 
  "w = sel (bit w 0) 1 XOR sel (bit w 1) 2 XOR sel (bit w 2) 4 XOR sel (bit w 3) 8 XOR
       sel (bit w 4) 16 XOR sel (bit w 5) 32 XOR sel (bit w 6) 64 XOR sel (bit w 7) 128"
proof (rule bit_word_eqI)
  fix n assume "n < LENGTH(8)"
  then have "n \<in> {0,1,2,3,4,5,6,7}" by auto
  then show "bit w n = bit (sel (bit w 0) 1 XOR sel (bit w 1) 2 XOR sel (bit w 2) 4 XOR sel (bit w 3) 8 XOR
       sel (bit w 4) 16 XOR sel (bit w 5) 32 XOR sel (bit w 6) 64 XOR sel (bit w 7) 128) n"
    by (elim insertE) (simp_all add: bit_xor_iff sel_def)
qed
lemma xtime_consts: "xtime 1 = 2" "xtime 2 = 4" "xtime 4 = 8" "xtime 8 = 16" "xtime 16 = 32"
  "xtime 32 = 64" "xtime 64 = 128" "xtime 128 = 0x1b"
  by (simp_all add: xtime_def)

lemma byte_induct [case_names zero one xtime xor]:
  assumes z: "P 0" and o: "P 1" and x: "\<And>a. P a \<Longrightarrow> P (xtime a)"
    and a: "\<And>a b. P a \<Longrightarrow> P b \<Longrightarrow> P (a XOR b)"
  shows "P w"
proof -
  have p: "P 1" "P 2" "P 4" "P 8" "P 16" "P 32" "P 64" "P 128"
    using o x[of 1] x[of 2] x[of 4] x[of 8] x[of 16] x[of 32] x[of 64]
    by (simp_all add: xtime_consts)
  have s: "P (sel b v)" if "P v" for b v
    using that z by (simp add: sel_def)
  show ?thesis
    by (subst byte_bits) (intro a s p)
qed


lemma gf_mul_eval:
  "gf_mul l r =
     sel (bit r 0) l XOR sel (bit r 1) (xtime l) XOR
     sel (bit r 2) (xtime (xtime l)) XOR sel (bit r 3) (xtime (xtime (xtime l))) XOR
     sel (bit r 4) (xtime (xtime (xtime (xtime l)))) XOR
     sel (bit r 5) (xtime (xtime (xtime (xtime (xtime l))))) XOR
     sel (bit r 6) (xtime (xtime (xtime (xtime (xtime (xtime l)))))) XOR
     sel (bit r 7) (xtime (xtime (xtime (xtime (xtime (xtime (xtime l)))))))"
  unfolding gf_mul_alt by (simp add: numeral_eq_Suc)

lemma gf_mul_0_right [simp]: "gf_mul a 0 = 0"
  by (simp add: gf_mul_eval sel_def)
lemma gf_mul_0_left [simp]: "gf_mul 0 a = 0"
  by (simp add: gf_mul_eval sel_def)
lemma gf_mul_1_right [simp]: "gf_mul a 1 = a"
  by (simp add: gf_mul_eval sel_def)

lemma gf_mul_xtime_1: "gf_mul a 0x1b = (xtime ^^ 8) a"
proof (induction a rule: byte_induct)
  case one
  show ?case by (simp add: gf_mul_eval sel_def xtime_consts numeral_eq_Suc)
next
  case (xtime a)
  then show ?case by (simp add: gf_mul_xtime_left funpow_swap1)
next
  case (xor a b)
  then show ?case by (simp add: gf_mul_xor_left xtime_pow_xor)
qed (simp add: numeral_eq_Suc)

lemma gf_mul_pow: "gf_mul a 2 = xtime a" "gf_mul a 4 = (xtime ^^ 2) a"
  "gf_mul a 8 = (xtime ^^ 3) a" "gf_mul a 16 = (xtime ^^ 4) a" "gf_mul a 32 = (xtime ^^ 5) a"
  "gf_mul a 64 = (xtime ^^ 6) a" "gf_mul a 128 = (xtime ^^ 7) a"
  by (simp_all add: gf_mul_alt sel_def)

lemma gf_mul_xtime_right: "gf_mul a (xtime b) = xtime (gf_mul a b)"
proof -
  have s: "gf_mul a (xtime (sel c v)) = xtime (gf_mul a (sel c v))"
    if "gf_mul a (xtime v) = xtime (gf_mul a v)" for c v
    using that by (simp add: sel_def)
  have p: "gf_mul a (xtime v) = xtime (gf_mul a v)"
    if "v \<in> {1, 2, 4, 8, 16, 32, 64, 128}" for v
    using that
    by (elim insertE) (simp_all add: xtime_consts gf_mul_pow gf_mul_xtime_1 numeral_eq_Suc)
  have c: "gf_mul a (xtime (u XOR v)) = xtime (gf_mul a (u XOR v))"
    if "gf_mul a (xtime u) = xtime (gf_mul a u)" "gf_mul a (xtime v) = xtime (gf_mul a v)" for u v
    using that by (simp add: xtime_xor gf_mul_xor_right)
  show ?thesis
    by (subst (1 2) byte_bits) (intro c s p; simp)
qed

lemma gf_mul_1_left [simp]: "gf_mul 1 a = a"
  by (induction a rule: byte_induct) (simp_all add: gf_mul_xtime_right gf_mul_xor_right)

lemma gf_mul_comm: "gf_mul a b = gf_mul b a"
  by (induction b rule: byte_induct)
    (simp_all add: gf_mul_xtime_right gf_mul_xtime_left gf_mul_xor_right gf_mul_xor_left)

lemma gf_mul_assoc: "gf_mul (gf_mul a b) c = gf_mul a (gf_mul b c)"
  by (induction c rule: byte_induct) (simp_all add: gf_mul_xtime_right gf_mul_xor_right)

lemma gf_mul_left_comm: "gf_mul a (gf_mul b c) = gf_mul b (gf_mul a c)"
  by (metis gf_mul_assoc gf_mul_comm)

lemmas gf_mul_ac = gf_mul_assoc gf_mul_comm gf_mul_left_comm

section \<open>Squaring is additive\<close>

definition gf_sq :: "u8 \<Rightarrow> u8" where "gf_sq a = gf_mul a a"

lemma gf_sq_xor: "gf_sq (a XOR b) = gf_sq a XOR gf_sq b"
  unfolding gf_sq_def gf_mul_xor_left gf_mul_xor_right gf_mul_comm [of b a]
  by (simp add: ac_simps)

lemma gf_sq_mul: "gf_sq (gf_mul a b) = gf_mul (gf_sq a) (gf_sq b)"
  unfolding gf_sq_def by (metis gf_mul_assoc gf_mul_comm)

lemma gf_sq_pow_xor: "(gf_sq ^^ n) (a XOR b) = (gf_sq ^^ n) a XOR (gf_sq ^^ n) b"
  by (induction n) (simp_all add: gf_sq_xor)
lemma gf_sq_pow_mul: "(gf_sq ^^ n) (gf_mul a b) = gf_mul ((gf_sq ^^ n) a) ((gf_sq ^^ n) b)"
  by (induction n) (simp_all add: gf_sq_mul)

lemma gf_sq_consts: "gf_sq 0 = 0" "gf_sq 1 = 1" "gf_sq 2 = 4" "gf_sq 4 = 16" "gf_sq 16 = 0x1b" "gf_sq 0x1b = 0x5e"
   "gf_sq 0x5e = 0xe4" "gf_sq 0xe4 = 0x4d" "gf_sq 0x4d = 0xfa" "gf_sq 0xfa = 2"
  by (simp_all add: gf_sq_def gf_mul_eval sel_def xtime_def)


section \<open>Inverses\<close>

lemma gf_inverse_loop_Suc:
  "gf_inverse_loop (Suc n) b result base =
     gf_inverse_loop n (Suc b)
       (if bit (254 :: u8) b then gf_mul result base else result) (gf_sq base)"
proof -
  have "bit (drop_bit b 254 AND 1 :: u8) 0 = bit (254 :: u8) b"
    by (simp add: bit_and_iff bit_drop_bit_eq)
  then show ?thesis by (simp add: bit_mask_bit Let_def gf_sq_def)
qed

lemma gf_inverse_alt:
  "gf_inverse a =
     gf_mul (gf_mul (gf_mul (gf_mul (gf_mul (gf_mul ((gf_sq ^^ 1) a) ((gf_sq ^^ 2) a))
       ((gf_sq ^^ 3) a)) ((gf_sq ^^ 4) a)) ((gf_sq ^^ 5) a)) ((gf_sq ^^ 6) a)) ((gf_sq ^^ 7) a)"
proof -
  have e: "(8::nat) = Suc (Suc (Suc (Suc (Suc (Suc (Suc (Suc 0)))))))" by simp
  show ?thesis
    unfolding gf_inverse_def e gf_inverse_loop_Suc by (simp add: numeral_eq_Suc)
qed

lemma gf_frobenius: "(gf_sq ^^ 8) a = a"
proof (induction a rule: byte_induct)
  case (xtime a)
  have "(gf_sq ^^ 8) 2 = 2" by (simp add: numeral_eq_Suc gf_sq_consts)
  moreover have "xtime a = gf_mul a 2" by (simp add: gf_mul_pow)
  ultimately show ?case using xtime by (simp only: gf_sq_pow_mul)
next
  case (xor a b)
  then show ?case by (simp only: gf_sq_pow_xor)
qed (simp_all add: numeral_eq_Suc gf_sq_consts)

text \<open>The element \<open>a * inverse a\<close> is idempotent, and 0 and 1 are the only idempotents.\<close>

lemma gf_mul_inverse_idem:
  "gf_sq (gf_mul a (gf_inverse a)) = gf_mul a (gf_inverse a)"
proof -
  let ?q = "\<lambda>n. (gf_sq ^^ n) a"
  have s: "gf_sq (?q n) = ?q (Suc n)" for n by simp
  have "gf_sq (gf_mul a (gf_inverse a)) =
    gf_mul (?q 1) (gf_mul (gf_mul (gf_mul (gf_mul (gf_mul (gf_mul (?q 2) (?q 3)) (?q 4)) (?q 5)) (?q 6)) (?q 7)) (?q 8))"
    unfolding gf_inverse_alt gf_sq_mul s by (simp add: numeral_eq_Suc)
  also have "?q 8 = a" by (rule gf_frobenius)
  finally show ?thesis
    unfolding gf_inverse_alt by (simp only: gf_mul_ac)
qed

lemma gf_mul_self_inverse: "gf_mul a (gf_mul a (gf_inverse a)) = a"
proof -
  have 1: "gf_mul ((gf_sq ^^ n) a) ((gf_sq ^^ n) a) = (gf_sq ^^ Suc n) a" for n
    by (simp add: gf_sq_def)
  have "gf_mul a (gf_mul a (gf_inverse a)) =
     gf_mul (gf_mul (gf_mul (gf_mul (gf_mul (gf_mul (gf_mul (gf_mul a a) ((gf_sq ^^ 1) a)) ((gf_sq ^^ 2) a))
       ((gf_sq ^^ 3) a)) ((gf_sq ^^ 4) a)) ((gf_sq ^^ 5) a)) ((gf_sq ^^ 6) a)) ((gf_sq ^^ 7) a)"
    unfolding gf_inverse_alt by (simp only: gf_mul_assoc)
  also have "\<dots> = (gf_sq ^^ 8) a"
    using 1[of 0] 1[of 1] 1[of 2] 1[of 3] 1[of 4] 1[of 5] 1[of 6] 1[of 7]
    by (simp add: numeral_eq_Suc)
  finally show ?thesis by (simp add: gf_frobenius)
qed

lemma gf_sq_sel: "gf_sq (sel b a) = sel b (gf_sq a)"
  by (simp add: sel_def gf_sq_consts)

lemma gf_sq_bits:
  "gf_sq w = sel (bit w 0) 1 XOR sel (bit w 1) 4 XOR sel (bit w 2) 16 XOR sel (bit w 3) 64 XOR
       sel (bit w 4) 0x1b XOR sel (bit w 5) 0x6c XOR sel (bit w 6) 0xab XOR sel (bit w 7) 0x9a"
proof -
  have "gf_sq 8 = 64" "gf_sq 32 = 0x6c" "gf_sq 64 = 0xab" "gf_sq 128 = 0x9a"
    by (simp_all add: gf_sq_def gf_mul_eval sel_def xtime_def)
  then show ?thesis
    by (subst byte_bits) (simp only: gf_sq_xor gf_sq_sel gf_sq_consts)
qed

lemma gf_idempotent: 
  assumes "gf_sq e = e"
  shows "e = 0 \<or> e = 1"
proof -
  have b: "bit (gf_sq e) n = bit e n" for n using assms by simp
  have "\<not> bit e 1 \<and> \<not> bit e 2 \<and> \<not> bit e 3 \<and> \<not> bit e 4 \<and> \<not> bit e 5 \<and> \<not> bit e 6 \<and> \<not> bit e 7"
    using b[of 0] b[of 1] b[of 2] b[of 3] b[of 4] b[of 5] b[of 6] b[of 7]
    unfolding gf_sq_bits bit_xor_iff sel_def
    by (simp split: if_splits)
  then have "e = sel (bit e 0) 1"
    by (subst byte_bits) (simp add: sel_def)
  then show ?thesis by (metis sel_def)
qed

lemma gf_mul_inverse: "a \<noteq> 0 \<Longrightarrow> gf_mul a (gf_inverse a) = 1"
  using gf_idempotent [OF gf_mul_inverse_idem, of a] gf_mul_self_inverse [of a] by auto

lemma gf_inverse_0 [simp]: "gf_inverse 0 = 0"
  by (simp add: gf_inverse_alt gf_sq_consts)


section \<open>The field of bytes\<close>

typedef gf256 = "UNIV :: u8 set"
  morphisms gf_byte GF
  by simp

setup_lifting type_definition_gf256

instantiation gf256 :: field
begin

lift_definition zero_gf256 :: gf256 is 0 .
lift_definition one_gf256 :: gf256 is 1 .
lift_definition plus_gf256 :: "gf256 \<Rightarrow> gf256 \<Rightarrow> gf256" is "(XOR)" .
lift_definition minus_gf256 :: "gf256 \<Rightarrow> gf256 \<Rightarrow> gf256" is "(XOR)" .
lift_definition uminus_gf256 :: "gf256 \<Rightarrow> gf256" is "\<lambda>a. a" .
lift_definition times_gf256 :: "gf256 \<Rightarrow> gf256 \<Rightarrow> gf256" is gf_mul .
lift_definition inverse_gf256 :: "gf256 \<Rightarrow> gf256" is gf_inverse .
lift_definition divide_gf256 :: "gf256 \<Rightarrow> gf256 \<Rightarrow> gf256" is "\<lambda>a b. gf_mul a (gf_inverse b)" .

instance
proof
  fix a b c :: gf256
  show "a * b * c = a * (b * c)" by transfer (rule gf_mul_assoc)
  show "a * b = b * a" by transfer (rule gf_mul_comm)
  show "1 * a = a" by transfer simp
  show "a + b + c = a + (b + c)" by transfer (simp add: xor.assoc)
  show "a + b = b + a" by transfer (simp add: xor.commute)
  show "0 + a = a" by transfer simp
  show "- a + a = 0" by transfer simp
  show "a - b = a + - b" by transfer simp
  show "(a + b) * c = a * c + b * c" by transfer (rule gf_mul_xor_left)
  show "(0::gf256) \<noteq> 1" by transfer simp
  show "a \<noteq> 0 \<Longrightarrow> inverse a * a = 1" by transfer (metis gf_mul_comm gf_mul_inverse)
  show "a div b = a * inverse b" by transfer simp
  show "inverse (0::gf256) = 0" by transfer simp
qed

end

lemma gf_byte_simps:
  "gf_byte 0 = 0" "gf_byte 1 = 1" "gf_byte (a + b) = gf_byte a XOR gf_byte b"
  "gf_byte (a - b) = gf_byte a XOR gf_byte b" "gf_byte (a * b) = gf_mul (gf_byte a) (gf_byte b)"
  "gf_byte (a / b) = gf_mul (gf_byte a) (gf_inverse (gf_byte b))"
  "gf_byte (GF w) = w" "GF (gf_byte a) = a"
  by (transfer; simp add: GF_inverse gf_byte_inverse)+

lemma GF_simps: "GF 0 = 0" "GF 1 = 1" "GF (a XOR b) = GF a + GF b" "GF (gf_mul a b) = GF a * GF b"
  "GF (gf_inverse a) = inverse (GF a)" "GF a = GF b \<longleftrightarrow> a = b"
  by (simp_all add: zero_gf256.abs_eq one_gf256.abs_eq plus_gf256.abs_eq times_gf256.abs_eq inverse_gf256.abs_eq GF_inject)
end
