(* ===== verification/Interpolation.thy ===== *)
theory Interpolation
  imports Main
begin

text \<open>
  Polynomials over a field as coefficient lists: Horner evaluation, closure of the functions
  given by at most \<open>n\<close> coefficients under sums and products with linear factors, the factor
  theorem by synthetic division, the bound on the number of roots, and Lagrange interpolation
  with its uniqueness. \<open>Sharing\<close> uses them on the field of bytes of \<open>GF256\<close>.
\<close>

fun horner :: "'a::comm_ring_1 list \<Rightarrow> 'a \<Rightarrow> 'a" where
  "horner [] x = 0"
| "horner (c # cs) x = c + x * horner cs x"

definition polyfun :: "nat \<Rightarrow> ('a::comm_ring_1 \<Rightarrow> 'a) \<Rightarrow> bool" where
  "polyfun n f \<longleftrightarrow> (\<exists>cs. length cs = n \<and> f = horner cs)"

lemma polyfun_horner [intro]: "length cs = n \<Longrightarrow> polyfun n (horner cs)"
  by (auto simp: polyfun_def)

lemma polyfun_Suc_iff:
  "polyfun (Suc n) f \<longleftrightarrow> (\<exists>c g. polyfun n g \<and> f = (\<lambda>x. c + x * g x))"
proof
  assume "polyfun (Suc n) f"
  then obtain c cs where "length cs = n" "f = horner (c # cs)"
    by (auto simp: polyfun_def length_Suc_conv)
  then show "\<exists>c g. polyfun n g \<and> f = (\<lambda>x. c + x * g x)"
    by (intro exI [of _ c] exI [of _ "horner cs"]) auto
next
  assume "\<exists>c g. polyfun n g \<and> f = (\<lambda>x. c + x * g x)"
  then obtain c cs where "length cs = n" "f = (\<lambda>x. c + x * horner cs x)"
    by (auto simp: polyfun_def)
  then show "polyfun (Suc n) f"
    by (auto simp: polyfun_def intro!: exI [of _ "c # cs"])
qed

lemma polyfun_add: "polyfun n f \<Longrightarrow> polyfun n g \<Longrightarrow> polyfun n (\<lambda>x. f x + g x)"
proof (induction n arbitrary: f g)
  case (Suc n)
  then obtain c f' d g' where "polyfun n f'" "polyfun n g'"
    and "f = (\<lambda>x. c + x * f' x)" "g = (\<lambda>x. d + x * g' x)"
    by (auto simp: polyfun_Suc_iff)
  with Suc.IH show ?case
    by (auto simp: polyfun_Suc_iff algebra_simps
        intro!: exI [of _ "c + d"] exI [of _ "\<lambda>x. f' x + g' x"])
qed (auto simp: polyfun_def)

lemma polyfun_scale: "polyfun n f \<Longrightarrow> polyfun n (\<lambda>x. a * f x)"
proof (induction n arbitrary: f)
  case (Suc n)
  then obtain c f' where "polyfun n f'" "f = (\<lambda>x. c + x * f' x)"
    by (auto simp: polyfun_Suc_iff)
  with Suc.IH show ?case
    by (auto simp: polyfun_Suc_iff algebra_simps intro!: exI [of _ "a * c"] exI [of _ "\<lambda>x. a * f' x"])
qed (auto simp: polyfun_def)

lemma polyfun_zero: "polyfun n (\<lambda>x. 0)"
proof (induction n)
  case (Suc n)
  then show ?case by (auto simp: polyfun_Suc_iff intro!: exI [of _ 0] exI [of _ "\<lambda>x. 0"])
qed (auto simp: polyfun_def)

lemma polyfun_sum: "(\<And>i. i \<in> I \<Longrightarrow> polyfun n (f i)) \<Longrightarrow> polyfun n (\<lambda>x. \<Sum>i\<in>I. f i x)"
  by (induction I rule: infinite_finite_induct) (auto simp: polyfun_zero polyfun_add)

lemma polyfun_lift: "polyfun n f \<Longrightarrow> polyfun (Suc n) f"
proof -
  assume "polyfun n f"
  then obtain cs where "length cs = n" "f = horner cs" by (auto simp: polyfun_def)
  moreover have "horner (cs @ [0]) = horner cs"
    by (induction cs) (auto intro!: ext)
  ultimately show ?thesis
    by (metis length_append_singleton polyfun_horner)
qed

lemma polyfun_linear: "polyfun n f \<Longrightarrow> polyfun (Suc n) (\<lambda>x. (x - a) * f x)"
proof -
  assume f: "polyfun n f"
  then have "polyfun (Suc n) (\<lambda>x. 0 + x * f x)"
    unfolding polyfun_Suc_iff by (intro exI [of _ 0] exI [of _ f]) simp
  moreover have "polyfun (Suc n) (\<lambda>x. (- a) * f x)"
    using f by (intro polyfun_scale polyfun_lift)
  ultimately have "polyfun (Suc n) (\<lambda>x. (0 + x * f x) + (- a) * f x)"
    by (rule polyfun_add)
  then show ?thesis by (simp add: algebra_simps)
qed

lemma polyfun_prod:
  "finite J \<Longrightarrow> polyfun (Suc (card J)) (\<lambda>x. \<Prod>j\<in>J. (x - a j))"
proof (induction J rule: finite_induct)
  case empty
  show ?case by (auto simp: polyfun_Suc_iff intro!: exI [of _ 1] exI [of _ "\<lambda>x. 0"] polyfun_zero)
next
  case (insert k J)
  then show ?case using polyfun_linear [OF insert.IH, of "a k"] by simp
qed

text \<open>The factor theorem by synthetic division.\<close>

lemma polyfun_factor:
  "polyfun (Suc n) f \<Longrightarrow> \<exists>g. polyfun n g \<and> (\<forall>x. f x - f a = (x - a) * g x)"
proof (induction n arbitrary: f)
  case 0
  then show ?case
    by (auto simp: polyfun_def length_Suc_conv intro!: exI [of _ "\<lambda>x. 0"])
next
  case (Suc n)
  then obtain c h where h: "polyfun (Suc n) h" and f: "f = (\<lambda>x. c + x * h x)"
    by (auto simp: polyfun_Suc_iff)
  from Suc.IH [OF h] obtain g where g: "polyfun n g" "\<And>x. h x - h a = (x - a) * g x"
    by blast
  have "polyfun (Suc n) (\<lambda>x. h a + x * g x)"
    using g(1) by (auto simp: polyfun_Suc_iff)
  moreover have "f x - f a = (x - a) * (h a + x * g x)" for x
  proof -
    have "h x = h a + (x - a) * g x" using g(2) [of x] by (simp add: algebra_simps)
    then have "f x - f a = c + x * (h a + (x - a) * g x) - (c + a * h a)"
      unfolding f by (rule arg_cong)
    also have "\<dots> = (x - a) * (h a + x * g x)" by (simp add: algebra_simps)
    finally show ?thesis .
  qed
  ultimately show ?case by blast
qed

lemma polyfun_roots:
  fixes f :: "'a::idom \<Rightarrow> 'a"
  assumes "polyfun n f" "finite R" "card R = n" "\<And>x. x \<in> R \<Longrightarrow> f x = 0"
  shows "f z = 0"
  using assms
proof (induction n arbitrary: f R)
  case 0
  then show ?case by (auto simp: polyfun_def)
next
  case (Suc n)
  from Suc.prems(3) obtain a where a: "a \<in> R" by fastforce
  from polyfun_factor [OF Suc.prems(1), of a] Suc.prems(4) [OF a]
  obtain g where g: "polyfun n g" "\<And>x. f x = (x - a) * g x" by auto
  have "g x = 0" if "x \<in> R - {a}" for x
    using that Suc.prems(4) [of x] g(2) [of x] by auto
  moreover have "card (R - {a}) = n" using Suc.prems(2,3) a by simp
  ultimately have "g z = 0" using Suc.IH [OF g(1), of "R - {a}"] Suc.prems(2) by blast
  then show ?case using g(2) by simp
qed

definition lagrange :: "nat \<Rightarrow> (nat \<Rightarrow> 'a::field) \<Rightarrow> (nat \<Rightarrow> 'a) \<Rightarrow> 'a \<Rightarrow> 'a" where
  "lagrange t x y z =
     (\<Sum>i<t. y i * (\<Prod>j\<in>{..<t} - {i}. (z - x j) / (x i - x j)))"

lemma lagrange_at_node:
  assumes "inj_on x {..<t}" "k < t"
  shows "lagrange t x y (x k) = y k"
proof -
  have d: "x i - x j \<noteq> 0" if "i < t" "j < t" "i \<noteq> j" for i j
    using assms(1) that by (auto dest: inj_onD)
  have "(\<Prod>j\<in>{..<t} - {i}. (x k - x j) / (x i - x j)) = (if i = k then 1 else 0)" if "i < t" for i
  proof (cases "i = k")
    case True
    then show ?thesis using d that by (simp add: prod.neutral)
  next
    case False
    then have "k \<in> {..<t} - {i}" using assms(2) by simp
    with False show ?thesis by (auto intro!: prod_zero)
  qed
  then have "lagrange t x y (x k) = (\<Sum>i<t. y i * (if i = k then 1 else 0))"
    unfolding lagrange_def by (intro sum.cong) auto
  also have "\<dots> = (\<Sum>i<t. if i = k then y i else 0)"
    by (intro sum.cong) auto
  also have "\<dots> = y k" using assms(2) by (simp add: sum.delta)
  finally show ?thesis .
qed

lemma polyfun_lagrange: "polyfun t (lagrange t x y)"
proof -
  have "polyfun t (\<lambda>z. y i * (\<Prod>j\<in>{..<t} - {i}. (z - x j) / (x i - x j)))" if "i \<in> {..<t}" for i
  proof -
    let ?D = "\<Prod>j\<in>{..<t} - {i}. (x i - x j)"
    have "card ({..<t} - {i}) = t - 1" using that by simp
    then have "polyfun t (\<lambda>z. \<Prod>j\<in>{..<t} - {i}. (z - x j))"
      using polyfun_prod [of "{..<t} - {i}" x] that by (cases t) auto
    then have "polyfun t (\<lambda>z. (y i / ?D) * (\<Prod>j\<in>{..<t} - {i}. (z - x j)))"
      by (rule polyfun_scale)
    then show ?thesis by (simp add: prod_dividef)
  qed
  then show ?thesis unfolding lagrange_def by (intro polyfun_sum)
qed

lemma lagrange_interpolation:
  assumes "polyfun t p" "inj_on x {..<t}"
  shows "lagrange t x (\<lambda>i. p (x i)) z = p z"
proof -
  let ?f = "\<lambda>z. lagrange t x (\<lambda>i. p (x i)) z + (- 1) * p z"
  have "polyfun t ?f"
    by (intro polyfun_add polyfun_scale polyfun_lagrange assms(1))
  moreover have "?f v = 0" if "v \<in> x ` {..<t}" for v
  proof -
    from that obtain k where "k < t" "v = x k" by auto
    then show ?thesis using lagrange_at_node [OF assms(2), of k "\<lambda>i. p (x i)"] by simp
  qed
  moreover have "card (x ` {..<t}) = t" using assms(2) by (simp add: card_image)
  ultimately have "?f z = 0"
    using polyfun_roots [of t ?f "x ` {..<t}" z] by blast
  then show ?thesis by simp
qed

text \<open>Coefficients are determined by the values at as many points.\<close>

lemma horner_roots_zero:
  fixes cs :: "'a::idom list"
  assumes "finite R" "card R = length cs" "\<And>x. x \<in> R \<Longrightarrow> horner cs x = 0"
  shows "cs = replicate (length cs) 0"
  using assms
proof (induction cs arbitrary: R)
  case (Cons c cs)
  have all: "horner (c # cs) z = 0" for z
    using polyfun_roots [of "length (c # cs)" "horner (c # cs)" R z] Cons.prems by blast
  from all [of 0] have c: "c = 0" by simp
  have "length cs \<le> card (R - {0})" using Cons.prems(1,2) by (simp add: card_Diff_singleton_if)
  then obtain S where S: "S \<subseteq> R - {0}" "card S = length cs" "finite S"
    using obtain_subset_with_card_n by metis
  have "horner cs x = 0" if "x \<in> S" for x
    using all [of x] c S(1) that by auto
  with Cons.IH [OF S(3,2)] c show ?case by simp
qed simp

lemma horner_diff:
  "length cs = length ds \<Longrightarrow> horner (map2 (-) cs ds) x = horner cs x - horner ds x"
  by (induction cs ds rule: list_induct2) (simp_all add: right_diff_distrib)

lemma horner_unique:
  fixes cs :: "'a::idom list"
  assumes "length cs = length ds" "finite R" "card R = length cs"
    and "\<And>x. x \<in> R \<Longrightarrow> horner cs x = horner ds x"
  shows "cs = ds"
proof -
  have len: "length (map2 (-) cs ds) = length cs" using assms(1) by simp
  have "map2 (-) cs ds = replicate (length cs) 0"
    using horner_roots_zero [of R "map2 (-) cs ds"] assms(2-4) len
    by (simp add: horner_diff [OF assms(1)])
  then have "map2 (-) cs ds ! i = 0" if "i < length cs" for i using that by simp
  then show ?thesis using assms(1) by (intro nth_equalityI) auto
qed

lemma horner_exists:
  fixes x :: "nat \<Rightarrow> 'a::field"
  assumes "inj_on x {..<t}"
  shows "\<exists>cs. length cs = t \<and> (\<forall>i < t. horner cs (x i) = y i)"
proof -
  obtain cs where "length cs = t" "lagrange t x y = horner cs"
    using polyfun_lagrange [of t x y] by (auto simp: polyfun_def)
  then show ?thesis using lagrange_at_node [OF assms, of _ y] by metis
qed

end
