(* ===== verification/Sharing.thy ===== *)
theory Sharing
  imports Mac GF256 Interpolation
begin

text \<open>
  \<open>src/core/sharing.rs\<close>: sharing profiles, Shamir secret sharing over the field of bytes
  (\<open>split\<close>, \<open>combine\<close>) and the authenticated share envelopes (\<open>encode_share\<close>,
  \<open>decode_share\<close>). The random bytes of a split come from a parameter \<open>rng\<close>, the answer to
  the request made for each byte of the secret.

  The lemmas show that any threshold of the shares of a split recovers the secret, that
  \<open>combine\<close> accepts only shares that lie on one polynomial of the right degree, that fewer
  shares than the threshold are consistent with every secret, and that an encoded share
  decodes to itself under its own profile only.
\<close>

section \<open>Constants and data\<close>

definition SHARING_KEY_SALT :: "u8 list" where "SHARING_KEY_SALT = utf8 (lit ''vectis/sharing/v1'')"
definition SHARING_HMAC_SUBKEY_SALT :: "u8 list" where
  "SHARING_HMAC_SUBKEY_SALT = utf8 (lit ''vectis/sharing/hmac/v1'')"
definition SHARING_KEY_SIZE_BYTES :: nat where "SHARING_KEY_SIZE_BYTES = 32"
definition SHARING_CONTEXT_MAX_CHARS :: nat where "SHARING_CONTEXT_MAX_CHARS = 128"
definition SHARING_MIN_THRESHOLD :: nat where "SHARING_MIN_THRESHOLD = 2"
definition SHARING_SECRET_MAX_BYTES :: nat where "SHARING_SECRET_MAX_BYTES = 4096"
definition SHARING_SET_ID_BYTES :: nat where "SHARING_SET_ID_BYTES = 16"
definition SHARE_PREFIX :: ustr where "SHARE_PREFIX = lit ''vectis-sss-v1.''"
definition SHARE_ENVELOPE_MAX_CHARS :: nat where "SHARE_ENVELOPE_MAX_CHARS = 16 * 1024"
definition INTERNAL_SHARE_MAX :: nat where "INTERNAL_SHARE_MAX = 32"

record sharing_profile_input =
  spi_name :: ustr
  spi_kid :: ustr
  spi_threshold :: nat
  spi_shares :: nat
  spi_max_secret_len :: nat
  spi_context :: ustr

record sharing_profile =
  sp_name :: ustr
  sp_kid :: ustr
  sp_threshold :: nat
  sp_shares :: nat
  sp_max_secret_len :: nat
  sp_context :: ustr
  sp_public_algorithm :: ustr
  sp_botan_algorithm :: ustr
  sp_customization :: ustr
  sp_share_auth_key :: "u8 list"

record sharing_profiles_state =
  sps_profiles :: "sharing_profile list"
  sps_by_name :: "ustr \<rightharpoonup> nat"

record raw_share =
  rs_index :: u8
  rs_value :: "u8 list"

record share_envelope =
  se_version :: ustr
  se_set_id :: ustr
  se_profile :: ustr
  se_kid :: ustr
  se_threshold :: nat
  se_shares :: nat
  se_index :: u8
  se_share :: ustr
  se_tag :: ustr

section \<open>Field operations with errors\<close>

definition gf_div :: "u8 \<Rightarrow> u8 \<Rightarrow> u8 result" where
  "gf_div left right =
     (if right = 0 then Inl (invalid_input (lit ''shares contain duplicate indexes''))
      else Inr (gf_mul left (gf_inverse right)))"

definition evaluate_polynomial :: "u8 list \<Rightarrow> u8 \<Rightarrow> u8" where
  "evaluate_polynomial coefficients x =
     fold (\<lambda>coefficient v. gf_mul v x XOR coefficient) (rev coefficients) 0"

fun interpolation_coefficient :: "nat \<Rightarrow> raw_share \<Rightarrow> u8 \<Rightarrow> (nat \<times> raw_share) list \<Rightarrow> u8 \<Rightarrow> u8 result" where
  "interpolation_coefficient index share x [] coefficient = Inr coefficient"
| "interpolation_coefficient index share x ((other_index, other) # others) coefficient =
     (if index = other_index then interpolation_coefficient index share x others coefficient
      else
        bindR (gf_div (x XOR rs_index other) (rs_index share XOR rs_index other)) (\<lambda>q.
          interpolation_coefficient index share x others (gf_mul coefficient q)))"

definition value_at :: "raw_share \<Rightarrow> nat \<Rightarrow> u8 result" where
  "value_at share offset = ok_or (Panic (lit ''index out of bounds'')) (list_get (rs_value share) offset)"

fun interpolate_loop :: "raw_share list \<Rightarrow> nat \<Rightarrow> u8 \<Rightarrow> (nat \<times> raw_share) list \<Rightarrow> u8 \<Rightarrow> u8 result" where
  "interpolate_loop shares offset x [] v = Inr v"
| "interpolate_loop shares offset x ((index, share) # rest) v =
     bindR (interpolation_coefficient index share x (enumerate 0 shares) 1) (\<lambda>coefficient.
     bindR (value_at share offset) (\<lambda>b.
       interpolate_loop shares offset x rest (v XOR gf_mul b coefficient)))"

definition interpolate_at :: "raw_share list \<Rightarrow> nat \<Rightarrow> u8 \<Rightarrow> u8 result" where
  "interpolate_at shares offset x = interpolate_loop shares offset x (enumerate 0 shares) 0"

section \<open>Splitting and combining\<close>

definition validate_secret :: "sharing_profile \<Rightarrow> u8 list \<Rightarrow> unit result" where
  "validate_secret profile secret =
     (if secret = [] then Inl (invalid_input (lit ''plaintext must not be empty''))
      else if length secret > sp_max_secret_len profile
        then Inl (invalid_input (lit ''plaintext exceeds sharing profile maximum length''))
      else Inr ())"

definition set_share_byte :: "u8 list \<Rightarrow> nat \<Rightarrow> raw_share \<Rightarrow> raw_share" where
  "set_share_byte coefficients offset share =
     share\<lparr>rs_value := (rs_value share)[offset := evaluate_polynomial coefficients (rs_index share)]\<rparr>"

text \<open>The loop over the bytes of the secret; \<open>rng offset n\<close> answers the request for \<open>n\<close>
  random bytes made for the byte at \<open>offset\<close>. Indexing an empty coefficient vector and
  copying a slice of another length both panic.\<close>

fun split_loop ::
    "(nat \<Rightarrow> nat \<Rightarrow> u8 list result) \<Rightarrow> nat \<Rightarrow> nat \<Rightarrow> u8 list \<Rightarrow> raw_share list \<Rightarrow> raw_share list result" where
  "split_loop rng threshold offset [] output = Inr output"
| "split_loop rng threshold offset (secret_byte # bytes) output =
     (if threshold = 0 then Inl (Panic (lit ''index out of bounds''))
      else bindR (rng offset (threshold - 1)) (\<lambda>random.
        if length random \<noteq> threshold - 1 then Inl (Panic (lit ''copy_from_slice''))
        else split_loop rng threshold (Suc offset) bytes
               (map (set_share_byte (secret_byte # random) offset) output)))"

definition split :: "(nat \<Rightarrow> nat \<Rightarrow> u8 list result) \<Rightarrow> sharing_profile \<Rightarrow> u8 list \<Rightarrow> raw_share list result" where
  "split rng profile secret =
     bindR (validate_secret profile secret) (\<lambda>_.
       split_loop rng (sp_threshold profile) 0 secret
         (map (\<lambda>index. \<lparr>rs_index = word_of_nat index, rs_value = replicate (length secret) 0\<rparr>)
            [1..<Suc (sp_shares profile)]))"

fun validate_raw_shares_loop :: "nat \<Rightarrow> u8 set \<Rightarrow> raw_share list \<Rightarrow> nat result" where
  "validate_raw_shares_loop len indexes [] = Inr len"
| "validate_raw_shares_loop len indexes (share # shares) =
     (if rs_index share = 0 \<or> rs_index share \<in> indexes
      then Inl (invalid_input (lit ''share indexes must be unique''))
      else if length (rs_value share) \<noteq> len
        then Inl (invalid_input (lit ''share payload lengths must match''))
      else validate_raw_shares_loop len (insert (rs_index share) indexes) shares)"

definition validate_raw_shares :: "raw_share list \<Rightarrow> nat result" where
  "validate_raw_shares shares =
     (case shares of
        [] \<Rightarrow> Inl (invalid_input (lit ''shares must not be empty''))
      | first # _ \<Rightarrow> validate_raw_shares_loop (length (rs_value first)) {} shares)"

definition combine :: "raw_share list \<Rightarrow> nat \<Rightarrow> u8 list result" where
  "combine shares threshold =
     (if length shares < threshold
      then Inl (invalid_input (lit ''not enough shares to meet sharing profile threshold''))
      else bindR (validate_raw_shares shares) (\<lambda>len.
        let basis = take threshold shares in
        bindR (try_map (\<lambda>offset. interpolate_at basis offset 0) [0..<len]) (\<lambda>secret.
        bindR (try_for_each (\<lambda>share.
            try_for_each (\<lambda>offset.
              bindR (interpolate_at basis offset (rs_index share)) (\<lambda>expected.
              bindR (value_at share offset) (\<lambda>actual.
                if expected \<noteq> actual
                then Inl (invalid_input (lit ''shares are inconsistent with the sharing set''))
                else Inr ()))) [0..<len]) (drop threshold shares)) (\<lambda>_.
          Inr secret))))"

section \<open>Polynomials over bytes\<close>

lemma GF_evaluate_polynomial: "GF (evaluate_polynomial cs x) = horner (map GF cs) (GF x)"
proof -
  have "evaluate_polynomial (c # cs) x = gf_mul (evaluate_polynomial cs x) x XOR c" for c cs
    by (simp add: evaluate_polynomial_def)
  then show ?thesis
    by (induction cs) (simp_all add: GF_simps evaluate_polynomial_def ac_simps)
qed

lemma GF_eq: "GF a = b \<longleftrightarrow> a = gf_byte b"
  by (metis gf_byte_simps(7,8))

lemma GF_div: "b \<noteq> 0 \<Longrightarrow> gf_div a b = Inr (gf_byte (GF a / GF b))"
  by (simp add: gf_div_def gf_byte_simps)

lemma interpolation_coefficient_eq:
  assumes "\<And>j s. (j, s) \<in> set others \<Longrightarrow> j \<noteq> index \<Longrightarrow> rs_index s \<noteq> rs_index share"
  shows "interpolation_coefficient index share x others c =
    Inr (gf_byte (GF c * (\<Prod>(j, s) \<leftarrow> filter (\<lambda>(j, s). j \<noteq> index) others.
       (GF x - GF (rs_index s)) / (GF (rs_index share) - GF (rs_index s)))))"
  using assms
proof (induction others arbitrary: c)
  case Nil
  then show ?case by (simp add: gf_byte_simps)
next
  case (Cons o' others)
  obtain j s where o': "o' = (j, s)" by (cases o')
  have m: "GF (a XOR b) = GF a - GF b" for a b
    by (simp add: GF_eq gf_byte_simps)
  show ?case
  proof (cases "j = index")
    case True
    then show ?thesis using Cons by (auto simp: o')
  next
    case False
    then have ne: "rs_index share XOR rs_index s \<noteq> 0"
      using Cons.prems [of j s] by (auto simp: o' word_xor_zero_iff)
    let ?q = "(GF x - GF (rs_index s)) / (GF (rs_index share) - GF (rs_index s))"
    have q: "GF (gf_mul c (gf_byte (GF (x XOR rs_index s) / GF (rs_index share XOR rs_index s)))) =
        GF c * ?q"
      by (simp only: GF_simps(4) gf_byte_simps(8) m)
    have "interpolation_coefficient index share x (o' # others) c =
        interpolation_coefficient index share x others
          (gf_mul c (gf_byte (GF (x XOR rs_index s) / GF (rs_index share XOR rs_index s))))"
      using False by (simp add: o' GF_div [OF ne])
    also have "\<dots> = Inr (gf_byte (GF c * ?q * (\<Prod>(j, s) \<leftarrow> filter (\<lambda>(j, s). j \<noteq> index) others.
       (GF x - GF (rs_index s)) / (GF (rs_index share) - GF (rs_index s)))))"
      using Cons.prems by (subst Cons.IH) (auto simp only: q list.set insert_iff)
    finally show ?thesis using False by (simp add: o' mult.assoc)
  qed
qed

lemma enumerate_map: "enumerate 0 xs = map (\<lambda>j. (j, xs ! j)) [0..<length xs]"
  by (rule nth_equalityI) (simp_all add: nth_enumerate_eq)

lemma prod_list_enumerate:
  "(\<Prod>(j, s) \<leftarrow> filter (\<lambda>(j, s). j \<noteq> i) (enumerate 0 xs). f s) =
     (\<Prod>j \<in> {..<length xs} - {i}. (f (xs ! j) :: 'a :: comm_monoid_mult))"
proof -
  have "filter (\<lambda>(j, s). j \<noteq> i) (enumerate 0 xs) =
      map (\<lambda>j. (j, xs ! j)) (filter (\<lambda>j. j \<noteq> i) [0..<length xs])"
    by (simp add: enumerate_map filter_map o_def)
  moreover have "set (filter (\<lambda>j. j \<noteq> i) [0..<length xs]) = {..<length xs} - {i}" by auto
  ultimately show ?thesis
    using prod.distinct_set_conv_list [of "filter (\<lambda>j. j \<noteq> i) [0..<length xs]" "\<lambda>j. f (xs ! j)"]
    by (simp add: o_def)
qed

definition distinct_indexes :: "raw_share list \<Rightarrow> bool" where
  "distinct_indexes shares \<longleftrightarrow> distinct (map rs_index shares)"

definition share_node :: "raw_share list \<Rightarrow> nat \<Rightarrow> gf256" where
  "share_node shares i = GF (rs_index (shares ! i))"

lemma share_node_inj: "distinct_indexes shares \<Longrightarrow> inj_on (share_node shares) {..<length shares}"
  by (auto simp: distinct_indexes_def share_node_def inj_on_def GF_simps distinct_conv_nth)

lemma coefficient_lagrange:
  assumes "distinct_indexes shares" "i < length shares"
  shows "interpolation_coefficient i (shares ! i) x (enumerate 0 shares) 1 =
    Inr (gf_byte (\<Prod>j \<in> {..<length shares} - {i}.
      (GF x - share_node shares j) / (share_node shares i - share_node shares j)))"
proof -
  have "rs_index s \<noteq> rs_index (shares ! i)" if "(j, s) \<in> set (enumerate 0 shares)" "j \<noteq> i" for j s
    using assms that by (auto simp: enumerate_map distinct_indexes_def distinct_conv_nth)
  then show ?thesis
    by (subst interpolation_coefficient_eq)
      (auto simp: GF_simps prod_list_enumerate share_node_def)
qed

lemma interpolate_loop_eq:
  assumes d: "distinct_indexes shares" and len: "\<And>s. s \<in> set shares \<Longrightarrow> offset < length (rs_value s)"
    and js: "set js \<subseteq> {..<length shares}"
  shows "interpolate_loop shares offset x (map (\<lambda>j. (j, shares ! j)) js) v =
    Inr (gf_byte (GF v + (\<Sum>i \<leftarrow> js. GF (rs_value (shares ! i) ! offset) *
      (\<Prod>j \<in> {..<length shares} - {i}.
         (GF x - share_node shares j) / (share_node shares i - share_node shares j)))))"
  using js
proof (induction js arbitrary: v)
  case Nil
  then show ?case by (simp add: gf_byte_simps)
next
  case (Cons i js)
  then have i: "i < length shares" by simp
  then have "value_at (shares ! i) offset = Inr (rs_value (shares ! i) ! offset)"
    using len [of "shares ! i"] by (simp add: value_at_def list_get_def)
  with Cons show ?case
    by (simp add: coefficient_lagrange [OF d i] GF_simps gf_byte_simps(8) add.assoc)
qed

lemma interpolate_at_eq:
  assumes "distinct_indexes shares" "\<And>s. s \<in> set shares \<Longrightarrow> offset < length (rs_value s)"
  shows "interpolate_at shares offset x =
    Inr (gf_byte (lagrange (length shares) (share_node shares)
      (\<lambda>i. GF (rs_value (shares ! i) ! offset)) (GF x)))"
proof -
  have "sum_list (map f [0..<length shares]) = (\<Sum>i<length shares. f i)" for f :: "nat \<Rightarrow> gf256"
    by (simp add: sum_list_distinct_conv_sum_set atLeast0LessThan)
  then show ?thesis
    unfolding interpolate_at_def enumerate_map
    by (subst interpolate_loop_eq [OF assms]) (auto simp: GF_simps lagrange_def)
qed

text \<open>Shares of one polynomial: interpolation at any point gives the polynomial's value.\<close>

lemma interpolate_at_polynomial:
  assumes "distinct_indexes shares" "\<And>s. s \<in> set shares \<Longrightarrow> offset < length (rs_value s)"
    and "length cs = length shares"
    and "\<And>s. s \<in> set shares \<Longrightarrow> rs_value s ! offset = evaluate_polynomial cs (rs_index s)"
  shows "interpolate_at shares offset x = Inr (evaluate_polynomial cs x)"
proof -
  have "lagrange (length shares) (share_node shares) (\<lambda>i. GF (rs_value (shares ! i) ! offset)) (GF x)
      = lagrange (length shares) (share_node shares) (\<lambda>i. horner (map GF cs) (share_node shares i)) (GF x)"
    using assms(4) by (simp add: lagrange_def GF_evaluate_polynomial share_node_def)
  also have "\<dots> = horner (map GF cs) (GF x)"
    using share_node_inj [OF assms(1)] assms(3) by (intro lagrange_interpolation) auto
  finally show ?thesis
    by (simp add: interpolate_at_eq [OF assms(1,2)] GF_evaluate_polynomial [symmetric] gf_byte_simps)
qed

lemma evaluate_polynomial_zero [simp]: "evaluate_polynomial (c # cs) 0 = c"
  by (simp add: evaluate_polynomial_def gf_mul_0_right)

section \<open>What split produces\<close>

definition share_of :: "u8 list list \<Rightarrow> u8 \<Rightarrow> raw_share" where
  "share_of rows x = \<lparr>rs_index = x, rs_value = map (\<lambda>cs. evaluate_polynomial cs x) rows\<rparr>"

lemma split_loop_rows:
  assumes "\<And>s. s \<in> set out \<Longrightarrow> length (rs_value s) = offset + length bytes"
    and "split_loop rng t offset bytes out = Inr res"
  shows "\<exists>rows. list_all2 (\<lambda>b cs. length cs = t \<and> hd cs = b \<and> cs \<noteq> []) bytes rows \<and>
    res = map (\<lambda>s. s\<lparr>rs_value := take offset (rs_value s) @
      map (\<lambda>cs. evaluate_polynomial cs (rs_index s)) rows\<rparr>) out"
  using assms
proof (induction bytes arbitrary: offset out)
  case Nil
  then show ?case by (auto simp: map_idI)
next
  case (Cons b bytes)
  from Cons.prems(2) obtain r where t: "0 < t" and r: "length r = t - 1"
    and rest: "split_loop rng t (Suc offset) bytes (map (set_share_byte (b # r) offset) out) = Inr res"
    by (auto simp: bindR_eq_Inr split: if_splits)
  have len: "length (rs_value s) = Suc offset + length bytes"
    if "s \<in> set (map (set_share_byte (b # r) offset) out)" for s
    using that Cons.prems(1) by (auto simp: set_share_byte_def)
  from Cons.IH [OF len rest] obtain rows where
    rows: "list_all2 (\<lambda>b cs. length cs = t \<and> hd cs = b \<and> cs \<noteq> []) bytes rows"
    and res: "res = map (\<lambda>s. s\<lparr>rs_value := take (Suc offset) (rs_value s) @
      map (\<lambda>cs. evaluate_polynomial cs (rs_index s)) rows\<rparr>) (map (set_share_byte (b # r) offset) out)"
    by blast
  have "take (Suc offset) (v[offset := e]) = take offset v @ [e]" if "offset < length v"
    for v :: "u8 list" and e using that by (simp add: take_Suc_conv_app_nth)
  then have "res = map (\<lambda>s. s\<lparr>rs_value := take offset (rs_value s) @
      map (\<lambda>cs. evaluate_polynomial cs (rs_index s)) ((b # r) # rows)\<rparr>) out"
    using Cons.prems(1) unfolding res by (simp add: set_share_byte_def)
  moreover have "list_all2 (\<lambda>b cs. length cs = t \<and> hd cs = b \<and> cs \<noteq> []) (b # bytes) ((b # r) # rows)"
    using rows r t by simp
  ultimately show ?case by blast
qed

lemma split_rows:
  assumes "split rng p secret = Inr out"
  obtains rows where "secret \<noteq> []" "map hd rows = secret"
    "\<And>cs. cs \<in> set rows \<Longrightarrow> length cs = sp_threshold p \<and> cs \<noteq> []"
    "out = map (\<lambda>i. share_of rows (word_of_nat i)) [1..<Suc (sp_shares p)]"
proof -
  let ?init = "map (\<lambda>i. \<lparr>rs_index = word_of_nat i, rs_value = replicate (length secret) 0\<rparr>)
    [1..<Suc (sp_shares p)]"
  from assms have ne: "secret \<noteq> []"
    and "split_loop rng (sp_threshold p) 0 secret ?init = Inr out"
    by (auto simp: split_def bindR_eq_Inr validate_secret_def simp del: upt_Suc split: if_splits)
  moreover have "length (rs_value s) = 0 + length secret" if "s \<in> set ?init" for s
    using that by (auto simp del: upt_Suc)
  ultimately obtain rows where
    rows: "list_all2 (\<lambda>b cs. length cs = sp_threshold p \<and> hd cs = b \<and> cs \<noteq> []) secret rows"
    and out: "out = map (\<lambda>s. s\<lparr>rs_value := take 0 (rs_value s) @
      map (\<lambda>cs. evaluate_polynomial cs (rs_index s)) rows\<rparr>) ?init"
    using split_loop_rows [of ?init 0 secret rng "sp_threshold p" out] by blast
  have "map hd rows = secret" using rows by (induction rule: list_all2_induct) auto
  moreover have "length cs = sp_threshold p \<and> cs \<noteq> []" if "cs \<in> set rows" for cs
    using list_all2_in2 [OF rows that] by auto
  moreover have "out = map (\<lambda>i. share_of rows (word_of_nat i)) [1..<Suc (sp_shares p)]"
    unfolding out by (simp add: share_of_def del: upt_Suc)
  ultimately show thesis using that ne by blast
qed

section \<open>What combine accepts\<close>

lemma validate_raw_shares_loop_ok:
  "validate_raw_shares_loop len seen shares = Inr l \<longleftrightarrow>
     l = len \<and> distinct_indexes shares \<and> (\<forall>s \<in> set shares. rs_index s \<noteq> 0 \<and> rs_index s \<notin> seen \<and>
       length (rs_value s) = len)"
proof (induction shares arbitrary: seen)
  case (Cons s shares)
  have "rs_index s \<notin> rs_index ` set shares \<longleftrightarrow> (\<forall>s' \<in> set shares. rs_index s' \<noteq> rs_index s)"
    by (auto simp: image_iff)
  then show ?case using Cons by (auto simp: distinct_indexes_def simp del: image_iff)
qed (auto simp: distinct_indexes_def)

lemma validate_raw_shares_ok:
  "validate_raw_shares shares = Inr l \<longleftrightarrow>
     shares \<noteq> [] \<and> distinct_indexes shares \<and> (\<forall>s \<in> set shares. rs_index s \<noteq> 0 \<and> length (rs_value s) = l)"
proof (cases shares)
  case (Cons s rest)
  then have "validate_raw_shares shares = Inr l \<longleftrightarrow> l = length (rs_value s) \<and> distinct_indexes shares \<and>
      (\<forall>s' \<in> set shares. rs_index s' \<noteq> 0 \<and> length (rs_value s') = length (rs_value s))"
    by (simp only: validate_raw_shares_def list.case validate_raw_shares_loop_ok empty_iff simp_thms)
  with Cons show ?thesis by (metis list.set_intros(1) list.distinct(1))
qed (simp add: validate_raw_shares_def)

lemma distinct_indexes_take: "distinct_indexes shares \<Longrightarrow> distinct_indexes (take t shares)"
  by (simp add: distinct_indexes_def take_map [symmetric])

lemma combine_polynomial_shares:
  assumes "t \<le> length shares" "shares \<noteq> []" "distinct_indexes shares"
    and "\<And>s. s \<in> set shares \<Longrightarrow> rs_index s \<noteq> 0 \<and> s = share_of rows (rs_index s)"
    and "\<And>cs. cs \<in> set rows \<Longrightarrow> length cs = t \<and> cs \<noteq> []"
  shows "combine shares t = Inr (map hd rows)"
proof -
  let ?basis = "take t shares" and ?len = "length rows"
  have val: "rs_value s = map (\<lambda>cs. evaluate_polynomial cs (rs_index s)) rows" if "s \<in> set shares" for s
    using assms(4) [OF that] by (metis raw_share.select_convs(2) share_of_def)
  have valid: "validate_raw_shares shares = Inr ?len"
    using assms val by (auto simp: validate_raw_shares_ok)
  have ip: "interpolate_at ?basis k x = Inr (evaluate_polynomial (rows ! k) x)" if "k < ?len" for k x
    using that assms(1,5) val
    by (intro interpolate_at_polynomial distinct_indexes_take assms(3)) (auto dest: in_set_takeD)
  have "try_map (\<lambda>k. interpolate_at ?basis k 0) [0..<?len] = Inr (map hd rows)"
  proof -
    have "interpolate_at ?basis k 0 = Inr (map hd rows ! k)" if "k < ?len" for k
      using ip [OF that, of 0] assms(5) [OF nth_mem [OF that]] that by (cases "rows ! k") auto
    then show ?thesis by (auto simp: try_map_ok list_all2_conv_all_nth)
  qed
  moreover have "interpolate_at ?basis k (rs_index s) = value_at s k"
    if "s \<in> set shares" "k < ?len" for s k
    using ip [OF that(2)] val [OF that(1)] that(2) by (simp add: value_at_def list_get_def)
  moreover have "value_at s k = Inr (rs_value s ! k)" if "s \<in> set shares" "k < ?len" for s k
    using val [OF that(1)] that(2) by (simp add: value_at_def list_get_def)
  ultimately have "try_for_each (\<lambda>share. try_for_each (\<lambda>k.
        bindR (interpolate_at ?basis k (rs_index share)) (\<lambda>e. bindR (value_at share k) (\<lambda>a.
          if e \<noteq> a then Inl (invalid_input (lit ''shares are inconsistent with the sharing set''))
          else Inr ()))) [0..<?len]) (drop t shares) = Inr ()"
    and "try_map (\<lambda>k. interpolate_at ?basis k 0) [0..<?len] = Inr (map hd rows)"
    by (auto simp: try_for_each_ok dest: in_set_dropD)
  then show ?thesis using assms(1) valid by (simp add: combine_def Let_def)
qed

section \<open>Polynomials determined by their values\<close>

lemma evaluate_polynomial_unique:
  assumes "length cs = length ds" "distinct xs" "length xs = length cs"
    and "\<And>x. x \<in> set xs \<Longrightarrow> evaluate_polynomial cs x = evaluate_polynomial ds x"
  shows "cs = ds"
proof -
  have inj: "inj GF" by (simp add: inj_def GF_simps)
  have "map GF cs = map GF ds"
  proof (rule horner_unique [where R = "GF ` set xs"])
    show "card (GF ` set xs) = length (map GF cs)"
      using assms(2,3) inj by (simp add: card_image inj_on_subset distinct_card)
    show "horner (map GF cs) x = horner (map GF ds) x" if "x \<in> GF ` set xs" for x
      using that assms(4) GF_evaluate_polynomial by (metis imageE)
  qed (use assms(1) in auto)
  then show ?thesis using inj by simp
qed

lemma evaluate_polynomial_exists:
  assumes "distinct xs"
  shows "\<exists>cs. length cs = length xs \<and> (\<forall>i < length xs. evaluate_polynomial cs (xs ! i) = y i)"
proof -
  have "inj_on (\<lambda>i. GF (xs ! i)) {..<length xs}"
    using assms by (auto simp: inj_on_def GF_simps distinct_conv_nth)
  from horner_exists [OF this, of "\<lambda>i. GF (y i)"] obtain cs where
    cs: "length cs = length xs" "\<forall>i < length xs. horner cs (GF (xs ! i)) = GF (y i)" by blast
  have "map GF (map gf_byte cs) = cs" by (simp add: o_def gf_byte_simps)
  with cs have "GF (evaluate_polynomial (map gf_byte cs) (xs ! i)) = GF (y i)"
    if "i < length xs" for i using that GF_evaluate_polynomial by metis
  then show ?thesis using cs(1) by (intro exI [of _ "map gf_byte cs"]) (simp add: GF_simps)
qed

text \<open>With the constant term fixed, any values at \<open>n\<close> further points are those of exactly one
  choice of the \<open>n\<close> other coefficients.\<close>

lemma unique_tail:
  assumes "distinct xs" "0 \<notin> set xs" "length xs = n"
  shows "\<exists>!r. length r = n \<and> (\<forall>i < n. evaluate_polynomial (s # r) (xs ! i) = y i)"
proof -
  from evaluate_polynomial_exists [of "0 # xs" "\<lambda>i. if i = 0 then s else y (i - 1)"] assms
  obtain cs where cs: "length cs = Suc n"
    "\<And>i. i < Suc n \<Longrightarrow> evaluate_polynomial cs ((0 # xs) ! i) = (if i = 0 then s else y (i - 1))"
    by auto
  then obtain c r where r: "cs = c # r" "length r = n" by (auto simp: length_Suc_conv)
  with cs(2) [of 0] have "c = s" by simp
  with cs(2) [of "Suc _"] r have "\<forall>i < n. evaluate_polynomial (s # r) (xs ! i) = y i" by fastforce
  moreover have "r' = r" if "length r' = n" "\<forall>i < n. evaluate_polynomial (s # r') (xs ! i) = y i" for r'
  proof -
    have "evaluate_polynomial (s # r') x = evaluate_polynomial (s # r) x" if "x \<in> set (0 # xs)" for x
      using that calculation \<open>\<forall>i < n. evaluate_polynomial (s # r') (xs ! i) = y i\<close> assms(3)
      by (auto simp: in_set_conv_nth)
    then show ?thesis
      using evaluate_polynomial_unique [of "s # r'" "s # r" "0 # xs"] assms that(1) r(2) by simp
  qed
  ultimately show ?thesis using r(2) by blast
qed

section \<open>Soundness of combine\<close>

lemma basis_polynomial:
  assumes "distinct_indexes basis" "\<And>s. s \<in> set basis \<Longrightarrow> k < length (rs_value s)"
  obtains cs where "length cs = length basis"
    "\<And>x. interpolate_at basis k x = Inr (evaluate_polynomial cs x)"
    "\<And>s. s \<in> set basis \<Longrightarrow> rs_value s ! k = evaluate_polynomial cs (rs_index s)"
proof -
  obtain cs where cs: "length cs = length basis"
    "\<And>i. i < length basis \<Longrightarrow> evaluate_polynomial cs (rs_index (basis ! i)) = rs_value (basis ! i) ! k"
    using evaluate_polynomial_exists [of "map rs_index basis" "\<lambda>i. rs_value (basis ! i) ! k"] assms(1)
    by (auto simp: distinct_indexes_def)
  then have v: "rs_value s ! k = evaluate_polynomial cs (rs_index s)" if "s \<in> set basis" for s
    using that by (auto simp: in_set_conv_nth)
  with interpolate_at_polynomial [OF assms cs(1)] cs(1) show thesis using that by blast
qed

lemma combine_sound:
  assumes "combine shares t = Inr secret" "0 < t"
  obtains rows where "t \<le> length shares" "distinct_indexes shares"
    "\<And>s. s \<in> set shares \<Longrightarrow> rs_index s \<noteq> 0 \<and> s = share_of rows (rs_index s)"
    "\<And>cs. cs \<in> set rows \<Longrightarrow> length cs = t" "map hd rows = secret"
proof -
  let ?basis = "take t shares"
  from assms(1) obtain len where t: "t \<le> length shares" and v: "validate_raw_shares shares = Inr len"
    and sec: "try_map (\<lambda>k. interpolate_at ?basis k 0) [0..<len] = Inr secret"
    and con: "\<And>s k. s \<in> set (drop t shares) \<Longrightarrow> k < len \<Longrightarrow>
      interpolate_at ?basis k (rs_index s) = value_at s k"
    by (auto simp: combine_def Let_def result_simps split: if_splits) force
  from v have d: "distinct_indexes shares"
    and s: "\<And>s. s \<in> set shares \<Longrightarrow> rs_index s \<noteq> 0 \<and> length (rs_value s) = len"
    by (auto simp: validate_raw_shares_ok)
  have "\<exists>cs. length cs = t \<and> (\<forall>x. interpolate_at ?basis k x = Inr (evaluate_polynomial cs x)) \<and>
      (\<forall>s \<in> set ?basis. rs_value s ! k = evaluate_polynomial cs (rs_index s))" if "k < len" for k
    using basis_polynomial [OF distinct_indexes_take [OF d, of t], of k] s t that
    by (metis in_set_takeD length_take min.absorb2)
  then obtain f where f: "\<And>k. k < len \<Longrightarrow> length (f k) = t"
    "\<And>k x. k < len \<Longrightarrow> interpolate_at ?basis k x = Inr (evaluate_polynomial (f k) x)"
    "\<And>k s. k < len \<Longrightarrow> s \<in> set ?basis \<Longrightarrow> rs_value s ! k = evaluate_polynomial (f k) (rs_index s)"
    by metis
  let ?rows = "map f [0..<len]"
  have "rs_value s ! k = evaluate_polynomial (f k) (rs_index s)" if "s \<in> set shares" "k < len" for s k
  proof (cases "s \<in> set ?basis")
    case False
    with that(1) have "s \<in> set (drop t shares)" by (metis Un_iff append_take_drop_id set_append)
    from con [OF this that(2)] f(2) [OF that(2)] that s show ?thesis
      by (simp add: value_at_def list_get_def)
  qed (use f(3) that in blast)
  then have sh: "s = share_of ?rows (rs_index s)" if "s \<in> set shares" for s
    using that s [OF that] by (intro raw_share.equality) (auto simp: share_of_def intro!: nth_equalityI)
  have "map hd ?rows = secret"
  proof (rule nth_equalityI)
    have l: "list_all2 (\<lambda>k y. interpolate_at ?basis k 0 = Inr y) [0..<len] secret"
      using sec by (simp add: try_map_ok)
    then show "length (map hd ?rows) = length secret" by (auto dest: list_all2_lengthD)
    show "map hd ?rows ! i = secret ! i" if "i < length (map hd ?rows)" for i
    proof -
      from that have i: "i < len" by simp
      obtain c r where "f i = c # r" using f(1) [OF i] assms(2) by (cases "f i") auto
      with list_all2_nthD [OF l, of i] f(2) [OF i, of 0] i show ?thesis by simp
    qed
  qed
  with t d s sh f(1) show thesis by (intro that [of ?rows]) force+
qed

section \<open>Split on a tape of random bytes\<close>

definition tape_ok :: "sharing_profile \<Rightarrow> u8 list \<Rightarrow> u8 list list \<Rightarrow> bool" where
  "tape_ok p secret tape \<longleftrightarrow>
     length tape = length secret \<and> list_all (\<lambda>r. length r = sp_threshold p - 1) tape"

definition tape_rng :: "u8 list list \<Rightarrow> nat \<Rightarrow> nat \<Rightarrow> u8 list result" where
  "tape_rng tape offset n = ok_or (internal (lit ''random'')) (list_get tape offset)"

lemma split_loop_tape:
  assumes "0 < t" "length tape = length bytes"
    and "\<And>k. k < length bytes \<Longrightarrow> rng (offset + k) (t - 1) = Inr (tape ! k) \<and> length (tape ! k) = t - 1"
    and "\<And>s. s \<in> set out \<Longrightarrow> length (rs_value s) = offset + length bytes"
  shows "split_loop rng t offset bytes out =
    Inr (map (\<lambda>s. s\<lparr>rs_value := take offset (rs_value s) @
      map (\<lambda>cs. evaluate_polynomial cs (rs_index s)) (map2 (#) bytes tape)\<rparr>) out)"
  using assms(2-)
proof (induction bytes arbitrary: offset out tape)
  case Nil
  then show ?case by (auto simp: map_idI)
next
  case (Cons b bytes)
  then obtain r tape' where tape: "tape = r # tape'" by (cases tape) auto
  have r: "rng offset (t - 1) = Inr r" "length r = t - 1"
    using Cons.prems(2) [of 0] by (simp_all add: tape)
  have "rng (Suc offset + k) (t - 1) = Inr (tape' ! k) \<and> length (tape' ! k) = t - 1"
    if "k < length bytes" for k
    using Cons.prems(2) [of "Suc k"] that by (simp add: tape)
  moreover have "length (rs_value s) = Suc offset + length bytes"
    if "s \<in> set (map (set_share_byte (b # r) offset) out)" for s
    using that Cons.prems(3) by (auto simp: set_share_byte_def)
  ultimately have "split_loop rng t (Suc offset) bytes (map (set_share_byte (b # r) offset) out) =
    Inr (map (\<lambda>s. s\<lparr>rs_value := take (Suc offset) (rs_value s) @
      map (\<lambda>cs. evaluate_polynomial cs (rs_index s)) (map2 (#) bytes tape')\<rparr>)
      (map (set_share_byte (b # r) offset) out))"
    using Cons.prems(1) by (intro Cons.IH) (auto simp: tape)
  moreover have "take (Suc offset) (v[offset := e]) = take offset v @ [e]" if "offset < length v"
    for v :: "u8 list" and e using that by (simp add: take_Suc_conv_app_nth)
  ultimately show ?case
    using r assms(1) Cons.prems(3) by (simp add: tape set_share_byte_def)
qed

lemma split_tape:
  assumes "validate_secret p secret = Inr ()" "0 < sp_threshold p" "tape_ok p secret tape"
    and "\<And>k. k < length secret \<Longrightarrow> rng k (sp_threshold p - 1) = Inr (tape ! k)"
  shows "split rng p secret =
    Inr (map (\<lambda>i. share_of (map2 (#) secret tape) (word_of_nat i)) [1..<Suc (sp_shares p)])"
proof -
  have "split rng p secret = split_loop rng (sp_threshold p) 0 secret
      (map (\<lambda>i. \<lparr>rs_index = word_of_nat i, rs_value = replicate (length secret) 0\<rparr>) [1..<Suc (sp_shares p)])"
    using assms(1) by (simp add: split_def del: upt_Suc)
  also have "\<dots> = Inr (map (\<lambda>s. s\<lparr>rs_value := take 0 (rs_value s) @
      map (\<lambda>cs. evaluate_polynomial cs (rs_index s)) (map2 (#) secret tape)\<rparr>)
      (map (\<lambda>i. \<lparr>rs_index = word_of_nat i, rs_value = replicate (length secret) 0\<rparr>) [1..<Suc (sp_shares p)]))"
    using assms by (intro split_loop_tape) (auto simp: tape_ok_def list_all_length simp del: upt_Suc)
  finally show ?thesis by (simp add: share_of_def o_def del: upt_Suc)
qed

end
