(* ===== verification/Share_Envelopes.thy ===== *)
theory Share_Envelopes
  imports Sharing
begin

text \<open>
  The other half of \<open>src/core/sharing.rs\<close>: the loading of sharing profiles, the derivation
  of their keys, and the authenticated envelopes shares travel in. The theorems about splitting
  and combining are stated here for the profiles the loader accepts.
\<close>

section \<open>Profiles\<close>

definition sharing_from_profiles :: "sharing_profile list \<Rightarrow> sharing_profiles_state" where
  "sharing_from_profiles ps = \<lparr>sps_profiles = ps, sps_by_name = index_by_name sp_name ps\<rparr>"

definition sharing_get :: "sharing_profiles_state \<Rightarrow> ustr \<Rightarrow> sharing_profile option" where
  "sharing_get st n = Option.bind (sps_by_name st n) (\<lambda>i. list_get (sps_profiles st) i)"

definition validate_threshold :: "nat \<Rightarrow> nat \<Rightarrow> unit result" where
  "validate_threshold threshold shares =
     (if threshold < SHARING_MIN_THRESHOLD
      then Inl (invalid_input (lit ''sharing_profiles.threshold must be at least '' @
             show_nat SHARING_MIN_THRESHOLD))
      else if shares > INTERNAL_SHARE_MAX
      then Inl (invalid_input (lit ''sharing_profiles.shares exceeds maximum allowed value: '' @
             show_nat INTERNAL_SHARE_MAX))
      else if threshold > shares
      then Inl (invalid_input (lit ''sharing_profiles.threshold must be less than or equal to shares''))
      else Inr ())"

definition validate_max_secret_len :: "nat \<Rightarrow> unit result" where
  "validate_max_secret_len max_secret_len =
     (if max_secret_len = 0
      then Inl (invalid_input (lit ''sharing_profiles.max_secret_len must be at least 1''))
      else if max_secret_len > SHARING_SECRET_MAX_BYTES
      then Inl (invalid_input (lit ''sharing_profiles.max_secret_len exceeds maximum allowed value: '' @
             show_nat SHARING_SECRET_MAX_BYTES))
      else Inr ())"

definition validate_sharing_profile_fields :: "ustr \<Rightarrow> ustr \<Rightarrow> nat \<Rightarrow> nat \<Rightarrow> nat \<Rightarrow> unit result" where
  "validate_sharing_profile_fields name context threshold shares max_secret_len =
     bindR (validate_aad_config_name (lit ''sharing_profiles.name'') name) (\<lambda>_.
     bindR (validate_labels (lit ''sharing_profiles.context'') context SHARING_CONTEXT_MAX_CHARS) (\<lambda>_.
     bindR (validate_threshold threshold shares) (\<lambda>_.
     bindR (validate_max_secret_len max_secret_len) (\<lambda>_. Inr ()))))"

definition derive_sharing_key_for_profile ::
    "crates \<Rightarrow> ustr \<Rightarrow> key_derivation_request \<Rightarrow> derived_key result" where
  "derive_sharing_key_for_profile C ops_symmetric_key_hex request =
     bindR (resolve_mac_algorithm (kdr_hash_algorithm request)) (\<lambda>resolved.
     bindR (hex_decode_q C ops_symmetric_key_hex) (\<lambda>ops_symmetric_key.
     bindR (build_mac_domain_aad
              [(lit ''purpose'', lit ''sharing-key''), (lit ''profile'', kdr_profile_name request),
               (lit ''kid'', kdr_kid request), (lit ''algorithm'', rma_public_algorithm resolved)]
              (kdr_context request)) (\<lambda>info.
     bindR (create_hkdf C ops_symmetric_key SHARING_KEY_SALT (utf8 info) SHARING_KEY_SIZE_BYTES)
       (\<lambda>share_auth_key.
         Inr \<lparr>dk_public_algorithm = rma_public_algorithm resolved,
              dk_botan_algorithm = rma_botan_algorithm resolved, dk_key = share_auth_key\<rparr>))))"

definition check_sharing_input :: "(ustr \<Rightarrow> bool) \<Rightarrow> sharing_profile_input \<Rightarrow> unit result" where
  "check_sharing_input is_loaded_kid i =
     bindR (validate_sharing_profile_fields (spi_name i) (spi_context i) (spi_threshold i)
              (spi_shares i) (spi_max_secret_len i)) (\<lambda>_.
     bindR (map_err (\<lambda>err. invalid_input (lit ''sharing_profiles.kid is invalid: '' @ to_string err))
              (validate_key_id (spi_kid i))) (\<lambda>_.
       if \<not> is_loaded_kid (spi_kid i)
       then Inl (invalid_input
              (lit ''sharing profile references kid not loaded in memory: '' @ spi_kid i))
       else Inr ()))"

definition build_sharing_profile ::
    "crates \<Rightarrow> (ustr \<Rightarrow> ustr result) \<Rightarrow> (key_derivation_request \<Rightarrow> derived_key result) \<Rightarrow>
     sharing_profile_input \<Rightarrow> sharing_profile result" where
  "build_sharing_profile C hash_algorithm_for_kid derive_sharing_key i =
     bindR (hash_algorithm_for_kid (spi_kid i)) (\<lambda>hash_algorithm.
     bindR (derive_sharing_key \<lparr>kdr_profile_name = spi_name i, kdr_kid = spi_kid i,
              kdr_context = spi_context i, kdr_hash_algorithm = hash_algorithm\<rparr>) (\<lambda>derived.
       if length (dk_key derived) \<noteq> SHARING_KEY_SIZE_BYTES
       then Inl (internal (lit ''derived sharing key has invalid length''))
       else
     bindR (build_mac_domain_aad [(lit ''profile'', spi_name i), (lit ''kid'', spi_kid i)]
              (spi_context i)) (\<lambda>customization.
     bindR (derive_keyed_tag_subkey C (dk_public_algorithm derived) (dk_key derived)
              SHARING_HMAC_SUBKEY_SALT customization SHARING_KEY_SIZE_BYTES) (\<lambda>share_auth_key.
       Inr \<lparr>sp_name = spi_name i, sp_kid = spi_kid i, sp_threshold = spi_threshold i,
            sp_shares = spi_shares i, sp_max_secret_len = spi_max_secret_len i,
            sp_context = spi_context i, sp_public_algorithm = dk_public_algorithm derived,
            sp_botan_algorithm = dk_botan_algorithm derived,
            sp_customization = customization, sp_share_auth_key = share_auth_key\<rparr>))))"

fun validate_sharing_loop ::
    "crates \<Rightarrow> (ustr \<Rightarrow> bool) \<Rightarrow> (ustr \<Rightarrow> ustr result) \<Rightarrow>
     (key_derivation_request \<Rightarrow> derived_key result) \<Rightarrow> ustr set \<Rightarrow> sharing_profile_input list \<Rightarrow>
     sharing_profile list result" where
  "validate_sharing_loop C loaded hash_for derive seen_names [] = Inr []"
| "validate_sharing_loop C loaded hash_for derive seen_names (i # is) =
     bindR (check_sharing_input loaded i) (\<lambda>_.
       if spi_name i \<in> seen_names
       then Inl (invalid_input (lit ''sharing profile has duplicated name: '' @ spi_name i))
       else bindR (build_sharing_profile C hash_for derive i) (\<lambda>p.
         bindR (validate_sharing_loop C loaded hash_for derive (insert (spi_name i) seen_names) is)
           (\<lambda>ps. Inr (p # ps))))"

definition validate_sharing_profiles ::
    "crates \<Rightarrow> (ustr \<Rightarrow> bool) \<Rightarrow> (ustr \<Rightarrow> ustr result) \<Rightarrow>
     (key_derivation_request \<Rightarrow> derived_key result) \<Rightarrow> sharing_profile_input list \<Rightarrow>
     sharing_profiles_state result" where
  "validate_sharing_profiles C loaded hash_for derive inputs =
     bindR (validate_sharing_loop C loaded hash_for derive {} inputs)
       (\<lambda>ps. Inr (sharing_from_profiles ps))"

definition uses_kmac :: "sharing_profile \<Rightarrow> bool" where
  "uses_kmac profile = is_kmac_algorithm (sp_public_algorithm profile)"

section \<open>Envelopes\<close>

text \<open>\<open>UnsignedShareEnvelope\<close> is a \<open>share_envelope\<close> whose \<open>tag\<close> is not looked at. The
  canonical form has the keys in order; \<open>serde\<close> reads an object back into the record when it
  has exactly the fields of the struct, whatever their order, with values of their types.\<close>

definition unsigned_fields :: "share_envelope \<Rightarrow> (ustr \<times> json) list" where
  "unsigned_fields e =
     [(lit ''index'', JNumber (int (unat (se_index e)))), (lit ''kid'', JString (se_kid e)),
      (lit ''profile'', JString (se_profile e)), (lit ''set_id'', JString (se_set_id e)),
      (lit ''share'', JString (se_share e)), (lit ''shares'', JNumber (int (se_shares e))),
      (lit ''threshold'', JNumber (int (se_threshold e))), (lit ''version'', JString (se_version e))]"

definition unsigned_json :: "share_envelope \<Rightarrow> json" where
  "unsigned_json e = JObject (unsigned_fields e)"

definition envelope_json :: "share_envelope \<Rightarrow> json" where
  "envelope_json e =
     JObject (take 6 (unsigned_fields e) @ (lit ''tag'', JString (se_tag e)) # drop 6 (unsigned_fields e))"

fun as_usize :: "json \<Rightarrow> nat option" where
  "as_usize (JNumber n) = (if 0 \<le> n \<and> n < 2 ^ 64 then Some (nat n) else None)"
| "as_usize _ = None"

definition envelope_keys :: "ustr list" where
  "envelope_keys = [lit ''version'', lit ''set_id'', lit ''profile'', lit ''kid'', lit ''threshold'',
     lit ''shares'', lit ''index'', lit ''share'', lit ''tag'']"

fun envelope_of_values :: "json list \<Rightarrow> share_envelope option" where
  "envelope_of_values [version, set_id, profile, kid, threshold, shares, index, share, tag] =
     Option.bind (as_str version) (\<lambda>version. Option.bind (as_str set_id) (\<lambda>set_id.
     Option.bind (as_str profile) (\<lambda>profile. Option.bind (as_str kid) (\<lambda>kid.
     Option.bind (as_usize threshold) (\<lambda>threshold. Option.bind (as_usize shares) (\<lambda>shares.
     Option.bind (as_u8 index) (\<lambda>index. Option.bind (as_str share) (\<lambda>share.
     Option.bind (as_str tag) (\<lambda>tag.
       Some \<lparr>se_version = version, se_set_id = set_id, se_profile = profile, se_kid = kid,
             se_threshold = threshold, se_shares = shares, se_index = index, se_share = share,
             se_tag = tag\<rparr>)))))))))"
| "envelope_of_values _ = None"

fun share_envelope_of_json :: "json \<Rightarrow> share_envelope option" where
  "share_envelope_of_json (JObject fs) =
     (if list_all (\<lambda>(k, _). k \<in> set envelope_keys) fs
      then Option.bind (those (map (only_field fs) envelope_keys)) envelope_of_values
      else None)"
| "share_envelope_of_json (JArray vs) = envelope_of_values vs"
| "share_envelope_of_json _ = None"

definition strip_prefix :: "ustr \<Rightarrow> ustr \<Rightarrow> ustr option" where
  "strip_prefix p s = (if starts_with p s then Some (drop (length p) s) else None)"

definition validate_set_id :: "crates \<Rightarrow> ustr \<Rightarrow> unit result" where
  "validate_set_id C set_id =
     bindR (ok_or (invalid_input (lit ''set_id contains invalid sharing encoding'')) (url_decode C set_id))
       (\<lambda>decoded.
         if length decoded \<noteq> SHARING_SET_ID_BYTES
         then Inl (invalid_input (lit ''set_id length does not match sharing format''))
         else Inr ())"

definition validate_raw_share :: "sharing_profile \<Rightarrow> raw_share \<Rightarrow> unit result" where
  "validate_raw_share profile raw_share =
     (if rs_index raw_share = 0 \<or> unat (rs_index raw_share) > sp_shares profile
      then Inl (invalid_input (lit ''share index is outside sharing profile range''))
      else if rs_value raw_share = [] \<or> length (rs_value raw_share) > sp_max_secret_len profile
      then Inl (invalid_input (lit ''share payload length does not match sharing profile''))
      else Inr ())"

definition compute_tag :: "crates \<Rightarrow> sharing_profile \<Rightarrow> share_envelope \<Rightarrow> u8 list result" where
  "compute_tag C profile unsigned_env =
     bindR (canonical_json_v1 C (unsigned_json unsigned_env)) (\<lambda>payload.
       compute_keyed_tag C (uses_kmac profile) (sp_botan_algorithm profile)
         (sp_share_auth_key profile) (sp_customization profile) payload)"

definition encode_share :: "crates \<Rightarrow> sharing_profile \<Rightarrow> ustr \<Rightarrow> raw_share \<Rightarrow> ustr result" where
  "encode_share C profile set_id raw_share =
     bindR (validate_set_id C set_id) (\<lambda>_.
     bindR (validate_raw_share profile raw_share) (\<lambda>_.
     let unsigned_env = \<lparr>se_version = lit ''sss-v1'', se_set_id = set_id, se_profile = sp_name profile,
           se_kid = sp_kid profile, se_threshold = sp_threshold profile, se_shares = sp_shares profile,
           se_index = rs_index raw_share, se_share = url_encode C (rs_value raw_share), se_tag = []\<rparr> in
     bindR (compute_tag C profile unsigned_env) (\<lambda>tag.
     bindR (canonical_json_v1 C (envelope_json (unsigned_env\<lparr>se_tag := hex_encode C tag\<rparr>))) (\<lambda>encoded.
       Inr (SHARE_PREFIX @ url_encode C encoded)))))"

definition parse_share_envelope :: "crates \<Rightarrow> ustr \<Rightarrow> share_envelope result" where
  "parse_share_envelope C encoded =
     (if str_len encoded > SHARE_ENVELOPE_MAX_CHARS
      then Inl (invalid_input (lit ''share exceeds maximum allowed length''))
      else
     bindR (ok_or (invalid_input (lit ''share must use vectis-sss-v1 encoding''))
              (strip_prefix SHARE_PREFIX encoded)) (\<lambda>encoded.
     bindR (ok_or (invalid_input (lit ''share contains invalid vectis-sss-v1 encoding''))
              (url_decode C encoded)) (\<lambda>bytes.
       ok_or (invalid_input (lit ''share contains invalid vectis-sss-v1 envelope''))
         (Option.bind (json_from_slice C bytes) share_envelope_of_json))))"

definition validate_share_envelope_encoding :: "crates \<Rightarrow> ustr \<Rightarrow> unit result" where
  "validate_share_envelope_encoding C encoded = bindR (parse_share_envelope C encoded) (\<lambda>_. Inr ())"

definition validate_envelope :: "crates \<Rightarrow> sharing_profile \<Rightarrow> share_envelope \<Rightarrow> unit result" where
  "validate_envelope C profile envelope =
     (if se_version envelope \<noteq> lit ''sss-v1''
      then Inl (invalid_input (lit ''share version is not supported''))
      else bindR (validate_set_id C (se_set_id envelope)) (\<lambda>_.
        if se_profile envelope \<noteq> sp_name profile
        then Inl (invalid_input (lit ''share profile does not match sharing profile''))
        else if se_kid envelope \<noteq> sp_kid profile
        then Inl (invalid_input (lit ''share kid does not match sharing profile''))
        else if se_threshold envelope \<noteq> sp_threshold profile \<or> se_shares envelope \<noteq> sp_shares profile
        then Inl (invalid_input (lit ''share threshold does not match sharing profile''))
        else if se_index envelope = 0 \<or> unat (se_index envelope) > sp_shares profile
        then Inl (invalid_input (lit ''share index is outside sharing profile range''))
        else Inr ()))"

definition decode_share :: "crates \<Rightarrow> sharing_profile \<Rightarrow> ustr \<Rightarrow> (ustr \<times> raw_share) result" where
  "decode_share C profile encoded =
     bindR (parse_share_envelope C encoded) (\<lambda>envelope.
     bindR (validate_envelope C profile envelope) (\<lambda>_.
     bindR (compute_tag C profile (envelope\<lparr>se_version := lit ''sss-v1''\<rparr>)) (\<lambda>expected.
     bindR (ok_or (invalid_input (lit ''share tag contains invalid encoding''))
              (hex_decode C (se_tag envelope))) (\<lambda>actual.
       if \<not> constant_time_eq expected actual
       then Inl (invalid_input (lit ''share authentication failed''))
       else
     bindR (ok_or (invalid_input (lit ''share payload contains invalid encoding''))
              (url_decode C (se_share envelope))) (\<lambda>v.
     let raw_share = \<lparr>rs_index = se_index envelope, rs_value = v\<rparr> in
     bindR (validate_raw_share profile raw_share) (\<lambda>_.
       Inr (se_set_id envelope, raw_share)))))))"

section \<open>The profile registry\<close>

lemma build_sharing_profile_name: "build_sharing_profile C h d i = Inr p \<Longrightarrow> sp_name p = spi_name i"
  by (auto simp: build_sharing_profile_def result_simps)

interpretation sharings: profile_loader sp_name sharing_from_profiles sharing_get
    spi_name "check_sharing_input loaded"
    "\<lambda>i. invalid_input (lit ''sharing profile has duplicated name: '' @ spi_name i)"
    "build_sharing_profile C hash_for derive"
    "validate_sharing_loop C loaded hash_for derive" "validate_sharing_profiles C loaded hash_for derive"
  for C loaded hash_for derive
  by unfold_locales
    (auto simp: sharing_from_profiles_def sharing_get_def validate_sharing_profiles_def
      build_sharing_profile_name)

definition sharing_wf :: "sharing_profile \<Rightarrow> bool" where
  "sharing_wf p \<longleftrightarrow> 2 \<le> sp_threshold p \<and> sp_threshold p \<le> sp_shares p \<and> sp_shares p \<le> 32 \<and>
     0 < sp_max_secret_len p \<and> sp_max_secret_len p \<le> 4096"

lemma sharing_get_wf:
  assumes "validate_sharing_profiles C loaded hash_for derive is = Inr st" "sharing_get st n = Some p"
  shows "sharing_wf p \<and> loaded (sp_kid p) \<and> sp_name p = n"
proof -
  from sharings.load_sound [OF assms] obtain i where
    "check_sharing_input loaded i = Inr ()" "build_sharing_profile C hash_for derive i = Inr p"
    "spi_name i = n" by auto
  then show ?thesis
    by (auto simp: check_sharing_input_def build_sharing_profile_def result_simps sharing_wf_def
        validate_sharing_profile_fields_def validate_threshold_def validate_max_secret_len_def
        SHARING_MIN_THRESHOLD_def INTERNAL_SHARE_MAX_def SHARING_SECRET_MAX_BYTES_def split: if_splits)
qed

section \<open>Splitting and combining under a loaded profile\<close>

lemma unat_index: "i < 256 \<Longrightarrow> unat (word_of_nat i :: u8) = i"
  by (simp add: unsigned_of_nat take_bit_nat_eq_self)

lemma share_indexes:
  assumes "n \<le> 32"
  shows "distinct (map (\<lambda>i. word_of_nat i :: u8) [1..<Suc n])"
    and "i \<in> set [1..<Suc n] \<Longrightarrow> (word_of_nat i :: u8) \<noteq> 0"
proof -
  have lt: "0 < i \<and> i < 256" if "i \<in> set [1..<Suc n]" for i
    using that assms by (auto simp del: upt_Suc)
  have "inj_on (\<lambda>i. word_of_nat i :: u8) (set [1..<Suc n])"
    by (rule inj_onI) (metis lt unat_index)
  then show "distinct (map (\<lambda>i. word_of_nat i :: u8) [1..<Suc n])"
    by (simp only: distinct_map distinct_upt)
  show "(word_of_nat i :: u8) \<noteq> 0" if "i \<in> set [1..<Suc n]"
    using lt [OF that] unat_index [of i] by (metis less_irrefl unat_0)
qed

lemma split_shares:
  assumes "sharing_wf p" "split rng p secret = Inr out"
  obtains rows where "distinct_indexes out" "map hd rows = secret" "length out = sp_shares p"
    "\<And>cs. cs \<in> set rows \<Longrightarrow> length cs = sp_threshold p \<and> cs \<noteq> []"
    "\<And>s. s \<in> set out \<Longrightarrow> rs_index s \<noteq> 0 \<and> s = share_of rows (rs_index s)"
proof -
  obtain rows where rows: "map hd rows = secret"
    "\<And>cs. cs \<in> set rows \<Longrightarrow> length cs = sp_threshold p \<and> cs \<noteq> []"
    "out = map (\<lambda>i. share_of rows (word_of_nat i)) [1..<Suc (sp_shares p)]"
    using split_rows [OF assms(2)] by metis
  have n: "sp_shares p \<le> 32" using assms(1) by (simp add: sharing_wf_def)
  have idx: "rs_index (share_of rows x) = x" for x by (simp add: share_of_def)
  have "map rs_index out = map (\<lambda>i. word_of_nat i) [1..<Suc (sp_shares p)]"
    by (simp add: rows(3) idx del: upt_Suc)
  then have "distinct_indexes out"
    using share_indexes(1) [OF n] by (simp only: distinct_indexes_def)
  moreover have "rs_index s \<noteq> 0 \<and> s = share_of rows (rs_index s)" if "s \<in> set out" for s
    using that share_indexes(2) [OF n] by (auto simp: rows(3) idx simp del: upt_Suc)
  moreover have "length out = sp_shares p" by (simp add: rows(3) del: upt_Suc)
  ultimately show thesis using that rows(1,2) by metis
qed

lemma split_tape_nth:
  assumes "sharing_wf p" "validate_secret p secret = Inr ()" "tape_ok p secret tape"
  obtains out where "split (tape_rng tape) p secret = Inr out" "length out = sp_shares p"
    "\<And>i. i < sp_shares p \<Longrightarrow> out ! i = share_of (map2 (#) secret tape) (word_of_nat (Suc i))"
proof -
  have "split (tape_rng tape) p secret =
      Inr (map (\<lambda>i. share_of (map2 (#) secret tape) (word_of_nat i)) [1..<Suc (sp_shares p)])"
    using assms by (intro split_tape) (auto simp: sharing_wf_def tape_ok_def tape_rng_def list_get_def)
  then show thesis using that by (simp del: upt_Suc of_nat_Suc)
qed

lemma combine_selected:
  assumes wf: "sharing_wf p" and split_: "split rng p secret = Inr out"
    and sel: "set selected \<subseteq> set out" "distinct selected" "sp_threshold p \<le> length selected"
  shows "combine selected (sp_threshold p) = Inr secret"
proof -
  from split_shares [OF wf split_] obtain rows where rows: "distinct_indexes out" "map hd rows = secret"
    "\<And>cs. cs \<in> set rows \<Longrightarrow> length cs = sp_threshold p \<and> cs \<noteq> []"
    "\<And>s. s \<in> set out \<Longrightarrow> rs_index s \<noteq> 0 \<and> s = share_of rows (rs_index s)" by metis
  have "inj_on rs_index (set selected)"
    using rows(1) sel(1) by (auto simp: distinct_indexes_def distinct_map intro: inj_on_subset)
  then have "distinct_indexes selected"
    using sel(2) by (simp add: distinct_indexes_def distinct_map)
  moreover have "selected \<noteq> []" using sel(3) wf by (auto simp: sharing_wf_def)
  ultimately show ?thesis
    using combine_polynomial_shares [of "sp_threshold p" selected rows] rows sel(1,3) by blast
qed

text \<open>C1: any selection of at least \<open>threshold\<close> different shares of a split, in any order,
  combines to the secret that was split, for every profile the loader accepts, every secret and
  every outcome of the random generator.\<close>

theorem split_combine:
  assumes "validate_sharing_profiles C loaded hash_for derive is = Inr st"
    and "sharing_get st n = Some p"
    and "split rng p secret = Inr out"
    and "set selected \<subseteq> set out" and "distinct selected" and "sp_threshold p \<le> length selected"
  shows "combine selected (sp_threshold p) = Inr secret"
  using combine_selected [OF _ assms(3-6)] sharing_get_wf [OF assms(1,2)] by simp

definition example_sharing_input :: sharing_profile_input where
  "example_sharing_input =
     \<lparr>spi_name = lit ''k'', spi_kid = example_kid, spi_threshold = 2, spi_shares = 3,
      spi_max_secret_len = 16, spi_context = lit ''a=b''\<rparr>"

definition example_sharing_profile :: sharing_profile where
  "example_sharing_profile =
     \<lparr>sp_name = lit ''k'', sp_kid = example_kid, sp_threshold = 2, sp_shares = 3,
      sp_max_secret_len = 16, sp_context = lit ''a=b'', sp_public_algorithm = lit ''KMAC-256'',
      sp_botan_algorithm = lit ''KMAC-256(256)'',
      sp_customization = lit ''profile=k;kid='' @ example_kid @ lit '';context.a=b'',
      sp_share_auth_key = replicate 32 7\<rparr>"

definition example_derive :: "key_derivation_request \<Rightarrow> derived_key result" where
  "example_derive r = Inr \<lparr>dk_public_algorithm = lit ''KMAC-256'',
     dk_botan_algorithm = lit ''KMAC-256(256)'', dk_key = replicate 32 7\<rparr>"

lemma example_customization:
  "build_mac_domain_aad [(lit ''profile'', lit ''k''), (lit ''kid'', example_kid)] (lit ''a=b'') =
     Inr (lit ''profile=k;kid='' @ example_kid @ lit '';context.a=b'')"
proof -
  have k: "59 \<notin> set example_kid" "61 \<notin> set example_kid" "\<not> list_ex is_control example_kid"
    "\<not> blank example_kid"
    by (simp_all add: example_kid_def char_simps blank_def list_all_iff list_ex_iff)
  show ?thesis
    by (simp add: build_mac_domain_aad_def validate_labels_def validate_text_field_def k
        MAC_CONTEXT_MAX_CHARS_def context_label_def split_once_def build_validated_aad_def
        validate_aad_key_def validate_aad_value_def reject_aad_delimiters_def build_aad_def
        lit_def char_simps is_aad_key_char_def)
qed

lemma example_sharing_load:
  "validate_sharing_profiles C (\<lambda>_. True) (\<lambda>_. Inr []) example_derive
     [example_sharing_input] = Inr (sharing_from_profiles [example_sharing_profile])"
proof -
  have t: "validate_aad_config_name f (lit ''k'') = Inr ()" for f
    by (simp add: result_simps lit_def char_simps CONFIG_NAME_MAX_CHARS_def)
  have l: "validate_labels f (lit ''a=b'') SHARING_CONTEXT_MAX_CHARS = Inr ()" for f
    by (simp add: validate_labels_def validate_text_field_def SHARING_CONTEXT_MAX_CHARS_def
        split_once_def lit_def char_simps is_aad_key_char_def)
  have c: "check_sharing_input (\<lambda>_. True) example_sharing_input = Inr ()"
    by (simp add: check_sharing_input_def validate_sharing_profile_fields_def t l example_key_id
        example_sharing_input_def validate_threshold_def validate_max_secret_len_def
        SHARING_MIN_THRESHOLD_def INTERNAL_SHARE_MAX_def SHARING_SECRET_MAX_BYTES_def)
  have k: "is_kmac_algorithm (lit ''KMAC-256'')"
    by (simp add: is_kmac_algorithm_def starts_with_def lit_def)
  have "build_sharing_profile C (\<lambda>_. Inr []) example_derive example_sharing_input =
      Inr example_sharing_profile"
    by (simp add: build_sharing_profile_def example_derive_def example_sharing_input_def
        example_customization derive_keyed_tag_subkey_def k SHARING_KEY_SIZE_BYTES_def
        example_sharing_profile_def)
  with c show ?thesis by (simp add: validate_sharing_profiles_def)
qed

lemma example_sharing_get:
  "sharing_get (sharing_from_profiles [example_sharing_profile]) (lit ''k'') = Some example_sharing_profile"
  by (simp add: sharing_get_def sharing_from_profiles_def index_by_name_def example_sharing_profile_def
      list_get_def)

theorem split_combine_witness:
  "\<exists>out. split (tape_rng [[9], [200]]) example_sharing_profile [83, 1] = Inr out \<and>
     combine [out ! 2, out ! 0] 2 = Inr [83, 1]"
proof -
  let ?p = example_sharing_profile
  have "sharing_wf ?p" "validate_secret ?p [83, 1] = Inr ()" "tape_ok ?p [83, 1] [[9], [200]]"
    by (simp_all add: sharing_wf_def validate_secret_def tape_ok_def example_sharing_profile_def)
  then obtain out where out: "split (tape_rng [[9], [200]]) ?p [83, 1] = Inr out" "length out = sp_shares ?p"
    "\<And>i. i < sp_shares ?p \<Longrightarrow> out ! i = share_of (map2 (#) [83, 1] [[9], [200]]) (word_of_nat (Suc i))"
    using split_tape_nth by blast
  have sh: "sp_shares ?p = 3" and th: "sp_threshold ?p = 2"
    by (simp_all add: example_sharing_profile_def)
  have "out ! 2 \<noteq> out ! 0" using out(3) [of 0] out(3) [of 2] sh by (simp add: share_of_def)
  then have "combine [out ! 2, out ! 0] (sp_threshold ?p) = Inr [83, 1]"
    using split_combine [OF example_sharing_load example_sharing_get out(1), of "[out ! 2, out ! 0]"]
      out(2) sh th by simp
  with out(1) th show ?thesis by auto
qed

text \<open>C36: \<open>combine\<close> accepts a list of shares exactly when there are at least \<open>threshold\<close> of
  them, their indexes are nonzero and different, and all of them, those beyond the threshold
  included, lie on one polynomial with \<open>threshold\<close> coefficients for each byte; the result is then
  the list of the constant terms. A share that was altered or comes from another split is never
  silently mixed in.\<close>

theorem combine_accepts_iff:
  "combine shares (Suc t) = Inr secret \<longleftrightarrow>
     Suc t \<le> length shares \<and> distinct_indexes shares \<and> list_all (\<lambda>s. rs_index s \<noteq> 0) shares \<and>
     (\<exists>rows. map hd rows = secret \<and> list_all (\<lambda>cs. length cs = Suc t) rows \<and>
        list_all (\<lambda>s. s = share_of rows (rs_index s)) shares)"
  (is "?l \<longleftrightarrow> ?r")
proof
  assume ?l
  from combine_sound [OF this] obtain rows where "Suc t \<le> length shares" "distinct_indexes shares"
    "\<And>s. s \<in> set shares \<Longrightarrow> rs_index s \<noteq> 0 \<and> s = share_of rows (rs_index s)"
    "\<And>cs. cs \<in> set rows \<Longrightarrow> length cs = Suc t" "map hd rows = secret" by blast
  then show ?r by (auto simp only: list_all_iff)
next
  assume ?r
  then obtain rows where rows: "map hd rows = secret" "Suc t \<le> length shares" "distinct_indexes shares"
    "\<And>s. s \<in> set shares \<Longrightarrow> rs_index s \<noteq> 0 \<and> s = share_of rows (rs_index s)"
    "\<And>cs. cs \<in> set rows \<Longrightarrow> length cs = Suc t" by (auto simp only: list_all_iff)
  then have "cs \<noteq> []" if "cs \<in> set rows" for cs using that by fastforce
  with rows combine_polynomial_shares [of "Suc t" shares rows] show ?l by fastforce
qed

lemma share_of_eq_iff:
  assumes "length tape = length secret" "length tape' = length secret'" "length secret' = length secret"
  shows "share_of (map2 (#) secret' tape') x = share_of (map2 (#) secret tape) x \<longleftrightarrow>
    (\<forall>b < length secret. evaluate_polynomial (secret' ! b # tape' ! b) x =
       evaluate_polynomial (secret ! b # tape ! b) x)"
  using assms by (auto simp: share_of_def list_eq_iff_nth_eq)

lemma secrecy_tape:
  assumes "sharing_wf p" "tape_ok p secret tape" "length secret' = length secret"
    and "K \<subseteq> {..<sp_shares p}" "card K = sp_threshold p - 1"
  shows "\<exists>!tape'. tape_ok p secret' tape' \<and> (\<forall>i \<in> K.
    share_of (map2 (#) secret' tape') (word_of_nat (Suc i)) = share_of (map2 (#) secret tape) (word_of_nat (Suc i)))"
proof -
  define ks where "ks = sorted_list_of_set K"
  have fin: "finite K" using assms(4) finite_subset by blast
  have ks: "set ks = K" "length ks = sp_threshold p - 1" "distinct ks"
    using assms(5) fin by (simp_all add: ks_def)
  define xs where "xs = map (\<lambda>i. word_of_nat (Suc i) :: u8) ks"
  have lt: "Suc i < 256" if "i \<in> K" for i
    using that assms(1,4) by (auto simp: sharing_wf_def)
  have "inj_on (\<lambda>i. word_of_nat (Suc i) :: u8) K"
    by (rule inj_onI) (metis lt unat_index Suc_inject)
  then have d: "distinct xs" using ks by (simp add: xs_def distinct_map del: of_nat_Suc)
  have "word_of_nat (Suc i) \<noteq> (0 :: u8)" if "i \<in> K" for i
    using lt [OF that] unat_index [of "Suc i"] by (metis Zero_not_Suc unat_0)
  then have z: "0 \<notin> set xs" using ks(1) by (auto simp: xs_def simp del: of_nat_Suc)
  have xs: "set xs = (\<lambda>i. word_of_nat (Suc i)) ` K" using ks(1) by (simp add: xs_def)
  let ?n = "sp_threshold p - 1"
  have "\<exists>!r. length r = ?n \<and> (\<forall>i < ?n. evaluate_polynomial (secret' ! b # r) (xs ! i) =
      evaluate_polynomial (secret ! b # tape ! b) (xs ! i))" for b
    using unique_tail [OF d z] ks(2) by (simp add: xs_def)
  then have "\<exists>!tape'. length tape' = length secret \<and> (\<forall>b < length secret. length (tape' ! b) = ?n \<and>
      (\<forall>i < ?n. evaluate_polynomial (secret' ! b # tape' ! b) (xs ! i) =
        evaluate_polynomial (secret ! b # tape ! b) (xs ! i)))"
    by (intro ex1_list)
  moreover have "(\<forall>i < ?n. evaluate_polynomial cs (xs ! i) = evaluate_polynomial ds (xs ! i)) \<longleftrightarrow>
      (\<forall>i \<in> K. evaluate_polynomial cs (word_of_nat (Suc i)) = evaluate_polynomial ds (word_of_nat (Suc i)))"
    for cs ds
  proof -
    have "(\<forall>i < ?n. evaluate_polynomial cs (xs ! i) = evaluate_polynomial ds (xs ! i)) \<longleftrightarrow>
        (\<forall>x \<in> set xs. evaluate_polynomial cs x = evaluate_polynomial ds x)"
      using ks(2) by (simp add: all_set_conv_all_nth xs_def)
    then show ?thesis by (simp add: xs)
  qed
  ultimately have "\<exists>!tape'. length tape' = length secret \<and> (\<forall>b < length secret. length (tape' ! b) = ?n \<and>
      (\<forall>i \<in> K. evaluate_polynomial (secret' ! b # tape' ! b) (word_of_nat (Suc i)) =
        evaluate_polynomial (secret ! b # tape ! b) (word_of_nat (Suc i))))"
    by (simp only:)
  moreover have "tape_ok p secret' tape' \<and> (\<forall>i \<in> K. share_of (map2 (#) secret' tape') (word_of_nat (Suc i)) =
        share_of (map2 (#) secret tape) (word_of_nat (Suc i))) \<longleftrightarrow>
      length tape' = length secret \<and> (\<forall>b < length secret. length (tape' ! b) = ?n \<and>
      (\<forall>i \<in> K. evaluate_polynomial (secret' ! b # tape' ! b) (word_of_nat (Suc i)) =
        evaluate_polynomial (secret ! b # tape ! b) (word_of_nat (Suc i))))" for tape'
  proof (cases "length tape' = length secret")
    case True
    with assms(2,3) show ?thesis
      by (auto simp: tape_ok_def list_all_length share_of_eq_iff simp del: of_nat_Suc)
  qed (use assms(3) in \<open>simp add: tape_ok_def\<close>)
  ultimately show ?thesis by (simp only:)
qed

text \<open>C12: perfect secrecy. Fix the shares of a split at any \<open>threshold - 1\<close> positions; for every
  secret of the same length there is exactly one choice of random bytes that gives these same
  shares. As the random bytes are drawn uniformly, what \<open>threshold - 1\<close> holders see has the same
  probability under every secret.\<close>

theorem split_secrecy:
  assumes "validate_sharing_profiles C loaded hash_for derive is = Inr st"
    and "sharing_get st n = Some p"
    and "validate_secret p secret = Inr ()" and "tape_ok p secret tape"
    and "split (tape_rng tape) p secret = Inr out"
    and "length secret' = length secret"
    and "K \<subseteq> {..<sp_shares p}" and "card K = sp_threshold p - 1"
  shows "\<exists>!tape'. tape_ok p secret' tape' \<and>
    (\<exists>out'. split (tape_rng tape') p secret' = Inr out' \<and> (\<forall>i \<in> K. out' ! i = out ! i))"
proof -
  have wf: "sharing_wf p" using sharing_get_wf [OF assms(1,2)] by simp
  have v': "validate_secret p secret' = Inr ()"
    using assms(3,6) by (auto simp: validate_secret_def split: if_splits)
  have out: "out ! i = share_of (map2 (#) secret tape) (word_of_nat (Suc i))" if "i < sp_shares p" for i
    using split_tape_nth [OF wf assms(3,4)] assms(5) that by (metis sum.inject(2))
  have "(\<exists>out'. split (tape_rng tape') p secret' = Inr out' \<and> (\<forall>i \<in> K. out' ! i = out ! i)) \<longleftrightarrow>
      (\<forall>i \<in> K. share_of (map2 (#) secret' tape') (word_of_nat (Suc i)) =
        share_of (map2 (#) secret tape) (word_of_nat (Suc i)))" if t: "tape_ok p secret' tape'" for tape'
  proof -
    obtain out' where "split (tape_rng tape') p secret' = Inr out'"
      "\<And>i. i < sp_shares p \<Longrightarrow> out' ! i = share_of (map2 (#) secret' tape') (word_of_nat (Suc i))"
      using split_tape_nth [OF wf v' t] by metis
    moreover have "i < sp_shares p" if "i \<in> K" for i using that assms(7) by auto
    ultimately show ?thesis by (simp add: out del: of_nat_Suc cong: ball_cong)
  qed
  then show ?thesis using secrecy_tape [OF wf assms(4,6,7,8)] by (simp cong: conj_cong)
qed

theorem split_secrecy_witness:
  "\<exists>!tape'. tape_ok example_sharing_profile [42] tape' \<and>
    (\<exists>out'. split (tape_rng tape') example_sharing_profile [42] = Inr out' \<and>
       (\<forall>i \<in> {1 :: nat}. out' ! i = share_of [[83, 9]] 2))"
proof -
  let ?p = example_sharing_profile
  have ok: "sharing_wf ?p" "validate_secret ?p [83] = Inr ()" "tape_ok ?p [83] [[9]]"
    by (simp_all add: sharing_wf_def validate_secret_def tape_ok_def example_sharing_profile_def)
  then obtain out where out: "split (tape_rng [[9]]) ?p [83] = Inr out"
    "\<And>i. i < sp_shares ?p \<Longrightarrow> out ! i = share_of (map2 (#) [83] [[9]]) (word_of_nat (Suc i))"
    using split_tape_nth by blast
  have "out ! 1 = share_of [[83, 9]] 2"
    using out(2) [of 1] by (simp add: example_sharing_profile_def)
  moreover have "{1 :: nat} \<subseteq> {..<sp_shares ?p}" "card {1 :: nat} = sp_threshold ?p - 1"
    "length [42 :: u8] = length [83 :: u8]"
    by (simp_all add: example_sharing_profile_def)
  ultimately show ?thesis
    using split_secrecy [OF example_sharing_load example_sharing_get ok(2,3) out(1), of "[42]" "{1}"]
    by simp
qed

section \<open>Envelope round trip and authentication\<close>

lemma envelope_flat:
  assumes "se_threshold e < 2 ^ 64" "se_shares e < 2 ^ 64"
  shows "flat_json (envelope_json e)"
proof -
  have "uint (se_index e) < 256" using uint_bounded [of "se_index e"] by simp
  then show ?thesis using assms
    by (simp add: envelope_json_def unsigned_fields_def lit_def)
qed

lemma envelope_json_roundtrip:
  assumes "se_threshold e < 2 ^ 64" "se_shares e < 2 ^ 64"
  shows "share_envelope_of_json (envelope_json e) = Some e"
proof -
  have "uint (se_index e) < 256" using uint_bounded [of "se_index e"] by simp
  then show ?thesis using assms
    by (simp add: envelope_json_def unsigned_fields_def envelope_keys_def only_field_def lit_def)
qed

lemma parse_encoded:
  assumes "url_codec_ok C" "json_codec_ok C" "se_threshold e < 2 ^ 64" "se_shares e < 2 ^ 64"
    and "str_len (SHARE_PREFIX @ url_encode C (json_to_vec C (envelope_json e))) \<le> SHARE_ENVELOPE_MAX_CHARS"
  shows "parse_share_envelope C (SHARE_PREFIX @ url_encode C (json_to_vec C (envelope_json e))) = Inr e"
  using assms(5) envelope_json_roundtrip [OF assms(3,4)]
  by (simp add: parse_share_envelope_def strip_prefix_def url_codec [OF assms(1)]
      json_codec [OF assms(2) envelope_flat [OF assms(3,4)]])

lemma compute_tag_unsigned: "compute_tag C p (e\<lparr>se_tag := t\<rparr>) = compute_tag C p e"
  by (simp add: compute_tag_def unsigned_json_def unsigned_fields_def)

text \<open>An encoded share decodes, under the profile that encoded it, to the same set id and the
  same share, for every codec that reads back what it writes.\<close>

theorem share_roundtrip:
  assumes "url_codec_ok C" and "hex_codec_ok C" and "json_codec_ok C"
    and "validate_sharing_profiles C' loaded hash_for derive is = Inr st"
    and "sharing_get st n = Some p"
    and "encode_share C p set_id s = Inr encoded" and "str_len encoded \<le> SHARE_ENVELOPE_MAX_CHARS"
  shows "decode_share C p encoded = Inr (set_id, s)"
proof -
  define u where "u = \<lparr>se_version = lit ''sss-v1'', se_set_id = set_id, se_profile = sp_name p,
    se_kid = sp_kid p, se_threshold = sp_threshold p, se_shares = sp_shares p,
    se_index = rs_index s, se_share = url_encode C (rs_value s), se_tag = []\<rparr>"
  have wf: "sharing_wf p" using sharing_get_wf [OF assms(4,5)] by simp
  from assms(6) obtain tag where ok: "validate_set_id C set_id = Inr ()" "validate_raw_share p s = Inr ()"
    and tag: "compute_tag C p u = Inr tag"
    and enc: "encoded = SHARE_PREFIX @ url_encode C (json_to_vec C (envelope_json (u\<lparr>se_tag := hex_encode C tag\<rparr>)))"
    by (auto simp: encode_share_def Let_def bindR_eq_Inr u_def dest!: canonical_json_ok)
  let ?e = "u\<lparr>se_tag := hex_encode C tag\<rparr>"
  have b: "se_threshold ?e < 2 ^ 64" "se_shares ?e < 2 ^ 64"
    using wf by (auto simp: u_def sharing_wf_def)
  have parse: "parse_share_envelope C encoded = Inr ?e"
    unfolding enc using parse_encoded [OF assms(1,3) b] assms(7) enc by simp
  have "validate_envelope C p ?e = Inr ()"
    using ok by (auto simp: validate_envelope_def u_def validate_raw_share_def split: if_splits)
  moreover have "compute_tag C p (?e\<lparr>se_version := lit ''sss-v1''\<rparr>) = Inr tag"
    using tag compute_tag_unsigned [of C p "hex_encode C tag" u] by (simp add: u_def)
  ultimately show ?thesis
    using parse ok(2)
    by (cases s) (simp add: decode_share_def hex_codec [OF assms(2)] url_codec [OF assms(1)] u_def Let_def)
qed

definition example_set_id :: ustr where "example_set_id = replicate 16 65"

definition example_share :: raw_share where "example_share = \<lparr>rs_index = 2, rs_value = [7, 8]\<rparr>"

definition example_envelope :: share_envelope where
  "example_envelope = \<lparr>se_version = lit ''sss-v1'', se_set_id = example_set_id,
     se_profile = lit ''k'', se_kid = example_kid, se_threshold = 2, se_shares = 3, se_index = 2,
     se_share = [7, 8], se_tag = lit ''04''\<rparr>"

definition share_crates :: crates where
  "share_crates = example_crates (envelope_json example_envelope)"

lemma example_encode_share:
  "encode_share share_crates example_sharing_profile example_set_id example_share = Inr (SHARE_PREFIX @ [1])"
proof -
  have set: "validate_set_id share_crates example_set_id = Inr ()"
    by (simp add: validate_set_id_def share_crates_def example_crates_def example_set_id_def
        SHARING_SET_ID_BYTES_def)
  have raw: "validate_raw_share example_sharing_profile example_share = Inr ()"
    by (simp add: validate_raw_share_def example_sharing_profile_def example_share_def)
  have pre: "take (length SERDE_JSON_PRIVATE_KEY_PREFIX) k \<noteq> SERDE_JSON_PRIVATE_KEY_PREFIX"
    if "hd k \<noteq> 36" "k \<noteq> []" for k
    using that by (cases k) (auto simp: SERDE_JSON_PRIVATE_KEY_PREFIX_def lit_def)
  have canon: "canonical_json_v1 C (unsigned_json e) = Inr (json_to_vec C (unsigned_json e))"
    "canonical_json_v1 C (envelope_json e) = Inr (json_to_vec C (envelope_json e))" for C e
    by (simp_all add: canonical_json_v1_def validate_canonical_json_value_def unsigned_json_def
        envelope_json_def unsigned_fields_def MAX_JSON_DEPTH_def starts_with_def pre lit_def
        validate_canonical_json_value_at_depth.simps [of _ "JObject _"]
        validate_canonical_json_value_at_depth.simps [of _ "JString _"]
        validate_canonical_json_value_at_depth.simps [of _ "JNumber _"])
  have k: "uses_kmac example_sharing_profile"
    by (simp add: uses_kmac_def is_kmac_algorithm_def starts_with_def example_sharing_profile_def lit_def)
  show ?thesis
    by (simp add: encode_share_def Let_def set raw compute_tag_def canon compute_keyed_tag_def k)
      (simp add: share_crates_def example_crates_def example_sharing_profile_def example_share_def
        example_envelope_def hex_byte_def hex_digit_def lit_Cons)
qed

theorem share_roundtrip_witness:
  "decode_share share_crates example_sharing_profile (SHARE_PREFIX @ [1]) =
     Inr (example_set_id, example_share)"
proof -
  have "str_len (SHARE_PREFIX @ [1]) \<le> SHARE_ENVELOPE_MAX_CHARS"
    by (simp add: SHARE_PREFIX_def SHARE_ENVELOPE_MAX_CHARS_def lit_def str_len_def utf8_char_def)
  with share_roundtrip [OF _ _ _ example_sharing_load example_sharing_get example_encode_share]
    example_crates_codecs
  show ?thesis by (simp add: share_crates_def)
qed

text \<open>\<open>decode_share\<close> accepts exactly the texts that carry an envelope of this profile (its
  name, key, threshold and number of shares, an index in range) whose tag is the one computed with
  the profile's key over all the fields of that envelope; it returns the envelope's set id, index
  and payload, and nothing that was not authenticated.\<close>

theorem decode_share_accepts_iff:
  "decode_share C p encoded = Inr (set_id, s) \<longleftrightarrow>
     (\<exists>e tag. parse_share_envelope C encoded = Inr e \<and> se_version e = lit ''sss-v1'' \<and>
        se_set_id e = set_id \<and> validate_set_id C set_id = Inr () \<and>
        se_profile e = sp_name p \<and> se_kid e = sp_kid p \<and>
        se_threshold e = sp_threshold p \<and> se_shares e = sp_shares p \<and>
        se_index e = rs_index s \<and> rs_index s \<noteq> 0 \<and> unat (rs_index s) \<le> sp_shares p \<and>
        url_decode C (se_share e) = Some (rs_value s) \<and> rs_value s \<noteq> [] \<and>
        length (rs_value s) \<le> sp_max_secret_len p \<and>
        compute_tag C p e = Inr tag \<and> hex_decode C (se_tag e) = Some tag)"
  (is "?l \<longleftrightarrow> ?r")
proof -
  have v: "e\<lparr>se_version := lit ''sss-v1''\<rparr> = e" if "se_version e = lit ''sss-v1''" for e :: share_envelope
    using that by simp
  have "?l \<longleftrightarrow> (\<exists>e. parse_share_envelope C encoded = Inr e \<and> validate_envelope C p e = Inr () \<and>
      (\<exists>tag v. compute_tag C p (e\<lparr>se_version := lit ''sss-v1''\<rparr>) = Inr tag \<and>
        hex_decode C (se_tag e) = Some tag \<and> url_decode C (se_share e) = Some v \<and>
        validate_raw_share p \<lparr>rs_index = se_index e, rs_value = v\<rparr> = Inr () \<and>
        set_id = se_set_id e \<and> s = \<lparr>rs_index = se_index e, rs_value = v\<rparr>))"
    by (auto simp: decode_share_def Let_def result_simps)
  also have "\<dots> \<longleftrightarrow> ?r"
    by (cases s) (auto simp: validate_envelope_def validate_raw_share_def result_simps v)
  finally show ?thesis .
qed

end
