(* ===== verification/Permissions.thy ===== *)
theory Permissions
  imports Profiles
begin

text \<open>
  \<open>src/core/permissions.rs\<close>: the clients of a signed configuration, their validation against
  the loaded keys, authentication of an API key by its hash, and the decision whether a client may
  perform an action on a key.

  The lemmas relate the decision to the configuration text: a request is authenticated exactly when
  an active entry carries its hash, and granted exactly when that entry is an administrator or lists
  the action for the key (or, for the two global actions, for the wildcard).
\<close>

section \<open>Data\<close>

definition PERMISSION_ACTIONS :: "ustr list" where
  "PERMISSION_ACTIONS =
     [lit ''admin'', lit ''keys'', lit ''lifecycle'', lit ''self-test'', lit ''sign'', lit ''message'',
      lit ''symmetric'', lit ''fpe-encrypt'', lit ''fpe-decrypt'', lit ''token-encode'',
      lit ''token-decode'', lit ''token-delete'', lit ''token-deterministic-encode'',
      lit ''token-deterministic-decode'', lit ''subject-create'', lit ''subject-delete'',
      lit ''mac-create'', lit ''mac-verify'', lit ''index-create'', lit ''index-verify'', lit ''mask'',
      lit ''commit-create'', lit ''commit-verify'', lit ''share-split'', lit ''share-combine'',
      lit ''time-attest'', lit ''metrics'']"

definition GLOBAL_PERMISSION_ACTIONS :: "ustr list" where
  "GLOBAL_PERMISSION_ACTIONS = [lit ''metrics'', lit ''time-attest'']"

record authenticated_client =
  ac_client :: ustr
  ac_apikey_hash :: ustr
  ac_root :: bool
  ac_admin :: bool

record kid_permission =
  kp_kid :: ustr
  kp_actions :: "ustr list"

record permission_client =
  pc_client :: ustr
  pc_apikey_hash :: ustr
  pc_admin :: bool
  pc_permissions :: "kid_permission list"

record permissions_state =
  ps_clients :: "permission_client list"
  ps_by_hash :: "ustr \<rightharpoonup> nat"

record permission_client_output =
  pco_client :: ustr
  pco_admin :: bool
  pco_permissions :: "kid_permission list"

record permission_client_input =
  pci_client :: ustr
  pci_apikey_hash :: ustr
  pci_status :: ustr
  pci_permissions :: "kid_permission list"

section \<open>Operations\<close>

definition ac_root_client :: "ustr \<Rightarrow> authenticated_client" where
  "ac_root_client apikey_hash =
     \<lparr>ac_client = lit ''root'', ac_apikey_hash = apikey_hash, ac_root = True, ac_admin = True\<rparr>"

definition ac_from_permission_client :: "permission_client \<Rightarrow> authenticated_client" where
  "ac_from_permission_client client =
     \<lparr>ac_client = pc_client client, ac_apikey_hash = pc_apikey_hash client, ac_root = False,
      ac_admin = pc_admin client\<rparr>"

definition from_clients :: "permission_client list \<Rightarrow> permissions_state" where
  "from_clients clients = \<lparr>ps_clients = clients, ps_by_hash = index_by_name pc_apikey_hash clients\<rparr>"

definition by_hash_get :: "permissions_state \<Rightarrow> ustr \<Rightarrow> permission_client option" where
  "by_hash_get st h = Option.bind (ps_by_hash st h) (\<lambda>index. list_get (ps_clients st) index)"

definition output_from_permission_client :: "permission_client \<Rightarrow> permission_client_output" where
  "output_from_permission_client client =
     \<lparr>pco_client = pc_client client, pco_admin = pc_admin client,
      pco_permissions =
        (if pc_admin client then [\<lparr>kp_kid = lit ''*'', kp_actions = [lit ''admin'']\<rparr>]
         else pc_permissions client)\<rparr>"

definition permissions_list :: "permissions_state \<Rightarrow> permission_client_output list" where
  "permissions_list st = map output_from_permission_client (ps_clients st)"

definition authenticate_hash :: "permissions_state \<Rightarrow> ustr \<Rightarrow> authenticated_client option" where
  "authenticate_hash st apikey_hash =
     (let candidate = utf8 apikey_hash;
          matched = fold (\<lambda>(index, client) matched.
              if constant_time_eq (utf8 (pc_apikey_hash client)) candidate then Some index else matched)
            (enumerate 0 (ps_clients st)) None
      in map_option ac_from_permission_client
           (Option.bind matched (\<lambda>index. list_get (ps_clients st) index)))"

definition is_global_permission_action :: "ustr \<Rightarrow> bool" where
  "is_global_permission_action action \<longleftrightarrow> action \<in> set GLOBAL_PERMISSION_ACTIONS"

definition permission_denied :: "ustr \<Rightarrow> unit result" where
  "permission_denied message = Inl (forbidden message)"

definition has_permission :: "kid_permission list \<Rightarrow> ustr \<Rightarrow> ustr \<Rightarrow> bool" where
  "has_permission permissions kid action \<longleftrightarrow>
     list_ex (\<lambda>permission. kp_kid permission = kid \<and> list_ex (\<lambda>item. item = action) (kp_actions permission))
       permissions"

definition require_permission ::
    "permissions_state \<Rightarrow> authenticated_client \<Rightarrow> ustr option \<Rightarrow> ustr \<Rightarrow> unit result" where
  "require_permission st client kid action =
     bindR (validate_allowed_value (lit ''permission action'') action PERMISSION_ACTIONS) (\<lambda>_.
       if ac_root client \<or> ac_admin client then Inr ()
       else case by_hash_get st (ac_apikey_hash client) of
         None \<Rightarrow> permission_denied (lit ''api key is not authorized'')
       | Some permission_client \<Rightarrow>
           if is_global_permission_action action then
             if has_permission (pc_permissions permission_client) (lit ''*'') action then Inr ()
             else permission_denied (lit ''api key does not have permission for this endpoint'')
           else case kid of
             None \<Rightarrow> permission_denied (lit ''admin permission is required for this endpoint'')
           | Some kid \<Rightarrow>
               bindR (validate_key_id kid) (\<lambda>_.
                 if has_permission (pc_permissions permission_client) kid action then Inr ()
                 else permission_denied (lit ''api key does not have permission for this kid'')))"

section \<open>Loading\<close>

definition invalid_permissions :: "ustr \<Rightarrow> 'a result" where
  "invalid_permissions message = Inl (invalid_input message)"

fun validate_action_loop :: "ustr set \<Rightarrow> ustr list \<Rightarrow> ustr list result" where
  "validate_action_loop seen [] = Inr []"
| "validate_action_loop seen (action # actions) =
     bindR (validate_allowed_value (lit ''permissions.actions'') action PERMISSION_ACTIONS) (\<lambda>_.
       if action \<in> seen then invalid_permissions (lit ''duplicated permission action: '' @ action)
       else bindR (validate_action_loop (insert action seen) actions) (\<lambda>validated.
         Inr (action # validated)))"

definition validate_action_list :: "ustr list \<Rightarrow> ustr list result" where
  "validate_action_list actions =
     (if actions = [] then invalid_permissions (lit ''permissions.actions must not be empty'')
      else validate_action_loop {} actions)"

definition validate_actions :: "kid_permission list \<Rightarrow> unit result" where
  "validate_actions permissions =
     try_for_each (\<lambda>permission. bindR (validate_action_list (kp_actions permission)) (\<lambda>_. Inr ()))
       permissions"

definition validate_global_actions :: "ustr list \<Rightarrow> unit result" where
  "validate_global_actions actions =
     try_for_each (\<lambda>action.
       if \<not> is_global_permission_action action
       then invalid_permissions (lit ''permission action '' @ action @ lit '' cannot use wildcard kid'')
       else Inr ()) actions"

definition validate_permission_kid :: "(ustr \<Rightarrow> bool) \<Rightarrow> ustr \<Rightarrow> ustr list \<Rightarrow> unit result" where
  "validate_permission_kid is_loaded_kid kid actions =
     (if kid = lit ''*'' then validate_global_actions actions
      else bindR (map_err (\<lambda>err. invalid_input (lit ''permissions.kid is invalid: '' @ to_string err))
              (validate_key_id kid)) (\<lambda>_.
        if \<not> is_loaded_kid kid
        then invalid_permissions (lit ''permissions file references kid not loaded in memory: '' @ kid)
        else Inr ()))"

fun validate_kid_permissions_loop ::
    "(ustr \<Rightarrow> bool) \<Rightarrow> ustr \<Rightarrow> ustr set \<Rightarrow> kid_permission list \<Rightarrow> kid_permission list result" where
  "validate_kid_permissions_loop is_loaded_kid client seen_kids [] = Inr []"
| "validate_kid_permissions_loop is_loaded_kid client seen_kids (permission # permissions) =
     (if kp_kid permission \<in> seen_kids
      then invalid_permissions (lit ''permissions file has duplicated kid for client '' @ client @
             lit '': '' @ kp_kid permission)
      else bindR (validate_action_list (kp_actions permission)) (\<lambda>actions.
        bindR (validate_permission_kid is_loaded_kid (kp_kid permission) actions) (\<lambda>_.
        bindR (validate_kid_permissions_loop is_loaded_kid client
                 (insert (kp_kid permission) seen_kids) permissions) (\<lambda>rest.
          Inr (\<lparr>kp_kid = kp_kid permission, kp_actions = actions\<rparr> # rest)))))"

definition has_admin :: "permission_client_input \<Rightarrow> bool" where
  "has_admin client \<longleftrightarrow>
     list_ex (\<lambda>permission. list_ex (\<lambda>action. action = lit ''admin'') (kp_actions permission))
       (pci_permissions client)"

definition validate_active_client ::
    "(ustr \<Rightarrow> bool) \<Rightarrow> permission_client_input \<Rightarrow> permission_client result" where
  "validate_active_client is_loaded_kid client =
     (if has_admin client then
        bindR (validate_actions (pci_permissions client)) (\<lambda>_.
          Inr \<lparr>pc_client = pci_client client, pc_apikey_hash = pci_apikey_hash client,
               pc_admin = True, pc_permissions = []\<rparr>)
      else
        bindR (validate_kid_permissions_loop is_loaded_kid (pci_client client) {}
                 (pci_permissions client)) (\<lambda>permissions.
          Inr \<lparr>pc_client = pci_client client, pc_apikey_hash = pci_apikey_hash client,
               pc_admin = False, pc_permissions = permissions\<rparr>))"

definition validate_client_fields :: "permission_client_input \<Rightarrow> unit result" where
  "validate_client_fields client =
     bindR (validate_config_name (lit ''permissions.client'') (pci_client client)) (\<lambda>_.
     bindR (validate_symmetric_key (lit ''permissions.apikey_hash'') (pci_apikey_hash client) 32) (\<lambda>_.
       validate_allowed_value (lit ''permissions.status'') (pci_status client)
         [lit ''active'', lit ''disabled'', lit ''revoked'']))"

fun validate_permission_loop ::
    "(ustr \<Rightarrow> bool) \<Rightarrow> ustr set \<Rightarrow> ustr set \<Rightarrow> permission_client_input list \<Rightarrow>
     permission_client list result" where
  "validate_permission_loop is_loaded_kid seen_clients seen_hashes [] = Inr []"
| "validate_permission_loop is_loaded_kid seen_clients seen_hashes (client # inputs) =
     bindR (validate_client_fields client) (\<lambda>_.
       if pci_client client \<in> seen_clients
       then invalid_permissions (lit ''permissions file has duplicated client: '' @ pci_client client)
       else if pci_apikey_hash client \<in> seen_hashes
       then invalid_permissions (lit ''permissions file has duplicated apikey_hash'')
       else if pci_status client \<noteq> lit ''active''
       then validate_permission_loop is_loaded_kid (insert (pci_client client) seen_clients)
              (insert (pci_apikey_hash client) seen_hashes) inputs
       else bindR (validate_active_client is_loaded_kid client) (\<lambda>c.
         bindR (validate_permission_loop is_loaded_kid (insert (pci_client client) seen_clients)
                  (insert (pci_apikey_hash client) seen_hashes) inputs) (\<lambda>clients.
           Inr (c # clients))))"

definition validate_permission_clients ::
    "(ustr \<Rightarrow> bool) \<Rightarrow> permission_client_input list \<Rightarrow> permissions_state result" where
  "validate_permission_clients is_loaded_kid client_inputs =
     bindR (validate_permission_loop is_loaded_kid {} {} client_inputs)
       (\<lambda>clients. Inr (from_clients clients))"

section \<open>What the configuration grants\<close>

text \<open>The decision read off the configuration alone, with no state and no index.\<close>

definition config_client :: "permission_client_input list \<Rightarrow> ustr \<Rightarrow> permission_client_input option" where
  "config_client inputs h =
     find (\<lambda>i. pci_apikey_hash i = h \<and> pci_status i = lit ''active'') inputs"

definition config_grants :: "permission_client_input list \<Rightarrow> ustr \<Rightarrow> ustr option \<Rightarrow> ustr \<Rightarrow> bool" where
  "config_grants inputs h kid action \<longleftrightarrow>
     action \<in> set PERMISSION_ACTIONS \<and>
     (case config_client inputs h of
        None \<Rightarrow> False
      | Some i \<Rightarrow>
          has_admin i \<or>
          (if action \<in> {lit ''metrics'', lit ''time-attest''}
           then has_permission (pci_permissions i) (lit ''*'') action
           else \<exists>k. kid = Some k \<and> has_permission (pci_permissions i) k action))"

section \<open>Lemmas\<close>

lemma global_iff: "is_global_permission_action a \<longleftrightarrow> a \<in> {lit ''metrics'', lit ''time-attest''}"
  by (simp add: is_global_permission_action_def GLOBAL_PERMISSION_ACTIONS_def)

interpretation hashes: profile_registry pc_apikey_hash from_clients by_hash_get
  by unfold_locales (simp_all add: from_clients_def by_hash_get_def)

lemma validate_action_loop_ok:
  "validate_action_loop seen actions = Inr as \<Longrightarrow> as = actions"
  by (induction actions arbitrary: seen as)
    (auto simp: bindR_eq_Inr invalid_permissions_def split: if_splits)

lemma validate_action_list_ok: "validate_action_list actions = Inr as \<Longrightarrow> as = actions"
  by (auto simp: validate_action_list_def invalid_permissions_def validate_action_loop_ok split: if_splits)

lemma validate_kid_permissions_ok:
  assumes "validate_kid_permissions_loop loaded client seen ps = Inr qs"
  shows "qs = ps \<and> (\<forall>p \<in> set ps. validate_permission_kid loaded (kp_kid p) (kp_actions p) = Inr ())"
  using assms
proof (induction ps arbitrary: seen qs)
  case (Cons p ps)
  then obtain rest where p: "validate_permission_kid loaded (kp_kid p) (kp_actions p) = Inr ()"
    "validate_kid_permissions_loop loaded client (insert (kp_kid p) seen) ps = Inr rest" "qs = p # rest"
    by (auto simp: bindR_eq_Inr invalid_permissions_def split: if_splits
        dest!: validate_action_list_ok)
  with Cons.IH [OF p(2)] show ?case by simp
qed simp

definition client_of :: "permission_client_input \<Rightarrow> permission_client" where
  "client_of i = \<lparr>pc_client = pci_client i, pc_apikey_hash = pci_apikey_hash i, pc_admin = has_admin i,
     pc_permissions = (if has_admin i then [] else pci_permissions i)\<rparr>"

lemma validate_active_client_ok:
  assumes "validate_active_client loaded i = Inr c"
  shows "c = client_of i \<and> (\<not> has_admin i \<longrightarrow>
    (\<forall>p \<in> set (pci_permissions i). validate_permission_kid loaded (kp_kid p) (kp_actions p) = Inr ()))"
  using assms by (auto simp: validate_active_client_def client_of_def bindR_eq_Inr split: if_splits
      dest!: validate_kid_permissions_ok)

lemma validate_permission_loop_ok:
  assumes "validate_permission_loop loaded seen_c seen_h is = Inr cs"
  shows "cs = map client_of (filter (\<lambda>i. pci_status i = lit ''active'') is) \<and>
    distinct (map pci_apikey_hash is) \<and> pci_apikey_hash ` set is \<inter> seen_h = {} \<and>
    (\<forall>i \<in> set is. validate_client_fields i = Inr () \<and>
       (pci_status i = lit ''active'' \<longrightarrow> validate_active_client loaded i = Inr (client_of i)))"
  using assms
proof (induction "is" arbitrary: seen_c seen_h cs)
  case (Cons i "is")
  let ?loop = "validate_permission_loop loaded (insert (pci_client i) seen_c) (insert (pci_apikey_hash i) seen_h) is"
  from Cons.prems have f: "validate_client_fields i = Inr ()" "pci_apikey_hash i \<notin> seen_h"
    by (auto simp: bindR_eq_Inr invalid_permissions_def split: if_splits)
  show ?case
  proof (cases "pci_status i = lit ''active''")
    case True
    with Cons.prems obtain c cs' where c: "validate_active_client loaded i = Inr c" "?loop = Inr cs'" "cs = c # cs'"
      by (auto simp: bindR_eq_Inr invalid_permissions_def split: if_splits)
    with Cons.IH [OF c(2)] validate_active_client_ok [OF c(1)] f True show ?thesis by auto
  next
    case False
    with Cons.prems have "?loop = Inr cs"
      by (auto simp: bindR_eq_Inr invalid_permissions_def split: if_splits)
    from Cons.IH [OF this] f False show ?thesis by auto
  qed
qed simp

lemma hash_ascii:
  assumes "validate_client_fields i = Inr ()"
  shows "list_all is_ascii (pci_apikey_hash i)"
  using assms by (auto simp: validate_client_fields_def result_simps intro!: hex_ascii)

lemma fold_last_match:
  "fold (\<lambda>(i, c) m. if P c then Some i else m) (enumerate 0 cs) None = r \<Longrightarrow>
     (case r of None \<Rightarrow> \<forall>c \<in> set cs. \<not> P c | Some i \<Rightarrow> i < length cs \<and> P (cs ! i))"
proof (induction cs arbitrary: r rule: rev_induct)
  case (snoc c cs)
  then show ?case by (force simp: enumerate_append_eq nth_append split: option.splits if_splits)
qed auto

lemma config_client_Some:
  assumes "config_client is h = Some i"
  shows "i \<in> set is \<and> pci_apikey_hash i = h \<and> pci_status i = lit ''active''"
  using assms by (auto simp: config_client_def find_Some_iff)

lemma config_client_eq:
  assumes "distinct (map pci_apikey_hash is)"
  shows "config_client is h = Some i \<longleftrightarrow>
    i \<in> set is \<and> pci_apikey_hash i = h \<and> pci_status i = lit ''active''" (is "_ \<longleftrightarrow> ?r")
proof
  assume r: ?r
  then have "config_client is h \<noteq> None" by (auto simp: config_client_def find_None_iff)
  then obtain j where j: "config_client is h = Some j" by blast
  with r config_client_Some [OF j] assms have "j = i" by (auto simp: distinct_map dest: inj_onD)
  with j show "config_client is h = Some i" by simp
qed (rule config_client_Some)

lemma loaded_state:
  assumes "validate_permission_clients loaded is = Inr st"
  shows "st = from_clients (map client_of (filter (\<lambda>i. pci_status i = lit ''active'') is))"
    and "distinct (map pci_apikey_hash is)"
    and "\<And>i. i \<in> set is \<Longrightarrow> list_all is_ascii (pci_apikey_hash i)"
    and "\<And>i p. i \<in> set is \<Longrightarrow> pci_status i = lit ''active'' \<Longrightarrow> \<not> has_admin i \<Longrightarrow>
      p \<in> set (pci_permissions i) \<Longrightarrow> validate_permission_kid loaded (kp_kid p) (kp_actions p) = Inr ()"
proof -
  from assms obtain cs where cs: "validate_permission_loop loaded {} {} is = Inr cs" "st = from_clients cs"
    by (auto simp: validate_permission_clients_def bindR_eq_Inr)
  note ok = validate_permission_loop_ok [OF cs(1)]
  show "st = from_clients (map client_of (filter (\<lambda>i. pci_status i = lit ''active'') is))"
    "distinct (map pci_apikey_hash is)" using ok cs(2) by auto
  show "list_all is_ascii (pci_apikey_hash i)" if "i \<in> set is" for i
    using that ok hash_ascii by blast
  show "validate_permission_kid loaded (kp_kid p) (kp_actions p) = Inr ()"
    if "i \<in> set is" "pci_status i = lit ''active''" "\<not> has_admin i" "p \<in> set (pci_permissions i)" for i p
    using that ok validate_active_client_ok by blast
qed

lemma client_hash [simp]: "pc_apikey_hash (client_of i) = pci_apikey_hash i"
  by (simp add: client_of_def)

lemma by_hash_get_loaded:
  assumes "validate_permission_clients loaded is = Inr st" "config_client is h = Some i"
  shows "by_hash_get st h = Some (client_of i)"
proof -
  let ?a = "filter (\<lambda>i. pci_status i = lit ''active'') is"
  have "distinct (map pc_apikey_hash (map client_of ?a))"
    using loaded_state(2) [OF assms(1)] by (simp add: o_def distinct_map_filter)
  moreover have "client_of i \<in> set (map client_of ?a)"
    using config_client_Some [OF assms(2)] by simp
  ultimately have "by_hash_get st (pc_apikey_hash (client_of i)) = Some (client_of i)"
    unfolding loaded_state(1) [OF assms(1)] by (rule hashes.get_distinct)
  then show ?thesis using config_client_Some [OF assms(2)] by simp
qed

lemma authenticate_loaded:
  assumes "validate_permission_clients loaded is = Inr st" "rust_str h"
  shows "authenticate_hash st h = map_option (ac_from_permission_client \<circ> client_of) (config_client is h)"
proof -
  let ?a = "filter (\<lambda>i. pci_status i = lit ''active'') is"
  have st: "ps_clients st = map client_of ?a" using loaded_state(1) [OF assms(1)] by (simp add: from_clients_def)
  let ?P = "\<lambda>c. constant_time_eq (utf8 (pc_apikey_hash c)) (utf8 h)"
  have eq: "?P (client_of i) \<longleftrightarrow> pci_apikey_hash i = h" if "i \<in> set is" for i
    using utf8_ascii_inject [OF loaded_state(3) [OF assms(1) that] assms(2)] by auto
  obtain r where r: "fold (\<lambda>(i, c) m. if ?P c then Some i else m) (enumerate 0 (ps_clients st)) None = r"
    by blast
  show ?thesis
  proof (cases r)
    case None
    with fold_last_match [OF r] eq have "config_client is h = None"
      by (auto simp: st config_client_def find_None_iff)
    then show ?thesis using r None by (simp add: authenticate_hash_def Let_def)
  next
    case (Some k)
    with fold_last_match [OF r] have k: "k < length ?a" "?P (client_of (?a ! k))" by (auto simp: st)
    then have m: "?a ! k \<in> set is" "pci_status (?a ! k) = lit ''active''" using nth_mem [of k ?a] by auto
    then have "config_client is h = Some (?a ! k)"
      using eq [OF m(1)] k(2) config_client_eq [OF loaded_state(2) [OF assms(1)]] by blast
    then show ?thesis using r Some k(1) st by (simp add: authenticate_hash_def Let_def list_get_def)
  qed
qed

lemma action_allowed: "validate_allowed_value f a PERMISSION_ACTIONS = Inr () \<longleftrightarrow> a \<in> set PERMISSION_ACTIONS"
proof -
  have "list_all (\<lambda>a. \<not> list_ex is_control a \<and> \<not> blank a) PERMISSION_ACTIONS"
    by (simp add: PERMISSION_ACTIONS_def lit_def char_simps)
  then show ?thesis by (auto simp: result_simps list_all_iff list_ex_iff)
qed

lemma require_permission_loaded:
  assumes "by_hash_get st (ac_apikey_hash c) = Some pc" "\<not> ac_root c"
  shows "require_permission st c kid action = Inr () \<longleftrightarrow>
    action \<in> set PERMISSION_ACTIONS \<and>
    (ac_admin c \<or>
     (if is_global_permission_action action then has_permission (pc_permissions pc) (lit ''*'') action
      else \<exists>k. kid = Some k \<and> validate_key_id k = Inr () \<and> has_permission (pc_permissions pc) k action))"
  using assms
  by (cases "ac_admin c"; cases kid)
    (auto simp: require_permission_def bindR_eq_Inr action_allowed permission_denied_def)

lemma kid_valid_of_permission:
  assumes "validate_permission_kid loaded (kp_kid p) (kp_actions p) = Inr ()"
    and "a \<in> set (kp_actions p)" "\<not> is_global_permission_action a"
  shows "validate_key_id (kp_kid p) = Inr ()"
  using assms
  by (auto simp: validate_permission_kid_def validate_global_actions_def result_simps invalid_permissions_def
      split: if_splits)

section \<open>The decisions of a loaded state\<close>

definition example_hash :: ustr where "example_hash = replicate 64 98"
definition example_disabled_hash :: ustr where "example_disabled_hash = replicate 64 99"

definition example_clients :: "permission_client_input list" where
  "example_clients =
     [\<lparr>pci_client = lit ''app'', pci_apikey_hash = example_hash, pci_status = lit ''active'',
       pci_permissions = [\<lparr>kp_kid = example_kid, kp_actions = [lit ''mask'']\<rparr>]\<rparr>,
      \<lparr>pci_client = lit ''old'', pci_apikey_hash = example_disabled_hash, pci_status = lit ''disabled'',
       pci_permissions = [\<lparr>kp_kid = example_kid, kp_actions = [lit ''admin'']\<rparr>]\<rparr>]"

lemma example_hashes:
  "validate_symmetric_key f example_hash 32 = Inr ()" "rust_str example_hash"
  "validate_symmetric_key f example_disabled_hash 32 = Inr ()" "rust_str example_disabled_hash"
  "example_hash \<noteq> example_disabled_hash"
  by (simp_all add: result_simps example_hash_def example_disabled_hash_def rust_str_def list_all_iff char_simps
      replicate_eq_replicate)

lemma example_clients_load: "\<exists>st. validate_permission_clients (\<lambda>_. True) example_clients = Inr st"
proof -
  have f: "validate_config_name g (lit ''app'') = Inr ()" "validate_config_name g (lit ''old'') = Inr ()"
    "validate_text_field g (lit ''active'') = Inr ()" "validate_text_field g (lit ''disabled'') = Inr ()" for g
    by (simp_all add: result_simps lit_def char_simps CONFIG_NAME_MAX_CHARS_def)
  have ne: "lit ''disabled'' \<noteq> lit ''active''" "lit ''app'' \<noteq> lit ''old''" "lit ''mask'' \<noteq> lit ''admin''"
    "lit ''mask'' \<in> set PERMISSION_ACTIONS"
    by (simp_all add: lit_def PERMISSION_ACTIONS_def)
  have kid: "example_kid \<noteq> lit ''*''" by (rule notI) (drule arg_cong [where f = length], simp add: example_kid_def lit_def)
  have "validate_client_fields i = Inr ()" if "i \<in> set example_clients" for i
    using that by (auto simp: example_clients_def validate_client_fields_def f example_hashes
        validate_allowed_value_ok)
  moreover have "\<exists>c. validate_active_client (\<lambda>_. True) (example_clients ! 0) = Inr c"
    using ne kid by (simp add: example_clients_def validate_active_client_def has_admin_def
        validate_action_list_def validate_permission_kid_def example_key_id
        action_allowed [THEN iffD2])
  ultimately show ?thesis
    using ne example_hashes(5)
    by (auto simp: example_clients_def validate_permission_clients_def)
qed

lemma example_config:
  "config_client example_clients example_hash = Some (example_clients ! 0)"
  "config_client example_clients example_disabled_hash = None"
  using example_hashes(5) by (auto simp: config_client_def example_clients_def lit_def)

text \<open>After a configuration is loaded, an API key hash authenticates exactly when an active
  entry of the configuration carries that hash, as that entry's client, with its administrator flag
  and never as root; disabled and revoked entries authenticate nobody.\<close>

theorem authenticate_iff_active_entry:
  assumes "validate_permission_clients loaded is = Inr st" and "rust_str h"
  shows "authenticate_hash st h =
    map_option (\<lambda>i. \<lparr>ac_client = pci_client i, ac_apikey_hash = h, ac_root = False, ac_admin = has_admin i\<rparr>)
      (config_client is h)"
proof (cases "config_client is h")
  case (Some i)
  with config_client_Some [OF Some] show ?thesis
    by (simp add: authenticate_loaded [OF assms] ac_from_permission_client_def client_of_def)
qed (simp add: authenticate_loaded [OF assms])

theorem authenticate_iff_active_entry_witness:
  "\<exists>st. validate_permission_clients (\<lambda>_. True) example_clients = Inr st \<and>
     authenticate_hash st example_disabled_hash = None \<and>
     (\<exists>c. authenticate_hash st example_hash = Some c \<and> ac_client c = lit ''app'' \<and> \<not> ac_root c)"
proof -
  obtain st where st: "validate_permission_clients (\<lambda>_. True) example_clients = Inr st"
    using example_clients_load by blast
  from authenticate_iff_active_entry [OF st example_hashes(2)]
    authenticate_iff_active_entry [OF st example_hashes(4)] st example_config
  show ?thesis by (simp add: example_clients_def)
qed

text \<open>C6: a request with an API key hash passes authentication and the permission check exactly when
  the loaded configuration grants it: the action exists, an active entry carries the hash, and that
  entry is an administrator, or lists the action for the requested key, or, for the two global
  actions, lists it for the wildcard.\<close>

theorem authorization_matches_config:
  assumes "validate_permission_clients loaded is = Inr st" and "rust_str h"
  shows "(\<exists>c. authenticate_hash st h = Some c \<and> require_permission st c kid action = Inr ()) \<longleftrightarrow>
    config_grants is h kid action"
proof (cases "config_client is h")
  case None
  then show ?thesis by (simp add: authenticate_loaded [OF assms] config_grants_def)
next
  case (Some i)
  let ?c = "ac_from_permission_client (client_of i)"
  note i = config_client_Some [OF Some]
  have c: "authenticate_hash st h = Some ?c" using Some by (simp add: authenticate_loaded [OF assms])
  have get: "by_hash_get st (ac_apikey_hash ?c) = Some (client_of i)"
    using by_hash_get_loaded [OF assms(1) Some] i by (simp add: ac_from_permission_client_def)
  have kid: "validate_key_id k = Inr ()"
    if "\<not> has_admin i" "has_permission (pci_permissions i) k action" "\<not> is_global_permission_action action" for k
    using that loaded_state(4) [OF assms(1)] i kid_valid_of_permission
    by (fastforce simp: has_permission_def list_ex_iff)
  have "require_permission st ?c kid action = Inr () \<longleftrightarrow> config_grants is h kid action"
  proof -
    have c: "\<not> ac_root ?c" "ac_admin ?c = has_admin i"
      "pc_permissions (client_of i) = (if has_admin i then [] else pci_permissions i)"
      by (simp_all add: ac_from_permission_client_def client_of_def)
    show ?thesis
      unfolding require_permission_loaded [OF get c(1)] c(2,3) config_grants_def Some option.case
        global_iff [symmetric]
      using kid by (cases "has_admin i") auto
  qed
  with c show ?thesis by simp
qed

theorem authorization_matches_config_witness:
  "\<exists>st c. validate_permission_clients (\<lambda>_. True) example_clients = Inr st \<and>
     authenticate_hash st example_hash = Some c \<and>
     require_permission st c (Some example_kid) (lit ''mask'') = Inr () \<and>
     require_permission st c (Some example_kid) (lit ''sign'') \<noteq> Inr ()"
proof -
  obtain st where st: "validate_permission_clients (\<lambda>_. True) example_clients = Inr st"
    using example_clients_load by blast
  have "config_grants example_clients example_hash (Some example_kid) (lit ''mask'')"
    unfolding config_grants_def example_config option.case
    by (simp add: example_clients_def has_permission_def PERMISSION_ACTIONS_def) (simp add: lit_def)
  moreover have "\<not> config_grants example_clients example_hash (Some example_kid) (lit ''sign'')"
    unfolding config_grants_def example_config option.case
    by (simp add: example_clients_def has_permission_def has_admin_def lit_def)
  ultimately show ?thesis
    using authorization_matches_config [OF st example_hashes(2), of "Some example_kid"] st by blast
qed

end
