(* ===== verification/Subject_Ids.thy ===== *)
theory Subject_Ids
  imports Crates
begin

text \<open>
  \<open>src/core/subjects.rs\<close>, the checks on subjects that storage, tokenization and format-preserving
  encryption share: the name a caller gives a subject, the identifier derived from it, and the shape
  of the envelope that stores a subject's seed.
\<close>

definition SUBJECT_NAME_MAX_CHARS :: nat where "SUBJECT_NAME_MAX_CHARS = 128"
definition SUBJECT_ID_HEX_CHARS :: nat where "SUBJECT_ID_HEX_CHARS = 64"
definition SUBJECT_SEED_BYTES :: nat where "SUBJECT_SEED_BYTES = 32"
definition SUBJECT_SEED_ENVELOPE_MAX_CHARS :: nat where "SUBJECT_SEED_ENVELOPE_MAX_CHARS = 2048"

text \<open>\<open>SubjectMode\<close> of \<open>src/core/tokenization.rs\<close>: whether a profile derives its keys per
  subject.\<close>

datatype subject_mode = NoSubject | Stored

text \<open>59 and 61 are the semicolon and the equals sign.\<close>

definition validate_subject_name :: "ustr \<Rightarrow> unit result" where
  "validate_subject_name v =
     bindR (validate_bounded_text_field (lit ''subject_name'') v SUBJECT_NAME_MAX_CHARS) (\<lambda>_.
       if list_ex (\<lambda>c. c = 59 \<or> c = 61) v
       then Inl (invalid_input (lit ''subject_name must not contain '' @ sq '';'' @ lit '' or '' @ sq ''=''))
       else Inr ())"

definition validate_subject :: "ustr \<Rightarrow> unit result" where
  "validate_subject v =
     (if str_len v \<noteq> SUBJECT_ID_HEX_CHARS \<or> \<not> list_all (\<lambda>b. is_lower_hexdigit (unat b)) (utf8 v)
      then Inl (invalid_input (lit ''subject must be exactly 64 lowercase hex characters''))
      else Inr ())"

definition b64_decode_q :: "crates \<Rightarrow> ustr \<Rightarrow> u8 list result" where
  "b64_decode_q C v = ok_or (Foreign (lit ''invalid base64'')) (b64_decode C v)"

definition validate_seed_envelope :: "crates \<Rightarrow> ustr \<Rightarrow> unit result" where
  "validate_seed_envelope C seed =
     (if \<not> list_all is_ascii seed then Inl (invalid_input (lit ''subjects.seed must be ASCII''))
      else
        bindR (validate_base64_standard_envelope_segments (b64_decode C) (lit ''subjects.seed'') seed
                 SUBJECT_SEED_ENVELOPE_MAX_CHARS) (\<lambda>(ciphertext, nonce, _).
        bindR (b64_decode_q C ciphertext) (\<lambda>ct.
          if length ct < 16
          then Inl (invalid_input (lit ''subjects.seed has invalid tag or nonce length''))
          else
            bindR (b64_decode_q C nonce) (\<lambda>n.
              if length n \<notin> {12, 24}
              then Inl (invalid_input (lit ''subjects.seed has invalid tag or nonce length''))
              else Inr ()))))"

lemma utf8_lower_hex_iff:
  "list_all (\<lambda>b. is_lower_hexdigit (unat b)) (utf8 v) \<longleftrightarrow> list_all is_lower_hexdigit v"
  by (rule utf8_class_iff) (auto simp: char_simps)

lemma validate_subject_ok [result_simps]:
  "validate_subject v = Inr () \<longleftrightarrow> length v = 64 \<and> list_all is_lower_hexdigit v"
proof -
  have "str_len v = length v" if "list_all is_lower_hexdigit v"
    using that by (intro str_len_ascii) (auto simp: list_all_iff char_simps)
  then show ?thesis by (auto simp: validate_subject_def utf8_lower_hex_iff SUBJECT_ID_HEX_CHARS_def)
qed

end
