(* ===== verification/Fpe.thy ===== *)
theory Fpe
  imports Subject_Ids Profiles
begin

text \<open>
  \<open>src/core/fpe.rs\<close>: format-preserving encryption profiles. The FF1 cipher itself is a crate and
  a parameter (\<open>fpe_crate\<close>): a handle made from a key and a radix, and two operations on numeral
  strings. Modelled are the alphabets, the length and domain checks, the split of a value into
  numerals and preserved characters and its reassembly, the authentication tags, the contexts bound
  to a subject, and the profile registry. Opening a stored subject seed
  (\<open>FpeContext::from_subject_envelope\<close>) belongs to tokenization and is left out.
\<close>

section \<open>Constants and data\<close>

definition FPE_VERSION_FF1_2025 :: ustr where "FPE_VERSION_FF1_2025 = lit ''fpe-ff1-2025''"
definition FPE_KEY_SALT :: "u8 list" where "FPE_KEY_SALT = utf8 (lit ''vectis:fpe:ff1:v1'')"
definition FPE_KEY_SIZE_BYTES :: nat where "FPE_KEY_SIZE_BYTES = 32"
definition FPE_VALUE_MIN_LEN :: nat where "FPE_VALUE_MIN_LEN = 6"
definition FPE_VALUE_MAX_LEN :: nat where "FPE_VALUE_MAX_LEN = 1024"
definition FPE_PRESERVE_MAX_CHARS :: nat where "FPE_PRESERVE_MAX_CHARS = 32"
definition FPE_AUTH_KEY_SALT :: "u8 list" where "FPE_AUTH_KEY_SALT = utf8 (lit ''vectis:fpe:mac:v1'')"
definition FPE_AUTH_KEY_SIZE_BYTES :: nat where "FPE_AUTH_KEY_SIZE_BYTES = 32"
definition FPE_AUTH_VERSION :: ustr where "FPE_AUTH_VERSION = lit ''v1''"
definition FPE_AUTH_MAC :: ustr where "FPE_AUTH_MAC = lit ''HMAC(BLAKE2b(256))''"
definition FPE_TWEAK_AAD_MAX_CHARS :: nat where "FPE_TWEAK_AAD_MAX_CHARS = 128"

datatype alphabet_preset = Num | Alpha | Alphanum
datatype letter_case = Uppercase | Lowercase | Mixed

record ff1 =
  ff1_key :: "u8 list"
  ff1_radix :: nat

record fpe_crate =
  ff1_new :: "u8 list \<Rightarrow> nat \<Rightarrow> ustr + ff1"
  ff1_encrypt :: "ff1 \<Rightarrow> u8 list \<Rightarrow> nat list \<Rightarrow> ustr + nat list"
  ff1_decrypt :: "ff1 \<Rightarrow> u8 list \<Rightarrow> nat list \<Rightarrow> ustr + nat list"

record fpe_profile_input =
  fpi_name :: ustr
  fpi_version :: ustr
  fpi_alphabet :: "ustr option"
  fpi_alphabet_preset :: "alphabet_preset option"
  fpi_letter_case :: "letter_case option"
  fpi_preserve_characters :: "ustr option"
  fpi_authenticated :: bool
  fpi_subject_mode :: subject_mode
  fpi_min_len :: nat
  fpi_max_len :: nat
  fpi_tweak_aad :: ustr
  fpi_kid :: ustr

record fpe_profile =
  fp_name :: ustr
  fp_version :: ustr
  fp_alphabet :: ustr
  fp_min_len :: nat
  fp_max_len :: nat
  fp_tweak_aad :: ustr
  fp_kid :: ustr
  fp_alphabet_chars :: "uchar list"
  fp_alphabet_index :: "uchar \<rightharpoonup> nat"
  fp_cipher :: "ff1 option"
  fp_parent_key :: "u8 list option"
  fp_subject_mode :: subject_mode
  fp_preserve_characters :: ustr
  fp_preserved :: "uchar set"
  fp_authenticated :: bool
  fp_auth_key :: "u8 list option"

record fpe_profiles_state =
  fps_profiles :: "fpe_profile list"
  fps_by_name :: "ustr \<rightharpoonup> nat"

record fpe_key_request =
  fkr_kid :: ustr
  fkr_profile_name :: ustr
  fkr_version :: ustr

datatype fpe_context_keys =
    Legacy
  | Subject ustr ff1 "u8 list option"

record fpe_context =
  fc_profile :: fpe_profile
  fc_keys :: fpe_context_keys

record prepared_fpe_value =
  pv_digits :: "nat list"
  pv_preserved :: "(nat \<times> uchar) list"
  pv_total_len :: nat

section \<open>Alphabets\<close>

definition alphabet_validation_error :: "ustr \<Rightarrow> ustr option \<Rightarrow> dyn_error" where
  "alphabet_validation_error message alphabet =
     (let hint =
        (if alphabet = Some (lit ''num'')
         then Some (lit ''alphabet \"num\" is literal; for the preset use alphabet_preset: \"num\"'')
         else if alphabet = Some (lit ''alpha'')
         then Some (lit ''alphabet \"alpha\" is literal; for the preset use alphabet_preset: \"alpha\" with letter_case'')
         else if alphabet = Some (lit ''alphanum'')
         then Some (lit ''alphabet \"alphanum\" is literal; for the preset use alphabet_preset: \"alphanum\" with letter_case'')
         else None)
      in invalid_input (case hint of Some hint \<Rightarrow> message @ lit ''; '' @ hint | None \<Rightarrow> message))"

definition validate_fpe_alphabet :: "ustr \<Rightarrow> nat result" where
  "validate_fpe_alphabet alphabet =
     bindR (validate_text_field (lit ''fpe_profiles.alphabet'') alphabet) (\<lambda>_.
       if \<not> distinct alphabet
       then Inl (alphabet_validation_error
              (lit ''fpe_profiles.alphabet must not contain duplicate characters'') (Some alphabet))
       else
         let radix = card (set alphabet) in
         if \<not> (2 \<le> radix \<and> radix \<le> 2 ^ 16)
         then Inl (invalid_input (lit ''fpe_profiles.alphabet length must be between 2 and 65536''))
         else Inr radix)"

definition UPPER :: ustr where "UPPER = lit ''ABCDEFGHIJKLMNOPQRSTUVWXYZ''"
definition LOWER :: ustr where "LOWER = lit ''abcdefghijklmnopqrstuvwxyz''"

fun case_letters :: "letter_case \<Rightarrow> ustr" where
  "case_letters Uppercase = UPPER"
| "case_letters Lowercase = LOWER"
| "case_letters Mixed = UPPER @ LOWER"

definition resolve_fpe_alphabet ::
    "ustr option \<Rightarrow> alphabet_preset option \<Rightarrow> letter_case option \<Rightarrow> ustr result" where
  "resolve_fpe_alphabet alphabet preset case_opt =
     bindR (case (alphabet, preset, case_opt) of
              (Some alphabet, None, None) \<Rightarrow> Inr alphabet
            | (None, Some Num, None) \<Rightarrow> Inr (lit ''0123456789'')
            | (None, Some Alpha, Some c) \<Rightarrow> Inr (case_letters c)
            | (None, Some Alphanum, Some c) \<Rightarrow> Inr (lit ''0123456789'' @ case_letters c)
            | (Some _, Some _, _) \<Rightarrow>
                Inl (invalid_input (lit ''fpe_profiles requires exactly one of alphabet or alphabet_preset''))
            | (None, None, _) \<Rightarrow>
                Inl (invalid_input (lit ''fpe_profiles requires exactly one of alphabet or alphabet_preset''))
            | _ \<Rightarrow>
                Inl (invalid_input (lit ''fpe_profiles.letter_case is required for alpha/alphanum and prohibited for num/custom'')))
       (\<lambda>resolved. bindR (validate_fpe_alphabet resolved) (\<lambda>_. Inr resolved))"

fun validate_preserve_loop :: "uchar list \<Rightarrow> ustr \<Rightarrow> unit result" where
  "validate_preserve_loop seen [] = Inr ()"
| "validate_preserve_loop seen (ch # chs) =
     (if is_control ch \<or> ch \<in> set seen
      then Inl (invalid_input (lit ''fpe_profiles.preserve_characters must contain distinct characters without controls''))
      else if length (ch # seen) > FPE_PRESERVE_MAX_CHARS
      then Inl (invalid_input (lit ''fpe_profiles.preserve_characters exceeds maximum allowed length: '' @
             show_nat FPE_PRESERVE_MAX_CHARS))
      else validate_preserve_loop (ch # seen) chs)"

definition validate_preserve_characters :: "ustr \<Rightarrow> unit result" where
  "validate_preserve_characters v = validate_preserve_loop [] v"

definition validate_preserved_characters :: "ustr \<Rightarrow> ustr \<Rightarrow> uchar set result" where
  "validate_preserved_characters alphabet v =
     bindR (validate_preserve_characters v) (\<lambda>_.
       let preserved = set v in
       if list_ex (\<lambda>ch. ch \<in> preserved) alphabet
       then Inl (invalid_input (lit ''fpe_profiles.preserve_characters overlaps the alphabet''))
       else Inr preserved)"

fun prepare_index_loop :: "(uchar \<rightharpoonup> nat) \<Rightarrow> (nat \<times> uchar) list \<Rightarrow> (uchar \<rightharpoonup> nat) result" where
  "prepare_index_loop index [] = Inr index"
| "prepare_index_loop index ((i, item) # items) =
     (if i < 2 ^ 16 then prepare_index_loop (index(item \<mapsto> i)) items
      else Inl (internal (lit ''fpe alphabet index is invalid'')))"

definition prepare_fpe_alphabet :: "ustr \<Rightarrow> (uchar list \<times> (uchar \<rightharpoonup> nat)) result" where
  "prepare_fpe_alphabet alphabet =
     bindR (prepare_index_loop Map.empty (enumerate 0 alphabet)) (\<lambda>index. Inr (alphabet, index))"

section \<open>Lengths and domain\<close>

text \<open>\<open>usize::saturating_mul\<close> on 64-bit values.\<close>

definition saturating_mul :: "nat \<Rightarrow> nat \<Rightarrow> nat" where
  "saturating_mul a b = min (a * b) (2 ^ 64 - 1)"

fun domain_loop :: "nat \<Rightarrow> nat \<Rightarrow> nat \<Rightarrow> bool" where
  "domain_loop radix domain 0 = False"
| "domain_loop radix domain (Suc n) =
     (let domain = saturating_mul domain radix in
      if domain \<ge> 1000000 then True else domain_loop radix domain n)"

definition fpe_domain_is_large_enough :: "nat \<Rightarrow> nat \<Rightarrow> bool" where
  "fpe_domain_is_large_enough radix min_len = domain_loop radix 1 min_len"

definition validate_fpe_min_len :: "nat \<Rightarrow> unit result" where
  "validate_fpe_min_len min_len =
     (if min_len < FPE_VALUE_MIN_LEN
      then Inl (invalid_input (lit ''fpe_profiles.min_len must be at least '' @ show_nat FPE_VALUE_MIN_LEN))
      else Inr ())"

definition validate_fpe_max_len :: "nat \<Rightarrow> unit result" where
  "validate_fpe_max_len max_len =
     (if max_len > FPE_VALUE_MAX_LEN
      then Inl (invalid_input (lit ''fpe_profiles.max_len exceeds maximum allowed value''))
      else Inr ())"

definition validate_fpe_length_bounds :: "nat \<Rightarrow> nat \<Rightarrow> unit result" where
  "validate_fpe_length_bounds min_len max_len =
     bindR (validate_fpe_min_len min_len) (\<lambda>_.
     bindR (validate_fpe_max_len max_len) (\<lambda>_.
       if max_len < min_len
       then Inl (invalid_input (lit ''fpe_profiles.max_len must be greater than or equal to min_len''))
       else Inr ()))"

definition validate_profile_lengths :: "nat \<Rightarrow> nat \<Rightarrow> nat \<Rightarrow> ustr option \<Rightarrow> unit result" where
  "validate_profile_lengths min_len max_len radix alphabet =
     bindR (validate_fpe_length_bounds min_len max_len) (\<lambda>_.
       if \<not> fpe_domain_is_large_enough radix min_len
       then Inl (alphabet_validation_error (lit ''fpe profile domain is too small for FF1'') alphabet)
       else Inr ())"

definition validate_fpe_lengths :: "nat \<Rightarrow> nat \<Rightarrow> nat \<Rightarrow> unit result" where
  "validate_fpe_lengths min_len max_len radix = validate_profile_lengths min_len max_len radix None"

definition validate_fpe_version :: "ustr \<Rightarrow> unit result" where
  "validate_fpe_version v =
     validate_allowed_value (lit ''fpe_profiles.fpe_version'') v [FPE_VERSION_FF1_2025]"

definition validate_fpe_profile_fields ::
    "ustr \<Rightarrow> ustr \<Rightarrow> ustr \<Rightarrow> nat \<Rightarrow> nat \<Rightarrow> ustr \<Rightarrow> nat result" where
  "validate_fpe_profile_fields name fpe_version alphabet min_len max_len tweak_aad =
     bindR (validate_aad_config_name (lit ''fpe_profiles.name'') name) (\<lambda>_.
     bindR (validate_fpe_version fpe_version) (\<lambda>_.
     bindR (validate_fpe_alphabet alphabet) (\<lambda>radix.
     bindR (validate_profile_lengths min_len max_len radix (Some alphabet)) (\<lambda>_.
     bindR (validate_labels (lit ''fpe_profiles.tweak_aad'') tweak_aad FPE_TWEAK_AAD_MAX_CHARS) (\<lambda>_.
       Inr radix)))))"

section \<open>Values\<close>

fun parse_digits_loop ::
    "ustr \<Rightarrow> fpe_profile \<Rightarrow> nat \<Rightarrow> ustr \<Rightarrow> (nat list \<times> (nat \<times> uchar) list) result" where
  "parse_digits_loop field profile position [] = Inr ([], [])"
| "parse_digits_loop field profile position (item # items) =
     (if item \<in> fp_preserved profile then
        bindR (parse_digits_loop field profile (Suc position) items) (\<lambda>(digits, preserved).
          Inr (digits, (position, item) # preserved))
      else
        bindR (ok_or (invalid_input (field @ lit '' contains character outside fpe profile alphabet''))
                 (fp_alphabet_index profile item)) (\<lambda>digit.
        bindR (parse_digits_loop field profile (Suc position) items) (\<lambda>(digits, preserved).
          Inr (digit # digits, preserved))))"

definition parse_fpe_value_digits :: "ustr \<Rightarrow> ustr \<Rightarrow> fpe_profile \<Rightarrow> prepared_fpe_value result" where
  "parse_fpe_value_digits field v profile =
     (let total_len = length v in
      if total_len < fp_min_len profile \<or> total_len > fp_max_len profile
      then Inl (invalid_input (field @ lit '' length is outside fpe profile bounds''))
      else
        bindR (validate_text_field field v) (\<lambda>_.
        bindR (parse_digits_loop field profile 0 v) (\<lambda>(digits, preserved).
          if digits = [] \<or>
             \<not> fpe_domain_is_large_enough (length (fp_alphabet_chars profile)) (length digits)
          then Inl (invalid_input (field @
                 lit '' effective domain is too small for FF1 after excluding preserved characters''))
          else Inr \<lparr>pv_digits = digits, pv_preserved = preserved, pv_total_len = total_len\<rparr>)))"

fun rebuild_loop :: "uchar list \<Rightarrow> (nat \<times> uchar) list \<Rightarrow> nat list \<Rightarrow> nat list \<Rightarrow> ustr result" where
  "rebuild_loop chars positions digits [] = Inr []"
| "rebuild_loop chars positions digits (position # rest) =
     (case positions of
        (p, item) # positions' \<Rightarrow>
          if p = position then
            bindR (rebuild_loop chars positions' digits rest) (\<lambda>s. Inr (item # s))
          else
            bindR (ok_or (internal (lit ''fpe operation returned invalid alphabet index''))
                     (case digits of [] \<Rightarrow> None | d # _ \<Rightarrow> list_get chars d)) (\<lambda>ch.
            bindR (rebuild_loop chars positions (tl digits) rest) (\<lambda>s. Inr (ch # s)))
      | [] \<Rightarrow>
          bindR (ok_or (internal (lit ''fpe operation returned invalid alphabet index''))
                   (case digits of [] \<Rightarrow> None | d # _ \<Rightarrow> list_get chars d)) (\<lambda>ch.
          bindR (rebuild_loop chars positions (tl digits) rest) (\<lambda>s. Inr (ch # s))))"

definition fpe_transform ::
    "fpe_crate \<Rightarrow> fpe_profile \<Rightarrow> prepared_fpe_value \<Rightarrow> bool \<Rightarrow> ff1 \<Rightarrow> ustr result" where
  "fpe_transform F profile v encrypt cipher =
     bindR (map_err (\<lambda>err. invalid_input (lit ''fpe operation failed: '' @ err))
              (if encrypt then ff1_encrypt F cipher (utf8 (fp_tweak_aad profile)) (pv_digits v)
               else ff1_decrypt F cipher (utf8 (fp_tweak_aad profile)) (pv_digits v)))
       (\<lambda>output_digits.
         rebuild_loop (fp_alphabet_chars profile) (pv_preserved v) output_digits [0..<pv_total_len v])"

definition fp_cipher_q :: "fpe_profile \<Rightarrow> ff1 result" where
  "fp_cipher_q profile =
     ok_or (invalid_input (lit ''stored FPE profile requires a subject context'')) (fp_cipher profile)"

definition fpe_encrypt :: "fpe_crate \<Rightarrow> fpe_profile \<Rightarrow> ustr \<Rightarrow> ustr result" where
  "fpe_encrypt F profile plaintext =
     bindR (parse_fpe_value_digits (lit ''plaintext'') plaintext profile) (\<lambda>digits.
     bindR (fp_cipher_q profile) (\<lambda>cipher. fpe_transform F profile digits True cipher))"

definition fpe_decrypt :: "fpe_crate \<Rightarrow> fpe_profile \<Rightarrow> ustr \<Rightarrow> ustr result" where
  "fpe_decrypt F profile ciphertext =
     bindR (parse_fpe_value_digits (lit ''ciphertext'') ciphertext profile) (\<lambda>digits.
     bindR (fp_cipher_q profile) (\<lambda>cipher. fpe_transform F profile digits False cipher))"

section \<open>Keys\<close>

definition build_fpe_cipher :: "fpe_crate \<Rightarrow> u8 list \<Rightarrow> nat \<Rightarrow> ff1 result" where
  "build_fpe_cipher F fpe_key radix =
     (if radix < 2 ^ 32
      then map_err (\<lambda>err. invalid_input (lit ''fpe profile is invalid: '' @ err)) (ff1_new F fpe_key radix)
      else Inl (invalid_input (lit ''fpe profile radix is invalid'')))"

definition derive_fpe_key_for_profile :: "crates \<Rightarrow> ustr \<Rightarrow> fpe_key_request \<Rightarrow> u8 list result" where
  "derive_fpe_key_for_profile C ops_symmetric_key_hex request =
     bindR (hex_decode_q C ops_symmetric_key_hex) (\<lambda>ops_symmetric_key.
     bindR (build_validated_aad
              [(lit ''profile'', fkr_profile_name request), (lit ''kid'', fkr_kid request),
               (lit ''fpe_version'', fkr_version request)]) (\<lambda>info.
       create_hkdf C ops_symmetric_key FPE_KEY_SALT (utf8 info) FPE_KEY_SIZE_BYTES))"

definition derive_fpe_key :: "crates \<Rightarrow> ustr \<Rightarrow> fpe_profile \<Rightarrow> u8 list result" where
  "derive_fpe_key C ops_symmetric_key_hex profile =
     derive_fpe_key_for_profile C ops_symmetric_key_hex
       \<lparr>fkr_kid = fp_kid profile, fkr_profile_name = fp_name profile, fkr_version = fp_version profile\<rparr>"

definition derive_fpe_auth_key_for_profile :: "crates \<Rightarrow> ustr \<Rightarrow> fpe_key_request \<Rightarrow> u8 list result" where
  "derive_fpe_auth_key_for_profile C source request =
     bindR (hex_decode_q C source) (\<lambda>source.
     bindR (build_validated_aad
              [(lit ''purpose'', lit ''fpe-auth''), (lit ''profile'', fkr_profile_name request),
               (lit ''kid'', fkr_kid request), (lit ''fpe_version'', fkr_version request),
               (lit ''auth_version'', FPE_AUTH_VERSION)]) (\<lambda>info.
       create_hkdf C source FPE_AUTH_KEY_SALT (utf8 info) FPE_AUTH_KEY_SIZE_BYTES))"

section \<open>Authentication tags\<close>

definition fpe_auth_material :: "fpe_profile \<Rightarrow> ustr \<Rightarrow> json" where
  "fpe_auth_material profile ciphertext =
     JObject [(lit ''alphabet'', JString (fp_alphabet profile)),
       (lit ''auth_version'', JString FPE_AUTH_VERSION), (lit ''ciphertext'', JString ciphertext),
       (lit ''fpe_version'', JString (fp_version profile)), (lit ''kid'', JString (fp_kid profile)),
       (lit ''preserve_characters'', JString (fp_preserve_characters profile)),
       (lit ''profile'', JString (fp_name profile)), (lit ''purpose'', JString (lit ''fpe-auth'')),
       (lit ''tweak_aad'', JString (fp_tweak_aad profile))]"

definition auth_bytes :: "crates \<Rightarrow> fpe_profile \<Rightarrow> ustr \<Rightarrow> u8 list option \<Rightarrow> u8 list result" where
  "auth_bytes C profile ciphertext key =
     bindR (ok_or (internal (lit ''fpe authentication key unavailable'')) key) (\<lambda>key.
     bindR (canonical_json_v1 C (fpe_auth_material profile ciphertext)) (\<lambda>material.
     bindR (map_err (\<lambda>_. internal (lit ''fpe authentication operation failed''))
              (create_hmac_with_algorithm C FPE_AUTH_MAC key material)) (\<lambda>tag.
       if length tag \<noteq> FPE_AUTH_KEY_SIZE_BYTES
       then Inl (internal (lit ''fpe authentication tag has invalid length''))
       else Inr tag)))"

definition validate_auth_tag :: "ustr \<Rightarrow> unit result" where
  "validate_auth_tag tag =
     (if str_len tag \<noteq> 64 \<or> \<not> list_all (\<lambda>b. is_lower_hexdigit (unat b)) (utf8 tag)
      then Inl (invalid_input (lit ''fpe tag must be 64 lowercase hexadecimal characters''))
      else Inr ())"

definition validate_tag_policy :: "fpe_profile \<Rightarrow> ustr option \<Rightarrow> unit result" where
  "validate_tag_policy profile tag =
     (case (fp_authenticated profile, tag) of
        (True, None) \<Rightarrow> Inl (invalid_input (lit ''fpe tag is required for authenticated profiles''))
      | (False, Some _) \<Rightarrow> Inl (invalid_input (lit ''fpe tag is prohibited for legacy profiles''))
      | (_, Some tag) \<Rightarrow> validate_auth_tag tag
      | _ \<Rightarrow> Inr ())"

definition validate_subject_mode :: "fpe_profile \<Rightarrow> ustr option \<Rightarrow> unit result" where
  "validate_subject_mode profile subject =
     bindR (case subject of Some subject \<Rightarrow> validate_subject subject | None \<Rightarrow> Inr ()) (\<lambda>_.
       case (fp_subject_mode profile, subject) of
         (Stored, None) \<Rightarrow> Inl (invalid_input (lit ''subject is required for stored FPE profiles''))
       | (NoSubject, Some _) \<Rightarrow> Inl (invalid_input (lit ''subject is prohibited for legacy FPE profiles''))
       | _ \<Rightarrow> Inr ())"

definition generate_tag_with_key ::
    "crates \<Rightarrow> fpe_profile \<Rightarrow> ustr \<Rightarrow> u8 list option \<Rightarrow> ustr option result" where
  "generate_tag_with_key C profile ciphertext key =
     (if \<not> fp_authenticated profile then Inr None
      else bindR (auth_bytes C profile ciphertext key) (\<lambda>tag. Inr (Some (hex_encode C tag))))"

definition verify_tag_with_key ::
    "crates \<Rightarrow> fpe_profile \<Rightarrow> ustr \<Rightarrow> ustr option \<Rightarrow> u8 list option \<Rightarrow> unit result" where
  "verify_tag_with_key C profile ciphertext tag key =
     bindR (validate_tag_policy profile tag) (\<lambda>_.
       case tag of
         None \<Rightarrow> Inr ()
       | Some tag \<Rightarrow>
           bindR (hex_decode_q C tag) (\<lambda>received.
           bindR (auth_bytes C profile ciphertext key) (\<lambda>expected.
             if \<not> constant_time_eq received expected
             then Inl (invalid_input (lit ''fpe authentication failed''))
             else Inr ())))"

definition generate_auth_tag :: "crates \<Rightarrow> fpe_profile \<Rightarrow> ustr \<Rightarrow> ustr option result" where
  "generate_auth_tag C profile ciphertext =
     bindR (validate_subject_mode profile None) (\<lambda>_.
       generate_tag_with_key C profile ciphertext (fp_auth_key profile))"

definition verify_auth_tag :: "crates \<Rightarrow> fpe_profile \<Rightarrow> ustr \<Rightarrow> ustr option \<Rightarrow> unit result" where
  "verify_auth_tag C profile ciphertext tag =
     bindR (validate_subject_mode profile None) (\<lambda>_.
       verify_tag_with_key C profile ciphertext tag (fp_auth_key profile))"

section \<open>Contexts\<close>

definition fc_from_profile :: "fpe_profile \<Rightarrow> fpe_context" where
  "fc_from_profile profile = \<lparr>fc_profile = profile, fc_keys = Legacy\<rparr>"

definition fc_subject :: "fpe_context \<Rightarrow> ustr option" where
  "fc_subject ctx = (case fc_keys ctx of Legacy \<Rightarrow> None | Subject subject _ _ \<Rightarrow> Some subject)"

definition fc_validate_mode :: "fpe_context \<Rightarrow> ustr option \<Rightarrow> unit result" where
  "fc_validate_mode ctx expected =
     bindR (validate_subject_mode (fc_profile ctx) expected) (\<lambda>_.
       if fc_subject ctx \<noteq> expected
       then Inl (invalid_input (lit ''subject does not match FPE context''))
       else Inr ())"

definition subject_info :: "fpe_profile \<Rightarrow> ustr \<Rightarrow> bool \<Rightarrow> ustr result" where
  "subject_info profile purpose auth =
     build_validated_aad
       ([(lit ''purpose'', purpose), (lit ''kid'', fp_kid profile), (lit ''profile'', fp_name profile),
         (lit ''fpe_version'', fp_version profile)] @
        (if auth then [(lit ''auth_version'', FPE_AUTH_VERSION)] else []) @
        [(lit ''version'', lit ''v1'')])"

definition with_subject ::
    "crates \<Rightarrow> fpe_crate \<Rightarrow> fpe_profile \<Rightarrow> ustr \<Rightarrow> u8 list \<Rightarrow> fpe_context result" where
  "with_subject C F profile subject seed =
     bindR (validate_subject_mode profile (Some subject)) (\<lambda>_.
     bindR (ok_or (internal (lit ''FPE parent key unavailable'')) (fp_parent_key profile)) (\<lambda>parent.
     bindR (subject_info profile (lit ''subject-fpe-encryption'') False) (\<lambda>info.
     bindR (create_hkdf C parent seed (utf8 info) 32) (\<lambda>key.
     bindR (build_fpe_cipher F key (length (fp_alphabet_chars profile))) (\<lambda>cipher.
     bindR (if fp_authenticated profile then
              bindR (ok_or (internal (lit ''FPE parent MAC key unavailable'')) (fp_auth_key profile)) (\<lambda>parent.
              bindR (subject_info profile (lit ''subject-fpe-authentication'') True) (\<lambda>info.
              bindR (create_hkdf C parent seed (utf8 info) 32) (\<lambda>k. Inr (Some k))))
            else Inr None) (\<lambda>auth_key.
       Inr \<lparr>fc_profile = profile, fc_keys = Subject subject cipher auth_key\<rparr>))))))"

definition fc_cipher :: "fpe_context \<Rightarrow> ff1 result" where
  "fc_cipher ctx =
     bindR (fc_validate_mode ctx (fc_subject ctx)) (\<lambda>_.
       case fc_keys ctx of Legacy \<Rightarrow> fp_cipher_q (fc_profile ctx) | Subject _ cipher _ \<Rightarrow> Inr cipher)"

definition fc_auth_key :: "fpe_context \<Rightarrow> u8 list option" where
  "fc_auth_key ctx =
     (case fc_keys ctx of Legacy \<Rightarrow> fp_auth_key (fc_profile ctx) | Subject _ _ auth_key \<Rightarrow> auth_key)"

definition fc_encrypt :: "fpe_crate \<Rightarrow> fpe_context \<Rightarrow> ustr \<Rightarrow> ustr result" where
  "fc_encrypt F ctx v =
     bindR (fc_cipher ctx) (\<lambda>cipher.
     bindR (parse_fpe_value_digits (lit ''plaintext'') v (fc_profile ctx)) (\<lambda>digits.
       fpe_transform F (fc_profile ctx) digits True cipher))"

definition fc_decrypt :: "fpe_crate \<Rightarrow> fpe_context \<Rightarrow> ustr \<Rightarrow> ustr result" where
  "fc_decrypt F ctx v =
     bindR (fc_cipher ctx) (\<lambda>cipher.
     bindR (parse_fpe_value_digits (lit ''ciphertext'') v (fc_profile ctx)) (\<lambda>digits.
       fpe_transform F (fc_profile ctx) digits False cipher))"

definition fc_generate_tag :: "crates \<Rightarrow> fpe_context \<Rightarrow> ustr \<Rightarrow> ustr option result" where
  "fc_generate_tag C ctx ciphertext =
     bindR (fc_validate_mode ctx (fc_subject ctx)) (\<lambda>_.
       generate_tag_with_key C (fc_profile ctx) ciphertext (fc_auth_key ctx))"

definition fc_verify_tag :: "crates \<Rightarrow> fpe_context \<Rightarrow> ustr \<Rightarrow> ustr option \<Rightarrow> unit result" where
  "fc_verify_tag C ctx ciphertext tag =
     bindR (fc_validate_mode ctx (fc_subject ctx)) (\<lambda>_.
       verify_tag_with_key C (fc_profile ctx) ciphertext tag (fc_auth_key ctx))"

section \<open>Profiles\<close>

definition fpe_from_profiles :: "fpe_profile list \<Rightarrow> fpe_profiles_state" where
  "fpe_from_profiles ps = \<lparr>fps_profiles = ps, fps_by_name = index_by_name fp_name ps\<rparr>"

definition fpe_get :: "fpe_profiles_state \<Rightarrow> ustr \<Rightarrow> fpe_profile option" where
  "fpe_get st n = Option.bind (fps_by_name st n) (\<lambda>i. list_get (fps_profiles st) i)"

definition preserve_or_default :: "fpe_profile_input \<Rightarrow> ustr" where
  "preserve_or_default i = (case fpi_preserve_characters i of None \<Rightarrow> [] | Some s \<Rightarrow> s)"

definition validate_profile_definition :: "fpe_profile_input \<Rightarrow> unit result" where
  "validate_profile_definition input =
     bindR (resolve_fpe_alphabet (fpi_alphabet input) (fpi_alphabet_preset input) (fpi_letter_case input))
       (\<lambda>alphabet.
     bindR (validate_preserved_characters alphabet (preserve_or_default input)) (\<lambda>_.
     bindR (validate_fpe_profile_fields (fpi_name input) (fpi_version input) alphabet
              (fpi_min_len input) (fpi_max_len input) (fpi_tweak_aad input)) (\<lambda>_. Inr ())))"

definition check_fpe_input :: "(ustr \<Rightarrow> bool) \<Rightarrow> fpe_profile_input \<Rightarrow> unit result" where
  "check_fpe_input is_loaded_kid i =
     bindR (validate_profile_definition i) (\<lambda>_.
     bindR (map_err (\<lambda>err. invalid_input (lit ''fpe_profiles.kid is invalid: '' @ to_string err))
              (validate_key_id (fpi_kid i))) (\<lambda>_.
       if \<not> is_loaded_kid (fpi_kid i)
       then Inl (invalid_input (lit ''fpe profile references kid not loaded in memory: '' @ fpi_kid i))
       else Inr ()))"

definition request_of :: "fpe_profile_input \<Rightarrow> fpe_key_request" where
  "request_of i = \<lparr>fkr_kid = fpi_kid i, fkr_profile_name = fpi_name i, fkr_version = fpi_version i\<rparr>"

definition build_fpe_profile ::
    "fpe_crate \<Rightarrow> (fpe_key_request \<Rightarrow> u8 list result) \<Rightarrow> (fpe_key_request \<Rightarrow> u8 list result) \<Rightarrow>
     fpe_profile_input \<Rightarrow> fpe_profile result" where
  "build_fpe_profile F derive_key derive_auth_key i =
     bindR (resolve_fpe_alphabet (fpi_alphabet i) (fpi_alphabet_preset i) (fpi_letter_case i)) (\<lambda>alphabet.
     bindR (validate_preserved_characters alphabet (preserve_or_default i)) (\<lambda>preserved.
     bindR (derive_key (request_of i)) (\<lambda>fpe_key.
       if length fpe_key \<noteq> FPE_KEY_SIZE_BYTES
       then Inl (internal (lit ''derived fpe key has invalid length''))
       else
     bindR (prepare_fpe_alphabet alphabet) (\<lambda>(alphabet_chars, alphabet_index).
     bindR (case fpi_subject_mode i of
              NoSubject \<Rightarrow> bindR (build_fpe_cipher F fpe_key (length alphabet_chars)) (\<lambda>c. Inr (Some c, None))
            | Stored \<Rightarrow> Inr (None, Some fpe_key)) (\<lambda>(cipher, parent_key).
     bindR (if fpi_authenticated i then
              bindR (derive_auth_key (request_of i)) (\<lambda>key.
                if length key \<noteq> FPE_AUTH_KEY_SIZE_BYTES
                then Inl (internal (lit ''derived fpe authentication key has invalid length''))
                else Inr (Some key))
            else Inr None) (\<lambda>auth_key.
       Inr \<lparr>fp_name = fpi_name i, fp_version = fpi_version i, fp_alphabet = alphabet,
            fp_min_len = fpi_min_len i, fp_max_len = fpi_max_len i, fp_tweak_aad = fpi_tweak_aad i,
            fp_kid = fpi_kid i, fp_alphabet_chars = alphabet_chars, fp_alphabet_index = alphabet_index,
            fp_cipher = cipher, fp_parent_key = parent_key, fp_subject_mode = fpi_subject_mode i,
            fp_preserve_characters = preserve_or_default i, fp_preserved = preserved,
            fp_authenticated = fpi_authenticated i, fp_auth_key = auth_key\<rparr>))))))"

fun validate_fpe_loop ::
    "fpe_crate \<Rightarrow> (ustr \<Rightarrow> bool) \<Rightarrow> (fpe_key_request \<Rightarrow> u8 list result) \<Rightarrow>
     (fpe_key_request \<Rightarrow> u8 list result) \<Rightarrow> ustr set \<Rightarrow> fpe_profile_input list \<Rightarrow> fpe_profile list result" where
  "validate_fpe_loop F loaded derive derive_auth seen_names [] = Inr []"
| "validate_fpe_loop F loaded derive derive_auth seen_names (i # is) =
     bindR (check_fpe_input loaded i) (\<lambda>_.
       if fpi_name i \<in> seen_names
       then Inl (invalid_input (lit ''fpe profile has duplicated name: '' @ fpi_name i))
       else bindR (build_fpe_profile F derive derive_auth i) (\<lambda>p.
         bindR (validate_fpe_loop F loaded derive derive_auth (insert (fpi_name i) seen_names) is)
           (\<lambda>ps. Inr (p # ps))))"

definition validate_fpe_profiles ::
    "fpe_crate \<Rightarrow> (ustr \<Rightarrow> bool) \<Rightarrow> (fpe_key_request \<Rightarrow> u8 list result) \<Rightarrow>
     (fpe_key_request \<Rightarrow> u8 list result) \<Rightarrow> fpe_profile_input list \<Rightarrow> fpe_profiles_state result" where
  "validate_fpe_profiles F loaded derive derive_auth inputs =
     bindR (validate_fpe_loop F loaded derive derive_auth {} inputs) (\<lambda>ps. Inr (fpe_from_profiles ps))"

lemma build_fpe_profile_name: "build_fpe_profile F d a i = Inr p \<Longrightarrow> fp_name p = fpi_name i"
  by (auto simp: build_fpe_profile_def bindR_eq_Inr split: if_splits prod.splits)

interpretation fpes: profile_loader fp_name fpe_from_profiles fpe_get
    fpi_name "check_fpe_input loaded"
    "\<lambda>i. invalid_input (lit ''fpe profile has duplicated name: '' @ fpi_name i)"
    "build_fpe_profile F derive derive_auth"
    "validate_fpe_loop F loaded derive derive_auth" "validate_fpe_profiles F loaded derive derive_auth"
  for F loaded derive derive_auth
  by unfold_locales
    (auto simp: fpe_from_profiles_def fpe_get_def validate_fpe_profiles_def build_fpe_profile_name)

end
