(* ===== verification/Fpe_Correct.thy ===== *)
theory Fpe_Correct
  imports Fpe
begin

text \<open>
  Correctness of format-preserving encryption: the domain check is the bound it stands for, loaded
  profiles are well formed, encryption of every accepted value succeeds and keeps its format,
  decryption inverts it, and tags are accepted exactly when they are the profile's own.
\<close>

section \<open>The domain check\<close>

lemma domain_loop_iff: "domain < 1000000 \<Longrightarrow> domain_loop radix domain n \<longleftrightarrow> 1000000 \<le> domain * radix ^ n"
proof (induction n arbitrary: domain)
  case (Suc n)
  show ?case
  proof (cases "1000000 \<le> domain * radix")
    case True
    then have "0 < radix" by (cases radix) auto
    then have "1 \<le> radix ^ n" by simp
    from mult_le_mono2 [OF this, of "domain * radix"]
    have "domain * radix \<le> domain * (radix * radix ^ n)" by (simp only: mult_1_right mult.assoc)
    with True have "1000000 \<le> domain * (radix * radix ^ n)" by (rule order_trans)
    with True show ?thesis by (simp add: Let_def saturating_mul_def algebra_simps)
  next
    case False
    then show ?thesis using Suc.IH [of "domain * radix"]
      by (simp add: Let_def saturating_mul_def algebra_simps)
  qed
qed simp

text \<open>The saturating loop of \<open>fpe_domain_is_large_enough\<close> decides, for every radix and length,
  whether the number of numeral strings of that length is at least one million; saturation never
  changes the answer.\<close>

theorem fpe_domain_iff: "fpe_domain_is_large_enough radix n \<longleftrightarrow> 1000000 \<le> radix ^ n"
  by (simp add: fpe_domain_is_large_enough_def domain_loop_iff)

lemma domain_iff: "fpe_domain_is_large_enough radix n \<longleftrightarrow> 1000000 \<le> radix ^ n"
  by (simp add: fpe_domain_is_large_enough_def domain_loop_iff)

section \<open>Well-formed profiles\<close>

definition fpe_wf :: "fpe_profile \<Rightarrow> bool" where
  "fpe_wf p \<longleftrightarrow>
     distinct (fp_alphabet_chars p) \<and> fp_alphabet_chars p = fp_alphabet p \<and>
     (\<forall>c i. fp_alphabet_index p c = Some i \<longleftrightarrow>
        i < length (fp_alphabet_chars p) \<and> fp_alphabet_chars p ! i = c) \<and>
     set (fp_alphabet_chars p) \<inter> fp_preserved p = {} \<and>
     (\<forall>c \<in> set (fp_alphabet_chars p) \<union> fp_preserved p. \<not> is_control c) \<and>
     2 \<le> length (fp_alphabet_chars p) \<and> length (fp_alphabet_chars p) \<le> 65536 \<and>
     6 \<le> fp_min_len p \<and> fp_min_len p \<le> fp_max_len p \<and> fp_max_len p \<le> 1024 \<and>
     str_len (fp_tweak_aad p) \<le> 512"

lemma validate_fpe_alphabet_ok:
  "validate_fpe_alphabet a = Inr r \<longleftrightarrow>
     r = length a \<and> distinct a \<and> 2 \<le> length a \<and> length a \<le> 65536 \<and>
     \<not> list_ex is_control a \<and> \<not> blank a"
  by (auto simp: validate_fpe_alphabet_def result_simps Let_def distinct_card list_ex_iff)

lemma resolve_fpe_alphabet_ok:
  "resolve_fpe_alphabet a pr c = Inr r \<Longrightarrow> validate_fpe_alphabet r = Inr (length r)"
  by (auto simp: resolve_fpe_alphabet_def bindR_eq_Inr validate_fpe_alphabet_ok)

lemma validate_preserve_loop_ok:
  "validate_preserve_loop seen v = Inr () \<Longrightarrow> \<not> list_ex is_control v"
  by (induction v arbitrary: seen) (auto split: if_splits)

lemma validate_preserved_ok:
  assumes "validate_preserved_characters a v = Inr ps"
  shows "ps = set v \<and> set a \<inter> ps = {} \<and> (\<forall>c \<in> ps. \<not> is_control c)"
  using assms validate_preserve_loop_ok [of "[]" v]
  by (auto simp: validate_preserved_characters_def validate_preserve_characters_def bindR_eq_Inr Let_def
      list_ex_iff split: if_splits)

lemma prepare_index_loop_ok:
  assumes "prepare_index_loop m (enumerate k a) = Inr index" "distinct a"
  shows "index c = (if c \<in> set a then Some (k + length (takeWhile (\<lambda>x. x \<noteq> c) a)) else m c)"
  using assms
proof (induction a arbitrary: k m)
  case (Cons x a)
  then have "prepare_index_loop (m(x \<mapsto> k)) (enumerate (Suc k) a) = Inr index"
    by (simp split: if_splits)
  from Cons.IH [OF this] Cons.prems(2) show ?case by auto
qed simp

lemma prepare_alphabet_ok:
  assumes "prepare_fpe_alphabet a = Inr (chars, index)" "distinct a"
  shows "chars = a \<and> (\<forall>c i. index c = Some i \<longleftrightarrow> i < length a \<and> a ! i = c)"
proof -
  from assms have chars: "chars = a" and loop: "prepare_index_loop Map.empty (enumerate 0 a) = Inr index"
    by (auto simp: prepare_fpe_alphabet_def bindR_eq_Inr)
  have idx: "index c = (if c \<in> set a then Some (length (takeWhile (\<lambda>x. x \<noteq> c) a)) else None)" for c
    using prepare_index_loop_ok [OF loop assms(2)] by simp
  have tw: "length (takeWhile (\<lambda>x. x \<noteq> a ! i) a) = i" if "i < length a" for i
  proof -
    have ne: "\<forall>x \<in> set (take i a). x \<noteq> a ! i"
      using that assms(2) by (auto simp: in_set_conv_nth nth_eq_iff_index_eq)
    have "takeWhile (\<lambda>x. x \<noteq> a ! i) a = takeWhile (\<lambda>x. x \<noteq> a ! i) (take i a @ a ! i # drop (Suc i) a)"
      by (simp only: id_take_nth_drop [OF that, symmetric])
    also have "\<dots> = take i a" using ne by (subst takeWhile_append2) auto
    finally have "takeWhile (\<lambda>x. x \<noteq> a ! i) a = take i a" .
    then show ?thesis using that by simp
  qed
  have "index c = Some i \<longleftrightarrow> i < length a \<and> a ! i = c" for c i
    using idx [of c] tw by (auto simp: in_set_conv_nth nth_eq_iff_index_eq [OF assms(2)] split: if_splits)
  with chars show ?thesis by blast
qed

lemma labels_length: "validate_labels f v n = Inr () \<Longrightarrow> length v \<le> n"
  by (auto simp: validate_labels_def bindR_eq_Inr split: if_splits)

lemma fpe_profile_ok:
  assumes "check_fpe_input loaded i = Inr ()" "build_fpe_profile F d a i = Inr p"
  shows "fpe_wf p \<and> loaded (fp_kid p) \<and> (\<forall>c. fp_cipher p = Some c \<longrightarrow>
    (\<exists>k. ff1_new F k (length (fp_alphabet_chars p)) = Inr c))"
proof -
  from assms(2) obtain al pres key chars idx cipher parent where
    al: "resolve_fpe_alphabet (fpi_alphabet i) (fpi_alphabet_preset i) (fpi_letter_case i) = Inr al"
    and pres: "validate_preserved_characters al (preserve_or_default i) = Inr pres"
    and prep: "prepare_fpe_alphabet al = Inr (chars, idx)"
    and cip: "(case fpi_subject_mode i of
              NoSubject \<Rightarrow> bindR (build_fpe_cipher F key (length chars)) (\<lambda>c. Inr (Some c, None))
            | Stored \<Rightarrow> Inr (None, Some key)) = Inr (cipher, parent)"
    and p: "fp_alphabet p = al" "fp_alphabet_chars p = chars" "fp_alphabet_index p = idx"
      "fp_preserved p = pres" "fp_cipher p = cipher" "fp_kid p = fpi_kid i" "fp_min_len p = fpi_min_len i"
      "fp_max_len p = fpi_max_len i" "fp_tweak_aad p = fpi_tweak_aad i"
    by (auto simp: build_fpe_profile_def bindR_eq_Inr split: if_splits prod.splits)
  from assms(1) al have fields: "validate_profile_lengths (fpi_min_len i) (fpi_max_len i) (length al) (Some al) = Inr ()"
    and tw: "length (fpi_tweak_aad i) \<le> 128" and loaded: "loaded (fpi_kid i)"
    by (auto simp: check_fpe_input_def validate_profile_definition_def validate_fpe_profile_fields_def
        result_simps validate_fpe_alphabet_ok FPE_TWEAK_AAD_MAX_CHARS_def dest!: labels_length split: if_splits)
  from fields have len: "6 \<le> fpi_min_len i \<and> fpi_min_len i \<le> fpi_max_len i \<and> fpi_max_len i \<le> 1024"
    by (auto simp: validate_profile_lengths_def validate_fpe_length_bounds_def validate_fpe_min_len_def
        validate_fpe_max_len_def FPE_VALUE_MIN_LEN_def FPE_VALUE_MAX_LEN_def bindR_eq_Inr split: if_splits)
  have a: "distinct al" "2 \<le> length al" "length al \<le> 65536" "\<not> list_ex is_control al"
    using resolve_fpe_alphabet_ok [OF al] by (auto simp: validate_fpe_alphabet_ok)
  have "str_len (fpi_tweak_aad i) \<le> 512" using str_len_le [of "fpi_tweak_aad i"] tw by simp
  then have "fpe_wf p"
    using prepare_alphabet_ok [OF prep a(1)] validate_preserved_ok [OF pres] a len
    by (auto simp: fpe_wf_def p list_ex_iff)
  moreover have "\<exists>k. ff1_new F k (length chars) = Inr c" if "cipher = Some c" for c
    using cip that by (auto simp: build_fpe_cipher_def bindR_eq_Inr map_err_eq_Inr split: subject_mode.splits if_splits)
  ultimately show ?thesis using loaded by (auto simp: p)
qed

lemma fpe_get_ok:
  assumes "validate_fpe_profiles F loaded d a is = Inr st" "fpe_get st n = Some p"
  shows "fpe_wf p" and "fp_cipher p = Some c \<Longrightarrow> \<exists>k. ff1_new F k (length (fp_alphabet_chars p)) = Inr c"
proof -
  from fpes.load_sound [OF assms] obtain i where
    "check_fpe_input loaded i = Inr ()" "build_fpe_profile F d a i = Inr p" by blast
  from fpe_profile_ok [OF this] show "fpe_wf p"
    "fp_cipher p = Some c \<Longrightarrow> \<exists>k. ff1_new F k (length (fp_alphabet_chars p)) = Inr c" by auto
qed

section \<open>Splitting and reassembling a value\<close>

lemma parse_positions:
  "parse_digits_loop f p k v = Inr (ds, ps) \<Longrightarrow> (q, c) \<in> set ps \<Longrightarrow> k \<le> q"
proof (induction v arbitrary: k ds ps)
  case (Cons x v)
  then show ?case by (fastforce simp: bindR_eq_Inr split: if_splits)
qed simp

lemma rebuild_skip:
  assumes "parse_digits_loop f p (Suc k) v = Inr (ds, ps)"
  shows "rebuild_loop chars ps (e # es) (k # rest) =
    bindR (ok_or (internal (lit ''fpe operation returned invalid alphabet index'')) (list_get chars e)) (\<lambda>ch.
    bindR (rebuild_loop chars ps es rest) (\<lambda>s. Inr (ch # s)))"
proof (cases ps)
  case (Cons a ps')
  obtain q c where a: "a = (q, c)" by (cases a)
  then have "Suc k \<le> q" using parse_positions [OF assms, of q c] Cons by simp
  then show ?thesis by (simp add: Cons a)
qed simp

lemma parse_loop_same:
  assumes "fpe_wf p" "parse_digits_loop f p k v = Inr (ds, ps)"
  shows "rebuild_loop (fp_alphabet_chars p) ps ds [k..<k + length v] = Inr v \<and>
    list_all (\<lambda>d. d < length (fp_alphabet_chars p)) ds \<and> length ds \<le> length v"
  using assms(2)
proof (induction v arbitrary: k ds ps)
  case (Cons x v)
  have up: "[k..<k + length (x # v)] = k # [Suc k..<Suc k + length v]" by (simp add: upt_conv_Cons del: upt_Suc)
  show ?case
  proof (cases "x \<in> fp_preserved p")
    case True
    with Cons.prems obtain ps' where ps: "ps = (k, x) # ps'" "parse_digits_loop f p (Suc k) v = Inr (ds, ps')"
      by (auto simp: bindR_eq_Inr)
    from Cons.IH [OF ps(2)] show ?thesis unfolding up ps(1) by simp
  next
    case False
    with Cons.prems obtain d ds' where d: "fp_alphabet_index p x = Some d" "ds = d # ds'"
      "parse_digits_loop f p (Suc k) v = Inr (ds', ps)"
      by (auto simp: bindR_eq_Inr ok_or_eq_Inr)
    then have "d < length (fp_alphabet_chars p)" "fp_alphabet_chars p ! d = x"
      using assms(1) by (auto simp: fpe_wf_def)
    with Cons.IH [OF d(3)] show ?thesis
      unfolding up d(2) by (simp add: rebuild_skip [OF d(3)] list_get_def del: rebuild_loop.simps upt_Suc)
  qed
qed simp

lemma parse_loop_replace:
  assumes "fpe_wf p" "parse_digits_loop f p k v = Inr (ds, ps)"
    and "length es = length ds" "list_all (\<lambda>d. d < length (fp_alphabet_chars p)) es"
  shows "\<exists>w. rebuild_loop (fp_alphabet_chars p) ps es [k..<k + length v] = Inr w \<and>
    list_all2 (\<lambda>a b. if a \<in> fp_preserved p then b = a else b \<in> set (fp_alphabet_chars p)) v w \<and>
    parse_digits_loop g p k w = Inr (es, ps)"
  using assms(2-)
proof (induction v arbitrary: k ds ps es)
  case (Cons x v)
  have up: "[k..<k + length (x # v)] = k # [Suc k..<Suc k + length v]" by (simp add: upt_conv_Cons del: upt_Suc)
  show ?case
  proof (cases "x \<in> fp_preserved p")
    case True
    with Cons.prems obtain ps' where ps: "ps = (k, x) # ps'" "parse_digits_loop f p (Suc k) v = Inr (ds, ps')"
      by (auto simp: bindR_eq_Inr)
    from Cons.IH [OF ps(2) Cons.prems(2,3)] obtain w where
      "rebuild_loop (fp_alphabet_chars p) ps' es [Suc k..<Suc k + length v] = Inr w"
      "list_all2 (\<lambda>a b. if a \<in> fp_preserved p then b = a else b \<in> set (fp_alphabet_chars p)) v w"
      "parse_digits_loop g p (Suc k) w = Inr (es, ps')" by blast
    with True show ?thesis unfolding up ps(1) by (intro exI [of _ "x # w"]) simp
  next
    case False
    with Cons.prems(1) obtain d ds' where d: "ds = d # ds'" "parse_digits_loop f p (Suc k) v = Inr (ds', ps)"
      by (auto simp: bindR_eq_Inr ok_or_eq_Inr)
    with Cons.prems(2) obtain e es' where es: "es = e # es'" "length es' = length ds'"
      by (cases es) auto
    let ?y = "fp_alphabet_chars p ! e"
    have e: "e < length (fp_alphabet_chars p)" "list_all (\<lambda>d. d < length (fp_alphabet_chars p)) es'"
      using Cons.prems(3) by (auto simp: es)
    have y: "fp_alphabet_index p ?y = Some e" "?y \<in> set (fp_alphabet_chars p)" "?y \<notin> fp_preserved p"
      using assms(1) nth_mem [OF e(1)] e(1) unfolding fpe_wf_def by blast+
    from Cons.IH [OF d(2) es(2) e(2)] obtain w where
      "rebuild_loop (fp_alphabet_chars p) ps es' [Suc k..<Suc k + length v] = Inr w"
      "list_all2 (\<lambda>a b. if a \<in> fp_preserved p then b = a else b \<in> set (fp_alphabet_chars p)) v w"
      "parse_digits_loop g p (Suc k) w = Inr (es', ps)" by blast
    with False y e(1) show ?thesis
      unfolding up es(1) by (intro exI [of _ "?y # w"]) (simp add: rebuild_skip [OF d(2)] list_get_def del: rebuild_loop.simps upt_Suc)
  qed
qed simp

section \<open>Encryption and decryption\<close>

text \<open>What is relied on of the FF1 crate: on numeral strings over the radix, long enough for a domain
  of a million, encryption succeeds, keeps length and radix, and decryption inverts it.\<close>

definition numerals_ok :: "nat \<Rightarrow> nat list \<Rightarrow> bool" where
  "numerals_ok r ds \<longleftrightarrow> list_all (\<lambda>d. d < r) ds \<and> 1000000 \<le> r ^ length ds \<and> length ds < 2 ^ 32"

definition fpe_crate_ok :: "fpe_crate \<Rightarrow> bool" where
  "fpe_crate_ok F \<longleftrightarrow>
     (\<forall>k r c t ds. ff1_new F k r = Inr c \<and> numerals_ok r ds \<and> length t < 2 ^ 32 \<longrightarrow>
        (\<exists>es. ff1_encrypt F c t ds = Inr es \<and> list_all (\<lambda>d. d < r) es \<and> length es = length ds \<and>
           ff1_decrypt F c t es = Inr ds))"

definition same_format :: "fpe_profile \<Rightarrow> ustr \<Rightarrow> ustr \<Rightarrow> bool" where
  "same_format p v w \<longleftrightarrow>
     list_all2 (\<lambda>a b. if a \<in> fp_preserved p then b = a else b \<in> set (fp_alphabet p)) v w"

lemma parse_value_ok:
  assumes "fpe_wf p"
  shows "parse_fpe_value_digits f v p = Inr pv \<longleftrightarrow>
    fp_min_len p \<le> length v \<and> length v \<le> fp_max_len p \<and> \<not> list_ex is_control v \<and> \<not> blank v \<and>
    parse_digits_loop f p 0 v = Inr (pv_digits pv, pv_preserved pv) \<and> pv_total_len pv = length v \<and>
    1000000 \<le> length (fp_alphabet_chars p) ^ length (pv_digits pv)"
proof -
  have ne: "ds \<noteq> []" if "1000000 \<le> r ^ length ds" for r :: nat and ds :: "nat list" using that by auto
  show ?thesis
    by (cases pv) (auto simp: parse_fpe_value_digits_def Let_def bindR_eq_Inr domain_iff list_ex_iff
        validate_text_field_ok not_less split: if_splits prod.splits, metis ne)
qed

lemma transform_ok:
  assumes F: "fpe_crate_ok F" and wf: "fpe_wf p"
    and new: "ff1_new F k (length (fp_alphabet_chars p)) = Inr c"
    and pv: "parse_fpe_value_digits f pt p = Inr pv"
  obtains ct where "fpe_transform F p pv True c = Inr ct" "same_format p pt ct"
    "bindR (parse_fpe_value_digits g ct p) (\<lambda>v. fpe_transform F p v False c) =
       (if blank ct then Inl (invalid_input (g @ lit '' must not be empty'')) else Inr pt)"
proof -
  let ?r = "length (fp_alphabet_chars p)" and ?ds = "pv_digits pv" and ?t = "utf8 (fp_tweak_aad p)"
  have alph: "fp_alphabet p = fp_alphabet_chars p" using wf by (simp add: fpe_wf_def)
  note v = pv [unfolded parse_value_ok [OF wf]]
  then have loop: "parse_digits_loop f p 0 pt = Inr (?ds, pv_preserved pv)" by blast
  note same = parse_loop_same [OF wf loop]
  have "numerals_ok ?r ?ds" "length ?t < 2 ^ 32"
    using same v wf by (auto simp: numerals_ok_def fpe_wf_def str_len_def)
  then obtain es where es: "ff1_encrypt F c ?t ?ds = Inr es" "list_all (\<lambda>d. d < ?r) es"
    "length es = length ?ds" "ff1_decrypt F c ?t es = Inr ?ds"
    using F new unfolding fpe_crate_ok_def by blast
  from parse_loop_replace [OF wf loop es(3,2), of g] obtain ct where
    ct: "rebuild_loop (fp_alphabet_chars p) (pv_preserved pv) es [0..<length pt] = Inr ct"
    "same_format p pt ct" "parse_digits_loop g p 0 ct = Inr (es, pv_preserved pv)"
    unfolding same_format_def alph by auto
  have len: "length ct = length pt" using ct(2) by (auto simp: same_format_def dest: list_all2_lengthD)
  have ctl: "\<not> list_ex is_control ct"
  proof -
    have "\<not> is_control b" if "b \<in> set ct" for b
      using list_all2_in2 [OF ct(2) [unfolded same_format_def] that] wf
      by (auto simp: fpe_wf_def split: if_splits)
    then show ?thesis by (auto simp: list_ex_iff)
  qed
  let ?pv = "\<lparr>pv_digits = es, pv_preserved = pv_preserved pv, pv_total_len = length ct\<rparr>"
  have parse: "parse_fpe_value_digits g ct p = Inr ?pv" if "\<not> blank ct"
    using that v ct(3) ctl len es(3) by (simp add: parse_value_ok [OF wf])
  moreover have "parse_fpe_value_digits g ct p = Inl (invalid_input (g @ lit '' must not be empty''))" if "blank ct"
    using that v len by (simp add: parse_fpe_value_digits_def validate_text_field_def not_less)
  moreover have "fpe_transform F p ?pv False c = Inr pt"
    using same es(4) len by (simp add: fpe_transform_def)
  ultimately have "bindR (parse_fpe_value_digits g ct p) (\<lambda>v. fpe_transform F p v False c) =
      (if blank ct then Inl (invalid_input (g @ lit '' must not be empty'')) else Inr pt)" by simp
  moreover have "fpe_transform F p pv True c = Inr ct"
    using ct(1) es(1) v by (simp add: fpe_transform_def)
  ultimately show thesis using that ct(2) by blast
qed

lemma context_cipher:
  assumes "validate_fpe_profiles F loaded d a is = Inr st" "fpe_get st n = Some p"
    and "ctx = fc_from_profile p \<or> with_subject C F p subject seed = Inr ctx"
    and "fc_cipher ctx = Inr c"
  shows "fc_profile ctx = p" "\<exists>k. ff1_new F k (length (fp_alphabet_chars p)) = Inr c"
  using assms(3,4) fpe_get_ok(2) [OF assms(1,2), of c]
  by (auto simp: fc_from_profile_def with_subject_def fc_cipher_def fp_cipher_q_def build_fpe_cipher_def
      bindR_eq_Inr ok_or_eq_Inr map_err_eq_Inr split: if_splits)

section \<open>A concrete profile\<close>

text \<open>A rotation of the numerals in place of FF1, and a profile whose alphabet is the digits and the
  space.\<close>

definition rotate_crate :: fpe_crate where
  "rotate_crate =
     \<lparr>ff1_new = (\<lambda>k r. Inr \<lparr>ff1_key = k, ff1_radix = r\<rparr>),
      ff1_encrypt = (\<lambda>c t ds. Inr (map (\<lambda>d. (d + 1) mod ff1_radix c) ds)),
      ff1_decrypt = (\<lambda>c t ds. Inr (map (\<lambda>d. (d + (ff1_radix c - 1)) mod ff1_radix c) ds))\<rparr>"

lemma rotate_inverse:
  assumes "d < (r :: nat)"
  shows "(Suc d mod r + (r - Suc 0)) mod r = d"
proof -
  have "(Suc d mod r + (r - Suc 0)) mod r = (Suc d + (r - Suc 0)) mod r" by (rule mod_add_left_eq)
  also have "Suc d + (r - Suc 0) = d + r" using assms by simp
  finally show ?thesis using assms by simp
qed

lemma rotate_crate_ok: "fpe_crate_ok rotate_crate"
proof -
  have "0 < r" if "numerals_ok r ds" for r ds
    using that by (cases ds; cases r) (auto simp: numerals_ok_def)
  moreover have "map (\<lambda>d. (Suc d mod r + (r - Suc 0)) mod r) ds = ds" if "numerals_ok r ds" for r ds
    using that by (intro map_idI) (auto simp: numerals_ok_def list_all_iff rotate_inverse)
  ultimately show ?thesis by (auto simp: fpe_crate_ok_def rotate_crate_def list_all_iff o_def)
qed

definition example_fpe_input :: fpe_profile_input where
  "example_fpe_input =
     \<lparr>fpi_name = lit ''f'', fpi_version = FPE_VERSION_FF1_2025, fpi_alphabet = Some (lit ''0123456789 ''),
      fpi_alphabet_preset = None, fpi_letter_case = None, fpi_preserve_characters = Some (lit ''-''),
      fpi_authenticated = False, fpi_subject_mode = NoSubject, fpi_min_len = 6, fpi_max_len = 12,
      fpi_tweak_aad = lit ''a=b'', fpi_kid = example_kid\<rparr>"

definition example_fpe_index :: "uchar \<rightharpoonup> nat" where
  "example_fpe_index = [48 \<mapsto> 0, 49 \<mapsto> 1, 50 \<mapsto> 2, 51 \<mapsto> 3, 52 \<mapsto> 4, 53 \<mapsto> 5, 54 \<mapsto> 6, 55 \<mapsto> 7, 56 \<mapsto> 8,
     57 \<mapsto> 9, 32 \<mapsto> 10]"

definition example_fpe_profile :: fpe_profile where
  "example_fpe_profile =
     \<lparr>fp_name = lit ''f'', fp_version = FPE_VERSION_FF1_2025, fp_alphabet = lit ''0123456789 '',
      fp_min_len = 6, fp_max_len = 12, fp_tweak_aad = lit ''a=b'', fp_kid = example_kid,
      fp_alphabet_chars = lit ''0123456789 '', fp_alphabet_index = example_fpe_index,
      fp_cipher = Some \<lparr>ff1_key = replicate 32 7, ff1_radix = 11\<rparr>, fp_parent_key = None,
      fp_subject_mode = NoSubject, fp_preserve_characters = lit ''-'', fp_preserved = set (lit ''-''),
      fp_authenticated = False, fp_auth_key = None\<rparr>"

lemma example_alphabet:
  "resolve_fpe_alphabet (Some (lit ''0123456789 '')) None None = Inr (lit ''0123456789 '')"
  "validate_fpe_alphabet (lit ''0123456789 '') = Inr 11"
  "validate_preserved_characters (lit ''0123456789 '') (lit ''-'') = Inr (set (lit ''-''))"
  "prepare_fpe_alphabet (lit ''0123456789 '') = Inr (lit ''0123456789 '', example_fpe_index)"
proof -
  show "validate_fpe_alphabet (lit ''0123456789 '') = Inr 11"
    by (simp add: validate_fpe_alphabet_ok lit_def char_simps)
  then show "resolve_fpe_alphabet (Some (lit ''0123456789 '')) None None = Inr (lit ''0123456789 '')"
    by (simp add: resolve_fpe_alphabet_def)
  show "validate_preserved_characters (lit ''0123456789 '') (lit ''-'') = Inr (set (lit ''-''))"
    by (simp add: validate_preserved_characters_def validate_preserve_characters_def lit_def char_simps
        FPE_PRESERVE_MAX_CHARS_def)
  show "prepare_fpe_alphabet (lit ''0123456789 '') = Inr (lit ''0123456789 '', example_fpe_index)"
    by (simp add: prepare_fpe_alphabet_def lit_def example_fpe_index_def) (simp add: eval_nat_numeral)
qed

lemma example_fpe_load:
  "validate_fpe_profiles rotate_crate (\<lambda>_. True) (\<lambda>_. Inr (replicate 32 7)) (\<lambda>_. Inr []) [example_fpe_input] =
     Inr (fpe_from_profiles [example_fpe_profile])"
proof -
  have n: "validate_aad_config_name f (lit ''f'') = Inr ()" for f
    by (simp add: result_simps lit_def char_simps CONFIG_NAME_MAX_CHARS_def)
  have v: "validate_fpe_version FPE_VERSION_FF1_2025 = Inr ()"
    by (simp add: validate_fpe_version_def result_simps FPE_VERSION_FF1_2025_def lit_def char_simps)
  have l: "validate_labels f (lit ''a=b'') FPE_TWEAK_AAD_MAX_CHARS = Inr ()" for f
    by (simp add: validate_labels_def validate_text_field_def FPE_TWEAK_AAD_MAX_CHARS_def
        split_once_def lit_def char_simps is_aad_key_char_def)
  have len: "validate_profile_lengths 6 12 11 al = Inr ()" for al
    by (simp add: validate_profile_lengths_def validate_fpe_length_bounds_def validate_fpe_min_len_def
        validate_fpe_max_len_def domain_iff FPE_VALUE_MIN_LEN_def FPE_VALUE_MAX_LEN_def)
  have "check_fpe_input (\<lambda>_. True) example_fpe_input = Inr ()"
    by (simp add: check_fpe_input_def validate_profile_definition_def example_fpe_input_def example_alphabet
        preserve_or_default_def validate_fpe_profile_fields_def n v l len example_key_id)
  moreover have "build_fpe_profile rotate_crate (\<lambda>_. Inr (replicate 32 7)) (\<lambda>_. Inr []) example_fpe_input =
      Inr example_fpe_profile"
    by (simp add: build_fpe_profile_def example_fpe_input_def example_alphabet preserve_or_default_def
        FPE_KEY_SIZE_BYTES_def build_fpe_cipher_def rotate_crate_def example_fpe_profile_def)
      (simp add: lit_def)
  ultimately show ?thesis by (simp add: validate_fpe_profiles_def)
qed

lemma example_fpe_get:
  "fpe_get (fpe_from_profiles [example_fpe_profile]) (lit ''f'') = Some example_fpe_profile"
  by (simp add: fpe_get_def fpe_from_profiles_def index_by_name_def list_get_def example_fpe_profile_def)

definition example_fpe_context :: fpe_context where
  "example_fpe_context = fc_from_profile example_fpe_profile"

lemma example_fpe_cipher: "fc_cipher example_fpe_context = Inr \<lparr>ff1_key = replicate 32 7, ff1_radix = 11\<rparr>"
  by (simp add: fc_cipher_def example_fpe_context_def fc_from_profile_def fc_validate_mode_def fc_subject_def
      validate_subject_mode_def example_fpe_profile_def fp_cipher_q_def)

lemma example_parse:
  "parse_fpe_value_digits f (lit ''12-3456'') example_fpe_profile =
     Inr \<lparr>pv_digits = [1, 2, 3, 4, 5, 6], pv_preserved = [(2, 45)], pv_total_len = 7\<rparr>"
  "parse_fpe_value_digits f (lit ''999999'') example_fpe_profile =
     Inr \<lparr>pv_digits = [9, 9, 9, 9, 9, 9], pv_preserved = [], pv_total_len = 6\<rparr>"
proof -
  let ?p = example_fpe_profile
  have tx: "validate_text_field f (lit ''12-3456'') = Inr ()" "validate_text_field f (lit ''999999'') = Inr ()"
    by (simp_all add: validate_text_field_def lit_def char_simps)
  have d: "fpe_domain_is_large_enough (length (fp_alphabet_chars ?p)) (Suc (Suc (Suc (Suc (Suc (Suc 0))))))"
  proof -
    have "length (fp_alphabet_chars ?p) = 11" by (simp add: example_fpe_profile_def lit_def)
    then show ?thesis by (simp add: domain_iff)
  qed
  have ln: "length (lit ''12-3456'') = 7" "length (lit ''999999'') = 6" "fp_min_len ?p = 6" "fp_max_len ?p = 12"
    by (simp_all add: lit_def example_fpe_profile_def)
  have lp: "parse_digits_loop f ?p 0 (lit ''12-3456'') = Inr ([1, 2, 3, 4, 5, 6], [(2, 45)])"
    "parse_digits_loop f ?p 0 (lit ''999999'') = Inr ([9, 9, 9, 9, 9, 9], [])"
    by (simp_all add: lit_Cons example_fpe_profile_def example_fpe_index_def)
  show "parse_fpe_value_digits f (lit ''12-3456'') ?p =
      Inr \<lparr>pv_digits = [1, 2, 3, 4, 5, 6], pv_preserved = [(2, 45)], pv_total_len = 7\<rparr>"
    "parse_fpe_value_digits f (lit ''999999'') ?p =
      Inr \<lparr>pv_digits = [9, 9, 9, 9, 9, 9], pv_preserved = [], pv_total_len = 6\<rparr>"
    by (simp_all add: parse_fpe_value_digits_def Let_def ln tx lp d)
qed

lemma example_encrypt:
  "fc_encrypt rotate_crate example_fpe_context (lit ''12-3456'') = Inr (lit ''23-4567'')"
  "fc_encrypt rotate_crate example_fpe_context (lit ''999999'') = Inr (lit ''      '')"
proof -
  have p: "fc_profile example_fpe_context = example_fpe_profile"
    by (simp add: example_fpe_context_def fc_from_profile_def)
  have u: "[0..<7] = [0, 1, 2, 3, 4, 5, 6]" "[0..<6] = [0, 1, 2, 3, 4, 5]" by (simp_all add: upt_rec)
  show "fc_encrypt rotate_crate example_fpe_context (lit ''12-3456'') = Inr (lit ''23-4567'')"
    "fc_encrypt rotate_crate example_fpe_context (lit ''999999'') = Inr (lit ''      '')"
    by (simp_all add: fc_encrypt_def example_fpe_cipher p example_parse fpe_transform_def rotate_crate_def u)
      (simp_all add: example_fpe_profile_def list_get_def lit_def)
qed

text \<open>With a loaded profile, on its own or bound to a subject, every plaintext the parser accepts
  is encrypted successfully, to a text of the same length in which every preserved character stands
  where it stood and every other character is one of the alphabet.\<close>

theorem fpe_encrypt_format:
  assumes "fpe_crate_ok F" and "validate_fpe_profiles F loaded d a is = Inr st"
    and "fpe_get st n = Some p"
    and "ctx = fc_from_profile p \<or> with_subject C F p subject seed = Inr ctx"
    and "fc_cipher ctx = Inr c" and "parse_fpe_value_digits (lit ''plaintext'') pt p = Inr pv"
  shows "\<exists>ct. fc_encrypt F ctx pt = Inr ct \<and> length ct = length pt \<and>
    (\<forall>i < length pt. if pt ! i \<in> fp_preserved p then ct ! i = pt ! i else ct ! i \<in> set (fp_alphabet p))"
proof -
  note ctx = context_cipher [OF assms(2-5)]
  from ctx(2) obtain k where new: "ff1_new F k (length (fp_alphabet_chars p)) = Inr c" by blast
  from transform_ok [OF assms(1) fpe_get_ok(1) [OF assms(2,3)] new assms(6)] obtain ct where
    ct: "fpe_transform F p pv True c = Inr ct" "same_format p pt ct" by blast
  then have "fc_encrypt F ctx pt = Inr ct" using assms(5,6) by (simp add: fc_encrypt_def ctx(1))
  with ct(2) show ?thesis by (auto simp: same_format_def list_all2_conv_all_nth)
qed

theorem fpe_encrypt_format_witness:
  "\<exists>ct. fc_encrypt rotate_crate example_fpe_context (lit ''12-3456'') = Inr ct \<and> length ct = 7 \<and> ct ! 2 = 45"
proof -
  have "example_fpe_context = fc_from_profile example_fpe_profile \<or>
      with_subject C rotate_crate example_fpe_profile subject seed = Inr example_fpe_context" for C subject seed
    by (simp add: example_fpe_context_def)
  from fpe_encrypt_format [OF rotate_crate_ok example_fpe_load example_fpe_get this example_fpe_cipher
      example_parse(1)]
  obtain ct where ct: "fc_encrypt rotate_crate example_fpe_context (lit ''12-3456'') = Inr ct"
    "length ct = length (lit ''12-3456'')"
    "\<forall>i < length (lit ''12-3456''). if lit ''12-3456'' ! i \<in> fp_preserved example_fpe_profile
       then ct ! i = lit ''12-3456'' ! i else ct ! i \<in> set (fp_alphabet example_fpe_profile)" by blast
  from ct(3) have "ct ! 2 = 45"
    by (elim allE [of _ 2]) (simp add: lit_def example_fpe_profile_def)
  with ct(1,2) show ?thesis by (auto simp: lit_def)
qed

text \<open>C9: decrypting what was encrypted gives the plaintext back, unless the ciphertext is blank: an
  alphabet may contain white space, and a ciphertext of white space alone, which encryption can
  produce, is refused by the text check of decryption with the error of an empty ciphertext. This
  holds of the profile's own key and of a subject's key; for the former, encrypting and decrypting
  with the profile directly give the same answers as through its context.\<close>

theorem fpe_decrypt_encrypt:
  assumes "fpe_crate_ok F" and "validate_fpe_profiles F loaded d a is = Inr st"
    and "fpe_get st n = Some p"
    and "ctx = fc_from_profile p \<or> with_subject C F p subject seed = Inr ctx"
    and "fc_encrypt F ctx pt = Inr ct"
  shows "fc_decrypt F ctx ct =
      (if blank ct then Inl (invalid_input (lit ''ciphertext must not be empty'')) else Inr pt) \<and>
    (ctx = fc_from_profile p \<longrightarrow>
      fpe_encrypt F p pt = Inr ct \<and>
      fpe_decrypt F p ct =
        (if blank ct then Inl (invalid_input (lit ''ciphertext must not be empty'')) else Inr pt))"
proof -
  from assms(5) obtain c pv where c: "fc_cipher ctx = Inr c"
    and pv: "parse_fpe_value_digits (lit ''plaintext'') pt (fc_profile ctx) = Inr pv"
    and tr: "fpe_transform F (fc_profile ctx) pv True c = Inr ct"
    by (auto simp: fc_encrypt_def bindR_eq_Inr)
  note ctx = context_cipher [OF assms(2-4) c]
  from ctx(2) obtain k where new: "ff1_new F k (length (fp_alphabet_chars p)) = Inr c" by blast
  have "lit ''ciphertext'' @ lit '' must not be empty'' = lit ''ciphertext must not be empty''" by (simp add: lit_def)
  then have dec: "bindR (parse_fpe_value_digits (lit ''ciphertext'') ct p) (\<lambda>v. fpe_transform F p v False c) =
      (if blank ct then Inl (invalid_input (lit ''ciphertext must not be empty'')) else Inr pt)"
    using transform_ok [OF assms(1) fpe_get_ok(1) [OF assms(2,3)] new pv [unfolded ctx(1)], of "lit ''ciphertext''"] tr ctx(1)
    by (metis sum.inject(2))
  have "fp_cipher_q p = Inr c" if "ctx = fc_from_profile p"
    using c that by (auto simp: fc_cipher_def fc_from_profile_def bindR_eq_Inr)
  then have "ctx = fc_from_profile p \<longrightarrow> fpe_encrypt F p pt = Inr ct \<and> fpe_decrypt F p ct =
      (if blank ct then Inl (invalid_input (lit ''ciphertext must not be empty'')) else Inr pt)"
    using dec pv tr ctx(1) by (simp add: fpe_encrypt_def fpe_decrypt_def)
  then show ?thesis using dec c ctx(1) by (simp add: fc_decrypt_def)
qed

theorem fpe_decrypt_encrypt_witness:
  "fc_decrypt rotate_crate example_fpe_context (lit ''23-4567'') = Inr (lit ''12-3456'') \<and>
   fpe_decrypt rotate_crate example_fpe_profile (lit ''23-4567'') = Inr (lit ''12-3456'') \<and>
   fc_encrypt rotate_crate example_fpe_context (lit ''999999'') = Inr (lit ''      '') \<and>
   fc_decrypt rotate_crate example_fpe_context (lit ''      '') =
     Inl (invalid_input (lit ''ciphertext must not be empty''))"
proof -
  have ctx: "example_fpe_context = fc_from_profile example_fpe_profile" by (simp add: example_fpe_context_def)
  then have "example_fpe_context = fc_from_profile example_fpe_profile \<or>
      with_subject C rotate_crate example_fpe_profile subject seed = Inr example_fpe_context" for C subject seed
    by simp
  note rt = fpe_decrypt_encrypt [OF rotate_crate_ok example_fpe_load example_fpe_get this]
  have blank: "\<not> blank (lit ''23-4567'')" "blank (lit ''      '')" by (simp_all add: lit_def char_simps)
  from rt [OF example_encrypt(1)] rt [OF example_encrypt(2)] example_encrypt(2) show ?thesis
    by (simp only: ctx blank if_True if_False simp_thms)
qed

section \<open>Tags\<close>

text \<open>A tag is accepted exactly when the profile is authenticated and the tag is the lower-case
  hexadecimal form of the MAC over the ciphertext and the whole profile, or the profile is not
  authenticated and no tag is given.\<close>

theorem verify_tag_iff:
  "verify_tag_with_key C p ct tag key = Inr () \<longleftrightarrow>
     (if fp_authenticated p
      then \<exists>t bs. tag = Some t \<and> validate_auth_tag t = Inr () \<and> hex_decode C t = Some bs \<and>
             auth_bytes C p ct key = Inr bs
      else tag = None)"
  by (cases "fp_authenticated p"; cases tag)
    (auto simp: verify_tag_with_key_def validate_tag_policy_def hex_decode_q_def result_simps)

end
