(* ===== verification/Utf8.thy ===== *)
theory Utf8
  imports Prelude
begin

text \<open>
  \<open>str::from_utf8\<close> of the standard library, which reads the text of decrypted payloads, of
  additional authenticated data and of audit records, and that it inverts \<open>utf8\<close>.
\<close>

text \<open>A sequence of one to four bytes is decoded and compared with the encoding of the result, which
  excludes overlong forms; surrogates and code points from \<open>0x110000\<close> are no scalar values.\<close>

definition scalar_value :: "uchar \<Rightarrow> bool" where
  "scalar_value c \<longleftrightarrow> c < 0xD800 \<or> 0xE000 \<le> c \<and> c < 0x110000"

definition utf8_prefix :: "u8 list \<Rightarrow> (uchar \<times> u8 list) option" where
  "utf8_prefix bs =
     (case map unat bs of
        [] \<Rightarrow> None
      | x # xs \<Rightarrow>
          let try_char = (\<lambda>n c. if scalar_value c \<and> take n bs = utf8_char c then Some (c, drop n bs) else None);
              y = (\<lambda>i. (if i < length xs then xs ! i - 0x80 else 0)) in
          if x < 0x80 then try_char 1 x
          else if x < 0xE0 then try_char 2 ((x - 0xC0) * 64 + y 0)
          else if x < 0xF0 then try_char 3 ((x - 0xE0) * 4096 + y 0 * 64 + y 1)
          else try_char 4 ((x - 0xF0) * 262144 + y 0 * 4096 + y 1 * 64 + y 2))"

fun from_utf8_fuel :: "nat \<Rightarrow> u8 list \<Rightarrow> ustr option" where
  "from_utf8_fuel n [] = Some []"
| "from_utf8_fuel 0 (b # bs) = None"
| "from_utf8_fuel (Suc n) (b # bs) =
     (case utf8_prefix (b # bs) of
        None \<Rightarrow> None
      | Some (c, rest) \<Rightarrow> map_option (\<lambda>s. c # s) (from_utf8_fuel n rest))"

definition from_utf8 :: "u8 list \<Rightarrow> ustr option" where
  "from_utf8 bs = from_utf8_fuel (length bs) bs"

text \<open>A Rust string holds scalar values only.\<close>

definition scalar_str :: "ustr \<Rightarrow> bool" where
  "scalar_str s \<longleftrightarrow> list_all scalar_value s"

lemma utf8_digits:
  "(c :: nat) div 64 * 64 + c mod 64 = c"
  "c div 4096 * 4096 + c div 64 mod 64 * 64 + c mod 64 = c"
  "c div 262144 * 262144 + c div 4096 mod 64 * 4096 + c div 64 mod 64 * 64 + c mod 64 = c"
proof -
  have d: "c div 4096 = c div 64 div 64" "c div 262144 = c div 64 div 64 div 64"
    by (simp_all flip: div_mult2_eq)
  have e: "n div 64 * 64 + n mod 64 = n" for n :: nat by simp
  show "c div 64 * 64 + c mod 64 = c" by simp
  show "c div 4096 * 4096 + c div 64 mod 64 * 64 + c mod 64 = c"
    using e [of c] e [of "c div 64"] unfolding d by linarith
  show "c div 262144 * 262144 + c div 4096 mod 64 * 4096 + c div 64 mod 64 * 64 + c mod 64 = c"
    using e [of c] e [of "c div 64"] e [of "c div 64 div 64"] unfolding d by linarith
qed

lemma map_unat_utf8_char:
  assumes "c < 0x110000"
  shows "map unat (utf8_char c) =
     (if c < 0x80 then [c]
      else if c < 0x800 then [0xC0 + c div 64, 0x80 + c mod 64]
      else if c < 0x10000 then [0xE0 + c div 4096, 0x80 + c div 64 mod 64, 0x80 + c mod 64]
      else [0xF0 + c div 262144, 0x80 + c div 4096 mod 64, 0x80 + c div 64 mod 64, 0x80 + c mod 64])"
proof -
  have "0x80 + c mod 64 < 256" "0x80 + c div 64 mod 64 < 256" "0x80 + c div 4096 mod 64 < 256"
    using mod_less_divisor [of 64] by (simp_all add: less_trans [OF mod_less_divisor])
  moreover have "0xC0 + c div 64 < 256" if "c < 0x800" using that by simp
  moreover have "0xE0 + c div 4096 < 256" if "c < 0x10000" using that by simp
  moreover have "0xF0 + c div 262144 < 256" using assms by simp
  ultimately show ?thesis by (auto simp: utf8_char_def unat_of_small simp del: of_nat_add)
qed

lemma utf8_prefix_char:
  assumes "scalar_value c"
  shows "utf8_prefix (utf8_char c @ bs) = Some (c, bs)"
proof -
  have c: "c < 0x110000" using assms by (auto simp: scalar_value_def)
  consider "c < 0x80" | "0x80 \<le> c" "c < 0x800" | "0x800 \<le> c" "c < 0x10000" | "0x10000 \<le> c" by linarith
  then show ?thesis
  proof cases
    case 1
    then show ?thesis using assms map_unat_utf8_char [OF c] by (simp add: utf8_prefix_def utf8_char_def)
  next
    case 2
    moreover have "length (utf8_char c) = 2" using 2 by (simp add: utf8_char_def)
    moreover obtain q where "c div 64 = q" "q < 32" using 2 by simp
    ultimately show ?thesis using assms map_unat_utf8_char [OF c] utf8_digits(1) [of c]
      by (simp add: utf8_prefix_def Let_def)
  next
    case 3
    moreover have "length (utf8_char c) = 3" using 3 by (simp add: utf8_char_def)
    moreover obtain q where "c div 4096 = q" "q < 16" using 3 by simp
    ultimately show ?thesis using assms map_unat_utf8_char [OF c] utf8_digits(2) [of c]
      by (simp add: utf8_prefix_def Let_def)
  next
    case 4
    moreover have "length (utf8_char c) = 4" using 4 by (simp add: utf8_char_def)
    ultimately show ?thesis using assms map_unat_utf8_char [OF c] utf8_digits(3) [of c]
      by (simp add: utf8_prefix_def Let_def)
  qed
qed

lemma try_char_Some:
  "(if scalar_value d \<and> take n bs = utf8_char d then Some (d, drop n bs) else None) = Some (c, rest) \<Longrightarrow>
     scalar_value c \<and> bs = utf8_char c @ rest"
  by (auto split: if_splits) (metis append_take_drop_id)

lemma if_Some_cases:
  "(if b then x else y) = Some r \<Longrightarrow> (x = Some r \<Longrightarrow> P) \<Longrightarrow> (y = Some r \<Longrightarrow> P) \<Longrightarrow> P"
  by (simp split: if_splits)

lemma utf8_prefix_Some:
  "utf8_prefix bs = Some (c, rest) \<Longrightarrow> scalar_value c \<and> bs = utf8_char c @ rest"
proof (cases bs)
  case (Cons b rest')
  assume "utf8_prefix bs = Some (c, rest)"
  then show ?thesis
    unfolding utf8_prefix_def Let_def Cons list.map list.case
    by (rule if_Some_cases) (erule try_char_Some if_Some_cases)+
qed (simp add: utf8_prefix_def)

lemma from_utf8_fuel_utf8:
  "scalar_str s \<Longrightarrow> length (utf8 s) \<le> n \<Longrightarrow> from_utf8_fuel n (utf8 s) = Some s"
proof (induction s arbitrary: n)
  case (Cons c s)
  obtain b bs where cb: "utf8_char c = b # bs" using length_utf8_char(1) [of c] by (cases "utf8_char c") auto
  with Cons.prems obtain m where n: "n = Suc m" by (cases n) auto
  have "from_utf8_fuel m (utf8 s) = Some s"
    using Cons cb n by (intro Cons.IH) (auto simp: scalar_str_def)
  moreover have "utf8_prefix (utf8_char c @ utf8 s) = Some (c, utf8 s)"
    using Cons.prems by (intro utf8_prefix_char) (simp add: scalar_str_def)
  ultimately show ?case by (simp add: n cb)
qed (simp add: scalar_str_def)

lemma from_utf8_utf8 [simp]: "scalar_str s \<Longrightarrow> from_utf8 (utf8 s) = Some s"
  by (simp add: from_utf8_def from_utf8_fuel_utf8)

lemma from_utf8_fuel_Some: "from_utf8_fuel n bs = Some s \<Longrightarrow> scalar_str s \<and> bs = utf8 s"
proof (induction n bs arbitrary: s rule: from_utf8_fuel.induct)
  case (3 n b bs)
  then obtain c rest t where "utf8_prefix (b # bs) = Some (c, rest)" "from_utf8_fuel n rest = Some t" "s = c # t"
    by (auto split: option.splits)
  with 3 show ?case using utf8_prefix_Some [of "b # bs" c rest] by (auto simp: scalar_str_def)
qed (auto simp: scalar_str_def)

lemma from_utf8_Some: "from_utf8 bs = Some s \<longleftrightarrow> scalar_str s \<and> bs = utf8 s"
  using from_utf8_fuel_Some [of "length bs" bs s] by (auto simp: from_utf8_def from_utf8_fuel_utf8)

lemma utf8_eq_Nil: "utf8 s = [] \<longleftrightarrow> s = []"
proof -
  have "utf8_char c \<noteq> []" for c using length_utf8_char(1) [of c] by auto
  then show ?thesis by (cases s) auto
qed

lemma utf8_inject: "scalar_str s \<Longrightarrow> scalar_str t \<Longrightarrow> utf8 s = utf8 t \<longleftrightarrow> s = t"
  by (metis from_utf8_utf8 option.inject)

lemma scalar_str_ascii: "list_all is_ascii s \<Longrightarrow> scalar_str s"
  by (auto simp: scalar_str_def list_all_iff is_ascii_def scalar_value_def)

lemma scalar_str_append [simp]: "scalar_str (s @ t) \<longleftrightarrow> scalar_str s \<and> scalar_str t"
  by (simp add: scalar_str_def)

lemma scalar_str_lit: "scalar_str (lit s)"
proof -
  have "(of_char c :: nat) < 256" for c by (rule nat_of_char_less_256)
  then have "scalar_value (of_char c)" for c 
    unfolding scalar_value_def by (intro disjI1) (rule less_le_trans [where y = 256], simp_all)
  then show ?thesis by (simp add: scalar_str_def lit_def list_all_iff)
qed

lemma scalar_str_lower_hex: "list_all is_lower_hexdigit s \<Longrightarrow> scalar_str s"
  by (rule scalar_str_ascii) (auto simp: list_all_iff char_simps)

end
