(* ===== verification/Audit_Chain.thy ===== *)
theory Audit_Chain
  imports Crates Utf8
begin

text \<open>
  \<open>src/core/audit_chain.rs\<close>, the records: the hash-linked audit records, what one event appends to
  the log, the signed checkpoints, and the verification of a log file from its bytes.

  The compact hybrid signatures of checkpoints (\<open>src/ops/sign.rs\<close>) enter as two functions, one
  that signs a payload and one that verifies a text and gives back its payload. Verification starts
  from the bytes of a regular file; the file system calls before that are left out.
\<close>

section \<open>Constants and data\<close>

definition CHAIN_VERSION :: ustr where "CHAIN_VERSION = lit ''audit-chain-v1''"
definition CHECKPOINT_VERSION :: ustr where "CHECKPOINT_VERSION = lit ''audit-checkpoint-v1''"
definition CHECKPOINT_TYPE :: ustr where "CHECKPOINT_TYPE = lit ''vectis-audit-checkpoint''"
definition INIT_KEYS_KID :: ustr where "INIT_KEYS_KID = lit ''init-keys''"
definition DOMAIN :: "u8 list" where "DOMAIN = utf8 (lit ''vectis:audit-chain:v1'' @ [0])"
definition GENESIS_HASH :: ustr where "GENESIS_HASH = replicate 64 48"
definition AUDIT_CHAIN_RECORD_MAX_BYTES :: nat where "AUDIT_CHAIN_RECORD_MAX_BYTES = 16 * 1024"
definition AUDIT_CHAIN_REASON_MAX_CHARS :: nat where "AUDIT_CHAIN_REASON_MAX_CHARS = 256"
definition AUDIT_GROUP_COMMIT_MAX_COMMANDS :: nat where "AUDIT_GROUP_COMMIT_MAX_COMMANDS = 256"
definition AUDIT_CHECKPOINT_EVENT_COUNT :: nat where "AUDIT_CHECKPOINT_EVENT_COUNT = 10000"

record audit_event =
  ev_event :: ustr
  ev_outcome :: ustr
  ev_actor :: ustr
  ev_actor_fp :: ustr
  ev_root :: bool
  ev_admin :: bool
  ev_kid :: ustr
  ev_remote_kid :: ustr
  ev_action :: ustr
  ev_reason :: ustr
  ev_request_id :: ustr

record audit_record_body =
  rb_version :: ustr
  rb_chain_id :: ustr
  rb_sequence :: nat
  rb_timestamp :: ustr
  rb_event :: ustr
  rb_outcome :: ustr
  rb_actor :: ustr
  rb_actor_fp :: ustr
  rb_root :: bool
  rb_admin :: bool
  rb_kid :: ustr
  rb_remote_kid :: ustr
  rb_action :: ustr
  rb_reason :: ustr
  rb_request_id :: ustr
  rb_hash_alg :: ustr
  rb_prev_hash :: ustr

record audit_chain_record =
  cr_body :: audit_record_body
  cr_event_hash :: ustr

record audit_checkpoint_line =
  cl_version :: ustr
  cl_signature :: ustr

record audit_checkpoint_payload =
  cp_version :: ustr
  cp_token_type :: ustr
  cp_kid :: ustr
  cp_chain_id :: ustr
  cp_last_sequence :: nat
  cp_head_hash :: ustr
  cp_hash_alg :: ustr
  cp_created_at :: ustr

record audit_chain_state =
  as_chain_id :: ustr
  as_next_sequence :: nat
  as_head_hash :: ustr
  as_events_since_checkpoint :: nat
  as_last_checkpoint_sequence :: "nat option"

record verified_chain =
  vc_chain_id :: ustr
  vc_records :: nat
  vc_last_sequence :: nat
  vc_head_hash :: ustr
  vc_checkpoints_verified :: nat
  vc_last_checkpoint_sequence :: "nat option"
  vc_last_checkpoint_head_hash :: "ustr option"

section \<open>Standard library\<close>

text \<open>\<open>u64::saturating_add\<close> and \<open>checked_add\<close> of one, \<open>u64::from_str\<close>, and the test that
  \<open>str::from_utf8\<close> succeeds.\<close>

definition u64_saturating_inc :: "nat \<Rightarrow> nat" where
  "u64_saturating_inc n = min (n + 1) (2 ^ 64 - 1)"

definition u64_checked_inc :: "nat \<Rightarrow> nat option" where
  "u64_checked_inc n = (if n + 1 < 2 ^ 64 then Some (n + 1) else None)"

definition parse_u64 :: "ustr \<Rightarrow> nat option" where
  "parse_u64 s =
     (let digits = (case s of [] \<Rightarrow> [] | c # cs \<Rightarrow> if c = 43 then cs else s);
          n = foldl (\<lambda>n d. 10 * n + (d - 48)) 0 digits in
      if digits \<noteq> [] \<and> list_all is_ascii_digit digits \<and> n < 2 ^ 64 then Some n else None)"

fun valid_utf8_fuel :: "nat \<Rightarrow> u8 list \<Rightarrow> bool" where
  "valid_utf8_fuel n [] = True"
| "valid_utf8_fuel 0 (b # bs) = False"
| "valid_utf8_fuel (Suc n) (b # bs) =
     (case utf8_prefix (b # bs) of None \<Rightarrow> False | Some (c, rest) \<Rightarrow> valid_utf8_fuel n rest)"

definition valid_utf8 :: "u8 list \<Rightarrow> bool" where
  "valid_utf8 bs = valid_utf8_fuel (length bs) bs"

definition hex_ok :: "crates \<Rightarrow> ustr \<Rightarrow> bool" where
  "hex_ok C s \<longleftrightarrow> hex_decode C s \<noteq> None"

section \<open>Serialization\<close>

definition body_fields :: "audit_record_body \<Rightarrow> (ustr \<times> json) list" where
  "body_fields b =
     [(lit ''version'', JString (rb_version b)), (lit ''chain_id'', JString (rb_chain_id b)),
      (lit ''sequence'', JNumber (int (rb_sequence b))), (lit ''timestamp'', JString (rb_timestamp b)),
      (lit ''event'', JString (rb_event b)), (lit ''outcome'', JString (rb_outcome b)),
      (lit ''actor'', JString (rb_actor b)), (lit ''actor_fp'', JString (rb_actor_fp b)),
      (lit ''root'', JBool (rb_root b)), (lit ''admin'', JBool (rb_admin b)),
      (lit ''kid'', JString (rb_kid b)), (lit ''remote_kid'', JString (rb_remote_kid b)),
      (lit ''action'', JString (rb_action b)), (lit ''reason'', JString (rb_reason b)),
      (lit ''request_id'', JString (rb_request_id b)), (lit ''hash_alg'', JString (rb_hash_alg b)),
      (lit ''prev_hash'', JString (rb_prev_hash b))]"

text \<open>The serializer's map keeps keys in order: \<open>sorted_object\<close> arranges the fields by the positions
  of their keys in the sorted key list.\<close>

definition sorted_object :: "ustr list \<Rightarrow> (ustr \<times> json) list \<Rightarrow> json" where
  "sorted_object keys fs =
     JObject (List.map_filter (\<lambda>k. map_option (\<lambda>v. (k, v)) (map_of fs k)) keys)"

definition record_keys :: "ustr list" where
  "record_keys = [lit ''action'', lit ''actor'', lit ''actor_fp'', lit ''admin'', lit ''chain_id'',
     lit ''event'', lit ''event_hash'', lit ''hash_alg'', lit ''kid'', lit ''outcome'', lit ''prev_hash'',
     lit ''reason'', lit ''remote_kid'', lit ''request_id'', lit ''root'', lit ''sequence'',
     lit ''timestamp'', lit ''version'']"

definition body_json :: "audit_record_body \<Rightarrow> json" where
  "body_json b = sorted_object record_keys (body_fields b)"

definition record_json :: "audit_chain_record \<Rightarrow> json" where
  "record_json r =
     sorted_object record_keys ((lit ''event_hash'', JString (cr_event_hash r)) # body_fields (cr_body r))"

definition checkpoint_json :: "audit_checkpoint_line \<Rightarrow> json" where
  "checkpoint_json l =
     JObject [(lit ''signature'', JString (cl_signature l)), (lit ''version'', JString (cl_version l))]"

fun as_string :: "json \<Rightarrow> ustr option" where
  "as_string (JString s) = Some s"
| "as_string _ = None"

fun as_bool :: "json \<Rightarrow> bool option" where
  "as_bool (JBool b) = Some b"
| "as_bool _ = None"

fun as_u64 :: "json \<Rightarrow> nat option" where
  "as_u64 (JNumber n) = (if 0 \<le> n \<and> n < 2 ^ 64 then Some (nat n) else None)"
| "as_u64 _ = None"

definition single_field :: "(ustr \<times> json) list \<Rightarrow> string \<Rightarrow> json option" where
  "single_field fs k = (case filter (\<lambda>(k', _). k' = lit k) fs of [(_, v)] \<Rightarrow> Some v | _ \<Rightarrow> None)"

text \<open>\<open>serde\<close> reads the flattened record from an object: every field once, with its type; other
  fields are ignored.\<close>

fun record_of_json :: "json \<Rightarrow> audit_chain_record option" where
  "record_of_json (JObject fs) =
     (let str = (\<lambda>k. Option.bind (single_field fs k) as_string);
          bln = (\<lambda>k. Option.bind (single_field fs k) as_bool);
          num = (\<lambda>k. Option.bind (single_field fs k) as_u64) in
      Option.bind (str ''version'') (\<lambda>version. Option.bind (str ''chain_id'') (\<lambda>chain_id.
      Option.bind (num ''sequence'') (\<lambda>sequence. Option.bind (str ''timestamp'') (\<lambda>timestamp.
      Option.bind (str ''event'') (\<lambda>event. Option.bind (str ''outcome'') (\<lambda>outcome.
      Option.bind (str ''actor'') (\<lambda>actor. Option.bind (str ''actor_fp'') (\<lambda>actor_fp.
      Option.bind (bln ''root'') (\<lambda>root. Option.bind (bln ''admin'') (\<lambda>admin.
      Option.bind (str ''kid'') (\<lambda>kid. Option.bind (str ''remote_kid'') (\<lambda>remote_kid.
      Option.bind (str ''action'') (\<lambda>action. Option.bind (str ''reason'') (\<lambda>reason.
      Option.bind (str ''request_id'') (\<lambda>request_id. Option.bind (str ''hash_alg'') (\<lambda>hash_alg.
      Option.bind (str ''prev_hash'') (\<lambda>prev_hash. Option.bind (str ''event_hash'') (\<lambda>event_hash.
        Some \<lparr>cr_body = \<lparr>rb_version = version, rb_chain_id = chain_id, rb_sequence = sequence,
                rb_timestamp = timestamp, rb_event = event, rb_outcome = outcome, rb_actor = actor,
                rb_actor_fp = actor_fp, rb_root = root, rb_admin = admin, rb_kid = kid,
                rb_remote_kid = remote_kid, rb_action = action, rb_reason = reason,
                rb_request_id = request_id, rb_hash_alg = hash_alg, rb_prev_hash = prev_hash\<rparr>,
              cr_event_hash = event_hash\<rparr>)))))))))))))))))))"
| "record_of_json _ = None"

text \<open>\<open>AuditCheckpointLine\<close> denies unknown fields; a struct is also read from an array of its
  values.\<close>

fun checkpoint_of_json :: "json \<Rightarrow> audit_checkpoint_line option" where
  "checkpoint_of_json (JObject fs) =
     (if list_all (\<lambda>(k, _). k = lit ''version'' \<or> k = lit ''signature'') fs then
        Option.bind (Option.bind (single_field fs ''version'') as_string) (\<lambda>version.
        Option.bind (Option.bind (single_field fs ''signature'') as_string) (\<lambda>signature.
          Some \<lparr>cl_version = version, cl_signature = signature\<rparr>))
      else None)"
| "checkpoint_of_json (JArray [version, signature]) =
     Option.bind (as_string version) (\<lambda>version. Option.bind (as_string signature) (\<lambda>signature.
       Some \<lparr>cl_version = version, cl_signature = signature\<rparr>))"
| "checkpoint_of_json _ = None"

fun json_version :: "json \<Rightarrow> ustr option" where
  "json_version (JObject fs) = Option.bind (map_of (rev fs) (lit ''version'')) as_string"
| "json_version _ = None"

section \<open>Appending\<close>

text \<open>The sink holds the bytes that reached the log and how many of them are known to be durable. The
  environment decides the outcome of the system calls: the clock, a write that stores only \<open>k\<close>
  bytes and fails, a failing \<open>fsync\<close>, and the signature of a payload. Its functions take the number
  of calls made before, so that each call has an outcome of its own.\<close>

record audit_sink =
  sk_file :: "u8 list"
  sk_synced :: nat
  sk_calls :: nat

record audit_env =
  ae_now :: "nat \<Rightarrow> nat result"
  ae_write_error :: "nat \<Rightarrow> (nat \<times> ustr) option"
  ae_sync_error :: "nat \<Rightarrow> ustr option"
  ae_sign :: "nat \<Rightarrow> audit_checkpoint_payload \<Rightarrow> ustr result"

definition current_timestamp :: "audit_env \<Rightarrow> audit_sink \<Rightarrow> audit_sink \<times> ustr result" where
  "current_timestamp env sink =
     (sink\<lparr>sk_calls := sk_calls sink + 1\<rparr>,
      bindR (ae_now env (sk_calls sink)) (\<lambda>timestamp. Inr (show_nat timestamp)))"

definition write_record :: "audit_env \<Rightarrow> audit_sink \<Rightarrow> u8 list \<Rightarrow> audit_sink \<times> (ustr + unit)" where
  "write_record env sink serialized =
     (let line = serialized @ [10] in
      case ae_write_error env (sk_calls sink) of
        None \<Rightarrow> (sink\<lparr>sk_file := sk_file sink @ line, sk_calls := sk_calls sink + 1\<rparr>, Inr ())
      | Some (k, err) \<Rightarrow>
          (sink\<lparr>sk_file := sk_file sink @ take k line, sk_calls := sk_calls sink + 1\<rparr>, Inl err))"

definition sync :: "audit_env \<Rightarrow> audit_sink \<Rightarrow> audit_sink \<times> (ustr + unit)" where
  "sync env sink =
     (case ae_sync_error env (sk_calls sink) of
        None \<Rightarrow> (sink\<lparr>sk_synced := length (sk_file sink), sk_calls := sk_calls sink + 1\<rparr>, Inr ())
      | Some err \<Rightarrow> (sink\<lparr>sk_calls := sk_calls sink + 1\<rparr>, Inl err))"

definition sanitize :: "ustr \<Rightarrow> nat \<Rightarrow> ustr" where
  "sanitize v max_chars = take max_chars (filter (\<lambda>c. \<not> is_control c) v)"

definition hash_record :: "crates \<Rightarrow> audit_record_body \<Rightarrow> ustr result" where
  "hash_record C body =
     bindR (canonical_json_v1 C (body_json body)) (\<lambda>canonical.
     bindR (hash_bytes C INTERNAL_KEYS_HASH (DOMAIN @ canonical)) (\<lambda>h. Inr (hex_encode C h)))"

definition event_body :: "audit_chain_state \<Rightarrow> ustr \<Rightarrow> audit_event \<Rightarrow> audit_record_body" where
  "event_body state timestamp event =
     (let clean = (\<lambda>v. sanitize v AUDIT_CHAIN_REASON_MAX_CHARS) in
      \<lparr>rb_version = CHAIN_VERSION, rb_chain_id = as_chain_id state, rb_sequence = as_next_sequence state,
       rb_timestamp = timestamp, rb_event = clean (ev_event event), rb_outcome = clean (ev_outcome event),
       rb_actor = clean (ev_actor event), rb_actor_fp = clean (ev_actor_fp event),
       rb_root = ev_root event, rb_admin = ev_admin event, rb_kid = clean (ev_kid event),
       rb_remote_kid = clean (ev_remote_kid event), rb_action = clean (ev_action event),
       rb_reason = clean (ev_reason event), rb_request_id = clean (ev_request_id event),
       rb_hash_alg = INTERNAL_KEYS_HASH, rb_prev_hash = as_head_hash state\<rparr>)"

definition event_record :: "crates \<Rightarrow> audit_chain_state \<Rightarrow> ustr \<Rightarrow> audit_event \<Rightarrow> audit_chain_record result" where
  "event_record C state timestamp event =
     (let body = event_body state timestamp event in
      bindR (hash_record C body) (\<lambda>event_hash. Inr \<lparr>cr_body = body, cr_event_hash = event_hash\<rparr>))"

definition serialize_bounded :: "crates \<Rightarrow> ustr \<Rightarrow> json \<Rightarrow> u8 list result" where
  "serialize_bounded C message v =
     bindR (canonical_json_v1 C v) (\<lambda>serialized.
       if length serialized > AUDIT_CHAIN_RECORD_MAX_BYTES then Inl (internal message)
       else Inr serialized)"

definition advance :: "audit_chain_state \<Rightarrow> ustr \<Rightarrow> audit_chain_state \<times> unit result" where
  "advance state event_hash =
     (let state = state\<lparr>as_head_hash := event_hash\<rparr> in
      case u64_checked_inc (as_next_sequence state) of
        None \<Rightarrow> (state, Inl (internal (lit ''audit sequence exhausted'')))
      | Some n \<Rightarrow>
          let state = state\<lparr>as_next_sequence := n\<rparr> in
          if n > 1 then
            case u64_checked_inc (as_events_since_checkpoint state) of
              None \<Rightarrow> (state, Inl (internal (lit ''audit checkpoint event count exhausted'')))
            | Some m \<Rightarrow> (state\<lparr>as_events_since_checkpoint := m\<rparr>, Inr ())
          else (state, Inr ()))"

definition write_event ::
    "crates \<Rightarrow> audit_env \<Rightarrow> audit_sink \<Rightarrow> audit_chain_state \<Rightarrow> audit_event \<Rightarrow>
     audit_sink \<times> audit_chain_state \<times> unit result" where
  "write_event C env sink state event =
     (case current_timestamp env sink of
        (sink, Inl err) \<Rightarrow> (sink, state, Inl err)
      | (sink, Inr timestamp) \<Rightarrow>
          case bindR (event_record C state timestamp event) (\<lambda>record.
                 bindR (serialize_bounded C (lit ''audit record exceeds maximum size'') (record_json record))
                   (\<lambda>serialized. Inr (record, serialized))) of
            Inl err \<Rightarrow> (sink, state, Inl err)
          | Inr (record, serialized) \<Rightarrow>
              case write_record env sink serialized of
                (sink, Inl err) \<Rightarrow>
                  (sink, state, Inl (internal (lit ''cannot persist audit record: '' @ err)))
              | (sink, Inr _) \<Rightarrow> (sink, advance state (cr_event_hash record)))"

definition checkpoint_payload :: "audit_chain_state \<Rightarrow> ustr \<Rightarrow> audit_checkpoint_payload" where
  "checkpoint_payload state created_at =
     \<lparr>cp_version = lit ''v1'', cp_token_type = CHECKPOINT_TYPE, cp_kid = INIT_KEYS_KID,
      cp_chain_id = as_chain_id state, cp_last_sequence = as_next_sequence state - 1,
      cp_head_hash = as_head_hash state, cp_hash_alg = INTERNAL_KEYS_HASH, cp_created_at = created_at\<rparr>"

definition append_checkpoint ::
    "crates \<Rightarrow> audit_env \<Rightarrow> audit_sink \<Rightarrow> audit_chain_state \<Rightarrow>
     audit_sink \<times> audit_chain_state \<times> unit result" where
  "append_checkpoint C env sink state =
     (case current_timestamp env sink of
        (sink, Inl err) \<Rightarrow> (sink, state, Inl err)
      | (sink, Inr created_at) \<Rightarrow>
          let payload = checkpoint_payload state created_at;
              signed = ae_sign env (sk_calls sink) payload;
              sink = sink\<lparr>sk_calls := sk_calls sink + 1\<rparr> in
          case bindR signed (\<lambda>signature.
                 serialize_bounded C (lit ''audit checkpoint exceeds maximum size'')
                   (checkpoint_json \<lparr>cl_version = CHECKPOINT_VERSION, cl_signature = signature\<rparr>)) of
            Inl err \<Rightarrow> (sink, state, Inl err)
          | Inr serialized \<Rightarrow>
              case write_record env sink serialized of
                (sink, Inl err) \<Rightarrow>
                  (sink, state, Inl (internal (lit ''cannot persist audit checkpoint: '' @ err)))
              | (sink, Inr _) \<Rightarrow>
                  (sink, state\<lparr>as_events_since_checkpoint := 0,
                           as_last_checkpoint_sequence := Some (cp_last_sequence payload)\<rparr>, Inr ()))"

definition chain_started :: audit_event where
  "chain_started =
     \<lparr>ev_event = lit ''audit.chain.started'', ev_outcome = lit ''success'', ev_actor = [], ev_actor_fp = [],
      ev_root = False, ev_admin = False, ev_kid = [], ev_remote_kid = [], ev_action = lit ''chain-start'',
      ev_reason = [], ev_request_id = []\<rparr>"

definition new_chain_state :: "crates \<Rightarrow> u8 list \<Rightarrow> audit_chain_state" where
  "new_chain_state C random =
     \<lparr>as_chain_id = hex_encode C random, as_next_sequence = 0, as_head_hash = GENESIS_HASH,
      as_events_since_checkpoint = 0, as_last_checkpoint_sequence = None\<rparr>"

section \<open>Verification\<close>

definition validate_record_shape :: "crates \<Rightarrow> audit_chain_record \<Rightarrow> unit result" where
  "validate_record_shape C r =
     (let body = cr_body r in
      if rb_version body \<noteq> CHAIN_VERSION \<or> rb_hash_alg body \<noteq> INTERNAL_KEYS_HASH
      then Inl (invalid_input (lit ''record version or hash algorithm is unsupported''))
      else if str_len (rb_chain_id body) \<noteq> 32 \<or> \<not> hex_ok C (rb_chain_id body)
      then Inl (invalid_input (lit ''record chain_id is invalid''))
      else
        bindR (try_for_each (\<lambda>(field, v). validate_hex_field field v)
                 [(lit ''prev_hash'', rb_prev_hash body), (lit ''event_hash'', cr_event_hash r)]) (\<lambda>_.
          if parse_u64 (rb_timestamp body) = None
          then Inl (invalid_input (lit ''record timestamp is invalid''))
          else if rb_event body = [] \<or> rb_outcome body = []
          then Inl (invalid_input (lit ''record event and outcome must not be empty''))
          else if length (rb_reason body) > AUDIT_CHAIN_REASON_MAX_CHARS \<or>
             list_ex (\<lambda>v. list_ex is_control v)
               [rb_event body, rb_outcome body, rb_actor body, rb_actor_fp body, rb_kid body,
                rb_remote_kid body, rb_action body, rb_reason body, rb_request_id body]
          then Inl (invalid_input (lit ''record contains invalid text fields''))
          else Inr ()))"

definition validate_record :: "crates \<Rightarrow> audit_chain_record \<Rightarrow> unit result" where
  "validate_record C r =
     bindR (validate_record_shape C r) (\<lambda>_.
     bindR (try_for_each (\<lambda>(field, v). validate_hash_hex_field field v INTERNAL_KEYS_HASH)
              [(lit ''prev_hash'', rb_prev_hash (cr_body r)), (lit ''event_hash'', cr_event_hash r)]) (\<lambda>_.
     bindR (canonical_json_v1 C (record_json r)) (\<lambda>serialized.
       if length serialized > AUDIT_CHAIN_RECORD_MAX_BYTES
       then Inl (invalid_input (lit ''record exceeds maximum size''))
       else
     bindR (hash_record C (cr_body r)) (\<lambda>h.
       if h \<noteq> cr_event_hash r
       then Inl (invalid_input (lit ''event hash does not match record content''))
       else Inr ()))))"

definition validate_checkpoint_payload :: "crates \<Rightarrow> audit_checkpoint_payload \<Rightarrow> unit result" where
  "validate_checkpoint_payload C payload =
     (if cp_version payload \<noteq> lit ''v1'' \<or> cp_token_type payload \<noteq> CHECKPOINT_TYPE \<or>
         cp_kid payload \<noteq> INIT_KEYS_KID \<or> cp_hash_alg payload \<noteq> INTERNAL_KEYS_HASH
      then Inl (invalid_input (lit ''audit checkpoint payload fields are invalid''))
      else if str_len (cp_chain_id payload) \<noteq> 32 \<or> \<not> hex_ok C (cp_chain_id payload)
      then Inl (invalid_input (lit ''audit checkpoint chain_id is invalid''))
      else
        bindR (validate_hash_hex_field (lit ''audit checkpoint head_hash'') (cp_head_hash payload)
                 INTERNAL_KEYS_HASH) (\<lambda>_.
          if parse_u64 (cp_created_at payload) = None
          then Inl (invalid_input (lit ''audit checkpoint created_at is invalid''))
          else Inr ()))"

definition verify_checkpoint ::
    "crates \<Rightarrow> (ustr \<Rightarrow> audit_checkpoint_payload result) \<Rightarrow> audit_checkpoint_line \<Rightarrow>
     audit_checkpoint_payload result" where
  "verify_checkpoint C verify_signature checkpoint =
     (if cl_version checkpoint \<noteq> CHECKPOINT_VERSION
      then Inl (invalid_input (lit ''checkpoint version is unsupported''))
      else
        bindR (map_err (\<lambda>_. invalid_signature (lit ''audit checkpoint signature verification failed''))
                 (verify_signature (cl_signature checkpoint))) (\<lambda>payload.
        bindR (validate_checkpoint_payload C payload) (\<lambda>_. Inr payload)))"

definition vc_from_genesis :: "audit_chain_record \<Rightarrow> verified_chain" where
  "vc_from_genesis r =
     \<lparr>vc_chain_id = rb_chain_id (cr_body r), vc_records = 1, vc_last_sequence = 0,
      vc_head_hash = cr_event_hash r, vc_checkpoints_verified = 0, vc_last_checkpoint_sequence = None,
      vc_last_checkpoint_head_hash = None\<rparr>"

definition vc_push :: "verified_chain \<Rightarrow> audit_chain_record \<Rightarrow> ustr + verified_chain" where
  "vc_push chain r =
     (let body = cr_body r in
      if rb_chain_id body \<noteq> vc_chain_id chain
      then Inl (lit ''chain_id changed without a genesis record'')
      else if rb_sequence body \<noteq> u64_saturating_inc (vc_last_sequence chain)
      then Inl (lit ''sequence is not consecutive'')
      else if rb_prev_hash body \<noteq> vc_head_hash chain
      then Inl (lit ''prev_hash does not match prior event hash'')
      else Inr (chain\<lparr>vc_records := u64_saturating_inc (vc_records chain),
                      vc_last_sequence := rb_sequence body, vc_head_hash := cr_event_hash r\<rparr>))"

definition vc_checkpoint :: "verified_chain \<Rightarrow> audit_checkpoint_payload \<Rightarrow> ustr + verified_chain" where
  "vc_checkpoint chain payload =
     (if cp_chain_id payload \<noteq> vc_chain_id chain
      then Inl (lit ''checkpoint chain_id does not match active chain'')
      else if cp_last_sequence payload \<noteq> vc_last_sequence chain
      then Inl (lit ''checkpoint sequence does not match active chain'')
      else if cp_head_hash payload \<noteq> vc_head_hash chain
      then Inl (lit ''checkpoint head_hash does not match active chain'')
      else Inr (chain\<lparr>vc_checkpoints_verified := u64_saturating_inc (vc_checkpoints_verified chain),
                      vc_last_checkpoint_sequence := Some (cp_last_sequence payload),
                      vc_last_checkpoint_head_hash := Some (cp_head_hash payload)\<rparr>))"

definition verify_error :: "nat \<Rightarrow> ustr \<Rightarrow> dyn_error" where
  "verify_error line_index reason =
     invalid_input (lit ''audit verification failed at record '' @ show_nat (line_index + 1) @ lit '': '' @ reason)"

type_synonym verify_state = "verified_chain list \<times> verified_chain option"

definition genesis_ok :: "audit_record_body \<Rightarrow> bool" where
  "genesis_ok body \<longleftrightarrow>
     rb_sequence body = 0 \<and> rb_prev_hash body = GENESIS_HASH \<and> rb_outcome body = lit ''success'' \<and>
     rb_action body = lit ''chain-start''"

definition verify_record_line ::
    "crates \<Rightarrow> nat \<Rightarrow> verify_state \<Rightarrow> u8 list \<Rightarrow> verify_state result" where
  "verify_record_line C line_index st line =
     bindR (ok_or (verify_error line_index (lit ''record contains invalid JSON''))
              (Option.bind (json_from_slice C line) record_of_json)) (\<lambda>record.
     bindR (map_err (\<lambda>err. verify_error line_index (to_string err)) (validate_record C record)) (\<lambda>_.
     bindR (canonical_json_v1 C (record_json record)) (\<lambda>canonical.
       if canonical \<noteq> line then Inl (verify_error line_index (lit ''record JSON is not canonical''))
       else if rb_event (cr_body record) = lit ''audit.chain.started'' then
         if \<not> genesis_ok (cr_body record)
         then Inl (verify_error line_index (lit ''chain genesis is invalid''))
         else Inr (fst st @ (case snd st of None \<Rightarrow> [] | Some previous \<Rightarrow> [previous]),
                   Some (vc_from_genesis record))
       else case snd st of
         None \<Rightarrow> Inl (verify_error line_index (lit ''first record must start a chain''))
       | Some chain \<Rightarrow>
           bindR (map_err (verify_error line_index) (vc_push chain record)) (\<lambda>chain.
             Inr (fst st, Some chain)))))"

definition verify_checkpoint_line ::
    "crates \<Rightarrow> (ustr \<Rightarrow> audit_checkpoint_payload result) \<Rightarrow> nat \<Rightarrow> verify_state \<Rightarrow> u8 list \<Rightarrow>
     verify_state result" where
  "verify_checkpoint_line C verify_signature line_index st line =
     bindR (ok_or (verify_error line_index (lit ''checkpoint contains invalid JSON''))
              (Option.bind (json_from_slice C line) checkpoint_of_json)) (\<lambda>checkpoint.
     bindR (canonical_json_v1 C (checkpoint_json checkpoint)) (\<lambda>canonical.
       if canonical \<noteq> line then Inl (verify_error line_index (lit ''checkpoint JSON is not canonical''))
       else case snd st of
         None \<Rightarrow> Inl (verify_error line_index (lit ''checkpoint appears before chain genesis''))
       | Some chain \<Rightarrow>
           bindR (map_err (\<lambda>err. verify_error line_index (to_string err))
                    (verify_checkpoint C verify_signature checkpoint)) (\<lambda>payload.
           bindR (map_err (verify_error line_index) (vc_checkpoint chain payload)) (\<lambda>chain.
             Inr (fst st, Some chain)))))"

definition verify_line ::
    "crates \<Rightarrow> (ustr \<Rightarrow> audit_checkpoint_payload result) \<Rightarrow> nat \<Rightarrow> verify_state \<Rightarrow> u8 list \<Rightarrow>
     verify_state result" where
  "verify_line C verify_signature line_index st line =
     (if line = [] then Inl (verify_error line_index (lit ''record is empty''))
      else if \<not> valid_utf8 line then Inl (verify_error line_index (lit ''record is not valid UTF-8''))
      else
        bindR (ok_or (verify_error line_index (lit ''record contains invalid JSON''))
                 (Option.bind (json_from_slice C line) json_version)) (\<lambda>version.
          if version = CHAIN_VERSION then verify_record_line C line_index st line
          else if version = CHECKPOINT_VERSION then verify_checkpoint_line C verify_signature line_index st line
          else Inl (verify_error line_index (lit ''record version is unsupported''))))"

text \<open>\<open>reader.take(n).read_until(b'\n')\<close>: at most \<open>n\<close> bytes, up to and including a newline.\<close>

fun read_until :: "nat \<Rightarrow> u8 list \<Rightarrow> u8 list \<times> u8 list" where
  "read_until 0 bs = ([], bs)"
| "read_until (Suc n) [] = ([], [])"
| "read_until (Suc n) (b # bs) =
     (if b = 10 then ([b], bs) else (let (l, rest) = read_until n bs in (b # l, rest)))"

lemma read_until_append: "read_until n bs = (l, rest) \<Longrightarrow> bs = l @ rest"
  by (induction n bs arbitrary: l rule: read_until.induct) (auto simp: Let_def split: if_splits prod.splits)

function verify_loop ::
    "crates \<Rightarrow> (ustr \<Rightarrow> audit_checkpoint_payload result) \<Rightarrow> nat \<Rightarrow> verify_state \<Rightarrow> u8 list \<Rightarrow>
     verify_state result" where
  "verify_loop C verify_signature line_index st bs =
     (let (bytes, rest) = read_until (AUDIT_CHAIN_RECORD_MAX_BYTES + 2) bs in
      if bytes = [] then Inr st
      else if length bytes > AUDIT_CHAIN_RECORD_MAX_BYTES + 1
      then Inl (verify_error line_index (lit ''record exceeds maximum size''))
      else if last bytes \<noteq> 10
      then Inl (verify_error line_index (lit ''record is truncated (missing trailing newline)''))
      else
        bindR (verify_line C verify_signature line_index st (butlast bytes)) (\<lambda>st.
          verify_loop C verify_signature (line_index + 1) st rest))"
  by pat_completeness auto
termination
  by (relation "measure (\<lambda>(_, _, _, _, bs). length bs)") (auto dest!: read_until_append [OF sym])

declare verify_loop.simps [simp del]

definition verify_file_with_verifier ::
    "crates \<Rightarrow> (ustr \<Rightarrow> audit_checkpoint_payload result) \<Rightarrow> u8 list \<Rightarrow> verified_chain list result" where
  "verify_file_with_verifier C verify_signature bs =
     bindR (verify_loop C verify_signature 0 ([], None) bs) (\<lambda>(chains, current).
       let chains = chains @ (case current of None \<Rightarrow> [] | Some chain \<Rightarrow> [chain]) in
       if chains = [] then Inl (invalid_input (lit ''audit file contains no records''))
       else Inr chains)"

end
