(* ===== verification/Audit_Verify.thy ===== *)
theory Audit_Verify
  imports Audit_Chain
begin

text \<open>
  What a successful verification of an audit log means: the log is a sequence of lines, its records
  form chains whose hashes link, and the head hashes of the chains determine every record.
\<close>

section \<open>The records of a log\<close>

fun log_lines :: "u8 list \<Rightarrow> u8 list list" where
  "log_lines [] = []"
| "log_lines (b # bs) =
     (if b = 10 then [] # log_lines bs
      else case log_lines bs of [] \<Rightarrow> [[b]] | l # ls \<Rightarrow> (b # l) # ls)"

definition line_record :: "crates \<Rightarrow> u8 list \<Rightarrow> audit_chain_record option" where
  "line_record C line =
     Option.bind (json_from_slice C line) (\<lambda>v.
       if json_version v = Some CHAIN_VERSION then record_of_json v else None)"

definition log_records :: "crates \<Rightarrow> u8 list \<Rightarrow> audit_chain_record list" where
  "log_records C bs = List.map_filter (line_record C) (log_lines bs)"

section \<open>Linked chains\<close>

text \<open>A chain of records: the first is a genesis record, every hash is that of its record's content,
  every other record carries its predecessor's hash and number plus one, and all share one id.\<close>

definition is_genesis :: "audit_record_body \<Rightarrow> bool" where
  "is_genesis body \<longleftrightarrow> rb_event body = lit ''audit.chain.started''"

fun linked_to :: "crates \<Rightarrow> audit_chain_record \<Rightarrow> audit_chain_record list \<Rightarrow> bool" where
  "linked_to C p [] = True"
| "linked_to C p (r # rs) \<longleftrightarrow>
     hash_record C (cr_body r) = Inr (cr_event_hash r) \<and> \<not> is_genesis (cr_body r) \<and>
     rb_chain_id (cr_body r) = rb_chain_id (cr_body p) \<and>
     rb_sequence (cr_body r) = u64_saturating_inc (rb_sequence (cr_body p)) \<and>
     rb_prev_hash (cr_body r) = cr_event_hash p \<and> linked_to C r rs"

fun linked :: "crates \<Rightarrow> audit_chain_record list \<Rightarrow> bool" where
  "linked C [] = False"
| "linked C (r # rs) \<longleftrightarrow>
     hash_record C (cr_body r) = Inr (cr_event_hash r) \<and> is_genesis (cr_body r) \<and> genesis_ok (cr_body r) \<and>
     linked_to C r rs"

definition chain_of :: "crates \<Rightarrow> verified_chain \<Rightarrow> audit_chain_record list \<Rightarrow> bool" where
  "chain_of C vc rs \<longleftrightarrow>
     linked C rs \<and> vc_head_hash vc = cr_event_hash (last rs) \<and>
     vc_chain_id vc = rb_chain_id (cr_body (last rs)) \<and> vc_last_sequence vc = rb_sequence (cr_body (last rs))"

lemma linked_to_snoc:
  "linked_to C p (rs @ [r]) \<longleftrightarrow> linked_to C p rs \<and> linked_to C (last (p # rs)) [r]"
  by (induction rs arbitrary: p) auto

lemma linked_snoc: "rs \<noteq> [] \<Longrightarrow> linked C (rs @ [r]) \<longleftrightarrow> linked C rs \<and> linked_to C (last rs) [r]"
  by (cases rs) (auto simp: linked_to_snoc)

lemma validate_record_ok:
  "validate_record C r = Inr () \<Longrightarrow> hash_record C (cr_body r) = Inr (cr_event_hash r)"
  by (auto simp: validate_record_def bindR_eq_Inr split: if_splits)

section \<open>Lines\<close>

lemma log_lines_append: "10 \<notin> set l \<Longrightarrow> log_lines (l @ 10 # bs) = l # log_lines bs"
  by (induction l) auto

lemma read_until_newline:
  assumes "read_until n bs = (l, rest)" "l \<noteq> []" "last l = 10"
  shows "bs = l @ rest \<and> 10 \<notin> set (butlast l)"
proof -
  have "10 \<notin> set (butlast l)" using assms(1)
    by (induction n bs arbitrary: l rule: read_until.induct)
      (auto simp: Let_def split: if_splits prod.splits)
  then show ?thesis using read_until_append [OF assms(1)] by simp
qed

lemma log_records_line:
  assumes "read_until n bs = (l, rest)" "l \<noteq> []" "last l = 10"
  shows "log_records C bs = (case line_record C (butlast l) of None \<Rightarrow> [] | Some r \<Rightarrow> [r]) @ log_records C rest"
proof -
  have "bs = butlast l @ 10 # rest" and n: "10 \<notin> set (butlast l)"
    using read_until_newline [OF assms] assms(2,3) append_butlast_last_id [of l] by (metis append_Cons append_Nil append_assoc)+
  then show ?thesis
    by (simp add: log_records_def log_lines_append map_filter_simps split: option.splits)
qed

section \<open>Soundness of verification\<close>

definition state_of ::
    "crates \<Rightarrow> verify_state \<Rightarrow> audit_chain_record list list \<Rightarrow> bool" where
  "state_of C st segs \<longleftrightarrow>
     list_all2 (chain_of C) (fst st @ (case snd st of None \<Rightarrow> [] | Some c \<Rightarrow> [c])) segs"

lemma vc_push_ok:
  assumes "vc_push chain r = Inr chain'" "chain_of C chain rs"
    and "hash_record C (cr_body r) = Inr (cr_event_hash r)" "\<not> is_genesis (cr_body r)"
  shows "chain_of C chain' (rs @ [r])"
proof -
  have "rs \<noteq> []" using assms(2) by (cases rs) (auto simp: chain_of_def)
  with assms show ?thesis
    by (auto simp: vc_push_def Let_def chain_of_def linked_snoc split: if_splits)
qed

lemma vc_checkpoint_ok: "vc_checkpoint chain p = Inr chain' \<Longrightarrow> chain_of C chain rs \<Longrightarrow> chain_of C chain' rs"
  by (auto simp: vc_checkpoint_def chain_of_def split: if_splits)

lemma verify_record_line_ok:
  assumes "verify_record_line C i st line = Inr st'" "state_of C st segs"
    and "Option.bind (json_from_slice C line) json_version = Some CHAIN_VERSION"
  shows "\<exists>segs' r. state_of C st' segs' \<and> line_record C line = Some r \<and> concat segs' = concat segs @ [r]"
proof -
  obtain vcs cur where st: "st = (vcs, cur)" by (cases st)
  from assms(1) obtain r where r: "Option.bind (json_from_slice C line) record_of_json = Some r"
    and ok: "validate_record C r = Inr ()"
    by (auto simp: verify_record_line_def bindR_eq_Inr ok_or_eq_Inr map_err_eq_Inr)
  have lr: "line_record C line = Some r"
    using r assms(3) by (auto simp: line_record_def bind_eq_Some_conv)
  note h = validate_record_ok [OF ok]
  show ?thesis
  proof (cases "is_genesis (cr_body r)")
    case True
    with assms(1) r have g: "genesis_ok (cr_body r)"
      and st': "st' = (vcs @ (case cur of None \<Rightarrow> [] | Some c \<Rightarrow> [c]), Some (vc_from_genesis r))"
      by (auto simp: verify_record_line_def bindR_eq_Inr is_genesis_def st split: if_splits)
    have "chain_of C (vc_from_genesis r) [r]"
      using h g True by (simp add: chain_of_def vc_from_genesis_def genesis_ok_def)
    then have "state_of C st' (segs @ [[r]])"
      using list_all2_appendI [OF assms(2) [unfolded state_of_def], of "[vc_from_genesis r]" "[[r]]"]
      by (simp add: state_of_def st st')
    with lr show ?thesis by (intro exI [of _ "segs @ [[r]]"]) simp
  next
    case False
    with assms(1) r obtain c c' where c: "cur = Some c" "vc_push c r = Inr c'" "st' = (vcs, Some c')"
      by (auto simp: verify_record_line_def bindR_eq_Inr map_err_eq_Inr is_genesis_def st
          split: if_splits option.splits)
    from assms(2) c(1) obtain init rs where segs: "segs = init @ [rs]" "list_all2 (chain_of C) vcs init" "chain_of C c rs"
      by (auto simp: state_of_def st list_all2_append1 list_all2_Cons1)
    from vc_push_ok [OF c(2) segs(3) h False] segs(2) have "state_of C st' (init @ [rs @ [r]])"
      by (auto simp: state_of_def c(3) intro: list_all2_appendI)
    with lr segs(1) show ?thesis by (intro exI [of _ "init @ [rs @ [r]]"]) simp
  qed
qed

lemma verify_checkpoint_line_ok:
  assumes "verify_checkpoint_line C vs i st line = Inr st'" "state_of C st segs"
  shows "state_of C st' segs"
proof -
  from assms(1) obtain c p c' where "snd st = Some c" "vc_checkpoint c p = Inr c'" "st' = (fst st, Some c')"
    by (auto simp: verify_checkpoint_line_def bindR_eq_Inr map_err_eq_Inr split: if_splits option.splits)
  with assms(2) show ?thesis
    by (auto simp: state_of_def list_all2_append1 list_all2_Cons1 intro!: vc_checkpoint_ok)
qed

lemma verify_line_ok:
  assumes "verify_line C vs i st line = Inr st'" "state_of C st segs"
  shows "\<exists>segs'. state_of C st' segs' \<and>
    concat segs' = concat segs @ (case line_record C line of None \<Rightarrow> [] | Some r \<Rightarrow> [r])"
proof -
  from assms(1) obtain v where v: "Option.bind (json_from_slice C line) json_version = Some v"
    by (auto simp: verify_line_def bindR_eq_Inr ok_or_eq_Inr split: if_splits)
  show ?thesis
  proof (cases "v = CHAIN_VERSION")
    case True
    with assms(1) v have "verify_record_line C i st line = Inr st'"
      by (auto simp: verify_line_def bindR_eq_Inr split: if_splits)
    from verify_record_line_ok [OF this assms(2)] v True show ?thesis by force
  next
    case False
    with assms(1) v have "verify_checkpoint_line C vs i st line = Inr st'"
      by (auto simp: verify_line_def bindR_eq_Inr split: if_splits)
    moreover have "line_record C line = None"
      using v False by (auto simp: line_record_def bind_eq_Some_conv split: option.splits)
    ultimately show ?thesis using verify_checkpoint_line_ok assms(2) by fastforce
  qed
qed

lemma verify_loop_ok:
  assumes "verify_loop C vs i st bs = Inr st'" "state_of C st segs"
  shows "\<exists>segs'. state_of C st' segs' \<and> concat segs' = concat segs @ log_records C bs"
  using assms
proof (induction C vs i st bs arbitrary: segs rule: verify_loop.induct)
  case (1 C vs i st bs)
  obtain l rest where l: "read_until (AUDIT_CHAIN_RECORD_MAX_BYTES + 2) bs = (l, rest)"
    by (cases "read_until (AUDIT_CHAIN_RECORD_MAX_BYTES + 2) bs")
  show ?case
  proof (cases "l = []")
    case True
    then have "bs = []" using l by (cases bs) (auto simp: Let_def split: if_splits prod.splits)
    with True l 1(2,3) show ?thesis by (auto simp: verify_loop.simps [of C vs i st] log_records_def map_filter_simps)
  next
    case False
    with 1(2) l obtain st1 where st1: "verify_line C vs i st (butlast l) = Inr st1"
      "verify_loop C vs (i + 1) st1 rest = Inr st'" "last l = 10" "\<not> length l > AUDIT_CHAIN_RECORD_MAX_BYTES + 1"
      by (auto simp: verify_loop.simps [of C vs i st] bindR_eq_Inr split: if_splits)
    from verify_line_ok [OF st1(1) 1(3)] obtain segs1 where
      s1: "state_of C st1 segs1"
      "concat segs1 = concat segs @ (case line_record C (butlast l) of None \<Rightarrow> [] | Some r \<Rightarrow> [r])" by blast
    have "\<not> last l \<noteq> 10" using st1(3) by simp
    from 1(1) [OF refl l [symmetric] False st1(4) this st1(1,2) s1(1)] obtain segs' where
      "state_of C st' segs'" "concat segs' = concat segs1 @ log_records C rest" by blast
    with s1(2) log_records_line [OF l False st1(3), of C] show ?thesis by auto
  qed
qed

lemma verified_segments:
  assumes "verify_file_with_verifier C vs bs = Inr vcs"
  shows "\<exists>segs. list_all2 (chain_of C) vcs segs \<and> concat segs = log_records C bs"
proof -
  from assms obtain st where st: "verify_loop C vs 0 ([], None) bs = Inr st"
    and vcs: "vcs = fst st @ (case snd st of None \<Rightarrow> [] | Some c \<Rightarrow> [c])"
    by (auto simp: verify_file_with_verifier_def bindR_eq_Inr Let_def split: if_splits prod.splits)
  have "state_of C ([], None) []" by (simp add: state_of_def)
  from verify_loop_ok [OF st this] vcs show ?thesis by (auto simp: state_of_def)
qed

section \<open>What verification accepts\<close>

text \<open>What is relied on of the serializer here: one line of valid UTF-8 for a flat object.\<close>

definition json_line_ok :: "crates \<Rightarrow> bool" where
  "json_line_ok C \<longleftrightarrow>
     (\<forall>v. flat_json v \<longrightarrow> json_to_vec C v \<noteq> [] \<and> 10 \<notin> set (json_to_vec C v) \<and> valid_utf8 (json_to_vec C v))"

definition audit_crates_ok :: "crates \<Rightarrow> bool" where
  "audit_crates_ok C \<longleftrightarrow>
     json_codec_ok C \<and> json_line_ok C \<and> hex_codec_ok C \<and> hex_format_ok C \<and> hash_size_ok C"

lemma record_json_explicit:
  "record_json r =
     JObject [(lit ''action'', JString (rb_action (cr_body r))), (lit ''actor'', JString (rb_actor (cr_body r))),
       (lit ''actor_fp'', JString (rb_actor_fp (cr_body r))), (lit ''admin'', JBool (rb_admin (cr_body r))),
       (lit ''chain_id'', JString (rb_chain_id (cr_body r))), (lit ''event'', JString (rb_event (cr_body r))),
       (lit ''event_hash'', JString (cr_event_hash r)), (lit ''hash_alg'', JString (rb_hash_alg (cr_body r))),
       (lit ''kid'', JString (rb_kid (cr_body r))), (lit ''outcome'', JString (rb_outcome (cr_body r))),
       (lit ''prev_hash'', JString (rb_prev_hash (cr_body r))), (lit ''reason'', JString (rb_reason (cr_body r))),
       (lit ''remote_kid'', JString (rb_remote_kid (cr_body r))),
       (lit ''request_id'', JString (rb_request_id (cr_body r))), (lit ''root'', JBool (rb_root (cr_body r))),
       (lit ''sequence'', JNumber (int (rb_sequence (cr_body r)))),
       (lit ''timestamp'', JString (rb_timestamp (cr_body r))), (lit ''version'', JString (rb_version (cr_body r)))]"
  by (simp add: record_json_def sorted_object_def record_keys_def body_fields_def map_filter_simps lit_def)

lemma record_of_json_record: "rb_sequence (cr_body r) < 2 ^ 64 \<Longrightarrow> record_of_json (record_json r) = Some r"
  by (simp add: record_json_explicit single_field_def lit_def)

lemma json_version_record: "json_version (record_json r) = Some (rb_version (cr_body r))"
  by (simp add: record_json_explicit lit_def)

lemma flat_record: "rb_sequence (cr_body r) < 2 ^ 64 \<Longrightarrow> flat_json (record_json r)"
  by (simp add: record_json_explicit lit_def)

lemma flat_checkpoint: "flat_json (checkpoint_json l)"
  by (simp add: checkpoint_json_def lit_def)

lemma checkpoint_of_json_checkpoint:
  "checkpoint_of_json (checkpoint_json l) = Some l" "json_version (checkpoint_json l) = Some (cl_version l)"
  by (simp_all add: checkpoint_json_def single_field_def lit_def)

lemma parse_u64_show_nat: "n < 2 ^ 64 \<Longrightarrow> parse_u64 (show_nat n) = Some n"
proof -
  obtain c cs where s: "show_nat n = c # cs" using show_nat_digits [of n] by (cases "show_nat n") auto
  then have "c \<noteq> 43" using show_nat_digits [of n] by (auto simp: char_simps)
  then show "n < 2 ^ 64 \<Longrightarrow> ?thesis"
    using show_nat_digits [of n] foldl_show_nat [of n] s by (simp add: parse_u64_def Let_def)
qed

lemma read_until_extend:
  "read_until n bs = (l, rest) \<Longrightarrow> l \<noteq> [] \<Longrightarrow> last l = 10 \<Longrightarrow> read_until n (bs @ tail) = (l, rest @ tail)"
proof (induction n bs arbitrary: l rule: read_until.induct)
  case (3 n b bs)
  then show ?case by (cases "b = 10") (auto simp: Let_def split: prod.splits if_splits)
qed auto

lemma read_until_line:
  "10 \<notin> set l \<Longrightarrow> length l < n \<Longrightarrow> read_until n (l @ 10 # rest) = (l @ [10], rest)"
proof (induction l arbitrary: n)
  case Nil
  then show ?case by (cases n) auto
next
  case (Cons b l)
  then show ?case by (cases n) (auto simp: Let_def)
qed

lemma verify_loop_snoc:
  assumes "verify_loop C vs i st bs = Inr st'"
    and "10 \<notin> set line" "length line \<le> AUDIT_CHAIN_RECORD_MAX_BYTES"
    and "\<And>j. verify_line C vs j st' line = Inr st''"
  shows "verify_loop C vs i st (bs @ line @ [10]) = Inr st''"
  using assms(1,4)
proof (induction C vs i st bs rule: verify_loop.induct)
  case (1 C vs i st bs)
  obtain l rest where l: "read_until (AUDIT_CHAIN_RECORD_MAX_BYTES + 2) bs = (l, rest)"
    by (cases "read_until (AUDIT_CHAIN_RECORD_MAX_BYTES + 2) bs")
  show ?case
  proof (cases "l = []")
    case True
    then have bs: "bs = []" using l by (cases bs) (auto simp: Let_def split: if_splits prod.splits)
    with 1(2) have "st = st'" by (simp add: verify_loop.simps [of C vs i st])
    moreover have "verify_loop C vs j st'' [] = Inr st''" for j by (simp add: verify_loop.simps [of C vs j])
    moreover have "read_until (AUDIT_CHAIN_RECORD_MAX_BYTES + 2) (line @ [10]) = (line @ [10], [])"
      using assms(2,3) by (intro read_until_line) auto
    ultimately show ?thesis using assms(3) 1(3) bs by (simp add: verify_loop.simps [of C vs i st'])
  next
    case False
    with 1(2) l obtain st1 where st1: "verify_line C vs i st (butlast l) = Inr st1"
      "verify_loop C vs (i + 1) st1 rest = Inr st'" "last l = 10" "\<not> length l > AUDIT_CHAIN_RECORD_MAX_BYTES + 1"
      by (auto simp: verify_loop.simps [of C vs i st] bindR_eq_Inr split: if_splits)
    have "\<not> last l \<noteq> 10" using st1(3) by simp
    from 1(1) [OF refl l [symmetric] False st1(4) this st1(1,2) 1(3)]
    show ?thesis using read_until_extend [OF l False st1(3), of "line @ [10]"] False st1
      by (simp add: verify_loop.simps [of C vs i st])
  qed
qed

lemma verify_record_accepts:
  assumes "audit_crates_ok C" "validate_record C r = Inr ()"
    and "rb_version (cr_body r) = CHAIN_VERSION" "rb_sequence (cr_body r) < 2 ^ 64"
    and "canonical_json_v1 C (record_json r) = Inr line"
  shows "verify_line C vs j st line =
    (if is_genesis (cr_body r) then
       if genesis_ok (cr_body r)
       then Inr (fst st @ (case snd st of None \<Rightarrow> [] | Some c \<Rightarrow> [c]), Some (vc_from_genesis r))
       else Inl (verify_error j (lit ''chain genesis is invalid''))
     else case snd st of
       None \<Rightarrow> Inl (verify_error j (lit ''first record must start a chain''))
     | Some c \<Rightarrow> bindR (map_err (verify_error j) (vc_push c r)) (\<lambda>c. Inr (fst st, Some c)))"
proof -
  have line: "line = json_to_vec C (record_json r)" using canonical_json_ok [OF assms(5)] .
  have "line \<noteq> [] \<and> valid_utf8 line" and js: "json_from_slice C line = Some (record_json r)"
    using assms(1) flat_record [OF assms(4)] json_codec by (auto simp: audit_crates_ok_def json_line_ok_def line)
  then show ?thesis
    using assms(2,3,5) by (simp add: verify_line_def js json_version_record verify_record_line_def
        record_of_json_record [OF assms(4)] is_genesis_def)
qed

lemma verify_checkpoint_accepts:
  assumes "audit_crates_ok C" "cl_version l = CHECKPOINT_VERSION" "vs (cl_signature l) = Inr p"
    and "validate_checkpoint_payload C p = Inr ()"
    and "canonical_json_v1 C (checkpoint_json l) = Inr line" "vc_checkpoint c p = Inr c'"
  shows "verify_line C vs j (cs, Some c) line = Inr (cs, Some c')"
proof -
  have line: "line = json_to_vec C (checkpoint_json l)" using canonical_json_ok [OF assms(5)] .
  have "line \<noteq> [] \<and> valid_utf8 line" and js: "json_from_slice C line = Some (checkpoint_json l)"
    using assms(1) flat_checkpoint json_codec by (auto simp: audit_crates_ok_def json_line_ok_def line)
  moreover have "CHECKPOINT_VERSION \<noteq> CHAIN_VERSION"
    by (simp add: CHECKPOINT_VERSION_def CHAIN_VERSION_def lit_def)
  ultimately show ?thesis
    using assms(2-) by (simp add: verify_line_def js checkpoint_of_json_checkpoint verify_checkpoint_line_def
        verify_checkpoint_def)
qed

section \<open>Tamper evidence\<close>

text \<open>Two records, one of each log, of different content and equal hash.\<close>

definition collision :: "crates \<Rightarrow> audit_chain_record list \<Rightarrow> audit_chain_record list \<Rightarrow> bool" where
  "collision C rs rs' \<longleftrightarrow>
     list_ex (\<lambda>r. list_ex (\<lambda>r'. cr_body r \<noteq> cr_body r' \<and>
       hash_record C (cr_body r) = hash_record C (cr_body r')) rs') rs"

lemma linked_last:
  assumes "linked C rs"
  shows "rs \<noteq> [] \<and> hash_record C (cr_body (last rs)) = Inr (cr_event_hash (last rs))"
  using assms
proof (induction rs rule: rev_induct)
  case (snoc r rs)
  show ?case
  proof (cases "rs = []")
    case False
    then have "linked_to C (last rs) [r]" using snoc.prems by (simp add: linked_snoc)
    then show ?thesis by simp
  qed (use snoc.prems in simp)
qed simp

lemma linked_head_determines:
  assumes "\<not> collision C rs rs'" "linked C rs" "linked C rs'" "cr_event_hash (last rs) = cr_event_hash (last rs')"
  shows "rs = rs'"
  using assms
proof (induction rs arbitrary: rs' rule: rev_induct)
  case (snoc r rs)
  note l = snoc.prems(2,3)
  obtain r' init' where rs': "rs' = init' @ [r']" using l(2) by (cases rs' rule: rev_cases) auto
  have "cr_body r = cr_body r'"
    using linked_last [OF l(1)] linked_last [OF l(2)] snoc.prems(1,4)
    by (auto simp: collision_def list_ex_iff rs')
  with snoc.prems(4) have r: "r = r'" by (simp add: rs')
  show ?case
  proof (cases "rs = []")
    case True
    then have "is_genesis (cr_body r)" using l(1) by simp
    then have "init' = []" using l(2) r by (cases "init' = []") (auto simp: rs' linked_snoc)
    with True r show ?thesis by (simp add: rs')
  next
    case False
    then have p: "linked C rs" "linked_to C (last rs) [r]" using l(1) by (simp_all add: linked_snoc)
    then have "init' \<noteq> []" using l(2) r by (auto simp: rs')
    then have p': "linked C init'" "linked_to C (last init') [r]"
      using l(2) by (simp_all add: linked_snoc rs' r)
    have "\<not> collision C rs init'" using snoc.prems(1) by (auto simp: collision_def list_ex_iff rs')
    from snoc.IH [OF this p(1) p'(1)] p(2) p'(2) show ?thesis by (simp add: rs' r)
  qed
qed simp

lemma heads_determine_segments:
  assumes "list_all2 (chain_of C) vcs segs" "list_all2 (chain_of C) vcs' segs'"
    and "map vc_head_hash vcs = map vc_head_hash vcs'" "\<not> collision C (concat segs) (concat segs')"
  shows "segs = segs'"
proof -
  note s = assms(1) and s' = assms(2)
  have ls: "length segs = length segs'"
    using list_all2_lengthD [OF s] list_all2_lengthD [OF s'] map_eq_imp_length_eq [OF assms(3)]
    by simp
  have "segs ! i = segs' ! i" if "i < length segs" for i
  proof -
    have len: "i < length vcs" "i < length vcs'" "i < length segs'"
      using that list_all2_lengthD [OF s] map_eq_imp_length_eq [OF assms(3)] ls by auto
    have "vc_head_hash (vcs ! i) = vc_head_hash (vcs' ! i)"
      using assms(3) len by (metis nth_map)
    moreover have "\<not> collision C (segs ! i) (segs' ! i)"
      using assms(4) nth_mem [OF that] nth_mem [OF len(3)] by (fastforce simp: collision_def list_ex_iff)
    ultimately show ?thesis
      using list_all2_nthD [OF s len(1)] list_all2_nthD [OF s' len(2)]
      by (intro linked_head_determines) (auto simp: chain_of_def)
  qed
  with ls show ?thesis by (intro nth_equalityI) auto
qed

end
