(* ===== verification/Audit_Writer.thy ===== *)
theory Audit_Writer
  imports Audit_Verify
begin

text \<open>
  \<open>src/core/audit_chain.rs\<close>, the writer thread: commands arrive in a bounded queue, the thread takes a
  batch of what is queued, appends its records, appends a checkpoint when one is due, makes the log
  durable at a durability boundary, and answers the barriers of the batch. After a failed write it
  appends nothing any more.

  \<open>writer_batch\<close> is one round of the outer loop; \<open>writer_step\<close> interleaves rounds with clients that
  queue commands, where the commands seen by a round are any non-empty prefix of the queue. The cells
  that report failures to the clients are numbered, as are the reply channels; a reply records the
  failure its client can read and how much of the log it covers.
\<close>

section \<open>Model\<close>

definition AUDIT_CHAIN_CHANNEL_CAPACITY :: nat where "AUDIT_CHAIN_CHANNEL_CAPACITY = 1024"

datatype writer_command =
    Record audit_event nat bool
  | Barrier nat nat
  | Shutdown nat

record barrier_reply =
  br_reply :: nat
  br_failure :: "ustr option"
  br_length :: nat

record audit_writer =
  aw_sink :: audit_sink
  aw_state :: audit_chain_state
  aw_poisoned :: "ustr option"
  aw_dirty :: bool
  aw_failures :: "nat \<rightharpoonup> ustr"
  aw_replies :: "barrier_reply list"
  aw_shutdown :: "(nat \<times> (ustr + unit)) option"

record audit_batch =
  ab_barriers :: "(nat \<times> nat) list"
  ab_processed :: nat
  ab_commit_requested :: bool
  ab_shutdown_reply :: "nat option"

definition set_failure :: "(nat \<rightharpoonup> ustr) \<Rightarrow> nat \<Rightarrow> ustr \<Rightarrow> (nat \<rightharpoonup> ustr)" where
  "set_failure failures cell reason =
     (if failures cell = None then failures(cell \<mapsto> reason) else failures)"

definition start_writer :: "crates \<Rightarrow> audit_env \<Rightarrow> u8 list \<Rightarrow> audit_sink \<Rightarrow> audit_writer result" where
  "start_writer C env random sink =
     (case write_event C env sink (new_chain_state C random) chain_started of
        (_, _, Inl err) \<Rightarrow> Inl err
      | (sink, state, Inr _) \<Rightarrow>
          case sync env sink of
            (_, Inl err) \<Rightarrow> Inl (internal (lit ''cannot fsync audit log: '' @ err))
          | (sink, Inr _) \<Rightarrow>
              Inr \<lparr>aw_sink = sink, aw_state = state, aw_poisoned = None, aw_dirty = False,
                   aw_failures = Map.empty, aw_replies = [], aw_shutdown = None\<rparr>)"

fun process_command ::
    "crates \<Rightarrow> audit_env \<Rightarrow> audit_writer \<Rightarrow> audit_batch \<Rightarrow> writer_command \<Rightarrow> audit_writer \<times> audit_batch" where
  "process_command C env w b (Record event failure standalone) =
     (case aw_poisoned w of
        Some reason \<Rightarrow> (w\<lparr>aw_failures := set_failure (aw_failures w) failure reason\<rparr>, b)
      | None \<Rightarrow>
          case write_event C env (aw_sink w) (aw_state w) event of
            (sink, state, Inl err) \<Rightarrow>
              let reason = to_string err in
              (w\<lparr>aw_sink := sink, aw_state := state,
                 aw_failures := set_failure (aw_failures w) failure reason, aw_poisoned := Some reason\<rparr>, b)
          | (sink, state, Inr _) \<Rightarrow>
              (w\<lparr>aw_sink := sink, aw_state := state, aw_dirty := True\<rparr>,
               b\<lparr>ab_commit_requested := ab_commit_requested b \<or> standalone\<rparr>))"
| "process_command C env w b (Barrier failure reply) =
     (w, b\<lparr>ab_barriers := ab_barriers b @ [(failure, reply)], ab_commit_requested := True\<rparr>)"
| "process_command C env w b (Shutdown reply) =
     (w, b\<lparr>ab_shutdown_reply := Some reply, ab_commit_requested := True\<rparr>)"

text \<open>The inner loop over what is queued; it returns what it left in the queue.\<close>

fun batch_loop ::
    "crates \<Rightarrow> audit_env \<Rightarrow> audit_writer \<Rightarrow> audit_batch \<Rightarrow> writer_command list \<Rightarrow>
     audit_writer \<times> audit_batch \<times> writer_command list" where
  "batch_loop C env w b [] = (w, b, [])"
| "batch_loop C env w b (command # queued) =
     (let (w, b) = process_command C env w (b\<lparr>ab_processed := ab_processed b + 1\<rparr>) command in
      if ab_shutdown_reply b = None \<and> ab_processed b \<ge> AUDIT_GROUP_COMMIT_MAX_COMMANDS then (w, b, queued)
      else batch_loop C env w b queued)"

definition checkpoint_due :: "nat \<Rightarrow> audit_writer \<Rightarrow> audit_batch \<Rightarrow> bool" where
  "checkpoint_due event_count w b \<longleftrightarrow>
     (let state = aw_state w in
      as_events_since_checkpoint state > 0 \<and>
      (as_events_since_checkpoint state \<ge> event_count \<or>
       ab_shutdown_reply b \<noteq> None \<and>
       as_last_checkpoint_sequence state \<noteq> Some (as_next_sequence state - 1)))"

definition checkpoint_phase ::
    "crates \<Rightarrow> audit_env \<Rightarrow> nat \<Rightarrow> audit_writer \<Rightarrow> audit_batch \<Rightarrow> audit_writer \<times> audit_batch" where
  "checkpoint_phase C env event_count w b =
     (if aw_poisoned w = None \<and> checkpoint_due event_count w b then
        case append_checkpoint C env (aw_sink w) (aw_state w) of
          (sink, state, Inr _) \<Rightarrow>
            (w\<lparr>aw_sink := sink, aw_state := state, aw_dirty := True\<rparr>, b\<lparr>ab_commit_requested := True\<rparr>)
        | (sink, state, Inl err) \<Rightarrow>
            (w\<lparr>aw_sink := sink, aw_state := state, aw_poisoned := Some (to_string err)\<rparr>,
             b\<lparr>ab_commit_requested := True\<rparr>)
      else (w, b))"

definition sync_phase :: "audit_env \<Rightarrow> audit_writer \<Rightarrow> audit_batch \<Rightarrow> audit_writer" where
  "sync_phase env w b =
     (if ab_commit_requested b \<and> aw_dirty w \<and> aw_poisoned w = None then
        case sync env (aw_sink w) of
          (sink, Inr _) \<Rightarrow> w\<lparr>aw_sink := sink, aw_dirty := False\<rparr>
        | (sink, Inl err) \<Rightarrow>
            w\<lparr>aw_sink := sink, aw_poisoned := Some (lit ''cannot fsync audit log: '' @ err)\<rparr>
      else w)"

definition answer_barrier :: "audit_writer \<Rightarrow> nat \<times> nat \<Rightarrow> audit_writer" where
  "answer_barrier w barrier =
     (let (failure, reply) = barrier;
          failures = (case aw_poisoned w of
              Some reason \<Rightarrow> set_failure (aw_failures w) failure reason
            | None \<Rightarrow> aw_failures w) in
      w\<lparr>aw_failures := failures,
        aw_replies := aw_replies w @
          [\<lparr>br_reply = reply, br_failure = failures failure, br_length = length (sk_file (aw_sink w))\<rparr>]\<rparr>)"

definition reply_phase :: "audit_writer \<Rightarrow> audit_batch \<Rightarrow> audit_writer" where
  "reply_phase w b =
     (let w = (if ab_commit_requested b then foldl answer_barrier w (ab_barriers b) else w) in
      case ab_shutdown_reply b of
        None \<Rightarrow> w
      | Some reply \<Rightarrow>
          w\<lparr>aw_shutdown := Some (reply, case aw_poisoned w of None \<Rightarrow> Inr () | Some reason \<Rightarrow> Inl reason)\<rparr>)"

definition empty_batch :: audit_batch where
  "empty_batch =
     \<lparr>ab_barriers = [], ab_processed = 0, ab_commit_requested = False, ab_shutdown_reply = None\<rparr>"

definition writer_batch ::
    "crates \<Rightarrow> audit_env \<Rightarrow> nat \<Rightarrow> audit_writer \<Rightarrow> writer_command list \<Rightarrow>
     audit_writer \<times> writer_command list" where
  "writer_batch C env event_count w queued =
     (let (w, b, left) = batch_loop C env w empty_batch queued;
          (w, b) = checkpoint_phase C env event_count w b;
          w = sync_phase env w b
      in (reply_phase w b, left))"

text \<open>Clients queue commands while there is room; \<open>AuditRuntime::record\<close> reports a full queue, whereas
  \<open>confirm\<close> and \<open>shutdown\<close> wait for room. \<open>allowed\<close> restricts the events clients record.\<close>

inductive writer_step ::
    "crates \<Rightarrow> audit_env \<Rightarrow> nat \<Rightarrow> (audit_event \<Rightarrow> bool) \<Rightarrow>
     audit_writer \<times> writer_command list \<Rightarrow> audit_writer \<times> writer_command list \<Rightarrow> bool"
  for C env event_count allowed where
  queue: "length q < AUDIT_CHAIN_CHANNEL_CAPACITY \<Longrightarrow>
    (\<And>event failure standalone. c = Record event failure standalone \<Longrightarrow> allowed event) \<Longrightarrow>
    writer_step C env event_count allowed (w, q) (w, q @ [c])"
| full: "length q \<ge> AUDIT_CHAIN_CHANNEL_CAPACITY \<Longrightarrow>
    writer_step C env event_count allowed (w, q)
      (w\<lparr>aw_failures := set_failure (aw_failures w) failure (lit ''audit writer is unavailable'')\<rparr>, q)"
| batch: "aw_shutdown w = None \<Longrightarrow> seen \<noteq> [] \<Longrightarrow>
    writer_batch C env event_count w seen = (w', left) \<Longrightarrow>
    writer_step C env event_count allowed (w, seen @ later) (w', left @ later)"

definition writer_reach ::
    "crates \<Rightarrow> audit_env \<Rightarrow> nat \<Rightarrow> (audit_event \<Rightarrow> bool) \<Rightarrow>
     audit_writer \<times> writer_command list \<Rightarrow> audit_writer \<times> writer_command list \<Rightarrow> bool" where
  "writer_reach C env event_count allowed = (writer_step C env event_count allowed)\<^sup>*\<^sup>*"

section \<open>Invariants of the writer\<close>

fun command_ok :: "(audit_event \<Rightarrow> bool) \<Rightarrow> writer_command \<Rightarrow> bool" where
  "command_ok allowed (Record event failure standalone) = allowed event"
| "command_ok allowed _ = True"

lemma sync_phase_commits:
  "ab_commit_requested b \<Longrightarrow> aw_poisoned (sync_phase env w b) = None \<Longrightarrow> \<not> aw_dirty (sync_phase env w b)"
  by (auto simp: sync_phase_def split: prod.splits sum.splits if_splits)

lemma batch_loop_left:
  "batch_loop C env w b queued = (w', b', left) \<Longrightarrow> set left \<subseteq> set queued"
  by (induction queued arbitrary: w b) (fastforce simp: Let_def split: prod.splits if_splits)+

text \<open>A property of the writer that every phase of a round keeps holds in every reachable state. The
  replies are sent after the commit, when an unpoisoned writer with a commit request is clean.\<close>

locale writer_invariant =
  fixes C :: crates and env :: audit_env and event_count :: nat and allowed :: "audit_event \<Rightarrow> bool"
    and I :: "audit_writer \<Rightarrow> bool"
  assumes keep_process: "I w \<Longrightarrow> command_ok allowed c \<Longrightarrow> I (fst (process_command C env w b c))"
    and keep_checkpoint: "I w \<Longrightarrow> I (fst (checkpoint_phase C env event_count w b))"
    and keep_sync: "I w \<Longrightarrow> I (sync_phase env w b)"
    and keep_reply: "I w \<Longrightarrow> (ab_commit_requested b \<Longrightarrow> aw_poisoned w = None \<Longrightarrow> \<not> aw_dirty w) \<Longrightarrow>
      I (reply_phase w b)"
    and keep_failures: "I w \<Longrightarrow> I (w\<lparr>aw_failures := f\<rparr>)"
begin

lemma keep_batch_loop:
  "I w \<Longrightarrow> list_all (command_ok allowed) queued \<Longrightarrow> I (fst (batch_loop C env w b queued))"
proof (induction queued arbitrary: w b)
  case (Cons c queued)
  then show ?case
    using keep_process [of w c "b\<lparr>ab_processed := ab_processed b + 1\<rparr>"]
    by (auto simp: Let_def split: prod.splits)
qed simp

lemma keep_batch:
  assumes "I w" "list_all (command_ok allowed) queued" "writer_batch C env event_count w queued = (w', left)"
  shows "I w'" and "set left \<subseteq> set queued"
proof -
  obtain w1 b1 l where 1: "batch_loop C env w empty_batch queued = (w1, b1, l)"
    by (cases "batch_loop C env w empty_batch queued")
  obtain w2 b2 where 2: "checkpoint_phase C env event_count w1 b1 = (w2, b2)"
    by (cases "checkpoint_phase C env event_count w1 b1")
  have w': "w' = reply_phase (sync_phase env w2 b2) b2" "left = l"
    using assms(3) by (simp_all add: writer_batch_def 1 2)
  have "I w2" using keep_batch_loop [OF assms(1,2), of empty_batch] keep_checkpoint [of w1 b1] 1 2 by simp
  then have "I (sync_phase env w2 b2)" by (rule keep_sync)
  then show "I w'" unfolding w' by (rule keep_reply) (rule sync_phase_commits)
  show "set left \<subseteq> set queued" using batch_loop_left [OF 1] w' by simp
qed

lemma keep_step:
  assumes "writer_step C env event_count allowed (w, q) (w', q')"
    and "I w" "list_all (command_ok allowed) q"
  shows "I w' \<and> list_all (command_ok allowed) q'"
  using assms(1)
proof (cases rule: writer_step.cases)
  case (queue c)
  then have "command_ok allowed c" by (cases c) auto
  with queue assms show ?thesis by simp
next
  case (full failure)
  with assms show ?thesis by (simp add: keep_failures)
next
  case (batch seen left later)
  with assms(3) have "list_all (command_ok allowed) seen" by simp
  moreover have "writer_batch C env event_count w seen = (w', left)" using batch by simp
  ultimately have "I w'" "set left \<subseteq> set seen" using keep_batch assms(2) by blast+
  with batch assms(3) show ?thesis by (auto simp: list_all_iff)
qed

lemma reach_invariant:
  assumes "writer_reach C env event_count allowed (w0, []) (w, q)" "I w0"
  shows "I w"
proof -
  have "(writer_step C env event_count allowed)\<^sup>*\<^sup>* (w0, []) (w, q)"
    using assms(1) by (simp add: writer_reach_def)
  then have "I w \<and> list_all (command_ok allowed) q"
  proof (induction rule: rtranclp_induct2)
    case (step w q w' q')
    then show ?case using keep_step by blast
  qed (use assms(2) in simp)
  then show ?thesis by simp
qed

end

section \<open>Durability\<close>

definition durable :: "audit_writer \<Rightarrow> bool" where
  "durable w \<longleftrightarrow>
     sk_synced (aw_sink w) \<le> length (sk_file (aw_sink w)) \<and>
     (aw_poisoned w = None \<and> \<not> aw_dirty w \<longrightarrow> sk_synced (aw_sink w) = length (sk_file (aw_sink w))) \<and>
     list_all (\<lambda>r. br_failure r = None \<longrightarrow> br_length r \<le> sk_synced (aw_sink w)) (aw_replies w)"

definition grows :: "audit_sink \<Rightarrow> audit_sink \<Rightarrow> bool" where
  "grows s s' \<longleftrightarrow> sk_synced s' = sk_synced s \<and> (\<exists>more. sk_file s' = sk_file s @ more)"

lemma grows_refl [simp]: "grows s s" "grows s (s\<lparr>sk_calls := n\<rparr>)"
  by (simp_all add: grows_def)

lemma write_record_grows: "write_record env s l = (s', r) \<Longrightarrow> grows s s'"
  by (auto simp: write_record_def Let_def grows_def split: option.splits prod.splits)

lemma grows_trans: "grows s s' \<Longrightarrow> grows s' s'' \<Longrightarrow> grows s s''"
  by (auto simp: grows_def)

lemma timestamp_grows: "current_timestamp env s = (s', r) \<Longrightarrow> grows s s'"
  by (auto simp: current_timestamp_def)

lemma write_event_grows: "write_event C env s st e = (s', st', r) \<Longrightarrow> grows s s'"
  by (auto simp: write_event_def split: prod.splits sum.splits
      dest!: write_record_grows timestamp_grows intro: grows_trans)

lemma append_checkpoint_grows: "append_checkpoint C env s st = (s', st', r) \<Longrightarrow> grows s s'"
proof -
  have "grows s (u\<lparr>sk_calls := n\<rparr>) \<longleftrightarrow> grows s u" for u n by (simp add: grows_def)
  moreover have "grows (u\<lparr>sk_calls := n\<rparr>) s \<longleftrightarrow> grows u s" for u n by (simp add: grows_def)
  ultimately show "append_checkpoint C env s st = (s', st', r) \<Longrightarrow> grows s s'"
    by (auto simp: append_checkpoint_def Let_def split: prod.splits sum.splits
        dest!: write_record_grows timestamp_grows intro: grows_trans)
qed

lemma durable_grows:
  assumes "durable w" "grows (aw_sink w) s" "aw_sink w' = s" "aw_replies w' = aw_replies w"
    and "aw_poisoned w' \<noteq> None \<or> aw_dirty w'"
  shows "durable w'"
  using assms by (auto simp: durable_def grows_def)

lemma set_failure_same [simp]: "set_failure f c r c \<noteq> None"
  by (simp add: set_failure_def)

lemma durable_answer:
  assumes "durable w" "aw_poisoned w = None \<Longrightarrow> \<not> aw_dirty w"
  shows "durable (answer_barrier w x) \<and> aw_poisoned (answer_barrier w x) = aw_poisoned w \<and>
    aw_dirty (answer_barrier w x) = aw_dirty w"
proof -
  obtain cell reply where x: "x = (cell, reply)" by (cases x)
  have "set_failure (aw_failures w) cell r cell \<noteq> None" for r by simp
  with assms show ?thesis
    by (cases "aw_poisoned w") (auto simp: answer_barrier_def x durable_def Let_def list_all_iff)
qed

lemma durable_answers:
  assumes "durable w" "aw_poisoned w = None \<Longrightarrow> \<not> aw_dirty w"
  shows "durable (foldl answer_barrier w bs)"
  using assms
proof (induction bs arbitrary: w)
  case (Cons x bs)
  then show ?case using durable_answer [OF Cons.prems, of x] Cons.IH [of "answer_barrier w x"] by simp
qed simp

lemma durable_process:
  assumes d: "durable w"
  shows "durable (fst (process_command C env w b c))"
proof (cases c)
  case (Record e f s)
  show ?thesis
  proof (cases "aw_poisoned w")
    case None
    obtain s' st' r where e: "write_event C env (aw_sink w) (aw_state w) e = (s', st', r)"
      by (cases "write_event C env (aw_sink w) (aw_state w) e")
    then show ?thesis using write_event_grows [OF e] None
      by (cases r) (auto simp: Record Let_def intro!: durable_grows [OF d])
  next
    case Some
    with d show ?thesis by (simp add: Record durable_def)
  qed
qed (use d in simp_all)

interpretation durability: writer_invariant C env event_count allowed durable
  for C env event_count allowed
proof
  fix w c and b :: audit_batch
  assume d: "durable w"
  then show "durable (fst (process_command C env w b c))" by (rule durable_process)
next
  fix w and b :: audit_batch
  assume d: "durable w"
  show "durable (fst (checkpoint_phase C env event_count w b))"
    by (auto simp: d checkpoint_phase_def intro!: durable_grows [OF d] dest: append_checkpoint_grows
        split: prod.splits sum.splits)
next
  fix w and b :: audit_batch
  assume d: "durable w"
  then show "durable (sync_phase env w b)"
    by (auto simp: sync_phase_def sync_def durable_def list_all_iff split: option.splits)
next
  fix w and b :: audit_batch
  assume "durable w" "ab_commit_requested b \<Longrightarrow> aw_poisoned w = None \<Longrightarrow> \<not> aw_dirty w"
  then show "durable (reply_phase w b)"
    using durable_answers [of w "ab_barriers b"]
    by (auto simp: reply_phase_def Let_def durable_def split: option.splits)
next
  fix w f
  assume "durable w"
  then show "durable (w\<lparr>aw_failures := f\<rparr>)" by (simp add: durable_def)
qed

end
