(* ===== verification/Audit_Log.thy ===== *)
theory Audit_Log
  imports Audit_Writer
begin

text \<open>
  The log the writer produces: as long as the writer is not poisoned, the bytes it has appended verify,
  with the head, number and id of its state; barriers answered without a failure cover durable bytes;
  a poisoned writer appends nothing.
\<close>

section \<open>Records the writer builds\<close>

definition clean :: "ustr \<Rightarrow> ustr" where
  "clean v = sanitize v AUDIT_CHAIN_REASON_MAX_CHARS"

definition event_allowed :: "audit_event \<Rightarrow> bool" where
  "event_allowed e \<longleftrightarrow>
     clean (ev_event e) \<noteq> [] \<and> clean (ev_outcome e) \<noteq> [] \<and>
     clean (ev_event e) \<noteq> lit ''audit.chain.started''"

definition state_format :: "crates \<Rightarrow> audit_chain_state \<Rightarrow> bool" where
  "state_format C st \<longleftrightarrow>
     str_len (as_chain_id st) = 32 \<and> hex_ok C (as_chain_id st) \<and>
     length (as_head_hash st) = 64 \<and> list_all is_ascii_hexdigit (as_head_hash st) \<and>
     as_next_sequence st < 2 ^ 64"

lemma clean_text: "\<not> list_ex is_control (clean v)" "length (clean v) \<le> AUDIT_CHAIN_REASON_MAX_CHARS"
  by (auto simp: clean_def sanitize_def list_ex_iff dest: in_set_takeD)

lemma lower_hex: "list_all is_lower_hexdigit s \<Longrightarrow> list_all is_ascii_hexdigit s"
  by (auto simp: list_all_iff char_simps)

lemma hex_hash:
  assumes "audit_crates_ok C" "hash_record C b = Inr h"
  shows "length h = 64 \<and> list_all is_ascii_hexdigit h"
  using assms lower_hex
  by (auto simp: hash_record_def bindR_eq_Inr audit_crates_ok_def hash_size_ok_def hex_format_ok_def)

lemma event_record_fields:
  assumes "event_record C st ts e = Inr r"
  shows "cr_body r = event_body st ts e" "hash_record C (cr_body r) = Inr (cr_event_hash r)"
  using assms by (auto simp: event_record_def Let_def bindR_eq_Inr)

lemma event_record_valid:
  assumes "audit_crates_ok C" "state_format C st" "t < 2 ^ 64"
    and "clean (ev_event e) \<noteq> []" "clean (ev_outcome e) \<noteq> []"
    and "event_record C st (show_nat t) e = Inr r"
    and "canonical_json_v1 C (record_json r) = Inr line" "length line \<le> AUDIT_CHAIN_RECORD_MAX_BYTES"
  shows "validate_record C r = Inr ()"
proof -
  note b = event_record_fields [OF assms(6)]
  have h: "length (cr_event_hash r) = 64 \<and> list_all is_ascii_hexdigit (cr_event_hash r)"
    using hex_hash [OF assms(1) b(2)] .
  have hx: "validate_hex_field f v = Inr ()" if "length v = 64" "list_all is_ascii_hexdigit v" for f v
    using that by (auto simp: result_simps)
  have "validate_record_shape C r = Inr ()"
    using assms(2-5) h clean_text(1) clean_text(2) [of "ev_reason e"]
    by (simp add: validate_record_shape_def b(1) event_body_def Let_def state_format_def hx
        parse_u64_show_nat clean_def [symmetric])
  moreover have "validate_hash_hex_field f v INTERNAL_KEYS_HASH = Inr ()"
    if "length v = 64" "list_all is_ascii_hexdigit v" for f v
    using that by (simp add: validate_hash_hex_field_ok)
  moreover have "rb_prev_hash (cr_body r) = as_head_hash st" by (simp add: b(1) event_body_def Let_def)
  ultimately show ?thesis
    using assms(2,7,8) b(2) h by (simp add: validate_record_def state_format_def)
qed

section \<open>One event, one checkpoint\<close>

definition matches :: "audit_chain_state \<Rightarrow> verified_chain \<Rightarrow> bool" where
  "matches st vc \<longleftrightarrow>
     vc_chain_id vc = as_chain_id st \<and> vc_head_hash vc = as_head_hash st \<and>
     Suc (vc_last_sequence vc) = as_next_sequence st \<and> vc_records vc = as_next_sequence st"

definition env_ok :: "audit_env \<Rightarrow> (ustr \<Rightarrow> audit_checkpoint_payload result) \<Rightarrow> bool" where
  "env_ok env vs \<longleftrightarrow>
     (\<forall>n t. ae_now env n = Inr t \<longrightarrow> t < 2 ^ 64) \<and>
     (\<forall>n p s. ae_sign env n p = Inr s \<longrightarrow> vs s = Inr p)"

lemma write_event_ok:
  assumes "write_event C env s st e = (s', st', Inr ())"
  obtains t r line where "ae_now env (sk_calls s) = Inr t" "event_record C st (show_nat t) e = Inr r"
    "canonical_json_v1 C (record_json r) = Inr line" "length line \<le> AUDIT_CHAIN_RECORD_MAX_BYTES"
    "sk_file s' = sk_file s @ line @ [10]" "advance st (cr_event_hash r) = (st', Inr ())"
  using assms
  by (auto simp: write_event_def current_timestamp_def write_record_def Let_def serialize_bounded_def
      bindR_eq_Inr split: prod.splits sum.splits option.splits if_splits)

lemma advance_ok:
  assumes "advance st h = (st', Inr ())"
  shows "as_head_hash st' = h" "as_chain_id st' = as_chain_id st"
    "as_next_sequence st' = Suc (as_next_sequence st)" "Suc (as_next_sequence st) < 2 ^ 64"
  using assms by (auto simp: advance_def Let_def u64_checked_inc_def split: option.splits if_splits)

lemma write_event_verifies:
  assumes C: "audit_crates_ok C" and env: "env_ok env vs" and st: "state_format C st"
    and e: "event_allowed e"
    and ver: "verify_loop C vs 0 ([], None) (sk_file s) = Inr (cs, Some vc)" and m: "matches st vc"
    and w: "write_event C env s st e = (s', st', Inr ())"
  shows "\<exists>vc'. verify_loop C vs 0 ([], None) (sk_file s') = Inr (cs, Some vc') \<and> matches st' vc' \<and> state_format C st'"
proof -
  from write_event_ok [OF w] obtain t r line where t: "ae_now env (sk_calls s) = Inr t"
    and r: "event_record C st (show_nat t) e = Inr r" and line: "canonical_json_v1 C (record_json r) = Inr line"
    and len: "length line \<le> AUDIT_CHAIN_RECORD_MAX_BYTES" and fl: "sk_file s' = sk_file s @ line @ [10]"
    and adv: "advance st (cr_event_hash r) = (st', Inr ())" by metis
  note b = event_record_fields [OF r] and a = advance_ok [OF adv]
  have t64: "t < 2 ^ 64" using env t by (auto simp: env_ok_def)
  have valid: "validate_record C r = Inr ()"
    using event_record_valid [OF C st t64 _ _ r line len] e by (simp add: event_allowed_def)
  have seq: "rb_sequence (cr_body r) < 2 ^ 64" using st by (simp add: b(1) event_body_def Let_def state_format_def)
  let ?vc = "vc\<lparr>vc_records := u64_saturating_inc (vc_records vc), vc_last_sequence := rb_sequence (cr_body r),
    vc_head_hash := cr_event_hash r\<rparr>"
  have push: "vc_push vc r = Inr ?vc"
    using m st by (auto simp: vc_push_def Let_def b(1) event_body_def matches_def state_format_def
        u64_saturating_inc_def)
  have ng: "\<not> is_genesis (cr_body r)"
    using e by (simp add: is_genesis_def b(1) event_body_def Let_def event_allowed_def clean_def)
  have ver1: "rb_version (cr_body r) = CHAIN_VERSION" by (simp add: b(1) event_body_def Let_def)
  have acc: "verify_line C vs j (cs, Some vc) line = Inr (cs, Some ?vc)" for j
    using verify_record_accepts [OF C valid ver1 seq line, of vs j "(cs, Some vc)"] ng push by simp
  have nl: "10 \<notin> set line"
    using C flat_record [OF seq] canonical_json_ok [OF line] by (simp add: audit_crates_ok_def json_line_ok_def)
  have "matches st' ?vc"
    using m a by (auto simp: matches_def b(1) event_body_def Let_def u64_saturating_inc_def)
  moreover have "state_format C st'"
    using st a hex_hash [OF C b(2)] by (auto simp: state_format_def)
  ultimately show ?thesis using verify_loop_snoc [OF ver nl len acc] fl by auto
qed

lemma append_checkpoint_ok:
  assumes "append_checkpoint C env s st = (s', st', Inr ())"
  obtains t sig line n where "ae_now env (sk_calls s) = Inr t"
    "ae_sign env n (checkpoint_payload st (show_nat t)) = Inr sig"
    "canonical_json_v1 C (checkpoint_json \<lparr>cl_version = CHECKPOINT_VERSION, cl_signature = sig\<rparr>) = Inr line"
    "length line \<le> AUDIT_CHAIN_RECORD_MAX_BYTES" "sk_file s' = sk_file s @ line @ [10]"
    "st' = st\<lparr>as_events_since_checkpoint := 0,
       as_last_checkpoint_sequence := Some (cp_last_sequence (checkpoint_payload st (show_nat t)))\<rparr>"
  using assms
  by (auto simp: append_checkpoint_def current_timestamp_def write_record_def Let_def serialize_bounded_def
      bindR_eq_Inr split: prod.splits sum.splits option.splits if_splits)

lemma append_checkpoint_verifies:
  assumes C: "audit_crates_ok C" and env: "env_ok env vs" and st: "state_format C st"
    and ver: "verify_loop C vs 0 ([], None) (sk_file s) = Inr (cs, Some vc)" and m: "matches st vc"
    and w: "append_checkpoint C env s st = (s', st', Inr ())"
  shows "\<exists>vc'. verify_loop C vs 0 ([], None) (sk_file s') = Inr (cs, Some vc') \<and> matches st' vc' \<and> state_format C st'"
proof -
  from append_checkpoint_ok [OF w] obtain t sig line n where t: "ae_now env (sk_calls s) = Inr t"
    and sig: "ae_sign env n (checkpoint_payload st (show_nat t)) = Inr sig"
    and line: "canonical_json_v1 C (checkpoint_json \<lparr>cl_version = CHECKPOINT_VERSION, cl_signature = sig\<rparr>) = Inr line"
    and len: "length line \<le> AUDIT_CHAIN_RECORD_MAX_BYTES" and fl: "sk_file s' = sk_file s @ line @ [10]"
    and st': "st' = st\<lparr>as_events_since_checkpoint := 0,
       as_last_checkpoint_sequence := Some (cp_last_sequence (checkpoint_payload st (show_nat t)))\<rparr>" by metis
  let ?p = "checkpoint_payload st (show_nat t)"
  have t64: "t < 2 ^ 64" and vs: "vs sig = Inr ?p" using env t sig by (auto simp: env_ok_def)
  have "validate_hash_hex_field f (as_head_hash st) INTERNAL_KEYS_HASH = Inr ()" for f
    using st by (simp add: validate_hash_hex_field_ok state_format_def)
  then have p: "validate_checkpoint_payload C ?p = Inr ()"
    using st t64 by (simp add: validate_checkpoint_payload_def checkpoint_payload_def state_format_def
        parse_u64_show_nat)
  have sq: "as_next_sequence st - Suc 0 = vc_last_sequence vc" using m by (auto simp: matches_def)
  obtain vc' where c: "vc_checkpoint vc ?p = Inr vc'" "matches st' vc'"
    using m by (auto simp: vc_checkpoint_def checkpoint_payload_def matches_def st' sq)
  have acc: "verify_line C vs j (cs, Some vc) line = Inr (cs, Some vc')" for j
    using verify_checkpoint_accepts [OF C _ _ p line c(1)] vs by simp
  have nl: "10 \<notin> set line"
    using C flat_checkpoint canonical_json_ok [OF line] by (simp add: audit_crates_ok_def json_line_ok_def)
  have "state_format C st'" using st by (simp add: state_format_def st')
  then show ?thesis using verify_loop_snoc [OF ver nl len acc] fl c(2) by auto
qed

section \<open>The log of a running writer\<close>

definition logged ::
    "crates \<Rightarrow> (ustr \<Rightarrow> audit_checkpoint_payload result) \<Rightarrow> verified_chain list \<Rightarrow> audit_writer \<Rightarrow> bool" where
  "logged C vs cs w \<longleftrightarrow>
     (aw_poisoned w = None \<longrightarrow>
        state_format C (aw_state w) \<and>
        (\<exists>vc. verify_loop C vs 0 ([], None) (sk_file (aw_sink w)) = Inr (cs, Some vc) \<and> matches (aw_state w) vc))"

lemma logged_process:
  assumes "audit_crates_ok C" "env_ok env vs" "logged C vs cs w" "command_ok event_allowed c"
  shows "logged C vs cs (fst (process_command C env w b c))"
proof (cases c)
  case (Record e f s)
  show ?thesis
  proof (cases "aw_poisoned w")
    case None
    obtain s' st' r where e: "write_event C env (aw_sink w) (aw_state w) e = (s', st', r)"
      by (cases "write_event C env (aw_sink w) (aw_state w) e")
    show ?thesis
    proof (cases r rule: unit_result_cases)
      case ok
      from assms(3) None obtain vc where "state_format C (aw_state w)"
        "verify_loop C vs 0 ([], None) (sk_file (aw_sink w)) = Inr (cs, Some vc)" "matches (aw_state w) vc"
        by (auto simp: logged_def)
      with write_event_verifies [OF assms(1,2) _ _ _ _ e [unfolded ok]] assms(4)
      show ?thesis by (auto simp: Record None e ok logged_def)
    qed (simp add: Record None e logged_def Let_def)
  next
    case Some
    then show ?thesis by (simp add: Record logged_def)
  qed
qed (use assms(3) in simp_all)

lemma logged_checkpoint:
  assumes "audit_crates_ok C" "env_ok env vs" "logged C vs cs w"
  shows "logged C vs cs (fst (checkpoint_phase C env n w b))"
proof (cases "aw_poisoned w = None \<and> checkpoint_due n w b")
  case True
  obtain s' st' r where e: "append_checkpoint C env (aw_sink w) (aw_state w) = (s', st', r)"
    by (cases "append_checkpoint C env (aw_sink w) (aw_state w)")
  show ?thesis
  proof (cases r rule: unit_result_cases)
    case ok
    from assms(3) True obtain vc where "state_format C (aw_state w)"
      "verify_loop C vs 0 ([], None) (sk_file (aw_sink w)) = Inr (cs, Some vc)" "matches (aw_state w) vc"
      by (auto simp: logged_def)
    with append_checkpoint_verifies [OF assms(1,2) _ _ _ e [unfolded ok]]
    show ?thesis using True by (auto simp: checkpoint_phase_def e ok logged_def)
  qed (use True in \<open>simp add: checkpoint_phase_def e logged_def\<close>)
qed (use assms(3) in \<open>auto simp: checkpoint_phase_def\<close>)

lemma answer_barrier_same:
  "aw_sink (foldl answer_barrier w bs) = aw_sink w" "aw_state (foldl answer_barrier w bs) = aw_state w"
  "aw_poisoned (foldl answer_barrier w bs) = aw_poisoned w"
  by (induction bs arbitrary: w) (auto simp: answer_barrier_def Let_def split: prod.splits)

lemma logged_reply: "logged C vs cs w \<Longrightarrow> logged C vs cs (reply_phase w b)"
  by (auto simp: reply_phase_def Let_def logged_def answer_barrier_same split: option.splits)

lemma logged_sync: "logged C vs cs w \<Longrightarrow> logged C vs cs (sync_phase env w b)"
  by (auto simp: sync_phase_def sync_def logged_def split: option.splits)

text \<open>The log is verified in every state reached under a well-behaved environment. Outside one the
  invariant says nothing.\<close>

definition logged_in ::
    "crates \<Rightarrow> audit_env \<Rightarrow> (ustr \<Rightarrow> audit_checkpoint_payload result) \<Rightarrow> verified_chain list \<Rightarrow>
     audit_writer \<Rightarrow> bool" where
  "logged_in C env vs cs w \<longleftrightarrow> (audit_crates_ok C \<and> env_ok env vs \<longrightarrow> logged C vs cs w)"

interpretation logging: writer_invariant C env event_count event_allowed "logged_in C env vs cs"
  for C env event_count vs cs
proof
  fix w c and b :: audit_batch
  assume "logged_in C env vs cs w" "command_ok event_allowed c"
  then show "logged_in C env vs cs (fst (process_command C env w b c))"
    using logged_process by (auto simp: logged_in_def)
next
  fix w and b :: audit_batch
  assume "logged_in C env vs cs w"
  then show "logged_in C env vs cs (fst (checkpoint_phase C env event_count w b))"
    and "logged_in C env vs cs (sync_phase env w b)" and "logged_in C env vs cs (reply_phase w b)"
    using logged_checkpoint logged_sync logged_reply by (auto simp: logged_in_def)
next
  fix w f
  assume "logged_in C env vs cs w"
  then show "logged_in C env vs cs (w\<lparr>aw_failures := f\<rparr>)" by (simp add: logged_in_def logged_def)
qed

lemma start_writer_ok:
  assumes "start_writer C env random s = Inr w"
  obtains s1 st1 where "write_event C env s (new_chain_state C random) chain_started = (s1, st1, Inr ())"
    "aw_state w = st1" "sk_file (aw_sink w) = sk_file s1" "sk_synced (aw_sink w) = length (sk_file s1)"
    "aw_poisoned w = None" "\<not> aw_dirty w" "aw_replies w = []" "aw_shutdown w = None"
  using assms
  by (auto simp: start_writer_def sync_def split: prod.splits sum.splits option.splits)

lemma start_durable: "start_writer C env random s = Inr w \<Longrightarrow> durable w"
  by (elim start_writer_ok) (simp add: durable_def)

lemma genesis_hash_hex: "length GENESIS_HASH = 64" "list_all is_ascii_hexdigit GENESIS_HASH"
  by (simp_all add: GENESIS_HASH_def list_all_iff char_simps)

lemma new_state_format:
  assumes "audit_crates_ok C" "length random = 16"
  shows "state_format C (new_chain_state C random)"
proof -
  have h: "length (hex_encode C random) = 32" "list_all is_ascii_hexdigit (hex_encode C random)"
    "hex_decode C (hex_encode C random) = Some random"
    using assms lower_hex by (auto simp: audit_crates_ok_def hex_format_ok_def hex_codec_ok_def)
  then have "str_len (hex_encode C random) = 32" by (simp add: str_len_ascii [OF hex_ascii])
  with h(3) show ?thesis by (simp add: state_format_def new_chain_state_def hex_ok_def genesis_hash_hex)
qed

lemma clean_lit:
  "clean (lit ''audit.chain.started'') = lit ''audit.chain.started''" "clean (lit ''success'') = lit ''success''"
  "clean (lit ''chain-start'') = lit ''chain-start''"
  by (simp_all add: clean_def sanitize_def AUDIT_CHAIN_REASON_MAX_CHARS_def lit_def char_simps)

lemma start_logged:
  assumes C: "audit_crates_ok C" and env: "env_ok env vs" and rnd: "length random = 16"
    and ver: "verify_loop C vs 0 ([], None) (sk_file s) = Inr st0"
    and start: "start_writer C env random s = Inr w"
  shows "logged C vs (fst st0 @ (case snd st0 of None \<Rightarrow> [] | Some c \<Rightarrow> [c])) w"
proof -
  let ?st = "new_chain_state C random"
  from start_writer_ok [OF start] obtain s1 where
    ev: "write_event C env s ?st chain_started = (s1, aw_state w, Inr ())"
    and w: "sk_file (aw_sink w) = sk_file s1" "aw_poisoned w = None" by metis
  from write_event_ok [OF ev] obtain t r line where t: "ae_now env (sk_calls s) = Inr t"
    and r: "event_record C ?st (show_nat t) chain_started = Inr r"
    and line: "canonical_json_v1 C (record_json r) = Inr line"
    and len: "length line \<le> AUDIT_CHAIN_RECORD_MAX_BYTES" and fl: "sk_file s1 = sk_file s @ line @ [10]"
    and adv: "advance ?st (cr_event_hash r) = (aw_state w, Inr ())" by metis
  note b = event_record_fields [OF r] and a = advance_ok [OF adv] and sf = new_state_format [OF C rnd]
  have t64: "t < 2 ^ 64" using env t by (auto simp: env_ok_def)
  have ne: "clean (ev_event chain_started) \<noteq> []" "clean (ev_outcome chain_started) \<noteq> []"
    by (simp_all add: chain_started_def clean_lit) (simp_all add: lit_def)
  have valid: "validate_record C r = Inr ()" using event_record_valid [OF C sf t64 ne r line len] .
  have g: "is_genesis (cr_body r)" "genesis_ok (cr_body r)" "rb_version (cr_body r) = CHAIN_VERSION"
    "rb_sequence (cr_body r) = 0" "rb_chain_id (cr_body r) = as_chain_id ?st"
    by (simp_all add: b(1) event_body_def Let_def is_genesis_def genesis_ok_def clean_def [symmetric] clean_lit
        new_chain_state_def chain_started_def)
  then have acc: "verify_line C vs j st0 line =
      Inr (fst st0 @ (case snd st0 of None \<Rightarrow> [] | Some c \<Rightarrow> [c]), Some (vc_from_genesis r))" for j
    using verify_record_accepts [OF C valid g(3) _ line, of vs j st0] by simp
  have nl: "10 \<notin> set line"
    using C flat_record [of r] canonical_json_ok [OF line] g(4) by (simp add: audit_crates_ok_def json_line_ok_def)
  have "matches (aw_state w) (vc_from_genesis r)"
    using a g(5) by (simp add: matches_def vc_from_genesis_def new_chain_state_def)
  moreover have "state_format C (aw_state w)"
    using sf a hex_hash [OF C b(2)] by (simp add: state_format_def)
  ultimately show ?thesis using verify_loop_snoc [OF ver nl len acc] fl w by (auto simp: logged_def)
qed

lemma poisoned_loop:
  assumes "aw_poisoned w = Some reason" "batch_loop C env w b queued = (w', b', left)"
  shows "aw_poisoned w' = Some reason \<and> sk_file (aw_sink w') = sk_file (aw_sink w)"
  using assms
proof (induction queued arbitrary: w b)
  case (Cons c queued)
  obtain w1 b1 where p: "process_command C env w (b\<lparr>ab_processed := ab_processed b + 1\<rparr>) c = (w1, b1)"
    by (cases "process_command C env w (b\<lparr>ab_processed := ab_processed b + 1\<rparr>) c")
  then have w1: "aw_poisoned w1 = Some reason \<and> sk_file (aw_sink w1) = sk_file (aw_sink w)"
    using Cons.prems(1) by (cases c) auto
  show ?case using Cons.IH [of w1 b1] Cons.prems(2) w1 p by (auto split: if_splits)
qed simp

lemma poisoned_batch:
  assumes "aw_poisoned w = Some reason" "writer_batch C env n w queued = (w', left)"
  shows "aw_poisoned w' = Some reason \<and> sk_file (aw_sink w') = sk_file (aw_sink w)"
proof -
  obtain w1 b1 l where 1: "batch_loop C env w empty_batch queued = (w1, b1, l)"
    by (cases "batch_loop C env w empty_batch queued")
  have p: "aw_poisoned w1 = Some reason \<and> sk_file (aw_sink w1) = sk_file (aw_sink w)"
    using poisoned_loop [OF assms(1) 1] .
  then have "w' = reply_phase w1 b1"
    using assms(2) by (simp add: writer_batch_def 1 checkpoint_phase_def sync_phase_def)
  with p show ?thesis by (auto simp: reply_phase_def Let_def answer_barrier_same split: option.splits)
qed

section \<open>An example\<close>

text \<open>A concrete start on an empty log.\<close>

definition example_random :: "u8 list" where "example_random = replicate 16 1"

definition example_genesis :: audit_chain_record where
  "example_genesis =
     \<lparr>cr_body = event_body \<lparr>as_chain_id = concat (map hex_byte example_random), as_next_sequence = 0,
        as_head_hash = GENESIS_HASH, as_events_since_checkpoint = 0, as_last_checkpoint_sequence = None\<rparr>
        (show_nat 7) chain_started,
      cr_event_hash = concat (map hex_byte (replicate 32 2))\<rparr>"

definition audit_crates :: crates where
  "audit_crates = example_crates (record_json example_genesis)"

definition example_env :: audit_env where
  "example_env = \<lparr>ae_now = (\<lambda>_. Inr 7), ae_write_error = (\<lambda>_. None), ae_sync_error = (\<lambda>_. None),
     ae_sign = (\<lambda>_ _. Inl (internal []))\<rparr>"

definition empty_sink :: audit_sink where
  "empty_sink = \<lparr>sk_file = [], sk_synced = 0, sk_calls = 0\<rparr>"

definition example_writer :: audit_writer where
  "example_writer =
     \<lparr>aw_sink = \<lparr>sk_file = [1, 10], sk_synced = 2, sk_calls = 3\<rparr>,
      aw_state = \<lparr>as_chain_id = concat (map hex_byte example_random), as_next_sequence = 1,
        as_head_hash = concat (map hex_byte (replicate 32 2)), as_events_since_checkpoint = 0,
        as_last_checkpoint_sequence = None\<rparr>,
      aw_poisoned = None, aw_dirty = False, aw_failures = Map.empty, aw_replies = [], aw_shutdown = None\<rparr>"

lemma example_env_ok: "env_ok example_env vs"
  by (simp add: env_ok_def example_env_def)

lemma valid_utf8_ones: "valid_utf8 (replicate n 1)"
proof -
  have p: "utf8_prefix (1 # bs) = Some (1, bs)" for bs
    by (simp add: utf8_prefix_def scalar_value_def utf8_char_def)
  have "valid_utf8_fuel n (replicate n 1)" by (induction n) (simp_all add: p)
  then show ?thesis by (simp add: valid_utf8_def)
qed

lemma audit_crates_ok: "audit_crates_ok audit_crates"
proof -
  have "json_line_ok audit_crates"
    using valid_utf8_ones [of 1] valid_utf8_ones [of "Suc (Suc _)"]
    by (auto simp: json_line_ok_def audit_crates_def example_crates_def)
  then show ?thesis using example_crates_codecs by (simp add: audit_crates_ok_def audit_crates_def)
qed

lemma reserved_key: "k = [] \<or> hd k \<noteq> 36 \<Longrightarrow> \<not> starts_with SERDE_JSON_PRIVATE_KEY_PREFIX k"
  by (cases k) (auto simp: starts_with_def SERDE_JSON_PRIVATE_KEY_PREFIX_def lit_def)

lemma canonical_record:
  assumes "rb_sequence (cr_body r) < 2 ^ 64"
  shows "canonical_json_v1 C (record_json r) = Inr (json_to_vec C (record_json r))"
  unfolding record_json_explicit using assms by (intro canonical_flat) (simp add: reserved_key lit_def)

lemma canonical_body:
  assumes "rb_sequence b < 2 ^ 64"
  shows "canonical_json_v1 C (body_json b) = Inr (json_to_vec C (body_json b))"
proof -
  have "body_json b = JObject (filter (\<lambda>(k, _). k \<noteq> lit ''event_hash'')
      (case record_json \<lparr>cr_body = b, cr_event_hash = []\<rparr> of JObject fs \<Rightarrow> fs | _ \<Rightarrow> []))"
    unfolding record_json_explicit
    by (simp add: body_json_def sorted_object_def record_keys_def body_fields_def map_filter_simps lit_def)
  then show ?thesis
    unfolding record_json_explicit using assms by (simp add: lit_def) (intro canonical_flat, simp add: reserved_key)
qed

lemma example_start: "start_writer audit_crates example_env example_random empty_sink = Inr example_writer"
proof -
  let ?C = audit_crates
  have st: "new_chain_state ?C example_random = \<lparr>as_chain_id = concat (map hex_byte example_random),
      as_next_sequence = 0, as_head_hash = GENESIS_HASH, as_events_since_checkpoint = 0,
      as_last_checkpoint_sequence = None\<rparr>"
    by (simp add: new_chain_state_def audit_crates_def example_crates_def)
  have sq: "rb_sequence (cr_body example_genesis) = 0"
    by (simp add: example_genesis_def event_body_def Let_def)
  have h: "hash_record ?C b = Inr (concat (map hex_byte (replicate 32 2)))" if "rb_sequence b = 0" for b
    using canonical_body [of b ?C] that by (simp add: hash_record_def audit_crates_def example_crates_def)
  have r: "event_record ?C (new_chain_state ?C example_random) (show_nat 7) chain_started = Inr example_genesis"
    by (simp add: event_record_def Let_def st h event_body_def example_genesis_def del: map_replicate)
  have s: "serialize_bounded ?C m (record_json example_genesis) = Inr [1]" for m
    using canonical_record [of example_genesis ?C] sq
    by (simp add: serialize_bounded_def audit_crates_def example_crates_def AUDIT_CHAIN_RECORD_MAX_BYTES_def)
  have a: "advance (new_chain_state ?C example_random) (cr_event_hash example_genesis) =
      (aw_state example_writer, Inr ())"
    by (simp add: advance_def Let_def st u64_checked_inc_def example_genesis_def example_writer_def
        del: map_replicate)
  show ?thesis
    by (simp add: start_writer_def write_event_def current_timestamp_def example_env_def r s a
        write_record_def empty_sink_def sync_def) (simp add: example_writer_def)
qed

lemma example_random_length: "length example_random = 16"
  by (simp add: example_random_def)

lemma empty_sink_verifies: "verify_loop C vs 0 ([], None) (sk_file empty_sink) = Inr ([], None)"
  by (simp add: empty_sink_def verify_loop.simps)

lemma example_log:
  "\<exists>vc. verify_file_with_verifier audit_crates vs [1, 10] = Inr [vc] \<and> matches (aw_state example_writer) vc"
  using start_logged [OF audit_crates_ok example_env_ok example_random_length empty_sink_verifies example_start, of vs]
  by (auto simp: logged_def verify_file_with_verifier_def) (auto simp: example_writer_def)

text \<open>A barrier queued by a client and answered by one round.\<close>

definition example_barrier_writer :: audit_writer where
  "example_barrier_writer = example_writer\<lparr>aw_replies := [\<lparr>br_reply = 4, br_failure = None, br_length = 2\<rparr>]\<rparr>"

lemma example_barrier:
  "writer_reach audit_crates example_env 5 event_allowed (example_writer, []) (example_barrier_writer, [])"
proof -
  have b: "writer_batch audit_crates example_env 5 example_writer [Barrier 3 4] = (example_barrier_writer, [])"
    by (simp add: writer_batch_def empty_batch_def AUDIT_GROUP_COMMIT_MAX_COMMANDS_def example_barrier_writer_def
        example_writer_def checkpoint_phase_def checkpoint_due_def sync_phase_def reply_phase_def answer_barrier_def)
  have "writer_step audit_crates example_env 5 event_allowed (example_writer, []) (example_writer, [Barrier 3 4])"
    using writer_step.queue [of "[]" "Barrier 3 4"] by (simp add: AUDIT_CHAIN_CHANNEL_CAPACITY_def)
  moreover have "writer_step audit_crates example_env 5 event_allowed (example_writer, [Barrier 3 4])
      (example_barrier_writer, [])"
    using writer_step.batch [OF _ _ b, of event_allowed "[]"] by (simp add: example_writer_def)
  ultimately show ?thesis by (auto simp: writer_reach_def)
qed

section \<open>Guarantees\<close>

text \<open>A log that verifies consists of chains: its records, in the order of the lines, split into
  one segment for each reported chain; each segment starts with a genesis record, every record's
  hash is that of its content, every later record continues its predecessor's number and carries its
  hash, and the reported head is the hash of the segment's last record.\<close>

theorem verified_log_is_linked:
  assumes "verify_file_with_verifier C vs bs = Inr vcs"
  shows "\<exists>segs. concat segs = log_records C bs \<and>
    list_all2 (\<lambda>vc rs. linked C rs \<and> vc_head_hash vc = cr_event_hash (last rs) \<and>
      vc_chain_id vc = rb_chain_id (cr_body (last rs)) \<and>
      vc_last_sequence vc = rb_sequence (cr_body (last rs))) vcs segs"
proof -
  from verified_segments [OF assms] obtain segs where
    "list_all2 (chain_of C) vcs segs" "concat segs = log_records C bs" by blast
  then show ?thesis by (auto simp: chain_of_def elim!: list_all2_mono)
qed

theorem verified_log_is_linked_witness:
  "\<exists>vcs. verify_file_with_verifier audit_crates (\<lambda>_. Inl (internal [])) [1, 10] = Inr vcs \<and>
    (\<exists>segs. concat segs = log_records audit_crates [1, 10] \<and>
      list_all2 (\<lambda>vc rs. linked audit_crates rs \<and> vc_head_hash vc = cr_event_hash (last rs) \<and>
        vc_chain_id vc = rb_chain_id (cr_body (last rs)) \<and>
        vc_last_sequence vc = rb_sequence (cr_body (last rs))) vcs segs)"
  using example_log [of "\<lambda>_. Inl (internal [])"] verified_log_is_linked by blast

text \<open>C2: tamper evidence. Two logs that both verify with the same head hashes contain exactly the same
  records, or else they exhibit a collision of the hash: nothing in a verified log can be changed,
  dropped, inserted or reordered without changing a head or finding a collision.\<close>

theorem heads_determine_records:
  assumes "verify_file_with_verifier C vs bs = Inr vcs" and "verify_file_with_verifier C vs' bs' = Inr vcs'"
    and "map vc_head_hash vcs = map vc_head_hash vcs'"
  shows "log_records C bs = log_records C bs' \<or> collision C (log_records C bs) (log_records C bs')"
  using verified_segments [OF assms(1)] verified_segments [OF assms(2)] heads_determine_segments assms(3)
  by metis

theorem heads_determine_records_witness:
  "\<exists>vcs vcs'. verify_file_with_verifier audit_crates (\<lambda>_. Inl (internal [])) [1, 10] = Inr vcs \<and>
    verify_file_with_verifier audit_crates (\<lambda>_. Inl (forbidden [])) [1, 10] = Inr vcs' \<and>
    map vc_head_hash vcs = map vc_head_hash vcs' \<and>
    (log_records audit_crates [1, 10] = log_records audit_crates [1, 10] \<or>
     collision audit_crates (log_records audit_crates [1, 10]) (log_records audit_crates [1, 10]))"
proof -
  from example_log [of "\<lambda>_. Inl (internal [])"] example_log [of "\<lambda>_. Inl (forbidden [])"] obtain vc vc' where
    v: "verify_file_with_verifier audit_crates (\<lambda>_. Inl (internal [])) [1, 10] = Inr [vc]"
    "verify_file_with_verifier audit_crates (\<lambda>_. Inl (forbidden [])) [1, 10] = Inr [vc']"
    "matches (aw_state example_writer) vc" "matches (aw_state example_writer) vc'" by blast
  then have "map vc_head_hash [vc] = map vc_head_hash [vc']" by (simp add: matches_def)
  with heads_determine_records [OF v(1,2)] v show ?thesis by blast
qed

text \<open>C8: the writer's log verifies. A writer started on a log that verifies (an empty one included)
  and run on any interleaving of queued events, barriers, rounds and shutdown keeps a file that
  verifies as long as no write has failed: the chains that were there, then one chain with the id,
  head hash and number of records of the writer's state. The events recorded are those whose
  sanitised name and outcome are not blank and whose name is not the reserved genesis one.\<close>

theorem writer_log_verifies:
  assumes "audit_crates_ok C" and "env_ok env vs" and "length random = 16"
    and "verify_loop C vs 0 ([], None) (sk_file s) = Inr (old, current)"
    and "start_writer C env random s = Inr w0"
    and "writer_reach C env event_count event_allowed (w0, []) (w, q)" and "aw_poisoned w = None"
  shows "\<exists>vc. verify_file_with_verifier C vs (sk_file (aw_sink w)) =
      Inr (old @ (case current of None \<Rightarrow> [] | Some c \<Rightarrow> [c]) @ [vc]) \<and>
    vc_chain_id vc = as_chain_id (aw_state w) \<and> vc_head_hash vc = as_head_hash (aw_state w) \<and>
    vc_records vc = as_next_sequence (aw_state w)"
proof -
  let ?old = "old @ (case current of None \<Rightarrow> [] | Some c \<Rightarrow> [c])"
  have "logged_in C env vs ?old w0" using start_logged [OF assms(1-5)] by (simp add: logged_in_def)
  from logging.reach_invariant [OF assms(6) this] assms(1,2) have "logged C vs ?old w"
    by (simp add: logged_in_def)
  with assms(7) show ?thesis by (auto simp: logged_def verify_file_with_verifier_def matches_def)
qed

theorem writer_log_verifies_witness:
  "start_writer audit_crates example_env example_random empty_sink = Inr example_writer \<and>
   writer_reach audit_crates example_env 5 event_allowed (example_writer, []) (example_barrier_writer, []) \<and>
   (\<exists>vc. verify_file_with_verifier audit_crates (\<lambda>_. Inl (internal [])) (sk_file (aw_sink example_barrier_writer)) =
      Inr ([] @ (case None of None \<Rightarrow> [] | Some c \<Rightarrow> [c]) @ [vc]) \<and>
    vc_chain_id vc = as_chain_id (aw_state example_barrier_writer) \<and>
    vc_head_hash vc = as_head_hash (aw_state example_barrier_writer) \<and>
    vc_records vc = as_next_sequence (aw_state example_barrier_writer))"
  by (intro conjI example_start example_barrier writer_log_verifies [OF audit_crates_ok example_env_ok
        example_random_length empty_sink_verifies example_start example_barrier])
    (simp add: example_barrier_writer_def example_writer_def)

text \<open>C38: a barrier answered without a failure is durable. In every state the writer reaches, whatever
  writes and syncs failed on the way, all the bytes of the log that were written when such a reply
  was sent have been synced to disk.\<close>

theorem barrier_durable:
  assumes "start_writer C env random s = Inr w0"
    and "writer_reach C env event_count allowed (w0, []) (w, q)"
  shows "list_all (\<lambda>r. br_failure r = None \<longrightarrow> br_length r \<le> sk_synced (aw_sink w)) (aw_replies w)"
  using durability.reach_invariant [OF assms(2) start_durable [OF assms(1)]] by (simp add: durable_def)

theorem barrier_durable_witness:
  "aw_replies example_barrier_writer = [\<lparr>br_reply = 4, br_failure = None, br_length = 2\<rparr>] \<and>
   list_all (\<lambda>r. br_failure r = None \<longrightarrow> br_length r \<le> sk_synced (aw_sink example_barrier_writer))
     (aw_replies example_barrier_writer)"
  using barrier_durable [OF example_start example_barrier]
  by (simp add: example_barrier_writer_def example_writer_def)

text \<open>After a failed write or sync the writer appends nothing. Every step of a poisoned writer leaves
  the log as it is and the writer poisoned for the same reason.\<close>

theorem poisoned_writer_stops:
  assumes "writer_step C env event_count allowed (w, q) (w', q')" and "aw_poisoned w = Some reason"
  shows "sk_file (aw_sink w') = sk_file (aw_sink w) \<and> aw_poisoned w' = Some reason"
  using assms by (cases rule: writer_step.cases) (auto dest: poisoned_batch)

theorem poisoned_writer_stops_witness:
  "\<exists>w'. writer_step audit_crates example_env 5 event_allowed
      (example_writer\<lparr>aw_poisoned := Some [1]\<rparr>, [Record chain_started 3 True]) (w', []) \<and>
    sk_file (aw_sink w') = [1, 10] \<and> aw_poisoned w' = Some [1]"
proof -
  let ?w = "example_writer\<lparr>aw_poisoned := Some [1]\<rparr>"
  have "writer_batch audit_crates example_env 5 ?w [Record chain_started 3 True] =
      (?w\<lparr>aw_failures := [3 \<mapsto> [1]]\<rparr>, [])"
    by (simp add: writer_batch_def empty_batch_def AUDIT_GROUP_COMMIT_MAX_COMMANDS_def set_failure_def
        example_writer_def checkpoint_phase_def sync_phase_def reply_phase_def)
  from writer_step.batch [OF _ _ this, of event_allowed "[]"]
  have s: "writer_step audit_crates example_env 5 event_allowed (?w, [Record chain_started 3 True])
      (?w\<lparr>aw_failures := [3 \<mapsto> [1]]\<rparr>, [])"
    by (simp add: example_writer_def)
  show ?thesis using poisoned_writer_stops [OF s] s by (intro exI) (auto simp: example_writer_def)
qed

end
