(* ===== verification/Storage.thy ===== *)
theory Storage
  imports Subject_Ids "HOL-Library.List_Lexorder" "HOL-Library.Product_Lexorder"
begin

text \<open>
  \<open>src/core/storage/mod.rs\<close> and \<open>src/core/storage/sqlite.rs\<close>: the tables of operational keys,
  tokens, blind indexes and subjects, and every operation on them.

  A table is the list of its rows; the primary keys of the schema make an insertion of a second row
  with the same key fail. A request to the database may fail at any point for reasons of its own
  (\<open>se_fault\<close>, by the number of the request); an operation that runs in a transaction restores the
  tables when it fails before the commit. The SQL statements are the definitions
  \<open>sql_...\<close>, one for each query text of the source; \<open>sqlite_...\<close> are the methods of the SQLite
  backend, and the unqualified names are the methods of \<open>StorageState\<close>, which validate their
  arguments and the rows they return. The PostgreSQL backend is not modelled.
\<close>

section \<open>Rows and tables\<close>

definition STORAGE_ENVELOPE_MAX_CHARS :: nat where "STORAGE_ENVELOPE_MAX_CHARS = 32768"
definition STORAGE_INDEX_DIGEST_MAX_CHARS :: nat where "STORAGE_INDEX_DIGEST_MAX_CHARS = 128"

record ops_key_row =
  ok_kid :: ustr
  ok_keys :: ustr
  ok_properties :: ustr

record token_row =
  tr_kid :: ustr
  tr_hashid :: ustr
  tr_data :: ustr
  tr_subject :: "ustr option"

record subject_row =
  sr_kid :: ustr
  sr_subject :: ustr
  sr_seed :: ustr

record subject_write_guard =
  wg_kid :: ustr
  wg_subject :: ustr
  wg_seed :: ustr

record index_row =
  ix_kid :: ustr
  ix_digest :: ustr

datatype token_batch_consume_error = MissingToken ustr | OtherError dyn_error

record database =
  db_opskeys :: "ops_key_row list"
  db_tokens :: "token_row list"
  db_indexes :: "index_row list"
  db_subjects :: "subject_row list"

record storage_env =
  se_fault :: "nat \<Rightarrow> ustr option"
  se_unique_error :: ustr

record storage =
  sd_db :: database
  sd_calls :: nat

abbreviation token_key :: "token_row \<Rightarrow> ustr \<times> ustr" where
  "token_key r \<equiv> (tr_kid r, tr_hashid r)"

abbreviation subject_key :: "subject_row \<Rightarrow> ustr \<times> ustr" where
  "subject_key r \<equiv> (sr_kid r, sr_subject r)"

abbreviation index_key :: "index_row \<Rightarrow> ustr \<times> ustr" where
  "index_key r \<equiv> (ix_kid r, ix_digest r)"

section \<open>Requests and transactions\<close>

text \<open>An operation on a state returns the state it leaves and an error or a value; it stops at the first
  error and keeps what was changed before.\<close>

type_synonym ('s, 'e, 'a) op = "'s \<Rightarrow> 's \<times> ('e + 'a)"

type_synonym ('e, 'a) sop = "(storage, 'e, 'a) op"

definition retS :: "'a \<Rightarrow> ('s, 'e, 'a) op" where
  "retS x s = (s, Inr x)"

definition liftS :: "'e + 'a \<Rightarrow> ('s, 'e, 'a) op" where
  "liftS r s = (s, r)"

definition bindS :: "('s, 'e, 'a) op \<Rightarrow> ('a \<Rightarrow> ('s, 'e, 'b) op) \<Rightarrow> ('s, 'e, 'b) op" where
  "bindS m f s = (case m s of (s', Inl e) \<Rightarrow> (s', Inl e) | (s', Inr x) \<Rightarrow> f x s')"

fun for_eachS :: "('a \<Rightarrow> ('s, 'e, unit) op) \<Rightarrow> 'a list \<Rightarrow> ('s, 'e, unit) op" where
  "for_eachS f [] = retS ()"
| "for_eachS f (x # xs) = bindS (f x) (\<lambda>_. for_eachS f xs)"

text \<open>One request: it fails with an error of the database, or runs a statement on the tables.
  \<open>err\<close> is how the caller wraps an error of the database.\<close>

definition request ::
    "(dyn_error \<Rightarrow> 'e) \<Rightarrow> storage_env \<Rightarrow> (database \<Rightarrow> ustr + database \<times> 'a) \<Rightarrow> ('e, 'a) sop" where
  "request err env stmt s =
     (let s' = s\<lparr>sd_calls := Suc (sd_calls s)\<rparr> in
      case se_fault env (sd_calls s) of
        Some m \<Rightarrow> (s', Inl (err (Foreign m)))
      | None \<Rightarrow>
          case stmt (sd_db s) of
            Inl m \<Rightarrow> (s', Inl (err (Foreign m)))
          | Inr (db, x) \<Rightarrow> (s'\<lparr>sd_db := db\<rparr>, Inr x))"

abbreviation execute ::
    "storage_env \<Rightarrow> (database \<Rightarrow> ustr + database \<times> 'a) \<Rightarrow> (dyn_error, 'a) sop" where
  "execute \<equiv> request (\<lambda>err. err)"

definition roundtrip :: "database \<Rightarrow> ustr + database \<times> unit" where
  "roundtrip db = Inr (db, ())"

text \<open>\<open>begin\<close>, the body, \<open>commit\<close>; dropping the transaction rolls it back.\<close>

definition transaction ::
    "(dyn_error \<Rightarrow> 'e) \<Rightarrow> storage_env \<Rightarrow> ('e, 'a) sop \<Rightarrow> ('e, 'a) sop" where
  "transaction err env body s =
     (case request err env roundtrip s of
        (s1, Inl e) \<Rightarrow> (s1, Inl e)
      | (s1, Inr _) \<Rightarrow>
          case body s1 of
            (s2, Inl e) \<Rightarrow> (s2\<lparr>sd_db := sd_db s\<rparr>, Inl e)
          | (s2, Inr x) \<Rightarrow>
              case request err env roundtrip s2 of
                (s3, Inl e) \<Rightarrow> (s3\<lparr>sd_db := sd_db s\<rparr>, Inl e)
              | (s3, Inr _) \<Rightarrow> (s3, Inr x))"

section \<open>Statements\<close>

definition sql_insert_opskey :: "storage_env \<Rightarrow> ops_key_row \<Rightarrow> database \<Rightarrow> ustr + database \<times> unit" where
  "sql_insert_opskey env row db =
     (if ok_kid row \<in> ok_kid ` set (db_opskeys db) then Inl (se_unique_error env)
      else Inr (db\<lparr>db_opskeys := db_opskeys db @ [row]\<rparr>, ()))"

definition sql_select_opskey :: "ustr \<Rightarrow> database \<Rightarrow> ustr + database \<times> ops_key_row option" where
  "sql_select_opskey kid db = Inr (db, find (\<lambda>r. ok_kid r = kid) (db_opskeys db))"

definition sql_select_opskeys :: "database \<Rightarrow> ustr + database \<times> ops_key_row list" where
  "sql_select_opskeys db = Inr (db, sort_key ok_kid (db_opskeys db))"

definition sql_update_opskeys ::
    "(ops_key_row \<Rightarrow> bool) \<Rightarrow> ustr \<Rightarrow> database \<Rightarrow> ustr + database \<times> nat" where
  "sql_update_opskeys where_clause properties db =
     Inr (db\<lparr>db_opskeys :=
            map (\<lambda>r. if where_clause r then r\<lparr>ok_properties := properties\<rparr> else r) (db_opskeys db)\<rparr>,
          length (filter where_clause (db_opskeys db)))"

definition sql_insert_token :: "storage_env \<Rightarrow> token_row \<Rightarrow> database \<Rightarrow> ustr + database \<times> unit" where
  "sql_insert_token env row db =
     (if token_key row \<in> token_key ` set (db_tokens db) then Inl (se_unique_error env)
      else Inr (db\<lparr>db_tokens := db_tokens db @ [row]\<rparr>, ()))"

definition sql_select_token :: "ustr \<Rightarrow> ustr \<Rightarrow> database \<Rightarrow> ustr + database \<times> token_row option" where
  "sql_select_token kid hashid db = Inr (db, find (\<lambda>r. token_key r = (kid, hashid)) (db_tokens db))"

definition sql_select_tokens :: "ustr \<Rightarrow> ustr list \<Rightarrow> database \<Rightarrow> token_row list" where
  "sql_select_tokens kid hashids db = filter (\<lambda>r. tr_kid r = kid \<and> tr_hashid r \<in> set hashids) (db_tokens db)"

definition sql_delete_tokens :: "(token_row \<Rightarrow> bool) \<Rightarrow> database \<Rightarrow> ustr + database \<times> nat" where
  "sql_delete_tokens where_clause db =
     Inr (db\<lparr>db_tokens := filter (\<lambda>r. \<not> where_clause r) (db_tokens db)\<rparr>,
          length (filter where_clause (db_tokens db)))"

definition sql_insert_subject :: "subject_row \<Rightarrow> database \<Rightarrow> ustr + database \<times> nat" where
  "sql_insert_subject row db =
     (if subject_key row \<in> subject_key ` set (db_subjects db) then Inr (db, 0)
      else Inr (db\<lparr>db_subjects := db_subjects db @ [row]\<rparr>, 1))"

definition sql_select_subject :: "ustr \<Rightarrow> ustr \<Rightarrow> database \<Rightarrow> ustr + database \<times> subject_row option" where
  "sql_select_subject kid subject db = Inr (db, find (\<lambda>r. subject_key r = (kid, subject)) (db_subjects db))"

definition sql_delete_subject :: "ustr \<Rightarrow> ustr \<Rightarrow> database \<Rightarrow> ustr + database \<times> nat" where
  "sql_delete_subject kid subject db =
     Inr (db\<lparr>db_subjects := filter (\<lambda>r. subject_key r \<noteq> (kid, subject)) (db_subjects db)\<rparr>,
          length (filter (\<lambda>r. subject_key r = (kid, subject)) (db_subjects db)))"

text \<open>\<open>INSERT OR IGNORE\<close> of several rows in one statement.\<close>

definition sql_insert_indexes :: "index_row list \<Rightarrow> database \<Rightarrow> ustr + database \<times> unit" where
  "sql_insert_indexes rows db =
     Inr (db\<lparr>db_indexes :=
            foldl (\<lambda>ixs r. if index_key r \<in> index_key ` set ixs then ixs else ixs @ [r]) (db_indexes db) rows\<rparr>, ())"

definition sql_select_indexes :: "ustr \<Rightarrow> ustr list \<Rightarrow> database \<Rightarrow> ustr + database \<times> ustr list" where
  "sql_select_indexes kid digests db =
     Inr (db, map ix_digest (filter (\<lambda>r. ix_kid r = kid \<and> ix_digest r \<in> set digests) (db_indexes db)))"

section \<open>Validation\<close>

definition validate_storage_kid :: "ustr \<Rightarrow> ustr \<Rightarrow> unit result" where
  "validate_storage_kid field kid = validate_hash_hex_field field kid INTERNAL_KEYS_HASH"

definition validate_storage_envelope :: "crates \<Rightarrow> ustr \<Rightarrow> ustr \<Rightarrow> nat \<Rightarrow> unit result" where
  "validate_storage_envelope C field v max_chars =
     bindR (validate_base64_standard_envelope_segments (b64_decode C) field v max_chars) (\<lambda>_. Inr ())"

definition validate_ops_key_fields :: "crates \<Rightarrow> ustr \<Rightarrow> ustr \<Rightarrow> ustr \<Rightarrow> unit result" where
  "validate_ops_key_fields C kid keys properties =
     bindR (validate_storage_kid (lit ''opskeys.kid'') kid) (\<lambda>_.
     bindR (validate_storage_envelope C (lit ''opskeys.keys'') keys STORAGE_ENVELOPE_MAX_CHARS) (\<lambda>_.
       validate_storage_envelope C (lit ''opskeys.properties'') properties STORAGE_ENVELOPE_MAX_CHARS))"

definition validate_ops_key_row :: "crates \<Rightarrow> ops_key_row \<Rightarrow> unit result" where
  "validate_ops_key_row C row = validate_ops_key_fields C (ok_kid row) (ok_keys row) (ok_properties row)"

definition validate_token_hashid :: "ustr \<Rightarrow> unit result" where
  "validate_token_hashid hashid = validate_hash_hex_field (lit ''tokens.hashid'') hashid INTERNAL_KEYS_HASH"

definition validate_token_fields :: "crates \<Rightarrow> ustr \<Rightarrow> ustr \<Rightarrow> ustr \<Rightarrow> unit result" where
  "validate_token_fields C kid hashid data =
     bindR (validate_storage_kid (lit ''tokens.kid'') kid) (\<lambda>_.
     bindR (validate_token_hashid hashid) (\<lambda>_.
       validate_storage_envelope C (lit ''tokens.data'') data STORAGE_TOKEN_ENVELOPE_MAX_CHARS))"

definition validate_optional_subject :: "ustr option \<Rightarrow> unit result" where
  "validate_optional_subject subject = (case subject of Some s \<Rightarrow> validate_subject s | None \<Rightarrow> Inr ())"

definition validate_token_row :: "crates \<Rightarrow> token_row \<Rightarrow> unit result" where
  "validate_token_row C row =
     bindR (validate_optional_subject (tr_subject row)) (\<lambda>_.
       validate_token_fields C (tr_kid row) (tr_hashid row) (tr_data row))"

fun validate_unique_loop :: "ustr set \<Rightarrow> ustr list \<Rightarrow> unit result" where
  "validate_unique_loop seen [] = Inr ()"
| "validate_unique_loop seen (hashid # hashids) =
     bindR (validate_token_hashid hashid) (\<lambda>_.
       if hashid \<in> seen then Inl (invalid_input (lit ''token batch contains duplicated token''))
       else validate_unique_loop (insert hashid seen) hashids)"

definition validate_unique_token_hashids :: "ustr list \<Rightarrow> unit result" where
  "validate_unique_token_hashids hashids = validate_unique_loop {} hashids"

definition validate_index_digest :: "ustr \<Rightarrow> unit result" where
  "validate_index_digest digest =
     bindR (validate_hex_field (lit ''indexes.digest'') digest) (\<lambda>_.
       if str_len digest > STORAGE_INDEX_DIGEST_MAX_CHARS
       then Inl (invalid_input (lit ''indexes.digest exceeds maximum allowed length: '' @
              show_nat STORAGE_INDEX_DIGEST_MAX_CHARS))
       else Inr ())"

definition validate_index_fields :: "ustr \<Rightarrow> ustr \<Rightarrow> unit result" where
  "validate_index_fields kid digest =
     bindR (validate_storage_kid (lit ''indexes.kid'') kid) (\<lambda>_. validate_index_digest digest)"

definition validate_index_row :: "index_row \<Rightarrow> unit result" where
  "validate_index_row row = validate_index_fields (ix_kid row) (ix_digest row)"

section \<open>Helpers of the token operations\<close>

text \<open>Bytes a batch read may still return; a hashid asked for twice counts twice.\<close>

record token_batch_read_budget =
  tb_occurrences :: "ustr \<rightharpoonup> nat"
  tb_remaining :: nat

definition count_hashid :: "(ustr \<rightharpoonup> nat) \<Rightarrow> ustr \<Rightarrow> (ustr \<rightharpoonup> nat)" where
  "count_hashid occ hashid = occ(hashid \<mapsto> (case occ hashid of None \<Rightarrow> 0 | Some n \<Rightarrow> n) + 1)"

definition budget_new :: "ustr list \<Rightarrow> nat \<Rightarrow> token_batch_read_budget" where
  "budget_new hashids max_bytes =
     \<lparr>tb_occurrences = foldl count_hashid Map.empty hashids, tb_remaining = max_bytes\<rparr>"

definition usize_checked_mul :: "nat \<Rightarrow> nat \<Rightarrow> nat option" where
  "usize_checked_mul a b = (if a * b < 2 ^ 64 then Some (a * b) else None)"

definition usize_checked_sub :: "nat \<Rightarrow> nat \<Rightarrow> nat option" where
  "usize_checked_sub a b = (if b \<le> a then Some (a - b) else None)"

definition budget_retain ::
    "crates \<Rightarrow> token_batch_read_budget \<Rightarrow> ustr \<Rightarrow> ustr \<Rightarrow> token_batch_read_budget result" where
  "budget_retain C budget hashid data =
     bindR (validate_token_hashid hashid) (\<lambda>_.
     bindR (validate_storage_envelope C (lit ''tokens.data'') data STORAGE_TOKEN_ENVELOPE_MAX_CHARS) (\<lambda>_.
     bindR (ok_or (internal (lit ''unexpected token batch row'')) (tb_occurrences budget hashid)) (\<lambda>count.
     bindR (ok_or (Vectis TokenDecodeBatchTooLarge)
              (Option.bind (usize_checked_mul (str_len data) count)
                 (usize_checked_sub (tb_remaining budget)))) (\<lambda>bytes.
       Inr (budget\<lparr>tb_remaining := bytes\<rparr>)))))"

text \<open>The answer in request order: the last occurrence of a hashid takes the row out of the map, an
  earlier one copies it.\<close>

fun resolve_loop ::
    "(ustr \<rightharpoonup> nat) \<Rightarrow> (ustr \<rightharpoonup> token_row) \<Rightarrow> ustr list \<Rightarrow> token_row option list result" where
  "resolve_loop occ found [] = Inr []"
| "resolve_loop occ found (hashid # hashids) =
     bindR (ok_or (Panic (lit ''hashid counted above'')) (occ hashid)) (\<lambda>n.
     bindR (usize_sub n 1) (\<lambda>remaining.
     bindR (resolve_loop (occ(hashid \<mapsto> remaining))
              (if remaining = 0 then found(hashid := None) else found) hashids) (\<lambda>rows.
       Inr (found hashid # rows))))"

definition resolve_tokens_in_request_order ::
    "(ustr \<rightharpoonup> token_row) \<Rightarrow> ustr list \<Rightarrow> token_row option list result" where
  "resolve_tokens_in_request_order found hashids =
     resolve_loop (foldl count_hashid Map.empty hashids) found hashids"

text \<open>\<open>BTreeMap\<close>: entries in the order of their keys, a later value for a key replaces the earlier.\<close>

fun btree_insert :: "'k::linorder \<Rightarrow> 'v \<Rightarrow> ('k \<times> 'v) list \<Rightarrow> ('k \<times> 'v) list" where
  "btree_insert k v [] = [(k, v)]"
| "btree_insert k v ((k', v') # m) =
     (if k < k' then (k, v) # (k', v') # m
      else if k = k' then (k, v) # m
      else (k', v') # btree_insert k v m)"

fun guards_loop ::
    "subject_write_guard list \<Rightarrow> ((ustr \<times> ustr) \<times> subject_write_guard) list \<Rightarrow> token_row list \<Rightarrow>
     ((ustr \<times> ustr) \<times> subject_write_guard) list result" where
  "guards_loop guards ordered [] = Inr ordered"
| "guards_loop guards ordered (r # records) =
     (case tr_subject r of
        None \<Rightarrow> guards_loop guards ordered records
      | Some subject \<Rightarrow>
          bindR (ok_or (invalid_input (lit ''subject write requires a generation guard''))
                   (find (\<lambda>g. wg_kid g = tr_kid r \<and> wg_subject g = subject) guards)) (\<lambda>guard.
          guards_loop guards (btree_insert (wg_kid guard, wg_subject guard) guard ordered) records))"

definition subject_write_guards ::
    "token_row list \<Rightarrow> subject_write_guard list \<Rightarrow> subject_write_guard list result" where
  "subject_write_guards records guards =
     (if list_all (\<lambda>r. tr_subject r = None) records then Inr []
      else bindR (guards_loop guards [] records) (\<lambda>ordered. Inr (map snd ordered)))"

definition check_subject_generation :: "ustr option \<Rightarrow> ustr \<Rightarrow> unit result" where
  "check_subject_generation seed expected =
     bindR (ok_or (not_found (lit ''subject not found'')) seed) (\<lambda>seed.
       if seed \<noteq> expected then Inl (conflict (lit ''subject changed during token operation''))
       else Inr ())"

section \<open>The SQLite backend\<close>

definition sqlite_save_ops_keys ::
    "storage_env \<Rightarrow> ustr \<Rightarrow> ustr \<Rightarrow> ustr \<Rightarrow> (dyn_error, ops_key_row) sop" where
  "sqlite_save_ops_keys env kid keys properties =
     (let row = \<lparr>ok_kid = kid, ok_keys = keys, ok_properties = properties\<rparr> in
      bindS (execute env (sql_insert_opskey env row)) (\<lambda>_. retS row))"

definition sqlite_get_ops_keys :: "storage_env \<Rightarrow> ustr \<Rightarrow> (dyn_error, ops_key_row) sop" where
  "sqlite_get_ops_keys env kid =
     bindS (execute env (sql_select_opskey kid)) (\<lambda>row.
       liftS (ok_or (not_found (lit ''ops key not found: '' @ kid)) row))"

definition sqlite_list_ops_keys :: "storage_env \<Rightarrow> (dyn_error, ops_key_row list) sop" where
  "sqlite_list_ops_keys env = execute env sql_select_opskeys"

definition check_generation :: "storage_env \<Rightarrow> subject_write_guard \<Rightarrow> (dyn_error, unit) sop" where
  "check_generation env guard =
     bindS (execute env (sql_select_subject (wg_kid guard) (wg_subject guard))) (\<lambda>row.
       liftS (check_subject_generation (map_option sr_seed row) (wg_seed guard)))"

definition sqlite_save_tokens_batch_guarded ::
    "storage_env \<Rightarrow> token_row list \<Rightarrow> subject_write_guard list \<Rightarrow> (dyn_error, unit) sop" where
  "sqlite_save_tokens_batch_guarded env records guards =
     bindS (liftS (subject_write_guards records guards)) (\<lambda>ordered.
       transaction (\<lambda>err. err) env
         (bindS (for_eachS (check_generation env) ordered) (\<lambda>_.
            for_eachS (\<lambda>r. execute env (sql_insert_token env r)) records)))"

definition sqlite_save_tokens_batch :: "storage_env \<Rightarrow> token_row list \<Rightarrow> (dyn_error, unit) sop" where
  "sqlite_save_tokens_batch env records = sqlite_save_tokens_batch_guarded env records []"

definition sqlite_save_token_for_subject ::
    "storage_env \<Rightarrow> ustr \<Rightarrow> ustr \<Rightarrow> ustr \<Rightarrow> ustr option \<Rightarrow> ustr option \<Rightarrow> (dyn_error, token_row) sop" where
  "sqlite_save_token_for_subject env kid hashid data subject expected_seed =
     (let row = \<lparr>tr_kid = kid, tr_hashid = hashid, tr_data = data, tr_subject = subject\<rparr> in
      case subject of
        Some subject \<Rightarrow>
          bindS (liftS (ok_or (invalid_input (lit ''subject write requires a generation guard'')) expected_seed))
            (\<lambda>seed.
          bindS (sqlite_save_tokens_batch_guarded env [row]
                   [\<lparr>wg_kid = kid, wg_subject = subject, wg_seed = seed\<rparr>]) (\<lambda>_. retS row))
      | None \<Rightarrow> bindS (execute env (sql_insert_token env row)) (\<lambda>_. retS row))"

text \<open>The rows of a query arrive one by one, and fetching each may fail.\<close>

fun token_rows_loop ::
    "crates \<Rightarrow> storage_env \<Rightarrow> ustr \<Rightarrow> token_batch_read_budget \<Rightarrow> (ustr \<rightharpoonup> token_row) \<Rightarrow> token_row list \<Rightarrow>
     (dyn_error, ustr \<rightharpoonup> token_row) sop" where
  "token_rows_loop C env kid budget found [] = bindS (execute env roundtrip) (\<lambda>_. retS found)"
| "token_rows_loop C env kid budget found (row # rows) =
     bindS (execute env roundtrip) (\<lambda>_.
     bindS (liftS (budget_retain C budget (tr_hashid row) (tr_data row))) (\<lambda>budget.
     bindS (liftS (validate_optional_subject (tr_subject row))) (\<lambda>_.
       token_rows_loop C env kid budget
         (found(tr_hashid row \<mapsto>
            \<lparr>tr_kid = kid, tr_hashid = tr_hashid row, tr_data = tr_data row, tr_subject = tr_subject row\<rparr>))
         rows)))"

definition sqlite_get_tokens_batch ::
    "crates \<Rightarrow> storage_env \<Rightarrow> ustr \<Rightarrow> ustr list \<Rightarrow> nat \<Rightarrow> (dyn_error, ustr \<rightharpoonup> token_row) sop" where
  "sqlite_get_tokens_batch C env kid hashids max_envelope_bytes s =
     (if hashids = [] then (s, Inr Map.empty)
      else token_rows_loop C env kid (budget_new hashids max_envelope_bytes) Map.empty
             (sql_select_tokens kid hashids (sd_db s)) s)"

definition sqlite_get_token :: "storage_env \<Rightarrow> ustr \<Rightarrow> ustr \<Rightarrow> (dyn_error, token_row) sop" where
  "sqlite_get_token env kid hashid =
     bindS (execute env (sql_select_token kid hashid)) (\<lambda>row.
       liftS (ok_or (not_found (lit ''token not found'')) row))"

definition token_matches :: "ustr \<Rightarrow> ustr \<Rightarrow> ustr option \<Rightarrow> token_row \<Rightarrow> bool" where
  "token_matches kid hashid subject r \<longleftrightarrow> tr_kid r = kid \<and> tr_hashid r = hashid \<and> tr_subject r = subject"

definition sqlite_delete_token_for_subject ::
    "storage_env \<Rightarrow> ustr \<Rightarrow> ustr \<Rightarrow> ustr option \<Rightarrow> (dyn_error, unit) sop" where
  "sqlite_delete_token_for_subject env kid hashid subject =
     transaction (\<lambda>err. err) env
       (bindS (execute env (sql_delete_tokens (token_matches kid hashid subject))) (\<lambda>rows_affected.
          if rows_affected \<noteq> 1 then liftS (Inl (not_found (lit ''token not found''))) else retS ()))"

definition consume_one ::
    "storage_env \<Rightarrow> ustr \<Rightarrow> ustr option \<Rightarrow> ustr \<Rightarrow> (token_batch_consume_error, unit) sop" where
  "consume_one env kid subject hashid =
     bindS (request OtherError env (sql_delete_tokens (token_matches kid hashid subject))) (\<lambda>rows_affected.
       if rows_affected \<noteq> 1 then liftS (Inl (MissingToken hashid)) else retS ())"

definition sqlite_consume_tokens_batch_for_subject ::
    "storage_env \<Rightarrow> ustr \<Rightarrow> ustr list \<Rightarrow> ustr option \<Rightarrow> (token_batch_consume_error, unit) sop" where
  "sqlite_consume_tokens_batch_for_subject env kid hashids subject =
     transaction OtherError env (for_eachS (consume_one env kid subject) (sort hashids))"

definition sqlite_save_index :: "storage_env \<Rightarrow> ustr \<Rightarrow> ustr \<Rightarrow> (dyn_error, index_row) sop" where
  "sqlite_save_index env kid digest =
     (let row = \<lparr>ix_kid = kid, ix_digest = digest\<rparr> in
      bindS (execute env (sql_insert_indexes [row])) (\<lambda>_. retS row))"

definition sqlite_save_subject :: "storage_env \<Rightarrow> subject_row \<Rightarrow> (dyn_error, bool) sop" where
  "sqlite_save_subject env row =
     bindS (execute env (sql_insert_subject row)) (\<lambda>rows_affected. retS (rows_affected = 1))"

definition sqlite_subject_exists :: "storage_env \<Rightarrow> ustr \<Rightarrow> ustr \<Rightarrow> (dyn_error, bool) sop" where
  "sqlite_subject_exists env kid subject =
     bindS (execute env (sql_select_subject kid subject)) (\<lambda>row. retS (row \<noteq> None))"

definition sqlite_get_subject :: "storage_env \<Rightarrow> ustr \<Rightarrow> ustr \<Rightarrow> (dyn_error, subject_row) sop" where
  "sqlite_get_subject env kid subject =
     bindS (execute env (sql_select_subject kid subject)) (\<lambda>row.
       liftS (ok_or (not_found (lit ''subject not found'')) row))"

definition sqlite_delete_subject :: "storage_env \<Rightarrow> ustr \<Rightarrow> ustr \<Rightarrow> (dyn_error, unit) sop" where
  "sqlite_delete_subject env kid subject =
     bindS (transaction (\<lambda>err. err) env
              (bindS (execute env (sql_delete_tokens (\<lambda>r. tr_kid r = kid \<and> tr_subject r = Some subject))) (\<lambda>_.
                 execute env (sql_delete_subject kid subject)))) (\<lambda>rows_affected.
       if rows_affected = 0 then liftS (Inl (not_found (lit ''subject not found''))) else retS ())"

definition sqlite_save_indexes_batch :: "storage_env \<Rightarrow> index_row list \<Rightarrow> (dyn_error, unit) sop" where
  "sqlite_save_indexes_batch env records =
     (if records = [] then retS () else execute env (sql_insert_indexes records))"

definition sqlite_index_exists :: "storage_env \<Rightarrow> ustr \<Rightarrow> ustr \<Rightarrow> (dyn_error, bool) sop" where
  "sqlite_index_exists env kid digest =
     bindS (execute env (sql_select_indexes kid [digest])) (\<lambda>rows. retS (rows \<noteq> []))"

definition sqlite_indexes_matching :: "storage_env \<Rightarrow> ustr \<Rightarrow> ustr list \<Rightarrow> (dyn_error, ustr set) sop" where
  "sqlite_indexes_matching env kid digests =
     (if digests = [] then retS {}
      else bindS (execute env (sql_select_indexes kid digests)) (\<lambda>rows. retS (set rows)))"

definition sqlite_update_ops_key_properties ::
    "storage_env \<Rightarrow> ustr \<Rightarrow> ustr \<Rightarrow> (dyn_error, ops_key_row) sop" where
  "sqlite_update_ops_key_properties env kid properties =
     bindS (execute env (sql_update_opskeys (\<lambda>r. ok_kid r = kid) properties)) (\<lambda>rows_affected.
       if rows_affected = 0 then liftS (Inl (not_found (lit ''ops key not found: '' @ kid)))
       else sqlite_get_ops_keys env kid)"

definition sqlite_update_ops_key_properties_if_current ::
    "storage_env \<Rightarrow> ustr \<Rightarrow> ustr \<Rightarrow> ustr \<Rightarrow> (dyn_error, ops_key_row) sop" where
  "sqlite_update_ops_key_properties_if_current env kid current_properties new_properties =
     bindS (execute env (sql_update_opskeys (\<lambda>r. ok_kid r = kid \<and> ok_properties r = current_properties)
              new_properties)) (\<lambda>rows_affected.
       if rows_affected = 0 then
         bindS (sqlite_get_ops_keys env kid) (\<lambda>_.
           liftS (Inl (invalid_input
             (lit ''ops key properties changed concurrently; retry lifecycle update''))))
       else sqlite_get_ops_keys env kid)"

section \<open>The storage interface\<close>

definition save_ops_keys ::
    "crates \<Rightarrow> storage_env \<Rightarrow> ustr \<Rightarrow> ustr \<Rightarrow> ustr \<Rightarrow> (dyn_error, ops_key_row) sop" where
  "save_ops_keys C env kid keys properties =
     bindS (liftS (validate_ops_key_fields C kid keys properties)) (\<lambda>_.
       sqlite_save_ops_keys env kid keys properties)"

definition get_ops_keys :: "crates \<Rightarrow> storage_env \<Rightarrow> ustr \<Rightarrow> (dyn_error, ops_key_row) sop" where
  "get_ops_keys C env kid =
     bindS (liftS (validate_storage_kid (lit ''opskeys.kid'') kid)) (\<lambda>_.
     bindS (sqlite_get_ops_keys env kid) (\<lambda>row.
     bindS (liftS (validate_ops_key_row C row)) (\<lambda>_. retS row)))"

definition list_ops_keys :: "crates \<Rightarrow> storage_env \<Rightarrow> (dyn_error, ops_key_row list) sop" where
  "list_ops_keys C env =
     bindS (sqlite_list_ops_keys env) (\<lambda>rows.
     bindS (liftS (try_for_each (validate_ops_key_row C) rows)) (\<lambda>_. retS rows))"

definition save_token_for_subject ::
    "crates \<Rightarrow> storage_env \<Rightarrow> ustr \<Rightarrow> ustr \<Rightarrow> ustr \<Rightarrow> ustr option \<Rightarrow> ustr option \<Rightarrow>
     (dyn_error, token_row) sop" where
  "save_token_for_subject C env kid hashid data subject expected_seed =
     bindS (liftS (validate_token_fields C kid hashid data)) (\<lambda>_.
     bindS (liftS (validate_optional_subject subject)) (\<lambda>_.
       sqlite_save_token_for_subject env kid hashid data subject expected_seed))"

definition save_token :: "crates \<Rightarrow> storage_env \<Rightarrow> ustr \<Rightarrow> ustr \<Rightarrow> ustr \<Rightarrow> (dyn_error, token_row) sop" where
  "save_token C env kid hashid data = save_token_for_subject C env kid hashid data None None"

definition save_tokens_batch_guarded ::
    "crates \<Rightarrow> storage_env \<Rightarrow> token_row list \<Rightarrow> subject_write_guard list \<Rightarrow> (dyn_error, unit) sop" where
  "save_tokens_batch_guarded C env records guards =
     bindS (liftS (try_for_each (validate_token_row C) records)) (\<lambda>_.
       sqlite_save_tokens_batch_guarded env records guards)"

definition save_tokens_batch :: "crates \<Rightarrow> storage_env \<Rightarrow> token_row list \<Rightarrow> (dyn_error, unit) sop" where
  "save_tokens_batch C env records =
     bindS (liftS (try_for_each (validate_token_row C) records)) (\<lambda>_. sqlite_save_tokens_batch env records)"

text \<open>\<open>found.values()\<close> enumerates the rows in an unspecified order; here in that of the request.\<close>

definition found_rows :: "(ustr \<rightharpoonup> token_row) \<Rightarrow> ustr list \<Rightarrow> token_row list" where
  "found_rows found hashids = List.map_filter found (remdups hashids)"

definition get_tokens_batch ::
    "crates \<Rightarrow> storage_env \<Rightarrow> ustr \<Rightarrow> ustr list \<Rightarrow> nat \<Rightarrow> (dyn_error, token_row option list) sop" where
  "get_tokens_batch C env kid hashids max_envelope_bytes =
     bindS (liftS (validate_storage_kid (lit ''tokens.kid'') kid)) (\<lambda>_.
     bindS (liftS (try_for_each validate_token_hashid hashids)) (\<lambda>_.
     bindS (sqlite_get_tokens_batch C env kid hashids max_envelope_bytes) (\<lambda>found.
     bindS (liftS (try_for_each (validate_token_row C) (found_rows found hashids))) (\<lambda>_.
       liftS (resolve_tokens_in_request_order found hashids)))))"

definition get_token :: "crates \<Rightarrow> storage_env \<Rightarrow> ustr \<Rightarrow> ustr \<Rightarrow> (dyn_error, token_row) sop" where
  "get_token C env kid hashid =
     bindS (liftS (validate_storage_kid (lit ''tokens.kid'') kid)) (\<lambda>_.
     bindS (liftS (validate_token_hashid hashid)) (\<lambda>_.
     bindS (sqlite_get_token env kid hashid) (\<lambda>row.
     bindS (liftS (validate_token_row C row)) (\<lambda>_. retS row))))"

definition delete_token_for_subject ::
    "storage_env \<Rightarrow> ustr \<Rightarrow> ustr \<Rightarrow> ustr option \<Rightarrow> (dyn_error, unit) sop" where
  "delete_token_for_subject env kid hashid subject =
     bindS (liftS (validate_storage_kid (lit ''tokens.kid'') kid)) (\<lambda>_.
     bindS (liftS (validate_token_hashid hashid)) (\<lambda>_.
     bindS (liftS (validate_optional_subject subject)) (\<lambda>_.
       sqlite_delete_token_for_subject env kid hashid subject)))"

definition delete_token :: "storage_env \<Rightarrow> ustr \<Rightarrow> ustr \<Rightarrow> (dyn_error, unit) sop" where
  "delete_token env kid hashid = delete_token_for_subject env kid hashid None"

definition consume_token :: "storage_env \<Rightarrow> ustr \<Rightarrow> ustr \<Rightarrow> (dyn_error, unit) sop" where
  "consume_token env kid hashid = delete_token env kid hashid"

definition consume_tokens_batch_for_subject ::
    "storage_env \<Rightarrow> ustr \<Rightarrow> ustr list \<Rightarrow> ustr option \<Rightarrow> (token_batch_consume_error, unit) sop" where
  "consume_tokens_batch_for_subject env kid hashids subject =
     bindS (liftS (map_err OtherError (validate_storage_kid (lit ''tokens.kid'') kid))) (\<lambda>_.
     bindS (liftS (map_err OtherError (validate_unique_token_hashids hashids))) (\<lambda>_.
     bindS (liftS (map_err OtherError (validate_optional_subject subject))) (\<lambda>_.
       sqlite_consume_tokens_batch_for_subject env kid hashids subject)))"

definition consume_tokens_batch ::
    "storage_env \<Rightarrow> ustr \<Rightarrow> ustr list \<Rightarrow> (token_batch_consume_error, unit) sop" where
  "consume_tokens_batch env kid hashids = consume_tokens_batch_for_subject env kid hashids None"

definition save_subject :: "crates \<Rightarrow> storage_env \<Rightarrow> subject_row \<Rightarrow> (dyn_error, bool) sop" where
  "save_subject C env row =
     bindS (liftS (validate_storage_kid (lit ''subjects.kid'') (sr_kid row))) (\<lambda>_.
     bindS (liftS (validate_subject (sr_subject row))) (\<lambda>_.
     bindS (liftS (validate_seed_envelope C (sr_seed row))) (\<lambda>_. sqlite_save_subject env row)))"

definition subject_exists :: "storage_env \<Rightarrow> ustr \<Rightarrow> ustr \<Rightarrow> (dyn_error, bool) sop" where
  "subject_exists env kid subject =
     bindS (liftS (validate_storage_kid (lit ''subjects.kid'') kid)) (\<lambda>_.
     bindS (liftS (validate_subject subject)) (\<lambda>_. sqlite_subject_exists env kid subject))"

definition get_subject :: "crates \<Rightarrow> storage_env \<Rightarrow> ustr \<Rightarrow> ustr \<Rightarrow> (dyn_error, subject_row) sop" where
  "get_subject C env kid subject =
     bindS (liftS (validate_storage_kid (lit ''subjects.kid'') kid)) (\<lambda>_.
     bindS (liftS (validate_subject subject)) (\<lambda>_.
     bindS (sqlite_get_subject env kid subject) (\<lambda>row.
       if sr_kid row \<noteq> kid \<or> sr_subject row \<noteq> subject
       then liftS (Inl (internal (lit ''stored subject context mismatch'')))
       else
         bindS (liftS (map_err (\<lambda>_. internal (lit ''stored subject seed is invalid''))
                  (validate_seed_envelope C (sr_seed row)))) (\<lambda>_. retS row))))"

definition delete_subject :: "storage_env \<Rightarrow> ustr \<Rightarrow> ustr \<Rightarrow> (dyn_error, unit) sop" where
  "delete_subject env kid subject =
     bindS (liftS (validate_storage_kid (lit ''subjects.kid'') kid)) (\<lambda>_.
     bindS (liftS (validate_subject subject)) (\<lambda>_. sqlite_delete_subject env kid subject))"

definition save_index :: "storage_env \<Rightarrow> ustr \<Rightarrow> ustr \<Rightarrow> (dyn_error, index_row) sop" where
  "save_index env kid digest =
     bindS (liftS (validate_index_fields kid digest)) (\<lambda>_. sqlite_save_index env kid digest)"

definition save_indexes_batch :: "storage_env \<Rightarrow> index_row list \<Rightarrow> (dyn_error, unit) sop" where
  "save_indexes_batch env records =
     bindS (liftS (try_for_each validate_index_row records)) (\<lambda>_. sqlite_save_indexes_batch env records)"

definition index_exists :: "storage_env \<Rightarrow> ustr \<Rightarrow> ustr \<Rightarrow> (dyn_error, bool) sop" where
  "index_exists env kid digest =
     bindS (liftS (validate_index_fields kid digest)) (\<lambda>_. sqlite_index_exists env kid digest)"

text \<open>The set of digests found is validated element by element; the digests of a table row are.\<close>

definition indexes_matching :: "storage_env \<Rightarrow> ustr \<Rightarrow> ustr list \<Rightarrow> (dyn_error, ustr set) sop" where
  "indexes_matching env kid digests =
     bindS (liftS (validate_storage_kid (lit ''indexes.kid'') kid)) (\<lambda>_.
     bindS (liftS (try_for_each validate_index_digest digests)) (\<lambda>_.
     bindS (sqlite_indexes_matching env kid digests) (\<lambda>found.
     bindS (liftS (try_for_each validate_index_digest (filter (\<lambda>d. d \<in> found) digests))) (\<lambda>_.
       retS found))))"

definition update_ops_key_properties ::
    "crates \<Rightarrow> storage_env \<Rightarrow> ustr \<Rightarrow> ustr \<Rightarrow> (dyn_error, ops_key_row) sop" where
  "update_ops_key_properties C env kid properties =
     bindS (liftS (validate_storage_kid (lit ''opskeys.kid'') kid)) (\<lambda>_.
     bindS (liftS (validate_storage_envelope C (lit ''opskeys.properties'') properties
              STORAGE_ENVELOPE_MAX_CHARS)) (\<lambda>_.
       sqlite_update_ops_key_properties env kid properties))"

definition update_ops_key_properties_if_current ::
    "crates \<Rightarrow> storage_env \<Rightarrow> ustr \<Rightarrow> ustr \<Rightarrow> ustr \<Rightarrow> (dyn_error, ops_key_row) sop" where
  "update_ops_key_properties_if_current C env kid current_properties new_properties =
     bindS (liftS (validate_storage_kid (lit ''opskeys.kid'') kid)) (\<lambda>_.
     bindS (liftS (try_for_each (\<lambda>properties.
              validate_storage_envelope C (lit ''opskeys.properties'') properties STORAGE_ENVELOPE_MAX_CHARS)
              [current_properties, new_properties])) (\<lambda>_.
       sqlite_update_ops_key_properties_if_current env kid current_properties new_properties))"

definition health_check :: "ustr \<Rightarrow> storage_env \<Rightarrow> (dyn_error, unit) sop" where
  "health_check context env =
     request (\<lambda>err. storage_error (lit ''sqlite health check failed at '' @ context @ lit '': '' @ to_string err))
       env roundtrip"

end
