(* ===== verification/Storage_Schema.thy ===== *)
theory Storage_Schema
  imports Storage
begin

text \<open>
  \<open>src/core/storage/sqlite.rs\<close>, opening a database: the schema of the four tables is read with
  \<open>PRAGMA table_info\<close> and compared with what the operations rely on. The rows the database answers
  are the parameter \<open>info\<close>, by table name; a read may fail.
\<close>

record column_info =
  ci_name :: ustr
  ci_column_type :: ustr
  ci_notnull :: bool
  ci_primary_key_position :: int

text \<open>The row of \<open>PRAGMA table_info\<close>: name, type, notnull and pk.\<close>

record pragma_row =
  pr_name :: ustr
  pr_type :: ustr
  pr_notnull :: int
  pr_pk :: int

definition find_column :: "pragma_row list \<Rightarrow> ustr \<Rightarrow> column_info option" where
  "find_column rows name =
     map_option (\<lambda>row. \<lparr>ci_name = pr_name row, ci_column_type = pr_type row,
         ci_notnull = (pr_notnull row = 1), ci_primary_key_position = pr_pk row\<rparr>)
       (find (\<lambda>row. pr_name row = name) rows)"

definition show_bool :: "bool \<Rightarrow> ustr" where
  "show_bool b = (if b then lit ''true'' else lit ''false'')"

definition validate_column ::
    "column_info \<Rightarrow> ustr \<Rightarrow> ustr \<Rightarrow> ustr \<Rightarrow> bool \<Rightarrow> nat option \<Rightarrow> ustr \<Rightarrow> unit result" where
  "validate_column column table_name expected_name expected_type expected_notnull expected_pk context =
     (let pk = (case expected_pk of Some n \<Rightarrow> n | None \<Rightarrow> 0) in
      if ci_name column \<noteq> expected_name \<or> \<not> eq_ignore_ascii_case (ci_column_type column) expected_type \<or>
         ci_notnull column \<noteq> expected_notnull \<or> ci_primary_key_position column \<noteq> int pk
      then Inl (storage_error (lit ''sqlite schema mismatch for '' @ table_name @ lit ''.'' @ expected_name @
             lit '': expected type='' @ expected_type @ lit '', notnull='' @ show_bool expected_notnull @
             lit '', primary_key_position='' @ show_nat pk @ lit '' ('' @ context @ lit '')''))
      else Inr ())"

definition require_column :: "pragma_row list \<Rightarrow> ustr \<Rightarrow> ustr \<Rightarrow> ustr \<Rightarrow> column_info result" where
  "require_column rows table_name name context =
     ok_or (storage_error (lit ''sqlite schema is missing '' @ table_name @ lit ''.'' @ name @
         lit '' column ('' @ context @ lit '')''))
       (find_column rows name)"

definition require_table :: "pragma_row list \<Rightarrow> ustr \<Rightarrow> ustr \<Rightarrow> unit result" where
  "require_table rows table_name context =
     (if rows = [] then Inl (storage_error (lit ''sqlite schema is missing '' @ table_name @ lit '' table ('' @
        context @ lit '')''))
      else Inr ())"

definition validate_opskeys_schema :: "pragma_row list \<Rightarrow> ustr \<Rightarrow> unit result" where
  "validate_opskeys_schema rows context =
     bindR (require_table rows (lit ''opskeys'') context) (\<lambda>_.
     bindR (require_column rows (lit ''opskeys'') (lit ''kid'') context) (\<lambda>kid.
     bindR (require_column rows (lit ''opskeys'') (lit ''keys'') context) (\<lambda>keys.
     bindR (require_column rows (lit ''opskeys'') (lit ''properties'') context) (\<lambda>properties.
     bindR (validate_column kid (lit ''opskeys'') (lit ''kid'') (lit ''VARCHAR(128)'') False (Some 1) context) (\<lambda>_.
     bindR (validate_column keys (lit ''opskeys'') (lit ''keys'') (lit ''VARCHAR(10240)'') True None context) (\<lambda>_.
       validate_column properties (lit ''opskeys'') (lit ''properties'') (lit ''VARCHAR(10240)'') True None context))))))"

definition validate_tokens_schema :: "pragma_row list \<Rightarrow> ustr \<Rightarrow> unit result" where
  "validate_tokens_schema rows context =
     bindR (require_table rows (lit ''tokens'') context) (\<lambda>_.
     bindR (require_column rows (lit ''tokens'') (lit ''kid'') context) (\<lambda>kid.
     bindR (require_column rows (lit ''tokens'') (lit ''hashid'') context) (\<lambda>hashid.
     bindR (require_column rows (lit ''tokens'') (lit ''data'') context) (\<lambda>data.
     bindR (ok_or (storage_error
              (lit ''sqlite schema is missing tokens.subject column; apply subject keys migration''))
              (find_column rows (lit ''subject''))) (\<lambda>subject.
     bindR (validate_column subject (lit ''tokens'') (lit ''subject'') (lit ''VARCHAR(128)'') False None context) (\<lambda>_.
     bindR (validate_column kid (lit ''tokens'') (lit ''kid'') (lit ''VARCHAR(128)'') True (Some 1) context) (\<lambda>_.
     bindR (validate_column hashid (lit ''tokens'') (lit ''hashid'') (lit ''VARCHAR(128)'') True (Some 2) context) (\<lambda>_.
       validate_column data (lit ''tokens'') (lit ''data'') (lit ''VARCHAR(10240)'') True None context))))))))"

definition validate_subjects_schema :: "pragma_row list \<Rightarrow> ustr \<Rightarrow> unit result" where
  "validate_subjects_schema rows context =
     try_for_each (\<lambda>(name, ty, position).
       bindR (ok_or (storage_error
                (lit ''sqlite schema is missing subjects table or column; apply subject keys migration''))
                (find_column rows name)) (\<lambda>column.
         validate_column column (lit ''subjects'') name ty True position context))
       [(lit ''kid'', lit ''VARCHAR(128)'', Some 1), (lit ''subject'', lit ''VARCHAR(128)'', Some 2),
        (lit ''seed'', lit ''TEXT'', None)]"

definition validate_indexes_schema :: "pragma_row list \<Rightarrow> ustr \<Rightarrow> unit result" where
  "validate_indexes_schema rows context =
     bindR (require_table rows (lit ''indexes'') context) (\<lambda>_.
     bindR (require_column rows (lit ''indexes'') (lit ''kid'') context) (\<lambda>kid.
     bindR (require_column rows (lit ''indexes'') (lit ''digest'') context) (\<lambda>digest.
     bindR (validate_column kid (lit ''indexes'') (lit ''kid'') (lit ''VARCHAR(128)'') True (Some 1) context) (\<lambda>_.
       validate_column digest (lit ''indexes'') (lit ''digest'') (lit ''VARCHAR(128)'') True (Some 2) context))))"

definition sqlite_new :: "unit result \<Rightarrow> (ustr \<Rightarrow> pragma_row list result) \<Rightarrow> ustr \<Rightarrow> unit result" where
  "sqlite_new connect info context =
     bindR (map_err (\<lambda>err. storage_error (lit ''failed to connect to ops sqlite at '' @ context @ lit '': '' @
              to_string err)) connect) (\<lambda>_.
     bindR (info (lit ''opskeys'')) (\<lambda>rows.
     bindR (validate_opskeys_schema rows context) (\<lambda>_.
     bindR (info (lit ''tokens'')) (\<lambda>rows.
     bindR (validate_tokens_schema rows context) (\<lambda>_.
     bindR (info (lit ''subjects'')) (\<lambda>rows.
     bindR (validate_subjects_schema rows context) (\<lambda>_.
     bindR (info (lit ''indexes'')) (\<lambda>rows.
       validate_indexes_schema rows context))))))))"

section \<open>Which schemas are accepted\<close>

text \<open>The columns the code needs: name, type, whether it is NOT NULL, and its place in the primary key.\<close>

definition expected_columns :: "string \<Rightarrow> (string \<times> string \<times> bool \<times> nat) list" where
  "expected_columns table =
     (if table = ''opskeys'' then
        [(''kid'', ''VARCHAR(128)'', False, 1), (''keys'', ''VARCHAR(10240)'', True, 0),
         (''properties'', ''VARCHAR(10240)'', True, 0)]
      else if table = ''tokens'' then
        [(''kid'', ''VARCHAR(128)'', True, 1), (''hashid'', ''VARCHAR(128)'', True, 2),
         (''data'', ''VARCHAR(10240)'', True, 0), (''subject'', ''VARCHAR(128)'', False, 0)]
      else if table = ''subjects'' then
        [(''kid'', ''VARCHAR(128)'', True, 1), (''subject'', ''VARCHAR(128)'', True, 2), (''seed'', ''TEXT'', True, 0)]
      else if table = ''indexes'' then
        [(''kid'', ''VARCHAR(128)'', True, 1), (''digest'', ''VARCHAR(128)'', True, 2)]
      else [])"

definition has_column :: "pragma_row list \<Rightarrow> string \<times> string \<times> bool \<times> nat \<Rightarrow> bool" where
  "has_column rows column \<longleftrightarrow>
     (case column of (name, ty, notnull, pk) \<Rightarrow>
        (case find (\<lambda>r. pr_name r = lit name) rows of
           None \<Rightarrow> False
         | Some r \<Rightarrow> eq_ignore_ascii_case (pr_type r) (lit ty) \<and> (pr_notnull r = 1) = notnull \<and> pr_pk r = int pk))"

lemma validate_column_ok [result_simps]:
  "validate_column c t n ty nn pk ctx = Inr () \<longleftrightarrow>
     ci_name c = n \<and> eq_ignore_ascii_case (ci_column_type c) ty \<and> ci_notnull c = nn \<and>
     ci_primary_key_position c = int (case pk of Some n \<Rightarrow> n | None \<Rightarrow> 0)"
  by (simp add: validate_column_def Let_def split: option.splits)

lemma column_ok:
  "(\<exists>c. find_column rows (lit n) = Some c \<and> validate_column c t (lit n) (lit ty) nn pk ctx = Inr ()) \<longleftrightarrow>
   has_column rows (n, ty, nn, case pk of Some n \<Rightarrow> n | None \<Rightarrow> 0)"
proof (cases "find (\<lambda>r. pr_name r = lit n) rows")
  case (Some r)
  then have "pr_name r = lit n" by (auto simp: find_Some_iff)
  with Some show ?thesis by (auto simp: find_column_def has_column_def validate_column_ok)
qed (simp add: find_column_def has_column_def)

lemma has_column_rows: "has_column rows c \<Longrightarrow> rows \<noteq> []"
  by (auto simp: has_column_def split: prod.splits)

lemma schemas_ok:
  "validate_opskeys_schema rows ctx = Inr () \<longleftrightarrow> list_all (has_column rows) (expected_columns ''opskeys'')"
  "validate_tokens_schema rows ctx = Inr () \<longleftrightarrow> list_all (has_column rows) (expected_columns ''tokens'')"
  "validate_subjects_schema rows ctx = Inr () \<longleftrightarrow> list_all (has_column rows) (expected_columns ''subjects'')"
  "validate_indexes_schema rows ctx = Inr () \<longleftrightarrow> list_all (has_column rows) (expected_columns ''indexes'')"
proof -
  note c = column_ok [of rows, symmetric, where pk = "Some _", unfolded option.case]
    column_ok [of rows, symmetric, where pk = None, unfolded option.case]
  note defs = expected_columns_def bindR_eq_Inr bindR_unit_Inr require_column_def require_table_def ok_or_eq_Inr
  show "validate_opskeys_schema rows ctx = Inr () \<longleftrightarrow> list_all (has_column rows) (expected_columns ''opskeys'')"
    using has_column_rows [of rows] c(1) [of "''kid''" "''VARCHAR(128)''" False 1 "lit ''opskeys''" ctx]
      c(2) [of "''keys''" "''VARCHAR(10240)''" True "lit ''opskeys''" ctx]
      c(2) [of "''properties''" "''VARCHAR(10240)''" True "lit ''opskeys''" ctx]
    by (auto simp: validate_opskeys_schema_def defs)
  show "validate_tokens_schema rows ctx = Inr () \<longleftrightarrow> list_all (has_column rows) (expected_columns ''tokens'')"
    using has_column_rows [of rows] c(1) [of "''kid''" "''VARCHAR(128)''" True 1 "lit ''tokens''" ctx]
      c(1) [of "''hashid''" "''VARCHAR(128)''" True 2 "lit ''tokens''" ctx]
      c(2) [of "''data''" "''VARCHAR(10240)''" True "lit ''tokens''" ctx]
      c(2) [of "''subject''" "''VARCHAR(128)''" False "lit ''tokens''" ctx]
    by (auto simp: validate_tokens_schema_def defs)
  show "validate_subjects_schema rows ctx = Inr () \<longleftrightarrow> list_all (has_column rows) (expected_columns ''subjects'')"
    using c(1) [of "''kid''" "''VARCHAR(128)''" True 1 "lit ''subjects''" ctx]
      c(1) [of "''subject''" "''VARCHAR(128)''" True 2 "lit ''subjects''" ctx]
      c(2) [of "''seed''" "''TEXT''" True "lit ''subjects''" ctx]
    by (auto simp: validate_subjects_schema_def defs)
  show "validate_indexes_schema rows ctx = Inr () \<longleftrightarrow> list_all (has_column rows) (expected_columns ''indexes'')"
    using has_column_rows [of rows] c(1) [of "''kid''" "''VARCHAR(128)''" True 1 "lit ''indexes''" ctx]
      c(1) [of "''digest''" "''VARCHAR(128)''" True 2 "lit ''indexes''" ctx]
    by (auto simp: validate_indexes_schema_def defs)
qed

text \<open>Opening a database succeeds exactly when it can be reached and each of the four tables has every
  column the operations use, with its type, its nullability and its own place in the primary key.\<close>

theorem schema_accepted_iff:
  "sqlite_new connect info context = Inr () \<longleftrightarrow>
     connect = Inr () \<and>
     list_all (\<lambda>table. case info (lit table) of
         Inl _ \<Rightarrow> False
       | Inr rows \<Rightarrow> list_all (has_column rows) (expected_columns table))
       [''opskeys'', ''tokens'', ''subjects'', ''indexes'']"
  by (auto simp: sqlite_new_def bindR_eq_Inr map_err_eq_Inr schemas_ok split: sum.splits)

text \<open>Columns beyond the expected ones are not looked at, so a wider primary key is accepted too, and the
  uniqueness of a shorter one, which the operations on tokens rely on, does not follow from the check.\<close>

definition key_columns :: "pragma_row list \<Rightarrow> ustr list" where
  "key_columns rows = map pr_name (filter (\<lambda>r. pr_pk r > 0) rows)"

definition column_row :: "string \<times> string \<times> bool \<times> nat \<Rightarrow> pragma_row" where
  "column_row column = (case column of (name, ty, notnull, pk) \<Rightarrow>
     \<lparr>pr_name = lit name, pr_type = lit ty, pr_notnull = (if notnull then 1 else 0), pr_pk = int pk\<rparr>)"

definition wider_tokens :: "pragma_row list" where
  "wider_tokens = map column_row (expected_columns ''tokens'' @ [(''extra'', ''TEXT'', True, 3)])"

lemma schema_accepts_wider_key:
  "validate_tokens_schema wider_tokens context = Inr ()"
  "key_columns wider_tokens = [lit ''kid'', lit ''hashid'', lit ''extra'']"
proof -
  have "eq_ignore_ascii_case s s" for s by (simp add: eq_ignore_ascii_case_def)
  then show "validate_tokens_schema wider_tokens context = Inr ()"
    unfolding schemas_ok by (simp add: wider_tokens_def expected_columns_def has_column_def column_row_def lit_def)
  show "key_columns wider_tokens = [lit ''kid'', lit ''hashid'', lit ''extra'']"
    by (simp add: key_columns_def wider_tokens_def expected_columns_def column_row_def)
qed

end
