(* ===== verification/Envelopes.thy ===== *)
theory Envelopes
  imports Subject_Ids Utf8 Crypto
begin

text \<open>
  Authenticated encryption as the vault uses it: the parameter for Botan's AEAD and SIV modes
  (\<open>encrypt_symmetric\<close>, \<open>decrypt_symmetric\<close> and the SIV functions of \<open>src/core/crypto.rs\<close> call
  nothing else), and the three-segment envelope \<open>ciphertext.nonce.aad\<close> in standard base64 that
  stored secrets are kept in (\<open>decode_base64_standard_envelope\<close> of \<open>src/core/validation.rs\<close>).
\<close>

section \<open>Ciphers\<close>

datatype siv_failure = BadAuthCode | OtherFailure

record ciphers =
  encrypt_symmetric :: "ustr \<Rightarrow> u8 list \<Rightarrow> u8 list \<Rightarrow> u8 list \<Rightarrow> u8 list \<Rightarrow> u8 list result"
  decrypt_symmetric :: "ustr \<Rightarrow> u8 list \<Rightarrow> u8 list \<Rightarrow> u8 list \<Rightarrow> u8 list \<Rightarrow> u8 list result"
  siv_start :: "u8 list \<Rightarrow> u8 list \<Rightarrow> unit result"
  siv_process :: "u8 list \<Rightarrow> u8 list \<Rightarrow> u8 list \<Rightarrow> u8 list result"
  siv_finish :: "u8 list \<Rightarrow> u8 list \<Rightarrow> u8 list \<Rightarrow> siv_failure + u8 list"

text \<open>The arguments are the algorithm, the message or ciphertext, the key, the nonce and the
  associated data, in the order of the source. For one key, nonce and associated data the modes
  are deterministic: the plaintext of a ciphertext that authenticates encrypts to that ciphertext,
  and a ciphertext is its message with a tag of 16 bytes. This is asked of the algorithms that
  \<open>symmetric_cipher\<close> knows, the only ones the code selects.\<close>

definition aead_ok :: "ciphers \<Rightarrow> bool" where
  "aead_ok E \<longleftrightarrow> (\<forall>alg m key nonce aad c.
     symmetric_cipher alg \<noteq> None \<longrightarrow> encrypt_symmetric E alg m key nonce aad = Inr c \<longrightarrow>
       decrypt_symmetric E alg c key nonce aad = Inr m \<and> length c = length m + 16)"

lemma aead_cipher:
  assumes "aead_ok E" "symmetric_cipher alg = Some cipher" "encrypt_symmetric E (sc_algorithm cipher) m key nonce aad = Inr c"
  shows "decrypt_symmetric E (sc_algorithm cipher) c key nonce aad = Inr m" "length c = length m + 16"
proof -
  have "sc_algorithm cipher = alg" using assms(2) by (auto simp: symmetric_cipher_def split: if_splits)
  then show "decrypt_symmetric E (sc_algorithm cipher) c key nonce aad = Inr m" "length c = length m + 16"
    using assms unfolding aead_ok_def by (metis option.distinct(1))+
qed

definition siv_ok :: "ciphers \<Rightarrow> bool" where
  "siv_ok E \<longleftrightarrow> (\<forall>key aad m c.
     siv_start E key aad = Inr () \<longrightarrow>
     (siv_process E key aad m = Inr c \<longleftrightarrow> siv_finish E key aad c = Inr m) \<and>
     (siv_process E key aad m = Inr c \<longrightarrow> length c = length m + 16))"

definition encrypt_aes256_siv :: "ciphers \<Rightarrow> u8 list \<Rightarrow> u8 list \<Rightarrow> u8 list \<Rightarrow> u8 list result" where
  "encrypt_aes256_siv E key aad plaintext =
     bindR (siv_start E key aad) (\<lambda>_. siv_process E key aad plaintext)"

definition decrypt_aes256_siv :: "ciphers \<Rightarrow> u8 list \<Rightarrow> u8 list \<Rightarrow> u8 list \<Rightarrow> u8 list result" where
  "decrypt_aes256_siv E key aad ciphertext =
     bindR (siv_start E key aad) (\<lambda>_.
       map_err (\<lambda>err. if err = BadAuthCode
                  then invalid_input (lit ''deterministic token authentication failed'')
                  else internal (lit ''deterministic token decryption failed''))
         (siv_finish E key aad ciphertext))"

section \<open>Envelopes\<close>

record decoded_envelope =
  de_ciphertext :: "u8 list"
  de_nonce :: "u8 list"
  de_aad :: "u8 list"

definition decode_base64_standard_envelope ::
    "crates \<Rightarrow> ustr \<Rightarrow> ustr \<Rightarrow> nat \<Rightarrow> nat \<Rightarrow> decoded_envelope result" where
  "decode_base64_standard_envelope C field v max_chars nonce_size_bytes =
     bindR (split_base64_standard_envelope_segments field v max_chars)
       (\<lambda>(ciphertext_b64, nonce_b64, aad_b64).
     bindR (b64_segment (b64_decode C) field ciphertext_b64) (\<lambda>ciphertext.
     bindR (b64_segment (b64_decode C) field nonce_b64) (\<lambda>nonce.
     bindR (b64_segment (b64_decode C) field aad_b64) (\<lambda>aad.
       if length ciphertext < 16
       then Inl (invalid_input
              (field @ lit ''.ciphertext must include at least a 16-byte authentication tag''))
       else if length nonce \<noteq> nonce_size_bytes
       then Inl (invalid_input (field @ lit ''.nonce must be '' @ show_nat nonce_size_bytes @ lit '' bytes''))
       else
         bindR (ok_or (invalid_input (field @ lit ''.aad is not valid UTF-8'')) (from_utf8 aad)) (\<lambda>aad_text.
           if trim aad_text = [] then Inl (invalid_input (field @ lit ''.aad must not be empty''))
           else Inr \<lparr>de_ciphertext = ciphertext, de_nonce = nonce, de_aad = aad\<rparr>)))))"

text \<open>\<open>format!("{}.{}.{}", ..)\<close> over the encodings of the three parts, as tokens and seeds are
  written.\<close>

definition envelope_text :: "crates \<Rightarrow> u8 list \<Rightarrow> u8 list \<Rightarrow> u8 list \<Rightarrow> ustr" where
  "envelope_text C ciphertext nonce aad =
     b64_encode C ciphertext @ lit ''.'' @ b64_encode C nonce @ lit ''.'' @ b64_encode C aad"

text \<open>Standard base64: what was encoded is decoded again, in characters of its alphabet and the
  padding, and only nothing is encoded as nothing.\<close>

definition is_b64_char :: "uchar \<Rightarrow> bool" where
  "is_b64_char c \<longleftrightarrow> is_ascii_alphanumeric c \<or> c \<in> {43, 47, 61}"

definition b64_ok :: "crates \<Rightarrow> bool" where
  "b64_ok C \<longleftrightarrow> (\<forall>bs. b64_decode C (b64_encode C bs) = Some bs \<and>
     list_all is_b64_char (b64_encode C bs) \<and> (b64_encode C bs = [] \<longleftrightarrow> bs = []))"

section \<open>Reading an envelope back\<close>

lemma b64_char: "is_b64_char c \<Longrightarrow> is_ascii c \<and> \<not> is_ascii_whitespace c \<and> \<not> is_ascii_control c \<and> c \<noteq> 46"
  by (auto simp: is_b64_char_def char_simps)

lemma b64_codec: "b64_ok C \<Longrightarrow> b64_decode C (b64_encode C bs) = Some bs"
  by (simp add: b64_ok_def)

lemma b64_encoded: "b64_ok C \<Longrightarrow> c \<in> set (b64_encode C bs) \<Longrightarrow> is_b64_char c"
  by (auto simp: b64_ok_def list_all_iff)

lemma b64_not_Nil: "b64_ok C \<Longrightarrow> b64_encode C bs = [] \<longleftrightarrow> bs = []"
  by (simp add: b64_ok_def)

lemma split_envelope_text:
  assumes C: "b64_ok C" and ne: "ciphertext \<noteq> []" "nonce \<noteq> []" "aad \<noteq> []"
    and len: "str_len (envelope_text C ciphertext nonce aad) \<le> max_chars"
  shows "split_base64_standard_envelope_segments field (envelope_text C ciphertext nonce aad) max_chars =
    Inr (b64_encode C ciphertext, b64_encode C nonce, b64_encode C aad)"
proof -
  let ?v = "envelope_text C ciphertext nonce aad"
  have dot: "46 \<notin> set (b64_encode C bs)" for bs using b64_encoded [OF C] b64_char by blast
  have "split_on 46 ?v = [b64_encode C ciphertext, b64_encode C nonce, b64_encode C aad]"
    by (simp add: envelope_text_def lit_def split_on_append split_on_absent dot)
  moreover have "is_ascii c \<and> \<not> is_ascii_whitespace c \<and> \<not> is_ascii_control c" if "c \<in> set ?v" for c
    using that b64_char b64_encoded [OF C] by (auto simp: envelope_text_def lit_def char_simps)
  then have "list_all is_ascii ?v" "\<not> list_ex (\<lambda>c. is_ascii_whitespace c \<or> is_ascii_control c) ?v"
    by (auto simp: list_all_iff list_ex_iff)
  moreover have "?v \<noteq> []" by (simp add: envelope_text_def lit_def)
  ultimately show ?thesis
    using len ne by (simp add: split_base64_standard_envelope_segments_def b64_not_Nil [OF C])
qed

lemma envelope_text_ascii:
  assumes "b64_ok C"
  shows "list_all is_ascii (envelope_text C ciphertext nonce aad)"
  using b64_char b64_encoded [OF assms] by (auto simp: envelope_text_def lit_def list_all_iff char_simps)

lemma decode_envelope_text:
  assumes "b64_ok C" "16 \<le> length ciphertext" "length nonce = n" "0 < n"
    and "aad = utf8 aad_text" "scalar_str aad_text" "\<not> blank aad_text"
    and "str_len (envelope_text C ciphertext nonce aad) \<le> max_chars"
  shows "decode_base64_standard_envelope C field (envelope_text C ciphertext nonce aad) max_chars n =
    Inr \<lparr>de_ciphertext = ciphertext, de_nonce = nonce, de_aad = aad\<rparr>"
proof -
  have "utf8 aad_text \<noteq> []" using assms(7) by (auto simp: utf8_eq_Nil)
  with assms have "ciphertext \<noteq> []" "nonce \<noteq> []" "aad \<noteq> []" by auto
  then show ?thesis
    using assms
    by (simp add: decode_base64_standard_envelope_def split_envelope_text b64_segment_def b64_codec)
qed

end
