(* ===== verification/Key_Material.thy ===== *)
theory Key_Material
  imports Envelopes Mac
begin

text \<open>
  \<open>src/ops/key_material.rs\<close> and \<open>src/ops/internal_keys.rs\<close>: the five keys of an operational key with
  their algorithms, how they are generated and written as JSON, and the keys derived from the root
  key of the instance. Asymmetric keys are values of Botan; \<open>pk_crate\<close> is the parameter for the calls
  that make and encode them.
\<close>

section \<open>Variants\<close>

datatype ml_dsa_variant = MlDsa44 | MlDsa65 | MlDsa87
datatype ml_kem_variant = MlKem512 | MlKem768 | MlKem1024

definition to_ascii_uppercase :: "ustr \<Rightarrow> ustr" where
  "to_ascii_uppercase s = map (\<lambda>c. if 97 \<le> c \<and> c \<le> 122 then c - 32 else c) s"

text \<open>95 and 45 are the underscore and the hyphen.\<close>

definition normalize_variant_name :: "ustr \<Rightarrow> ustr" where
  "normalize_variant_name name = map (\<lambda>c. if c = 95 then 45 else c) (to_ascii_uppercase (trim name))"

definition ml_dsa_from_name :: "ustr \<Rightarrow> ml_dsa_variant option" where
  "ml_dsa_from_name name =
     (let n = normalize_variant_name name in
      if n \<in> set [lit ''ML-DSA-44'', lit ''MLDSA44'', lit ''ML-DSA-4X4''] then Some MlDsa44
      else if n \<in> set [lit ''ML-DSA-65'', lit ''MLDSA65'', lit ''ML-DSA-6X5''] then Some MlDsa65
      else if n \<in> set [lit ''ML-DSA-87'', lit ''MLDSA87'', lit ''ML-DSA-8X7''] then Some MlDsa87
      else None)"

fun ml_dsa_botan_mode :: "ml_dsa_variant \<Rightarrow> ustr" where
  "ml_dsa_botan_mode MlDsa44 = lit ''ML-DSA-4x4''"
| "ml_dsa_botan_mode MlDsa65 = lit ''ML-DSA-6x5''"
| "ml_dsa_botan_mode MlDsa87 = lit ''ML-DSA-8x7''"

fun ml_dsa_name :: "ml_dsa_variant \<Rightarrow> ustr" where
  "ml_dsa_name MlDsa44 = lit ''ML-DSA-44''"
| "ml_dsa_name MlDsa65 = lit ''ML-DSA-65''"
| "ml_dsa_name MlDsa87 = lit ''ML-DSA-87''"

definition ml_kem_from_name :: "ustr \<Rightarrow> ml_kem_variant option" where
  "ml_kem_from_name name =
     (let n = normalize_variant_name name in
      if n \<in> set [lit ''ML-KEM-512'', lit ''MLKEM512''] then Some MlKem512
      else if n \<in> set [lit ''ML-KEM-768'', lit ''MLKEM768''] then Some MlKem768
      else if n \<in> set [lit ''ML-KEM-1024'', lit ''MLKEM1024''] then Some MlKem1024
      else None)"

fun ml_kem_botan_mode :: "ml_kem_variant \<Rightarrow> ustr" where
  "ml_kem_botan_mode MlKem512 = lit ''ML-KEM-512''"
| "ml_kem_botan_mode MlKem768 = lit ''ML-KEM-768''"
| "ml_kem_botan_mode MlKem1024 = lit ''ML-KEM-1024''"

fun ml_kem_name :: "ml_kem_variant \<Rightarrow> ustr" where
  "ml_kem_name MlKem512 = lit ''ML-KEM-512''"
| "ml_kem_name MlKem768 = lit ''ML-KEM-768''"
| "ml_kem_name MlKem1024 = lit ''ML-KEM-1024''"

section \<open>Key material\<close>

record variant_symmetric_key =
  vs_variant :: ustr
  vs_key_hex :: ustr

record variant_key_agreement_key_pair =
  va_variant :: ustr
  va_private_key_der_hex :: ustr
  va_public_key_hex :: ustr

record variant_der_key_pair =
  vd_variant :: ustr
  vd_private_key_der_hex :: ustr
  vd_public_key_der_hex :: ustr

record key_material_keys =
  km_symmetric :: variant_symmetric_key
  km_eddsa :: variant_der_key_pair
  km_xecdh :: variant_key_agreement_key_pair
  km_ml_dsa :: variant_der_key_pair
  km_ml_kem :: variant_der_key_pair

record key_material_output =
  ko_hash_variant :: ustr
  ko_keys :: key_material_keys

record key_material_spec =
  ks_hash_algorithm :: ustr
  ks_symmetric_algorithm :: ustr
  ks_eddsa_algorithm :: ustr
  ks_xecdh_algorithm :: ustr
  ks_ml_dsa_variant :: ustr
  ks_ml_kem_variant :: ustr

record ('priv, 'pub) pk_crate =
  pk_new_rng :: "unit result"
  pk_random :: "nat \<Rightarrow> u8 list result"
  pk_create :: "ustr \<Rightarrow> ustr \<Rightarrow> 'priv result"
  pk_public :: "'priv \<Rightarrow> 'pub result"
  pk_agreement_public :: "'priv \<Rightarrow> u8 list result"
  pk_private_der :: "'priv \<Rightarrow> u8 list result"
  pk_public_der :: "'pub \<Rightarrow> u8 list result"
  pk_load_private :: "u8 list \<Rightarrow> 'priv result"
  pk_load_public :: "u8 list \<Rightarrow> 'pub result"
  pk_agree :: "'priv \<Rightarrow> u8 list \<Rightarrow> ustr \<Rightarrow> u8 list result"
  pk_encapsulate :: "'pub \<Rightarrow> ustr \<Rightarrow> u8 list \<Rightarrow> nat \<Rightarrow> (u8 list \<times> u8 list) result"
  pk_decapsulate :: "'priv \<Rightarrow> ustr \<Rightarrow> u8 list \<Rightarrow> u8 list \<Rightarrow> nat \<Rightarrow> u8 list result"
  pk_sign :: "'priv \<Rightarrow> ustr \<Rightarrow> u8 list \<Rightarrow> u8 list result"
  pk_verify :: "'pub \<Rightarrow> ustr \<Rightarrow> u8 list \<Rightarrow> u8 list \<Rightarrow> bool result"

definition private_key_der_hex :: "crates \<Rightarrow> ('priv, 'pub) pk_crate \<Rightarrow> 'priv \<Rightarrow> ustr result" where
  "private_key_der_hex C P key = bindR (pk_private_der P key) (\<lambda>der. Inr (hex_encode C der))"

definition public_key_der_hex :: "crates \<Rightarrow> ('priv, 'pub) pk_crate \<Rightarrow> 'pub \<Rightarrow> ustr result" where
  "public_key_der_hex C P key = bindR (pk_public_der P key) (\<lambda>der. Inr (hex_encode C der))"

definition create_key_material ::
    "crates \<Rightarrow> ('priv, 'pub) pk_crate \<Rightarrow> key_material_spec \<Rightarrow> key_material_output result" where
  "create_key_material C P spec =
     bindR (ok_or (invalid_input (lit ''invalid symmetric algorithm: '' @ ks_symmetric_algorithm spec))
              (symmetric_cipher (ks_symmetric_algorithm spec))) (\<lambda>cipher.
     bindR (pk_new_rng P) (\<lambda>_.
     bindR (pk_random P (sc_key_size_bytes cipher)) (\<lambda>symmetric_key.
     bindR (pk_create P (ks_eddsa_algorithm spec) []) (\<lambda>eddsa_private_key.
     bindR (pk_public P eddsa_private_key) (\<lambda>eddsa_public_key.
     bindR (pk_create P (ks_xecdh_algorithm spec) []) (\<lambda>xecdh_private_key.
     bindR (pk_agreement_public P xecdh_private_key) (\<lambda>xecdh_public_key.
     bindR (ok_or (invalid_input (lit ''invalid ml_dsa_variant: '' @ ks_ml_dsa_variant spec))
              (ml_dsa_from_name (ks_ml_dsa_variant spec))) (\<lambda>ml_dsa_variant.
     bindR (pk_create P (lit ''ML-DSA'') (ml_dsa_botan_mode ml_dsa_variant)) (\<lambda>ml_dsa_private_key.
     bindR (pk_public P ml_dsa_private_key) (\<lambda>ml_dsa_public_key.
     bindR (ok_or (invalid_input (lit ''invalid ml_kem_variant: '' @ ks_ml_kem_variant spec))
              (ml_kem_from_name (ks_ml_kem_variant spec))) (\<lambda>ml_kem_variant.
     bindR (pk_create P (lit ''ML-KEM'') (ml_kem_botan_mode ml_kem_variant)) (\<lambda>ml_kem_private_key.
     bindR (pk_public P ml_kem_private_key) (\<lambda>ml_kem_public_key.
     bindR (private_key_der_hex C P eddsa_private_key) (\<lambda>eddsa_private.
     bindR (public_key_der_hex C P eddsa_public_key) (\<lambda>eddsa_public.
     bindR (private_key_der_hex C P xecdh_private_key) (\<lambda>xecdh_private.
     bindR (private_key_der_hex C P ml_dsa_private_key) (\<lambda>ml_dsa_private.
     bindR (public_key_der_hex C P ml_dsa_public_key) (\<lambda>ml_dsa_public.
     bindR (private_key_der_hex C P ml_kem_private_key) (\<lambda>ml_kem_private.
     bindR (public_key_der_hex C P ml_kem_public_key) (\<lambda>ml_kem_public.
       Inr \<lparr>ko_hash_variant = ks_hash_algorithm spec,
            ko_keys = \<lparr>
              km_symmetric = \<lparr>vs_variant = ks_symmetric_algorithm spec,
                 vs_key_hex = hex_encode C symmetric_key\<rparr>,
              km_eddsa = \<lparr>vd_variant = ks_eddsa_algorithm spec,
                 vd_private_key_der_hex = eddsa_private, vd_public_key_der_hex = eddsa_public\<rparr>,
              km_xecdh = \<lparr>va_variant = ks_xecdh_algorithm spec,
                 va_private_key_der_hex = xecdh_private,
                 va_public_key_hex = hex_encode C xecdh_public_key\<rparr>,
              km_ml_dsa = \<lparr>vd_variant = ml_dsa_name ml_dsa_variant,
                 vd_private_key_der_hex = ml_dsa_private, vd_public_key_der_hex = ml_dsa_public\<rparr>,
              km_ml_kem = \<lparr>vd_variant = ml_kem_name ml_kem_variant,
                 vd_private_key_der_hex = ml_kem_private,
                 vd_public_key_der_hex = ml_kem_public\<rparr>\<rparr>\<rparr>))))))))))))))))))))"

section \<open>JSON\<close>

definition variant_key :: ustr where "variant_key = lit ''variant''"
definition private_der_key :: ustr where "private_der_key = lit ''private_key_der_hex''"
definition public_der_key :: ustr where "public_der_key = lit ''public_key_der_hex''"

definition der_key_pair_json :: "variant_der_key_pair \<Rightarrow> json" where
  "der_key_pair_json k =
     JObject [(variant_key, JString (vd_variant k)), (private_der_key, JString (vd_private_key_der_hex k)),
       (public_der_key, JString (vd_public_key_der_hex k))]"

definition key_agreement_json :: "variant_key_agreement_key_pair \<Rightarrow> json" where
  "key_agreement_json k =
     JObject [(variant_key, JString (va_variant k)), (private_der_key, JString (va_private_key_der_hex k)),
       (lit ''public_key_hex'', JString (va_public_key_hex k))]"

definition symmetric_key_json :: "variant_symmetric_key \<Rightarrow> json" where
  "symmetric_key_json k = JObject [(variant_key, JString (vs_variant k)), (lit ''key_hex'', JString (vs_key_hex k))]"

definition key_material_keys_json :: "key_material_keys \<Rightarrow> json" where
  "key_material_keys_json k =
     JObject [(lit ''symmetric'', symmetric_key_json (km_symmetric k)),
       (lit ''eddsa'', der_key_pair_json (km_eddsa k)), (lit ''xecdh'', key_agreement_json (km_xecdh k)),
       (lit ''ml-dsa'', der_key_pair_json (km_ml_dsa k)), (lit ''ml-kem'', der_key_pair_json (km_ml_kem k))]"

definition key_material_json :: "key_material_output \<Rightarrow> json" where
  "key_material_json k =
     JObject [(lit ''hash'', JObject [(variant_key, JString (ko_hash_variant k))]),
       (lit ''keys'', key_material_keys_json (ko_keys k))]"

definition struct_strings :: "ustr list \<Rightarrow> json \<Rightarrow> ustr list option" where
  "struct_strings ks v = Option.bind (struct_values ks v) (\<lambda>vs. those (map as_str vs))"

definition der_key_pair_of_json :: "json \<Rightarrow> variant_der_key_pair option" where
  "der_key_pair_of_json v =
     (case struct_strings [variant_key, private_der_key, public_der_key] v of
        Some [variant, private, public] \<Rightarrow>
          Some \<lparr>vd_variant = variant, vd_private_key_der_hex = private, vd_public_key_der_hex = public\<rparr>
      | _ \<Rightarrow> None)"

definition key_agreement_of_json :: "json \<Rightarrow> variant_key_agreement_key_pair option" where
  "key_agreement_of_json v =
     (case struct_strings [variant_key, private_der_key, lit ''public_key_hex''] v of
        Some [variant, private, public] \<Rightarrow>
          Some \<lparr>va_variant = variant, va_private_key_der_hex = private, va_public_key_hex = public\<rparr>
      | _ \<Rightarrow> None)"

definition symmetric_key_of_json :: "json \<Rightarrow> variant_symmetric_key option" where
  "symmetric_key_of_json v =
     (case struct_strings [variant_key, lit ''key_hex''] v of
        Some [variant, key_hex] \<Rightarrow> Some \<lparr>vs_variant = variant, vs_key_hex = key_hex\<rparr>
      | _ \<Rightarrow> None)"

definition key_material_keys_of_json :: "json \<Rightarrow> key_material_keys option" where
  "key_material_keys_of_json v =
     (case struct_values [lit ''symmetric'', lit ''eddsa'', lit ''xecdh'', lit ''ml-dsa'', lit ''ml-kem''] v of
        Some [symmetric, eddsa, xecdh, ml_dsa, ml_kem] \<Rightarrow>
          Option.bind (symmetric_key_of_json symmetric) (\<lambda>symmetric.
          Option.bind (der_key_pair_of_json eddsa) (\<lambda>eddsa.
          Option.bind (key_agreement_of_json xecdh) (\<lambda>xecdh.
          Option.bind (der_key_pair_of_json ml_dsa) (\<lambda>ml_dsa.
          Option.bind (der_key_pair_of_json ml_kem) (\<lambda>ml_kem.
            Some \<lparr>km_symmetric = symmetric, km_eddsa = eddsa, km_xecdh = xecdh, km_ml_dsa = ml_dsa,
                  km_ml_kem = ml_kem\<rparr>)))))
      | _ \<Rightarrow> None)"

definition key_material_of_json :: "json \<Rightarrow> key_material_output option" where
  "key_material_of_json v =
     (case struct_values [lit ''hash'', lit ''keys''] v of
        Some [hash, ks] \<Rightarrow>
          (case struct_strings [variant_key] hash of
             Some [variant] \<Rightarrow>
               map_option (\<lambda>k. \<lparr>ko_hash_variant = variant, ko_keys = k\<rparr>) (key_material_keys_of_json ks)
           | _ \<Rightarrow> None)
      | _ \<Rightarrow> None)"

lemma key_material_json_roundtrip: "key_material_of_json (key_material_json k) = Some k"
proof -
  have d: "der_key_pair_of_json (der_key_pair_json x) = Some x" for x
    by (simp add: der_key_pair_of_json_def der_key_pair_json_def struct_strings_def only_field_def
        variant_key_def private_der_key_def public_der_key_def lit_def)
  have a: "key_agreement_of_json (key_agreement_json x) = Some x" for x
    by (simp add: key_agreement_of_json_def key_agreement_json_def struct_strings_def only_field_def
        variant_key_def private_der_key_def lit_def)
  have s: "symmetric_key_of_json (symmetric_key_json x) = Some x" for x
    by (simp add: symmetric_key_of_json_def symmetric_key_json_def struct_strings_def only_field_def
        variant_key_def lit_def)
  have "key_material_keys_of_json (key_material_keys_json x) = Some x" for x
    by (simp add: key_material_keys_of_json_def key_material_keys_json_def only_field_def lit_def d a s)
  then show ?thesis
    by (simp add: key_material_of_json_def key_material_json_def struct_strings_def only_field_def
        variant_key_def lit_def)
qed

section \<open>Keys derived from the root key\<close>

definition INTERNAL_KEYS_KEY_SIZE_BYTES :: nat where "INTERNAL_KEYS_KEY_SIZE_BYTES = 32"
definition INTERNAL_ROOT_KEY_HKDF_SALT :: "u8 list" where
  "INTERNAL_ROOT_KEY_HKDF_SALT = utf8 (lit ''vectis/internal-keys/v1'')"
definition DB_KEY_INFO :: "u8 list" where "DB_KEY_INFO = utf8 (lit ''vectis/db-key/v1'')"
definition PROPERTIES_KEY_INFO :: "u8 list" where
  "PROPERTIES_KEY_INFO = utf8 (lit ''vectis/properties-key/v1'')"
definition API_AUTH_KEY_INFO :: "u8 list" where "API_AUTH_KEY_INFO = utf8 (lit ''vectis/api-key-auth/v1'')"

record internal_derived_keys_state =
  ik_db_key :: "u8 list"
  ik_properties_key :: "u8 list"
  ik_api_auth_key :: "u8 list"

definition derive_internal_key :: "crates \<Rightarrow> u8 list \<Rightarrow> u8 list \<Rightarrow> u8 list result" where
  "derive_internal_key C root_key info =
     create_hkdf C root_key INTERNAL_ROOT_KEY_HKDF_SALT info INTERNAL_KEYS_KEY_SIZE_BYTES"

definition internal_keys_from_root :: "crates \<Rightarrow> ustr \<Rightarrow> internal_derived_keys_state result" where
  "internal_keys_from_root C symmetric_key_hex =
     bindR (validate_symmetric_key (lit ''init symmetric key'') symmetric_key_hex
              INTERNAL_KEYS_KEY_SIZE_BYTES) (\<lambda>_.
     bindR (hex_decode_q C symmetric_key_hex) (\<lambda>root_key.
     bindR (derive_internal_key C root_key DB_KEY_INFO) (\<lambda>db_key.
     bindR (derive_internal_key C root_key PROPERTIES_KEY_INFO) (\<lambda>properties_key.
     bindR (derive_internal_key C root_key API_AUTH_KEY_INFO) (\<lambda>api_auth_key.
       Inr \<lparr>ik_db_key = db_key, ik_properties_key = properties_key,
            ik_api_auth_key = api_auth_key\<rparr>)))))"

definition api_key_hash_with_key :: "crates \<Rightarrow> u8 list \<Rightarrow> ustr \<Rightarrow> ustr result" where
  "api_key_hash_with_key C api_auth_key api_key =
     bindR (validate_hash_hex_field (lit ''VECTIS_APIKEY'') api_key INTERNAL_KEYS_HASH) (\<lambda>_.
     bindR (create_hmac C api_auth_key (utf8 api_key)) (\<lambda>tag. Inr (hex_encode C tag)))"

definition api_key_hash :: "crates \<Rightarrow> internal_derived_keys_state \<Rightarrow> ustr \<Rightarrow> ustr result" where
  "api_key_hash C st api_key = api_key_hash_with_key C (ik_api_auth_key st) api_key"

definition api_key_hash_from_root_key_hex :: "crates \<Rightarrow> ustr \<Rightarrow> ustr \<Rightarrow> ustr result" where
  "api_key_hash_from_root_key_hex C root_key_hex api_key =
     bindR (validate_symmetric_key (lit ''init symmetric key'') root_key_hex
              INTERNAL_KEYS_KEY_SIZE_BYTES) (\<lambda>_.
     bindR (hex_decode_q C root_key_hex) (\<lambda>root_key.
     bindR (derive_internal_key C root_key API_AUTH_KEY_INFO) (\<lambda>api_auth_key.
       api_key_hash_with_key C api_auth_key api_key)))"

end
