(* ===== verification/Tokens.thy ===== *)
theory Tokens
  imports Key_Material
begin

text \<open>
  \<open>src/core/tokenization.rs\<close>: tokenization profiles with the keys derived for them, random tokens,
  the keyed identifier a token is stored under, and the encrypted record behind it, for a profile
  alone and for a profile with the keys of one subject (\<open>TokenContext\<close>).

  Random bytes are an argument: one function from the requested size to a result for each call of
  \<open>random_bytes\<close>.
\<close>

section \<open>Profiles\<close>

definition TOKENIZATION_VERSION_RANDOM_V1 :: ustr where
  "TOKENIZATION_VERSION_RANDOM_V1 = lit ''token-random-v1''"
definition TOKENIZATION_HKDF_SALT :: "u8 list" where
  "TOKENIZATION_HKDF_SALT = utf8 (lit ''vectis/tokenization/v1'')"
definition TOKEN_HASH_KEY_PURPOSE :: ustr where "TOKEN_HASH_KEY_PURPOSE = lit ''token-hash''"
definition TOKEN_DATA_KEY_PURPOSE :: ustr where "TOKEN_DATA_KEY_PURPOSE = lit ''token-data''"
definition TOKEN_KEY_SIZE_BYTES :: nat where "TOKEN_KEY_SIZE_BYTES = 32"
definition TOKEN_LEN_MIN_BYTES :: nat where "TOKEN_LEN_MIN_BYTES = 32"
definition TOKEN_PLAINTEXT_MAX_LEN :: nat where "TOKEN_PLAINTEXT_MAX_LEN = 16384"
definition TOKEN_PREFIX_MAX_CHARS :: nat where "TOKEN_PREFIX_MAX_CHARS = 16"
definition TOKEN_DATA_TYPE :: ustr where "TOKEN_DATA_TYPE = lit ''token-data''"

record tokenization_profile_input =
  tpi_name :: ustr
  tpi_kid :: ustr
  tpi_token_prefix :: ustr
  tpi_token_len :: nat
  tpi_max_plaintext_len :: nat
  tpi_one_time :: bool
  tpi_subject_mode :: subject_mode

record tokenization_profile =
  tp_name :: ustr
  tp_kid :: ustr
  tp_token_prefix :: ustr
  tp_token_len :: nat
  tp_max_plaintext_len :: nat
  tp_one_time :: bool
  tp_subject_mode :: subject_mode
  tp_cipher_algorithm :: ustr
  tp_hash_key :: "u8 list"
  tp_data_key :: "u8 list"

record tokenization_profiles_state =
  tps_profiles :: "tokenization_profile list"
  tps_by_name :: "ustr \<rightharpoonup> nat"

record derived_tokenization_keys =
  dtk_hash_key :: "u8 list"
  dtk_data_key :: "u8 list"
  dtk_cipher_algorithm :: ustr

record token_key_request =
  tkr_profile_name :: ustr
  tkr_kid :: ustr

definition tokenization_from_profiles :: "tokenization_profile list \<Rightarrow> tokenization_profiles_state" where
  "tokenization_from_profiles ps = \<lparr>tps_profiles = ps, tps_by_name = index_by_name tp_name ps\<rparr>"

definition tokenization_get :: "tokenization_profiles_state \<Rightarrow> ustr \<Rightarrow> tokenization_profile option" where
  "tokenization_get st n = Option.bind (tps_by_name st n) (\<lambda>i. list_get (tps_profiles st) i)"

definition validate_token_prefix :: "ustr \<Rightarrow> unit result" where
  "validate_token_prefix v =
     bindR (validate_text_field (lit ''tokenization_profiles.token_prefix'') v) (\<lambda>_.
       if length v > TOKEN_PREFIX_MAX_CHARS
       then Inl (invalid_input
              (lit ''tokenization_profiles.token_prefix exceeds maximum allowed length: '' @
               show_nat TOKEN_PREFIX_MAX_CHARS))
       else if list_ex is_whitespace v
       then Inl (invalid_input (lit ''tokenization_profiles.token_prefix must not contain whitespace''))
       else if list_ex (\<lambda>c. c = 59) v \<or> list_ex (\<lambda>c. c = 61) v
       then Inl (invalid_input (lit ''tokenization_profiles.token_prefix must not contain '' @
              sq '';'' @ lit '' or '' @ sq ''=''))
       else Inr ())"

definition validate_token_lengths :: "nat \<Rightarrow> nat \<Rightarrow> unit result" where
  "validate_token_lengths token_len max_plaintext_len =
     (if token_len < TOKEN_LEN_MIN_BYTES
      then Inl (invalid_input (lit ''tokenization_profiles.token_len must be at least '' @
             show_nat TOKEN_LEN_MIN_BYTES))
      else if max_plaintext_len = 0 \<or> max_plaintext_len > TOKEN_PLAINTEXT_MAX_LEN
      then Inl (invalid_input (lit ''tokenization_profiles.max_plaintext_len must be between 1 and '' @
             show_nat TOKEN_PLAINTEXT_MAX_LEN))
      else Inr ())"

definition validate_tokenization_profile_fields :: "ustr \<Rightarrow> ustr \<Rightarrow> nat \<Rightarrow> nat \<Rightarrow> unit result" where
  "validate_tokenization_profile_fields name token_prefix token_len max_plaintext_len =
     bindR (validate_aad_config_name (lit ''tokenization_profiles.name'') name) (\<lambda>_.
     bindR (validate_token_prefix token_prefix) (\<lambda>_.
     bindR (validate_token_lengths token_len max_plaintext_len) (\<lambda>_. Inr ())))"

definition tokenization_key_info :: "ustr \<Rightarrow> ustr \<Rightarrow> ustr \<Rightarrow> ustr result" where
  "tokenization_key_info purpose profile_name kid =
     build_validated_aad
       [(lit ''purpose'', purpose), (lit ''profile'', profile_name), (lit ''kid'', kid),
        (lit ''tokenization_version'', TOKENIZATION_VERSION_RANDOM_V1)]"

definition unsupported_token_cipher :: "ustr \<Rightarrow> dyn_error" where
  "unsupported_token_cipher alg =
     invalid_input (lit ''tokenization profile symmetric algorithm is not supported: '' @ alg)"

definition derive_tokenization_keys ::
    "crates \<Rightarrow> ustr \<Rightarrow> ustr \<Rightarrow> token_key_request \<Rightarrow> derived_tokenization_keys result" where
  "derive_tokenization_keys C ops_symmetric_key_hex cipher_algorithm req =
     bindR (ok_or (unsupported_token_cipher cipher_algorithm) (symmetric_cipher cipher_algorithm)) (\<lambda>cipher.
     bindR (hex_decode_q C ops_symmetric_key_hex) (\<lambda>ops_symmetric_key.
     bindR (tokenization_key_info TOKEN_HASH_KEY_PURPOSE (tkr_profile_name req) (tkr_kid req)) (\<lambda>hash_info.
     bindR (tokenization_key_info TOKEN_DATA_KEY_PURPOSE (tkr_profile_name req) (tkr_kid req)) (\<lambda>data_info.
     bindR (create_hkdf C ops_symmetric_key TOKENIZATION_HKDF_SALT (utf8 hash_info)
              TOKEN_KEY_SIZE_BYTES) (\<lambda>hash_key.
     bindR (create_hkdf C ops_symmetric_key TOKENIZATION_HKDF_SALT (utf8 data_info)
              (sc_key_size_bytes cipher)) (\<lambda>data_key.
       Inr \<lparr>dtk_hash_key = hash_key, dtk_data_key = data_key,
            dtk_cipher_algorithm = cipher_algorithm\<rparr>))))))"

definition check_tokenization_input :: "(ustr \<Rightarrow> bool) \<Rightarrow> tokenization_profile_input \<Rightarrow> unit result" where
  "check_tokenization_input is_loaded_kid i =
     bindR (validate_tokenization_profile_fields (tpi_name i) (tpi_token_prefix i) (tpi_token_len i)
              (tpi_max_plaintext_len i)) (\<lambda>_.
     bindR (map_err (\<lambda>err. invalid_input (lit ''tokenization_profiles.kid is invalid: '' @ to_string err))
              (validate_key_id (tpi_kid i))) (\<lambda>_.
       if \<not> is_loaded_kid (tpi_kid i)
       then Inl (invalid_input
              (lit ''tokenization profile references kid not loaded in memory: '' @ tpi_kid i))
       else Inr ()))"

definition build_tokenization_profile ::
    "(token_key_request \<Rightarrow> derived_tokenization_keys result) \<Rightarrow> tokenization_profile_input \<Rightarrow>
     tokenization_profile result" where
  "build_tokenization_profile derive_keys i =
     bindR (derive_keys \<lparr>tkr_profile_name = tpi_name i, tkr_kid = tpi_kid i\<rparr>) (\<lambda>derived.
     bindR (ok_or (unsupported_token_cipher (dtk_cipher_algorithm derived))
              (symmetric_cipher (dtk_cipher_algorithm derived))) (\<lambda>cipher.
       if length (dtk_hash_key derived) \<noteq> TOKEN_KEY_SIZE_BYTES \<or>
          length (dtk_data_key derived) \<noteq> sc_key_size_bytes cipher
       then Inl (internal (lit ''derived tokenization key has invalid length''))
       else
         Inr \<lparr>tp_name = tpi_name i, tp_kid = tpi_kid i, tp_token_prefix = tpi_token_prefix i,
              tp_token_len = tpi_token_len i, tp_max_plaintext_len = tpi_max_plaintext_len i,
              tp_one_time = tpi_one_time i, tp_subject_mode = tpi_subject_mode i,
              tp_cipher_algorithm = dtk_cipher_algorithm derived,
              tp_hash_key = dtk_hash_key derived, tp_data_key = dtk_data_key derived\<rparr>))"

fun validate_tokenization_loop ::
    "(ustr \<Rightarrow> bool) \<Rightarrow> (token_key_request \<Rightarrow> derived_tokenization_keys result) \<Rightarrow> ustr set \<Rightarrow>
     tokenization_profile_input list \<Rightarrow> tokenization_profile list result" where
  "validate_tokenization_loop loaded derive seen_names [] = Inr []"
| "validate_tokenization_loop loaded derive seen_names (i # is) =
     bindR (check_tokenization_input loaded i) (\<lambda>_.
       if tpi_name i \<in> seen_names
       then Inl (invalid_input (lit ''tokenization profile has duplicated name: '' @ tpi_name i))
       else bindR (build_tokenization_profile derive i) (\<lambda>p.
         bindR (validate_tokenization_loop loaded derive (insert (tpi_name i) seen_names) is)
           (\<lambda>ps. Inr (p # ps))))"

definition validate_tokenization_profiles ::
    "(ustr \<Rightarrow> bool) \<Rightarrow> (token_key_request \<Rightarrow> derived_tokenization_keys result) \<Rightarrow>
     tokenization_profile_input list \<Rightarrow> tokenization_profiles_state result" where
  "validate_tokenization_profiles loaded derive inputs =
     bindR (validate_tokenization_loop loaded derive {} inputs)
       (\<lambda>ps. Inr (tokenization_from_profiles ps))"

section \<open>Token values\<close>

text \<open>95 is the underscore between prefix and random part.\<close>

definition generate_token :: "crates \<Rightarrow> (nat \<Rightarrow> u8 list result) \<Rightarrow> tokenization_profile \<Rightarrow> ustr result" where
  "generate_token C random_bytes profile =
     bindR (random_bytes (tp_token_len profile)) (\<lambda>random.
       Inr (tp_token_prefix profile @ lit ''_'' @ url_encode C random))"

definition validate_token_value :: "crates \<Rightarrow> tokenization_profile \<Rightarrow> ustr \<Rightarrow> unit result" where
  "validate_token_value C profile token =
     bindR (validate_text_field (lit ''token'') token) (\<lambda>_.
     let expected_prefix = tp_token_prefix profile @ lit ''_'' in
       if \<not> starts_with expected_prefix token
       then Inl (invalid_input (lit ''token prefix does not match tokenization profile''))
       else
         bindR (ok_or (invalid_input (lit ''token contains invalid tokenization encoding''))
                  (url_decode C (drop (length expected_prefix) token))) (\<lambda>random.
           if length random \<noteq> tp_token_len profile
           then Inl (invalid_input (lit ''token length does not match tokenization profile''))
           else Inr ()))"

definition hash_token :: "crates \<Rightarrow> tokenization_profile \<Rightarrow> ustr \<Rightarrow> ustr result" where
  "hash_token C profile token =
     bindR (validate_token_value C profile token) (\<lambda>_.
     bindR (build_validated_aad [(lit ''profile'', tp_name profile), (lit ''token'', token)]) (\<lambda>message.
     bindR (create_hmac C (tp_hash_key profile) (utf8 message)) (\<lambda>tag.
       Inr (hex_encode C tag))))"

section \<open>Token data\<close>

record token_data_payload =
  tdp_profile :: ustr
  tdp_plaintext :: ustr
  tdp_metadata :: "json option"
  tdp_created_at :: ustr

definition payload_json :: "token_data_payload \<Rightarrow> json" where
  "payload_json p =
     JObject ([(lit ''profile'', JString (tdp_profile p)), (lit ''plaintext'', JString (tdp_plaintext p))] @
       (case tdp_metadata p of None \<Rightarrow> [] | Some m \<Rightarrow> [(lit ''metadata'', m)]) @
       [(lit ''created_at'', JString (tdp_created_at p))])"

text \<open>The struct reader ignores other keys, takes a known key once, and \<open>null\<close> or no \<open>metadata\<close>
  for \<open>None\<close>; it also reads an array of the four values.\<close>

definition metadata_field :: "(ustr \<times> json) list \<Rightarrow> json option option" where
  "metadata_field fs =
     (case filter (\<lambda>(k, _). k = lit ''metadata'') fs of
        [] \<Rightarrow> Some None
      | [(_, v)] \<Rightarrow> Some (if v = JNull then None else Some v)
      | _ \<Rightarrow> None)"

fun payload_of_json :: "json \<Rightarrow> token_data_payload option" where
  "payload_of_json (JObject fs) =
     Option.bind (Option.bind (only_field fs (lit ''profile'')) as_str) (\<lambda>profile.
     Option.bind (Option.bind (only_field fs (lit ''plaintext'')) as_str) (\<lambda>plaintext.
     Option.bind (metadata_field fs) (\<lambda>metadata.
     Option.bind (Option.bind (only_field fs (lit ''created_at'')) as_str) (\<lambda>created_at.
       Some \<lparr>tdp_profile = profile, tdp_plaintext = plaintext, tdp_metadata = metadata,
             tdp_created_at = created_at\<rparr>))))"
| "payload_of_json (JArray [profile, plaintext, metadata, created_at]) =
     Option.bind (as_str profile) (\<lambda>profile. Option.bind (as_str plaintext) (\<lambda>plaintext.
     Option.bind (as_str created_at) (\<lambda>created_at.
       Some \<lparr>tdp_profile = profile, tdp_plaintext = plaintext,
             tdp_metadata = (if metadata = JNull then None else Some metadata),
             tdp_created_at = created_at\<rparr>)))"
| "payload_of_json _ = None"

definition token_data_aad :: "tokenization_profile \<Rightarrow> ustr \<Rightarrow> ustr result" where
  "token_data_aad profile hashid =
     build_validated_aad
       [(lit ''version'', lit ''v1''), (lit ''type'', TOKEN_DATA_TYPE), (lit ''kid'', tp_kid profile),
        (lit ''profile'', tp_name profile),
        (lit ''tokenization_version'', TOKENIZATION_VERSION_RANDOM_V1), (lit ''hashid'', hashid),
        (lit ''cipher'', tp_cipher_algorithm profile)]"

definition token_cipher :: "tokenization_profile \<Rightarrow> symmetric_cipher_spec result" where
  "token_cipher profile =
     ok_or (invalid_input (lit ''tokenization symmetric algorithm is not supported''))
       (symmetric_cipher (tp_cipher_algorithm profile))"

definition encrypt_token_data_with_key ::
    "crates \<Rightarrow> ciphers \<Rightarrow> (nat \<Rightarrow> u8 list result) \<Rightarrow> tokenization_profile \<Rightarrow> u8 list \<Rightarrow> ustr \<Rightarrow>
     token_data_payload \<Rightarrow> ustr result" where
  "encrypt_token_data_with_key C E random_bytes profile key aad payload =
     bindR (token_cipher profile) (\<lambda>cipher.
     bindR (random_bytes (sc_nonce_size_bytes cipher)) (\<lambda>nonce.
     bindR (encrypt_symmetric E (sc_algorithm cipher) (json_to_vec C (payload_json payload)) key nonce
              (utf8 aad)) (\<lambda>ciphertext.
       Inr (envelope_text C ciphertext nonce (utf8 aad)))))"

definition encrypt_token_data ::
    "crates \<Rightarrow> ciphers \<Rightarrow> (nat \<Rightarrow> u8 list result) \<Rightarrow> tokenization_profile \<Rightarrow> ustr \<Rightarrow>
     token_data_payload \<Rightarrow> ustr result" where
  "encrypt_token_data C E random_bytes profile hashid payload =
     bindR (token_data_aad profile hashid) (\<lambda>aad.
       encrypt_token_data_with_key C E random_bytes profile (tp_data_key profile) aad payload)"

definition decrypt_token_data_with_key ::
    "crates \<Rightarrow> ciphers \<Rightarrow> tokenization_profile \<Rightarrow> u8 list \<Rightarrow> ustr \<Rightarrow> ustr \<Rightarrow> token_data_payload result" where
  "decrypt_token_data_with_key C E profile key expected_aad data =
     bindR (token_cipher profile) (\<lambda>cipher.
     bindR (decode_base64_standard_envelope C (lit ''tokens.data'') data
              STORAGE_TOKEN_ENVELOPE_MAX_CHARS (sc_nonce_size_bytes cipher)) (\<lambda>envelope.
     bindR (ok_or (invalid_input (lit ''tokens.data.aad is not valid UTF-8''))
              (from_utf8 (de_aad envelope))) (\<lambda>aad.
       if aad \<noteq> expected_aad
       then Inl (invalid_input (lit ''token data aad does not match request''))
       else
         bindR (decrypt_symmetric E (sc_algorithm cipher) (de_ciphertext envelope) key
                  (de_nonce envelope) (de_aad envelope)) (\<lambda>plaintext_bytes.
         bindR (ok_or (invalid_input (lit ''token data plaintext is not valid UTF-8''))
                  (from_utf8 plaintext_bytes)) (\<lambda>_.
         bindR (ok_or (invalid_input (lit ''token data payload is not valid JSON''))
                  (Option.bind (json_from_slice C plaintext_bytes) payload_of_json)) (\<lambda>payload.
           if tdp_profile payload \<noteq> tp_name profile
           then Inl (invalid_input (lit ''token data payload profile does not match request''))
           else Inr payload))))))"

definition decrypt_token_data ::
    "crates \<Rightarrow> ciphers \<Rightarrow> tokenization_profile \<Rightarrow> ustr \<Rightarrow> ustr \<Rightarrow> token_data_payload result" where
  "decrypt_token_data C E profile hashid data =
     bindR (token_data_aad profile hashid) (\<lambda>aad.
       decrypt_token_data_with_key C E profile (tp_data_key profile) aad data)"

section \<open>Contexts\<close>

record subject_token_keys =
  stk_subject :: ustr
  stk_hash_key :: "u8 list"
  stk_data_key :: "u8 list"

record token_context =
  tc_profile :: tokenization_profile
  tc_subject_keys :: "subject_token_keys option"
  tc_subject_seed :: "ustr option"

definition tc_from_profile :: "tokenization_profile \<Rightarrow> token_context" where
  "tc_from_profile profile = \<lparr>tc_profile = profile, tc_subject_keys = None, tc_subject_seed = None\<rparr>"

definition tc_with_subject :: "tokenization_profile \<Rightarrow> subject_token_keys \<Rightarrow> token_context" where
  "tc_with_subject profile keys =
     \<lparr>tc_profile = profile, tc_subject_keys = Some keys, tc_subject_seed = None\<rparr>"

definition with_subject_generation :: "token_context \<Rightarrow> ustr \<Rightarrow> token_context" where
  "with_subject_generation ctx seed = ctx\<lparr>tc_subject_seed := Some seed\<rparr>"

definition tc_subject :: "token_context \<Rightarrow> ustr option" where
  "tc_subject ctx = map_option stk_subject (tc_subject_keys ctx)"

definition validate_token_subject_mode :: "tokenization_profile \<Rightarrow> ustr option \<Rightarrow> unit result" where
  "validate_token_subject_mode profile subject =
     bindR (case subject of Some subject \<Rightarrow> validate_subject subject | None \<Rightarrow> Inr ()) (\<lambda>_.
       if (tp_subject_mode profile = Stored) \<noteq> (subject \<noteq> None)
       then Inl (invalid_input (lit ''subject is required only for stored tokenization profiles''))
       else Inr ())"

definition tc_validate_mode :: "token_context \<Rightarrow> ustr option \<Rightarrow> unit result" where
  "tc_validate_mode ctx expected =
     bindR (validate_token_subject_mode (tc_profile ctx) expected) (\<lambda>_.
       if tc_subject ctx \<noteq> expected
       then Inl (invalid_input (lit ''subject does not match token context''))
       else Inr ())"

definition tc_hash :: "crates \<Rightarrow> token_context \<Rightarrow> ustr \<Rightarrow> ustr result" where
  "tc_hash C ctx token =
     bindR (tc_validate_mode ctx (tc_subject ctx)) (\<lambda>_.
       case tc_subject_keys ctx of
         None \<Rightarrow> hash_token C (tc_profile ctx) token
       | Some keys \<Rightarrow>
           bindR (validate_token_value C (tc_profile ctx) token) (\<lambda>_.
           bindR (build_validated_aad
                    [(lit ''version'', lit ''v2''), (lit ''profile'', tp_name (tc_profile ctx)),
                     (lit ''subject'', stk_subject keys), (lit ''token'', token)]) (\<lambda>message.
           bindR (create_hmac C (stk_hash_key keys) (utf8 message)) (\<lambda>tag.
             Inr (hex_encode C tag)))))"

definition tc_aad :: "token_context \<Rightarrow> ustr \<Rightarrow> ustr result" where
  "tc_aad ctx hashid =
     (case tc_subject ctx of
        None \<Rightarrow> token_data_aad (tc_profile ctx) hashid
      | Some subject \<Rightarrow>
          build_validated_aad
            [(lit ''version'', lit ''v2''), (lit ''type'', TOKEN_DATA_TYPE),
             (lit ''kid'', tp_kid (tc_profile ctx)), (lit ''profile'', tp_name (tc_profile ctx)),
             (lit ''tokenization_version'', TOKENIZATION_VERSION_RANDOM_V1), (lit ''hashid'', hashid),
             (lit ''subject'', subject), (lit ''cipher'', tp_cipher_algorithm (tc_profile ctx))])"

definition tc_data_key :: "token_context \<Rightarrow> u8 list" where
  "tc_data_key ctx =
     (case tc_subject_keys ctx of None \<Rightarrow> tp_data_key (tc_profile ctx) | Some keys \<Rightarrow> stk_data_key keys)"

definition tc_encrypt ::
    "crates \<Rightarrow> ciphers \<Rightarrow> (nat \<Rightarrow> u8 list result) \<Rightarrow> token_context \<Rightarrow> ustr \<Rightarrow> token_data_payload \<Rightarrow>
     ustr result" where
  "tc_encrypt C E random_bytes ctx hashid payload =
     bindR (tc_validate_mode ctx (tc_subject ctx)) (\<lambda>_.
     bindR (tc_aad ctx hashid) (\<lambda>aad.
       encrypt_token_data_with_key C E random_bytes (tc_profile ctx) (tc_data_key ctx) aad payload))"

definition tc_decrypt ::
    "crates \<Rightarrow> ciphers \<Rightarrow> token_context \<Rightarrow> ustr \<Rightarrow> ustr \<Rightarrow> token_data_payload result" where
  "tc_decrypt C E ctx hashid data =
     bindR (tc_validate_mode ctx (tc_subject ctx)) (\<lambda>_.
     bindR (tc_aad ctx hashid) (\<lambda>aad.
       decrypt_token_data_with_key C E (tc_profile ctx) (tc_data_key ctx) aad data))"

section \<open>The profile registry\<close>

lemma build_tokenization_profile_name:
  "build_tokenization_profile d i = Inr p \<Longrightarrow> tp_name p = tpi_name i"
  by (auto simp: build_tokenization_profile_def result_simps)

interpretation tokenizations: profile_loader tp_name tokenization_from_profiles tokenization_get
    tpi_name "check_tokenization_input loaded"
    "\<lambda>i. invalid_input (lit ''tokenization profile has duplicated name: '' @ tpi_name i)"
    "build_tokenization_profile derive"
    "validate_tokenization_loop loaded derive" "validate_tokenization_profiles loaded derive"
  for loaded derive
  by unfold_locales
    (auto simp: tokenization_from_profiles_def tokenization_get_def validate_tokenization_profiles_def
      build_tokenization_profile_name)

end
