(* ===== verification/Subjects.thy ===== *)
theory Subjects
  imports Tokens
begin

text \<open>
  \<open>src/core/subjects.rs\<close>: the identifier of a subject under a profile, the envelope that wraps the
  random seed of a subject, and the token keys derived from an opened seed. The checks on names,
  identifiers and envelopes are in \<open>Subject_Ids\<close>.
\<close>

section \<open>Model\<close>

definition WRAP_SALT :: "u8 list" where "WRAP_SALT = utf8 (lit ''vectis/subjects/v1'')"

definition unsupported_subject_cipher :: dyn_error where
  "unsupported_subject_cipher = internal (lit ''unsupported subject cipher'')"

definition invalid_stored_seed :: dyn_error where
  "invalid_stored_seed = internal (lit ''stored subject seed is invalid'')"

definition subject_key_info :: "tokenization_profile \<Rightarrow> ustr \<Rightarrow> ustr result" where
  "subject_key_info profile purpose =
     build_validated_aad
       [(lit ''purpose'', purpose), (lit ''kid'', tp_kid profile), (lit ''profile'', tp_name profile),
        (lit ''version'', lit ''v1'')]"

definition seed_aad :: "tokenization_profile \<Rightarrow> ustr \<Rightarrow> ustr result" where
  "seed_aad profile subject =
     bindR (validate_subject subject) (\<lambda>_.
       build_validated_aad
         [(lit ''version'', lit ''v1''), (lit ''type'', lit ''subject-seed''),
          (lit ''kid'', tp_kid profile), (lit ''profile'', tp_name profile), (lit ''subject'', subject),
          (lit ''cipher'', tp_cipher_algorithm profile)])"

definition subject_id :: "crates \<Rightarrow> tokenization_profile \<Rightarrow> ustr \<Rightarrow> ustr result" where
  "subject_id C profile name =
     bindR (validate_subject_name name) (\<lambda>_.
     bindR (build_validated_aad
              [(lit ''purpose'', lit ''subject-lookup''), (lit ''kid'', tp_kid profile),
               (lit ''profile'', tp_name profile), (lit ''subject_name'', name),
               (lit ''version'', lit ''v1'')]) (\<lambda>message.
     bindR (create_hmac C (tp_hash_key profile) (utf8 message)) (\<lambda>tag.
       Inr (hex_encode C tag))))"

definition wrapping_key :: "crates \<Rightarrow> tokenization_profile \<Rightarrow> u8 list result" where
  "wrapping_key C profile =
     bindR (ok_or unsupported_subject_cipher (symmetric_cipher (tp_cipher_algorithm profile))) (\<lambda>cipher.
     bindR (subject_key_info profile (lit ''subject-wrap'')) (\<lambda>info.
       create_hkdf C (tp_data_key profile) WRAP_SALT (utf8 info) (sc_key_size_bytes cipher)))"

text \<open>\<open>SeedPayload\<close> is an object with the one field \<open>seed\<close>; unknown fields are denied. An array
  of one string is read as well.\<close>

definition seed_payload_json :: "ustr \<Rightarrow> json" where
  "seed_payload_json seed = JObject [(lit ''seed'', JString seed)]"

fun seed_payload_of_json :: "json \<Rightarrow> ustr option" where
  "seed_payload_of_json (JObject [(k, JString seed)]) = (if k = lit ''seed'' then Some seed else None)"
| "seed_payload_of_json (JArray [JString seed]) = Some seed"
| "seed_payload_of_json _ = None"

definition create_seed ::
    "crates \<Rightarrow> ciphers \<Rightarrow> (nat \<Rightarrow> u8 list result) \<Rightarrow> (nat \<Rightarrow> u8 list result) \<Rightarrow>
     tokenization_profile \<Rightarrow> ustr \<Rightarrow> ustr result" where
  "create_seed C E random_seed random_nonce profile subject =
     bindR (seed_aad profile subject) (\<lambda>aad.
     bindR (ok_or unsupported_subject_cipher (symmetric_cipher (tp_cipher_algorithm profile))) (\<lambda>cipher.
     bindR (random_seed SUBJECT_SEED_BYTES) (\<lambda>seed.
     let plaintext = json_to_vec C (seed_payload_json (hex_encode C seed)) in
     bindR (random_nonce (sc_nonce_size_bytes cipher)) (\<lambda>nonce.
     bindR (wrapping_key C profile) (\<lambda>key.
     bindR (encrypt_symmetric E (sc_algorithm cipher) plaintext key nonce (utf8 aad)) (\<lambda>ciphertext.
     let envelope = envelope_text C ciphertext nonce (utf8 aad) in
     bindR (validate_seed_envelope C envelope) (\<lambda>_. Inr envelope)))))))"

definition open_seed_inner ::
    "crates \<Rightarrow> ciphers \<Rightarrow> tokenization_profile \<Rightarrow> ustr \<Rightarrow> ustr \<Rightarrow> u8 list result" where
  "open_seed_inner C E profile subject envelope =
     bindR (validate_seed_envelope C envelope) (\<lambda>_.
     bindR (ok_or unsupported_subject_cipher (symmetric_cipher (tp_cipher_algorithm profile))) (\<lambda>cipher.
     bindR (decode_base64_standard_envelope C (lit ''subjects.seed'') envelope
              SUBJECT_SEED_ENVELOPE_MAX_CHARS (sc_nonce_size_bytes cipher)) (\<lambda>decoded.
     bindR (seed_aad profile subject) (\<lambda>aad.
       if de_aad decoded \<noteq> utf8 aad
       then Inl (internal (lit ''subject seed context mismatch''))
       else
     bindR (wrapping_key C profile) (\<lambda>key.
     bindR (decrypt_symmetric E (sc_algorithm cipher) (de_ciphertext decoded) key (de_nonce decoded)
              (de_aad decoded)) (\<lambda>plaintext.
     bindR (ok_or (Foreign (lit ''JSON'')) (Option.bind (json_from_slice C plaintext) seed_payload_of_json))
       (\<lambda>seed.
     bindR (validate_symmetric_key (lit ''seed'') seed SUBJECT_SEED_BYTES) (\<lambda>_.
       hex_decode_q C seed))))))))"

definition open_authenticated_seed ::
    "crates \<Rightarrow> ciphers \<Rightarrow> tokenization_profile \<Rightarrow> ustr \<Rightarrow> ustr \<Rightarrow> u8 list result" where
  "open_authenticated_seed C E profile subject envelope =
     map_err (\<lambda>_. invalid_stored_seed) (open_seed_inner C E profile subject envelope)"

definition derive_token_keys ::
    "crates \<Rightarrow> tokenization_profile \<Rightarrow> ustr \<Rightarrow> u8 list \<Rightarrow> subject_token_keys result" where
  "derive_token_keys C profile subject seed =
     bindR (ok_or unsupported_subject_cipher (symmetric_cipher (tp_cipher_algorithm profile))) (\<lambda>cipher.
     bindR (subject_key_info profile (lit ''subject-token-hash'')) (\<lambda>hash_info.
     bindR (create_hkdf C (tp_hash_key profile) seed (utf8 hash_info) 32) (\<lambda>hash_key.
     bindR (subject_key_info profile (lit ''subject-token-data'')) (\<lambda>data_info.
     bindR (create_hkdf C (tp_data_key profile) seed (utf8 data_info) (sc_key_size_bytes cipher)) (\<lambda>data_key.
       Inr \<lparr>stk_subject = subject, stk_hash_key = hash_key, stk_data_key = data_key\<rparr>)))))"

definition open_seed ::
    "crates \<Rightarrow> ciphers \<Rightarrow> tokenization_profile \<Rightarrow> ustr \<Rightarrow> ustr \<Rightarrow> subject_token_keys result" where
  "open_seed C E profile subject envelope =
     bindR (open_authenticated_seed C E profile subject envelope) (\<lambda>seed.
       map_err (\<lambda>_. invalid_stored_seed) (derive_token_keys C profile subject seed))"

text \<open>The profile named in an envelope's associated data, to look the profile up by before the
  envelope is authenticated.\<close>

definition seed_profile_hint :: "crates \<Rightarrow> ustr \<Rightarrow> ustr result" where
  "seed_profile_hint C envelope =
     map_err (\<lambda>_. invalid_stored_seed)
       (bindR (validate_seed_envelope C envelope) (\<lambda>_.
        bindR (ok_or (internal (lit ''invalid subject envelope'')) (list_get (split_on 46 envelope) 2)) (\<lambda>part.
        bindR (b64_decode_q C part) (\<lambda>aad.
        bindR (ok_or (Foreign (lit ''UTF-8'')) (from_utf8 aad)) (\<lambda>aad.
        bindR (parse_aad_fields aad) (\<lambda>fs.
          (case filter (\<lambda>(key, _). key = lit ''profile'') fs of
             [(_, name)] \<Rightarrow>
               bindR (validate_aad_config_name (lit ''subject profile'') name) (\<lambda>_. Inr name)
           | _ \<Rightarrow> Inl (internal (lit ''invalid subject profile hint'')))))))))"

end
