(* ===== verification/Tokens_Correct.thy ===== *)
theory Tokens_Correct
  imports Subjects
begin

text \<open>
  What makes tokens and subject seeds correct: profiles as the loader accepts them, tokens that are
  accepted and hashed by the profile that generated them, records and seeds that are read back by
  the context that wrote them, and by no other.
\<close>

section \<open>Loaded profiles\<close>

definition tokenization_profile_ok :: "tokenization_profile \<Rightarrow> bool" where
  "tokenization_profile_ok p \<longleftrightarrow>
     validate_aad_config_name [] (tp_name p) = Inr () \<and> validate_key_id (tp_kid p) = Inr () \<and>
     validate_token_prefix (tp_token_prefix p) = Inr () \<and>
     TOKEN_LEN_MIN_BYTES \<le> tp_token_len p \<and>
     0 < tp_max_plaintext_len p \<and> tp_max_plaintext_len p \<le> TOKEN_PLAINTEXT_MAX_LEN \<and>
     length (tp_hash_key p) = TOKEN_KEY_SIZE_BYTES \<and>
     pred_option (\<lambda>c. length (tp_data_key p) = sc_key_size_bytes c) (symmetric_cipher (tp_cipher_algorithm p)) \<and>
     symmetric_cipher (tp_cipher_algorithm p) \<noteq> None"

lemma validate_token_prefix_ok:
  "validate_token_prefix v = Inr () \<longleftrightarrow>
     v \<noteq> [] \<and> length v \<le> 16 \<and> (\<forall>c \<in> set v. \<not> is_control c \<and> \<not> is_whitespace c \<and> c \<noteq> 59 \<and> c \<noteq> 61)"
proof -
  have "blank v \<longleftrightarrow> v = []" if "\<forall>c \<in> set v. \<not> is_whitespace c"
    using that by (cases v) (auto simp: blank_def)
  then show ?thesis
    by (auto simp: validate_token_prefix_def result_simps TOKEN_PREFIX_MAX_CHARS_def list_ex_iff)
qed

lemma check_tokenization_input_ok:
  "check_tokenization_input loaded i = Inr () \<longleftrightarrow>
     validate_aad_config_name [] (tpi_name i) = Inr () \<and> validate_token_prefix (tpi_token_prefix i) = Inr () \<and>
     TOKEN_LEN_MIN_BYTES \<le> tpi_token_len i \<and> 0 < tpi_max_plaintext_len i \<and>
     tpi_max_plaintext_len i \<le> TOKEN_PLAINTEXT_MAX_LEN \<and> validate_key_id (tpi_kid i) = Inr () \<and> loaded (tpi_kid i)"
  unfolding check_tokenization_input_def validate_tokenization_profile_fields_def validate_token_lengths_def
  by (auto simp: bindR_unit_eq map_err_eq_Inr not_less validate_aad_config_name_ok simp del: validate_key_id_ok)

lemma build_tokenization_profile_ok:
  assumes "check_tokenization_input loaded i = Inr ()" "build_tokenization_profile derive i = Inr p"
  shows "tokenization_profile_ok p \<and> tp_subject_mode p = tpi_subject_mode i \<and> loaded (tp_kid p)"
  using assms unfolding check_tokenization_input_ok build_tokenization_profile_def
  by (auto simp: tokenization_profile_ok_def bindR_eq_Inr ok_or_eq_Inr simp del: validate_key_id_ok split: if_splits)

lemma loaded_profile_ok:
  assumes "validate_tokenization_profiles loaded derive is = Inr st" "tokenization_get st n = Some p"
  shows "tokenization_profile_ok p \<and> tp_name p = n \<and> loaded (tp_kid p)"
proof -
  obtain i where "i \<in> set is" "check_tokenization_input loaded i = Inr ()"
      "build_tokenization_profile derive i = Inr p" "tpi_name i = n"
    using tokenizations.load_sound [OF assms] by blast
  then show ?thesis using build_tokenization_profile_ok build_tokenization_profile_name by metis
qed

lemma symmetric_cipher_Some:
  "symmetric_cipher a = Some c \<Longrightarrow> sc_algorithm c = a \<and> 0 < sc_nonce_size_bytes c \<and> sc_nonce_size_bytes c \<in> {12, 24} \<and>
     \<not> blank a \<and> (\<forall>x \<in> set a. is_ascii x \<and> \<not> is_control x \<and> x \<noteq> 59 \<and> x \<noteq> 61)"
  by (auto simp: symmetric_cipher_def lit_def char_simps split: if_splits)

section \<open>What the other crates promise\<close>

definition url_format_ok :: "crates \<Rightarrow> bool" where
  "url_format_ok C \<longleftrightarrow>
     (\<forall>bs. list_all (\<lambda>c. is_ascii_alphanumeric c \<or> c = 45 \<or> c = 95) (url_encode C bs))"

text \<open>Objects with different keys at every level, numbers of 64 bits, and a nesting below the
  recursion limit are read back, and the text of every value is valid UTF-8.\<close>

fun wire_json :: "nat \<Rightarrow> json \<Rightarrow> bool" where
  "wire_json d (JNumber n) \<longleftrightarrow> - (2 ^ 63) \<le> n \<and> n < 2 ^ 64"
| "wire_json d (JArray vs) \<longleftrightarrow> (case d of 0 \<Rightarrow> False | Suc d \<Rightarrow> list_all (wire_json d) vs)"
| "wire_json d (JObject fs) \<longleftrightarrow>
     (case d of 0 \<Rightarrow> False | Suc d \<Rightarrow> distinct (map fst fs) \<and> list_all (\<lambda>(k, v). wire_json d v) fs)"
| "wire_json d _ \<longleftrightarrow> True"

definition json_wire_ok :: "crates \<Rightarrow> bool" where
  "json_wire_ok C \<longleftrightarrow>
     (\<forall>v. (wire_json 127 v \<longrightarrow> json_from_slice C (json_to_vec C v) = Some v) \<and>
          from_utf8 (json_to_vec C v) \<noteq> None)"

text \<open>A random generator that answers with as many bytes as it was asked for.\<close>

definition random_ok :: "(nat \<Rightarrow> u8 list result) \<Rightarrow> bool" where
  "random_ok rnd \<longleftrightarrow> (\<forall>n. pred_sum (\<lambda>_. True) (\<lambda>bs. length bs = n) (rnd n))"

lemma random_length: "random_ok rnd \<Longrightarrow> rnd n = Inr bs \<Longrightarrow> length bs = n"
  by (auto simp: random_ok_def dest!: spec [of _ n])

section \<open>Token values\<close>

lemma url_encoded:
  "url_format_ok C \<Longrightarrow> c \<in> set (url_encode C bs) \<Longrightarrow> \<not> is_control c \<and> c \<noteq> 59 \<and> c \<noteq> 61 \<and> is_ascii c"
  by (auto simp: url_format_ok_def list_all_iff char_simps dest!: spec [of _ bs] bspec)

lemma generate_token_text:
  assumes "tokenization_profile_ok p" "url_format_ok C" "generate_token C rnd p = Inr t"
  shows "\<not> blank t \<and> (\<forall>c \<in> set t. \<not> is_control c \<and> c \<noteq> 59 \<and> c \<noteq> 61)"
proof -
  from assms(3) obtain r where t: "t = tp_token_prefix p @ lit ''_'' @ url_encode C r"
    by (auto simp: generate_token_def bindR_eq_Inr)
  have "\<not> blank (lit ''_'')" by (simp add: blank_def lit_def char_simps)
  moreover have "\<forall>c \<in> set (lit ''_''). \<not> is_control c \<and> c \<noteq> 59 \<and> c \<noteq> 61"
    by (simp add: lit_def char_simps)
  moreover have "\<forall>c \<in> set (tp_token_prefix p). \<not> is_control c \<and> c \<noteq> 59 \<and> c \<noteq> 61"
    using assms(1) by (simp add: tokenization_profile_ok_def validate_token_prefix_ok)
  ultimately show ?thesis using url_encoded [OF assms(2)] by (auto simp: t)
qed

lemma generate_token_valid:
  assumes "tokenization_profile_ok p" "url_codec_ok C" "url_format_ok C" "random_ok rnd"
    and "generate_token C rnd p = Inr t"
  shows "validate_token_value C p t = Inr ()"
proof -
  from assms(5) obtain r where r: "rnd (tp_token_len p) = Inr r"
    and t: "t = (tp_token_prefix p @ lit ''_'') @ url_encode C r"
    by (auto simp: generate_token_def bindR_eq_Inr)
  have "validate_text_field f t = Inr ()" for f
    using generate_token_text [OF assms(1,3,5)] by (simp add: validate_text_field_ok)
  moreover have "starts_with (tp_token_prefix p @ lit ''_'') t" unfolding t by (rule starts_with_append)
  moreover have "drop (length (tp_token_prefix p @ lit ''_'')) t = url_encode C r" unfolding t by simp
  ultimately show ?thesis
    using url_codec [OF assms(2)] random_length [OF assms(4) r]
    by (simp add: validate_token_value_def Let_def)
qed

lemma validate_token_value_iff:
  "validate_token_value C p t = Inr () \<longleftrightarrow>
     validate_text_field [] t = Inr () \<and>
     (\<exists>enc r. t = tp_token_prefix p @ lit ''_'' @ enc \<and> url_decode C enc = Some r \<and> length r = tp_token_len p)"
  by (auto simp: validate_token_value_def bindR_unit_eq validate_text_field_ok Let_def starts_with_iff
      bindR_eq_Inr ok_or_eq_Inr)

section \<open>Additional authenticated data\<close>

lemma scalar_aad_key: "list_all is_aad_key_char k \<Longrightarrow> scalar_str k"
  by (rule scalar_str_ascii) (auto simp: list_all_iff is_aad_key_char_def char_simps)

lemma scalar_join: "scalar_str sep \<Longrightarrow> list_all scalar_str ps \<Longrightarrow> scalar_str (join sep ps)"
  by (induction sep ps rule: join.induct) (auto simp: scalar_str_def)

lemma scalar_aad:
  assumes "build_validated_aad fs = Inr aad" "\<forall>(k, v) \<in> set fs. scalar_str v"
  shows "scalar_str aad"
proof -
  have aad: "aad = join (lit '';'') (map (\<lambda>(k, v). k @ lit ''='' @ v) fs)"
    using assms(1) by (simp add: build_validated_aad_ok build_aad_def)
  have "scalar_str k" if "(k, v) \<in> set fs" for k v
    using assms(1) that by (auto simp: build_validated_aad_ok intro: scalar_aad_key)
  then have "list_all scalar_str (map (\<lambda>(k, v). k @ lit ''='' @ v) fs)"
    using assms(2) by (fastforce simp: list_all_iff scalar_str_lit)
  then show ?thesis unfolding aad by (intro scalar_join scalar_str_lit)
qed

section \<open>Token data\<close>

definition normal_payload :: "token_data_payload \<Rightarrow> token_data_payload" where
  "normal_payload p = p\<lparr>tdp_metadata := (if tdp_metadata p = Some JNull then None else tdp_metadata p)\<rparr>"

lemma payload_of_payload_json: "payload_of_json (payload_json p) = Some (normal_payload p)"
  by (cases "tdp_metadata p")
    (simp_all add: payload_json_def only_field_def metadata_field_def lit_def normal_payload_def)

lemma token_data_roundtrip_aux:
  assumes C: "b64_ok C" "json_wire_ok C" and E: "aead_ok E" and rnd: "random_ok rnd"
    and aad: "build_validated_aad fs = Inr aad" "fs \<noteq> []" "scalar_str aad"
    and payload: "tdp_profile payload = tp_name p" "wire_json 127 (payload_json payload)"
    and enc: "encrypt_token_data_with_key C E rnd p key aad payload = Inr data"
    and len: "str_len data \<le> STORAGE_TOKEN_ENVELOPE_MAX_CHARS"
  shows "decrypt_token_data_with_key C E p key aad data = Inr (normal_payload payload)"
proof -
  let ?m = "json_to_vec C (payload_json payload)"
  from enc obtain cipher nonce ct where cipher: "token_cipher p = Inr cipher"
    and nonce: "rnd (sc_nonce_size_bytes cipher) = Inr nonce"
    and ct: "encrypt_symmetric E (sc_algorithm cipher) ?m key nonce (utf8 aad) = Inr ct"
    and data: "data = envelope_text C ct nonce (utf8 aad)"
    by (auto simp: encrypt_token_data_with_key_def bindR_eq_Inr)
  have n: "length nonce = sc_nonce_size_bytes cipher" by (rule random_length [OF rnd nonce])
  have c: "0 < sc_nonce_size_bytes cipher"
    using cipher symmetric_cipher_Some by (auto simp: token_cipher_def ok_or_eq_Inr)
  have dec: "decrypt_symmetric E (sc_algorithm cipher) ct key nonce (utf8 aad) = Inr ?m"
    and tag: "16 \<le> length ct"
    using cipher aead_cipher [OF E _ ct] by (auto simp: token_cipher_def ok_or_eq_Inr)
  have "decode_base64_standard_envelope C f data STORAGE_TOKEN_ENVELOPE_MAX_CHARS (sc_nonce_size_bytes cipher) =
      Inr \<lparr>de_ciphertext = ct, de_nonce = nonce, de_aad = utf8 aad\<rparr>" for f
    unfolding data using C tag n c aad build_aad_text [OF aad(2,1)] len [unfolded data]
    by (intro decode_envelope_text) auto
  moreover obtain s where "from_utf8 ?m = Some s" using C(2) by (auto simp: json_wire_ok_def)
  moreover have "json_from_slice C ?m = Some (payload_json payload)"
    using C(2) payload(2) by (simp add: json_wire_ok_def)
  moreover have "tdp_profile (normal_payload payload) = tp_name p" using payload(1) by (simp add: normal_payload_def)
  ultimately show ?thesis
    using aad(3) by (simp add: decrypt_token_data_with_key_def cipher dec payload_of_payload_json)
qed

lemma decrypt_token_data_aad:
  assumes "decrypt_token_data_with_key C E p key aad data = Inr payload"
  shows "\<exists>env. decode_base64_standard_envelope C (lit ''tokens.data'') data STORAGE_TOKEN_ENVELOPE_MAX_CHARS
      (sc_nonce_size_bytes (the (symmetric_cipher (tp_cipher_algorithm p)))) = Inr env \<and>
      from_utf8 (de_aad env) = Some aad \<and> tdp_profile payload = tp_name p"
  using assms
  by (fastforce simp: decrypt_token_data_with_key_def token_cipher_def bindR_eq_Inr ok_or_eq_Inr split: if_splits)

lemma decode_envelope_unique:
  "decode_base64_standard_envelope C f v mx n = Inr e \<Longrightarrow>
   decode_base64_standard_envelope C f v mx n' = Inr e' \<Longrightarrow> e = e'"
  by (auto simp: decode_base64_standard_envelope_def bindR_eq_Inr split: if_splits prod.splits)

section \<open>Contexts\<close>

text \<open>What the AAD of a record names: key, profile, cipher, record and subject.\<close>

definition record_identity :: "token_context \<Rightarrow> ustr \<Rightarrow> ustr \<times> ustr \<times> ustr \<times> ustr \<times> ustr option" where
  "record_identity ctx hashid =
     (tp_kid (tc_profile ctx), tp_name (tc_profile ctx), tp_cipher_algorithm (tc_profile ctx), hashid,
      tc_subject ctx)"

definition tc_aad_fields :: "token_context \<Rightarrow> ustr \<Rightarrow> (ustr \<times> ustr) list" where
  "tc_aad_fields ctx hashid =
     [(lit ''version'', if tc_subject ctx = None then lit ''v1'' else lit ''v2''), (lit ''type'', TOKEN_DATA_TYPE),
      (lit ''kid'', tp_kid (tc_profile ctx)), (lit ''profile'', tp_name (tc_profile ctx)),
      (lit ''tokenization_version'', TOKENIZATION_VERSION_RANDOM_V1), (lit ''hashid'', hashid)] @
     (case tc_subject ctx of None \<Rightarrow> [] | Some s \<Rightarrow> [(lit ''subject'', s)]) @
     [(lit ''cipher'', tp_cipher_algorithm (tc_profile ctx))]"

lemma tc_aad_fields: "tc_aad ctx hashid = build_validated_aad (tc_aad_fields ctx hashid)" "tc_aad_fields ctx hashid \<noteq> []"
  by (simp_all add: tc_aad_def tc_aad_fields_def token_data_aad_def split: option.split)

lemma tc_aad_fields_inj:
  "tc_aad_fields ctx hashid = tc_aad_fields ctx' hashid' \<Longrightarrow> record_identity ctx hashid = record_identity ctx' hashid'"
  by (cases "tc_subject ctx"; cases "tc_subject ctx'") (simp_all add: tc_aad_fields_def record_identity_def)

lemma tc_aad_inj:
  "tc_aad ctx hashid = Inr aad \<Longrightarrow> tc_aad ctx' hashid' = Inr aad \<Longrightarrow>
     record_identity ctx hashid = record_identity ctx' hashid'"
  unfolding tc_aad_fields(1) by (blast intro: tc_aad_fields_inj build_validated_aad_inj)

lemma profile_scalars:
  assumes "tokenization_profile_ok p"
  shows "scalar_str (tp_kid p)" "scalar_str (tp_cipher_algorithm p)"
proof -
  show "scalar_str (tp_kid p)"
    using assms by (auto simp: tokenization_profile_ok_def validate_key_id_ok intro: scalar_str_ascii hex_ascii)
  obtain c where "symmetric_cipher (tp_cipher_algorithm p) = Some c"
    using assms by (auto simp: tokenization_profile_ok_def)
  then have "list_all is_ascii (tp_cipher_algorithm p)" using symmetric_cipher_Some by (auto simp: list_all_iff)
  then show "scalar_str (tp_cipher_algorithm p)" by (rule scalar_str_ascii)
qed

lemma mode_subject_scalar:
  "tc_validate_mode ctx (Some s) = Inr () \<Longrightarrow> scalar_str s"
  by (auto simp: tc_validate_mode_def validate_token_subject_mode_def bindR_unit_eq validate_subject_ok
      intro: scalar_str_lower_hex)

lemma scalar_tc_aad:
  assumes "tc_aad ctx hashid = Inr aad" "tc_validate_mode ctx (tc_subject ctx) = Inr ()"
    and p: "tokenization_profile_ok (tc_profile ctx)" and sc: "scalar_str (tp_name (tc_profile ctx))" "scalar_str hashid"
  shows "scalar_str aad"
proof -
  have "\<forall>(k, v) \<in> set (tc_aad_fields ctx hashid). scalar_str v"
    using profile_scalars [OF p] sc mode_subject_scalar [of ctx] assms(2)
    by (cases "tc_subject ctx")
      (simp_all add: tc_aad_fields_def scalar_str_lit TOKEN_DATA_TYPE_def TOKENIZATION_VERSION_RANDOM_V1_def)
  then show ?thesis using assms(1) unfolding tc_aad_fields(1) by (rule scalar_aad [rotated])
qed

lemma tc_roundtrip_aux:
  assumes "b64_ok C" "json_wire_ok C" "aead_ok E" "random_ok rnd"
    and p: "tokenization_profile_ok (tc_profile ctx)" "scalar_str (tp_name (tc_profile ctx))" "scalar_str hashid"
    and payload: "tdp_profile payload = tp_name (tc_profile ctx)" "wire_json 127 (payload_json payload)"
    and enc: "tc_encrypt C E rnd ctx hashid payload = Inr data"
    and len: "str_len data \<le> STORAGE_TOKEN_ENVELOPE_MAX_CHARS"
  shows "tc_decrypt C E ctx hashid data = Inr (normal_payload payload)"
proof -
  from enc obtain aad where mode: "tc_validate_mode ctx (tc_subject ctx) = Inr ()"
    and aad: "tc_aad ctx hashid = Inr aad"
    and e: "encrypt_token_data_with_key C E rnd (tc_profile ctx) (tc_data_key ctx) aad payload = Inr data"
    by (auto simp: tc_encrypt_def bindR_unit_eq bindR_eq_Inr)
  have "decrypt_token_data_with_key C E (tc_profile ctx) (tc_data_key ctx) aad data = Inr (normal_payload payload)"
    using assms(1-4) aad [unfolded tc_aad_fields(1)] tc_aad_fields(2) scalar_tc_aad [OF aad mode p] payload e len
    by (rule token_data_roundtrip_aux)
  then show ?thesis by (simp add: tc_decrypt_def mode aad)
qed

lemma tc_decrypt_bound_aux:
  assumes "tc_decrypt C E ctx hashid data = Inr payload" "tc_decrypt C E' ctx' hashid' data = Inr payload'"
  shows "record_identity ctx hashid = record_identity ctx' hashid'"
proof -
  obtain aad aad' where aad: "tc_aad ctx hashid = Inr aad" "tc_aad ctx' hashid' = Inr aad'"
    and d: "decrypt_token_data_with_key C E (tc_profile ctx) (tc_data_key ctx) aad data = Inr payload"
      "decrypt_token_data_with_key C E' (tc_profile ctx') (tc_data_key ctx') aad' data = Inr payload'"
    using assms by (auto simp: tc_decrypt_def bindR_unit_eq bindR_eq_Inr)
  have "aad = aad'"
    using decrypt_token_data_aad [OF d(1)] decrypt_token_data_aad [OF d(2)] decode_envelope_unique
    by (metis option.inject)
  then show ?thesis using aad tc_aad_inj by blast
qed

section \<open>Subject seeds\<close>

definition seed_aad_fields :: "tokenization_profile \<Rightarrow> ustr \<Rightarrow> (ustr \<times> ustr) list" where
  "seed_aad_fields p subject =
     [(lit ''version'', lit ''v1''), (lit ''type'', lit ''subject-seed''), (lit ''kid'', tp_kid p),
      (lit ''profile'', tp_name p), (lit ''subject'', subject), (lit ''cipher'', tp_cipher_algorithm p)]"

definition seed_identity :: "tokenization_profile \<Rightarrow> ustr \<Rightarrow> ustr \<times> ustr \<times> ustr \<times> ustr" where
  "seed_identity p subject = (tp_kid p, tp_name p, tp_cipher_algorithm p, subject)"

lemma seed_aad_ok:
  "seed_aad p subject = Inr aad \<longleftrightarrow>
     validate_subject subject = Inr () \<and> build_validated_aad (seed_aad_fields p subject) = Inr aad"
  by (simp add: seed_aad_def seed_aad_fields_def bindR_unit_eq)

lemma seed_aad_inj:
  "seed_aad p subject = Inr aad \<Longrightarrow> seed_aad p' subject' = Inr aad \<Longrightarrow> seed_identity p subject = seed_identity p' subject'"
  unfolding seed_aad_ok
  by (auto simp: seed_aad_fields_def seed_identity_def dest: build_validated_aad_inj)

lemma scalar_seed_aad:
  assumes "seed_aad p subject = Inr aad" "tokenization_profile_ok p" "scalar_str (tp_name p)"
  shows "scalar_str aad"
proof -
  have "scalar_str subject"
    using assms(1) by (auto simp: seed_aad_ok validate_subject_ok intro: scalar_str_lower_hex)
  then have "\<forall>(k, v) \<in> set (seed_aad_fields p subject). scalar_str v"
    using profile_scalars [OF assms(2)] assms(3) by (simp add: seed_aad_fields_def scalar_str_lit)
  then show ?thesis using assms(1) unfolding seed_aad_ok by (blast intro: scalar_aad)
qed

lemma validate_seed_envelope_len:
  "validate_seed_envelope C env = Inr () \<Longrightarrow> str_len env \<le> SUBJECT_SEED_ENVELOPE_MAX_CHARS"
  by (auto simp: validate_seed_envelope_def validate_base64_standard_envelope_segments_def
      split_base64_standard_envelope_segments_def bindR_eq_Inr split: if_splits)

lemma seed_envelope_valid:
  assumes C: "b64_ok C" and "16 \<le> length ct" "length nonce \<in> {12, 24}" "aad \<noteq> []"
    and "str_len (envelope_text C ct nonce aad) \<le> SUBJECT_SEED_ENVELOPE_MAX_CHARS"
  shows "validate_seed_envelope C (envelope_text C ct nonce aad) = Inr ()"
proof -
  have "ct \<noteq> []" "nonce \<noteq> []" using assms by auto
  with split_envelope_text [OF C this assms(4,5)] assms(2,3) show ?thesis
    by (auto simp: validate_seed_envelope_def validate_base64_standard_envelope_segments_def b64_segment_def
        envelope_text_ascii [OF C] b64_decode_q_def b64_codec [OF C])
qed

lemma create_seed_Inr:
  assumes "create_seed C E r1 r2 p subject = Inr env"
  obtains aad cipher seed nonce key ct where "seed_aad p subject = Inr aad"
    "symmetric_cipher (tp_cipher_algorithm p) = Some cipher" "r1 SUBJECT_SEED_BYTES = Inr seed"
    "r2 (sc_nonce_size_bytes cipher) = Inr nonce" "wrapping_key C p = Inr key"
    "encrypt_symmetric E (sc_algorithm cipher) (json_to_vec C (seed_payload_json (hex_encode C seed))) key nonce
       (utf8 aad) = Inr ct"
    "env = envelope_text C ct nonce (utf8 aad)" "validate_seed_envelope C env = Inr ()"
  using assms by (auto simp: create_seed_def bindR_eq_Inr ok_or_eq_Inr Let_def)

lemma seed_roundtrip_aux:
  assumes C: "b64_ok C" "hex_codec_ok C" "hex_format_ok C" "json_codec_ok C"
    and E: "aead_ok E" and rnd: "random_ok r1" "random_ok r2"
    and p: "tokenization_profile_ok p" "scalar_str (tp_name p)"
    and create: "create_seed C E r1 r2 p subject = Inr env"
  shows "\<exists>seed. r1 SUBJECT_SEED_BYTES = Inr seed \<and> open_authenticated_seed C E p subject env = Inr seed"
proof -
  obtain aad cipher seed nonce key ct where aad: "seed_aad p subject = Inr aad"
    and cipher: "symmetric_cipher (tp_cipher_algorithm p) = Some cipher" and seed: "r1 SUBJECT_SEED_BYTES = Inr seed"
    and nonce: "r2 (sc_nonce_size_bytes cipher) = Inr nonce" and key: "wrapping_key C p = Inr key"
    and ct: "encrypt_symmetric E (sc_algorithm cipher) (json_to_vec C (seed_payload_json (hex_encode C seed))) key
      nonce (utf8 aad) = Inr ct"
    and env: "env = envelope_text C ct nonce (utf8 aad)" and ok: "validate_seed_envelope C env = Inr ()"
    by (rule create_seed_Inr [OF create])
  have sc: "scalar_str aad" by (rule scalar_seed_aad [OF aad p])
  have nb: "\<not> blank aad"
    using aad build_aad_text [of "seed_aad_fields p subject" aad] by (auto simp: seed_aad_ok seed_aad_fields_def)
  have dec: "decrypt_symmetric E (sc_algorithm cipher) ct key nonce (utf8 aad) =
      Inr (json_to_vec C (seed_payload_json (hex_encode C seed)))" and tag: "16 \<le> length ct"
    using aead_cipher [OF E cipher ct] by simp_all
  have "decode_base64_standard_envelope C f env SUBJECT_SEED_ENVELOPE_MAX_CHARS (sc_nonce_size_bytes cipher) =
      Inr \<lparr>de_ciphertext = ct, de_nonce = nonce, de_aad = utf8 aad\<rparr>" for f
    unfolding env using C(1) tag sc nb random_length [OF rnd(2) nonce] symmetric_cipher_Some [OF cipher]
      validate_seed_envelope_len [OF ok, unfolded env]
    by (intro decode_envelope_text) auto
  moreover have "json_from_slice C (json_to_vec C (seed_payload_json (hex_encode C seed))) =
      Some (seed_payload_json (hex_encode C seed))"
    using C(4) by (rule json_codec) (simp add: seed_payload_json_def)
  moreover have "seed_payload_of_json (seed_payload_json (hex_encode C seed)) = Some (hex_encode C seed)"
    by (simp add: seed_payload_json_def)
  moreover have "length seed = 32" using random_length [OF rnd(1) seed] by (simp add: SUBJECT_SEED_BYTES_def)
  then have "validate_symmetric_key f (hex_encode C seed) SUBJECT_SEED_BYTES = Inr ()" for f
    using C(3) by (auto simp: validate_symmetric_key_ok SUBJECT_SEED_BYTES_def hex_format_ok_def list_all_iff char_simps)
  moreover have "hex_decode_q C (hex_encode C seed) = Inr seed"
    using hex_codec [OF C(2)] by (simp add: hex_decode_q_def)
  ultimately have "open_seed_inner C E p subject env = Inr seed"
    by (simp add: open_seed_inner_def ok cipher aad key dec)
  then show ?thesis using seed by (simp add: open_authenticated_seed_def)
qed

lemma open_authenticated_seed_aad:
  assumes "open_authenticated_seed C E p subject env = Inr seed"
  shows "\<exists>n aad d. decode_base64_standard_envelope C (lit ''subjects.seed'') env SUBJECT_SEED_ENVELOPE_MAX_CHARS n = Inr d \<and>
    seed_aad p subject = Inr aad \<and> de_aad d = utf8 aad"
  using assms
  by (auto simp: open_authenticated_seed_def open_seed_inner_def map_err_eq_Inr bindR_eq_Inr split: if_splits)

lemma open_seed_bound_aux:
  assumes "open_authenticated_seed C E p subject env = Inr seed" "open_authenticated_seed C E p' subject' env = Inr seed'"
    and "tokenization_profile_ok p" "scalar_str (tp_name p)" "tokenization_profile_ok p'" "scalar_str (tp_name p')"
  shows "seed_identity p subject = seed_identity p' subject'"
proof -
  obtain aad aad' where aad: "seed_aad p subject = Inr aad" "seed_aad p' subject' = Inr aad'" "utf8 aad = utf8 aad'"
    using open_authenticated_seed_aad [OF assms(1)] open_authenticated_seed_aad [OF assms(2)]
      decode_envelope_unique by metis
  then have "aad = aad'"
    using scalar_seed_aad [OF aad(1) assms(3,4)] scalar_seed_aad [OF aad(2) assms(5,6)] utf8_inject by blast
  then show ?thesis using aad seed_aad_inj by blast
qed

lemma seed_profile_hint_aux:
  assumes C: "b64_ok C" and rnd: "random_ok r2" and E: "aead_ok E"
    and p: "tokenization_profile_ok p" "scalar_str (tp_name p)"
    and create: "create_seed C E r1 r2 p subject = Inr env"
  shows "seed_profile_hint C env = Inr (tp_name p)"
proof -
  obtain aad cipher nonce key ct m where aad: "seed_aad p subject = Inr aad"
    and cipher: "symmetric_cipher (tp_cipher_algorithm p) = Some cipher"
    and nonce: "r2 (sc_nonce_size_bytes cipher) = Inr nonce"
    and ct: "encrypt_symmetric E (sc_algorithm cipher) m key nonce (utf8 aad) = Inr ct"
    and env: "env = envelope_text C ct nonce (utf8 aad)" and ok: "validate_seed_envelope C env = Inr ()"
    by (rule create_seed_Inr [OF create]) blast
  have fs: "build_validated_aad (seed_aad_fields p subject) = Inr aad" using aad by (simp add: seed_aad_ok)
  have "46 \<notin> set (b64_encode C bs)" for bs using b64_encoded [OF C] b64_char by blast
  then have "split_on 46 env = [b64_encode C ct, b64_encode C nonce, b64_encode C (utf8 aad)]"
    by (simp add: env envelope_text_def lit_def split_on_append split_on_absent)
  moreover have "parse_aad_fields aad = Inr (seed_aad_fields p subject)"
    by (rule aad_roundtrip_aux [OF fs]) (simp add: seed_aad_fields_def)
  moreover have "filter (\<lambda>(key, _). key = lit ''profile'') (seed_aad_fields p subject) = [(lit ''profile'', tp_name p)]"
    by (simp add: seed_aad_fields_def lit_def)
  moreover have "validate_aad_config_name f (tp_name p) = Inr ()" for f
    using p(1) by (simp add: tokenization_profile_ok_def validate_aad_config_name_ok)
  ultimately show ?thesis
    using scalar_seed_aad [OF aad p] b64_codec [OF C]
    by (simp add: seed_profile_hint_def ok list_get_def b64_decode_q_def)
qed

end
