(* ===== verification/Vault_Example.thy ===== *)
theory Vault_Example
  imports Tokens_Correct
begin

text \<open>
  A concrete instance of the parameters of the vault, at which its theorems are applied: hexadecimal
  in place of base64, an injective encoding of JSON that is short on given values, ciphers that
  append a tag, and generators of fixed bytes.
\<close>

definition vault_json :: "json list \<Rightarrow> json \<Rightarrow> u8 list" where
  "vault_json vs u =
     (let n = length (takeWhile (\<lambda>v. v \<noteq> u) vs) in
      replicate (Suc (if n < length vs then n else length vs + to_nat u)) 1)"

definition vault_unjson :: "json list \<Rightarrow> u8 list \<Rightarrow> json option" where
  "vault_unjson vs bs =
     Some (if length bs \<le> length vs then vs ! (length bs - 1) else from_nat (length bs - 1 - length vs))"

definition vault_crates :: "json list \<Rightarrow> crates" where
  "vault_crates vs = (example_crates JNull)
     \<lparr>b64_decode := (\<lambda>s. Some (unhex s)), b64_encode := (\<lambda>bs. concat (map hex_byte bs)),
      url_decode := (\<lambda>s. Some (unhex s)), url_encode := (\<lambda>bs. concat (map hex_byte bs)),
      json_to_vec := vault_json vs, json_to_vec_pretty := vault_json vs,
      json_from_slice := vault_unjson vs\<rparr>"

definition vault_ciphers :: ciphers where
  "vault_ciphers =
     \<lparr>encrypt_symmetric = (\<lambda>alg m key nonce aad. Inr (m @ replicate 16 0)),
      decrypt_symmetric = (\<lambda>alg c key nonce aad. Inr (take (length c - 16) c)),
      siv_start = (\<lambda>key aad. Inr ()),
      siv_process = (\<lambda>key aad m. Inr (replicate 16 0 @ m)),
      siv_finish = (\<lambda>key aad c. if 16 \<le> length c \<and> take 16 c = replicate 16 0
         then Inr (drop 16 c) else Inl BadAuthCode)\<rparr>"

definition fixed_random :: "nat \<Rightarrow> u8 list result" where
  "fixed_random n = Inr (replicate n 1)"

lemma vault_json_roundtrip: "vault_unjson vs (vault_json vs u) = Some u"
proof -
  have "vs ! length (takeWhile (\<lambda>v. v \<noteq> u) vs) = u" if "length (takeWhile (\<lambda>v. v \<noteq> u) vs) < length vs"
    using nth_length_takeWhile [OF that] by simp
  then show ?thesis by (simp add: vault_json_def vault_unjson_def Let_def)
qed

lemma vault_json_ones: "\<exists>n. vault_json vs u = replicate n 1"
  unfolding vault_json_def Let_def by blast

lemma vault_json_utf8: "from_utf8 (vault_json vs u) \<noteq> None"
proof -
  obtain n where n: "vault_json vs u = replicate n 1" using vault_json_ones by blast
  have "utf8 (replicate n 1) = replicate n (1 :: u8)" by (induction n) (simp_all add: utf8_char_def)
  moreover have "scalar_str (replicate n 1)" by (simp add: scalar_str_def list_all_iff scalar_value_def)
  ultimately have "from_utf8 (vault_json vs u) = Some (replicate n 1)" by (simp add: n from_utf8_Some)
  then show ?thesis by simp
qed

lemma hex_text: "c \<in> set (concat (map hex_byte bs)) \<Longrightarrow> is_lower_hexdigit c"
  using hex_byte_format(2) [of bs] by (auto simp: list_all_iff)

lemma vault_crates_ok:
  "b64_ok (vault_crates vs)" "url_codec_ok (vault_crates vs)" "url_format_ok (vault_crates vs)"
  "hex_codec_ok (vault_crates vs)" "hex_format_ok (vault_crates vs)" "json_codec_ok (vault_crates vs)"
  "json_wire_ok (vault_crates vs)" "hash_size_ok (vault_crates vs)"
proof -
  have h: "list_all P (concat (map hex_byte bs))" if "\<And>c. is_lower_hexdigit c \<Longrightarrow> P c" for P bs
    using that hex_text unfolding list_all_iff by blast
  have n: "concat (map hex_byte bs) = [] \<longleftrightarrow> bs = []" for bs by (cases bs) (auto simp: hex_byte_def)
  show "b64_ok (vault_crates vs)"
    by (simp add: b64_ok_def vault_crates_def unhex_hex n del: concat_eq_Nil_conv)
      (intro allI h, auto simp: is_b64_char_def char_simps)
  show "url_format_ok (vault_crates vs)"
    by (simp add: url_format_ok_def vault_crates_def) (intro allI h, auto simp: char_simps)
  show "url_codec_ok (vault_crates vs)" "json_codec_ok (vault_crates vs)" "json_wire_ok (vault_crates vs)"
    by (simp_all add: url_codec_ok_def json_codec_ok_def json_wire_ok_def vault_crates_def unhex_hex
        vault_json_roundtrip vault_json_utf8)
  show "hex_codec_ok (vault_crates vs)" "hex_format_ok (vault_crates vs)" "hash_size_ok (vault_crates vs)"
    using example_crates_codecs(2,4,5) [of JNull]
    by (simp_all add: hex_codec_ok_def hex_format_ok_def hash_size_ok_def vault_crates_def)
qed

lemma vault_ciphers_ok: "aead_ok vault_ciphers" "siv_ok vault_ciphers"
proof -
  show "aead_ok vault_ciphers" by (auto simp: aead_ok_def vault_ciphers_def)
  have "replicate 16 0 @ m = c \<longleftrightarrow> (16 \<le> length c \<and> take 16 c = replicate 16 0) \<and> drop 16 c = m" for c m :: "u8 list"
    by (metis append_eq_conv_conj append_take_drop_id length_append length_replicate le_add1)
  then have "(Inr (replicate 16 0 @ m) = (Inr c :: u8 list result)) =
      ((if 16 \<le> length c \<and> take 16 c = replicate 16 0 then Inr (drop 16 c) else Inl BadAuthCode) = Inr m)" for c m
    by auto
  then show "siv_ok vault_ciphers" by (auto simp: siv_ok_def vault_ciphers_def)
qed

lemma fixed_random_ok: "random_ok fixed_random"
  by (simp add: random_ok_def fixed_random_def)

lemma aes_256: "symmetric_cipher (lit ''AES-256/GCM'') =
    Some \<lparr>sc_algorithm = lit ''AES-256/GCM'', sc_key_size_bytes = 32, sc_nonce_size_bytes = 12\<rparr>"
  by (simp add: symmetric_cipher_def lit_def)

lemma ascii_aad:
  assumes "list_all (\<lambda>(k, v). list_all is_ascii k \<and> list_all is_ascii v) fs"
  shows "list_all is_ascii (build_aad fs)"
proof -
  have "list_all is_ascii (join sep ps)" if "list_all is_ascii sep" "list_all (list_all is_ascii) ps" for sep ps
    using that by (induction sep ps rule: join.induct) auto
  moreover have "list_all (list_all is_ascii) (map (\<lambda>(k, v). k @ lit ''='' @ v) fs)"
    using assms by (induction fs) (auto simp: lit_def is_ascii_def)
  moreover have "list_all is_ascii (lit '';'')" by (simp add: lit_def is_ascii_def)
  ultimately show ?thesis by (simp only: build_aad_def)
qed

lemma envelope_len:
  "length (utf8 aad) = n \<Longrightarrow>
     str_len (envelope_text (vault_crates vs) ct nonce (utf8 aad)) = 2 * length ct + 2 * length nonce + 2 * n + 2"
  using hex_byte_format(1)
  by (subst str_len_ascii [OF envelope_text_ascii [OF vault_crates_ok(1)]])
    (simp add: envelope_text_def vault_crates_def lit_def del: length_concat)

end
