(* ===== verification/Token_Guarantees.thy ===== *)
theory Token_Guarantees
  imports Vault_Example
begin

text \<open>
  The properties of tokens and subject seeds, for the profiles the loader accepts.
\<close>

section \<open>An example\<close>

definition example_input :: tokenization_profile_input where
  "example_input = \<lparr>tpi_name = lit ''pan'', tpi_kid = example_kid, tpi_token_prefix = lit ''tok'',
     tpi_token_len = 32, tpi_max_plaintext_len = 64, tpi_one_time = False, tpi_subject_mode = Stored\<rparr>"

definition token_derive :: "token_key_request \<Rightarrow> derived_tokenization_keys result" where
  "token_derive req = Inr \<lparr>dtk_hash_key = replicate 32 5, dtk_data_key = replicate 32 6,
     dtk_cipher_algorithm = lit ''AES-256/GCM''\<rparr>"

definition example_profile :: tokenization_profile where
  "example_profile = \<lparr>tp_name = lit ''pan'', tp_kid = example_kid, tp_token_prefix = lit ''tok'',
     tp_token_len = 32, tp_max_plaintext_len = 64, tp_one_time = False, tp_subject_mode = Stored,
     tp_cipher_algorithm = lit ''AES-256/GCM'', tp_hash_key = replicate 32 5, tp_data_key = replicate 32 6\<rparr>"

definition token_subject :: ustr where "token_subject = replicate 64 98"

definition example_context :: token_context where
  "example_context = tc_with_subject example_profile
     \<lparr>stk_subject = token_subject, stk_hash_key = replicate 32 7, stk_data_key = replicate 32 8\<rparr>"

definition example_payload :: token_data_payload where
  "example_payload = \<lparr>tdp_profile = lit ''pan'', tdp_plaintext = lit ''4111'', tdp_metadata = None,
     tdp_created_at = lit ''7''\<rparr>"

abbreviation token_crates :: crates where
  "token_crates \<equiv> vault_crates [payload_json example_payload, seed_payload_json (concat (map hex_byte (replicate 32 1)))]"

lemma example_loaded:
  "validate_tokenization_profiles (\<lambda>_. True) token_derive [example_input] =
     Inr (tokenization_from_profiles [example_profile])"
  "tokenization_get (tokenization_from_profiles [example_profile]) (lit ''pan'') = Some example_profile"
proof -
  have "check_tokenization_input (\<lambda>_. True) example_input = Inr ()"
    by (simp add: check_tokenization_input_ok example_input_def validate_aad_config_name_ok
        validate_token_prefix_ok example_key_id TOKEN_LEN_MIN_BYTES_def TOKEN_PLAINTEXT_MAX_LEN_def
        CONFIG_NAME_MAX_CHARS_def lit_def char_simps)
  moreover have "build_tokenization_profile token_derive example_input = Inr example_profile"
    by (simp add: build_tokenization_profile_def token_derive_def aes_256 TOKEN_KEY_SIZE_BYTES_def
        example_input_def example_profile_def)
  ultimately show "validate_tokenization_profiles (\<lambda>_. True) token_derive [example_input] =
      Inr (tokenization_from_profiles [example_profile])"
    by (simp add: validate_tokenization_profiles_def)
  show "tokenization_get (tokenization_from_profiles [example_profile]) (lit ''pan'') = Some example_profile"
    by (simp add: tokenization_get_def tokenization_from_profiles_def index_by_name_def list_get_def example_profile_def)
qed

lemma example_profile_ok: "tokenization_profile_ok example_profile"
  using loaded_profile_ok [OF example_loaded] by simp

lemma example_subject_ok: "validate_subject token_subject = Inr ()"
  by (simp add: validate_subject_ok token_subject_def list_all_iff char_simps)

lemma example_names: "scalar_str (tp_name example_profile)"
  by (simp add: example_profile_def scalar_str_lit)

definition example_seed_envelope :: ustr where
  "example_seed_envelope = envelope_text token_crates ([1, 1] @ replicate 16 0) (replicate 12 1)
     (utf8 (build_aad (seed_aad_fields example_profile token_subject)))"

lemma example_seed_aad:
  "seed_aad example_profile token_subject = Inr (build_aad (seed_aad_fields example_profile token_subject))"
  "length (utf8 (build_aad (seed_aad_fields example_profile token_subject))) \<le> 300"
proof -
  have "build_validated_aad (seed_aad_fields example_profile token_subject) =
      Inr (build_aad (seed_aad_fields example_profile token_subject))"
    by (simp add: build_validated_aad_ok seed_aad_fields_def example_profile_def token_subject_def example_kid_def
        blank_def list_all_iff lit_def is_aad_key_char_def char_simps)
  then show "seed_aad example_profile token_subject = Inr (build_aad (seed_aad_fields example_profile token_subject))"
    by (simp add: seed_aad_ok example_subject_ok)
  have "list_all is_ascii (build_aad (seed_aad_fields example_profile token_subject))"
    by (rule ascii_aad) (simp add: seed_aad_fields_def example_profile_def token_subject_def example_kid_def
        lit_def is_ascii_def list_all_iff)
  from str_len_ascii [OF this] show "length (utf8 (build_aad (seed_aad_fields example_profile token_subject))) \<le> 300"
    by (simp add: str_len_def build_aad_def seed_aad_fields_def example_profile_def token_subject_def example_kid_def lit_def)
qed

lemma example_seed:
  "create_seed token_crates vault_ciphers fixed_random fixed_random example_profile token_subject =
     Inr example_seed_envelope"
proof -
  let ?C = token_crates and ?aad = "build_aad (seed_aad_fields example_profile token_subject)"
  have "\<exists>info. subject_key_info example_profile (lit ''subject-wrap'') = Inr info"
    by (simp add: subject_key_info_def build_validated_aad_ok example_profile_def example_kid_def
        blank_def list_all_iff lit_def is_aad_key_char_def char_simps)
  then have "wrapping_key ?C example_profile = Inr (replicate 32 5)"
    by (auto simp: wrapping_key_def vault_crates_def example_crates_def aes_256 example_profile_def)
  moreover have "json_to_vec ?C (seed_payload_json (hex_encode ?C (replicate 32 1))) = [1, 1]"
    by (simp add: vault_crates_def example_crates_def vault_json_def seed_payload_json_def payload_json_def)
  moreover have "validate_seed_envelope ?C example_seed_envelope = Inr ()"
    unfolding example_seed_envelope_def
    using example_seed_aad(2) envelope_len [OF refl] build_aad_text [of "seed_aad_fields example_profile token_subject"]
      example_seed_aad(1)
    by (intro seed_envelope_valid vault_crates_ok)
      (auto simp: SUBJECT_SEED_ENVELOPE_MAX_CHARS_def utf8_eq_Nil seed_aad_ok seed_aad_fields_def)
  moreover have "tp_cipher_algorithm example_profile = lit ''AES-256/GCM''" by (simp add: example_profile_def)
  ultimately show ?thesis
    by (simp add: create_seed_def example_seed_aad aes_256 fixed_random_def SUBJECT_SEED_BYTES_def vault_ciphers_def
        example_seed_envelope_def Let_def)
qed

lemma example_context_mode:
  "tc_validate_mode example_context (tc_subject example_context) = Inr ()"
  by (simp add: tc_validate_mode_def validate_token_subject_mode_def tc_subject_def example_context_def
      tc_with_subject_def example_subject_ok example_profile_def del: validate_subject_ok)

definition token_hashid :: ustr where "token_hashid = replicate 64 99"

lemma example_token_aad:
  "tc_aad example_context token_hashid = Inr (build_aad (tc_aad_fields example_context token_hashid))"
  "length (utf8 (build_aad (tc_aad_fields example_context token_hashid))) \<le> 400"
proof -
  note defs = tc_aad_fields_def example_context_def tc_with_subject_def tc_subject_def example_profile_def
    token_subject_def token_hashid_def example_kid_def TOKEN_DATA_TYPE_def TOKENIZATION_VERSION_RANDOM_V1_def
  show "tc_aad example_context token_hashid = Inr (build_aad (tc_aad_fields example_context token_hashid))"
    by (simp add: tc_aad_fields(1) build_validated_aad_ok defs blank_def list_all_iff lit_def is_aad_key_char_def char_simps)
  have "list_all is_ascii (build_aad (tc_aad_fields example_context token_hashid))"
    by (rule ascii_aad) (simp add: defs lit_def is_ascii_def list_all_iff)
  from str_len_ascii [OF this] show "length (utf8 (build_aad (tc_aad_fields example_context token_hashid))) \<le> 400"
    by (simp add: str_len_def build_aad_def defs lit_def)
qed

definition example_record :: ustr where
  "example_record = envelope_text token_crates ([1] @ replicate 16 0) (replicate 12 1)
     (utf8 (build_aad (tc_aad_fields example_context token_hashid)))"

lemma token_encrypt:
  "tc_encrypt token_crates vault_ciphers fixed_random example_context token_hashid example_payload = Inr example_record"
  "str_len example_record \<le> STORAGE_TOKEN_ENVELOPE_MAX_CHARS"
proof -
  have "json_to_vec token_crates (payload_json example_payload) = [1]" by (simp add: vault_crates_def vault_json_def)
  moreover have "token_cipher (tc_profile example_context) =
      Inr \<lparr>sc_algorithm = lit ''AES-256/GCM'', sc_key_size_bytes = 32, sc_nonce_size_bytes = 12\<rparr>"
    by (simp add: token_cipher_def example_context_def tc_with_subject_def example_profile_def aes_256)
  ultimately show "tc_encrypt token_crates vault_ciphers fixed_random example_context token_hashid example_payload = Inr example_record"
    by (simp add: tc_encrypt_def example_context_mode example_token_aad(1) encrypt_token_data_with_key_def
        fixed_random_def vault_ciphers_def example_record_def)
  show "str_len example_record \<le> STORAGE_TOKEN_ENVELOPE_MAX_CHARS"
    unfolding example_record_def using envelope_len [OF refl] example_token_aad(2)
    by (simp add: STORAGE_TOKEN_ENVELOPE_MAX_CHARS_def)
qed

lemma token_record_facts:
  "tc_profile example_context = example_profile" "scalar_str token_hashid" "tdp_profile example_payload = lit ''pan''"
  "wire_json 127 (payload_json example_payload)" "normal_payload example_payload = example_payload"
proof -
  show "tc_profile example_context = example_profile" by (simp add: example_context_def tc_with_subject_def)
  show "scalar_str token_hashid" by (simp add: token_hashid_def scalar_str_def list_all_iff scalar_value_def)
  show "tdp_profile example_payload = lit ''pan''" by (simp add: example_payload_def)
  show "wire_json 127 (payload_json example_payload)"
    by (simp add: payload_json_def example_payload_def lit_def numeral_eq_Suc)
  show "normal_payload example_payload = example_payload" by (simp add: normal_payload_def example_payload_def)
qed

section \<open>Properties\<close>

text \<open>C17: a stored token record gives back its payload in its own context and nowhere else. What was encrypted
  under a context of a loaded profile, for a token identifier, decrypts under that context and identifier to the
  payload (metadata of an explicit null is read back as absent); a context of another key id, profile, cipher or
  subject, whatever its keys, or another token identifier is answered with an error.\<close>

theorem token_record_bound:
  assumes crates: "b64_ok C" "json_wire_ok C" "aead_ok E" "random_ok rnd"
    and loaded: "validate_tokenization_profiles loaded derive inputs = Inr st" "tokenization_get st n = Some p"
    and ctx: "tc_profile ctx = p" "scalar_str n" "scalar_str hashid"
    and payload: "tdp_profile payload = n" "wire_json 127 (payload_json payload)"
    and stored: "tc_encrypt C E rnd ctx hashid payload = Inr data" "str_len data \<le> STORAGE_TOKEN_ENVELOPE_MAX_CHARS"
  shows "tc_decrypt C E ctx hashid data = Inr (normal_payload payload) \<and>
    (\<forall>E' ctx' hashid'.
       (hashid', tc_subject ctx', tp_kid (tc_profile ctx'), tp_name (tc_profile ctx'), tp_cipher_algorithm (tc_profile ctx')) \<noteq>
       (hashid, tc_subject ctx, tp_kid p, n, tp_cipher_algorithm p) \<longrightarrow>
       isl (tc_decrypt C E' ctx' hashid' data))"
proof -
  have p: "tokenization_profile_ok p" "tp_name p = n" using loaded_profile_ok [OF loaded] by simp_all
  have dec: "tc_decrypt C E ctx hashid data = Inr (normal_payload payload)"
    by (rule tc_roundtrip_aux [OF crates _ _ ctx(3) _ payload(2) stored]) (use p ctx payload(1) in simp_all)
  have "record_identity ctx hashid = record_identity ctx' hashid'" if "\<not> isl (tc_decrypt C E' ctx' hashid' data)" for E' ctx' hashid'
    using tc_decrypt_bound_aux [OF dec] that by (cases "tc_decrypt C E' ctx' hashid' data") auto
  then show ?thesis using dec ctx(1) p(2) by (fastforce simp: record_identity_def)
qed

theorem token_record_bound_witness:
  "tc_decrypt token_crates vault_ciphers example_context token_hashid example_record = Inr example_payload \<and>
   isl (tc_decrypt token_crates vault_ciphers example_context [] example_record)"
proof -
  have "[] \<noteq> token_hashid" by (simp add: token_hashid_def)
  then show ?thesis
    using token_record_bound [OF vault_crates_ok(1,7) vault_ciphers_ok(1) fixed_random_ok example_loaded
        token_record_facts(1) scalar_str_lit token_record_facts(2-4) token_encrypt]
    by (simp add: token_record_facts(5))
qed

text \<open>C18: a subject's seed envelope gives back the seed. For a loaded profile, opening the envelope that was
  created for a subject yields the generated seed, the token keys of the subject are those derived from it, and
  the hint in the envelope names the profile to open it with.\<close>

theorem subject_seed_roundtrip:
  assumes "b64_ok C" and "hex_codec_ok C" and "hex_format_ok C" and "json_codec_ok C" and "aead_ok E"
    and "random_ok r1" and "random_ok r2"
    and "validate_tokenization_profiles loaded derive inputs = Inr st" and "tokenization_get st n = Some p"
    and "scalar_str n" and "create_seed C E r1 r2 p subject = Inr envelope"
  shows "\<exists>seed. r1 SUBJECT_SEED_BYTES = Inr seed \<and> open_authenticated_seed C E p subject envelope = Inr seed \<and>
    open_seed C E p subject envelope = map_err (\<lambda>_. invalid_stored_seed) (derive_token_keys C p subject seed) \<and>
    seed_profile_hint C envelope = Inr n"
proof -
  have p: "tokenization_profile_ok p" "tp_name p = n" using loaded_profile_ok [OF assms(8,9)] by simp_all
  obtain seed where seed: "r1 SUBJECT_SEED_BYTES = Inr seed" "open_authenticated_seed C E p subject envelope = Inr seed"
    using seed_roundtrip_aux [OF assms(1-7) p(1) _ assms(11)] assms(10) p(2) by auto
  moreover have "seed_profile_hint C envelope = Inr n"
    using seed_profile_hint_aux [OF assms(1,7,5) p(1) _ assms(11)] assms(10) p(2) by simp
  ultimately show ?thesis by (simp add: open_seed_def)
qed

theorem subject_seed_roundtrip_witness:
  "open_authenticated_seed token_crates vault_ciphers example_profile token_subject example_seed_envelope =
     Inr (replicate 32 1)"
  using subject_seed_roundtrip [OF vault_crates_ok(1,4,5,6) vault_ciphers_ok(1) fixed_random_ok fixed_random_ok
      example_loaded scalar_str_lit example_seed]
  by (auto simp: fixed_random_def SUBJECT_SEED_BYTES_def)

text \<open>C19: a seed is of no use outside its context. Opening a created envelope under another key id, profile,
  cipher or subject is the error \<open>stored subject seed is invalid\<close>, the only error that opening can give.\<close>

theorem subject_seed_isolated:
  assumes "b64_ok C" and "hex_codec_ok C" and "hex_format_ok C" and "json_codec_ok C" and "aead_ok E"
    and "random_ok r1" and "random_ok r2"
    and "validate_tokenization_profiles loaded derive inputs = Inr st"
    and "tokenization_get st n = Some p" and "tokenization_get st n' = Some p'" and "scalar_str n" and "scalar_str n'"
    and "create_seed C E r1 r2 p subject = Inr envelope"
    and "(tp_kid p', n', tp_cipher_algorithm p', subject') \<noteq> (tp_kid p, n, tp_cipher_algorithm p, subject)"
  shows "open_seed C E p' subject' envelope = Inl invalid_stored_seed"
proof -
  have p: "tokenization_profile_ok p" "tp_name p = n" "tokenization_profile_ok p'" "tp_name p' = n'"
    using loaded_profile_ok [OF assms(8,9)] loaded_profile_ok [OF assms(8,10)] by simp_all
  obtain seed where seed: "open_authenticated_seed C E p subject envelope = Inr seed"
    using seed_roundtrip_aux [OF assms(1-7) p(1) _ assms(13)] assms(11) p(2) by auto
  have "open_authenticated_seed C E p' subject' envelope \<noteq> Inr x" for x
    using open_seed_bound_aux [OF _ seed p(3) _ p(1)] assms(11,12,14) p(2,4) by (auto simp: seed_identity_def)
  then have "open_authenticated_seed C E p' subject' envelope = Inl invalid_stored_seed"
    by (cases "open_seed_inner C E p' subject' envelope") (auto simp: open_authenticated_seed_def)
  then show ?thesis by (simp add: open_seed_def)
qed

lemma other_subject: "replicate 64 97 \<noteq> token_subject"
  by (simp add: token_subject_def replicate_eq_replicate)

theorem subject_seed_isolated_witness:
  "open_seed token_crates vault_ciphers example_profile (replicate 64 97) example_seed_envelope = Inl invalid_stored_seed"
  using subject_seed_isolated [OF vault_crates_ok(1,4,5,6) vault_ciphers_ok(1) fixed_random_ok fixed_random_ok
      example_loaded(1,2,2) scalar_str_lit scalar_str_lit example_seed, of "replicate 64 97"] other_subject
  by blast

end
