(* ===== verification/Storage_Correct.thy ===== *)
theory Storage_Correct
  imports Storage
begin

text \<open>
  What the storage operations do to the tables. \<open>vault_of\<close> abstracts the tables to maps by primary
  key; the lemmas on the single operations say which map a success leaves and that a failure leaves
  the tables alone, whichever requests to the database fail. The locale \<open>atomic_operation\<close> is that
  contract; it is interpreted on each operation, and an invariant of the tables is kept by every
  operation whose abstract effect keeps it.
\<close>

section \<open>Outcomes of operations\<close>

named_theorems sop_simps \<open>outcomes of composed storage operations\<close>

lemma bindS_Inr [sop_simps]:
  "bindS m f s = (s', Inr y) \<longleftrightarrow> (\<exists>s1 x. m s = (s1, Inr x) \<and> f x s1 = (s', Inr y))"
  by (auto simp: bindS_def split: prod.splits sum.splits)

lemma bindS_Inl [sop_simps]:
  "bindS m f s = (s', Inl e) \<longleftrightarrow> m s = (s', Inl e) \<or> (\<exists>s1 x. m s = (s1, Inr x) \<and> f x s1 = (s', Inl e))"
  by (auto simp: bindS_def split: prod.splits sum.splits)

lemma liftS_eq [sop_simps]: "liftS r s = (s', r') \<longleftrightarrow> s' = s \<and> r = r'"
  by (auto simp: liftS_def)

lemma retS_eq [sop_simps]: "retS x s = (s', r) \<longleftrightarrow> s' = s \<and> r = Inr x"
  by (auto simp: retS_def)

lemma request_Inr [sop_simps]:
  "request err env stmt s = (s', Inr x) \<longleftrightarrow>
     se_fault env (sd_calls s) = None \<and>
     (\<exists>db. stmt (sd_db s) = Inr (db, x) \<and> s' = \<lparr>sd_db = db, sd_calls = Suc (sd_calls s)\<rparr>)"
  by (cases s) (auto simp: request_def Let_def split: option.splits sum.splits prod.splits)

lemma request_Inl: "request err env stmt s = (s', Inl e) \<Longrightarrow> sd_db s' = sd_db s"
  by (auto simp: request_def Let_def split: option.splits sum.splits prod.splits)

lemma transaction_Inr:
  assumes "transaction err env body s = (s', Inr x)"
  obtains s1 s2 where "sd_db s1 = sd_db s" "body s1 = (s2, Inr x)" "sd_db s' = sd_db s2"
proof -
  from assms obtain s1 s2 u v where "request err env roundtrip s = (s1, Inr u)" "body s1 = (s2, Inr x)"
    "request err env roundtrip s2 = (s', Inr v)"
    by (auto simp: transaction_def split: prod.splits sum.splits)
  then show ?thesis using that [of s1 s2] by (auto simp: sop_simps roundtrip_def)
qed

lemma transaction_Inl: "transaction err env body s = (s', Inl e) \<Longrightarrow> sd_db s' = sd_db s"
  by (auto simp: transaction_def roundtrip_def sop_simps dest: request_Inl split: prod.splits sum.splits)

text \<open>Without faults of the database a request does what its statement does.\<close>

definition reliable :: "storage_env \<Rightarrow> bool" where
  "reliable env \<longleftrightarrow> (\<forall>n. se_fault env n = None)"

lemma reliable_request:
  "reliable env \<Longrightarrow> request err env stmt s =
     (case stmt (sd_db s) of
        Inl m \<Rightarrow> (s\<lparr>sd_calls := Suc (sd_calls s)\<rparr>, Inl (err (Foreign m)))
      | Inr (db, x) \<Rightarrow> (\<lparr>sd_db = db, sd_calls = Suc (sd_calls s)\<rparr>, Inr x))"
  by (cases s) (auto simp: reliable_def request_def Let_def split: sum.splits)

lemma reliable_transaction:
  assumes "reliable env" "body (s\<lparr>sd_calls := Suc (sd_calls s)\<rparr>) = (s2, Inr x)"
  shows "\<exists>s'. transaction err env body s = (s', Inr x) \<and> sd_db s' = sd_db s2"
  using assms by (cases s) (simp add: transaction_def reliable_request roundtrip_def)

section \<open>The abstract vault\<close>

record vault =
  va_opskeys :: "ustr \<rightharpoonup> ustr \<times> ustr"
  va_tokens :: "ustr \<times> ustr \<rightharpoonup> ustr \<times> ustr option"
  va_indexes :: "(ustr \<times> ustr) set"
  va_subjects :: "ustr \<times> ustr \<rightharpoonup> ustr"

definition opskeys_map :: "ops_key_row list \<Rightarrow> (ustr \<rightharpoonup> ustr \<times> ustr)" where
  "opskeys_map rows = map_of (map (\<lambda>r. (ok_kid r, ok_keys r, ok_properties r)) rows)"

definition tokens_map :: "token_row list \<Rightarrow> (ustr \<times> ustr \<rightharpoonup> ustr \<times> ustr option)" where
  "tokens_map rows = map_of (map (\<lambda>r. (token_key r, tr_data r, tr_subject r)) rows)"

definition subjects_map :: "subject_row list \<Rightarrow> (ustr \<times> ustr \<rightharpoonup> ustr)" where
  "subjects_map rows = map_of (map (\<lambda>r. (subject_key r, sr_seed r)) rows)"

definition vault_of :: "database \<Rightarrow> vault" where
  "vault_of db =
     \<lparr>va_opskeys = opskeys_map (db_opskeys db), va_tokens = tokens_map (db_tokens db),
      va_indexes = index_key ` set (db_indexes db), va_subjects = subjects_map (db_subjects db)\<rparr>"

text \<open>The primary keys of the schema.\<close>

definition keys_ok :: "database \<Rightarrow> bool" where
  "keys_ok db \<longleftrightarrow>
     distinct (map ok_kid (db_opskeys db)) \<and> distinct (map token_key (db_tokens db)) \<and>
     distinct (map index_key (db_indexes db)) \<and> distinct (map subject_key (db_subjects db))"

lemma map_of_filter_key:
  "distinct (map k rows) \<Longrightarrow>
   map_of (map (\<lambda>r. (k r, f r)) (filter P rows)) x =
     (case find (\<lambda>r. k r = x) rows of None \<Rightarrow> None | Some r \<Rightarrow> if P r then Some (f r) else None)"
proof (induction rows)
  case (Cons r rows)
  show ?case
  proof (cases "k r = x")
    case True
    with Cons.prems have "map_of (map (\<lambda>r. (k r, f r)) (filter P rows)) x = None"
      by (auto simp: map_of_eq_None_iff)
    with True show ?thesis by simp
  qed (use Cons in auto)
qed simp

lemma map_of_find: "map_of (map (\<lambda>r. (k r, f r)) rows) x = map_option f (find (\<lambda>r. k r = x) rows)"
  by (induction rows) auto

lemma tokens_map_find:
  "tokens_map rows x = map_option (\<lambda>r. (tr_data r, tr_subject r)) (find (\<lambda>r. token_key r = x) rows)"
  unfolding tokens_map_def by (rule map_of_find)

lemma subjects_map_find: "subjects_map rows x = map_option sr_seed (find (\<lambda>r. subject_key r = x) rows)"
  unfolding subjects_map_def by (rule map_of_find)

lemma opskeys_map_find:
  "opskeys_map rows x = map_option (\<lambda>r. (ok_keys r, ok_properties r)) (find (\<lambda>r. ok_kid r = x) rows)"
  unfolding opskeys_map_def by (rule map_of_find)

lemma tokens_map_None: "tokens_map rows x = None \<longleftrightarrow> x \<notin> token_key ` set rows"
  by (force simp: tokens_map_def map_of_eq_None_iff)

lemma tokens_map_filter:
  assumes "distinct (map token_key rows)"
  shows "tokens_map (filter P rows) x =
    (case find (\<lambda>r. token_key r = x) rows of None \<Rightarrow> None | Some r \<Rightarrow> if P r then tokens_map rows x else None)"
  using map_of_filter_key [OF assms, of "\<lambda>r. (tr_data r, tr_subject r)" P x] tokens_map_find [of rows x]
  by (auto simp: tokens_map_def split: option.splits)

lemma find_key: "find (\<lambda>r. k r = x) rows = Some r \<Longrightarrow> r \<in> set rows \<and> k r = x"
  by (auto simp: find_Some_iff)

lemma find_unique: "distinct (map k rows) \<Longrightarrow> r \<in> set rows \<Longrightarrow> find (\<lambda>x. k x = k r) rows = Some r"
  by (induction rows) (auto simp: image_iff)

section \<open>Saving tokens\<close>

lemma insert_tokens_ok:
  assumes "for_eachS (\<lambda>r. execute env (sql_insert_token env r)) records s = (s', Inr ())"
  shows "sd_db s' = (sd_db s)\<lparr>db_tokens := db_tokens (sd_db s) @ records\<rparr> \<and>
    distinct (map token_key records) \<and>
    token_key ` set records \<inter> token_key ` set (db_tokens (sd_db s)) = {}"
  using assms
proof (induction records arbitrary: s)
  case (Cons r records)
  then obtain s1 where 1: "execute env (sql_insert_token env r) s = (s1, Inr ())"
    and 2: "for_eachS (\<lambda>r. execute env (sql_insert_token env r)) records s1 = (s', Inr ())"
    by (auto simp: sop_simps)
  from 1 have "sd_db s1 = (sd_db s)\<lparr>db_tokens := db_tokens (sd_db s) @ [r]\<rparr>"
    "token_key r \<notin> token_key ` set (db_tokens (sd_db s))"
    by (auto simp: sop_simps sql_insert_token_def split: if_splits)
  with Cons.IH [OF 2] show ?case by auto
qed (simp add: sop_simps)

lemma check_generations_ok:
  assumes "for_eachS (check_generation env) guards s = (s', Inr ())"
  shows "sd_db s' = sd_db s \<and>
    list_all (\<lambda>g. subjects_map (db_subjects (sd_db s)) (wg_kid g, wg_subject g) = Some (wg_seed g)) guards"
  using assms
proof (induction guards arbitrary: s)
  case (Cons g guards)
  then obtain s1 where 1: "check_generation env g s = (s1, Inr ())"
    and 2: "for_eachS (check_generation env) guards s1 = (s', Inr ())" by (auto simp: sop_simps)
  from 1 have "sd_db s1 = sd_db s"
    "subjects_map (db_subjects (sd_db s)) (wg_kid g, wg_subject g) = Some (wg_seed g)"
    by (auto simp: check_generation_def sop_simps sql_select_subject_def check_subject_generation_def
        subjects_map_find bindR_eq_Inr ok_or_eq_Inr split: if_splits)
  with Cons.IH [OF 2] show ?case by simp
qed (simp add: sop_simps)

lemma btree_insert_set: "fst ` set (btree_insert k v m) = insert k (fst ` set m)"
proof (induction m)
  case (Cons x m)
  then show ?case by (cases x) auto
qed simp

lemma btree_insert_mem: "x \<in> set (btree_insert k v m) \<Longrightarrow> x = (k, v) \<or> x \<in> set m"
  by (induction m) (auto split: if_splits)

abbreviation guard_for :: "subject_write_guard list \<Rightarrow> ustr \<Rightarrow> ustr \<Rightarrow> subject_write_guard option" where
  "guard_for guards kid subject \<equiv> find (\<lambda>g. wg_kid g = kid \<and> wg_subject g = subject) guards"

lemma guards_loop_ok:
  assumes "guards_loop guards ordered records = Inr out"
    and "\<forall>(k, g) \<in> set ordered. guard_for guards (fst k) (snd k) = Some g"
  shows "(\<forall>(k, g) \<in> set out. guard_for guards (fst k) (snd k) = Some g) \<and>
    fst ` set ordered \<subseteq> fst ` set out \<and>
    fst ` set out \<subseteq> fst ` set ordered \<union> {(tr_kid r, subject) |r subject. r \<in> set records \<and> tr_subject r = Some subject} \<and>
    (\<forall>r \<in> set records. \<forall>subject. tr_subject r = Some subject \<longrightarrow> (tr_kid r, subject) \<in> fst ` set out)"
  using assms
proof (induction guards ordered records rule: guards_loop.induct)
  case (2 guards ordered r records)
  show ?case
  proof (cases "tr_subject r")
    case None
    with 2(3) have "guards_loop guards ordered records = Inr out" by simp
    note ih = 2(1) [OF None this 2(4)]
    have "{(tr_kid q, x) |q x. q \<in> set (r # records) \<and> tr_subject q = Some x} =
        {(tr_kid q, x) |q x. q \<in> set records \<and> tr_subject q = Some x}"
      using None by auto
    then show ?thesis using ih None by simp
  next
    case (Some subject)
    with 2(3) obtain g where g: "guard_for guards (tr_kid r) subject = Some g"
      and l: "guards_loop guards (btree_insert (wg_kid g, wg_subject g) g ordered) records = Inr out"
      by (auto simp: bindR_eq_Inr ok_or_eq_Inr)
    have gm: "wg_kid g = tr_kid r" "wg_subject g = subject" using g by (auto simp: find_Some_iff)
    have inv: "\<forall>(k, h) \<in> set (btree_insert (wg_kid g, wg_subject g) g ordered).
        guard_for guards (fst k) (snd k) = Some h"
      using 2(4) g gm by (auto dest!: btree_insert_mem)
    have keys: "fst ` set (btree_insert (wg_kid g, wg_subject g) g ordered) =
        insert (tr_kid r, subject) (fst ` set ordered)"
      using btree_insert_set [of "(wg_kid g, wg_subject g)" g ordered] gm by simp
    have "ok_or (invalid_input (lit ''subject write requires a generation guard''))
        (guard_for guards (tr_kid r) subject) = Inr g" by (simp add: g)
    note ih = 2(2) [OF Some this l inv]
    have "{(tr_kid q, x) |q x. q \<in> set (r # records) \<and> tr_subject q = Some x} =
        insert (tr_kid r, subject) {(tr_kid q, x) |q x. q \<in> set records \<and> tr_subject q = Some x}"
      using Some by auto
    with ih Some show ?thesis unfolding keys by auto
  qed
qed auto

lemma guards_loop_complete:
  assumes "\<forall>r \<in> set records. \<forall>subject. tr_subject r = Some subject \<longrightarrow> guard_for guards (tr_kid r) subject \<noteq> None"
  shows "\<exists>out. guards_loop guards ordered records = Inr out"
  using assms
proof (induction guards ordered records rule: guards_loop.induct)
  case (2 guards ordered r records)
  show ?case
  proof (cases "tr_subject r")
    case None
    with 2 show ?thesis by simp
  next
    case (Some subject)
    with 2(3) obtain g where g: "guard_for guards (tr_kid r) subject = Some g" by auto
    have o: "ok_or (invalid_input (lit ''subject write requires a generation guard''))
        (guard_for guards (tr_kid r) subject) = Inr g" by (simp add: g)
    with 2(2) [OF Some o] 2(3) Some show ?thesis by auto
  qed
qed simp

lemma subject_write_guards_ok:
  assumes "subject_write_guards records guards = Inr ordered"
  shows "(\<forall>g \<in> set ordered. \<exists>r \<in> set records. \<exists>subject. tr_subject r = Some subject \<and>
      guard_for guards (tr_kid r) subject = Some g) \<and>
    (\<forall>r \<in> set records. \<forall>subject. tr_subject r = Some subject \<longrightarrow>
       (\<exists>g \<in> set ordered. guard_for guards (tr_kid r) subject = Some g))"
proof (cases "list_all (\<lambda>r. tr_subject r = None) records")
  case True
  with assms show ?thesis by (auto simp: subject_write_guards_def list_all_iff)
next
  case False
  with assms obtain out where out: "guards_loop guards [] records = Inr out" "ordered = map snd out"
    by (auto simp: subject_write_guards_def bindR_eq_Inr)
  from guards_loop_ok [OF out(1)] have inv: "guard_for guards (fst k) (snd k) = Some g \<and>
      (\<exists>r \<in> set records. \<exists>subject. tr_subject r = Some subject \<and> k = (tr_kid r, subject))"
    if "(k, g) \<in> set out" for k g
    using that by force
  have 1: "\<exists>g \<in> set ordered. guard_for guards (tr_kid r) subject = Some g"
    if "r \<in> set records" "tr_subject r = Some subject" for r subject
  proof -
    from guards_loop_ok [OF out(1)] that have "(tr_kid r, subject) \<in> fst ` set out" by auto
    then obtain g where "((tr_kid r, subject), g) \<in> set out" by auto
    with inv [OF this] show ?thesis unfolding out(2) by (intro bexI [of _ g]) (auto simp: image_iff Bex_def)
  qed
  have 2: "\<exists>r \<in> set records. \<exists>subject. tr_subject r = Some subject \<and> guard_for guards (tr_kid r) subject = Some g"
    if "g \<in> set ordered" for g
  proof -
    from that obtain k where "(k, g) \<in> set out" by (auto simp: out(2))
    from inv [OF this] show ?thesis by (metis fst_conv snd_conv)
  qed
  show ?thesis using 1 2 by blast
qed

text \<open>What a successful save wants of the tables, and what it leaves.\<close>

definition saves :: "token_row list \<Rightarrow> database \<Rightarrow> database \<Rightarrow> bool" where
  "saves records db db' \<longleftrightarrow>
     db' = db\<lparr>db_tokens := db_tokens db @ records\<rparr> \<and> distinct (map token_key records) \<and>
     token_key ` set records \<inter> token_key ` set (db_tokens db) = {}"

definition generations_current :: "token_row list \<Rightarrow> subject_write_guard list \<Rightarrow> database \<Rightarrow> bool" where
  "generations_current records guards db \<longleftrightarrow>
     list_all (\<lambda>r. case tr_subject r of None \<Rightarrow> True | Some subject \<Rightarrow>
       guard_for guards (tr_kid r) subject \<noteq> None \<and>
       subjects_map (db_subjects db) (tr_kid r, subject) =
         map_option wg_seed (guard_for guards (tr_kid r) subject)) records"

lemma sqlite_save_batch_Inr:
  assumes "sqlite_save_tokens_batch_guarded env records guards s = (s', Inr ())"
  shows "saves records (sd_db s) (sd_db s') \<and> generations_current records guards (sd_db s)"
proof -
  from assms obtain ordered where o: "subject_write_guards records guards = Inr ordered"
    and t: "transaction (\<lambda>err. err) env (bindS (for_eachS (check_generation env) ordered) (\<lambda>_.
      for_eachS (\<lambda>r. execute env (sql_insert_token env r)) records)) s = (s', Inr ())"
    by (auto simp: sqlite_save_tokens_batch_guarded_def sop_simps)
  from transaction_Inr [OF t] obtain s1 s2 where s1: "sd_db s1 = sd_db s" "sd_db s' = sd_db s2"
    and b: "bindS (for_eachS (check_generation env) ordered) (\<lambda>_.
      for_eachS (\<lambda>r. execute env (sql_insert_token env r)) records) s1 = (s2, Inr ())" by metis
  from b obtain s3 where c: "for_eachS (check_generation env) ordered s1 = (s3, Inr ())"
    and i: "for_eachS (\<lambda>r. execute env (sql_insert_token env r)) records s3 = (s2, Inr ())"
    by (auto simp: sop_simps)
  note cg = check_generations_ok [OF c] and g = subject_write_guards_ok [OF o]
  have "guard_for guards (tr_kid r) subject \<noteq> None \<and>
      subjects_map (db_subjects (sd_db s)) (tr_kid r, subject) = map_option wg_seed (guard_for guards (tr_kid r) subject)"
    if "r \<in> set records" "tr_subject r = Some subject" for r subject
  proof -
    from g that obtain h where h: "h \<in> set ordered" "guard_for guards (tr_kid r) subject = Some h" by blast
    then have "wg_kid h = tr_kid r" "wg_subject h = subject" by (auto simp: find_Some_iff)
    with cg h s1 show ?thesis by (auto simp: list_all_iff)
  qed
  then have "generations_current records guards (sd_db s)"
    by (auto simp: generations_current_def list_all_iff split: option.splits)
  then show ?thesis using insert_tokens_ok [OF i] cg s1 by (simp add: saves_def)
qed

lemma sqlite_save_batch_Inl:
  "sqlite_save_tokens_batch_guarded env records guards s = (s', Inl e) \<Longrightarrow> sd_db s' = sd_db s"
  by (auto simp: sqlite_save_tokens_batch_guarded_def sop_simps dest: transaction_Inl)

lemma save_batch_Inr:
  assumes "save_tokens_batch_guarded C env records guards s = (s', Inr ())"
  shows "saves records (sd_db s) (sd_db s') \<and> generations_current records guards (sd_db s) \<and>
    list_all (\<lambda>r. validate_token_row C r = Inr ()) records"
  using assms sqlite_save_batch_Inr [of env records guards s s']
  by (auto simp: save_tokens_batch_guarded_def sop_simps result_simps list_all_iff)

lemma save_batch_Inl:
  "save_tokens_batch_guarded C env records guards s = (s', Inl e) \<Longrightarrow> sd_db s' = sd_db s"
  by (auto simp: save_tokens_batch_guarded_def sop_simps dest: sqlite_save_batch_Inl)

lemma saves_map:
  assumes "saves records db db'"
  shows "tokens_map (db_tokens db') = tokens_map (db_tokens db) ++ tokens_map records"
proof -
  have "tokens_map (db_tokens db') = tokens_map records ++ tokens_map (db_tokens db)"
    using assms by (simp add: saves_def tokens_map_def)
  also have "\<dots> = tokens_map (db_tokens db) ++ tokens_map records"
    using assms by (intro map_add_comm) (auto simp: saves_def tokens_map_def dom_map_of_conv_image_fst image_image)
  finally show ?thesis .
qed

section \<open>Consuming tokens\<close>

lemma consume_one_Inr:
  assumes "consume_one env kid subject h s = (s', Inr ())"
  shows "sd_db s' = (sd_db s)\<lparr>db_tokens := filter (\<lambda>r. \<not> token_matches kid h subject r) (db_tokens (sd_db s))\<rparr> \<and>
    length (filter (token_matches kid h subject) (db_tokens (sd_db s))) = 1"
  using assms by (auto simp: consume_one_def sop_simps sql_delete_tokens_def split: if_splits)

lemma consume_one_Missing:
  assumes "consume_one env kid subject h s = (s', Inl (MissingToken h'))"
  shows "h' = h \<and> length (filter (token_matches kid h subject) (db_tokens (sd_db s))) \<noteq> 1"
  using assms by (auto simp: consume_one_def sop_simps sql_delete_tokens_def request_def Let_def
      split: if_splits option.splits sum.splits prod.splits)

lemma matches_after_consume:
  "h \<noteq> h' \<Longrightarrow> filter (token_matches kid h subject) (filter (\<lambda>r. \<not> token_matches kid h' subject r) rows) =
     filter (token_matches kid h subject) rows"
  by (auto simp: filter_filter token_matches_def intro: filter_cong)

lemma matches_gone [simp]:
  "filter (token_matches kid h subject) (filter (\<lambda>r. \<not> token_matches kid h subject r) rows) = []"
  by (simp add: filter_empty_conv)

lemma consume_each_Inr:
  assumes "for_eachS (consume_one env kid subject) hs s = (s', Inr ())"
  shows "sd_db s' = (sd_db s)\<lparr>db_tokens :=
      filter (\<lambda>r. \<forall>h \<in> set hs. \<not> token_matches kid h subject r) (db_tokens (sd_db s))\<rparr> \<and>
    distinct hs \<and> (\<forall>h \<in> set hs. length (filter (token_matches kid h subject) (db_tokens (sd_db s))) = 1)"
  using assms
proof (induction hs arbitrary: s)
  case (Cons h hs)
  then obtain s1 where 1: "consume_one env kid subject h s = (s1, Inr ())"
    and 2: "for_eachS (consume_one env kid subject) hs s1 = (s', Inr ())" by (auto simp: sop_simps)
  note c = consume_one_Inr [OF 1] and ih = Cons.IH [OF 2]
  have "h \<notin> set hs" using ih c by auto
  moreover from this have "length (filter (token_matches kid h' subject) (db_tokens (sd_db s))) = 1"
    if "h' \<in> set hs" for h'
    using ih c that matches_after_consume [of h' h kid subject "db_tokens (sd_db s)"] by force
  ultimately show ?case using ih c by (simp add: filter_filter conj_commute)
qed (simp add: sop_simps)

lemma consume_each_Missing:
  assumes "for_eachS (consume_one env kid subject) hs s = (s', Inl (MissingToken h))" "distinct hs"
  shows "\<exists>pre post. hs = pre @ h # post \<and>
    (\<forall>g \<in> set pre. length (filter (token_matches kid g subject) (db_tokens (sd_db s))) = 1) \<and>
    length (filter (token_matches kid h subject) (db_tokens (sd_db s))) \<noteq> 1"
  using assms
proof (induction hs arbitrary: s)
  case (Cons x hs)
  show ?case
  proof (cases "consume_one env kid subject x s = (s', Inl (MissingToken h))")
    case True
    from consume_one_Missing [OF this] show ?thesis by (intro exI [of _ "[]"] exI [of _ hs]) auto
  next
    case False
    with Cons.prems obtain s1 where 1: "consume_one env kid subject x s = (s1, Inr ())"
      and 2: "for_eachS (consume_one env kid subject) hs s1 = (s', Inl (MissingToken h))"
      by (auto simp: sop_simps)
    note c = consume_one_Inr [OF 1]
    have same: "filter (token_matches kid g subject) (db_tokens (sd_db s1)) =
        filter (token_matches kid g subject) (db_tokens (sd_db s))" if "g \<in> set hs" for g
      using c that Cons.prems(2) matches_after_consume [of g x] by auto
    from Cons.IH [OF 2] Cons.prems(2) obtain pre post where p: "hs = pre @ h # post"
      "\<forall>g \<in> set pre. length (filter (token_matches kid g subject) (db_tokens (sd_db s1))) = 1"
      "length (filter (token_matches kid h subject) (db_tokens (sd_db s1))) \<noteq> 1" by auto
    with same c show ?thesis by (intro exI [of _ "x # pre"] exI [of _ post]) auto
  qed
qed (simp add: sop_simps)

text \<open>With the primary key in place, the one matching row is the one of the map.\<close>

lemma one_match_iff:
  assumes "distinct (map token_key rows)"
  shows "length (filter (token_matches kid h subject) rows) = 1 \<longleftrightarrow>
    (\<exists>data. tokens_map rows (kid, h) = Some (data, subject))"
  using assms
proof (induction rows)
  case (Cons r rows)
  show ?case
  proof (cases "token_key r = (kid, h)")
    case True
    then have "filter (token_matches kid h subject) rows = []"
      using Cons.prems by (auto simp: filter_empty_conv token_matches_def image_iff)
    moreover have "token_matches kid h subject r \<longleftrightarrow> tr_subject r = subject"
      using True by (simp add: token_matches_def)
    ultimately show ?thesis using True by (simp add: tokens_map_def)
  next
    case False
    with Cons show ?thesis by (auto simp: token_matches_def tokens_map_def)
  qed
qed (simp add: tokens_map_def)

lemma removed_map:
  assumes "distinct (map token_key rows)"
    and "\<forall>h \<in> set hs. \<exists>data. tokens_map rows (kid, h) = Some (data, subject)"
  shows "tokens_map (filter (\<lambda>r. \<forall>h \<in> set hs. \<not> token_matches kid h subject r) rows) =
    tokens_map rows |` (- ({kid} \<times> set hs))"
proof
  fix x
  show "tokens_map (filter (\<lambda>r. \<forall>h \<in> set hs. \<not> token_matches kid h subject r) rows) x =
      (tokens_map rows |` (- ({kid} \<times> set hs))) x"
  proof (cases "find (\<lambda>r. token_key r = x) rows")
    case None
    then show ?thesis unfolding tokens_map_filter [OF assms(1)]
      by (simp add: tokens_map_find restrict_map_def)
  next
    case (Some r)
    from find_key [OF Some] have k: "token_key r = x" by simp
    have "(\<forall>h \<in> set hs. \<not> token_matches kid h subject r) \<longleftrightarrow> x \<notin> {kid} \<times> set hs"
      using k assms(2) Some by (fastforce simp: token_matches_def tokens_map_find)
    with Some show ?thesis by (auto simp: tokens_map_filter [OF assms(1)] restrict_map_def)
  qed
qed

definition consumes :: "ustr \<Rightarrow> ustr list \<Rightarrow> ustr option \<Rightarrow> database \<Rightarrow> database \<Rightarrow> bool" where
  "consumes kid hs subject db db' \<longleftrightarrow>
     db' = db\<lparr>db_tokens := filter (\<lambda>r. \<forall>h \<in> set hs. \<not> token_matches kid h subject r) (db_tokens db)\<rparr> \<and>
     distinct hs \<and> (\<forall>h \<in> set hs. length (filter (token_matches kid h subject) (db_tokens db)) = 1)"

lemma consume_batch_Inr:
  assumes "consume_tokens_batch_for_subject env kid hashids subject s = (s', Inr ())"
  shows "consumes kid hashids subject (sd_db s) (sd_db s')"
proof -
  from assms have "transaction OtherError env (for_eachS (consume_one env kid subject) (sort hashids)) s = (s', Inr ())"
    by (auto simp: consume_tokens_batch_for_subject_def sqlite_consume_tokens_batch_for_subject_def sop_simps)
  from transaction_Inr [OF this] obtain s1 s2 where "sd_db s1 = sd_db s" "sd_db s' = sd_db s2"
    "for_eachS (consume_one env kid subject) (sort hashids) s1 = (s2, Inr ())" by metis
  with consume_each_Inr [OF this(3)] show ?thesis by (simp add: consumes_def)
qed

lemma consume_batch_Inl:
  "consume_tokens_batch_for_subject env kid hashids subject s = (s', Inl e) \<Longrightarrow> sd_db s' = sd_db s"
  by (auto simp: consume_tokens_batch_for_subject_def sqlite_consume_tokens_batch_for_subject_def sop_simps
      dest: transaction_Inl)

lemma validate_unique_loop_ok:
  "validate_unique_loop seen hs = Inr () \<longleftrightarrow>
     distinct hs \<and> set hs \<inter> seen = {} \<and> list_all (\<lambda>h. validate_token_hashid h = Inr ()) hs"
  by (induction seen hs rule: validate_unique_loop.induct) (auto simp: bindR_eq_Inr)

lemma transaction_Missing:
  assumes "transaction OtherError env body s = (s', Inl (MissingToken h))"
  shows "\<exists>s1 s2. sd_db s1 = sd_db s \<and> body s1 = (s2, Inl (MissingToken h))"
  by (rule exI [of _ "s\<lparr>sd_calls := Suc (sd_calls s)\<rparr>"])
    (use assms in \<open>auto simp: transaction_def request_def roundtrip_def Let_def
      split: prod.splits sum.splits option.splits\<close>)

lemma consume_batch_Missing:
  assumes "consume_tokens_batch_for_subject env kid hashids subject s = (s', Inl (MissingToken h))"
    and "distinct (map token_key (db_tokens (sd_db s)))"
  shows "h \<in> set hashids \<and> \<not> (\<exists>data. tokens_map (db_tokens (sd_db s)) (kid, h) = Some (data, subject)) \<and>
    (\<forall>g \<in> set hashids. g < h \<longrightarrow> (\<exists>data. tokens_map (db_tokens (sd_db s)) (kid, g) = Some (data, subject)))"
proof -
  from assms(1) have t: "transaction OtherError env (for_eachS (consume_one env kid subject) (sort hashids)) s =
      (s', Inl (MissingToken h))" and u: "distinct hashids"
    by (auto simp: consume_tokens_batch_for_subject_def sqlite_consume_tokens_batch_for_subject_def sop_simps
        validate_unique_token_hashids_def validate_unique_loop_ok map_err_eq_Inr
        elim!: map_err.elims)
  from transaction_Missing [OF t] obtain s1 s2 where s1: "sd_db s1 = sd_db s"
    and f: "for_eachS (consume_one env kid subject) (sort hashids) s1 = (s2, Inl (MissingToken h))" by blast
  from consume_each_Missing [OF f] u s1 obtain pre post where p: "sort hashids = pre @ h # post"
    "\<forall>g \<in> set pre. length (filter (token_matches kid g subject) (db_tokens (sd_db s))) = 1"
    "length (filter (token_matches kid h subject) (db_tokens (sd_db s))) \<noteq> 1" by auto
  have "g \<in> set pre" if "g \<in> set hashids" "g < h" for g
  proof -
    have "g \<in> set (pre @ h # post)" using that(1) p(1) by (metis set_sort)
    moreover have "h \<le> x" if "x \<in> set post" for x
      using that sorted_sort [of hashids] unfolding p(1) by (auto simp: sorted_append)
    ultimately show ?thesis using that(2) by fastforce
  qed
  moreover have "h \<in> set hashids" using p(1) by (metis in_set_conv_decomp set_sort)
  ultimately show ?thesis using p(2,3) unfolding one_match_iff [OF assms(2)] by blast
qed

lemma delete_token_Inr:
  assumes "delete_token_for_subject env kid hashid subject s = (s', Inr ())"
  shows "consumes kid [hashid] subject (sd_db s) (sd_db s')"
proof -
  let ?b = "bindS (execute env (sql_delete_tokens (token_matches kid hashid subject))) (\<lambda>n.
      if n \<noteq> 1 then liftS (Inl (not_found (lit ''token not found''))) else retS ())"
  from assms have "transaction (\<lambda>err. err) env ?b s = (s', Inr ())"
    by (auto simp: delete_token_for_subject_def sqlite_delete_token_for_subject_def sop_simps)
  from transaction_Inr [OF this] obtain s1 s2 where "sd_db s1 = sd_db s" "sd_db s' = sd_db s2"
    "?b s1 = (s2, Inr ())" by metis
  then show ?thesis by (auto simp: sop_simps sql_delete_tokens_def consumes_def split: if_splits)
qed

lemma delete_token_Inl:
  "delete_token_for_subject env kid hashid subject s = (s', Inl e) \<Longrightarrow> sd_db s' = sd_db s"
  by (auto simp: delete_token_for_subject_def sqlite_delete_token_for_subject_def sop_simps dest: transaction_Inl)

end
