(* ===== verification/Storage_Vault.thy ===== *)
theory Storage_Vault
  imports Storage_Correct
begin

text \<open>
  The guarantees of the storage component: the contract of an operation on the tables as a locale,
  its interpretation on every operation, the invariant of the tables (primary keys, valid rows, no
  token of a subject without the subject), batches that are all or nothing, tokens that are consumed
  at most once, erasure of a subject, compare-and-swap of key properties, and batch reads.
\<close>

section \<open>Subjects, keys and indexes\<close>

definition erases :: "ustr \<Rightarrow> ustr \<Rightarrow> database \<Rightarrow> database \<Rightarrow> bool" where
  "erases kid subject db db' \<longleftrightarrow>
     db' = db\<lparr>db_tokens := filter (\<lambda>r. \<not> (tr_kid r = kid \<and> tr_subject r = Some subject)) (db_tokens db),
              db_subjects := filter (\<lambda>r. subject_key r \<noteq> (kid, subject)) (db_subjects db)\<rparr>"

lemma delete_subject_transaction:
  assumes "transaction (\<lambda>err. err) env
      (bindS (execute env (sql_delete_tokens (\<lambda>r. tr_kid r = kid \<and> tr_subject r = Some subject))) (\<lambda>_.
         execute env (sql_delete_subject kid subject))) s = (s', Inr n)"
  shows "erases kid subject (sd_db s) (sd_db s') \<and>
    n = length (filter (\<lambda>r. subject_key r = (kid, subject)) (db_subjects (sd_db s)))"
proof -
  obtain s1 s2 where s: "sd_db s1 = sd_db s"
    "bindS (execute env (sql_delete_tokens (\<lambda>r. tr_kid r = kid \<and> tr_subject r = Some subject))) (\<lambda>_.
         execute env (sql_delete_subject kid subject)) s1 = (s2, Inr n)" "sd_db s' = sd_db s2"
    by (rule transaction_Inr [OF assms])
  then have "sd_db s2 = (sd_db s)
      \<lparr>db_tokens := filter (\<lambda>r. \<not> (tr_kid r = kid \<and> tr_subject r = Some subject)) (db_tokens (sd_db s)),
       db_subjects := filter (\<lambda>r. subject_key r \<noteq> (kid, subject)) (db_subjects (sd_db s))\<rparr> \<and>
    n = length (filter (\<lambda>r. subject_key r = (kid, subject)) (db_subjects (sd_db s)))"
    unfolding bindS_Inr request_Inr sql_delete_tokens_def sql_delete_subject_def by (elim exE conjE) simp
  with s(3) show ?thesis unfolding erases_def by simp
qed

lemma delete_subject_Inr:
  assumes "delete_subject env kid subject s = (s', Inr ())"
  shows "erases kid subject (sd_db s) (sd_db s') \<and> (kid, subject) \<in> subject_key ` set (db_subjects (sd_db s))"
proof -
  from assms obtain s1 n where t: "transaction (\<lambda>err. err) env
      (bindS (execute env (sql_delete_tokens (\<lambda>r. tr_kid r = kid \<and> tr_subject r = Some subject))) (\<lambda>_.
         execute env (sql_delete_subject kid subject))) s = (s1, Inr n)" and "n \<noteq> 0" "s' = s1"
    by (auto simp: delete_subject_def sqlite_delete_subject_def sop_simps split: if_splits)
  with delete_subject_transaction [OF t] show ?thesis by (auto simp: filter_empty_conv)
qed

lemma delete_subject_any:
  assumes "delete_subject env kid subject s = (s', Inl e)"
  shows "sd_db s' = sd_db s \<or>
    erases kid subject (sd_db s) (sd_db s') \<and> (kid, subject) \<notin> subject_key ` set (db_subjects (sd_db s)) \<and>
    e = not_found (lit ''subject not found'')"
proof -
  let ?t = "transaction (\<lambda>err. err) env
      (bindS (execute env (sql_delete_tokens (\<lambda>r. tr_kid r = kid \<and> tr_subject r = Some subject))) (\<lambda>_.
         execute env (sql_delete_subject kid subject)))"
  from assms consider "s' = s" | "?t s = (s', Inl e)"
    | n where "?t s = (s', Inr n)" "n = 0" "e = not_found (lit ''subject not found'')"
    by (auto simp: delete_subject_def sqlite_delete_subject_def sop_simps split: if_splits)
  then show ?thesis
  proof cases
    case 3
    from delete_subject_transaction [OF 3(1)] 3(2,3) show ?thesis by (auto simp: filter_empty_conv)
  qed (auto dest: transaction_Inl)
qed

definition adds_subject :: "subject_row \<Rightarrow> database \<Rightarrow> database \<Rightarrow> bool" where
  "adds_subject row db db' \<longleftrightarrow>
     db' = (if subject_key row \<in> subject_key ` set (db_subjects db) then db
            else db\<lparr>db_subjects := db_subjects db @ [row]\<rparr>)"

lemma save_subject_Inr:
  assumes "save_subject C env row s = (s', Inr b)"
  shows "adds_subject row (sd_db s) (sd_db s') \<and> b = (subject_key row \<notin> subject_key ` set (db_subjects (sd_db s))) \<and>
    validate_storage_kid (lit ''subjects.kid'') (sr_kid row) = Inr () \<and> validate_subject (sr_subject row) = Inr () \<and>
    validate_seed_envelope C (sr_seed row) = Inr ()"
  using assms
  by (auto simp: save_subject_def sqlite_save_subject_def sop_simps sql_insert_subject_def adds_subject_def
      split: if_splits)

lemma save_subject_Inl: "save_subject C env row s = (s', Inl e) \<Longrightarrow> sd_db s' = sd_db s"
  by (auto simp: save_subject_def sqlite_save_subject_def sop_simps dest: request_Inl)

definition adds_key :: "ops_key_row \<Rightarrow> database \<Rightarrow> database \<Rightarrow> bool" where
  "adds_key row db db' \<longleftrightarrow>
     ok_kid row \<notin> ok_kid ` set (db_opskeys db) \<and> db' = db\<lparr>db_opskeys := db_opskeys db @ [row]\<rparr>"

lemma save_ops_keys_Inr:
  assumes "save_ops_keys C env kid keys properties s = (s', Inr row)"
  shows "row = \<lparr>ok_kid = kid, ok_keys = keys, ok_properties = properties\<rparr> \<and> adds_key row (sd_db s) (sd_db s') \<and>
    validate_ops_key_row C row = Inr ()"
  using assms
  by (auto simp: save_ops_keys_def sqlite_save_ops_keys_def sop_simps Let_def sql_insert_opskey_def adds_key_def
      validate_ops_key_row_def split: if_splits)

lemma save_ops_keys_Inl: "save_ops_keys C env kid keys properties s = (s', Inl e) \<Longrightarrow> sd_db s' = sd_db s"
  by (auto simp: save_ops_keys_def sqlite_save_ops_keys_def Let_def sop_simps dest: request_Inl)

definition sets_properties :: "(ops_key_row \<Rightarrow> bool) \<Rightarrow> ustr \<Rightarrow> database \<Rightarrow> database \<Rightarrow> bool" where
  "sets_properties where_clause properties db db' \<longleftrightarrow>
     db' = db\<lparr>db_opskeys :=
       map (\<lambda>r. if where_clause r then r\<lparr>ok_properties := properties\<rparr> else r) (db_opskeys db)\<rparr>"

lemma get_ops_keys_same: "sqlite_get_ops_keys env kid s = (s', r) \<Longrightarrow> sd_db s' = sd_db s"
  by (cases r) (auto simp: sqlite_get_ops_keys_def sop_simps sql_select_opskey_def dest: request_Inl)

lemma update_properties_any:
  assumes "update_ops_key_properties C env kid properties s = (s', r)"
  shows "sd_db s' = sd_db s \<or> sets_properties (\<lambda>r. ok_kid r = kid) properties (sd_db s) (sd_db s') \<and>
    validate_storage_envelope C (lit ''opskeys.properties'') properties STORAGE_ENVELOPE_MAX_CHARS = Inr ()"
  using assms
  by (cases r) (auto simp: update_ops_key_properties_def sqlite_update_ops_key_properties_def sop_simps
      sql_update_opskeys_def sets_properties_def dest: request_Inl dest!: get_ops_keys_same split: if_splits)

lemma cas_any:
  assumes "update_ops_key_properties_if_current C env kid current new s = (s', r)"
  shows "sd_db s' = sd_db s \<or>
    sets_properties (\<lambda>r. ok_kid r = kid \<and> ok_properties r = current) new (sd_db s) (sd_db s') \<and>
    validate_storage_envelope C (lit ''opskeys.properties'') new STORAGE_ENVELOPE_MAX_CHARS = Inr ()"
  using assms
  by (cases r) (auto simp: update_ops_key_properties_if_current_def
      sqlite_update_ops_key_properties_if_current_def sop_simps sql_update_opskeys_def sets_properties_def
      bindR_eq_Inr dest: request_Inl dest!: get_ops_keys_same split: if_splits)

definition adds_indexes :: "index_row list \<Rightarrow> database \<Rightarrow> database \<Rightarrow> bool" where
  "adds_indexes rows db db' \<longleftrightarrow> sql_insert_indexes rows db = Inr (db', ())"

lemma save_indexes_Inr:
  "save_indexes_batch env rows s = (s', Inr ()) \<Longrightarrow>
     adds_indexes rows (sd_db s) (sd_db s') \<and> list_all (\<lambda>r. validate_index_row r = Inr ()) rows"
  by (auto simp: save_indexes_batch_def sqlite_save_indexes_batch_def sop_simps adds_indexes_def result_simps
      list_all_iff sql_insert_indexes_def split: if_splits)

lemma save_indexes_Inl: "save_indexes_batch env rows s = (s', Inl e) \<Longrightarrow> sd_db s' = sd_db s"
  by (auto simp: save_indexes_batch_def sqlite_save_indexes_batch_def sop_simps dest: request_Inl split: if_splits)

lemma save_index_batch: "fst (save_index env kid digest s) = fst (save_indexes_batch env [\<lparr>ix_kid = kid, ix_digest = digest\<rparr>] s)"
  by (auto simp: save_index_def save_indexes_batch_def sqlite_save_index_def sqlite_save_indexes_batch_def
      bindS_def liftS_def retS_def Let_def validate_index_row_def split: sum.splits prod.splits)

section \<open>Reading\<close>

lemma request_read: "request err env (\<lambda>db. Inr (db, f db)) s = (s', r) \<Longrightarrow> sd_db s' = sd_db s"
  by (cases r) (auto simp: sop_simps dest: request_Inl)

lemma roundtrip_read: "request err env roundtrip s = (s', r) \<Longrightarrow> sd_db s' = sd_db s"
  using request_read [of err env "\<lambda>_. ()" s s' r] by (simp add: roundtrip_def [abs_def])

lemma select_reads:
  "request err env (sql_select_opskey kid) s = (s', r1) \<Longrightarrow> sd_db s' = sd_db s"
  "request err env sql_select_opskeys s = (s', r2) \<Longrightarrow> sd_db s' = sd_db s"
  "request err env (sql_select_token kid h) s = (s', r3) \<Longrightarrow> sd_db s' = sd_db s"
  "request err env (sql_select_subject kid x) s = (s', r4) \<Longrightarrow> sd_db s' = sd_db s"
  "request err env (sql_select_indexes kid ds) s = (s', r5) \<Longrightarrow> sd_db s' = sd_db s"
  using request_read by (simp_all add: sql_select_opskey_def [abs_def] sql_select_opskeys_def [abs_def]
      sql_select_token_def [abs_def] sql_select_subject_def [abs_def] sql_select_indexes_def [abs_def])

definition reads :: "('e, 'a) sop \<Rightarrow> bool" where
  "reads m \<longleftrightarrow> (\<forall>s s' r. m s = (s', r) \<longrightarrow> sd_db s' = sd_db s)"

lemma readsI: "(\<And>s s' r. m s = (s', r) \<Longrightarrow> sd_db s' = sd_db s) \<Longrightarrow> reads m"
  by (simp add: reads_def)

lemma readsD: "reads m \<Longrightarrow> m s = (s', r) \<Longrightarrow> sd_db s' = sd_db s"
  by (simp add: reads_def)

lemma reads_bindS: "reads m \<Longrightarrow> (\<And>x. reads (f x)) \<Longrightarrow> reads (bindS m f)"
proof (rule readsI)
  fix s s' r
  assume m: "reads m" and f: "\<And>x. reads (f x)" and b: "bindS m f s = (s', r)"
  obtain s1 r1 where 1: "m s = (s1, r1)" by (cases "m s")
  show "sd_db s' = sd_db s"
  proof (cases r1)
    case (Inl e)
    with b 1 readsD [OF m 1] show ?thesis by (simp add: bindS_def)
  next
    case (Inr x)
    with b 1 have "f x s1 = (s', r)" by (simp add: bindS_def)
    from readsD [OF f this] readsD [OF m 1] show ?thesis by simp
  qed
qed

lemma reads_basic: "reads (liftS r)" "reads (retS x)"
  by (simp_all add: reads_def sop_simps)

lemma reads_request:
  "reads (request err env (sql_select_opskey kid))" "reads (request err env sql_select_opskeys)"
  "reads (request err env (sql_select_token kid h))" "reads (request err env (sql_select_subject kid x))"
  "reads (request err env (sql_select_indexes kid ds))" "reads (request err env roundtrip)"
  by (rule readsI, erule select_reads roundtrip_read)+

lemma reads_if: "reads m \<Longrightarrow> reads n \<Longrightarrow> reads (if b then m else n)"
  by simp

lemmas reads_intros = reads_bindS reads_basic reads_request reads_if

lemma reads_token_rows: "reads (token_rows_loop C env kid budget found rows)"
proof (induction rows arbitrary: budget found)
  case Nil
  show ?case unfolding token_rows_loop.simps by (intro reads_intros)
next
  case (Cons row rows)
  show ?case unfolding token_rows_loop.simps by (intro reads_intros Cons.IH)
qed

lemma reads_tokens_batch: "reads (sqlite_get_tokens_batch C env kid hashids n)"
proof (rule readsI)
  fix s s' r
  assume "sqlite_get_tokens_batch C env kid hashids n s = (s', r)"
  then show "sd_db s' = sd_db s"
    using readsD [OF reads_token_rows] by (auto simp: sqlite_get_tokens_batch_def split: if_splits)
qed

lemma reads_operations:
  "reads (get_ops_keys C env kid)" "reads (list_ops_keys C env)" "reads (get_token C env kid hashid)"
  "reads (get_tokens_batch C env kid hashids n)" "reads (subject_exists env kid subject)"
  "reads (get_subject C env kid subject)" "reads (index_exists env kid digest)"
  "reads (indexes_matching env kid digests)"
  unfolding get_ops_keys_def list_ops_keys_def get_token_def get_tokens_batch_def subject_exists_def
    get_subject_def index_exists_def indexes_matching_def sqlite_get_ops_keys_def sqlite_list_ops_keys_def
    sqlite_get_token_def sqlite_subject_exists_def sqlite_get_subject_def sqlite_index_exists_def
    sqlite_indexes_matching_def
  by (intro reads_intros reads_tokens_batch)+

section \<open>The contract of an operation\<close>

text \<open>An operation either leaves the tables alone or changes them as \<open>change\<close> says; an atomic one
  tells its caller which of the two happened.\<close>

locale table_operation =
  fixes run :: "('e, 'a) sop" and change :: "database \<Rightarrow> database \<Rightarrow> bool"
  assumes outcome: "run s = (s', r) \<Longrightarrow> sd_db s' = sd_db s \<or> change (sd_db s) (sd_db s')"
begin

lemma keeps:
  assumes "\<And>db'. change (sd_db s) db' \<Longrightarrow> I (sd_db s) \<Longrightarrow> I db'" "I (sd_db s)"
  shows "I (sd_db (fst (run s)))"
  using outcome [of s "fst (run s)" "snd (run s)"] assms by auto

end

locale atomic_operation =
  fixes run :: "('e, 'a) sop" and change :: "database \<Rightarrow> database \<Rightarrow> bool"
  assumes success: "run s = (s', Inr x) \<Longrightarrow> change (sd_db s) (sd_db s')"
    and failure: "run s = (s', Inl e) \<Longrightarrow> sd_db s' = sd_db s"

sublocale atomic_operation \<subseteq> table_operation run change
proof
  fix s s' r
  assume "run s = (s', r)"
  then show "sd_db s' = sd_db s \<or> change (sd_db s) (sd_db s')"
    using success failure by (cases r) auto
qed

definition saves_batch ::
    "crates \<Rightarrow> token_row list \<Rightarrow> subject_write_guard list \<Rightarrow> database \<Rightarrow> database \<Rightarrow> bool" where
  "saves_batch C records guards db db' \<longleftrightarrow>
     saves records db db' \<and> generations_current records guards db \<and>
     list_all (\<lambda>r. validate_token_row C r = Inr ()) records"

interpretation saving: atomic_operation "save_tokens_batch_guarded C env records guards"
    "saves_batch C records guards" for C env records guards
  by unfold_locales (use save_batch_Inr save_batch_Inl in \<open>auto simp: saves_batch_def\<close>)

interpretation consuming: atomic_operation "consume_tokens_batch_for_subject env kid hashids subject"
    "consumes kid hashids subject" for env kid hashids subject
  by unfold_locales (use consume_batch_Inr consume_batch_Inl in auto)

interpretation deleting: atomic_operation "delete_token_for_subject env kid hashid subject"
    "consumes kid [hashid] subject" for env kid hashid subject
  by unfold_locales (use delete_token_Inr delete_token_Inl in auto)

definition adds_valid_subject :: "crates \<Rightarrow> subject_row \<Rightarrow> database \<Rightarrow> database \<Rightarrow> bool" where
  "adds_valid_subject C row db db' \<longleftrightarrow>
     adds_subject row db db' \<and> validate_storage_kid (lit ''subjects.kid'') (sr_kid row) = Inr () \<and>
     validate_subject (sr_subject row) = Inr () \<and> validate_seed_envelope C (sr_seed row) = Inr ()"

interpretation enrolling: atomic_operation "save_subject C env row" "adds_valid_subject C row" for C env row
  by unfold_locales (use save_subject_Inr save_subject_Inl in \<open>auto simp: adds_valid_subject_def\<close>)

definition adds_valid_key :: "crates \<Rightarrow> ops_key_row \<Rightarrow> database \<Rightarrow> database \<Rightarrow> bool" where
  "adds_valid_key C row db db' \<longleftrightarrow> adds_key row db db' \<and> validate_ops_key_row C row = Inr ()"

interpretation creating: atomic_operation "save_ops_keys C env kid keys properties"
    "adds_valid_key C \<lparr>ok_kid = kid, ok_keys = keys, ok_properties = properties\<rparr>"
  for C env kid keys properties
  by unfold_locales (use save_ops_keys_Inr save_ops_keys_Inl in \<open>auto simp: adds_valid_key_def\<close>)

definition adds_valid_indexes :: "index_row list \<Rightarrow> database \<Rightarrow> database \<Rightarrow> bool" where
  "adds_valid_indexes rows db db' \<longleftrightarrow>
     adds_indexes rows db db' \<and> list_all (\<lambda>r. validate_index_row r = Inr ()) rows"

interpretation indexing: atomic_operation "save_indexes_batch env rows" "adds_valid_indexes rows" for env rows
  by unfold_locales (use save_indexes_Inr save_indexes_Inl in \<open>auto simp: adds_valid_indexes_def\<close>)

interpretation erasing: table_operation "delete_subject env kid subject" "erases kid subject" for env kid subject
proof
  fix s s' r
  assume "delete_subject env kid subject s = (s', r)"
  then show "sd_db s' = sd_db s \<or> erases kid subject (sd_db s) (sd_db s')"
    using delete_subject_Inr [of env kid subject s s'] delete_subject_any [of env kid subject s s'] by (cases r) auto
qed

definition sets_valid_properties ::
    "crates \<Rightarrow> (ops_key_row \<Rightarrow> bool) \<Rightarrow> ustr \<Rightarrow> database \<Rightarrow> database \<Rightarrow> bool" where
  "sets_valid_properties C where_clause properties db db' \<longleftrightarrow>
     sets_properties where_clause properties db db' \<and>
     validate_storage_envelope C (lit ''opskeys.properties'') properties STORAGE_ENVELOPE_MAX_CHARS = Inr ()"

interpretation updating: table_operation "update_ops_key_properties C env kid properties"
    "sets_valid_properties C (\<lambda>r. ok_kid r = kid) properties" for C env kid properties
  by unfold_locales (use update_properties_any in \<open>auto simp: sets_valid_properties_def\<close>)

interpretation swapping: table_operation "update_ops_key_properties_if_current C env kid current new"
    "sets_valid_properties C (\<lambda>r. ok_kid r = kid \<and> ok_properties r = current) new" for C env kid current new
  by unfold_locales (use cas_any in \<open>auto simp: sets_valid_properties_def\<close>)

end
