(* ===== verification/Storage_Guarantees.thy ===== *)
theory Storage_Guarantees
  imports Storage_Vault Profiles
begin

text \<open>
  The properties of the storage component: the invariant of the tables in every reachable state, saves
  and consumption that are all or nothing under any failure of the database, erasure of a subject,
  compare-and-swap, and batch reads.
\<close>

section \<open>The invariant of the tables\<close>

definition subject_row_ok :: "crates \<Rightarrow> subject_row \<Rightarrow> bool" where
  "subject_row_ok C r \<longleftrightarrow>
     validate_storage_kid (lit ''subjects.kid'') (sr_kid r) = Inr () \<and> validate_subject (sr_subject r) = Inr () \<and>
     validate_seed_envelope C (sr_seed r) = Inr ()"

definition rows_ok :: "crates \<Rightarrow> database \<Rightarrow> bool" where
  "rows_ok C db \<longleftrightarrow>
     list_all (\<lambda>r. validate_ops_key_row C r = Inr ()) (db_opskeys db) \<and>
     list_all (\<lambda>r. validate_token_row C r = Inr ()) (db_tokens db) \<and>
     list_all (\<lambda>r. validate_index_row r = Inr ()) (db_indexes db) \<and>
     list_all (subject_row_ok C) (db_subjects db)"

text \<open>A token of a subject needs the subject's seed to be decoded: no such token is without one.\<close>

definition no_orphans :: "database \<Rightarrow> bool" where
  "no_orphans db \<longleftrightarrow>
     list_all (\<lambda>r. pred_option (\<lambda>subject. (tr_kid r, subject) \<in> subject_key ` set (db_subjects db)) (tr_subject r))
       (db_tokens db)"

definition db_ok :: "crates \<Rightarrow> database \<Rightarrow> bool" where
  "db_ok C db \<longleftrightarrow> keys_ok db \<and> rows_ok C db \<and> no_orphans db"

lemma subjects_map_dom: "subjects_map rows x \<noteq> None \<longleftrightarrow> x \<in> subject_key ` set rows"
  by (force simp: subjects_map_def map_of_eq_None_iff)

lemma saves_ok:
  assumes "saves_batch C records guards db db'" "db_ok C db"
  shows "db_ok C db'"
proof -
  have s: "db' = db\<lparr>db_tokens := db_tokens db @ records\<rparr>" "distinct (map token_key records)"
    "token_key ` set records \<inter> token_key ` set (db_tokens db) = {}"
    "generations_current records guards db" "list_all (\<lambda>r. validate_token_row C r = Inr ()) records"
    using assms(1) by (simp_all add: saves_batch_def saves_def)
  have "pred_option (\<lambda>x. (tr_kid r, x) \<in> subject_key ` set (db_subjects db)) (tr_subject r)"
    if "r \<in> set records" for r
  proof (cases "tr_subject r")
    case (Some x)
    with s(4) that have "subjects_map (db_subjects db) (tr_kid r, x) \<noteq> None"
      by (auto simp: generations_current_def list_all_iff split: option.splits)
    then show ?thesis unfolding subjects_map_dom by (simp add: Some)
  qed simp
  then have "no_orphans db'" using assms(2) by (auto simp: db_ok_def no_orphans_def s(1) list_all_iff)
  moreover have "keys_ok db'" using assms(2) s(2,3) by (auto simp: db_ok_def keys_ok_def s(1))
  ultimately show ?thesis using assms(2) s(5) by (simp add: db_ok_def rows_ok_def s(1))
qed

lemma consumes_ok: "consumes kid hs subject db db' \<Longrightarrow> db_ok C db \<Longrightarrow> db_ok C db'"
  by (auto simp: consumes_def db_ok_def keys_ok_def rows_ok_def no_orphans_def list_all_iff distinct_map_filter)

lemma erases_ok:
  assumes "erases kid subject db db'" "db_ok C db"
  shows "db_ok C db'"
proof -
  have e: "db' = db\<lparr>db_tokens := filter (\<lambda>r. \<not> (tr_kid r = kid \<and> tr_subject r = Some subject)) (db_tokens db),
      db_subjects := filter (\<lambda>r. subject_key r \<noteq> (kid, subject)) (db_subjects db)\<rparr>"
    using assms(1) by (simp add: erases_def)
  have "(tr_kid r, x) \<in> subject_key ` set (db_subjects db')"
    if "r \<in> set (db_tokens db')" "tr_subject r = Some x" for r x
  proof -
    have "r \<in> set (db_tokens db)" "(tr_kid r, x) \<noteq> (kid, subject)" using that by (auto simp: e)
    then show ?thesis using assms(2) that(2)
      by (fastforce simp: db_ok_def no_orphans_def list_all_iff e)
  qed
  then have "no_orphans db'" by (auto simp: no_orphans_def list_all_iff option.pred_set)
  moreover have "keys_ok db' \<and> rows_ok C db'"
    using assms(2) by (auto simp: db_ok_def keys_ok_def rows_ok_def e list_all_iff distinct_map_filter)
  ultimately show ?thesis by (simp add: db_ok_def)
qed

lemma adds_subject_ok: "adds_valid_subject C row db db' \<Longrightarrow> db_ok C db \<Longrightarrow> db_ok C db'"
  by (auto simp: adds_valid_subject_def adds_subject_def db_ok_def keys_ok_def rows_ok_def no_orphans_def
      subject_row_ok_def list_all_iff option.pred_set split: if_splits)

lemma adds_key_ok: "adds_valid_key C row db db' \<Longrightarrow> db_ok C db \<Longrightarrow> db_ok C db'"
  by (auto simp: adds_valid_key_def adds_key_def db_ok_def keys_ok_def rows_ok_def no_orphans_def)

lemma sets_properties_ok:
  assumes "sets_valid_properties C P properties db db'" "db_ok C db"
  shows "db_ok C db'"
proof -
  let ?f = "\<lambda>r. if P r then r\<lparr>ok_properties := properties\<rparr> else r"
  have s: "db' = db\<lparr>db_opskeys := map ?f (db_opskeys db)\<rparr>"
    "validate_storage_envelope C (lit ''opskeys.properties'') properties STORAGE_ENVELOPE_MAX_CHARS = Inr ()"
    using assms(1) by (simp_all add: sets_valid_properties_def sets_properties_def)
  have "map ok_kid (map ?f rows) = map ok_kid rows" for rows by simp
  moreover have "validate_ops_key_row C (r\<lparr>ok_properties := properties\<rparr>) = Inr ()" if "validate_ops_key_row C r = Inr ()" for r
    using that s(2) by (simp add: validate_ops_key_row_def validate_ops_key_fields_def bindR_eq_Inr)
  ultimately show ?thesis using assms(2)
    by (auto simp: db_ok_def keys_ok_def rows_ok_def no_orphans_def s(1) list_all_iff simp del: map_map split: if_splits)
qed

lemma insert_indexes_keys:
  "distinct (map index_key ixs) \<Longrightarrow>
   distinct (map index_key (foldl (\<lambda>ixs r. if index_key r \<in> index_key ` set ixs then ixs else ixs @ [r]) ixs rows)) \<and>
   set (foldl (\<lambda>ixs r. if index_key r \<in> index_key ` set ixs then ixs else ixs @ [r]) ixs rows) \<subseteq> set ixs \<union> set rows"
proof (induction rows arbitrary: ixs)
  case (Cons r rows)
  show ?case
  proof (cases "index_key r \<in> index_key ` set ixs")
    case True
    with Cons.IH [OF Cons.prems] show ?thesis by auto
  next
    case False
    with Cons.prems have "distinct (map index_key (ixs @ [r]))" by simp
    from Cons.IH [OF this] False show ?thesis by auto
  qed
qed simp

lemma adds_indexes_ok: "adds_valid_indexes rows db db' \<Longrightarrow> db_ok C db \<Longrightarrow> db_ok C db'"
  using insert_indexes_keys [of "db_indexes db" rows]
  by (auto simp: adds_valid_indexes_def adds_indexes_def sql_insert_indexes_def db_ok_def keys_ok_def rows_ok_def
      no_orphans_def list_all_iff)

section \<open>Requests\<close>

text \<open>Every operation of \<open>StorageState\<close>, as a request of a client.\<close>

datatype storage_request =
    SaveOpsKeys ustr ustr ustr
  | UpdateProperties ustr ustr
  | UpdatePropertiesIfCurrent ustr ustr ustr
  | SaveToken ustr ustr ustr "ustr option" "ustr option"
  | SaveTokensBatch "token_row list" "subject_write_guard list"
  | DeleteToken ustr ustr "ustr option"
  | ConsumeTokensBatch ustr "ustr list" "ustr option"
  | SaveSubject subject_row
  | DeleteSubject ustr ustr
  | SaveIndex ustr ustr
  | SaveIndexesBatch "index_row list"
  | GetTokensBatch ustr "ustr list" nat
  | GetToken ustr ustr
  | GetSubject ustr ustr
  | ListOpsKeys

fun serve :: "crates \<Rightarrow> storage_env \<Rightarrow> storage \<Rightarrow> storage_request \<Rightarrow> storage" where
  "serve C env s (SaveOpsKeys kid keys properties) = fst (save_ops_keys C env kid keys properties s)"
| "serve C env s (UpdateProperties kid properties) = fst (update_ops_key_properties C env kid properties s)"
| "serve C env s (UpdatePropertiesIfCurrent kid current new) =
     fst (update_ops_key_properties_if_current C env kid current new s)"
| "serve C env s (SaveToken kid hashid data subject seed) =
     fst (save_token_for_subject C env kid hashid data subject seed s)"
| "serve C env s (SaveTokensBatch records guards) = fst (save_tokens_batch_guarded C env records guards s)"
| "serve C env s (DeleteToken kid hashid subject) = fst (delete_token_for_subject env kid hashid subject s)"
| "serve C env s (ConsumeTokensBatch kid hashids subject) =
     fst (consume_tokens_batch_for_subject env kid hashids subject s)"
| "serve C env s (SaveSubject row) = fst (save_subject C env row s)"
| "serve C env s (DeleteSubject kid subject) = fst (delete_subject env kid subject s)"
| "serve C env s (SaveIndex kid digest) = fst (save_index env kid digest s)"
| "serve C env s (SaveIndexesBatch rows) = fst (save_indexes_batch env rows s)"
| "serve C env s (GetTokensBatch kid hashids n) = fst (get_tokens_batch C env kid hashids n s)"
| "serve C env s (GetToken kid hashid) = fst (get_token C env kid hashid s)"
| "serve C env s (GetSubject kid subject) = fst (get_subject C env kid subject s)"
| "serve C env s ListOpsKeys = fst (list_ops_keys C env s)"

definition serve_all :: "crates \<Rightarrow> storage_env \<Rightarrow> storage \<Rightarrow> storage_request list \<Rightarrow> storage" where
  "serve_all C env s requests = foldl (serve C env) s requests"

lemma save_token_batch:
  assumes "save_token_for_subject C env kid hashid data subject seed s = (s', r)"
  shows "sd_db s' = sd_db s \<or>
    (\<exists>guards. saves_batch C [\<lparr>tr_kid = kid, tr_hashid = hashid, tr_data = data, tr_subject = subject\<rparr>] guards
       (sd_db s) (sd_db s'))"
proof -
  let ?row = "\<lparr>tr_kid = kid, tr_hashid = hashid, tr_data = data, tr_subject = subject\<rparr>"
  have valid: "validate_token_row C ?row = Inr ()"
    if "validate_token_fields C kid hashid data = Inr ()" "validate_optional_subject subject = Inr ()"
    using that by (simp add: validate_token_row_def)
  show ?thesis
  proof (cases "\<exists>x s1. validate_token_fields C kid hashid data = Inr () \<and> validate_optional_subject subject = Inr () \<and>
      (subject = None \<and> execute env (sql_insert_token env ?row) s = (s', Inr x) \<or>
       sqlite_save_tokens_batch_guarded env [?row] s1 s = (s', Inr ()))")
    case True
    then obtain x guards where v: "validate_token_row C ?row = Inr ()"
      and "subject = None \<and> execute env (sql_insert_token env ?row) s = (s', Inr x) \<or>
        sqlite_save_tokens_batch_guarded env [?row] guards s = (s', Inr ())" using valid by blast
    then have "\<exists>guards. saves [?row] (sd_db s) (sd_db s') \<and> generations_current [?row] guards (sd_db s)"
      using sqlite_save_batch_Inr [of env "[?row]" guards s s']
      by (auto simp: sop_simps sql_insert_token_def saves_def generations_current_def split: if_splits)
    with v show ?thesis by (auto simp: saves_batch_def)
  next
    case False
    then have "sd_db s' = sd_db s"
      using assms
      by (cases r) (auto simp: save_token_for_subject_def sqlite_save_token_for_subject_def Let_def sop_simps
          split: option.splits dest: request_Inl sqlite_save_batch_Inl)
    then show ?thesis ..
  qed
qed

lemma serve_ok: "db_ok C (sd_db s) \<Longrightarrow> db_ok C (sd_db (serve C env s q))"
proof (cases q)
  case (SaveToken kid hashid data subject seed)
  assume "db_ok C (sd_db s)"
  then show ?thesis
    using save_token_batch [of C env kid hashid data subject seed s, OF surjective_pairing] saves_ok
    by (auto simp: SaveToken)
next
  case (SaveIndex kid digest)
  assume "db_ok C (sd_db s)"
  then show ?thesis 
    unfolding SaveIndex serve.simps save_index_batch by (rule indexing.keeps [OF adds_indexes_ok, rotated 2]) simp_all
qed (auto intro: creating.keeps updating.keeps swapping.keeps saving.keeps deleting.keeps consuming.keeps
    enrolling.keeps erasing.keeps indexing.keeps
    dest: saves_ok consumes_ok erases_ok adds_subject_ok adds_key_ok sets_properties_ok adds_indexes_ok
    simp: readsD [OF reads_operations(2) surjective_pairing] readsD [OF reads_operations(3) surjective_pairing]
      readsD [OF reads_operations(4) surjective_pairing] readsD [OF reads_operations(6) surjective_pairing])

text \<open>Which requests may store a token under a key; no other request brings one back.\<close>

fun stores :: "storage_request \<Rightarrow> ustr \<times> ustr \<Rightarrow> bool" where
  "stores (SaveToken kid hashid data subject seed) k \<longleftrightarrow> k = (kid, hashid)"
| "stores (SaveTokensBatch records guards) k \<longleftrightarrow> k \<in> token_key ` set records"
| "stores _ k \<longleftrightarrow> False"

definition absent :: "ustr \<times> ustr \<Rightarrow> database \<Rightarrow> bool" where
  "absent k db \<longleftrightarrow> k \<notin> token_key ` set (db_tokens db)"

lemma absent_changes:
  "saves_batch C records guards db db' \<Longrightarrow> k \<notin> token_key ` set records \<Longrightarrow> absent k db \<Longrightarrow> absent k db'"
  "consumes kid hs subject db db' \<Longrightarrow> absent k db \<Longrightarrow> absent k db'"
  "erases kid subject' db db' \<Longrightarrow> absent k db \<Longrightarrow> absent k db'"
  "adds_valid_subject C srow db db' \<Longrightarrow> absent k db \<Longrightarrow> absent k db'"
  "adds_valid_key C krow db db' \<Longrightarrow> absent k db \<Longrightarrow> absent k db'"
  "sets_valid_properties C P properties db db' \<Longrightarrow> absent k db \<Longrightarrow> absent k db'"
  "adds_valid_indexes rows db db' \<Longrightarrow> absent k db \<Longrightarrow> absent k db'"
  by (auto simp: absent_def saves_batch_def saves_def consumes_def erases_def adds_valid_subject_def
      adds_subject_def adds_valid_key_def adds_key_def sets_valid_properties_def sets_properties_def
      adds_valid_indexes_def adds_indexes_def sql_insert_indexes_def split: if_splits)

lemma serve_absent: "absent k (sd_db s) \<Longrightarrow> \<not> stores q k \<Longrightarrow> absent k (sd_db (serve C env s q))"
proof (cases q)
  case (SaveToken kid hashid data subject seed)
  let ?s = "fst (save_token_for_subject C env kid hashid data subject seed s)"
  let ?row = "\<lparr>tr_kid = kid, tr_hashid = hashid, tr_data = data, tr_subject = subject\<rparr>"
  assume a: "absent k (sd_db s)" "\<not> stores q k"
  from save_token_batch [of C env kid hashid data subject seed s, OF surjective_pairing] consider
    "sd_db ?s = sd_db s" | guards where "saves_batch C [?row] guards (sd_db s) (sd_db ?s)" by blast
  then show ?thesis
  proof cases
    case 2
    from absent_changes(1) [OF this] a show ?thesis by (simp add: SaveToken)
  qed (use a in \<open>simp add: SaveToken\<close>)
next
  case (SaveTokensBatch records guards)
  assume a: "absent k (sd_db s)" "\<not> stores q k"
  show ?thesis
    unfolding SaveTokensBatch serve.simps
    by (rule saving.keeps [OF absent_changes(1)]) (use a SaveTokensBatch in auto)
next
  case (SaveIndex kid digest)
  assume "absent k (sd_db s)"
  then show ?thesis
    unfolding SaveIndex serve.simps save_index_batch by (rule indexing.keeps [OF absent_changes(7), rotated 2]) simp_all
qed (auto intro: creating.keeps updating.keeps swapping.keeps deleting.keeps consuming.keeps
    enrolling.keeps erasing.keeps indexing.keeps dest: absent_changes
    simp: readsD [OF reads_operations(2) surjective_pairing] readsD [OF reads_operations(3) surjective_pairing]
      readsD [OF reads_operations(4) surjective_pairing] readsD [OF reads_operations(6) surjective_pairing])

lemma serve_all_absent:
  "absent k (sd_db s) \<Longrightarrow> list_all (\<lambda>q. \<not> stores q k) requests \<Longrightarrow> absent k (sd_db (serve_all C env s requests))"
  unfolding serve_all_def by (induction requests arbitrary: s) (auto simp: serve_absent)

text \<open>Which requests enrol a subject with a given seed; no other request brings that generation back.\<close>

fun enrols :: "storage_request \<Rightarrow> ustr \<times> ustr \<Rightarrow> ustr \<Rightarrow> bool" where
  "enrols (SaveSubject row) k seed \<longleftrightarrow> subject_key row = k \<and> sr_seed row = seed"
| "enrols _ k seed \<longleftrightarrow> False"

definition stale :: "ustr \<times> ustr \<Rightarrow> ustr \<Rightarrow> database \<Rightarrow> bool" where
  "stale k seed db \<longleftrightarrow> list_all (\<lambda>r. subject_key r = k \<longrightarrow> sr_seed r \<noteq> seed) (db_subjects db)"

lemma stale_changes:
  "saves_batch C records guards db db' \<Longrightarrow> stale k seed db \<Longrightarrow> stale k seed db'"
  "consumes kid hs subject db db' \<Longrightarrow> stale k seed db \<Longrightarrow> stale k seed db'"
  "erases kid subject' db db' \<Longrightarrow> stale k seed db \<Longrightarrow> stale k seed db'"
  "adds_valid_subject C srow db db' \<Longrightarrow> \<not> (subject_key srow = k \<and> sr_seed srow = seed) \<Longrightarrow> stale k seed db \<Longrightarrow> stale k seed db'"
  "adds_valid_key C krow db db' \<Longrightarrow> stale k seed db \<Longrightarrow> stale k seed db'"
  "sets_valid_properties C P properties db db' \<Longrightarrow> stale k seed db \<Longrightarrow> stale k seed db'"
  "adds_valid_indexes rows db db' \<Longrightarrow> stale k seed db \<Longrightarrow> stale k seed db'"
  by (auto simp: stale_def saves_batch_def saves_def consumes_def erases_def adds_valid_subject_def
      adds_subject_def adds_valid_key_def adds_key_def sets_valid_properties_def sets_properties_def
      adds_valid_indexes_def adds_indexes_def sql_insert_indexes_def list_all_iff split: if_splits)

lemma serve_stale: "stale k seed (sd_db s) \<Longrightarrow> \<not> enrols q k seed \<Longrightarrow> stale k seed (sd_db (serve C env s q))"
proof (cases q)
  case (SaveToken kid hashid data subject expected)
  assume "stale k seed (sd_db s)"
  then show ?thesis
    using save_token_batch [of C env kid hashid data subject expected s, OF surjective_pairing]
    by (auto simp: SaveToken dest: stale_changes(1))
next
  case (SaveSubject row)
  assume a: "stale k seed (sd_db s)" "\<not> enrols q k seed"
  show ?thesis
    unfolding SaveSubject serve.simps by (rule enrolling.keeps [OF stale_changes(4)]) (use a SaveSubject in auto)
next
  case (SaveIndex kid digest)
  assume "stale k seed (sd_db s)"
  then show ?thesis
    unfolding SaveIndex serve.simps save_index_batch by (rule indexing.keeps [OF stale_changes(7), rotated 2]) simp_all
qed (auto intro: creating.keeps updating.keeps swapping.keeps saving.keeps deleting.keeps consuming.keeps
    erasing.keeps indexing.keeps dest: stale_changes
    simp: readsD [OF reads_operations(2) surjective_pairing] readsD [OF reads_operations(3) surjective_pairing]
      readsD [OF reads_operations(4) surjective_pairing] readsD [OF reads_operations(6) surjective_pairing])

lemma serve_all_stale:
  "stale k seed (sd_db s) \<Longrightarrow> list_all (\<lambda>q. \<not> enrols q k seed) requests \<Longrightarrow> stale k seed (sd_db (serve_all C env s requests))"
  unfolding serve_all_def by (induction requests arbitrary: s) (auto simp: serve_stale)

text \<open>A writer that holds a stale generation is refused and changes nothing.\<close>

lemma stale_current: "stale k seed db \<Longrightarrow> subjects_map (db_subjects db) k \<noteq> Some seed"
  by (auto simp: stale_def subjects_map_def list_all_iff dest!: map_of_SomeD)

lemma stale_batch_refused:
  assumes "stale (kid, subject) seed (sd_db s)" "map_option wg_seed (guard_for guards kid subject) = Some seed"
    and "list_ex (\<lambda>r. tr_kid r = kid \<and> tr_subject r = Some subject) records"
    and "save_tokens_batch_guarded C env records guards s = (s', r)"
  shows "isl r \<and> sd_db s' = sd_db s"
proof (cases r)
  case (Inr u)
  then have "generations_current records guards (sd_db s)"
    using save_batch_Inr [of C env records guards s s'] assms(4) by simp
  then have "subjects_map (db_subjects (sd_db s)) (kid, subject) = Some seed"
    using assms(2,3) by (fastforce simp: generations_current_def list_all_iff list_ex_iff)
  with stale_current [OF assms(1)] show ?thesis by blast
qed (use save_batch_Inl assms(4) in auto)

lemma stale_token_refused:
  assumes "stale (kid, subject) seed (sd_db s)"
    and "save_token_for_subject C env kid hashid data (Some subject) (Some seed) s = (s', r)"
  shows "isl r \<and> sd_db s' = sd_db s"
proof -
  let ?row = "\<lparr>tr_kid = kid, tr_hashid = hashid, tr_data = data, tr_subject = Some subject\<rparr>"
  let ?guard = "\<lparr>wg_kid = kid, wg_subject = subject, wg_seed = seed\<rparr>"
  have no: "sqlite_save_tokens_batch_guarded env [?row] [?guard] s \<noteq> (s2, Inr ())" for s2
    using sqlite_save_batch_Inr [of env "[?row]" "[?guard]" s s2] stale_current [OF assms(1)]
    by (auto simp: generations_current_def)
  then show ?thesis
    using assms(2)
    by (cases r) (auto simp: save_token_for_subject_def sqlite_save_token_for_subject_def Let_def sop_simps
        dest: sqlite_save_batch_Inl)
qed

section \<open>Saving succeeds\<close>

lemma insert_tokens_complete:
  assumes "reliable env" "distinct (map token_key records)"
    and "token_key ` set records \<inter> token_key ` set (db_tokens (sd_db s)) = {}"
  shows "\<exists>s'. for_eachS (\<lambda>r. execute env (sql_insert_token env r)) records s = (s', Inr ())"
  using assms(2,3)
proof (induction records arbitrary: s)
  case (Cons r records)
  let ?s = "\<lparr>sd_db = (sd_db s)\<lparr>db_tokens := db_tokens (sd_db s) @ [r]\<rparr>, sd_calls = Suc (sd_calls s)\<rparr>"
  have "execute env (sql_insert_token env r) s = (?s, Inr ())"
    using Cons.prems by (simp add: reliable_request [OF assms(1)] sql_insert_token_def)
  moreover from Cons.IH [of ?s] Cons.prems have
    "\<exists>s'. for_eachS (\<lambda>r. execute env (sql_insert_token env r)) records ?s = (s', Inr ())" by auto
  ultimately show ?case by (auto simp: bindS_def)
qed (simp add: retS_def)

lemma check_generations_complete:
  assumes "reliable env"
    and "\<forall>g \<in> set guards. subjects_map (db_subjects (sd_db s)) (wg_kid g, wg_subject g) = Some (wg_seed g)"
  shows "\<exists>s'. for_eachS (check_generation env) guards s = (s', Inr ()) \<and> sd_db s' = sd_db s"
  using assms(2)
proof (induction guards arbitrary: s)
  case (Cons g guards)
  let ?s = "\<lparr>sd_db = sd_db s, sd_calls = Suc (sd_calls s)\<rparr>"
  have "check_generation env g s = (?s, Inr ())"
    using Cons.prems by (auto simp: check_generation_def bindS_def reliable_request [OF assms(1)]
        sql_select_subject_def liftS_def check_subject_generation_def subjects_map_find)
  with Cons.IH [of ?s] Cons.prems show ?case by (auto simp: bindS_def)
qed (simp add: retS_def)

lemma subject_write_guards_complete:
  assumes "generations_current records guards db"
  shows "\<exists>ordered. subject_write_guards records guards = Inr ordered \<and>
    (\<forall>g \<in> set ordered. subjects_map (db_subjects db) (wg_kid g, wg_subject g) = Some (wg_seed g))"
proof -
  have g: "guard_for guards (tr_kid r) x \<noteq> None \<and>
      subjects_map (db_subjects db) (tr_kid r, x) = map_option wg_seed (guard_for guards (tr_kid r) x)"
    if "r \<in> set records" "tr_subject r = Some x" for r x
    using assms that by (auto simp: generations_current_def list_all_iff split: option.splits)
  from g have "\<exists>out. guards_loop guards [] records = Inr out" by (intro guards_loop_complete) blast
  then obtain out where "guards_loop guards [] records = Inr out" by blast
  then have "subject_write_guards records guards =
      Inr (if list_all (\<lambda>r. tr_subject r = None) records then [] else map snd out)"
    by (simp add: subject_write_guards_def)
  then obtain ordered where o: "subject_write_guards records guards = Inr ordered" by blast
  have "subjects_map (db_subjects db) (wg_kid h, wg_subject h) = Some (wg_seed h)" if "h \<in> set ordered" for h
  proof -
    from subject_write_guards_ok [OF o] that obtain r x where
      r: "r \<in> set records" "tr_subject r = Some x" "guard_for guards (tr_kid r) x = Some h" by blast
    then have "wg_kid h = tr_kid r" "wg_subject h = x" by (auto simp: find_Some_iff)
    with g [OF r(1,2)] r(3) show ?thesis by simp
  qed
  with o show ?thesis by blast
qed

lemma save_batch_complete:
  assumes "reliable env" "list_all (\<lambda>r. validate_token_row C r = Inr ()) records"
    and "distinct (map token_key records)"
    and "token_key ` set records \<inter> token_key ` set (db_tokens (sd_db s)) = {}"
    and "generations_current records guards (sd_db s)"
  shows "\<exists>s'. save_tokens_batch_guarded C env records guards s = (s', Inr ())"
proof -
  from subject_write_guards_complete [OF assms(5)] obtain ordered where
    o: "subject_write_guards records guards = Inr ordered"
    "\<forall>g \<in> set ordered. subjects_map (db_subjects (sd_db s)) (wg_kid g, wg_subject g) = Some (wg_seed g)" by blast
  let ?s = "s\<lparr>sd_calls := Suc (sd_calls s)\<rparr>"
  from check_generations_complete [OF assms(1), of ordered ?s] o(2) obtain s1 where
    s1: "for_eachS (check_generation env) ordered ?s = (s1, Inr ())" "sd_db s1 = sd_db s" by auto
  from insert_tokens_complete [OF assms(1,3), of s1] assms(4) s1(2) obtain s2 where
    "for_eachS (\<lambda>r. execute env (sql_insert_token env r)) records s1 = (s2, Inr ())" by auto
  note s2 = this
  let ?body = "bindS (for_eachS (check_generation env) ordered) (\<lambda>_.
      for_eachS (\<lambda>r. execute env (sql_insert_token env r)) records)"
  have b: "?body ?s = (s2, Inr ())" using s1(1) s2
    by (simp add: bindS_def)
  from reliable_transaction [of env ?body s, OF assms(1) b, of "\<lambda>err. err"] obtain s' where
    "sqlite_save_tokens_batch_guarded env records guards s = (s', Inr ())"
    by (auto simp: sqlite_save_tokens_batch_guarded_def bindS_def liftS_def o(1))
  moreover have "try_for_each (validate_token_row C) records = Inr ()"
    using assms(2) by (auto simp: result_simps list_all_iff)
  ultimately show ?thesis by (auto simp: save_tokens_batch_guarded_def bindS_def liftS_def)
qed

section \<open>Batch reads\<close>

lemma count_hashids:
  "foldl count_hashid occ hs h =
     (if h \<in> set hs then Some (count_list hs h + (case occ h of None \<Rightarrow> 0 | Some n \<Rightarrow> n)) else occ h)"
proof (induction hs arbitrary: occ)
  case (Cons x hs)
  have c: "count_hashid occ x h = (if h = x then Some ((case occ h of None \<Rightarrow> 0 | Some n \<Rightarrow> n) + 1) else occ h)"
    by (auto simp: count_hashid_def)
  show ?case unfolding foldl_Cons Cons.IH c by (auto simp: count_notin)
qed simp

text \<open>Taking a row out of the map at its last occurrence answers as looking each hashid up does.\<close>

lemma resolve_loop_lookup:
  assumes "\<forall>h \<in> set hs. occ h = Some (count_list hs h)"
  shows "resolve_loop occ found hs = Inr (map found hs)"
  using assms
proof (induction hs arbitrary: occ found)
  case (Cons h hs)
  have "\<forall>x \<in> set hs. (occ(h \<mapsto> count_list hs h)) x = Some (count_list hs x)"
    using Cons.prems by (auto split: if_splits)
  note ih = Cons.IH [OF this]
  have "map (found(h := None)) hs = map found hs" if "count_list hs h = 0"
    using that by (auto simp: count_list_0_iff)
  moreover have "occ h = Some (Suc (count_list hs h))" using Cons.prems by simp
  ultimately show ?case by (simp add: usize_sub_def ih del: fun_upd_apply)
qed simp

lemma resolve_tokens_lookup: "resolve_tokens_in_request_order found hashids = Inr (map found hashids)"
  unfolding resolve_tokens_in_request_order_def
  by (intro resolve_loop_lookup) (simp add: count_hashids)

definition row_cost :: "ustr list \<Rightarrow> token_row \<Rightarrow> nat" where
  "row_cost hashids r = str_len (tr_data r) * count_list hashids (tr_hashid r)"

lemma budget_retain_ok:
  assumes "tb_occurrences budget = foldl count_hashid Map.empty hashids" "tr_hashid r \<in> set hashids"
    and "validate_token_row C r = Inr ()" "tb_remaining budget < 2 ^ 64"
  shows "budget_retain C budget (tr_hashid r) (tr_data r) =
    (if row_cost hashids r \<le> tb_remaining budget
     then Inr (budget\<lparr>tb_remaining := tb_remaining budget - row_cost hashids r\<rparr>)
     else Inl (Vectis TokenDecodeBatchTooLarge))"
  using assms
  by (auto simp: budget_retain_def validate_token_row_def validate_token_fields_def bindR_eq_Inr count_hashids
      row_cost_def usize_checked_mul_def usize_checked_sub_def)

lemma token_rows_loop_reliable:
  assumes "reliable env" "tb_occurrences budget = foldl count_hashid Map.empty hashids" "tb_remaining budget < 2 ^ 64"
    and "list_all (\<lambda>r. tr_hashid r \<in> set hashids \<and> tr_kid r = kid \<and> validate_token_row C r = Inr ()) rows"
  shows "snd (token_rows_loop C env kid budget found rows s) =
    (if sum_list (map (row_cost hashids) rows) \<le> tb_remaining budget
     then Inr (foldl (\<lambda>m r. m(tr_hashid r \<mapsto> r)) found rows) else Inl (Vectis TokenDecodeBatchTooLarge))"
  using assms(2-)
proof (induction rows arbitrary: budget found s)
  case Nil
  then show ?case by (simp add: bindS_def reliable_request [OF assms(1)] roundtrip_def retS_def)
next
  case (Cons r rows)
  have v: "tr_hashid r \<in> set hashids" "tr_kid r = kid" "validate_token_row C r = Inr ()" using Cons.prems(3) by auto
  note b = budget_retain_ok [OF Cons.prems(1) v(1,3) Cons.prems(2)]
  have sub: "validate_optional_subject (tr_subject r) = Inr ()"
    using v(3) by (simp add: validate_token_row_def bindR_eq_Inr)
  have row: "\<lparr>tr_kid = kid, tr_hashid = tr_hashid r, tr_data = tr_data r, tr_subject = tr_subject r\<rparr> = r"
    using v(2) by simp
  show ?case
  proof (cases "row_cost hashids r \<le> tb_remaining budget")
    case True
    let ?b = "budget\<lparr>tb_remaining := tb_remaining budget - row_cost hashids r\<rparr>"
    have "tb_occurrences ?b = foldl count_hashid Map.empty hashids" "tb_remaining ?b < 2 ^ 64"
      using Cons.prems(1,2) by simp_all
    from Cons.IH [OF this, of "found(tr_hashid r \<mapsto> r)"] Cons.prems(3) True show ?thesis
      by (auto simp: bindS_def reliable_request [OF assms(1)] roundtrip_def liftS_def b sub row simp del: fun_upd_apply)
  qed (simp add: bindS_def reliable_request [OF assms(1)] roundtrip_def liftS_def b)
qed

lemma foldl_rows_map:
  assumes "distinct (map tr_hashid rows)"
  shows "foldl (\<lambda>m r. m(tr_hashid r \<mapsto> r)) found rows h =
    (case find (\<lambda>r. tr_hashid r = h) rows of None \<Rightarrow> found h | Some r \<Rightarrow> Some r)"
  using assms
proof (induction rows arbitrary: found)
  case (Cons r rows)
  have "find (\<lambda>r. tr_hashid r = h) rows = None" if "tr_hashid r = h"
    using Cons.prems that by (auto simp: find_None_iff image_iff)
  with Cons show ?case by auto
qed simp

lemma find_filter_key:
  "find (\<lambda>r. tr_hashid r = h) (filter (\<lambda>r. tr_kid r = kid \<and> tr_hashid r \<in> set hashids) rows) =
     (if h \<in> set hashids then find (\<lambda>r. token_key r = (kid, h)) rows else None)"
  by (induction rows) auto

lemma selected_rows:
  assumes "db_ok C db" "rows = sql_select_tokens kid hashids db"
  shows "list_all (\<lambda>r. tr_hashid r \<in> set hashids \<and> tr_kid r = kid \<and> validate_token_row C r = Inr ()) rows"
    "distinct (map tr_hashid rows)"
    "\<forall>h \<in> set hashids. foldl (\<lambda>m r. m(tr_hashid r \<mapsto> r)) Map.empty rows h =
       find (\<lambda>r. token_key r = (kid, h)) (db_tokens db)"
proof -
  show "list_all (\<lambda>r. tr_hashid r \<in> set hashids \<and> tr_kid r = kid \<and> validate_token_row C r = Inr ()) rows"
    using assms by (auto simp: sql_select_tokens_def db_ok_def rows_ok_def list_all_iff)
  have "distinct (map token_key (filter (\<lambda>r. tr_kid r = kid \<and> tr_hashid r \<in> set hashids) (db_tokens db)))"
    using assms(1) by (simp add: db_ok_def keys_ok_def distinct_map_filter)
  then show d: "distinct (map tr_hashid rows)"
    by (auto simp: assms(2) sql_select_tokens_def distinct_map inj_on_def)
  show "\<forall>h \<in> set hashids. foldl (\<lambda>m r. m(tr_hashid r \<mapsto> r)) Map.empty rows h =
       find (\<lambda>r. token_key r = (kid, h)) (db_tokens db)"
    unfolding foldl_rows_map [OF d] unfolding assms(2) sql_select_tokens_def find_filter_key
    by (simp split: option.splits)
qed

lemma get_tokens_batch_reliable:
  assumes "db_ok C (sd_db s)" "reliable env" "max_bytes < 2 ^ 64"
    and "validate_storage_kid (lit ''tokens.kid'') kid = Inr ()" "list_all (\<lambda>h. validate_token_hashid h = Inr ()) hashids"
  shows "snd (get_tokens_batch C env kid hashids max_bytes s) =
    (if sum_list (map (row_cost hashids) (sql_select_tokens kid hashids (sd_db s))) \<le> max_bytes
     then Inr (map (\<lambda>h. find (\<lambda>r. token_key r = (kid, h)) (db_tokens (sd_db s))) hashids)
     else Inl (Vectis TokenDecodeBatchTooLarge))"
proof -
  let ?rows = "sql_select_tokens kid hashids (sd_db s)"
  let ?found = "foldl (\<lambda>m r. m(tr_hashid r \<mapsto> r)) Map.empty ?rows"
  have t: "try_for_each validate_token_hashid hashids = Inr ()" using assms(5) by (auto simp: result_simps list_all_iff)
  show ?thesis
  proof (cases "hashids = []")
    case True
    then show ?thesis
      by (simp add: get_tokens_batch_def sqlite_get_tokens_batch_def bindS_def liftS_def assms(4)
          sql_select_tokens_def found_rows_def map_filter_simps resolve_tokens_lookup)
  next
    case False
    note sel = selected_rows [OF assms(1) refl, where kid = kid and hashids = hashids]
    have loop: "snd (sqlite_get_tokens_batch C env kid hashids max_bytes s') =
      (if sum_list (map (row_cost hashids) ?rows) \<le> max_bytes then Inr ?found
       else Inl (Vectis TokenDecodeBatchTooLarge))" if "s' = s" for s'
      using token_rows_loop_reliable [OF assms(2), of "budget_new hashids max_bytes" hashids kid C ?rows] assms(3)
        sel(1) False that by (simp add: sqlite_get_tokens_batch_def budget_new_def)
    have "validate_token_row C r = Inr ()" if "r \<in> set (found_rows ?found hashids)" for r
    proof -
      from that obtain h where "h \<in> set hashids" "?found h = Some r" by (auto simp: found_rows_def map_filter_def)
      with sel(3) have "find (\<lambda>r. token_key r = (kid, h)) (db_tokens (sd_db s)) = Some r" by simp
      from find_key [OF this] assms(1) show ?thesis by (simp add: db_ok_def rows_ok_def list_all_iff)
    qed
    then have "try_for_each (validate_token_row C) (found_rows ?found hashids) = Inr ()"
      by (auto simp: result_simps)
    moreover have "map ?found hashids = map (\<lambda>h. find (\<lambda>r. token_key r = (kid, h)) (db_tokens (sd_db s))) hashids"
      using sel(3) by simp
    ultimately show ?thesis using loop [OF refl]
      by (cases "sqlite_get_tokens_batch C env kid hashids max_bytes s")
        (auto simp: get_tokens_batch_def bindS_def liftS_def assms(4) t resolve_tokens_lookup
          split: if_splits sum.splits)
  qed
qed

lemma row_cost_total:
  assumes "db_ok C db"
  shows "sum_list (map (row_cost hashids) (sql_select_tokens kid hashids db)) =
    sum_list (map (\<lambda>h. case find (\<lambda>r. token_key r = (kid, h)) (db_tokens db) of
       None \<Rightarrow> 0 | Some r \<Rightarrow> str_len (tr_data r)) hashids)"
proof -
  let ?rows = "sql_select_tokens kid hashids db"
  let ?c = "\<lambda>h. case find (\<lambda>r. token_key r = (kid, h)) (db_tokens db) of None \<Rightarrow> 0 | Some r \<Rightarrow> str_len (tr_data r)"
  note sel = selected_rows [OF assms refl, where kid = kid and hashids = hashids]
  have f: "find (\<lambda>r. token_key r = (kid, tr_hashid r')) (db_tokens db) = Some r'" if "r' \<in> set ?rows" for r'
  proof -
    have "r' \<in> set (db_tokens db)" "tr_kid r' = kid" using that by (auto simp: sql_select_tokens_def)
    moreover have "distinct (map token_key (db_tokens db))" using assms by (simp add: db_ok_def keys_ok_def)
    ultimately show ?thesis using find_unique [of token_key "db_tokens db" r'] by simp
  qed
  have "sum_list (map (row_cost hashids) ?rows) = (\<Sum>r \<in> set ?rows. row_cost hashids r)"
    using sel(2) by (intro sum_list_distinct_conv_sum_set) (simp add: distinct_map)
  also have "\<dots> = (\<Sum>r \<in> set ?rows. ?c (tr_hashid r) * count_list hashids (tr_hashid r))"
    by (intro sum.cong) (simp_all add: row_cost_def f [simplified])
  also have "\<dots> = (\<Sum>h \<in> tr_hashid ` set ?rows. ?c h * count_list hashids h)"
    using sel(2) by (subst sum.reindex) (simp_all add: distinct_map)
  also have "\<dots> = (\<Sum>h \<in> set hashids. ?c h * count_list hashids h)"
  proof (intro sum.mono_neutral_left)
    show "tr_hashid ` set ?rows \<subseteq> set hashids" by (auto simp: sql_select_tokens_def)
    show "\<forall>h \<in> set hashids - tr_hashid ` set ?rows. ?c h * count_list hashids h = 0"
    proof
      fix h assume h: "h \<in> set hashids - tr_hashid ` set ?rows"
      then have "find (\<lambda>r. token_key r = (kid, h)) (db_tokens db) = None"
        by (force simp: sql_select_tokens_def find_None_iff)
      then show "?c h * count_list hashids h = 0" by simp
    qed
  qed simp
  also have "\<dots> = sum_list (map ?c hashids)"
    by (simp add: sum_list_map_eq_sum_count mult.commute)
  finally show ?thesis .
qed

section \<open>Erasure and compare-and-swap\<close>

lemma erased_maps:
  assumes "erases kid subject db db'" "keys_ok db"
  shows "va_subjects (vault_of db') = (va_subjects (vault_of db))((kid, subject) := None)"
    "va_tokens (vault_of db') k =
      (case va_tokens (vault_of db) k of None \<Rightarrow> None
       | Some (data, owner) \<Rightarrow> if fst k = kid \<and> owner = Some subject then None else Some (data, owner))"
proof -
  have e: "db' = db\<lparr>db_tokens := filter (\<lambda>r. \<not> (tr_kid r = kid \<and> tr_subject r = Some subject)) (db_tokens db),
      db_subjects := filter (\<lambda>r. subject_key r \<noteq> (kid, subject)) (db_subjects db)\<rparr>"
    using assms(1) by (simp add: erases_def)
  have d: "distinct (map token_key (db_tokens db))" "distinct (map subject_key (db_subjects db))"
    using assms(2) by (simp_all add: keys_ok_def)
  show "va_subjects (vault_of db') = (va_subjects (vault_of db))((kid, subject) := None)"
  proof
    fix x
    show "va_subjects (vault_of db') x = ((va_subjects (vault_of db))((kid, subject) := None)) x"
    proof (cases "find (\<lambda>r. subject_key r = x) (db_subjects db)")
      case None
      then show ?thesis unfolding vault_of_def e subjects_map_def
        by (simp add: map_of_filter_key [OF d(2)]) (simp add: map_of_find)
    next
      case (Some r)
      have "subject_key r = x" using find_key [OF Some] by simp
      with Some show ?thesis unfolding vault_of_def e subjects_map_def
        by (auto simp add: map_of_filter_key [OF d(2)]) (auto simp: map_of_find)
    qed
  qed
  show "va_tokens (vault_of db') k =
      (case va_tokens (vault_of db) k of None \<Rightarrow> None
       | Some (data, owner) \<Rightarrow> if fst k = kid \<and> owner = Some subject then None else Some (data, owner))"
  proof (cases "find (\<lambda>r. token_key r = k) (db_tokens db)")
    case None
    then show ?thesis unfolding vault_of_def e
      by (simp add: tokens_map_filter [OF d(1)]) (simp add: tokens_map_find)
  next
    case (Some r)
    have "token_key r = k" using find_key [OF Some] by simp
    then have "fst k = tr_kid r" by auto
    with Some show ?thesis unfolding vault_of_def e
      by (simp add: tokens_map_filter [OF d(1)]) (simp add: tokens_map_find)
  qed
qed

lemma erases_nothing:
  assumes "erases kid subject db db'" "no_orphans db" "(kid, subject) \<notin> subject_key ` set (db_subjects db)"
  shows "db' = db"
proof -
  have "filter (\<lambda>r. \<not> (tr_kid r = kid \<and> tr_subject r = Some subject)) (db_tokens db) = db_tokens db"
    using assms(2,3) by (intro filter_True) (auto simp: no_orphans_def list_all_iff)
  moreover have "filter (\<lambda>r. subject_key r \<noteq> (kid, subject)) (db_subjects db) = db_subjects db"
    using assms(3) by (intro filter_True) auto
  ultimately show ?thesis using assms(1) by (simp add: erases_def)
qed

lemma sets_properties_map:
  assumes "sets_properties (\<lambda>r. ok_kid r = kid \<and> P r) properties db db'"
    and "find (\<lambda>r. ok_kid r = kid) (db_opskeys db) = Some row" "P row"
  shows "find (\<lambda>r. ok_kid r = k) (db_opskeys db') =
    (if k = kid then Some (row\<lparr>ok_properties := properties\<rparr>) else find (\<lambda>r. ok_kid r = k) (db_opskeys db))"
proof -
  have "find (\<lambda>r. ok_kid r = k) (map (\<lambda>r. if ok_kid r = kid \<and> P r then r\<lparr>ok_properties := properties\<rparr> else r) rows) =
    (if k = kid then Some (row\<lparr>ok_properties := properties\<rparr>) else find (\<lambda>r. ok_kid r = k) rows)"
    if "find (\<lambda>r. ok_kid r = kid) rows = Some row" for rows
    using that
  proof (induction rows)
    case (Cons r rows)
    have other: "find (\<lambda>r. ok_kid r = k) (map (\<lambda>r. if ok_kid r = kid \<and> P r then r\<lparr>ok_properties := properties\<rparr> else r) rs) =
      find (\<lambda>r. ok_kid r = k) rs" if "\<forall>r \<in> set rs. ok_kid r = k \<longrightarrow> k \<noteq> kid" for rs
      using that by (induction rs) auto
    show ?case
    proof (cases "ok_kid r = kid")
      case True
      with Cons.prems assms(3) show ?thesis using other [of rows] by auto
    next
      case False
      with Cons show ?thesis by auto
    qed
  qed simp
  with assms show ?thesis by (simp add: sets_properties_def)
qed

text \<open>The tables after the swap statement.\<close>

definition swapped :: "ustr \<Rightarrow> ustr \<Rightarrow> ustr \<Rightarrow> database \<Rightarrow> database" where
  "swapped kid current new db =
     db\<lparr>db_opskeys := map (\<lambda>r. if ok_kid r = kid \<and> ok_properties r = current
        then r\<lparr>ok_properties := new\<rparr> else r) (db_opskeys db)\<rparr>"

lemma cas_reliable:
  assumes "reliable env" "validate_storage_kid (lit ''opskeys.kid'') kid = Inr ()"
    and "list_all (\<lambda>p. validate_storage_envelope C (lit ''opskeys.properties'') p STORAGE_ENVELOPE_MAX_CHARS = Inr ())
      [current, new]"
  shows "update_ops_key_properties_if_current C env kid current new s =
    (\<lparr>sd_db = swapped kid current new (sd_db s), sd_calls = sd_calls s + 2\<rparr>,
     case find (\<lambda>r. ok_kid r = kid) (db_opskeys (swapped kid current new (sd_db s))) of
       None \<Rightarrow> Inl (not_found (lit ''ops key not found: '' @ kid))
     | Some row \<Rightarrow>
         if filter (\<lambda>r. ok_kid r = kid \<and> ok_properties r = current) (db_opskeys (sd_db s)) = []
         then Inl (invalid_input (lit ''ops key properties changed concurrently; retry lifecycle update''))
         else Inr row)"
  using assms(2,3)
  by (simp add: update_ops_key_properties_if_current_def sqlite_update_ops_key_properties_if_current_def
      sqlite_get_ops_keys_def bindS_def liftS_def reliable_request [OF assms(1)] sql_update_opskeys_def
      sql_select_opskey_def swapped_def split: option.splits)

lemma swapped_same:
  assumes "filter (\<lambda>r. ok_kid r = kid \<and> ok_properties r = current) (db_opskeys db) = []"
  shows "swapped kid current new db = db"
proof -
  have "map (\<lambda>r. if ok_kid r = kid \<and> ok_properties r = current then r\<lparr>ok_properties := new\<rparr> else r) (db_opskeys db) =
      db_opskeys db"
    using assms by (intro map_idI) (auto simp: filter_empty_conv)
  then show ?thesis by (simp add: swapped_def)
qed

lemma swapped_match:
  assumes "keys_ok db" "find (\<lambda>r. ok_kid r = kid) (db_opskeys db) = Some row" "ok_properties row = current"
  shows "find (\<lambda>r. ok_kid r = kid) (db_opskeys (swapped kid current new db)) =
      Some \<lparr>ok_kid = kid, ok_keys = ok_keys row, ok_properties = new\<rparr>"
    and "vault_of (swapped kid current new db) = (vault_of db)
      \<lparr>va_opskeys := (va_opskeys (vault_of db))(kid \<mapsto> (ok_keys row, new))\<rparr>"
proof -
  have "sets_properties (\<lambda>r. ok_kid r = kid \<and> ok_properties r = current) new db (swapped kid current new db)"
    by (simp add: sets_properties_def swapped_def)
  note g = sets_properties_map [OF this assms(2,3)]
  have "row\<lparr>ok_properties := new\<rparr> = \<lparr>ok_kid = kid, ok_keys = ok_keys row, ok_properties = new\<rparr>"
    using find_key [OF assms(2)] by (cases row) simp
  then show "find (\<lambda>r. ok_kid r = kid) (db_opskeys (swapped kid current new db)) =
      Some \<lparr>ok_kid = kid, ok_keys = ok_keys row, ok_properties = new\<rparr>" using g [of kid] by simp
  have "opskeys_map (db_opskeys (swapped kid current new db)) = (opskeys_map (db_opskeys db))(kid \<mapsto> (ok_keys row, new))"
    using g by (auto simp: opskeys_map_find fun_eq_iff)
  then show "vault_of (swapped kid current new db) = (vault_of db)
      \<lparr>va_opskeys := (va_opskeys (vault_of db))(kid \<mapsto> (ok_keys row, new))\<rparr>"
    by (simp add: vault_of_def swapped_def)
qed

lemma no_match:
  assumes "keys_ok db" "find (\<lambda>r. ok_kid r = kid) (db_opskeys db) = Some row" "ok_properties row \<noteq> current"
  shows "filter (\<lambda>r. ok_kid r = kid \<and> ok_properties r = current) (db_opskeys db) = []"
proof -
  have "r = row" if "r \<in> set (db_opskeys db)" "ok_kid r = kid" for r
    using find_unique [of ok_kid "db_opskeys db" r] assms that by (simp add: keys_ok_def)
  with assms(3) show ?thesis by (auto simp: filter_empty_conv)
qed

section \<open>An example\<close>

definition store_env :: storage_env where
  "store_env = \<lparr>se_fault = (\<lambda>_. None), se_unique_error = lit ''unique''\<rparr>"

definition example_hashid :: ustr where "example_hashid = replicate 64 98"
definition example_subject :: ustr where "example_subject = replicate 64 99"

text \<open>Three segments of 16, 12 and 1 characters.\<close>

definition example_data :: ustr where
  "example_data = replicate 16 97 @ 46 # replicate 12 98 @ 46 # [99]"

definition example_token :: token_row where
  "example_token = \<lparr>tr_kid = example_kid, tr_hashid = example_hashid, tr_data = example_data,
     tr_subject = Some example_subject\<rparr>"

definition example_subject_row :: subject_row where
  "example_subject_row = \<lparr>sr_kid = example_kid, sr_subject = example_subject, sr_seed = example_data\<rparr>"

text \<open>The same subject enrolled again, with another seed.\<close>

definition new_subject_row :: subject_row where
  "new_subject_row = example_subject_row\<lparr>sr_seed := replicate 16 97 @ 46 # replicate 12 98 @ 46 # [100]\<rparr>"

definition example_guard :: subject_write_guard where
  "example_guard = \<lparr>wg_kid = example_kid, wg_subject = example_subject, wg_seed = example_data\<rparr>"

definition example_key_row :: ops_key_row where
  "example_key_row = \<lparr>ok_kid = example_kid, ok_keys = example_data, ok_properties = example_data\<rparr>"

definition example_db :: "token_row list \<Rightarrow> database" where
  "example_db tokens = \<lparr>db_opskeys = [example_key_row], db_tokens = tokens, db_indexes = [],
     db_subjects = [example_subject_row]\<rparr>"

definition example_storage :: "token_row list \<Rightarrow> storage" where
  "example_storage tokens = \<lparr>sd_db = example_db tokens, sd_calls = 0\<rparr>"

definition store_crates :: crates where "store_crates = example_crates JNull"

lemma example_reliable: "reliable store_env"
  by (simp add: reliable_def store_env_def)

lemma envelope_text_ok:
  assumes x: "x = replicate 16 97 @ 46 # replicate 12 98 @ 46 # [c]" and c: "c = 99 \<or> c = 100"
  shows "n \<ge> 31 \<Longrightarrow> validate_storage_envelope store_crates f x n = Inr ()"
    and "validate_seed_envelope store_crates x = Inr ()"
proof -
  have a: "list_all is_ascii x" "\<not> list_ex (\<lambda>c. is_ascii_whitespace c \<or> is_ascii_control c) x"
    using c by (auto simp: x list_all_iff list_ex_iff char_simps)
  have l: "str_len x = 31" using a(1) by (simp add: str_len_ascii) (simp add: x)
  have s: "split_on 46 x = [replicate 16 97, replicate 12 98, [c]]"
    using c unfolding x by (auto simp: split_on_append split_on_absent simp del: replicate.simps)
  have v: "validate_base64_standard_envelope_segments (b64_decode store_crates) f x n =
      Inr (replicate 16 97, replicate 12 98, [c])" if "n \<ge> 31" for f n
    using that a l s
    by (simp add: validate_base64_standard_envelope_segments_def split_base64_standard_envelope_segments_def
        b64_segment_def store_crates_def example_crates_def x del: replicate.simps)
  have d: "b64_decode_q store_crates x = Inr (map word_of_nat x)" for x
    by (simp add: b64_decode_q_def store_crates_def example_crates_def)
  show "n \<ge> 31 \<Longrightarrow> validate_storage_envelope store_crates f x n = Inr ()"
    by (simp add: validate_storage_envelope_def v)
  show "validate_seed_envelope store_crates x = Inr ()"
    using a(1) by (simp add: validate_seed_envelope_def v SUBJECT_SEED_ENVELOPE_MAX_CHARS_def d)
qed

lemmas example_envelope_ok = envelope_text_ok [OF example_data_def disjI1 [OF refl]]

lemma example_ids:
  "validate_storage_kid f example_kid = Inr ()" "validate_token_hashid example_hashid = Inr ()"
  "validate_subject example_subject = Inr ()"
  "length example_kid = 64" "list_all is_ascii_hexdigit example_kid"
  "length example_hashid = 64" "list_all is_ascii_hexdigit example_hashid"
proof -
  show k: "length example_kid = 64" "list_all is_ascii_hexdigit example_kid"
    using example_key_id by (simp_all add: validate_key_id_ok)
  show h: "length example_hashid = 64" "list_all is_ascii_hexdigit example_hashid"
    by (simp_all add: example_hashid_def list_all_iff char_simps)
  show "validate_storage_kid f example_kid = Inr ()" "validate_token_hashid example_hashid = Inr ()"
    using k h by (simp_all add: validate_storage_kid_def validate_token_hashid_def validate_hash_hex_field_ok)
  show "validate_subject example_subject = Inr ()"
    by (simp add: validate_subject_ok example_subject_def list_all_iff char_simps)
qed

lemma example_token_ok: "validate_token_row store_crates example_token = Inr ()"
  by (simp add: validate_token_row_def validate_token_fields_def validate_optional_subject_def example_token_def
      example_ids example_envelope_ok STORAGE_TOKEN_ENVELOPE_MAX_CHARS_def)

lemma example_db_ok: "db_ok store_crates (example_db [])" "db_ok store_crates (example_db [example_token])"
proof -
  have "rows_ok store_crates (example_db ts)" if "ts = [] \<or> ts = [example_token]" for ts
    using that
    by (auto simp: rows_ok_def example_db_def example_token_ok subject_row_ok_def example_subject_row_def
        example_key_row_def validate_ops_key_row_def validate_ops_key_fields_def example_ids
        example_envelope_ok STORAGE_ENVELOPE_MAX_CHARS_def)
  moreover have "keys_ok (example_db ts)" if "ts = [] \<or> ts = [example_token]" for ts
    using that by (auto simp: keys_ok_def example_db_def)
  moreover have "no_orphans (example_db ts)" if "ts = [] \<or> ts = [example_token]" for ts
    using that by (auto simp: no_orphans_def example_db_def example_token_def example_subject_row_def)
  ultimately show "db_ok store_crates (example_db [])" "db_ok store_crates (example_db [example_token])"
    by (simp_all add: db_ok_def)
qed

lemma example_save:
  "save_tokens_batch_guarded store_crates store_env [example_token] [example_guard] (example_storage []) =
     (\<lparr>sd_db = example_db [example_token], sd_calls = 4\<rparr>, Inr ())"
proof -
  have g: "subject_write_guards [example_token] [example_guard] = Inr [example_guard]"
    by (simp add: subject_write_guards_def example_token_def example_guard_def)
  show ?thesis
    by (simp add: save_tokens_batch_guarded_def sqlite_save_tokens_batch_guarded_def bindS_def liftS_def example_token_ok
        g transaction_def reliable_request [OF example_reliable] roundtrip_def check_generation_def
        sql_select_subject_def check_subject_generation_def sql_insert_token_def retS_def example_storage_def
        example_db_def) (simp add: example_subject_row_def example_guard_def)
qed

lemma example_consume:
  "consume_tokens_batch_for_subject store_env example_kid [example_hashid] (Some example_subject)
     (example_storage [example_token]) = (\<lparr>sd_db = example_db [], sd_calls = 3\<rparr>, Inr ())"
  by (simp add: consume_tokens_batch_for_subject_def sqlite_consume_tokens_batch_for_subject_def bindS_def liftS_def
      example_ids validate_unique_token_hashids_def validate_optional_subject_def transaction_def
      reliable_request [OF example_reliable] roundtrip_def consume_one_def sql_delete_tokens_def retS_def
      example_storage_def example_db_def token_matches_def) (simp add: example_token_def)

lemma example_erase:
  "delete_subject store_env example_kid example_subject (example_storage [example_token]) =
     (\<lparr>sd_db = (example_db [])\<lparr>db_subjects := []\<rparr>, sd_calls = 4\<rparr>, Inr ())"
  by (simp add: delete_subject_def sqlite_delete_subject_def bindS_def liftS_def example_ids transaction_def
      reliable_request [OF example_reliable] roundtrip_def sql_delete_tokens_def sql_delete_subject_def retS_def
      example_storage_def example_db_def) (simp add: example_token_def example_subject_row_def)

lemma example_enrol:
  "save_subject store_crates store_env new_subject_row \<lparr>sd_db = (example_db [])\<lparr>db_subjects := []\<rparr>, sd_calls = 4\<rparr> =
     (\<lparr>sd_db = (example_db [])\<lparr>db_subjects := [new_subject_row]\<rparr>, sd_calls = 5\<rparr>, Inr True)"
  by (simp add: save_subject_def sqlite_save_subject_def sql_insert_subject_def bindS_def liftS_def retS_def
      reliable_request [OF example_reliable] new_subject_row_def envelope_text_ok(2) [OF refl disjI2 [OF refl]]
      example_subject_row_def example_ids)

lemma example_generations:
  "map_option wg_seed (guard_for [example_guard] example_kid example_subject) = Some example_data"
  "\<not> enrols (SaveSubject new_subject_row) (example_kid, example_subject) example_data"
  "tr_kid example_token = example_kid \<and> tr_subject example_token = Some example_subject"
  by (simp_all add: example_guard_def new_subject_row_def example_data_def example_token_def)

section \<open>Guarantees\<close>

text \<open>C13: storing a batch of tokens is all or nothing. Whatever requests to the database fail, an error
  leaves the tables as they were; a success adds exactly the records of the batch, none of which was
  there before, and every subject they belong to exists with the seed the caller opened.\<close>

theorem save_batch_all_or_nothing:
  assumes "save_tokens_batch_guarded C env records guards s = (s', r)"
  shows "case r of
      Inl _ \<Rightarrow> sd_db s' = sd_db s
    | Inr _ \<Rightarrow>
        vault_of (sd_db s') = (vault_of (sd_db s))
          \<lparr>va_tokens := va_tokens (vault_of (sd_db s)) ++ tokens_map records\<rparr> \<and>
        distinct (map token_key records) \<and> dom (tokens_map records) \<inter> dom (va_tokens (vault_of (sd_db s))) = {} \<and>
        generations_current records guards (sd_db s)"
proof (cases r)
  case (Inl e)
  with save_batch_Inl assms show ?thesis by simp
next
  case (Inr u)
  then have s: "saves records (sd_db s) (sd_db s')" "generations_current records guards (sd_db s)"
    using save_batch_Inr [of C env records guards s s'] assms by simp_all
  have "dom (tokens_map rows) = token_key ` set rows" for rows
    by (auto simp: tokens_map_def dom_map_of_conv_image_fst image_image)
  moreover have "distinct (map token_key records)"
    "token_key ` set records \<inter> token_key ` set (db_tokens (sd_db s)) = {}"
    "sd_db s' = (sd_db s)\<lparr>db_tokens := db_tokens (sd_db s) @ records\<rparr>"
    using s(1) by (simp_all add: saves_def)
  ultimately show ?thesis using saves_map [OF s(1)] s(2) by (simp add: Inr vault_of_def)
qed

theorem save_batch_all_or_nothing_witness:
  "save_tokens_batch_guarded store_crates store_env [example_token] [example_guard] (example_storage []) =
     (\<lparr>sd_db = example_db [example_token], sd_calls = 4\<rparr>, Inr ()) \<and>
   vault_of (example_db [example_token]) = (vault_of (example_db []))
     \<lparr>va_tokens := va_tokens (vault_of (example_db [])) ++ tokens_map [example_token]\<rparr> \<and>
   generations_current [example_token] [example_guard] (example_db [])"
  using save_batch_all_or_nothing [OF example_save] example_save by (simp add: example_storage_def)

text \<open>C39: and it succeeds when it can. Without faults of the database the batch is stored exactly when its
  rows are valid, their keys are new and the generations of their subjects are current.\<close>

theorem save_batch_succeeds_iff:
  assumes "reliable env"
  shows "(\<exists>s'. save_tokens_batch_guarded C env records guards s = (s', Inr ())) \<longleftrightarrow>
    list_all (\<lambda>r. validate_token_row C r = Inr ()) records \<and> distinct (map token_key records) \<and>
    token_key ` set records \<inter> token_key ` set (db_tokens (sd_db s)) = {} \<and>
    generations_current records guards (sd_db s)"
  using save_batch_Inr [of C env records guards s] save_batch_complete [OF assms, of C records s guards]
  by (auto simp: saves_def)

theorem save_batch_succeeds_iff_witness:
  "(\<exists>s'. save_tokens_batch_guarded store_crates store_env [example_token] [] (example_storage []) = (s', Inr ())) \<longleftrightarrow>
   False"
  unfolding save_batch_succeeds_iff [OF example_reliable]
  by (simp add: generations_current_def example_token_def)

text \<open>C40: consuming a batch of tokens is all or nothing. A success removes exactly the tokens named, each of
  which existed with the expected owner; a missing token is reported as the least one, and then, as
  after any other error, the tables are as they were.\<close>

theorem consume_batch_all_or_nothing:
  assumes "keys_ok (sd_db s)" and "consume_tokens_batch_for_subject env kid hashids subject s = (s', r)"
  shows "case r of
      Inr _ \<Rightarrow>
        list_all (\<lambda>h. map_option snd (va_tokens (vault_of (sd_db s)) (kid, h)) = Some subject) hashids \<and>
        vault_of (sd_db s') = (vault_of (sd_db s))
          \<lparr>va_tokens := va_tokens (vault_of (sd_db s)) |` (- ({kid} \<times> set hashids))\<rparr>
    | Inl (MissingToken h) \<Rightarrow>
        sd_db s' = sd_db s \<and> h \<in> set hashids \<and>
        map_option snd (va_tokens (vault_of (sd_db s)) (kid, h)) \<noteq> Some subject \<and>
        list_all (\<lambda>g. g < h \<longrightarrow> map_option snd (va_tokens (vault_of (sd_db s)) (kid, g)) = Some subject) hashids
    | Inl (OtherError _) \<Rightarrow> sd_db s' = sd_db s"
proof -
  have d: "distinct (map token_key (db_tokens (sd_db s)))" using assms(1) by (simp add: keys_ok_def)
  have t: "map_option snd (tokens_map (db_tokens (sd_db s)) (kid, h)) = Some subject \<longleftrightarrow>
      (\<exists>data. tokens_map (db_tokens (sd_db s)) (kid, h) = Some (data, subject))" for h
    by (cases "tokens_map (db_tokens (sd_db s)) (kid, h)") auto
  show ?thesis
  proof (cases r)
    case (Inr u)
    then have c: "consumes kid hashids subject (sd_db s) (sd_db s')"
      using consume_batch_Inr [of env kid hashids subject s s'] assms(2) by simp
    then have m: "\<forall>h \<in> set hashids. \<exists>data. tokens_map (db_tokens (sd_db s)) (kid, h) = Some (data, subject)"
      unfolding consumes_def one_match_iff [OF d] by blast
    with removed_map [OF d m] c t show ?thesis
      by (simp add: Inr consumes_def vault_of_def list_all_iff)
  next
    case (Inl e)
    have same: "sd_db s' = sd_db s" using consume_batch_Inl assms(2) Inl by blast
    show ?thesis
    proof (cases e)
      case (MissingToken h)
      with consume_batch_Missing [of env kid hashids subject s s' h] assms(2) Inl d t same
      show ?thesis by (auto simp: vault_of_def list_all_iff)
    qed (simp add: Inl same)
  qed
qed

theorem consume_batch_all_or_nothing_witness:
  "map_option snd (va_tokens (vault_of (example_db [example_token])) (example_kid, example_hashid)) =
     Some (Some example_subject) \<and>
   vault_of (example_db []) = (vault_of (example_db [example_token]))
     \<lparr>va_tokens := va_tokens (vault_of (example_db [example_token])) |` (- ({example_kid} \<times> set [example_hashid]))\<rparr>"
  using consume_batch_all_or_nothing [OF _ example_consume] example_db_ok
  by (simp add: db_ok_def example_storage_def)

text \<open>C14: erasing a subject. When it is reported done, the subject's seed and every token of the subject
  are gone and nothing else has changed; when it fails the tables are unchanged. After an erasure no
  token of the subject can be stored, whatever generation the writer holds, until it is enrolled again; and a
  writer that holds a seed from before is refused and changes nothing after any further requests too, the
  enrolment of the subject with another seed among them, unless one of them enrols it with the very same seed.\<close>

theorem erasure_complete:
  assumes "db_ok C (sd_db s)" and "delete_subject env kid subject s = (s', r)"
  shows "case r of
      Inl _ \<Rightarrow> sd_db s' = sd_db s
    | Inr _ \<Rightarrow>
        va_subjects (vault_of (sd_db s')) = (va_subjects (vault_of (sd_db s)))((kid, subject) := None) \<and>
        va_tokens (vault_of (sd_db s')) = (\<lambda>k. case va_tokens (vault_of (sd_db s)) k of None \<Rightarrow> None
          | Some (data, owner) \<Rightarrow> if fst k = kid \<and> owner = Some subject then None else Some (data, owner)) \<and>
        va_opskeys (vault_of (sd_db s')) = va_opskeys (vault_of (sd_db s)) \<and>
        va_indexes (vault_of (sd_db s')) = va_indexes (vault_of (sd_db s)) \<and>
        (list_ex (\<lambda>r. tr_kid r = kid \<and> tr_subject r = Some subject) records \<longrightarrow>
           snd (save_tokens_batch_guarded C env records guards s') \<noteq> Inr ()) \<and>
        (list_all (\<lambda>q. \<not> enrols q (kid, subject) old) requests \<longrightarrow>
           (let later = serve_all C env s' requests;
                batch = save_tokens_batch_guarded C env records guards later;
                single = save_token_for_subject C env kid hashid data (Some subject) (Some old) later in
            (list_ex (\<lambda>r. tr_kid r = kid \<and> tr_subject r = Some subject) records \<and>
             map_option wg_seed (guard_for guards kid subject) = Some old \<longrightarrow>
               isl (snd batch) \<and> sd_db (fst batch) = sd_db later) \<and>
            isl (snd single) \<and> sd_db (fst single) = sd_db later))"
proof (cases r)
  case (Inl e)
  with delete_subject_any [of env kid subject s s' e] assms erases_nothing [of kid subject "sd_db s" "sd_db s'"]
  show ?thesis by (auto simp: db_ok_def)
next
  case (Inr u)
  then have e: "erases kid subject (sd_db s) (sd_db s')"
    using delete_subject_Inr [of env kid subject s s'] assms(2) by simp
  have k: "keys_ok (sd_db s)" using assms(1) by (simp add: db_ok_def)
  note m = erased_maps [OF e k]
  have gone: "subjects_map (db_subjects (sd_db s')) (kid, subject) = None" using m(1) by (simp add: vault_of_def)
  have "snd (save_tokens_batch_guarded C env records guards s') \<noteq> Inr ()"
    if "r \<in> set records" "tr_kid r = kid" "tr_subject r = Some subject" for r
  proof
    assume "snd (save_tokens_batch_guarded C env records guards s') = Inr ()"
    then have "save_tokens_batch_guarded C env records guards s' =
        (fst (save_tokens_batch_guarded C env records guards s'), Inr ())" by (metis prod.collapse)
    from save_batch_Inr [OF this] that gone show False
      by (auto simp: generations_current_def list_all_iff split: option.splits)
  qed
  moreover have "va_opskeys (vault_of (sd_db s')) = va_opskeys (vault_of (sd_db s))"
    "va_indexes (vault_of (sd_db s')) = va_indexes (vault_of (sd_db s))"
    using e by (simp_all add: erases_def vault_of_def)
  moreover have "stale (kid, subject) old (sd_db s')"
    using e by (auto simp: stale_def erases_def list_all_iff)
  then have "stale (kid, subject) old (sd_db (serve_all C env s' requests))"
    if "list_all (\<lambda>q. \<not> enrols q (kid, subject) old) requests" using serve_all_stale that by blast
  note stale_batch_refused [OF this _ _ surjective_pairing] stale_token_refused [OF this surjective_pairing]
  ultimately show ?thesis using m by (auto simp: Inr list_ex_iff Let_def)
qed

theorem erasure_complete_witness:
  "va_tokens (vault_of ((example_db [])\<lparr>db_subjects := []\<rparr>)) (example_kid, example_hashid) = None \<and>
   snd (save_tokens_batch_guarded store_crates store_env [example_token] [example_guard]
     \<lparr>sd_db = (example_db [])\<lparr>db_subjects := []\<rparr>, sd_calls = 4\<rparr>) \<noteq> Inr () \<and>
   sd_db (serve_all store_crates store_env \<lparr>sd_db = (example_db [])\<lparr>db_subjects := []\<rparr>, sd_calls = 4\<rparr>
     [SaveSubject new_subject_row]) = (example_db [])\<lparr>db_subjects := [new_subject_row]\<rparr> \<and>
   isl (snd (save_tokens_batch_guarded store_crates store_env [example_token] [example_guard]
     (serve_all store_crates store_env \<lparr>sd_db = (example_db [])\<lparr>db_subjects := []\<rparr>, sd_calls = 4\<rparr>
       [SaveSubject new_subject_row])))"
proof -
  let ?s = "\<lparr>sd_db = (example_db [])\<lparr>db_subjects := []\<rparr>, sd_calls = 4\<rparr>"
  have later: "sd_db (serve_all store_crates store_env ?s [SaveSubject new_subject_row]) =
      (example_db [])\<lparr>db_subjects := [new_subject_row]\<rparr>"
    using example_enrol by (simp add: serve_all_def)
  show ?thesis
    using erasure_complete [OF _ example_erase, of store_crates "[example_token]" "[example_guard]" example_data
        "[SaveSubject new_subject_row]"] example_db_ok example_generations later
    by (simp add: example_storage_def Let_def) (simp add: vault_of_def tokens_map_def example_db_def example_token_def)
qed

text \<open>C15: the tables stay consistent. From tables with unique keys, valid rows and no token of a missing
  subject, every sequence of requests, with any of the requests to the database failing, leads to
  such tables again.\<close>

theorem storage_invariant:
  assumes "db_ok C (sd_db s)"
  shows "db_ok C (sd_db (serve_all C env s requests))"
  using assms unfolding serve_all_def by (induction requests arbitrary: s) (auto intro: serve_ok)

theorem storage_invariant_witness:
  "db_ok store_crates (sd_db (serve_all store_crates store_env (example_storage [])
     [SaveTokensBatch [example_token] [example_guard], DeleteSubject example_kid example_subject]))"
  by (rule storage_invariant) (simp add: example_storage_def example_db_ok)

text \<open>A batch read. Without faults it answers every hashid of the request with the token stored under
  it, in the order of the request, unless the bytes of all answers together exceed the limit, when it
  reports that the batch is too large.\<close>

theorem batch_read_correct:
  assumes "db_ok C (sd_db s)" and "reliable env" and "max_bytes < 2 ^ 64"
    and "length kid = 64 \<and> list_all is_ascii_hexdigit kid"
    and "list_all (\<lambda>h. length h = 64 \<and> list_all is_ascii_hexdigit h) hashids"
  shows "snd (get_tokens_batch C env kid hashids max_bytes s) =
    (let answers = map (\<lambda>h. find (\<lambda>r. token_key r = (kid, h)) (db_tokens (sd_db s))) hashids in
     if sum_list (map (\<lambda>a. case a of None \<Rightarrow> 0 | Some r \<Rightarrow> str_len (tr_data r)) answers) \<le> max_bytes
     then Inr answers else Inl (Vectis TokenDecodeBatchTooLarge))"
proof -
  have "validate_storage_kid (lit ''tokens.kid'') kid = Inr ()" "list_all (\<lambda>h. validate_token_hashid h = Inr ()) hashids"
    using assms(4,5) by (simp_all add: validate_storage_kid_def validate_token_hashid_def validate_hash_hex_field_ok)
  from get_tokens_batch_reliable [OF assms(1-3) this]
  show ?thesis by (simp add: row_cost_total [OF assms(1)] Let_def o_def)
qed

theorem batch_read_correct_witness:
  "snd (get_tokens_batch store_crates store_env example_kid [example_hashid, example_hashid] 61
     (example_storage [example_token])) = Inl (Vectis TokenDecodeBatchTooLarge)"
proof -
  have "str_len example_data = 31"
    by (subst str_len_ascii) (simp_all add: example_data_def list_all_iff char_simps)
  then show ?thesis
    using batch_read_correct [of store_crates "example_storage [example_token]" store_env 61 example_kid
        "[example_hashid, example_hashid]"] example_db_ok example_reliable example_ids
    by (simp add: example_storage_def Let_def) (simp add: example_db_def example_token_def)
qed

text \<open>Compare-and-swap of the properties of an operational key. Without faults the swap happens
  exactly when the key has the expected properties; otherwise the tables are unchanged and the error
  tells a missing key from a concurrent change.\<close>

theorem compare_and_swap:
  assumes "keys_ok (sd_db s)" and "reliable env"
    and "validate_storage_kid (lit ''opskeys.kid'') kid = Inr ()"
    and "list_all (\<lambda>p. validate_storage_envelope C (lit ''opskeys.properties'') p STORAGE_ENVELOPE_MAX_CHARS = Inr ())
      [current, new]"
    and "update_ops_key_properties_if_current C env kid current new s = (s', r)"
  shows "case va_opskeys (vault_of (sd_db s)) kid of
      None \<Rightarrow> r = Inl (not_found (lit ''ops key not found: '' @ kid)) \<and> sd_db s' = sd_db s
    | Some (keys, properties) \<Rightarrow>
        if properties = current then
          r = Inr \<lparr>ok_kid = kid, ok_keys = keys, ok_properties = new\<rparr> \<and>
          vault_of (sd_db s') = (vault_of (sd_db s))
            \<lparr>va_opskeys := (va_opskeys (vault_of (sd_db s)))(kid \<mapsto> (keys, new))\<rparr>
        else
          r = Inl (invalid_input (lit ''ops key properties changed concurrently; retry lifecycle update'')) \<and>
          sd_db s' = sd_db s"
proof -
  have r: "sd_db s' = swapped kid current new (sd_db s)" "r = snd (update_ops_key_properties_if_current C env kid current new s)"
    using assms(5) cas_reliable [OF assms(2-4), of s] by auto
  note run = r(2) [unfolded cas_reliable [OF assms(2-4)]]
  show ?thesis
  proof (cases "find (\<lambda>r. ok_kid r = kid) (db_opskeys (sd_db s))")
    case None
    then have n: "filter (\<lambda>r. ok_kid r = kid \<and> ok_properties r = current) (db_opskeys (sd_db s)) = []"
      by (auto simp: find_None_iff filter_empty_conv)
    from None run r(1) swapped_same [OF n] show ?thesis by (simp add: vault_of_def opskeys_map_find)
  next
    case (Some row)
    show ?thesis
    proof (cases "ok_properties row = current")
      case False
      from swapped_same [OF no_match [OF assms(1) Some False]] no_match [OF assms(1) Some False] Some False run r(1)
      show ?thesis by (simp add: vault_of_def opskeys_map_find)
    next
      case True
      then have n: "filter (\<lambda>r. ok_kid r = kid \<and> ok_properties r = current) (db_opskeys (sd_db s)) \<noteq> []"
        using find_key [OF Some] by (auto simp: filter_empty_conv)
      have "va_opskeys (vault_of (sd_db s)) kid = Some (ok_keys row, current)"
        using Some True by (simp add: vault_of_def opskeys_map_find)
      then show ?thesis using swapped_match [OF assms(1) Some True, of new] n run r(1) by simp
    qed
  qed
qed

theorem compare_and_swap_witness:
  "snd (update_ops_key_properties_if_current store_crates store_env example_kid example_data example_data
     (example_storage [])) = Inr example_key_row"
proof -
  have "va_opskeys (vault_of (sd_db (example_storage []))) example_kid = Some (example_data, example_data)"
    by (simp add: vault_of_def opskeys_map_def example_storage_def example_db_def example_key_row_def)
  with compare_and_swap [OF _ example_reliable example_ids(1) _ surjective_pairing,
      of "example_storage []" store_crates example_data example_data] example_db_ok(1)
  show ?thesis
    by (simp add: example_storage_def db_ok_def example_envelope_ok STORAGE_ENVELOPE_MAX_CHARS_def example_key_row_def)
qed

text \<open>C16: a token is consumed at most once. After a successful consumption no sequence of requests lets the
  token be consumed again, by anyone, unless one of them stores a token under the same key.\<close>

theorem token_consumed_once:
  assumes "keys_ok (sd_db s)" and "consume_tokens_batch_for_subject env kid hashids subject s = (s1, Inr ())"
    and "h \<in> set hashids" and "list_all (\<lambda>q. \<not> stores q (kid, h)) requests" and "h \<in> set hashids'"
  shows "snd (consume_tokens_batch_for_subject env kid hashids' subject' (serve_all C env s1 requests)) \<noteq> Inr ()"
proof
  let ?s = "serve_all C env s1 requests"
  assume again: "snd (consume_tokens_batch_for_subject env kid hashids' subject' ?s) = Inr ()"
  have c: "consumes kid hashids subject (sd_db s) (sd_db s1)" using consume_batch_Inr [OF assms(2)] .
  then have "\<exists>data. tokens_map (db_tokens (sd_db s)) (kid, h) = Some (data, subject)"
    using assms(1,3) one_match_iff [of "db_tokens (sd_db s)" kid h subject] by (auto simp: consumes_def keys_ok_def)
  then have "tr_subject r = subject" if "r \<in> set (db_tokens (sd_db s))" "token_key r = (kid, h)" for r
    using find_unique [of token_key "db_tokens (sd_db s)" r] that assms(1) by (auto simp: keys_ok_def tokens_map_find)
  with c assms(3) have "absent (kid, h) (sd_db s1)"
    by (fastforce simp: absent_def consumes_def token_matches_def)
  from serve_all_absent [OF this assms(4)] have "absent (kid, h) (sd_db ?s)" .
  moreover have "consume_tokens_batch_for_subject env kid hashids' subject' ?s =
      (fst (consume_tokens_batch_for_subject env kid hashids' subject' ?s), Inr ())" using again by (metis prod.collapse)
  from consume_batch_Inr [OF this] assms(5)
  have "length (filter (token_matches kid h subject') (db_tokens (sd_db ?s))) = 1" by (simp add: consumes_def)
  then have "filter (token_matches kid h subject') (db_tokens (sd_db ?s)) \<noteq> []" by auto
  ultimately show False by (force simp: absent_def filter_empty_conv token_matches_def)
qed

theorem token_consumed_once_witness:
  "snd (consume_tokens_batch_for_subject store_env example_kid [example_hashid] (Some example_subject)
     (serve_all store_crates store_env \<lparr>sd_db = example_db [], sd_calls = 3\<rparr>
       [DeleteSubject example_kid example_subject])) \<noteq> Inr ()"
  by (rule token_consumed_once [OF _ example_consume, of example_hashid])
    (use example_db_ok in \<open>simp_all add: example_storage_def db_ok_def\<close>)

end
