(* ===== verification/Ops_Keys.thy ===== *)
theory Ops_Keys
  imports Key_Material Storage_Guarantees
begin

text \<open>
  \<open>src/ops/keys.rs\<close>: operational keys. Their properties and lifecycle, the algorithms a request
  resolves to under the crypto policy, the encrypted record a new key is stored as, the keys held in
  memory, loading them from the database, and the update of a key's lifecycle.

  The time of day is an argument wherever the source reads it, and so are random bytes, one function
  for each call.
\<close>

section \<open>Lifecycle\<close>

definition INTERNAL_KEYS_CIPHER :: ustr where "INTERNAL_KEYS_CIPHER = lit ''AES-256/GCM''"
definition INTERNAL_KEYS_NONCE_SIZE_BYTES :: nat where "INTERNAL_KEYS_NONCE_SIZE_BYTES = 12"

definition CRYPTO_PROFILES :: "ustr list" where
  "CRYPTO_PROFILES = map lit
     [''hybrid-performance-v1'', ''hybrid-standard-v1'', ''hybrid-high-assurance-v1'', ''hybrid-long-term-v1'']"

definition CRYPTO_POLICIES :: "ustr list" where
  "CRYPTO_POLICIES = map lit [''profile-only'', ''allow-overrides'']"

definition PROPERTY_PROFILES :: "ustr list" where
  "PROPERTY_PROFILES = map lit
     [''hybrid-performance-v1'', ''hybrid-standard-v1'', ''hybrid-high-assurance-v1'', ''hybrid-long-term-v1'',
      ''custom'']"

definition LIFECYCLE_STATUSES :: "ustr list" where
  "LIFECYCLE_STATUSES = map lit [''active'', ''disabled'', ''retired'', ''compromised'', ''destroyed'']"

definition SYMMETRIC_ALGORITHMS :: "ustr list" where
  "SYMMETRIC_ALGORITHMS = map lit [''ChaCha20Poly1305'', ''AES-128/GCM'', ''AES-192/GCM'', ''AES-256/GCM'']"

record ops_key_lifecycle =
  lc_status :: ustr
  lc_reason :: ustr
  lc_changed_at :: ustr

record ops_key_properties =
  pr_version :: u8
  pr_profile :: ustr
  pr_tag :: ustr
  pr_created_at :: ustr
  pr_lifecycle :: ops_key_lifecycle

record loaded_ops_key =
  lk_id :: ustr
  lk_aad :: ustr
  lk_properties_aad :: ustr
  lk_key_material :: key_material_output
  lk_properties :: ops_key_properties

definition lifecycle_status :: "loaded_ops_key \<Rightarrow> ustr" where
  "lifecycle_status k = lc_status (pr_lifecycle (lk_properties k))"

definition lifecycle_error :: "string \<Rightarrow> unit result" where
  "lifecycle_error message = Inl (forbidden (lit message))"

definition blocked_lifecycle_error :: "ustr \<Rightarrow> unit result" where
  "blocked_lifecycle_error status =
     (if status = lit ''disabled'' then lifecycle_error ''key is currently disabled''
      else if status = lit ''compromised''
      then lifecycle_error ''key is compromised and cannot be used for security reasons''
      else if status = lit ''destroyed''
      then lifecycle_error ''key is logically destroyed and cannot be used''
      else lifecycle_error ''key lifecycle status does not allow this operation'')"

definition require_lifecycle_for_new_use :: "loaded_ops_key \<Rightarrow> unit result" where
  "require_lifecycle_for_new_use k =
     (if lifecycle_status k = lit ''active'' then Inr ()
      else if lifecycle_status k = lit ''retired''
      then lifecycle_error ''key is retired and can only be used for decrypt or verification''
      else blocked_lifecycle_error (lifecycle_status k))"

definition require_lifecycle_for_decrypt_or_verify :: "loaded_ops_key \<Rightarrow> unit result" where
  "require_lifecycle_for_decrypt_or_verify k =
     (if lifecycle_status k = lit ''active'' \<or> lifecycle_status k = lit ''retired'' then Inr ()
      else blocked_lifecycle_error (lifecycle_status k))"

definition require_lifecycle_for_public_keys :: "loaded_ops_key \<Rightarrow> unit result" where
  "require_lifecycle_for_public_keys k =
     (if lifecycle_status k = lit ''active'' then Inr ()
      else if lifecycle_status k = lit ''retired''
      then lifecycle_error ''key is retired and can only be used for decrypt or verification''
      else blocked_lifecycle_error (lifecycle_status k))"

definition validate_lifecycle_status :: "ustr \<Rightarrow> ustr \<Rightarrow> unit result" where
  "validate_lifecycle_status field status = validate_allowed_value field status LIFECYCLE_STATUSES"

definition validate_lifecycle_transition :: "ustr \<Rightarrow> ustr \<Rightarrow> unit result" where
  "validate_lifecycle_transition current next_status =
     (let allowed =
        (if current = lit ''active''
         then next_status \<in> set (map lit [''disabled'', ''retired'', ''compromised'', ''destroyed''])
         else if current = lit ''disabled'' then next_status = lit ''active''
         else False) in
      if allowed then Inr ()
      else Inl (invalid_input (lit ''invalid lifecycle transition: '' @ current @ lit '' -> '' @ next_status)))"

section \<open>Keys in memory\<close>

record keys_db_state =
  kd_keys_db :: "loaded_ops_key list"
  kd_by_id :: "ustr \<rightharpoonup> nat"

definition keys_from_keys :: "loaded_ops_key list \<Rightarrow> keys_db_state" where
  "keys_from_keys ks = \<lparr>kd_keys_db = ks, kd_by_id = index_by_name lk_id ks\<rparr>"

definition keys_get :: "keys_db_state \<Rightarrow> ustr \<Rightarrow> loaded_ops_key option" where
  "keys_get st key_id = Option.bind (kd_by_id st key_id) (\<lambda>i. list_get (kd_keys_db st) i)"

definition contains_id :: "keys_db_state \<Rightarrow> ustr \<Rightarrow> bool" where
  "contains_id st key_id \<longleftrightarrow> kd_by_id st key_id \<noteq> None"

definition keys_ids :: "keys_db_state \<Rightarrow> ustr list" where
  "keys_ids st = map lk_id (kd_keys_db st)"

definition keys_upsert :: "keys_db_state \<Rightarrow> loaded_ops_key \<Rightarrow> keys_db_state result" where
  "keys_upsert st k =
     (case kd_by_id st (lk_id k) of
        Some index \<Rightarrow>
          if index < length (kd_keys_db st) then Inr (st\<lparr>kd_keys_db := (kd_keys_db st)[index := k]\<rparr>)
          else Inl (Panic (lit ''index out of bounds''))
      | None \<Rightarrow>
          Inr \<lparr>kd_keys_db = kd_keys_db st @ [k],
               kd_by_id = (kd_by_id st)(lk_id k \<mapsto> length (kd_keys_db st))\<rparr>)"

definition insert_if_absent :: "keys_db_state \<Rightarrow> loaded_ops_key \<Rightarrow> (keys_db_state \<times> bool) result" where
  "insert_if_absent st k =
     (if contains_id st (lk_id k) then Inr (st, False)
      else bindR (keys_upsert st k) (\<lambda>st. Inr (st, True)))"

definition get_loaded_key :: "keys_db_state \<Rightarrow> ustr \<Rightarrow> loaded_ops_key result" where
  "get_loaded_key st key_id =
     bindR (validate_key_id key_id) (\<lambda>_.
       ok_or (not_found (lit ''ops key not loaded in state: '' @ key_id)) (keys_get st key_id))"

datatype profile_use = NewUse | Verify | TokenDelete

definition prepare_profile_use ::
    "keys_db_state \<Rightarrow> ustr \<Rightarrow> ustr \<Rightarrow> ustr \<Rightarrow> profile_use \<Rightarrow> unit result" where
  "prepare_profile_use st kid profile_kid profile_kind use_kind =
     (if profile_kid \<noteq> kid
      then Inl (forbidden (profile_kind @ lit '' profile is not authorized for this kid''))
      else
        bindR (get_loaded_key st kid) (\<lambda>loaded_key.
          case use_kind of
            NewUse \<Rightarrow> require_lifecycle_for_new_use loaded_key
          | Verify \<Rightarrow> require_lifecycle_for_decrypt_or_verify loaded_key
          | TokenDelete \<Rightarrow> Inr ()))"

record key_properties_output =
  kp_kid :: ustr
  kp_info :: ustr
  kp_properties_info :: ustr
  kp_properties :: ops_key_properties

definition to_key_properties_output :: "loaded_ops_key \<Rightarrow> key_properties_output" where
  "to_key_properties_output k =
     \<lparr>kp_kid = lk_id k, kp_info = lk_aad k, kp_properties_info = lk_properties_aad k,
      kp_properties = lk_properties k\<rparr>"

definition list_keys_from_state :: "keys_db_state \<Rightarrow> (ustr \<times> ustr) list" where
  "list_keys_from_state st = map (\<lambda>k. (lk_id k, lk_aad k)) (kd_keys_db st)"

definition list_keys_properties_from_state :: "keys_db_state \<Rightarrow> key_properties_output list" where
  "list_keys_properties_from_state st = map to_key_properties_output (kd_keys_db st)"

definition key_properties_from_state :: "keys_db_state \<Rightarrow> ustr \<Rightarrow> key_properties_output result" where
  "key_properties_from_state st key_id =
     bindR (validate_key_id key_id) (\<lambda>_.
     bindR (get_loaded_key st key_id) (\<lambda>k. Inr (to_key_properties_output k)))"

section \<open>Resolving a request\<close>

record key_config =
  kc_protocol_version :: ustr
  kc_sender_hostname :: ustr
  kc_default_crypto_profile :: ustr
  kc_crypto_policy :: ustr
  kc_public_addr :: ustr

record create_keys_input =
  ci_tag :: "ustr option"
  ci_profile :: "ustr option"
  ci_hash_algorithm :: "ustr option"
  ci_symmetric_algorithm :: "ustr option"
  ci_eddsa_algorithm :: "ustr option"
  ci_xecdh_algorithm :: "ustr option"
  ci_ml_dsa_variant :: "ustr option"
  ci_ml_kem_variant :: "ustr option"

record resolved_keys_input =
  ri_tag :: ustr
  ri_timestamp :: ustr
  ri_profile :: ustr
  ri_properties_profile :: ustr
  ri_spec :: key_material_spec

definition profile_spec :: "string list \<Rightarrow> key_material_spec" where
  "profile_spec xs =
     \<lparr>ks_hash_algorithm = lit (xs ! 0), ks_symmetric_algorithm = lit (xs ! 1),
      ks_eddsa_algorithm = lit (xs ! 2), ks_xecdh_algorithm = lit (xs ! 3),
      ks_ml_dsa_variant = lit (xs ! 4), ks_ml_kem_variant = lit (xs ! 5)\<rparr>"

definition crypto_profile :: "ustr \<Rightarrow> key_material_spec result" where
  "crypto_profile name =
     (if name = lit ''hybrid-performance-v1''
      then Inr (profile_spec [''BLAKE2b(256)'', ''ChaCha20Poly1305'', ''Ed25519'', ''X25519'', ''ML-DSA-44'', ''ML-KEM-512''])
      else if name = lit ''hybrid-standard-v1''
      then Inr (profile_spec [''SHA-3(256)'', ''AES-128/GCM'', ''Ed25519'', ''X25519'', ''ML-DSA-44'', ''ML-KEM-512''])
      else if name = lit ''hybrid-high-assurance-v1''
      then Inr (profile_spec [''SHA-3(384)'', ''AES-192/GCM'', ''Ed25519'', ''X25519'', ''ML-DSA-65'', ''ML-KEM-768''])
      else if name = lit ''hybrid-long-term-v1''
      then Inr (profile_spec [''SHA-3(512)'', ''AES-256/GCM'', ''Ed448'', ''X448'', ''ML-DSA-87'', ''ML-KEM-1024''])
      else Inl (invalid_input (lit ''unsupported crypto profile: '' @ name)))"

definition has_overrides :: "create_keys_input \<Rightarrow> bool" where
  "has_overrides i \<longleftrightarrow>
     ci_hash_algorithm i \<noteq> None \<or> ci_symmetric_algorithm i \<noteq> None \<or> ci_eddsa_algorithm i \<noteq> None \<or>
     ci_xecdh_algorithm i \<noteq> None \<or> ci_ml_dsa_variant i \<noteq> None \<or> ci_ml_kem_variant i \<noteq> None"

definition validate_crypto_policy :: "key_config \<Rightarrow> create_keys_input \<Rightarrow> unit result" where
  "validate_crypto_policy config i =
     bindR (validate_allowed_value (lit ''VECTIS_CRYPTO_POLICY'') (kc_crypto_policy config) CRYPTO_POLICIES) (\<lambda>_.
       if kc_crypto_policy config \<noteq> lit ''profile-only'' then Inr ()
       else if has_overrides i
       then Inl (invalid_input (lit
          ''individual algorithm overrides are rejected when VECTIS_CRYPTO_POLICY=profile-only''))
       else Inr ())"

definition resolve_algorithm_value ::
    "ustr \<Rightarrow> ustr \<Rightarrow> ustr option \<Rightarrow> ustr \<Rightarrow> ustr list \<Rightarrow> ustr result" where
  "resolve_algorithm_value field policy requested profile_value allowed =
     (let v = (if policy = lit ''allow-overrides''
               then (case requested of Some r \<Rightarrow> r | None \<Rightarrow> profile_value) else profile_value) in
      bindR (validate_allowed_value field v allowed) (\<lambda>_. Inr v))"

definition resolve_keys_input ::
    "ustr result \<Rightarrow> create_keys_input \<Rightarrow> key_config \<Rightarrow> resolved_keys_input result" where
  "resolve_keys_input now i config =
     bindR now (\<lambda>timestamp.
     let tag = (case ci_tag i of Some t \<Rightarrow> t | None \<Rightarrow> timestamp) in
     bindR (validate_aad_value (lit ''tag'') tag) (\<lambda>_.
     let profile_name = (case ci_profile i of Some p \<Rightarrow> p | None \<Rightarrow> kc_default_crypto_profile config) in
     bindR (validate_allowed_value (lit ''profile'') profile_name CRYPTO_PROFILES) (\<lambda>_.
     bindR (crypto_profile profile_name) (\<lambda>profile.
     bindR (validate_crypto_policy config i) (\<lambda>_.
     let resolve = (\<lambda>field requested profile_value allowed.
           resolve_algorithm_value (lit field) (kc_crypto_policy config) requested profile_value allowed) in
     bindR (resolve ''hash_algorithm'' (ci_hash_algorithm i) (ks_hash_algorithm profile) HASH_ALGORITHMS) (\<lambda>hash.
     bindR (resolve ''symmetric_algorithm'' (ci_symmetric_algorithm i) (ks_symmetric_algorithm profile)
              SYMMETRIC_ALGORITHMS) (\<lambda>symmetric.
     bindR (resolve ''eddsa_algorithm'' (ci_eddsa_algorithm i) (ks_eddsa_algorithm profile)
              (map lit [''Ed25519'', ''Ed448''])) (\<lambda>eddsa.
     bindR (resolve ''xecdh_algorithm'' (ci_xecdh_algorithm i) (ks_xecdh_algorithm profile)
              (map lit [''X25519'', ''X448''])) (\<lambda>xecdh.
     bindR (resolve ''ml_dsa_variant'' (ci_ml_dsa_variant i) (ks_ml_dsa_variant profile)
              (map lit [''ML-DSA-44'', ''ML-DSA-65'', ''ML-DSA-87''])) (\<lambda>ml_dsa.
     bindR (resolve ''ml_kem_variant'' (ci_ml_kem_variant i) (ks_ml_kem_variant profile)
              (map lit [''ML-KEM-512'', ''ML-KEM-768'', ''ML-KEM-1024''])) (\<lambda>ml_kem.
     let properties_profile =
           (if kc_crypto_policy config = lit ''allow-overrides'' \<and> has_overrides i then lit ''custom''
            else profile_name) in
     bindR (validate_allowed_value (lit ''properties.profile'') properties_profile PROPERTY_PROFILES) (\<lambda>_.
       Inr \<lparr>ri_tag = tag, ri_timestamp = timestamp, ri_profile = profile_name,
            ri_properties_profile = properties_profile,
            ri_spec = \<lparr>ks_hash_algorithm = hash, ks_symmetric_algorithm = symmetric,
              ks_eddsa_algorithm = eddsa, ks_xecdh_algorithm = xecdh, ks_ml_dsa_variant = ml_dsa,
              ks_ml_kem_variant = ml_kem\<rparr>\<rparr>))))))))))))"

section \<open>Properties\<close>

definition lifecycle_json :: "ops_key_lifecycle \<Rightarrow> json" where
  "lifecycle_json l =
     JObject [(lit ''status'', JString (lc_status l)), (lit ''reason'', JString (lc_reason l)),
       (lit ''changed_at'', JString (lc_changed_at l))]"

definition properties_json :: "ops_key_properties \<Rightarrow> json" where
  "properties_json p =
     JObject [(lit ''version'', JNumber (uint (pr_version p))), (lit ''profile'', JString (pr_profile p)),
       (lit ''tag'', JString (pr_tag p)), (lit ''created_at'', JString (pr_created_at p)),
       (lit ''lifecycle'', lifecycle_json (pr_lifecycle p))]"

definition lifecycle_of_json :: "json \<Rightarrow> ops_key_lifecycle option" where
  "lifecycle_of_json v =
     (case struct_strings [lit ''status'', lit ''reason'', lit ''changed_at''] v of
        Some [status, reason, changed_at] \<Rightarrow>
          Some \<lparr>lc_status = status, lc_reason = reason, lc_changed_at = changed_at\<rparr>
      | _ \<Rightarrow> None)"

definition properties_of_json :: "json \<Rightarrow> ops_key_properties option" where
  "properties_of_json v =
     (case struct_values [lit ''version'', lit ''profile'', lit ''tag'', lit ''created_at'', lit ''lifecycle''] v of
        Some [version, profile, tag, created_at, lifecycle] \<Rightarrow>
          Option.bind (as_u8 version) (\<lambda>version. Option.bind (as_str profile) (\<lambda>profile.
          Option.bind (as_str tag) (\<lambda>tag. Option.bind (as_str created_at) (\<lambda>created_at.
          Option.bind (lifecycle_of_json lifecycle) (\<lambda>lifecycle.
            Some \<lparr>pr_version = version, pr_profile = profile, pr_tag = tag, pr_created_at = created_at,
                  pr_lifecycle = lifecycle\<rparr>)))))
      | _ \<Rightarrow> None)"

definition create_ops_key_properties :: "resolved_keys_input \<Rightarrow> ops_key_properties" where
  "create_ops_key_properties i =
     \<lparr>pr_version = 1, pr_profile = ri_properties_profile i, pr_tag = ri_tag i,
      pr_created_at = ri_timestamp i,
      pr_lifecycle = \<lparr>lc_status = lit ''active'', lc_reason = lit ''initial creation'',
        lc_changed_at = ri_timestamp i\<rparr>\<rparr>"

definition validate_ops_key_properties :: "ops_key_properties \<Rightarrow> unit result" where
  "validate_ops_key_properties p =
     bindR (validate_allowed_value (lit ''properties.profile'') (pr_profile p) PROPERTY_PROFILES) (\<lambda>_.
     bindR (validate_text_field (lit ''properties.tag'') (pr_tag p)) (\<lambda>_.
     bindR (validate_text_field (lit ''properties.created_at'') (pr_created_at p)) (\<lambda>_.
     bindR (validate_lifecycle_status (lit ''properties.lifecycle.status'') (lc_status (pr_lifecycle p))) (\<lambda>_.
     bindR (validate_bounded_text_field (lit ''properties.lifecycle.reason'') (lc_reason (pr_lifecycle p))
              INTERNAL_REF_MAX_CHARS) (\<lambda>_.
     bindR (validate_text_field (lit ''properties.lifecycle.changed_at'') (lc_changed_at (pr_lifecycle p))) (\<lambda>_.
       Inr ()))))))"

section \<open>Records\<close>

definition ops_keys_aad :: "key_config \<Rightarrow> resolved_keys_input \<Rightarrow> ustr result" where
  "ops_keys_aad config i =
     build_validated_aad
       [(lit ''version'', kc_protocol_version config), (lit ''hostname'', kc_sender_hostname config),
        (lit ''type'', lit ''ops-keys''), (lit ''cipher'', INTERNAL_KEYS_CIPHER), (lit ''tag'', ri_tag i),
        (lit ''profile'', ri_profile i), (lit ''timestamp'', ri_timestamp i)]"

definition ops_key_properties_aad :: "key_config \<Rightarrow> resolved_keys_input \<Rightarrow> ustr \<Rightarrow> ustr result" where
  "ops_key_properties_aad config i kid =
     build_validated_aad
       [(lit ''version'', kc_protocol_version config), (lit ''hostname'', kc_sender_hostname config),
        (lit ''type'', lit ''ops-key-properties''), (lit ''cipher'', INTERNAL_KEYS_CIPHER), (lit ''kid'', kid),
        (lit ''tag'', ri_tag i), (lit ''profile'', ri_properties_profile i),
        (lit ''timestamp'', ri_timestamp i)]"

definition create_key_id :: "crates \<Rightarrow> ustr \<Rightarrow> ustr result" where
  "create_key_id C keys_b64 =
     bindR (validate_allowed_value (lit ''INTERNAL_KEYS_HASH'') INTERNAL_KEYS_HASH HASH_ALGORITHMS) (\<lambda>_.
     bindR (hash_bytes C INTERNAL_KEYS_HASH (utf8 keys_b64)) (\<lambda>h. Inr (hex_encode C h)))"

definition validate_kid_matches_keys :: "crates \<Rightarrow> ustr \<Rightarrow> ustr \<Rightarrow> unit result" where
  "validate_kid_matches_keys C kid keys =
     bindR (validate_key_id kid) (\<lambda>_.
     bindR (validate_base64_standard_envelope_segments (b64_decode C) (lit ''opskeys.keys'') keys
              STORAGE_ENVELOPE_MAX_CHARS) (\<lambda>(ciphertext_b64, _, _).
     bindR (create_key_id C ciphertext_b64) (\<lambda>expected_kid.
       if kid \<noteq> expected_kid
       then Inl (invalid_input (lit ''kid does not match INTERNAL_KEYS_HASH(keys payload)''))
       else Inr ())))"

definition encrypt_internal_payload ::
    "crates \<Rightarrow> ciphers \<Rightarrow> u8 list \<Rightarrow> u8 list \<Rightarrow> u8 list \<Rightarrow> ustr \<Rightarrow> ustr result" where
  "encrypt_internal_payload C E plaintext key nonce aad =
     bindR (encrypt_symmetric E INTERNAL_KEYS_CIPHER plaintext key nonce (utf8 aad)) (\<lambda>ciphertext.
       Inr (b64_encode C ciphertext))"

definition encrypt_ops_key_properties_payload ::
    "crates \<Rightarrow> ciphers \<Rightarrow> (nat \<Rightarrow> u8 list result) \<Rightarrow> internal_derived_keys_state \<Rightarrow> ops_key_properties \<Rightarrow>
     ustr \<Rightarrow> ustr result" where
  "encrypt_ops_key_properties_payload C E random_bytes internal_keys properties aad =
     (let plaintext = json_to_vec_pretty C (properties_json properties) in
      bindR (random_bytes INTERNAL_KEYS_NONCE_SIZE_BYTES) (\<lambda>nonce.
      bindR (encrypt_internal_payload C E plaintext (ik_properties_key internal_keys) nonce aad) (\<lambda>properties_b64.
        Inr (properties_b64 @ lit ''.'' @ b64_encode C nonce @ lit ''.'' @ b64_encode C (utf8 aad)))))"

record created_ops_key_record =
  cr_kid :: ustr
  cr_keys :: ustr
  cr_properties :: ustr

definition create_ops_key_record ::
    "crates \<Rightarrow> ciphers \<Rightarrow> ('priv, 'pub) pk_crate \<Rightarrow> (nat \<Rightarrow> u8 list result) \<Rightarrow> (nat \<Rightarrow> u8 list result) \<Rightarrow>
     key_config \<Rightarrow> u8 list \<Rightarrow> u8 list \<Rightarrow> resolved_keys_input \<Rightarrow> created_ops_key_record result" where
  "create_ops_key_record C E P random_nonce random_properties_nonce config db_key properties_key i =
     bindR (ops_keys_aad config i) (\<lambda>aad.
     bindR (create_key_material C P (ri_spec i)) (\<lambda>keys.
     let plaintext = json_to_vec_pretty C (key_material_json keys) in
     bindR (random_nonce INTERNAL_KEYS_NONCE_SIZE_BYTES) (\<lambda>nonce.
     bindR (encrypt_internal_payload C E plaintext db_key nonce aad) (\<lambda>keys_b64.
     bindR (create_key_id C keys_b64) (\<lambda>kid.
     let keys_text = keys_b64 @ lit ''.'' @ b64_encode C nonce @ lit ''.'' @ b64_encode C (utf8 aad);
         properties_plaintext = json_to_vec_pretty C (properties_json (create_ops_key_properties i)) in
     bindR (random_properties_nonce INTERNAL_KEYS_NONCE_SIZE_BYTES) (\<lambda>properties_nonce.
     bindR (ops_key_properties_aad config i kid) (\<lambda>properties_aad.
     bindR (encrypt_internal_payload C E properties_plaintext properties_key properties_nonce
              properties_aad) (\<lambda>properties_b64.
       Inr \<lparr>cr_kid = kid, cr_keys = keys_text,
            cr_properties = properties_b64 @ lit ''.'' @ b64_encode C properties_nonce @ lit ''.'' @
              b64_encode C (utf8 properties_aad)\<rparr>))))))))"

definition create_keys ::
    "crates \<Rightarrow> ciphers \<Rightarrow> ('priv, 'pub) pk_crate \<Rightarrow> storage_env \<Rightarrow> ustr result \<Rightarrow> (nat \<Rightarrow> u8 list result) \<Rightarrow>
     (nat \<Rightarrow> u8 list result) \<Rightarrow> key_config \<Rightarrow> internal_derived_keys_state \<Rightarrow> create_keys_input \<Rightarrow>
     (dyn_error, ustr) sop" where
  "create_keys C E P env now random_nonce random_properties_nonce config internal_keys i =
     bindS (liftS (bindR (resolve_keys_input now i config)
              (create_ops_key_record C E P random_nonce random_properties_nonce config
                 (ik_db_key internal_keys) (ik_properties_key internal_keys)))) (\<lambda>rec.
     bindS (save_ops_keys C env (cr_kid rec) (cr_keys rec) (cr_properties rec)) (\<lambda>_.
       retS (cr_kid rec)))"

record 'a decrypted =
  dc_aad :: ustr
  dc_output :: 'a

definition decrypt_payload ::
    "crates \<Rightarrow> ciphers \<Rightarrow> string \<Rightarrow> u8 list \<Rightarrow> (json \<Rightarrow> 'a option) \<Rightarrow> ustr \<Rightarrow> 'a decrypted result" where
  "decrypt_payload C E field key of_json text =
     bindR (decode_base64_standard_envelope C (lit field) text STORAGE_ENVELOPE_MAX_CHARS
              INTERNAL_KEYS_NONCE_SIZE_BYTES) (\<lambda>envelope.
     bindR (ok_or (invalid_input (lit field @ lit ''.aad is not valid UTF-8'')) (from_utf8 (de_aad envelope))) (\<lambda>aad_text.
     bindR (decrypt_symmetric E INTERNAL_KEYS_CIPHER (de_ciphertext envelope) key (de_nonce envelope)
              (de_aad envelope)) (\<lambda>plaintext_bytes.
     bindR (ok_or (Foreign (lit ''invalid utf-8'')) (from_utf8 plaintext_bytes)) (\<lambda>_.
     bindR (ok_or (invalid_input (lit field @ lit '' payload is not valid JSON''))
              (Option.bind (json_from_slice C plaintext_bytes) of_json)) (\<lambda>output.
       Inr \<lparr>dc_aad = aad_text, dc_output = output\<rparr>)))))"

definition decrypt_ops_keys_payload ::
    "crates \<Rightarrow> ciphers \<Rightarrow> internal_derived_keys_state \<Rightarrow> ustr \<Rightarrow> key_material_output decrypted result" where
  "decrypt_ops_keys_payload C E internal_keys keys =
     decrypt_payload C E ''opskeys.keys'' (ik_db_key internal_keys) key_material_of_json keys"

definition decrypt_ops_key_properties_payload ::
    "crates \<Rightarrow> ciphers \<Rightarrow> internal_derived_keys_state \<Rightarrow> ustr \<Rightarrow> ops_key_properties decrypted result" where
  "decrypt_ops_key_properties_payload C E internal_keys properties =
     decrypt_payload C E ''opskeys.properties'' (ik_properties_key internal_keys) properties_of_json properties"

definition validate_aad_field :: "string \<Rightarrow> ustr \<Rightarrow> ustr \<Rightarrow> unit result" where
  "validate_aad_field field actual expected =
     (if actual \<noteq> expected then Inl (invalid_input (lit field @ lit '' does not match expected value''))
      else Inr ())"

definition aad_is :: "string \<Rightarrow> (ustr \<times> ustr) list \<Rightarrow> string \<Rightarrow> ustr \<Rightarrow> unit result" where
  "aad_is field fs key expected =
     bindR (aad_field fs (lit key)) (\<lambda>actual. validate_aad_field field actual expected)"

definition aad_same :: "string \<Rightarrow> (ustr \<times> ustr) list \<Rightarrow> (ustr \<times> ustr) list \<Rightarrow> string \<Rightarrow> unit result" where
  "aad_same field fs gs key =
     bindR (aad_field fs (lit key)) (\<lambda>actual.
     bindR (aad_field gs (lit key)) (\<lambda>expected. validate_aad_field field actual expected))"

definition validate_loaded_ops_key_binding ::
    "ustr \<Rightarrow> key_material_output decrypted \<Rightarrow> ops_key_properties decrypted \<Rightarrow> unit result" where
  "validate_loaded_ops_key_binding key_id keys properties =
     bindR (parse_aad_fields (dc_aad keys)) (\<lambda>keys_aad.
     bindR (parse_aad_fields (dc_aad properties)) (\<lambda>properties_aad.
     bindR (aad_is ''keys.aad.type'' keys_aad ''type'' (lit ''ops-keys'')) (\<lambda>_.
     bindR (aad_is ''keys.aad.cipher'' keys_aad ''cipher'' INTERNAL_KEYS_CIPHER) (\<lambda>_.
     bindR (aad_is ''properties.aad.type'' properties_aad ''type'' (lit ''ops-key-properties'')) (\<lambda>_.
     bindR (aad_is ''properties.aad.cipher'' properties_aad ''cipher'' INTERNAL_KEYS_CIPHER) (\<lambda>_.
     bindR (aad_is ''properties.aad.kid'' properties_aad ''kid'' key_id) (\<lambda>_.
     bindR (aad_is ''properties.aad.tag'' properties_aad ''tag'' (pr_tag (dc_output properties))) (\<lambda>_.
     bindR (aad_is ''properties.aad.profile'' properties_aad ''profile'' (pr_profile (dc_output properties))) (\<lambda>_.
     bindR (aad_is ''properties.aad.timestamp'' properties_aad ''timestamp''
              (pr_created_at (dc_output properties))) (\<lambda>_.
     bindR (aad_same ''keys.aad.tag'' keys_aad properties_aad ''tag'') (\<lambda>_.
     bindR (aad_same ''keys.aad.timestamp'' keys_aad properties_aad ''timestamp'') (\<lambda>_.
     bindR (aad_same ''keys.aad.version'' keys_aad properties_aad ''version'') (\<lambda>_.
     bindR (aad_same ''keys.aad.hostname'' keys_aad properties_aad ''hostname'') (\<lambda>_.
       Inr ()))))))))))))))"

definition open_ops_key_row ::
    "crates \<Rightarrow> ciphers \<Rightarrow> internal_derived_keys_state \<Rightarrow> ops_key_row \<Rightarrow>
     (key_material_output decrypted \<times> ops_key_properties decrypted) result" where
  "open_ops_key_row C E internal_keys row =
     bindR (validate_kid_matches_keys C (ok_kid row) (ok_keys row)) (\<lambda>_.
     bindR (decrypt_ops_keys_payload C E internal_keys (ok_keys row)) (\<lambda>keys.
     bindR (decrypt_ops_key_properties_payload C E internal_keys (ok_properties row)) (\<lambda>properties.
     bindR (validate_ops_key_properties (dc_output properties)) (\<lambda>_.
     bindR (validate_loaded_ops_key_binding (ok_kid row) keys properties) (\<lambda>_.
       Inr (keys, properties))))))"

definition load_ops_key_from_row ::
    "crates \<Rightarrow> ciphers \<Rightarrow> internal_derived_keys_state \<Rightarrow> ops_key_row \<Rightarrow> loaded_ops_key result" where
  "load_ops_key_from_row C E internal_keys row =
     bindR (open_ops_key_row C E internal_keys row) (\<lambda>(keys, properties).
       Inr \<lparr>lk_id = ok_kid row, lk_aad = dc_aad keys, lk_properties_aad = dc_aad properties,
            lk_key_material = dc_output keys, lk_properties = dc_output properties\<rparr>)"

definition load_keys_db_entry ::
    "crates \<Rightarrow> ciphers \<Rightarrow> storage_env \<Rightarrow> internal_derived_keys_state \<Rightarrow> ustr \<Rightarrow> (dyn_error, loaded_ops_key) sop" where
  "load_keys_db_entry C E env internal_keys key_id =
     bindS (liftS (validate_key_id key_id)) (\<lambda>_.
     bindS (get_ops_keys C env key_id) (\<lambda>row.
       liftS (load_ops_key_from_row C E internal_keys row)))"

record update_lifecycle_input =
  ul_status :: ustr
  ul_reason :: ustr

text \<open>The part of the update up to the compare-and-swap: it reads the key and returns the properties it
  read, the envelope to replace them with, and the new lifecycle.\<close>

definition plan_lifecycle_update ::
    "crates \<Rightarrow> ciphers \<Rightarrow> storage_env \<Rightarrow> ustr result \<Rightarrow> (nat \<Rightarrow> u8 list result) \<Rightarrow>
     internal_derived_keys_state \<Rightarrow> ustr \<Rightarrow> update_lifecycle_input \<Rightarrow>
     (dyn_error, ustr \<times> ustr \<times> ops_key_lifecycle) sop" where
  "plan_lifecycle_update C E env now random_bytes internal_keys key_id i =
     bindS (liftS (validate_key_id key_id)) (\<lambda>_.
     bindS (get_ops_keys C env key_id) (\<lambda>row.
     bindS (liftS (open_ops_key_row C E internal_keys row)) (\<lambda>(_, properties).
     bindS (liftS (validate_lifecycle_transition (lc_status (pr_lifecycle (dc_output properties)))
              (ul_status i))) (\<lambda>_.
     bindS (liftS now) (\<lambda>changed_at.
     let lifecycle = \<lparr>lc_status = ul_status i, lc_reason = ul_reason i, lc_changed_at = changed_at\<rparr>;
         output = (dc_output properties)\<lparr>pr_lifecycle := lifecycle\<rparr> in
     bindS (liftS (validate_ops_key_properties output)) (\<lambda>_.
     bindS (liftS (encrypt_ops_key_properties_payload C E random_bytes internal_keys output
              (dc_aad properties))) (\<lambda>encrypted.
       retS (ok_properties row, encrypted, lifecycle))))))))"

definition update_key_lifecycle ::
    "crates \<Rightarrow> ciphers \<Rightarrow> storage_env \<Rightarrow> ustr result \<Rightarrow> (nat \<Rightarrow> u8 list result) \<Rightarrow>
     internal_derived_keys_state \<Rightarrow> ustr \<Rightarrow> update_lifecycle_input \<Rightarrow> (dyn_error, ustr \<times> ops_key_lifecycle) sop" where
  "update_key_lifecycle C E env now random_bytes internal_keys key_id i =
     bindS (plan_lifecycle_update C E env now random_bytes internal_keys key_id i)
       (\<lambda>(current, encrypted, lifecycle).
     bindS (update_ops_key_properties_if_current C env key_id current encrypted) (\<lambda>_.
       retS (key_id, lifecycle)))"

section \<open>Loading the key set\<close>

text \<open>Keys are loaded by at most \<open>limit\<close> tasks at a time. A task returns the loaded key or an error, or
  cannot be joined because it panicked, was cancelled or failed otherwise. \<open>pick\<close> is the scheduler: it
  selects, by the number of tasks completed, which of the running tasks completes next.\<close>

datatype key_load_failure = DecryptOrValidate | TaskPanic | TaskCancelled | TaskJoin

datatype task_outcome = Returned "loaded_ops_key result" | JoinError bool bool

record keys_load_summary =
  ls_total :: nat
  ls_loaded :: nat
  ls_decrypt_or_validate_failed :: nat
  ls_task_panicked :: nat
  ls_task_cancelled :: nat
  ls_task_join_failed :: nat

definition ls_skipped :: "keys_load_summary \<Rightarrow> nat" where
  "ls_skipped s =
     ls_decrypt_or_validate_failed s + ls_task_panicked s + ls_task_cancelled s + ls_task_join_failed s"

fun record_failure :: "key_load_failure \<Rightarrow> keys_load_summary \<Rightarrow> keys_load_summary" where
  "record_failure DecryptOrValidate s =
     s\<lparr>ls_decrypt_or_validate_failed := ls_decrypt_or_validate_failed s + 1\<rparr>"
| "record_failure TaskPanic s = s\<lparr>ls_task_panicked := ls_task_panicked s + 1\<rparr>"
| "record_failure TaskCancelled s = s\<lparr>ls_task_cancelled := ls_task_cancelled s + 1\<rparr>"
| "record_failure TaskJoin s = s\<lparr>ls_task_join_failed := ls_task_join_failed s + 1\<rparr>"

definition classify_join_failure :: "bool \<Rightarrow> bool \<Rightarrow> key_load_failure" where
  "classify_join_failure is_panic is_cancelled =
     (if is_panic then TaskPanic else if is_cancelled then TaskCancelled else TaskJoin)"

fun task_done ::
    "nat \<Rightarrow> task_outcome \<Rightarrow> loaded_ops_key option list \<times> keys_load_summary \<Rightarrow>
     loaded_ops_key option list \<times> keys_load_summary" where
  "task_done i (Returned (Inr k)) (loaded, summary) = (loaded[i := Some k], summary)"
| "task_done i (Returned (Inl _)) (loaded, summary) = (loaded, record_failure DecryptOrValidate summary)"
| "task_done i (JoinError p c) (loaded, summary) = (loaded, record_failure (classify_join_failure p c) summary)"

function load_loop ::
    "(nat \<Rightarrow> nat) \<Rightarrow> (ops_key_row \<Rightarrow> task_outcome) \<Rightarrow> nat \<Rightarrow> (nat \<times> ops_key_row) list \<Rightarrow>
     (nat \<times> ops_key_row) list \<Rightarrow> loaded_ops_key option list \<times> keys_load_summary \<Rightarrow>
     loaded_ops_key option list \<times> keys_load_summary" where
  "load_loop pick run n rows [] acc = acc"
| "load_loop pick run n rows (t # ts) acc =
     (let k = pick n mod length (t # ts);
          (i, row) = (t # ts) ! k;
          running = take k (t # ts) @ drop (Suc k) (t # ts);
          acc' = task_done i (run row) acc in
      case rows of
        [] \<Rightarrow> load_loop pick run (Suc n) [] running acc'
      | r # rs \<Rightarrow> load_loop pick run (Suc n) rs (running @ [r]) acc')"
  by pat_completeness auto
termination
proof (relation "measure (\<lambda>(_, _, _, rows, pending, _). 2 * length rows + length pending)", goal_cases)
  case (2 pick run n rows t ts acc x y p q x4 x5)
  then have "x < length (t # ts)" by simp
  then show ?case using 2 by simp
next
  case (3 pick run n rows t ts acc x y p q x4 x5 a b)
  then have "x < length (t # ts)" by simp
  then show ?case using 3 by simp
qed simp

definition load_keys_from_rows ::
    "(nat \<Rightarrow> nat) \<Rightarrow> (ops_key_row \<Rightarrow> task_outcome) \<Rightarrow> nat \<Rightarrow> ops_key_row list \<Rightarrow>
     keys_db_state \<times> keys_load_summary" where
  "load_keys_from_rows pick run limit rows =
     (let total = length rows;
          tasks = enumerate 0 rows;
          first = max limit 1;
          summary = \<lparr>ls_total = total, ls_loaded = 0, ls_decrypt_or_validate_failed = 0,
            ls_task_panicked = 0, ls_task_cancelled = 0, ls_task_join_failed = 0\<rparr>;
          (loaded, summary) =
            load_loop pick run 0 (drop first tasks) (take first tasks) (replicate total None, summary);
          keys_db = List.map_filter id loaded in
      (keys_from_keys keys_db, summary\<lparr>ls_loaded := length keys_db\<rparr>))"

end
