(* ===== verification/Ops_Keys_Correct.thy ===== *)
theory Ops_Keys_Correct
  imports Ops_Keys Tokens_Correct "HOL-Library.Multiset"
begin

text \<open>
  Operational keys: the keys in memory are found under their ids, the loaded key set does not depend on
  the order in which the loading tasks complete, a created key is loaded back, and the lifecycle of a
  stored key follows its transition relation whatever requests are made.
\<close>

section \<open>Keys in memory\<close>

interpretation loaded_keys: profile_registry lk_id keys_from_keys keys_get
  by unfold_locales (simp add: keys_from_keys_def keys_get_def)

definition keys_state_ok :: "keys_db_state \<Rightarrow> bool" where
  "keys_state_ok st \<longleftrightarrow>
     distinct (keys_ids st) \<and> kd_by_id st = index_by_name lk_id (kd_keys_db st)"

lemma index_by_name_update:
  assumes "i < length ps" "nm p = nm (ps ! i)"
  shows "index_by_name nm (ps[i := p]) = index_by_name nm ps"
proof -
  have "fold (\<lambda>(i, p) m. m(nm p \<mapsto> i)) xs m =
      fold (\<lambda>(i, n) m. m(n \<mapsto> i)) (map (\<lambda>(i, p). (i, nm p)) xs) m" for xs m
    by (induction xs arbitrary: m) auto
  then have e: "index_by_name nm qs = fold (\<lambda>(i, n) m. m(n \<mapsto> i)) (enumerate 0 (map nm qs)) Map.empty" for qs
    by (simp add: index_by_name_def enumerate_eq_zip zip_map2 case_prod_unfold)
  have "map nm (ps[i := p]) = map nm ps"
    using assms by (metis list_update_id map_update)
  then show ?thesis unfolding e by simp
qed

lemma from_keys_ok: "distinct (map lk_id ks) \<Longrightarrow> keys_state_ok (keys_from_keys ks)"
  by (simp add: keys_state_ok_def keys_from_keys_def keys_ids_def)

lemma keys_state_from: "keys_state_ok st \<Longrightarrow> st = keys_from_keys (kd_keys_db st)"
  by (simp add: keys_state_ok_def keys_from_keys_def)

lemma upsert_ok:
  assumes "keys_state_ok st"
  shows "\<exists>st'. keys_upsert st k = Inr st' \<and> keys_state_ok st' \<and>
    keys_get st' = (keys_get st)(lk_id k \<mapsto> k)"
proof (cases "kd_by_id st (lk_id k)")
  case None
  let ?st = "keys_from_keys (kd_keys_db st @ [k])"
  have "lk_id k \<notin> lk_id ` set (kd_keys_db st)"
    using assms None index_by_name_None by (fastforce simp: keys_state_ok_def)
  then have d: "distinct (map lk_id (kd_keys_db st @ [k]))" using assms by (auto simp: keys_state_ok_def keys_ids_def)
  have "keys_upsert st k = Inr ?st"
    using None assms by (simp add: keys_upsert_def keys_state_ok_def keys_from_keys_def index_by_name_snoc)
  moreover have "keys_get ?st i = ((keys_get st)(lk_id k \<mapsto> k)) i" for i
    using assms None
    by (auto simp: keys_get_def keys_from_keys_def index_by_name_snoc keys_state_ok_def list_get_def nth_append
        split: option.splits bind_splits dest!: index_by_name_Some)
  ultimately show ?thesis using from_keys_ok [OF d] by blast
next
  case (Some i)
  then have i: "i < length (kd_keys_db st)" "lk_id (kd_keys_db st ! i) = lk_id k"
    using assms index_by_name_Some by (fastforce simp: keys_state_ok_def)+
  let ?st = "st\<lparr>kd_keys_db := (kd_keys_db st)[i := k]\<rparr>"
  have idx: "index_by_name lk_id ((kd_keys_db st)[i := k]) = index_by_name lk_id (kd_keys_db st)"
    using i by (intro index_by_name_update) simp_all
  have "map lk_id ((kd_keys_db st)[i := k]) = map lk_id (kd_keys_db st)"
    using i by (simp add: map_update) (metis length_map list_update_id nth_map)
  then have "keys_state_ok ?st" using assms idx by (simp add: keys_state_ok_def keys_ids_def)
  moreover have "keys_get ?st j = ((keys_get st)(lk_id k \<mapsto> k)) j" for j
  proof (cases "kd_by_id st j")
    case None
    then show ?thesis using Some by (auto simp: keys_get_def)
  next
    case (Some m)
    then have "m < length (kd_keys_db st)" "lk_id (kd_keys_db st ! m) = j"
      using assms index_by_name_Some by (fastforce simp: keys_state_ok_def)+
    then show ?thesis using Some i \<open>kd_by_id st (lk_id k) = Some i\<close> by (auto simp: keys_get_def list_get_def nth_list_update)
  qed
  ultimately show ?thesis using Some i by (auto simp: keys_upsert_def)
qed

section \<open>Loading is independent of the schedule\<close>

fun outcome_key :: "task_outcome \<Rightarrow> loaded_ops_key option" where
  "outcome_key (Returned (Inr k)) = Some k"
| "outcome_key _ = None"

fun outcome_failure :: "task_outcome \<Rightarrow> key_load_failure option" where
  "outcome_failure (Returned (Inr k)) = None"
| "outcome_failure (Returned (Inl _)) = Some DecryptOrValidate"
| "outcome_failure (JoinError p c) = Some (classify_join_failure p c)"

lemma record_failure_commute: "record_failure a (record_failure b s) = record_failure b (record_failure a s)"
  by (cases a; cases b) simp_all

lemma task_done_eq:
  "task_done i r (loaded, s) =
     ((case outcome_key r of None \<Rightarrow> loaded | Some k \<Rightarrow> loaded[i := Some k]),
      (case outcome_failure r of None \<Rightarrow> s | Some f \<Rightarrow> record_failure f s))"
  by (cases "(i, r, (loaded, s))" rule: task_done.cases) auto

lemma task_done_commute:
  "i \<noteq> j \<Longrightarrow> task_done i a (task_done j b acc) = task_done j b (task_done i a acc)"
  by (cases acc) (auto simp: task_done_eq record_failure_commute list_update_swap split: option.splits)

abbreviation run_task :: "(ops_key_row \<Rightarrow> task_outcome) \<Rightarrow> nat \<times> ops_key_row \<Rightarrow>
    loaded_ops_key option list \<times> keys_load_summary \<Rightarrow> loaded_ops_key option list \<times> keys_load_summary" where
  "run_task run t \<equiv> task_done (fst t) (run (snd t))"

lemma run_tasks_perm:
  assumes "distinct (map fst xs)" "mset xs = mset ys"
  shows "fold (run_task run) xs acc = fold (run_task run) ys acc"
proof -
  have "run_task run x \<circ> run_task run y = run_task run y \<circ> run_task run x" if "x \<in> set xs" "y \<in> set xs" for x y
  proof (cases "x = y")
    case False
    then have "fst x \<noteq> fst y" using assms(1) that by (auto simp: distinct_map dest: inj_onD)
    then show ?thesis by (auto simp: fun_eq_iff task_done_commute)
  qed simp
  then have "fold (run_task run) xs = fold (run_task run) ys"
    using assms(2) by (intro fold_multiset_equiv)
  then show ?thesis by simp
qed

lemma mset_remove_nth: "k < length xs \<Longrightarrow> mset (xs ! k # take k xs @ drop (Suc k) xs) = mset xs"
  by (metis id_take_nth_drop mset.simps(2) mset_append add_mset_add_single union_mset_add_mset_right)

lemma load_loop_fold:
  "distinct (map fst (pending @ rows)) \<Longrightarrow> (rows \<noteq> [] \<longrightarrow> pending \<noteq> []) \<Longrightarrow>
   load_loop pick run n rows pending acc = fold (run_task run) (pending @ rows) acc"
proof (induction pick run n rows pending acc rule: load_loop.induct)
  case (2 pick run n rows t ts acc)
  define k where "k = pick n mod length (t # ts)"
  define x where "x = (t # ts) ! k"
  define running where "running = take k (t # ts) @ drop (Suc k) (t # ts)"
  have k: "k < length (t # ts)" unfolding k_def by simp
  have m: "mset (x # running) = mset (t # ts)" unfolding x_def running_def using k by (rule mset_remove_nth)
  then have mr: "mset (x # running @ rows) = mset ((t # ts) @ rows)" by simp
  then have d: "distinct (map fst (x # running @ rows))"
    using 2(3) by (metis mset_map mset_eq_imp_distinct_iff)
  have step: "load_loop pick run n rows (t # ts) acc =
      (case rows of [] \<Rightarrow> load_loop pick run (Suc n) [] running (run_task run x acc)
       | r # rs \<Rightarrow> load_loop pick run (Suc n) rs (running @ [r]) (run_task run x acc))"
    by (simp only: load_loop.simps(2) Let_def case_prod_beta x_def running_def k_def)
  have "load_loop pick run n rows (t # ts) acc = fold (run_task run) (running @ rows) (run_task run x acc)"
  proof (cases rows)
    case Nil
    have "load_loop pick run (Suc n) [] running (run_task run x acc) = fold (run_task run) (running @ []) (run_task run x acc)"
      using 2(1) [OF k_def x_def _ running_def refl Nil, of "fst x" "snd x"] d Nil by simp
    then show ?thesis using step Nil by simp
  next
    case (Cons r rs)
    have "load_loop pick run (Suc n) rs (running @ [r]) (run_task run x acc) =
        fold (run_task run) ((running @ [r]) @ rs) (run_task run x acc)"
      using 2(2) [OF k_def x_def _ running_def refl Cons, of "fst x" "snd x"] d Cons by simp
    then show ?thesis using step Cons by simp
  qed
  also have "\<dots> = fold (run_task run) (x # running @ rows) acc" by simp
  also have "\<dots> = fold (run_task run) ((t # ts) @ rows) acc" by (rule run_tasks_perm [OF d mr])
  finally show ?case .
qed simp

definition failures :: "key_load_failure \<Rightarrow> (ops_key_row \<Rightarrow> task_outcome) \<Rightarrow> ops_key_row list \<Rightarrow> nat" where
  "failures f run rows = length (filter (\<lambda>r. outcome_failure (run r) = Some f) rows)"

definition expected_summary :: "(ops_key_row \<Rightarrow> task_outcome) \<Rightarrow> ops_key_row list \<Rightarrow> keys_load_summary" where
  "expected_summary run rows =
     \<lparr>ls_total = length rows, ls_loaded = length (List.map_filter (\<lambda>r. outcome_key (run r)) rows),
      ls_decrypt_or_validate_failed = failures DecryptOrValidate run rows,
      ls_task_panicked = failures TaskPanic run rows, ls_task_cancelled = failures TaskCancelled run rows,
      ls_task_join_failed = failures TaskJoin run rows\<rparr>"

lemma record_failures:
  "(case outcome_failure o' of None \<Rightarrow> s | Some f \<Rightarrow> record_failure f s) =
     \<lparr>ls_total = ls_total s, ls_loaded = ls_loaded s,
      ls_decrypt_or_validate_failed = ls_decrypt_or_validate_failed s + (if outcome_failure o' = Some DecryptOrValidate then 1 else 0),
      ls_task_panicked = ls_task_panicked s + (if outcome_failure o' = Some TaskPanic then 1 else 0),
      ls_task_cancelled = ls_task_cancelled s + (if outcome_failure o' = Some TaskCancelled then 1 else 0),
      ls_task_join_failed = ls_task_join_failed s + (if outcome_failure o' = Some TaskJoin then 1 else 0)\<rparr>"
proof (cases "outcome_failure o'")
  case (Some f)
  then show ?thesis by (cases f) simp_all
qed simp

lemma fold_tasks:
  "fold (run_task run) (enumerate 0 rows) (replicate (length rows + m) None, s) =
     (map (\<lambda>r. outcome_key (run r)) rows @ replicate m None,
      \<lparr>ls_total = ls_total s, ls_loaded = ls_loaded s,
       ls_decrypt_or_validate_failed = ls_decrypt_or_validate_failed s + failures DecryptOrValidate run rows,
       ls_task_panicked = ls_task_panicked s + failures TaskPanic run rows,
       ls_task_cancelled = ls_task_cancelled s + failures TaskCancelled run rows,
       ls_task_join_failed = ls_task_join_failed s + failures TaskJoin run rows\<rparr>)"
proof (induction rows arbitrary: m rule: rev_induct)
  case (snoc r rows)
  have "fold (run_task run) (enumerate 0 (rows @ [r])) (replicate (length (rows @ [r]) + m) None, s) =
      run_task run (length rows, r) (fold (run_task run) (enumerate 0 rows) (replicate (length rows + Suc m) None, s))"
    by (simp add: enumerate_append_eq)
  then show ?case
    unfolding snoc
    by (auto simp: task_done_eq record_failures failures_def list_update_append split: option.splits)
qed (simp add: failures_def)

lemma map_filter_id_map: "List.map_filter id (map f xs) = List.map_filter f xs"
  by (induction xs) (simp_all add: List.map_filter_def)

lemma load_keys_eq:
  "load_keys_from_rows pick run limit rows =
     (keys_from_keys (List.map_filter (\<lambda>r. outcome_key (run r)) rows), expected_summary run rows)"
proof -
  let ?ts = "enumerate 0 rows" and ?f = "max limit 1"
  have "distinct (map fst (take ?f ?ts @ drop ?f ?ts))" by simp
  moreover have "drop ?f ?ts \<noteq> [] \<longrightarrow> take ?f ?ts \<noteq> []" by (cases rows) auto
  ultimately have "load_loop pick run 0 (drop ?f ?ts) (take ?f ?ts) acc = fold (run_task run) ?ts acc" for acc
    by (subst load_loop_fold) (simp_all del: map_append)
  then show ?thesis
    using fold_tasks [of run rows 0]
    by (simp add: load_keys_from_rows_def Let_def expected_summary_def map_filter_id_map)
qed

lemma expected_summary_fields:
  "ls_total (expected_summary run rows) = length rows"
  "ls_loaded (expected_summary run rows) = length (List.map_filter (\<lambda>r. outcome_key (run r)) rows)"
  "ls_decrypt_or_validate_failed (expected_summary run rows) = failures DecryptOrValidate run rows"
  by (simp_all add: expected_summary_def)

lemma expected_summary_total: "ls_loaded (expected_summary run rows) + ls_skipped (expected_summary run rows) = length rows"
proof (induction rows)
  case (Cons row rows)
  have "(outcome_key (run row) = None) \<noteq> (outcome_failure (run row) = None)"
    by (cases "run row" rule: outcome_failure.cases) auto
  moreover have "f = DecryptOrValidate \<or> f = TaskPanic \<or> f = TaskCancelled \<or> f = TaskJoin" for f
    by (cases f) auto
  ultimately show ?case
    using Cons by (cases "outcome_failure (run row)")
      (auto simp: expected_summary_def ls_skipped_def failures_def map_filter_simps split: option.splits)
qed (simp add: expected_summary_def ls_skipped_def failures_def List.map_filter_def)

section \<open>A created key is loaded back\<close>

definition json_pretty_ok :: "crates \<Rightarrow> bool" where
  "json_pretty_ok C \<longleftrightarrow>
     (\<forall>v. (wire_json 127 v \<longrightarrow> json_from_slice C (json_to_vec_pretty C v) = Some v) \<and>
          from_utf8 (json_to_vec_pretty C v) \<noteq> None)"

lemma storage_envelope_len: "validate_storage_envelope C f text n = Inr () \<Longrightarrow> str_len text \<le> n"
  by (auto simp: validate_storage_envelope_def validate_base64_standard_envelope_segments_def
      split_base64_standard_envelope_segments_def bindR_eq_Inr split: if_splits)

definition internal_envelope ::
    "crates \<Rightarrow> ciphers \<Rightarrow> json \<Rightarrow> u8 list \<Rightarrow> u8 list \<Rightarrow> ustr \<Rightarrow> ustr result" where
  "internal_envelope C E v key nonce aad =
     bindR (encrypt_internal_payload C E (json_to_vec_pretty C v) key nonce aad) (\<lambda>b64.
       Inr (b64 @ lit ''.'' @ b64_encode C nonce @ lit ''.'' @ b64_encode C (utf8 aad)))"

lemma internal_envelope_text:
  "internal_envelope C E v key nonce aad = Inr env \<Longrightarrow>
     \<exists>ct. encrypt_symmetric E INTERNAL_KEYS_CIPHER (json_to_vec_pretty C v) key nonce (utf8 aad) = Inr ct \<and>
          env = envelope_text C ct nonce (utf8 aad)"
  by (auto simp: internal_envelope_def encrypt_internal_payload_def envelope_text_def bindR_eq_Inr)

lemma internal_cipher:
  assumes "aead_ok E" "encrypt_symmetric E INTERNAL_KEYS_CIPHER m key nonce aad = Inr c"
  shows "decrypt_symmetric E INTERNAL_KEYS_CIPHER c key nonce aad = Inr m" "length c = length m + 16"
proof -
  have "symmetric_cipher INTERNAL_KEYS_CIPHER = Some \<lparr>sc_algorithm = INTERNAL_KEYS_CIPHER, sc_key_size_bytes = 32, sc_nonce_size_bytes = 12\<rparr>"
    by (simp add: INTERNAL_KEYS_CIPHER_def symmetric_cipher_def lit_def)
  from aead_cipher [OF assms(1) this] assms(2)
  show "decrypt_symmetric E INTERNAL_KEYS_CIPHER c key nonce aad = Inr m" "length c = length m + 16" by simp_all
qed

lemma decrypt_payload_roundtrip:
  assumes C: "b64_ok C" "json_pretty_ok C" and E: "aead_ok E"
    and enc: "internal_envelope C E v key nonce aad = Inr env"
    and nonce: "length nonce = INTERNAL_KEYS_NONCE_SIZE_BYTES"
    and aad: "\<not> blank aad" "scalar_str aad"
    and v: "wire_json 127 v" "of_json v = Some x" and len: "str_len env \<le> STORAGE_ENVELOPE_MAX_CHARS"
  shows "decrypt_payload C E field key of_json env = Inr \<lparr>dc_aad = aad, dc_output = x\<rparr>"
proof -
  obtain ct where ct: "encrypt_symmetric E INTERNAL_KEYS_CIPHER (json_to_vec_pretty C v) key nonce (utf8 aad) = Inr ct"
    and env: "env = envelope_text C ct nonce (utf8 aad)" using internal_envelope_text [OF enc] by blast
  have dec: "decrypt_symmetric E INTERNAL_KEYS_CIPHER ct key nonce (utf8 aad) = Inr (json_to_vec_pretty C v)"
    and tag: "16 \<le> length ct" using internal_cipher [OF E ct] by simp_all
  have "decode_base64_standard_envelope C f env STORAGE_ENVELOPE_MAX_CHARS INTERNAL_KEYS_NONCE_SIZE_BYTES =
      Inr \<lparr>de_ciphertext = ct, de_nonce = nonce, de_aad = utf8 aad\<rparr>" for f
    unfolding env using C(1) tag nonce aad len [unfolded env]
    by (intro decode_envelope_text) (auto simp: INTERNAL_KEYS_NONCE_SIZE_BYTES_def)
  moreover obtain t where "from_utf8 (json_to_vec_pretty C v) = Some t"
    using C(2) by (auto simp: json_pretty_ok_def)
  moreover have "json_from_slice C (json_to_vec_pretty C v) = Some v" using C(2) v(1) by (simp add: json_pretty_ok_def)
  ultimately show ?thesis using aad(2) v(2) by (simp add: decrypt_payload_def dec)
qed

lemma uint_byte: "0 \<le> uint (b :: u8)" "uint (b :: u8) < 256"
proof -
  have "uint b < 2 ^ LENGTH(8)" by (rule unsigned_less)
  then show "uint b < 256" by simp
qed simp

lemma properties_json_roundtrip: "properties_of_json (properties_json p) = Some p"
proof -
  have "lifecycle_of_json (lifecycle_json l) = Some l" for l
    by (simp add: lifecycle_of_json_def lifecycle_json_def struct_strings_def only_field_def lit_def)
  moreover have "as_u8 (JNumber (uint b)) = Some b" for b :: u8
    using uint_byte [of b] by simp
  ultimately show ?thesis
    by (simp add: properties_of_json_def properties_json_def only_field_def lit_def del: as_u8.simps)
qed

lemma wire_key_json: "wire_json 127 (key_material_json k)" "wire_json 127 (properties_json p)"
proof -
  have "uint b < 2 ^ 64" for b :: u8 using uint_byte(2) [of b] by simp
  moreover have "- (2 ^ 63) \<le> uint b" for b :: u8 by (rule order_trans [of _ 0]) simp_all
  ultimately show "wire_json 127 (properties_json p)"
    by (simp add: properties_json_def lifecycle_json_def lit_def numeral_eq_Suc)
  show "wire_json 127 (key_material_json k)"
    by (simp add: key_material_json_def key_material_keys_json_def symmetric_key_json_def der_key_pair_json_def
        key_agreement_json_def variant_key_def private_der_key_def public_der_key_def lit_def numeral_eq_Suc)
qed

lemma create_key_id_valid:
  assumes "hash_size_ok C" "hex_format_ok C" "create_key_id C v = Inr kid"
  shows "validate_key_id kid = Inr ()"
proof -
  obtain h where "hash_bytes C INTERNAL_KEYS_HASH (utf8 v) = Inr h" "kid = hex_encode C h"
    using assms(3) by (auto simp: create_key_id_def bindR_eq_Inr)
  then show ?thesis
    using assms(1,2)
    by (auto simp: hash_size_ok_def hex_format_ok_def validate_key_id_ok list_all_iff char_simps)
qed

lemma internal_kid_matches:
  assumes C: "b64_ok C" "hash_size_ok C" "hex_format_ok C"
    and kid: "create_key_id C (b64_encode C ct) = Inr kid"
    and ne: "ct \<noteq> []" "nonce \<noteq> []" "aad \<noteq> []"
    and len: "str_len (envelope_text C ct nonce aad) \<le> STORAGE_ENVELOPE_MAX_CHARS"
  shows "validate_kid_matches_keys C kid (envelope_text C ct nonce aad) = Inr ()"
  using create_key_id_valid [OF C(2,3) kid] split_envelope_text [OF C(1) ne len] kid b64_codec [OF C(1)]
  by (simp add: validate_kid_matches_keys_def validate_base64_standard_envelope_segments_def b64_segment_def
      del: validate_key_id_ok)

lemma resolve_keys_input_ok:
  assumes "resolve_keys_input now i config = Inr r"
  shows "ri_properties_profile r \<in> set PROPERTY_PROFILES" "now = Inr (ri_timestamp r)"
    "ri_profile r \<in> set CRYPTO_PROFILES"
proof -
  have "lit ''custom'' \<in> set PROPERTY_PROFILES" "\<And>p. p \<in> set CRYPTO_PROFILES \<Longrightarrow> p \<in> set PROPERTY_PROFILES"
    by (auto simp: PROPERTY_PROFILES_def CRYPTO_PROFILES_def)
  then show "ri_properties_profile r \<in> set PROPERTY_PROFILES" "now = Inr (ri_timestamp r)"
      "ri_profile r \<in> set CRYPTO_PROFILES"
    using assms by (auto simp: resolve_keys_input_def bindR_eq_Inr Let_def validate_allowed_value_ok)
qed

lemma scalar_names:
  "p \<in> set PROPERTY_PROFILES \<Longrightarrow> scalar_str p" "p \<in> set CRYPTO_PROFILES \<Longrightarrow> scalar_str p"
  by (auto simp: PROPERTY_PROFILES_def CRYPTO_PROFILES_def scalar_str_lit)

lemma property_profile_text: "p \<in> set PROPERTY_PROFILES \<Longrightarrow> \<not> blank p \<and> (\<forall>c \<in> set p. \<not> is_control c)"
  by (auto simp: PROPERTY_PROFILES_def lit_def char_simps)

lemma created_properties_valid:
  assumes "ri_properties_profile i \<in> set PROPERTY_PROFILES" "ops_key_properties_aad config i kid = Inr aad"
  shows "validate_ops_key_properties (create_ops_key_properties i) = Inr ()"
proof -
  have t: "validate_text_field f (ri_tag i) = Inr ()" "validate_text_field f (ri_timestamp i) = Inr ()" for f
    using assms(2) by (auto simp: ops_key_properties_aad_def build_validated_aad_ok validate_text_field_ok)
  have "validate_text_field f (lit ''active'') = Inr ()" "validate_text_field f (lit ''initial creation'') = Inr ()" for f
    by (simp_all add: validate_text_field_ok lit_def char_simps)
  then show ?thesis
    using t assms(1) property_profile_text [OF assms(1)]
    by (simp add: validate_ops_key_properties_def create_ops_key_properties_def validate_allowed_value_ok
        validate_lifecycle_status_def validate_bounded_text_field_ok LIFECYCLE_STATUSES_def INTERNAL_REF_MAX_CHARS_def
        validate_text_field_ok bindR_unit_eq lit_def)
qed

lemma created_binding:
  assumes "ops_keys_aad config i = Inr aad" "ops_key_properties_aad config i kid = Inr properties_aad"
  shows "validate_loaded_ops_key_binding kid \<lparr>dc_aad = aad, dc_output = m\<rparr>
    \<lparr>dc_aad = properties_aad, dc_output = create_ops_key_properties i\<rparr> = Inr ()"
proof -
  note p = aad_roundtrip_aux [OF assms(1) [unfolded ops_keys_aad_def]]
    aad_roundtrip_aux [OF assms(2) [unfolded ops_key_properties_aad_def]]
  show ?thesis
    using p
    by (simp add: validate_loaded_ops_key_binding_def aad_is_def aad_same_def aad_field_def validate_aad_field_def
        create_ops_key_properties_def lit_def)
qed

lemma create_ops_key_record_Inr:
  assumes "create_ops_key_record C E P r1 r2 config db_key properties_key i = Inr rec"
  obtains aad keys nonce properties_nonce properties_aad ct where "ops_keys_aad config i = Inr aad"
    "create_key_material C P (ri_spec i) = Inr keys" "r1 INTERNAL_KEYS_NONCE_SIZE_BYTES = Inr nonce"
    "internal_envelope C E (key_material_json keys) db_key nonce aad = Inr (cr_keys rec)"
    "cr_keys rec = envelope_text C ct nonce (utf8 aad)" "create_key_id C (b64_encode C ct) = Inr (cr_kid rec)"
    "encrypt_symmetric E INTERNAL_KEYS_CIPHER (json_to_vec_pretty C (key_material_json keys)) db_key nonce (utf8 aad) = Inr ct"
    "r2 INTERNAL_KEYS_NONCE_SIZE_BYTES = Inr properties_nonce"
    "ops_key_properties_aad config i (cr_kid rec) = Inr properties_aad"
    "internal_envelope C E (properties_json (create_ops_key_properties i)) properties_key properties_nonce
       properties_aad = Inr (cr_properties rec)"
  using assms
  by (auto simp: create_ops_key_record_def internal_envelope_def encrypt_internal_payload_def envelope_text_def
      bindR_eq_Inr Let_def)

lemma create_load_aux:
  assumes C: "b64_ok C" "json_pretty_ok C" "hash_size_ok C" "hex_format_ok C" and E: "aead_ok E"
    and rnd: "random_ok r1" "random_ok r2"
    and sc: "list_all scalar_str [kc_protocol_version config, kc_sender_hostname config, ri_tag i, ri_timestamp i]"
    and res: "resolve_keys_input now inp config = Inr i"
    and create: "create_ops_key_record C E P r1 r2 config (ik_db_key K) (ik_properties_key K) i = Inr rec"
    and len: "str_len (cr_keys rec) \<le> STORAGE_ENVELOPE_MAX_CHARS"
      "str_len (cr_properties rec) \<le> STORAGE_ENVELOPE_MAX_CHARS"
  shows "\<exists>k. load_ops_key_from_row C E K
      \<lparr>ok_kid = cr_kid rec, ok_keys = cr_keys rec, ok_properties = cr_properties rec\<rparr> = Inr k \<and>
    lk_id k = cr_kid rec \<and> create_key_material C P (ri_spec i) = Inr (lk_key_material k) \<and>
    lk_properties k = create_ops_key_properties i"
proof -
  obtain aad keys nonce properties_nonce properties_aad ct where aad: "ops_keys_aad config i = Inr aad"
    and keys: "create_key_material C P (ri_spec i) = Inr keys" and nonce: "r1 INTERNAL_KEYS_NONCE_SIZE_BYTES = Inr nonce"
    and env: "internal_envelope C E (key_material_json keys) (ik_db_key K) nonce aad = Inr (cr_keys rec)"
    and ct: "cr_keys rec = envelope_text C ct nonce (utf8 aad)" "create_key_id C (b64_encode C ct) = Inr (cr_kid rec)"
      "encrypt_symmetric E INTERNAL_KEYS_CIPHER (json_to_vec_pretty C (key_material_json keys)) (ik_db_key K) nonce (utf8 aad) = Inr ct"
    and pnonce: "r2 INTERNAL_KEYS_NONCE_SIZE_BYTES = Inr properties_nonce"
    and paad: "ops_key_properties_aad config i (cr_kid rec) = Inr properties_aad"
    and penv: "internal_envelope C E (properties_json (create_ops_key_properties i)) (ik_properties_key K)
      properties_nonce properties_aad = Inr (cr_properties rec)"
    by (rule create_ops_key_record_Inr [OF create])
  note r = resolve_keys_input_ok [OF res]
  have kid: "validate_key_id (cr_kid rec) = Inr ()" by (rule create_key_id_valid [OF C(3,4) ct(2)])
  have sa: "scalar_str aad"
    using aad unfolding ops_keys_aad_def
    by (rule scalar_aad) (use sc scalar_names(2) [OF r(3)] in \<open>simp add: scalar_str_lit INTERNAL_KEYS_CIPHER_def\<close>)
  have "scalar_str (cr_kid rec)" using kid by (auto simp: validate_key_id_ok intro: scalar_str_ascii hex_ascii)
  then have sp: "scalar_str properties_aad"
    using paad unfolding ops_key_properties_aad_def
    by (intro scalar_aad) (use sc scalar_names(1) [OF r(1)] in \<open>auto simp: scalar_str_lit INTERNAL_KEYS_CIPHER_def\<close>)
  have nb: "\<not> blank aad" "\<not> blank properties_aad"
    using build_aad_text [OF _ aad [unfolded ops_keys_aad_def]]
      build_aad_text [OF _ paad [unfolded ops_key_properties_aad_def]] by simp_all
  have "decrypt_ops_keys_payload C E K (cr_keys rec) = Inr \<lparr>dc_aad = aad, dc_output = keys\<rparr>"
    unfolding decrypt_ops_keys_payload_def
    using C(1,2) E env random_length [OF rnd(1) nonce] nb(1) sa wire_key_json(1) key_material_json_roundtrip len(1)
    by (rule decrypt_payload_roundtrip)
  moreover have "decrypt_ops_key_properties_payload C E K (cr_properties rec) =
      Inr \<lparr>dc_aad = properties_aad, dc_output = create_ops_key_properties i\<rparr>"
    unfolding decrypt_ops_key_properties_payload_def
    using C(1,2) E penv random_length [OF rnd(2) pnonce] nb(2) sp wire_key_json(2) properties_json_roundtrip len(2)
    by (rule decrypt_payload_roundtrip)
  moreover have "16 \<le> length ct" using internal_cipher [OF E ct(3)] by simp
  then have "ct \<noteq> []" "nonce \<noteq> []" "utf8 aad \<noteq> []"
    using random_length [OF rnd(1) nonce] nb(1)
    by (auto simp: INTERNAL_KEYS_NONCE_SIZE_BYTES_def utf8_eq_Nil)
  then have "validate_kid_matches_keys C (cr_kid rec) (cr_keys rec) = Inr ()"
    using internal_kid_matches [OF C(1,3,4) ct(2)] len(1) by (simp add: ct(1))
  ultimately show ?thesis
    using created_properties_valid [OF r(1) paad] created_binding [OF aad paad] keys
    by (simp add: load_ops_key_from_row_def open_ops_key_row_def)
qed

end
