(* ===== verification/Key_Lifecycle.thy ===== *)
theory Key_Lifecycle
  imports Ops_Keys_Correct
begin

text \<open>
  The lifecycle of stored keys as a state machine: the transitions of \<open>validate_lifecycle_transition\<close>,
  and that the status of every stored key moves along them only, whatever requests are served, however
  lifecycle updates interleave between reading a key and swapping its properties, and wherever the
  database fails.
\<close>

section \<open>Transitions\<close>

inductive lifecycle_step :: "ustr \<Rightarrow> ustr \<Rightarrow> bool" where
  leave: "b \<in> set (map lit [''disabled'', ''retired'', ''compromised'', ''destroyed'']) \<Longrightarrow>
    lifecycle_step (lit ''active'') b"
| enable: "lifecycle_step (lit ''disabled'') (lit ''active'')"

inductive_simps lifecycle_step_simps: "lifecycle_step a b"

definition final_status :: "ustr \<Rightarrow> bool" where
  "final_status a \<longleftrightarrow> a \<in> set (map lit [''retired'', ''compromised'', ''destroyed''])"

lemma transition_iff: "validate_lifecycle_transition a b = Inr () \<longleftrightarrow> lifecycle_step a b"
  by (auto simp: validate_lifecycle_transition_def lifecycle_step_simps Let_def lit_def)

lemma final_stuck: "final_status a \<Longrightarrow> \<not> lifecycle_step a b"
  by (auto simp: final_status_def lifecycle_step_simps lit_def)

lemma final_forever: "lifecycle_step\<^sup>*\<^sup>* a b \<Longrightarrow> final_status a \<Longrightarrow> b = a"
  by (induction rule: rtranclp_induct) (auto dest: final_stuck)

section \<open>Stored keys\<close>

definition stored_row :: "database \<Rightarrow> ustr \<Rightarrow> ops_key_row option" where
  "stored_row db kid = find (\<lambda>r. ok_kid r = kid) (db_opskeys db)"

definition row_status :: "crates \<Rightarrow> ciphers \<Rightarrow> internal_derived_keys_state \<Rightarrow> ops_key_row \<Rightarrow> ustr option" where
  "row_status C E K row =
     (case open_ops_key_row C E K row of
        Inl _ \<Rightarrow> None
      | Inr (_, properties) \<Rightarrow> Some (lc_status (pr_lifecycle (dc_output properties))))"

definition stored_status ::
    "crates \<Rightarrow> ciphers \<Rightarrow> internal_derived_keys_state \<Rightarrow> database \<Rightarrow> ustr \<Rightarrow> ustr option" where
  "stored_status C E K db kid = Option.bind (stored_row db kid) (row_status C E K)"

text \<open>What a planned update promises of any row it may be applied to.\<close>

definition plan_ok ::
    "crates \<Rightarrow> ciphers \<Rightarrow> internal_derived_keys_state \<Rightarrow> ustr \<times> ustr \<times> ustr \<Rightarrow> bool" where
  "plan_ok C E K = (\<lambda>(kid, current, encrypted).
     \<forall>row a. ok_kid row = kid \<and> ok_properties row = current \<and> row_status C E K row = Some a \<and>
       str_len encrypted \<le> STORAGE_ENVELOPE_MAX_CHARS \<longrightarrow>
       (\<exists>b. row_status C E K (row\<lparr>ok_properties := encrypted\<rparr>) = Some b \<and> lifecycle_step a b))"

lemma decrypt_payload_aad:
  "decrypt_payload C E f key of_json text = Inr d \<Longrightarrow> scalar_str (dc_aad d) \<and> \<not> blank (dc_aad d)"
  by (auto simp: decrypt_payload_def decode_base64_standard_envelope_def bindR_eq_Inr ok_or_eq_Inr from_utf8_Some
      utf8_inject split: if_splits prod.splits)

lemma binding_lifecycle:
  "validate_loaded_ops_key_binding kid keys \<lparr>dc_aad = aad, dc_output = p\<lparr>pr_lifecycle := l\<rparr>\<rparr> =
   validate_loaded_ops_key_binding kid keys \<lparr>dc_aad = aad, dc_output = p\<rparr>"
  by (simp add: validate_loaded_ops_key_binding_def)

lemma plan_sound:
  assumes C: "b64_ok C" "json_pretty_ok C" and E: "aead_ok E" and rnd: "random_ok rnd"
    and plan: "plan_lifecycle_update C E env now rnd K kid i s = (s', Inr (current, encrypted, lifecycle))"
  shows "plan_ok C E K (kid, current, encrypted)"
proof -
  from plan obtain row keys properties where
    row: "open_ops_key_row C E K row = Inr (keys, properties)" "current = ok_properties row"
    and step: "lifecycle_step (lc_status (pr_lifecycle (dc_output properties))) (lc_status lifecycle)"
    and valid: "validate_ops_key_properties ((dc_output properties)\<lparr>pr_lifecycle := lifecycle\<rparr>) = Inr ()"
    and enc: "encrypt_ops_key_properties_payload C E rnd K ((dc_output properties)\<lparr>pr_lifecycle := lifecycle\<rparr>)
      (dc_aad properties) = Inr encrypted"
    by (auto simp: plan_lifecycle_update_def sop_simps Let_def transition_iff split: prod.splits)
  let ?p = "(dc_output properties)\<lparr>pr_lifecycle := lifecycle\<rparr>"
  have dec: "decrypt_ops_key_properties_payload C E K current = Inr properties"
    using row by (auto simp: open_ops_key_row_def bindR_eq_Inr)
  then have aad: "scalar_str (dc_aad properties)" "\<not> blank (dc_aad properties)"
    using decrypt_payload_aad unfolding decrypt_ops_key_properties_payload_def by blast+
  from enc obtain nonce where nonce: "rnd INTERNAL_KEYS_NONCE_SIZE_BYTES = Inr nonce"
    and env: "internal_envelope C E (properties_json ?p) (ik_properties_key K) nonce (dc_aad properties) = Inr encrypted"
    by (auto simp: encrypt_ops_key_properties_payload_def internal_envelope_def bindR_eq_Inr Let_def)
  have new: "decrypt_ops_key_properties_payload C E K encrypted = Inr \<lparr>dc_aad = dc_aad properties, dc_output = ?p\<rparr>"
    if "str_len encrypted \<le> STORAGE_ENVELOPE_MAX_CHARS"
    unfolding decrypt_ops_key_properties_payload_def
    using C E env random_length [OF rnd nonce] aad(2,1) wire_key_json(2) properties_json_roundtrip that
    by (rule decrypt_payload_roundtrip)
  have "\<exists>b. row_status C E K (r\<lparr>ok_properties := encrypted\<rparr>) = Some b \<and> lifecycle_step a b"
    if r: "ok_properties r = current" "row_status C E K r = Some a" "str_len encrypted \<le> STORAGE_ENVELOPE_MAX_CHARS" for r a
  proof -
    obtain k where o: "validate_kid_matches_keys C (ok_kid r) (ok_keys r) = Inr ()"
      "decrypt_ops_keys_payload C E K (ok_keys r) = Inr k"
      "validate_loaded_ops_key_binding (ok_kid r) k properties = Inr ()"
      "a = lc_status (pr_lifecycle (dc_output properties))"
      using r(1,2) dec by (auto simp: row_status_def open_ops_key_row_def bindR_eq_Inr split: sum.splits)
    have "validate_loaded_ops_key_binding (ok_kid r) k \<lparr>dc_aad = dc_aad properties, dc_output = ?p\<rparr> = Inr ()"
      using o(3) unfolding binding_lifecycle by (cases properties) simp
    then have "open_ops_key_row C E K (r\<lparr>ok_properties := encrypted\<rparr>) =
        Inr (k, \<lparr>dc_aad = dc_aad properties, dc_output = ?p\<rparr>)"
      using o(1,2) new [OF r(3)] valid by (simp add: open_ops_key_row_def)
    then show ?thesis using step o(4) by (simp add: row_status_def)
  qed
  then show ?thesis by (auto simp: plan_ok_def)
qed

section \<open>Requests in any interleaving\<close>

fun writes_keys :: "storage_request \<Rightarrow> bool" where
  "writes_keys (SaveOpsKeys _ _ _) = True"
| "writes_keys (UpdateProperties _ _) = True"
| "writes_keys (UpdatePropertiesIfCurrent _ _ _) = True"
| "writes_keys _ = False"

type_synonym lifecycle_state = "storage \<times> (ustr \<times> ustr \<times> ustr) list"

inductive key_step ::
    "crates \<Rightarrow> ciphers \<Rightarrow> ('priv, 'pub) pk_crate \<Rightarrow> storage_env \<Rightarrow> internal_derived_keys_state \<Rightarrow>
     lifecycle_state \<Rightarrow> lifecycle_state \<Rightarrow> bool"
  for C E P env K where
  plan: "plan_lifecycle_update C E env now rnd K kid i s = (s', Inr (current, encrypted, l)) \<Longrightarrow> random_ok rnd \<Longrightarrow>
    key_step C E P env K (s, plans) (s', (kid, current, encrypted) # plans)"
| reject: "plan_lifecycle_update C E env now rnd K kid i s = (s', Inl e) \<Longrightarrow>
    key_step C E P env K (s, plans) (s', plans)"
| commit: "(kid, current, encrypted) \<in> set plans \<Longrightarrow>
    update_ops_key_properties_if_current C env kid current encrypted s = (s', r) \<Longrightarrow>
    key_step C E P env K (s, plans) (s', remove1 (kid, current, encrypted) plans)"
| create: "create_keys C E P env now r1 r2 config K i s = (s', r) \<Longrightarrow>
    key_step C E P env K (s, plans) (s', plans)"
| other: "\<not> writes_keys q \<Longrightarrow> key_step C E P env K (s, plans) (serve C env s q, plans)"

definition lifecycle_inv :: "crates \<Rightarrow> ciphers \<Rightarrow> internal_derived_keys_state \<Rightarrow> lifecycle_state \<Rightarrow> bool" where
  "lifecycle_inv C E K = (\<lambda>(s, plans). distinct (map ok_kid (db_opskeys (sd_db s))) \<and> list_all (plan_ok C E K) plans)"

lemma stored_status_same: "db_opskeys db' = db_opskeys db \<Longrightarrow> stored_status C E K db' = stored_status C E K db"
  by (simp add: fun_eq_iff stored_status_def stored_row_def)

definition keys_are :: "ops_key_row list \<Rightarrow> database \<Rightarrow> bool" where
  "keys_are rows db \<longleftrightarrow> db_opskeys db = rows"

lemma keys_are_changes:
  "saves_batch C records guards db db' \<Longrightarrow> keys_are rows db \<Longrightarrow> keys_are rows db'"
  "consumes kid hs subject db db' \<Longrightarrow> keys_are rows db \<Longrightarrow> keys_are rows db'"
  "erases kid subject' db db' \<Longrightarrow> keys_are rows db \<Longrightarrow> keys_are rows db'"
  "adds_valid_subject C srow db db' \<Longrightarrow> keys_are rows db \<Longrightarrow> keys_are rows db'"
  "adds_valid_indexes irows db db' \<Longrightarrow> keys_are rows db \<Longrightarrow> keys_are rows db'"
  by (auto simp: keys_are_def saves_batch_def saves_def consumes_def erases_def adds_valid_subject_def
      adds_subject_def adds_valid_indexes_def adds_indexes_def sql_insert_indexes_def split: if_splits)

lemma serve_keys_are: "keys_are rows (sd_db s) \<Longrightarrow> \<not> writes_keys q \<Longrightarrow> keys_are rows (sd_db (serve C env s q))"
proof (cases q)
  case (SaveToken kid hashid data subject seed)
  assume a: "keys_are rows (sd_db s)"
  then show ?thesis
    using save_token_batch [of C env kid hashid data subject seed s, OF surjective_pairing] keys_are_changes(1)
    by (auto simp: SaveToken)
next
  case (SaveIndex kid digest)
  assume "keys_are rows (sd_db s)"
  then show ?thesis
    unfolding SaveIndex serve.simps save_index_batch by (rule indexing.keeps [OF keys_are_changes(5), rotated 2]) simp_all
qed (auto intro: saving.keeps deleting.keeps consuming.keeps enrolling.keeps erasing.keeps indexing.keeps
    dest: keys_are_changes
    simp: readsD [OF reads_operations(2) surjective_pairing] readsD [OF reads_operations(3) surjective_pairing]
      readsD [OF reads_operations(4) surjective_pairing] readsD [OF reads_operations(6) surjective_pairing])

lemma serve_keys_same: "\<not> writes_keys q \<Longrightarrow> db_opskeys (sd_db (serve C env s q)) = db_opskeys (sd_db s)"
  using serve_keys_are [of "db_opskeys (sd_db s)" s q C env] by (simp add: keys_are_def)

lemma plan_reads: "plan_lifecycle_update C E env now rnd K kid i s = (s', r) \<Longrightarrow> sd_db s' = sd_db s"
  by (cases r) (auto simp: plan_lifecycle_update_def get_ops_keys_def sop_simps Let_def dest!: get_ops_keys_same
      split: prod.splits)

lemma create_keys_any:
  assumes "create_keys C E P env now r1 r2 config K i s = (s', r)"
  shows "sd_db s' = sd_db s \<or> (\<exists>row. adds_key row (sd_db s) (sd_db s'))"
  using assms
  by (cases r) (auto simp: create_keys_def sop_simps dest!: save_ops_keys_Inr save_ops_keys_Inl)

lemma stored_status_adds_key:
  assumes "adds_key row db db'" "stored_status C E K db kid = Some a"
  shows "stored_status C E K db' kid = Some a"
proof -
  obtain r where r: "find (\<lambda>r. ok_kid r = kid) (db_opskeys db) = Some r" "row_status C E K r = Some a"
    using assms(2) by (auto simp: stored_status_def stored_row_def bind_eq_Some_conv)
  have "find (\<lambda>r. ok_kid r = kid) (rows @ xs) = Some r" if "find (\<lambda>r. ok_kid r = kid) rows = Some r" for rows xs
    using that by (induction rows) (auto split: if_splits)
  then show ?thesis using assms(1) r by (simp add: stored_status_def stored_row_def adds_key_def)
qed

lemma sets_properties_kids:
  "sets_properties Q properties db db' \<Longrightarrow> map ok_kid (db_opskeys db') = map ok_kid (db_opskeys db)"
  by (simp add: sets_properties_def if_distrib cong: if_cong)

lemma stored_status_commit:
  assumes keys: "distinct (map ok_kid (db_opskeys (sd_db s)))" and plan: "plan_ok C E K (k, current, encrypted)"
    and cas: "update_ops_key_properties_if_current C env k current encrypted s = (s', r)"
    and a: "stored_status C E K (sd_db s) kid = Some a"
  shows "\<exists>b. stored_status C E K (sd_db s') kid = Some b \<and> (b = a \<or> lifecycle_step a b)"
proof (cases "sd_db s' = sd_db s")
  case False
  then have db: "sd_db s' = swapped k current encrypted (sd_db s)"
    and env: "validate_storage_envelope C (lit ''opskeys.properties'') encrypted STORAGE_ENVELOPE_MAX_CHARS = Inr ()"
    using cas_any [OF cas] by (auto simp: sets_properties_def swapped_def)
  have len: "str_len encrypted \<le> STORAGE_ENVELOPE_MAX_CHARS"
    using env by (rule storage_envelope_len)
  obtain row where row: "stored_row (sd_db s) kid = Some row" "row_status C E K row = Some a"
    using a by (auto simp: stored_status_def bind_eq_Some_conv)
  have set: "sets_properties (\<lambda>r. ok_kid r = k \<and> ok_properties r = current) encrypted (sd_db s) (sd_db s')"
    by (simp add: db swapped_def sets_properties_def)
  have "filter (\<lambda>r. ok_kid r = k \<and> ok_properties r = current) (db_opskeys (sd_db s)) \<noteq> []"
    using False swapped_same db by metis
  then obtain x where x: "x \<in> set (db_opskeys (sd_db s))" "ok_kid x = k" "ok_properties x = current"
    by (auto simp: filter_empty_conv)
  then have find: "find (\<lambda>r. ok_kid r = k) (db_opskeys (sd_db s)) = Some x"
    using keys find_unique [of ok_kid "db_opskeys (sd_db s)" x] by auto
  note new = sets_properties_map [OF set find x(3)]
  show ?thesis
  proof (cases "kid = k")
    case True
    then have "row = x" using row(1) find by (simp add: stored_row_def)
    then obtain b where "row_status C E K (x\<lparr>ok_properties := encrypted\<rparr>) = Some b" "lifecycle_step a b"
      using plan row(2) x len by (auto simp: plan_ok_def)
    then show ?thesis using new [of kid] True by (simp add: stored_status_def stored_row_def)
  next
    case False
    then show ?thesis using new [of kid] row by (simp add: stored_status_def stored_row_def)
  qed
qed (use a in \<open>simp add: stored_status_def\<close>)

lemma key_step_keeps:
  assumes "key_step C E P env K x y" "b64_ok C" "json_pretty_ok C" "aead_ok E" "lifecycle_inv C E K x"
  shows "lifecycle_inv C E K y \<and>
    (\<forall>kid a. stored_status C E K (sd_db (fst x)) kid = Some a \<longrightarrow>
       (\<exists>b. stored_status C E K (sd_db (fst y)) kid = Some b \<and> (b = a \<or> lifecycle_step a b)))"
  using assms(1)
proof cases
  case (plan now rnd kid i s s' current encrypted l plans)
  then show ?thesis
    using plan_sound [OF assms(2-4) plan(4,3)] plan_reads [OF plan(3)] assms(5) by (auto simp: lifecycle_inv_def)
next
  case (reject now rnd kid i s s' e plans)
  then show ?thesis using plan_reads [OF reject(3)] assms(5) by (auto simp: lifecycle_inv_def)
next
  case (commit kid current encrypted plans s s' r)
  have inv: "distinct (map ok_kid (db_opskeys (sd_db s)))" "plan_ok C E K (kid, current, encrypted)" "list_all (plan_ok C E K) plans"
    using assms(5) commit by (auto simp: lifecycle_inv_def list_all_iff)
  have "map ok_kid (db_opskeys (sd_db s')) = map ok_kid (db_opskeys (sd_db s))"
    using cas_any [OF commit(4)] sets_properties_kids by metis
  then have "distinct (map ok_kid (db_opskeys (sd_db s')))" using inv(1) by simp
  moreover have "list_all (plan_ok C E K) (remove1 (kid, current, encrypted) plans)"
    using inv(3) by (auto simp: list_all_iff dest: notin_set_remove1)
  ultimately show ?thesis
    using stored_status_commit [OF inv(1,2) commit(4)] commit(1,2) by (auto simp: lifecycle_inv_def)
next
  case (create now r1 r2 config i s s' r plans)
  have "distinct (map ok_kid (db_opskeys (sd_db s')))"
    using create_keys_any [OF create(3)] assms(5) create(1) by (auto simp: lifecycle_inv_def adds_key_def)
  then show ?thesis
    using create_keys_any [OF create(3)] assms(5) create(1,2) stored_status_adds_key
    by (auto simp: lifecycle_inv_def)
next
  case (other q s plans)
  then show ?thesis
    using stored_status_same [OF serve_keys_same [OF other(3)], of C E K] serve_keys_same [OF other(3)] assms(5)
    by (simp add: lifecycle_inv_def)
qed

lemma key_steps_keep:
  assumes "(key_step C E P env K)\<^sup>*\<^sup>* x y" "b64_ok C" "json_pretty_ok C" "aead_ok E" "lifecycle_inv C E K x"
    and "stored_status C E K (sd_db (fst x)) kid = Some a"
  shows "lifecycle_inv C E K y \<and> (\<exists>b. stored_status C E K (sd_db (fst y)) kid = Some b \<and> lifecycle_step\<^sup>*\<^sup>* a b)"
  using assms(1)
proof (induction rule: rtranclp_induct)
  case (step y z)
  then obtain b where "stored_status C E K (sd_db (fst y)) kid = Some b" "lifecycle_step\<^sup>*\<^sup>* a b"
    "lifecycle_inv C E K y" by blast
  moreover from this obtain c where "stored_status C E K (sd_db (fst z)) kid = Some c" "c = b \<or> lifecycle_step b c"
    using key_step_keeps [OF step(2) assms(2-4)] by blast
  moreover have "lifecycle_inv C E K z"
    using key_step_keeps [OF step(2) assms(2-4) \<open>lifecycle_inv C E K y\<close>] by simp
  ultimately show ?case by (auto intro: rtranclp.rtrancl_into_rtrancl)
qed (use assms in auto)

end
