(* ===== verification/Key_Guarantees.thy ===== *)
theory Key_Guarantees
  imports Key_Lifecycle Vault_Example
begin

text \<open>
  The properties of operational keys: creating and loading them back, loading a key set whatever the
  order in which its tasks complete, and the lifecycle of stored keys.
\<close>

section \<open>An example\<close>

definition key_pk :: "(unit, unit) pk_crate" where
  "key_pk = \<lparr>pk_new_rng = Inr (), pk_random = (\<lambda>n. Inr (replicate n 2)), pk_create = (\<lambda>_ _. Inr ()),
     pk_public = (\<lambda>_. Inr ()), pk_agreement_public = (\<lambda>_. Inr (replicate 32 3)), pk_private_der = (\<lambda>_. Inr [4]),
     pk_public_der = (\<lambda>_. Inr [5]), pk_load_private = (\<lambda>_. Inr ()), pk_load_public = (\<lambda>_. Inr ()),
     pk_agree = (\<lambda>_ _ _. Inr [6]), pk_encapsulate = (\<lambda>_ _ _ _. Inr ([7], [8])),
     pk_decapsulate = (\<lambda>_ _ _ _ _. Inr [7]), pk_sign = (\<lambda>_ _ _. Inr [9]), pk_verify = (\<lambda>_ _ _ _. Inr True)\<rparr>"

definition key_settings :: key_config where
  "key_settings = \<lparr>kc_protocol_version = lit ''1'', kc_sender_hostname = lit ''h'',
     kc_default_crypto_profile = lit ''hybrid-standard-v1'', kc_crypto_policy = lit ''profile-only'',
     kc_public_addr = lit ''h:1''\<rparr>"

definition key_request :: create_keys_input where
  "key_request = \<lparr>ci_tag = None, ci_profile = None, ci_hash_algorithm = None, ci_symmetric_algorithm = None,
     ci_eddsa_algorithm = None, ci_xecdh_algorithm = None, ci_ml_dsa_variant = None, ci_ml_kem_variant = None\<rparr>"

definition key_resolved :: resolved_keys_input where
  "key_resolved = \<lparr>ri_tag = lit ''7'', ri_timestamp = lit ''7'', ri_profile = lit ''hybrid-standard-v1'',
     ri_properties_profile = lit ''hybrid-standard-v1'',
     ri_spec = profile_spec [''SHA-3(256)'', ''AES-128/GCM'', ''Ed25519'', ''X25519'', ''ML-DSA-44'', ''ML-KEM-512'']\<rparr>"

definition key_output :: key_material_output where
  "key_output = \<lparr>ko_hash_variant = lit ''SHA-3(256)'', ko_keys =
     \<lparr>km_symmetric = \<lparr>vs_variant = lit ''AES-128/GCM'', vs_key_hex = concat (map hex_byte (replicate 16 2))\<rparr>,
      km_eddsa = \<lparr>vd_variant = lit ''Ed25519'', vd_private_key_der_hex = hex_byte 4, vd_public_key_der_hex = hex_byte 5\<rparr>,
      km_xecdh = \<lparr>va_variant = lit ''X25519'', va_private_key_der_hex = hex_byte 4, va_public_key_hex = concat (map hex_byte (replicate 32 3))\<rparr>,
      km_ml_dsa = \<lparr>vd_variant = lit ''ML-DSA-44'', vd_private_key_der_hex = hex_byte 4, vd_public_key_der_hex = hex_byte 5\<rparr>,
      km_ml_kem = \<lparr>vd_variant = lit ''ML-KEM-512'', vd_private_key_der_hex = hex_byte 4, vd_public_key_der_hex = hex_byte 5\<rparr>\<rparr>\<rparr>"

abbreviation key_crates :: crates where
  "key_crates \<equiv> vault_crates [key_material_json key_output, properties_json (create_ops_key_properties key_resolved)]"

definition key_internal :: internal_derived_keys_state where
  "key_internal = \<lparr>ik_db_key = replicate 32 1, ik_properties_key = replicate 32 2, ik_api_auth_key = replicate 32 3\<rparr>"

lemma vault_pretty_ok: "json_pretty_ok (vault_crates vs)"
  by (simp add: json_pretty_ok_def vault_crates_def vault_json_roundtrip vault_json_utf8)

lemma key_resolve: "resolve_keys_input (Inr (lit ''7'')) key_request key_settings = Inr key_resolved"
  by (simp add: resolve_keys_input_def key_request_def key_settings_def key_resolved_def Let_def crypto_profile_def
      profile_spec_def validate_crypto_policy_def resolve_algorithm_value_def validate_allowed_value_def
      validate_aad_value_def validate_text_field_def has_overrides_def CRYPTO_PROFILES_def CRYPTO_POLICIES_def
      HASH_ALGORITHMS_def SYMMETRIC_ALGORITHMS_def PROPERTY_PROFILES_def reject_aad_delimiters_def blank_def char_simps lit_def)

lemma key_create_material: "create_key_material key_crates key_pk (ri_spec key_resolved) = Inr key_output"
proof -
  have "hex_encode (vault_crates vs) bs = concat (map hex_byte bs)" for vs bs
    by (simp add: vault_crates_def example_crates_def)
  moreover have "ml_dsa_from_name (lit ''ML-DSA-44'') = Some MlDsa44" "ml_kem_from_name (lit ''ML-KEM-512'') = Some MlKem512"
    by (simp_all add: ml_dsa_from_name_def ml_kem_from_name_def normalize_variant_name_def
        to_ascii_uppercase_def trim_def trim_end_def char_simps Let_def lit_def)
  moreover have "symmetric_cipher (lit ''AES-128/GCM'') =
      Some \<lparr>sc_algorithm = lit ''AES-128/GCM'', sc_key_size_bytes = 16, sc_nonce_size_bytes = 12\<rparr>"
    by (simp add: symmetric_cipher_def lit_def)
  ultimately show ?thesis
    by (simp add: create_key_material_def key_resolved_def profile_spec_def key_pk_def key_output_def
        private_key_der_hex_def public_key_der_hex_def)
qed

abbreviation key_kid :: ustr where "key_kid \<equiv> concat (replicate 32 (hex_byte 2))"

abbreviation keys_fields :: "(ustr \<times> ustr) list" where
  "keys_fields \<equiv> [(lit ''version'', lit ''1''), (lit ''hostname'', lit ''h''), (lit ''type'', lit ''ops-keys''),
     (lit ''cipher'', lit ''AES-256/GCM''), (lit ''tag'', lit ''7''), (lit ''profile'', lit ''hybrid-standard-v1''),
     (lit ''timestamp'', lit ''7'')]"

abbreviation properties_fields :: "(ustr \<times> ustr) list" where
  "properties_fields \<equiv> [(lit ''version'', lit ''1''), (lit ''hostname'', lit ''h''), (lit ''type'', lit ''ops-key-properties''),
     (lit ''cipher'', lit ''AES-256/GCM''), (lit ''kid'', key_kid), (lit ''tag'', lit ''7''),
     (lit ''profile'', lit ''hybrid-standard-v1''), (lit ''timestamp'', lit ''7'')]"

definition key_record :: created_ops_key_record where
  "key_record = \<lparr>cr_kid = key_kid,
     cr_keys = envelope_text key_crates ([1] @ replicate 16 0) (replicate 12 1) (utf8 (build_aad keys_fields)),
     cr_properties = envelope_text key_crates ([1, 1] @ replicate 16 0) (replicate 12 1)
       (utf8 (build_aad properties_fields))\<rparr>"

lemma key_kid_eq: "key_kid = concat (replicate 32 [48, 50])"
  by (simp add: hex_byte_def hex_digit_def)

lemma key_aads:
  "ops_keys_aad key_settings key_resolved = Inr (build_aad keys_fields)"
  "ops_key_properties_aad key_settings key_resolved key_kid = Inr (build_aad properties_fields)"
  "length (utf8 (build_aad keys_fields)) \<le> 300" "length (utf8 (build_aad properties_fields)) \<le> 300"
proof -
  note eval = key_settings_def key_resolved_def INTERNAL_KEYS_CIPHER_def build_validated_aad_ok key_kid_eq
    blank_def list_all_iff lit_def is_aad_key_char_def char_simps
  show "ops_keys_aad key_settings key_resolved = Inr (build_aad keys_fields)"
    by (simp add: ops_keys_aad_def eval)
  show "ops_key_properties_aad key_settings key_resolved key_kid = Inr (build_aad properties_fields)"
    by (simp add: ops_key_properties_aad_def eval)
  have "list_all is_ascii (build_aad keys_fields)" "list_all is_ascii (build_aad properties_fields)"
    by (rule ascii_aad, simp add: key_kid_eq lit_def is_ascii_def list_all_iff)+
  note ascii = this [THEN str_len_ascii]
  have "length (build_aad keys_fields) \<le> 300" "length (build_aad properties_fields) \<le> 300"
    by (simp_all add: build_aad_def key_kid_eq length_concat sum_list_replicate lit_def)
  then show "length (utf8 (build_aad keys_fields)) \<le> 300" "length (utf8 (build_aad properties_fields)) \<le> 300"
    using ascii by (simp_all only: str_len_def)
qed

lemma key_create:
  "create_ops_key_record key_crates vault_ciphers key_pk fixed_random fixed_random key_settings
     (ik_db_key key_internal) (ik_properties_key key_internal) key_resolved = Inr key_record"
proof -
  have "create_key_id key_crates b = Inr key_kid" for b
    by (simp add: create_key_id_def vault_crates_def example_crates_def validate_allowed_value_def validate_text_field_def
        INTERNAL_KEYS_HASH_def HASH_ALGORITHMS_def trim_def trim_end_def char_simps lit_def)
  moreover have "json_to_vec_pretty key_crates (key_material_json key_output) = [1]"
    "json_to_vec_pretty key_crates (properties_json (create_ops_key_properties key_resolved)) = [1, 1]"
    by (simp_all add: vault_crates_def vault_json_def key_material_json_def properties_json_def)
  ultimately show ?thesis
    by (simp add: create_ops_key_record_def key_aads(1,2) key_create_material fixed_random_def encrypt_internal_payload_def
        INTERNAL_KEYS_NONCE_SIZE_BYTES_def vault_ciphers_def key_record_def envelope_text_def)
qed

lemma key_record_len:
  "str_len (cr_keys key_record) \<le> STORAGE_ENVELOPE_MAX_CHARS"
  "str_len (cr_properties key_record) \<le> STORAGE_ENVELOPE_MAX_CHARS"
  using key_aads(3,4) envelope_len [OF refl] by (simp_all add: key_record_def STORAGE_ENVELOPE_MAX_CHARS_def)

lemma storage_envelope_ok:
  assumes "b64_ok C" and "ct \<noteq> []" "nonce \<noteq> []" "aad \<noteq> []" and "str_len (envelope_text C ct nonce aad) \<le> n"
  shows "validate_storage_envelope C f (envelope_text C ct nonce aad) n = Inr ()"
  using split_envelope_text [OF assms] b64_codec [OF assms(1)]
  by (simp add: validate_storage_envelope_def validate_base64_standard_envelope_segments_def b64_segment_def)

definition empty_storage :: storage where
  "empty_storage = \<lparr>sd_db = \<lparr>db_opskeys = [], db_tokens = [], db_indexes = [], db_subjects = []\<rparr>, sd_calls = 0\<rparr>"

definition key_row :: ops_key_row where
  "key_row = \<lparr>ok_kid = cr_kid key_record, ok_keys = cr_keys key_record, ok_properties = cr_properties key_record\<rparr>"

definition key_storage :: storage where
  "key_storage = \<lparr>sd_db = sd_db empty_storage\<lparr>db_opskeys := [key_row]\<rparr>, sd_calls = 1\<rparr>"

lemma key_row_ok: "validate_ops_key_fields key_crates (cr_kid key_record) (cr_keys key_record) (cr_properties key_record) = Inr ()"
proof -
  have "validate_storage_kid f key_kid = Inr ()" for f
    by (simp add: validate_storage_kid_def validate_hash_hex_field_ok key_kid_eq list_all_iff length_concat sum_list_replicate char_simps)
  moreover have "utf8 (build_aad keys_fields) \<noteq> []" "utf8 (build_aad properties_fields) \<noteq> []"
    unfolding utf8_eq_Nil by (simp_all add: build_aad_def lit_def)
  ultimately show ?thesis
    using storage_envelope_ok [OF vault_crates_ok(1)] key_record_len
    by (simp add: validate_ops_key_fields_def key_record_def)
qed

lemma key_stored:
  "create_keys key_crates vault_ciphers key_pk store_env (Inr (lit ''7'')) fixed_random fixed_random key_settings
     key_internal key_request empty_storage = (key_storage, Inr key_kid)"
  using key_row_ok
  by (simp add: create_keys_def key_resolve key_create save_ops_keys_def sqlite_save_ops_keys_def sop_simps store_env_def
      sql_insert_opskey_def Let_def key_storage_def key_row_def empty_storage_def key_record_def)

section \<open>Creating and loading\<close>

text \<open>C21: a key that \<open>create_keys\<close> stored is loaded back from its row: under the id returned, with the key
  material generated for the algorithms the request resolves to and the properties of a new key, so that it is
  active and accepted for new use. The associated data binds the two envelopes of the row to the id and to each
  other, and both pass every check of the loader.\<close>

theorem created_key_loads:
  assumes "b64_ok C" and "json_pretty_ok C" and "hash_size_ok C" and "hex_format_ok C" and "aead_ok E"
    and "random_ok r1" and "random_ok r2"
    and "list_all scalar_str ([kc_protocol_version config, kc_sender_hostname config, timestamp] @
      (case ci_tag i of None \<Rightarrow> [] | Some tag \<Rightarrow> [tag]))"
    and "create_keys C E P env (Inr timestamp) r1 r2 config K i s = (s', Inr kid)"
  shows "\<exists>resolved row k. resolve_keys_input (Inr timestamp) i config = Inr resolved \<and>
    db_opskeys (sd_db s') = db_opskeys (sd_db s) @ [row] \<and> load_ops_key_from_row C E K row = Inr k \<and> lk_id k = kid \<and>
    create_key_material C P (ri_spec resolved) = Inr (lk_key_material k) \<and>
    lk_properties k = create_ops_key_properties resolved \<and> require_lifecycle_for_new_use k = Inr ()"
proof -
  from assms(9) obtain resolved rec where r: "resolve_keys_input (Inr timestamp) i config = Inr resolved"
    "create_ops_key_record C E P r1 r2 config (ik_db_key K) (ik_properties_key K) resolved = Inr rec" "kid = cr_kid rec"
    and save: "save_ops_keys C env (cr_kid rec) (cr_keys rec) (cr_properties rec) s =
      (s', Inr \<lparr>ok_kid = cr_kid rec, ok_keys = cr_keys rec, ok_properties = cr_properties rec\<rparr>)"
    by (auto simp: create_keys_def sop_simps bindR_eq_Inr dest: save_ops_keys_Inr)
  have "list_all scalar_str [kc_protocol_version config, kc_sender_hostname config, ri_tag resolved, ri_timestamp resolved]"
    using assms(8) r(1) by (auto simp: resolve_keys_input_def bindR_eq_Inr Let_def split: option.splits)
  moreover have "str_len (cr_keys rec) \<le> STORAGE_ENVELOPE_MAX_CHARS" "str_len (cr_properties rec) \<le> STORAGE_ENVELOPE_MAX_CHARS"
    using save_ops_keys_Inr [OF save]
    by (auto simp: validate_ops_key_row_def validate_ops_key_fields_def bindR_unit_eq dest: storage_envelope_len)
  ultimately show ?thesis
    using create_load_aux [OF assms(1-7) _ r(1,2)] save_ops_keys_Inr [OF save] r
    by (fastforce simp: adds_key_def require_lifecycle_for_new_use_def lifecycle_status_def create_ops_key_properties_def)
qed

theorem created_key_loads_witness:
  "\<exists>k. load_ops_key_from_row key_crates vault_ciphers key_internal key_row = Inr k \<and> lk_id k = key_kid \<and>
     require_lifecycle_for_new_use k = Inr ()"
proof -
  have "list_all scalar_str ([kc_protocol_version key_settings, kc_sender_hostname key_settings, lit ''7''] @
      (case ci_tag key_request of None \<Rightarrow> [] | Some tag \<Rightarrow> [tag]))"
    by (simp add: key_settings_def key_request_def scalar_str_lit)
  from created_key_loads [OF vault_crates_ok(1) vault_pretty_ok vault_crates_ok(8,5) vault_ciphers_ok(1)
      fixed_random_ok fixed_random_ok this key_stored]
  show ?thesis by (auto simp: key_storage_def empty_storage_def)
qed

text \<open>C22: loading the key set does not depend on how many tasks run at a time nor on the order in which they
  complete: the keys are those of the rows whose task succeeded, in the order of the rows, every other row is
  counted under the way it failed, and the counts add up to the number of rows.\<close>

theorem load_keys_deterministic:
  "load_keys_from_rows pick run limit rows = load_keys_from_rows pick' run limit' rows \<and>
   kd_keys_db (fst (load_keys_from_rows pick run limit rows)) =
     List.map_filter (\<lambda>row. case run row of Returned (Inr k) \<Rightarrow> Some k | _ \<Rightarrow> None) rows \<and>
   (let summary = snd (load_keys_from_rows pick run limit rows) in
    ls_loaded summary = length (kd_keys_db (fst (load_keys_from_rows pick run limit rows))) \<and>
    ls_decrypt_or_validate_failed summary =
      length (filter (\<lambda>row. case run row of Returned (Inl _) \<Rightarrow> True | _ \<Rightarrow> False) rows) \<and>
    ls_loaded summary + ls_skipped summary = length rows \<and> ls_total summary = length rows)"
proof -
  have k: "outcome_key (run row) = (case run row of Returned (Inr k) \<Rightarrow> Some k | _ \<Rightarrow> None)" for row
    by (auto split: task_outcome.splits sum.splits)
  have f: "outcome_failure (run row) = Some DecryptOrValidate \<longleftrightarrow>
      (case run row of Returned (Inl _) \<Rightarrow> True | _ \<Rightarrow> False)" for row
    by (auto simp: classify_join_failure_def split: task_outcome.splits sum.splits)
  show ?thesis
    using expected_summary_total [of run rows]
    by (simp add: load_keys_eq keys_from_keys_def k f Let_def expected_summary_fields failures_def)
qed

section \<open>The lifecycle\<close>

lemma loaded_status:
  "load_ops_key_from_row C E K row = Inr k \<Longrightarrow> row_status C E K row = Some (lifecycle_status k)"
  "row_status C E K row = Some a \<Longrightarrow> \<exists>k. load_ops_key_from_row C E K row = Inr k \<and> lifecycle_status k = a"
  by (auto simp: load_ops_key_from_row_def row_status_def lifecycle_status_def bindR_eq_Inr split: sum.splits)

lemma final_refused: "final_status (lifecycle_status k) \<Longrightarrow> \<exists>m. require_lifecycle_for_new_use k = Inl (forbidden m)"
  by (auto simp: final_status_def require_lifecycle_for_new_use_def blocked_lifecycle_error_def lifecycle_error_def lit_def)

text \<open>C20: whatever requests are served, however lifecycle updates interleave between reading a key and swapping
  its properties, and wherever the database fails, a stored key that could be loaded still can be, and its status
  has moved along the allowed transitions only: between active and disabled, and from active to one of the final
  statuses. A key whose status is final keeps it, and is refused for new use for ever.\<close>

theorem lifecycle_follows_transitions:
  assumes "b64_ok C" and "json_pretty_ok C" and "aead_ok E"
    and "distinct (map ok_kid (db_opskeys (sd_db s)))"
    and "stored_row (sd_db s) kid = Some row" and "load_ops_key_from_row C E K row = Inr k"
    and "(key_step C E P env K)\<^sup>*\<^sup>* (s, []) (s', plans)"
  shows "\<exists>row' k'. stored_row (sd_db s') kid = Some row' \<and> load_ops_key_from_row C E K row' = Inr k' \<and>
    lifecycle_step\<^sup>*\<^sup>* (lifecycle_status k) (lifecycle_status k') \<and>
    (final_status (lifecycle_status k) \<longrightarrow> lifecycle_status k' = lifecycle_status k \<and>
       (\<exists>m. require_lifecycle_for_new_use k' = Inl (forbidden m)))"
proof -
  have "lifecycle_inv C E K (s, [])" using assms(4) by (simp add: lifecycle_inv_def)
  moreover have "stored_status C E K (sd_db s) kid = Some (lifecycle_status k)"
    using assms(5) loaded_status(1) [OF assms(6)] by (simp add: stored_status_def)
  ultimately obtain b where b: "stored_status C E K (sd_db s') kid = Some b" "lifecycle_step\<^sup>*\<^sup>* (lifecycle_status k) b"
    using key_steps_keep [OF assms(7,1-3)] by auto
  then obtain row' where "stored_row (sd_db s') kid = Some row'" "row_status C E K row' = Some b"
    by (auto simp: stored_status_def bind_eq_Some_conv)
  moreover from loaded_status(2) [OF this(2)] obtain k' where
    "load_ops_key_from_row C E K row' = Inr k'" "lifecycle_status k' = b" by blast
  ultimately show ?thesis using b(2) final_forever [OF b(2)] final_refused [of k'] by auto
qed

definition key_update :: update_lifecycle_input where
  "key_update = \<lparr>ul_status = lit ''retired'', ul_reason = lit ''rotated''\<rparr>"

lemma key_loaded:
  "\<exists>k. load_ops_key_from_row key_crates vault_ciphers key_internal key_row = Inr k \<and>
     lk_properties k = create_ops_key_properties key_resolved"
proof -
  have "list_all scalar_str [kc_protocol_version key_settings, kc_sender_hostname key_settings, ri_tag key_resolved,
      ri_timestamp key_resolved]"
    by (simp add: key_settings_def key_resolved_def scalar_str_lit)
  from create_load_aux [OF vault_crates_ok(1) vault_pretty_ok vault_crates_ok(8,5) vault_ciphers_ok(1)
      fixed_random_ok fixed_random_ok this key_resolve key_create key_record_len]
  show ?thesis by (auto simp: key_row_def)
qed

lemma key_plan:
  "\<exists>s' x. plan_lifecycle_update key_crates vault_ciphers store_env (Inr (lit ''8'')) fixed_random key_internal key_kid
     key_update key_storage = (s', Inr x)"
proof -
  obtain k where "load_ops_key_from_row key_crates vault_ciphers key_internal key_row = Inr k"
    "lk_properties k = create_ops_key_properties key_resolved" using key_loaded by blast
  then obtain keys properties where o: "open_ops_key_row key_crates vault_ciphers key_internal key_row = Inr (keys, properties)"
    "dc_output properties = create_ops_key_properties key_resolved"
    by (auto simp: load_ops_key_from_row_def bindR_eq_Inr)
  have "validate_key_id key_kid = Inr ()" "validate_storage_kid f key_kid = Inr ()" for f
    by (simp_all add: validate_key_id_ok validate_storage_kid_def validate_hash_hex_field_ok key_kid_eq list_all_iff
        length_concat sum_list_replicate char_simps)
  moreover have "validate_ops_key_properties ((create_ops_key_properties key_resolved)
      \<lparr>pr_lifecycle := \<lparr>lc_status = lit ''retired'', lc_reason = lit ''rotated'', lc_changed_at = lit ''8''\<rparr>\<rparr>) = Inr ()"
    by (simp add: validate_ops_key_properties_def create_ops_key_properties_def key_resolved_def validate_allowed_value_def
        validate_text_field_def validate_bounded_text_field_def validate_lifecycle_status_def PROPERTY_PROFILES_def
        LIFECYCLE_STATUSES_def INTERNAL_REF_MAX_CHARS_def trim_def trim_end_def char_simps lit_def)
  moreover have "lifecycle_step (lc_status (pr_lifecycle (create_ops_key_properties key_resolved))) (lit ''retired'')"
    by (simp add: create_ops_key_properties_def lifecycle_step_simps)
  moreover have "\<exists>encrypted. encrypt_ops_key_properties_payload key_crates vault_ciphers fixed_random key_internal p aad =
      Inr encrypted" for p aad
    by (simp add: encrypt_ops_key_properties_payload_def fixed_random_def encrypt_internal_payload_def vault_ciphers_def)
  moreover have "get_ops_keys key_crates store_env key_kid key_storage = (key_storage\<lparr>sd_calls := 2\<rparr>, Inr key_row)"
    using key_row_ok calculation(2)
    by (simp add: get_ops_keys_def sqlite_get_ops_keys_def sop_simps store_env_def sql_select_opskey_def key_storage_def
        empty_storage_def validate_ops_key_row_def key_row_def) (simp add: key_record_def)
  ultimately show ?thesis
    using o by (simp add: plan_lifecycle_update_def sop_simps key_update_def transition_iff Let_def)
qed

theorem lifecycle_follows_transitions_witness:
  "\<exists>s' row k. (key_step key_crates vault_ciphers key_pk store_env key_internal)\<^sup>*\<^sup>* (key_storage, []) (s', []) \<and>
     stored_row (sd_db s') key_kid = Some row \<and> load_ops_key_from_row key_crates vault_ciphers key_internal row = Inr k \<and>
     lifecycle_step\<^sup>*\<^sup>* (lit ''active'') (lifecycle_status k)"
proof -
  let ?step = "key_step key_crates vault_ciphers key_pk store_env key_internal"
  obtain s1 current encrypted l where "plan_lifecycle_update key_crates vault_ciphers store_env (Inr (lit ''8'')) fixed_random
      key_internal key_kid key_update key_storage = (s1, Inr (current, encrypted, l))"
    using key_plan by (metis prod_cases3)
  then have "?step (key_storage, []) (s1, [(key_kid, current, encrypted)])"
    by (rule key_step.plan [OF _ fixed_random_ok])
  moreover obtain s' r where "update_ops_key_properties_if_current key_crates store_env key_kid current encrypted s1 = (s', r)"
    by fastforce
  then have "?step (s1, [(key_kid, current, encrypted)]) (s', [])"
    using key_step.commit [of key_kid current encrypted "[(key_kid, current, encrypted)]" key_crates store_env s1 s' r]
    by simp
  ultimately have run: "?step\<^sup>*\<^sup>* (key_storage, []) (s', [])" by (blast intro: rtranclp.rtrancl_into_rtrancl)
  obtain k where k: "load_ops_key_from_row key_crates vault_ciphers key_internal key_row = Inr k"
    "lk_properties k = create_ops_key_properties key_resolved" using key_loaded by blast
  have "distinct (map ok_kid (db_opskeys (sd_db key_storage)))" "stored_row (sd_db key_storage) key_kid = Some key_row"
    by (simp_all add: key_storage_def stored_row_def key_row_def key_record_def)
  from lifecycle_follows_transitions [OF vault_crates_ok(1) vault_pretty_ok vault_ciphers_ok(1) this k(1) run]
  show ?thesis using run k(2) by (auto simp: lifecycle_status_def create_ops_key_properties_def)
qed

end
