(* ===== verification/Hosts.thy ===== *)
theory Hosts
  imports Validation
begin

text \<open>
  Host names and host-and-port pairs (\<open>validate_hostname\<close> and \<open>validate_host_port\<close> of
  \<open>src/core/validation.rs\<close>). Recognising literal addresses (\<open>SocketAddr\<close>, \<open>IpAddr\<close>) and domain names
  (the \<open>addr\<close> crate) is the parameter \<open>net\<close>; ports are read as the standard library reads a \<open>u16\<close>.
\<close>

record net =
  is_socket_addr :: "ustr \<Rightarrow> bool"
  is_ip_addr :: "ustr \<Rightarrow> bool"
  parse_domain_name :: "ustr \<Rightarrow> ustr + unit"

text \<open>43 and 45 are the signs; a sign alone is an invalid digit, a plus sign before digits is skipped.\<close>

fun parse_u16_loop :: "nat \<Rightarrow> ustr \<Rightarrow> ustr + nat" where
  "parse_u16_loop n [] = Inr n"
| "parse_u16_loop n (c # cs) =
     (if \<not> is_ascii_digit c then Inl (lit ''invalid digit found in string'')
      else if 10 * n \<ge> 2 ^ 16 \<or> 10 * n + (c - 48) \<ge> 2 ^ 16
      then Inl (lit ''number too large to fit in target type'')
      else parse_u16_loop (10 * n + (c - 48)) cs)"

definition parse_u16 :: "ustr \<Rightarrow> ustr + nat" where
  "parse_u16 s =
     (case s of
        [] \<Rightarrow> Inl (lit ''cannot parse integer from empty string'')
      | c # cs \<Rightarrow> if c = 43 \<and> cs \<noteq> [] then parse_u16_loop 0 cs else parse_u16_loop 0 s)"

definition validate_hostname :: "net \<Rightarrow> ustr \<Rightarrow> ustr \<Rightarrow> unit result" where
  "validate_hostname N field v =
     bindR (validate_text_field field v) (\<lambda>_.
       if eq_ignore_ascii_case v (lit ''localhost'') \<or> is_ip_addr N v then Inr ()
       else map_err (\<lambda>err. invalid_input (field @ lit '' must be a valid hostname or IP address: '' @ err))
              (parse_domain_name N v))"

definition validate_host_port :: "net \<Rightarrow> ustr \<Rightarrow> ustr \<Rightarrow> ustr result" where
  "validate_host_port N field v =
     bindR (validate_text_field field v) (\<lambda>_.
       if is_socket_addr N v then Inr v
       else
         case rsplit_once 58 v of
           None \<Rightarrow> Inl (invalid_input (field @ lit '' must be a valid host:port value''))
         | Some (host, port) \<Rightarrow>
             bindR (validate_hostname N (field @ lit ''.host'') host) (\<lambda>_.
             bindR (map_err (\<lambda>err. invalid_input (field @ lit ''.port must be a valid TCP port: '' @ err))
                      (parse_u16 port)) (\<lambda>port.
               if port = 0 then Inl (invalid_input (field @ lit ''.port must be greater than 0''))
               else Inr v)))"

lemma parse_u16_loop_bound: "n < 2 ^ 16 \<Longrightarrow> parse_u16_loop n cs = Inr m \<Longrightarrow> m < 2 ^ 16"
  by (induction n cs rule: parse_u16_loop.induct) (auto split: if_splits)

lemma parse_u16_bound: "parse_u16 s = Inr m \<Longrightarrow> m < 2 ^ 16"
  by (auto simp: parse_u16_def dest!: parse_u16_loop_bound [rotated] split: list.splits if_splits)

lemma validate_host_port_value: "validate_host_port N field v = Inr w \<Longrightarrow> w = v"
  by (auto simp: validate_host_port_def bindR_eq_Inr split: if_splits option.splits)

text \<open>The field name only appears in error messages.\<close>

lemma validate_hostname_field: "validate_hostname N f v = Inr () \<longleftrightarrow> validate_hostname N g v = Inr ()"
  by (auto simp: validate_hostname_def bindR_eq_Inr validate_text_field_ok map_err_eq_Inr)

lemma validate_host_port_field: "validate_host_port N f v = Inr v \<longleftrightarrow> validate_host_port N g v = Inr v"
  using validate_hostname_field [of N "f @ lit ''.host''" _ "g @ lit ''.host''"]
  by (auto simp: validate_host_port_def bindR_eq_Inr validate_text_field_ok map_err_eq_Inr split: option.splits if_splits)

end
