(* ===== verification/Public_Keys.thy ===== *)
theory Public_Keys
  imports Ops_Keys Hosts
begin

text \<open>
  Public keys and their use: the wrappers of \<open>src/core/crypto.rs\<close> for loading, agreeing, encapsulating,
  signing and verifying over the parameter \<open>pk_crate\<close>; the public half of an operational key
  (\<open>src/ops/pubkey.rs\<close>, types in \<open>src/ops/contracts.rs\<close>); and the routes to other instances with the
  public keys registered for them (\<open>src/core/remote_routes.rs\<close>).
\<close>

section \<open>Loading and checking keys\<close>

definition EDDSA_PADDING :: ustr where "EDDSA_PADDING = lit ''Pure''"
definition X_KEY_AGREEMENT_KDF :: ustr where "X_KEY_AGREEMENT_KDF = lit ''Raw''"
definition ML_DSA_SIGNING_MODE :: ustr where "ML_DSA_SIGNING_MODE = lit ''Randomized''"
definition ML_DSA_VERIFY_MODE :: ustr where "ML_DSA_VERIFY_MODE = lit ''Pure''"
definition ML_KEM_KDF :: ustr where "ML_KEM_KDF = lit ''KDF2(SHA-256)''"

definition load_private_key_der_hex :: "crates \<Rightarrow> ('priv, 'pub) pk_crate \<Rightarrow> ustr \<Rightarrow> 'priv result" where
  "load_private_key_der_hex C P der_hex = bindR (hex_decode_q C der_hex) (pk_load_private P)"

definition load_public_key_der_hex :: "crates \<Rightarrow> ('priv, 'pub) pk_crate \<Rightarrow> ustr \<Rightarrow> 'pub result" where
  "load_public_key_der_hex C P der_hex = bindR (hex_decode_q C der_hex) (pk_load_public P)"

definition validate_der_public_key_hex :: "crates \<Rightarrow> ('priv, 'pub) pk_crate \<Rightarrow> ustr \<Rightarrow> ustr \<Rightarrow> 'pub result" where
  "validate_der_public_key_hex C P field_name der_hex =
     map_err (\<lambda>err. invalid_input (field_name @ lit '' is not a valid public key: '' @ to_string err))
       (load_public_key_der_hex C P der_hex)"

definition sign_message_with_rng :: "('priv, 'pub) pk_crate \<Rightarrow> 'priv \<Rightarrow> ustr \<Rightarrow> u8 list result" where
  "sign_message_with_rng P private_key message = pk_sign P private_key EDDSA_PADDING (utf8 message)"

definition verify_message :: "('priv, 'pub) pk_crate \<Rightarrow> 'pub \<Rightarrow> ustr \<Rightarrow> u8 list \<Rightarrow> bool result" where
  "verify_message P public_key message signature = pk_verify P public_key EDDSA_PADDING (utf8 message) signature"

definition sign_ml_dsa_message_with_rng :: "('priv, 'pub) pk_crate \<Rightarrow> 'priv \<Rightarrow> ustr \<Rightarrow> u8 list result" where
  "sign_ml_dsa_message_with_rng P private_key message = pk_sign P private_key ML_DSA_SIGNING_MODE (utf8 message)"

definition verify_ml_dsa_message :: "('priv, 'pub) pk_crate \<Rightarrow> 'pub \<Rightarrow> ustr \<Rightarrow> u8 list \<Rightarrow> bool result" where
  "verify_ml_dsa_message P public_key message signature =
     pk_verify P public_key ML_DSA_VERIFY_MODE (utf8 message) signature"

definition agree_key :: "('priv, 'pub) pk_crate \<Rightarrow> 'priv \<Rightarrow> u8 list \<Rightarrow> u8 list result" where
  "agree_key P private_key peer_public_key = pk_agree P private_key peer_public_key X_KEY_AGREEMENT_KDF"

definition validate_x_key_agreement_public_key_hex ::
    "crates \<Rightarrow> ustr \<Rightarrow> ustr \<Rightarrow> ustr \<Rightarrow> u8 list result" where
  "validate_x_key_agreement_public_key_hex C field_name algorithm public_key_hex =
     bindR (hex_decode_q C public_key_hex) (\<lambda>public_key.
     bindR (if algorithm = lit ''X25519'' then Inr 32
            else if algorithm = lit ''X448'' then Inr 56
            else Inl (invalid_input (field_name @ lit '' algorithm is not supported''))) (\<lambda>expected_size.
       if length public_key \<noteq> expected_size
       then Inl (invalid_input (field_name @ lit '' must be '' @ show_nat expected_size @ lit '' bytes for '' @
              algorithm @ lit '', got '' @ show_nat (length public_key)))
       else Inr public_key))"

text \<open>The pair is the shared key and the encapsulated key (\<open>KemEncapsulation\<close>).\<close>

definition encapsulate_ml_kem_shared_key_with_rng ::
    "('priv, 'pub) pk_crate \<Rightarrow> 'pub \<Rightarrow> u8 list \<Rightarrow> nat \<Rightarrow> (u8 list \<times> u8 list) result" where
  "encapsulate_ml_kem_shared_key_with_rng P public_key salt shared_key_len =
     pk_encapsulate P public_key ML_KEM_KDF salt shared_key_len"

definition encapsulate_ml_kem_shared_key ::
    "('priv, 'pub) pk_crate \<Rightarrow> 'pub \<Rightarrow> u8 list \<Rightarrow> nat \<Rightarrow> (u8 list \<times> u8 list) result" where
  "encapsulate_ml_kem_shared_key P public_key salt shared_key_len =
     bindR (pk_new_rng P) (\<lambda>_. encapsulate_ml_kem_shared_key_with_rng P public_key salt shared_key_len)"

definition decapsulate_ml_kem_shared_key ::
    "('priv, 'pub) pk_crate \<Rightarrow> 'priv \<Rightarrow> u8 list \<Rightarrow> u8 list \<Rightarrow> nat \<Rightarrow> u8 list result" where
  "decapsulate_ml_kem_shared_key P private_key encapsulated_key salt shared_key_len =
     pk_decapsulate P private_key ML_KEM_KDF encapsulated_key salt shared_key_len"

definition validate_ml_kem_public_key_hex ::
    "crates \<Rightarrow> ('priv, 'pub) pk_crate \<Rightarrow> (nat \<Rightarrow> u8 list result) \<Rightarrow> ustr \<Rightarrow> ustr \<Rightarrow> nat \<Rightarrow> unit result" where
  "validate_ml_kem_public_key_hex C P random_bytes field_name der_hex shared_key_len =
     bindR (validate_der_public_key_hex C P field_name der_hex) (\<lambda>public_key.
     bindR (random_bytes 32) (\<lambda>salt.
     bindR (map_err (\<lambda>err. invalid_input (field_name @ lit '' cannot encapsulate: '' @ to_string err))
              (encapsulate_ml_kem_shared_key P public_key salt shared_key_len)) (\<lambda>_. Inr ())))"

section \<open>The public half of a key\<close>

record public_der_key =
  pd_alg :: ustr
  pd_public_key_der_hex :: ustr

record public_raw_key =
  px_alg :: ustr
  px_public_key_hex :: ustr

record public_keys =
  pu_eddsa :: public_der_key
  pu_xecdh :: public_raw_key
  pu_ml_dsa :: public_der_key
  pu_ml_kem :: public_der_key

record public_keys_output =
  po_info :: ustr
  po_keys :: public_keys

definition public_keys_of :: "key_material_keys \<Rightarrow> public_keys" where
  "public_keys_of k =
     \<lparr>pu_eddsa = \<lparr>pd_alg = vd_variant (km_eddsa k), pd_public_key_der_hex = vd_public_key_der_hex (km_eddsa k)\<rparr>,
      pu_xecdh = \<lparr>px_alg = va_variant (km_xecdh k), px_public_key_hex = va_public_key_hex (km_xecdh k)\<rparr>,
      pu_ml_dsa = \<lparr>pd_alg = vd_variant (km_ml_dsa k), pd_public_key_der_hex = vd_public_key_der_hex (km_ml_dsa k)\<rparr>,
      pu_ml_kem = \<lparr>pd_alg = vd_variant (km_ml_kem k), pd_public_key_der_hex = vd_public_key_der_hex (km_ml_kem k)\<rparr>\<rparr>"

definition public_keys_from_state :: "keys_db_state \<Rightarrow> ustr \<Rightarrow> public_keys_output result" where
  "public_keys_from_state st key_id =
     bindR (get_loaded_key st key_id) (\<lambda>loaded_key.
     bindR (require_lifecycle_for_public_keys loaded_key) (\<lambda>_.
       Inr \<lparr>po_info = lk_aad loaded_key, po_keys = public_keys_of (ko_keys (lk_key_material loaded_key))\<rparr>))"

section \<open>Routes to other instances\<close>

text \<open>\<open>PeerPublicKeys\<close> has the fields of \<open>PublicKeys\<close>.\<close>

record remote_route =
  rr_remote_kid :: ustr
  rr_name :: ustr
  rr_remote_addr :: ustr
  rr_allowed_local_kids :: "ustr list"
  rr_status :: ustr
  rr_public_keys :: "public_keys option"

type_synonym remote_route_input = remote_route

record remote_routes_state =
  rs_routes :: "remote_route list"
  rs_by_remote_kid :: "ustr \<rightharpoonup> nat"

definition remote_from_routes :: "remote_route list \<Rightarrow> remote_routes_state" where
  "remote_from_routes routes = \<lparr>rs_routes = routes, rs_by_remote_kid = index_by_name rr_remote_kid routes\<rparr>"

definition remote_get :: "remote_routes_state \<Rightarrow> ustr \<Rightarrow> remote_route option" where
  "remote_get st kid = Option.bind (rs_by_remote_kid st kid) (\<lambda>i. list_get (rs_routes st) i)"

definition allows_local_kid :: "remote_route \<Rightarrow> ustr \<Rightarrow> bool" where
  "allows_local_kid route sender_kid \<longleftrightarrow>
     list_ex (\<lambda>allowed. allowed = lit ''*'' \<or> allowed = sender_kid) (rr_allowed_local_kids route)"

definition route_for :: "remote_routes_state \<Rightarrow> ustr \<Rightarrow> ustr \<Rightarrow> remote_route result" where
  "route_for st sender_kid recipient_kid =
     bindR (ok_or (not_found (lit ''recipient route not found'')) (remote_get st recipient_kid)) (\<lambda>route.
       if rr_status route \<noteq> lit ''active'' then Inl (forbidden (lit ''recipient route is disabled''))
       else if \<not> allows_local_kid route sender_kid
       then Inl (forbidden (lit ''sender kid is not allowed for recipient route''))
       else Inr route)"

definition public_keys_for :: "remote_routes_state \<Rightarrow> ustr \<Rightarrow> public_keys option" where
  "public_keys_for st kid =
     Option.bind (remote_get st kid) (\<lambda>route.
       if rr_status route = lit ''active'' then rr_public_keys route else None)"

definition EDDSA_ALGORITHMS :: "ustr list" where "EDDSA_ALGORITHMS = map lit [''Ed25519'', ''Ed448'']"
definition XECDH_ALGORITHMS :: "ustr list" where "XECDH_ALGORITHMS = map lit [''X25519'', ''X448'']"
definition ML_DSA_VARIANTS :: "ustr list" where
  "ML_DSA_VARIANTS = map lit [''ML-DSA-44'', ''ML-DSA-65'', ''ML-DSA-87'']"
definition ML_KEM_VARIANTS :: "ustr list" where
  "ML_KEM_VARIANTS = map lit [''ML-KEM-512'', ''ML-KEM-768'', ''ML-KEM-1024'']"

definition validate_peer_public_keys ::
    "crates \<Rightarrow> ('priv, 'pub) pk_crate \<Rightarrow> (nat \<Rightarrow> u8 list result) \<Rightarrow> public_keys \<Rightarrow> unit result" where
  "validate_peer_public_keys C P random_bytes k =
     (let f = (\<lambda>s. lit (''remote_routes.public_keys.'' @ s));
          eddsa = pu_eddsa k; xecdh = pu_xecdh k; ml_dsa = pu_ml_dsa k; ml_kem = pu_ml_kem k in
      bindR (validate_allowed_value (f ''eddsa.alg'') (pd_alg eddsa) EDDSA_ALGORITHMS) (\<lambda>_.
      bindR (validate_hex_field (f ''eddsa.public_key_der_hex'') (pd_public_key_der_hex eddsa)) (\<lambda>_.
      bindR (validate_der_public_key_hex C P (f ''eddsa.public_key_der_hex'') (pd_public_key_der_hex eddsa)) (\<lambda>_.
      bindR (validate_allowed_value (f ''xecdh.alg'') (px_alg xecdh) XECDH_ALGORITHMS) (\<lambda>_.
      bindR (validate_hex_field (f ''xecdh.public_key_hex'') (px_public_key_hex xecdh)) (\<lambda>_.
      bindR (validate_x_key_agreement_public_key_hex C (f ''xecdh.public_key_hex'') (px_alg xecdh)
               (px_public_key_hex xecdh)) (\<lambda>_.
      bindR (validate_allowed_value (f ''ml-dsa.alg'') (pd_alg ml_dsa) ML_DSA_VARIANTS) (\<lambda>_.
      bindR (validate_hex_field (f ''ml-dsa.public_key_der_hex'') (pd_public_key_der_hex ml_dsa)) (\<lambda>_.
      bindR (validate_der_public_key_hex C P (f ''ml-dsa.public_key_der_hex'') (pd_public_key_der_hex ml_dsa)) (\<lambda>_.
      bindR (validate_allowed_value (f ''ml-kem.alg'') (pd_alg ml_kem) ML_KEM_VARIANTS) (\<lambda>_.
      bindR (validate_hex_field (f ''ml-kem.public_key_der_hex'') (pd_public_key_der_hex ml_kem)) (\<lambda>_.
        validate_ml_kem_public_key_hex C P random_bytes (f ''ml-kem.public_key_der_hex'')
          (pd_public_key_der_hex ml_kem) 32))))))))))))"

fun validate_local_kid_loop :: "(ustr \<Rightarrow> bool) \<Rightarrow> ustr set \<Rightarrow> ustr list \<Rightarrow> unit result" where
  "validate_local_kid_loop exists seen [] = Inr ()"
| "validate_local_kid_loop exists seen (kid # kids) =
     bindR (map_err (\<lambda>err. invalid_input
              (lit ''remote_routes.allowed_local_kids contains invalid kid: '' @ to_string err))
              (validate_key_id kid)) (\<lambda>_.
       if kid \<in> seen
       then Inl (invalid_input (lit ''remote_routes.allowed_local_kids has duplicated kid: '' @ kid))
       else if \<not> exists kid
       then Inl (invalid_input (lit ''remote_routes.allowed_local_kids contains unloaded kid: '' @ kid))
       else validate_local_kid_loop exists (insert kid seen) kids)"

definition validate_allowed_local_kids :: "(ustr \<Rightarrow> bool) \<Rightarrow> ustr list \<Rightarrow> unit result" where
  "validate_allowed_local_kids exists kids =
     (if kids = [] then Inl (invalid_input (lit ''remote_routes.allowed_local_kids must not be empty''))
      else
        let has_wildcard = list_ex (\<lambda>kid. kid = lit ''*'') kids in
        if has_wildcard \<and> 1 < length kids
        then Inl (invalid_input
               (lit ''remote_routes.allowed_local_kids wildcard cannot be mixed with explicit kids''))
        else if has_wildcard then Inr ()
        else validate_local_kid_loop exists {} kids)"

text \<open>\<open>random_bytes\<close> is indexed by the position of the route: every check draws its own salt.\<close>

fun validate_remote_loop ::
    "crates \<Rightarrow> ('priv, 'pub) pk_crate \<Rightarrow> net \<Rightarrow> (nat \<Rightarrow> nat \<Rightarrow> u8 list result) \<Rightarrow> (ustr \<Rightarrow> bool) \<Rightarrow> nat \<Rightarrow>
     ustr set \<Rightarrow> ustr set \<Rightarrow> remote_route_input list \<Rightarrow> remote_route list result" where
  "validate_remote_loop C P N random_bytes exists i seen_kids seen_names [] = Inr []"
| "validate_remote_loop C P N random_bytes exists i seen_kids seen_names (route # routes) =
     bindR (map_err (\<lambda>err. invalid_input (lit ''remote_routes.remote_kid is invalid: '' @ to_string err))
              (validate_key_id (rr_remote_kid route))) (\<lambda>_.
       if rr_remote_kid route \<in> seen_kids
       then Inl (invalid_input (lit ''remote routes file has duplicated remote_kid: '' @ rr_remote_kid route))
       else
         bindR (validate_config_name (lit ''remote_routes.name'') (rr_name route)) (\<lambda>_.
           if rr_name route \<in> seen_names
           then Inl (invalid_input (lit ''remote routes file has duplicated name: '' @ rr_name route))
           else
             bindR (validate_host_port N (lit ''remote_routes.remote_addr'') (rr_remote_addr route)) (\<lambda>remote_addr.
             bindR (validate_allowed_value (lit ''remote_routes.status'') (rr_status route)
                      (map lit [''active'', ''disabled''])) (\<lambda>_.
             bindR (validate_allowed_local_kids exists (rr_allowed_local_kids route)) (\<lambda>_.
             bindR (case rr_public_keys route of
                      None \<Rightarrow> Inr ()
                    | Some k \<Rightarrow> validate_peer_public_keys C P (random_bytes i) k) (\<lambda>_.
             bindR (validate_remote_loop C P N random_bytes exists (Suc i) (insert (rr_remote_kid route) seen_kids)
                      (insert (rr_name route) seen_names) routes) (\<lambda>validated.
               Inr (route\<lparr>rr_remote_addr := remote_addr\<rparr> # validated)))))))) "

definition validate_remote_routes ::
    "crates \<Rightarrow> ('priv, 'pub) pk_crate \<Rightarrow> net \<Rightarrow> (nat \<Rightarrow> nat \<Rightarrow> u8 list result) \<Rightarrow> (ustr \<Rightarrow> bool) \<Rightarrow>
     remote_route_input list \<Rightarrow> remote_route list result" where
  "validate_remote_routes C P N random_bytes exists routes =
     validate_remote_loop C P N random_bytes exists 0 {} {} routes"

end
