(* ===== verification/Messages.thy ===== *)
theory Messages
  imports Public_Keys Subjects
begin

text \<open>
  \<open>src/ops/message.rs\<close>: protected messages between instances and messages encrypted with a local key.

  A protected message is encrypted under a key derived from an X25519 or X448 agreement and an ML-KEM
  encapsulation, signed with EdDSA and ML-DSA, posted to the instance of the recipient, checked,
  decrypted and re-encrypted there under the symmetric key of the recipient, and handed to the
  application behind it, which asks for its decryption later.

  The time of day, random bytes (one function for each call), the ephemeral key and the two HTTP posts
  are arguments.
\<close>

section \<open>Data\<close>

definition PROTOCOL_VERSION_V1 :: ustr where "PROTOCOL_VERSION_V1 = lit ''v1''"
definition PROTECTED_MESSAGE_TYPE :: ustr where "PROTECTED_MESSAGE_TYPE = lit ''protected-message''"
definition HYBRID_SECRET_SIZE_BYTES :: nat where "HYBRID_SECRET_SIZE_BYTES = 32"
definition INTERNAL_MESSAGE_PLAINTEXT_MAX_SIZE :: nat where
  "INTERNAL_MESSAGE_PLAINTEXT_MAX_SIZE = 1024 * 1024 - 1024"

definition validate_protocol_version :: "ustr \<Rightarrow> ustr \<Rightarrow> unit result" where
  "validate_protocol_version field v = validate_allowed_value field v [PROTOCOL_VERSION_V1]"

record signature_block =
  sb_alg :: ustr
  sb_sig :: ustr

record timestamp_signatures =
  ts_eddsa :: signature_block
  ts_ml_dsa :: signature_block

record message_sender =
  ms_host :: ustr
  ms_kid :: ustr

record message_kem =
  mk_alg :: ustr
  mk_xecdh_ephemeral_public :: ustr
  mk_ml_kem_ciphertext :: ustr
  mk_ml_kem_salt :: ustr
  mk_hkdf_salt :: ustr

record message_cipher =
  mc_alg :: ustr
  mc_nonce :: ustr
  mc_aad :: ustr
  mc_ct :: ustr

record protected_message_payload =
  mp_version :: ustr
  mp_token_type :: ustr
  mp_created_at :: ustr
  mp_sender :: message_sender
  mp_recipient_kid :: ustr
  mp_kem :: message_kem
  mp_cipher :: message_cipher

record protected_message_token =
  mt_version :: ustr
  mt_payload :: protected_message_payload
  mt_signatures :: timestamp_signatures

record remote_public_keys =
  rk_host :: ustr
  rk_kid :: ustr
  rk_loaded_at :: ustr
  rk_info :: ustr
  rk_keys :: public_keys_output

record send_message_input =
  si_recipient_kid :: ustr
  si_message :: ustr

record receive_message_output =
  ro_status :: ustr
  ro_sender_kid :: ustr
  ro_recipient_kid :: ustr
  ro_local_cipher :: message_cipher

record message_text =
  mx_ctx :: ustr
  mx_nonce :: ustr
  mx_aad :: ustr
  mx_variant :: ustr

record decrypt_message_input =
  di_sender_host :: ustr
  di_sender_kid :: ustr
  di_timestamp :: ustr
  di_message :: message_text

record internal_message_output =
  io_timestamp :: ustr
  io_kid :: ustr
  io_subject :: "ustr option"
  io_message :: message_text

record message_subject =
  sm_origin :: tokenization_profile
  sm_subject :: ustr
  sm_envelope :: ustr

text \<open>A payload as the canonical encoding writes it, with the keys of every object in order.\<close>

definition payload_value :: "protected_message_payload \<Rightarrow> json" where
  "payload_value p =
     JObject [
       (lit ''cipher'', JObject [(lit ''aad'', JString (mc_aad (mp_cipher p))), (lit ''alg'', JString (mc_alg (mp_cipher p))),
          (lit ''ct'', JString (mc_ct (mp_cipher p))), (lit ''nonce'', JString (mc_nonce (mp_cipher p)))]),
       (lit ''created_at'', JString (mp_created_at p)),
       (lit ''kem'', JObject [(lit ''alg'', JString (mk_alg (mp_kem p))),
          (lit ''hkdf_salt'', JString (mk_hkdf_salt (mp_kem p))),
          (lit ''ml_kem_ciphertext'', JString (mk_ml_kem_ciphertext (mp_kem p))),
          (lit ''ml_kem_salt'', JString (mk_ml_kem_salt (mp_kem p))),
          (lit ''xecdh_ephemeral_public'', JString (mk_xecdh_ephemeral_public (mp_kem p)))]),
       (lit ''recipient'', JObject [(lit ''kid'', JString (mp_recipient_kid p))]),
       (lit ''sender'', JObject [(lit ''host'', JString (ms_host (mp_sender p))), (lit ''kid'', JString (ms_kid (mp_sender p)))]),
       (lit ''type'', JString (mp_token_type p)),
       (lit ''version'', JString (mp_version p))]"

section \<open>Associated data\<close>

definition hybrid_kem_alg :: "ustr \<Rightarrow> ustr \<Rightarrow> ustr" where
  "hybrid_kem_alg xecdh_alg ml_kem_alg = xecdh_alg @ lit ''+'' @ ml_kem_alg"

definition build_message_aad ::
    "ustr \<Rightarrow> ustr \<Rightarrow> ustr \<Rightarrow> ustr \<Rightarrow> ustr \<Rightarrow> ustr \<Rightarrow> ustr \<Rightarrow> ustr result" where
  "build_message_aad version created_at sender_host sender_kid recipient_kid kem_alg cipher_alg =
     build_validated_aad
       [(lit ''version'', version), (lit ''type'', PROTECTED_MESSAGE_TYPE), (lit ''created_at'', created_at),
        (lit ''sender_host'', sender_host), (lit ''sender_kid'', sender_kid),
        (lit ''recipient_kid'', recipient_kid), (lit ''kem_alg'', kem_alg), (lit ''cipher_alg'', cipher_alg)]"

definition build_internal_message_aad :: "ustr \<Rightarrow> ustr \<Rightarrow> ustr \<Rightarrow> ustr result" where
  "build_internal_message_aad kid timestamp cipher_alg =
     build_validated_aad
       [(lit ''version'', PROTOCOL_VERSION_V1), (lit ''type'', lit ''internal-message''), (lit ''kid'', kid),
        (lit ''timestamp'', timestamp), (lit ''cipher_alg'', cipher_alg)]"

definition build_subject_symmetric_aad :: "ustr \<Rightarrow> ustr \<Rightarrow> ustr \<Rightarrow> ustr \<Rightarrow> ustr result" where
  "build_subject_symmetric_aad kid subject timestamp algorithm =
     build_validated_aad
       [(lit ''version'', lit ''v1''), (lit ''type'', lit ''subject-symmetric''), (lit ''kid'', kid),
        (lit ''subject'', subject), (lit ''timestamp'', timestamp), (lit ''cipher_alg'', algorithm)]"

definition build_stored_protected_message_aad ::
    "ustr \<Rightarrow> ustr \<Rightarrow> ustr \<Rightarrow> ustr \<Rightarrow> ustr \<Rightarrow> ustr result" where
  "build_stored_protected_message_aad version sender_kid recipient_kid source_created_at cipher_alg =
     build_validated_aad
       [(lit ''version'', version), (lit ''type'', lit ''stored-protected-message''),
        (lit ''sender_kid'', sender_kid), (lit ''recipient_kid'', recipient_kid),
        (lit ''source_created_at'', source_created_at), (lit ''cipher_alg'', cipher_alg)]"

definition peer_public_keys_info :: "ustr \<Rightarrow> ustr result" where
  "peer_public_keys_info kid =
     build_validated_aad
       [(lit ''version'', PROTOCOL_VERSION_V1), (lit ''type'', lit ''peer-public-keys''), (lit ''kid'', kid)]"

section \<open>Public keys of other instances\<close>

definition validate_remote_public_key_material ::
    "crates \<Rightarrow> ('priv, 'pub) pk_crate \<Rightarrow> (nat \<Rightarrow> u8 list result) \<Rightarrow> remote_public_keys \<Rightarrow> unit result" where
  "validate_remote_public_key_material C P random_bytes remote_key =
     (let k = po_keys (rk_keys remote_key) in
      bindR (validate_der_public_key_hex C P (lit ''remote.keys.eddsa.public_key_der_hex'')
               (pd_public_key_der_hex (pu_eddsa k))) (\<lambda>_.
      bindR (validate_x_key_agreement_public_key_hex C (lit ''remote.keys.xecdh.public_key_hex'')
               (px_alg (pu_xecdh k)) (px_public_key_hex (pu_xecdh k))) (\<lambda>_.
      bindR (validate_der_public_key_hex C P (lit ''remote.keys.ml-dsa.public_key_der_hex'')
               (pd_public_key_der_hex (pu_ml_dsa k))) (\<lambda>_.
        validate_ml_kem_public_key_hex C P random_bytes (lit ''remote.keys.ml-kem.public_key_der_hex'')
          (pd_public_key_der_hex (pu_ml_kem k)) HYBRID_SECRET_SIZE_BYTES))))"

definition validate_remote_public_keys ::
    "crates \<Rightarrow> ('priv, 'pub) pk_crate \<Rightarrow> net \<Rightarrow> (nat \<Rightarrow> u8 list result) \<Rightarrow> remote_public_keys \<Rightarrow> unit result" where
  "validate_remote_public_keys C P N random_bytes remote_key =
     (let k = po_keys (rk_keys remote_key) in
      bindR (validate_host_port N (lit ''remote.host'') (rk_host remote_key)) (\<lambda>_.
      bindR (validate_key_id (rk_kid remote_key)) (\<lambda>_.
      bindR (validate_text_field (lit ''remote.info'') (rk_info remote_key)) (\<lambda>_.
      bindR (validate_allowed_value (lit ''remote.keys.eddsa.alg'') (pd_alg (pu_eddsa k)) EDDSA_ALGORITHMS) (\<lambda>_.
      bindR (validate_hex_field (lit ''remote.keys.eddsa.public_key_der_hex'') (pd_public_key_der_hex (pu_eddsa k))) (\<lambda>_.
      bindR (validate_allowed_value (lit ''remote.keys.xecdh.alg'') (px_alg (pu_xecdh k)) XECDH_ALGORITHMS) (\<lambda>_.
      bindR (validate_hex_field (lit ''remote.keys.xecdh.public_key_hex'') (px_public_key_hex (pu_xecdh k))) (\<lambda>_.
      bindR (validate_allowed_value (lit ''remote.keys.ml-dsa.alg'') (pd_alg (pu_ml_dsa k)) ML_DSA_VARIANTS) (\<lambda>_.
      bindR (validate_hex_field (lit ''remote.keys.ml-dsa.public_key_der_hex'') (pd_public_key_der_hex (pu_ml_dsa k))) (\<lambda>_.
      bindR (validate_allowed_value (lit ''remote.keys.ml-kem.alg'') (pd_alg (pu_ml_kem k)) ML_KEM_VARIANTS) (\<lambda>_.
      bindR (validate_hex_field (lit ''remote.keys.ml-kem.public_key_der_hex'') (pd_public_key_der_hex (pu_ml_kem k))) (\<lambda>_.
        validate_remote_public_key_material C P random_bytes remote_key))))))))))))"

definition remote_public_keys_from_peer ::
    "crates \<Rightarrow> ('priv, 'pub) pk_crate \<Rightarrow> net \<Rightarrow> (nat \<Rightarrow> u8 list result) \<Rightarrow> ustr result \<Rightarrow> ustr \<Rightarrow> ustr \<Rightarrow>
     public_keys \<Rightarrow> remote_public_keys result" where
  "remote_public_keys_from_peer C P N random_bytes now host kid peer =
     bindR (peer_public_keys_info kid) (\<lambda>info.
     bindR now (\<lambda>loaded_at.
     let remote_key = \<lparr>rk_host = host, rk_kid = kid, rk_loaded_at = loaded_at, rk_info = info,
           rk_keys = \<lparr>po_info = info, po_keys = peer\<rparr>\<rparr> in
     bindR (validate_remote_public_keys C P N random_bytes remote_key) (\<lambda>_. Inr remote_key)))"

section \<open>Creating a message\<close>

definition derive_message_key ::
    "crates \<Rightarrow> u8 list \<Rightarrow> u8 list \<Rightarrow> u8 list \<Rightarrow> u8 list \<Rightarrow> nat \<Rightarrow> u8 list result" where
  "derive_message_key C xecdh_shared_key ml_kem_shared_key salt aad key_size_bytes =
     create_hkdf C (xecdh_shared_key @ ml_kem_shared_key) salt
       (utf8 (lit ''Vectis protected-message v1:'') @ aad) key_size_bytes"

definition canonical_payload_text :: "crates \<Rightarrow> protected_message_payload \<Rightarrow> ustr result" where
  "canonical_payload_text C payload =
     bindR (canonical_json_v1 C (payload_value payload)) (\<lambda>payload_bytes.
       ok_or (Foreign (lit ''invalid utf-8'')) (from_utf8 payload_bytes))"

definition sign_message_payload ::
    "crates \<Rightarrow> ('priv, 'pub) pk_crate \<Rightarrow> loaded_ops_key \<Rightarrow> protected_message_payload \<Rightarrow>
     timestamp_signatures result" where
  "sign_message_payload C P sender_key payload =
     bindR (canonical_payload_text C payload) (\<lambda>payload_text.
     let eddsa = km_eddsa (ko_keys (lk_key_material sender_key));
         ml_dsa = km_ml_dsa (ko_keys (lk_key_material sender_key)) in
     bindR (load_private_key_der_hex C P (vd_private_key_der_hex eddsa)) (\<lambda>eddsa_private_key.
     bindR (load_private_key_der_hex C P (vd_private_key_der_hex ml_dsa)) (\<lambda>ml_dsa_private_key.
     bindR (sign_message_with_rng P eddsa_private_key payload_text) (\<lambda>eddsa_signature.
     bindR (sign_ml_dsa_message_with_rng P ml_dsa_private_key payload_text) (\<lambda>ml_dsa_signature.
       Inr \<lparr>ts_eddsa = \<lparr>sb_alg = vd_variant eddsa, sb_sig = hex_encode C eddsa_signature\<rparr>,
            ts_ml_dsa = \<lparr>sb_alg = vd_variant ml_dsa, sb_sig = hex_encode C ml_dsa_signature\<rparr>\<rparr>)))))"

record message_random =
  mr_ml_kem_salt :: "nat \<Rightarrow> u8 list result"
  mr_hkdf_salt :: "nat \<Rightarrow> u8 list result"
  mr_nonce :: "nat \<Rightarrow> u8 list result"

definition create_message_envelope ::
    "crates \<Rightarrow> ciphers \<Rightarrow> ('priv, 'pub) pk_crate \<Rightarrow> message_random \<Rightarrow> (ustr \<Rightarrow> 'priv result) \<Rightarrow> ustr result \<Rightarrow>
     key_config \<Rightarrow> loaded_ops_key \<Rightarrow> remote_public_keys \<Rightarrow> send_message_input \<Rightarrow> protected_message_token result" where
  "create_message_envelope C E P random create_ephemeral now config sender_key recipient_public_keys i =
     bindR now (\<lambda>created_at.
     let recipient_keys = po_keys (rk_keys recipient_public_keys);
         kem_alg = hybrid_kem_alg (px_alg (pu_xecdh recipient_keys)) (pd_alg (pu_ml_kem recipient_keys)) in
     bindR (ok_or (invalid_input (lit ''sender symmetric algorithm is not supported''))
              (symmetric_cipher (vs_variant (km_symmetric (ko_keys (lk_key_material sender_key)))))) (\<lambda>cipher.
     let cipher_alg = sc_algorithm cipher;
         sender_host = kc_public_addr config in
     bindR (pk_new_rng P) (\<lambda>_.
     bindR (build_message_aad (kc_protocol_version config) created_at sender_host (lk_id sender_key)
              (rk_kid recipient_public_keys) kem_alg cipher_alg) (\<lambda>aad.
     bindR (create_ephemeral (px_alg (pu_xecdh recipient_keys))) (\<lambda>ephemeral_private_key.
     bindR (pk_agreement_public P ephemeral_private_key) (\<lambda>ephemeral_public_key.
     bindR (hex_decode_q C (px_public_key_hex (pu_xecdh recipient_keys))) (\<lambda>recipient_xecdh_public_key.
     bindR (agree_key P ephemeral_private_key recipient_xecdh_public_key) (\<lambda>xecdh_shared_key.
     bindR (load_public_key_der_hex C P (pd_public_key_der_hex (pu_ml_kem recipient_keys))) (\<lambda>ml_kem_public_key.
     bindR (mr_ml_kem_salt random 32) (\<lambda>ml_kem_salt.
     bindR (encapsulate_ml_kem_shared_key_with_rng P ml_kem_public_key ml_kem_salt HYBRID_SECRET_SIZE_BYTES)
       (\<lambda>(ml_kem_shared_key, ml_kem_ciphertext).
     bindR (mr_hkdf_salt random 32) (\<lambda>hkdf_salt.
     bindR (derive_message_key C xecdh_shared_key ml_kem_shared_key hkdf_salt (utf8 aad)
              (sc_key_size_bytes cipher)) (\<lambda>message_key.
     bindR (mr_nonce random (sc_nonce_size_bytes cipher)) (\<lambda>nonce.
     bindR (encrypt_symmetric E cipher_alg (utf8 (si_message i)) message_key nonce (utf8 aad)) (\<lambda>ciphertext.
     let payload =
       \<lparr>mp_version = PROTOCOL_VERSION_V1, mp_token_type = PROTECTED_MESSAGE_TYPE, mp_created_at = created_at,
        mp_sender = \<lparr>ms_host = sender_host, ms_kid = lk_id sender_key\<rparr>,
        mp_recipient_kid = rk_kid recipient_public_keys,
        mp_kem = \<lparr>mk_alg = kem_alg, mk_xecdh_ephemeral_public = hex_encode C ephemeral_public_key,
          mk_ml_kem_ciphertext = hex_encode C ml_kem_ciphertext, mk_ml_kem_salt = hex_encode C ml_kem_salt,
          mk_hkdf_salt = hex_encode C hkdf_salt\<rparr>,
        mp_cipher = \<lparr>mc_alg = cipher_alg, mc_nonce = hex_encode C nonce, mc_aad = aad,
          mc_ct = hex_encode C ciphertext\<rparr>\<rparr> in
     bindR (sign_message_payload C P sender_key payload) (\<lambda>signatures.
       Inr \<lparr>mt_version = PROTOCOL_VERSION_V1, mt_payload = payload, mt_signatures = signatures\<rparr>))))))))))))))))"

definition validate_send_message_input :: "send_message_input \<Rightarrow> send_message_input result" where
  "validate_send_message_input i =
     bindR (validate_key_id (si_recipient_kid i)) (\<lambda>_.
     bindR (validate_text_field (lit ''message'') (si_message i)) (\<lambda>_. Inr i))"

text \<open>The pair is \<open>PreparedSendMessage\<close>: the key of the sender and the checked input.\<close>

definition prepare_send_message ::
    "keys_db_state \<Rightarrow> ustr \<Rightarrow> send_message_input \<Rightarrow> (loaded_ops_key \<times> send_message_input) result" where
  "prepare_send_message st sender_kid i =
     bindR (validate_key_id sender_kid) (\<lambda>_.
     bindR (validate_send_message_input i) (\<lambda>i.
     bindR (get_loaded_key st sender_kid) (\<lambda>sender_key.
     bindR (require_lifecycle_for_new_use sender_key) (\<lambda>_. Inr (sender_key, i)))))"

definition message_valid :: "loaded_ops_key \<Rightarrow> send_message_input \<Rightarrow> receive_message_output \<Rightarrow> bool" where
  "message_valid sender_key i response \<longleftrightarrow>
     ro_status response = lit ''ok'' \<and> ro_sender_kid response = lk_id sender_key \<and>
     ro_recipient_kid response = si_recipient_kid i"

record send_message_output =
  so_message :: bool
  so_variants :: "(ustr \<times> bool) list"

definition build_send_message_output ::
    "loaded_ops_key \<Rightarrow> send_message_input \<Rightarrow> receive_message_output \<Rightarrow> send_message_output" where
  "build_send_message_output sender_key i response =
     (let valid = message_valid sender_key i response;
          k = ko_keys (lk_key_material sender_key) in
      \<lparr>so_message = valid,
       so_variants = [(vs_variant (km_symmetric k), valid), (vd_variant (km_eddsa k), valid),
         (va_variant (km_xecdh k), valid), (vd_variant (km_ml_dsa k), valid), (vd_variant (km_ml_kem k), valid)]\<rparr>)"

text \<open>39 is the apostrophe.\<close>

definition recipient_delivery_error :: "ustr \<Rightarrow> dyn_error \<Rightarrow> dyn_error" where
  "recipient_delivery_error host err =
     remote_unreachable (lit ''recipient can'' @ [39] @ lit ''t be reached: host='' @ host @ lit '', error='' @ to_string err)"

text \<open>\<open>random_check\<close> and \<open>random_check2\<close> are the salts of the two checks of the recipient's keys.\<close>

definition send_message ::
    "crates \<Rightarrow> ciphers \<Rightarrow> ('priv, 'pub) pk_crate \<Rightarrow> net \<Rightarrow> message_random \<Rightarrow> (ustr \<Rightarrow> 'priv result) \<Rightarrow>
     (nat \<Rightarrow> u8 list result) \<Rightarrow> (nat \<Rightarrow> u8 list result) \<Rightarrow> ustr result \<Rightarrow> ustr result \<Rightarrow>
     (ustr \<Rightarrow> ustr \<Rightarrow> protected_message_token \<Rightarrow> receive_message_output result) \<Rightarrow> key_config \<Rightarrow>
     loaded_ops_key \<times> send_message_input \<Rightarrow> remote_route \<Rightarrow> send_message_output result" where
  "send_message C E P N random create_ephemeral random_check random_check2 now now2 post config prepared route =
     (case prepared of (sender_key, i) \<Rightarrow>
     bindR (ok_or (forbidden (lit ''recipient route has no registered public keys in the signed config''))
              (rr_public_keys route)) (\<lambda>peer.
     bindR (remote_public_keys_from_peer C P N random_check now (rr_remote_addr route) (si_recipient_kid i) peer)
       (\<lambda>recipient_public_keys.
     bindR (validate_remote_public_keys C P N random_check2 recipient_public_keys) (\<lambda>_.
     bindR (create_message_envelope C E P random create_ephemeral now2 config sender_key recipient_public_keys i)
       (\<lambda>envelope.
     bindR (map_err (recipient_delivery_error (rr_remote_addr route))
              (post (rr_remote_addr route) (lit ''/message'') envelope)) (\<lambda>response.
       Inr (build_send_message_output sender_key i response)))))))"

section \<open>Receiving a message\<close>

definition verify_message_signatures ::
    "crates \<Rightarrow> ('priv, 'pub) pk_crate \<Rightarrow> remote_public_keys \<Rightarrow> protected_message_token \<Rightarrow> unit result" where
  "verify_message_signatures C P sender_public_keys envelope =
     (let k = po_keys (rk_keys sender_public_keys); signatures = mt_signatures envelope in
      if sb_alg (ts_eddsa signatures) \<noteq> pd_alg (pu_eddsa k)
      then Inl (invalid_input (lit ''signatures.eddsa.alg does not match sender public key''))
      else if sb_alg (ts_ml_dsa signatures) \<noteq> pd_alg (pu_ml_dsa k)
      then Inl (invalid_input (lit ''signatures.ml-dsa.alg does not match sender public key''))
      else
        bindR (canonical_payload_text C (mt_payload envelope)) (\<lambda>payload_text.
        bindR (map_err (\<lambda>_. invalid_input (lit ''sender eddsa public key is invalid''))
                 (load_public_key_der_hex C P (pd_public_key_der_hex (pu_eddsa k)))) (\<lambda>eddsa_public_key.
        bindR (map_err (\<lambda>_. invalid_input (lit ''sender ml-dsa public key is invalid''))
                 (load_public_key_der_hex C P (pd_public_key_der_hex (pu_ml_dsa k)))) (\<lambda>ml_dsa_public_key.
        bindR (ok_or (invalid_input (lit ''signatures.eddsa.sig is not valid hex''))
                 (hex_decode C (sb_sig (ts_eddsa signatures)))) (\<lambda>eddsa_signature.
        bindR (ok_or (invalid_input (lit ''signatures.ml-dsa.sig is not valid hex''))
                 (hex_decode C (sb_sig (ts_ml_dsa signatures)))) (\<lambda>ml_dsa_signature.
        bindR (map_err (\<lambda>_. invalid_input (lit ''message eddsa signature is malformed''))
                 (verify_message P eddsa_public_key payload_text eddsa_signature)) (\<lambda>eddsa_valid.
        bindR (map_err (\<lambda>_. invalid_input (lit ''message ml-dsa signature is malformed''))
                 (verify_ml_dsa_message P ml_dsa_public_key payload_text ml_dsa_signature)) (\<lambda>ml_dsa_valid.
          if \<not> eddsa_valid \<or> \<not> ml_dsa_valid then Inl (invalid_input (lit ''message signatures are invalid''))
          else Inr ()))))))))"

definition validate_message_envelope :: "net \<Rightarrow> protected_message_token \<Rightarrow> unit result" where
  "validate_message_envelope N envelope =
     (let p = mt_payload envelope; signatures = mt_signatures envelope in
      bindR (validate_protocol_version (lit ''version'') (mt_version envelope)) (\<lambda>_.
      bindR (validate_protocol_version (lit ''payload.version'') (mp_version p)) (\<lambda>_.
      if mt_version envelope \<noteq> mp_version p
      then Inl (invalid_input (lit ''envelope version does not match signed payload version''))
      else
      bindR (validate_allowed_value (lit ''payload.type'') (mp_token_type p) [PROTECTED_MESSAGE_TYPE]) (\<lambda>_.
      bindR (validate_text_field (lit ''payload.created_at'') (mp_created_at p)) (\<lambda>_.
      bindR (validate_host_port N (lit ''payload.sender.host'') (ms_host (mp_sender p))) (\<lambda>_.
      bindR (validate_key_id (ms_kid (mp_sender p))) (\<lambda>_.
      bindR (validate_key_id (mp_recipient_kid p)) (\<lambda>_.
      bindR (validate_allowed_value (lit ''payload.cipher.alg'') (mc_alg (mp_cipher p)) SYMMETRIC_ALGORITHMS) (\<lambda>_.
      bindR (validate_text_field (lit ''payload.cipher.aad'') (mc_aad (mp_cipher p))) (\<lambda>_.
      bindR (validate_hex_field (lit ''payload.cipher.ct'') (mc_ct (mp_cipher p))) (\<lambda>_.
      bindR (validate_hex_field (lit ''payload.cipher.nonce'') (mc_nonce (mp_cipher p))) (\<lambda>_.
      bindR (validate_text_field (lit ''payload.kem.alg'') (mk_alg (mp_kem p))) (\<lambda>_.
      bindR (validate_hex_field (lit ''payload.kem.xecdh_ephemeral_public'') (mk_xecdh_ephemeral_public (mp_kem p))) (\<lambda>_.
      bindR (validate_hex_field (lit ''payload.kem.ml_kem_ciphertext'') (mk_ml_kem_ciphertext (mp_kem p))) (\<lambda>_.
      bindR (validate_hex_field (lit ''payload.kem.ml_kem_salt'') (mk_ml_kem_salt (mp_kem p))) (\<lambda>_.
      bindR (validate_hex_field (lit ''payload.kem.hkdf_salt'') (mk_hkdf_salt (mp_kem p))) (\<lambda>_.
      bindR (validate_allowed_value (lit ''signatures.eddsa.alg'') (sb_alg (ts_eddsa signatures)) EDDSA_ALGORITHMS) (\<lambda>_.
      bindR (validate_hex_field (lit ''signatures.eddsa.sig'') (sb_sig (ts_eddsa signatures))) (\<lambda>_.
      bindR (validate_allowed_value (lit ''signatures.ml-dsa.alg'') (sb_alg (ts_ml_dsa signatures)) ML_DSA_VARIANTS) (\<lambda>_.
      bindR (validate_hex_field (lit ''signatures.ml-dsa.sig'') (sb_sig (ts_ml_dsa signatures))) (\<lambda>_.
      bindR (build_message_aad (mt_version envelope) (mp_created_at p) (ms_host (mp_sender p)) (ms_kid (mp_sender p))
               (mp_recipient_kid p) (mk_alg (mp_kem p)) (mc_alg (mp_cipher p))) (\<lambda>expected_aad.
        if mc_aad (mp_cipher p) \<noteq> expected_aad
        then Inl (invalid_input (lit ''payload.cipher.aad does not match protected message metadata''))
        else Inr ()))))))))))))))))))))))"

definition validate_message_envelope_for_recipient ::
    "net \<Rightarrow> loaded_ops_key \<Rightarrow> protected_message_token \<Rightarrow> unit result" where
  "validate_message_envelope_for_recipient N recipient_key envelope =
     bindR (validate_message_envelope N envelope) (\<lambda>_.
     let p = mt_payload envelope; k = ko_keys (lk_key_material recipient_key) in
     if mp_recipient_kid p \<noteq> lk_id recipient_key
     then Inl (invalid_input (lit ''payload.recipient.kid does not match loaded recipient key''))
     else if mk_alg (mp_kem p) \<noteq> hybrid_kem_alg (va_variant (km_xecdh k)) (vd_variant (km_ml_kem k))
     then Inl (invalid_input (lit ''payload.kem.alg does not match recipient key algorithms''))
     else
       bindR (ok_or (invalid_input (lit ''payload.cipher.alg is not supported''))
                (symmetric_cipher (mc_alg (mp_cipher p)))) (\<lambda>cipher.
         if str_len (mc_nonce (mp_cipher p)) \<noteq> sc_nonce_size_bytes cipher * 2
         then Inl (invalid_input (lit ''payload.cipher.nonce length does not match cipher algorithm''))
         else Inr ()))"

definition decrypted_message_string :: "u8 list \<Rightarrow> ustr result" where
  "decrypted_message_string plaintext_bytes =
     ok_or (invalid_input (lit ''decrypted message is not valid UTF-8'')) (from_utf8 plaintext_bytes)"

definition open_message_cipher ::
    "crates \<Rightarrow> ciphers \<Rightarrow> ('priv, 'pub) pk_crate \<Rightarrow> loaded_ops_key \<Rightarrow> protected_message_token \<Rightarrow> ustr result" where
  "open_message_cipher C E P recipient_key envelope =
     (let p = mt_payload envelope; k = ko_keys (lk_key_material recipient_key) in
      bindR (load_private_key_der_hex C P (va_private_key_der_hex (km_xecdh k))) (\<lambda>recipient_xecdh_private_key.
      bindR (ok_or (invalid_input (lit ''message.kem.xecdh_ephemeral_public is not valid hex''))
               (hex_decode C (mk_xecdh_ephemeral_public (mp_kem p)))) (\<lambda>ephemeral_public_key.
      bindR (map_err (\<lambda>_. invalid_input (lit ''message key agreement material is invalid''))
               (agree_key P recipient_xecdh_private_key ephemeral_public_key)) (\<lambda>xecdh_shared_key.
      bindR (load_private_key_der_hex C P (vd_private_key_der_hex (km_ml_kem k))) (\<lambda>ml_kem_private_key.
      bindR (ok_or (invalid_input (lit ''message.kem.ml_kem_ciphertext is not valid hex''))
               (hex_decode C (mk_ml_kem_ciphertext (mp_kem p)))) (\<lambda>ml_kem_ciphertext.
      bindR (ok_or (invalid_input (lit ''message.kem.ml_kem_salt is not valid hex''))
               (hex_decode C (mk_ml_kem_salt (mp_kem p)))) (\<lambda>ml_kem_salt.
      bindR (map_err (\<lambda>_. invalid_input (lit ''message key encapsulation material is invalid''))
               (decapsulate_ml_kem_shared_key P ml_kem_private_key ml_kem_ciphertext ml_kem_salt
                  HYBRID_SECRET_SIZE_BYTES)) (\<lambda>ml_kem_shared_key.
      bindR (ok_or (invalid_input (lit ''message.kem.hkdf_salt is not valid hex''))
               (hex_decode C (mk_hkdf_salt (mp_kem p)))) (\<lambda>hkdf_salt.
      bindR (ok_or (invalid_input (lit ''message cipher algorithm is not supported''))
               (symmetric_cipher (mc_alg (mp_cipher p)))) (\<lambda>cipher.
      bindR (derive_message_key C xecdh_shared_key ml_kem_shared_key hkdf_salt (utf8 (mc_aad (mp_cipher p)))
               (sc_key_size_bytes cipher)) (\<lambda>message_key.
      bindR (ok_or (invalid_input (lit ''message.cipher.nonce is not valid hex''))
               (hex_decode C (mc_nonce (mp_cipher p)))) (\<lambda>nonce.
      bindR (ok_or (invalid_input (lit ''message.cipher.ct is not valid hex''))
               (hex_decode C (mc_ct (mp_cipher p)))) (\<lambda>ciphertext.
      bindR (map_err (\<lambda>_. invalid_input (lit ''message authentication failed''))
               (decrypt_symmetric E (mc_alg (mp_cipher p)) ciphertext message_key nonce
                  (utf8 (mc_aad (mp_cipher p))))) (\<lambda>plaintext_bytes.
        decrypted_message_string plaintext_bytes))))))))))))))"

definition encrypt_local_message ::
    "crates \<Rightarrow> ciphers \<Rightarrow> (nat \<Rightarrow> u8 list result) \<Rightarrow> loaded_ops_key \<Rightarrow> ustr \<Rightarrow> protected_message_token \<Rightarrow>
     message_cipher result" where
  "encrypt_local_message C E random_bytes recipient_key plaintext envelope =
     (let symmetric = km_symmetric (ko_keys (lk_key_material recipient_key)) in
      bindR (ok_or (invalid_input (lit ''recipient symmetric algorithm is not supported''))
               (symmetric_cipher (vs_variant symmetric))) (\<lambda>cipher.
      bindR (validate_symmetric_key (lit ''recipient symmetric key'') (vs_key_hex symmetric)
               (sc_key_size_bytes cipher)) (\<lambda>_.
      bindR (hex_decode_q C (vs_key_hex symmetric)) (\<lambda>key.
      bindR (random_bytes (sc_nonce_size_bytes cipher)) (\<lambda>nonce.
      bindR (build_stored_protected_message_aad (mt_version envelope) (ms_kid (mp_sender (mt_payload envelope)))
               (lk_id recipient_key) (mp_created_at (mt_payload envelope)) (sc_algorithm cipher)) (\<lambda>aad.
      bindR (encrypt_symmetric E (sc_algorithm cipher) (utf8 plaintext) key nonce (utf8 aad)) (\<lambda>ciphertext.
        Inr \<lparr>mc_alg = sc_algorithm cipher, mc_nonce = hex_encode C nonce, mc_aad = aad,
             mc_ct = hex_encode C ciphertext\<rparr>)))))))"

text \<open>The pair is \<open>PreparedReceiveMessage\<close>.\<close>

definition prepare_receive_message ::
    "net \<Rightarrow> keys_db_state \<Rightarrow> protected_message_token \<Rightarrow> (loaded_ops_key \<times> protected_message_token) result" where
  "prepare_receive_message N st envelope =
     bindR (validate_message_envelope N envelope) (\<lambda>_.
     bindR (get_loaded_key st (mp_recipient_kid (mt_payload envelope))) (\<lambda>recipient_key.
     bindR (require_lifecycle_for_decrypt_or_verify recipient_key) (\<lambda>_.
       Inr (recipient_key, envelope))))"

definition process_received_message ::
    "crates \<Rightarrow> ciphers \<Rightarrow> ('priv, 'pub) pk_crate \<Rightarrow> net \<Rightarrow> (nat \<Rightarrow> u8 list result) \<Rightarrow> (nat \<Rightarrow> u8 list result) \<Rightarrow>
     loaded_ops_key \<times> protected_message_token \<Rightarrow> remote_public_keys \<Rightarrow>
     (protected_message_token \<times> message_cipher) result" where
  "process_received_message C E P N random_check random_nonce prepared sender_public_keys =
     (case prepared of (recipient_key, envelope) \<Rightarrow>
      bindR (validate_message_envelope_for_recipient N recipient_key envelope) (\<lambda>_.
      bindR (validate_remote_public_keys C P N random_check sender_public_keys) (\<lambda>_.
      bindR (verify_message_signatures C P sender_public_keys envelope) (\<lambda>_.
      bindR (open_message_cipher C E P recipient_key envelope) (\<lambda>plaintext.
      bindR (encrypt_local_message C E random_nonce recipient_key plaintext envelope) (\<lambda>local_cipher.
        Inr (envelope, local_cipher)))))))"

definition final_app_delivery_error :: "ustr \<Rightarrow> ustr \<Rightarrow> dyn_error \<Rightarrow> dyn_error" where
  "final_app_delivery_error addr path err =
     remote_unreachable (lit ''final app can'' @ [39] @ lit ''t be reached: addr='' @ addr @ lit '', path='' @ path @
       lit '', error='' @ to_string err)"

text \<open>The delivery has the fields of \<open>DecryptMessageInput\<close>, which the application sends back to have it
  decrypted.\<close>

definition deliver_message_to_final_app ::
    "ustr result \<Rightarrow> (ustr \<Rightarrow> ustr \<Rightarrow> decrypt_message_input \<Rightarrow> json result) \<Rightarrow> ustr \<Rightarrow> ustr \<Rightarrow>
     protected_message_token \<Rightarrow> message_cipher \<Rightarrow> unit result" where
  "deliver_message_to_final_app now post addr path envelope local_cipher =
     bindR now (\<lambda>timestamp.
     let delivery = \<lparr>di_sender_host = ms_host (mp_sender (mt_payload envelope)),
           di_sender_kid = ms_kid (mp_sender (mt_payload envelope)), di_timestamp = timestamp,
           di_message = \<lparr>mx_ctx = mc_ct local_cipher, mx_nonce = mc_nonce local_cipher,
             mx_aad = mc_aad local_cipher, mx_variant = mc_alg local_cipher\<rparr>\<rparr> in
     bindR (map_err (final_app_delivery_error addr path) (post addr path delivery)) (\<lambda>_. Inr ()))"

definition receive_message ::
    "crates \<Rightarrow> ciphers \<Rightarrow> ('priv, 'pub) pk_crate \<Rightarrow> net \<Rightarrow> (nat \<Rightarrow> u8 list result) \<Rightarrow> (nat \<Rightarrow> u8 list result) \<Rightarrow>
     ustr result \<Rightarrow> (ustr \<Rightarrow> ustr \<Rightarrow> decrypt_message_input \<Rightarrow> json result) \<Rightarrow>
     loaded_ops_key \<times> protected_message_token \<Rightarrow> remote_public_keys \<Rightarrow> ustr \<Rightarrow> ustr \<Rightarrow>
     receive_message_output result" where
  "receive_message C E P N random_check random_nonce now post prepared sender_public_keys addr path =
     bindR (process_received_message C E P N random_check random_nonce prepared sender_public_keys)
       (\<lambda>(envelope, local_cipher).
     bindR (deliver_message_to_final_app now post addr path envelope local_cipher) (\<lambda>_.
       Inr \<lparr>ro_status = lit ''ok'', ro_sender_kid = ms_kid (mp_sender (mt_payload envelope)),
            ro_recipient_kid = mp_recipient_kid (mt_payload envelope), ro_local_cipher = local_cipher\<rparr>))"

section \<open>Decrypting a delivered message\<close>

definition check_nonce_length :: "ustr \<Rightarrow> ustr \<Rightarrow> unit result" where
  "check_nonce_length variant nonce =
     bindR (ok_or (invalid_input (lit ''message.variant is not supported'')) (symmetric_cipher variant)) (\<lambda>cipher.
       if str_len nonce \<noteq> sc_nonce_size_bytes cipher * 2
       then Inl (invalid_input (lit ''message.nonce length does not match message.variant''))
       else Inr ())"

definition validate_decrypt_message_input :: "net \<Rightarrow> decrypt_message_input \<Rightarrow> decrypt_message_input result" where
  "validate_decrypt_message_input N i =
     (let m = di_message i in
      bindR (validate_host_port N (lit ''sender_host'') (di_sender_host i)) (\<lambda>_.
      bindR (validate_key_id (di_sender_kid i)) (\<lambda>_.
      bindR (validate_text_field (lit ''timestamp'') (di_timestamp i)) (\<lambda>_.
      bindR (validate_hex_field (lit ''message.ctx'') (mx_ctx m)) (\<lambda>_.
      bindR (validate_hex_field (lit ''message.nonce'') (mx_nonce m)) (\<lambda>_.
      bindR (validate_text_field (lit ''message.aad'') (mx_aad m)) (\<lambda>_.
      bindR (validate_allowed_value (lit ''message.variant'') (mx_variant m) SYMMETRIC_ALGORITHMS) (\<lambda>_.
      bindR (check_nonce_length (mx_variant m) (mx_nonce m)) (\<lambda>_.
      bindR (parse_aad_fields (mx_aad m)) (\<lambda>aad.
      bindR (aad_field aad (lit ''type'')) (\<lambda>aad_type.
      bindR (validate_allowed_value (lit ''message.aad.type'') aad_type [lit ''stored-protected-message'']) (\<lambda>_.
      bindR (aad_field aad (lit ''sender_kid'')) (\<lambda>sender_kid.
      bindR (validate_key_id sender_kid) (\<lambda>_.
      bindR (aad_field aad (lit ''recipient_kid'')) (\<lambda>recipient_kid.
      bindR (validate_key_id recipient_kid) (\<lambda>_.
      bindR (aad_field aad (lit ''source_created_at'')) (\<lambda>source_created_at.
      bindR (validate_text_field (lit ''message.aad.source_created_at'') source_created_at) (\<lambda>_.
      bindR (aad_field aad (lit ''cipher_alg'')) (\<lambda>cipher_alg.
      bindR (validate_allowed_value (lit ''message.aad.cipher_alg'') cipher_alg SYMMETRIC_ALGORITHMS) (\<lambda>_.
        Inr i))))))))))))))))))))"

definition decrypt_message_recipient_kid :: "decrypt_message_input \<Rightarrow> ustr result" where
  "decrypt_message_recipient_kid i =
     bindR (parse_aad_fields (mx_aad (di_message i))) (\<lambda>aad.
     bindR (aad_field aad (lit ''recipient_kid'')) (\<lambda>recipient_kid.
     bindR (validate_key_id recipient_kid) (\<lambda>_. Inr recipient_kid)))"

definition prepare_decrypt_message ::
    "net \<Rightarrow> keys_db_state \<Rightarrow> decrypt_message_input \<Rightarrow> (loaded_ops_key \<times> decrypt_message_input) result" where
  "prepare_decrypt_message N st i =
     bindR (validate_decrypt_message_input N i) (\<lambda>i.
     bindR (parse_aad_fields (mx_aad (di_message i))) (\<lambda>aad.
     bindR (aad_field aad (lit ''recipient_kid'')) (\<lambda>recipient_kid.
     bindR (get_loaded_key st recipient_kid) (\<lambda>recipient_key.
     bindR (require_lifecycle_for_decrypt_or_verify recipient_key) (\<lambda>_. Inr (recipient_key, i))))))"

text \<open>What decrypting a delivered and an internal message have in common: the checks of the nonce and the
  ciphertext, and the authenticated decryption.\<close>

definition open_message_text ::
    "crates \<Rightarrow> ciphers \<Rightarrow> symmetric_cipher_spec \<Rightarrow> u8 list \<Rightarrow> message_text \<Rightarrow> ustr result" where
  "open_message_text C E cipher key m =
     bindR (ok_or (invalid_input (lit ''message.nonce is not valid hex'')) (hex_decode C (mx_nonce m))) (\<lambda>nonce.
     bindR (ok_or (invalid_input (lit ''message.ctx is not valid hex'')) (hex_decode C (mx_ctx m))) (\<lambda>ciphertext.
     bindR (map_err (\<lambda>_. invalid_input (lit ''message authentication failed''))
              (decrypt_symmetric E (sc_algorithm cipher) ciphertext key nonce (utf8 (mx_aad m)))) (\<lambda>plaintext_bytes.
       decrypted_message_string plaintext_bytes)))"

definition decrypt_message ::
    "crates \<Rightarrow> ciphers \<Rightarrow> loaded_ops_key \<times> decrypt_message_input \<Rightarrow> ustr result" where
  "decrypt_message C E prepared =
     (case prepared of (recipient_key, i) \<Rightarrow>
      let m = di_message i; symmetric = km_symmetric (ko_keys (lk_key_material recipient_key)) in
      bindR (parse_aad_fields (mx_aad m)) (\<lambda>aad.
      bindR (aad_field aad (lit ''sender_kid'')) (\<lambda>sender_kid.
      bindR (aad_field aad (lit ''recipient_kid'')) (\<lambda>recipient_kid.
      bindR (aad_field aad (lit ''cipher_alg'')) (\<lambda>cipher_alg.
        if di_sender_kid i \<noteq> sender_kid
        then Inl (invalid_input (lit ''sender_kid does not match message aad''))
        else if lk_id recipient_key \<noteq> recipient_kid
        then Inl (invalid_input (lit ''recipient key does not match message aad''))
        else if mx_variant m \<noteq> cipher_alg
        then Inl (invalid_input (lit ''message.variant does not match message aad cipher_alg''))
        else if mx_variant m \<noteq> vs_variant symmetric
        then Inl (invalid_input (lit ''message.variant does not match recipient symmetric key''))
        else
          bindR (ok_or (invalid_input (lit ''message.variant is not supported''))
                   (symmetric_cipher (mx_variant m))) (\<lambda>cipher.
          bindR (validate_symmetric_key (lit ''recipient symmetric key'') (vs_key_hex symmetric)
                   (sc_key_size_bytes cipher)) (\<lambda>_.
          bindR (hex_decode_q C (vs_key_hex symmetric)) (\<lambda>key.
            open_message_text C E cipher key m))))))))"

section \<open>Internal messages\<close>

definition validate_internal_encrypt_message_input :: "ustr \<Rightarrow> ustr result" where
  "validate_internal_encrypt_message_input plaintext =
     bindR (validate_text_field (lit ''plaintext'') plaintext) (\<lambda>_.
       if str_len plaintext > INTERNAL_MESSAGE_PLAINTEXT_MAX_SIZE
       then Inl (invalid_input (lit ''plaintext exceeds maximum allowed size: '' @
              show_nat INTERNAL_MESSAGE_PLAINTEXT_MAX_SIZE @ lit '' bytes''))
       else Inr plaintext)"

text \<open>\<open>PreparedInternalEncryptMessage\<close> and \<open>PreparedInternalDecryptMessage\<close>.\<close>

record 'a prepared_internal =
  pi_key :: loaded_ops_key
  pi_input :: 'a
  pi_subject :: "message_subject option"

definition prepare_internal_encrypt_message ::
    "keys_db_state \<Rightarrow> ustr \<Rightarrow> ustr \<Rightarrow> ustr prepared_internal result" where
  "prepare_internal_encrypt_message st kid plaintext =
     bindR (validate_key_id kid) (\<lambda>_.
     bindR (validate_internal_encrypt_message_input plaintext) (\<lambda>plaintext.
     bindR (get_loaded_key st kid) (\<lambda>key.
     bindR (require_lifecycle_for_new_use key) (\<lambda>_.
       Inr \<lparr>pi_key = key, pi_input = plaintext, pi_subject = None\<rparr>))))"

definition validate_internal_decrypt_message_input ::
    "internal_message_output \<Rightarrow> internal_message_output result" where
  "validate_internal_decrypt_message_input i =
     (let m = io_message i in
      bindR (validate_key_id (io_kid i)) (\<lambda>_.
      bindR (validate_text_field (lit ''timestamp'') (io_timestamp i)) (\<lambda>_.
      bindR (validate_hex_field (lit ''message.ctx'') (mx_ctx m)) (\<lambda>_.
      bindR (validate_hex_field (lit ''message.nonce'') (mx_nonce m)) (\<lambda>_.
      bindR (validate_text_field (lit ''message.aad'') (mx_aad m)) (\<lambda>_.
      bindR (validate_allowed_value (lit ''message.variant'') (mx_variant m) SYMMETRIC_ALGORITHMS) (\<lambda>_.
      bindR (check_nonce_length (mx_variant m) (mx_nonce m)) (\<lambda>_.
      bindR (parse_aad_fields (mx_aad m)) (\<lambda>aad.
      bindR (case io_subject i of
               None \<Rightarrow> Inr ()
             | Some subject \<Rightarrow>
                 bindR (validate_subject subject) (\<lambda>_.
                 bindR (build_subject_symmetric_aad (io_kid i) subject (io_timestamp i) (mx_variant m)) (\<lambda>expected.
                   if mx_aad m \<noteq> expected
                   then Inl (invalid_input (lit ''subject symmetric aad does not match envelope''))
                   else Inr ()))) (\<lambda>_.
      bindR (aad_field aad (lit ''type'')) (\<lambda>aad_type.
      bindR (validate_allowed_value (lit ''message.aad.type'') aad_type
               [if io_subject i \<noteq> None then lit ''subject-symmetric'' else lit ''internal-message'']) (\<lambda>_.
      bindR (aad_field aad (lit ''kid'')) (\<lambda>kid.
      bindR (validate_key_id kid) (\<lambda>_.
      bindR (aad_field aad (lit ''timestamp'')) (\<lambda>timestamp.
      bindR (validate_text_field (lit ''message.aad.timestamp'') timestamp) (\<lambda>_.
      bindR (aad_field aad (lit ''cipher_alg'')) (\<lambda>cipher_alg.
      bindR (validate_allowed_value (lit ''message.aad.cipher_alg'') cipher_alg SYMMETRIC_ALGORITHMS) (\<lambda>_.
        Inr i))))))))))))))))))"

definition prepare_internal_decrypt_message ::
    "keys_db_state \<Rightarrow> internal_message_output \<Rightarrow> internal_message_output prepared_internal result" where
  "prepare_internal_decrypt_message st i =
     bindR (validate_internal_decrypt_message_input i) (\<lambda>i.
     bindR (get_loaded_key st (io_kid i)) (\<lambda>key.
     bindR (require_lifecycle_for_decrypt_or_verify key) (\<lambda>_.
       Inr \<lparr>pi_key = key, pi_input = i, pi_subject = None\<rparr>)))"

definition subject_material ::
    "loaded_ops_key \<Rightarrow> tokenization_profile \<Rightarrow> ustr \<Rightarrow> ustr \<Rightarrow> message_subject result" where
  "subject_material key origin subject envelope =
     bindR (validate_subject subject) (\<lambda>_.
       if tp_kid origin \<noteq> lk_id key \<or> tp_subject_mode origin \<noteq> Stored then Inl invalid_stored_seed
       else Inr \<lparr>sm_origin = origin, sm_subject = subject, sm_envelope = envelope\<rparr>)"

definition encrypt_with_subject ::
    "ustr prepared_internal \<Rightarrow> tokenization_profile \<Rightarrow> ustr \<Rightarrow> ustr \<Rightarrow> ustr prepared_internal result" where
  "encrypt_with_subject prepared origin subject envelope =
     bindR (subject_material (pi_key prepared) origin subject envelope) (\<lambda>material.
       Inr (prepared\<lparr>pi_subject := Some material\<rparr>))"

definition decrypt_with_subject ::
    "internal_message_output prepared_internal \<Rightarrow> tokenization_profile \<Rightarrow> ustr \<Rightarrow> ustr \<Rightarrow>
     internal_message_output prepared_internal result" where
  "decrypt_with_subject prepared origin subject envelope =
     (if io_subject (pi_input prepared) \<noteq> Some subject
      then Inl (invalid_input (lit ''subject does not match symmetric context''))
      else
        bindR (subject_material (pi_key prepared) origin subject envelope) (\<lambda>material.
          Inr (prepared\<lparr>pi_subject := Some material\<rparr>)))"

definition derive_subject_symmetric_key ::
    "crates \<Rightarrow> u8 list \<Rightarrow> u8 list \<Rightarrow> ustr \<Rightarrow> ustr \<Rightarrow> u8 list result" where
  "derive_subject_symmetric_key C parent seed kid algorithm =
     bindR (validate_key_id kid) (\<lambda>_.
     bindR (ok_or (invalid_input (lit ''message.variant is not supported'')) (symmetric_cipher algorithm)) (\<lambda>cipher.
       if length parent \<noteq> sc_key_size_bytes cipher \<or> length seed \<noteq> SUBJECT_SEED_BYTES
       then Inl (internal (lit ''invalid subject symmetric key material''))
       else
         bindR (build_validated_aad
                  [(lit ''purpose'', lit ''subject-symmetric-encryption''), (lit ''kid'', kid),
                   (lit ''cipher_alg'', sc_algorithm cipher), (lit ''version'', lit ''v1'')]) (\<lambda>info.
           create_hkdf C parent seed (utf8 info) (sc_key_size_bytes cipher))))"

definition internal_key ::
    "crates \<Rightarrow> ciphers \<Rightarrow> loaded_ops_key \<Rightarrow> message_subject option \<Rightarrow> u8 list result" where
  "internal_key C E key subject =
     (let symmetric = km_symmetric (ko_keys (lk_key_material key)) in
      bindR (ok_or (invalid_input (lit ''internal message symmetric algorithm is not supported''))
               (symmetric_cipher (vs_variant symmetric))) (\<lambda>cipher.
      bindR (validate_symmetric_key (lit ''internal message symmetric key'') (vs_key_hex symmetric)
               (sc_key_size_bytes cipher)) (\<lambda>_.
      bindR (hex_decode_q C (vs_key_hex symmetric)) (\<lambda>parent.
        case subject of
          None \<Rightarrow> Inr parent
        | Some material \<Rightarrow>
            bindR (open_authenticated_seed C E (sm_origin material) (sm_subject material) (sm_envelope material)) (\<lambda>seed.
              derive_subject_symmetric_key C parent seed (lk_id key) (sc_algorithm cipher))))))"

definition encrypt_internal_message ::
    "crates \<Rightarrow> ciphers \<Rightarrow> (nat \<Rightarrow> u8 list result) \<Rightarrow> ustr result \<Rightarrow> ustr prepared_internal \<Rightarrow>
     internal_message_output result" where
  "encrypt_internal_message C E random_bytes now prepared =
     (let key_id = lk_id (pi_key prepared);
          symmetric = km_symmetric (ko_keys (lk_key_material (pi_key prepared))) in
      bindR now (\<lambda>timestamp.
      bindR (ok_or (invalid_input (lit ''internal message symmetric algorithm is not supported''))
               (symmetric_cipher (vs_variant symmetric))) (\<lambda>cipher.
      bindR (validate_symmetric_key (lit ''internal message symmetric key'') (vs_key_hex symmetric)
               (sc_key_size_bytes cipher)) (\<lambda>_.
      bindR (internal_key C E (pi_key prepared) (pi_subject prepared)) (\<lambda>key.
      bindR (random_bytes (sc_nonce_size_bytes cipher)) (\<lambda>nonce.
      bindR (case pi_subject prepared of
               Some material \<Rightarrow> build_subject_symmetric_aad key_id (sm_subject material) timestamp (sc_algorithm cipher)
             | None \<Rightarrow> build_internal_message_aad key_id timestamp (sc_algorithm cipher)) (\<lambda>aad.
      bindR (encrypt_symmetric E (sc_algorithm cipher) (utf8 (pi_input prepared)) key nonce (utf8 aad)) (\<lambda>ciphertext.
        Inr \<lparr>io_timestamp = timestamp, io_kid = key_id, io_subject = map_option sm_subject (pi_subject prepared),
             io_message = \<lparr>mx_ctx = hex_encode C ciphertext, mx_nonce = hex_encode C nonce, mx_aad = aad,
               mx_variant = sc_algorithm cipher\<rparr>\<rparr>))))))))"

definition decrypt_internal_message ::
    "crates \<Rightarrow> ciphers \<Rightarrow> internal_message_output prepared_internal \<Rightarrow> ustr result" where
  "decrypt_internal_message C E prepared =
     (let i = pi_input prepared; m = io_message i;
          symmetric = km_symmetric (ko_keys (lk_key_material (pi_key prepared))) in
      if io_subject i \<noteq> map_option sm_subject (pi_subject prepared)
      then Inl (invalid_input (lit ''subject symmetric context is required''))
      else
        bindR (internal_key C E (pi_key prepared) (pi_subject prepared)) (\<lambda>key.
        bindR (parse_aad_fields (mx_aad m)) (\<lambda>aad.
        bindR (aad_field aad (lit ''kid'')) (\<lambda>kid.
        bindR (aad_field aad (lit ''timestamp'')) (\<lambda>timestamp.
        bindR (aad_field aad (lit ''cipher_alg'')) (\<lambda>cipher_alg.
          if io_kid i \<noteq> kid then Inl (invalid_input (lit ''kid does not match internal message aad''))
          else if io_timestamp i \<noteq> timestamp
          then Inl (invalid_input (lit ''timestamp does not match internal message aad''))
          else if mx_variant m \<noteq> cipher_alg
          then Inl (invalid_input (lit ''message.variant does not match internal message aad cipher_alg''))
          else if mx_variant m \<noteq> vs_variant symmetric
          then Inl (invalid_input (lit ''message.variant does not match internal symmetric key''))
          else
            bindR (ok_or (invalid_input (lit ''message.variant is not supported''))
                     (symmetric_cipher (mx_variant m))) (\<lambda>cipher.
            bindR (validate_symmetric_key (lit ''internal message symmetric key'') (vs_key_hex symmetric)
                     (sc_key_size_bytes cipher)) (\<lambda>_.
              open_message_text C E cipher key m))))))))"

end
