(* ===== verification/Messages_Correct.thy ===== *)
theory Messages_Correct
  imports Messages Ops_Keys_Correct
begin

text \<open>
  What a message carries from the sender to the application of the recipient: the created envelope
  passes every check of the receiving instance, opens to the message, and the copy re-encrypted for the
  application decrypts to it again.
\<close>

section \<open>What the public-key crate promises\<close>

definition signature_ok :: "('priv, 'pub) pk_crate \<Rightarrow> ustr \<Rightarrow> ustr \<Rightarrow> bool" where
  "signature_ok P signing verifying \<longleftrightarrow>
     (\<forall>k p m s. pk_public P k = Inr p \<and> pk_sign P k signing m = Inr s \<longrightarrow>
        s \<noteq> [] \<and> pk_verify P p verifying m s = Inr True)"

text \<open>Keys survive their encoding, agreement is symmetric, an encapsulated key is recovered, a signature
  verifies under the public key, and none of what they produce is empty.\<close>

definition pk_ok :: "('priv, 'pub) pk_crate \<Rightarrow> bool" where
  "pk_ok P \<longleftrightarrow>
     (\<forall>k der. pk_private_der P k = Inr der \<longrightarrow> pk_load_private P der = Inr k) \<and>
     (\<forall>p der. pk_public_der P p = Inr der \<longrightarrow> pk_load_public P der = Inr p) \<and>
     (\<forall>k k' a b kdf s. pk_agreement_public P k = Inr a \<and> pk_agreement_public P k' = Inr b \<and>
        pk_agree P k b kdf = Inr s \<longrightarrow> a \<noteq> [] \<and> pk_agree P k' a kdf = Inr s) \<and>
     (\<forall>k p kdf salt n s c. pk_public P k = Inr p \<and> pk_encapsulate P p kdf salt n = Inr (s, c) \<longrightarrow>
        c \<noteq> [] \<and> pk_decapsulate P k kdf c salt n = Inr s) \<and>
     signature_ok P EDDSA_PADDING EDDSA_PADDING \<and> signature_ok P ML_DSA_SIGNING_MODE ML_DSA_VERIFY_MODE \<and>
     random_ok (pk_random P)"

text \<open>Encryption with a key and a nonce of the sizes of the algorithm does not fail.\<close>

definition aead_total :: "ciphers \<Rightarrow> bool" where
  "aead_total E \<longleftrightarrow>
     (\<forall>alg spec m key nonce aad. symmetric_cipher alg = Some spec \<and> length key = sc_key_size_bytes spec \<and>
        length nonce = sc_nonce_size_bytes spec \<longrightarrow> (\<exists>c. encrypt_symmetric E alg m key nonce aad = Inr c))"

definition random_total :: "(nat \<Rightarrow> u8 list result) \<Rightarrow> bool" where
  "random_total rnd \<longleftrightarrow> (\<forall>n. \<exists>bs. rnd n = Inr bs \<and> length bs = n)"

lemma pk_load:
  "pk_ok P \<Longrightarrow> pk_private_der P k = Inr der \<Longrightarrow> pk_load_private P der = Inr k"
  "pk_ok P \<Longrightarrow> pk_public_der P p = Inr der \<Longrightarrow> pk_load_public P der = Inr p"
  by (simp_all add: pk_ok_def)

lemma pk_agrees:
  assumes "pk_ok P" "pk_agreement_public P k = Inr a" "pk_agreement_public P k' = Inr b" "pk_agree P k b kdf = Inr s"
  shows "a \<noteq> []" "pk_agree P k' a kdf = Inr s"
  using assms unfolding pk_ok_def by blast+

lemma pk_decapsulates:
  assumes "pk_ok P" "pk_public P k = Inr p" "pk_encapsulate P p kdf salt n = Inr (s, c)"
  shows "c \<noteq> []" "pk_decapsulate P k kdf c salt n = Inr s"
  using assms unfolding pk_ok_def by blast+

lemma pk_verifies:
  assumes "signature_ok P signing verifying" "pk_public P k = Inr p" "pk_sign P k signing m = Inr s"
  shows "s \<noteq> []" "pk_verify P p verifying m s = Inr True"
  using assms unfolding signature_ok_def by blast+

lemma pk_signatures:
  "pk_ok P \<Longrightarrow> signature_ok P EDDSA_PADDING EDDSA_PADDING"
  "pk_ok P \<Longrightarrow> signature_ok P ML_DSA_SIGNING_MODE ML_DSA_VERIFY_MODE"
  "pk_ok P \<Longrightarrow> random_ok (pk_random P)"
  by (simp_all add: pk_ok_def)

section \<open>Key material\<close>

definition der_pair_ok :: "crates \<Rightarrow> ('priv, 'pub) pk_crate \<Rightarrow> variant_der_key_pair \<Rightarrow> bool" where
  "der_pair_ok C P v \<longleftrightarrow>
     (\<exists>k p. load_private_key_der_hex C P (vd_private_key_der_hex v) = Inr k \<and>
        load_public_key_der_hex C P (vd_public_key_der_hex v) = Inr p \<and> pk_public P k = Inr p)"

definition agreement_pair_ok :: "crates \<Rightarrow> ('priv, 'pub) pk_crate \<Rightarrow> variant_key_agreement_key_pair \<Rightarrow> bool" where
  "agreement_pair_ok C P v \<longleftrightarrow>
     (\<exists>k bs. load_private_key_der_hex C P (va_private_key_der_hex v) = Inr k \<and>
        hex_decode C (va_public_key_hex v) = Some bs \<and> pk_agreement_public P k = Inr bs)"

definition symmetric_key_ok :: "crates \<Rightarrow> variant_symmetric_key \<Rightarrow> bool" where
  "symmetric_key_ok C v \<longleftrightarrow>
     (\<exists>spec key. symmetric_cipher (vs_variant v) = Some spec \<and> hex_decode C (vs_key_hex v) = Some key \<and>
        length key = sc_key_size_bytes spec \<and> length (vs_key_hex v) = 2 * sc_key_size_bytes spec \<and>
        list_all is_ascii_hexdigit (vs_key_hex v))"

definition material_ok :: "crates \<Rightarrow> ('priv, 'pub) pk_crate \<Rightarrow> key_material_output \<Rightarrow> bool" where
  "material_ok C P m \<longleftrightarrow>
     symmetric_key_ok C (km_symmetric (ko_keys m)) \<and> der_pair_ok C P (km_eddsa (ko_keys m)) \<and>
     agreement_pair_ok C P (km_xecdh (ko_keys m)) \<and> der_pair_ok C P (km_ml_dsa (ko_keys m)) \<and>
     der_pair_ok C P (km_ml_kem (ko_keys m))"

lemma lower_hex_digits: "list_all is_lower_hexdigit s \<Longrightarrow> list_all is_ascii_hexdigit s"
  by (auto simp: list_all_iff char_simps)

lemma hex_encoded:
  assumes "hex_format_ok C"
  shows "length (hex_encode C bs) = 2 * length bs" "list_all is_ascii_hexdigit (hex_encode C bs)"
    "str_len (hex_encode C bs) = 2 * length bs"
proof -
  show l: "length (hex_encode C bs) = 2 * length bs" and h: "list_all is_ascii_hexdigit (hex_encode C bs)"
    using assms lower_hex_digits by (auto simp: hex_format_ok_def)
  show "str_len (hex_encode C bs) = 2 * length bs" using l str_len_ascii [OF hex_ascii [OF h]] by simp
qed

lemma hex_field_encoded:
  "hex_format_ok C \<Longrightarrow> bs \<noteq> [] \<Longrightarrow> validate_hex_field f (hex_encode C bs) = Inr ()"
  using hex_encoded [of C bs] by (auto simp: validate_hex_field_ok simp del: length_greater_0_conv)

lemma created_material_ok:
  assumes "hex_codec_ok C" "hex_format_ok C" "pk_ok P" "create_key_material C P spec = Inr m"
  shows "material_ok C P m"
proof -
  note hex = hex_codec [OF assms(1)]
  have der: "der_pair_ok C P \<lparr>vd_variant = v, vd_private_key_der_hex = a, vd_public_key_der_hex = b\<rparr>"
    if "pk_public P k = Inr p" "private_key_der_hex C P k = Inr a" "public_key_der_hex C P p = Inr b" for v a b k p
    using that pk_load [OF assms(3)] hex
    by (auto simp: der_pair_ok_def private_key_der_hex_def public_key_der_hex_def bindR_eq_Inr
        load_private_key_der_hex_def load_public_key_der_hex_def hex_decode_q_def)
  have agr: "agreement_pair_ok C P \<lparr>va_variant = v, va_private_key_der_hex = a, va_public_key_hex = hex_encode C bs\<rparr>"
    if "pk_agreement_public P k = Inr bs" "private_key_der_hex C P k = Inr a" for v a k bs
    using that pk_load [OF assms(3)] hex
    by (auto simp: agreement_pair_ok_def private_key_der_hex_def bindR_eq_Inr load_private_key_der_hex_def hex_decode_q_def)
  have sym: "symmetric_key_ok C \<lparr>vs_variant = v, vs_key_hex = hex_encode C bs\<rparr>"
    if "symmetric_cipher v = Some c" "pk_random P (sc_key_size_bytes c) = Inr bs" for v c bs
    using that(1) hex hex_encoded [OF assms(2), of bs] random_length [OF pk_signatures(3) [OF assms(3)] that(2)]
    by (simp add: symmetric_key_ok_def)
  from assms(4) obtain c key ek ep xk xp dv dk dp kv kk kp es eb xs ds db ks kb where
    "symmetric_cipher (ks_symmetric_algorithm spec) = Some c" "pk_random P (sc_key_size_bytes c) = Inr key"
    "pk_public P ek = Inr ep" "private_key_der_hex C P ek = Inr es" "public_key_der_hex C P ep = Inr eb"
    "pk_agreement_public P xk = Inr xp" "private_key_der_hex C P xk = Inr xs"
    "pk_public P dk = Inr dp" "private_key_der_hex C P dk = Inr ds" "public_key_der_hex C P dp = Inr db"
    "pk_public P kk = Inr kp" "private_key_der_hex C P kk = Inr ks" "public_key_der_hex C P kp = Inr kb"
    "m = \<lparr>ko_hash_variant = ks_hash_algorithm spec, ko_keys =
       \<lparr>km_symmetric = \<lparr>vs_variant = ks_symmetric_algorithm spec, vs_key_hex = hex_encode C key\<rparr>,
        km_eddsa = \<lparr>vd_variant = ks_eddsa_algorithm spec, vd_private_key_der_hex = es, vd_public_key_der_hex = eb\<rparr>,
        km_xecdh = \<lparr>va_variant = ks_xecdh_algorithm spec, va_private_key_der_hex = xs,
          va_public_key_hex = hex_encode C xp\<rparr>,
        km_ml_dsa = \<lparr>vd_variant = dv, vd_private_key_der_hex = ds, vd_public_key_der_hex = db\<rparr>,
        km_ml_kem = \<lparr>vd_variant = kv, vd_private_key_der_hex = ks, vd_public_key_der_hex = kb\<rparr>\<rparr>\<rparr>"
    by (auto simp: create_key_material_def bindR_eq_Inr ok_or_eq_Inr)
  then show ?thesis
    unfolding material_ok_def by (simp add: sym der agr)
qed

section \<open>What is signed\<close>

lemma payload_canonical: "canonical_json_v1 C (payload_value p) = Inr (json_to_vec C (payload_value p))"
  by (simp add: canonical_json_v1_def validate_canonical_json_value_def payload_value_def MAX_JSON_DEPTH_def
      validate_canonical_json_value_at_depth.simps SERDE_JSON_PRIVATE_KEY_PREFIX_def starts_with_def lit_def)

lemma payload_wire: "wire_json 127 (payload_value p)"
  by (simp add: payload_value_def numeral_eq_Suc lit_def)

lemma payload_value_inj: "payload_value p = payload_value q \<Longrightarrow> p = q"
  by (intro protected_message_payload.equality message_cipher.equality message_kem.equality message_sender.equality)
    (simp_all add: payload_value_def)

lemma payload_text:
  assumes "json_wire_ok C"
  shows "\<exists>t. canonical_payload_text C p = Inr t"
    "canonical_payload_text C p = Inr t \<Longrightarrow> canonical_payload_text C q = Inr t \<Longrightarrow> p = q"
proof -
  have u: "canonical_payload_text C p = ok_or (Foreign (lit ''invalid utf-8'')) (from_utf8 (json_to_vec C (payload_value p)))" for p
    by (simp add: canonical_payload_text_def payload_canonical)
  have "from_utf8 (json_to_vec C (payload_value p)) \<noteq> None" for p using assms unfolding json_wire_ok_def by blast
  then show "\<exists>t. canonical_payload_text C p = Inr t" unfolding u by (auto simp: ok_or_eq_Inr)
  assume "canonical_payload_text C p = Inr t" "canonical_payload_text C q = Inr t"
  then have "json_to_vec C (payload_value p) = json_to_vec C (payload_value q)"
    unfolding u by (simp add: ok_or_eq_Inr from_utf8_Some)
  then show "p = q" using assms payload_wire payload_value_inj unfolding json_wire_ok_def by (metis option.inject)
qed

section \<open>The envelope\<close>

text \<open>What is in an envelope that was created.\<close>

definition created_envelope ::
    "crates \<Rightarrow> ciphers \<Rightarrow> ('priv, 'pub) pk_crate \<Rightarrow> key_config \<Rightarrow> loaded_ops_key \<Rightarrow> ustr \<Rightarrow> public_keys \<Rightarrow> ustr \<Rightarrow>
     protected_message_token \<Rightarrow> bool" where
  "created_envelope C E P config sender_key recipient_kid peer message envelope \<longleftrightarrow>
     (\<exists>created_at cipher aad ek ep xp xs kp salt ks kc hs key nonce ct payload.
        symmetric_cipher (vs_variant (km_symmetric (ko_keys (lk_key_material sender_key)))) = Some cipher \<and>
        build_message_aad (kc_protocol_version config) created_at (kc_public_addr config) (lk_id sender_key) recipient_kid
          (hybrid_kem_alg (px_alg (pu_xecdh peer)) (pd_alg (pu_ml_kem peer))) (sc_algorithm cipher) = Inr aad \<and>
        pk_agreement_public P ek = Inr ep \<and> hex_decode C (px_public_key_hex (pu_xecdh peer)) = Some xp \<and>
        pk_agree P ek xp X_KEY_AGREEMENT_KDF = Inr xs \<and>
        load_public_key_der_hex C P (pd_public_key_der_hex (pu_ml_kem peer)) = Inr kp \<and>
        pk_encapsulate P kp ML_KEM_KDF salt HYBRID_SECRET_SIZE_BYTES = Inr (ks, kc) \<and>
        derive_message_key C xs ks hs (utf8 aad) (sc_key_size_bytes cipher) = Inr key \<and>
        length salt = 32 \<and> length hs = 32 \<and> length nonce = sc_nonce_size_bytes cipher \<and>
        encrypt_symmetric E (sc_algorithm cipher) (utf8 message) key nonce (utf8 aad) = Inr ct \<and>
        payload = \<lparr>mp_version = PROTOCOL_VERSION_V1, mp_token_type = PROTECTED_MESSAGE_TYPE, mp_created_at = created_at,
          mp_sender = \<lparr>ms_host = kc_public_addr config, ms_kid = lk_id sender_key\<rparr>, mp_recipient_kid = recipient_kid,
          mp_kem = \<lparr>mk_alg = hybrid_kem_alg (px_alg (pu_xecdh peer)) (pd_alg (pu_ml_kem peer)),
            mk_xecdh_ephemeral_public = hex_encode C ep, mk_ml_kem_ciphertext = hex_encode C kc,
            mk_ml_kem_salt = hex_encode C salt, mk_hkdf_salt = hex_encode C hs\<rparr>,
          mp_cipher = \<lparr>mc_alg = sc_algorithm cipher, mc_nonce = hex_encode C nonce, mc_aad = aad, mc_ct = hex_encode C ct\<rparr>\<rparr> \<and>
        mt_version envelope = PROTOCOL_VERSION_V1 \<and> mt_payload envelope = payload \<and>
        sign_message_payload C P sender_key payload = Inr (mt_signatures envelope))"

lemma create_message_envelope_ok:
  assumes "create_message_envelope C E P random create_ephemeral now config sender_key remote i = Inr envelope"
    and "random_ok (mr_ml_kem_salt random)" "random_ok (mr_hkdf_salt random)" "random_ok (mr_nonce random)"
  shows "created_envelope C E P config sender_key (rk_kid remote) (po_keys (rk_keys remote)) (si_message i) envelope"
proof -
  from assms(1) obtain created_at cipher aad ek ep xp xs kp salt ks kc hs key nonce ct payload where
    "symmetric_cipher (vs_variant (km_symmetric (ko_keys (lk_key_material sender_key)))) = Some cipher"
    "build_message_aad (kc_protocol_version config) created_at (kc_public_addr config) (lk_id sender_key) (rk_kid remote)
      (hybrid_kem_alg (px_alg (pu_xecdh (po_keys (rk_keys remote)))) (pd_alg (pu_ml_kem (po_keys (rk_keys remote)))))
      (sc_algorithm cipher) = Inr aad"
    "pk_agreement_public P ek = Inr ep" "hex_decode C (px_public_key_hex (pu_xecdh (po_keys (rk_keys remote)))) = Some xp"
    "pk_agree P ek xp X_KEY_AGREEMENT_KDF = Inr xs"
    "load_public_key_der_hex C P (pd_public_key_der_hex (pu_ml_kem (po_keys (rk_keys remote)))) = Inr kp"
    "pk_encapsulate P kp ML_KEM_KDF salt HYBRID_SECRET_SIZE_BYTES = Inr (ks, kc)"
    "derive_message_key C xs ks hs (utf8 aad) (sc_key_size_bytes cipher) = Inr key"
    and r: "mr_ml_kem_salt random 32 = Inr salt" "mr_hkdf_salt random 32 = Inr hs"
      "mr_nonce random (sc_nonce_size_bytes cipher) = Inr nonce"
    and "encrypt_symmetric E (sc_algorithm cipher) (utf8 (si_message i)) key nonce (utf8 aad) = Inr ct"
    "payload = \<lparr>mp_version = PROTOCOL_VERSION_V1, mp_token_type = PROTECTED_MESSAGE_TYPE, mp_created_at = created_at,
      mp_sender = \<lparr>ms_host = kc_public_addr config, ms_kid = lk_id sender_key\<rparr>, mp_recipient_kid = rk_kid remote,
      mp_kem = \<lparr>mk_alg = hybrid_kem_alg (px_alg (pu_xecdh (po_keys (rk_keys remote)))) (pd_alg (pu_ml_kem (po_keys (rk_keys remote)))),
        mk_xecdh_ephemeral_public = hex_encode C ep, mk_ml_kem_ciphertext = hex_encode C kc,
        mk_ml_kem_salt = hex_encode C salt, mk_hkdf_salt = hex_encode C hs\<rparr>,
      mp_cipher = \<lparr>mc_alg = sc_algorithm cipher, mc_nonce = hex_encode C nonce, mc_aad = aad, mc_ct = hex_encode C ct\<rparr>\<rparr>"
    "mt_version envelope = PROTOCOL_VERSION_V1" "mt_payload envelope = payload"
    "sign_message_payload C P sender_key payload = Inr (mt_signatures envelope)"
    by (auto simp: create_message_envelope_def bindR_eq_Inr ok_or_eq_Inr Let_def hex_decode_q_def agree_key_def
        encapsulate_ml_kem_shared_key_with_rng_def)
  then show ?thesis
    using random_length [OF assms(2) r(1)] random_length [OF assms(3) r(2)] random_length [OF assms(4) r(3)]
    unfolding created_envelope_def by blast
qed

lemma signed_payload:
  assumes "sign_message_payload C P sender_key payload = Inr signatures"
  obtains t ek dk es ds where "canonical_payload_text C payload = Inr t"
    "load_private_key_der_hex C P (vd_private_key_der_hex (km_eddsa (ko_keys (lk_key_material sender_key)))) = Inr ek"
    "load_private_key_der_hex C P (vd_private_key_der_hex (km_ml_dsa (ko_keys (lk_key_material sender_key)))) = Inr dk"
    "pk_sign P ek EDDSA_PADDING (utf8 t) = Inr es" "pk_sign P dk ML_DSA_SIGNING_MODE (utf8 t) = Inr ds"
    "signatures = \<lparr>ts_eddsa = \<lparr>sb_alg = vd_variant (km_eddsa (ko_keys (lk_key_material sender_key))),
        sb_sig = hex_encode C es\<rparr>,
      ts_ml_dsa = \<lparr>sb_alg = vd_variant (km_ml_dsa (ko_keys (lk_key_material sender_key))), sb_sig = hex_encode C ds\<rparr>\<rparr>"
  using assms
  by (auto simp: sign_message_payload_def bindR_eq_Inr Let_def sign_message_with_rng_def sign_ml_dsa_message_with_rng_def)

lemma signatures_verify:
  assumes "hex_codec_ok C" "pk_ok P" "material_ok C P (lk_key_material sender_key)"
    and "sign_message_payload C P sender_key (mt_payload envelope) = Inr (mt_signatures envelope)"
    and "po_keys (rk_keys remote) = public_keys_of (ko_keys (lk_key_material sender_key))"
  shows "verify_message_signatures C P remote envelope = Inr ()"
proof -
  obtain t ek dk es ds where s: "canonical_payload_text C (mt_payload envelope) = Inr t"
    "load_private_key_der_hex C P (vd_private_key_der_hex (km_eddsa (ko_keys (lk_key_material sender_key)))) = Inr ek"
    "load_private_key_der_hex C P (vd_private_key_der_hex (km_ml_dsa (ko_keys (lk_key_material sender_key)))) = Inr dk"
    "pk_sign P ek EDDSA_PADDING (utf8 t) = Inr es" "pk_sign P dk ML_DSA_SIGNING_MODE (utf8 t) = Inr ds"
    "mt_signatures envelope = \<lparr>ts_eddsa = \<lparr>sb_alg = vd_variant (km_eddsa (ko_keys (lk_key_material sender_key))),
        sb_sig = hex_encode C es\<rparr>,
      ts_ml_dsa = \<lparr>sb_alg = vd_variant (km_ml_dsa (ko_keys (lk_key_material sender_key))), sb_sig = hex_encode C ds\<rparr>\<rparr>"
    by (rule signed_payload [OF assms(4)])
  obtain ep dp where
    e: "load_public_key_der_hex C P (vd_public_key_der_hex (km_eddsa (ko_keys (lk_key_material sender_key)))) = Inr ep"
      "pk_public P ek = Inr ep"
    and d: "load_public_key_der_hex C P (vd_public_key_der_hex (km_ml_dsa (ko_keys (lk_key_material sender_key)))) = Inr dp"
      "pk_public P dk = Inr dp"
    using assms(3) s(2,3) by (auto simp: material_ok_def der_pair_ok_def)
  show ?thesis
    using pk_verifies(2) [OF pk_signatures(1) [OF assms(2)] e(2) s(4)]
      pk_verifies(2) [OF pk_signatures(2) [OF assms(2)] d(2) s(5)] s(1,6) e(1) d(1) hex_codec [OF assms(1)]
    by (simp add: verify_message_signatures_def assms(5) public_keys_of_def verify_message_def verify_ml_dsa_message_def)
qed

lemma signature_blocks:
  assumes "hex_format_ok C" "pk_ok P" "material_ok C P (lk_key_material sender_key)"
    and "sign_message_payload C P sender_key payload = Inr signatures"
  shows "sb_alg (ts_eddsa signatures) = vd_variant (km_eddsa (ko_keys (lk_key_material sender_key)))"
    "sb_alg (ts_ml_dsa signatures) = vd_variant (km_ml_dsa (ko_keys (lk_key_material sender_key)))"
    "validate_hex_field f (sb_sig (ts_eddsa signatures)) = Inr ()"
    "validate_hex_field f (sb_sig (ts_ml_dsa signatures)) = Inr ()"
proof -
  obtain t ek dk es ds where s:
    "load_private_key_der_hex C P (vd_private_key_der_hex (km_eddsa (ko_keys (lk_key_material sender_key)))) = Inr ek"
    "load_private_key_der_hex C P (vd_private_key_der_hex (km_ml_dsa (ko_keys (lk_key_material sender_key)))) = Inr dk"
    "pk_sign P ek EDDSA_PADDING (utf8 t) = Inr es" "pk_sign P dk ML_DSA_SIGNING_MODE (utf8 t) = Inr ds"
    "signatures = \<lparr>ts_eddsa = \<lparr>sb_alg = vd_variant (km_eddsa (ko_keys (lk_key_material sender_key))),
        sb_sig = hex_encode C es\<rparr>,
      ts_ml_dsa = \<lparr>sb_alg = vd_variant (km_ml_dsa (ko_keys (lk_key_material sender_key))), sb_sig = hex_encode C ds\<rparr>\<rparr>"
    by (rule signed_payload [OF assms(4)])
  obtain ep dp where "pk_public P ek = Inr ep" "pk_public P dk = Inr dp"
    using assms(3) s(1,2) by (auto simp: material_ok_def der_pair_ok_def)
  then have "es \<noteq> []" "ds \<noteq> []"
    using pk_verifies(1) [OF pk_signatures(1) [OF assms(2)] _ s(3)] pk_verifies(1) [OF pk_signatures(2) [OF assms(2)] _ s(4)]
    by blast+
  then show "sb_alg (ts_eddsa signatures) = vd_variant (km_eddsa (ko_keys (lk_key_material sender_key)))"
    "sb_alg (ts_ml_dsa signatures) = vd_variant (km_ml_dsa (ko_keys (lk_key_material sender_key)))"
    "validate_hex_field f (sb_sig (ts_eddsa signatures)) = Inr ()"
    "validate_hex_field f (sb_sig (ts_ml_dsa signatures)) = Inr ()"
    using hex_field_encoded [OF assms(1)] by (simp_all add: s(5))
qed

lemma symmetric_cipher_allowed:
  "symmetric_cipher a = Some c \<Longrightarrow> validate_allowed_value f a SYMMETRIC_ALGORITHMS = Inr ()"
  "symmetric_cipher a = Some c \<Longrightarrow> sc_algorithm c = a \<and> 0 < sc_key_size_bytes c \<and> 0 < sc_nonce_size_bytes c"
  by (auto simp: symmetric_cipher_def validate_allowed_value_ok validate_text_field_ok SYMMETRIC_ALGORITHMS_def lit_def
      char_simps split: if_splits)

lemma message_aad_text:
  assumes "build_message_aad version created_at host sender recipient kem cipher = Inr aad"
  shows "validate_text_field f created_at = Inr ()" "validate_text_field f kem = Inr ()" "validate_text_field f aad = Inr ()"
    "build_message_aad version created_at host sender recipient kem cipher = Inr aad"
  using assms build_aad_text [OF _ assms [unfolded build_message_aad_def]]
  by (auto simp: build_message_aad_def build_validated_aad_ok validate_text_field_ok)

text \<open>The two keys, and what each instance knows of the other.\<close>

definition peers_ok ::
    "crates \<Rightarrow> ('priv, 'pub) pk_crate \<Rightarrow> net \<Rightarrow> key_config \<Rightarrow> loaded_ops_key \<Rightarrow> loaded_ops_key \<Rightarrow> bool" where
  "peers_ok C P N config sender_key recipient_key \<longleftrightarrow>
     material_ok C P (lk_key_material sender_key) \<and> material_ok C P (lk_key_material recipient_key) \<and>
     kc_protocol_version config = PROTOCOL_VERSION_V1 \<and>
     validate_host_port N (lit ''sender'') (kc_public_addr config) = Inr (kc_public_addr config) \<and>
     validate_key_id (lk_id sender_key) = Inr () \<and> validate_key_id (lk_id recipient_key) = Inr () \<and>
     validate_allowed_value (lit ''eddsa'') (vd_variant (km_eddsa (ko_keys (lk_key_material sender_key)))) EDDSA_ALGORITHMS =
       Inr () \<and>
     validate_allowed_value (lit ''ml-dsa'') (vd_variant (km_ml_dsa (ko_keys (lk_key_material sender_key)))) ML_DSA_VARIANTS =
       Inr ()"

lemma allowed_field: "validate_allowed_value f v vs = Inr () \<Longrightarrow> validate_allowed_value g v vs = Inr ()"
  by (simp add: validate_allowed_value_ok validate_text_field_ok)

text \<open>The same, with the private keys of the recipient that match what it published.\<close>

lemma created_envelopeE:
  assumes E: "aead_ok E" and P: "pk_ok P" and peers: "peers_ok C P N config sender_key recipient_key"
    and env: "created_envelope C E P config sender_key (lk_id recipient_key)
      (public_keys_of (ko_keys (lk_key_material recipient_key))) message envelope"
  obtains created_at cipher aad ep xk xs kk salt ks kc hs key nonce ct where
    "symmetric_cipher (sc_algorithm cipher) = Some cipher"
    "build_message_aad PROTOCOL_VERSION_V1 created_at (kc_public_addr config) (lk_id sender_key) (lk_id recipient_key)
      (hybrid_kem_alg (va_variant (km_xecdh (ko_keys (lk_key_material recipient_key))))
        (vd_variant (km_ml_kem (ko_keys (lk_key_material recipient_key))))) (sc_algorithm cipher) = Inr aad"
    "load_private_key_der_hex C P (va_private_key_der_hex (km_xecdh (ko_keys (lk_key_material recipient_key)))) = Inr xk"
    "pk_agree P xk ep X_KEY_AGREEMENT_KDF = Inr xs"
    "load_private_key_der_hex C P (vd_private_key_der_hex (km_ml_kem (ko_keys (lk_key_material recipient_key)))) = Inr kk"
    "pk_decapsulate P kk ML_KEM_KDF kc salt HYBRID_SECRET_SIZE_BYTES = Inr ks"
    "derive_message_key C xs ks hs (utf8 aad) (sc_key_size_bytes cipher) = Inr key"
    "decrypt_symmetric E (sc_algorithm cipher) ct key nonce (utf8 aad) = Inr (utf8 message)"
    "length nonce = sc_nonce_size_bytes cipher" "ep \<noteq> []" "kc \<noteq> []" "salt \<noteq> []" "hs \<noteq> []" "nonce \<noteq> []" "ct \<noteq> []"
    "mt_version envelope = PROTOCOL_VERSION_V1"
    "mt_payload envelope = \<lparr>mp_version = PROTOCOL_VERSION_V1, mp_token_type = PROTECTED_MESSAGE_TYPE, mp_created_at = created_at,
      mp_sender = \<lparr>ms_host = kc_public_addr config, ms_kid = lk_id sender_key\<rparr>, mp_recipient_kid = lk_id recipient_key,
      mp_kem = \<lparr>mk_alg = hybrid_kem_alg (va_variant (km_xecdh (ko_keys (lk_key_material recipient_key))))
          (vd_variant (km_ml_kem (ko_keys (lk_key_material recipient_key)))),
        mk_xecdh_ephemeral_public = hex_encode C ep, mk_ml_kem_ciphertext = hex_encode C kc,
        mk_ml_kem_salt = hex_encode C salt, mk_hkdf_salt = hex_encode C hs\<rparr>,
      mp_cipher = \<lparr>mc_alg = sc_algorithm cipher, mc_nonce = hex_encode C nonce, mc_aad = aad, mc_ct = hex_encode C ct\<rparr>\<rparr>"
    "sign_message_payload C P sender_key (mt_payload envelope) = Inr (mt_signatures envelope)"
proof -
  let ?r = "ko_keys (lk_key_material recipient_key)" and ?peer = "public_keys_of (ko_keys (lk_key_material recipient_key))"
  note p = peers [unfolded peers_ok_def]
  have peer: "px_alg (pu_xecdh ?peer) = va_variant (km_xecdh ?r)" "pd_alg (pu_ml_kem ?peer) = vd_variant (km_ml_kem ?r)"
    "px_public_key_hex (pu_xecdh ?peer) = va_public_key_hex (km_xecdh ?r)"
    "pd_public_key_der_hex (pu_ml_kem ?peer) = vd_public_key_der_hex (km_ml_kem ?r)"
    by (simp_all add: public_keys_of_def)
  have version: "kc_protocol_version config = PROTOCOL_VERSION_V1" using p by simp
  from env [unfolded created_envelope_def peer version]
  obtain created_at cipher aad ek ep xp xs kp salt ks kc hs key nonce ct payload where
    c: "symmetric_cipher (vs_variant (km_symmetric (ko_keys (lk_key_material sender_key)))) = Some cipher"
    and aad: "build_message_aad PROTOCOL_VERSION_V1 created_at (kc_public_addr config) (lk_id sender_key)
      (lk_id recipient_key) (hybrid_kem_alg (va_variant (km_xecdh ?r)) (vd_variant (km_ml_kem ?r)))
      (sc_algorithm cipher) = Inr aad"
    and agree: "pk_agreement_public P ek = Inr ep" "hex_decode C (va_public_key_hex (km_xecdh ?r)) = Some xp"
      "pk_agree P ek xp X_KEY_AGREEMENT_KDF = Inr xs"
    and kem: "load_public_key_der_hex C P (vd_public_key_der_hex (km_ml_kem ?r)) = Inr kp"
      "pk_encapsulate P kp ML_KEM_KDF salt HYBRID_SECRET_SIZE_BYTES = Inr (ks, kc)"
    and key: "derive_message_key C xs ks hs (utf8 aad) (sc_key_size_bytes cipher) = Inr key"
    and len: "length salt = 32" "length hs = 32" "length nonce = sc_nonce_size_bytes cipher"
    and ct: "encrypt_symmetric E (sc_algorithm cipher) (utf8 message) key nonce (utf8 aad) = Inr ct"
    and payload: "payload = \<lparr>mp_version = PROTOCOL_VERSION_V1, mp_token_type = PROTECTED_MESSAGE_TYPE, mp_created_at = created_at,
        mp_sender = \<lparr>ms_host = kc_public_addr config, ms_kid = lk_id sender_key\<rparr>, mp_recipient_kid = lk_id recipient_key,
        mp_kem = \<lparr>mk_alg = hybrid_kem_alg (va_variant (km_xecdh ?r)) (vd_variant (km_ml_kem ?r)),
          mk_xecdh_ephemeral_public = hex_encode C ep, mk_ml_kem_ciphertext = hex_encode C kc,
          mk_ml_kem_salt = hex_encode C salt, mk_hkdf_salt = hex_encode C hs\<rparr>,
        mp_cipher = \<lparr>mc_alg = sc_algorithm cipher, mc_nonce = hex_encode C nonce, mc_aad = aad, mc_ct = hex_encode C ct\<rparr>\<rparr>"
    and env': "mt_version envelope = PROTOCOL_VERSION_V1" "mt_payload envelope = payload"
      "sign_message_payload C P sender_key payload = Inr (mt_signatures envelope)"
    by blast
  note cipher = symmetric_cipher_allowed(2) [OF c]
  obtain xk where xk: "load_private_key_der_hex C P (va_private_key_der_hex (km_xecdh ?r)) = Inr xk"
    "pk_agreement_public P xk = Inr xp"
    using p agree(2) by (auto simp: material_ok_def agreement_pair_ok_def)
  obtain kk where kk: "load_private_key_der_hex C P (vd_private_key_der_hex (km_ml_kem ?r)) = Inr kk" "pk_public P kk = Inr kp"
    using p kem(1) by (auto simp: material_ok_def der_pair_ok_def)
  have dec: "decrypt_symmetric E (sc_algorithm cipher) ct key nonce (utf8 aad) = Inr (utf8 message)" and l: "length ct = length (utf8 message) + 16"
    by (fact aead_cipher [OF E c ct])+
  have ne: "salt \<noteq> []" "hs \<noteq> []" "nonce \<noteq> []" "ct \<noteq> []" using len l cipher by auto
  show ?thesis
    by (rule that [OF _ aad xk(1) pk_agrees(2) [OF P agree(1) xk(2) agree(3)] kk(1) pk_decapsulates(2) [OF P kk(2) kem(2)]
          key dec len(3) pk_agrees(1) [OF P agree(1) xk(2) agree(3)] pk_decapsulates(1) [OF P kk(2) kem(2)] ne])
      (use c cipher env' payload in simp_all)
qed

lemma created_envelope_valid:
  assumes C: "hex_format_ok C" and E: "aead_ok E" and P: "pk_ok P" and peers: "peers_ok C P N config sender_key recipient_key"
    and env: "created_envelope C E P config sender_key (lk_id recipient_key)
      (public_keys_of (ko_keys (lk_key_material recipient_key))) message envelope"
  shows "validate_message_envelope N envelope = Inr () \<and>
    validate_message_envelope_for_recipient N recipient_key envelope = Inr ()"
  using E P peers env
proof (cases rule: created_envelopeE)
  case (1 created_at cipher aad ep xk xs kk salt ks kc hs key nonce ct)
  note p = peers [unfolded peers_ok_def] and cipher = 1(1) and payload = 1(16,17) and ne = 1(10-15)
  note sig = signature_blocks [OF C P _ 1(18)]
  have lits: "validate_protocol_version f PROTOCOL_VERSION_V1 = Inr ()"
    "validate_allowed_value f PROTECTED_MESSAGE_TYPE [PROTECTED_MESSAGE_TYPE] = Inr ()" for f
    by (simp_all add: validate_protocol_version_def validate_allowed_value_ok validate_text_field_ok
        PROTOCOL_VERSION_V1_def PROTECTED_MESSAGE_TYPE_def lit_def char_simps)
  have host: "validate_host_port N f (kc_public_addr config) = Inr (kc_public_addr config)" for f
    using p validate_host_port_field by blast
  have algs: "validate_allowed_value f (sb_alg (ts_eddsa (mt_signatures envelope))) EDDSA_ALGORITHMS = Inr ()"
    "validate_allowed_value f (sb_alg (ts_ml_dsa (mt_signatures envelope))) ML_DSA_VARIANTS = Inr ()" for f
    using p sig(1,2) allowed_field by metis+
  have ids: "validate_key_id (lk_id sender_key) = Inr ()" "validate_key_id (lk_id recipient_key) = Inr ()"
    using p by simp_all
  have sigs: "validate_hex_field f (sb_sig (ts_eddsa (mt_signatures envelope))) = Inr ()"
    "validate_hex_field f (sb_sig (ts_ml_dsa (mt_signatures envelope))) = Inr ()" for f
    using p sig(3,4) by blast+
  have valid: "validate_message_envelope N envelope = Inr ()"
    by (simp add: validate_message_envelope_def payload lits host algs ids sigs
        message_aad_text [OF 1(2)] symmetric_cipher_allowed(1) [OF cipher] hex_field_encoded [OF C] ne
        del: validate_key_id_ok)
  then show ?thesis
    by (simp add: validate_message_envelope_for_recipient_def payload cipher hex_encoded(3) [OF C] 1(9))
qed

lemma created_envelope_opens:
  assumes C: "hex_codec_ok C" and E: "aead_ok E" and P: "pk_ok P" and peers: "peers_ok C P N config sender_key recipient_key"
    and env: "created_envelope C E P config sender_key (lk_id recipient_key)
      (public_keys_of (ko_keys (lk_key_material recipient_key))) message envelope"
    and "scalar_str message"
  shows "open_message_cipher C E P recipient_key envelope = Inr message"
  using E P peers env
proof (cases rule: created_envelopeE)
  case (1 created_at cipher aad ep xk xs kk salt ks kc hs key nonce ct)
  then show ?thesis
    using assms(6) by (simp add: open_message_cipher_def hex_codec [OF C] agree_key_def decapsulate_ml_kem_shared_key_def
        decrypted_message_string_def from_utf8_Some)
qed

section \<open>The copy for the application\<close>

definition delivery :: "protected_message_token \<Rightarrow> message_cipher \<Rightarrow> ustr \<Rightarrow> decrypt_message_input" where
  "delivery envelope copy timestamp =
     \<lparr>di_sender_host = ms_host (mp_sender (mt_payload envelope)), di_sender_kid = ms_kid (mp_sender (mt_payload envelope)),
      di_timestamp = timestamp, di_message = \<lparr>mx_ctx = mc_ct copy, mx_nonce = mc_nonce copy, mx_aad = mc_aad copy,
        mx_variant = mc_alg copy\<rparr>\<rparr>"

lemma symmetric_key_valid:
  assumes "symmetric_key_ok C v"
  obtains spec key where "symmetric_cipher (vs_variant v) = Some spec" "hex_decode C (vs_key_hex v) = Some key"
    "length key = sc_key_size_bytes spec" "\<And>f. validate_symmetric_key f (vs_key_hex v) (sc_key_size_bytes spec) = Inr ()"
  using assms symmetric_cipher_allowed(2) by (fastforce simp: symmetric_key_ok_def validate_symmetric_key_ok)

definition aad_text :: "ustr \<Rightarrow> bool" where
  "aad_text v \<longleftrightarrow> \<not> blank v \<and> (\<forall>c \<in> set v. \<not> is_control c) \<and> 59 \<notin> set v \<and> 61 \<notin> set v"

lemma aad_text_kid: "validate_key_id kid = Inr () \<Longrightarrow> aad_text kid"
  using hex_not_delimiter [of kid] by (cases kid) (auto simp: aad_text_def validate_key_id_ok char_simps)

lemma aad_text_cipher: "symmetric_cipher a = Some c \<Longrightarrow> aad_text a"
  using symmetric_cipher_Some [of a c] by (auto simp: aad_text_def)

lemma aad_from_texts:
  "list_all (\<lambda>(k, v). k \<noteq> [] \<and> list_all is_aad_key_char k \<and> aad_text v) fs \<Longrightarrow> build_validated_aad fs = Inr (build_aad fs)"
  by (auto simp: build_validated_aad_ok aad_text_def list_all_iff)

lemma local_copy_decrypts:
  assumes C: "hex_codec_ok C" "hex_format_ok C" and E: "aead_ok E" "aead_total E" and rnd: "random_total rnd"
    and key: "symmetric_key_ok C (km_symmetric (ko_keys (lk_key_material recipient_key)))"
    and valid: "validate_message_envelope N envelope = Inr ()" "mp_recipient_kid (mt_payload envelope) = lk_id recipient_key"
    and get: "get_loaded_key st (lk_id recipient_key) = Inr recipient_key" "require_lifecycle_for_decrypt_or_verify recipient_key = Inr ()"
    and plain: "scalar_str message" "validate_text_field (lit ''timestamp'') timestamp = Inr ()"
  shows "\<exists>copy. encrypt_local_message C E rnd recipient_key message envelope = Inr copy \<and>
    bindR (prepare_decrypt_message N st (delivery envelope copy timestamp)) (decrypt_message C E) = Inr message"
proof -
  let ?p = "mt_payload envelope" and ?v = "km_symmetric (ko_keys (lk_key_material recipient_key))"
  obtain spec k where k: "symmetric_cipher (vs_variant ?v) = Some spec" "hex_decode C (vs_key_hex ?v) = Some k"
    "length k = sc_key_size_bytes spec" "\<And>f. validate_symmetric_key f (vs_key_hex ?v) (sc_key_size_bytes spec) = Inr ()"
    using symmetric_key_valid [OF key] by blast
  note alg = symmetric_cipher_allowed [OF k(1)]
  obtain nonce where nonce: "rnd (sc_nonce_size_bytes spec) = Inr nonce" "length nonce = sc_nonce_size_bytes spec"
    using rnd by (auto simp: random_total_def)
  have v: "validate_key_id (ms_kid (mp_sender ?p)) = Inr ()" "validate_key_id (lk_id recipient_key) = Inr ()"
    "validate_host_port N (lit ''payload.sender.host'') (ms_host (mp_sender ?p)) = Inr (ms_host (mp_sender ?p))"
    "validate_text_field f (mp_created_at ?p) = Inr ()" "mt_version envelope = PROTOCOL_VERSION_V1"
    "aad_text (mp_created_at ?p)" for f
    using valid
    by (auto simp: validate_message_envelope_def bindR_eq_Inr Let_def validate_protocol_version_def validate_allowed_value_ok
        validate_text_field_ok build_message_aad_def build_validated_aad_ok aad_text_def dest: validate_host_port_value split: if_splits)
  define fs where "fs = [(lit ''version'', mt_version envelope), (lit ''type'', lit ''stored-protected-message''),
    (lit ''sender_kid'', ms_kid (mp_sender ?p)), (lit ''recipient_kid'', lk_id recipient_key),
    (lit ''source_created_at'', mp_created_at ?p), (lit ''cipher_alg'', sc_algorithm spec)]"
  have "aad_text (sc_algorithm spec)" "aad_text (ms_kid (mp_sender ?p))" "aad_text (lk_id recipient_key)"
    using alg(2) aad_text_cipher [OF k(1)] v(1,2) aad_text_kid by simp_all
  then have aad: "build_validated_aad fs = Inr (build_aad fs)"
    using v(6) by (intro aad_from_texts) (simp add: fs_def v(5) PROTOCOL_VERSION_V1_def, simp add: aad_text_def lit_def is_aad_key_char_def blank_def char_simps)
  have parse: "parse_aad_fields (build_aad fs) = Inr fs" by (rule aad_roundtrip_aux [OF aad]) (simp add: fs_def)
  have f: "aad_field fs (lit ''type'') = Inr (lit ''stored-protected-message'')"
    "aad_field fs (lit ''sender_kid'') = Inr (ms_kid (mp_sender ?p))"
    "aad_field fs (lit ''recipient_kid'') = Inr (lk_id recipient_key)"
    "aad_field fs (lit ''source_created_at'') = Inr (mp_created_at ?p)"
    "aad_field fs (lit ''cipher_alg'') = Inr (sc_algorithm spec)"
    by (simp_all add: fs_def aad_field_def lit_def)
  obtain ct where ct: "encrypt_symmetric E (sc_algorithm spec) (utf8 message) k nonce (utf8 (build_aad fs)) = Inr ct"
    using E(2) k nonce(2) alg(2) unfolding aead_total_def by metis
  then have dec: "decrypt_symmetric E (sc_algorithm spec) ct k nonce (utf8 (build_aad fs)) = Inr (utf8 message)"
    "ct \<noteq> []"
    using aead_cipher [OF E(1) k(1) ct] by auto
  let ?copy = "\<lparr>mc_alg = sc_algorithm spec, mc_nonce = hex_encode C nonce, mc_aad = build_aad fs, mc_ct = hex_encode C ct\<rparr>"
  have "encrypt_local_message C E rnd recipient_key message envelope = Inr ?copy"
    using ct by (simp add: encrypt_local_message_def k nonce hex_decode_q_def build_stored_protected_message_aad_def fs_def [symmetric] aad)
  moreover have "prepare_decrypt_message N st (delivery envelope ?copy timestamp) =
      Inr (recipient_key, delivery envelope ?copy timestamp)"
  proof -
    have "validate_text_field f (build_aad fs) = Inr ()" for f
      using build_aad_text [OF _ aad] by (simp add: validate_text_field_ok fs_def)
    moreover have "validate_allowed_value f (lit ''stored-protected-message'') [lit ''stored-protected-message''] = Inr ()" for f
      by (simp add: validate_allowed_value_ok validate_text_field_ok lit_def char_simps)
    moreover have "validate_host_port N f (ms_host (mp_sender ?p)) = Inr (ms_host (mp_sender ?p))" for f
      using v(3) validate_host_port_field by blast
    moreover have "nonce \<noteq> []" using nonce(2) alg(2) by auto
    ultimately show ?thesis
      using alg k(1) dec(2) get plain(2) v hex_encoded(3) [OF C(2), of nonce] nonce(2)
      by (simp add: prepare_decrypt_message_def validate_decrypt_message_input_def delivery_def parse f
          check_nonce_length_def hex_field_encoded [OF C(2)] del: validate_key_id_ok)
  qed
  moreover have "decrypt_message C E (recipient_key, delivery envelope ?copy timestamp) = Inr message"
    using alg(2) dec(1) plain(1) hex_codec [OF C(1)]
    by (simp add: decrypt_message_def delivery_def parse f k hex_decode_q_def open_message_text_def
        decrypted_message_string_def from_utf8_Some)
  ultimately show ?thesis by simp
qed

end
