(* ===== verification/Internal_Messages.thy ===== *)
theory Internal_Messages
  imports Messages_Correct
begin

text \<open>
  Messages encrypted for the instance itself, alone or under the seed of a subject: they decrypt to what
  was encrypted, and only under the key id, timestamp, subject and algorithm they were encrypted with.
\<close>

text \<open>The handlers add the material of a subject to a prepared request when the request names one.\<close>

definition with_subject_opt ::
    "('p \<Rightarrow> tokenization_profile \<Rightarrow> ustr \<Rightarrow> ustr \<Rightarrow> 'p result) \<Rightarrow> (tokenization_profile \<times> ustr \<times> ustr) option \<Rightarrow> 'p \<Rightarrow>
     'p result" where
  "with_subject_opt add s p = (case s of None \<Rightarrow> Inr p | Some (origin, subject, envelope) \<Rightarrow> add p origin subject envelope)"

definition encrypt_request ::
    "crates \<Rightarrow> ciphers \<Rightarrow> (nat \<Rightarrow> u8 list result) \<Rightarrow> ustr result \<Rightarrow> keys_db_state \<Rightarrow>
     (tokenization_profile \<times> ustr \<times> ustr) option \<Rightarrow> ustr \<Rightarrow> ustr \<Rightarrow> internal_message_output result" where
  "encrypt_request C E rnd now st s kid plaintext =
     bindR (prepare_internal_encrypt_message st kid plaintext) (\<lambda>p.
     bindR (with_subject_opt encrypt_with_subject s p) (encrypt_internal_message C E rnd now))"

definition decrypt_request ::
    "crates \<Rightarrow> ciphers \<Rightarrow> keys_db_state \<Rightarrow> (tokenization_profile \<times> ustr \<times> ustr) option \<Rightarrow> internal_message_output \<Rightarrow>
     ustr result" where
  "decrypt_request C E st s i =
     bindR (prepare_internal_decrypt_message st i) (\<lambda>p.
     bindR (with_subject_opt decrypt_with_subject s p) (decrypt_internal_message C E))"

definition internal_fields :: "ustr \<Rightarrow> ustr \<Rightarrow> ustr option \<Rightarrow> ustr \<Rightarrow> (ustr \<times> ustr) list" where
  "internal_fields kid timestamp subject alg =
     (case subject of
        None \<Rightarrow> [(lit ''version'', PROTOCOL_VERSION_V1), (lit ''type'', lit ''internal-message''), (lit ''kid'', kid),
          (lit ''timestamp'', timestamp), (lit ''cipher_alg'', alg)]
      | Some s \<Rightarrow> [(lit ''version'', lit ''v1''), (lit ''type'', lit ''subject-symmetric''), (lit ''kid'', kid),
          (lit ''subject'', s), (lit ''timestamp'', timestamp), (lit ''cipher_alg'', alg)])"

lemma internal_fields:
  "aad_field (internal_fields kid timestamp subject alg) (lit ''type'') =
     Inr (if subject \<noteq> None then lit ''subject-symmetric'' else lit ''internal-message'')"
  "aad_field (internal_fields kid timestamp subject alg) (lit ''kid'') = Inr kid"
  "aad_field (internal_fields kid timestamp subject alg) (lit ''timestamp'') = Inr timestamp"
  "aad_field (internal_fields kid timestamp subject alg) (lit ''cipher_alg'') = Inr alg"
  "internal_fields kid timestamp subject alg \<noteq> []"
  by (auto simp: internal_fields_def aad_field_def lit_def split: option.splits)

lemma subject_aad: "build_subject_symmetric_aad kid s timestamp alg = build_validated_aad (internal_fields kid timestamp (Some s) alg)"
  by (simp add: build_subject_symmetric_aad_def internal_fields_def)

lemma internal_aad:
  "(case subject of None \<Rightarrow> build_internal_message_aad kid timestamp alg
    | Some m \<Rightarrow> build_subject_symmetric_aad kid (sm_subject m) timestamp alg) =
   build_validated_aad (internal_fields kid timestamp (map_option sm_subject subject) alg)"
  by (cases subject) (simp_all add: subject_aad build_internal_message_aad_def internal_fields_def)

lemma internal_types: "lit ''subject-symmetric'' \<noteq> lit ''internal-message''"
  by (simp add: lit_def)

lemma get_loaded_key_id:
  assumes "keys_state_ok st" "get_loaded_key st kid = Inr k"
  shows "lk_id k = kid" "validate_key_id kid = Inr ()"
  using assms loaded_keys.get_sound keys_state_from
  by (auto simp: get_loaded_key_def bindR_eq_Inr ok_or_eq_Inr) metis

text \<open>What an encrypted request contains.\<close>

lemma encrypt_requestE:
  assumes "encrypt_request C E rnd now st s kid plaintext = Inr out" and st: "keys_state_ok st"
  obtains k spec key nonce ct timestamp subject aad where
    "validate_key_id kid = Inr ()" "get_loaded_key st kid = Inr k" "lk_id k = kid" "require_lifecycle_for_new_use k = Inr ()"
    "symmetric_cipher (vs_variant (km_symmetric (ko_keys (lk_key_material k)))) = Some spec"
    "validate_symmetric_key (lit ''internal message symmetric key'') (vs_key_hex (km_symmetric (ko_keys (lk_key_material k))))
       (sc_key_size_bytes spec) = Inr ()"
    "internal_key C E k subject = Inr key" "rnd (sc_nonce_size_bytes spec) = Inr nonce"
    "build_validated_aad (internal_fields kid timestamp (map_option sm_subject subject) (sc_algorithm spec)) = Inr aad"
    "encrypt_symmetric E (sc_algorithm spec) (utf8 plaintext) key nonce (utf8 aad) = Inr ct"
    "out = \<lparr>io_timestamp = timestamp, io_kid = kid, io_subject = map_option sm_subject subject,
       io_message = \<lparr>mx_ctx = hex_encode C ct, mx_nonce = hex_encode C nonce, mx_aad = aad, mx_variant = sc_algorithm spec\<rparr>\<rparr>"
    "case s of None \<Rightarrow> subject = None
     | Some (origin, sub, envelope) \<Rightarrow> \<exists>m. subject = Some m \<and> sm_subject m = sub \<and> subject_material k origin sub envelope = Inr m"
proof -
  obtain p q where p: "prepare_internal_encrypt_message st kid plaintext = Inr p"
    and q: "with_subject_opt encrypt_with_subject s p = Inr q" and out: "encrypt_internal_message C E rnd now q = Inr out"
    using assms(1) by (auto simp: encrypt_request_def bindR_eq_Inr)
  obtain k where k: "get_loaded_key st kid = Inr k" "require_lifecycle_for_new_use k = Inr ()"
    "p = \<lparr>pi_key = k, pi_input = plaintext, pi_subject = None\<rparr>"
    using p by (auto simp: prepare_internal_encrypt_message_def validate_internal_encrypt_message_input_def bindR_eq_Inr split: if_splits)
  have q': "pi_key q = k" "pi_input q = plaintext"
    and s: "case s of None \<Rightarrow> pi_subject q = None
     | Some (origin, sub, envelope) \<Rightarrow> \<exists>m. pi_subject q = Some m \<and> sm_subject m = sub \<and> subject_material k origin sub envelope = Inr m"
    using q k(3)
    by (auto simp: with_subject_opt_def encrypt_with_subject_def subject_material_def bindR_eq_Inr split: option.splits prod.splits if_splits)
  note id = get_loaded_key_id [OF st k(1)]
  from out obtain timestamp spec key nonce aad ct where
    "symmetric_cipher (vs_variant (km_symmetric (ko_keys (lk_key_material k)))) = Some spec"
    "validate_symmetric_key (lit ''internal message symmetric key'') (vs_key_hex (km_symmetric (ko_keys (lk_key_material k))))
       (sc_key_size_bytes spec) = Inr ()"
    "internal_key C E k (pi_subject q) = Inr key" "rnd (sc_nonce_size_bytes spec) = Inr nonce"
    "build_validated_aad (internal_fields kid timestamp (map_option sm_subject (pi_subject q)) (sc_algorithm spec)) = Inr aad"
    "encrypt_symmetric E (sc_algorithm spec) (utf8 plaintext) key nonce (utf8 aad) = Inr ct"
    "out = \<lparr>io_timestamp = timestamp, io_kid = kid, io_subject = map_option sm_subject (pi_subject q),
       io_message = \<lparr>mx_ctx = hex_encode C ct, mx_nonce = hex_encode C nonce, mx_aad = aad, mx_variant = sc_algorithm spec\<rparr>\<rparr>"
    by (auto simp: encrypt_internal_message_def bindR_eq_Inr ok_or_eq_Inr Let_def q' id internal_aad)
  then show ?thesis using that id k(1,2) s by blast
qed

lemma internal_roundtrip_aux:
  assumes C: "hex_codec_ok C" "hex_format_ok C" and E: "aead_ok E" and rnd: "random_ok rnd"
    and st: "keys_state_ok st" and plain: "scalar_str plaintext"
    and enc: "encrypt_request C E rnd now st s kid plaintext = Inr out"
  shows "decrypt_request C E st s out = Inr plaintext"
  using enc st
proof (cases rule: encrypt_requestE)
  case (1 k spec key nonce ct timestamp subject aad)
  note alg = symmetric_cipher_allowed [OF 1(5)]
  let ?fs = "internal_fields kid timestamp (map_option sm_subject subject) (sc_algorithm spec)"
  have parse: "parse_aad_fields aad = Inr ?fs" by (rule aad_roundtrip_aux [OF 1(9) internal_fields(5)])
  have texts: "validate_text_field f aad = Inr ()" "validate_text_field f timestamp = Inr ()" for f
    using build_aad_text [OF internal_fields(5) 1(9)] 1(9)
    by (auto simp: validate_text_field_ok build_validated_aad_ok internal_fields_def split: option.splits)
  have types: "validate_allowed_value f t [t] = Inr ()" if "t \<in> {lit ''subject-symmetric'', lit ''internal-message''}" for f t
    using that by (auto simp: validate_allowed_value_ok validate_text_field_ok lit_def char_simps)
  have n: "length nonce = sc_nonce_size_bytes spec" by (rule random_length [OF rnd 1(8)])
  have dec: "decrypt_symmetric E (sc_algorithm spec) ct key nonce (utf8 aad) = Inr (utf8 plaintext)" "ct \<noteq> []" "nonce \<noteq> []"
    using aead_cipher [OF E 1(5) 1(10)] n alg(2) by auto
  have sub: "validate_subject (sm_subject m) = Inr ()" if "subject = Some m" for m
    using 1(12) that by (auto simp: subject_material_def bindR_eq_Inr split: option.splits)
  have "validate_internal_decrypt_message_input out = Inr out"
    using texts types alg 1(1,5,9) parse dec(2,3) n sub
    by (cases subject) (simp_all add: validate_internal_decrypt_message_input_def 1(11) internal_fields hex_field_encoded [OF C(2)]
        check_nonce_length_def hex_encoded(3) [OF C(2)] subject_aad del: validate_key_id_ok)
  moreover have "require_lifecycle_for_decrypt_or_verify k = Inr ()"
    using 1(4) by (auto simp: require_lifecycle_for_new_use_def require_lifecycle_for_decrypt_or_verify_def
        blocked_lifecycle_error_def lifecycle_error_def split: if_splits)
  ultimately have "prepare_internal_decrypt_message st out = Inr \<lparr>pi_key = k, pi_input = out, pi_subject = None\<rparr>"
    using 1(2) by (simp add: prepare_internal_decrypt_message_def 1(11))
  moreover have "with_subject_opt decrypt_with_subject s \<lparr>pi_key = k, pi_input = out, pi_subject = None\<rparr> =
      Inr \<lparr>pi_key = k, pi_input = out, pi_subject = subject\<rparr>"
    using 1(12) by (auto simp: with_subject_opt_def decrypt_with_subject_def 1(11) split: option.splits)
  moreover have "decrypt_internal_message C E \<lparr>pi_key = k, pi_input = out, pi_subject = subject\<rparr> = Inr plaintext"
    using 1(5,6,7) alg dec(1) plain
    by (simp add: decrypt_internal_message_def 1(11) parse internal_fields open_message_text_def hex_codec [OF C(1)]
        decrypted_message_string_def from_utf8_Some)
  ultimately show ?thesis by (simp add: decrypt_request_def)
qed

text \<open>A request that decrypts states the fields of its associated data.\<close>

lemma decrypt_request_fields:
  assumes "decrypt_request C E st s i = Inr x" "mx_aad (io_message i) = aad"
    and "build_validated_aad (internal_fields kid timestamp subject alg) = Inr aad"
  shows "io_kid i = kid \<and> io_timestamp i = timestamp \<and> io_subject i = subject \<and> mx_variant (io_message i) = alg"
proof -
  let ?fs = "internal_fields kid timestamp subject alg"
  have parse: "parse_aad_fields (mx_aad (io_message i)) = Inr ?fs"
    using aad_roundtrip_aux [OF assms(3) internal_fields(5)] assms(2) by simp
  obtain p q where p: "prepare_internal_decrypt_message st i = Inr p" and q: "with_subject_opt decrypt_with_subject s p = Inr q"
    and d: "decrypt_internal_message C E q = Inr x"
    using assms(1) by (auto simp: decrypt_request_def bindR_eq_Inr)
  have v: "validate_internal_decrypt_message_input i = Inr i" "pi_input p = i"
    using p by (auto simp: prepare_internal_decrypt_message_def validate_internal_decrypt_message_input_def Let_def bindR_eq_Inr)
  have qi: "pi_input q = i"
    using q v(2) by (auto simp: with_subject_opt_def decrypt_with_subject_def bindR_eq_Inr split: option.splits if_splits)
  have "io_kid i = kid \<and> io_timestamp i = timestamp \<and> mx_variant (io_message i) = alg"
    using d by (auto simp: decrypt_internal_message_def Let_def qi bindR_eq_Inr parse internal_fields split: if_splits)
  moreover have "io_subject i = subject"
  proof (cases "io_subject i")
    case None
    then show ?thesis
      using v(1) by (auto simp: validate_internal_decrypt_message_input_def Let_def bindR_eq_Inr parse internal_fields
          validate_allowed_value_ok internal_types split: if_splits)
  next
    case (Some t)
    then have "build_validated_aad (internal_fields (io_kid i) (io_timestamp i) (Some t) (mx_variant (io_message i))) = Inr aad"
      using v(1) assms(2) by (auto simp: validate_internal_decrypt_message_input_def Let_def bindR_eq_Inr
          subject_aad split: if_splits)
    then have "internal_fields (io_kid i) (io_timestamp i) (Some t) (mx_variant (io_message i)) = ?fs"
      using assms(3) by (rule build_validated_aad_inj)
    then show ?thesis using Some by (auto simp: internal_fields_def split: option.splits)
  qed
  ultimately show ?thesis by simp
qed

end
