(* ===== verification/Message_Guarantees.thy ===== *)
theory Message_Guarantees
  imports Internal_Messages Key_Guarantees
begin

text \<open>
  The properties of messages: what is sent arrives, what is accepted was signed, and a message
  encrypted for the instance is bound to its context.
\<close>

section \<open>Protected messages\<close>

text \<open>The envelope that was created passes the checks of the recipient.\<close>

lemma message_accepted:
  assumes "hex_codec_ok C" and "hex_format_ok C" and "aead_ok E" and "aead_total E" and "pk_ok P"
    and "random_ok (mr_ml_kem_salt random)" and "random_ok (mr_hkdf_salt random)" and "random_ok (mr_nonce random)"
    and "random_total rnd"
    and "create_key_material C P sender_spec = Inr (lk_key_material sender_key)"
    and "create_key_material C P recipient_spec = Inr (lk_key_material recipient_key)"
    and "kc_protocol_version config = PROTOCOL_VERSION_V1"
    and "validate_host_port N (lit ''public_addr'') (kc_public_addr config) = Inr (kc_public_addr config)"
    and "prepare_send_message sender_keys (lk_id sender_key) i = Inr (sender_key, i)" and "scalar_str (si_message i)"
    and "rk_kid recipient_remote = lk_id recipient_key"
    and "po_keys (rk_keys recipient_remote) = public_keys_of (ko_keys (lk_key_material recipient_key))"
    and "create_message_envelope C E P random create_ephemeral now config sender_key recipient_remote i = Inr envelope"
    and "po_keys (rk_keys sender_remote) = public_keys_of (ko_keys (lk_key_material sender_key))"
    and "validate_remote_public_keys C P N check sender_remote = Inr ()"
    and "get_loaded_key recipient_keys (lk_id recipient_key) = Inr recipient_key"
    and "require_lifecycle_for_decrypt_or_verify recipient_key = Inr ()"
    and "validate_text_field (lit ''timestamp'') timestamp = Inr ()"
  obtains copy where "validate_message_envelope N envelope = Inr ()" "mp_recipient_kid (mt_payload envelope) = lk_id recipient_key"
    "process_received_message C E P N check rnd (recipient_key, envelope) sender_remote = Inr (envelope, copy)"
    "bindR (prepare_decrypt_message N recipient_keys (delivery envelope copy timestamp)) (decrypt_message C E) =
      Inr (si_message i)"
proof -
  have ids: "validate_key_id (lk_id sender_key) = Inr ()" "validate_key_id (lk_id recipient_key) = Inr ()"
    using assms(14,21) by (auto simp: prepare_send_message_def get_loaded_key_def bindR_eq_Inr)
  note material = created_material_ok [OF assms(1,2,5)]
  have algs: "validate_allowed_value f (vd_variant (km_eddsa (ko_keys (lk_key_material sender_key)))) EDDSA_ALGORITHMS = Inr ()"
    "validate_allowed_value f (vd_variant (km_ml_dsa (ko_keys (lk_key_material sender_key)))) ML_DSA_VARIANTS = Inr ()" for f
    using assms(20) by (auto simp: validate_remote_public_keys_def Let_def bindR_eq_Inr assms(19) public_keys_of_def
        intro: allowed_field)
  have peers: "peers_ok C P N config sender_key recipient_key"
    unfolding peers_ok_def using material assms(10-13) ids algs validate_host_port_field by blast
  have env: "created_envelope C E P config sender_key (lk_id recipient_key)
      (public_keys_of (ko_keys (lk_key_material recipient_key))) (si_message i) envelope"
    using create_message_envelope_ok [OF assms(18,6-8)] assms(16,17) by simp
  note valid = created_envelope_valid [OF assms(2,3,5) peers env]
  have kid: "mp_recipient_kid (mt_payload envelope) = lk_id recipient_key"
    and sign: "sign_message_payload C P sender_key (mt_payload envelope) = Inr (mt_signatures envelope)"
    using env by (auto simp: created_envelope_def)
  have "symmetric_key_ok C (km_symmetric (ko_keys (lk_key_material recipient_key)))"
    using material [OF assms(11)] by (simp add: material_ok_def)
  then obtain copy where copy: "encrypt_local_message C E rnd recipient_key (si_message i) envelope = Inr copy"
    "bindR (prepare_decrypt_message N recipient_keys (delivery envelope copy timestamp)) (decrypt_message C E) = Inr (si_message i)"
    using local_copy_decrypts [OF assms(1-4,9) _ _ kid assms(21,22,15,23)] valid by blast
  have "verify_message_signatures C P sender_remote envelope = Inr ()"
    by (rule signatures_verify [OF assms(1,5) material [OF assms(10)] sign assms(19)])
  then have "process_received_message C E P N check rnd (recipient_key, envelope) sender_remote = Inr (envelope, copy)"
    using valid copy(1) assms(20) created_envelope_opens [OF assms(1,3,5) peers env assms(15)]
    by (simp add: process_received_message_def)
  then show ?thesis using that copy(2) valid kid by blast
qed

text \<open>C23: a message arrives. The envelope that the sending instance creates passes the checks of the receiving
  one, whose copy for the application decrypts to the message that was sent. Each instance has the public keys of
  the other's key in its signed configuration, and both keys are made by \<open>create_key_material\<close>.\<close>

theorem message_arrives:
  assumes "hex_codec_ok C" and "hex_format_ok C" and "aead_ok E" and "aead_total E" and "pk_ok P"
    and "random_ok (mr_ml_kem_salt random)" and "random_ok (mr_hkdf_salt random)" and "random_ok (mr_nonce random)"
    and "random_total rnd"
    and "create_key_material C P sender_spec = Inr (lk_key_material sender_key)"
    and "create_key_material C P recipient_spec = Inr (lk_key_material recipient_key)"
    and "kc_protocol_version config = PROTOCOL_VERSION_V1"
    and "validate_host_port N (lit ''public_addr'') (kc_public_addr config) = Inr (kc_public_addr config)"
    and "prepare_send_message sender_keys (lk_id sender_key) i = Inr (sender_key, i)" and "scalar_str (si_message i)"
    and "rk_kid recipient_remote = lk_id recipient_key"
    and "po_keys (rk_keys recipient_remote) = public_keys_of (ko_keys (lk_key_material recipient_key))"
    and "create_message_envelope C E P random create_ephemeral now config sender_key recipient_remote i = Inr envelope"
    and "po_keys (rk_keys sender_remote) = public_keys_of (ko_keys (lk_key_material sender_key))"
    and "validate_remote_public_keys C P N check sender_remote = Inr ()"
    and "get_loaded_key recipient_keys (lk_id recipient_key) = Inr recipient_key"
    and "require_lifecycle_for_decrypt_or_verify recipient_key = Inr ()"
    and "validate_text_field (lit ''timestamp'') timestamp = Inr ()"
  shows "\<exists>copy.
    bindR (prepare_receive_message N recipient_keys envelope) (\<lambda>prepared.
      process_received_message C E P N check rnd prepared sender_remote) = Inr (envelope, copy) \<and>
    bindR (prepare_decrypt_message N recipient_keys (delivery envelope copy timestamp)) (decrypt_message C E) =
      Inr (si_message i)"
proof -
  obtain copy where copy: "validate_message_envelope N envelope = Inr ()" "mp_recipient_kid (mt_payload envelope) = lk_id recipient_key"
    "process_received_message C E P N check rnd (recipient_key, envelope) sender_remote = Inr (envelope, copy)"
    "bindR (prepare_decrypt_message N recipient_keys (delivery envelope copy timestamp)) (decrypt_message C E) = Inr (si_message i)"
    by (rule message_accepted [OF assms])
  have "prepare_receive_message N recipient_keys envelope = Inr (recipient_key, envelope)"
    using copy(1,2) assms(21,22) by (simp add: prepare_receive_message_def)
  then show ?thesis using copy(3,4) by simp
qed

text \<open>C24: what is accepted was signed. The signed text determines every field of the payload (the metadata, the
  encapsulated keys and the ciphertext), both signatures on it verify under the two public keys of the sender in the
  signed configuration, the payload names the key that opens it, and the associated data of the ciphertext is that of the
  metadata.\<close>

theorem message_authentic:
  assumes "json_wire_ok C"
    and "process_received_message C E P N check rnd (recipient_key, envelope) sender = Inr (accepted, copy)"
  shows "accepted = envelope \<and> mp_recipient_kid (mt_payload envelope) = lk_id recipient_key \<and>
    (let p = mt_payload envelope; k = po_keys (rk_keys sender) in
     build_message_aad (mp_version p) (mp_created_at p) (ms_host (mp_sender p)) (ms_kid (mp_sender p)) (mp_recipient_kid p)
       (mk_alg (mp_kem p)) (mc_alg (mp_cipher p)) = Inr (mc_aad (mp_cipher p)) \<and>
     (\<exists>text eddsa ml_dsa eddsa_signature ml_dsa_signature.
        canonical_payload_text C p = Inr text \<and> (\<forall>q. canonical_payload_text C q = Inr text \<longrightarrow> q = p) \<and>
        load_public_key_der_hex C P (pd_public_key_der_hex (pu_eddsa k)) = Inr eddsa \<and>
        load_public_key_der_hex C P (pd_public_key_der_hex (pu_ml_dsa k)) = Inr ml_dsa \<and>
        hex_decode C (sb_sig (ts_eddsa (mt_signatures envelope))) = Some eddsa_signature \<and>
        hex_decode C (sb_sig (ts_ml_dsa (mt_signatures envelope))) = Some ml_dsa_signature \<and>
        verify_message P eddsa text eddsa_signature = Inr True \<and>
        verify_ml_dsa_message P ml_dsa text ml_dsa_signature = Inr True))"
proof -
  have v: "validate_message_envelope_for_recipient N recipient_key envelope = Inr ()"
    "verify_message_signatures C P sender envelope = Inr ()" "accepted = envelope"
    using assms(2) by (auto simp: process_received_message_def bindR_eq_Inr)
  have "validate_message_envelope N envelope = Inr ()" "mp_recipient_kid (mt_payload envelope) = lk_id recipient_key"
    using v(1) by (auto simp: validate_message_envelope_for_recipient_def bindR_eq_Inr Let_def split: if_splits)
  moreover from this(1) have "mt_version envelope = mp_version (mt_payload envelope)"
    and "build_message_aad (mt_version envelope) (mp_created_at (mt_payload envelope)) (ms_host (mp_sender (mt_payload envelope)))
      (ms_kid (mp_sender (mt_payload envelope))) (mp_recipient_kid (mt_payload envelope)) (mk_alg (mp_kem (mt_payload envelope)))
      (mc_alg (mp_cipher (mt_payload envelope))) = Inr (mc_aad (mp_cipher (mt_payload envelope)))"
    by (auto simp: validate_message_envelope_def bindR_eq_Inr Let_def split: if_splits)
  moreover have "\<exists>text eddsa ml_dsa eddsa_signature ml_dsa_signature.
      canonical_payload_text C (mt_payload envelope) = Inr text \<and>
      load_public_key_der_hex C P (pd_public_key_der_hex (pu_eddsa (po_keys (rk_keys sender)))) = Inr eddsa \<and>
      load_public_key_der_hex C P (pd_public_key_der_hex (pu_ml_dsa (po_keys (rk_keys sender)))) = Inr ml_dsa \<and>
      hex_decode C (sb_sig (ts_eddsa (mt_signatures envelope))) = Some eddsa_signature \<and>
      hex_decode C (sb_sig (ts_ml_dsa (mt_signatures envelope))) = Some ml_dsa_signature \<and>
      verify_message P eddsa text eddsa_signature = Inr True \<and>
      verify_ml_dsa_message P ml_dsa text ml_dsa_signature = Inr True"
    using v(2) by (auto simp: verify_message_signatures_def bindR_eq_Inr map_err_eq_Inr ok_or_eq_Inr Let_def split: if_splits)
  ultimately show ?thesis using v(3) payload_text(2) [OF assms(1)] unfolding Let_def by metis
qed

section \<open>An example\<close>

definition sender_key :: loaded_ops_key where
  "sender_key = \<lparr>lk_id = replicate 64 97, lk_aad = [], lk_properties_aad = [], lk_key_material = key_output,
     lk_properties = create_ops_key_properties key_resolved\<rparr>"

definition recipient_key :: loaded_ops_key where "recipient_key = sender_key\<lparr>lk_id := replicate 64 98\<rparr>"

definition open_net :: net where
  "open_net = \<lparr>is_socket_addr = (\<lambda>_. True), is_ip_addr = (\<lambda>_. True), parse_domain_name = (\<lambda>_. Inr ())\<rparr>"

definition remote_of :: "loaded_ops_key \<Rightarrow> remote_public_keys" where
  "remote_of k = \<lparr>rk_host = lit ''h:1'', rk_kid = lk_id k, rk_loaded_at = lit ''7'', rk_info = lit ''i'',
     rk_keys = \<lparr>po_info = lit ''i'', po_keys = public_keys_of (ko_keys (lk_key_material k))\<rparr>\<rparr>"

definition message_input :: send_message_input where
  "message_input = \<lparr>si_recipient_kid = lk_id recipient_key, si_message = lit ''hello''\<rparr>"

definition message_config :: key_config where "message_config = key_settings\<lparr>kc_protocol_version := PROTOCOL_VERSION_V1\<rparr>"

definition message_tape :: message_random where
  "message_tape = \<lparr>mr_ml_kem_salt = fixed_random, mr_hkdf_salt = fixed_random, mr_nonce = fixed_random\<rparr>"

abbreviation example_create :: "protected_message_token result" where
  "example_create \<equiv> create_message_envelope key_crates vault_ciphers key_pk message_tape (\<lambda>_. Inr ()) (Inr (lit ''7''))
     message_config sender_key (remote_of recipient_key) message_input"

lemma key_pk_ok: "pk_ok key_pk"
  by (simp add: pk_ok_def signature_ok_def key_pk_def random_ok_def)

lemma vault_aead_total: "aead_total vault_ciphers" "random_total fixed_random"
  by (simp_all add: aead_total_def vault_ciphers_def random_total_def fixed_random_def)

lemma vault_hex: "hex_encode key_crates bs = concat (map hex_byte bs)" "hex_decode key_crates (concat (map hex_byte bs)) = Some bs"
  by (simp_all add: vault_crates_def example_crates_def unhex_hex)

lemma example_kids: "validate_key_id (replicate 64 97) = Inr ()" "validate_key_id (replicate 64 98) = Inr ()"
  by (simp_all add: validate_key_id_ok list_all_iff char_simps)

lemma sender_material:
  "lk_key_material sender_key = key_output" "lk_key_material recipient_key = key_output"
  "lk_id sender_key = replicate 64 97" "lk_id recipient_key = replicate 64 98"
  by (simp_all add: sender_key_def recipient_key_def)

lemma key_ders:
  "load_private_key_der_hex key_crates key_pk (hex_byte b) = Inr ()" "load_public_key_der_hex key_crates key_pk (hex_byte b) = Inr ()"
  using vault_hex(2) [of "[b]"]
  by (simp_all add: load_private_key_der_hex_def load_public_key_der_hex_def hex_decode_q_def key_pk_def)

lemma example_material:
  "km_symmetric (ko_keys key_output) = \<lparr>vs_variant = lit ''AES-128/GCM'', vs_key_hex = concat (map hex_byte (replicate 16 2))\<rparr>"
  "km_eddsa (ko_keys key_output) =
     \<lparr>vd_variant = lit ''Ed25519'', vd_private_key_der_hex = hex_byte 4, vd_public_key_der_hex = hex_byte 5\<rparr>"
  "km_xecdh (ko_keys key_output) = \<lparr>va_variant = lit ''X25519'', va_private_key_der_hex = hex_byte 4,
     va_public_key_hex = concat (map hex_byte (replicate 32 3))\<rparr>"
  "km_ml_dsa (ko_keys key_output) =
     \<lparr>vd_variant = lit ''ML-DSA-44'', vd_private_key_der_hex = hex_byte 4, vd_public_key_der_hex = hex_byte 5\<rparr>"
  "km_ml_kem (ko_keys key_output) =
     \<lparr>vd_variant = lit ''ML-KEM-512'', vd_private_key_der_hex = hex_byte 4, vd_public_key_der_hex = hex_byte 5\<rparr>"
  by (simp_all add: key_output_def)

lemma example_public:
  "pu_eddsa (public_keys_of (ko_keys key_output)) = \<lparr>pd_alg = lit ''Ed25519'', pd_public_key_der_hex = hex_byte 5\<rparr>"
  "pu_xecdh (public_keys_of (ko_keys key_output)) =
     \<lparr>px_alg = lit ''X25519'', px_public_key_hex = concat (map hex_byte (replicate 32 3))\<rparr>"
  "pu_ml_dsa (public_keys_of (ko_keys key_output)) = \<lparr>pd_alg = lit ''ML-DSA-44'', pd_public_key_der_hex = hex_byte 5\<rparr>"
  "pu_ml_kem (public_keys_of (ko_keys key_output)) = \<lparr>pd_alg = lit ''ML-KEM-512'', pd_public_key_der_hex = hex_byte 5\<rparr>"
  by (simp_all only: public_keys_of_def example_material public_keys.simps variant_der_key_pair.simps
      variant_key_agreement_key_pair.simps)

lemma example_pk: "pk_new_rng key_pk = Inr ()" "pk_sign key_pk k m bs = Inr [9]" "pk_encapsulate key_pk p kdf salt n = Inr ([7], [8])"
  by (simp_all add: key_pk_def)

lemma example_signs: "\<exists>s. sign_message_payload key_crates key_pk sender_key payload = Inr s"
proof -
  obtain t where "canonical_payload_text key_crates payload = Inr t" using payload_text(1) [OF vault_crates_ok(7)] by blast
  then show ?thesis
    by (simp add: sign_message_payload_def sender_material example_material key_ders Let_def
        sign_message_with_rng_def sign_ml_dsa_message_with_rng_def example_pk)
qed

lemma example_envelope: "\<exists>envelope. example_create = Inr envelope"
proof -
  have "symmetric_cipher (vs_variant (km_symmetric (ko_keys key_output))) =
      Some \<lparr>sc_algorithm = lit ''AES-128/GCM'', sc_key_size_bytes = 16, sc_nonce_size_bytes = 12\<rparr>"
    by (simp add: symmetric_cipher_def example_material lit_def)
  moreover have "\<exists>aad. build_message_aad PROTOCOL_VERSION_V1 (lit ''7'') (lit ''h:1'') (replicate 64 97) (replicate 64 98)
      (hybrid_kem_alg (lit ''X25519'') (lit ''ML-KEM-512'')) (lit ''AES-128/GCM'') = Inr aad"
    unfolding build_message_aad_def
    by (rule exI, rule aad_from_texts) (insert aad_text_kid [OF example_kids(1)] aad_text_kid [OF example_kids(2)],
      simp add: PROTOCOL_VERSION_V1_def PROTECTED_MESSAGE_TYPE_def hybrid_kem_alg_def,
      simp add: aad_text_def is_aad_key_char_def blank_def char_simps lit_def)
  moreover have "hex_decode_q key_crates (concat (map hex_byte bs)) = Inr bs" for bs
    by (simp add: hex_decode_q_def vault_hex)
  moreover have "pk_new_rng key_pk = Inr ()" "pk_agreement_public key_pk k = Inr (replicate 32 3)"
    "agree_key key_pk k x = Inr [6]" "encapsulate_ml_kem_shared_key_with_rng key_pk p x n = Inr ([7], [8])" for k x p n
    by (simp_all add: key_pk_def agree_key_def encapsulate_ml_kem_shared_key_with_rng_def)
  moreover have "derive_message_key key_crates x y z w n = Inr (replicate n 5)" for x y z w n
    by (simp add: derive_message_key_def vault_crates_def example_crates_def)
  moreover have "encrypt_symmetric vault_ciphers alg m k n aad = Inr (m @ replicate 16 0)" for alg m k n aad
    by (simp add: vault_ciphers_def)
  moreover have "kc_protocol_version message_config = PROTOCOL_VERSION_V1" "kc_public_addr message_config = lit ''h:1''"
    by (simp_all add: message_config_def key_settings_def)
  ultimately show ?thesis
    using example_signs
    by (auto simp: create_message_envelope_def remote_of_def sender_material message_tape_def fixed_random_def key_ders
        example_public bindR_eq_Inr Let_def simp del: map_replicate)
qed

lemma example_remote: "validate_remote_public_keys key_crates key_pk open_net fixed_random (remote_of sender_key) = Inr ()"
proof -
  have keys: "po_keys (rk_keys (remote_of sender_key)) = public_keys_of (ko_keys key_output)" "rk_kid (remote_of sender_key) = replicate 64 97"
    "rk_info (remote_of sender_key) = lit ''i''" "rk_host (remote_of sender_key) = lit ''h:1''"
    by (simp_all add: remote_of_def sender_material)
  have texts: "validate_text_field f (lit ''i'') = Inr ()" "validate_host_port open_net f (lit ''h:1'') = Inr (lit ''h:1'')" for f
    by (simp_all add: validate_host_port_def open_net_def validate_text_field_def trim_def trim_end_def char_simps lit_def)
  have algs: "validate_allowed_value f (lit ''Ed25519'') EDDSA_ALGORITHMS = Inr ()"
    "validate_allowed_value f (lit ''X25519'') XECDH_ALGORITHMS = Inr ()"
    "validate_allowed_value f (lit ''ML-DSA-44'') ML_DSA_VARIANTS = Inr ()"
    "validate_allowed_value f (lit ''ML-KEM-512'') ML_KEM_VARIANTS = Inr ()" for f
    by (simp_all add: validate_allowed_value_ok validate_text_field_ok EDDSA_ALGORITHMS_def XECDH_ALGORITHMS_def
        ML_DSA_VARIANTS_def ML_KEM_VARIANTS_def lit_def char_simps)
  have hex: "validate_hex_field f (concat (map hex_byte bs)) = Inr ()" if "bs \<noteq> []" for f bs
    using hex_field_encoded [where C = key_crates, OF vault_crates_ok(5) that, of f] by (simp only: vault_hex)
  have hex1: "validate_hex_field f (hex_byte b) = Inr ()" for f b using hex [of "[b]" f] by simp
  have "validate_remote_public_key_material key_crates key_pk fixed_random (remote_of sender_key) = Inr ()"
    using vault_hex(2)
    by (simp add: validate_remote_public_key_material_def keys example_public validate_der_public_key_hex_def key_ders
        validate_x_key_agreement_public_key_hex_def validate_ml_kem_public_key_hex_def hex_decode_q_def example_pk
        fixed_random_def encapsulate_ml_kem_shared_key_def
        encapsulate_ml_kem_shared_key_with_rng_def del: map_replicate)
  then show ?thesis
    using hex by (simp add: validate_remote_public_keys_def keys texts example_kids algs hex1 example_public Let_def
        del: validate_key_id_ok map_replicate)
qed

abbreviation example_delivery :: "protected_message_token \<Rightarrow> message_cipher \<Rightarrow> decrypt_message_input" where
  "example_delivery envelope copy \<equiv> delivery envelope copy (lit ''8'')"

lemma example_facts:
  "create_key_material key_crates key_pk (ri_spec key_resolved) = Inr (lk_key_material sender_key)"
  "create_key_material key_crates key_pk (ri_spec key_resolved) = Inr (lk_key_material recipient_key)"
  "kc_protocol_version message_config = PROTOCOL_VERSION_V1"
  "validate_host_port open_net (lit ''public_addr'') (kc_public_addr message_config) = Inr (kc_public_addr message_config)"
  "prepare_send_message (keys_from_keys [sender_key]) (lk_id sender_key) message_input = Inr (sender_key, message_input)"
  "get_loaded_key (keys_from_keys [recipient_key]) (lk_id recipient_key) = Inr recipient_key"
  "require_lifecycle_for_decrypt_or_verify recipient_key = Inr ()"
  "validate_text_field (lit ''timestamp'') (lit ''8'') = Inr ()" "scalar_str (si_message message_input)"
  "random_ok (mr_ml_kem_salt message_tape)" "random_ok (mr_hkdf_salt message_tape)" "random_ok (mr_nonce message_tape)"
proof -
  show "create_key_material key_crates key_pk (ri_spec key_resolved) = Inr (lk_key_material sender_key)"
    "create_key_material key_crates key_pk (ri_spec key_resolved) = Inr (lk_key_material recipient_key)"
    by (simp_all only: key_create_material sender_material)
  show "kc_protocol_version message_config = PROTOCOL_VERSION_V1"
    "validate_host_port open_net (lit ''public_addr'') (kc_public_addr message_config) = Inr (kc_public_addr message_config)"
    by (simp_all add: message_config_def key_settings_def validate_host_port_def open_net_def validate_text_field_def
        trim_def trim_end_def char_simps lit_def)
  have get: "get_loaded_key (keys_from_keys [k]) (lk_id k) = Inr k" if "validate_key_id (lk_id k) = Inr ()" for k
    using that by (simp add: get_loaded_key_def keys_get_def keys_from_keys_def index_by_name_def list_get_def del: validate_key_id_ok)
  have ids: "validate_key_id (lk_id sender_key) = Inr ()" "validate_key_id (lk_id recipient_key) = Inr ()"
    by (simp_all only: sender_material example_kids)
  have texts: "validate_text_field f (lit ''hello'') = Inr ()" "validate_text_field f (lit ''8'') = Inr ()" for f
    by (simp_all add: validate_text_field_ok lit_def char_simps)
  have active: "require_lifecycle_for_new_use sender_key = Inr ()" "require_lifecycle_for_decrypt_or_verify recipient_key = Inr ()"
    by (simp_all add: require_lifecycle_for_new_use_def require_lifecycle_for_decrypt_or_verify_def lifecycle_status_def
        recipient_key_def sender_key_def create_ops_key_properties_def)
  show "prepare_send_message (keys_from_keys [sender_key]) (lk_id sender_key) message_input = Inr (sender_key, message_input)"
    using get [OF ids(1)] ids active(1)
    by (simp add: prepare_send_message_def validate_send_message_input_def message_input_def texts del: validate_key_id_ok)
  show "get_loaded_key (keys_from_keys [recipient_key]) (lk_id recipient_key) = Inr recipient_key" by (rule get [OF ids(2)])
  show "require_lifecycle_for_decrypt_or_verify recipient_key = Inr ()" by (rule active(2))
  show "validate_text_field (lit ''timestamp'') (lit ''8'') = Inr ()" by (rule texts(2))
  show "scalar_str (si_message message_input)" by (simp add: message_input_def scalar_str_lit)
  show "random_ok (mr_ml_kem_salt message_tape)" "random_ok (mr_hkdf_salt message_tape)" "random_ok (mr_nonce message_tape)"
    by (simp_all add: message_tape_def fixed_random_ok)
qed

lemmas example_params = vault_crates_ok(4) [where vs = "[key_material_json key_output, properties_json (create_ops_key_properties key_resolved)]"]
  vault_crates_ok(5) vault_ciphers_ok(1) vault_aead_total(1) key_pk_ok example_facts(10-12) vault_aead_total(2) example_facts(1-5,9)

lemma example_remotes:
  "rk_kid (remote_of k) = lk_id k" "po_keys (rk_keys (remote_of k)) = public_keys_of (ko_keys (lk_key_material k))"
  by (simp_all add: remote_of_def)

theorem message_arrives_witness:
  "\<exists>envelope copy. example_create = Inr envelope \<and>
     bindR (prepare_receive_message open_net (keys_from_keys [recipient_key]) envelope) (\<lambda>prepared.
       process_received_message key_crates vault_ciphers key_pk open_net fixed_random fixed_random prepared
         (remote_of sender_key)) = Inr (envelope, copy) \<and>
     bindR (prepare_decrypt_message open_net (keys_from_keys [recipient_key]) (example_delivery envelope copy))
       (decrypt_message key_crates vault_ciphers) = Inr (lit ''hello'')"
proof -
  obtain envelope where env: "example_create = Inr envelope" using example_envelope by blast
  have "si_message message_input = lit ''hello''" by (simp add: message_input_def)
  then show ?thesis
    using message_arrives [OF example_params example_remotes env example_remotes(2) example_remote example_facts(6-8)] env by metis
qed

theorem message_authentic_witness:
  "\<exists>envelope text. canonical_payload_text key_crates (mt_payload envelope) = Inr text \<and>
     example_create = Inr envelope \<and> (\<forall>q. canonical_payload_text key_crates q = Inr text \<longrightarrow> q = mt_payload envelope)"
proof -
  obtain envelope where env: "example_create = Inr envelope" using example_envelope by blast
  obtain copy where "process_received_message key_crates vault_ciphers key_pk open_net fixed_random fixed_random
      (recipient_key, envelope) (remote_of sender_key) = Inr (envelope, copy)"
    using message_accepted [OF example_params example_remotes env example_remotes(2) example_remote example_facts(6-8)] by metis
  from message_authentic [OF vault_crates_ok(7) this] show ?thesis using env unfolding Let_def by metis
qed

section \<open>Messages for the instance itself\<close>

text \<open>C27: a message encrypted for the instance, alone or under the seed of a subject, decrypts to its plaintext, and its
  associated data binds it to the key id, the timestamp, the subject and the algorithm: whatever request carries that
  associated data and decrypts, whichever subject it is opened for, states exactly those.\<close>

theorem internal_message_bound:
  assumes "hex_codec_ok C" and "hex_format_ok C" and "aead_ok E" and "random_ok rnd" and "keys_state_ok st"
    and "scalar_str plaintext" and "encrypt_request C E rnd now st s kid plaintext = Inr out"
  shows "io_kid out = kid \<and> decrypt_request C E st s out = Inr plaintext \<and>
    (\<forall>i s' x. mx_aad (io_message i) = mx_aad (io_message out) \<and> decrypt_request C E st s' i = Inr x \<longrightarrow>
       io_kid i = kid \<and> io_timestamp i = io_timestamp out \<and> io_subject i = io_subject out \<and>
       mx_variant (io_message i) = mx_variant (io_message out))"
proof -
  have f: "io_kid out = kid \<and> build_validated_aad (internal_fields kid (io_timestamp out) (io_subject out)
      (mx_variant (io_message out))) = Inr (mx_aad (io_message out))"
    using assms(7,5) by (cases rule: encrypt_requestE) simp
  show ?thesis using internal_roundtrip_aux [OF assms] decrypt_request_fields [OF _ _ conjunct2 [OF f]] f by blast
qed

theorem internal_message_bound_witness:
  "\<exists>out. encrypt_request key_crates vault_ciphers fixed_random (Inr (lit ''7'')) (keys_from_keys [sender_key]) None
       (lk_id sender_key) (lit ''hello'') = Inr out \<and>
     decrypt_request key_crates vault_ciphers (keys_from_keys [sender_key]) None out = Inr (lit ''hello'')"
proof -
  let ?st = "keys_from_keys [sender_key]" and ?kid = "lk_id sender_key"
  have st: "keys_state_ok ?st" by (rule from_keys_ok) simp
  have p: "prepare_internal_encrypt_message ?st ?kid (lit ''hello'') =
      Inr \<lparr>pi_key = sender_key, pi_input = lit ''hello'', pi_subject = None\<rparr>"
  proof -
    have "get_loaded_key ?st ?kid = Inr sender_key" "require_lifecycle_for_new_use sender_key = Inr ()" "validate_key_id ?kid = Inr ()"
      using example_facts(5) by (auto simp: prepare_send_message_def bindR_eq_Inr)
    moreover have "validate_text_field f (lit ''hello'') = Inr ()" "str_len (lit ''hello'') = 5" for f
      using str_len_ascii [of "lit ''hello''"] by (simp_all add: validate_text_field_ok lit_def char_simps is_ascii_def)
    then have "validate_internal_encrypt_message_input (lit ''hello'') = Inr (lit ''hello'')"
      by (simp add: validate_internal_encrypt_message_input_def INTERNAL_MESSAGE_PLAINTEXT_MAX_SIZE_def)
    ultimately show ?thesis by (simp add: prepare_internal_encrypt_message_def del: validate_key_id_ok)
  qed
  have k: "symmetric_key_ok key_crates (km_symmetric (ko_keys (lk_key_material sender_key)))"
    using created_material_ok [OF example_params(1,2,5) example_facts(1)] by (simp add: material_ok_def)
  then obtain spec key where v: "symmetric_cipher (vs_variant (km_symmetric (ko_keys (lk_key_material sender_key)))) = Some spec"
    "hex_decode key_crates (vs_key_hex (km_symmetric (ko_keys (lk_key_material sender_key)))) = Some key"
    "\<And>f. validate_symmetric_key f (vs_key_hex (km_symmetric (ko_keys (lk_key_material sender_key)))) (sc_key_size_bytes spec) = Inr ()"
    using symmetric_key_valid by blast
  have "aad_text ?kid" "aad_text (sc_algorithm spec)"
    using aad_text_kid [OF example_kids(1)] aad_text_cipher [OF v(1)] symmetric_cipher_allowed(2) [OF v(1)] by (simp_all add: sender_material)
  then obtain aad where aad: "build_validated_aad (internal_fields ?kid (lit ''7'') None (sc_algorithm spec)) = Inr aad"
    using aad_from_texts [of "internal_fields ?kid (lit ''7'') None (sc_algorithm spec)"]
    by (simp add: internal_fields_def PROTOCOL_VERSION_V1_def aad_text_def is_aad_key_char_def blank_def char_simps lit_def)
  have "\<exists>out. encrypt_request key_crates vault_ciphers fixed_random (Inr (lit ''7'')) ?st None ?kid (lit ''hello'') = Inr out"
    using v aad by (simp add: encrypt_request_def p with_subject_opt_def encrypt_internal_message_def internal_key_def
        hex_decode_q_def fixed_random_def build_internal_message_aad_def internal_fields_def vault_ciphers_def)
  then show ?thesis
    using internal_message_bound [OF example_params(1-3) fixed_random_ok st, where plaintext = "lit ''hello''"] scalar_str_lit by metis
qed

end
