(* ===== verification/Token_Ops.thy ===== *)
theory Token_Ops
  imports Tokens_Correct Ops_Keys
begin

text \<open>
  \<open>src/ops/tokenization.rs\<close>, \<open>src/ops/batch.rs\<close> and \<open>src/ops/json.rs\<close>: reading, validating, preparing and
  performing requests on random tokens, one at a time and in batches.

  A request is a JSON value. The text of an error of the deserializer is an argument, \<open>serde_error\<close>; random
  bytes and the time of day are arguments of every operation that reads them, in a batch by the index of the item.
\<close>

section \<open>Requests\<close>

definition parse_json_request ::
    "(json \<Rightarrow> ustr) \<Rightarrow> (json \<Rightarrow> 'a option) \<Rightarrow> json \<Rightarrow> ustr \<Rightarrow> 'a result" where
  "parse_json_request serde_error of_json req context =
     bindR (validate_canonical_json_value context req) (\<lambda>_.
       ok_or (invalid_json_input (lit ''invalid '' @ context) (serde_error req)) (of_json req))"

fun value_get :: "json \<Rightarrow> ustr \<Rightarrow> json option" where
  "value_get (JObject fs) k = map_of fs k"
| "value_get _ k = None"

definition opt_value :: "json \<Rightarrow> json option" where
  "opt_value v = (if v = JNull then None else Some v)"

text \<open>A struct that denies unknown fields, whose last field may be optional: from an object with every
  required field, or from an array of the fields in order.\<close>

fun request_struct :: "ustr list \<Rightarrow> ustr option \<Rightarrow> json \<Rightarrow> (json list \<times> json option) option" where
  "request_struct ks opt (JObject fs) =
     (if set (map fst fs) \<subseteq> set ks \<union> set_option opt \<and> distinct (map fst fs)
      then map_option (\<lambda>vs. (vs, Option.bind opt (\<lambda>k. Option.bind (map_of fs k) opt_value)))
             (those (map (map_of fs) ks))
      else None)"
| "request_struct ks opt (JArray vs) =
     (if length vs = length ks then Some (vs, None)
      else if opt \<noteq> None \<and> length vs = Suc (length ks) then Some (butlast vs, opt_value (last vs))
      else None)"
| "request_struct ks opt _ = None"

definition opt_str :: "json option \<Rightarrow> ustr option option" where
  "opt_str v = (case v of None \<Rightarrow> Some None | Some v \<Rightarrow> map_option Some (as_str v))"

fun as_array :: "json \<Rightarrow> json list option" where
  "as_array (JArray vs) = Some vs"
| "as_array _ = None"

section \<open>Batches\<close>

definition oversized_error :: "nat \<Rightarrow> ustr \<Rightarrow> dyn_error" where
  "oversized_error max_items label =
     invalid_input (label @ lit '' batch items exceeds maximum allowed value: '' @ show_nat max_items)"

definition reject_oversized_value :: "json \<Rightarrow> nat \<Rightarrow> ustr \<Rightarrow> unit result" where
  "reject_oversized_value req max_items label =
     (case Option.bind (value_get req (lit ''items'')) as_array of
        Some items \<Rightarrow> if max_items < length items then Inl (oversized_error max_items label) else Inr ()
      | None \<Rightarrow> Inr ())"

definition validate_len :: "nat \<Rightarrow> nat \<Rightarrow> ustr \<Rightarrow> unit result" where
  "validate_len len max_items label =
     (if len = 0 then Inl (invalid_input (label @ lit '' batch items must not be empty''))
      else if max_items < len then Inl (oversized_error max_items label)
      else Inr ())"

definition batch_item :: "nat \<Rightarrow> 'a result \<Rightarrow> 'a result" where
  "batch_item index r = map_err (with_prefix (lit ''batch item '' @ show_nat index @ lit '' failed'')) r"

fun unique_refs_loop :: "ustr \<Rightarrow> nat \<Rightarrow> ustr set \<Rightarrow> ustr list \<Rightarrow> unit result" where
  "unique_refs_loop label index seen [] = Inr ()"
| "unique_refs_loop label index seen (v # vs) =
     (if v \<in> seen then batch_item index (Inl (invalid_input (label @ lit '' batch ref must be unique'')))
      else unique_refs_loop label (Suc index) (insert v seen) vs)"

definition validate_unique_refs :: "ustr list \<Rightarrow> ustr \<Rightarrow> unit result" where
  "validate_unique_refs refs label = unique_refs_loop label 0 {} refs"

text \<open>A loop over the items of a batch that names the item in the error.\<close>

fun batch_map :: "(nat \<Rightarrow> 'a \<Rightarrow> 'b result) \<Rightarrow> nat \<Rightarrow> 'a list \<Rightarrow> 'b list result" where
  "batch_map f index [] = Inr []"
| "batch_map f index (x # xs) =
     bindR (batch_item index (f index x)) (\<lambda>y.
     bindR (batch_map f (Suc index) xs) (\<lambda>ys. Inr (y # ys)))"

section \<open>Inputs\<close>

definition INTERNAL_TOKEN_BATCH :: nat where "INTERNAL_TOKEN_BATCH = 128"
definition TOKEN_METADATA_MAX_CHARS :: nat where "TOKEN_METADATA_MAX_CHARS = 128"

record token_encode_item =
  te_ref :: ustr
  te_plaintext :: ustr
  te_metadata :: "json option"

record token_encode_input =
  tei_profile :: ustr
  tei_item :: token_encode_item

record token_decode_input =
  tdi_ref :: ustr
  tdi_kid :: ustr
  tdi_profile :: ustr
  tdi_token :: ustr
  tdi_subject :: "ustr option"

type_synonym token_delete_input = token_decode_input

record token_encode_batch_input =
  teb_profile :: ustr
  teb_items :: "token_encode_item list"

record token_decode_batch_item =
  tdb_ref :: ustr
  tdb_token :: ustr

record token_decode_batch_input =
  tdb_kid :: ustr
  tdb_profile :: ustr
  tdb_items :: "token_decode_batch_item list"
  tdb_subject :: "ustr option"

definition encode_input_of_json :: "json \<Rightarrow> token_encode_input option" where
  "encode_input_of_json v =
     (case request_struct [lit ''ref'', lit ''profile'', lit ''plaintext''] (Some (lit ''metadata'')) v of
        Some ([r, profile, plaintext], metadata) \<Rightarrow>
          Option.bind (as_str r) (\<lambda>r. Option.bind (as_str profile) (\<lambda>profile. Option.bind (as_str plaintext) (\<lambda>plaintext.
            Some \<lparr>tei_profile = profile, tei_item = \<lparr>te_ref = r, te_plaintext = plaintext, te_metadata = metadata\<rparr>\<rparr>)))
      | _ \<Rightarrow> None)"

definition decode_input_of_json :: "json \<Rightarrow> token_decode_input option" where
  "decode_input_of_json v =
     (case request_struct [lit ''ref'', lit ''kid'', lit ''profile'', lit ''token''] (Some (lit ''subject'')) v of
        Some ([r, kid, profile, token], subject) \<Rightarrow>
          Option.bind (as_str r) (\<lambda>r. Option.bind (as_str kid) (\<lambda>kid. Option.bind (as_str profile) (\<lambda>profile.
          Option.bind (as_str token) (\<lambda>token. Option.bind (opt_str subject) (\<lambda>subject.
            Some \<lparr>tdi_ref = r, tdi_kid = kid, tdi_profile = profile, tdi_token = token, tdi_subject = subject\<rparr>)))))
      | _ \<Rightarrow> None)"

definition encode_item_of_json :: "json \<Rightarrow> token_encode_item option" where
  "encode_item_of_json v =
     (case request_struct [lit ''ref'', lit ''plaintext''] (Some (lit ''metadata'')) v of
        Some ([r, plaintext], metadata) \<Rightarrow>
          Option.bind (as_str r) (\<lambda>r. Option.bind (as_str plaintext) (\<lambda>plaintext.
            Some \<lparr>te_ref = r, te_plaintext = plaintext, te_metadata = metadata\<rparr>))
      | _ \<Rightarrow> None)"

definition encode_batch_of_json :: "json \<Rightarrow> token_encode_batch_input option" where
  "encode_batch_of_json v =
     (case request_struct [lit ''profile'', lit ''items''] None v of
        Some ([profile, items], _) \<Rightarrow>
          Option.bind (as_str profile) (\<lambda>profile.
          Option.bind (Option.bind (as_array items) (\<lambda>vs. those (map encode_item_of_json vs))) (\<lambda>items.
            Some \<lparr>teb_profile = profile, teb_items = items\<rparr>))
      | _ \<Rightarrow> None)"

definition decode_item_of_json :: "json \<Rightarrow> token_decode_batch_item option" where
  "decode_item_of_json v =
     (case request_struct [lit ''ref'', lit ''token''] None v of
        Some ([r, token], _) \<Rightarrow>
          Option.bind (as_str r) (\<lambda>r. Option.bind (as_str token) (\<lambda>token. Some \<lparr>tdb_ref = r, tdb_token = token\<rparr>))
      | _ \<Rightarrow> None)"

definition decode_batch_of_json :: "json \<Rightarrow> token_decode_batch_input option" where
  "decode_batch_of_json v =
     (case request_struct [lit ''kid'', lit ''profile'', lit ''items''] (Some (lit ''subject'')) v of
        Some ([kid, profile, items], subject) \<Rightarrow>
          Option.bind (as_str kid) (\<lambda>kid. Option.bind (as_str profile) (\<lambda>profile.
          Option.bind (Option.bind (as_array items) (\<lambda>vs. those (map decode_item_of_json vs))) (\<lambda>items.
          Option.bind (opt_str subject) (\<lambda>subject.
            Some \<lparr>tdb_kid = kid, tdb_profile = profile, tdb_items = items, tdb_subject = subject\<rparr>))))
      | _ \<Rightarrow> None)"

definition validate_request_metadata :: "json \<Rightarrow> unit result" where
  "validate_request_metadata req =
     (case value_get req (lit ''metadata'') of
        Some metadata \<Rightarrow> validate_canonical_json_value (lit ''metadata'') metadata
      | None \<Rightarrow> Inr ())"

definition parse_encode_input :: "(json \<Rightarrow> ustr) \<Rightarrow> json \<Rightarrow> token_encode_input result" where
  "parse_encode_input serde_error req =
     bindR (validate_request_metadata req) (\<lambda>_.
       parse_json_request serde_error encode_input_of_json req (lit ''token encode request''))"

definition parse_decode_input :: "(json \<Rightarrow> ustr) \<Rightarrow> json \<Rightarrow> token_decode_input result" where
  "parse_decode_input serde_error req =
     parse_json_request serde_error decode_input_of_json req (lit ''token decode request'')"

definition parse_delete_input :: "(json \<Rightarrow> ustr) \<Rightarrow> json \<Rightarrow> token_delete_input result" where
  "parse_delete_input serde_error req =
     parse_json_request serde_error decode_input_of_json req (lit ''token delete request'')"

definition parse_encode_batch_input :: "(json \<Rightarrow> ustr) \<Rightarrow> json \<Rightarrow> token_encode_batch_input result" where
  "parse_encode_batch_input serde_error req =
     bindR (reject_oversized_value req INTERNAL_TOKEN_BATCH (lit ''token'')) (\<lambda>_.
     bindR (case Option.bind (value_get req (lit ''items'')) as_array of
              Some items \<Rightarrow> batch_map (\<lambda>_. validate_request_metadata) 0 items
            | None \<Rightarrow> Inr []) (\<lambda>_.
       parse_json_request serde_error encode_batch_of_json req (lit ''token encode request'')))"

definition parse_decode_batch_input :: "(json \<Rightarrow> ustr) \<Rightarrow> json \<Rightarrow> token_decode_batch_input result" where
  "parse_decode_batch_input serde_error req =
     bindR (reject_oversized_value req INTERNAL_TOKEN_BATCH (lit ''token'')) (\<lambda>_.
       parse_json_request serde_error decode_batch_of_json req (lit ''token decode request''))"

fun is_object :: "json \<Rightarrow> bool" where
  "is_object (JObject _) = True"
| "is_object _ = False"

definition validate_metadata :: "crates \<Rightarrow> json \<Rightarrow> unit result" where
  "validate_metadata C metadata =
     (if \<not> is_object metadata then Inl (invalid_input (lit ''metadata must be a JSON object when present''))
      else
        bindR (ok_or (Foreign (lit ''serde_json'')) (from_utf8 (json_to_vec C metadata))) (\<lambda>serialized.
          if TOKEN_METADATA_MAX_CHARS < length serialized
          then Inl (invalid_input (lit ''metadata exceeds tokenization maximum length''))
          else Inr ()))"

definition validate_encode_item :: "crates \<Rightarrow> token_encode_item \<Rightarrow> token_encode_item result" where
  "validate_encode_item C item =
     bindR (validate_ref (te_ref item)) (\<lambda>ref_id.
     bindR (validate_text_field (lit ''plaintext'') (te_plaintext item)) (\<lambda>_.
     bindR (case te_metadata item of Some metadata \<Rightarrow> validate_metadata C metadata | None \<Rightarrow> Inr ()) (\<lambda>_.
       Inr (item\<lparr>te_ref := ref_id\<rparr>))))"

definition validate_encode_input :: "crates \<Rightarrow> token_encode_input \<Rightarrow> token_encode_input result" where
  "validate_encode_input C i =
     (let item = tei_item i in
      bindR (validate_ref (te_ref item)) (\<lambda>ref_id.
      bindR (validate_aad_config_name (lit ''profile'') (tei_profile i)) (\<lambda>_.
      bindR (validate_text_field (lit ''plaintext'') (te_plaintext item)) (\<lambda>_.
      bindR (case te_metadata item of Some metadata \<Rightarrow> validate_metadata C metadata | None \<Rightarrow> Inr ()) (\<lambda>_.
        Inr (i\<lparr>tei_item := item\<lparr>te_ref := ref_id\<rparr>\<rparr>))))))"

definition validate_decode_input :: "token_decode_input \<Rightarrow> token_decode_input result" where
  "validate_decode_input i =
     bindR (validate_optional_subject (tdi_subject i)) (\<lambda>_.
     bindR (validate_ref (tdi_ref i)) (\<lambda>ref_id.
     bindR (validate_key_id (tdi_kid i)) (\<lambda>_.
     bindR (validate_aad_config_name (lit ''profile'') (tdi_profile i)) (\<lambda>_.
     bindR (validate_text_field (lit ''token'') (tdi_token i)) (\<lambda>_.
       Inr (i\<lparr>tdi_ref := ref_id\<rparr>))))))"

definition validate_delete_input :: "token_delete_input \<Rightarrow> token_delete_input result" where
  "validate_delete_input i = validate_decode_input i"

definition validate_encode_batch_input ::
    "crates \<Rightarrow> token_encode_batch_input \<Rightarrow> token_encode_batch_input result" where
  "validate_encode_batch_input C i =
     bindR (validate_aad_config_name (lit ''profile'') (teb_profile i)) (\<lambda>_.
     bindR (validate_len (length (teb_items i)) INTERNAL_TOKEN_BATCH (lit ''token'')) (\<lambda>_.
     bindR (batch_map (\<lambda>_. validate_encode_item C) 0 (teb_items i)) (\<lambda>items.
     bindR (validate_unique_refs (map te_ref items) (lit ''token'')) (\<lambda>_.
       Inr (i\<lparr>teb_items := items\<rparr>)))))"

definition validate_decode_item :: "token_decode_batch_item \<Rightarrow> token_decode_batch_item result" where
  "validate_decode_item item =
     bindR (validate_ref (tdb_ref item)) (\<lambda>ref_id.
     bindR (validate_text_field (lit ''token'') (tdb_token item)) (\<lambda>_. Inr (item\<lparr>tdb_ref := ref_id\<rparr>)))"

definition validate_decode_batch_input :: "token_decode_batch_input \<Rightarrow> token_decode_batch_input result" where
  "validate_decode_batch_input i =
     bindR (validate_optional_subject (tdb_subject i)) (\<lambda>_.
     bindR (validate_key_id (tdb_kid i)) (\<lambda>_.
     bindR (validate_aad_config_name (lit ''profile'') (tdb_profile i)) (\<lambda>_.
     bindR (validate_len (length (tdb_items i)) INTERNAL_TOKEN_BATCH (lit ''token'')) (\<lambda>_.
     bindR (batch_map (\<lambda>_. validate_decode_item) 0 (tdb_items i)) (\<lambda>items.
     bindR (validate_unique_refs (map tdb_ref items) (lit ''token'')) (\<lambda>_.
       Inr (i\<lparr>tdb_items := items\<rparr>)))))))"

section \<open>Preparing\<close>

record prepared_token_encode =
  pe_kid :: ustr
  pe_profile :: token_context
  pe_input :: token_encode_item

record prepared_token_decode =
  pd_kid :: ustr
  pd_profile :: token_context
  pd_input :: token_decode_input
  pd_data :: ustr

record prepared_token_delete =
  pl_profile :: token_context
  pl_input :: token_delete_input

record prepared_token_encode_batch =
  peb_kid :: ustr
  peb_profile :: token_context
  peb_items :: "token_encode_item list"

record prepared_token_decode_batch =
  pdb_kid :: ustr
  pdb_profile :: token_context
  pdb_items :: "(ustr \<times> ustr \<times> ustr) list"

definition prepare_encode ::
    "keys_db_state \<Rightarrow> ustr \<Rightarrow> token_context \<Rightarrow> token_encode_input \<Rightarrow> prepared_token_encode result" where
  "prepare_encode st kid ctx i =
     bindR (tc_validate_mode ctx (tc_subject ctx)) (\<lambda>_.
     bindR (prepare_profile_use st kid (tp_kid (tc_profile ctx)) (lit ''tokenization'') NewUse) (\<lambda>_.
       if tp_max_plaintext_len (tc_profile ctx) < length (te_plaintext (tei_item i))
       then Inl (invalid_input (lit ''plaintext length exceeds tokenization profile maximum''))
       else Inr \<lparr>pe_kid = kid, pe_profile = ctx, pe_input = tei_item i\<rparr>))"

fun plaintext_len_loop :: "nat \<Rightarrow> nat \<Rightarrow> token_encode_item list \<Rightarrow> unit result" where
  "plaintext_len_loop max_len index [] = Inr ()"
| "plaintext_len_loop max_len index (item # items) =
     (if max_len < length (te_plaintext item)
      then Inl (invalid_input (lit ''batch item '' @ show_nat index @
             lit '' failed: plaintext length exceeds tokenization profile maximum''))
      else plaintext_len_loop max_len (Suc index) items)"

definition prepare_encode_batch ::
    "keys_db_state \<Rightarrow> ustr \<Rightarrow> token_context \<Rightarrow> token_encode_batch_input \<Rightarrow> prepared_token_encode_batch result" where
  "prepare_encode_batch st kid ctx i =
     bindR (tc_validate_mode ctx (tc_subject ctx)) (\<lambda>_.
     bindR (prepare_profile_use st kid (tp_kid (tc_profile ctx)) (lit ''tokenization'') NewUse) (\<lambda>_.
     bindR (plaintext_len_loop (tp_max_plaintext_len (tc_profile ctx)) 0 (teb_items i)) (\<lambda>_.
       Inr \<lparr>peb_kid = kid, peb_profile = ctx, peb_items = teb_items i\<rparr>)))"

definition prepare_decode ::
    "keys_db_state \<Rightarrow> token_context \<Rightarrow> token_decode_input \<Rightarrow> ustr \<Rightarrow> prepared_token_decode result" where
  "prepare_decode st ctx i data =
     bindR (tc_validate_mode ctx (tdi_subject i)) (\<lambda>_.
     bindR (prepare_profile_use st (tdi_kid i) (tp_kid (tc_profile ctx)) (lit ''tokenization'') Verify) (\<lambda>_.
       Inr \<lparr>pd_kid = tdi_kid i, pd_profile = ctx, pd_input = i, pd_data = data\<rparr>))"

definition prepare_delete ::
    "keys_db_state \<Rightarrow> token_context \<Rightarrow> token_delete_input \<Rightarrow> prepared_token_delete result" where
  "prepare_delete st ctx i =
     bindR (tc_validate_mode ctx (tdi_subject i)) (\<lambda>_.
     bindR (prepare_profile_use st (tdi_kid i) (tp_kid (tc_profile ctx)) (lit ''tokenization'') TokenDelete) (\<lambda>_.
       Inr \<lparr>pl_profile = ctx, pl_input = i\<rparr>))"

definition authorize_decode_batch :: "keys_db_state \<Rightarrow> tokenization_profile \<Rightarrow> ustr \<Rightarrow> unit result" where
  "authorize_decode_batch st profile kid =
     prepare_profile_use st kid (tp_kid profile) (lit ''tokenization'') Verify"

definition prepare_decode_batch ::
    "token_context \<Rightarrow> ustr \<Rightarrow> ustr list \<Rightarrow> ustr list \<Rightarrow> ustr list \<Rightarrow> prepared_token_decode_batch result" where
  "prepare_decode_batch ctx kid refs hashids rows =
     bindR (tc_validate_mode ctx (tc_subject ctx)) (\<lambda>_.
       if length rows \<noteq> length hashids
       then Inl (internal (lit ''token decode batch row count does not match hashid count''))
       else if length refs \<noteq> length hashids
       then Inl (internal (lit ''token decode batch ref count does not match hashid count''))
       else Inr \<lparr>pdb_kid = kid, pdb_profile = ctx, pdb_items = zip refs (zip hashids rows)\<rparr>)"

section \<open>Performing\<close>

record token_encode_output =
  eo_ref :: ustr
  eo_kid :: ustr
  eo_profile :: ustr
  eo_token :: ustr
  eo_subject :: "ustr option"

record token_decode_output =
  do_ref :: ustr
  do_plaintext :: ustr
  do_metadata :: "json option"

record token_encode_batch_output =
  ebo_kid :: ustr
  ebo_profile :: ustr
  ebo_items :: "(ustr \<times> ustr) list"
  ebo_subject :: "ustr option"

record token_decode_batch_output =
  dbo_kid :: ustr
  dbo_profile :: ustr
  dbo_items :: "token_decode_output list"

text \<open>The token, its hash id and its encrypted record.\<close>

definition encode_item ::
    "crates \<Rightarrow> ciphers \<Rightarrow> (nat \<Rightarrow> u8 list result) \<Rightarrow> (nat \<Rightarrow> u8 list result) \<Rightarrow> ustr result \<Rightarrow> token_context \<Rightarrow>
     token_encode_item \<Rightarrow> (ustr \<times> ustr \<times> ustr) result" where
  "encode_item C E random_token random_nonce now ctx item =
     bindR (generate_token C random_token (tc_profile ctx)) (\<lambda>token.
     bindR (tc_hash C ctx token) (\<lambda>hashid.
     bindR now (\<lambda>created_at.
     bindR (tc_encrypt C E random_nonce ctx hashid
              \<lparr>tdp_profile = tp_name (tc_profile ctx), tdp_plaintext = te_plaintext item,
               tdp_metadata = te_metadata item, tdp_created_at = created_at\<rparr>) (\<lambda>data.
       Inr (token, hashid, data)))))"

text \<open>The pair is the row to store and the answer (\<open>EncodedTokenRecord\<close>).\<close>

definition encode ::
    "crates \<Rightarrow> ciphers \<Rightarrow> (nat \<Rightarrow> u8 list result) \<Rightarrow> (nat \<Rightarrow> u8 list result) \<Rightarrow> ustr result \<Rightarrow>
     prepared_token_encode \<Rightarrow> (token_row \<times> token_encode_output) result" where
  "encode C E random_token random_nonce now p =
     (let ctx = pe_profile p in
      bindR (encode_item C E random_token random_nonce now ctx (pe_input p)) (\<lambda>(token, hashid, data).
        Inr (\<lparr>tr_kid = pe_kid p, tr_hashid = hashid, tr_data = data, tr_subject = tc_subject ctx\<rparr>,
             \<lparr>eo_ref = te_ref (pe_input p), eo_kid = pe_kid p, eo_profile = tp_name (tc_profile ctx),
              eo_token = token, eo_subject = tc_subject ctx\<rparr>)))"

definition encode_batch ::
    "crates \<Rightarrow> ciphers \<Rightarrow> (nat \<Rightarrow> nat \<Rightarrow> u8 list result) \<Rightarrow> (nat \<Rightarrow> nat \<Rightarrow> u8 list result) \<Rightarrow> (nat \<Rightarrow> ustr result) \<Rightarrow>
     prepared_token_encode_batch \<Rightarrow> (token_row list \<times> token_encode_batch_output) result" where
  "encode_batch C E random_token random_nonce now p =
     (let ctx = peb_profile p in
      bindR (batch_map (\<lambda>index item.
                bindR (encode_item C E (random_token index) (random_nonce index) (now index) ctx item)
                  (\<lambda>(token, hashid, data).
                    Inr (\<lparr>tr_kid = peb_kid p, tr_hashid = hashid, tr_data = data, tr_subject = tc_subject ctx\<rparr>,
                         te_ref item, token)))
              0 (peb_items p)) (\<lambda>encoded.
        Inr (map fst encoded,
             \<lparr>ebo_kid = peb_kid p, ebo_profile = tp_name (tc_profile ctx), ebo_items = map snd encoded,
              ebo_subject = tc_subject ctx\<rparr>)))"

definition decode :: "crates \<Rightarrow> ciphers \<Rightarrow> prepared_token_decode \<Rightarrow> token_decode_output result" where
  "decode C E p =
     bindR (tc_hash C (pd_profile p) (tdi_token (pd_input p))) (\<lambda>hashid.
     bindR (tc_decrypt C E (pd_profile p) hashid (pd_data p)) (\<lambda>payload.
       Inr \<lparr>do_ref = tdi_ref (pd_input p), do_plaintext = tdp_plaintext payload, do_metadata = tdp_metadata payload\<rparr>))"

definition decode_batch :: "crates \<Rightarrow> ciphers \<Rightarrow> prepared_token_decode_batch \<Rightarrow> token_decode_batch_output result" where
  "decode_batch C E p =
     bindR (batch_map (\<lambda>_ (ref_id, hashid, data).
               bindR (tc_decrypt C E (pdb_profile p) hashid data) (\<lambda>payload.
                 Inr \<lparr>do_ref = ref_id, do_plaintext = tdp_plaintext payload, do_metadata = tdp_metadata payload\<rparr>))
             0 (pdb_items p)) (\<lambda>items.
       Inr \<lparr>dbo_kid = pdb_kid p, dbo_profile = tp_name (tc_profile (pdb_profile p)), dbo_items = items\<rparr>)"

definition delete_hashid :: "crates \<Rightarrow> prepared_token_delete \<Rightarrow> (ustr \<times> ustr) result" where
  "delete_hashid C p =
     bindR (tc_hash C (pl_profile p) (tdi_token (pl_input p))) (\<lambda>hashid. Inr (tdi_ref (pl_input p), hashid))"

end
