(* ===== verification/Http_Server.thy ===== *)
theory Http_Server
  imports Token_Ops Permissions Audit_Chain
begin

text \<open>
  The parts of the HTTP server that every endpoint shares: \<open>src/io/http/error.rs\<close> (the answer to an error),
  \<open>src/io/http/auth.rs\<close> (authentication by API key), \<open>src/core/audit.rs\<close> (the audit events of a request),
  \<open>src/core/blocking.rs\<close> (admission of cryptographic work, here as its outcome) and, of
  \<open>src/io/http/mod.rs\<close>, authorization and loading a key on demand.

  A handler is an operation on \<open>http_state\<close>: the database, the keys in memory, the number of admissions
  so far and the audit events enqueued, in order. What a request sees and does not change is \<open>http_env\<close>: the
  snapshot of the signed configuration, the derived keys, and the outcomes of the database and of the admission.
  Logging and metrics are left out.
\<close>

section \<open>Answers to errors\<close>

type_synonym http_error = "nat \<times> ustr"

definition MAX_ERROR_MESSAGE_CHARS :: nat where "MAX_ERROR_MESSAGE_CHARS = 256"

definition sanitize_error_message :: "ustr \<Rightarrow> ustr" where
  "sanitize_error_message message =
     (let sanitized = take MAX_ERROR_MESSAGE_CHARS (filter (\<lambda>c. \<not> is_control c) message) in
      if sanitized = [] then lit ''request rejected'' else sanitized)"

text \<open>A panic is not an error value: in a blocking task it becomes one (below), elsewhere it ends the
  connection without an answer.\<close>

fun status_for_error :: "dyn_error \<Rightarrow> nat" where
  "status_for_error (Vectis TokenDecodeBatchTooLarge) = 413"
| "status_for_error (Vectis (InvalidInput _)) = 400"
| "status_for_error (Vectis (InvalidSignature _)) = 400"
| "status_for_error (Vectis (ConfigSignatureStale _)) = 400"
| "status_for_error (Vectis (NotFound _)) = 404"
| "status_for_error (Vectis (Conflict _)) = 409"
| "status_for_error (Vectis (Forbidden _)) = 403"
| "status_for_error (Vectis (Overloaded _)) = 429"
| "status_for_error (Vectis (RemoteUnreachable _)) = 500"
| "status_for_error (Vectis (Storage _)) = 500"
| "status_for_error (Vectis (Internal _)) = 500"
| "status_for_error (Io IoInvalidInput _) = 400"
| "status_for_error (Io IoNotFound _) = 404"
| "status_for_error (Io IoPermissionDenied _) = 403"
| "status_for_error (Io IoOther _) = 500"
| "status_for_error (Foreign _) = 500"
| "status_for_error (Panic _) = 500"

definition public_error_message :: "nat \<Rightarrow> ustr" where
  "public_error_message status =
     (if status = 400 then lit ''invalid request''
      else if status = 401 then lit ''unauthorized''
      else if status = 403 then lit ''forbidden''
      else if status = 404 then lit ''not found''
      else if status = 409 then lit ''conflict''
      else if status = 429 then lit ''too many requests''
      else lit ''internal server error'')"

definition public_error_message_for_error :: "nat \<Rightarrow> dyn_error \<Rightarrow> ustr" where
  "public_error_message_for_error status err =
     (if status = 400 \<or> status = 403 then to_string err
      else case err of
        Vectis TokenDecodeBatchTooLarge \<Rightarrow> to_string err
      | Vectis (NotFound message) \<Rightarrow> message
      | Vectis (Conflict message) \<Rightarrow> message
      | Vectis (RemoteUnreachable _) \<Rightarrow> lit ''internal server error final app can'' @ [39] @ lit ''t be reached''
      | _ \<Rightarrow> public_error_message status)"

definition error_response :: "dyn_error \<Rightarrow> http_error" where
  "error_response err =
     (let status = status_for_error err in
      (status, sanitize_error_message (public_error_message_for_error status err)))"

section \<open>State\<close>

record http_state =
  hs_storage :: storage
  hs_keys :: keys_db_state
  hs_admissions :: nat
  hs_audit :: "audit_event list"

record http_env =
  he_permissions :: permissions_state
  he_tokenization :: tokenization_profiles_state
  he_internal_keys :: internal_derived_keys_state
  he_root_hash :: "(ustr \<times> u8 list) option"
  he_storage_env :: storage_env
  he_admission :: "nat \<Rightarrow> dyn_error option"
  he_request_id :: ustr
  he_serde_error :: "json \<Rightarrow> ustr"

type_synonym ('e, 'a) hop = "(http_state, 'e, 'a) op"

definition on_storage :: "('e, 'a) sop \<Rightarrow> ('e, 'a) hop" where
  "on_storage m s = (case m (hs_storage s) of (d, r) \<Rightarrow> (s\<lparr>hs_storage := d\<rparr>, r))"

definition with_keys_db_state :: "(keys_db_state \<Rightarrow> 'a result) \<Rightarrow> (dyn_error, 'a) hop" where
  "with_keys_db_state f s = (s, f (hs_keys s))"

definition spawn_blocking_crypto :: "http_env \<Rightarrow> 'a result \<Rightarrow> (dyn_error, 'a) hop" where
  "spawn_blocking_crypto env f s =
     (let s' = s\<lparr>hs_admissions := Suc (hs_admissions s)\<rparr> in
      case he_admission env (hs_admissions s) of
        Some err \<Rightarrow> (s', Inl err)
      | None \<Rightarrow>
          (s', case f of
                 Inl (Panic m) \<Rightarrow> Inl (internal (lit ''crypto blocking task failed: '' @ m))
               | _ \<Rightarrow> f))"

section \<open>Audit events\<close>

record actor =
  at_name :: ustr
  at_fingerprint :: ustr
  at_root :: bool
  at_admin :: bool

definition actor_from_client :: "authenticated_client \<Rightarrow> actor" where
  "actor_from_client client =
     \<lparr>at_name = ac_client client, at_fingerprint = take 8 (ac_apikey_hash client), at_root = ac_root client,
      at_admin = ac_admin client\<rparr>"

definition audit_event_of ::
    "http_env \<Rightarrow> ustr \<Rightarrow> ustr \<Rightarrow> actor option \<Rightarrow> ustr option \<Rightarrow> ustr option \<Rightarrow> ustr option \<Rightarrow> ustr option \<Rightarrow> audit_event" where
  "audit_event_of env event_name outcome actor kid remote_kid action reason =
     \<lparr>ev_event = event_name, ev_outcome = outcome,
      ev_actor = (case actor of Some a \<Rightarrow> at_name a | None \<Rightarrow> []),
      ev_actor_fp = (case actor of Some a \<Rightarrow> at_fingerprint a | None \<Rightarrow> []),
      ev_root = (case actor of Some a \<Rightarrow> at_root a | None \<Rightarrow> False),
      ev_admin = (case actor of Some a \<Rightarrow> at_admin a | None \<Rightarrow> False),
      ev_kid = (case kid of Some v \<Rightarrow> v | None \<Rightarrow> []),
      ev_remote_kid = (case remote_kid of Some v \<Rightarrow> v | None \<Rightarrow> []),
      ev_action = (case action of Some v \<Rightarrow> v | None \<Rightarrow> []),
      ev_reason = (case reason of Some v \<Rightarrow> v | None \<Rightarrow> []),
      ev_request_id = he_request_id env\<rparr>"

definition record_event :: "audit_event \<Rightarrow> ('e, unit) hop" where
  "record_event event s = (s\<lparr>hs_audit := hs_audit s @ [event]\<rparr>, Inr ())"

definition auth_success :: "http_env \<Rightarrow> actor \<Rightarrow> audit_event" where
  "auth_success env actor = audit_event_of env (lit ''auth.success'') (lit ''allow'') (Some actor) None None None None"

definition auth_denied :: "http_env \<Rightarrow> ustr \<Rightarrow> audit_event" where
  "auth_denied env reason = audit_event_of env (lit ''auth.denied'') (lit ''deny'') None None None None (Some reason)"

definition permission_allowed_event :: "http_env \<Rightarrow> actor \<Rightarrow> ustr option \<Rightarrow> ustr \<Rightarrow> audit_event" where
  "permission_allowed_event env actor kid action =
     audit_event_of env (lit ''permission.allowed'') (lit ''allow'') (Some actor) kid None (Some action) None"

definition permission_denied_event :: "http_env \<Rightarrow> actor \<Rightarrow> ustr option \<Rightarrow> ustr \<Rightarrow> ustr \<Rightarrow> audit_event" where
  "permission_denied_event env actor kid action reason =
     audit_event_of env (lit ''permission.denied'') (lit ''deny'') (Some actor) kid None (Some action) (Some reason)"

definition operation_success :: "http_env \<Rightarrow> ustr \<Rightarrow> actor option \<Rightarrow> ustr option \<Rightarrow> ustr option \<Rightarrow> ustr option \<Rightarrow> audit_event" where
  "operation_success env event_name actor kid remote_kid action =
     audit_event_of env event_name (lit ''success'') actor kid remote_kid action None"

definition operation_denied ::
    "http_env \<Rightarrow> ustr \<Rightarrow> actor \<Rightarrow> ustr option \<Rightarrow> ustr option \<Rightarrow> ustr option \<Rightarrow> ustr \<Rightarrow> audit_event" where
  "operation_denied env event_name actor kid remote_kid action reason =
     audit_event_of env event_name (lit ''deny'') (Some actor) kid remote_kid action (Some reason)"

definition operation_failed ::
    "http_env \<Rightarrow> ustr \<Rightarrow> actor option \<Rightarrow> ustr option \<Rightarrow> ustr option \<Rightarrow> ustr option \<Rightarrow> ustr \<Rightarrow> audit_event" where
  "operation_failed env event_name actor kid remote_kid action reason =
     audit_event_of env event_name (lit ''failure'') actor kid remote_kid action (Some reason)"

text \<open>A step of a handler whose error is audited and answered.\<close>

definition crypto_failed_response ::
    "http_env \<Rightarrow> ustr \<Rightarrow> actor option \<Rightarrow> ustr option \<Rightarrow> ustr option \<Rightarrow> (dyn_error, 'a) hop \<Rightarrow> (http_error, 'a) hop" where
  "crypto_failed_response env event actor kid action m s =
     (case m s of
        (s', Inr x) \<Rightarrow> (s', Inr x)
      | (s', Inl err) \<Rightarrow>
          (s'\<lparr>hs_audit := hs_audit s' @ [operation_failed env event actor kid None action (to_string err)]\<rparr>,
           Inl (error_response err)))"

section \<open>Authentication\<close>

definition auth_from_config :: "crates \<Rightarrow> ustr \<Rightarrow> (ustr \<times> u8 list) option result" where
  "auth_from_config C configured_hash =
     (if configured_hash = [] then Inr None
      else
        bindR (map_err (\<lambda>err. invalid_input (lit ''VECTIS_APIKEY_HASH could not be decoded: '' @ to_string err))
                 (hex_decode_q C configured_hash)) (\<lambda>bytes.
          Inr (Some (configured_hash, bytes))))"

text \<open>\<open>HeaderValue::to_str\<close>: visible ASCII and the tab only.\<close>

definition header_to_str :: "u8 list \<Rightarrow> ustr option" where
  "header_to_str bs = (if list_all (\<lambda>b. b = 9 \<or> 32 \<le> b \<and> b < 127) bs then Some (map unat bs) else None)"

definition deny :: "http_env \<Rightarrow> string \<Rightarrow> (http_error, 'a) hop" where
  "deny env reason =
     bindS (record_event (auth_denied env (lit reason))) (\<lambda>_.
       liftS (Inl (401, sanitize_error_message (public_error_message 401))))"

definition allow :: "http_env \<Rightarrow> authenticated_client \<Rightarrow> (http_error, authenticated_client) hop" where
  "allow env client =
     bindS (record_event (auth_success env (actor_from_client client))) (\<lambda>_. retS client)"

definition authorize_api_key ::
    "crates \<Rightarrow> http_env \<Rightarrow> u8 list option \<Rightarrow> (http_error, authenticated_client) hop" where
  "authorize_api_key C env header =
     (case header of
        None \<Rightarrow> deny env ''missing api key''
      | Some bs \<Rightarrow>
     (case header_to_str bs of
        None \<Rightarrow> deny env ''malformed api key''
      | Some v \<Rightarrow>
     (case validate_hash_hex_field (lit ''X-API-Key'') v INTERNAL_KEYS_HASH of
        Inl _ \<Rightarrow> deny env ''malformed api key''
      | Inr _ \<Rightarrow>
     (case bindR (api_key_hash C (he_internal_keys env) v) (hex_decode_q C) of
        Inl _ \<Rightarrow> deny env ''authentication error''
      | Inr candidate_hash \<Rightarrow>
     (case he_root_hash env of
        Some (root_hash_hex, expected_hash) \<Rightarrow>
          if constant_time_eq candidate_hash expected_hash then allow env (ac_root_client root_hash_hex)
          else (case authenticate_hash (he_permissions env) (hex_encode C candidate_hash) of
                  Some client \<Rightarrow> allow env client
                | None \<Rightarrow> deny env ''unknown api key'')
      | None \<Rightarrow>
          (case authenticate_hash (he_permissions env) (hex_encode C candidate_hash) of
             Some client \<Rightarrow> allow env client
           | None \<Rightarrow> deny env ''unknown api key''))))))"

definition require_permission_for ::
    "http_env \<Rightarrow> authenticated_client \<Rightarrow> ustr option \<Rightarrow> ustr \<Rightarrow> ustr option \<Rightarrow> (http_error, unit) hop" where
  "require_permission_for env client kid action denied_event =
     (let actor = actor_from_client client in
      case require_permission (he_permissions env) client kid action of
        Inr _ \<Rightarrow> record_event (permission_allowed_event env actor kid action)
      | Inl err \<Rightarrow>
          (let reason = to_string err in
           bindS (record_event (permission_denied_event env actor kid action reason)) (\<lambda>_.
           bindS (case denied_event of
                    Some event_name \<Rightarrow> record_event (operation_denied env event_name actor kid None (Some action) reason)
                  | None \<Rightarrow> retS ()) (\<lambda>_.
             liftS (Inl (error_response err))))))"

section \<open>Keys on demand\<close>

text \<open>One request at a time: the single flight of concurrent requests for a key runs this loader once and
  shares its outcome.\<close>

definition ensure_keys_db_entry :: "crates \<Rightarrow> ciphers \<Rightarrow> http_env \<Rightarrow> ustr \<Rightarrow> (dyn_error, unit) hop" where
  "ensure_keys_db_entry C E env key_id =
     bindS (liftS (validate_key_id key_id)) (\<lambda>_.
     bindS (with_keys_db_state (\<lambda>st. Inr (keys_get st key_id \<noteq> None))) (\<lambda>loaded.
       if loaded then retS ()
       else
         bindS (on_storage (load_keys_db_entry C E (he_storage_env env) (he_internal_keys env) key_id)) (\<lambda>loaded_key s.
           case insert_if_absent (hs_keys s) loaded_key of
             Inl err \<Rightarrow> (s, Inl err)
           | Inr (st, _) \<Rightarrow> (s\<lparr>hs_keys := st\<rparr>, Inr ()))))"

end
