(* ===== verification/Token_Endpoints.thy ===== *)
theory Token_Endpoints
  imports Http_Server Subjects
begin

text \<open>
  \<open>src/io/http/token.rs\<close> and, of \<open>src/io/http/subject.rs\<close> with \<open>src/ops/subjects.rs\<close>, the context of a subject and
  the creation and erasure of subjects: the handlers of the token service, from the API key of the request to
  the answer.
\<close>

section \<open>Subjects\<close>

definition write_guard :: "token_context \<Rightarrow> subject_write_guard option" where
  "write_guard ctx =
     (case (tc_subject ctx, tc_subject_seed ctx) of
        (Some subject, Some seed) \<Rightarrow> Some \<lparr>wg_kid = tp_kid (tc_profile ctx), wg_subject = subject, wg_seed = seed\<rparr>
      | _ \<Rightarrow> None)"

definition token_context_for ::
    "crates \<Rightarrow> ciphers \<Rightarrow> http_env \<Rightarrow> tokenization_profile \<Rightarrow> ustr \<Rightarrow> ustr option \<Rightarrow> profile_use \<Rightarrow>
     (dyn_error, token_context) hop" where
  "token_context_for C E env profile kid subject use_kind =
     bindS (liftS (validate_token_subject_mode profile subject)) (\<lambda>_.
     bindS (with_keys_db_state (\<lambda>st. prepare_profile_use st kid (tp_kid profile) (lit ''tokenization'') use_kind)) (\<lambda>_.
       case subject of
         None \<Rightarrow> retS (tc_from_profile profile)
       | Some subject \<Rightarrow>
           bindS (on_storage (get_subject C (he_storage_env env) kid subject)) (\<lambda>row.
             spawn_blocking_crypto env
               (bindR (open_seed C E profile (sr_subject row) (sr_seed row)) (\<lambda>keys.
                  Inr (with_subject_generation (tc_with_subject profile keys) (sr_seed row)))))))"

record create_subject_input =
  cs_profile :: ustr
  cs_subject_name :: ustr

record create_subject_output =
  co_kid :: ustr
  co_profile :: ustr
  co_subject :: ustr

definition create_subject_of_json :: "json \<Rightarrow> create_subject_input option" where
  "create_subject_of_json v =
     (case request_struct [lit ''profile'', lit ''subject_name''] None v of
        Some ([profile, name], _) \<Rightarrow>
          Option.bind (as_str profile) (\<lambda>profile. Option.bind (as_str name) (\<lambda>name.
            Some \<lparr>cs_profile = profile, cs_subject_name = name\<rparr>))
      | _ \<Rightarrow> None)"

definition parse_create_input :: "(json \<Rightarrow> ustr) \<Rightarrow> json \<Rightarrow> create_subject_input result" where
  "parse_create_input serde_error v =
     parse_json_request serde_error create_subject_of_json v (lit ''subject create request'')"

definition validate_create_input :: "create_subject_input \<Rightarrow> create_subject_input result" where
  "validate_create_input i =
     bindR (validate_aad_config_name (lit ''profile'') (cs_profile i)) (\<lambda>_.
     bindR (validate_subject_name (cs_subject_name i)) (\<lambda>_. Inr i))"

definition prepare_create ::
    "keys_db_state \<Rightarrow> ustr \<Rightarrow> tokenization_profile \<Rightarrow> create_subject_input \<Rightarrow>
     (tokenization_profile \<times> create_subject_input) result" where
  "prepare_create st kid profile i =
     bindR (validate_key_id kid) (\<lambda>_.
       if tp_subject_mode profile \<noteq> Stored \<or> tp_name profile \<noteq> cs_profile i
       then Inl (invalid_input (lit ''subject creation requires a stored tokenization profile''))
       else
         bindR (prepare_profile_use st kid (tp_kid profile) (lit ''tokenization'') NewUse) (\<lambda>_. Inr (profile, i)))"

definition subject_identifier :: "crates \<Rightarrow> tokenization_profile \<times> create_subject_input \<Rightarrow> ustr result" where
  "subject_identifier C prepared = subject_id C (fst prepared) (cs_subject_name (snd prepared))"

definition existing_output :: "tokenization_profile \<times> create_subject_input \<Rightarrow> ustr \<Rightarrow> create_subject_output" where
  "existing_output prepared subject =
     \<lparr>co_kid = tp_kid (fst prepared), co_profile = tp_name (fst prepared), co_subject = subject\<rparr>"

definition create_subject ::
    "crates \<Rightarrow> ciphers \<Rightarrow> (nat \<Rightarrow> u8 list result) \<Rightarrow> (nat \<Rightarrow> u8 list result) \<Rightarrow>
     tokenization_profile \<times> create_subject_input \<Rightarrow> (subject_row \<times> create_subject_output) result" where
  "create_subject C E random_seed random_nonce prepared =
     bindR (subject_id C (fst prepared) (cs_subject_name (snd prepared))) (\<lambda>subject.
     bindR (create_seed C E random_seed random_nonce (fst prepared) subject) (\<lambda>seed.
       Inr (\<lparr>sr_kid = tp_kid (fst prepared), sr_subject = subject, sr_seed = seed\<rparr>,
            \<lparr>co_kid = tp_kid (fst prepared), co_profile = tp_name (fst prepared), co_subject = subject\<rparr>)))"

definition profile_not_found :: "tokenization_profile option \<Rightarrow> (dyn_error, tokenization_profile) hop" where
  "profile_not_found profile = liftS (ok_or (invalid_input (lit ''tokenization profile not found'')) profile)"

text \<open>The pair is the status (201 when the subject is new) and the answer.\<close>

definition create_subject_endpoint ::
    "crates \<Rightarrow> ciphers \<Rightarrow> http_env \<Rightarrow> (nat \<Rightarrow> u8 list result) \<Rightarrow> (nat \<Rightarrow> u8 list result) \<Rightarrow> u8 list option \<Rightarrow> ustr \<Rightarrow> json \<Rightarrow>
     (http_error, nat \<times> create_subject_output) hop" where
  "create_subject_endpoint C E env random_seed random_nonce header kid v =
     bindS (authorize_api_key C env header) (\<lambda>client.
     let actor = Some (actor_from_client client); action = lit ''subject-create''; event = lit ''subject.create.failed'';
         success = record_event (operation_success env (lit ''subject.create.success'') actor (Some kid) None (Some action)) in
     bindS (crypto_failed_response env event actor (Some kid) (Some action)
              (liftS (validate_key_id kid))) (\<lambda>_.
     bindS (require_permission_for env client (Some kid) action (Some (lit ''subject.create.denied''))) (\<lambda>_.
     bindS (crypto_failed_response env event actor (Some kid) (Some action)
              (liftS (bindR (parse_create_input (he_serde_error env) v) validate_create_input))) (\<lambda>i.
     bindS (crypto_failed_response env event actor (Some kid) (Some action)
              (profile_not_found (tokenization_get (he_tokenization env) (cs_profile i)))) (\<lambda>profile.
     bindS (crypto_failed_response env event actor (Some kid) (Some action)
              (ensure_keys_db_entry C E env kid)) (\<lambda>_.
     bindS (crypto_failed_response env event actor (Some kid) (Some action)
              (with_keys_db_state (\<lambda>st. prepare_create st kid profile i))) (\<lambda>prepared.
     bindS (crypto_failed_response env event actor (Some kid) (Some action)
              (liftS (subject_identifier C prepared))) (\<lambda>subject.
     bindS (crypto_failed_response env event actor (Some kid) (Some action)
              (on_storage (subject_exists (he_storage_env env) kid subject))) (\<lambda>exists.
       if exists then bindS success (\<lambda>_. retS (200, existing_output prepared subject))
       else
         bindS (crypto_failed_response env event actor (Some kid) (Some action)
                  (spawn_blocking_crypto env (create_subject C E random_seed random_nonce prepared))) (\<lambda>(row, output).
         bindS (crypto_failed_response env event actor (Some kid) (Some action)
                  (on_storage (save_subject C (he_storage_env env) row))) (\<lambda>created.
         bindS success (\<lambda>_. retS (if created then 201 else 200, output)))))))))))))"

definition delete_subject_endpoint ::
    "crates \<Rightarrow> http_env \<Rightarrow> u8 list option \<Rightarrow> ustr \<Rightarrow> ustr \<Rightarrow> (http_error, nat) hop" where
  "delete_subject_endpoint C env header kid subject =
     bindS (authorize_api_key C env header) (\<lambda>client.
     let actor = Some (actor_from_client client); action = lit ''subject-delete'';
         event = lit ''subject.delete.failed'' in
     bindS (crypto_failed_response env event actor (Some kid) (Some action) (liftS (validate_key_id kid))) (\<lambda>_.
     bindS (crypto_failed_response env event actor (Some kid) (Some action) (liftS (validate_subject subject))) (\<lambda>_.
     bindS (require_permission_for env client (Some kid) action (Some (lit ''subject.delete.denied''))) (\<lambda>_.
     bindS (crypto_failed_response env event actor (Some kid) (Some action)
              (on_storage (delete_subject (he_storage_env env) kid subject))) (\<lambda>_.
     bindS (record_event (operation_success env (lit ''subject.delete.success'') actor (Some kid) None (Some action))) (\<lambda>_.
       retS 204))))))"

section \<open>Tokens, one at a time\<close>

definition token_encode_endpoint ::
    "crates \<Rightarrow> ciphers \<Rightarrow> http_env \<Rightarrow> (nat \<Rightarrow> u8 list result) \<Rightarrow> (nat \<Rightarrow> u8 list result) \<Rightarrow> ustr result \<Rightarrow> u8 list option \<Rightarrow>
     ustr \<Rightarrow> ustr option \<Rightarrow> json \<Rightarrow> (http_error, token_encode_output) hop" where
  "token_encode_endpoint C E env random_token random_nonce now header kid subject v =
     bindS (authorize_api_key C env header) (\<lambda>client.
     let action = lit ''token-encode''; actor = Some (actor_from_client client); event = lit ''token.encode.failed'' in
     bindS (require_permission_for env client (Some kid) action (Some (lit ''token.encode.denied''))) (\<lambda>_.
     bindS (crypto_failed_response env event actor (Some kid) (Some action) (liftS (validate_key_id kid))) (\<lambda>_.
     bindS (crypto_failed_response env event actor (Some kid) (Some action) (ensure_keys_db_entry C E env kid)) (\<lambda>_.
     bindS (crypto_failed_response env event actor (Some kid) (Some action)
              (liftS (bindR (parse_encode_input (he_serde_error env) v) (validate_encode_input C)))) (\<lambda>i.
     bindS (crypto_failed_response env event actor (Some kid) (Some action)
              (profile_not_found (tokenization_get (he_tokenization env) (tei_profile i)))) (\<lambda>profile.
     bindS (crypto_failed_response env event actor (Some kid) (Some action)
              (token_context_for C E env profile kid subject NewUse)) (\<lambda>ctx.
     bindS (crypto_failed_response env event actor (Some kid) (Some action)
              (with_keys_db_state (\<lambda>st. prepare_encode st kid ctx i))) (\<lambda>prepared.
     bindS (crypto_failed_response env event actor (Some kid) (Some action)
              (spawn_blocking_crypto env (encode C E random_token random_nonce now prepared))) (\<lambda>(row, output).
     bindS (crypto_failed_response env event actor (Some kid) (Some action)
              (on_storage (save_token_for_subject C (he_storage_env env) (tr_kid row) (tr_hashid row) (tr_data row)
                 (tr_subject row) (map_option wg_seed (write_guard ctx))))) (\<lambda>_.
     bindS (record_event (operation_success env (lit ''token.encode.success'') actor (Some kid) None (Some action))) (\<lambda>_.
       retS output)))))))))))"

definition token_delete_endpoint ::
    "crates \<Rightarrow> ciphers \<Rightarrow> http_env \<Rightarrow> u8 list option \<Rightarrow> json \<Rightarrow> (http_error, ustr) hop" where
  "token_delete_endpoint C E env header v =
     bindS (authorize_api_key C env header) (\<lambda>client.
     let action = lit ''token-delete''; actor = Some (actor_from_client client); event = lit ''token.delete.failed'' in
     bindS (crypto_failed_response env event actor None (Some action)
              (liftS (bindR (parse_delete_input (he_serde_error env) v) validate_delete_input))) (\<lambda>i.
     let kid = tdi_kid i in
     bindS (require_permission_for env client (Some kid) action (Some (lit ''token.delete.denied''))) (\<lambda>_.
     bindS (crypto_failed_response env event actor (Some kid) (Some action) (ensure_keys_db_entry C E env kid)) (\<lambda>_.
     bindS (crypto_failed_response env event actor (Some kid) (Some action)
              (profile_not_found (tokenization_get (he_tokenization env) (tdi_profile i)))) (\<lambda>profile.
     bindS (crypto_failed_response env event actor (Some kid) (Some action)
              (token_context_for C E env profile kid (tdi_subject i) TokenDelete)) (\<lambda>ctx.
     bindS (crypto_failed_response env event actor (Some kid) (Some action)
              (with_keys_db_state (\<lambda>st. prepare_delete st ctx i))) (\<lambda>prepared.
     bindS (crypto_failed_response env event actor (Some kid) (Some action)
              (spawn_blocking_crypto env (delete_hashid C prepared))) (\<lambda>(ref_id, hashid).
     bindS (crypto_failed_response env event actor (Some kid) (Some action)
              (on_storage (delete_token_for_subject (he_storage_env env) kid hashid (tdi_subject i)))) (\<lambda>_.
     bindS (record_event (operation_success env (lit ''token.delete.success'') actor (Some kid) None (Some action))) (\<lambda>_.
       retS ref_id))))))))))"

definition token_decode_endpoint ::
    "crates \<Rightarrow> ciphers \<Rightarrow> http_env \<Rightarrow> u8 list option \<Rightarrow> json \<Rightarrow> (http_error, token_decode_output) hop" where
  "token_decode_endpoint C E env header v =
     bindS (authorize_api_key C env header) (\<lambda>client.
     let action = lit ''token-decode''; event = lit ''token.decode.failed'' in
     bindS (crypto_failed_response env event None None (Some action)
              (liftS (bindR (parse_decode_input (he_serde_error env) v) validate_decode_input))) (\<lambda>i.
     let kid = tdi_kid i; actor = Some (actor_from_client client) in
     bindS (require_permission_for env client (Some kid) action (Some (lit ''token.decode.denied''))) (\<lambda>_.
     bindS (crypto_failed_response env event actor (Some kid) (Some action) (ensure_keys_db_entry C E env kid)) (\<lambda>_.
     bindS (crypto_failed_response env event actor (Some kid) (Some action)
              (profile_not_found (tokenization_get (he_tokenization env) (tdi_profile i)))) (\<lambda>profile.
     bindS (crypto_failed_response env event actor (Some kid) (Some action)
              (token_context_for C E env profile kid (tdi_subject i) Verify)) (\<lambda>ctx.
     bindS (crypto_failed_response env event actor (Some kid) (Some action)
              (spawn_blocking_crypto env (tc_hash C ctx (tdi_token i)))) (\<lambda>hashid.
     bindS (crypto_failed_response env event actor (Some kid) (Some action)
              (on_storage (get_token C (he_storage_env env) kid hashid))) (\<lambda>row.
     bindS (crypto_failed_response env event actor (Some kid) (Some action)
              (liftS (if tr_subject row \<noteq> tdi_subject i
                      then Inl (internal (lit ''stored token subject does not match request'')) else Inr ()))) (\<lambda>_.
     bindS (crypto_failed_response env event actor (Some kid) (Some action)
              (with_keys_db_state (\<lambda>st. prepare_decode st ctx i (tr_data row)))) (\<lambda>prepared.
     bindS (crypto_failed_response env event actor (Some kid) (Some action)
              (spawn_blocking_crypto env (decode C E prepared))) (\<lambda>output.
     bindS (if tp_one_time profile
            then crypto_failed_response env event actor (Some kid) (Some action)
                   (on_storage (delete_token_for_subject (he_storage_env env) kid hashid (tdi_subject i)))
            else retS ()) (\<lambda>_.
     bindS (record_event (operation_success env (lit ''token.decode.success'') actor (Some kid) None (Some action))) (\<lambda>_.
       retS output)))))))))))))"

section \<open>Batches of tokens\<close>

definition TOKEN_DECODE_BATCH_MAX_ENVELOPE_BYTES :: nat where
  "TOKEN_DECODE_BATCH_MAX_ENVELOPE_BYTES = 5 * 1024 * 1024"

definition token_encode_batch_endpoint ::
    "crates \<Rightarrow> ciphers \<Rightarrow> http_env \<Rightarrow> (nat \<Rightarrow> nat \<Rightarrow> u8 list result) \<Rightarrow> (nat \<Rightarrow> nat \<Rightarrow> u8 list result) \<Rightarrow>
     (nat \<Rightarrow> ustr result) \<Rightarrow> u8 list option \<Rightarrow> ustr \<Rightarrow> ustr option \<Rightarrow> json \<Rightarrow> (http_error, token_encode_batch_output) hop" where
  "token_encode_batch_endpoint C E env random_token random_nonce now header kid subject v =
     bindS (authorize_api_key C env header) (\<lambda>client.
     let action = lit ''token-encode''; actor = Some (actor_from_client client);
         event = lit ''token.encode.batch.failed'' in
     bindS (require_permission_for env client (Some kid) action (Some (lit ''token.encode.batch.denied''))) (\<lambda>_.
     bindS (crypto_failed_response env event actor (Some kid) (Some action) (liftS (validate_key_id kid))) (\<lambda>_.
     bindS (crypto_failed_response env event actor (Some kid) (Some action) (ensure_keys_db_entry C E env kid)) (\<lambda>_.
     bindS (crypto_failed_response env event actor (Some kid) (Some action)
              (liftS (bindR (parse_encode_batch_input (he_serde_error env) v) (validate_encode_batch_input C)))) (\<lambda>i.
     bindS (crypto_failed_response env event actor (Some kid) (Some action)
              (profile_not_found (tokenization_get (he_tokenization env) (teb_profile i)))) (\<lambda>profile.
     bindS (crypto_failed_response env event actor (Some kid) (Some action)
              (token_context_for C E env profile kid subject NewUse)) (\<lambda>ctx.
     bindS (crypto_failed_response env event actor (Some kid) (Some action)
              (with_keys_db_state (\<lambda>st. prepare_encode_batch st kid ctx i))) (\<lambda>prepared.
     bindS (crypto_failed_response env event actor (Some kid) (Some action)
              (spawn_blocking_crypto env (encode_batch C E random_token random_nonce now prepared))) (\<lambda>(rows, output).
     bindS (crypto_failed_response env event actor (Some kid) (Some action)
              (on_storage (save_tokens_batch_guarded C (he_storage_env env) rows
                 (case write_guard ctx of Some guard \<Rightarrow> [guard] | None \<Rightarrow> [])))) (\<lambda>_.
     bindS (record_event (operation_success env (lit ''token.encode.batch.success'') actor (Some kid) None (Some action))) (\<lambda>_.
       retS output)))))))))))"

fun duplicated_token_loop :: "nat \<Rightarrow> ustr set \<Rightarrow> ustr list \<Rightarrow> unit result" where
  "duplicated_token_loop index seen [] = Inr ()"
| "duplicated_token_loop index seen (hashid # hashids) =
     (if hashid \<in> seen
      then batch_item index (Inl (invalid_input (lit ''token batch contains duplicated token'')))
      else duplicated_token_loop (Suc index) (insert hashid seen) hashids)"

fun found_data_loop :: "ustr option \<Rightarrow> nat \<Rightarrow> token_row option list \<Rightarrow> ustr list result" where
  "found_data_loop subject index [] = Inr []"
| "found_data_loop subject index (row # rows) =
     (case row of
        None \<Rightarrow> batch_item index (Inl (not_found (lit ''token not found'')))
      | Some data \<Rightarrow>
          if tr_subject data \<noteq> subject then Inl (internal (lit ''stored token subject does not match request''))
          else bindR (found_data_loop subject (Suc index) rows) (\<lambda>found. Inr (tr_data data # found)))"

text \<open>\<open>hashid_indexes\<close> maps every hash id of the request to its position.\<close>

definition map_token_batch_consume_error :: "(ustr \<rightharpoonup> nat) \<Rightarrow> token_batch_consume_error \<Rightarrow> dyn_error" where
  "map_token_batch_consume_error hashid_indexes err =
     (case err of
        MissingToken hashid \<Rightarrow>
          (case hashid_indexes hashid of
             Some index \<Rightarrow> not_found (lit ''batch item '' @ show_nat index @ lit '' failed: token not found'')
           | None \<Rightarrow> internal (lit ''token batch consume returned an unknown token''))
      | OtherError err \<Rightarrow> err)"

definition consume_found ::
    "http_env \<Rightarrow> ustr \<Rightarrow> ustr list \<Rightarrow> ustr option \<Rightarrow> (dyn_error, unit) hop" where
  "consume_found env kid hashids subject s =
     (case on_storage (consume_tokens_batch_for_subject (he_storage_env env) kid hashids subject) s of
        (s', Inr x) \<Rightarrow> (s', Inr x)
      | (s', Inl err) \<Rightarrow> (s', Inl (map_token_batch_consume_error (index_by_name (\<lambda>h. h) hashids) err)))"

definition token_decode_batch_endpoint ::
    "crates \<Rightarrow> ciphers \<Rightarrow> http_env \<Rightarrow> u8 list option \<Rightarrow> json \<Rightarrow> (http_error, token_decode_batch_output) hop" where
  "token_decode_batch_endpoint C E env header v =
     bindS (authorize_api_key C env header) (\<lambda>client.
     let action = lit ''token-decode''; event = lit ''token.decode.batch.failed'' in
     bindS (crypto_failed_response env event None None (Some action)
              (liftS (bindR (parse_decode_batch_input (he_serde_error env) v) validate_decode_batch_input))) (\<lambda>i.
     let kid = tdb_kid i; actor = Some (actor_from_client client) in
     bindS (require_permission_for env client (Some kid) action (Some (lit ''token.decode.batch.denied''))) (\<lambda>_.
     bindS (crypto_failed_response env event actor (Some kid) (Some action) (ensure_keys_db_entry C E env kid)) (\<lambda>_.
     bindS (crypto_failed_response env event actor (Some kid) (Some action)
              (profile_not_found (tokenization_get (he_tokenization env) (tdb_profile i)))) (\<lambda>profile.
     bindS (crypto_failed_response env event actor (Some kid) (Some action)
              (with_keys_db_state (\<lambda>st. authorize_decode_batch st profile kid))) (\<lambda>_.
     bindS (crypto_failed_response env event actor (Some kid) (Some action)
              (token_context_for C E env profile kid (tdb_subject i) Verify)) (\<lambda>ctx.
     bindS (crypto_failed_response env event actor (Some kid) (Some action)
              (spawn_blocking_crypto env (batch_map (\<lambda>_. tc_hash C ctx) 0 (map tdb_token (tdb_items i))))) (\<lambda>hashids.
     bindS (crypto_failed_response env event actor (Some kid) (Some action)
              (liftS (if tp_one_time profile then duplicated_token_loop 0 {} hashids else Inr ()))) (\<lambda>_.
     bindS (crypto_failed_response env event actor (Some kid) (Some action)
              (on_storage (get_tokens_batch C (he_storage_env env) kid hashids TOKEN_DECODE_BATCH_MAX_ENVELOPE_BYTES))) (\<lambda>found.
     bindS (crypto_failed_response env event actor (Some kid) (Some action)
              (liftS (found_data_loop (tdb_subject i) 0 found))) (\<lambda>rows.
     bindS (crypto_failed_response env event actor (Some kid) (Some action)
              (liftS (prepare_decode_batch ctx kid (map tdb_ref (tdb_items i)) hashids rows))) (\<lambda>prepared.
     bindS (crypto_failed_response env event actor (Some kid) (Some action)
              (spawn_blocking_crypto env (decode_batch C E prepared))) (\<lambda>output.
     bindS (if tp_one_time profile
            then crypto_failed_response env event actor (Some kid) (Some action) (consume_found env kid hashids (tdb_subject i))
            else retS ()) (\<lambda>_.
     bindS (record_event (operation_success env (lit ''token.decode.batch.success'') actor (Some kid) None (Some action))) (\<lambda>_.
       retS output)))))))))))))))"

end
