(* ===== verification/Http_Correct.thy ===== *)
theory Http_Correct
  imports Token_Endpoints
begin

text \<open>
  Reasoning about handlers: what a step may change, what it audits, and which permission it needs. Each is a
  judgement on operations with one rule for every way the handlers are put together.
\<close>

named_theorems handler_intros \<open>rules of the judgements on handlers\<close>

section \<open>The service\<close>

text \<open>The requests of the token service and the random bytes and times one request reads.\<close>

datatype token_request =
    CreateSubject ustr json
  | EraseSubject ustr ustr
  | EncodeToken ustr "ustr option" json
  | EncodeTokens ustr "ustr option" json
  | DecodeToken json
  | DecodeTokens json
  | DeleteToken json

datatype token_answer =
    SubjectCreated nat create_subject_output
  | SubjectErased nat
  | TokenEncoded token_encode_output
  | TokensEncoded token_encode_batch_output
  | TokenDecoded token_decode_output
  | TokensDecoded token_decode_batch_output
  | TokenDeleted ustr

record request_tape =
  rt_first :: "nat \<Rightarrow> nat \<Rightarrow> u8 list result"
  rt_nonce :: "nat \<Rightarrow> nat \<Rightarrow> u8 list result"
  rt_now :: "nat \<Rightarrow> ustr result"

definition answering :: "('a \<Rightarrow> 'b) \<Rightarrow> ('e, 'a) hop \<Rightarrow> ('e, 'b) hop" where
  "answering f m = bindS m (\<lambda>x. retS (f x))"

definition handle ::
    "crates \<Rightarrow> ciphers \<Rightarrow> http_env \<Rightarrow> request_tape \<Rightarrow> u8 list option \<Rightarrow> token_request \<Rightarrow> (http_error, token_answer) hop" where
  "handle C E env tape header r =
     (case r of
        CreateSubject kid v \<Rightarrow>
          answering (case_prod SubjectCreated) (create_subject_endpoint C E env (rt_first tape 0) (rt_nonce tape 0) header kid v)
      | EraseSubject kid subject \<Rightarrow> answering SubjectErased (delete_subject_endpoint C env header kid subject)
      | EncodeToken kid subject v \<Rightarrow>
          answering TokenEncoded
            (token_encode_endpoint C E env (rt_first tape 0) (rt_nonce tape 0) (rt_now tape 0) header kid subject v)
      | EncodeTokens kid subject v \<Rightarrow>
          answering TokensEncoded
            (token_encode_batch_endpoint C E env (rt_first tape) (rt_nonce tape) (rt_now tape) header kid subject v)
      | DecodeToken v \<Rightarrow> answering TokenDecoded (token_decode_endpoint C E env header v)
      | DecodeTokens v \<Rightarrow> answering TokensDecoded (token_decode_batch_endpoint C E env header v)
      | DeleteToken v \<Rightarrow> answering TokenDeleted (token_delete_endpoint C E env header v))"

fun action_of :: "token_request \<Rightarrow> ustr" where
  "action_of (CreateSubject _ _) = lit ''subject-create''"
| "action_of (EraseSubject _ _) = lit ''subject-delete''"
| "action_of (EncodeToken _ _ _) = lit ''token-encode''"
| "action_of (EncodeTokens _ _ _) = lit ''token-encode''"
| "action_of (DecodeToken _) = lit ''token-decode''"
| "action_of (DecodeTokens _) = lit ''token-decode''"
| "action_of (DeleteToken _) = lit ''token-delete''"

lemmas endpoint_defs = create_subject_endpoint_def delete_subject_endpoint_def token_encode_endpoint_def
  token_encode_batch_endpoint_def token_decode_endpoint_def token_decode_batch_endpoint_def token_delete_endpoint_def

section \<open>Audit\<close>

text \<open>A step that writes no event.\<close>

definition silent :: "('e, 'a) hop \<Rightarrow> bool" where
  "silent m \<longleftrightarrow> (\<forall>s s' r. m s = (s', r) \<longrightarrow> hs_audit s' = hs_audit s)"

abbreviation succeeded :: "audit_event \<Rightarrow> bool" where
  "succeeded e \<equiv> ev_outcome e = lit ''success''"

text \<open>A step that ends the handler with an event of another outcome than success, or goes on.\<close>

definition audited_step :: "('e, 'a) hop \<Rightarrow> bool" where
  "audited_step m \<longleftrightarrow> (\<forall>s s' r. m s = (s', r) \<longrightarrow> (\<exists>es. hs_audit s' = hs_audit s @ es \<and>
     (case r of Inl _ \<Rightarrow> es \<noteq> [] \<and> \<not> succeeded (last es) | Inr _ \<Rightarrow> True)))"

text \<open>A handler whose last event says success exactly when its answer does.\<close>

definition audited :: "('e, 'a) hop \<Rightarrow> bool" where
  "audited m \<longleftrightarrow> (\<forall>s s' r. m s = (s', r) \<longrightarrow> (\<exists>es. hs_audit s' = hs_audit s @ es \<and> es \<noteq> [] \<and>
     (succeeded (last es) \<longleftrightarrow> \<not> isl r)))"

lemma silent_intros [handler_intros]:
  "silent (retS x)" "silent (liftS r)" "silent (on_storage m)" "silent (with_keys_db_state f)"
  "silent (spawn_blocking_crypto env g)" "silent (profile_not_found p)"
  by (auto simp: silent_def retS_def liftS_def on_storage_def with_keys_db_state_def spawn_blocking_crypto_def
      profile_not_found_def Let_def split: prod.splits option.splits)

lemma silent_bind [handler_intros]: "silent m \<Longrightarrow> (\<And>x. silent (f x)) \<Longrightarrow> silent (bindS m f)"
  unfolding silent_def bindS_def by (auto split: prod.splits sum.splits)

lemma silent_if [handler_intros]: "silent m \<Longrightarrow> silent n \<Longrightarrow> silent (if b then m else n)"
  by simp

lemma silent_consume_found [handler_intros]: "silent (consume_found env kid hashids subject)"
  using silent_intros(3) by (fastforce simp: silent_def consume_found_def split: prod.splits sum.splits)

lemma silent_ensure_keys [handler_intros]: "silent (ensure_keys_db_entry C E env key_id)"
  unfolding ensure_keys_db_entry_def by (intro handler_intros) (auto simp: silent_def split: sum.splits prod.splits)

lemma silent_token_context [handler_intros]: "silent (token_context_for C E env profile kid subject use_kind)"
  unfolding token_context_for_def by (cases subject) (auto intro!: handler_intros)

lemma audited_step_intros [handler_intros]:
  "silent m \<Longrightarrow> audited_step (crypto_failed_response env event actor kid action m)"
  "audited_step (require_permission_for env client kid required denied)"
  "audited_step (authorize_api_key C env header)"
  "audited_step (retS x)"
proof -
  show "audited_step (crypto_failed_response env event actor kid action m)" if "silent m"
    using that by (fastforce simp: audited_step_def silent_def crypto_failed_response_def operation_failed_def
        audit_event_of_def lit_def split: prod.splits sum.splits)
  show "audited_step (require_permission_for env client kid required denied)"
    by (auto simp: audited_step_def require_permission_for_def record_event_def Let_def bindS_def retS_def liftS_def
        permission_denied_event_def operation_denied_def audit_event_of_def lit_def split: sum.splits option.splits)
  have "audited_step (deny env reason)" "audited_step (allow env client)" for reason client
    by (auto simp: audited_step_def deny_def allow_def record_event_def bindS_def retS_def liftS_def auth_denied_def
        audit_event_of_def lit_def)
  then show "audited_step (authorize_api_key C env header)"
    by (auto simp: authorize_api_key_def split: option.splits sum.splits)
  show "audited_step (retS x)" by (auto simp: audited_step_def retS_def)
qed

lemma audited_step_if [handler_intros]: "audited_step m \<Longrightarrow> audited_step n \<Longrightarrow> audited_step (if b then m else n)"
  by simp

lemma audited_bind:
  assumes "audited_step m" "\<And>x. audited (f x)"
  shows "audited (bindS m f)"
  unfolding audited_def
proof (intro allI impI)
  fix s s' r
  assume run: "bindS m f s = (s', r)"
  obtain s1 r1 where m: "m s = (s1, r1)" by (cases "m s")
  then obtain es where es: "hs_audit s1 = hs_audit s @ es"
    "case r1 of Inl _ \<Rightarrow> es \<noteq> [] \<and> \<not> succeeded (last es) | Inr _ \<Rightarrow> True"
    using assms(1) unfolding audited_step_def by blast
  show "\<exists>es. hs_audit s' = hs_audit s @ es \<and> es \<noteq> [] \<and> (succeeded (last es) \<longleftrightarrow> \<not> isl r)"
  proof (cases r1)
    case (Inl e)
    then show ?thesis using run m es by (auto simp: bindS_def)
  next
    case (Inr x)
    then have "f x s1 = (s', r)" using run m by (simp add: bindS_def)
    then obtain es' where "hs_audit s' = hs_audit s1 @ es'" "es' \<noteq> []" "succeeded (last es') \<longleftrightarrow> \<not> isl r"
      using assms(2) unfolding audited_def by blast
    then show ?thesis using es(1) by (intro exI [of _ "es @ es'"]) simp
  qed
qed

lemma audited_success:
  "audited (bindS (record_event (operation_success env event actor kid remote_kid action)) (\<lambda>_. retS x))"
  by (auto simp: audited_def bindS_def record_event_def retS_def operation_success_def audit_event_of_def)

lemma audited_if: "audited m \<Longrightarrow> audited n \<Longrightarrow> audited (if b then m else n)"
  by simp

lemma audited_prod: "(\<And>a b. audited (f a b)) \<Longrightarrow> audited (case x of (a, b) \<Rightarrow> f a b)"
  by (cases x) simp

lemma audited_answering: "audited m \<Longrightarrow> audited (answering f m)"
  unfolding audited_def answering_def bindS_def retS_def by (fastforce split: prod.splits sum.splits)

lemmas audited_intros = audited_answering audited_success audited_bind audited_if audited_prod

lemma handle_audited: "audited (handle C E env tape header r)"
  unfolding handle_def
  by (cases r) (simp_all only: token_request.case endpoint_defs Let_def, (rule audited_intros handler_intros)+)

section \<open>Permissions and isolation of keys\<close>

definition untouched :: "http_state \<Rightarrow> http_state \<Rightarrow> bool" where
  "untouched s s' \<longleftrightarrow> hs_storage s' = hs_storage s \<and> hs_keys s' = hs_keys s \<and> hs_admissions s' = hs_admissions s"

text \<open>Only rows of one key id differ, and neither keys nor indexes.\<close>

definition only_kid :: "ustr \<Rightarrow> database \<Rightarrow> database \<Rightarrow> bool" where
  "only_kid kid db db' \<longleftrightarrow>
     db_opskeys db' = db_opskeys db \<and> db_indexes db' = db_indexes db \<and>
     filter (\<lambda>r. tr_kid r \<noteq> kid) (db_tokens db') = filter (\<lambda>r. tr_kid r \<noteq> kid) (db_tokens db) \<and>
     filter (\<lambda>r. sr_kid r \<noteq> kid) (db_subjects db') = filter (\<lambda>r. sr_kid r \<noteq> kid) (db_subjects db)"

definition quiet :: "('e, 'a) hop \<Rightarrow> bool" where
  "quiet m \<longleftrightarrow> (\<forall>s s' r. m s = (s', r) \<longrightarrow> untouched s s')"

definition returns :: "('e, 'a) hop \<Rightarrow> ('a \<Rightarrow> bool) \<Rightarrow> bool" where
  "returns m P \<longleftrightarrow> (\<forall>s s' x. m s = (s', Inr x) \<longrightarrow> P x)"

text \<open>\<open>R kid\<close> is how a request on a key id may change the tables.\<close>

definition scoped_on :: "(ustr \<Rightarrow> database \<Rightarrow> database \<Rightarrow> bool) \<Rightarrow> ustr \<Rightarrow> ('e, 'a) hop \<Rightarrow> bool" where
  "scoped_on R kid m \<longleftrightarrow> (\<forall>s s' r. m s = (s', r) \<longrightarrow> R kid (sd_db (hs_storage s)) (sd_db (hs_storage s')))"

definition granted_on :: "(ustr \<Rightarrow> database \<Rightarrow> database \<Rightarrow> bool) \<Rightarrow> (ustr \<Rightarrow> bool) \<Rightarrow> ('e, 'a) hop \<Rightarrow> bool" where
  "granted_on R G m \<longleftrightarrow> (\<forall>s s' r. m s = (s', r) \<longrightarrow> untouched s s' \<and> isl r \<or>
     (\<exists>kid. G kid \<and> R kid (sd_db (hs_storage s)) (sd_db (hs_storage s'))))"

abbreviation scoped :: "ustr \<Rightarrow> ('e, 'a) hop \<Rightarrow> bool" where
  "scoped \<equiv> scoped_on only_kid"

abbreviation granted :: "(ustr \<Rightarrow> bool) \<Rightarrow> ('e, 'a) hop \<Rightarrow> bool" where
  "granted \<equiv> granted_on only_kid"

lemma only_kid_refl [simp]: "only_kid kid db db"
  by (simp add: only_kid_def)

lemma only_kid_trans: "only_kid kid a b \<Longrightarrow> only_kid kid b c \<Longrightarrow> only_kid kid a c"
  by (simp add: only_kid_def)

lemma filter_other: "(\<And>r. r \<in> set xs \<Longrightarrow> \<not> Q r \<Longrightarrow> \<not> P r) \<Longrightarrow> filter P (filter Q xs) = filter P xs"
  unfolding filter_filter by (rule filter_cong) auto

lemma only_kid_changes:
  "list_all (\<lambda>r. tr_kid r = kid) rows \<Longrightarrow> saves rows db db' \<Longrightarrow> only_kid kid db db'"
  "consumes kid hs subject db db' \<Longrightarrow> only_kid kid db db'"
  "erases kid erased db db' \<Longrightarrow> only_kid kid db db'"
  "sr_kid row = kid \<Longrightarrow> adds_subject row db db' \<Longrightarrow> only_kid kid db db'"
proof -
  show "only_kid kid db db'" if "list_all (\<lambda>r. tr_kid r = kid) rows" "saves rows db db'"
    using that by (auto simp: only_kid_def saves_def list_all_iff)
  show "only_kid kid db db'" if "consumes kid hs subject db db'"
    using that filter_other [of "db_tokens db" "\<lambda>r. \<forall>h\<in>set hs. \<not> token_matches kid h subject r" "\<lambda>r. tr_kid r \<noteq> kid"]
    by (auto simp: only_kid_def consumes_def token_matches_def)
  show "only_kid kid db db'" if "erases kid erased db db'"
    using that filter_other [of "db_tokens db" "\<lambda>r. \<not> (tr_kid r = kid \<and> tr_subject r = Some erased)" "\<lambda>r. tr_kid r \<noteq> kid"]
      filter_other [of "db_subjects db" "\<lambda>r. subject_key r \<noteq> (kid, erased)" "\<lambda>r. sr_kid r \<noteq> kid"]
    by (auto simp: only_kid_def erases_def)
  show "only_kid kid db db'" if "sr_kid row = kid" "adds_subject row db db'"
    using that by (auto simp: only_kid_def adds_subject_def)
qed

lemma quiet_intros [handler_intros]:
  "quiet (retS x)" "quiet (liftS r)" "quiet (with_keys_db_state f)" "quiet (profile_not_found p)" "quiet (record_event e)"
  "quiet (authorize_api_key C env header)" "quiet (require_permission_for env client kid required denied)"
proof -
  show b: "quiet (retS x)" "quiet (liftS r)" "quiet (with_keys_db_state f)" "quiet (profile_not_found p)" "quiet (record_event e)"
    by (auto simp: quiet_def untouched_def retS_def liftS_def with_keys_db_state_def profile_not_found_def record_event_def)
  show "quiet (require_permission_for env client kid required denied)"
    by (auto simp: quiet_def untouched_def require_permission_for_def record_event_def Let_def bindS_def retS_def liftS_def
        split: sum.splits option.splits)
  have "quiet (deny env reason)" "quiet (allow env client)" for reason client
    by (auto simp: quiet_def untouched_def deny_def allow_def record_event_def bindS_def retS_def liftS_def)
  then show "quiet (authorize_api_key C env header)"
    by (auto simp: authorize_api_key_def split: option.splits sum.splits)
qed

lemma quiet_failed [handler_intros]: "quiet m \<Longrightarrow> quiet (crypto_failed_response env event actor kid action m)"
  unfolding quiet_def untouched_def crypto_failed_response_def by (fastforce split: prod.splits sum.splits)

lemma returns_intros:
  "returns m P \<Longrightarrow> returns (crypto_failed_response env event actor kid action m) P"
  "(\<And>x. r = Inr x \<Longrightarrow> P x) \<Longrightarrow> returns (liftS r) P"
  "(\<And>st x. f st = Inr x \<Longrightarrow> P x) \<Longrightarrow> returns (with_keys_db_state f) P"
  "(\<And>x. g = Inr x \<Longrightarrow> P x) \<Longrightarrow> returns (spawn_blocking_crypto env g) P"
proof -
  show "returns (crypto_failed_response env event actor kid action m) P" if "returns m P"
    using that by (auto simp: returns_def crypto_failed_response_def split: prod.splits sum.splits)
qed (auto simp: returns_def liftS_def with_keys_db_state_def spawn_blocking_crypto_def Let_def
    split: option.splits sum.splits dyn_error.splits)

lemma scoped_quiet: "quiet m \<Longrightarrow> scoped kid m"
  by (auto simp: scoped_on_def quiet_def untouched_def)

lemma scoped_intros [handler_intros]:
  "scoped kid (retS x)" "scoped kid (liftS r)" "scoped kid (with_keys_db_state f)" "scoped kid (profile_not_found p)"
  "scoped kid (record_event e)" "scoped kid (spawn_blocking_crypto env g)"
  by (rule quiet_intros [THEN scoped_quiet])+ (auto simp: scoped_on_def spawn_blocking_crypto_def Let_def split: option.splits)

lemma scoped_failed [handler_intros]: "scoped kid m \<Longrightarrow> scoped kid (crypto_failed_response env event actor k action m)"
  unfolding scoped_on_def crypto_failed_response_def by (fastforce split: prod.splits sum.splits)

lemma scoped_on_bind_returns:
  assumes R: "\<And>a b c. R kid a b \<Longrightarrow> R kid b c \<Longrightarrow> R kid a c"
    and "scoped_on R kid m" "returns m P" "\<And>x. P x \<Longrightarrow> scoped_on R kid (f x)"
  shows "scoped_on R kid (bindS m f)"
  unfolding scoped_on_def
proof (intro allI impI)
  fix s s' r
  assume run: "bindS m f s = (s', r)"
  obtain s1 r1 where m: "m s = (s1, r1)" by (cases "m s")
  then have "R kid (sd_db (hs_storage s)) (sd_db (hs_storage s1))" using assms(2) by (simp add: scoped_on_def)
  then show "R kid (sd_db (hs_storage s)) (sd_db (hs_storage s'))"
    using run m assms(3,4) R unfolding bindS_def returns_def scoped_on_def by (cases r1) (simp, force)
qed

lemmas scoped_bind_returns = scoped_on_bind_returns [of only_kid, OF only_kid_trans]

lemma scoped_bind: "scoped kid m \<Longrightarrow> (\<And>x. scoped kid (f x)) \<Longrightarrow> scoped kid (bindS m f)"
  by (rule scoped_bind_returns [where P = "\<lambda>_. True"]) (simp_all add: returns_def)

lemma scoped_if [handler_intros]: "scoped kid m \<Longrightarrow> scoped kid n \<Longrightarrow> scoped kid (if b then m else n)"
  by simp

lemma scoped_prod [handler_intros]: "(\<And>a b. scoped kid (f a b)) \<Longrightarrow> scoped kid (case x of (a, b) \<Rightarrow> f a b)"
  by (cases x) simp

lemma on_storage_scoped:
  "(\<And>d d' r. m d = (d', r) \<Longrightarrow> only_kid kid (sd_db d) (sd_db d')) \<Longrightarrow> scoped kid (on_storage m)"
  by (auto simp: scoped_on_def on_storage_def split: prod.splits)

lemma scoped_reads: "reads m \<Longrightarrow> scoped kid (on_storage m)"
  by (rule on_storage_scoped) (auto dest: readsD)

lemma reads_load_entry: "reads (load_keys_db_entry C E env keys key_id)"
  unfolding load_keys_db_entry_def by (intro reads_intros reads_operations)

lemma scoped_ensure_keys [handler_intros]: "scoped kid (ensure_keys_db_entry C E env key_id)"
  unfolding ensure_keys_db_entry_def
  by (intro scoped_bind handler_intros scoped_reads reads_load_entry) (auto simp: scoped_on_def split: sum.splits prod.splits)

lemma scoped_token_context [handler_intros]: "scoped k (token_context_for C E env profile kid subject use_kind)"
  unfolding token_context_for_def by (cases subject) (auto intro!: scoped_bind handler_intros scoped_reads reads_operations)

lemma scoped_writes [handler_intros]:
  "scoped kid (on_storage (delete_subject env kid erased))"
  "scoped kid (on_storage (delete_token_for_subject env kid hashid subject))"
  "scoped kid (consume_found henv kid hashids subject)"
proof -
  show "scoped kid (on_storage (delete_subject env kid erased))"
    by (rule on_storage_scoped) (use erasing.outcome only_kid_changes(3) in fastforce)
  show "scoped kid (on_storage (delete_token_for_subject env kid hashid subject))"
    by (rule on_storage_scoped) (use deleting.outcome only_kid_changes(2) in fastforce)
  have "scoped kid (on_storage (consume_tokens_batch_for_subject env kid hashids subject))" for env
    by (rule on_storage_scoped) (use consuming.outcome only_kid_changes(2) in fastforce)
  then show "scoped kid (consume_found henv kid hashids subject)"
    unfolding scoped_on_def consume_found_def by (fastforce split: prod.splits sum.splits)
qed

lemma scoped_save_token:
  assumes "tr_kid row = kid"
  shows "scoped kid (on_storage (save_token_for_subject C env (tr_kid row) (tr_hashid row) (tr_data row) subject seed))"
proof (rule on_storage_scoped)
  fix d d' r
  assume "save_token_for_subject C env (tr_kid row) (tr_hashid row) (tr_data row) subject seed d = (d', r)"
  from save_token_batch [OF this] show "only_kid kid (sd_db d) (sd_db d')"
    using only_kid_changes(1) [of kid "[\<lparr>tr_kid = tr_kid row, tr_hashid = tr_hashid row, tr_data = tr_data row, tr_subject = subject\<rparr>]"]
      assms by (auto simp: saves_batch_def)
qed

lemma scoped_save_tokens:
  assumes "list_all (\<lambda>r. tr_kid r = kid) rows"
  shows "scoped kid (on_storage (save_tokens_batch_guarded C env rows guards))"
  by (rule on_storage_scoped) (use saving.outcome only_kid_changes(1) [OF assms] in \<open>fastforce simp: saves_batch_def\<close>)

lemma scoped_save_subject:
  assumes "sr_kid row = kid"
  shows "scoped kid (on_storage (save_subject C env row))"
  by (rule on_storage_scoped) (use enrolling.outcome only_kid_changes(4) [OF assms] in \<open>fastforce simp: adds_valid_subject_def\<close>)

text \<open>The rows an endpoint stores carry the key id of the request.\<close>

lemma encode_kid: "encode C E t n now p = Inr (row, out) \<Longrightarrow> tr_kid row = pe_kid p"
  by (auto simp: encode_def Let_def bindR_eq_Inr)

lemma batch_map_all: "batch_map f i xs = Inr ys \<Longrightarrow> (\<And>j x y. f j x = Inr y \<Longrightarrow> Q y) \<Longrightarrow> list_all Q ys"
  by (induction xs arbitrary: i ys) (auto simp: bindR_eq_Inr batch_item_def map_err_eq_Inr)

lemma encode_batch_kid:
  assumes "encode_batch C E t n now p = Inr (rows, out)"
  shows "list_all (\<lambda>r. tr_kid r = peb_kid p) rows"
proof -
  obtain encoded where b: "batch_map (\<lambda>index item.
      bindR (encode_item C E (t index) (n index) (now index) (peb_profile p) item) (\<lambda>(token, hashid, data).
        Inr (\<lparr>tr_kid = peb_kid p, tr_hashid = hashid, tr_data = data, tr_subject = tc_subject (peb_profile p)\<rparr>,
             te_ref item, token))) 0 (peb_items p) = Inr encoded" "rows = map fst encoded"
    using assms by (auto simp: encode_batch_def Let_def bindR_eq_Inr)
  have "list_all (\<lambda>e. tr_kid (fst e) = peb_kid p) encoded"
    by (rule batch_map_all [OF b(1)]) (auto simp: bindR_eq_Inr)
  then show ?thesis by (simp add: b(2) list.pred_map comp_def)
qed

lemma scoped_encode:
  assumes "\<And>row out. tr_kid row = kid \<Longrightarrow> scoped kid (g (row, out))"
  shows "scoped kid (bindS (crypto_failed_response env event actor k action (with_keys_db_state (\<lambda>st. prepare_encode st kid ctx i)))
    (\<lambda>prepared. bindS (crypto_failed_response env event actor k action (spawn_blocking_crypto env (encode C E t n now prepared))) g))"
proof (rule scoped_bind_returns [where P = "\<lambda>p. pe_kid p = kid"])
  fix p :: prepared_token_encode
  assume p: "pe_kid p = kid"
  show "scoped kid (bindS (crypto_failed_response env event actor k action (spawn_blocking_crypto env (encode C E t n now p))) g)"
    by (rule scoped_bind_returns [where P = "\<lambda>(row, _). tr_kid row = kid"])
      (use assms encode_kid p in \<open>auto intro!: handler_intros returns_intros\<close>)
qed (auto intro!: handler_intros returns_intros simp: prepare_encode_def bindR_eq_Inr split: if_splits)

lemma scoped_encode_batch:
  assumes "\<And>rows out. list_all (\<lambda>r. tr_kid r = kid) rows \<Longrightarrow> scoped kid (g (rows, out))"
  shows "scoped kid (bindS (crypto_failed_response env event actor k action (with_keys_db_state (\<lambda>st. prepare_encode_batch st kid ctx i)))
    (\<lambda>prepared. bindS (crypto_failed_response env event actor k action (spawn_blocking_crypto env (encode_batch C E t n now prepared))) g))"
proof (rule scoped_bind_returns [where P = "\<lambda>p. peb_kid p = kid"])
  fix p :: prepared_token_encode_batch
  assume p: "peb_kid p = kid"
  show "scoped kid (bindS (crypto_failed_response env event actor k action (spawn_blocking_crypto env (encode_batch C E t n now p))) g)"
    by (rule scoped_bind_returns [where P = "\<lambda>(rows, _). list_all (\<lambda>r. tr_kid r = kid) rows"])
      (use assms encode_batch_kid p in \<open>auto intro!: handler_intros returns_intros\<close>)
qed (auto intro!: handler_intros returns_intros simp: prepare_encode_batch_def bindR_eq_Inr split: if_splits)

lemma scoped_create_subject:
  assumes "tp_kid (fst prepared) = kid" "\<And>row out. sr_kid row = kid \<Longrightarrow> scoped kid (g (row, out))"
  shows "scoped kid (bindS (crypto_failed_response env event actor k action (spawn_blocking_crypto env (create_subject C E t n prepared))) g)"
  by (rule scoped_bind_returns [where P = "\<lambda>(row, _). sr_kid row = kid"])
    (use assms in \<open>auto intro!: handler_intros returns_intros simp: create_subject_def bindR_eq_Inr\<close>)

lemma scoped_prepare_create:
  assumes "\<And>p. tp_kid (fst p) = kid \<Longrightarrow> scoped kid (g p)"
  shows "scoped kid (bindS (crypto_failed_response env event actor k action (with_keys_db_state (\<lambda>st. prepare_create st kid profile i))) g)"
  by (rule scoped_bind_returns [where P = "\<lambda>p. tp_kid (fst p) = kid"])
    (use assms in \<open>auto intro!: handler_intros returns_intros
      simp: prepare_create_def prepare_profile_use_def bindR_eq_Inr split: if_splits\<close>)

lemma granted_bind:
  assumes "quiet m" "\<And>x. granted_on R G (f x)"
  shows "granted_on R G (bindS m f)"
  unfolding granted_on_def
proof (intro allI impI)
  fix s s' r
  assume run: "bindS m f s = (s', r)"
  obtain s1 r1 where m: "m s = (s1, r1)" by (cases "m s")
  then have u: "untouched s s1" using assms(1) by (simp add: quiet_def)
  show "untouched s s' \<and> isl r \<or> (\<exists>kid. G kid \<and> R kid (sd_db (hs_storage s)) (sd_db (hs_storage s')))"
  proof (cases r1)
    case (Inl e)
    then show ?thesis using run m u by (auto simp: bindS_def)
  next
    case (Inr x)
    then have "f x s1 = (s', r)" using run m by (simp add: bindS_def)
    then show ?thesis using assms(2) u unfolding granted_on_def untouched_def by fastforce
  qed
qed

lemma granted_permission:
  assumes "require_permission (he_permissions env) client (Some kid) required = Inr () \<Longrightarrow> G kid" "\<And>x. scoped_on R kid (f x)"
  shows "granted_on R G (bindS (require_permission_for env client (Some kid) required denied) f)"
  unfolding granted_on_def
proof (intro allI impI)
  fix s s' r
  assume run: "bindS (require_permission_for env client (Some kid) required denied) f s = (s', r)"
  obtain s1 r1 where m: "require_permission_for env client (Some kid) required denied s = (s1, r1)" by fastforce
  then have u: "untouched s s1" using quiet_intros(7) unfolding quiet_def by blast
  show "untouched s s' \<and> isl r \<or> (\<exists>kid. G kid \<and> R kid (sd_db (hs_storage s)) (sd_db (hs_storage s')))"
  proof (cases r1)
    case (Inl e)
    then show ?thesis using run m u by (auto simp: bindS_def)
  next
    case (Inr x)
    then have "f x s1 = (s', r)" using run m by (simp add: bindS_def)
    then have "R kid (sd_db (hs_storage s1)) (sd_db (hs_storage s'))" using assms(2) unfolding scoped_on_def by blast
    moreover have "require_permission (he_permissions env) client (Some kid) required = Inr ()"
      using m Inr by (auto simp: require_permission_for_def Let_def bindS_def record_event_def retS_def liftS_def
          split: sum.splits option.splits)
    ultimately show ?thesis using assms(1) u by (auto simp: untouched_def)
  qed
qed

lemma granted_answering: "granted_on R G m \<Longrightarrow> granted_on R G (answering f m)"
  unfolding granted_on_def answering_def bindS_def retS_def by (fastforce split: prod.splits sum.splits)

lemma authorize_any_state:
  "authorize_api_key C env header s = (s1, Inr client) \<Longrightarrow> \<exists>s1'. authorize_api_key C env header s' = (s1', Inr client)"
  by (auto simp: authorize_api_key_def deny_def allow_def bindS_def record_event_def retS_def liftS_def
      split: option.splits sum.splits if_splits)

definition authenticates :: "crates \<Rightarrow> http_env \<Rightarrow> u8 list option \<Rightarrow> authenticated_client \<Rightarrow> bool" where
  "authenticates C env header client \<longleftrightarrow> (\<forall>s. \<exists>s1. authorize_api_key C env header s = (s1, Inr client))"

lemma granted_authorize:
  assumes "\<And>client. authenticates C env header client \<Longrightarrow> granted_on R G (f client)"
  shows "granted_on R G (bindS (authorize_api_key C env header) f)"
  unfolding granted_on_def
proof (intro allI impI)
  fix s s' r
  assume run: "bindS (authorize_api_key C env header) f s = (s', r)"
  obtain s1 r1 where m: "authorize_api_key C env header s = (s1, r1)" by fastforce
  then have u: "untouched s s1" using quiet_intros(6) unfolding quiet_def by blast
  show "untouched s s' \<and> isl r \<or> (\<exists>kid. G kid \<and> R kid (sd_db (hs_storage s)) (sd_db (hs_storage s')))"
  proof (cases r1)
    case (Inl e)
    then show ?thesis using run m u by (auto simp: bindS_def)
  next
    case (Inr client)
    then have "f client s1 = (s', r)" "granted_on R G (f client)"
      using run m assms authorize_any_state by (auto simp: bindS_def authenticates_def)
    then show ?thesis using u unfolding granted_on_def untouched_def by fastforce
  qed
qed

lemma scoped_pair: "scoped kid (f a b) \<Longrightarrow> scoped kid (case (a, b) of (x, y) \<Rightarrow> f x y)"
  by simp

lemmas scoped_rules = scoped_pair scoped_encode scoped_encode_batch scoped_prepare_create scoped_create_subject scoped_bind
  scoped_save_token scoped_save_tokens scoped_save_subject scoped_reads reads_operations handler_intros

lemma handle_granted:
  "granted (\<lambda>kid. \<exists>client. authenticates C env header client \<and>
      require_permission (he_permissions env) client (Some kid) (action_of r) = Inr ()) (handle C E env tape header r)"
  unfolding handle_def
  by (cases r) (simp_all only: token_request.case endpoint_defs Let_def action_of.simps prod.case,
    (rule granted_answering, rule granted_authorize, ((rule granted_permission, blast) | (rule granted_bind, (rule handler_intros)+))+,
      ((rule scoped_rules | assumption)+)?)+)

end
