(* ===== verification/Token_Service.thy ===== *)
theory Token_Service
  imports Http_Correct Token_Guarantees Ops_Keys_Correct
begin

text \<open>
  The token service end to end: what a successful run of \<open>token_encode_endpoint\<close> leaves in the tables, and that
  \<open>token_decode_endpoint\<close> succeeds on it.
\<close>

section \<open>Runs that succeed\<close>

text \<open>What a handler depends on besides its request: the tables and the keys in memory.\<close>

definition view :: "http_state \<Rightarrow> database \<times> keys_db_state" where
  "view s = (sd_db (hs_storage s), hs_keys s)"

definition yields :: "('e, 'a) hop \<Rightarrow> database \<times> keys_db_state \<Rightarrow> 'a \<Rightarrow> database \<times> keys_db_state \<Rightarrow> bool" where
  "yields m V x V' \<longleftrightarrow> (\<forall>s. view s = V \<longrightarrow> (\<exists>s'. m s = (s', Inr x) \<and> view s' = V'))"

lemma yieldsD: "yields m (view s) x V \<Longrightarrow> \<exists>s'. m s = (s', Inr x) \<and> view s' = V"
  by (simp add: yields_def)

lemma yields_bind: "yields m V x V1 \<Longrightarrow> yields (f x) V1 y V2 \<Longrightarrow> yields (bindS m f) V y V2"
  unfolding yields_def bindS_def by fastforce

lemma yields_intros:
  "yields (retS x) V x V" "yields (liftS (Inr x)) V x V" "yields (record_event e) V () V"
  "f (snd V) = Inr y \<Longrightarrow> yields (with_keys_db_state f) V y V"
  "yields m V z V' \<Longrightarrow> yields (crypto_failed_response env event actor kid action m) V z V'"
  by (auto simp: yields_def view_def retS_def liftS_def record_event_def with_keys_db_state_def crypto_failed_response_def
      split: prod.splits sum.splits)

lemma yields_lift: "r = Inr x \<Longrightarrow> yields (liftS r) V x V"
  by (simp add: yields_intros)

lemma yields_spawn: "he_admission env = (\<lambda>_. None) \<Longrightarrow> yields (spawn_blocking_crypto env (Inr x)) V x V"
  by (auto simp: yields_def view_def spawn_blocking_crypto_def Let_def)

lemma yields_authorize: "authenticates C env header client \<Longrightarrow> yields (authorize_api_key C env header) V client V"
  using quiet_intros(6) [of C env header]
  unfolding yields_def view_def authenticates_def quiet_def untouched_def by metis

lemma yields_permission:
  "require_permission (he_permissions env) client kid action = Inr () \<Longrightarrow>
     yields (require_permission_for env client kid action denied) V () V"
  by (auto simp: yields_def view_def require_permission_for_def Let_def record_event_def)

lemma yields_on_storage:
  "(\<And>d. sd_db d = db \<Longrightarrow> \<exists>d'. m d = (d', Inr x) \<and> sd_db d' = db') \<Longrightarrow> yields (on_storage m) (db, K) x (db', K)"
  unfolding yields_def view_def on_storage_def by fastforce

lemma yields_ensure_keys:
  "keys_get (snd V) kid \<noteq> None \<Longrightarrow> validate_key_id kid = Inr () \<Longrightarrow> yields (ensure_keys_db_entry C E env kid) V () V"
  by (auto simp: yields_def view_def ensure_keys_db_entry_def bindS_def liftS_def with_keys_db_state_def retS_def)

lemma yields_get_subject:
  assumes "reliable env" "db_ok C db" "row \<in> set (db_subjects db)"
  shows "yields (on_storage (get_subject C env (sr_kid row) (sr_subject row))) (db, K) row (db, K)"
proof (rule yields_on_storage)
  fix d :: storage
  assume d: "sd_db d = db"
  have "find (\<lambda>r. subject_key r = subject_key row) (db_subjects db) = Some row" "subject_row_ok C row"
    using assms(2,3) find_unique [of subject_key] by (auto simp: db_ok_def keys_ok_def rows_ok_def list_all_iff)
  then show "\<exists>d'. get_subject C env (sr_kid row) (sr_subject row) d = (d', Inr row) \<and> sd_db d' = db"
    using d assms(1)
    by (simp add: get_subject_def sqlite_get_subject_def bindS_def liftS_def retS_def reliable_request
        sql_select_subject_def subject_row_ok_def del: validate_subject_ok)
qed

lemma token_row_checks:
  assumes "validate_token_row C row = Inr ()"
  shows "validate_storage_kid (lit ''tokens.kid'') (tr_kid row) = Inr ()" "validate_token_hashid (tr_hashid row) = Inr ()"
    "validate_optional_subject (tr_subject row) = Inr ()"
  using assms by (auto simp: validate_token_row_def validate_token_fields_def bindR_unit_eq)

lemma yields_get_token:
  assumes "reliable env" "db_ok C db" "row \<in> set (db_tokens db)"
  shows "yields (on_storage (get_token C env (tr_kid row) (tr_hashid row))) (db, K) row (db, K)"
proof (rule yields_on_storage)
  fix d :: storage
  assume d: "sd_db d = db"
  have f: "find (\<lambda>r. token_key r = token_key row) (db_tokens db) = Some row" and v: "validate_token_row C row = Inr ()"
    using assms(2,3) find_unique [of token_key] by (auto simp: db_ok_def keys_ok_def rows_ok_def list_all_iff)
  show "\<exists>d'. get_token C env (tr_kid row) (tr_hashid row) d = (d', Inr row) \<and> sd_db d' = db"
    using d assms(1) f v token_row_checks [OF v]
    by (simp add: get_token_def sqlite_get_token_def bindS_def liftS_def retS_def reliable_request sql_select_token_def)
qed

definition without_token :: "token_row \<Rightarrow> database \<Rightarrow> database" where
  "without_token row db = db\<lparr>db_tokens := filter (\<lambda>r. \<not> token_matches (tr_kid row) (tr_hashid row) (tr_subject row) r) (db_tokens db)\<rparr>"

lemma yields_delete_token:
  assumes "reliable env" "db_ok C db" "row \<in> set (db_tokens db)"
  shows "yields (on_storage (delete_token_for_subject env (tr_kid row) (tr_hashid row) (tr_subject row))) (db, K) ()
    (without_token row db, K)"
proof (rule yields_on_storage)
  fix d :: storage
  assume d: "sd_db d = db"
  have v: "validate_token_row C row = Inr ()" and u: "distinct (map token_key (db_tokens db))"
    using assms(2,3) by (auto simp: db_ok_def keys_ok_def rows_ok_def list_all_iff)
  have "length (filter (token_matches (tr_kid row) (tr_hashid row) (tr_subject row)) (db_tokens db)) = 1"
    unfolding one_match_iff [OF u] tokens_map_find using find_unique [OF u assms(3)] by simp
  then show "\<exists>d'. delete_token_for_subject env (tr_kid row) (tr_hashid row) (tr_subject row) d = (d', Inr ()) \<and>
      sd_db d' = without_token row db"
    using d assms(1) token_row_checks [OF v]
    by (simp add: delete_token_for_subject_def sqlite_delete_token_for_subject_def bindS_def liftS_def retS_def
        transaction_def reliable_request roundtrip_def sql_delete_tokens_def without_token_def)
qed

section \<open>What an encoded token leaves behind\<close>

text \<open>The context a request runs in, as the tables and the keys in memory determine it.\<close>

definition context_of ::
    "crates \<Rightarrow> ciphers \<Rightarrow> database \<times> keys_db_state \<Rightarrow> tokenization_profile \<Rightarrow> ustr \<Rightarrow> ustr option \<Rightarrow> profile_use \<Rightarrow>
     token_context \<Rightarrow> bool" where
  "context_of C E V profile kid subject use_kind ctx \<longleftrightarrow>
     validate_token_subject_mode profile subject = Inr () \<and>
     prepare_profile_use (snd V) kid (tp_kid profile) (lit ''tokenization'') use_kind = Inr () \<and>
     (case subject of
        None \<Rightarrow> ctx = tc_from_profile profile
      | Some name \<Rightarrow> \<exists>row keys. row \<in> set (db_subjects (fst V)) \<and> subject_key row = (kid, name) \<and>
          open_seed C E profile name (sr_seed row) = Inr keys \<and>
          ctx = with_subject_generation (tc_with_subject profile keys) (sr_seed row))"

lemma failed_Inr [sop_simps]:
  "crypto_failed_response env event actor kid action m s = (s', Inr x) \<longleftrightarrow> m s = (s', Inr x)"
  by (auto simp: crypto_failed_response_def split: prod.splits sum.splits)

lemma on_storage_Inr [sop_simps]:
  "on_storage m s = (s', Inr x) \<longleftrightarrow> (\<exists>d. m (hs_storage s) = (d, Inr x) \<and> s' = s\<lparr>hs_storage := d\<rparr>)"
  by (auto simp: on_storage_def split: prod.splits)

lemma with_keys_eq [sop_simps]: "with_keys_db_state f s = (s', r) \<longleftrightarrow> s' = s \<and> f (hs_keys s) = r"
  by (auto simp: with_keys_db_state_def)

lemma spawn_Inr:
  "spawn_blocking_crypto env g s = (s', Inr x) \<Longrightarrow> view s' = view s \<and> g = Inr x"
  by (auto simp: spawn_blocking_crypto_def view_def Let_def split: option.splits sum.splits dyn_error.splits)

lemma quiet_view: "quiet m \<Longrightarrow> m s = (s', r) \<Longrightarrow> view s' = view s"
  unfolding quiet_def untouched_def view_def by metis

lemma token_context_Inr:
  assumes "token_context_for C E env profile kid subject use_kind s = (s', Inr ctx)"
  shows "view s' = view s" "context_of C E (view s) profile kid subject use_kind ctx"
proof -
  have mode: "validate_token_subject_mode profile subject = Inr ()"
    "prepare_profile_use (hs_keys s) kid (tp_kid profile) (lit ''tokenization'') use_kind = Inr ()"
    using assms by (auto simp: token_context_for_def sop_simps)
  have "view s' = view s \<and> context_of C E (view s) profile kid subject use_kind ctx"
  proof (cases subject)
    case None
    then show ?thesis using assms mode by (auto simp: token_context_for_def sop_simps context_of_def view_def)
  next
    case (Some name)
    then obtain d row where g: "get_subject C (he_storage_env env) kid name (hs_storage s) = (d, Inr row)"
      and sp: "spawn_blocking_crypto env (bindR (open_seed C E profile (sr_subject row) (sr_seed row)) (\<lambda>keys.
          Inr (with_subject_generation (tc_with_subject profile keys) (sr_seed row)))) (s\<lparr>hs_storage := d\<rparr>) = (s', Inr ctx)"
      using assms by (auto simp: token_context_for_def sop_simps)
    have "sd_db d = sd_db (hs_storage s)" using readsD [OF reads_operations(6) g] .
    moreover have "find (\<lambda>r. subject_key r = (kid, name)) (db_subjects (sd_db (hs_storage s))) = Some row"
      using g by (auto simp: get_subject_def sqlite_get_subject_def sop_simps sql_select_subject_def ok_or_eq_Inr split: if_splits)
    from find_key [OF this] have "row \<in> set (db_subjects (sd_db (hs_storage s)))" "subject_key row = (kid, name)" by simp_all
    ultimately show ?thesis
      using spawn_Inr [OF sp] mode Some by (auto simp: context_of_def view_def bindR_eq_Inr)
  qed
  then show "view s' = view s" "context_of C E (view s) profile kid subject use_kind ctx" by simp_all
qed

lemma yields_token_context:
  assumes "context_of C E V profile kid subject use_kind ctx" "reliable (he_storage_env env)" "db_ok C (fst V)"
    and "he_admission env = (\<lambda>_. None)"
  shows "yields (token_context_for C E env profile kid subject use_kind) V ctx V"
proof -
  let ?tail = "case subject of
      None \<Rightarrow> retS (tc_from_profile profile)
    | Some subject \<Rightarrow>
        bindS (on_storage (get_subject C (he_storage_env env) kid subject)) (\<lambda>row.
          spawn_blocking_crypto env (bindR (open_seed C E profile (sr_subject row) (sr_seed row)) (\<lambda>keys.
            Inr (with_subject_generation (tc_with_subject profile keys) (sr_seed row)))))"
  have tail: "yields ?tail V ctx V"
  proof (cases subject)
    case None
    then show ?thesis using assms(1) by (simp add: context_of_def yields_intros)
  next
    case (Some name)
    then obtain row keys where r: "row \<in> set (db_subjects (fst V))" "sr_kid row = kid" "sr_subject row = name"
      "open_seed C E profile name (sr_seed row) = Inr keys" "ctx = with_subject_generation (tc_with_subject profile keys) (sr_seed row)"
      using assms(1) by (auto simp: context_of_def)
    have "yields (on_storage (get_subject C (he_storage_env env) kid name)) V row V"
      using yields_get_subject [OF assms(2,3) r(1), of "snd V"] r(2,3) by simp
    moreover have "yields (spawn_blocking_crypto env (bindR (open_seed C E profile (sr_subject row) (sr_seed row)) (\<lambda>keys.
        Inr (with_subject_generation (tc_with_subject profile keys) (sr_seed row))))) V ctx V"
      using yields_spawn [OF assms(4)] r by simp
    ultimately show ?thesis unfolding Some option.case by (rule yields_bind)
  qed
  have "validate_token_subject_mode profile subject = Inr ()"
    "prepare_profile_use (snd V) kid (tp_kid profile) (lit ''tokenization'') use_kind = Inr ()"
    using assms(1) by (simp_all add: context_of_def)
  then show ?thesis
    unfolding token_context_for_def
    by - (rule yields_bind, erule yields_lift, rule yields_bind, erule yields_intros(4), rule tail)
qed

lemma ensure_keys_view:
  assumes "ensure_keys_db_entry C E env kid s = (s', Inr ())"
  shows "fst (view s') = fst (view s)"
proof (cases "keys_get (hs_keys s) kid = None")
  case True
  from True assms obtain s1 x where l: "load_keys_db_entry C E (he_storage_env env) (he_internal_keys env) kid (hs_storage s) = (s1, Inr x)"
    and i: "(case insert_if_absent (hs_keys s) x of Inl err \<Rightarrow> (s\<lparr>hs_storage := s1\<rparr>, Inl err)
      | Inr (st, _) \<Rightarrow> (s\<lparr>hs_storage := s1, hs_keys := st\<rparr>, Inr ())) = (s', Inr ())"
    by (fastforce simp: ensure_keys_db_entry_def sop_simps)
  from i have "sd_db (hs_storage s') = sd_db s1" by (auto split: sum.splits)
  then show ?thesis using readsD [OF reads_load_entry l] by (simp add: view_def)
qed (use assms in \<open>auto simp: ensure_keys_db_entry_def sop_simps view_def\<close>)

lemma save_token_saved:
  assumes "save_token_for_subject C env kid hashid data subject seed s = (s', Inr row)"
  shows "\<exists>guards. saves_batch C [\<lparr>tr_kid = kid, tr_hashid = hashid, tr_data = data, tr_subject = subject\<rparr>] guards (sd_db s) (sd_db s')"
proof -
  let ?row = "\<lparr>tr_kid = kid, tr_hashid = hashid, tr_data = data, tr_subject = subject\<rparr>"
  have v: "validate_token_row C ?row = Inr ()"
    using assms by (auto simp: save_token_for_subject_def sop_simps validate_token_row_def)
  have "\<exists>x guards. subject = None \<and> execute env (sql_insert_token env ?row) s = (s', Inr x) \<or>
      sqlite_save_tokens_batch_guarded env [?row] guards s = (s', Inr ())"
    using assms by (auto simp: save_token_for_subject_def sqlite_save_token_for_subject_def sop_simps Let_def split: option.splits)
  then obtain x guards where "subject = None \<and> execute env (sql_insert_token env ?row) s = (s', Inr x) \<or>
      sqlite_save_tokens_batch_guarded env [?row] guards s = (s', Inr ())" by blast
  then have "\<exists>guards. saves [?row] (sd_db s) (sd_db s') \<and> generations_current [?row] guards (sd_db s)"
    using sqlite_save_batch_Inr [of env "[?row]" guards s s']
    by (auto simp: sop_simps sql_insert_token_def saves_def generations_current_def split: if_splits)
  then show ?thesis using v by (auto simp: saves_batch_def)
qed

text \<open>What the run of an encoding request establishes.\<close>

lemma token_encodeE:
  assumes "token_encode_endpoint C E env rt rn now header kid subject v s = (s', Inr out)" and "db_ok C (sd_db (hs_storage s))"
  obtains i profile ctx row where
    "encode_input_of_json v = Some i" "validate_encode_input C i = Inr i" "validate_key_id kid = Inr ()"
    "tokenization_get (he_tokenization env) (tei_profile i) = Some profile"
    "context_of C E (view s') profile kid subject NewUse ctx"
    "prepare_encode (hs_keys s') kid ctx i = Inr \<lparr>pe_kid = kid, pe_profile = ctx, pe_input = tei_item i\<rparr>"
    "encode C E rt rn now \<lparr>pe_kid = kid, pe_profile = ctx, pe_input = tei_item i\<rparr> = Inr (row, out)"
    "row \<in> set (db_tokens (sd_db (hs_storage s')))" "db_ok C (sd_db (hs_storage s'))"
proof -
  from assms(1) obtain client s1 s2 s3 s4 s5 s6 i0 i profile ctx prepared row stored where
    steps: "authorize_api_key C env header s = (s1, Inr client)"
      "require_permission_for env client (Some kid) (lit ''token-encode'') (Some (lit ''token.encode.denied'')) s1 = (s2, Inr ())"
      "ensure_keys_db_entry C E env kid s2 = (s3, Inr ())"
      "token_context_for C E env profile kid subject NewUse s3 = (s4, Inr ctx)"
      "spawn_blocking_crypto env (encode C E rt rn now prepared) s4 = (s5, Inr (row, out))"
      "on_storage (save_token_for_subject C (he_storage_env env) (tr_kid row) (tr_hashid row) (tr_data row) (tr_subject row)
         (map_option wg_seed (write_guard ctx))) s5 = (s6, Inr stored)"
    and pure: "validate_key_id kid = Inr ()" "parse_encode_input (he_serde_error env) v = Inr i0" "validate_encode_input C i0 = Inr i"
      "tokenization_get (he_tokenization env) (tei_profile i) = Some profile"
      "prepare_encode (hs_keys s4) kid ctx i = Inr prepared"
    and last: "view s' = view s6"
    by (auto simp: token_encode_endpoint_def Let_def sop_simps profile_not_found_def bindR_eq_Inr ok_or_eq_Inr record_event_def
        view_def split: prod.splits) 
  have i: "encode_input_of_json v = Some i0" "i = i0"
    using pure(2,3) by (auto simp: parse_encode_input_def parse_json_request_def validate_encode_input_def validate_ref_def
        Let_def bindR_eq_Inr ok_or_eq_Inr)
  have p: "prepared = \<lparr>pe_kid = kid, pe_profile = ctx, pe_input = tei_item i\<rparr>"
    using pure(5) by (auto simp: prepare_encode_def bindR_eq_Inr split: if_splits)
  have row: "row = \<lparr>tr_kid = tr_kid row, tr_hashid = tr_hashid row, tr_data = tr_data row, tr_subject = tr_subject row\<rparr>" by simp
  note ctx = token_context_Inr [OF steps(4)] and sp = spawn_Inr [OF steps(5)]
  obtain d where d: "save_token_for_subject C (he_storage_env env) (tr_kid row) (tr_hashid row) (tr_data row) (tr_subject row)
      (map_option wg_seed (write_guard ctx)) (hs_storage s5) = (d, Inr stored)" "s6 = s5\<lparr>hs_storage := d\<rparr>"
    using steps(6) by (auto simp: sop_simps)
  have "fst (view s5) = sd_db (hs_storage s)"
    using quiet_view [OF quiet_intros(6) steps(1)] quiet_view [OF quiet_intros(7) steps(2)] ensure_keys_view [OF steps(3)] ctx(1) sp
    by (simp add: view_def)
  then have ok: "db_ok C (sd_db (hs_storage s5))" using assms(2) by (simp add: view_def)
  obtain guards where saved: "saves_batch C [row] guards (sd_db (hs_storage s5)) (sd_db d)"
    using save_token_saved [OF d(1)] row by metis
  have "view s6 = (sd_db d, hs_keys s3)" "db_subjects (sd_db d) = db_subjects (fst (view s3))" "hs_keys s4 = hs_keys s3"
    using d(2) sp ctx(1) saved by (simp_all add: view_def saves_batch_def saves_def)
  then have "context_of C E (view s') profile kid subject NewUse ctx"
    using ctx(2) last by (auto simp: context_of_def view_def split: option.splits)
  moreover have "row \<in> set (db_tokens (sd_db d))" using saved by (simp add: saves_batch_def saves_def)
  ultimately show ?thesis
    using that i pure p sp last d(2) saves_ok [OF saved ok] \<open>hs_keys s4 = hs_keys s3\<close> \<open>view s6 = _\<close> by (auto simp: view_def)
qed

section \<open>Reading a stored token\<close>

lemma stored_row_text:
  assumes "validate_token_row C row = Inr ()"
  shows "scalar_str (tr_hashid row)" "str_len (tr_data row) \<le> STORAGE_TOKEN_ENVELOPE_MAX_CHARS"
  using assms
  by (auto simp: validate_token_row_def validate_token_fields_def bindR_unit_eq validate_token_hashid_def
      validate_hash_hex_field_ok validate_storage_envelope_def validate_base64_standard_envelope_segments_def
      split_base64_standard_envelope_segments_def bindR_eq_Inr split: if_splits
      intro: scalar_str_ascii hex_ascii)

lemma request_struct_optional:
  assumes "request_struct ks opt v = Some (vs, Some m)"
  shows "m \<noteq> JNull \<and> (wire_json (Suc d) v \<longrightarrow> wire_json d m)"
proof (cases v)
  case (JObject fs)
  then obtain k where "map_of fs k = Some m" "m \<noteq> JNull"
    using assms by (auto simp: opt_value_def Option.bind_eq_Some_conv split: if_splits)
  then show ?thesis using JObject by (auto simp: list_all_iff dest!: map_of_SomeD)
next
  case (JArray us)
  then have "us \<noteq> [] \<and> m = last us \<and> m \<noteq> JNull" using assms by (auto simp: opt_value_def split: if_splits)
  then show ?thesis using JArray by (auto simp: list_all_iff)
qed (use assms in auto)

lemma encoded_metadata:
  assumes "encode_input_of_json v = Some i" "te_metadata (tei_item i) = Some m"
  shows "m \<noteq> JNull \<and> (wire_json (Suc d) v \<longrightarrow> wire_json d m)"
proof -
  obtain vs where "request_struct [lit ''ref'', lit ''profile'', lit ''plaintext''] (Some (lit ''metadata'')) v = Some (vs, Some m)"
    using assms by (auto simp: encode_input_of_json_def Option.bind_eq_Some_conv split: option.splits list.splits prod.splits)
  then show ?thesis by (rule request_struct_optional)
qed

lemma encoded_payload_wire:
  assumes "encode_input_of_json v = Some i" "wire_json 127 v"
  shows "wire_json 127 (payload_json \<lparr>tdp_profile = n, tdp_plaintext = t, tdp_metadata = te_metadata (tei_item i), tdp_created_at = now\<rparr>)"
proof -
  have "wire_json 126 m" if "te_metadata (tei_item i) = Some m" for m
    using encoded_metadata [OF assms(1) that, of 126] assms(2) by simp
  then show ?thesis by (auto simp: payload_json_def lit_def numeral_eq_Suc split: option.splits)
qed

lemma encode_decode:
  assumes C: "b64_ok C" "json_wire_ok C" "aead_ok E" "url_format_ok C" and rnd: "random_ok rn"
    and p: "tokenization_profile_ok (tc_profile ctx)" "scalar_str (tp_name (tc_profile ctx))"
    and i: "encode_input_of_json v = Some i" "wire_json 127 v"
    and enc: "encode C E rt rn now \<lparr>pe_kid = kid, pe_profile = ctx, pe_input = tei_item i\<rparr> = Inr (row, out)"
    and row: "validate_token_row C row = Inr ()"
  shows "tr_kid row = kid" "tr_subject row = tc_subject ctx" "eo_subject out = tc_subject ctx" "eo_kid out = kid"
    "eo_profile out = tp_name (tc_profile ctx)" "tc_hash C ctx (eo_token out) = Inr (tr_hashid row)"
    "validate_text_field f (eo_token out) = Inr ()"
    "\<exists>now. tc_decrypt C E ctx (tr_hashid row) (tr_data row) =
      Inr \<lparr>tdp_profile = tp_name (tc_profile ctx), tdp_plaintext = te_plaintext (tei_item i), tdp_metadata = te_metadata (tei_item i),
        tdp_created_at = now\<rparr>"
proof -
  let ?payload = "\<lambda>t. \<lparr>tdp_profile = tp_name (tc_profile ctx), tdp_plaintext = te_plaintext (tei_item i),
      tdp_metadata = te_metadata (tei_item i), tdp_created_at = t\<rparr>"
  from enc obtain t where g: "generate_token C rt (tc_profile ctx) = Inr (eo_token out)"
    and h: "tc_hash C ctx (eo_token out) = Inr (tr_hashid row)"
    and e: "tc_encrypt C E rn ctx (tr_hashid row) (?payload t) = Inr (tr_data row)"
    and f: "tr_kid row = kid" "tr_subject row = tc_subject ctx" "eo_subject out = tc_subject ctx" "eo_kid out = kid"
    "eo_profile out = tp_name (tc_profile ctx)"
    by (auto simp: encode_def encode_item_def Let_def bindR_eq_Inr)
  show "validate_text_field f (eo_token out) = Inr ()"
    using generate_token_text [OF p(1) C(4) g] by (simp add: validate_text_field_ok)
  have "te_metadata (tei_item i) \<noteq> Some JNull"
    using encoded_metadata [OF i(1)] by blast
  then have "normal_payload (?payload t) = ?payload t" by (simp add: normal_payload_def)
  then show "\<exists>now. tc_decrypt C E ctx (tr_hashid row) (tr_data row) = Inr (?payload now)"
    using tc_roundtrip_aux [OF C(1-3) rnd p stored_row_text(1) [OF row] _ encoded_payload_wire [OF i] e stored_row_text(2) [OF row]]
    by auto
  show "tr_kid row = kid" "tr_subject row = tc_subject ctx" "eo_subject out = tc_subject ctx" "eo_kid out = kid"
    "eo_profile out = tp_name (tc_profile ctx)" "tc_hash C ctx (eo_token out) = Inr (tr_hashid row)"
    by (fact f h)+
qed

lemma verify_after_new:
  "prepare_profile_use K kid k kind NewUse = Inr () \<Longrightarrow> prepare_profile_use K kid k kind Verify = Inr ()"
  "prepare_profile_use K kid k kind u = Inr () \<Longrightarrow> validate_key_id kid = Inr () \<and> keys_get K kid \<noteq> None \<and> k = kid"
  by (auto simp: prepare_profile_use_def get_loaded_key_def bindR_eq_Inr bindR_unit_eq ok_or_eq_Inr
      require_lifecycle_for_new_use_def require_lifecycle_for_decrypt_or_verify_def lifecycle_error_def
      blocked_lifecycle_error_def split: if_splits)

lemma context_of_facts:
  assumes "context_of C E V profile kid subject u ctx"
  shows "tc_profile ctx = profile" "tc_subject ctx = subject" "validate_optional_subject subject = Inr ()"
  using assms
  by (auto simp: context_of_def tc_from_profile_def tc_with_subject_def with_subject_generation_def tc_subject_def
      open_seed_def derive_token_keys_def bindR_eq_Inr map_err_eq_Inr validate_optional_subject_def
      validate_token_subject_mode_def split: option.splits)

text \<open>A token that is stored is decoded from any state with the same tables and keys in memory.\<close>

lemma yields_decode:
  assumes env: "reliable (he_storage_env env)" "he_admission env = (\<lambda>_. None)"
    and auth: "authenticates C env header client"
      "require_permission (he_permissions env) client (Some (tdi_kid i)) (lit ''token-decode'') = Inr ()"
    and i: "parse_decode_input (he_serde_error env) w = Inr i" "validate_decode_input i = Inr i"
    and p: "tokenization_get (he_tokenization env) (tdi_profile i) = Some profile"
    and ctx: "context_of C E V profile (tdi_kid i) (tdi_subject i) Verify ctx" and db: "db_ok C (fst V)"
    and row: "row \<in> set (db_tokens (fst V))" "tr_kid row = tdi_kid i" "tr_subject row = tdi_subject i"
      "tc_hash C ctx (tdi_token i) = Inr (tr_hashid row)"
    and dec: "decode C E \<lparr>pd_kid = tdi_kid i, pd_profile = ctx, pd_input = i, pd_data = tr_data row\<rparr> = Inr output"
  shows "yields (token_decode_endpoint C E env header w) V output
    (if tp_one_time profile then (without_token row (fst V), snd V) else V)"
proof -
  have prep: "prepare_profile_use (snd V) (tdi_kid i) (tp_kid profile) (lit ''tokenization'') Verify = Inr ()"
    and mode: "tc_validate_mode ctx (tdi_subject i) = Inr ()"
    using ctx context_of_facts [OF ctx] by (simp_all add: context_of_def tc_validate_mode_def)
  note failed = yields_intros(5)
  have inputs: "bindR (parse_decode_input (he_serde_error env) w) validate_decode_input = Inr i" by (simp add: i)
  have keys: "yields (ensure_keys_db_entry C E env (tdi_kid i)) V () V"
    using verify_after_new(2) [OF prep] by (intro yields_ensure_keys) blast+
  have profile: "yields (profile_not_found (tokenization_get (he_tokenization env) (tdi_profile i))) V profile V"
    by (simp add: profile_not_found_def p yields_lift)
  have hash: "yields (spawn_blocking_crypto env (tc_hash C ctx (tdi_token i))) V (tr_hashid row) V"
    using yields_spawn [OF env(2)] by (simp add: row(4))
  have stored: "yields (on_storage (get_token C (he_storage_env env) (tdi_kid i) (tr_hashid row))) V row V"
    using yields_get_token [OF env(1) db row(1), of "snd V"] row(2) by simp
  have prepared: "yields (with_keys_db_state (\<lambda>st. prepare_decode st ctx i (tr_data row))) V
      \<lparr>pd_kid = tdi_kid i, pd_profile = ctx, pd_input = i, pd_data = tr_data row\<rparr> V"
    using prep mode context_of_facts(1) [OF ctx] by (intro yields_intros(4)) (simp add: prepare_decode_def)
  have opened: "yields (spawn_blocking_crypto env (decode C E \<lparr>pd_kid = tdi_kid i, pd_profile = ctx, pd_input = i, pd_data = tr_data row\<rparr>))
      V output V"
    using yields_spawn [OF env(2)] by (simp add: dec)
  have used: "yields (if tp_one_time profile
      then crypto_failed_response env event actor k action
        (on_storage (delete_token_for_subject (he_storage_env env) (tdi_kid i) (tr_hashid row) (tdi_subject i)))
      else retS ()) V () (if tp_one_time profile then (without_token row (fst V), snd V) else V)" for event actor k action
    using failed [OF yields_delete_token [OF env(1) db row(1), of "snd V"]] row(2,3) by (simp add: yields_intros)
  have same: "(if tr_subject row \<noteq> tdi_subject i then Inl e else Inr ()) = Inr ()" for e :: dyn_error using row(3) by simp
  show ?thesis
    unfolding token_decode_endpoint_def Let_def
    by (rule yields_bind [OF yields_authorize [OF auth(1)]], rule yields_bind [OF failed [OF yields_lift [OF inputs]]],
        rule yields_bind [OF yields_permission [OF auth(2)]], rule yields_bind [OF failed [OF keys]],
        rule yields_bind [OF failed [OF profile]],
        rule yields_bind [OF failed [OF yields_token_context [OF ctx env(1) db env(2)]]],
        rule yields_bind [OF failed [OF hash]], rule yields_bind [OF failed [OF stored]],
        rule yields_bind [OF failed [OF yields_lift [OF same]]],
        rule yields_bind [OF failed [OF prepared]], rule yields_bind [OF failed [OF opened]],
        rule yields_bind [OF used], rule yields_bind [OF yields_intros(3)], rule yields_intros(1))
qed

text \<open>The profile, the tables and the request determine the context.\<close>

lemma context_of_unique:
  assumes "context_of C E V profile kid subject u ctx" "context_of C E V' profile kid subject u' ctx'"
    and "db_ok C (fst V)" "db_subjects (fst V') = db_subjects (fst V)"
  shows "ctx' = ctx"
proof (cases subject)
  case (Some name)
  obtain row keys where r: "row \<in> set (db_subjects (fst V))" "subject_key row = (kid, name)"
    "open_seed C E profile name (sr_seed row) = Inr keys" "ctx = with_subject_generation (tc_with_subject profile keys) (sr_seed row)"
    using assms(1) unfolding Some context_of_def option.case by blast
  obtain row' keys' where r': "row' \<in> set (db_subjects (fst V))" "subject_key row' = (kid, name)"
    "open_seed C E profile name (sr_seed row') = Inr keys'" "ctx' = with_subject_generation (tc_with_subject profile keys') (sr_seed row')"
    using assms(2) unfolding Some context_of_def option.case assms(4) by blast
  have "inj_on subject_key (set (db_subjects (fst V)))"
    using assms(3) by (simp add: db_ok_def keys_ok_def distinct_map)
  then have "row' = row" by (rule inj_onD) (simp_all only: r(1,2) r'(1,2))
  then show ?thesis using r(3,4) r'(3,4) by simp
qed (use assms in \<open>simp add: context_of_def\<close>)

text \<open>A decoding request succeeds only for a token whose hash is stored under the key id of the request.\<close>

lemma token_decode_stored:
  assumes "token_decode_endpoint C E env header w s = (s', Inr x)" and "parse_decode_input (he_serde_error env) w = Inr i"
  obtains profile K ctx row where "tokenization_get (he_tokenization env) (tdi_profile i) = Some profile"
    "context_of C E (fst (view s), K) profile (tdi_kid i) (tdi_subject i) Verify ctx"
    "row \<in> set (db_tokens (fst (view s)))" "tr_kid row = tdi_kid i" "tc_hash C ctx (tdi_token i) = Inr (tr_hashid row)"
proof -
  from assms obtain client s1 s2 s3 s4 s5 s6 d i' profile ctx hashid row where
    steps: "authorize_api_key C env header s = (s1, Inr client)"
      "require_permission_for env client (Some (tdi_kid i')) (lit ''token-decode'') (Some (lit ''token.decode.denied'')) s1 = (s2, Inr ())"
      "ensure_keys_db_entry C E env (tdi_kid i') s2 = (s3, Inr ())"
      "token_context_for C E env profile (tdi_kid i') (tdi_subject i') Verify s3 = (s4, Inr ctx)"
      "spawn_blocking_crypto env (tc_hash C ctx (tdi_token i')) s4 = (s5, Inr hashid)"
      "get_token C (he_storage_env env) (tdi_kid i') hashid (hs_storage s5) = (d, Inr row)"
    and pure: "validate_decode_input i = Inr i'" "tokenization_get (he_tokenization env) (tdi_profile i') = Some profile"
    by (auto simp: token_decode_endpoint_def Let_def sop_simps profile_not_found_def bindR_eq_Inr ok_or_eq_Inr
        split: prod.splits)
  have i: "i' = i" using pure(1) by (auto simp: validate_decode_input_def validate_ref_def bindR_eq_Inr bindR_unit_eq)
  note ctx = token_context_Inr [OF steps(4)] and sp = spawn_Inr [OF steps(5)]
  have f: "fst (view s5) = fst (view s)" "fst (view s3) = fst (view s)"
    using quiet_view [OF quiet_intros(6) steps(1)] quiet_view [OF quiet_intros(7) steps(2)] ensure_keys_view [OF steps(3)] ctx(1) sp
    by simp_all
  have "find (\<lambda>r. token_key r = (tdi_kid i', hashid)) (db_tokens (sd_db (hs_storage s5))) = Some row"
    using steps(6) by (auto simp: get_token_def sqlite_get_token_def sop_simps sql_select_token_def ok_or_eq_Inr split: if_splits)
  from find_key [OF this] have "row \<in> set (db_tokens (fst (view s)))" "token_key row = (tdi_kid i', hashid)"
    using f(1) by (simp_all add: view_def)
  then show ?thesis
    using that [of profile "snd (view s3)" ctx row] pure(2) ctx(2) sp f(2) i by (metis prod.collapse prod.inject)
qed

text \<open>Once its row is removed, a token is decoded for nobody.\<close>

lemma removed_token_refused:
  assumes db: "db_ok C db" "row \<in> set (db_tokens db)" and s: "sd_db (hs_storage s) = without_token row db"
    and i: "parse_decode_input (he_serde_error env) w = Inr i" "tokenization_get (he_tokenization env) (tdi_profile i) = Some profile"
    and ctx: "context_of C E (db, K) profile (tdi_kid i) (tdi_subject i) Verify ctx"
    and row: "tr_kid row = tdi_kid i" "tc_hash C ctx (tdi_token i) = Inr (tr_hashid row)"
  shows "isl (snd (token_decode_endpoint C E env header w s))"
proof (rule ccontr)
  assume "\<not> isl (snd (token_decode_endpoint C E env header w s))"
  then obtain s' x where run: "token_decode_endpoint C E env header w s = (s', Inr x)"
    by (metis isl_def prod.collapse sum.exhaust_sel)
  obtain K' ctx' row' where c: "context_of C E (fst (view s), K') profile (tdi_kid i) (tdi_subject i) Verify ctx'"
    and r: "row' \<in> set (db_tokens (fst (view s)))" "tr_kid row' = tdi_kid i" "tc_hash C ctx' (tdi_token i) = Inr (tr_hashid row')"
    using token_decode_stored [OF run i(1)] i(2) by (metis option.inject)
  have "ctx' = ctx" using context_of_unique [OF ctx c] db(1) s by (simp add: view_def without_token_def)
  then have "token_key row' = token_key row" using r(2,3) row by simp
  moreover have "row' \<in> set (db_tokens db)" "\<not> token_matches (tr_kid row) (tr_hashid row) (tr_subject row) row'"
    using r(1) s by (simp_all add: view_def without_token_def)
  moreover have "inj_on token_key (set (db_tokens db))" using db(1) by (simp add: db_ok_def keys_ok_def distinct_map)
  ultimately show False using db(2) by (auto simp: token_matches_def dest: inj_onD)
qed

end
