(* ===== verification/Service_Guarantees.thy ===== *)
theory Service_Guarantees
  imports Token_Service Key_Guarantees
begin

text \<open>
  The properties of the token service as a client sees it, over the handlers of its endpoints.
\<close>

section \<open>Errors\<close>

text \<open>What an error answer may contain: a status of the list, and a short text of printable characters.\<close>

definition public_answer :: "http_error \<Rightarrow> bool" where
  "public_answer e \<longleftrightarrow>
     fst e \<in> {400, 401, 403, 404, 409, 413, 429, 500} \<and> snd e \<noteq> [] \<and> length (snd e) \<le> MAX_ERROR_MESSAGE_CHARS \<and>
     list_all (\<lambda>c. \<not> is_control c) (snd e) \<and>
     (fst e = 500 \<longrightarrow> snd e \<in> {lit ''internal server error'',
        lit ''internal server error final app can'' @ [39] @ lit ''t be reached''})"

lemma sanitized_text:
  "sanitize_error_message m \<noteq> []" "length (sanitize_error_message m) \<le> MAX_ERROR_MESSAGE_CHARS"
  "list_all (\<lambda>c. \<not> is_control c) (sanitize_error_message m)"
  by (auto simp: sanitize_error_message_def Let_def MAX_ERROR_MESSAGE_CHARS_def list_all_iff lit_def char_simps
      dest: in_set_takeD)

lemma sanitize_fixed:
  assumes "list_all (\<lambda>c. \<not> is_control c) m" "m \<noteq> []" "length m \<le> 256"
  shows "sanitize_error_message m = m"
proof -
  have "filter (\<lambda>c. \<not> is_control c) m = m" using assms(1) by (auto simp: list_all_iff filter_id_conv)
  then show ?thesis using assms by (simp add: sanitize_error_message_def MAX_ERROR_MESSAGE_CHARS_def)
qed

lemma internal_texts:
  "sanitize_error_message (lit ''internal server error'') = lit ''internal server error''"
  "sanitize_error_message (lit ''internal server error final app can'' @ [39] @ lit ''t be reached'') =
     lit ''internal server error final app can'' @ [39] @ lit ''t be reached''"
  by (rule sanitize_fixed; simp add: lit_def char_simps)+

lemma error_response_public: "public_answer (error_response err)"
proof -
  have "status_for_error err \<in> {400, 403, 404, 409, 413, 429, 500}" by (cases err rule: status_for_error.cases) simp_all
  moreover have "public_error_message_for_error 500 err \<in> {lit ''internal server error'',
      lit ''internal server error final app can'' @ [39] @ lit ''t be reached''}" if "status_for_error err = 500"
    using that by (cases err rule: status_for_error.cases)
      (simp_all add: public_error_message_for_error_def public_error_message_def)
  ultimately show ?thesis
    using sanitized_text internal_texts by (auto simp: public_answer_def error_response_def Let_def)
qed

text \<open>A handler that answers every error that way.\<close>

definition discreet :: "(http_error, 'a) hop \<Rightarrow> bool" where
  "discreet m \<longleftrightarrow> (\<forall>s s' e. m s = (s', Inl e) \<longrightarrow> public_answer e)"

lemma discreet_intros:
  "discreet (retS x)" "discreet (record_event ev)" "discreet (crypto_failed_response env event actor kid action m)"
  "discreet (require_permission_for env client kid required denied)" "discreet (authorize_api_key C env header)"
proof -
  show "discreet (retS x)" "discreet (record_event ev)" "discreet (crypto_failed_response env event actor kid action m)"
    by (auto simp: discreet_def retS_def record_event_def crypto_failed_response_def split: prod.splits sum.splits)
      (metis error_response_public)
  show "discreet (require_permission_for env client kid required denied)"
    by (auto simp: discreet_def require_permission_for_def record_event_def Let_def bindS_def retS_def liftS_def
        split: sum.splits option.splits) (metis error_response_public)+
  have "public_answer (401, sanitize_error_message (public_error_message 401))"
    using sanitized_text by (simp add: public_answer_def)
  then have "discreet (deny env reason)" "discreet (allow env client)" for reason client
    by (auto simp: discreet_def deny_def allow_def record_event_def bindS_def retS_def liftS_def)
  then show "discreet (authorize_api_key C env header)"
    by (auto simp: authorize_api_key_def split: option.splits sum.splits)
qed

lemma discreet_bind: "discreet m \<Longrightarrow> (\<And>x. discreet (f x)) \<Longrightarrow> discreet (bindS m f)"
  unfolding discreet_def bindS_def by (auto split: prod.splits sum.splits)

lemma discreet_if: "discreet m \<Longrightarrow> discreet n \<Longrightarrow> discreet (if b then m else n)"
  by simp

lemma discreet_prod: "(\<And>a b. discreet (f a b)) \<Longrightarrow> discreet (case x of (a, b) \<Rightarrow> f a b)"
  by (cases x) simp

lemma handle_discreet: "discreet (handle C E env tape header r)"
  unfolding handle_def answering_def
  by (cases r) (simp_all only: token_request.case endpoint_defs Let_def,
    (rule discreet_intros discreet_if discreet_prod discreet_bind)+)

text \<open>What a client and the audit trail see of an audited handler that answers only public errors.\<close>

lemma audited_public:
  assumes "audited m" "discreet m" "m s = (s', r)"
  shows "(\<exists>es. hs_audit s' = hs_audit s @ es \<and> es \<noteq> [] \<and> (ev_outcome (last es) = lit ''success'' \<longleftrightarrow> \<not> isl r)) \<and>
     (case r of
        Inl (status, message) \<Rightarrow>
          status \<in> {400, 401, 403, 404, 409, 413, 429, 500} \<and> 0 < length message \<and> length message \<le> 256 \<and>
          list_all (\<lambda>c. \<not> is_control c) message \<and>
          (if status = 500 then message \<in> {lit ''internal server error'',
             lit ''internal server error final app can'' @ [39] @ lit ''t be reached''} else True)
      | Inr _ \<Rightarrow> True)"
proof -
  have "r = Inl e \<Longrightarrow> public_answer e" for e using assms(2,3) unfolding discreet_def by blast
  moreover have "\<exists>es. hs_audit s' = hs_audit s @ es \<and> es \<noteq> [] \<and> (ev_outcome (last es) = lit ''success'' \<longleftrightarrow> \<not> isl r)"
    using assms(1,3) unfolding audited_def by blast
  ultimately show ?thesis
    by (intro conjI) (simp, cases r, fastforce simp: public_answer_def MAX_ERROR_MESSAGE_CHARS_def, simp)
qed

section \<open>An example\<close>

definition service_profile :: tokenization_profile where
  "service_profile = example_profile\<lparr>tp_one_time := True, tp_subject_mode := NoSubject\<rparr>"

abbreviation service_crates :: crates where
  "service_crates \<equiv> (vault_crates [payload_json example_payload])
     \<lparr>create_hmac_with_algorithm := \<lambda>_ _ _. Inr (replicate 32 3)\<rparr>"

definition service_env :: http_env where
  "service_env = \<lparr>he_permissions = from_clients [], he_tokenization = tokenization_from_profiles [service_profile],
     he_internal_keys = key_internal, he_root_hash = Some ([], replicate 32 3),
     he_storage_env = \<lparr>se_fault = \<lambda>_. None, se_unique_error = []\<rparr>, he_admission = \<lambda>_. None, he_request_id = [],
     he_serde_error = \<lambda>_. []\<rparr>"

definition service_key :: loaded_ops_key where
  "service_key = \<lparr>lk_id = example_kid, lk_aad = [], lk_properties_aad = [], lk_key_material = key_output,
     lk_properties = create_ops_key_properties key_resolved\<rparr>"

definition service_state :: http_state where
  "service_state = \<lparr>hs_storage = empty_storage, hs_keys = keys_from_keys [service_key], hs_admissions = 0, hs_audit = []\<rparr>"

definition service_header :: "u8 list option" where "service_header = Some (replicate 64 97)"

definition encode_request :: json where
  "encode_request = JObject [(lit ''ref'', JString (lit ''1'')), (lit ''profile'', JString (lit ''pan'')),
     (lit ''plaintext'', JString (lit ''4111''))]"

definition service_token :: ustr where
  "service_token = lit ''tok_'' @ concat (replicate 32 (hex_byte 1))"

definition decode_request :: json where
  "decode_request = JObject [(lit ''ref'', JString (lit ''2'')), (lit ''kid'', JString example_kid),
     (lit ''profile'', JString (lit ''pan'')), (lit ''token'', JString service_token)]"

definition service_hashid :: ustr where "service_hashid = concat (replicate 32 (hex_byte 3))"

lemma service_crates_ok:
  "b64_ok service_crates" "json_wire_ok service_crates" "url_format_ok service_crates"
  using vault_crates_ok [of "[payload_json example_payload]"]
  by (simp_all add: b64_ok_def json_wire_ok_def url_format_ok_def)

lemma service_loaded:
  "validate_tokenization_profiles (\<lambda>_. True) token_derive [example_input\<lparr>tpi_one_time := True, tpi_subject_mode := NoSubject\<rparr>] =
     Inr (he_tokenization service_env)"
  "tokenization_get (he_tokenization service_env) (lit ''pan'') = Some service_profile"
proof -
  let ?i = "example_input\<lparr>tpi_one_time := True, tpi_subject_mode := NoSubject\<rparr>"
  have "check_tokenization_input (\<lambda>_. True) ?i = Inr ()"
    by (simp add: check_tokenization_input_ok example_input_def validate_aad_config_name_ok
        validate_token_prefix_ok example_key_id TOKEN_LEN_MIN_BYTES_def TOKEN_PLAINTEXT_MAX_LEN_def
        CONFIG_NAME_MAX_CHARS_def lit_def char_simps)
  moreover have "build_tokenization_profile token_derive ?i = Inr service_profile"
    by (simp add: build_tokenization_profile_def token_derive_def aes_256 TOKEN_KEY_SIZE_BYTES_def
        example_input_def example_profile_def service_profile_def)
  ultimately show "validate_tokenization_profiles (\<lambda>_. True) token_derive [?i] = Inr (he_tokenization service_env)"
    by (simp add: validate_tokenization_profiles_def service_env_def)
  show "tokenization_get (he_tokenization service_env) (lit ''pan'') = Some service_profile"
    by (simp add: tokenization_get_def tokenization_from_profiles_def index_by_name_def list_get_def example_profile_def
        service_profile_def service_env_def)
qed

lemma service_auth:
  "authenticates service_crates service_env service_header (ac_root_client [])"
  "require_permission (he_permissions service_env) (ac_root_client []) (Some example_kid) (lit ''token-encode'') = Inr ()"
  "require_permission (he_permissions service_env) (ac_root_client []) (Some example_kid) (lit ''token-decode'') = Inr ()"
proof -
  have "validate_hash_hex_field f (replicate 64 97) INTERNAL_KEYS_HASH = Inr ()" for f
    by (simp add: validate_hash_hex_field_ok list_all_iff char_simps)
  moreover have "header_to_str (replicate 64 97) = Some (replicate 64 97)" by (simp add: header_to_str_def list_all_iff)
  moreover have "hex_decode_q service_crates (concat (replicate 32 (hex_byte 3))) = Inr (replicate 32 3)"
    using hex_codec [OF vault_crates_ok(4), of "[payload_json example_payload]" "replicate 32 3"]
    by (simp add: hex_decode_q_def vault_crates_def example_crates_def)
  ultimately show "authenticates service_crates service_env service_header (ac_root_client [])"
    by (simp add: authenticates_def authorize_api_key_def service_header_def api_key_hash_def api_key_hash_with_key_def
        create_hmac_def service_env_def allow_def bindS_def record_event_def retS_def vault_crates_def example_crates_def)
  show "require_permission (he_permissions service_env) (ac_root_client []) (Some example_kid) (lit ''token-encode'') = Inr ()"
    "require_permission (he_permissions service_env) (ac_root_client []) (Some example_kid) (lit ''token-decode'') = Inr ()"
    by (simp_all add: require_permission_def ac_root_client_def validate_allowed_value_def validate_text_field_def
        PERMISSION_ACTIONS_def blank_def char_simps lit_def)
qed

definition service_data :: ustr where
  "service_data = envelope_text service_crates ([1] @ replicate 16 0) (replicate 12 1)
     (utf8 (build_aad (tc_aad_fields (tc_from_profile service_profile) service_hashid)))"

definition service_row :: token_row where
  "service_row = \<lparr>tr_kid = example_kid, tr_hashid = service_hashid, tr_data = service_data, tr_subject = None\<rparr>"

lemma service_aad:
  "tc_aad (tc_from_profile service_profile) service_hashid =
     Inr (build_aad (tc_aad_fields (tc_from_profile service_profile) service_hashid))"
  "length (utf8 (build_aad (tc_aad_fields (tc_from_profile service_profile) service_hashid))) \<le> 400"
proof -
  have h: "service_hashid = concat (replicate 32 [48, 51])" by (simp add: service_hashid_def hex_byte_def hex_digit_def)
  note defs = tc_aad_fields_def tc_from_profile_def tc_subject_def example_profile_def service_profile_def
    h example_kid_def TOKEN_DATA_TYPE_def TOKENIZATION_VERSION_RANDOM_V1_def
  show "tc_aad (tc_from_profile service_profile) service_hashid =
      Inr (build_aad (tc_aad_fields (tc_from_profile service_profile) service_hashid))"
    by (simp add: tc_aad_fields(1) build_validated_aad_ok defs blank_def list_all_iff lit_def is_aad_key_char_def char_simps)
  have "list_all is_ascii (build_aad (tc_aad_fields (tc_from_profile service_profile) service_hashid))"
    by (rule ascii_aad) (simp add: defs lit_def is_ascii_def list_all_iff)
  from str_len_ascii [OF this]
  show "length (utf8 (build_aad (tc_aad_fields (tc_from_profile service_profile) service_hashid))) \<le> 400"
    by (simp add: str_len_def build_aad_def defs lit_def length_concat sum_list_replicate)
qed

lemma service_row_ok: "validate_token_row service_crates service_row = Inr ()"
proof -
  let ?aad = "build_aad (tc_aad_fields (tc_from_profile service_profile) service_hashid)"
  have "?aad \<noteq> []"
    using build_aad_text [OF tc_aad_fields(2)] service_aad(1) unfolding tc_aad_fields(1) by (fastforce simp: blank_def)
  moreover have "str_len service_data \<le> STORAGE_TOKEN_ENVELOPE_MAX_CHARS"
    using envelope_len [OF refl, of "[payload_json example_payload]"] service_aad(2)
    by (simp add: service_data_def STORAGE_TOKEN_ENVELOPE_MAX_CHARS_def envelope_text_def)
  ultimately have "validate_storage_envelope service_crates f service_data STORAGE_TOKEN_ENVELOPE_MAX_CHARS = Inr ()" for f
    unfolding service_data_def by (intro storage_envelope_ok service_crates_ok) (simp_all add: utf8_eq_Nil)
  moreover have "validate_hash_hex_field f service_hashid INTERNAL_KEYS_HASH = Inr ()" for f
    using hex_byte_format [of "replicate 32 3"]
    by (auto simp: validate_hash_hex_field_ok service_hashid_def list_all_iff char_simps simp del: set_concat)
  moreover have "validate_hash_hex_field f example_kid INTERNAL_KEYS_HASH = Inr ()" for f
    by (simp add: validate_hash_hex_field_ok example_kid_def list_all_iff char_simps)
  ultimately show ?thesis
    by (simp add: validate_token_row_def service_row_def validate_optional_subject_def validate_token_fields_def
        validate_token_hashid_def validate_storage_kid_def)
qed

lemma service_encode:
  "encode service_crates vault_ciphers fixed_random fixed_random (Inr (lit ''7''))
     \<lparr>pe_kid = example_kid, pe_profile = tc_from_profile service_profile,
      pe_input = \<lparr>te_ref = lit ''1'', te_plaintext = lit ''4111'', te_metadata = None\<rparr>\<rparr> =
   Inr (service_row, \<lparr>eo_ref = lit ''1'', eo_kid = example_kid, eo_profile = lit ''pan'', eo_token = service_token,
     eo_subject = None\<rparr>)"
proof -
  let ?ctx = "tc_from_profile service_profile"
  have p: "tc_profile ?ctx = service_profile" "tc_subject_keys ?ctx = None" "tc_subject ?ctx = None"
    by (simp_all add: tc_from_profile_def tc_subject_def)
  have mode: "tc_validate_mode ?ctx None = Inr ()"
    by (simp add: tc_validate_mode_def validate_token_subject_mode_def p) (simp add: service_profile_def)
  have token: "generate_token service_crates fixed_random service_profile = Inr service_token"
    by (simp add: generate_token_def fixed_random_def service_profile_def example_profile_def service_token_def
        vault_crates_def lit_def)
  have ok: "tokenization_profile_ok service_profile" using loaded_profile_ok [OF service_loaded] by simp
  have "url_codec_ok service_crates" using vault_crates_ok(2) [of "[payload_json example_payload]"] by (simp add: url_codec_ok_def)
  note valid = generate_token_valid [OF ok this service_crates_ok(3) fixed_random_ok token]
    and text_ = generate_token_text [OF ok service_crates_ok(3) token]
  have "\<exists>m. build_validated_aad [(lit ''profile'', tp_name service_profile), (lit ''token'', service_token)] = Inr m"
    using text_ by (auto simp: build_validated_aad_ok service_profile_def example_profile_def lit_def is_aad_key_char_def
        blank_def char_simps)
  then have hash: "hash_token service_crates service_profile service_token = Inr service_hashid"
    using valid by (auto simp: hash_token_def create_hmac_def service_hashid_def vault_crates_def example_crates_def)
  have cipher: "tp_cipher_algorithm service_profile = lit ''AES-256/GCM''" by (simp add: service_profile_def example_profile_def)
  have json: "json_to_vec (vault_crates [payload_json example_payload]) (payload_json example_payload) = [1]" by (simp add: vault_crates_def vault_json_def)
  have "tc_encrypt service_crates vault_ciphers fixed_random ?ctx service_hashid example_payload = Inr service_data"
    by (simp add: tc_encrypt_def p mode service_aad(1) encrypt_token_data_with_key_def token_cipher_def aes_256
        fixed_random_def vault_ciphers_def service_data_def cipher json)
  then show ?thesis
    using token hash mode
    by (simp add: encode_def encode_item_def Let_def p tc_hash_def example_payload_def service_row_def)
      (simp_all add: service_profile_def example_profile_def)
qed

lemma canonical_object:
  assumes "list_all (\<lambda>(k, v). scalar_json v \<and> \<not> starts_with SERDE_JSON_PRIVATE_KEY_PREFIX k) fs"
  shows "validate_canonical_json_value f (JObject fs) = Inr ()"
proof -
  have "validate_canonical_json_value_at_depth f v 1 = Inr ()" if "scalar_json v" for v
    using that by (cases v) (simp_all add: validate_canonical_json_value_at_depth.simps MAX_JSON_DEPTH_def)
  with assms show ?thesis
    by (auto simp: validate_canonical_json_value_def MAX_JSON_DEPTH_def validate_canonical_json_value_at_depth.simps [of _ "JObject fs"]
        try_for_each_ok list_all_iff)
qed

lemma service_requests:
  "validate_canonical_json_value f encode_request = Inr ()" "validate_canonical_json_value f decode_request = Inr ()"
  unfolding encode_request_def decode_request_def
  by (rule canonical_object, simp add: SERDE_JSON_PRIVATE_KEY_PREFIX_def starts_with_def lit_def)+

lemma service_env_ok: "reliable (he_storage_env service_env)" "he_admission service_env = (\<lambda>_. None)"
  by (simp_all add: service_env_def reliable_def)

abbreviation service_context :: token_context where "service_context \<equiv> tc_from_profile service_profile"

lemma service_context_facts:
  "tc_profile service_context = service_profile" "tc_subject service_context = None" "tp_kid service_profile = example_kid"
  "tc_validate_mode service_context None = Inr ()"
  "keys_get (hs_keys service_state) example_kid = Some service_key"
  "prepare_profile_use (hs_keys service_state) example_kid example_kid (lit ''tokenization'') NewUse = Inr ()"
proof -
  show p: "tc_profile service_context = service_profile" "tc_subject service_context = None" "tp_kid service_profile = example_kid"
    by (simp_all add: tc_from_profile_def tc_subject_def service_profile_def example_profile_def)
  show "tc_validate_mode service_context None = Inr ()"
    by (simp add: tc_validate_mode_def validate_token_subject_mode_def p) (simp add: service_profile_def)
  show k: "keys_get (hs_keys service_state) example_kid = Some service_key"
    by (simp add: service_state_def keys_from_keys_def keys_get_def index_by_name_def list_get_def service_key_def)
  have "require_lifecycle_for_new_use service_key = Inr ()"
    by (simp add: require_lifecycle_for_new_use_def lifecycle_status_def service_key_def create_ops_key_properties_def)
  then show "prepare_profile_use (hs_keys service_state) example_kid example_kid (lit ''tokenization'') NewUse = Inr ()"
    using k example_key_id by (simp add: prepare_profile_use_def get_loaded_key_def)
qed

abbreviation service_input :: token_encode_input where
  "service_input \<equiv> \<lparr>tei_profile = lit ''pan'', tei_item = \<lparr>te_ref = lit ''1'', te_plaintext = lit ''4111'', te_metadata = None\<rparr>\<rparr>"

lemma service_inputs:
  "encode_input_of_json encode_request = Some service_input"
  "bindR (parse_encode_input (he_serde_error service_env) encode_request) (validate_encode_input service_crates) = Inr service_input"
proof -
  show r: "encode_input_of_json encode_request = Some service_input"
    by (simp add: encode_request_def encode_input_of_json_def lit_def)
  have "value_get encode_request (lit ''metadata'') = None" by (simp add: encode_request_def lit_def)
  then have "parse_encode_input (he_serde_error service_env) encode_request = Inr service_input"
    by (simp add: parse_encode_input_def validate_request_metadata_def parse_json_request_def service_requests r)
  moreover have "validate_encode_input service_crates service_input = Inr service_input"
    by (simp add: validate_encode_input_def validate_ref_def validate_bounded_text_field_def validate_text_field_def
        validate_aad_config_name_def validate_config_name_def INTERNAL_REF_MAX_CHARS_def CONFIG_NAME_MAX_CHARS_def
        reject_aad_delimiters_def blank_def char_simps lit_def Let_def)
  ultimately show "bindR (parse_encode_input (he_serde_error service_env) encode_request) (validate_encode_input service_crates) =
      Inr service_input" by simp
qed

abbreviation service_db :: database where
  "service_db \<equiv> \<lparr>db_opskeys = [], db_tokens = [service_row], db_indexes = [], db_subjects = []\<rparr>"

lemma service_saved:
  "yields (on_storage (save_token_for_subject service_crates (he_storage_env service_env) (tr_kid service_row)
     (tr_hashid service_row) (tr_data service_row) (tr_subject service_row) seed))
     (sd_db empty_storage, K) service_row (service_db, K)"
proof (rule yields_on_storage)
  fix d :: storage
  assume d: "sd_db d = sd_db empty_storage"
  have "validate_token_fields service_crates (tr_kid service_row) (tr_hashid service_row) (tr_data service_row) = Inr ()"
    and n: "tr_subject service_row = None"
    using service_row_ok by (simp_all add: validate_token_row_def service_row_def bindR_unit_eq)
  then show "\<exists>d'. save_token_for_subject service_crates (he_storage_env service_env) (tr_kid service_row)
      (tr_hashid service_row) (tr_data service_row) (tr_subject service_row) seed d = (d', Inr service_row) \<and> sd_db d' = service_db"
    using d service_env_ok(1)
    by (simp add: save_token_for_subject_def bindS_def liftS_def retS_def sqlite_save_token_for_subject_def Let_def
        validate_optional_subject_def reliable_request sql_insert_token_def empty_storage_def)
qed

lemma service_encoded:
  "yields (token_encode_endpoint service_crates vault_ciphers service_env fixed_random fixed_random (Inr (lit ''7''))
     service_header example_kid None encode_request) (sd_db empty_storage, hs_keys service_state)
     \<lparr>eo_ref = lit ''1'', eo_kid = example_kid, eo_profile = lit ''pan'', eo_token = service_token, eo_subject = None\<rparr>
     (service_db, hs_keys service_state)"
proof -
  let ?V = "(sd_db empty_storage, hs_keys service_state)"
  note failed = yields_intros(5) and facts = service_context_facts
  have ctx: "context_of service_crates vault_ciphers ?V service_profile example_kid None NewUse service_context"
    using facts(4) by (simp add: context_of_def facts tc_validate_mode_def bindR_unit_eq)
  have db: "db_ok service_crates (sd_db empty_storage)"
    by (simp add: empty_storage_def db_ok_def keys_ok_def rows_ok_def no_orphans_def)
  have keys: "yields (ensure_keys_db_entry service_crates vault_ciphers service_env example_kid) ?V () ?V"
    by (intro yields_ensure_keys) (simp_all add: facts example_key_id del: validate_key_id_ok)
  have profile: "yields (profile_not_found (tokenization_get (he_tokenization service_env) (tei_profile service_input))) ?V service_profile ?V"
    by (simp add: profile_not_found_def service_loaded yields_lift)
  have prepared: "yields (with_keys_db_state (\<lambda>st. prepare_encode st example_kid service_context service_input)) ?V
      \<lparr>pe_kid = example_kid, pe_profile = service_context, pe_input = tei_item service_input\<rparr> ?V"
    by (intro yields_intros(4))
      (simp add: prepare_encode_def facts, simp add: service_profile_def example_profile_def lit_def)
  have encoded: "yields (spawn_blocking_crypto service_env (encode service_crates vault_ciphers fixed_random fixed_random
      (Inr (lit ''7'')) \<lparr>pe_kid = example_kid, pe_profile = service_context, pe_input = tei_item service_input\<rparr>)) ?V
      (service_row, \<lparr>eo_ref = lit ''1'', eo_kid = example_kid, eo_profile = lit ''pan'', eo_token = service_token, eo_subject = None\<rparr>) ?V"
    using yields_spawn [OF service_env_ok(2)] by (simp add: service_encode)
  show ?thesis
    unfolding token_encode_endpoint_def Let_def
    by (rule yields_bind [OF yields_authorize [OF service_auth(1)]], rule yields_bind [OF yields_permission [OF service_auth(2)]],
        rule yields_bind [OF failed [OF yields_lift [OF example_key_id]]], rule yields_bind [OF failed [OF keys]],
        rule yields_bind [OF failed [OF yields_lift [OF service_inputs(2)]]], rule yields_bind [OF failed [OF profile]],
        rule yields_bind [OF failed [OF yields_token_context [OF ctx service_env_ok(1) _ service_env_ok(2)]]], simp add: db,
        rule yields_bind [OF failed [OF prepared]], rule yields_bind [OF failed [OF encoded]], unfold prod.case,
        rule yields_bind [OF failed [OF service_saved]], rule yields_bind [OF yields_intros(3)], rule yields_intros(1))
qed

section \<open>Properties\<close>

text \<open>C4: no request reaches keys or tables without permission, and none reaches those of another key. A request
  either ends in an error and leaves storage, keys and admissions as they were, or its API key belongs to a client
  who may perform the action of the request on one key id, and no row of another key id, no key and no index changes.\<close>

theorem service_requires_permission:
  "let (s', r) = handle C E env tape header q s in
     untouched s s' \<and> isl r \<or>
     (\<exists>kid client. authenticates C env header client \<and>
        require_permission (he_permissions env) client (Some kid) (action_of q) = Inr () \<and>
        only_kid kid (sd_db (hs_storage s)) (sd_db (hs_storage s')))"
  using handle_granted [of C env header q E tape] unfolding granted_on_def Let_def case_prod_beta by (metis prod.collapse)

text \<open>C28: every request of the token service is audited with its outcome and answers no more than it should. The audit
  events of the past are kept, it adds at least one, and its last event says success exactly when the client is
  answered with a success; an error answer has a status of the list, a text of 1 to 256 characters without control
  characters, and one of two fixed texts when the error is the server's own.\<close>

theorem service_audited:
  "let (s', r) = handle C E env tape header q s in
     (\<exists>es. hs_audit s' = hs_audit s @ es \<and> es \<noteq> [] \<and> (ev_outcome (last es) = lit ''success'' \<longleftrightarrow> \<not> isl r)) \<and>
     (case r of
        Inl (status, message) \<Rightarrow>
          status \<in> {400, 401, 403, 404, 409, 413, 429, 500} \<and> 0 < length message \<and> length message \<le> 256 \<and>
          list_all (\<lambda>c. \<not> is_control c) message \<and>
          (if status = 500 then message \<in> {lit ''internal server error'',
             lit ''internal server error final app can'' @ [39] @ lit ''t be reached''} else True)
      | Inr _ \<Rightarrow> True)"
  using audited_public [OF handle_audited handle_discreet surjective_pairing] unfolding Let_def case_prod_beta .

text \<open>C3: a token is decoded to what it was encoded from. When a request was answered with a token, a client with
  permission to decode gets the plaintext and the metadata of that request for it, whatever the audit trail and the
  number of storage calls since. The answer is read from one stored row, the one of that key id and subject whose hash id
  is the hash of the token. For a one-time profile that row and no other is removed, and every further request for
  the token, by whichever client, is answered with an error; otherwise no table changed.\<close>

theorem token_service_roundtrip:
  assumes crates: "b64_ok C" "json_wire_ok C" "aead_ok E" "url_format_ok C" and rnd: "random_ok rn"
    and env: "reliable (he_storage_env env)" "he_admission env = (\<lambda>_. None)"
    and loaded: "validate_tokenization_profiles loaded derive inputs = Inr (he_tokenization env)"
    and state: "db_ok C (sd_db (hs_storage s))"
    and request_: "encode_input_of_json v = Some i" "wire_json 127 v" "scalar_str (tei_profile i)"
    and encoded: "token_encode_endpoint C E env rt rn now header kid subject v s = (s', Inr out)"
    and auth: "authenticates C env header' client"
      "require_permission (he_permissions env) client (Some kid) (lit ''token-decode'') = Inr ()"
    and decoding: "parse_decode_input (he_serde_error env) w =
        Inr \<lparr>tdi_ref = r, tdi_kid = eo_kid out, tdi_profile = eo_profile out, tdi_token = eo_token out, tdi_subject = eo_subject out\<rparr>"
      "validate_ref r = Inr r"
  shows "\<exists>s'' profile ctx row. token_decode_endpoint C E env header' w s' =
      (s'', Inr \<lparr>do_ref = r, do_plaintext = te_plaintext (tei_item i), do_metadata = te_metadata (tei_item i)\<rparr>) \<and>
    tokenization_get (he_tokenization env) (tei_profile i) = Some profile \<and>
    context_of C E (view s') profile kid subject Verify ctx \<and> tc_hash C ctx (eo_token out) = Inr (tr_hashid row) \<and>
    tr_kid row = kid \<and> tr_subject row = subject \<and> row \<in> set (db_tokens (sd_db (hs_storage s'))) \<and>
    sd_db (hs_storage s'') =
      (if tp_one_time profile then without_token row (sd_db (hs_storage s')) else sd_db (hs_storage s')) \<and>
    hs_keys s'' = hs_keys s' \<and>
    (tp_one_time profile \<longrightarrow> (\<forall>header'' w'' r''. parse_decode_input (he_serde_error env) w'' =
        Inr \<lparr>tdi_ref = r'', tdi_kid = eo_kid out, tdi_profile = eo_profile out, tdi_token = eo_token out, tdi_subject = eo_subject out\<rparr> \<longrightarrow>
      isl (snd (token_decode_endpoint C E env header'' w'' s''))))"
proof -
  obtain profile ctx row where v: "validate_encode_input C i = Inr i" "validate_key_id kid = Inr ()"
    and p: "tokenization_get (he_tokenization env) (tei_profile i) = Some profile"
    and ctx: "context_of C E (view s') profile kid subject NewUse ctx"
    and enc: "encode C E rt rn now \<lparr>pe_kid = kid, pe_profile = ctx, pe_input = tei_item i\<rparr> = Inr (row, out)"
    and db: "row \<in> set (db_tokens (sd_db (hs_storage s')))" "db_ok C (sd_db (hs_storage s'))"
    using token_encodeE [OF encoded state] request_(1) by (metis option.inject)
  have ok: "tokenization_profile_ok profile" "tp_name profile = tei_profile i" using loaded_profile_ok [OF loaded p] by simp_all
  have c: "context_of C E (view s') profile kid subject Verify ctx"
    using ctx verify_after_new(1) by (auto simp: context_of_def)
  note cf = context_of_facts [OF c]
  have row: "validate_token_row C row = Inr ()" using db by (auto simp: db_ok_def rows_ok_def list_all_iff)
  have "tokenization_profile_ok (tc_profile ctx)" "scalar_str (tp_name (tc_profile ctx))" using cf(1) ok request_(3) by simp_all
  note ed = encode_decode [OF crates rnd this request_(1,2) enc row]
  let ?i = "\<lparr>tdi_ref = r, tdi_kid = eo_kid out, tdi_profile = eo_profile out, tdi_token = eo_token out, tdi_subject = eo_subject out\<rparr>"
  have "validate_aad_config_name (lit ''profile'') (tei_profile i) = Inr ()"
    using v(1) by (auto simp: validate_encode_input_def bindR_unit_eq bindR_eq_Inr Let_def)
  then have valid: "validate_decode_input ?i = Inr ?i"
    using ed(3,4,5,7) cf ok(2) v(2) decoding(2) by (simp add: validate_decode_input_def del: validate_key_id_ok)
  have dec: "decode C E \<lparr>pd_kid = tdi_kid ?i, pd_profile = ctx, pd_input = ?i, pd_data = tr_data row\<rparr> =
      Inr \<lparr>do_ref = r, do_plaintext = te_plaintext (tei_item i), do_metadata = te_metadata (tei_item i)\<rparr>"
    using ed(6,8) by (auto simp: decode_def)
  have "yields (token_decode_endpoint C E env header' w) (view s')
      \<lparr>do_ref = r, do_plaintext = te_plaintext (tei_item i), do_metadata = te_metadata (tei_item i)\<rparr>
      (if tp_one_time profile then (without_token row (fst (view s')), snd (view s')) else view s')"
    by (rule yields_decode [OF env auth(1) _ decoding(1) valid _ _ _ _ _ _ _ dec])
      (use auth(2) ed cf ok p c db in \<open>simp_all add: view_def\<close>)
  from yieldsD [OF this] obtain s'' where
    run: "token_decode_endpoint C E env header' w s' =
      (s'', Inr \<lparr>do_ref = r, do_plaintext = te_plaintext (tei_item i), do_metadata = te_metadata (tei_item i)\<rparr>)"
    and s'': "view s'' = (if tp_one_time profile then (without_token row (fst (view s')), snd (view s')) else view s')" by blast
  have "isl (snd (token_decode_endpoint C E env h x s''))"
    if "tp_one_time profile" "parse_decode_input (he_serde_error env) x = Inr (?i\<lparr>tdi_ref := y\<rparr>)" for h x y
    by (rule removed_token_refused [OF db(2,1) _ that(2)]) (use s'' that(1) ed p cf ok c in \<open>simp_all add: view_def\<close>)
  then show ?thesis
    using run s'' p c db(1) ed(1,2,6) cf(2) by (intro exI [of _ s''] exI [of _ profile] exI [of _ ctx] exI [of _ row]) (auto simp: view_def)
qed

theorem token_service_roundtrip_witness:
  "\<exists>s' s''. token_encode_endpoint service_crates vault_ciphers service_env fixed_random fixed_random (Inr (lit ''7''))
       service_header example_kid None encode_request service_state =
       (s', Inr \<lparr>eo_ref = lit ''1'', eo_kid = example_kid, eo_profile = lit ''pan'', eo_token = service_token, eo_subject = None\<rparr>) \<and>
     token_decode_endpoint service_crates vault_ciphers service_env service_header decode_request s' =
       (s'', Inr \<lparr>do_ref = lit ''2'', do_plaintext = lit ''4111'', do_metadata = None\<rparr>) \<and>
     db_tokens (sd_db (hs_storage s')) = [service_row] \<and> db_tokens (sd_db (hs_storage s'')) = [] \<and>
     isl (snd (token_decode_endpoint service_crates vault_ciphers service_env service_header decode_request s''))"
proof -
  have v: "view service_state = (sd_db empty_storage, hs_keys service_state)" by (simp add: view_def service_state_def)
  let ?out = "\<lparr>eo_ref = lit ''1'', eo_kid = example_kid, eo_profile = lit ''pan'', eo_token = service_token, eo_subject = None\<rparr>"
  obtain s' where run: "token_encode_endpoint service_crates vault_ciphers service_env fixed_random fixed_random (Inr (lit ''7''))
      service_header example_kid None encode_request service_state = (s', Inr ?out)" and t: "db_tokens (sd_db (hs_storage s')) = [service_row]"
    using yieldsD [OF service_encoded [folded v]] by (auto simp: view_def)
  have db: "db_ok service_crates (sd_db (hs_storage service_state))"
    by (simp add: service_state_def empty_storage_def db_ok_def keys_ok_def rows_ok_def no_orphans_def)
  have w: "wire_json 127 encode_request" by (simp add: encode_request_def lit_def numeral_eq_Suc)
  have d: "parse_decode_input (he_serde_error service_env) decode_request =
      Inr \<lparr>tdi_ref = lit ''2'', tdi_kid = eo_kid ?out, tdi_profile = eo_profile ?out, tdi_token = eo_token ?out, tdi_subject = eo_subject ?out\<rparr>"
    by (simp add: parse_decode_input_def parse_json_request_def service_requests)
      (simp add: decode_request_def decode_input_of_json_def opt_str_def lit_def)
  have r: "validate_ref (lit ''2'') = Inr (lit ''2'')"
    by (simp add: validate_ref_def validate_bounded_text_field_def validate_text_field_def INTERNAL_REF_MAX_CHARS_def
        char_simps lit_def)
  from token_service_roundtrip [OF service_crates_ok(1,2) vault_ciphers_ok(1) service_crates_ok(3) fixed_random_ok service_env_ok
      service_loaded(1) db service_inputs(1) w _ run service_auth(1,3) d r] t service_loaded(2)
  obtain s'' where "token_decode_endpoint service_crates vault_ciphers service_env service_header decode_request s' =
       (s'', Inr \<lparr>do_ref = lit ''2'', do_plaintext = lit ''4111'', do_metadata = None\<rparr>)"
     "sd_db (hs_storage s'') = without_token service_row (sd_db (hs_storage s'))"
     "isl (snd (token_decode_endpoint service_crates vault_ciphers service_env service_header decode_request s''))"
    using d by (fastforce simp: scalar_str_lit service_profile_def)
  then show ?thesis using run t by (intro exI [of _ s'] exI [of _ s'']) (simp add: without_token_def token_matches_def)
qed

end
