(* ===== verification/Single_Flight.thy ===== *)
theory Single_Flight
  imports Errors
begin

text \<open>
  \<open>src/io/http/key_load.rs\<close>: concurrent requests for a key that is not in memory share one load.

  A flight is an allocation that the requests for one key id share; the registry keeps a weak pointer to it, here
  the number of the allocation, and every participant a strong one in its lease. \<open>strong_count\<close> counts the leases.
  The code under the lock of the registry (\<open>acquire\<close> and dropping a lease) is one step each; between them the
  participants interleave, may be cancelled at any point, and start the loader when the \<open>OnceCell\<close> of the flight
  lets them. Which waiting participant the cell admits is a parameter, \<open>admits\<close>, and \<open>once_cell_ok\<close> states what
  its documentation promises: one initializer at a time, none once a value is set, and some waiter while the cell
  is empty and idle. The server keeps the registry alive, so a lease never outlives it.
\<close>

section \<open>Flights and leases\<close>

record key_load_flight =
  fl_result :: "(vectis_error + unit) option"
  fl_initializer :: "nat option"

record key_load_singleflight =
  sf_flights :: "ustr \<rightharpoonup> nat"
  sf_allocated :: "key_load_flight list"
  sf_leases :: "(nat \<times> ustr \<times> nat) list"

definition singleflight_new :: key_load_singleflight where
  "singleflight_new = \<lparr>sf_flights = Map.empty, sf_allocated = [], sf_leases = []\<rparr>"

definition flight_new :: key_load_flight where
  "flight_new = \<lparr>fl_result = None, fl_initializer = None\<rparr>"

definition participants :: "key_load_singleflight \<Rightarrow> nat \<Rightarrow> nat list" where
  "participants s flight = map fst (filter (\<lambda>(_, _, f). f = flight) (sf_leases s))"

definition strong_count :: "key_load_singleflight \<Rightarrow> nat \<Rightarrow> nat" where
  "strong_count s flight = length (participants s flight)"

definition acquire :: "nat \<Rightarrow> ustr \<Rightarrow> key_load_singleflight \<Rightarrow> key_load_singleflight" where
  "acquire task kid s =
     (let flights = (\<lambda>k. Option.bind (sf_flights s k) (\<lambda>f. if 0 < strong_count s f then Some f else None)) in
      case flights kid of
        Some flight \<Rightarrow> s\<lparr>sf_flights := flights, sf_leases := (task, kid, flight) # sf_leases s\<rparr>
      | None \<Rightarrow>
          (let flight = length (sf_allocated s) in
           s\<lparr>sf_flights := flights(kid \<mapsto> flight), sf_allocated := sf_allocated s @ [flight_new],
             sf_leases := (task, kid, flight) # sf_leases s\<rparr>))"

definition drop_lease :: "nat \<times> ustr \<times> nat \<Rightarrow> key_load_singleflight \<Rightarrow> key_load_singleflight" where
  "drop_lease lease s =
     (let (task, kid, flight) = lease;
          s = s\<lparr>sf_leases := filter (\<lambda>l. l \<noteq> lease) (sf_leases s)\<rparr>;
          remove = sf_flights s kid = Some flight \<and> strong_count s flight = 0 in
      if remove then s\<lparr>sf_flights := (sf_flights s)(kid := None)\<rparr> else s)"

fun shared_error :: "dyn_error \<Rightarrow> vectis_error" where
  "shared_error (Vectis err) = err"
| "shared_error err = Internal (to_string err)"

section \<open>Runs\<close>

text \<open>Besides the registry: the error a participant met in its own loader, the answers given, and, for the
  statements, who joined which flight and which loader ended with which result.\<close>

record key_loads =
  kl_flights :: key_load_singleflight
  kl_leader_error :: "nat \<rightharpoonup> dyn_error"
  kl_answers :: "nat \<rightharpoonup> unit result"
  kl_joined :: "(nat \<times> ustr \<times> nat) list"
  kl_loads :: "(nat \<times> nat \<times> unit result) list"

definition key_loads_init :: key_loads where
  "key_loads_init = \<lparr>kl_flights = singleflight_new, kl_leader_error = Map.empty, kl_answers = Map.empty,
     kl_joined = [], kl_loads = []\<rparr>"

type_synonym admission = "key_load_flight \<Rightarrow> nat list \<Rightarrow> nat \<Rightarrow> bool"

definition once_cell_ok :: "admission \<Rightarrow> bool" where
  "once_cell_ok admits \<longleftrightarrow>
     (\<forall>c ts t. admits c ts t \<longrightarrow> t \<in> set ts \<and> fl_result c = None \<and> fl_initializer c = None) \<and>
     (\<forall>c ts. fl_result c = None \<and> fl_initializer c = None \<and> ts \<noteq> [] \<longrightarrow> (\<exists>t. admits c ts t))"

abbreviation cell :: "key_loads \<Rightarrow> nat \<Rightarrow> key_load_flight" where
  "cell s flight \<equiv> sf_allocated (kl_flights s) ! flight"

definition set_cell :: "nat \<Rightarrow> key_load_flight \<Rightarrow> key_loads \<Rightarrow> key_loads" where
  "set_cell flight c s =
     s\<lparr>kl_flights := (kl_flights s)\<lparr>sf_allocated := (sf_allocated (kl_flights s))[flight := c]\<rparr>\<rparr>"

definition release :: "nat \<times> ustr \<times> nat \<Rightarrow> key_loads \<Rightarrow> key_loads" where
  "release lease s = s\<lparr>kl_flights := drop_lease lease (kl_flights s)\<rparr>"

text \<open>The steps of \<open>run\<close>: joining a flight, starting the loader, its end, the answer, and being cancelled. A
  participant that is cancelled while it initializes the cell leaves the cell empty.\<close>

definition join_flight :: "nat \<Rightarrow> ustr \<Rightarrow> key_loads \<Rightarrow> key_loads" where
  "join_flight task kid s =
     (let r = acquire task kid (kl_flights s) in s\<lparr>kl_flights := r, kl_joined := hd (sf_leases r) # kl_joined s\<rparr>)"

definition start_load :: "nat \<Rightarrow> nat \<Rightarrow> key_loads \<Rightarrow> key_loads" where
  "start_load task flight s = set_cell flight ((cell s flight)\<lparr>fl_initializer := Some task\<rparr>) s"

definition end_load :: "nat \<Rightarrow> nat \<Rightarrow> unit result \<Rightarrow> key_loads \<Rightarrow> key_loads" where
  "end_load task flight r s =
     (set_cell flight \<lparr>fl_result = Some (case r of Inr _ \<Rightarrow> Inr () | Inl err \<Rightarrow> Inl (shared_error err)), fl_initializer = None\<rparr> s)
       \<lparr>kl_leader_error := (case r of Inr _ \<Rightarrow> kl_leader_error s | Inl err \<Rightarrow> (kl_leader_error s)(task \<mapsto> err)),
        kl_loads := (flight, task, r) # kl_loads s\<rparr>"

definition answer_of :: "key_loads \<Rightarrow> nat \<Rightarrow> vectis_error + unit \<Rightarrow> unit result" where
  "answer_of s task shared =
     (case kl_leader_error s task of
        Some err \<Rightarrow> Inl err
      | None \<Rightarrow> (case shared of Inr _ \<Rightarrow> Inr () | Inl err \<Rightarrow> Inl (Vectis err)))"

definition give_answer :: "nat \<times> ustr \<times> nat \<Rightarrow> vectis_error + unit \<Rightarrow> key_loads \<Rightarrow> key_loads" where
  "give_answer lease shared s =
     (release lease s)\<lparr>kl_answers := (kl_answers s)(fst lease \<mapsto> answer_of s (fst lease) shared)\<rparr>"

definition cancel_load :: "nat \<times> ustr \<times> nat \<Rightarrow> key_loads \<Rightarrow> key_loads" where
  "cancel_load lease s =
     (case lease of (task, _, flight) \<Rightarrow>
        release lease
          (if fl_initializer (cell s flight) = Some task
           then set_cell flight ((cell s flight)\<lparr>fl_initializer := None\<rparr>) s else s))"

inductive load_step :: "admission \<Rightarrow> key_loads \<Rightarrow> key_loads \<Rightarrow> bool" for admits where
  Start: "(task, kid, flight) \<in> set (sf_leases (kl_flights s)) \<Longrightarrow>
      admits (cell s flight) (participants (kl_flights s) flight) task \<Longrightarrow>
      load_step admits s (start_load task flight s)"
| Load: "(task, kid, flight) \<in> set (sf_leases (kl_flights s)) \<Longrightarrow> fl_initializer (cell s flight) = Some task \<Longrightarrow>
      load_step admits s (end_load task flight r s)"
| Answer: "(task, kid, flight) \<in> set (sf_leases (kl_flights s)) \<Longrightarrow> fl_result (cell s flight) = Some shared \<Longrightarrow>
      load_step admits s (give_answer (task, kid, flight) shared s)"

inductive run_step :: "admission \<Rightarrow> key_loads \<Rightarrow> key_loads \<Rightarrow> bool" for admits where
  Proceed: "load_step admits s s' \<Longrightarrow> run_step admits s s'"
| Cancel: "lease \<in> set (sf_leases (kl_flights s)) \<Longrightarrow> run_step admits s (cancel_load lease s)"

inductive key_loads_reach :: "admission \<Rightarrow> key_loads \<Rightarrow> bool" for admits where
  Init: "key_loads_reach admits key_loads_init"
| Join: "key_loads_reach admits s \<Longrightarrow> task \<notin> fst ` set (kl_joined s) \<Longrightarrow> key_loads_reach admits (join_flight task kid s)"
| Run: "key_loads_reach admits s \<Longrightarrow> run_step admits s s' \<Longrightarrow> key_loads_reach admits s'"

section \<open>The registry\<close>

text \<open>Every lease is for the flight the registry names, and every flight it names has a lease.\<close>

definition flights_ok :: "key_load_singleflight \<Rightarrow> bool" where
  "flights_ok s \<longleftrightarrow>
     distinct (map fst (sf_leases s)) \<and>
     (\<forall>task kid flight. (task, kid, flight) \<in> set (sf_leases s) \<longrightarrow> sf_flights s kid = Some flight) \<and>
     (\<forall>kid flight. sf_flights s kid = Some flight \<longrightarrow>
        flight < length (sf_allocated s) \<and> (\<exists>task. (task, kid, flight) \<in> set (sf_leases s)) \<and>
        (\<forall>kid'. sf_flights s kid' = Some flight \<longrightarrow> kid' = kid))"

lemma participants_iff: "task \<in> set (participants s flight) \<longleftrightarrow> (\<exists>kid. (task, kid, flight) \<in> set (sf_leases s))"
  by (force simp: participants_def)

lemma strong_count_pos: "0 < strong_count s flight \<longleftrightarrow> (\<exists>task kid. (task, kid, flight) \<in> set (sf_leases s))"
  unfolding strong_count_def length_greater_0_conv using participants_iff [of _ s flight]
  by (metis empty_iff empty_set neq_Nil_conv list.set_intros(1))

lemma strong_count_filter:
  "strong_count (s\<lparr>sf_leases := filter P (sf_leases s)\<rparr>) flight = 0 \<longleftrightarrow>
     (\<forall>task kid. (task, kid, flight) \<in> set (sf_leases s) \<longrightarrow> \<not> P (task, kid, flight))"
  using strong_count_pos [of "s\<lparr>sf_leases := filter P (sf_leases s)\<rparr>" flight] by auto

lemma flights_okD:
  assumes "flights_ok s"
  shows "(task, kid, flight) \<in> set (sf_leases s) \<Longrightarrow> sf_flights s kid = Some flight"
    "sf_flights s kid = Some flight \<Longrightarrow> flight < length (sf_allocated s)"
    "sf_flights s kid = Some flight \<Longrightarrow> \<exists>task. (task, kid, flight) \<in> set (sf_leases s)"
    "sf_flights s kid = Some flight \<Longrightarrow> sf_flights s kid' = Some flight \<Longrightarrow> kid' = kid"
    "distinct (map fst (sf_leases s))"
  using assms unfolding flights_ok_def by blast+

lemma lease_unique:
  assumes "flights_ok s" "(task, kid, flight) \<in> set (sf_leases s)" "(task, kid', flight') \<in> set (sf_leases s)"
  shows "kid' = kid \<and> flight' = flight"
  using eq_key_imp_eq_value [OF flights_okD(5) [OF assms(1)] assms(2,3)] by simp

text \<open>Nothing is left to retain, so joining shares the flight of the key id or makes a new one.\<close>

lemma acquire_eq:
  assumes "flights_ok s"
  shows "acquire task kid s =
     (case sf_flights s kid of
        Some flight \<Rightarrow> s\<lparr>sf_leases := (task, kid, flight) # sf_leases s\<rparr>
      | None \<Rightarrow> s\<lparr>sf_flights := (sf_flights s)(kid \<mapsto> length (sf_allocated s)), sf_allocated := sf_allocated s @ [flight_new],
          sf_leases := (task, kid, length (sf_allocated s)) # sf_leases s\<rparr>)"
proof -
  have "Option.bind (sf_flights s k) (\<lambda>f. if 0 < strong_count s f then Some f else None) = sf_flights s k" for k
    using flights_okD(3) [OF assms, of k] by (cases "sf_flights s k") (auto simp: strong_count_pos)
  then show ?thesis by (cases s) (simp add: acquire_def Let_def split: option.split)
qed

lemma acquire_ok:
  assumes "flights_ok s" "task \<notin> fst ` set (sf_leases s)"
  shows "flights_ok (acquire task kid s)"
proof (cases "sf_flights s kid")
  case None
  then have "(t, kid, f) \<notin> set (sf_leases s)" for t f using flights_okD(1) [OF assms(1)] by fastforce
  moreover have "sf_flights s k \<noteq> Some (length (sf_allocated s))" for k using flights_okD(2) [OF assms(1)] by blast
  ultimately show ?thesis
    using assms None unfolding acquire_eq [OF assms(1)] None option.case flights_ok_def
    by (auto simp: less_Suc_eq)
next
  case (Some flight)
  then have "acquire task kid s = s\<lparr>sf_leases := (task, kid, flight) # sf_leases s\<rparr>" using acquire_eq [OF assms(1)] by simp
  then show ?thesis using assms Some unfolding flights_ok_def by simp blast
qed

lemma drop_lease_leases [simp]:
  "sf_leases (drop_lease l s) = filter (\<lambda>l'. l' \<noteq> l) (sf_leases s)" "sf_allocated (drop_lease l s) = sf_allocated s"
  by (simp_all add: drop_lease_def Let_def split: prod.split)

lemma drop_lease_eq:
  assumes "flights_ok s" "(task, kid, flight) \<in> set (sf_leases s)"
  shows "drop_lease (task, kid, flight) s =
    (if \<exists>t. t \<noteq> task \<and> (t, kid, flight) \<in> set (sf_leases s)
     then s\<lparr>sf_leases := filter (\<lambda>l. l \<noteq> (task, kid, flight)) (sf_leases s)\<rparr>
     else s\<lparr>sf_leases := filter (\<lambda>l. l \<noteq> (task, kid, flight)) (sf_leases s), sf_flights := (sf_flights s)(kid := None)\<rparr>)"
proof -
  have f: "sf_flights s kid = Some flight" by (rule flights_okD(1) [OF assms])
  have "strong_count (s\<lparr>sf_leases := filter (\<lambda>l. l \<noteq> (task, kid, flight)) (sf_leases s)\<rparr>) flight = 0 \<longleftrightarrow>
      \<not> (\<exists>t. t \<noteq> task \<and> (t, kid, flight) \<in> set (sf_leases s))"
    unfolding strong_count_filter using flights_okD(1,4) [OF assms(1)] f by blast
  then show ?thesis by (cases "\<exists>t. t \<noteq> task \<and> (t, kid, flight) \<in> set (sf_leases s)") (auto simp: drop_lease_def Let_def f)
qed

lemma drop_lease_ok:
  assumes ok: "flights_ok s" and l: "(task, kid, flight) \<in> set (sf_leases s)"
  shows "flights_ok (drop_lease (task, kid, flight) s)"
proof -
  have f: "sf_flights s kid = Some flight" by (rule flights_okD(1) [OF assms])
  have u: "(task, k, g) \<in> set (sf_leases s) \<Longrightarrow> k = kid \<and> g = flight" for k g by (rule lease_unique [OF ok l])
  have d: "distinct (map fst (filter P (sf_leases s)))" for P
    by (rule distinct_map_filter [OF flights_okD(5) [OF ok]])
  show ?thesis
  proof (cases "\<exists>t. t \<noteq> task \<and> (t, kid, flight) \<in> set (sf_leases s)")
    case True
    have "\<exists>t. (t, k, g) \<in> set (sf_leases s) \<and> (t, k, g) \<noteq> (task, kid, flight)" if "sf_flights s k = Some g" for k g
      using flights_okD(3) [OF ok that] True f that by (cases "k = kid") auto
    then show ?thesis
      using True ok d unfolding drop_lease_eq [OF assms] flights_ok_def by simp blast
  next
    case False
    have "(t, k, g) \<noteq> (task, kid, flight) \<and> k \<noteq> kid" if "(t, k, g) \<in> set (sf_leases s)" "(t, k, g) \<noteq> (task, kid, flight)" for t k g
      using that False flights_okD(1) [OF ok that(1)] f by auto
    then show ?thesis
      using False ok d unfolding drop_lease_eq [OF assms] flights_ok_def by (simp, blast)
  qed
qed

section \<open>The invariant of a run\<close>

definition shared_result :: "unit result \<Rightarrow> vectis_error + unit" where
  "shared_result r = (case r of Inr _ \<Rightarrow> Inr () | Inl err \<Rightarrow> Inl (shared_error err))"

text \<open>What a participant is told when the loader of \<open>leader\<close> ended with \<open>r\<close>.\<close>

definition told :: "nat \<Rightarrow> nat \<Rightarrow> unit result \<Rightarrow> unit result" where
  "told task leader r = (if task = leader then r else map_err (\<lambda>err. Vectis (shared_error err)) r)"

definition joins_ok :: "key_loads \<Rightarrow> bool" where
  "joins_ok s \<longleftrightarrow> distinct (map fst (kl_joined s)) \<and> set (sf_leases (kl_flights s)) \<subseteq> set (kl_joined s) \<and>
     (\<forall>task kid flight. (task, kid, flight) \<in> set (kl_joined s) \<longrightarrow> flight < length (sf_allocated (kl_flights s)) \<and>
        (\<forall>task' kid'. (task', kid', flight) \<in> set (kl_joined s) \<longrightarrow> kid' = kid))"

definition cell_ok ::
    "(nat \<times> ustr \<times> nat) list \<Rightarrow> (nat \<times> nat \<times> unit result) list \<Rightarrow> nat \<Rightarrow> key_load_flight \<Rightarrow> bool" where
  "cell_ok leases loads flight c \<longleftrightarrow>
     (\<forall>task. fl_initializer c = Some task \<longrightarrow> fl_result c = None \<and> (\<exists>kid. (task, kid, flight) \<in> set leases)) \<and>
     (\<forall>v. fl_result c = Some v \<longleftrightarrow> (\<exists>task r. (flight, task, r) \<in> set loads \<and> v = shared_result r))"

definition cells_ok :: "key_loads \<Rightarrow> bool" where
  "cells_ok s \<longleftrightarrow> (\<forall>flight < length (sf_allocated (kl_flights s)).
     cell_ok (sf_leases (kl_flights s)) (kl_loads s) flight (cell s flight))"

definition loads_ok :: "key_loads \<Rightarrow> bool" where
  "loads_ok s \<longleftrightarrow> distinct (map fst (kl_loads s)) \<and>
     (\<forall>flight task r. (flight, task, r) \<in> set (kl_loads s) \<longrightarrow> (\<exists>kid. (task, kid, flight) \<in> set (kl_joined s))) \<and>
     (\<forall>task err. kl_leader_error s task = Some err \<longleftrightarrow> (\<exists>flight. (flight, task, Inl err) \<in> set (kl_loads s)))"

definition answers_ok :: "key_loads \<Rightarrow> bool" where
  "answers_ok s \<longleftrightarrow> (\<forall>task a. kl_answers s task = Some a \<longrightarrow>
     (\<exists>kid flight leader r. (task, kid, flight) \<in> set (kl_joined s) \<and> (flight, leader, r) \<in> set (kl_loads s) \<and> a = told task leader r))"

definition key_loads_ok :: "key_loads \<Rightarrow> bool" where
  "key_loads_ok s \<longleftrightarrow> flights_ok (kl_flights s) \<and> joins_ok s \<and> cells_ok s \<and> loads_ok s \<and> answers_ok s"

lemma key_loads_init_ok: "key_loads_ok key_loads_init"
  by (simp add: key_loads_ok_def key_loads_init_def singleflight_new_def flights_ok_def joins_ok_def cells_ok_def loads_ok_def answers_ok_def)

lemma key_loads_okD:
  assumes "key_loads_ok s"
  shows "(task, kid, flight) \<in> set (sf_leases (kl_flights s)) \<Longrightarrow> (task, kid, flight) \<in> set (kl_joined s)"
    "(task, kid, flight) \<in> set (kl_joined s) \<Longrightarrow> flight < length (sf_allocated (kl_flights s))"
    "(task, kid, flight) \<in> set (kl_joined s) \<Longrightarrow> (task, kid', flight') \<in> set (kl_joined s) \<Longrightarrow> flight' = flight"
    "(flight, task, r) \<in> set (kl_loads s) \<Longrightarrow> \<exists>kid. (task, kid, flight) \<in> set (kl_joined s)"
    "(flight, task, r) \<in> set (kl_loads s) \<Longrightarrow> (flight, task', r') \<in> set (kl_loads s) \<Longrightarrow> task' = task \<and> r' = r"
    "flight < length (sf_allocated (kl_flights s)) \<Longrightarrow> cell_ok (sf_leases (kl_flights s)) (kl_loads s) flight (cell s flight)"
    "flights_ok (kl_flights s)"
    "(task, kid, flight) \<in> set (kl_joined s) \<Longrightarrow> (task', kid', flight) \<in> set (kl_joined s) \<Longrightarrow> kid' = kid"
proof -
  have j: "joins_ok s" "loads_ok s" "cells_ok s" "flights_ok (kl_flights s)" using assms by (simp_all add: key_loads_ok_def)
  then show "flights_ok (kl_flights s)"
    "flight < length (sf_allocated (kl_flights s)) \<Longrightarrow> cell_ok (sf_leases (kl_flights s)) (kl_loads s) flight (cell s flight)"
    by (simp_all add: cells_ok_def)
  show "(task, kid, flight) \<in> set (sf_leases (kl_flights s)) \<Longrightarrow> (task, kid, flight) \<in> set (kl_joined s)"
    "(task, kid, flight) \<in> set (kl_joined s) \<Longrightarrow> flight < length (sf_allocated (kl_flights s))"
    "(flight, task, r) \<in> set (kl_loads s) \<Longrightarrow> \<exists>kid. (task, kid, flight) \<in> set (kl_joined s)"
    "(task, kid, flight) \<in> set (kl_joined s) \<Longrightarrow> (task', kid', flight) \<in> set (kl_joined s) \<Longrightarrow> kid' = kid"
    using j(1,2) unfolding joins_ok_def loads_ok_def by blast+
  have d: "distinct (map fst (kl_joined s))" "distinct (map fst (kl_loads s))" using j by (simp_all add: joins_ok_def loads_ok_def)
  show "(task, kid, flight) \<in> set (kl_joined s) \<Longrightarrow> (task, kid', flight') \<in> set (kl_joined s) \<Longrightarrow> flight' = flight"
    using eq_key_imp_eq_value [OF d(1)] by blast
  show "(flight, task, r) \<in> set (kl_loads s) \<Longrightarrow> (flight, task', r') \<in> set (kl_loads s) \<Longrightarrow> task' = task \<and> r' = r"
    using eq_key_imp_eq_value [OF d(2)] by blast
qed

lemma cell_ok_other_load: "flight' \<noteq> flight \<Longrightarrow> cell_ok ls ((flight', t, r) # loads) flight c = cell_ok ls loads flight c"
  by (simp add: cell_ok_def)

lemma cell_ok_more_leases: "cell_ok ls loads flight c \<Longrightarrow> cell_ok (l # ls) loads flight c"
  by (auto simp: cell_ok_def)

lemma set_cell_ok:
  assumes "\<And>f. f < length (sf_allocated (kl_flights s)) \<Longrightarrow> f \<noteq> flight \<Longrightarrow> cell_ok ls loads f (cell s f)" "cell_ok ls loads flight c"
    and "f < length (sf_allocated (kl_flights s))"
  shows "cell_ok ls loads f ((sf_allocated (kl_flights s))[flight := c] ! f)"
  using assms by (cases "f = flight") simp_all

lemma join_flight_ok:
  assumes s: "key_loads_ok s" and new: "task \<notin> fst ` set (kl_joined s)"
  shows "key_loads_ok (join_flight task kid s)"
proof -
  note ok = key_loads_okD(7) [OF s]
  let ?s = "join_flight task kid s"
  have "task \<notin> fst ` set (sf_leases (kl_flights s))" using new key_loads_okD(1) [OF s] by force
  then have f: "flights_ok (kl_flights ?s)" using acquire_ok [OF ok] by (simp add: join_flight_def Let_def)
  obtain flight cs where j: "kl_joined ?s = (task, kid, flight) # kl_joined s"
    and l: "sf_leases (kl_flights ?s) = (task, kid, flight) # sf_leases (kl_flights s)"
    and c: "sf_allocated (kl_flights ?s) = sf_allocated (kl_flights s) @ cs"
    and n: "flight < length (sf_allocated (kl_flights s) @ cs)" "cs = [] \<or> cs = [flight_new]"
    and k: "sf_flights (kl_flights s) kid = Some flight \<or> flight = length (sf_allocated (kl_flights s))"
    and same: "kl_loads ?s = kl_loads s" "kl_leader_error ?s = kl_leader_error s" "kl_answers ?s = kl_answers s"
    using flights_okD(2) [OF ok] unfolding join_flight_def Let_def acquire_eq [OF ok]
    by (cases "sf_flights (kl_flights s) kid") auto
  have "k' = kid" if "(t', k', flight) \<in> set (kl_joined s)" for t' k'
    using k flights_okD(3) [OF ok] key_loads_okD(1,2,8) [OF s] that by blast
  then have "joins_ok ?s" using s new n(1) unfolding key_loads_ok_def joins_ok_def j l c by (auto intro: trans_less_add1)
  moreover have "cell_ok (sf_leases (kl_flights ?s)) (kl_loads ?s) g (cell ?s g)" if g: "g < length (sf_allocated (kl_flights ?s))" for g
  proof (cases "g < length (sf_allocated (kl_flights s))")
    case True
    then show ?thesis using key_loads_okD(6) [OF s True] by (simp add: l c same nth_append cell_ok_more_leases)
  next
    case False
    then have "(g, t, r) \<notin> set (kl_loads s)" for t r using key_loads_okD(2,4) [OF s] by blast
    moreover have "cell ?s g = flight_new" using g False n(2) by (auto simp: c nth_append less_Suc_eq)
    ultimately show ?thesis by (simp add: same cell_ok_def flight_new_def)
  qed
  then have "cells_ok ?s" by (simp add: cells_ok_def)
  moreover have "loads_ok ?s" "answers_ok ?s"
    using s unfolding key_loads_ok_def loads_ok_def answers_ok_def j same by (simp_all, blast+)
  ultimately show ?thesis using f by (simp add: key_loads_ok_def)
qed

lemma start_load_ok:
  assumes s: "key_loads_ok s" "(task, kid, flight) \<in> set (sf_leases (kl_flights s))"
    and c: "fl_result (cell s flight) = None" "fl_initializer (cell s flight) = None"
  shows "key_loads_ok (start_load task flight s)"
proof -
  let ?c = "(cell s flight)\<lparr>fl_initializer := Some task\<rparr>"
  have n: "flight < length (sf_allocated (kl_flights s))" using key_loads_okD(1,2) [OF s(1)] s(2) by blast
  have "cell_ok (sf_leases (kl_flights s)) (kl_loads s) flight ?c"
    using key_loads_okD(6) [OF s(1) n] s(2) c by (auto simp: cell_ok_def)
  then have "cells_ok (start_load task flight s)"
    using set_cell_ok key_loads_okD(6) [OF s(1)] by (simp add: cells_ok_def start_load_def set_cell_def)
  then show ?thesis
    using s(1) by (simp add: key_loads_ok_def start_load_def set_cell_def flights_ok_def joins_ok_def loads_ok_def answers_ok_def)
qed

lemma end_load_ok:
  assumes s: "key_loads_ok s" "(task, kid, flight) \<in> set (sf_leases (kl_flights s))" and c: "fl_initializer (cell s flight) = Some task"
  shows "key_loads_ok (end_load task flight r s)"
proof -
  let ?s = "end_load task flight r s" and ?c = "\<lparr>fl_result = Some (shared_result r), fl_initializer = None\<rparr>"
  have u: "(task, kid, flight) \<in> set (kl_joined s)" by (rule key_loads_okD(1) [OF s])
  then have n: "flight < length (sf_allocated (kl_flights s))" by (rule key_loads_okD(2) [OF s(1)])
  have none: "(flight, t, r) \<notin> set (kl_loads s)" for t r
    using key_loads_okD(6) [OF s(1) n] c by (fastforce simp: cell_ok_def)
  have fresh: "(g, task, r) \<notin> set (kl_loads s)" for g r
    using key_loads_okD(3) [OF s(1) u] key_loads_okD(4) [OF s(1)] none by blast
  have e: "kl_flights ?s = (kl_flights s)\<lparr>sf_allocated := (sf_allocated (kl_flights s))[flight := ?c]\<rparr>"
    "kl_loads ?s = (flight, task, r) # kl_loads s" "kl_joined ?s = kl_joined s" "kl_answers ?s = kl_answers s"
    by (simp_all add: end_load_def set_cell_def shared_result_def)
  have "cell_ok (sf_leases (kl_flights s)) ((flight, task, r) # kl_loads s) flight ?c"
    using none by (auto simp: cell_ok_def)
  then have "cells_ok ?s"
    using set_cell_ok key_loads_okD(6) [OF s(1)] by (simp add: cells_ok_def e cell_ok_other_load)
  moreover have "loads_ok ?s"
    using s(1) none fresh u unfolding key_loads_ok_def loads_ok_def e
    by (cases r) (auto simp: end_load_def set_cell_def image_iff, blast+)
  moreover have "answers_ok ?s"
    using s(1) unfolding key_loads_ok_def answers_ok_def e by (simp, blast)
  ultimately show ?thesis
    using s(1) by (simp add: key_loads_ok_def e flights_ok_def joins_ok_def)
qed

lemma release_ok:
  assumes s: "key_loads_ok s" "(task, kid, flight) \<in> set (sf_leases (kl_flights s))"
    and c: "fl_initializer (cell s flight) \<noteq> Some task"
  shows "key_loads_ok (release (task, kid, flight) s)"
proof -
  let ?s = "release (task, kid, flight) s"
  note ok = key_loads_okD(7) [OF s(1)]
  have l: "sf_leases (kl_flights ?s) = filter (\<lambda>l. l \<noteq> (task, kid, flight)) (sf_leases (kl_flights s))"
    "sf_allocated (kl_flights ?s) = sf_allocated (kl_flights s)" "kl_loads ?s = kl_loads s" "kl_joined ?s = kl_joined s"
    "kl_leader_error ?s = kl_leader_error s" "kl_answers ?s = kl_answers s"
    by (simp_all add: release_def)
  have "flights_ok (kl_flights ?s)" using drop_lease_ok [OF ok s(2)] by (simp add: release_def)
  moreover have "cell_ok (sf_leases (kl_flights ?s)) (kl_loads ?s) g (cell ?s g)" if g: "g < length (sf_allocated (kl_flights s))" for g
    using key_loads_okD(6) [OF s(1) g] c unfolding cell_ok_def l by auto
  then have "cells_ok ?s" by (simp add: cells_ok_def l)
  moreover have "joins_ok ?s" "loads_ok ?s" "answers_ok ?s"
    using s(1) unfolding key_loads_ok_def joins_ok_def loads_ok_def answers_ok_def l by auto
  ultimately show ?thesis by (simp add: key_loads_ok_def)
qed

lemma give_answer_ok:
  assumes s: "key_loads_ok s" "(task, kid, flight) \<in> set (sf_leases (kl_flights s))"
    and c: "fl_result (cell s flight) = Some shared"
  shows "key_loads_ok (give_answer (task, kid, flight) shared s)"
proof -
  have u: "(task, kid, flight) \<in> set (kl_joined s)" by (rule key_loads_okD(1) [OF s])
  note cell = key_loads_okD(6) [OF s(1) key_loads_okD(2) [OF s(1) u]]
  obtain leader r where r: "(flight, leader, r) \<in> set (kl_loads s)" "shared = shared_result r"
    using cell c unfolding cell_ok_def by blast
  have e: "kl_leader_error s task = Some err \<longleftrightarrow> task = leader \<and> r = Inl err" for err
  proof -
    have "kl_leader_error s task = Some err \<longleftrightarrow> (\<exists>g. (g, task, Inl err) \<in> set (kl_loads s))"
      using s(1) by (simp add: key_loads_ok_def loads_ok_def)
    moreover have "task = leader \<and> r = Inl err" if g: "(g, task, Inl err) \<in> set (kl_loads s)" for g
    proof -
      have "g = flight" using key_loads_okD(3) [OF s(1) u] key_loads_okD(4) [OF s(1) g] by blast
      then show ?thesis using key_loads_okD(5) [OF s(1) r(1)] g by blast
    qed
    ultimately show ?thesis using r(1) by blast
  qed
  have a: "answer_of s task shared = told task leader r"
  proof (cases "kl_leader_error s task")
    case None
    then show ?thesis using e r(2) by (cases r) (auto simp: answer_of_def told_def shared_result_def)
  next
    case (Some err)
    then have "task = leader" "r = Inl err" using e by simp_all
    then show ?thesis using Some by (simp add: answer_of_def told_def)
  qed
  have "fl_initializer (cell s flight) \<noteq> Some task" using cell c by (auto simp: cell_ok_def)
  note rel = release_ok [OF s this]
  let ?s = "give_answer (task, kid, flight) shared s"
  have "kl_answers ?s = (kl_answers s)(task \<mapsto> told task leader r)" "kl_joined ?s = kl_joined s" "kl_loads ?s = kl_loads s"
    by (simp_all add: give_answer_def release_def a)
  moreover have "answers_ok s" using s(1) by (simp add: key_loads_ok_def)
  ultimately have "answers_ok ?s" using u r(1) unfolding answers_ok_def fun_upd_def by (metis option.inject)
  then show ?thesis
    using rel by (simp add: give_answer_def key_loads_ok_def joins_ok_def cells_ok_def loads_ok_def)
qed

lemma cancel_load_ok:
  assumes s: "key_loads_ok s" "(task, kid, flight) \<in> set (sf_leases (kl_flights s))"
  shows "key_loads_ok (cancel_load (task, kid, flight) s)"
proof (cases "fl_initializer (cell s flight) = Some task")
  case True
  let ?c = "(cell s flight)\<lparr>fl_initializer := None\<rparr>"
  have n: "flight < length (sf_allocated (kl_flights s))" using key_loads_okD(1,2) [OF s(1)] s(2) by blast
  have "cell_ok (sf_leases (kl_flights s)) (kl_loads s) flight ?c"
    using key_loads_okD(6) [OF s(1) n] by (auto simp: cell_ok_def)
  then have "cells_ok (set_cell flight ?c s)"
    using set_cell_ok key_loads_okD(6) [OF s(1)] by (simp add: cells_ok_def set_cell_def)
  then have "key_loads_ok (set_cell flight ?c s)"
    using s(1) by (simp add: key_loads_ok_def set_cell_def flights_ok_def joins_ok_def loads_ok_def answers_ok_def)
  moreover have "fl_initializer (cell (set_cell flight ?c s) flight) \<noteq> Some task" using n by (simp add: set_cell_def)
  moreover have "(task, kid, flight) \<in> set (sf_leases (kl_flights (set_cell flight ?c s)))" using s(2) by (simp add: set_cell_def)
  ultimately show ?thesis using release_ok True by (simp add: cancel_load_def)
next
  case False
  then show ?thesis using release_ok [OF s] by (simp add: cancel_load_def)
qed

lemma load_step_ok:
  assumes "load_step admits s s'" "once_cell_ok admits" "key_loads_ok s"
  shows "key_loads_ok s'"
  using assms(1)
proof cases
  case (Start task kid flight)
  then show ?thesis using start_load_ok [OF assms(3)] assms(2) by (auto simp: once_cell_ok_def)
qed (use assms(3) end_load_ok give_answer_ok in auto)

lemma run_step_ok:
  "run_step admits s s' \<Longrightarrow> once_cell_ok admits \<Longrightarrow> key_loads_ok s \<Longrightarrow> key_loads_ok s'"
  by (auto elim!: run_step.cases intro: load_step_ok cancel_load_ok)

lemma reach_ok: "key_loads_reach admits s \<Longrightarrow> once_cell_ok admits \<Longrightarrow> key_loads_ok s"
  by (induction rule: key_loads_reach.induct) (auto intro: key_loads_init_ok join_flight_ok run_step_ok)

section \<open>Termination\<close>

text \<open>A cell goes from empty through initializing to its result; a cancelled initializer sets it back by one, but
  takes its lease, which counts two, with it.\<close>

definition cell_rank :: "key_load_flight \<Rightarrow> nat" where
  "cell_rank c = (if fl_result c \<noteq> None then 0 else if fl_initializer c \<noteq> None then 1 else 2)"

definition load_rank :: "key_loads \<Rightarrow> nat" where
  "load_rank s = 2 * length (sf_leases (kl_flights s)) + sum_list (map cell_rank (sf_allocated (kl_flights s)))"

lemma rank_update:
  "i < length cs \<Longrightarrow> sum_list (map cell_rank (cs[i := c])) + cell_rank (cs ! i) = sum_list (map cell_rank cs) + cell_rank c"
  by (induction cs arbitrary: i) (auto split: nat.split simp: less_Suc_eq_0_disj)

lemma release_rank:
  assumes "lease \<in> set (sf_leases (kl_flights s))"
  shows "load_rank (release lease s) + 2 \<le> load_rank s"
proof -
  have "length (filter (\<lambda>l. l \<noteq> lease) (sf_leases (kl_flights s))) < length (sf_leases (kl_flights s))"
    using assms by (simp add: length_filter_less)
  then show ?thesis by (simp add: release_def load_rank_def)
qed

lemma load_step_rank:
  assumes "load_step admits s s'" "once_cell_ok admits" "key_loads_ok s"
  shows "load_rank s' < load_rank s"
  using assms(1)
proof cases
  case (Start task kid flight)
  then have "flight < length (sf_allocated (kl_flights s))" using key_loads_okD(1,2) [OF assms(3)] by blast
  from rank_update [OF this, of "(cell s flight)\<lparr>fl_initializer := Some task\<rparr>"] Start assms(2) show ?thesis
    by (auto simp: load_rank_def start_load_def set_cell_def cell_rank_def once_cell_ok_def)
next
  case (Load task kid flight r)
  then have "flight < length (sf_allocated (kl_flights s))" using key_loads_okD(1,2) [OF assms(3)] by blast
  moreover from key_loads_okD(6) [OF assms(3) this] Load have "cell_rank (cell s flight) = 1"
    by (auto simp: cell_ok_def cell_rank_def)
  moreover have "cell_rank \<lparr>fl_result = Some v, fl_initializer = None\<rparr> = 0" for v by (simp add: cell_rank_def)
  ultimately show ?thesis
    using rank_update [of flight "sf_allocated (kl_flights s)" "\<lparr>fl_result = Some (shared_result r), fl_initializer = None\<rparr>"] Load
    by (simp add: load_rank_def end_load_def set_cell_def shared_result_def)
next
  case (Answer task kid flight shared)
  then show ?thesis
    using release_rank [of "(task, kid, flight)" s] by (simp add: give_answer_def load_rank_def)
qed

lemma run_step_rank:
  assumes "run_step admits s s'" "once_cell_ok admits" "key_loads_ok s"
  shows "load_rank s' < load_rank s"
  using assms(1)
proof cases
  case Proceed
  then show ?thesis using load_step_rank assms(2,3) by blast
next
  case (Cancel lease)
  obtain task kid flight where l: "lease = (task, kid, flight)" by (cases lease) auto
  let ?s = "if fl_initializer (cell s flight) = Some task then set_cell flight ((cell s flight)\<lparr>fl_initializer := None\<rparr>) s else s"
  have n: "flight < length (sf_allocated (kl_flights s))" using key_loads_okD(1,2) [OF assms(3)] Cancel l by blast
  have "load_rank ?s \<le> Suc (load_rank s)"
    using rank_update [OF n, of "(cell s flight)\<lparr>fl_initializer := None\<rparr>"] by (auto simp: load_rank_def set_cell_def cell_rank_def split: if_splits)
  moreover have "lease \<in> set (sf_leases (kl_flights ?s))" using Cancel by (simp add: set_cell_def)
  note release_rank [OF this]
  ultimately show ?thesis using Cancel by (simp add: cancel_load_def l)
qed

text \<open>A participant can always move: the result is there, a loader runs, or the cell admits one of those who wait.\<close>

lemma load_progress:
  assumes "once_cell_ok admits" "key_loads_ok s" "(task, kid, flight) \<in> set (sf_leases (kl_flights s))"
  shows "\<exists>s'. load_step admits s s'"
proof (cases "fl_result (cell s flight)")
  case (Some shared)
  then show ?thesis using assms(3) load_step.Answer by blast
next
  case None
  note cell = key_loads_okD(6) [OF assms(2) key_loads_okD(2) [OF assms(2) key_loads_okD(1) [OF assms(2,3)]]]
  show ?thesis
  proof (cases "fl_initializer (cell s flight)")
    case (Some t)
    then show ?thesis using cell load_step.Load unfolding cell_ok_def by blast
  next
    case idle: None
    have "participants (kl_flights s) flight \<noteq> []" using participants_iff assms(3) by (metis empty_iff empty_set)
    then obtain t where t: "admits (cell s flight) (participants (kl_flights s) flight) t" "t \<in> set (participants (kl_flights s) flight)"
      using assms(1) None idle unfolding once_cell_ok_def by blast
    then show ?thesis using load_step.Start unfolding participants_iff by blast
  qed
qed

lemma load_step_answers:
  assumes "load_step admits s s'"
  shows "fst ` set (sf_leases (kl_flights s)) \<subseteq> fst ` set (sf_leases (kl_flights s')) \<union> dom (kl_answers s')"
    "dom (kl_answers s) \<subseteq> dom (kl_answers s')"
proof -
  show "fst ` set (sf_leases (kl_flights s)) \<subseteq> fst ` set (sf_leases (kl_flights s')) \<union> dom (kl_answers s')"
    "dom (kl_answers s) \<subseteq> dom (kl_answers s')"
    using assms by (auto elim!: load_step.cases simp: start_load_def end_load_def set_cell_def give_answer_def release_def image_iff)
qed

lemma loads_finish:
  assumes "once_cell_ok admits" "key_loads_ok s"
  shows "\<exists>s'. (load_step admits)\<^sup>*\<^sup>* s s' \<and> sf_leases (kl_flights s') = [] \<and> key_loads_ok s' \<and>
    fst ` set (sf_leases (kl_flights s)) \<subseteq> dom (kl_answers s') \<and> dom (kl_answers s) \<subseteq> dom (kl_answers s')"
  using assms(2)
proof (induction "load_rank s" arbitrary: s rule: less_induct)
  case less
  show ?case
  proof (cases "sf_leases (kl_flights s)")
    case Nil
    then show ?thesis using less.prems by (intro exI [of _ s]) simp
  next
    case (Cons lease ls)
    obtain task kid flight where "(task, kid, flight) \<in> set (sf_leases (kl_flights s))" using Cons by (cases lease) auto
    then obtain s1 where s1: "load_step admits s s1" using load_progress [OF assms(1) less.prems] by blast
    from less.hyps [OF load_step_rank [OF s1 assms(1) less.prems] load_step_ok [OF s1 assms(1) less.prems]]
    obtain s' where s': "(load_step admits)\<^sup>*\<^sup>* s1 s'" "sf_leases (kl_flights s') = []" "key_loads_ok s'"
      "fst ` set (sf_leases (kl_flights s1)) \<subseteq> dom (kl_answers s')" "dom (kl_answers s1) \<subseteq> dom (kl_answers s')" by blast
    then have "(load_step admits)\<^sup>*\<^sup>* s s'" using s1 by (meson converse_rtranclp_into_rtranclp)
    moreover have "fst ` set (sf_leases (kl_flights s)) \<subseteq> dom (kl_answers s')"
      using load_step_answers(1) [OF s1] s'(4,5) by (meson Un_least subset_trans)
    moreover have "dom (kl_answers s) \<subseteq> dom (kl_answers s')" using load_step_answers(2) [OF s1] s'(5) by (rule subset_trans)
    ultimately show ?thesis using s'(2,3) by (intro exI [of _ s'] conjI)
  qed
qed

lemma no_infinite_run:
  assumes "once_cell_ok admits" "key_loads_ok (f 0)" "\<And>i. run_step admits (f i) (f (Suc i))"
  shows False
proof -
  have "key_loads_ok (f i)" for i by (induction i) (use assms run_step_ok in blast)+
  then have "load_rank (f (Suc i)) < load_rank (f i)" for i using run_step_rank [OF assms(3) assms(1)] by blast
  then have "\<forall>i. (load_rank (f (Suc i)), load_rank (f i)) \<in> {(x, y). x < y}" by simp
  then have "\<exists>g :: nat \<Rightarrow> nat. \<forall>i. (g (Suc i), g i) \<in> {(x, y). x < y}" by (intro exI [of _ "\<lambda>i. load_rank (f i)"])
  then show False using wf_iff_no_infinite_down_chain [of "{(x :: nat, y). x < y}"] wf_less by blast
qed

section \<open>An example\<close>

text \<open>A cell that admits the first of those who wait, and two requests for one key of which the first is cancelled
  while it loads.\<close>

definition first_waiter :: admission where
  "first_waiter c ts t \<longleftrightarrow> fl_result c = None \<and> fl_initializer c = None \<and> ts \<noteq> [] \<and> t = last ts"

lemma first_waiter_ok: "once_cell_ok first_waiter"
  by (auto simp: once_cell_ok_def first_waiter_def)

definition waiting_loads :: key_loads where
  "waiting_loads = start_load 1 0 (join_flight 2 [107] (join_flight 1 [107] key_loads_init))"

definition failed_load :: key_loads where
  "failed_load = give_answer (3, [107], 0) (Inl (NotFound [])) (end_load 2 0 (Inl (not_found []))
     (start_load 2 0 (join_flight 3 [107] (cancel_load (1, [107], 0) waiting_loads))))"

lemmas load_eval = waiting_loads_def failed_load_def start_load_def end_load_def give_answer_def cancel_load_def release_def set_cell_def
  join_flight_def key_loads_init_def singleflight_new_def acquire_def drop_lease_def strong_count_def participants_def flight_new_def
  answer_of_def not_found_def Let_def

lemma waiting_reach: "key_loads_reach first_waiter waiting_loads"
  unfolding waiting_loads_def
proof (rule key_loads_reach.Run)
  let ?s = "join_flight 2 [107] (join_flight 1 [107] key_loads_init)"
  show "key_loads_reach first_waiter ?s"
    by (rule key_loads_reach.Join, rule key_loads_reach.Join, rule key_loads_reach.Init) (simp_all add: load_eval)
  show "run_step first_waiter ?s (start_load 1 0 ?s)"
    by (rule run_step.Proceed, rule load_step.Start [where kid = "[107]"]) (simp_all add: load_eval first_waiter_def)
qed

lemma failed_reach: "key_loads_reach first_waiter failed_load"
  unfolding failed_load_def
proof (rule key_loads_reach.Run)
  let ?s1 = "join_flight 3 [107] (cancel_load (1, [107], 0) waiting_loads)"
  let ?s2 = "end_load 2 0 (Inl (not_found [])) (start_load 2 0 ?s1)"
  have "key_loads_reach first_waiter (cancel_load (1, [107], 0) waiting_loads)"
    by (rule key_loads_reach.Run [OF waiting_reach], rule run_step.Cancel) (simp add: load_eval)
  then have s1: "key_loads_reach first_waiter ?s1"
    by (rule key_loads_reach.Join) (simp add: load_eval)
  have "run_step first_waiter ?s1 (start_load 2 0 ?s1)"
    by (rule run_step.Proceed, rule load_step.Start [where kid = "[107]"]) (simp_all add: load_eval first_waiter_def)
  then have "key_loads_reach first_waiter (start_load 2 0 ?s1)" by (rule key_loads_reach.Run [OF s1])
  moreover have "run_step first_waiter (start_load 2 0 ?s1) ?s2"
    by (rule run_step.Proceed, rule load_step.Load [where kid = "[107]"]) (simp_all add: load_eval)
  ultimately show "key_loads_reach first_waiter ?s2" by (rule key_loads_reach.Run)
  show "run_step first_waiter ?s2 (give_answer (3, [107], 0) (Inl (NotFound [])) ?s2)"
    by (rule run_step.Proceed, rule load_step.Answer) (simp_all add: load_eval)
qed

section \<open>Properties\<close>

text \<open>C5: concurrent requests for one key share one load. Whatever the interleaving and whoever is cancelled, at most
  one loader runs for a key id at a time, all requests for it share the flight the registry names, no flight is
  loaded twice, and the registry names a flight exactly while somebody takes part in it.\<close>

theorem single_flight:
  assumes "once_cell_ok admits" and "key_loads_reach admits s"
  shows "(\<forall>t t' kid f f'. (t, kid, f) \<in> set (sf_leases (kl_flights s)) \<and> fl_initializer (cell s f) = Some t \<and>
      (t', kid, f') \<in> set (sf_leases (kl_flights s)) \<and> fl_initializer (cell s f') = Some t' \<longrightarrow> t' = t) \<and>
    (\<forall>t kid f. (t, kid, f) \<in> set (sf_leases (kl_flights s)) \<longrightarrow> sf_flights (kl_flights s) kid = Some f) \<and>
    distinct (map fst (kl_loads s)) \<and>
    (\<forall>kid. sf_flights (kl_flights s) kid = None \<longleftrightarrow> kid \<notin> (fst \<circ> snd) ` set (sf_leases (kl_flights s)))"
proof -
  note ok = reach_ok [OF assms(2,1)] note f = key_loads_okD(7) [OF ok]
  have l: "(t, kid, g) \<in> set (sf_leases (kl_flights s)) \<Longrightarrow> sf_flights (kl_flights s) kid = Some g" for t kid g
    by (rule flights_okD(1) [OF f])
  moreover have "t' = t" if "(t, kid, g) \<in> set (sf_leases (kl_flights s))" "fl_initializer (cell s g) = Some t"
      "(t', kid, g') \<in> set (sf_leases (kl_flights s))" "fl_initializer (cell s g') = Some t'" for t t' kid g g'
    using l [OF that(1)] l [OF that(3)] that(2,4) by simp
  moreover have "distinct (map fst (kl_loads s))" using ok by (simp add: key_loads_ok_def loads_ok_def)
  moreover have "sf_flights (kl_flights s) kid = None \<longleftrightarrow> kid \<notin> (fst \<circ> snd) ` set (sf_leases (kl_flights s))" for kid
    using l flights_okD(3) [OF f, of kid] by (cases "sf_flights (kl_flights s) kid") (force simp: image_iff)+
  ultimately show ?thesis by blast
qed

theorem single_flight_witness:
  "sf_leases (kl_flights waiting_loads) = [(2, [107], 0), (1, [107], 0)] \<and> fl_initializer (cell waiting_loads 0) = Some 1 \<and>
   sf_flights (kl_flights waiting_loads) [107] = Some 0 \<and> sf_flights (kl_flights waiting_loads) [108] = None"
proof -
  have l: "sf_leases (kl_flights waiting_loads) = [(2, [107], 0), (1, [107], 0)]" "fl_initializer (cell waiting_loads 0) = Some 1"
    by (simp_all add: load_eval)
  note f = single_flight [OF first_waiter_ok waiting_reach, unfolded l(1)]
  have "sf_flights (kl_flights waiting_loads) [107] = Some 0" using f [THEN conjunct2, THEN conjunct1] by simp
  moreover have "sf_flights (kl_flights waiting_loads) [108] = None"
    using f [THEN conjunct2, THEN conjunct2, THEN conjunct2, THEN spec, of "[108]"] by simp
  ultimately show ?thesis using l by simp
qed

text \<open>C35: every answer is that of one load of the request's own flight. A request that is answered joined a flight
  whose loader ended with some result; the request that ran it is given that result itself, every other one the
  same success or the shared form of the same error.\<close>

theorem single_flight_answers:
  assumes "once_cell_ok admits" and "key_loads_reach admits s" and "kl_answers s t = Some a"
  shows "\<exists>kid f leader r. (t, kid, f) \<in> set (kl_joined s) \<and> (leader, kid, f) \<in> set (kl_joined s) \<and>
    (f, leader, r) \<in> set (kl_loads s) \<and> a = (if t = leader then r else map_err (\<lambda>err. Vectis (shared_error err)) r)"
proof -
  note ok = reach_ok [OF assms(2,1)]
  then obtain kid f leader r where r: "(t, kid, f) \<in> set (kl_joined s)" "(f, leader, r) \<in> set (kl_loads s)" "a = told t leader r"
    using assms(3) unfolding key_loads_ok_def answers_ok_def by blast
  then obtain kid' where "(leader, kid', f) \<in> set (kl_joined s)" using key_loads_okD(4) [OF ok] by blast
  then have "(leader, kid, f) \<in> set (kl_joined s)" using key_loads_okD(8) [OF ok r(1)] by blast
  then show ?thesis using r unfolding told_def by blast
qed

theorem single_flight_answers_witness:
  "kl_answers failed_load 3 = Some (Inl (not_found [])) \<and>
   (\<exists>r. (0, 2, r) \<in> set (kl_loads failed_load) \<and> Inl (not_found []) = map_err (\<lambda>err. Vectis (shared_error err)) r)"
proof -
  have a: "kl_answers failed_load 3 = Some (Inl (not_found []))" and l: "kl_loads failed_load = [(0, 2, Inl (not_found []))]"
    by (simp_all add: load_eval)
  from single_flight_answers [OF first_waiter_ok failed_reach a] show ?thesis using a unfolding l by auto
qed

text \<open>C34: loading ends. From every reachable state there is no infinite run of steps of those who take part, whoever
  is cancelled; and they can all be answered, after which the registry is empty.\<close>

theorem single_flight_ends:
  assumes "once_cell_ok admits" and "key_loads_reach admits s"
  shows "\<not> (\<exists>f. f 0 = s \<and> (\<forall>i. run_step admits (f i) (f (Suc i)))) \<and>
    (\<exists>s'. (load_step admits)\<^sup>*\<^sup>* s s' \<and> sf_flights (kl_flights s') = Map.empty \<and>
      fst ` set (sf_leases (kl_flights s)) \<subseteq> dom (kl_answers s'))"
proof (rule conjI)
  note ok = reach_ok [OF assms(2,1)]
  show "\<not> (\<exists>f. f 0 = s \<and> (\<forall>i. run_step admits (f i) (f (Suc i))))" using no_infinite_run [OF assms(1)] ok by blast
  obtain s' where s': "(load_step admits)\<^sup>*\<^sup>* s s'" "sf_leases (kl_flights s') = []" "key_loads_ok s'"
    "fst ` set (sf_leases (kl_flights s)) \<subseteq> dom (kl_answers s')" using loads_finish [OF assms(1) ok] by blast
  then have "sf_flights (kl_flights s') kid = None" for kid
    using flights_okD(3) [OF key_loads_okD(7), of s' kid] by (cases "sf_flights (kl_flights s') kid") auto
  then show "\<exists>s'. (load_step admits)\<^sup>*\<^sup>* s s' \<and> sf_flights (kl_flights s') = Map.empty \<and>
      fst ` set (sf_leases (kl_flights s)) \<subseteq> dom (kl_answers s')" using s' by auto
qed

theorem single_flight_ends_witness:
  "\<not> (\<exists>f. f 0 = waiting_loads \<and> (\<forall>i. run_step first_waiter (f i) (f (Suc i)))) \<and>
   (\<exists>s'. (load_step first_waiter)\<^sup>*\<^sup>* waiting_loads s' \<and> kl_answers s' 1 \<noteq> None \<and> kl_answers s' 2 \<noteq> None)"
proof -
  have l: "sf_leases (kl_flights waiting_loads) = [(2, [107], 0), (1, [107], 0)]" by (simp add: load_eval)
  show ?thesis
    using single_flight_ends [OF first_waiter_ok waiting_reach] unfolding l by auto
qed

end
