(* ===== verification/Routes.thy ===== *)
theory Routes
  imports Hosts Profiles
begin

text \<open>
  \<open>src/core/routes.rs\<close>: the application each key delivers its messages to, with a default for keys without an
  entry, and \<open>validate_http_path_field\<close> of \<open>src/core/config.rs\<close>. A loaded table has one route for a key id and for
  a name, so that the look-up, which takes the first match, answers with the one entry for the key.
\<close>

section \<open>Model\<close>

record final_app_route =
  fr_kid :: ustr
  fr_name :: ustr
  fr_final_app_addr :: ustr
  fr_final_app_path :: ustr

type_synonym route_input = final_app_route

record routes_state =
  fs_default_addr :: ustr
  fs_default_path :: ustr
  fs_routes :: "final_app_route list"

definition routes_from_parts :: "ustr \<Rightarrow> ustr \<Rightarrow> final_app_route list \<Rightarrow> routes_state" where
  "routes_from_parts default_addr default_path routes =
     \<lparr>fs_default_addr = default_addr, fs_default_path = default_path, fs_routes = routes\<rparr>"

definition final_route_for :: "routes_state \<Rightarrow> ustr \<Rightarrow> final_app_route" where
  "final_route_for st kid =
     (case find (\<lambda>route. fr_kid route = kid) (fs_routes st) of
        Some route \<Rightarrow> route
      | None \<Rightarrow> \<lparr>fr_kid = kid, fr_name = lit ''default-final-app'', fr_final_app_addr = fs_default_addr st,
                 fr_final_app_path = fs_default_path st\<rparr>)"

text \<open>47 is the slash and 32 the space.\<close>

definition validate_http_path_field :: "ustr \<Rightarrow> ustr \<Rightarrow> ustr result" where
  "validate_http_path_field field v =
     bindR (validate_text_field field v) (\<lambda>_.
       if \<not> starts_with [47] v then Inl (invalid_input (field @ lit '' must start with /''))
       else if 32 \<in> set v then Inl (invalid_input (field @ lit '' must not contain spaces''))
       else Inr v)"

fun validate_routes_loop ::
    "net \<Rightarrow> (ustr \<Rightarrow> bool) \<Rightarrow> ustr set \<Rightarrow> ustr set \<Rightarrow> route_input list \<Rightarrow> final_app_route list result" where
  "validate_routes_loop N is_loaded_kid seen_kids seen_names [] = Inr []"
| "validate_routes_loop N is_loaded_kid seen_kids seen_names (route # routes) =
     bindR (map_err (\<lambda>err. invalid_input (lit ''routes.kid is invalid: '' @ to_string err)) (validate_key_id (fr_kid route))) (\<lambda>_.
       if \<not> is_loaded_kid (fr_kid route)
       then Inl (invalid_input (lit ''routes file references kid not loaded in memory: '' @ fr_kid route))
       else if fr_kid route \<in> seen_kids
       then Inl (invalid_input (lit ''routes file has duplicated kid: '' @ fr_kid route))
       else
     bindR (validate_config_name (lit ''routes.name'') (fr_name route)) (\<lambda>_.
       if fr_name route \<in> seen_names
       then Inl (invalid_input (lit ''routes file has duplicated name: '' @ fr_name route))
       else
     bindR (validate_host_port N (lit ''routes.final_app_addr'') (fr_final_app_addr route)) (\<lambda>final_app_addr.
     bindR (validate_http_path_field (lit ''routes.final_app_path'') (fr_final_app_path route)) (\<lambda>final_app_path.
     bindR (validate_routes_loop N is_loaded_kid (insert (fr_kid route) seen_kids) (insert (fr_name route) seen_names) routes)
       (\<lambda>validated.
         Inr (route\<lparr>fr_final_app_addr := final_app_addr, fr_final_app_path := final_app_path\<rparr> # validated))))))"

definition validate_routes :: "net \<Rightarrow> (ustr \<Rightarrow> bool) \<Rightarrow> route_input list \<Rightarrow> final_app_route list result" where
  "validate_routes N is_loaded_kid routes = validate_routes_loop N is_loaded_kid {} {} routes"

section \<open>Look-up\<close>

text \<open>What an entry of the table becomes.\<close>

definition route_of :: "net \<Rightarrow> (ustr \<Rightarrow> bool) \<Rightarrow> route_input \<Rightarrow> final_app_route \<Rightarrow> bool" where
  "route_of N is_loaded_kid i r \<longleftrightarrow>
     is_loaded_kid (fr_kid i) \<and> validate_key_id (fr_kid i) = Inr () \<and> fr_kid r = fr_kid i \<and> fr_name r = fr_name i \<and>
     validate_host_port N (lit ''routes.final_app_addr'') (fr_final_app_addr i) = Inr (fr_final_app_addr r) \<and>
     validate_http_path_field (lit ''routes.final_app_path'') (fr_final_app_path i) = Inr (fr_final_app_path r)"

lemma validate_routes_loop_ok:
  assumes "validate_routes_loop N loaded kids names is = Inr rs"
  shows "list_all2 (route_of N loaded) is rs \<and> distinct (map fr_kid is) \<and> distinct (map fr_name is) \<and>
    fr_kid ` set is \<inter> kids = {} \<and> fr_name ` set is \<inter> names = {}"
  using assms
proof (induction "is" arbitrary: kids names rs)
  case (Cons i "is")
  from Cons.prems obtain addr path rest where
    i: "validate_key_id (fr_kid i) = Inr ()" "loaded (fr_kid i)" "fr_kid i \<notin> kids" "fr_name i \<notin> names"
      "validate_host_port N (lit ''routes.final_app_addr'') (fr_final_app_addr i) = Inr addr"
      "validate_http_path_field (lit ''routes.final_app_path'') (fr_final_app_path i) = Inr path"
    and rest: "validate_routes_loop N loaded (insert (fr_kid i) kids) (insert (fr_name i) names) is = Inr rest"
    and rs: "rs = i\<lparr>fr_final_app_addr := addr, fr_final_app_path := path\<rparr> # rest"
    by (auto simp: bindR_eq_Inr map_err_eq_Inr split: if_splits)
  have "route_of N loaded i (i\<lparr>fr_final_app_addr := addr, fr_final_app_path := path\<rparr>)" using i by (simp add: route_of_def)
  then show ?case using Cons.IH [OF rest] i(3,4) rs by auto
qed simp

lemma final_route_for_entry:
  assumes "distinct (map fr_kid (fs_routes st))" "r \<in> set (fs_routes st)"
  shows "final_route_for st (fr_kid r) = r"
proof -
  have "find (\<lambda>route. fr_kid route = fr_kid r) rs = Some r" if "distinct (map fr_kid rs)" "r \<in> set rs" for rs
    using that by (induction rs) auto
  then show ?thesis using assms by (simp add: final_route_for_def)
qed

lemma final_route_for_default: "kid \<notin> fr_kid ` set (fs_routes st) \<Longrightarrow>
    final_route_for st kid = \<lparr>fr_kid = kid, fr_name = lit ''default-final-app'', fr_final_app_addr = fs_default_addr st,
      fr_final_app_path = fs_default_path st\<rparr>"
proof -
  assume "kid \<notin> fr_kid ` set (fs_routes st)"
  then have "find (\<lambda>route. fr_kid route = kid) (fs_routes st) = None" by (auto simp: find_None_iff)
  then show ?thesis by (simp add: final_route_for_def)
qed

text \<open>In a loaded table every key id is delivered to the application of its own entry, and to the default one exactly
  when it has none.\<close>

theorem loaded_routes_found:
  assumes "validate_routes N loaded inputs = Inr routes"
  shows "(\<forall>i \<in> set inputs. \<exists>r. final_route_for (routes_from_parts addr path routes) (fr_kid i) = r \<and> route_of N loaded i r) \<and>
    (\<forall>kid. kid \<notin> fr_kid ` set inputs \<longrightarrow> final_route_for (routes_from_parts addr path routes) kid =
       \<lparr>fr_kid = kid, fr_name = lit ''default-final-app'', fr_final_app_addr = addr, fr_final_app_path = path\<rparr>)"
proof -
  have rel: "list_all2 (route_of N loaded) inputs routes" and d: "distinct (map fr_kid inputs)"
    using validate_routes_loop_ok assms unfolding validate_routes_def by blast+
  have kids: "map fr_kid routes = map fr_kid inputs"
    using rel by (induction rule: list_all2_induct) (simp_all add: route_of_def)
  let ?st = "routes_from_parts addr path routes"
  have routes: "fs_routes ?st = routes" by (simp add: routes_from_parts_def)
  have "\<exists>r. final_route_for ?st (fr_kid i) = r \<and> route_of N loaded i r" if i: "i \<in> set inputs" for i
  proof -
    obtain r where r: "r \<in> set routes" "route_of N loaded i r" using list_all2_in1 [OF rel i] by blast
    then have "final_route_for ?st (fr_kid r) = r" using d kids routes by (intro final_route_for_entry) simp_all
    then show ?thesis using r(2) by (simp add: route_of_def)
  qed
  moreover have "fr_kid ` set routes = fr_kid ` set inputs" using kids by (metis list.set_map)
  then have "kid \<notin> fr_kid ` set inputs \<Longrightarrow> final_route_for ?st kid =
      \<lparr>fr_kid = kid, fr_name = lit ''default-final-app'', fr_final_app_addr = addr, fr_final_app_path = path\<rparr>" for kid
    using final_route_for_default [of kid ?st] by (simp add: routes_from_parts_def)
  ultimately show ?thesis by blast
qed

end
