(* ===== verification/Commitments.thy ===== *)
theory Commitments
  imports Mac
begin

text \<open>
  \<open>src/core/commitments.rs\<close>: commitment profiles with the keys derived for them, the encoding of random openings,
  and the keyed tag over the canonical JSON of profile, key, opening and plaintext that is a commitment.
\<close>

section \<open>Model\<close>

definition COMMITMENT_KEY_SALT :: "u8 list" where "COMMITMENT_KEY_SALT = utf8 (lit ''vectis/commitment/v1'')"
definition COMMITMENT_HMAC_SUBKEY_SALT :: "u8 list" where
  "COMMITMENT_HMAC_SUBKEY_SALT = utf8 (lit ''vectis/commitment/hmac/v1'')"
definition COMMITMENT_KEY_SIZE_BYTES :: nat where "COMMITMENT_KEY_SIZE_BYTES = 32"
definition COMMITMENT_CONTEXT_MAX_CHARS :: nat where "COMMITMENT_CONTEXT_MAX_CHARS = 128"
definition COMMITMENT_PLAINTEXT_MAX_CHARS :: nat where "COMMITMENT_PLAINTEXT_MAX_CHARS = 1024"
definition COMMITMENT_OPENING_MIN_BYTES :: nat where "COMMITMENT_OPENING_MIN_BYTES = 32"
definition COMMITMENT_OPENING_MAX_BYTES :: nat where "COMMITMENT_OPENING_MAX_BYTES = 64"

record commitment_profile_input =
  cmi_name :: ustr
  cmi_kid :: ustr
  cmi_context :: ustr
  cmi_max_plaintext_len :: nat
  cmi_opening_len :: nat

record commitment_profile =
  cm_name :: ustr
  cm_kid :: ustr
  cm_context :: ustr
  cm_max_plaintext_len :: nat
  cm_opening_len :: nat
  cm_public_algorithm :: ustr
  cm_botan_algorithm :: ustr
  cm_customization :: ustr
  cm_commit_key :: "u8 list"

record commitment_profiles_state =
  cms_profiles :: "commitment_profile list"
  cms_by_name :: "ustr \<rightharpoonup> nat"

definition cm_uses_kmac :: "commitment_profile \<Rightarrow> bool" where
  "cm_uses_kmac p = is_kmac_algorithm (cm_public_algorithm p)"

definition commitment_from_profiles :: "commitment_profile list \<Rightarrow> commitment_profiles_state" where
  "commitment_from_profiles ps = \<lparr>cms_profiles = ps, cms_by_name = index_by_name cm_name ps\<rparr>"

definition commitment_get :: "commitment_profiles_state \<Rightarrow> ustr \<Rightarrow> commitment_profile option" where
  "commitment_get st n = Option.bind (cms_by_name st n) (\<lambda>i. list_get (cms_profiles st) i)"

definition validate_commitment_plaintext_len :: "nat \<Rightarrow> unit result" where
  "validate_commitment_plaintext_len max_plaintext_len =
     (if max_plaintext_len = 0
      then Inl (invalid_input (lit ''commitment_profiles.max_plaintext_len must be at least 1''))
      else if max_plaintext_len > COMMITMENT_PLAINTEXT_MAX_CHARS
      then Inl (invalid_input (lit ''commitment_profiles.max_plaintext_len exceeds maximum allowed value: '' @
             show_nat COMMITMENT_PLAINTEXT_MAX_CHARS))
      else Inr ())"

definition validate_commitment_opening_len :: "nat \<Rightarrow> unit result" where
  "validate_commitment_opening_len opening_len =
     (if opening_len < COMMITMENT_OPENING_MIN_BYTES
      then Inl (invalid_input (lit ''commitment_profiles.opening_len must be at least '' @ show_nat COMMITMENT_OPENING_MIN_BYTES))
      else if opening_len > COMMITMENT_OPENING_MAX_BYTES
      then Inl (invalid_input (lit ''commitment_profiles.opening_len exceeds maximum allowed value: '' @
             show_nat COMMITMENT_OPENING_MAX_BYTES))
      else Inr ())"

definition validate_commitment_profile_fields :: "ustr \<Rightarrow> ustr \<Rightarrow> nat \<Rightarrow> nat \<Rightarrow> unit result" where
  "validate_commitment_profile_fields name context max_plaintext_len opening_len =
     bindR (validate_aad_config_name (lit ''commitment_profiles.name'') name) (\<lambda>_.
     bindR (validate_labels (lit ''commitment_profiles.context'') context COMMITMENT_CONTEXT_MAX_CHARS) (\<lambda>_.
     bindR (validate_commitment_plaintext_len max_plaintext_len) (\<lambda>_.
     bindR (validate_commitment_opening_len opening_len) (\<lambda>_. Inr ()))))"

definition check_commitment_input :: "(ustr \<Rightarrow> bool) \<Rightarrow> commitment_profile_input \<Rightarrow> unit result" where
  "check_commitment_input is_loaded_kid i =
     bindR (validate_commitment_profile_fields (cmi_name i) (cmi_context i) (cmi_max_plaintext_len i) (cmi_opening_len i)) (\<lambda>_.
     bindR (map_err (\<lambda>err. invalid_input (lit ''commitment_profiles.kid is invalid: '' @ to_string err))
              (validate_key_id (cmi_kid i))) (\<lambda>_.
       if \<not> is_loaded_kid (cmi_kid i)
       then Inl (invalid_input (lit ''commitment profile references kid not loaded in memory: '' @ cmi_kid i))
       else Inr ()))"

definition build_commitment_profile ::
    "crates \<Rightarrow> (ustr \<Rightarrow> ustr result) \<Rightarrow> (key_derivation_request \<Rightarrow> derived_key result) \<Rightarrow> commitment_profile_input \<Rightarrow>
     commitment_profile result" where
  "build_commitment_profile C hash_algorithm_for_kid derive_commitment_key i =
     bindR (hash_algorithm_for_kid (cmi_kid i)) (\<lambda>hash_algorithm.
     bindR (derive_commitment_key \<lparr>kdr_profile_name = cmi_name i, kdr_kid = cmi_kid i,
              kdr_context = cmi_context i, kdr_hash_algorithm = hash_algorithm\<rparr>) (\<lambda>derived.
       if length (dk_key derived) \<noteq> COMMITMENT_KEY_SIZE_BYTES
       then Inl (internal (lit ''derived commitment key has invalid length''))
       else
     bindR (build_mac_domain_aad [(lit ''profile'', cmi_name i), (lit ''kid'', cmi_kid i)] (cmi_context i)) (\<lambda>customization.
     bindR (derive_keyed_tag_subkey C (dk_public_algorithm derived) (dk_key derived)
              COMMITMENT_HMAC_SUBKEY_SALT customization COMMITMENT_KEY_SIZE_BYTES) (\<lambda>commit_key.
       Inr \<lparr>cm_name = cmi_name i, cm_kid = cmi_kid i, cm_context = cmi_context i,
            cm_max_plaintext_len = cmi_max_plaintext_len i, cm_opening_len = cmi_opening_len i,
            cm_public_algorithm = dk_public_algorithm derived, cm_botan_algorithm = dk_botan_algorithm derived,
            cm_customization = customization, cm_commit_key = commit_key\<rparr>))))"

fun validate_commitment_loop ::
    "crates \<Rightarrow> (ustr \<Rightarrow> bool) \<Rightarrow> (ustr \<Rightarrow> ustr result) \<Rightarrow> (key_derivation_request \<Rightarrow> derived_key result) \<Rightarrow> ustr set \<Rightarrow>
     commitment_profile_input list \<Rightarrow> commitment_profile list result" where
  "validate_commitment_loop C loaded hash_for derive seen_names [] = Inr []"
| "validate_commitment_loop C loaded hash_for derive seen_names (i # is) =
     bindR (check_commitment_input loaded i) (\<lambda>_.
       if cmi_name i \<in> seen_names
       then Inl (invalid_input (lit ''commitment profile has duplicated name: '' @ cmi_name i))
       else bindR (build_commitment_profile C hash_for derive i) (\<lambda>p.
         bindR (validate_commitment_loop C loaded hash_for derive (insert (cmi_name i) seen_names) is)
           (\<lambda>ps. Inr (p # ps))))"

definition validate_commitment_profiles ::
    "crates \<Rightarrow> (ustr \<Rightarrow> bool) \<Rightarrow> (ustr \<Rightarrow> ustr result) \<Rightarrow> (key_derivation_request \<Rightarrow> derived_key result) \<Rightarrow>
     commitment_profile_input list \<Rightarrow> commitment_profiles_state result" where
  "validate_commitment_profiles C loaded hash_for derive inputs =
     bindR (validate_commitment_loop C loaded hash_for derive {} inputs) (\<lambda>ps. Inr (commitment_from_profiles ps))"

definition derive_commitment_key_for_profile ::
    "crates \<Rightarrow> ustr \<Rightarrow> key_derivation_request \<Rightarrow> derived_key result" where
  "derive_commitment_key_for_profile C ops_symmetric_key_hex req =
     bindR (resolve_mac_algorithm (kdr_hash_algorithm req)) (\<lambda>resolved.
     bindR (hex_decode_q C ops_symmetric_key_hex) (\<lambda>ops_symmetric_key.
     bindR (build_mac_domain_aad
              [(lit ''purpose'', lit ''commitment-key''), (lit ''profile'', kdr_profile_name req),
               (lit ''kid'', kdr_kid req), (lit ''algorithm'', rma_public_algorithm resolved)]
              (kdr_context req)) (\<lambda>info.
     bindR (create_hkdf C ops_symmetric_key COMMITMENT_KEY_SALT (utf8 info) COMMITMENT_KEY_SIZE_BYTES) (\<lambda>commit_key.
       Inr \<lparr>dk_public_algorithm = rma_public_algorithm resolved,
            dk_botan_algorithm = rma_botan_algorithm resolved, dk_key = commit_key\<rparr>))))"

definition encode_opening :: "crates \<Rightarrow> u8 list \<Rightarrow> ustr" where
  "encode_opening C opening = url_encode C opening"

definition validate_opening :: "crates \<Rightarrow> commitment_profile \<Rightarrow> ustr \<Rightarrow> unit result" where
  "validate_opening C p opening =
     bindR (ok_or (invalid_input (lit ''opening contains invalid commitment encoding'')) (url_decode C opening)) (\<lambda>decoded.
       if length decoded \<noteq> cm_opening_len p
       then Inl (invalid_input (lit ''opening length does not match commitment profile''))
       else Inr ())"

definition commitment_json :: "commitment_profile \<Rightarrow> ustr \<Rightarrow> ustr \<Rightarrow> json" where
  "commitment_json p opening_b64 plain =
     JObject [(lit ''kid'', JString (cm_kid p)), (lit ''opening'', JString opening_b64),
              (lit ''plaintext'', JString plain), (lit ''profile'', JString (cm_name p)), (lit ''version'', JString (lit ''v1''))]"

definition commitment_payload :: "crates \<Rightarrow> commitment_profile \<Rightarrow> ustr \<Rightarrow> ustr \<Rightarrow> u8 list result" where
  "commitment_payload C p opening_b64 plain = canonical_json_v1 C (commitment_json p opening_b64 plain)"

definition compute_commitment :: "crates \<Rightarrow> commitment_profile \<Rightarrow> ustr \<Rightarrow> ustr \<Rightarrow> u8 list result" where
  "compute_commitment C p opening_b64 plain =
     bindR (commitment_payload C p opening_b64 plain) (\<lambda>payload.
       compute_keyed_tag C (cm_uses_kmac p) (cm_botan_algorithm p) (cm_commit_key p) (cm_customization p) payload)"

section \<open>The profile registry\<close>

lemma build_commitment_name: "build_commitment_profile C h d i = Inr p \<Longrightarrow> cm_name p = cmi_name i"
  by (auto simp: build_commitment_profile_def result_simps)

interpretation commitments: profile_loader cm_name commitment_from_profiles commitment_get
    cmi_name "check_commitment_input loaded"
    "\<lambda>i. invalid_input (lit ''commitment profile has duplicated name: '' @ cmi_name i)"
    "build_commitment_profile C hash_for derive"
    "validate_commitment_loop C loaded hash_for derive" "validate_commitment_profiles C loaded hash_for derive"
  for C loaded hash_for derive
  by unfold_locales
    (auto simp: commitment_from_profiles_def commitment_get_def validate_commitment_profiles_def build_commitment_name)

section \<open>What a commitment is a tag of\<close>

text \<open>The payload never fails to be written and determines the key, the profile, the opening and the plaintext.\<close>

lemma commitment_payload_total: "commitment_payload C p opening plain = Inr (json_to_vec C (commitment_json p opening plain))"
  unfolding commitment_payload_def commitment_json_def
  by (rule canonical_flat) (simp add: starts_with_def SERDE_JSON_PRIVATE_KEY_PREFIX_def lit_def)

lemma commitment_payload_inject:
  assumes "json_codec_ok C"
    and "json_to_vec C (commitment_json p opening plain) = json_to_vec C (commitment_json q opening' plain')"
  shows "cm_kid p = cm_kid q \<and> cm_name p = cm_name q \<and> opening = opening' \<and> plain = plain'"
proof -
  have "flat_json (commitment_json p r plain)" for p r plain by (simp add: commitment_json_def lit_def)
  then have "commitment_json p opening plain = commitment_json q opening' plain'"
    using assms json_codec [OF assms(1)] by (metis option.inject)
  then show ?thesis by (simp add: commitment_json_def)
qed

lemma commitment_opening_ok:
  assumes "url_codec_ok C" "length bs = cm_opening_len p"
  shows "validate_opening C p (encode_opening C bs) = Inr ()"
  using assms by (simp add: validate_opening_def encode_opening_def url_codec)

end
