(* ===== verification/Deterministic_Tokens.thy ===== *)
theory Deterministic_Tokens
  imports Vault_Example
begin

text \<open>
  \<open>src/core/deterministic_tokenization.rs\<close>: tokens that are the same for the same plaintext. A token is the
  canonical JSON of its context (key, profile, context labels, subject) and the AES-256-SIV encryption of the
  plaintext with that text as associated data, both in URL-safe base64 and separated by a dot.

  The state of the profiles is a map from names. A token is decoded to a plaintext by a context exactly when it is
  the token the context encodes that plaintext to, and two contexts accept the same token only when they agree on
  key, profile, context labels and subject.
\<close>

section \<open>Model\<close>

definition PLAINTEXT_MAX_CHARS :: nat where "PLAINTEXT_MAX_CHARS = 16384"
definition TOKEN_MAX_CHARS :: nat where "TOKEN_MAX_CHARS = 131072"
definition KEY_BYTES :: nat where "KEY_BYTES = 64"
definition DETERMINISTIC_HKDF_SALT :: "u8 list" where
  "DETERMINISTIC_HKDF_SALT = utf8 (lit ''vectis/tokenization/deterministic/v1'')"
definition DETERMINISTIC_VERSION :: ustr where "DETERMINISTIC_VERSION = lit ''token-deterministic-v1''"

record deterministic_token_profile_input =
  di_name :: ustr
  di_kid :: ustr
  di_context :: ustr
  di_min_plaintext_len :: nat
  di_max_plaintext_len :: nat
  di_subject_mode :: subject_mode

record deterministic_token_profile =
  dp_input :: deterministic_token_profile_input
  dp_key :: "u8 list"

type_synonym deterministic_token_profiles_state = "ustr \<rightharpoonup> deterministic_token_profile"

abbreviation dp_kid :: "deterministic_token_profile \<Rightarrow> ustr" where "dp_kid p \<equiv> di_kid (dp_input p)"
abbreviation dp_name :: "deterministic_token_profile \<Rightarrow> ustr" where "dp_name p \<equiv> di_name (dp_input p)"

definition dp_validate_plaintext :: "deterministic_token_profile \<Rightarrow> ustr \<Rightarrow> unit result" where
  "dp_validate_plaintext p plain =
     (let count = length plain in
      if count < di_min_plaintext_len (dp_input p) \<or> count > di_max_plaintext_len (dp_input p)
      then Inl (invalid_input (lit ''plaintext length is outside deterministic token profile bounds''))
      else Inr ())"

definition deterministic_get ::
    "deterministic_token_profiles_state \<Rightarrow> ustr \<Rightarrow> deterministic_token_profile option" where
  "deterministic_get st n = st n"

record deterministic_derivation_request =
  ddr_profile_name :: ustr
  ddr_kid :: ustr
  ddr_context :: ustr

definition check_deterministic_input :: "deterministic_token_profile_input \<Rightarrow> unit result" where
  "check_deterministic_input i =
     bindR (validate_aad_config_name (lit ''deterministic_tokenization_profiles.name'') (di_name i)) (\<lambda>_.
     bindR (validate_key_id (di_kid i)) (\<lambda>_.
     bindR (validate_mac_profile_fields (di_name i) (di_context i)) (\<lambda>_.
       if di_min_plaintext_len i = 0 \<or> di_min_plaintext_len i > di_max_plaintext_len i \<or>
          di_max_plaintext_len i > PLAINTEXT_MAX_CHARS
       then Inl (invalid_input (lit
         ''deterministic token profile lengths must satisfy 1 <= min_plaintext_len <= max_plaintext_len <= 16384''))
       else Inr ())))"

definition build_deterministic_profile ::
    "(ustr \<Rightarrow> bool) \<Rightarrow> (deterministic_derivation_request \<Rightarrow> u8 list result) \<Rightarrow> deterministic_token_profile_input \<Rightarrow>
     deterministic_token_profile result" where
  "build_deterministic_profile loaded derive i =
     (if \<not> loaded (di_kid i) then Inl (invalid_input (lit ''deterministic token profile kid is not loaded''))
      else
        bindR (derive \<lparr>ddr_profile_name = di_name i, ddr_kid = di_kid i, ddr_context = di_context i\<rparr>) (\<lambda>key.
          if length key \<noteq> KEY_BYTES then Inl (internal (lit ''invalid deterministic token key length''))
          else Inr \<lparr>dp_input = i, dp_key = key\<rparr>))"

fun validate_profiles_loop ::
    "(ustr \<Rightarrow> bool) \<Rightarrow> (deterministic_derivation_request \<Rightarrow> u8 list result) \<Rightarrow> deterministic_token_profiles_state \<Rightarrow>
     deterministic_token_profile_input list \<Rightarrow> deterministic_token_profiles_state result" where
  "validate_profiles_loop loaded derive profiles [] = Inr profiles"
| "validate_profiles_loop loaded derive profiles (i # is) =
     bindR (check_deterministic_input i) (\<lambda>_.
       if profiles (di_name i) \<noteq> None
       then Inl (invalid_input (lit ''duplicate deterministic token profile name''))
       else bindR (build_deterministic_profile loaded derive i) (\<lambda>p.
         validate_profiles_loop loaded derive (profiles(di_name i \<mapsto> p)) is))"

definition validate_deterministic_profiles ::
    "(ustr \<Rightarrow> bool) \<Rightarrow> (deterministic_derivation_request \<Rightarrow> u8 list result) \<Rightarrow>
     deterministic_token_profile_input list \<Rightarrow> deterministic_token_profiles_state result" where
  "validate_deterministic_profiles loaded derive inputs = validate_profiles_loop loaded derive Map.empty inputs"

definition derive_deterministic_profile_key ::
    "crates \<Rightarrow> ustr \<Rightarrow> deterministic_derivation_request \<Rightarrow> u8 list result" where
  "derive_deterministic_profile_key C parent_hex req =
     bindR (validate_aad_config_name (lit ''deterministic_tokenization_profiles.name'') (ddr_profile_name req)) (\<lambda>_.
     bindR (validate_key_id (ddr_kid req)) (\<lambda>_.
     bindR (build_mac_domain_aad
              [(lit ''purpose'', lit ''token-deterministic-data''), (lit ''profile'', ddr_profile_name req),
               (lit ''kid'', ddr_kid req), (lit ''tokenization_version'', DETERMINISTIC_VERSION)]
              (ddr_context req)) (\<lambda>info.
     bindR (hex_decode_q C parent_hex) (\<lambda>parent.
       create_hkdf C parent DETERMINISTIC_HKDF_SALT (utf8 info) KEY_BYTES))))"

text \<open>\<open>TokenContext\<close> serialized with its keys in order; the subject is left out when there is none.\<close>

definition token_context_json :: "deterministic_token_profile \<Rightarrow> ustr option \<Rightarrow> json" where
  "token_context_json p subject =
     JObject ([(lit ''context'', JString (di_context (dp_input p))), (lit ''kid'', JString (dp_kid p)),
               (lit ''profile'', JString (dp_name p)), (lit ''purpose'', JString (lit ''token-deterministic''))] @
              (case subject of Some s \<Rightarrow> [(lit ''subject'', JString s)] | None \<Rightarrow> []) @
              [(lit ''version'', JString (lit ''v1''))])"

record deterministic_token_context =
  dc_profile :: deterministic_token_profile
  dc_subject :: "ustr option"
  dc_child_key :: "u8 list option"
  dc_aad :: "u8 list"

definition validate_deterministic_subject_mode :: "deterministic_token_profile \<Rightarrow> ustr option \<Rightarrow> unit result" where
  "validate_deterministic_subject_mode p subject =
     bindR (case subject of Some s \<Rightarrow> validate_subject s | None \<Rightarrow> Inr ()) (\<lambda>_.
       case (di_subject_mode (dp_input p), subject) of
         (Stored, None) \<Rightarrow> Inl (invalid_input (lit ''subject is required for stored deterministic token profiles''))
       | (NoSubject, Some _) \<Rightarrow> Inl (invalid_input (lit ''subject is prohibited for none deterministic token profiles''))
       | _ \<Rightarrow> Inr ())"

definition dc_build ::
    "crates \<Rightarrow> deterministic_token_profile \<Rightarrow> ustr option \<Rightarrow> u8 list option \<Rightarrow> deterministic_token_context result" where
  "dc_build C p subject child_key =
     bindR (canonical_json_v1 C (token_context_json p subject)) (\<lambda>aad.
       Inr \<lparr>dc_profile = p, dc_subject = subject, dc_child_key = child_key, dc_aad = aad\<rparr>)"

definition dc_new :: "crates \<Rightarrow> deterministic_token_profile \<Rightarrow> deterministic_token_context result" where
  "dc_new C p = bindR (validate_deterministic_subject_mode p None) (\<lambda>_. dc_build C p None None)"

definition dc_from_subject_envelope ::
    "crates \<Rightarrow> ciphers \<Rightarrow> deterministic_token_profile \<Rightarrow> tokenization_profile \<Rightarrow> ustr \<Rightarrow> ustr \<Rightarrow>
     deterministic_token_context result" where
  "dc_from_subject_envelope C E p origin subject envelope =
     bindR (validate_deterministic_subject_mode p (Some subject)) (\<lambda>_.
       if tp_kid origin \<noteq> dp_kid p \<or> tp_subject_mode origin \<noteq> Stored
       then Inl (internal (lit ''stored subject seed is invalid''))
       else
         bindR (open_authenticated_seed C E origin subject envelope) (\<lambda>seed.
         bindR (build_validated_aad
                  [(lit ''purpose'', lit ''subject-token-deterministic-data''), (lit ''kid'', dp_kid p),
                   (lit ''profile'', dp_name p), (lit ''version'', lit ''v1'')]) (\<lambda>info.
         bindR (create_hkdf C (dp_key p) seed (utf8 info) KEY_BYTES) (\<lambda>key.
           dc_build C p (Some subject) (Some key)))))"

definition dc_key :: "deterministic_token_context \<Rightarrow> u8 list" where
  "dc_key ctx = (case dc_child_key ctx of Some key \<Rightarrow> key | None \<Rightarrow> dp_key (dc_profile ctx))"

definition authentication_failed :: dyn_error where
  "authentication_failed = invalid_input (lit ''deterministic token authentication failed'')"

definition decode_segment :: "crates \<Rightarrow> ustr \<Rightarrow> u8 list result" where
  "decode_segment C v =
     bindR (ok_or (invalid_input (lit ''invalid deterministic token encoding'')) (url_decode C v)) (\<lambda>bs.
       if url_encode C bs \<noteq> v then Inl (invalid_input (lit ''invalid deterministic token encoding'')) else Inr bs)"

definition two_segments_error :: dyn_error where
  "two_segments_error = invalid_input (lit ''deterministic token requires two segments'')"

definition validate_deterministic_token :: "crates \<Rightarrow> ustr \<Rightarrow> unit result" where
  "validate_deterministic_token C token =
     (if str_len token > TOKEN_MAX_CHARS \<or> \<not> list_all is_ascii token
      then Inl (invalid_input (lit ''deterministic token exceeds maximum allowed size or is not ASCII''))
      else
        case split_once 46 token of
          None \<Rightarrow> Inl two_segments_error
        | Some (context, ciphertext) \<Rightarrow>
            if context = [] \<or> ciphertext = [] \<or> 46 \<in> set ciphertext then Inl two_segments_error
            else
              bindR (decode_segment C context) (\<lambda>_.
              bindR (decode_segment C ciphertext) (\<lambda>bytes.
                if length bytes \<le> 16 then Inl (invalid_input (lit ''deterministic token ciphertext is too short''))
                else Inr ())))"

definition dc_encode :: "crates \<Rightarrow> ciphers \<Rightarrow> deterministic_token_context \<Rightarrow> ustr \<Rightarrow> ustr result" where
  "dc_encode C E ctx plain =
     bindR (dp_validate_plaintext (dc_profile ctx) plain) (\<lambda>_.
     bindR (encrypt_aes256_siv E (dc_key ctx) (dc_aad ctx) (utf8 plain)) (\<lambda>encrypted.
     let token = url_encode C (dc_aad ctx) @ lit ''.'' @ url_encode C encrypted in
     bindR (validate_deterministic_token C token) (\<lambda>_. Inr token)))"

definition dc_decode :: "crates \<Rightarrow> ciphers \<Rightarrow> deterministic_token_context \<Rightarrow> ustr \<Rightarrow> ustr result" where
  "dc_decode C E ctx token =
     bindR (validate_deterministic_token C token) (\<lambda>_.
       case split_once 46 token of
         None \<Rightarrow> Inl (Panic (lit ''validated segments''))
       | Some (context, ciphertext) \<Rightarrow>
           bindR (decode_segment C context) (\<lambda>context.
           bindR (decode_segment C ciphertext) (\<lambda>ciphertext.
             if context \<noteq> dc_aad ctx then Inl authentication_failed
             else
               bindR (decrypt_aes256_siv E (dc_key ctx) (dc_aad ctx) ciphertext) (\<lambda>plaintext.
                 ok_or authentication_failed (from_utf8 plaintext)))))"

section \<open>The profile registry\<close>

text \<open>The same loop with the profiles collected in order and the names seen so far.\<close>

fun collect_profiles ::
    "(ustr \<Rightarrow> bool) \<Rightarrow> (deterministic_derivation_request \<Rightarrow> u8 list result) \<Rightarrow> ustr set \<Rightarrow>
     deterministic_token_profile_input list \<Rightarrow> deterministic_token_profile list result" where
  "collect_profiles loaded derive seen [] = Inr []"
| "collect_profiles loaded derive seen (i # is) =
     bindR (check_deterministic_input i) (\<lambda>_.
       if di_name i \<in> seen then Inl (invalid_input (lit ''duplicate deterministic token profile name''))
       else bindR (build_deterministic_profile loaded derive i) (\<lambda>p.
         bindR (collect_profiles loaded derive (insert (di_name i) seen) is) (\<lambda>ps. Inr (p # ps))))"

definition profile_map :: "deterministic_token_profile list \<Rightarrow> deterministic_token_profiles_state" where
  "profile_map ps = fold (\<lambda>p m. m(dp_name p \<mapsto> p)) ps Map.empty"

lemma build_deterministic_input: "build_deterministic_profile loaded derive i = Inr p \<Longrightarrow> dp_input p = i"
  by (auto simp: build_deterministic_profile_def bindR_eq_Inr split: if_splits)

lemma validate_profiles_loop_eq:
  "validate_profiles_loop loaded derive m is =
     bindR (collect_profiles loaded derive (dom m) is) (\<lambda>ps. Inr (fold (\<lambda>p m. m(dp_name p \<mapsto> p)) ps m))"
proof (induction "is" arbitrary: m)
  case (Cons i "is")
  have upd: "dom (m(di_name i \<mapsto> p)) = insert (di_name i) (dom m)" for p by simp
  have seen: "di_name i \<in> dom m \<longleftrightarrow> m (di_name i) \<noteq> None" by auto
  show ?case
    unfolding validate_profiles_loop.simps collect_profiles.simps Cons.IH upd seen
    by (cases "check_deterministic_input i"; cases "build_deterministic_profile loaded derive i";
        cases "collect_profiles loaded derive (insert (di_name i) (dom m)) is"; cases "m (di_name i)")
      (simp_all only: bindR.simps if_True if_False fold_simps build_deterministic_input not_False_eq_True option.distinct
        simp_thms)
qed simp

lemma profile_map_get: "profile_map ps n = Option.bind (index_by_name dp_name ps n) (list_get ps)"
proof (induction ps rule: rev_induct)
  case (snoc p ps)
  have "Option.bind (index_by_name dp_name ps n) (list_get (ps @ [p])) = Option.bind (index_by_name dp_name ps n) (list_get ps)"
    by (cases "index_by_name dp_name ps n") (auto simp: list_get_def nth_append dest: index_by_name_Some)
  then show ?case using snoc by (auto simp: profile_map_def index_by_name_snoc) (simp add: list_get_def)
qed (simp add: profile_map_def index_by_name_def)

interpretation deterministic: profile_loader dp_name profile_map deterministic_get di_name check_deterministic_input
    "\<lambda>_. invalid_input (lit ''duplicate deterministic token profile name'')" "build_deterministic_profile loaded derive"
    "collect_profiles loaded derive" "validate_deterministic_profiles loaded derive"
  for loaded derive
  by unfold_locales
    (simp_all add: deterministic_get_def profile_map_get build_deterministic_input validate_deterministic_profiles_def
      validate_profiles_loop_eq profile_map_def [symmetric])

section \<open>Tokens and contexts\<close>

lemma decode_segment_ok: "url_codec_ok C \<Longrightarrow> decode_segment C v = Inr bs \<longleftrightarrow> v = url_encode C bs"
  by (auto simp: decode_segment_def bindR_eq_Inr ok_or_eq_Inr url_codec)

lemma url_no_dot: "url_format_ok C \<Longrightarrow> 46 \<notin> set (url_encode C bs)"
  by (auto simp: url_format_ok_def list_all_iff char_simps dest!: spec [of _ bs] bspec)

lemma token_segments:
  assumes "url_codec_ok C" "url_format_ok C"
  shows "validate_deterministic_token C token = Inr () \<longleftrightarrow>
    (\<exists>aad bytes. token = url_encode C aad @ lit ''.'' @ url_encode C bytes \<and> str_len token \<le> TOKEN_MAX_CHARS \<and>
       url_encode C aad \<noteq> [] \<and> url_encode C bytes \<noteq> [] \<and> 16 < length bytes)"
    (is "?valid \<longleftrightarrow> (\<exists>aad bytes. ?form aad bytes)")
proof
  note dot = url_no_dot [OF assms(2)]
  show ?valid if "\<exists>aad bytes. ?form aad bytes"
  proof -
    from that obtain aad bytes where t: "token = url_encode C aad @ lit ''.'' @ url_encode C bytes"
      and f: "str_len token \<le> TOKEN_MAX_CHARS" "url_encode C aad \<noteq> []" "url_encode C bytes \<noteq> []" "16 < length bytes" by blast
    have "list_all is_ascii token" using t url_encoded [OF assms(2)] by (auto simp: list_all_iff lit_def is_ascii_def)
    moreover have "split_once 46 token = Some (url_encode C aad, url_encode C bytes)"
      using t split_once_append [OF dot] by (simp add: lit_def)
    moreover have "decode_segment C (url_encode C bs) = Inr bs" for bs by (simp add: decode_segment_ok [OF assms(1)])
    ultimately show ?thesis using f dot by (simp add: validate_deterministic_token_def)
  qed
  show "\<exists>aad bytes. ?form aad bytes" if ?valid
    using that decode_segment_ok [OF assms(1)]
    by (fastforce simp: validate_deterministic_token_def bindR_eq_Inr lit_def split: if_splits option.splits
        dest!: split_once_SomeD)
qed

lemma siv_inverse:
  assumes "siv_ok E"
  shows "decrypt_aes256_siv E key aad c = Inr m \<longleftrightarrow> encrypt_aes256_siv E key aad m = Inr c"
  using assms by (auto simp: siv_ok_def decrypt_aes256_siv_def encrypt_aes256_siv_def bindR_unit_eq map_err_eq_Inr)

lemma siv_length: "siv_ok E \<Longrightarrow> encrypt_aes256_siv E key aad m = Inr c \<Longrightarrow> length c = length m + 16"
  by (auto simp: siv_ok_def encrypt_aes256_siv_def bindR_unit_eq)

lemma dc_decode_iff:
  assumes "url_codec_ok C" "url_format_ok C" "siv_ok E"
  shows "dc_decode C E ctx token = Inr plain \<longleftrightarrow>
    validate_deterministic_token C token = Inr () \<and> scalar_str plain \<and>
    (\<exists>c. encrypt_aes256_siv E (dc_key ctx) (dc_aad ctx) (utf8 plain) = Inr c \<and>
       token = url_encode C (dc_aad ctx) @ lit ''.'' @ url_encode C c)"
proof (cases "validate_deterministic_token C token = Inr ()")
  case True
  then obtain aad bytes where t: "token = url_encode C aad @ lit ''.'' @ url_encode C bytes"
    using token_segments [OF assms(1,2)] by blast
  note dot = url_no_dot [OF assms(2)]
  have split: "split_once 46 token = Some (url_encode C aad, url_encode C bytes)"
    using split_once_append [OF dot] by (simp add: t lit_def)
  have seg: "decode_segment C (url_encode C bs) = Inr bs" for bs by (simp add: decode_segment_ok [OF assms(1)])
  have eq: "token = url_encode C a @ lit ''.'' @ url_encode C c \<longleftrightarrow> a = aad \<and> c = bytes" for a c
  proof
    assume "token = url_encode C a @ lit ''.'' @ url_encode C c"
    then have "split_once 46 token = Some (url_encode C a, url_encode C c)"
      using split_once_append [OF dot] by (simp add: lit_def)
    with split have "url_encode C a = url_encode C aad" "url_encode C c = url_encode C bytes" by simp_all
    then show "a = aad \<and> c = bytes" using url_codec [OF assms(1)] by (metis option.inject)
  qed (simp add: t)
  show ?thesis
    using True siv_inverse [OF assms(3)]
    by (auto simp: dc_decode_def split seg eq bindR_eq_Inr ok_or_eq_Inr from_utf8_Some)
qed (auto simp: dc_decode_def bindR_unit_eq)

lemma token_context_flat:
  "flat_json (token_context_json p subject)" "canonical_json_v1 C (token_context_json p subject) = Inr (json_to_vec C (token_context_json p subject))"
proof -
  show "flat_json (token_context_json p subject)" by (cases subject) (simp_all add: token_context_json_def lit_def)
  show "canonical_json_v1 C (token_context_json p subject) = Inr (json_to_vec C (token_context_json p subject))"
    unfolding token_context_json_def
    by (rule canonical_flat) (cases subject; simp add: starts_with_def SERDE_JSON_PRIVATE_KEY_PREFIX_def lit_def)
qed

text \<open>What the constructors of a context establish.\<close>

definition context_ok :: "crates \<Rightarrow> deterministic_token_context \<Rightarrow> bool" where
  "context_ok C ctx \<longleftrightarrow> dc_aad ctx = json_to_vec C (token_context_json (dc_profile ctx) (dc_subject ctx)) \<and>
     (dc_child_key ctx = None \<longleftrightarrow> dc_subject ctx = None) \<and>
     (dc_subject ctx = None \<longleftrightarrow> di_subject_mode (dp_input (dc_profile ctx)) = NoSubject)"

lemma context_built:
  "dc_new C p = Inr ctx \<Longrightarrow> context_ok C ctx \<and> dc_profile ctx = p \<and> dc_subject ctx = None"
  "dc_from_subject_envelope C E p origin subject envelope = Inr ctx \<Longrightarrow>
     context_ok C ctx \<and> dc_profile ctx = p \<and> dc_subject ctx = Some subject"
  by (auto simp: dc_new_def dc_from_subject_envelope_def dc_build_def token_context_flat(2) context_ok_def bindR_eq_Inr
      validate_deterministic_subject_mode_def split: if_splits subject_mode.splits)

lemma token_context_inject:
  assumes "json_codec_ok C" "context_ok C a" "context_ok C b" "dc_aad a = dc_aad b"
  shows "dp_kid (dc_profile a) = dp_kid (dc_profile b) \<and> dp_name (dc_profile a) = dp_name (dc_profile b) \<and>
    di_context (dp_input (dc_profile a)) = di_context (dp_input (dc_profile b)) \<and> dc_subject a = dc_subject b"
proof -
  have "token_context_json (dc_profile a) (dc_subject a) = token_context_json (dc_profile b) (dc_subject b)"
    using assms json_codec [OF assms(1) token_context_flat(1)] unfolding context_ok_def by (metis option.inject)
  then show ?thesis
    by (cases "dc_subject a"; cases "dc_subject b") (simp_all add: token_context_json_def lit_def)
qed

end
