(* ===== verification/Profile_Ops.thy ===== *)
theory Profile_Ops
  imports Token_Ops Masking Commitments Share_Envelopes Deterministic_Tokens
begin

text \<open>
  Requests on the profiles that keep nothing in the database: \<open>src/ops/mac.rs\<close>, \<open>src/ops/masking.rs\<close>,
  \<open>src/ops/commitments.rs\<close> and \<open>src/ops/sharing.rs\<close>. Each is read from JSON, validated, prepared (the profile is checked against the key of the request and its lifecycle) and performed.

  The structures of these modules that have the same fields share one record: a reference with a plaintext, alone
  with the name of a profile or as an item of a batch.
\<close>

section \<open>Shared inputs\<close>

record plain_item =
  pi_ref :: ustr
  pi_plaintext :: ustr

record plain_input =
  pn_profile :: ustr
  pn_item :: plain_item

record plain_batch_input =
  pb_profile :: ustr
  pb_items :: "plain_item list"

record ('p, 'i) prepared =
  pr_kid :: ustr
  pr_profile :: 'p
  pr_input :: 'i

definition plain_input_of_json :: "json \<Rightarrow> plain_input option" where
  "plain_input_of_json v =
     (case request_struct [lit ''ref'', lit ''profile'', lit ''plaintext''] None v of
        Some ([r, profile, plain], _) \<Rightarrow>
          Option.bind (as_str r) (\<lambda>r. Option.bind (as_str profile) (\<lambda>profile. Option.bind (as_str plain) (\<lambda>plain.
            Some \<lparr>pn_profile = profile, pn_item = \<lparr>pi_ref = r, pi_plaintext = plain\<rparr>\<rparr>)))
      | _ \<Rightarrow> None)"

definition plain_item_of_json :: "json \<Rightarrow> plain_item option" where
  "plain_item_of_json v =
     (case request_struct [lit ''ref'', lit ''plaintext''] None v of
        Some ([r, plain], _) \<Rightarrow>
          Option.bind (as_str r) (\<lambda>r. Option.bind (as_str plain) (\<lambda>plain. Some \<lparr>pi_ref = r, pi_plaintext = plain\<rparr>))
      | _ \<Rightarrow> None)"

definition items_of_json :: "(json \<Rightarrow> 'a option) \<Rightarrow> json \<Rightarrow> 'a list option" where
  "items_of_json item_of_json v = Option.bind (as_array v) (\<lambda>vs. those (map item_of_json vs))"

definition plain_batch_of_json :: "json \<Rightarrow> plain_batch_input option" where
  "plain_batch_of_json v =
     (case request_struct [lit ''profile'', lit ''items''] None v of
        Some ([profile, items], _) \<Rightarrow>
          Option.bind (as_str profile) (\<lambda>profile. Option.bind (items_of_json plain_item_of_json items) (\<lambda>items.
            Some \<lparr>pb_profile = profile, pb_items = items\<rparr>))
      | _ \<Rightarrow> None)"

definition validate_plain_input :: "plain_input \<Rightarrow> plain_input result" where
  "validate_plain_input i =
     bindR (validate_ref (pi_ref (pn_item i))) (\<lambda>ref_id.
     bindR (validate_aad_config_name (lit ''profile'') (pn_profile i)) (\<lambda>_.
     bindR (validate_text_field (lit ''plaintext'') (pi_plaintext (pn_item i))) (\<lambda>_.
       Inr (i\<lparr>pn_item := (pn_item i)\<lparr>pi_ref := ref_id\<rparr>\<rparr>))))"

definition validate_plain_item :: "plain_item \<Rightarrow> plain_item result" where
  "validate_plain_item item =
     bindR (validate_ref (pi_ref item)) (\<lambda>ref_id.
     bindR (validate_text_field (lit ''plaintext'') (pi_plaintext item)) (\<lambda>_. Inr (item\<lparr>pi_ref := ref_id\<rparr>)))"

definition validate_plain_batch :: "nat \<Rightarrow> ustr \<Rightarrow> plain_batch_input \<Rightarrow> plain_batch_input result" where
  "validate_plain_batch max_items label i =
     bindR (validate_aad_config_name (lit ''profile'') (pb_profile i)) (\<lambda>_.
     bindR (validate_len (length (pb_items i)) max_items label) (\<lambda>_.
     bindR (batch_map (\<lambda>_. validate_plain_item) 0 (pb_items i)) (\<lambda>items.
     bindR (validate_unique_refs (map pi_ref items) label) (\<lambda>_.
       Inr (i\<lparr>pb_items := items\<rparr>)))))"

definition validate_kid_field :: "ustr \<Rightarrow> unit result" where
  "validate_kid_field kid = map_err (\<lambda>err. invalid_input (lit ''kid is invalid: '' @ to_string err)) (validate_key_id kid)"

section \<open>Authentication codes\<close>

definition INTERNAL_MAC_BATCH :: nat where "INTERNAL_MAC_BATCH = 128"

record mac_verify_item =
  mvi_ref :: ustr
  mvi_plaintext :: ustr
  mvi_digest :: ustr

record mac_verify_input =
  mv_kid :: ustr
  mv_profile :: ustr
  mv_item :: mac_verify_item

record mac_verify_batch_input =
  mvb_kid :: ustr
  mvb_profile :: ustr
  mvb_items :: "mac_verify_item list"

record mac_create_output =
  mo_ref :: ustr
  mo_kid :: ustr
  mo_profile :: ustr
  mo_algorithm :: ustr
  mo_digest :: ustr

record mac_create_batch_output =
  mbo_kid :: ustr
  mbo_profile :: ustr
  mbo_algorithm :: ustr
  mbo_items :: "(ustr \<times> ustr) list"

record verify_batch_output =
  vbo_kid :: ustr
  vbo_profile :: ustr
  vbo_items :: "(ustr \<times> bool) list"

definition mac_verify_of_json :: "json \<Rightarrow> mac_verify_input option" where
  "mac_verify_of_json v =
     (case request_struct [lit ''ref'', lit ''kid'', lit ''profile'', lit ''plaintext'', lit ''digest''] None v of
        Some ([r, kid, profile, plain, digest], _) \<Rightarrow>
          Option.bind (as_str r) (\<lambda>r. Option.bind (as_str kid) (\<lambda>kid. Option.bind (as_str profile) (\<lambda>profile.
          Option.bind (as_str plain) (\<lambda>plain. Option.bind (as_str digest) (\<lambda>digest.
            Some \<lparr>mv_kid = kid, mv_profile = profile,
                  mv_item = \<lparr>mvi_ref = r, mvi_plaintext = plain, mvi_digest = digest\<rparr>\<rparr>)))))
      | _ \<Rightarrow> None)"

definition mac_verify_item_of_json :: "json \<Rightarrow> mac_verify_item option" where
  "mac_verify_item_of_json v =
     (case request_struct [lit ''ref'', lit ''plaintext'', lit ''digest''] None v of
        Some ([r, plain, digest], _) \<Rightarrow>
          Option.bind (as_str r) (\<lambda>r. Option.bind (as_str plain) (\<lambda>plain. Option.bind (as_str digest) (\<lambda>digest.
            Some \<lparr>mvi_ref = r, mvi_plaintext = plain, mvi_digest = digest\<rparr>)))
      | _ \<Rightarrow> None)"

definition mac_verify_batch_of_json :: "json \<Rightarrow> mac_verify_batch_input option" where
  "mac_verify_batch_of_json v =
     (case request_struct [lit ''kid'', lit ''profile'', lit ''items''] None v of
        Some ([kid, profile, items], _) \<Rightarrow>
          Option.bind (as_str kid) (\<lambda>kid. Option.bind (as_str profile) (\<lambda>profile.
          Option.bind (items_of_json mac_verify_item_of_json items) (\<lambda>items.
            Some \<lparr>mvb_kid = kid, mvb_profile = profile, mvb_items = items\<rparr>)))
      | _ \<Rightarrow> None)"

definition mac_parse_create_input :: "(json \<Rightarrow> ustr) \<Rightarrow> json \<Rightarrow> plain_input result" where
  "mac_parse_create_input serde_error req = parse_json_request serde_error plain_input_of_json req (lit ''mac request'')"

definition mac_parse_verify_input :: "(json \<Rightarrow> ustr) \<Rightarrow> json \<Rightarrow> mac_verify_input result" where
  "mac_parse_verify_input serde_error req = parse_json_request serde_error mac_verify_of_json req (lit ''mac request'')"

definition mac_parse_create_batch_input :: "(json \<Rightarrow> ustr) \<Rightarrow> json \<Rightarrow> plain_batch_input result" where
  "mac_parse_create_batch_input serde_error req =
     bindR (reject_oversized_value req INTERNAL_MAC_BATCH (lit ''mac'')) (\<lambda>_.
       parse_json_request serde_error plain_batch_of_json req (lit ''mac request''))"

definition mac_parse_verify_batch_input :: "(json \<Rightarrow> ustr) \<Rightarrow> json \<Rightarrow> mac_verify_batch_input result" where
  "mac_parse_verify_batch_input serde_error req =
     bindR (reject_oversized_value req INTERNAL_MAC_BATCH (lit ''mac'')) (\<lambda>_.
       parse_json_request serde_error mac_verify_batch_of_json req (lit ''mac request''))"

definition mac_validate_create_input :: "plain_input \<Rightarrow> plain_input result" where
  "mac_validate_create_input i = validate_plain_input i"

definition mac_validate_verify_input :: "mac_verify_input \<Rightarrow> mac_verify_input result" where
  "mac_validate_verify_input i =
     bindR (validate_ref (mvi_ref (mv_item i))) (\<lambda>ref_id.
     bindR (validate_kid_field (mv_kid i)) (\<lambda>_.
     bindR (validate_aad_config_name (lit ''profile'') (mv_profile i)) (\<lambda>_.
     bindR (validate_text_field (lit ''plaintext'') (mvi_plaintext (mv_item i))) (\<lambda>_.
     bindR (validate_hex_field (lit ''digest'') (mvi_digest (mv_item i))) (\<lambda>_.
       Inr (i\<lparr>mv_item := (mv_item i)\<lparr>mvi_ref := ref_id\<rparr>\<rparr>))))))"

definition mac_validate_create_batch_input :: "plain_batch_input \<Rightarrow> plain_batch_input result" where
  "mac_validate_create_batch_input i = validate_plain_batch INTERNAL_MAC_BATCH (lit ''mac'') i"

definition mac_validate_verify_item :: "mac_verify_item \<Rightarrow> mac_verify_item result" where
  "mac_validate_verify_item item =
     bindR (validate_ref (mvi_ref item)) (\<lambda>ref_id.
     bindR (validate_text_field (lit ''plaintext'') (mvi_plaintext item)) (\<lambda>_.
     bindR (validate_hex_field (lit ''digest'') (mvi_digest item)) (\<lambda>_. Inr (item\<lparr>mvi_ref := ref_id\<rparr>))))"

definition mac_validate_verify_batch_input :: "mac_verify_batch_input \<Rightarrow> mac_verify_batch_input result" where
  "mac_validate_verify_batch_input i =
     bindR (validate_kid_field (mvb_kid i)) (\<lambda>_.
     bindR (validate_aad_config_name (lit ''profile'') (mvb_profile i)) (\<lambda>_.
     bindR (validate_len (length (mvb_items i)) INTERNAL_MAC_BATCH (lit ''mac'')) (\<lambda>_.
     bindR (batch_map (\<lambda>_. mac_validate_verify_item) 0 (mvb_items i)) (\<lambda>items.
     bindR (validate_unique_refs (map mvi_ref items) (lit ''mac'')) (\<lambda>_.
       Inr (i\<lparr>mvb_items := items\<rparr>))))))"

definition mac_prepare_create ::
    "keys_db_state \<Rightarrow> ustr \<Rightarrow> mac_profile \<Rightarrow> plain_input \<Rightarrow> (mac_profile, plain_input) prepared result" where
  "mac_prepare_create st kid profile i =
     bindR (prepare_profile_use st kid (mc_kid profile) (lit ''mac'') NewUse) (\<lambda>_.
       Inr \<lparr>pr_kid = kid, pr_profile = profile, pr_input = i\<rparr>)"

definition mac_prepare_verify ::
    "keys_db_state \<Rightarrow> mac_profile \<Rightarrow> mac_verify_input \<Rightarrow> (mac_profile \<times> mac_verify_input) result" where
  "mac_prepare_verify st profile i =
     bindR (prepare_profile_use st (mv_kid i) (mc_kid profile) (lit ''mac'') Verify) (\<lambda>_. Inr (profile, i))"

definition mac_prepare_create_batch ::
    "keys_db_state \<Rightarrow> ustr \<Rightarrow> mac_profile \<Rightarrow> plain_batch_input \<Rightarrow> (mac_profile, plain_batch_input) prepared result" where
  "mac_prepare_create_batch st kid profile i =
     bindR (prepare_profile_use st kid (mc_kid profile) (lit ''mac'') NewUse) (\<lambda>_.
       Inr \<lparr>pr_kid = kid, pr_profile = profile, pr_input = i\<rparr>)"

definition mac_prepare_verify_batch ::
    "keys_db_state \<Rightarrow> mac_profile \<Rightarrow> mac_verify_batch_input \<Rightarrow> (mac_profile, mac_verify_batch_input) prepared result" where
  "mac_prepare_verify_batch st profile i =
     bindR (prepare_profile_use st (mvb_kid i) (mc_kid profile) (lit ''mac'') Verify) (\<lambda>_.
       Inr \<lparr>pr_kid = mvb_kid i, pr_profile = profile, pr_input = i\<rparr>)"

definition compute_digest :: "crates \<Rightarrow> mac_profile \<Rightarrow> ustr \<Rightarrow> u8 list result" where
  "compute_digest C profile plain =
     compute_keyed_tag C (is_kmac_algorithm (mc_public_algorithm profile)) (mc_botan_algorithm profile) (mc_mac_key profile)
       (mc_customization profile) (utf8 plain)"

definition mac_create :: "crates \<Rightarrow> (mac_profile, plain_input) prepared \<Rightarrow> mac_create_output result" where
  "mac_create C p =
     bindR (compute_digest C (pr_profile p) (pi_plaintext (pn_item (pr_input p)))) (\<lambda>digest.
       Inr \<lparr>mo_ref = pi_ref (pn_item (pr_input p)), mo_kid = pr_kid p, mo_profile = pn_profile (pr_input p),
            mo_algorithm = mc_public_algorithm (pr_profile p), mo_digest = hex_encode C digest\<rparr>)"

definition mac_create_batch :: "crates \<Rightarrow> (mac_profile, plain_batch_input) prepared \<Rightarrow> mac_create_batch_output result" where
  "mac_create_batch C p =
     bindR (batch_map (\<lambda>_ item.
               bindR (compute_digest C (pr_profile p) (pi_plaintext item)) (\<lambda>digest. Inr (pi_ref item, hex_encode C digest)))
             0 (pb_items (pr_input p))) (\<lambda>items.
       Inr \<lparr>mbo_kid = pr_kid p, mbo_profile = pb_profile (pr_input p),
            mbo_algorithm = mc_public_algorithm (pr_profile p), mbo_items = items\<rparr>)"

text \<open>The answer is the reference and whether the code is valid.\<close>

definition mac_verify :: "crates \<Rightarrow> mac_profile \<times> mac_verify_input \<Rightarrow> (ustr \<times> bool) result" where
  "mac_verify C p =
     (let item = mv_item (snd p) in
      bindR (compute_digest C (fst p) (mvi_plaintext item)) (\<lambda>expected.
      bindR (hex_decode_q C (mvi_digest item)) (\<lambda>actual.
        Inr (mvi_ref item, constant_time_eq expected actual))))"

text \<open>A failure to read a digest is reported without the index of the item.\<close>

fun mac_verify_loop :: "crates \<Rightarrow> mac_profile \<Rightarrow> nat \<Rightarrow> mac_verify_item list \<Rightarrow> (ustr \<times> bool) list result" where
  "mac_verify_loop C profile index [] = Inr []"
| "mac_verify_loop C profile index (item # items) =
     bindR (batch_item index (compute_digest C profile (mvi_plaintext item))) (\<lambda>expected.
     bindR (hex_decode_q C (mvi_digest item)) (\<lambda>actual.
     bindR (mac_verify_loop C profile (Suc index) items) (\<lambda>rest.
       Inr ((mvi_ref item, constant_time_eq expected actual) # rest))))"

definition mac_verify_batch :: "crates \<Rightarrow> (mac_profile, mac_verify_batch_input) prepared \<Rightarrow> verify_batch_output result" where
  "mac_verify_batch C p =
     bindR (mac_verify_loop C (pr_profile p) 0 (mvb_items (pr_input p))) (\<lambda>items.
       Inr \<lparr>vbo_kid = pr_kid p, vbo_profile = mvb_profile (pr_input p), vbo_items = items\<rparr>)"

section \<open>Masking\<close>

definition INTERNAL_MASK_BATCH :: nat where "INTERNAL_MASK_BATCH = 128"

record mask_output =
  ko_ref :: ustr
  ko_kid :: ustr
  ko_profile :: ustr
  ko_masked :: ustr

record mask_batch_output =
  kbo_kid :: ustr
  kbo_profile :: ustr
  kbo_items :: "(ustr \<times> ustr) list"

definition parse_mask_input :: "(json \<Rightarrow> ustr) \<Rightarrow> json \<Rightarrow> plain_input result" where
  "parse_mask_input serde_error req = parse_json_request serde_error plain_input_of_json req (lit ''mask request'')"

definition parse_mask_batch_input :: "(json \<Rightarrow> ustr) \<Rightarrow> json \<Rightarrow> plain_batch_input result" where
  "parse_mask_batch_input serde_error req =
     bindR (reject_oversized_value req INTERNAL_MASK_BATCH (lit ''mask'')) (\<lambda>_.
       parse_json_request serde_error plain_batch_of_json req (lit ''mask request''))"

definition validate_mask_input :: "plain_input \<Rightarrow> plain_input result" where
  "validate_mask_input i = validate_plain_input i"

definition validate_mask_batch_input :: "plain_batch_input \<Rightarrow> plain_batch_input result" where
  "validate_mask_batch_input i = validate_plain_batch INTERNAL_MASK_BATCH (lit ''mask'') i"

definition prepare_mask ::
    "keys_db_state \<Rightarrow> ustr \<Rightarrow> masking_profile \<Rightarrow> plain_input \<Rightarrow> (masking_profile, plain_input) prepared result" where
  "prepare_mask st kid profile i =
     bindR (prepare_profile_use st kid (mp_kid profile) (lit ''masking'') Verify) (\<lambda>_.
       Inr \<lparr>pr_kid = kid, pr_profile = profile, pr_input = i\<rparr>)"

definition prepare_mask_batch ::
    "keys_db_state \<Rightarrow> ustr \<Rightarrow> masking_profile \<Rightarrow> plain_batch_input \<Rightarrow> (masking_profile, plain_batch_input) prepared result" where
  "prepare_mask_batch st kid profile i =
     bindR (prepare_profile_use st kid (mp_kid profile) (lit ''masking'') Verify) (\<lambda>_.
       Inr \<lparr>pr_kid = kid, pr_profile = profile, pr_input = i\<rparr>)"

definition mask_one :: "(masking_profile, plain_input) prepared \<Rightarrow> mask_output result" where
  "mask_one p =
     bindR (mask (pr_profile p) (pi_plaintext (pn_item (pr_input p)))) (\<lambda>masked.
       Inr \<lparr>ko_ref = pi_ref (pn_item (pr_input p)), ko_kid = pr_kid p, ko_profile = mp_name (pr_profile p),
            ko_masked = masked\<rparr>)"

definition mask_batch :: "(masking_profile, plain_batch_input) prepared \<Rightarrow> mask_batch_output result" where
  "mask_batch p =
     bindR (batch_map (\<lambda>_ item. bindR (mask (pr_profile p) (pi_plaintext item)) (\<lambda>masked. Inr (pi_ref item, masked)))
             0 (pb_items (pr_input p))) (\<lambda>items.
       Inr \<lparr>kbo_kid = pr_kid p, kbo_profile = mp_name (pr_profile p), kbo_items = items\<rparr>)"

section \<open>Commitments\<close>

definition INTERNAL_COMMIT_BATCH :: nat where "INTERNAL_COMMIT_BATCH = 128"

record commit_verify_item =
  cvi_ref :: ustr
  cvi_plaintext :: ustr
  cvi_opening :: ustr
  cvi_commitment :: ustr

record commit_verify_input =
  cv_kid :: ustr
  cv_profile :: ustr
  cv_item :: commit_verify_item

record commit_verify_batch_input =
  cvb_kid :: ustr
  cvb_profile :: ustr
  cvb_items :: "commit_verify_item list"

record commit_create_item_output =
  cio_ref :: ustr
  cio_commitment :: ustr
  cio_opening :: ustr

record commit_create_output =
  cco_kid :: ustr
  cco_profile :: ustr
  cco_algorithm :: ustr
  cco_item :: commit_create_item_output

record commit_create_batch_output =
  ccb_kid :: ustr
  ccb_profile :: ustr
  ccb_algorithm :: ustr
  ccb_items :: "commit_create_item_output list"

record commit_verify_output =
  cvo_ref :: ustr
  cvo_kid :: ustr
  cvo_profile :: ustr
  cvo_valid :: bool

definition commit_verify_of_json :: "json \<Rightarrow> commit_verify_input option" where
  "commit_verify_of_json v =
     (case request_struct [lit ''ref'', lit ''kid'', lit ''profile'', lit ''plaintext'', lit ''opening'', lit ''commitment'']
             None v of
        Some ([r, kid, profile, plain, opening, commitment], _) \<Rightarrow>
          Option.bind (as_str r) (\<lambda>r. Option.bind (as_str kid) (\<lambda>kid. Option.bind (as_str profile) (\<lambda>profile.
          Option.bind (as_str plain) (\<lambda>plain. Option.bind (as_str opening) (\<lambda>opening.
          Option.bind (as_str commitment) (\<lambda>commitment.
            Some \<lparr>cv_kid = kid, cv_profile = profile,
                  cv_item = \<lparr>cvi_ref = r, cvi_plaintext = plain, cvi_opening = opening, cvi_commitment = commitment\<rparr>\<rparr>))))))
      | _ \<Rightarrow> None)"

definition commit_verify_item_of_json :: "json \<Rightarrow> commit_verify_item option" where
  "commit_verify_item_of_json v =
     (case request_struct [lit ''ref'', lit ''plaintext'', lit ''opening'', lit ''commitment''] None v of
        Some ([r, plain, opening, commitment], _) \<Rightarrow>
          Option.bind (as_str r) (\<lambda>r. Option.bind (as_str plain) (\<lambda>plain. Option.bind (as_str opening) (\<lambda>opening.
          Option.bind (as_str commitment) (\<lambda>commitment.
            Some \<lparr>cvi_ref = r, cvi_plaintext = plain, cvi_opening = opening, cvi_commitment = commitment\<rparr>))))
      | _ \<Rightarrow> None)"

definition commit_verify_batch_of_json :: "json \<Rightarrow> commit_verify_batch_input option" where
  "commit_verify_batch_of_json v =
     (case request_struct [lit ''kid'', lit ''profile'', lit ''items''] None v of
        Some ([kid, profile, items], _) \<Rightarrow>
          Option.bind (as_str kid) (\<lambda>kid. Option.bind (as_str profile) (\<lambda>profile.
          Option.bind (items_of_json commit_verify_item_of_json items) (\<lambda>items.
            Some \<lparr>cvb_kid = kid, cvb_profile = profile, cvb_items = items\<rparr>)))
      | _ \<Rightarrow> None)"

definition commit_parse_create_input :: "(json \<Rightarrow> ustr) \<Rightarrow> json \<Rightarrow> plain_input result" where
  "commit_parse_create_input serde_error req = parse_json_request serde_error plain_input_of_json req (lit ''commit request'')"

definition commit_parse_verify_input :: "(json \<Rightarrow> ustr) \<Rightarrow> json \<Rightarrow> commit_verify_input result" where
  "commit_parse_verify_input serde_error req = parse_json_request serde_error commit_verify_of_json req (lit ''commit request'')"

definition commit_parse_create_batch_input :: "(json \<Rightarrow> ustr) \<Rightarrow> json \<Rightarrow> plain_batch_input result" where
  "commit_parse_create_batch_input serde_error req =
     bindR (reject_oversized_value req INTERNAL_COMMIT_BATCH (lit ''commit'')) (\<lambda>_.
       parse_json_request serde_error plain_batch_of_json req (lit ''commit request''))"

definition commit_parse_verify_batch_input :: "(json \<Rightarrow> ustr) \<Rightarrow> json \<Rightarrow> commit_verify_batch_input result" where
  "commit_parse_verify_batch_input serde_error req =
     bindR (reject_oversized_value req INTERNAL_COMMIT_BATCH (lit ''commit'')) (\<lambda>_.
       parse_json_request serde_error commit_verify_batch_of_json req (lit ''commit request''))"

definition commit_validate_create_input :: "plain_input \<Rightarrow> plain_input result" where
  "commit_validate_create_input i = validate_plain_input i"

definition commit_validate_verify_input :: "commit_verify_input \<Rightarrow> commit_verify_input result" where
  "commit_validate_verify_input i =
     bindR (validate_ref (cvi_ref (cv_item i))) (\<lambda>ref_id.
     bindR (validate_kid_field (cv_kid i)) (\<lambda>_.
     bindR (validate_aad_config_name (lit ''profile'') (cv_profile i)) (\<lambda>_.
     bindR (validate_text_field (lit ''plaintext'') (cvi_plaintext (cv_item i))) (\<lambda>_.
     bindR (validate_text_field (lit ''opening'') (cvi_opening (cv_item i))) (\<lambda>_.
     bindR (validate_hex_field (lit ''commitment'') (cvi_commitment (cv_item i))) (\<lambda>_.
       Inr (i\<lparr>cv_item := (cv_item i)\<lparr>cvi_ref := ref_id\<rparr>\<rparr>)))))))"

definition commit_validate_create_batch_input :: "plain_batch_input \<Rightarrow> plain_batch_input result" where
  "commit_validate_create_batch_input i = validate_plain_batch INTERNAL_COMMIT_BATCH (lit ''commit'') i"

definition commit_validate_verify_item :: "commit_verify_item \<Rightarrow> commit_verify_item result" where
  "commit_validate_verify_item item =
     bindR (validate_ref (cvi_ref item)) (\<lambda>ref_id.
     bindR (validate_text_field (lit ''plaintext'') (cvi_plaintext item)) (\<lambda>_.
     bindR (validate_text_field (lit ''opening'') (cvi_opening item)) (\<lambda>_.
     bindR (validate_hex_field (lit ''commitment'') (cvi_commitment item)) (\<lambda>_. Inr (item\<lparr>cvi_ref := ref_id\<rparr>)))))"

definition commit_validate_verify_batch_input :: "commit_verify_batch_input \<Rightarrow> commit_verify_batch_input result" where
  "commit_validate_verify_batch_input i =
     bindR (validate_kid_field (cvb_kid i)) (\<lambda>_.
     bindR (validate_aad_config_name (lit ''profile'') (cvb_profile i)) (\<lambda>_.
     bindR (validate_len (length (cvb_items i)) INTERNAL_COMMIT_BATCH (lit ''commit'')) (\<lambda>_.
     bindR (batch_map (\<lambda>_. commit_validate_verify_item) 0 (cvb_items i)) (\<lambda>items.
     bindR (validate_unique_refs (map cvi_ref items) (lit ''commit'')) (\<lambda>_.
       Inr (i\<lparr>cvb_items := items\<rparr>))))))"

definition commit_validate_plaintext_len :: "commitment_profile \<Rightarrow> ustr \<Rightarrow> unit result" where
  "commit_validate_plaintext_len profile plain =
     (if length plain > cm_max_plaintext_len profile
      then Inl (invalid_input (lit ''plaintext exceeds commitment profile maximum length''))
      else Inr ())"

definition commit_prepare_create ::
    "keys_db_state \<Rightarrow> ustr \<Rightarrow> commitment_profile \<Rightarrow> plain_input \<Rightarrow> (commitment_profile, plain_input) prepared result" where
  "commit_prepare_create st kid profile i =
     bindR (prepare_profile_use st kid (cm_kid profile) (lit ''commit'') NewUse) (\<lambda>_.
     bindR (commit_validate_plaintext_len profile (pi_plaintext (pn_item i))) (\<lambda>_.
       Inr \<lparr>pr_kid = kid, pr_profile = profile, pr_input = i\<rparr>))"

definition commit_prepare_verify ::
    "crates \<Rightarrow> keys_db_state \<Rightarrow> commitment_profile \<Rightarrow> commit_verify_input \<Rightarrow>
     (commitment_profile, commit_verify_input) prepared result" where
  "commit_prepare_verify C st profile i =
     bindR (prepare_profile_use st (cv_kid i) (cm_kid profile) (lit ''commit'') Verify) (\<lambda>_.
     bindR (commit_validate_plaintext_len profile (cvi_plaintext (cv_item i))) (\<lambda>_.
     bindR (validate_opening C profile (cvi_opening (cv_item i))) (\<lambda>_.
       Inr \<lparr>pr_kid = cv_kid i, pr_profile = profile, pr_input = i\<rparr>)))"

definition commit_prepare_create_batch ::
    "keys_db_state \<Rightarrow> ustr \<Rightarrow> commitment_profile \<Rightarrow> plain_batch_input \<Rightarrow>
     (commitment_profile, plain_batch_input) prepared result" where
  "commit_prepare_create_batch st kid profile i =
     bindR (prepare_profile_use st kid (cm_kid profile) (lit ''commit'') NewUse) (\<lambda>_.
     bindR (batch_map (\<lambda>_ item. commit_validate_plaintext_len profile (pi_plaintext item)) 0 (pb_items i)) (\<lambda>_.
       Inr \<lparr>pr_kid = kid, pr_profile = profile, pr_input = i\<rparr>))"

definition commit_prepare_verify_batch ::
    "crates \<Rightarrow> keys_db_state \<Rightarrow> commitment_profile \<Rightarrow> commit_verify_batch_input \<Rightarrow>
     (commitment_profile, commit_verify_batch_input) prepared result" where
  "commit_prepare_verify_batch C st profile i =
     bindR (prepare_profile_use st (cvb_kid i) (cm_kid profile) (lit ''commit'') Verify) (\<lambda>_.
     bindR (batch_map (\<lambda>_ item.
               bindR (commit_validate_plaintext_len profile (cvi_plaintext item)) (\<lambda>_.
                 validate_opening C profile (cvi_opening item))) 0 (cvb_items i)) (\<lambda>_.
       Inr \<lparr>pr_kid = cvb_kid i, pr_profile = profile, pr_input = i\<rparr>))"

text \<open>The random bytes are an argument; in a batch those of each item by its index.\<close>

definition generate_opening :: "crates \<Rightarrow> (nat \<Rightarrow> u8 list result) \<Rightarrow> commitment_profile \<Rightarrow> ustr result" where
  "generate_opening C random_bytes profile =
     bindR (random_bytes (cm_opening_len profile)) (\<lambda>random. Inr (encode_opening C random))"

definition commit_item ::
    "crates \<Rightarrow> (nat \<Rightarrow> u8 list result) \<Rightarrow> commitment_profile \<Rightarrow> plain_item \<Rightarrow> commit_create_item_output result" where
  "commit_item C random_bytes profile item =
     bindR (generate_opening C random_bytes profile) (\<lambda>opening.
     bindR (compute_commitment C profile opening (pi_plaintext item)) (\<lambda>commitment.
       Inr \<lparr>cio_ref = pi_ref item, cio_commitment = hex_encode C commitment, cio_opening = opening\<rparr>))"

definition commit_create ::
    "crates \<Rightarrow> (nat \<Rightarrow> u8 list result) \<Rightarrow> (commitment_profile, plain_input) prepared \<Rightarrow> commit_create_output result" where
  "commit_create C random_bytes p =
     bindR (commit_item C random_bytes (pr_profile p) (pn_item (pr_input p))) (\<lambda>item.
       Inr \<lparr>cco_kid = pr_kid p, cco_profile = pn_profile (pr_input p),
            cco_algorithm = cm_public_algorithm (pr_profile p), cco_item = item\<rparr>)"

definition commit_create_batch ::
    "crates \<Rightarrow> (nat \<Rightarrow> nat \<Rightarrow> u8 list result) \<Rightarrow> (commitment_profile, plain_batch_input) prepared \<Rightarrow>
     commit_create_batch_output result" where
  "commit_create_batch C random_bytes p =
     bindR (batch_map (\<lambda>index. commit_item C (random_bytes index) (pr_profile p)) 0 (pb_items (pr_input p))) (\<lambda>items.
       Inr \<lparr>ccb_kid = pr_kid p, ccb_profile = pb_profile (pr_input p),
            ccb_algorithm = cm_public_algorithm (pr_profile p), ccb_items = items\<rparr>)"

definition commit_verify :: "crates \<Rightarrow> (commitment_profile, commit_verify_input) prepared \<Rightarrow> commit_verify_output result" where
  "commit_verify C p =
     (let item = cv_item (pr_input p) in
      bindR (compute_commitment C (pr_profile p) (cvi_opening item) (cvi_plaintext item)) (\<lambda>expected.
      bindR (hex_decode_q C (cvi_commitment item)) (\<lambda>actual.
        Inr \<lparr>cvo_ref = cvi_ref item, cvo_kid = pr_kid p, cvo_profile = cv_profile (pr_input p),
             cvo_valid = constant_time_eq expected actual\<rparr>)))"

fun commit_verify_loop ::
    "crates \<Rightarrow> commitment_profile \<Rightarrow> nat \<Rightarrow> commit_verify_item list \<Rightarrow> (ustr \<times> bool) list result" where
  "commit_verify_loop C profile index [] = Inr []"
| "commit_verify_loop C profile index (item # items) =
     bindR (batch_item index (compute_commitment C profile (cvi_opening item) (cvi_plaintext item))) (\<lambda>expected.
     bindR (hex_decode_q C (cvi_commitment item)) (\<lambda>actual.
     bindR (commit_verify_loop C profile (Suc index) items) (\<lambda>rest.
       Inr ((cvi_ref item, constant_time_eq expected actual) # rest))))"

definition commit_verify_batch ::
    "crates \<Rightarrow> (commitment_profile, commit_verify_batch_input) prepared \<Rightarrow> verify_batch_output result" where
  "commit_verify_batch C p =
     bindR (commit_verify_loop C (pr_profile p) 0 (cvb_items (pr_input p))) (\<lambda>items.
       Inr \<lparr>vbo_kid = pr_kid p, vbo_profile = cvb_profile (pr_input p), vbo_items = items\<rparr>)"

section \<open>Sharing\<close>

definition new_set_id :: "crates \<Rightarrow> (nat \<Rightarrow> u8 list result) \<Rightarrow> ustr result" where
  "new_set_id C random_bytes = bindR (random_bytes SHARING_SET_ID_BYTES) (\<lambda>bs. Inr (url_encode C bs))"

record share_split_input =
  ssi_profile :: ustr
  ssi_plaintext :: ustr

record share_combine_input =
  sci_kid :: ustr
  sci_profile :: ustr
  sci_shares :: "ustr list"

record share_split_output =
  sso_kid :: ustr
  sso_profile :: ustr
  sso_threshold :: nat
  sso_set_id :: ustr
  sso_shares :: "ustr list"

record share_combine_output =
  sco_kid :: ustr
  sco_profile :: ustr
  sco_set_id :: ustr
  sco_plaintext :: ustr

definition split_input_of_json :: "json \<Rightarrow> share_split_input option" where
  "split_input_of_json v =
     (case request_struct [lit ''profile'', lit ''plaintext''] None v of
        Some ([profile, plain], _) \<Rightarrow>
          Option.bind (as_str profile) (\<lambda>profile. Option.bind (as_str plain) (\<lambda>plain.
            Some \<lparr>ssi_profile = profile, ssi_plaintext = plain\<rparr>))
      | _ \<Rightarrow> None)"

definition combine_input_of_json :: "json \<Rightarrow> share_combine_input option" where
  "combine_input_of_json v =
     (case request_struct [lit ''kid'', lit ''profile'', lit ''shares''] None v of
        Some ([kid, profile, shares], _) \<Rightarrow>
          Option.bind (as_str kid) (\<lambda>kid. Option.bind (as_str profile) (\<lambda>profile.
          Option.bind (items_of_json as_str shares) (\<lambda>shares.
            Some \<lparr>sci_kid = kid, sci_profile = profile, sci_shares = shares\<rparr>)))
      | _ \<Rightarrow> None)"

definition parse_split_input :: "(json \<Rightarrow> ustr) \<Rightarrow> json \<Rightarrow> share_split_input result" where
  "parse_split_input serde_error req = parse_json_request serde_error split_input_of_json req (lit ''shares split request'')"

definition parse_combine_input :: "(json \<Rightarrow> ustr) \<Rightarrow> json \<Rightarrow> share_combine_input result" where
  "parse_combine_input serde_error req =
     parse_json_request serde_error combine_input_of_json req (lit ''shares combine request'')"

definition validate_split_input :: "share_split_input \<Rightarrow> share_split_input result" where
  "validate_split_input i =
     bindR (validate_aad_config_name (lit ''profile'') (ssi_profile i)) (\<lambda>_.
     bindR (validate_text_field (lit ''plaintext'') (ssi_plaintext i)) (\<lambda>_. Inr i))"

definition share_item :: "nat \<Rightarrow> 'a result \<Rightarrow> 'a result" where
  "share_item index r = map_err (with_prefix (lit ''share '' @ show_nat index @ lit '' failed'')) r"

fun validate_shares_loop :: "nat \<Rightarrow> ustr list \<Rightarrow> unit result" where
  "validate_shares_loop index [] = Inr ()"
| "validate_shares_loop index (share # shares) =
     bindR (share_item index (validate_text_field (lit ''share'') share)) (\<lambda>_. validate_shares_loop (Suc index) shares)"

definition validate_combine_input :: "share_combine_input \<Rightarrow> share_combine_input result" where
  "validate_combine_input i =
     bindR (validate_kid_field (sci_kid i)) (\<lambda>_.
     bindR (validate_aad_config_name (lit ''profile'') (sci_profile i)) (\<lambda>_.
       if sci_shares i = [] then Inl (invalid_input (lit ''shares must not be empty''))
       else if length (sci_shares i) > INTERNAL_SHARE_MAX
       then Inl (invalid_input (lit ''shares exceeds maximum allowed value: '' @ show_nat INTERNAL_SHARE_MAX))
       else bindR (validate_shares_loop 0 (sci_shares i)) (\<lambda>_. Inr i)))"

definition share_validate_plaintext_len :: "sharing_profile \<Rightarrow> ustr \<Rightarrow> unit result" where
  "share_validate_plaintext_len profile plain =
     (if str_len plain > sp_max_secret_len profile
      then Inl (invalid_input (lit ''plaintext exceeds sharing profile maximum length''))
      else Inr ())"

definition prepare_split ::
    "keys_db_state \<Rightarrow> ustr \<Rightarrow> sharing_profile \<Rightarrow> share_split_input \<Rightarrow> (sharing_profile, share_split_input) prepared result" where
  "prepare_split st kid profile i =
     bindR (prepare_profile_use st kid (sp_kid profile) (lit ''sharing'') NewUse) (\<lambda>_.
     bindR (share_validate_plaintext_len profile (ssi_plaintext i)) (\<lambda>_.
       Inr \<lparr>pr_kid = kid, pr_profile = profile, pr_input = i\<rparr>))"

definition prepare_combine ::
    "keys_db_state \<Rightarrow> sharing_profile \<Rightarrow> share_combine_input \<Rightarrow> (sharing_profile, share_combine_input) prepared result" where
  "prepare_combine st profile i =
     bindR (prepare_profile_use st (sci_kid i) (sp_kid profile) (lit ''sharing'') Verify) (\<lambda>_.
       if length (sci_shares i) < sp_threshold profile
       then Inl (invalid_input (lit ''not enough shares to meet sharing profile threshold''))
       else Inr \<lparr>pr_kid = sci_kid i, pr_profile = profile, pr_input = i\<rparr>)"

definition share_split ::
    "crates \<Rightarrow> (nat \<Rightarrow> u8 list result) \<Rightarrow> (nat \<Rightarrow> nat \<Rightarrow> u8 list result) \<Rightarrow> (sharing_profile, share_split_input) prepared \<Rightarrow>
     share_split_output result" where
  "share_split C random_bytes rng p =
     bindR (new_set_id C random_bytes) (\<lambda>set_id.
     bindR (Sharing.split rng (pr_profile p) (utf8 (ssi_plaintext (pr_input p)))) (\<lambda>raw_shares.
     bindR (try_map (encode_share C (pr_profile p) set_id) raw_shares) (\<lambda>shares.
       Inr \<lparr>sso_kid = pr_kid p, sso_profile = ssi_profile (pr_input p), sso_threshold = sp_threshold (pr_profile p),
            sso_set_id = set_id, sso_shares = shares\<rparr>)))"

text \<open>The set id of the first share is the one every other share must have.\<close>

fun decode_shares_loop ::
    "crates \<Rightarrow> sharing_profile \<Rightarrow> nat \<Rightarrow> ustr option \<Rightarrow> ustr list \<Rightarrow> (ustr option \<times> raw_share list) result" where
  "decode_shares_loop C profile index set_id [] = Inr (set_id, [])"
| "decode_shares_loop C profile index set_id (encoded # rest) =
     bindR (share_item index (decode_share C profile encoded)) (\<lambda>(share_set_id, raw_share).
       if set_id \<noteq> None \<and> set_id \<noteq> Some share_set_id
       then Inl (invalid_input (lit ''shares do not belong to the same sharing set''))
       else bindR (decode_shares_loop C profile (Suc index) (Some share_set_id) rest) (\<lambda>(set_id, raw_shares).
         Inr (set_id, raw_share # raw_shares)))"

definition share_combine :: "crates \<Rightarrow> (sharing_profile, share_combine_input) prepared \<Rightarrow> share_combine_output result" where
  "share_combine C p =
     bindR (decode_shares_loop C (pr_profile p) 0 None (sci_shares (pr_input p))) (\<lambda>(set_id, raw_shares).
     bindR (combine raw_shares (sp_threshold (pr_profile p))) (\<lambda>plaintext.
       if length plaintext > sp_max_secret_len (pr_profile p)
       then Inl (invalid_input (lit ''reconstructed secret exceeds sharing profile maximum length''))
       else
     bindR (ok_or (invalid_input (lit ''reconstructed secret is not valid UTF-8'')) (from_utf8 plaintext)) (\<lambda>plain.
     bindR (ok_or (internal (lit ''share set id is missing after combining shares'')) set_id) (\<lambda>set_id.
       Inr \<lparr>sco_kid = pr_kid p, sco_profile = sci_profile (pr_input p), sco_set_id = set_id, sco_plaintext = plain\<rparr>))))"

end
