(* ===== verification/Deterministic_Ops.thy ===== *)
theory Deterministic_Ops
  imports Token_Ops Deterministic_Tokens
begin

text \<open>
  \<open>src/ops/deterministic_tokenization.rs\<close>: requests to encode or decode deterministic tokens, one or a batch. One
  request type serves the four forms; errors of items name the index of the item in a batch only.
\<close>

definition INTERNAL_TOKEN_DETERMINISTIC_BATCH :: nat where "INTERNAL_TOKEN_DETERMINISTIC_BATCH = 128"

record deterministic_item =
  dti_ref :: ustr
  dti_value :: ustr

record deterministic_request =
  dr_kid :: ustr
  dr_profile :: ustr
  dr_subject :: "ustr option"
  dr_decode :: bool
  dr_batch :: bool
  dr_items :: "deterministic_item list"

text \<open>A struct whose last fields may be missing but, when one is present, it is not null (\<open>deserialize_subject\<close>
  here, \<open>deserialize_present\<close> of \<open>src/core/fpe.rs\<close>).\<close>

fun strict_struct :: "ustr list \<Rightarrow> ustr list \<Rightarrow> json \<Rightarrow> (json list \<times> json option list) option" where
  "strict_struct ks opts (JObject fs) =
     (if set (map fst fs) \<subseteq> set (ks @ opts) \<and> distinct (map fst fs)
      then map_option (\<lambda>vs. (vs, map (map_of fs) opts)) (those (map (map_of fs) ks))
      else None)"
| "strict_struct ks opts (JArray vs) =
     (if length ks \<le> length vs \<and> length vs \<le> length ks + length opts
      then Some (take (length ks) vs,
                 map Some (drop (length ks) vs) @ replicate (length ks + length opts - length vs) None)
      else None)"
| "strict_struct ks opts _ = None"

definition value_item_of_json :: "string \<Rightarrow> json \<Rightarrow> deterministic_item option" where
  "value_item_of_json field v =
     (case request_struct [lit ''ref'', lit field] None v of
        Some ([r, x], _) \<Rightarrow>
          Option.bind (as_str r) (\<lambda>r. Option.bind (as_str x) (\<lambda>x. Some \<lparr>dti_ref = r, dti_value = x\<rparr>))
      | _ \<Rightarrow> None)"

definition value_items_of_json :: "string \<Rightarrow> json \<Rightarrow> deterministic_item list option" where
  "value_items_of_json field v = Option.bind (as_array v) (\<lambda>vs. those (map (value_item_of_json field) vs))"

text \<open>\<open>EncodeInput\<close> and \<open>EncodeBatch\<close> under the key id and subject of the path, \<open>DecodeInput\<close> and \<open>DecodeBatch\<close>.\<close>

definition encode_request_of_json :: "ustr \<Rightarrow> ustr option \<Rightarrow> json \<Rightarrow> deterministic_request option" where
  "encode_request_of_json kid subject v =
     (case request_struct [lit ''ref'', lit ''profile'', lit ''plaintext''] None v of
        Some ([r, profile, plain], _) \<Rightarrow>
          Option.bind (as_str r) (\<lambda>r. Option.bind (as_str profile) (\<lambda>profile. Option.bind (as_str plain) (\<lambda>plain.
            Some \<lparr>dr_kid = kid, dr_profile = profile, dr_subject = subject, dr_decode = False, dr_batch = False,
                  dr_items = [\<lparr>dti_ref = r, dti_value = plain\<rparr>]\<rparr>)))
      | _ \<Rightarrow> None)"

definition encode_batch_request_of_json :: "ustr \<Rightarrow> ustr option \<Rightarrow> json \<Rightarrow> deterministic_request option" where
  "encode_batch_request_of_json kid subject v =
     (case request_struct [lit ''profile'', lit ''items''] None v of
        Some ([profile, items], _) \<Rightarrow>
          Option.bind (as_str profile) (\<lambda>profile. Option.bind (value_items_of_json ''plaintext'' items) (\<lambda>items.
            Some \<lparr>dr_kid = kid, dr_profile = profile, dr_subject = subject, dr_decode = False, dr_batch = True,
                  dr_items = items\<rparr>))
      | _ \<Rightarrow> None)"

definition decode_request_of_json :: "json \<Rightarrow> deterministic_request option" where
  "decode_request_of_json v =
     (case strict_struct [lit ''ref'', lit ''kid'', lit ''profile'', lit ''token''] [lit ''subject''] v of
        Some ([r, kid, profile, token], [subject]) \<Rightarrow>
          Option.bind (as_str r) (\<lambda>r. Option.bind (as_str kid) (\<lambda>kid. Option.bind (as_str profile) (\<lambda>profile.
          Option.bind (as_str token) (\<lambda>token. Option.bind (opt_str subject) (\<lambda>subject.
            Some \<lparr>dr_kid = kid, dr_profile = profile, dr_subject = subject, dr_decode = True, dr_batch = False,
                  dr_items = [\<lparr>dti_ref = r, dti_value = token\<rparr>]\<rparr>)))))
      | _ \<Rightarrow> None)"

definition decode_batch_request_of_json :: "json \<Rightarrow> deterministic_request option" where
  "decode_batch_request_of_json v =
     (case strict_struct [lit ''kid'', lit ''profile'', lit ''items''] [lit ''subject''] v of
        Some ([kid, profile, items], [subject]) \<Rightarrow>
          Option.bind (as_str kid) (\<lambda>kid. Option.bind (as_str profile) (\<lambda>profile.
          Option.bind (value_items_of_json ''token'' items) (\<lambda>items. Option.bind (opt_str subject) (\<lambda>subject.
            Some \<lparr>dr_kid = kid, dr_profile = profile, dr_subject = subject, dr_decode = True, dr_batch = True,
                  dr_items = items\<rparr>))))
      | _ \<Rightarrow> None)"

definition indexed :: "bool \<Rightarrow> nat \<Rightarrow> 'a result \<Rightarrow> 'a result" where
  "indexed batch index r = (if batch then batch_item index r else r)"

definition validate_deterministic_item :: "crates \<Rightarrow> bool \<Rightarrow> deterministic_item \<Rightarrow> deterministic_item result" where
  "validate_deterministic_item C decoding item =
     bindR (validate_ref (dti_ref item)) (\<lambda>ref_id.
     bindR (if decoding then validate_deterministic_token C (dti_value item)
            else
              bindR (validate_text_field (lit ''plaintext'') (dti_value item)) (\<lambda>_.
                if str_len (dti_value item) > PLAINTEXT_MAX_CHARS * 4 \<or> length (dti_value item) > PLAINTEXT_MAX_CHARS
                then Inl (invalid_input (lit ''plaintext exceeds maximum allowed length: 16384''))
                else Inr ())) (\<lambda>_.
       Inr (item\<lparr>dti_ref := ref_id\<rparr>)))"

fun indexed_map :: "bool \<Rightarrow> ('a \<Rightarrow> 'b result) \<Rightarrow> nat \<Rightarrow> 'a list \<Rightarrow> 'b list result" where
  "indexed_map batch f index [] = Inr []"
| "indexed_map batch f index (x # xs) =
     bindR (indexed batch index (f x)) (\<lambda>y. bindR (indexed_map batch f (Suc index) xs) (\<lambda>ys. Inr (y # ys)))"

definition parse_deterministic_request ::
    "crates \<Rightarrow> (json \<Rightarrow> ustr) \<Rightarrow> json \<Rightarrow> (ustr \<times> ustr option) option \<Rightarrow> bool \<Rightarrow> deterministic_request result" where
  "parse_deterministic_request C serde_error v path batch =
     bindR (if batch then reject_oversized_value v INTERNAL_TOKEN_DETERMINISTIC_BATCH (lit ''deterministic token'') else Inr ()) (\<lambda>_.
     bindR (parse_json_request serde_error
              (case (path, batch) of
                 (Some (kid, subject), False) \<Rightarrow> encode_request_of_json kid subject
               | (Some (kid, subject), True) \<Rightarrow> encode_batch_request_of_json kid subject
               | (None, False) \<Rightarrow> decode_request_of_json
               | (None, True) \<Rightarrow> decode_batch_request_of_json) v (lit ''deterministic token request'')) (\<lambda>req.
     bindR (validate_key_id (dr_kid req)) (\<lambda>_.
     bindR (validate_aad_config_name (lit ''profile'') (dr_profile req)) (\<lambda>_.
     bindR (case dr_subject req of Some subject \<Rightarrow> validate_subject subject | None \<Rightarrow> Inr ()) (\<lambda>_.
     bindR (if batch
            then validate_len (length (dr_items req)) INTERNAL_TOKEN_DETERMINISTIC_BATCH (lit ''deterministic token'')
            else Inr ()) (\<lambda>_.
     bindR (indexed_map batch (validate_deterministic_item C (dr_decode req)) 0 (dr_items req)) (\<lambda>items.
     bindR (if batch then validate_unique_refs (map dti_ref items) (lit ''deterministic token'') else Inr ()) (\<lambda>_.
       Inr (req\<lparr>dr_items := items\<rparr>)))))))))"

record deterministic_output_item =
  doi_ref :: ustr
  doi_token :: "ustr option"
  doi_plaintext :: "ustr option"

datatype deterministic_output =
    SingleOutput ustr ustr "ustr option" deterministic_output_item
  | BatchOutput ustr ustr "ustr option" "deterministic_output_item list"

definition use_of :: "bool \<Rightarrow> profile_use" where
  "use_of decoding = (if decoding then Verify else NewUse)"

definition deterministic_prepare ::
    "keys_db_state \<Rightarrow> deterministic_request \<Rightarrow> deterministic_token_context \<Rightarrow>
     (deterministic_request \<times> deterministic_token_context) result" where
  "deterministic_prepare st req ctx =
     bindR (prepare_profile_use st (dr_kid req) (dp_kid (dc_profile ctx)) (lit ''deterministic token'') (use_of (dr_decode req))) (\<lambda>_.
       if dr_kid req \<noteq> dp_kid (dc_profile ctx) \<or> dr_profile req \<noteq> dp_name (dc_profile ctx) \<or> dr_subject req \<noteq> dc_subject ctx
       then Inl (invalid_input (lit ''deterministic token context mismatch''))
       else Inr (req, ctx))"

definition execute_item ::
    "crates \<Rightarrow> ciphers \<Rightarrow> bool \<Rightarrow> deterministic_token_context \<Rightarrow> deterministic_item \<Rightarrow> deterministic_output_item result" where
  "execute_item C E decoding ctx item =
     (if decoding
      then bindR (dc_decode C E ctx (dti_value item)) (\<lambda>plain.
             Inr \<lparr>doi_ref = dti_ref item, doi_token = None, doi_plaintext = Some plain\<rparr>)
      else bindR (dc_encode C E ctx (dti_value item)) (\<lambda>token.
             Inr \<lparr>doi_ref = dti_ref item, doi_token = Some token, doi_plaintext = None\<rparr>))"

definition deterministic_execute ::
    "crates \<Rightarrow> ciphers \<Rightarrow> deterministic_request \<times> deterministic_token_context \<Rightarrow> deterministic_output result" where
  "deterministic_execute C E p =
     (case p of (req, ctx) \<Rightarrow>
        bindR (indexed_map (dr_batch req) (execute_item C E (dr_decode req) ctx) 0 (dr_items req)) (\<lambda>items.
          if dr_batch req then Inr (BatchOutput (dr_kid req) (dr_profile req) (dr_subject req) items)
          else if items = [] then Inl (Panic (lit ''single input''))
          else Inr (SingleOutput (dr_kid req) (dr_profile req) (dr_subject req) (last items))))"

section \<open>Batches\<close>

text \<open>A list of items succeeds as a whole, with one result for each item in order, or fails with the error of its
  first failing item.\<close>

lemma indexed_ok: "indexed batch index r = Inr x \<longleftrightarrow> r = Inr x"
  by (simp add: indexed_def batch_item_def map_err_eq_Inr)

lemma indexed_map_ok: "indexed_map batch f index xs = Inr ys \<longleftrightarrow> list_all2 (\<lambda>x y. f x = Inr y) xs ys"
  by (induction xs arbitrary: index ys) (auto simp: bindR_eq_Inr indexed_ok list_all2_Cons1)

lemma single_request:
  assumes "parse_deterministic_request C serde_error v path False = Inr req"
  shows "\<exists>item. dr_items req = [item] \<and> dr_batch req = False"
  using assms
  by (auto simp: parse_deterministic_request_def parse_json_request_def encode_request_of_json_def decode_request_of_json_def
      bindR_eq_Inr ok_or_eq_Inr bind_eq_Some_conv split: option.splits list.splits prod.splits)

end
