(* ===== verification/Fpe_Ops.thy ===== *)
theory Fpe_Ops
  imports Profile_Ops Deterministic_Ops Fpe_Correct
begin

text \<open>
  \<open>src/ops/fpe.rs\<close>: requests to encrypt and decrypt with a format-preserving profile, one value or a batch, and the
  context of a subject (\<open>FpeContext::from_subject_envelope\<close> of \<open>src/core/fpe.rs\<close>). The tags of a whole batch are
  verified before any of its values is decrypted.
\<close>

section \<open>Model\<close>

definition INTERNAL_FPE_BATCH :: nat where "INTERNAL_FPE_BATCH = 128"

definition fc_from_subject_envelope ::
    "crates \<Rightarrow> ciphers \<Rightarrow> fpe_crate \<Rightarrow> fpe_profile \<Rightarrow> tokenization_profile \<Rightarrow> ustr \<Rightarrow> ustr \<Rightarrow> fpe_context result" where
  "fc_from_subject_envelope C E F profile origin subject envelope =
     bindR (validate_subject_mode profile (Some subject)) (\<lambda>_.
       if tp_kid origin \<noteq> fp_kid profile \<or> tp_subject_mode origin \<noteq> Stored
       then Inl (internal (lit ''stored subject seed is invalid''))
       else bindR (open_authenticated_seed C E origin subject envelope) (\<lambda>seed. with_subject C F profile subject seed))"

record fpe_decrypt_item =
  fdi_ref :: ustr
  fdi_ciphertext :: ustr
  fdi_tag :: "ustr option"

record fpe_decrypt_input =
  fd_kid :: ustr
  fd_profile :: ustr
  fd_subject :: "ustr option"
  fd_item :: fpe_decrypt_item

record fpe_decrypt_batch_input =
  fdb_kid :: ustr
  fdb_profile :: ustr
  fdb_subject :: "ustr option"
  fdb_items :: "fpe_decrypt_item list"

record fpe_encrypt_item_output =
  feo_ref :: ustr
  feo_ciphertext :: ustr
  feo_tag :: "ustr option"

record fpe_encrypt_output =
  fe_kid :: ustr
  fe_profile :: ustr
  fe_subject :: "ustr option"
  fe_item :: fpe_encrypt_item_output

record fpe_encrypt_batch_output =
  feb_kid :: ustr
  feb_profile :: ustr
  feb_subject :: "ustr option"
  feb_items :: "fpe_encrypt_item_output list"

record fpe_decrypt_batch_output =
  fdo_kid :: ustr
  fdo_profile :: ustr
  fdo_items :: "(ustr \<times> ustr) list"

definition fpe_decrypt_of_json :: "json \<Rightarrow> fpe_decrypt_input option" where
  "fpe_decrypt_of_json v =
     (case strict_struct [lit ''ref'', lit ''kid'', lit ''profile'', lit ''ciphertext''] [lit ''tag'', lit ''subject''] v of
        Some ([r, kid, profile, ciphertext], [tag, subject]) \<Rightarrow>
          Option.bind (as_str r) (\<lambda>r. Option.bind (as_str kid) (\<lambda>kid. Option.bind (as_str profile) (\<lambda>profile.
          Option.bind (as_str ciphertext) (\<lambda>ciphertext. Option.bind (opt_str tag) (\<lambda>tag.
          Option.bind (opt_str subject) (\<lambda>subject.
            Some \<lparr>fd_kid = kid, fd_profile = profile, fd_subject = subject,
                  fd_item = \<lparr>fdi_ref = r, fdi_ciphertext = ciphertext, fdi_tag = tag\<rparr>\<rparr>))))))
      | _ \<Rightarrow> None)"

definition fpe_decrypt_item_of_json :: "json \<Rightarrow> fpe_decrypt_item option" where
  "fpe_decrypt_item_of_json v =
     (case strict_struct [lit ''ref'', lit ''ciphertext''] [lit ''tag''] v of
        Some ([r, ciphertext], [tag]) \<Rightarrow>
          Option.bind (as_str r) (\<lambda>r. Option.bind (as_str ciphertext) (\<lambda>ciphertext. Option.bind (opt_str tag) (\<lambda>tag.
            Some \<lparr>fdi_ref = r, fdi_ciphertext = ciphertext, fdi_tag = tag\<rparr>)))
      | _ \<Rightarrow> None)"

definition fpe_decrypt_batch_of_json :: "json \<Rightarrow> fpe_decrypt_batch_input option" where
  "fpe_decrypt_batch_of_json v =
     (case strict_struct [lit ''kid'', lit ''profile'', lit ''items''] [lit ''subject''] v of
        Some ([kid, profile, items], [subject]) \<Rightarrow>
          Option.bind (as_str kid) (\<lambda>kid. Option.bind (as_str profile) (\<lambda>profile.
          Option.bind (items_of_json fpe_decrypt_item_of_json items) (\<lambda>items. Option.bind (opt_str subject) (\<lambda>subject.
            Some \<lparr>fdb_kid = kid, fdb_profile = profile, fdb_subject = subject, fdb_items = items\<rparr>))))
      | _ \<Rightarrow> None)"

definition parse_encrypt_input :: "(json \<Rightarrow> ustr) \<Rightarrow> json \<Rightarrow> plain_input result" where
  "parse_encrypt_input serde_error req = parse_json_request serde_error plain_input_of_json req (lit ''fpe request'')"

definition parse_decrypt_input :: "(json \<Rightarrow> ustr) \<Rightarrow> json \<Rightarrow> fpe_decrypt_input result" where
  "parse_decrypt_input serde_error req = parse_json_request serde_error fpe_decrypt_of_json req (lit ''fpe request'')"

definition parse_encrypt_batch_input :: "(json \<Rightarrow> ustr) \<Rightarrow> json \<Rightarrow> plain_batch_input result" where
  "parse_encrypt_batch_input serde_error req =
     bindR (reject_oversized_value req INTERNAL_FPE_BATCH (lit ''fpe'')) (\<lambda>_.
       parse_json_request serde_error plain_batch_of_json req (lit ''fpe request''))"

definition parse_decrypt_batch_input :: "(json \<Rightarrow> ustr) \<Rightarrow> json \<Rightarrow> fpe_decrypt_batch_input result" where
  "parse_decrypt_batch_input serde_error req =
     bindR (reject_oversized_value req INTERNAL_FPE_BATCH (lit ''fpe'')) (\<lambda>_.
       parse_json_request serde_error fpe_decrypt_batch_of_json req (lit ''fpe request''))"

definition validate_encrypt_input :: "plain_input \<Rightarrow> plain_input result" where
  "validate_encrypt_input i = validate_plain_input i"

definition validate_opt_tag :: "ustr option \<Rightarrow> unit result" where
  "validate_opt_tag tag = (case tag of Some tag \<Rightarrow> validate_auth_tag tag | None \<Rightarrow> Inr ())"

definition validate_opt_subject :: "ustr option \<Rightarrow> unit result" where
  "validate_opt_subject subject = (case subject of Some subject \<Rightarrow> validate_subject subject | None \<Rightarrow> Inr ())"

definition validate_decrypt_input :: "fpe_decrypt_input \<Rightarrow> fpe_decrypt_input result" where
  "validate_decrypt_input i =
     (let item = fd_item i in
      bindR (validate_ref (fdi_ref item)) (\<lambda>ref_id.
      bindR (validate_key_id (fd_kid i)) (\<lambda>_.
      bindR (validate_aad_config_name (lit ''profile'') (fd_profile i)) (\<lambda>_.
      bindR (validate_text_field (lit ''ciphertext'') (fdi_ciphertext item)) (\<lambda>_.
      bindR (validate_opt_tag (fdi_tag item)) (\<lambda>_.
      bindR (validate_opt_subject (fd_subject i)) (\<lambda>_.
        Inr (i\<lparr>fd_item := item\<lparr>fdi_ref := ref_id\<rparr>\<rparr>))))))))"

definition validate_encrypt_batch_input :: "plain_batch_input \<Rightarrow> plain_batch_input result" where
  "validate_encrypt_batch_input i = validate_plain_batch INTERNAL_FPE_BATCH (lit ''fpe'') i"

definition validate_fpe_decrypt_item :: "fpe_decrypt_item \<Rightarrow> fpe_decrypt_item result" where
  "validate_fpe_decrypt_item item =
     bindR (validate_ref (fdi_ref item)) (\<lambda>ref_id.
     bindR (validate_text_field (lit ''ciphertext'') (fdi_ciphertext item)) (\<lambda>_.
     bindR (validate_opt_tag (fdi_tag item)) (\<lambda>_. Inr (item\<lparr>fdi_ref := ref_id\<rparr>))))"

definition validate_decrypt_batch_input :: "fpe_decrypt_batch_input \<Rightarrow> fpe_decrypt_batch_input result" where
  "validate_decrypt_batch_input i =
     bindR (validate_opt_subject (fdb_subject i)) (\<lambda>_.
     bindR (validate_key_id (fdb_kid i)) (\<lambda>_.
     bindR (validate_aad_config_name (lit ''profile'') (fdb_profile i)) (\<lambda>_.
     bindR (validate_len (length (fdb_items i)) INTERNAL_FPE_BATCH (lit ''fpe'')) (\<lambda>_.
     bindR (batch_map (\<lambda>_. validate_fpe_decrypt_item) 0 (fdb_items i)) (\<lambda>items.
     bindR (validate_unique_refs (map fdi_ref items) (lit ''fpe'')) (\<lambda>_.
       Inr (i\<lparr>fdb_items := items\<rparr>)))))))"

definition prepare_encrypt ::
    "keys_db_state \<Rightarrow> ustr \<Rightarrow> fpe_context \<Rightarrow> plain_input \<Rightarrow> (fpe_context, plain_input) prepared result" where
  "prepare_encrypt st kid ctx i =
     bindR (prepare_profile_use st kid (fp_kid (fc_profile ctx)) (lit ''fpe'') NewUse) (\<lambda>_.
     bindR (fc_validate_mode ctx (fc_subject ctx)) (\<lambda>_.
       Inr \<lparr>pr_kid = kid, pr_profile = ctx, pr_input = i\<rparr>))"

definition prepare_encrypt_batch ::
    "keys_db_state \<Rightarrow> ustr \<Rightarrow> fpe_context \<Rightarrow> plain_batch_input \<Rightarrow> (fpe_context, plain_batch_input) prepared result" where
  "prepare_encrypt_batch st kid ctx i =
     bindR (prepare_profile_use st kid (fp_kid (fc_profile ctx)) (lit ''fpe'') NewUse) (\<lambda>_.
     bindR (fc_validate_mode ctx (fc_subject ctx)) (\<lambda>_.
       Inr \<lparr>pr_kid = kid, pr_profile = ctx, pr_input = i\<rparr>))"

definition prepare_decrypt ::
    "keys_db_state \<Rightarrow> fpe_context \<Rightarrow> fpe_decrypt_input \<Rightarrow> (fpe_context, fpe_decrypt_input) prepared result" where
  "prepare_decrypt st ctx i =
     bindR (prepare_profile_use st (fd_kid i) (fp_kid (fc_profile ctx)) (lit ''fpe'') Verify) (\<lambda>_.
     bindR (fc_validate_mode ctx (fd_subject i)) (\<lambda>_.
     bindR (validate_tag_policy (fc_profile ctx) (fdi_tag (fd_item i))) (\<lambda>_.
       Inr \<lparr>pr_kid = fd_kid i, pr_profile = ctx, pr_input = i\<rparr>)))"

definition prepare_decrypt_batch ::
    "keys_db_state \<Rightarrow> fpe_context \<Rightarrow> fpe_decrypt_batch_input \<Rightarrow> (fpe_context, fpe_decrypt_batch_input) prepared result" where
  "prepare_decrypt_batch st ctx i =
     bindR (prepare_profile_use st (fdb_kid i) (fp_kid (fc_profile ctx)) (lit ''fpe'') Verify) (\<lambda>_.
     bindR (fc_validate_mode ctx (fdb_subject i)) (\<lambda>_.
     bindR (batch_map (\<lambda>_ item. validate_tag_policy (fc_profile ctx) (fdi_tag item)) 0 (fdb_items i)) (\<lambda>_.
       Inr \<lparr>pr_kid = fdb_kid i, pr_profile = ctx, pr_input = i\<rparr>)))"

definition encrypt_item :: "crates \<Rightarrow> fpe_crate \<Rightarrow> fpe_context \<Rightarrow> plain_item \<Rightarrow> fpe_encrypt_item_output result" where
  "encrypt_item C F ctx item =
     bindR (fc_encrypt F ctx (pi_plaintext item)) (\<lambda>ciphertext.
     bindR (fc_generate_tag C ctx ciphertext) (\<lambda>tag.
       Inr \<lparr>feo_ref = pi_ref item, feo_ciphertext = ciphertext, feo_tag = tag\<rparr>))"

definition encrypt :: "crates \<Rightarrow> fpe_crate \<Rightarrow> (fpe_context, plain_input) prepared \<Rightarrow> fpe_encrypt_output result" where
  "encrypt C F p =
     bindR (encrypt_item C F (pr_profile p) (pn_item (pr_input p))) (\<lambda>item.
       Inr \<lparr>fe_kid = pr_kid p, fe_profile = fp_name (fc_profile (pr_profile p)), fe_subject = fc_subject (pr_profile p),
            fe_item = item\<rparr>)"

definition decrypt :: "crates \<Rightarrow> fpe_crate \<Rightarrow> (fpe_context, fpe_decrypt_input) prepared \<Rightarrow> (ustr \<times> ustr) result" where
  "decrypt C F p =
     (let item = fd_item (pr_input p) in
      bindR (fc_verify_tag C (pr_profile p) (fdi_ciphertext item) (fdi_tag item)) (\<lambda>_.
      bindR (fc_decrypt F (pr_profile p) (fdi_ciphertext item)) (\<lambda>plaintext.
        Inr (fdi_ref item, plaintext))))"

definition encrypt_batch ::
    "crates \<Rightarrow> fpe_crate \<Rightarrow> (fpe_context, plain_batch_input) prepared \<Rightarrow> fpe_encrypt_batch_output result" where
  "encrypt_batch C F p =
     bindR (batch_map (\<lambda>_. encrypt_item C F (pr_profile p)) 0 (pb_items (pr_input p))) (\<lambda>items.
       Inr \<lparr>feb_kid = pr_kid p, feb_profile = fp_name (fc_profile (pr_profile p)), feb_subject = fc_subject (pr_profile p),
            feb_items = items\<rparr>)"

definition decrypt_batch ::
    "crates \<Rightarrow> fpe_crate \<Rightarrow> (fpe_context, fpe_decrypt_batch_input) prepared \<Rightarrow> fpe_decrypt_batch_output result" where
  "decrypt_batch C F p =
     bindR (batch_map (\<lambda>_ item. fc_verify_tag C (pr_profile p) (fdi_ciphertext item) (fdi_tag item)) 0
              (fdb_items (pr_input p))) (\<lambda>_.
     bindR (batch_map (\<lambda>_ item.
               bindR (fc_decrypt F (pr_profile p) (fdi_ciphertext item)) (\<lambda>plaintext. Inr (fdi_ref item, plaintext))) 0
              (fdb_items (pr_input p))) (\<lambda>items.
       Inr \<lparr>fdo_kid = pr_kid p, fdo_profile = fp_name (fc_profile (pr_profile p)), fdo_items = items\<rparr>))"

end
