(* ===== verification/Profile_Endpoints.thy ===== *)
theory Profile_Endpoints
  imports Token_Endpoints Fpe_Ops
begin

text \<open>
  \<open>src/io/http/mac.rs\<close>, \<open>masking.rs\<close>, \<open>commitments.rs\<close>, \<open>sharing.rs\<close>, \<open>fpe.rs\<close> and \<open>deterministic_tokenization.rs\<close>: the
  handlers of the profiles, from the API key of the request to the answer. They come in two forms, written once here:
  the key id is part of the path and the permission is checked first, or it is a field of the body, which is then
  read first.

  \<open>subject_origin\<close> and \<open>fpe_context\<close> are from \<open>src/io/http/subject.rs\<close>. The snapshot of the configuration is
  \<open>profile_env\<close>: that of the token service and the tables of the other profiles.
\<close>

section \<open>Environment\<close>

record profile_env =
  pv_http :: http_env
  pv_mac :: mac_profiles_state
  pv_masking :: masking_profiles_state
  pv_commitments :: commitment_profiles_state
  pv_sharing :: sharing_profiles_state
  pv_fpe :: fpe_profiles_state
  pv_deterministic :: deterministic_token_profiles_state

definition subject_origin ::
    "crates \<Rightarrow> http_env \<Rightarrow> ustr \<Rightarrow> ustr \<Rightarrow> (dyn_error, subject_row \<times> tokenization_profile) hop" where
  "subject_origin C env kid subject =
     bindS (on_storage (get_subject C (he_storage_env env) kid subject)) (\<lambda>row.
       liftS
         (bindR (seed_profile_hint C (sr_seed row)) (\<lambda>name.
          bindR (ok_or (internal (lit ''stored subject seed is invalid'')) (tokenization_get (he_tokenization env) name)) (\<lambda>origin.
            if tp_kid origin \<noteq> kid \<or> tp_subject_mode origin \<noteq> Stored
            then Inl (internal (lit ''stored subject seed is invalid''))
            else Inr (row, origin)))))"

definition fpe_context_for ::
    "crates \<Rightarrow> ciphers \<Rightarrow> fpe_crate \<Rightarrow> http_env \<Rightarrow> fpe_profile \<Rightarrow> ustr \<Rightarrow> ustr option \<Rightarrow> profile_use \<Rightarrow>
     (dyn_error, fpe_context) hop" where
  "fpe_context_for C E F env profile kid subject use_kind =
     bindS (liftS (validate_subject_mode profile subject)) (\<lambda>_.
     bindS (with_keys_db_state (\<lambda>st. prepare_profile_use st kid (fp_kid profile) (lit ''fpe'') use_kind)) (\<lambda>_.
       case subject of
         None \<Rightarrow> retS (fc_from_profile profile)
       | Some subject \<Rightarrow>
           bindS (subject_origin C env kid subject) (\<lambda>(row, origin).
             spawn_blocking_crypto env
               (fc_from_subject_envelope C E F profile origin (sr_subject row) (sr_seed row)))))"

section \<open>The two forms of a handler\<close>

text \<open>The events of a handler are its name with the outcome.\<close>

definition event_of :: "string \<Rightarrow> string \<Rightarrow> ustr" where
  "event_of name outcome = lit (name @ ''.'' @ outcome)"

definition path_endpoint ::
    "crates \<Rightarrow> ciphers \<Rightarrow> http_env \<Rightarrow> string \<Rightarrow> string \<Rightarrow> u8 list option \<Rightarrow> ustr \<Rightarrow> 'i result \<Rightarrow> ('i \<Rightarrow> 'p result) \<Rightarrow>
     ('p \<Rightarrow> 'i \<Rightarrow> (dyn_error, 'c) hop) \<Rightarrow> (keys_db_state \<Rightarrow> 'c \<Rightarrow> 'i \<Rightarrow> 'q result) \<Rightarrow> ('q \<Rightarrow> (dyn_error, 'o) hop) \<Rightarrow>
     (http_error, 'o) hop" where
  "path_endpoint C E env action name header kid parsed profile_of context prepare perform =
     bindS (authorize_api_key C env header) (\<lambda>client.
     let actor = Some (actor_from_client client); action = lit action; failed = event_of name ''failed'' in
     bindS (require_permission_for env client (Some kid) action (Some (event_of name ''denied''))) (\<lambda>_.
     bindS (crypto_failed_response env failed actor (Some kid) (Some action) (liftS (validate_key_id kid))) (\<lambda>_.
     bindS (crypto_failed_response env failed actor (Some kid) (Some action) (ensure_keys_db_entry C E env kid)) (\<lambda>_.
     bindS (crypto_failed_response env failed actor (Some kid) (Some action) (liftS parsed)) (\<lambda>i.
     bindS (crypto_failed_response env failed actor (Some kid) (Some action) (liftS (profile_of i))) (\<lambda>profile.
     bindS (crypto_failed_response env failed actor (Some kid) (Some action) (context profile i)) (\<lambda>ctx.
     bindS (crypto_failed_response env failed actor (Some kid) (Some action)
              (with_keys_db_state (\<lambda>st. prepare st ctx i))) (\<lambda>prepared.
     bindS (crypto_failed_response env failed actor (Some kid) (Some action) (perform prepared)) (\<lambda>output.
     bindS (record_event (operation_success env (event_of name ''success'') actor (Some kid) None (Some action))) (\<lambda>_.
       retS output))))))))))"

text \<open>\<open>anonymous\<close>: the event of a body that is rejected does not name the actor.\<close>

definition body_endpoint ::
    "crates \<Rightarrow> ciphers \<Rightarrow> http_env \<Rightarrow> string \<Rightarrow> string \<Rightarrow> bool \<Rightarrow> u8 list option \<Rightarrow> 'i result \<Rightarrow> ('i \<Rightarrow> ustr) \<Rightarrow>
     ('i \<Rightarrow> 'p result) \<Rightarrow> ('p \<Rightarrow> 'i \<Rightarrow> (dyn_error, 'c) hop) \<Rightarrow> (keys_db_state \<Rightarrow> 'c \<Rightarrow> 'i \<Rightarrow> 'q result) \<Rightarrow>
     ('q \<Rightarrow> (dyn_error, 'o) hop) \<Rightarrow> (http_error, 'o) hop" where
  "body_endpoint C E env action name anonymous header parsed kid_of profile_of context prepare perform =
     bindS (authorize_api_key C env header) (\<lambda>client.
     let actor = Some (actor_from_client client); action = lit action; failed = event_of name ''failed'' in
     bindS (crypto_failed_response env failed (if anonymous then None else actor) None (Some action) (liftS parsed)) (\<lambda>i.
     let kid = kid_of i in
     bindS (require_permission_for env client (Some kid) action (Some (event_of name ''denied''))) (\<lambda>_.
     bindS (crypto_failed_response env failed actor (Some kid) (Some action) (ensure_keys_db_entry C E env kid)) (\<lambda>_.
     bindS (crypto_failed_response env failed actor (Some kid) (Some action) (liftS (profile_of i))) (\<lambda>profile.
     bindS (crypto_failed_response env failed actor (Some kid) (Some action) (context profile i)) (\<lambda>ctx.
     bindS (crypto_failed_response env failed actor (Some kid) (Some action)
              (with_keys_db_state (\<lambda>st. prepare st ctx i))) (\<lambda>prepared.
     bindS (crypto_failed_response env failed actor (Some kid) (Some action) (perform prepared)) (\<lambda>output.
     bindS (record_event (operation_success env (event_of name ''success'') actor (Some kid) None (Some action))) (\<lambda>_.
       retS output)))))))))"

definition found_profile :: "string \<Rightarrow> 'p option \<Rightarrow> 'p result" where
  "found_profile message profile = ok_or (invalid_input (lit message)) profile"

section \<open>Authentication codes\<close>

definition mac_create_endpoint ::
    "crates \<Rightarrow> ciphers \<Rightarrow> profile_env \<Rightarrow> u8 list option \<Rightarrow> ustr \<Rightarrow> json \<Rightarrow> (http_error, mac_create_output) hop" where
  "mac_create_endpoint C E env header kid v =
     path_endpoint C E (pv_http env) ''mac-create'' ''mac.create'' header kid
       (bindR (mac_parse_create_input (he_serde_error (pv_http env)) v) mac_validate_create_input)
       (\<lambda>i. found_profile ''mac profile not found'' (mac_get (pv_mac env) (pn_profile i))) (\<lambda>profile _. retS profile)
       (\<lambda>st profile i. mac_prepare_create st kid profile i)
       (\<lambda>p. spawn_blocking_crypto (pv_http env) (mac_create C p))"

definition mac_create_batch_endpoint ::
    "crates \<Rightarrow> ciphers \<Rightarrow> profile_env \<Rightarrow> u8 list option \<Rightarrow> ustr \<Rightarrow> json \<Rightarrow> (http_error, mac_create_batch_output) hop" where
  "mac_create_batch_endpoint C E env header kid v =
     path_endpoint C E (pv_http env) ''mac-create'' ''mac.create.batch'' header kid
       (bindR (mac_parse_create_batch_input (he_serde_error (pv_http env)) v) mac_validate_create_batch_input)
       (\<lambda>i. found_profile ''mac profile not found'' (mac_get (pv_mac env) (pb_profile i))) (\<lambda>profile _. retS profile)
       (\<lambda>st profile i. mac_prepare_create_batch st kid profile i)
       (\<lambda>p. spawn_blocking_crypto (pv_http env) (mac_create_batch C p))"

definition mac_verify_endpoint ::
    "crates \<Rightarrow> ciphers \<Rightarrow> profile_env \<Rightarrow> u8 list option \<Rightarrow> json \<Rightarrow> (http_error, ustr \<times> bool) hop" where
  "mac_verify_endpoint C E env header v =
     body_endpoint C E (pv_http env) ''mac-verify'' ''mac.verify'' False header
       (bindR (mac_parse_verify_input (he_serde_error (pv_http env)) v) mac_validate_verify_input) mv_kid
       (\<lambda>i. found_profile ''mac profile not found'' (mac_get (pv_mac env) (mv_profile i))) (\<lambda>profile _. retS profile)
       mac_prepare_verify (\<lambda>p. spawn_blocking_crypto (pv_http env) (mac_verify C p))"

definition mac_verify_batch_endpoint ::
    "crates \<Rightarrow> ciphers \<Rightarrow> profile_env \<Rightarrow> u8 list option \<Rightarrow> json \<Rightarrow> (http_error, verify_batch_output) hop" where
  "mac_verify_batch_endpoint C E env header v =
     body_endpoint C E (pv_http env) ''mac-verify'' ''mac.verify.batch'' False header
       (bindR (mac_parse_verify_batch_input (he_serde_error (pv_http env)) v) mac_validate_verify_batch_input) mvb_kid
       (\<lambda>i. found_profile ''mac profile not found'' (mac_get (pv_mac env) (mvb_profile i))) (\<lambda>profile _. retS profile)
       mac_prepare_verify_batch (\<lambda>p. spawn_blocking_crypto (pv_http env) (mac_verify_batch C p))"

section \<open>Masking\<close>

definition mask_endpoint ::
    "crates \<Rightarrow> ciphers \<Rightarrow> profile_env \<Rightarrow> u8 list option \<Rightarrow> ustr \<Rightarrow> json \<Rightarrow> (http_error, mask_output) hop" where
  "mask_endpoint C E env header kid v =
     path_endpoint C E (pv_http env) ''mask'' ''mask'' header kid
       (bindR (parse_mask_input (he_serde_error (pv_http env)) v) validate_mask_input)
       (\<lambda>i. found_profile ''masking profile not found'' (masking_get (pv_masking env) (pn_profile i))) (\<lambda>profile _. retS profile)
       (\<lambda>st profile i. prepare_mask st kid profile i) (\<lambda>p. liftS (mask_one p))"

definition mask_batch_endpoint ::
    "crates \<Rightarrow> ciphers \<Rightarrow> profile_env \<Rightarrow> u8 list option \<Rightarrow> ustr \<Rightarrow> json \<Rightarrow> (http_error, mask_batch_output) hop" where
  "mask_batch_endpoint C E env header kid v =
     path_endpoint C E (pv_http env) ''mask'' ''mask.batch'' header kid
       (bindR (parse_mask_batch_input (he_serde_error (pv_http env)) v) validate_mask_batch_input)
       (\<lambda>i. found_profile ''masking profile not found'' (masking_get (pv_masking env) (pb_profile i))) (\<lambda>profile _. retS profile)
       (\<lambda>st profile i. prepare_mask_batch st kid profile i) (\<lambda>p. liftS (mask_batch p))"

section \<open>Commitments\<close>

definition commit_create_endpoint ::
    "crates \<Rightarrow> ciphers \<Rightarrow> profile_env \<Rightarrow> (nat \<Rightarrow> u8 list result) \<Rightarrow> u8 list option \<Rightarrow> ustr \<Rightarrow> json \<Rightarrow>
     (http_error, commit_create_output) hop" where
  "commit_create_endpoint C E env random_bytes header kid v =
     path_endpoint C E (pv_http env) ''commit-create'' ''commit.create'' header kid
       (bindR (commit_parse_create_input (he_serde_error (pv_http env)) v) commit_validate_create_input)
       (\<lambda>i. found_profile ''commitment profile not found'' (commitment_get (pv_commitments env) (pn_profile i))) (\<lambda>profile _. retS profile)
       (\<lambda>st profile i. commit_prepare_create st kid profile i)
       (\<lambda>p. spawn_blocking_crypto (pv_http env) (commit_create C random_bytes p))"

definition commit_create_batch_endpoint ::
    "crates \<Rightarrow> ciphers \<Rightarrow> profile_env \<Rightarrow> (nat \<Rightarrow> nat \<Rightarrow> u8 list result) \<Rightarrow> u8 list option \<Rightarrow> ustr \<Rightarrow> json \<Rightarrow>
     (http_error, commit_create_batch_output) hop" where
  "commit_create_batch_endpoint C E env random_bytes header kid v =
     path_endpoint C E (pv_http env) ''commit-create'' ''commit.create.batch'' header kid
       (bindR (commit_parse_create_batch_input (he_serde_error (pv_http env)) v) commit_validate_create_batch_input)
       (\<lambda>i. found_profile ''commitment profile not found'' (commitment_get (pv_commitments env) (pb_profile i))) (\<lambda>profile _. retS profile)
       (\<lambda>st profile i. commit_prepare_create_batch st kid profile i)
       (\<lambda>p. spawn_blocking_crypto (pv_http env) (commit_create_batch C random_bytes p))"

definition commit_verify_endpoint ::
    "crates \<Rightarrow> ciphers \<Rightarrow> profile_env \<Rightarrow> u8 list option \<Rightarrow> json \<Rightarrow> (http_error, commit_verify_output) hop" where
  "commit_verify_endpoint C E env header v =
     body_endpoint C E (pv_http env) ''commit-verify'' ''commit.verify'' False header
       (bindR (commit_parse_verify_input (he_serde_error (pv_http env)) v) commit_validate_verify_input) cv_kid
       (\<lambda>i. found_profile ''commitment profile not found'' (commitment_get (pv_commitments env) (cv_profile i)))
       (\<lambda>profile _. retS profile) (commit_prepare_verify C) (\<lambda>p. spawn_blocking_crypto (pv_http env) (commit_verify C p))"

definition commit_verify_batch_endpoint ::
    "crates \<Rightarrow> ciphers \<Rightarrow> profile_env \<Rightarrow> u8 list option \<Rightarrow> json \<Rightarrow> (http_error, verify_batch_output) hop" where
  "commit_verify_batch_endpoint C E env header v =
     body_endpoint C E (pv_http env) ''commit-verify'' ''commit.verify.batch'' False header
       (bindR (commit_parse_verify_batch_input (he_serde_error (pv_http env)) v) commit_validate_verify_batch_input) cvb_kid
       (\<lambda>i. found_profile ''commitment profile not found'' (commitment_get (pv_commitments env) (cvb_profile i)))
       (\<lambda>profile _. retS profile) (commit_prepare_verify_batch C)
       (\<lambda>p. spawn_blocking_crypto (pv_http env) (commit_verify_batch C p))"

section \<open>Sharing\<close>

definition share_split_endpoint ::
    "crates \<Rightarrow> ciphers \<Rightarrow> profile_env \<Rightarrow> (nat \<Rightarrow> u8 list result) \<Rightarrow> (nat \<Rightarrow> nat \<Rightarrow> u8 list result) \<Rightarrow> u8 list option \<Rightarrow>
     ustr \<Rightarrow> json \<Rightarrow> (http_error, share_split_output) hop" where
  "share_split_endpoint C E env random_bytes rng header kid v =
     path_endpoint C E (pv_http env) ''share-split'' ''shares.split'' header kid
       (bindR (parse_split_input (he_serde_error (pv_http env)) v) validate_split_input)
       (\<lambda>i. found_profile ''sharing profile not found'' (sharing_get (pv_sharing env) (ssi_profile i))) (\<lambda>profile _. retS profile)
       (\<lambda>st profile i. prepare_split st kid profile i)
       (\<lambda>p. spawn_blocking_crypto (pv_http env) (share_split C random_bytes rng p))"

definition share_combine_endpoint ::
    "crates \<Rightarrow> ciphers \<Rightarrow> profile_env \<Rightarrow> u8 list option \<Rightarrow> json \<Rightarrow> (http_error, share_combine_output) hop" where
  "share_combine_endpoint C E env header v =
     body_endpoint C E (pv_http env) ''share-combine'' ''shares.combine'' False header
       (bindR (parse_combine_input (he_serde_error (pv_http env)) v) validate_combine_input) sci_kid
       (\<lambda>i. found_profile ''sharing profile not found'' (sharing_get (pv_sharing env) (sci_profile i)))
       (\<lambda>profile _. retS profile) prepare_combine (\<lambda>p. spawn_blocking_crypto (pv_http env) (share_combine C p))"

section \<open>Format-preserving encryption\<close>

definition fpe_encrypt_endpoint ::
    "crates \<Rightarrow> ciphers \<Rightarrow> fpe_crate \<Rightarrow> profile_env \<Rightarrow> u8 list option \<Rightarrow> ustr \<Rightarrow> ustr option \<Rightarrow> json \<Rightarrow>
     (http_error, fpe_encrypt_output) hop" where
  "fpe_encrypt_endpoint C E F env header kid subject v =
     path_endpoint C E (pv_http env) ''fpe-encrypt'' ''fpe.encrypt'' header kid
       (bindR (parse_encrypt_input (he_serde_error (pv_http env)) v) validate_encrypt_input)
       (\<lambda>i. found_profile ''fpe profile not found'' (fpe_get (pv_fpe env) (pn_profile i)))
       (\<lambda>profile _. fpe_context_for C E F (pv_http env) profile kid subject NewUse)
       (\<lambda>st ctx i. prepare_encrypt st kid ctx i) (\<lambda>p. spawn_blocking_crypto (pv_http env) (encrypt C F p))"

definition fpe_encrypt_batch_endpoint ::
    "crates \<Rightarrow> ciphers \<Rightarrow> fpe_crate \<Rightarrow> profile_env \<Rightarrow> u8 list option \<Rightarrow> ustr \<Rightarrow> ustr option \<Rightarrow> json \<Rightarrow>
     (http_error, fpe_encrypt_batch_output) hop" where
  "fpe_encrypt_batch_endpoint C E F env header kid subject v =
     path_endpoint C E (pv_http env) ''fpe-encrypt'' ''fpe.encrypt.batch'' header kid
       (bindR (parse_encrypt_batch_input (he_serde_error (pv_http env)) v) validate_encrypt_batch_input)
       (\<lambda>i. found_profile ''fpe profile not found'' (fpe_get (pv_fpe env) (pb_profile i)))
       (\<lambda>profile _. fpe_context_for C E F (pv_http env) profile kid subject NewUse)
       (\<lambda>st ctx i. prepare_encrypt_batch st kid ctx i) (\<lambda>p. spawn_blocking_crypto (pv_http env) (encrypt_batch C F p))"

definition fpe_decrypt_endpoint ::
    "crates \<Rightarrow> ciphers \<Rightarrow> fpe_crate \<Rightarrow> profile_env \<Rightarrow> u8 list option \<Rightarrow> json \<Rightarrow> (http_error, ustr \<times> ustr) hop" where
  "fpe_decrypt_endpoint C E F env header v =
     body_endpoint C E (pv_http env) ''fpe-decrypt'' ''fpe.decrypt'' True header
       (bindR (parse_decrypt_input (he_serde_error (pv_http env)) v) validate_decrypt_input) fd_kid
       (\<lambda>i. found_profile ''fpe profile not found'' (fpe_get (pv_fpe env) (fd_profile i)))
       (\<lambda>profile i. fpe_context_for C E F (pv_http env) profile (fd_kid i) (fd_subject i) Verify)
       prepare_decrypt (\<lambda>p. spawn_blocking_crypto (pv_http env) (decrypt C F p))"

definition fpe_decrypt_batch_endpoint ::
    "crates \<Rightarrow> ciphers \<Rightarrow> fpe_crate \<Rightarrow> profile_env \<Rightarrow> u8 list option \<Rightarrow> json \<Rightarrow> (http_error, fpe_decrypt_batch_output) hop" where
  "fpe_decrypt_batch_endpoint C E F env header v =
     body_endpoint C E (pv_http env) ''fpe-decrypt'' ''fpe.decrypt.batch'' True header
       (bindR (parse_decrypt_batch_input (he_serde_error (pv_http env)) v) validate_decrypt_batch_input) fdb_kid
       (\<lambda>i. found_profile ''fpe profile not found'' (fpe_get (pv_fpe env) (fdb_profile i)))
       (\<lambda>profile i. fpe_context_for C E F (pv_http env) profile (fdb_kid i) (fdb_subject i) Verify)
       prepare_decrypt_batch (\<lambda>p. spawn_blocking_crypto (pv_http env) (decrypt_batch C F p))"

section \<open>Deterministic tokens\<close>

definition deterministic_action :: "bool \<Rightarrow> string" where
  "deterministic_action decoding = (if decoding then ''token-deterministic-decode'' else ''token-deterministic-encode'')"

definition deterministic_event :: "bool \<Rightarrow> bool \<Rightarrow> string" where
  "deterministic_event decoding batch =
     (if decoding then ''token.deterministic.decode'' else ''token.deterministic.encode'') @ (if batch then ''.batch'' else '''')"

definition deterministic_context_for ::
    "crates \<Rightarrow> ciphers \<Rightarrow> http_env \<Rightarrow> bool \<Rightarrow> deterministic_token_profile \<Rightarrow> deterministic_request \<Rightarrow>
     (dyn_error, deterministic_token_context) hop" where
  "deterministic_context_for C E env decoding profile i =
     bindS (with_keys_db_state (\<lambda>st.
              prepare_profile_use st (dr_kid i) (dp_kid profile) (lit ''deterministic token'') (use_of decoding))) (\<lambda>_.
     bindS (liftS (validate_deterministic_subject_mode profile (dr_subject i))) (\<lambda>_.
       case dr_subject i of
         Some subject \<Rightarrow>
           bindS (subject_origin C env (dr_kid i) subject) (\<lambda>(row, origin).
             spawn_blocking_crypto env (dc_from_subject_envelope C E profile origin (sr_subject row) (sr_seed row)))
       | None \<Rightarrow> spawn_blocking_crypto env (dc_new C profile)))"

text \<open>\<open>run\<close>: \<open>path\<close> is the key id and the subject of an encoding request. The profile is looked up before the key is
  loaded.\<close>

definition deterministic_run ::
    "crates \<Rightarrow> ciphers \<Rightarrow> profile_env \<Rightarrow> u8 list option \<Rightarrow> json \<Rightarrow> (ustr \<times> ustr option) option \<Rightarrow> bool \<Rightarrow>
     (http_error, deterministic_output) hop" where
  "deterministic_run C E env header v path batch =
     (let henv = pv_http env; decoding = (path = None) in
      bindS (authorize_api_key C henv header) (\<lambda>client.
      let actor = Some (actor_from_client client); action = lit (deterministic_action decoding);
          name = deterministic_event decoding batch; failed = event_of name ''failed'' in
      bindS (crypto_failed_response henv failed actor None (Some action)
               (liftS (parse_deterministic_request C (he_serde_error henv) v path batch))) (\<lambda>i.
      let kid = dr_kid i in
      bindS (require_permission_for henv client (Some kid) action (Some (event_of name ''denied''))) (\<lambda>_.
      bindS (crypto_failed_response henv failed actor (Some kid) (Some action)
               (liftS (found_profile ''deterministic token profile not found''
                         (deterministic_get (pv_deterministic env) (dr_profile i))))) (\<lambda>profile.
      bindS (crypto_failed_response henv failed actor (Some kid) (Some action) (ensure_keys_db_entry C E henv kid)) (\<lambda>_.
      bindS (crypto_failed_response henv failed actor (Some kid) (Some action)
               (deterministic_context_for C E henv decoding profile i)) (\<lambda>ctx.
      bindS (crypto_failed_response henv failed actor (Some kid) (Some action)
               (with_keys_db_state (\<lambda>st. deterministic_prepare st i ctx))) (\<lambda>prepared.
      bindS (crypto_failed_response henv failed actor (Some kid) (Some action)
               (spawn_blocking_crypto henv (deterministic_execute C E prepared))) (\<lambda>output.
      bindS (record_event (operation_success henv (event_of name ''success'') actor (Some kid) None (Some action))) (\<lambda>_.
        retS output))))))))))"

section \<open>The service\<close>

datatype profile_request =
    MacCreate ustr json
  | MacCreateBatch ustr json
  | MacVerify json
  | MacVerifyBatch json
  | Mask ustr json
  | MaskBatch ustr json
  | CommitCreate ustr json
  | CommitCreateBatch ustr json
  | CommitVerify json
  | CommitVerifyBatch json
  | ShareSplit ustr json
  | ShareCombine json
  | FpeEncrypt ustr "ustr option" json
  | FpeEncryptBatch ustr "ustr option" json
  | FpeDecrypt json
  | FpeDecryptBatch json
  | DeterministicEncode ustr "ustr option" json
  | DeterministicEncodeBatch ustr "ustr option" json
  | DeterministicDecode json
  | DeterministicDecodeBatch json

datatype profile_answer =
    MacCreated mac_create_output
  | MacBatchCreated mac_create_batch_output
  | MacVerified "ustr \<times> bool"
  | BatchVerified verify_batch_output
  | Masked mask_output
  | BatchMasked mask_batch_output
  | CommitCreated commit_create_output
  | CommitBatchCreated commit_create_batch_output
  | CommitVerified commit_verify_output
  | ShareSplitted share_split_output
  | ShareCombined share_combine_output
  | FpeEncrypted fpe_encrypt_output
  | FpeBatchEncrypted fpe_encrypt_batch_output
  | FpeDecrypted "ustr \<times> ustr"
  | FpeBatchDecrypted fpe_decrypt_batch_output
  | DeterministicAnswer deterministic_output

fun profile_action :: "profile_request \<Rightarrow> ustr" where
  "profile_action (MacCreate _ _) = lit ''mac-create''"
| "profile_action (MacCreateBatch _ _) = lit ''mac-create''"
| "profile_action (MacVerify _) = lit ''mac-verify''"
| "profile_action (MacVerifyBatch _) = lit ''mac-verify''"
| "profile_action (Mask _ _) = lit ''mask''"
| "profile_action (MaskBatch _ _) = lit ''mask''"
| "profile_action (CommitCreate _ _) = lit ''commit-create''"
| "profile_action (CommitCreateBatch _ _) = lit ''commit-create''"
| "profile_action (CommitVerify _) = lit ''commit-verify''"
| "profile_action (CommitVerifyBatch _) = lit ''commit-verify''"
| "profile_action (ShareSplit _ _) = lit ''share-split''"
| "profile_action (ShareCombine _) = lit ''share-combine''"
| "profile_action (FpeEncrypt _ _ _) = lit ''fpe-encrypt''"
| "profile_action (FpeEncryptBatch _ _ _) = lit ''fpe-encrypt''"
| "profile_action (FpeDecrypt _) = lit ''fpe-decrypt''"
| "profile_action (FpeDecryptBatch _) = lit ''fpe-decrypt''"
| "profile_action (DeterministicEncode _ _ _) = lit ''token-deterministic-encode''"
| "profile_action (DeterministicEncodeBatch _ _ _) = lit ''token-deterministic-encode''"
| "profile_action (DeterministicDecode _) = lit ''token-deterministic-decode''"
| "profile_action (DeterministicDecodeBatch _) = lit ''token-deterministic-decode''"

text \<open>\<open>random_bytes\<close> and \<open>rng\<close> are the random bytes the request reads.\<close>

definition handle_profile ::
    "crates \<Rightarrow> ciphers \<Rightarrow> fpe_crate \<Rightarrow> profile_env \<Rightarrow> (nat \<Rightarrow> nat \<Rightarrow> u8 list result) \<Rightarrow> (nat \<Rightarrow> nat \<Rightarrow> u8 list result) \<Rightarrow>
     u8 list option \<Rightarrow> profile_request \<Rightarrow> (http_error, profile_answer) hop" where
  "handle_profile C E F env random_bytes rng header r =
     (case r of
        MacCreate kid v \<Rightarrow> bindS (mac_create_endpoint C E env header kid v) (\<lambda>x. retS (MacCreated x))
      | MacCreateBatch kid v \<Rightarrow> bindS (mac_create_batch_endpoint C E env header kid v) (\<lambda>x. retS (MacBatchCreated x))
      | MacVerify v \<Rightarrow> bindS (mac_verify_endpoint C E env header v) (\<lambda>x. retS (MacVerified x))
      | MacVerifyBatch v \<Rightarrow> bindS (mac_verify_batch_endpoint C E env header v) (\<lambda>x. retS (BatchVerified x))
      | Mask kid v \<Rightarrow> bindS (mask_endpoint C E env header kid v) (\<lambda>x. retS (Masked x))
      | MaskBatch kid v \<Rightarrow> bindS (mask_batch_endpoint C E env header kid v) (\<lambda>x. retS (BatchMasked x))
      | CommitCreate kid v \<Rightarrow>
          bindS (commit_create_endpoint C E env (random_bytes 0) header kid v) (\<lambda>x. retS (CommitCreated x))
      | CommitCreateBatch kid v \<Rightarrow>
          bindS (commit_create_batch_endpoint C E env random_bytes header kid v) (\<lambda>x. retS (CommitBatchCreated x))
      | CommitVerify v \<Rightarrow> bindS (commit_verify_endpoint C E env header v) (\<lambda>x. retS (CommitVerified x))
      | CommitVerifyBatch v \<Rightarrow> bindS (commit_verify_batch_endpoint C E env header v) (\<lambda>x. retS (BatchVerified x))
      | ShareSplit kid v \<Rightarrow>
          bindS (share_split_endpoint C E env (random_bytes 0) rng header kid v) (\<lambda>x. retS (ShareSplitted x))
      | ShareCombine v \<Rightarrow> bindS (share_combine_endpoint C E env header v) (\<lambda>x. retS (ShareCombined x))
      | FpeEncrypt kid subject v \<Rightarrow> bindS (fpe_encrypt_endpoint C E F env header kid subject v) (\<lambda>x. retS (FpeEncrypted x))
      | FpeEncryptBatch kid subject v \<Rightarrow>
          bindS (fpe_encrypt_batch_endpoint C E F env header kid subject v) (\<lambda>x. retS (FpeBatchEncrypted x))
      | FpeDecrypt v \<Rightarrow> bindS (fpe_decrypt_endpoint C E F env header v) (\<lambda>x. retS (FpeDecrypted x))
      | FpeDecryptBatch v \<Rightarrow> bindS (fpe_decrypt_batch_endpoint C E F env header v) (\<lambda>x. retS (FpeBatchDecrypted x))
      | DeterministicEncode kid subject v \<Rightarrow>
          bindS (deterministic_run C E env header v (Some (kid, subject)) False) (\<lambda>x. retS (DeterministicAnswer x))
      | DeterministicEncodeBatch kid subject v \<Rightarrow>
          bindS (deterministic_run C E env header v (Some (kid, subject)) True) (\<lambda>x. retS (DeterministicAnswer x))
      | DeterministicDecode v \<Rightarrow> bindS (deterministic_run C E env header v None False) (\<lambda>x. retS (DeterministicAnswer x))
      | DeterministicDecodeBatch v \<Rightarrow>
          bindS (deterministic_run C E env header v None True) (\<lambda>x. retS (DeterministicAnswer x)))"

end
