(* ===== verification/Profile_Service.thy ===== *)
theory Profile_Service
  imports Service_Guarantees Profile_Endpoints
begin

text \<open>
  Reasoning about the handlers of the profiles. The two forms of a handler are given a step that builds the context
  of a profile and one that performs the request; \<open>silent_steps\<close> says that neither writes an audit event, and
  \<open>handler_steps\<close> that neither changes a table either. The audit, permission and error guarantees of both forms are
  proved from them once.
\<close>

section \<open>Steps that leave the tables alone\<close>

definition frozen :: "('e, 'a) hop \<Rightarrow> bool" where
  "frozen m \<longleftrightarrow> (\<forall>s s' r. m s = (s', r) \<longrightarrow> sd_db (hs_storage s') = sd_db (hs_storage s))"

lemma frozen_quiet: "quiet m \<Longrightarrow> frozen m"
  by (auto simp: frozen_def quiet_def untouched_def)

lemma frozen_scoped: "frozen m \<Longrightarrow> scoped kid m"
  by (simp add: frozen_def scoped_on_def)

lemma frozen_intros:
  "frozen (retS x)" "frozen (liftS r)" "frozen (with_keys_db_state f)" "frozen (record_event e)"
  "frozen (authorize_api_key C env header)" "frozen (require_permission_for env client kid required denied)"
  "frozen (spawn_blocking_crypto env g)"
  by ((rule frozen_quiet, rule quiet_intros)+)
    (auto simp: frozen_def spawn_blocking_crypto_def Let_def split: option.splits)

lemma frozen_bind: "frozen m \<Longrightarrow> (\<And>x. frozen (f x)) \<Longrightarrow> frozen (bindS m f)"
  unfolding frozen_def bindS_def by (fastforce split: prod.splits sum.splits)

lemma frozen_if: "frozen m \<Longrightarrow> frozen n \<Longrightarrow> frozen (if b then m else n)"
  by simp

lemma frozen_failed: "frozen m \<Longrightarrow> frozen (crypto_failed_response env event actor kid action m)"
  unfolding frozen_def crypto_failed_response_def by (fastforce split: prod.splits sum.splits)

lemma frozen_reads: "reads m \<Longrightarrow> frozen (on_storage m)"
  by (auto simp: frozen_def on_storage_def dest: readsD split: prod.splits)

lemma frozen_ensure_keys: "frozen (ensure_keys_db_entry C E env kid)"
  unfolding ensure_keys_db_entry_def
  by (intro frozen_bind frozen_if frozen_intros frozen_reads reads_load_entry)
    (auto simp: frozen_def split: sum.splits prod.splits)

lemma subject_origin_steps: "frozen (subject_origin C env kid subject)" "silent (subject_origin C env kid subject)"
  unfolding subject_origin_def
  by (intro frozen_bind frozen_intros frozen_reads reads_operations) (intro handler_intros)

text \<open>What a handler may change, from what its last step may change: the steps before leave the tables alone, and
  \<open>perform\<close> is only given what \<open>prepare\<close> returns.\<close>

lemma frozen_scoped_on: "(\<And>db. R kid db db) \<Longrightarrow> frozen m \<Longrightarrow> scoped_on R kid m"
  by (simp add: frozen_def scoped_on_def)

lemma scoped_on_bind:
  assumes "\<And>db. R kid db db" "\<And>a b c. R kid a b \<Longrightarrow> R kid b c \<Longrightarrow> R kid a c" "frozen m" "\<And>x. scoped_on R kid (f x)"
  shows "scoped_on R kid (bindS m f)"
  using assms(2) frozen_scoped_on [of R kid, OF assms(1,3)]
  by (rule scoped_on_bind_returns [where P = "\<lambda>_. True"]) (simp_all add: returns_def assms(4))

lemma scoped_on_performed:
  assumes R: "\<And>db. R kid db db" "\<And>a b c. R kid a b \<Longrightarrow> R kid b c \<Longrightarrow> R kid a c"
    and perform: "\<And>st q. prepare st = Inr q \<Longrightarrow> scoped_on R kid (perform q)"
  shows "scoped_on R kid
    (bindS (crypto_failed_response env event actor k action (with_keys_db_state prepare)) (\<lambda>prepared.
     bindS (crypto_failed_response env event actor k action (perform prepared)) (\<lambda>output.
     bindS (record_event e) (\<lambda>_. retS output))))"
proof (rule scoped_on_bind_returns [where R = R and kid = kid and P = "\<lambda>q. \<exists>st. prepare st = Inr q"], rule R(2), assumption+)
  show "scoped_on R kid (crypto_failed_response env event actor k action (with_keys_db_state prepare))"
    by (intro frozen_scoped_on R(1) frozen_failed frozen_intros)
  show "returns (crypto_failed_response env event actor k action (with_keys_db_state prepare)) (\<lambda>q. \<exists>st. prepare st = Inr q)"
    by (intro returns_intros) blast
  have rest: "scoped_on R kid (bindS (record_event e) (\<lambda>_. retS x))" for x
    by (intro frozen_scoped_on R(1) frozen_bind frozen_intros)
  fix q assume "\<exists>st. prepare st = Inr q"
  then have "scoped_on R kid (crypto_failed_response env event actor k action (perform q))"
    using perform unfolding scoped_on_def crypto_failed_response_def by (fastforce split: prod.splits sum.splits)
  then show "scoped_on R kid (bindS (crypto_failed_response env event actor k action (perform q)) (\<lambda>output.
      bindS (record_event e) (\<lambda>_. retS output)))"
    using R(2) rest by (rule_tac scoped_on_bind_returns [where R = R and kid = kid and P = "\<lambda>_. True"]) (auto simp: returns_def)
qed

lemma path_granted_on:
  assumes R: "\<And>db. R kid db db" "\<And>a b c. R kid a b \<Longrightarrow> R kid b c \<Longrightarrow> R kid a c"
    and build: "\<And>p i. frozen (build p i)"
    and perform: "\<And>st ctx i q. prepare st ctx i = Inr q \<Longrightarrow> scoped_on R kid (perform q)"
  shows "granted_on R (\<lambda>kid. \<exists>client. authenticates C env header client \<and>
      require_permission (he_permissions env) client (Some kid) (lit action) = Inr ())
    (path_endpoint C E env action name header kid parsed profile_of build prepare perform)"
proof -
  note bind = scoped_on_bind [of R kid, OF R] and last_ = scoped_on_performed [of R kid, OF R perform]
  show ?thesis
    unfolding path_endpoint_def Let_def
    by (rule granted_authorize, rule granted_permission, blast)
      (rule last_ bind frozen_failed frozen_intros frozen_ensure_keys build | assumption)+
qed

lemma body_granted_on:
  assumes R: "\<And>kid db. R kid db db" "\<And>kid a b c. R kid a b \<Longrightarrow> R kid b c \<Longrightarrow> R kid a c"
    and build: "\<And>p i. frozen (build p i)"
    and perform: "\<And>st ctx i q. prepare st ctx i = Inr q \<Longrightarrow> scoped_on R (kid_of i) (perform q)"
  shows "granted_on R (\<lambda>kid. \<exists>client. authenticates C env header client \<and>
      require_permission (he_permissions env) client (Some kid) (lit action) = Inr ())
    (body_endpoint C E env action name anonymous header parsed kid_of profile_of build prepare perform)"
proof -
  note bind = scoped_on_bind [of R "kid_of i" for i, OF R] and last_ = scoped_on_performed [of R "kid_of i" for i, OF R perform]
  show ?thesis
    unfolding body_endpoint_def Let_def
    by (rule granted_authorize, rule granted_bind, (rule handler_intros)+, rule granted_permission, blast)
      (rule last_ bind frozen_failed frozen_intros frozen_ensure_keys build | assumption)+
qed

section \<open>The interface of a handler\<close>

locale silent_steps =
  fixes build :: "'p \<Rightarrow> 'i \<Rightarrow> (dyn_error, 'c) hop"
    and perform :: "'q \<Rightarrow> (dyn_error, 'o) hop"
  assumes silent_steps: "silent (build p i)" "silent (perform q)"
begin

lemma path_audited: "audited (path_endpoint C E env action name header kid parsed profile_of build prepare perform)"
  unfolding path_endpoint_def Let_def
  by (rule audited_intros handler_intros silent_steps)+

lemma body_audited:
  "audited (body_endpoint C E env action name anonymous header parsed kid_of profile_of build prepare perform)"
  unfolding body_endpoint_def Let_def
  by (rule audited_intros handler_intros silent_steps)+

end

text \<open>Handlers that change no table.\<close>

locale handler_steps = silent_steps build perform
  for build :: "'p \<Rightarrow> 'i \<Rightarrow> (dyn_error, 'c) hop" and perform :: "'q \<Rightarrow> (dyn_error, 'o) hop" +
  assumes frozen_steps: "frozen (build p i)" "frozen (perform q)"
begin

lemma path_frozen: "frozen (path_endpoint C E env action name header kid parsed profile_of build prepare perform)"
  unfolding path_endpoint_def Let_def
  by (intro frozen_bind frozen_failed frozen_intros frozen_ensure_keys frozen_steps)

lemma body_frozen:
  "frozen (body_endpoint C E env action name anonymous header parsed kid_of profile_of build prepare perform)"
  unfolding body_endpoint_def Let_def
  by (intro frozen_bind frozen_failed frozen_intros frozen_ensure_keys frozen_steps)

lemma path_granted:
  "granted (\<lambda>kid. \<exists>client. authenticates C env header client \<and>
      require_permission (he_permissions env) client (Some kid) (lit action) = Inr ())
    (path_endpoint C E env action name header kid parsed profile_of build prepare perform)"
  using only_kid_refl only_kid_trans frozen_steps(1) frozen_scoped [OF frozen_steps(2)] by (rule path_granted_on)

lemma body_granted:
  "granted (\<lambda>kid. \<exists>client. authenticates C env header client \<and>
      require_permission (he_permissions env) client (Some kid) (lit action) = Inr ())
    (body_endpoint C E env action name anonymous header parsed kid_of profile_of build prepare perform)"
  using only_kid_refl only_kid_trans frozen_steps(1) frozen_scoped [OF frozen_steps(2)] by (rule body_granted_on)

end

lemma path_discreet: "discreet (path_endpoint C E env action name header kid parsed profile_of build prepare perform)"
  unfolding path_endpoint_def Let_def by (rule discreet_intros discreet_bind)+

lemma body_discreet:
  "discreet (body_endpoint C E env action name anonymous header parsed kid_of profile_of build prepare perform)"
  unfolding body_endpoint_def Let_def by (rule discreet_intros discreet_bind)+

text \<open>The handlers whose profile is its own context, with the work in a blocking task or not, and those of
  format-preserving encryption.\<close>

interpretation spawned: handler_steps "\<lambda>p i. retS p" "\<lambda>q. spawn_blocking_crypto env (f q)" for env f
  by unfold_locales (rule handler_intros frozen_intros)+

interpretation inline: handler_steps "\<lambda>p i. retS p" "\<lambda>q. liftS (f q)" for f
  by unfold_locales (rule handler_intros frozen_intros)+

lemma fpe_context_steps:
  "silent (fpe_context_for C E F env profile kid subject use_kind)"
  "frozen (fpe_context_for C E F env profile kid subject use_kind)"
  unfolding fpe_context_for_def
  by (cases subject; auto intro!: handler_intros subject_origin_steps split: prod.splits)
    (cases subject; auto intro!: frozen_bind frozen_intros subject_origin_steps split: prod.splits)

interpretation fpe_handlers: handler_steps
    "\<lambda>p i. fpe_context_for C E F env p (kid_of i) (subject_of i) use_kind" "\<lambda>q. spawn_blocking_crypto env (f q)"
  for C E F env kid_of subject_of use_kind f
  by unfold_locales (rule fpe_context_steps handler_intros frozen_intros)+

section \<open>Deterministic tokens\<close>

lemma deterministic_context_steps:
  "silent (deterministic_context_for C E env decoding profile i)"
  "frozen (deterministic_context_for C E env decoding profile i)"
  unfolding deterministic_context_for_def
  by (cases "dr_subject i"; auto intro!: handler_intros subject_origin_steps split: prod.splits)
    (cases "dr_subject i"; auto intro!: frozen_bind frozen_intros subject_origin_steps split: prod.splits)

lemma deterministic_run_steps:
  "audited (deterministic_run C E env header v path batch)"
  "frozen (deterministic_run C E env header v path batch)"
  "discreet (deterministic_run C E env header v path batch)"
  "granted (\<lambda>kid. \<exists>client. authenticates C (pv_http env) header client \<and>
      require_permission (he_permissions (pv_http env)) client (Some kid) (lit (deterministic_action (path = None))) = Inr ())
    (deterministic_run C E env header v path batch)"
proof -
  show "audited (deterministic_run C E env header v path batch)"
    unfolding deterministic_run_def Let_def by (rule audited_intros handler_intros deterministic_context_steps)+
  show "frozen (deterministic_run C E env header v path batch)"
    unfolding deterministic_run_def Let_def
    by (intro frozen_bind frozen_failed frozen_intros frozen_ensure_keys deterministic_context_steps)
  show "discreet (deterministic_run C E env header v path batch)"
    unfolding deterministic_run_def Let_def by (rule discreet_intros discreet_bind)+
  show "granted (\<lambda>kid. \<exists>client. authenticates C (pv_http env) header client \<and>
      require_permission (he_permissions (pv_http env)) client (Some kid) (lit (deterministic_action (path = None))) = Inr ())
    (deterministic_run C E env header v path batch)"
    unfolding deterministic_run_def Let_def
    by (rule granted_authorize, rule granted_bind, (rule handler_intros)+, rule granted_permission, blast)
      (intro frozen_scoped frozen_bind frozen_failed frozen_intros frozen_ensure_keys deterministic_context_steps)
qed

section \<open>All requests\<close>

lemmas profile_endpoint_defs = mac_create_endpoint_def mac_create_batch_endpoint_def mac_verify_endpoint_def
  mac_verify_batch_endpoint_def mask_endpoint_def mask_batch_endpoint_def commit_create_endpoint_def
  commit_create_batch_endpoint_def commit_verify_endpoint_def commit_verify_batch_endpoint_def
  share_split_endpoint_def share_combine_endpoint_def fpe_encrypt_endpoint_def fpe_encrypt_batch_endpoint_def
  fpe_decrypt_endpoint_def fpe_decrypt_batch_endpoint_def

lemmas handler_audited = spawned.path_audited spawned.body_audited inline.path_audited
  fpe_handlers.path_audited fpe_handlers.body_audited deterministic_run_steps(1)

lemmas handler_frozen = spawned.path_frozen spawned.body_frozen inline.path_frozen
  fpe_handlers.path_frozen fpe_handlers.body_frozen deterministic_run_steps(2)

lemmas handler_granted = spawned.path_granted spawned.body_granted inline.path_granted
  fpe_handlers.path_granted fpe_handlers.body_granted

lemma handle_profile_audited: "audited (handle_profile C E F env random_bytes rng header r)"
  unfolding handle_profile_def answering_def [symmetric]
  by (cases r) (simp_all only: profile_request.case profile_endpoint_defs, (rule audited_answering, rule handler_audited)+)

lemma handle_profile_frozen: "frozen (handle_profile C E F env random_bytes rng header r)"
  unfolding handle_profile_def
  by (cases r) (simp_all only: profile_request.case profile_endpoint_defs,
    (rule frozen_bind, rule handler_frozen, rule frozen_intros)+)

lemma handle_profile_discreet: "discreet (handle_profile C E F env random_bytes rng header r)"
  unfolding handle_profile_def
  by (cases r) (simp_all only: profile_request.case profile_endpoint_defs,
    (rule discreet_bind, rule path_discreet body_discreet deterministic_run_steps(3), rule discreet_intros)+)

lemma handle_profile_granted:
  "granted (\<lambda>kid. \<exists>client. authenticates C (pv_http env) header client \<and>
      require_permission (he_permissions (pv_http env)) client (Some kid) (profile_action r) = Inr ())
    (handle_profile C E F env random_bytes rng header r)"
  unfolding handle_profile_def answering_def [symmetric]
  by (cases r) (simp_all only: profile_request.case profile_endpoint_defs profile_action.simps,
    (rule granted_answering, (rule handler_granted |
      rule deterministic_run_steps(4) [where path = "Some x" for x, unfolded deterministic_action_def, simplified]
        deterministic_run_steps(4) [where path = None, unfolded deterministic_action_def, simplified]))+)

end
