(* ===== verification/Wire_Sizes.thy ===== *)
theory Wire_Sizes
  imports Vault_Example
begin

text \<open>
  How long encoded values are: what the base64 and JSON encoders and the key derivation promise of the size of
  their results, and an instance with the URL-safe base64 of RFC 4648. The limits the code puts on tokens and
  shares are checked against these sizes.
\<close>

section \<open>Sizes of encodings\<close>

text \<open>Base64 without padding has four characters for three bytes, and a derived key has the length asked for.\<close>

definition url_size_ok :: "crates \<Rightarrow> bool" where
  "url_size_ok C \<longleftrightarrow> (\<forall>bs. length (url_encode C bs) = (4 * length bs + 2) div 3)"

definition hkdf_size_ok :: "crates \<Rightarrow> bool" where
  "hkdf_size_ok C \<longleftrightarrow> (\<forall>ikm salt info n key. create_hkdf C ikm salt info n = Inr key \<longrightarrow> length key = n)"

text \<open>A JSON string is written in quotes, a control character with at most six bytes, the quote and the backslash
  with two and any other character as it is; a number of 64 bits has at most twenty digits. The fields of an object
  are separated by commas.\<close>

definition json_char_size :: "uchar \<Rightarrow> nat" where
  "json_char_size c = (if c < 32 then 6 else if c = 34 \<or> c = 92 then 2 else length (utf8_char c))"

definition json_text :: "ustr \<Rightarrow> nat" where
  "json_text s = 2 + sum_list (map json_char_size s)"

fun json_scalar_size :: "json \<Rightarrow> nat" where
  "json_scalar_size (JString s) = json_text s"
| "json_scalar_size (JBool b) = 5"
| "json_scalar_size _ = 20"

fun json_size :: "json \<Rightarrow> nat" where
  "json_size (JObject fs) = 2 + sum_list (map (\<lambda>(k, v). json_text k + json_scalar_size v + 2) fs)"
| "json_size v = json_scalar_size v"

definition json_size_ok :: "crates \<Rightarrow> bool" where
  "json_size_ok C \<longleftrightarrow> (\<forall>v. flat_json v \<longrightarrow> json_to_vec C v \<noteq> [] \<and> length (json_to_vec C v) \<le> json_size v)"

lemma json_size_okD: "json_size_ok C \<Longrightarrow> flat_json v \<Longrightarrow> json_to_vec C v \<noteq> [] \<and> length (json_to_vec C v) \<le> json_size v"
  by (simp add: json_size_ok_def)

lemma json_text_size: "length s \<le> n \<Longrightarrow> json_text s \<le> 6 * n + 2"
proof -
  have "json_char_size c \<le> 6" for c using length_utf8_char(2) [of c] by (simp add: json_char_size_def)
  then have "sum_list (map json_char_size s) \<le> 6 * length s" by (induction s) (auto intro: add_mono order_trans)
  then show "length s \<le> n \<Longrightarrow> ?thesis" by (simp add: json_text_def)
qed

lemma json_text_lit: "length s \<le> 20 \<Longrightarrow> json_text (lit s) \<le> 122"
  using json_text_size [of "lit s" 20] by (simp add: lit_def)

text \<open>Texts without control characters need no more than four bytes for a character, and texts of letters, digits,
  dashes and underscores one.\<close>

lemma json_text_printable:
  assumes "\<And>c. c \<in> set s \<Longrightarrow> \<not> is_control c" "length s \<le> n"
  shows "json_text s \<le> 4 * n + 2"
proof -
  have "json_char_size c \<le> 4" if "\<not> is_control c" for c
    using that length_utf8_char(2) [of c] by (auto simp: json_char_size_def char_simps)
  then have "sum_list (map json_char_size s) \<le> 4 * length s" using assms(1) by (induction s) (auto intro: add_mono order_trans)
  then show ?thesis using assms(2) by (simp add: json_text_def)
qed

lemma json_text_url:
  assumes "list_all (\<lambda>c. is_ascii_alphanumeric c \<or> c = 45 \<or> c = 95) s"
  shows "json_text s = 2 + length s"
  using assms by (induction s) (auto simp: json_text_def json_char_size_def utf8_char_def char_simps)

section \<open>URL-safe base64\<close>

definition url_char :: "nat \<Rightarrow> uchar" where
  "url_char n = (if n < 26 then 65 + n else if n < 52 then 71 + n else if n < 62 then n - 4 else if n = 62 then 45 else 95)"

definition url_sextet :: "uchar \<Rightarrow> nat" where
  "url_sextet c = (if c = 45 then 62 else if c = 95 then 63 else if c < 58 then c + 4 else if c < 91 then c - 65 else c - 71)"

fun url_text :: "u8 list \<Rightarrow> ustr" where
  "url_text [] = []"
| "url_text [a] = [url_char (unat a div 4), url_char (unat a mod 4 * 16)]"
| "url_text [a, b] = [url_char (unat a div 4), url_char (unat a mod 4 * 16 + unat b div 16), url_char (unat b mod 16 * 4)]"
| "url_text (a # b # c # bs) =
     url_char (unat a div 4) # url_char (unat a mod 4 * 16 + unat b div 16) #
     url_char (unat b mod 16 * 4 + unat c div 64) # url_char (unat c mod 64) # url_text bs"

fun url_bytes :: "ustr \<Rightarrow> u8 list" where
  "url_bytes (w # x # y # z # s) =
     word_of_nat (url_sextet w * 4 + url_sextet x div 16) # word_of_nat (url_sextet x mod 16 * 16 + url_sextet y div 4) #
     word_of_nat (url_sextet y mod 4 * 64 + url_sextet z) # url_bytes s"
| "url_bytes [w, x, y] =
     [word_of_nat (url_sextet w * 4 + url_sextet x div 16), word_of_nat (url_sextet x mod 16 * 16 + url_sextet y div 4)]"
| "url_bytes [w, x] = [word_of_nat (url_sextet w * 4 + url_sextet x div 16)]"
| "url_bytes _ = []"

lemma url_sextet_char: "n < 64 \<Longrightarrow> url_sextet (url_char n) = n"
  by (auto simp: url_sextet_def url_char_def)

lemma url_bytes_text: "url_bytes (url_text bs) = bs"
proof (induction bs rule: url_text.induct)
  case (2 a)
  then show ?case using unat_byte [of a] by (simp add: url_sextet_char)
next
  case (3 a b)
  then show ?case using unat_byte [of a] unat_byte [of b] by (simp add: url_sextet_char)
next
  case (4 a b c bs)
  have "unat a < 256" "unat b < 256" "unat c < 256" by (rule unat_byte)+
  moreover from this have "unat a div 4 < 64" "unat b div 16 < 16" "unat c div 64 < 4" by auto
  ultimately show ?case using 4 by (simp add: url_sextet_char)
qed simp

lemma url_text_length: "length (url_text bs) = (4 * length bs + 2) div 3"
  by (induction bs rule: url_text.induct) simp_all

lemma url_text_format: "list_all (\<lambda>c. is_ascii_alphanumeric c \<or> c = 45 \<or> c = 95) (url_text bs)"
proof -
  have "is_ascii_alphanumeric (url_char n) \<or> url_char n = 45 \<or> url_char n = 95" for n
    by (auto simp: url_char_def char_simps)
  then show ?thesis by (induction bs rule: url_text.induct) simp_all
qed

text \<open>The parameters with this encoding, and with a constant text for JSON.\<close>

definition url_crates :: crates where
  "url_crates = (vault_crates [])
     \<lparr>url_encode := url_text, url_decode := (\<lambda>s. Some (url_bytes s)), json_to_vec := (\<lambda>_. [1])\<rparr>"

lemma json_size_pos: "flat_json v \<Longrightarrow> Suc 0 \<le> json_size v"
  by (cases v) simp_all

lemma url_crates_ok: "url_codec_ok url_crates" "url_format_ok url_crates" "url_size_ok url_crates" "json_size_ok url_crates"
    "hkdf_size_ok url_crates"
  by (simp_all add: url_crates_def url_codec_ok_def url_format_ok_def url_size_ok_def json_size_ok_def hkdf_size_ok_def
      url_bytes_text url_text_length url_text_format vault_crates_def example_crates_def json_size_pos)

end
