(* ===== verification/Deterministic_Guarantees.thy ===== *)
theory Deterministic_Guarantees
  imports Deterministic_Tokens Wire_Sizes
begin

text \<open>
  The properties of deterministic tokens: every plaintext a loaded profile accepts has exactly one token, which
  fits the size limit, and a token is tied to its key, profile, context labels and subject. The instance at which
  they are applied has the URL-safe base64 of RFC 4648.
\<close>

section \<open>What the other crates promise\<close>

text \<open>AES-256-SIV takes every key of 64 bytes.\<close>

definition siv_key_ok :: "ciphers \<Rightarrow> bool" where
  "siv_key_ok E \<longleftrightarrow> (\<forall>key aad m. length key = 64 \<longrightarrow> siv_start E key aad = Inr () \<and> (\<exists>c. siv_process E key aad m = Inr c))"

section \<open>Sizes\<close>

lemma deterministic_profile_ok:
  assumes "validate_deterministic_profiles loaded derive inputs = Inr st" "deterministic_get st name = Some p"
  shows "length (dp_key p) = 64" "check_deterministic_input (dp_input p) = Inr ()" "dp_name p = name"
proof -
  obtain i where i: "check_deterministic_input i = Inr ()" "build_deterministic_profile loaded derive i = Inr p" "di_name i = name"
    using deterministic.load_sound [OF assms] by blast
  then show "check_deterministic_input (dp_input p) = Inr ()" "dp_name p = name" using build_deterministic_input by auto
  show "length (dp_key p) = 64"
    using i(2) by (auto simp: build_deterministic_profile_def bindR_eq_Inr KEY_BYTES_def split: if_splits)
qed

lemma check_deterministic_bounds:
  assumes "check_deterministic_input i = Inr ()"
  shows "length (di_name i) \<le> 128" "length (di_kid i) = 64" "length (di_context i) \<le> 128"
    "0 < di_min_plaintext_len i" "di_max_plaintext_len i \<le> 16384"
  using assms
  by (auto simp: check_deterministic_input_def bindR_unit_eq result_simps CONFIG_NAME_MAX_CHARS_def PLAINTEXT_MAX_CHARS_def
      validate_mac_profile_fields_def validate_labels_def MAC_CONTEXT_MAX_CHARS_def split: if_splits)

text \<open>The text of a context has fewer than 10000 bytes.\<close>

lemma token_context_size:
  assumes "json_size_ok C" "check_deterministic_input (dp_input p) = Inr ()"
    and "\<And>s. subject = Some s \<Longrightarrow> length s = 64"
  shows "json_to_vec C (token_context_json p subject) \<noteq> []" "length (json_to_vec C (token_context_json p subject)) < 10000"
proof -
  note len = check_deterministic_bounds [OF assms(2)]
  have "json_text s \<le> 386" if "subject = Some s" for s using json_text_size [of s 64] assms(3) [OF that] by simp
  moreover have "json_text (lit ''context'') \<le> 122" "json_text (lit ''kid'') \<le> 122" "json_text (lit ''profile'') \<le> 122"
    "json_text (lit ''purpose'') \<le> 122" "json_text (lit ''token-deterministic'') \<le> 122" "json_text (lit ''subject'') \<le> 122"
    "json_text (lit ''version'') \<le> 122" "json_text (lit ''v1'') \<le> 122" by (simp_all add: json_text_lit)
  ultimately have "json_size (token_context_json p subject) < 10000"
    using json_text_size [OF len(1)] json_text_size [OF eq_refl [OF len(2)]] json_text_size [OF len(3)]
    by (cases subject) (simp_all add: token_context_json_def)
  then show "json_to_vec C (token_context_json p subject) \<noteq> []" "length (json_to_vec C (token_context_json p subject)) < 10000"
    using json_size_okD [OF assms(1) token_context_flat(1)] by (metis, metis le_less_trans)
qed

lemma token_fits:
  assumes C: "url_codec_ok C" "url_format_ok C" "url_size_ok C"
    and "aad \<noteq> []" "length aad < 10000" "16 < length c" "length c \<le> 65552"
  shows "validate_deterministic_token C (url_encode C aad @ lit ''.'' @ url_encode C c) = Inr ()"
proof -
  have len: "length (url_encode C bs) = (4 * length bs + 2) div 3" for bs using C(3) by (simp add: url_size_ok_def)
  then have ne: "url_encode C bs \<noteq> []" if "bs \<noteq> []" for bs using that by (cases bs) (auto dest: arg_cong [of _ _ length])
  have "list_all is_ascii (url_encode C aad @ lit ''.'' @ url_encode C c)"
    using url_encoded [OF C(2)] by (auto simp: list_all_iff lit_def is_ascii_def)
  then have "str_len (url_encode C aad @ lit ''.'' @ url_encode C c) = (4 * length aad + 2) div 3 + 1 + (4 * length c + 2) div 3"
    by (subst str_len_ascii) (simp_all add: len lit_def)
  moreover have "(4 * length aad + 2) div 3 \<le> 13334" "(4 * length c + 2) div 3 \<le> 87403" using assms(5,7) by linarith+
  ultimately have "str_len (url_encode C aad @ lit ''.'' @ url_encode C c) \<le> TOKEN_MAX_CHARS" by (simp add: TOKEN_MAX_CHARS_def)
  moreover have "c \<noteq> []" using assms(6) by auto
  then have "url_encode C aad \<noteq> []" "url_encode C c \<noteq> []" using ne assms(4) by simp_all
  ultimately show ?thesis using assms(6) unfolding token_segments [OF C(1,2)] by blast
qed

lemma context_key_length:
  assumes "hkdf_size_ok C" "length (dp_key p) = 64"
    and "dc_new C p = Inr ctx \<or> dc_from_subject_envelope C E p origin subject envelope = Inr ctx"
  shows "length (dc_key ctx) = 64"
  using assms
  by (auto simp: dc_new_def dc_from_subject_envelope_def dc_build_def dc_key_def hkdf_size_ok_def bindR_eq_Inr KEY_BYTES_def
      split: if_splits)

lemma context_subject_length:
  assumes "dc_new C p = Inr ctx \<or> dc_from_subject_envelope C E p origin subject envelope = Inr ctx"
    and "dc_subject ctx = Some s"
  shows "length s = 64"
  using assms
  by (auto simp: dc_new_def dc_from_subject_envelope_def dc_build_def bindR_eq_Inr validate_deterministic_subject_mode_def
      result_simps split: if_splits)

lemma vault_siv_keys: "siv_key_ok vault_ciphers"
  by (simp add: siv_key_ok_def vault_ciphers_def)

section \<open>Properties\<close>

text \<open>C10: every plaintext has one token. With a loaded profile, alone or for a subject, each text within the bounds
  of the profile is encoded to a token, within the size limit, and that token is the only text that is decoded to it.\<close>

theorem deterministic_token_exact:
  assumes crates: "url_codec_ok C" "url_format_ok C" "url_size_ok C" "json_size_ok C" "hkdf_size_ok C"
    and ciphers: "siv_ok E" "siv_key_ok E"
    and loaded: "validate_deterministic_profiles loaded derive inputs = Inr st" "deterministic_get st name = Some p"
    and ctx: "dc_new C p = Inr ctx \<or> dc_from_subject_envelope C E p origin subject envelope = Inr ctx"
    and plain: "scalar_str plain" "di_min_plaintext_len (dp_input p) \<le> length plain" "length plain \<le> di_max_plaintext_len (dp_input p)"
  shows "\<exists>token. dc_encode C E ctx plain = Inr token \<and> (\<forall>t. dc_decode C E ctx t = Inr plain \<longleftrightarrow> t = token)"
proof -
  note p = deterministic_profile_ok [OF loaded]
  note b = check_deterministic_bounds [OF p(2)]
  have ok: "context_ok C ctx" "dc_profile ctx = p" using ctx context_built by blast+
  let ?aad = "dc_aad ctx"
  have "?aad = json_to_vec C (token_context_json p (dc_subject ctx))" using ok by (simp add: context_ok_def)
  then have aad: "?aad \<noteq> []" "length ?aad < 10000"
    using token_context_size [OF crates(4) p(2)] context_subject_length [OF ctx] by simp_all
  obtain c where c: "encrypt_aes256_siv E (dc_key ctx) ?aad (utf8 plain) = Inr c"
    using ciphers(2) context_key_length [OF crates(5) p(1) ctx] unfolding siv_key_ok_def encrypt_aes256_siv_def by fastforce
  have "length c = str_len plain + 16" using siv_length [OF ciphers(1) c] by (simp add: str_len_def)
  moreover have "0 < length plain" "length plain \<le> 16384" using plain b by linarith+
  ultimately have len: "16 < length c" "length c \<le> 65552" using str_len_ge [of plain] str_len_le [of plain] by linarith+
  let ?token = "url_encode C ?aad @ lit ''.'' @ url_encode C c"
  have valid: "validate_deterministic_token C ?token = Inr ()" by (rule token_fits [OF crates(1,2,3) aad len])
  then have "dc_encode C E ctx plain = Inr ?token"
    using c plain ok(2) by (simp add: dc_encode_def dp_validate_plaintext_def Let_def)
  moreover have "dc_decode C E ctx t = Inr plain \<longleftrightarrow> t = ?token" for t
    using c plain(1) valid unfolding dc_decode_iff [OF crates(1,2) ciphers(1)] by auto
  ultimately show ?thesis by blast
qed

definition example_deterministic :: deterministic_token_profile_input where
  "example_deterministic = \<lparr>di_name = lit ''email'', di_kid = example_kid, di_context = lit ''env=prod'',
     di_min_plaintext_len = 1, di_max_plaintext_len = 9, di_subject_mode = NoSubject\<rparr>"

lemma example_deterministic_checked:
  "check_deterministic_input (example_deterministic\<lparr>di_max_plaintext_len := Suc n\<rparr>) = Inr () \<longleftrightarrow> Suc n \<le> 16384"
proof -
  have "validate_key_id (replicate 64 97) = Inr ()" using example_key_id by (simp add: example_kid_def del: validate_key_id_ok)
  then show ?thesis
    by (simp add: check_deterministic_input_def example_deterministic_def validate_mac_profile_fields_def validate_labels_def
        validate_aad_config_name_def validate_config_name_def validate_text_field_def reject_aad_delimiters_def
        CONFIG_NAME_MAX_CHARS_def MAC_CONTEXT_MAX_CHARS_def PLAINTEXT_MAX_CHARS_def example_kid_def split_once_def blank_def
        is_aad_key_char_def char_simps lit_def del: validate_key_id_ok)
qed

definition example_deterministic_profile :: "nat \<Rightarrow> deterministic_token_profile" where
  "example_deterministic_profile n = \<lparr>dp_input = example_deterministic\<lparr>di_max_plaintext_len := Suc n\<rparr>, dp_key = replicate 64 5\<rparr>"

lemma example_deterministic_loaded:
  assumes "Suc n \<le> 16384"
  shows "validate_deterministic_profiles (\<lambda>_. True) (\<lambda>_. Inr (replicate 64 5)) [example_deterministic\<lparr>di_max_plaintext_len := Suc n\<rparr>] =
      Inr [lit ''email'' \<mapsto> example_deterministic_profile n]"
  using assms example_deterministic_checked [of n]
  by (simp add: validate_deterministic_profiles_def build_deterministic_profile_def example_deterministic_profile_def KEY_BYTES_def)
    (simp add: example_deterministic_def)

definition example_context :: "crates \<Rightarrow> nat \<Rightarrow> deterministic_token_context" where
  "example_context C n = \<lparr>dc_profile = example_deterministic_profile n, dc_subject = None, dc_child_key = None,
     dc_aad = json_to_vec C (token_context_json (example_deterministic_profile n) None)\<rparr>"

lemma example_context_new: "dc_new C (example_deterministic_profile n) = Inr (example_context C n)"
  by (simp add: dc_new_def dc_build_def token_context_flat(2) example_context_def validate_deterministic_subject_mode_def
      example_deterministic_profile_def) (simp add: example_deterministic_def)

theorem deterministic_token_exact_witness:
  "\<exists>token. dc_encode url_crates vault_ciphers (example_context url_crates 8) (lit ''a@b.c'') = Inr token \<and>
     (\<forall>t. dc_decode url_crates vault_ciphers (example_context url_crates 8) t = Inr (lit ''a@b.c'') \<longleftrightarrow> t = token)"
  by (rule deterministic_token_exact [OF url_crates_ok vault_ciphers_ok(2) vault_siv_keys example_deterministic_loaded [of 8]
        _ disjI1 [OF example_context_new] scalar_str_lit])
    (simp_all add: deterministic_get_def lit_def example_deterministic_profile_def example_deterministic_def)

text \<open>C11: a token is tied to its context. When two contexts decode the same text, with whatever keys, they have the
  same key id, profile name, context labels and subject.\<close>

theorem deterministic_token_bound:
  assumes crates: "url_codec_ok C" "url_format_ok C" "json_codec_ok C" and "siv_ok E"
    and a: "dc_new C p = Inr a \<or> dc_from_subject_envelope C E p origin subject envelope = Inr a"
    and b: "dc_new C q = Inr b \<or> dc_from_subject_envelope C E q origin' subject' envelope' = Inr b"
    and "dc_decode C E a token = Inr plain" "dc_decode C E b token = Inr plain'"
  shows "dp_kid p = dp_kid q \<and> dp_name p = dp_name q \<and> di_context (dp_input p) = di_context (dp_input q) \<and>
    dc_subject a = dc_subject b"
proof -
  note iff = dc_decode_iff [OF crates(1,2) \<open>siv_ok E\<close>]
  have "\<exists>c. split_once 46 token = Some (url_encode C (dc_aad ctx), url_encode C c)" if "dc_decode C E ctx token = Inr x" for ctx x
    using that split_once_append [OF url_no_dot [OF crates(2)]] unfolding iff by (auto simp: lit_def)
  then obtain c c' where "split_once 46 token = Some (url_encode C (dc_aad a), url_encode C c)"
    "split_once 46 token = Some (url_encode C (dc_aad b), url_encode C c')" using assms(7,8) by blast
  then have "url_encode C (dc_aad a) = url_encode C (dc_aad b)" by simp
  then have "dc_aad a = dc_aad b" using url_codec [OF crates(1)] by (metis option.inject)
  moreover have "context_ok C a \<and> dc_profile a = p" "context_ok C b \<and> dc_profile b = q" using a b context_built by blast+
  ultimately show ?thesis using token_context_inject [OF crates(3)] by blast
qed

definition bound_crates :: crates where
  "bound_crates = vault_crates [token_context_json (example_deterministic_profile 8) None]"

definition bound_bytes :: "u8 list" where
  "bound_bytes = replicate 16 0 @ utf8 (lit ''abc'')"

definition bound_token :: ustr where
  "bound_token = url_encode bound_crates [1] @ lit ''.'' @ url_encode bound_crates bound_bytes"

lemmas bound_crates_ok = vault_crates_ok(2,3,6) [of "[token_context_json (example_deterministic_profile 8) None]", folded bound_crates_def]

lemma bound_token_valid: "validate_deterministic_token bound_crates bound_token = Inr ()"
proof -
  have ascii: "list_all is_ascii (url_encode bound_crates bs)" for bs
    using url_encoded [OF bound_crates_ok(2)] by (auto simp: list_all_iff)
  have len: "length (url_encode bound_crates bs) = 2 * length bs" for bs
    using hex_byte_format(1) by (simp add: bound_crates_def vault_crates_def del: length_concat)
  then have ne: "url_encode bound_crates bs \<noteq> []" if "bs \<noteq> []" for bs
    using that by (metis length_0_conv mult_eq_0_iff zero_neq_numeral)
  have b: "length bound_bytes = 19" by (simp add: bound_bytes_def lit_def utf8_char_def)
  have "list_all is_ascii bound_token" using ascii by (simp add: bound_token_def) (simp add: lit_def is_ascii_def)
  then have "str_len bound_token = 41" by (simp add: str_len_ascii) (simp add: bound_token_def len b lit_def)
  moreover have "url_encode bound_crates [1] \<noteq> []" "url_encode bound_crates bound_bytes \<noteq> []" using b by (auto intro!: ne)
  moreover note bound_token_def
  ultimately show ?thesis unfolding token_segments [OF bound_crates_ok(1,2)] using b by (force simp: TOKEN_MAX_CHARS_def)
qed

lemma bound_token_decoded: "dc_decode bound_crates vault_ciphers (example_context bound_crates n) bound_token = Inr (lit ''abc'')"
proof -
  have "token_context_json (example_deterministic_profile n) None = token_context_json (example_deterministic_profile 8) None"
    by (simp add: token_context_json_def example_deterministic_profile_def)
  then have "dc_aad (example_context bound_crates n) = [1]"
    by (simp add: example_context_def bound_crates_def vault_crates_def vault_json_def)
  moreover have "encrypt_aes256_siv vault_ciphers key aad (utf8 (lit ''abc'')) = Inr bound_bytes" for key aad
    by (simp add: encrypt_aes256_siv_def vault_ciphers_def bound_bytes_def)
  ultimately show ?thesis
    unfolding dc_decode_iff [OF bound_crates_ok(1,2) vault_ciphers_ok(2)]
    by (simp add: bound_token_valid scalar_str_lit) (simp add: bound_token_def)
qed

theorem deterministic_token_bound_witness:
  "dc_decode bound_crates vault_ciphers (example_context bound_crates 8) bound_token = Inr (lit ''abc'') \<and>
   dc_decode bound_crates vault_ciphers (example_context bound_crates 9) bound_token = Inr (lit ''abc'') \<and>
   dp_kid (example_deterministic_profile 8) = dp_kid (example_deterministic_profile 9)"
  using deterministic_token_bound [OF bound_crates_ok vault_ciphers_ok(2) disjI1 [OF example_context_new]
      disjI1 [OF example_context_new] bound_token_decoded bound_token_decoded] bound_token_decoded by blast

end
