(* ===== verification/Profile_Guarantees.thy ===== *)
theory Profile_Guarantees
  imports Profile_Service Deterministic_Guarantees
begin

text \<open>
  The properties of the profile services as a client sees them: no table changes and nothing happens without
  permission, every request is audited, and commitments that were created verify and bind.
\<close>

section \<open>Runs of the two forms\<close>

lemma path_endpoint_run:
  assumes "path_endpoint C E env action name header kid parsed profile_of (\<lambda>p i. retS p) prepare perform s = (s', Inr out)"
  obtains s1 s2 i p q where "validate_key_id kid = Inr ()" "parsed = Inr i" "profile_of i = Inr p"
    "prepare (hs_keys s1) p i = Inr q" "perform q s1 = (s2, Inr out)" "view s' = view s2"
  using assms that by (auto simp: path_endpoint_def Let_def sop_simps record_event_def view_def)

lemma path_endpointE:
  assumes "path_endpoint C E env action name header kid parsed profile_of (\<lambda>p i. retS p) prepare
      (\<lambda>q. spawn_blocking_crypto env (f q)) s = (s', Inr out)"
  obtains i p q where "validate_key_id kid = Inr ()" "parsed = Inr i" "profile_of i = Inr p"
    "prepare (hs_keys s') p i = Inr q" "f q = Inr out"
proof -
  from assms obtain s1 s2 i p q where "validate_key_id kid = Inr ()" "parsed = Inr i" "profile_of i = Inr p"
    "prepare (hs_keys s1) p i = Inr q" "spawn_blocking_crypto env (f q) s1 = (s2, Inr out)" "view s' = view s2"
    by (rule path_endpoint_run)
  moreover from this have "hs_keys s2 = hs_keys s1" "f q = Inr out"
    using spawn_Inr [of env "f q" s1 s2 out] by (simp_all add: view_def)
  ultimately show ?thesis using that by (simp add: view_def)
qed

lemma yields_body_any:
  assumes auth: "authenticates C env header client" "require_permission (he_permissions env) client (Some (kid_of i)) (lit action) = Inr ()"
    and key: "validate_key_id (kid_of i) = Inr ()" "keys_get (snd V) (kid_of i) \<noteq> None"
    and steps: "parsed = Inr i" "profile_of i = Inr p" "prepare (snd V) p i = Inr q" "yields (perform q) V out V'"
  shows "yields (body_endpoint C E env action name anonymous header parsed kid_of profile_of (\<lambda>p i. retS p) prepare perform)
      V out V'"
proof -
  note failed = yields_intros(5)
  show ?thesis
    unfolding body_endpoint_def Let_def
    by (rule yields_bind [OF yields_authorize [OF auth(1)]], rule yields_bind [OF failed [OF yields_lift [OF steps(1)]]],
        rule yields_bind [OF yields_permission [OF auth(2)]], rule yields_bind [OF failed [OF yields_ensure_keys [OF key(2,1)]]],
        rule yields_bind [OF failed [OF yields_lift [OF steps(2)]]], rule yields_bind [OF failed [OF yields_intros(1)]],
        rule yields_bind [OF failed [OF yields_intros(4)]], rule steps(3), rule yields_bind [OF failed [OF steps(4)]],
        rule yields_bind [OF yields_intros(3)], rule yields_intros(1))
qed

lemma yields_path_any:
  assumes auth: "authenticates C env header client" "require_permission (he_permissions env) client (Some kid) (lit action) = Inr ()"
    and key: "validate_key_id kid = Inr ()" "keys_get (snd V) kid \<noteq> None"
    and steps: "parsed = Inr i" "profile_of i = Inr p" "prepare (snd V) p i = Inr q" "yields (perform q) V out V'"
  shows "yields (path_endpoint C E env action name header kid parsed profile_of (\<lambda>p i. retS p) prepare perform) V out V'"
proof -
  note failed = yields_intros(5)
  show ?thesis
    unfolding path_endpoint_def Let_def
    by (rule yields_bind [OF yields_authorize [OF auth(1)]], rule yields_bind [OF yields_permission [OF auth(2)]],
        rule yields_bind [OF failed [OF yields_lift [OF key(1)]]], rule yields_bind [OF failed [OF yields_ensure_keys [OF key(2,1)]]],
        rule yields_bind [OF failed [OF yields_lift [OF steps(1)]]],
        rule yields_bind [OF failed [OF yields_lift [OF steps(2)]]], rule yields_bind [OF failed [OF yields_intros(1)]],
        rule yields_bind [OF failed [OF yields_intros(4)]], rule steps(3), rule yields_bind [OF failed [OF steps(4)]],
        rule yields_bind [OF yields_intros(3)], rule yields_intros(1))
qed

text \<open>The handlers whose work is done in a blocking task.\<close>

lemma yields_task: "he_admission env = (\<lambda>_. None) \<Longrightarrow> g = Inr out \<Longrightarrow> yields (spawn_blocking_crypto env g) V out V"
  using yields_spawn by simp

lemma yields_body:
  assumes "he_admission env = (\<lambda>_. None)" "authenticates C env header client"
    "require_permission (he_permissions env) client (Some (kid_of i)) (lit action) = Inr ()"
    "validate_key_id (kid_of i) = Inr ()" "keys_get (snd V) (kid_of i) \<noteq> None"
    "parsed = Inr i" "profile_of i = Inr p" "prepare (snd V) p i = Inr q" "f q = Inr out"
  shows "yields (body_endpoint C E env action name anonymous header parsed kid_of profile_of (\<lambda>p i. retS p) prepare
      (\<lambda>q. spawn_blocking_crypto env (f q))) V out V"
  using assms(2-8) yields_task [OF assms(1,9)] by (rule yields_body_any)

lemma yields_path:
  assumes "he_admission env = (\<lambda>_. None)" "authenticates C env header client"
    "require_permission (he_permissions env) client (Some kid) (lit action) = Inr ()"
    "validate_key_id kid = Inr ()" "keys_get (snd V) kid \<noteq> None"
    "parsed = Inr i" "profile_of i = Inr p" "prepare (snd V) p i = Inr q" "f q = Inr out"
  shows "yields (path_endpoint C E env action name header kid parsed profile_of (\<lambda>p i. retS p) prepare
      (\<lambda>q. spawn_blocking_crypto env (f q))) V out V"
  using assms(2-8) yields_task [OF assms(1,9)] by (rule yields_path_any)

section \<open>Keyed tags in hexadecimal\<close>

text \<open>The tags of an HMAC or KMAC have between 1 and 64 bytes. The algorithm names that profiles carry are the
  ones \<open>resolve_mac_algorithm\<close> gives, whose longest tags are those of 512 bits.\<close>

definition tag_size_ok :: "crates \<Rightarrow> bool" where
  "tag_size_ok C \<longleftrightarrow>
     (\<forall>alg key m t. create_hmac_with_algorithm C alg key m = Inr t \<longrightarrow> 0 < length t \<and> length t \<le> 64) \<and>
     (\<forall>alg key custom m t. create_kmac_with_algorithm C alg key custom m = Inr t \<longrightarrow> 0 < length t \<and> length t \<le> 64)"

lemma keyed_tag_size: "tag_size_ok C \<Longrightarrow> compute_keyed_tag C k alg key custom m = Inr t \<Longrightarrow> 0 < length t \<and> length t \<le> 64"
  by (auto simp: tag_size_ok_def compute_keyed_tag_def split: if_splits)

lemma hex_tag_valid: "hex_format_ok C \<Longrightarrow> 0 < length t \<Longrightarrow> validate_hex_field field (hex_encode C t) = Inr ()"
proof -
  assume h: "hex_format_ok C" and t: "0 < length t"
  then have "length (hex_encode C t) = 2 * length t" "list_all is_lower_hexdigit (hex_encode C t)" by (simp_all add: hex_format_ok_def)
  moreover have "is_lower_hexdigit c \<Longrightarrow> is_ascii_hexdigit c" for c by (auto simp: char_simps)
  ultimately show ?thesis using t by (auto simp: validate_hex_field_ok list_all_iff)
qed

text \<open>A component that hands out the tag of a value in hexadecimal and later compares a text with it: the codes of
  \<open>ops::mac\<close> and the commitments of \<open>ops::commitments\<close>.\<close>

locale tag_verifier =
  fixes C :: crates
    and tag_of :: "'x \<Rightarrow> u8 list result"
    and given :: "'x \<Rightarrow> ustr"
    and verify :: "'x \<Rightarrow> 'o result"
    and valid :: "'o \<Rightarrow> bool"
  assumes verify_eq: "map_sum id valid (verify x) =
      bindR (tag_of x) (\<lambda>expected. bindR (hex_decode_q C (given x)) (\<lambda>actual. Inr (constant_time_eq expected actual)))"
begin

lemma verify_Inr: "(\<exists>out. verify x = Inr out \<and> valid out = b) \<longleftrightarrow> map_sum id valid (verify x) = Inr b"
  by (cases "verify x") auto

lemma valid_iff: "(\<exists>out. verify x = Inr out \<and> valid out) \<longleftrightarrow> (\<exists>t. tag_of x = Inr t \<and> hex_decode C (given x) = Some t)"
  using verify_Inr [of x True]
  by (auto simp: verify_eq bindR_eq_Inr hex_decode_q_def ok_or_eq_Inr constant_time_eq_iff)

lemma created_valid:
  "hex_codec_ok C \<Longrightarrow> tag_of x = Inr t \<Longrightarrow> given x = hex_encode C t \<Longrightarrow> \<exists>out. verify x = Inr out \<and> valid out"
  by (simp add: valid_iff hex_codec)

text \<open>Two values that are valid for one text have the same tag.\<close>

lemma valid_same:
  assumes "verify x = Inr out" "valid out" "verify y = Inr out'" "valid out'" "given x = given y"
  shows "\<exists>t. tag_of x = Inr t \<and> tag_of y = Inr t"
  using assms valid_iff [of x] valid_iff [of y] by auto

end

lemma map_sum_bindR: "map_sum id f (bindR r g) = bindR r (\<lambda>x. map_sum id f (g x))"
  by (cases r) simp_all

interpretation mac_codes: tag_verifier C "\<lambda>x. compute_digest C (fst x) (mvi_plaintext (mv_item (snd x)))"
    "\<lambda>x. mvi_digest (mv_item (snd x))" "mac_verify C" snd for C
  by unfold_locales (simp add: mac_verify_def Let_def map_sum_bindR)

interpretation commitment_codes: tag_verifier C
    "\<lambda>x. compute_commitment C (pr_profile x) (cvi_opening (cv_item (pr_input x))) (cvi_plaintext (cv_item (pr_input x)))"
    "\<lambda>x. cvi_commitment (cv_item (pr_input x))" "commit_verify C" cvo_valid for C
  by unfold_locales (simp add: commit_verify_def Let_def map_sum_bindR)

section \<open>What a create request was\<close>

lemma plain_input_valid:
  assumes "bindR (parse_json_request serde_error plain_input_of_json v label) validate_plain_input = Inr j"
  shows "plain_input_of_json v = Some j" "validate_ref (pi_ref (pn_item j)) = Inr (pi_ref (pn_item j))"
    "validate_aad_config_name (lit ''profile'') (pn_profile j) = Inr ()"
    "validate_text_field (lit ''plaintext'') (pi_plaintext (pn_item j)) = Inr ()"
  using assms
  by (auto simp: parse_json_request_def validate_plain_input_def bindR_eq_Inr bindR_unit_eq ok_or_eq_Inr validate_ref_def)

lemma url_text_field:
  assumes "url_format_ok C" "url_size_ok C" "0 < length bs"
  shows "validate_text_field f (url_encode C bs) = Inr ()"
proof -
  have "length (url_encode C bs) = (4 * length bs + 2) div 3" using assms(2) by (simp add: url_size_ok_def)
  then have "url_encode C bs \<noteq> []" using assms(3) by (cases "length bs") auto
  moreover have "\<not> is_control c \<and> \<not> is_whitespace c" if "c \<in> set (url_encode C bs)" for c
    using assms(1) that by (auto simp: url_format_ok_def list_all_iff char_simps dest!: spec [of _ bs] bspec)
  ultimately show ?thesis
    by (auto simp: validate_text_field_ok blank_def list_all_iff neq_Nil_conv)
qed

lemma loaded_commitment:
  assumes "validate_commitment_profiles C loaded hash_for derive inputs = Inr st" "commitment_get st n = Some p"
  shows "cm_name p = n" "0 < cm_opening_len p"
proof -
  from commitments.load_sound [OF assms] obtain i where i: "check_commitment_input loaded i = Inr ()"
    "build_commitment_profile C hash_for derive i = Inr p" "cmi_name i = n" by blast
  then show "cm_name p = n" by (simp add: build_commitment_name)
  have "cm_opening_len p = cmi_opening_len i" using i(2) by (auto simp: build_commitment_profile_def result_simps)
  then show "0 < cm_opening_len p"
    using i(1) by (auto simp: check_commitment_input_def validate_commitment_profile_fields_def bindR_unit_eq
        validate_commitment_opening_len_def COMMITMENT_OPENING_MIN_BYTES_def split: if_splits)
qed

lemma commitment_size: "tag_size_ok C \<Longrightarrow> compute_commitment C p r plain = Inr t \<Longrightarrow> 0 < length t"
  unfolding compute_commitment_def bindR_eq_Inr using keyed_tag_size by blast

lemma commit_createE:
  assumes "commit_create_endpoint C E env random_bytes header kid v s = (s', Inr out)" "plain_input_of_json v = Some i"
  obtains p bs tag where "validate_aad_config_name (lit ''profile'') (pn_profile i) = Inr ()"
    "validate_text_field (lit ''plaintext'') (pi_plaintext (pn_item i)) = Inr ()"
    "commitment_get (pv_commitments env) (pn_profile i) = Some p" "cm_kid p = kid"
    "commit_validate_plaintext_len p (pi_plaintext (pn_item i)) = Inr ()"
    "random_bytes (cm_opening_len p) = Inr bs"
    "compute_commitment C p (encode_opening C bs) (pi_plaintext (pn_item i)) = Inr tag"
    "out = \<lparr>cco_kid = kid, cco_profile = pn_profile i, cco_algorithm = cm_public_algorithm p,
      cco_item = \<lparr>cio_ref = pi_ref (pn_item i), cio_commitment = hex_encode C tag, cio_opening = encode_opening C bs\<rparr>\<rparr>"
proof -
  from assms(1) obtain j p q where j: "bindR (commit_parse_create_input (he_serde_error (pv_http env)) v) commit_validate_create_input = Inr j"
    and p: "found_profile ''commitment profile not found'' (commitment_get (pv_commitments env) (pn_profile j)) = Inr p"
    and q: "commit_prepare_create (hs_keys s') kid p j = Inr q" "commit_create C random_bytes q = Inr out"
    unfolding commit_create_endpoint_def by (rule path_endpointE)
  note jv = plain_input_valid [OF j [unfolded commit_parse_create_input_def commit_validate_create_input_def]]
  have ji: "j = i" using jv(1) assms(2) by simp
  have qf: "prepare_profile_use (hs_keys s') kid (cm_kid p) (lit ''commit'') NewUse = Inr ()"
      "commit_validate_plaintext_len p (pi_plaintext (pn_item i)) = Inr ()" "q = \<lparr>pr_kid = kid, pr_profile = p, pr_input = i\<rparr>"
    using q(1) by (auto simp: commit_prepare_create_def bindR_unit_eq ji)
  show thesis
    using q(2) jv p qf(2) verify_after_new(2) [OF qf(1)] that unfolding qf(3) ji
    by (auto simp: commit_create_def commit_item_def generate_opening_def bindR_eq_Inr found_profile_def ok_or_eq_Inr)
qed

section \<open>An example\<close>

text \<open>The environment of the token service with one commitment profile and one sharing profile.\<close>

definition example_commitment_input :: commitment_profile_input where
  "example_commitment_input = \<lparr>cmi_name = lit ''k'', cmi_kid = example_kid, cmi_context = lit ''a=b'',
     cmi_max_plaintext_len = 16, cmi_opening_len = 32\<rparr>"

definition example_commitment :: commitment_profile where
  "example_commitment = \<lparr>cm_name = lit ''k'', cm_kid = example_kid, cm_context = lit ''a=b'', cm_max_plaintext_len = 16,
     cm_opening_len = 32, cm_public_algorithm = lit ''KMAC-256'', cm_botan_algorithm = lit ''KMAC-256(256)'',
     cm_customization = lit ''profile=k;kid='' @ example_kid @ lit '';context.a=b'', cm_commit_key = replicate 32 7\<rparr>"

definition profile_service_env :: profile_env where
  "profile_service_env = \<lparr>pv_http = service_env, pv_mac = mac_from_profiles [], pv_masking = masking_from_profiles [],
     pv_commitments = commitment_from_profiles [example_commitment],
     pv_sharing = sharing_from_profiles [example_sharing_profile], pv_fpe = fpe_from_profiles [], pv_deterministic = Map.empty\<rparr>"

lemma example_commitment_load:
  "validate_commitment_profiles C (\<lambda>_. True) (\<lambda>_. Inr []) example_derive [example_commitment_input] =
     Inr (pv_commitments profile_service_env)"
proof -
  have t: "validate_aad_config_name f (lit ''k'') = Inr ()" for f
    by (simp add: result_simps lit_def char_simps CONFIG_NAME_MAX_CHARS_def)
  have l: "validate_labels f (lit ''a=b'') COMMITMENT_CONTEXT_MAX_CHARS = Inr ()" for f
    by (simp add: validate_labels_def validate_text_field_def COMMITMENT_CONTEXT_MAX_CHARS_def
        split_once_def lit_def char_simps is_aad_key_char_def)
  have c: "check_commitment_input (\<lambda>_. True) example_commitment_input = Inr ()"
    by (simp add: check_commitment_input_def validate_commitment_profile_fields_def t l example_key_id
        example_commitment_input_def validate_commitment_plaintext_len_def validate_commitment_opening_len_def
        COMMITMENT_PLAINTEXT_MAX_CHARS_def COMMITMENT_OPENING_MIN_BYTES_def COMMITMENT_OPENING_MAX_BYTES_def)
  have k: "is_kmac_algorithm (lit ''KMAC-256'')" by (simp add: is_kmac_algorithm_def starts_with_def lit_def)
  have "build_commitment_profile C (\<lambda>_. Inr []) example_derive example_commitment_input = Inr example_commitment"
    by (simp add: build_commitment_profile_def example_derive_def example_commitment_input_def
        example_customization derive_keyed_tag_subkey_def k COMMITMENT_KEY_SIZE_BYTES_def example_commitment_def)
  with c show ?thesis by (simp add: validate_commitment_profiles_def profile_service_env_def)
qed

lemma profile_service_facts:
  "pv_http profile_service_env = service_env"
  "commitment_get (pv_commitments profile_service_env) (lit ''k'') = Some example_commitment"
  "sharing_get (pv_sharing profile_service_env) (lit ''k'') = Some example_sharing_profile"
  "prepare_profile_use (hs_keys service_state) example_kid example_kid kind NewUse = Inr ()"
  using service_context_facts(6)
  by (simp_all add: profile_service_env_def example_sharing_get commitment_get_def commitment_from_profiles_def index_by_name_def
      example_commitment_def list_get_def prepare_profile_use_def)

lemma profile_service_auth:
  assumes "create_hmac_with_algorithm C = (\<lambda>_ _ _. Inr (replicate 32 3))" "hex_codec_ok C"
    "hex_encode C = (\<lambda>bs. concat (map hex_byte bs))"
  shows "authenticates C service_env service_header (ac_root_client [])"
proof -
  have "validate_hash_hex_field f (replicate 64 97) INTERNAL_KEYS_HASH = Inr ()" for f
    by (simp add: validate_hash_hex_field_ok list_all_iff char_simps)
  moreover have "header_to_str (replicate 64 97) = Some (replicate 64 97)" by (simp add: header_to_str_def list_all_iff)
  moreover have "hex_decode_q C (concat (replicate 32 (hex_byte 3))) = Inr (replicate 32 3)"
    using hex_codec [OF assms(2), of "replicate 32 3"] by (simp add: hex_decode_q_def assms(3))
  ultimately show ?thesis
    by (simp add: authenticates_def authorize_api_key_def service_header_def api_key_hash_def api_key_hash_with_key_def
        create_hmac_def service_env_def allow_def bindS_def record_event_def retS_def assms(1,3))
qed

lemma root_permission:
  assumes "action \<in> {''commit-create'', ''commit-verify'', ''share-split'', ''share-combine'', ''index-create'', ''index-verify'', ''sign''}"
  shows "require_permission (he_permissions service_env) (ac_root_client []) (Some kid) (lit action) = Inr ()"
proof -
  have "validate_text_field f (lit action) = Inr ()" "lit action \<in> set PERMISSION_ACTIONS" for f
    using assms by (auto simp: validate_text_field_ok PERMISSION_ACTIONS_def lit_def char_simps)
  then show ?thesis by (simp add: require_permission_def ac_root_client_def validate_allowed_value_def)
qed

definition commit_crates :: crates where
  "commit_crates = url_crates\<lparr>create_hmac_with_algorithm := \<lambda>_ _ _. Inr (replicate 32 3)\<rparr>"

definition commit_request :: json where
  "commit_request = JObject [(lit ''ref'', JString (lit ''1'')), (lit ''profile'', JString (lit ''k'')),
     (lit ''plaintext'', JString (lit ''4111''))]"

definition verify_request :: json where
  "verify_request = JObject [(lit ''ref'', JString (lit ''2'')), (lit ''kid'', JString example_kid),
     (lit ''profile'', JString (lit ''k'')), (lit ''plaintext'', JString (lit ''4111'')),
     (lit ''opening'', JString (encode_opening commit_crates (replicate 32 1))),
     (lit ''commitment'', JString (hex_encode commit_crates [4]))]"

definition commit_answer :: commit_create_output where
  "commit_answer = \<lparr>cco_kid = example_kid, cco_profile = lit ''k'', cco_algorithm = lit ''KMAC-256'',
     cco_item = \<lparr>cio_ref = lit ''1'', cio_commitment = hex_encode commit_crates [4],
                cio_opening = encode_opening commit_crates (replicate 32 1)\<rparr>\<rparr>"

lemma commit_crates_ok:
  "url_codec_ok commit_crates" "url_format_ok commit_crates" "url_size_ok commit_crates" "hex_codec_ok commit_crates"
  "hex_format_ok commit_crates" "tag_size_ok commit_crates"
  "create_hmac_with_algorithm commit_crates = (\<lambda>_ _ _. Inr (replicate 32 3))"
  "hex_encode commit_crates = (\<lambda>bs. concat (map hex_byte bs))"
proof -
  show "url_codec_ok commit_crates" "url_format_ok commit_crates" "url_size_ok commit_crates"
    using url_crates_ok by (simp_all add: commit_crates_def url_codec_ok_def url_format_ok_def url_size_ok_def)
  show "hex_codec_ok commit_crates" "hex_format_ok commit_crates"
    using vault_crates_ok(4,5) [of "[]"] by (simp_all add: commit_crates_def url_crates_def hex_codec_ok_def hex_format_ok_def)
  show "tag_size_ok commit_crates" "create_hmac_with_algorithm commit_crates = (\<lambda>_ _ _. Inr (replicate 32 3))"
    "hex_encode commit_crates = (\<lambda>bs. concat (map hex_byte bs))"
    by (simp_all add: tag_size_ok_def commit_crates_def url_crates_def vault_crates_def example_crates_def)
qed

lemma commit_requests:
  "plain_input_of_json commit_request =
     Some \<lparr>pn_profile = lit ''k'', pn_item = \<lparr>pi_ref = lit ''1'', pi_plaintext = lit ''4111''\<rparr>\<rparr>"
  "bindR (commit_parse_create_input (he_serde_error service_env) commit_request) commit_validate_create_input =
     Inr \<lparr>pn_profile = lit ''k'', pn_item = \<lparr>pi_ref = lit ''1'', pi_plaintext = lit ''4111''\<rparr>\<rparr>"
  "commit_parse_verify_input (he_serde_error service_env) verify_request =
     Inr \<lparr>cv_kid = example_kid, cv_profile = lit ''k'', cv_item = \<lparr>cvi_ref = lit ''2'', cvi_plaintext = lit ''4111'',
          cvi_opening = encode_opening commit_crates (replicate 32 1), cvi_commitment = hex_encode commit_crates [4]\<rparr>\<rparr>"
proof -
  show r: "plain_input_of_json commit_request =
     Some \<lparr>pn_profile = lit ''k'', pn_item = \<lparr>pi_ref = lit ''1'', pi_plaintext = lit ''4111''\<rparr>\<rparr>"
    by (simp add: commit_request_def plain_input_of_json_def lit_def)
  have "validate_canonical_json_value f commit_request = Inr ()" "validate_canonical_json_value f verify_request = Inr ()" for f
    unfolding commit_request_def verify_request_def
    by (rule canonical_object, simp add: SERDE_JSON_PRIVATE_KEY_PREFIX_def starts_with_def lit_def)+
  note canon = this
  show "bindR (commit_parse_create_input (he_serde_error service_env) commit_request) commit_validate_create_input =
     Inr \<lparr>pn_profile = lit ''k'', pn_item = \<lparr>pi_ref = lit ''1'', pi_plaintext = lit ''4111''\<rparr>\<rparr>"
    by (simp add: commit_parse_create_input_def parse_json_request_def canon r commit_validate_create_input_def
        validate_plain_input_def validate_ref_def validate_bounded_text_field_def validate_text_field_def
        validate_aad_config_name_def validate_config_name_def INTERNAL_REF_MAX_CHARS_def CONFIG_NAME_MAX_CHARS_def
        reject_aad_delimiters_def blank_def char_simps lit_def)
  show "commit_parse_verify_input (he_serde_error service_env) verify_request =
     Inr \<lparr>cv_kid = example_kid, cv_profile = lit ''k'', cv_item = \<lparr>cvi_ref = lit ''2'', cvi_plaintext = lit ''4111'',
          cvi_opening = encode_opening commit_crates (replicate 32 1), cvi_commitment = hex_encode commit_crates [4]\<rparr>\<rparr>"
    by (simp add: commit_parse_verify_input_def parse_json_request_def canon)
      (simp add: verify_request_def commit_verify_of_json_def lit_def)
qed

lemma example_commitment_tag:
  "create_kmac_with_algorithm C = (\<lambda>_ _ _ _. Inr [4]) \<Longrightarrow> compute_commitment C example_commitment r plain = Inr [4]"
  by (simp add: compute_commitment_def commitment_payload_total compute_keyed_tag_def cm_uses_kmac_def is_kmac_algorithm_def
      starts_with_def example_commitment_def lit_def)

lemma commit_created:
  "yields (commit_create_endpoint commit_crates vault_ciphers profile_service_env fixed_random service_header example_kid
     commit_request) (view service_state) commit_answer (view service_state)"
proof -
  let ?i = "\<lparr>pn_profile = lit ''k'', pn_item = \<lparr>pi_ref = lit ''1'', pi_plaintext = lit ''4111''\<rparr>\<rparr>"
  let ?q = "\<lparr>pr_kid = example_kid, pr_profile = example_commitment, pr_input = ?i\<rparr>"
  have prep: "commit_prepare_create (snd (view service_state)) example_kid example_commitment ?i = Inr ?q"
    using profile_service_facts(4) by (simp add: commit_prepare_create_def view_def commit_validate_plaintext_len_def
        example_commitment_def lit_def)
  have "create_kmac_with_algorithm commit_crates = (\<lambda>_ _ _ _. Inr [4])"
    by (simp add: commit_crates_def url_crates_def vault_crates_def example_crates_def)
  then have run: "commit_create commit_crates fixed_random ?q = Inr commit_answer"
    by (simp add: commit_create_def commit_item_def generate_opening_def fixed_random_def commit_answer_def
        example_commitment_tag) (simp add: example_commitment_def)
  show ?thesis
    unfolding commit_create_endpoint_def profile_service_facts(1)
    by (rule yields_path [where i = ?i and p = example_commitment and q = ?q,
          OF service_env_ok(2) profile_service_auth [OF commit_crates_ok(7,4,8)] root_permission example_key_id _ commit_requests(2)])
      (use service_context_facts(5) prep run in \<open>simp_all add: view_def found_profile_def profile_service_facts\<close>)
qed

section \<open>Properties\<close>

text \<open>C29: a profile request is confined, audited and discreet. None changes a table; a request either ends in an error
  and leaves storage, keys and admissions as they were, or its API key belongs to a client who may perform the action
  of the request on a key id; it adds at least one audit event, the last of which says success exactly when the client
  is answered with a success; an error answer has a status of the list, a text of 1 to 256 characters without control
  characters, and one of two fixed texts when the error is the server's own.\<close>

theorem profile_service_confined:
  "let (s', r) = handle_profile C E F env random_bytes rng header q s in
     sd_db (hs_storage s') = sd_db (hs_storage s) \<and>
     (untouched s s' \<and> isl r \<or>
      (\<exists>kid client. authenticates C (pv_http env) header client \<and>
         require_permission (he_permissions (pv_http env)) client (Some kid) (profile_action q) = Inr ())) \<and>
     (\<exists>es. hs_audit s' = hs_audit s @ es \<and> es \<noteq> [] \<and> (ev_outcome (last es) = lit ''success'' \<longleftrightarrow> \<not> isl r)) \<and>
     (case r of
        Inl (status, message) \<Rightarrow>
          status \<in> {400, 401, 403, 404, 409, 413, 429, 500} \<and> 0 < length message \<and> length message \<le> 256 \<and>
          list_all (\<lambda>c. \<not> is_control c) message \<and>
          (if status = 500 then message \<in> {lit ''internal server error'',
             lit ''internal server error final app can'' @ [39] @ lit ''t be reached''} else True)
      | Inr _ \<Rightarrow> True)"
proof -
  obtain s' r where run: "handle_profile C E F env random_bytes rng header q s = (s', r)" by fastforce
  have frozen: "sd_db (hs_storage s') = sd_db (hs_storage s)"
    using handle_profile_frozen [of C E F env random_bytes rng header q] run unfolding frozen_def by blast
  have "untouched s s' \<and> isl r \<or>
      (\<exists>kid client. authenticates C (pv_http env) header client \<and>
         require_permission (he_permissions (pv_http env)) client (Some kid) (profile_action q) = Inr ())"
    using handle_profile_granted [of C env header q E F random_bytes rng] run unfolding granted_on_def by blast
  from conjI [OF frozen conjI [OF this audited_public [OF handle_profile_audited handle_profile_discreet run]]]
  show ?thesis unfolding run Let_def prod.case .
qed

text \<open>C31: a commitment binds as far as its keyed tag has no collision. When one commitment text is valid under one
  profile for two requests, the messages of the two have the same tag, and they are the same message exactly when the
  requests have the same opening and the same plaintext.\<close>

theorem commitment_binding:
  assumes "json_codec_ok C"
    and first: "commit_verify C x = Inr out" "cvo_valid out"
    and second: "commit_verify C y = Inr out'" "cvo_valid out'"
    and same: "pr_profile x = p" "pr_profile y = p" "cvi_commitment (cv_item (pr_input x)) = cvi_commitment (cv_item (pr_input y))"
  shows "\<exists>m m' t.
      commitment_payload C p (cvi_opening (cv_item (pr_input x))) (cvi_plaintext (cv_item (pr_input x))) = Inr m \<and>
      commitment_payload C p (cvi_opening (cv_item (pr_input y))) (cvi_plaintext (cv_item (pr_input y))) = Inr m' \<and>
      compute_keyed_tag C (cm_uses_kmac p) (cm_botan_algorithm p) (cm_commit_key p) (cm_customization p) m = Inr t \<and>
      compute_keyed_tag C (cm_uses_kmac p) (cm_botan_algorithm p) (cm_commit_key p) (cm_customization p) m' = Inr t \<and>
      (m = m' \<longleftrightarrow> cvi_opening (cv_item (pr_input x)) = cvi_opening (cv_item (pr_input y)) \<and>
        cvi_plaintext (cv_item (pr_input x)) = cvi_plaintext (cv_item (pr_input y)))"
proof -
  let ?m = "\<lambda>x. json_to_vec C (commitment_json p (cvi_opening (cv_item (pr_input x))) (cvi_plaintext (cv_item (pr_input x))))"
  have "(?m x = ?m y) = (cvi_opening (cv_item (pr_input x)) = cvi_opening (cv_item (pr_input y)) \<and>
      cvi_plaintext (cv_item (pr_input x)) = cvi_plaintext (cv_item (pr_input y)))"
    using commitment_payload_inject [OF assms(1)] by metis
  moreover obtain t where "compute_commitment C p (cvi_opening (cv_item (pr_input x))) (cvi_plaintext (cv_item (pr_input x))) = Inr t"
    "compute_commitment C p (cvi_opening (cv_item (pr_input y))) (cvi_plaintext (cv_item (pr_input y))) = Inr t"
    using commitment_codes.valid_same [OF first second same(3)] unfolding same by blast
  ultimately show ?thesis
    by (intro exI [of _ "?m x"] exI [of _ "?m y"] exI [of _ t]) (simp add: compute_commitment_def commitment_payload_total)
qed

definition binding_request :: "string \<Rightarrow> (commitment_profile, commit_verify_input) prepared" where
  "binding_request plain = \<lparr>pr_kid = example_kid, pr_profile = example_commitment, pr_input =
     \<lparr>cv_kid = example_kid, cv_profile = lit ''k'', cv_item = \<lparr>cvi_ref = lit ''1'', cvi_plaintext = lit plain,
        cvi_opening = [], cvi_commitment = hex_encode (example_crates JNull) [4]\<rparr>\<rparr>\<rparr>"

theorem commitment_binding_witness:
  "\<exists>m m' t. commitment_payload (example_crates JNull) example_commitment [] (lit ''4111'') = Inr m \<and>
     commitment_payload (example_crates JNull) example_commitment [] (lit ''4112'') = Inr m' \<and> m \<noteq> m' \<and>
     compute_keyed_tag (example_crates JNull) True (lit ''KMAC-256(256)'') (replicate 32 7)
       (cm_customization example_commitment) m = Inr t \<and>
     compute_keyed_tag (example_crates JNull) True (lit ''KMAC-256(256)'') (replicate 32 7)
       (cm_customization example_commitment) m' = Inr t"
proof -
  have k: "create_kmac_with_algorithm (example_crates JNull) = (\<lambda>_ _ _ _. Inr [4])" by (simp add: example_crates_def)
  have valid: "\<exists>out. commit_verify (example_crates JNull) (binding_request plain) = Inr out \<and> cvo_valid out" for plain
    using commitment_codes.created_valid [OF example_crates_codecs(2)] example_commitment_tag [OF k]
    by (simp add: binding_request_def)
  have f: "cm_uses_kmac example_commitment" "cm_botan_algorithm example_commitment = lit ''KMAC-256(256)''"
    "cm_commit_key example_commitment = replicate 32 7"
    by (simp_all add: cm_uses_kmac_def is_kmac_algorithm_def starts_with_def example_commitment_def lit_def)
  obtain o1 o2 where "commit_verify (example_crates JNull) (binding_request ''4111'') = Inr o1" "cvo_valid o1"
    "commit_verify (example_crates JNull) (binding_request ''4112'') = Inr o2" "cvo_valid o2"
    using valid by blast
  from commitment_binding [OF example_crates_codecs(3) this, of example_commitment] show ?thesis
    by (simp add: binding_request_def f) (simp add: lit_def, blast)
qed

text \<open>C30: a commitment that was created verifies. When a request was answered with a commitment and its opening, a client
  with permission to verify who presents them with the plaintext is told that they are valid, at any later time at
  which the key is loaded and may still verify.\<close>

theorem commit_service_roundtrip:
  assumes crates: "url_codec_ok C" "url_format_ok C" "url_size_ok C" "hex_codec_ok C" "hex_format_ok C" "tag_size_ok C"
    and rnd: "random_ok random_bytes"
    and env: "he_admission (pv_http env) = (\<lambda>_. None)"
      "validate_commitment_profiles C loaded hash_for derive inputs = Inr (pv_commitments env)"
    and created: "commit_create_endpoint C E env random_bytes header kid v s = (s', Inr out)"
      "plain_input_of_json v = Some i"
    and key: "prepare_profile_use (hs_keys t) kid kid (lit ''commit'') Verify = Inr ()"
    and auth: "authenticates C (pv_http env) header' client"
      "require_permission (he_permissions (pv_http env)) client (Some kid) (lit ''commit-verify'') = Inr ()"
    and verifying: "commit_parse_verify_input (he_serde_error (pv_http env)) w =
        Inr \<lparr>cv_kid = cco_kid out, cv_profile = cco_profile out,
             cv_item = \<lparr>cvi_ref = r, cvi_plaintext = pi_plaintext (pn_item i), cvi_opening = cio_opening (cco_item out),
                        cvi_commitment = cio_commitment (cco_item out)\<rparr>\<rparr>"
      "validate_ref r = Inr r"
  shows "\<exists>t'. commit_verify_endpoint C E env header' w t =
      (t', Inr \<lparr>cvo_ref = r, cvo_kid = kid, cvo_profile = pn_profile i, cvo_valid = True\<rparr>) \<and> view t' = view t"
proof -
  obtain p bs tag where jv: "validate_aad_config_name (lit ''profile'') (pn_profile i) = Inr ()"
      "validate_text_field (lit ''plaintext'') (pi_plaintext (pn_item i)) = Inr ()"
    and get: "commitment_get (pv_commitments env) (pn_profile i) = Some p" "cm_kid p = kid"
      "commit_validate_plaintext_len p (pi_plaintext (pn_item i)) = Inr ()"
    and bs: "random_bytes (cm_opening_len p) = Inr bs"
    and tag: "compute_commitment C p (encode_opening C bs) (pi_plaintext (pn_item i)) = Inr tag"
    and out: "out = \<lparr>cco_kid = kid, cco_profile = pn_profile i, cco_algorithm = cm_public_algorithm p,
      cco_item = \<lparr>cio_ref = pi_ref (pn_item i), cio_commitment = hex_encode C tag, cio_opening = encode_opening C bs\<rparr>\<rparr>"
    using created(1,2) by (rule commit_createE)
  note lp = loaded_commitment [OF env(2) get(1)] and len = random_length [OF rnd bs]
  have hex: "validate_hex_field f (hex_encode C tag) = Inr ()" for f
    using hex_tag_valid [OF crates(5)] commitment_size [OF crates(6) tag] by simp
  let ?i = "\<lparr>cv_kid = kid, cv_profile = pn_profile i, cv_item = \<lparr>cvi_ref = r, cvi_plaintext = pi_plaintext (pn_item i),
    cvi_opening = encode_opening C bs, cvi_commitment = hex_encode C tag\<rparr>\<rparr>"
  let ?q = "\<lparr>pr_kid = kid, pr_profile = p, pr_input = ?i\<rparr>"
  have "validate_key_id kid = Inr ()" "keys_get (snd (view t)) kid \<noteq> None" using verify_after_new(2) [OF key] by (simp_all add: view_def)
  note kid = this
  have parsed: "bindR (commit_parse_verify_input (he_serde_error (pv_http env)) w) commit_validate_verify_input = Inr ?i"
    using verifying jv kid(1) hex url_text_field [OF crates(2,3), of bs] len lp(2)
    by (simp add: commit_validate_verify_input_def out validate_kid_field_def encode_opening_def del: validate_key_id_ok)
  have prep: "commit_prepare_verify C (snd (view t)) p ?i = Inr ?q"
    using key get(2,3) commitment_opening_ok [OF crates(1) len] by (simp add: commit_prepare_verify_def view_def)
  have run: "commit_verify C ?q = Inr \<lparr>cvo_ref = r, cvo_kid = kid, cvo_profile = pn_profile i, cvo_valid = True\<rparr>"
    using tag hex_codec [OF crates(4)] by (simp add: commit_verify_def Let_def hex_decode_q_def constant_time_eq_iff)
  have "yields (commit_verify_endpoint C E env header' w) (view t)
      \<lparr>cvo_ref = r, cvo_kid = kid, cvo_profile = pn_profile i, cvo_valid = True\<rparr> (view t)"
    unfolding commit_verify_endpoint_def
    by (rule yields_body [where i = ?i and p = p and q = ?q, OF env(1) auth(1) _ _ _ parsed])
      (use auth(2) kid get(1) prep run in \<open>simp_all add: found_profile_def del: validate_key_id_ok\<close>)
  from yieldsD [OF this] show ?thesis .
qed

theorem commit_service_roundtrip_witness:
  "\<exists>s' t'. commit_create_endpoint commit_crates vault_ciphers profile_service_env fixed_random service_header example_kid
       commit_request service_state = (s', Inr commit_answer) \<and>
     commit_verify_endpoint commit_crates vault_ciphers profile_service_env service_header verify_request service_state =
       (t', Inr \<lparr>cvo_ref = lit ''2'', cvo_kid = example_kid, cvo_profile = lit ''k'', cvo_valid = True\<rparr>)"
proof -
  obtain s' where run: "commit_create_endpoint commit_crates vault_ciphers profile_service_env fixed_random service_header
      example_kid commit_request service_state = (s', Inr commit_answer)"
    using yieldsD [OF commit_created] by blast
  have env: "he_admission (pv_http profile_service_env) = (\<lambda>_. None)"
    "authenticates commit_crates (pv_http profile_service_env) service_header (ac_root_client [])"
    "require_permission (he_permissions (pv_http profile_service_env)) (ac_root_client []) (Some example_kid) (lit ''commit-verify'') = Inr ()"
    using service_env_ok(2) profile_service_auth [OF commit_crates_ok(7,4,8)] root_permission
    by (simp_all add: profile_service_facts)
  have w: "commit_parse_verify_input (he_serde_error (pv_http profile_service_env)) verify_request =
      Inr \<lparr>cv_kid = cco_kid commit_answer, cv_profile = cco_profile commit_answer,
           cv_item = \<lparr>cvi_ref = lit ''2'', cvi_plaintext = pi_plaintext (pn_item \<lparr>pn_profile = lit ''k'', pn_item = \<lparr>pi_ref = lit ''1'', pi_plaintext = lit ''4111''\<rparr>\<rparr>),
             cvi_opening = cio_opening (cco_item commit_answer), cvi_commitment = cio_commitment (cco_item commit_answer)\<rparr>\<rparr>"
    using commit_requests(3) by (simp add: profile_service_facts commit_answer_def)
  have r: "validate_ref (lit ''2'') = Inr (lit ''2'')"
    by (simp add: validate_ref_def validate_bounded_text_field_def validate_text_field_def INTERNAL_REF_MAX_CHARS_def
        char_simps lit_def)
  from commit_service_roundtrip [OF commit_crates_ok(1-6) fixed_random_ok env(1) example_commitment_load run commit_requests(1)
      verify_after_new(1) [OF profile_service_facts(4)] env(2,3) w r]
  show ?thesis using run by auto
qed

end
