(* ===== verification/Share_Service.thy ===== *)
theory Share_Service
  imports Profile_Guarantees
begin

text \<open>
  Sharing as the clients of the service see it: the shares that \<open>/shares/split\<close> hands out fit the limit of
  \<open>/shares/combine\<close>, and any selection of enough of them combines there to what was split.
\<close>

section \<open>The shares of a split\<close>

lemma try_map_list_all2: "try_map f xs = Inr ys \<Longrightarrow> list_all2 (\<lambda>x y. f x = Inr y) xs ys"
  by (induction xs arbitrary: ys) (auto simp: bindR_eq_Inr)

text \<open>\<open>decode_shares_loop\<close> on shares of one set.\<close>

lemma decode_shares_same_set:
  assumes "\<And>x. x \<in> set xs \<Longrightarrow> decode_share C p x = Inr (set_id, g x)" "before \<in> {None, Some set_id}"
  shows "decode_shares_loop C p k before xs = Inr (if xs = [] then before else Some set_id, map g xs)"
  using assms by (induction xs arbitrary: k before) (auto simp: share_item_def)

lemma selected_shares:
  assumes decoded: "\<And>r x. encode_share C p set_id r = Inr x \<Longrightarrow> x \<in> set selected \<Longrightarrow> decode_share C p x = Inr (set_id, r)"
    and shares: "try_map (encode_share C p set_id) raws = Inr shares"
    and selected: "set selected \<subseteq> set shares" "distinct selected" "selected \<noteq> []"
  obtains rs where "decode_shares_loop C p 0 None selected = Inr (Some set_id, rs)" "set rs \<subseteq> set raws" "distinct rs"
    "length rs = length selected"
proof -
  define g where "g x = (SOME r. r \<in> set raws \<and> encode_share C p set_id r = Inr x)" for x
  have g: "g x \<in> set raws \<and> encode_share C p set_id (g x) = Inr x" if "x \<in> set shares" for x
  proof -
    have "\<exists>r. r \<in> set raws \<and> encode_share C p set_id r = Inr x"
      using try_map_list_all2 [OF shares] that by (auto dest: list_all2_in2)
    then show ?thesis unfolding g_def by (rule someI_ex)
  qed
  have "inj_on g (set selected)" by (rule inj_onI) (metis g selected(1) subsetD sum.inject(2))
  moreover have "decode_shares_loop C p 0 None selected = Inr (Some set_id, map g selected)"
    using decode_shares_same_set [of selected C p set_id g None 0] decoded g selected(1,3) by (auto simp: subset_iff)
  moreover have "set (map g selected) \<subseteq> set raws" using g selected(1) by auto
  ultimately show thesis using that [of "map g selected"] selected(2) by (simp add: distinct_map)
qed

lemma share_splitE:
  assumes "share_split_endpoint C E env random_bytes rng header kid v s = (s', Inr out)" "split_input_of_json v = Some i"
  obtains p set_id raws shares where "validate_aad_config_name (lit ''profile'') (ssi_profile i) = Inr ()"
    "sharing_get (pv_sharing env) (ssi_profile i) = Some p" "sp_kid p = kid"
    "str_len (ssi_plaintext i) \<le> sp_max_secret_len p"
    "Sharing.split rng p (utf8 (ssi_plaintext i)) = Inr raws" "try_map (encode_share C p set_id) raws = Inr shares"
    "out = \<lparr>sso_kid = kid, sso_profile = ssi_profile i, sso_threshold = sp_threshold p, sso_set_id = set_id,
      sso_shares = shares\<rparr>"
proof -
  from assms(1) obtain j p q where j: "bindR (parse_split_input (he_serde_error (pv_http env)) v) validate_split_input = Inr j"
    and p: "found_profile ''sharing profile not found'' (sharing_get (pv_sharing env) (ssi_profile j)) = Inr p"
    and q: "prepare_split (hs_keys s') kid p j = Inr q" "share_split C random_bytes rng q = Inr out"
    unfolding share_split_endpoint_def by (rule path_endpointE)
  have ji: "j = i" "validate_aad_config_name (lit ''profile'') (ssi_profile i) = Inr ()"
    using j assms(2) by (auto simp: parse_split_input_def parse_json_request_def validate_split_input_def bindR_eq_Inr bindR_unit_eq ok_or_eq_Inr)
  have qf: "prepare_profile_use (hs_keys s') kid (sp_kid p) (lit ''sharing'') NewUse = Inr ()"
      "str_len (ssi_plaintext i) \<le> sp_max_secret_len p" "q = \<lparr>pr_kid = kid, pr_profile = p, pr_input = i\<rparr>"
    using q(1) by (auto simp: prepare_split_def share_validate_plaintext_len_def bindR_unit_eq ji split: if_splits)
  show thesis
    using q(2) p qf(2) ji(2) verify_after_new(2) [OF qf(1)] that unfolding qf(3) ji(1)
    by (auto simp: share_split_def bindR_eq_Inr found_profile_def ok_or_eq_Inr)
qed

text \<open>A selection of the shares is a valid body: no more than 32 texts without control characters.\<close>

lemma share_text:
  assumes "url_format_ok C" "encode_share C p set_id r = Inr x"
  shows "validate_text_field f x = Inr ()"
proof -
  obtain bs where x: "x = SHARE_PREFIX @ url_encode C bs" using assms(2) by (auto simp: encode_share_def Let_def bindR_eq_Inr)
  have "\<not> is_control c" if "c \<in> set x" for c
    using that url_encoded [OF assms(1), of c bs] by (auto simp: x SHARE_PREFIX_def lit_def char_simps)
  moreover have "\<not> blank x" by (simp add: x SHARE_PREFIX_def lit_def blank_def char_simps)
  ultimately show ?thesis by (simp add: validate_text_field_ok)
qed

lemma validate_shares_ok: "(\<And>x. x \<in> set xs \<Longrightarrow> validate_text_field (lit ''share'') x = Inr ()) \<Longrightarrow> validate_shares_loop k xs = Inr ()"
  by (induction xs arbitrary: k) (simp_all add: share_item_def)

lemma selected_valid:
  assumes "url_format_ok C" "sharing_wf p" "Sharing.split rng p secret = Inr raws" "try_map (encode_share C p set_id) raws = Inr shares"
    and "set selected \<subseteq> set shares" "distinct selected"
  shows "length selected \<le> INTERNAL_SHARE_MAX" "validate_shares_loop k selected = Inr ()"
proof -
  note rel = try_map_list_all2 [OF assms(4)]
  have "length raws = sp_shares p" using split_shares [OF assms(2,3)] by metis
  then have "length shares \<le> 32" using list_all2_lengthD [OF rel] assms(2) by (simp add: sharing_wf_def)
  moreover have "length selected \<le> length shares"
    using assms(5,6) card_mono [of "set shares" "set selected"] card_length [of shares] by (simp add: distinct_card)
  ultimately show "length selected \<le> INTERNAL_SHARE_MAX" by (simp add: INTERNAL_SHARE_MAX_def)
  show "validate_shares_loop k selected = Inr ()"
    using rel assms(5) share_text [OF assms(1)] by (intro validate_shares_ok) (blast dest: list_all2_in2)
qed

section \<open>The size of a share\<close>

lemma sharing_get_texts:
  assumes "validate_sharing_profiles C loaded hash_for derive is = Inr st" "sharing_get st n = Some p"
  shows "json_text (sp_name p) \<le> 514" "json_text (sp_kid p) \<le> 386"
proof -
  from sharings.load_sound [OF assms] obtain i where
    i: "check_sharing_input loaded i = Inr ()" "build_sharing_profile C hash_for derive i = Inr p" by auto
  then have "validate_aad_config_name (lit ''sharing_profiles.name'') (sp_name p) = Inr ()" "validate_key_id (sp_kid p) = Inr ()"
    by (auto simp: check_sharing_input_def validate_sharing_profile_fields_def build_sharing_profile_def bindR_eq_Inr bindR_unit_eq
        map_err_eq_Inr simp del: validate_key_id_ok split: if_splits)
  then have "\<And>c. c \<in> set (sp_name p) \<Longrightarrow> \<not> is_control c" "length (sp_name p) \<le> 128" "length (sp_kid p) \<le> 64"
    by (auto simp: validate_aad_config_name_ok CONFIG_NAME_MAX_CHARS_def validate_key_id_ok)
  then show "json_text (sp_name p) \<le> 514" "json_text (sp_kid p) \<le> 386"
    using json_text_printable [of "sp_name p" 128] json_text_size [of "sp_kid p" 64] by simp_all
qed

lemma envelope_json_size:
  assumes "json_text (se_profile e) \<le> 514" "json_text (se_kid e) \<le> 386" "json_text (se_set_id e) \<le> 24"
    "json_text (se_share e) \<le> 5464" "json_text (se_tag e) \<le> 130" "json_text (se_version e) \<le> 122"
  shows "json_size (envelope_json e) \<le> 8000"
proof -
  have "json_text (lit k) \<le> 122" if "k \<in> {''index'', ''kid'', ''profile'', ''set_id'', ''share'', ''shares'', ''tag'', ''threshold'', ''version''}" for k
    using that by (intro json_text_lit) auto
  from this [of "''index''"] this [of "''kid''"] this [of "''profile''"] this [of "''set_id''"] this [of "''share''"]
    this [of "''shares''"] this [of "''tag''"] this [of "''threshold''"] this [of "''version''"]
  show ?thesis using assms by (simp add: envelope_json_def unsigned_fields_def)
qed

lemma share_fits:
  assumes crates: "url_format_ok C" "url_size_ok C" "hex_format_ok C" "json_size_ok C" "tag_size_ok C"
    and p: "validate_sharing_profiles C' loaded hash_for derive is = Inr st" "sharing_get st n = Some p"
    and share: "encode_share C p (url_encode C bs) r = Inr x" "length bs = SHARING_SET_ID_BYTES"
  shows "str_len x \<le> SHARE_ENVELOPE_MAX_CHARS"
proof -
  let ?u = "\<lparr>se_version = lit ''sss-v1'', se_set_id = url_encode C bs, se_profile = sp_name p,
    se_kid = sp_kid p, se_threshold = sp_threshold p, se_shares = sp_shares p,
    se_index = rs_index r, se_share = url_encode C (rs_value r), se_tag = []\<rparr>"
  from share(1) obtain tag where raw: "validate_raw_share p r = Inr ()" and tag: "compute_tag C p ?u = Inr tag"
    and x: "x = SHARE_PREFIX @ url_encode C (json_to_vec C (envelope_json (?u\<lparr>se_tag := hex_encode C tag\<rparr>)))"
    by (auto simp: encode_share_def Let_def bindR_eq_Inr dest!: canonical_json_ok)
  have wf: "sharing_wf p" using sharing_get_wf [OF p] by simp
  let ?e = "?u\<lparr>se_tag := hex_encode C tag\<rparr>"
  have url: "json_text (url_encode C v) = 2 + (4 * length v + 2) div 3" "length (url_encode C v) = (4 * length v + 2) div 3" for v
    using json_text_url crates(1,2) by (simp_all add: url_format_ok_def url_size_ok_def)
  have "length (rs_value r) \<le> 4096" using raw wf by (auto simp: validate_raw_share_def sharing_wf_def split: if_splits)
  then have sh: "json_text (url_encode C (rs_value r)) \<le> 5464" "json_text (url_encode C bs) \<le> 24"
    using share(2) by (simp_all add: url SHARING_SET_ID_BYTES_def)
  have "length tag \<le> 64" using tag keyed_tag_size [OF crates(5)] unfolding compute_tag_def bindR_eq_Inr by blast
  moreover have "is_lower_hexdigit c \<Longrightarrow> is_ascii_alphanumeric c" for c by (auto simp: char_simps)
  ultimately have "json_text (hex_encode C tag) \<le> 130"
    using crates(3) json_text_url [of "hex_encode C tag"] by (auto simp: hex_format_ok_def list_all_iff)
  then have "json_size (envelope_json ?e) \<le> 8000"
    using sh sharing_get_texts [OF p] json_text_lit [of "''sss-v1''"] by (intro envelope_json_size) simp_all
  moreover have "flat_json (envelope_json ?e)" using wf by (intro envelope_flat) (simp_all add: sharing_wf_def)
  ultimately have "length (json_to_vec C (envelope_json ?e)) \<le> 8000" using json_size_okD [OF crates(4)] by (meson order_trans)
  then have "length x \<le> 14 + 10667" unfolding x by (simp add: url SHARE_PREFIX_def lit_def)
  moreover have "list_all is_ascii x"
    using url_encoded [OF crates(1)] by (auto simp: x list_all_iff SHARE_PREFIX_def lit_def is_ascii_def)
  ultimately show ?thesis by (simp add: str_len_ascii SHARE_ENVELOPE_MAX_CHARS_def)
qed

section \<open>An example\<close>

text \<open>A split of one byte into three shares with the random coefficient 0: every share has the byte itself.\<close>

definition zero_rng :: "nat \<Rightarrow> nat \<Rightarrow> u8 list result" where "zero_rng offset n = Inr (replicate n 0)"

definition zero_share :: "nat \<Rightarrow> raw_share" where "zero_share i = \<lparr>rs_index = word_of_nat i, rs_value = [83]\<rparr>"

definition hex_text :: "u8 list \<Rightarrow> ustr" where "hex_text bs = concat (map hex_byte bs)"

definition zero_envelope :: "(u8 list \<Rightarrow> ustr) \<Rightarrow> (u8 list \<Rightarrow> ustr) \<Rightarrow> nat \<Rightarrow> share_envelope" where
  "zero_envelope url hex i = \<lparr>se_version = lit ''sss-v1'', se_set_id = url (replicate 16 1), se_profile = lit ''k'',
     se_kid = example_kid, se_threshold = 2, se_shares = 3, se_index = word_of_nat i, se_share = url [83], se_tag = hex [4]\<rparr>"

definition split_crates :: crates where
  "split_crates = (vault_crates (map (\<lambda>i. envelope_json (zero_envelope hex_text hex_text i)) [1, 2, 3]))
     \<lparr>create_hmac_with_algorithm := \<lambda>_ _ _. Inr (replicate 32 3)\<rparr>"

definition split_request :: json where
  "split_request = JObject [(lit ''profile'', JString (lit ''k'')), (lit ''plaintext'', JString (lit ''S''))]"

definition split_share :: "nat \<Rightarrow> ustr" where "split_share i = SHARE_PREFIX @ hex_text (replicate i 1)"

definition split_answer :: share_split_output where
  "split_answer = \<lparr>sso_kid = example_kid, sso_profile = lit ''k'', sso_threshold = 2,
     sso_set_id = hex_text (replicate 16 1), sso_shares = [split_share 1, split_share 2, split_share 3]\<rparr>"

definition combine_request :: json where
  "combine_request = JObject [(lit ''kid'', JString example_kid), (lit ''profile'', JString (lit ''k'')),
     (lit ''shares'', JArray [JString (split_share 3), JString (split_share 1)])]"

lemma split_crates_ok:
  "url_codec_ok split_crates" "url_format_ok split_crates" "hex_codec_ok split_crates" "json_codec_ok split_crates"
  "create_hmac_with_algorithm split_crates = (\<lambda>_ _ _. Inr (replicate 32 3))"
  "hex_encode split_crates = (\<lambda>bs. concat (map hex_byte bs))" "hex_encode split_crates = hex_text" "url_encode split_crates = hex_text"
  "create_kmac_with_algorithm split_crates = (\<lambda>_ _ _ _. Inr [4])"
  using vault_crates_ok
  by (simp_all add: split_crates_def url_codec_ok_def url_format_ok_def hex_codec_ok_def json_codec_ok_def)
    (simp_all add: vault_crates_def example_crates_def hex_text_def fun_eq_iff)

lemma zero_split: "Sharing.split zero_rng example_sharing_profile [83] = Inr [zero_share 1, zero_share 2, zero_share 3]"
proof -
  have "Sharing.split zero_rng example_sharing_profile [83] =
      Inr (map (\<lambda>i. share_of (map2 (#) [83] [[0]]) (word_of_nat i)) [1..<Suc (sp_shares example_sharing_profile)])"
    by (rule split_tape) (simp_all add: validate_secret_def example_sharing_profile_def tape_ok_def zero_rng_def)
  moreover have "share_of [[83, 0]] x = \<lparr>rs_index = x, rs_value = [83]\<rparr>" for x
    by (simp add: share_of_def evaluate_polynomial_def)
  ultimately show ?thesis
    by (simp add: example_sharing_profile_def zero_share_def upt_rec)
qed

lemma envelope_canonical:
  assumes "se_threshold e < 2 ^ 64" "se_shares e < 2 ^ 64"
  shows "canonical_json_v1 C (unsigned_json e) = Inr (json_to_vec C (unsigned_json e))"
    "canonical_json_v1 C (envelope_json e) = Inr (json_to_vec C (envelope_json e))"
proof -
  have "uint (se_index e) < 256" using uint_bounded [of "se_index e"] by simp
  then show "canonical_json_v1 C (unsigned_json e) = Inr (json_to_vec C (unsigned_json e))"
    "canonical_json_v1 C (envelope_json e) = Inr (json_to_vec C (envelope_json e))"
    using assms unfolding unsigned_json_def envelope_json_def
    by (auto intro!: canonical_flat simp: unsigned_fields_def starts_with_def SERDE_JSON_PRIVATE_KEY_PREFIX_def lit_def)
qed

lemma zero_encode:
  assumes "url_codec_ok C" "create_kmac_with_algorithm C = (\<lambda>_ _ _ _. Inr [4])" "i \<in> {1, 2, 3}"
  shows "encode_share C example_sharing_profile (url_encode C (replicate 16 1)) (zero_share i) =
    Inr (SHARE_PREFIX @ url_encode C (json_to_vec C (envelope_json (zero_envelope (url_encode C) (hex_encode C) i))))"
proof -
  let ?p = example_sharing_profile
  have set: "validate_set_id C (url_encode C (replicate 16 1)) = Inr ()"
    by (simp add: validate_set_id_def url_codec [OF assms(1)] SHARING_SET_ID_BYTES_def)
  have raw: "validate_raw_share ?p (zero_share i) = Inr ()"
    using assms(3) by (auto simp: validate_raw_share_def example_sharing_profile_def zero_share_def)
  have k: "uses_kmac ?p" by (simp add: uses_kmac_def is_kmac_algorithm_def starts_with_def example_sharing_profile_def lit_def)
  have tag: "compute_tag C ?p e = Inr [4]" if "se_threshold e < 2 ^ 64" "se_shares e < 2 ^ 64" for e
    using that by (simp add: compute_tag_def envelope_canonical compute_keyed_tag_def k assms(2))
  have "\<lparr>se_version = lit ''sss-v1'', se_set_id = url_encode C (replicate 16 1), se_profile = sp_name ?p,
      se_kid = sp_kid ?p, se_threshold = sp_threshold ?p, se_shares = sp_shares ?p, se_index = rs_index (zero_share i),
      se_share = url_encode C (rs_value (zero_share i)), se_tag = hex_encode C [4]\<rparr> = zero_envelope (url_encode C) (hex_encode C) i"
    by (simp add: zero_envelope_def example_sharing_profile_def zero_share_def)
  moreover have "sp_threshold ?p < 2 ^ 64" "sp_shares ?p < 2 ^ 64" by (simp_all add: example_sharing_profile_def)
  ultimately show ?thesis by (simp add: encode_share_def set raw tag envelope_canonical)
qed

lemma zero_json:
  "i \<in> {1, 2, 3} \<Longrightarrow> json_to_vec split_crates (envelope_json (zero_envelope hex_text hex_text i)) = replicate i 1"
proof -
  have "vault_json [u, v, w] x = replicate (if x = u then 1 else if x = v then 2 else 3) 1" if "x \<in> {u, v, w}" for u v w x
    using that by (auto simp: vault_json_def Let_def numeral_eq_Suc)
  moreover have "envelope_json (zero_envelope hex_text hex_text i) = envelope_json (zero_envelope hex_text hex_text j) \<longleftrightarrow>
      (word_of_nat i :: u8) = word_of_nat j" for i j
    using word_eq_iff_unsigned [where 'a = int, of "word_of_nat i :: u8" "word_of_nat j"]
    by (simp add: envelope_json_def unsigned_fields_def zero_envelope_def)
  ultimately show "i \<in> {1, 2, 3} \<Longrightarrow> ?thesis" by (auto simp: split_crates_def vault_crates_def)
qed

lemma zero_share_text:
  "i \<in> {1, 2, 3} \<Longrightarrow>
     encode_share split_crates example_sharing_profile (hex_text (replicate 16 1)) (zero_share i) = Inr (split_share i)"
  using zero_encode [OF split_crates_ok(1,9), of i] zero_json [of i] by (simp add: split_crates_ok(7,8) split_share_def)

lemma zero_shares:
  assumes "\<And>i. i \<in> {1, 2, 3} \<Longrightarrow>
      encode_share C example_sharing_profile (url_encode C (replicate 16 1)) (zero_share i) = Inr (text i)"
  shows "share_split C fixed_random zero_rng \<lparr>pr_kid = example_kid, pr_profile = example_sharing_profile,
      pr_input = \<lparr>ssi_profile = lit ''k'', ssi_plaintext = lit ''S''\<rparr>\<rparr> =
    Inr \<lparr>sso_kid = example_kid, sso_profile = lit ''k'', sso_threshold = 2, sso_set_id = url_encode C (replicate 16 1),
      sso_shares = [text 1, text 2, text 3]\<rparr>"
proof -
  have "new_set_id C fixed_random = Inr (url_encode C (replicate 16 1))"
    by (simp add: new_set_id_def fixed_random_def SHARING_SET_ID_BYTES_def)
  moreover have "utf8 (lit ''S'') = [83]" by (simp add: lit_def utf8_char_def)
  ultimately show ?thesis
    using assms [of 1] assms [of 2] assms [of 3]
    by (simp add: share_split_def zero_split) (simp add: example_sharing_profile_def)
qed

lemma split_requests:
  "split_input_of_json split_request = Some \<lparr>ssi_profile = lit ''k'', ssi_plaintext = lit ''S''\<rparr>"
  "bindR (parse_split_input (he_serde_error service_env) split_request) validate_split_input =
     Inr \<lparr>ssi_profile = lit ''k'', ssi_plaintext = lit ''S''\<rparr>"
  "parse_combine_input (he_serde_error service_env) combine_request =
     Inr \<lparr>sci_kid = example_kid, sci_profile = lit ''k'', sci_shares = [split_share 3, split_share 1]\<rparr>"
proof -
  show r: "split_input_of_json split_request = Some \<lparr>ssi_profile = lit ''k'', ssi_plaintext = lit ''S''\<rparr>"
    by (simp add: split_request_def split_input_of_json_def lit_def)
  have "validate_canonical_json_value f split_request = Inr ()" for f
    unfolding split_request_def by (rule canonical_object, simp add: SERDE_JSON_PRIVATE_KEY_PREFIX_def starts_with_def lit_def)
  then show "bindR (parse_split_input (he_serde_error service_env) split_request) validate_split_input =
     Inr \<lparr>ssi_profile = lit ''k'', ssi_plaintext = lit ''S''\<rparr>"
    by (simp add: parse_split_input_def parse_json_request_def r validate_split_input_def validate_text_field_def
        validate_aad_config_name_def validate_config_name_def CONFIG_NAME_MAX_CHARS_def
        reject_aad_delimiters_def blank_def char_simps lit_def)
  have "validate_canonical_json_value f combine_request = Inr ()" for f
    by (simp add: validate_canonical_json_value_def combine_request_def MAX_JSON_DEPTH_def SERDE_JSON_PRIVATE_KEY_PREFIX_def
        starts_with_def lit_def
        validate_canonical_json_value_at_depth.simps [of _ "JObject _"] validate_canonical_json_value_at_depth.simps [of _ "JArray _"]
        validate_canonical_json_value_at_depth.simps [of _ "JString _"])
  then show "parse_combine_input (he_serde_error service_env) combine_request =
     Inr \<lparr>sci_kid = example_kid, sci_profile = lit ''k'', sci_shares = [split_share 3, split_share 1]\<rparr>"
    by (simp add: parse_combine_input_def parse_json_request_def)
      (simp add: combine_request_def combine_input_of_json_def items_of_json_def lit_def)
qed

lemma split_answered:
  "yields (share_split_endpoint split_crates vault_ciphers profile_service_env fixed_random zero_rng service_header example_kid
     split_request) (view service_state) split_answer (view service_state)"
proof -
  let ?i = "\<lparr>ssi_profile = lit ''k'', ssi_plaintext = lit ''S''\<rparr>"
  let ?q = "\<lparr>pr_kid = example_kid, pr_profile = example_sharing_profile, pr_input = ?i\<rparr>"
  have prep: "prepare_split (snd (view service_state)) example_kid example_sharing_profile ?i = Inr ?q"
    using profile_service_facts(4) by (simp add: prepare_split_def view_def share_validate_plaintext_len_def
        example_sharing_profile_def str_len_def lit_def utf8_char_def)
  have run: "share_split split_crates fixed_random zero_rng ?q = Inr split_answer"
    using zero_shares [of split_crates split_share] zero_share_text by (simp add: split_crates_ok(8) split_answer_def)
  show ?thesis
    unfolding share_split_endpoint_def profile_service_facts(1)
    by (rule yields_path [where i = ?i and p = example_sharing_profile and q = ?q,
          OF service_env_ok(2) profile_service_auth [OF split_crates_ok(5,3,6)] root_permission example_key_id _ split_requests(2)])
      (use service_context_facts(5) prep run in \<open>simp_all add: view_def found_profile_def profile_service_facts\<close>)
qed

section \<open>Properties\<close>

text \<open>C7: shares combine at the service. When a request was answered with shares, a client with permission to combine who
  presents any selection of at least the threshold of them, in any order, is answered with the plaintext that was
  split, at any later time at which the key is loaded and may still decrypt.\<close>

theorem share_service_roundtrip:
  assumes crates: "url_codec_ok C" "url_format_ok C" "hex_codec_ok C" "json_codec_ok C"
    and env: "he_admission (pv_http env) = (\<lambda>_. None)"
      "validate_sharing_profiles C loaded hash_for derive inputs = Inr (pv_sharing env)"
    and answered: "share_split_endpoint C E env random_bytes rng header kid v s = (s', Inr out)"
      "split_input_of_json v = Some i" "scalar_str (ssi_plaintext i)"
    and selected: "set selected \<subseteq> set (sso_shares out)" "distinct selected" "sso_threshold out \<le> length selected"
      "list_all (\<lambda>x. str_len x \<le> SHARE_ENVELOPE_MAX_CHARS) selected"
    and key: "prepare_profile_use (hs_keys t) kid kid (lit ''sharing'') Verify = Inr ()"
    and auth: "authenticates C (pv_http env) header' client"
      "require_permission (he_permissions (pv_http env)) client (Some kid) (lit ''share-combine'') = Inr ()"
    and combining: "parse_combine_input (he_serde_error (pv_http env)) w =
        Inr \<lparr>sci_kid = sso_kid out, sci_profile = sso_profile out, sci_shares = selected\<rparr>"
  shows "\<exists>t'. share_combine_endpoint C E env header' w t =
      (t', Inr \<lparr>sco_kid = kid, sco_profile = ssi_profile i, sco_set_id = sso_set_id out, sco_plaintext = ssi_plaintext i\<rparr>) \<and>
    view t' = view t"
proof -
  obtain p set_id raws shares where name: "validate_aad_config_name (lit ''profile'') (ssi_profile i) = Inr ()"
    and p: "sharing_get (pv_sharing env) (ssi_profile i) = Some p" "sp_kid p = kid" "str_len (ssi_plaintext i) \<le> sp_max_secret_len p"
    and raws: "Sharing.split rng p (utf8 (ssi_plaintext i)) = Inr raws" "try_map (encode_share C p set_id) raws = Inr shares"
    and out: "out = \<lparr>sso_kid = kid, sso_profile = ssi_profile i, sso_threshold = sp_threshold p, sso_set_id = set_id,
      sso_shares = shares\<rparr>"
    using answered(1,2) by (rule share_splitE)
  have wf: "sharing_wf p" using sharing_get_wf [OF env(2) p(1)] by simp
  have ne: "selected \<noteq> []" using selected(3) wf by (auto simp: out sharing_wf_def)
  have dec: "decode_share C p x = Inr (set_id, r)" if "encode_share C p set_id r = Inr x" "x \<in> set selected" for r x
    using share_roundtrip [OF crates(1,3,4) env(2) p(1) that(1)] selected(4) that(2) by (simp add: list_all_iff)
  obtain rs where rs: "decode_shares_loop C p 0 None selected = Inr (Some set_id, rs)" "set rs \<subseteq> set raws" "distinct rs"
    "length rs = length selected"
    using selected_shares [OF dec raws(2)] selected(1,2) ne by (auto simp: out)
  have plain: "combine rs (sp_threshold p) = Inr (utf8 (ssi_plaintext i))"
    using combine_selected [OF wf raws(1) rs(2,3)] selected(3) rs(4) by (simp add: out)
  let ?i = "\<lparr>sci_kid = kid, sci_profile = ssi_profile i, sci_shares = selected\<rparr>"
  let ?q = "\<lparr>pr_kid = kid, pr_profile = p, pr_input = ?i\<rparr>"
  have kid: "validate_key_id kid = Inr ()" "keys_get (snd (view t)) kid \<noteq> None" using verify_after_new(2) [OF key] by (simp_all add: view_def)
  have parsed: "bindR (parse_combine_input (he_serde_error (pv_http env)) w) validate_combine_input = Inr ?i"
    using combining selected_valid [OF crates(2) wf raws] selected(1,2) name kid(1) ne
    by (simp add: out validate_combine_input_def validate_kid_field_def not_less del: validate_key_id_ok)
  have prep: "prepare_combine (snd (view t)) p ?i = Inr ?q"
    using key p(2) selected(3) by (simp add: prepare_combine_def view_def out)
  have run: "share_combine C ?q =
      Inr \<lparr>sco_kid = kid, sco_profile = ssi_profile i, sco_set_id = set_id, sco_plaintext = ssi_plaintext i\<rparr>"
    using p(3) answered(3) by (simp add: share_combine_def rs(1) plain from_utf8_utf8 str_len_def)
  have "yields (share_combine_endpoint C E env header' w) (view t)
      \<lparr>sco_kid = kid, sco_profile = ssi_profile i, sco_set_id = set_id, sco_plaintext = ssi_plaintext i\<rparr> (view t)"
    unfolding share_combine_endpoint_def
    by (rule yields_body [where i = ?i and p = p and q = ?q, OF env(1) auth(1) _ _ _ parsed])
      (use auth(2) kid p(1) prep run in \<open>simp_all add: found_profile_def del: validate_key_id_ok\<close>)
  from yieldsD [OF this] show ?thesis by (simp add: out)
qed

theorem share_service_roundtrip_witness:
  "\<exists>s' t'. share_split_endpoint split_crates vault_ciphers profile_service_env fixed_random zero_rng service_header example_kid
       split_request service_state = (s', Inr split_answer) \<and>
     share_combine_endpoint split_crates vault_ciphers profile_service_env service_header combine_request service_state =
       (t', Inr \<lparr>sco_kid = example_kid, sco_profile = lit ''k'', sco_set_id = sso_set_id split_answer, sco_plaintext = lit ''S''\<rparr>)"
proof -
  obtain s' where run: "share_split_endpoint split_crates vault_ciphers profile_service_env fixed_random zero_rng service_header
      example_kid split_request service_state = (s', Inr split_answer)"
    using yieldsD [OF split_answered] by blast
  have env: "he_admission (pv_http profile_service_env) = (\<lambda>_. None)"
    "authenticates split_crates (pv_http profile_service_env) service_header (ac_root_client [])"
    "require_permission (he_permissions (pv_http profile_service_env)) (ac_root_client []) (Some example_kid) (lit ''share-combine'') = Inr ()"
    using service_env_ok(2) profile_service_auth [OF split_crates_ok(5,3,6)] root_permission
    by (simp_all add: profile_service_facts)
  have load: "validate_sharing_profiles split_crates (\<lambda>_. True) (\<lambda>_. Inr []) example_derive [example_sharing_input] =
      Inr (pv_sharing profile_service_env)"
    using example_sharing_load by (simp add: profile_service_env_def)
  have w: "parse_combine_input (he_serde_error (pv_http profile_service_env)) combine_request =
      Inr \<lparr>sci_kid = sso_kid split_answer, sci_profile = sso_profile split_answer, sci_shares = [split_share 3, split_share 1]\<rparr>"
    using split_requests(3) by (simp add: profile_service_facts split_answer_def)
  have len: "length (split_share i) = 14 + 2 * i" for i
    using hex_byte_format(1) [of "replicate i 1"] by (simp add: split_share_def SHARE_PREFIX_def lit_def hex_text_def)
  have "length (split_share 3) \<noteq> length (split_share 1)" by (simp add: len)
  then have "distinct [split_share 3, split_share 1]" by auto
  moreover have "list_all (\<lambda>x. str_len x \<le> SHARE_ENVELOPE_MAX_CHARS) [split_share 3, split_share 1]"
    using str_len_le [of "split_share 3"] str_len_le [of "split_share 1"] by (simp add: len SHARE_ENVELOPE_MAX_CHARS_def)
  ultimately have sel: "set [split_share 3, split_share 1] \<subseteq> set (sso_shares split_answer)" "distinct [split_share 3, split_share 1]"
    "sso_threshold split_answer \<le> length [split_share 3, split_share 1]"
    "list_all (\<lambda>x. str_len x \<le> SHARE_ENVELOPE_MAX_CHARS) [split_share 3, split_share 1]"
    by (simp_all add: split_answer_def)
  from share_service_roundtrip [OF split_crates_ok(1-4) env(1) load run split_requests(1) _ sel
      verify_after_new(1) [OF profile_service_facts(4)] env(2,3) w]
  show ?thesis using run by (auto simp: scalar_str_lit)
qed

text \<open>C37: every share that is handed out is short enough to be accepted back. However the secret, the profile and the
  random bytes are chosen, a share has at most \<open>SHARE_ENVELOPE_MAX_CHARS\<close> bytes.\<close>

theorem split_shares_fit:
  assumes crates: "url_format_ok C" "url_size_ok C" "hex_format_ok C" "json_size_ok C" "tag_size_ok C"
    and rnd: "random_ok random_bytes"
    and loaded: "validate_sharing_profiles C loaded hash_for derive inputs = Inr st" "sharing_get st n = Some (pr_profile q)"
    and answered: "share_split C random_bytes rng q = Inr out"
  shows "list_all (\<lambda>x. str_len x \<le> SHARE_ENVELOPE_MAX_CHARS) (sso_shares out)"
proof -
  obtain bs raws where bs: "random_bytes SHARING_SET_ID_BYTES = Inr bs"
    and sh: "try_map (encode_share C (pr_profile q) (url_encode C bs)) raws = Inr (sso_shares out)"
    using answered by (auto simp: share_split_def new_set_id_def bindR_eq_Inr)
  then show ?thesis
    using share_fits [OF crates loaded _ random_length [OF rnd bs]] try_map_list_all2 [OF sh]
    by (auto simp: list_all_iff dest: list_all2_in2)
qed

theorem split_shares_fit_witness:
  "\<exists>out. share_split commit_crates fixed_random zero_rng \<lparr>pr_kid = example_kid, pr_profile = example_sharing_profile,
       pr_input = \<lparr>ssi_profile = lit ''k'', ssi_plaintext = lit ''S''\<rparr>\<rparr> = Inr out \<and>
     length (sso_shares out) = 3 \<and> list_all (\<lambda>x. str_len x \<le> SHARE_ENVELOPE_MAX_CHARS) (sso_shares out)"
proof -
  let ?q = "\<lparr>pr_kid = example_kid, pr_profile = example_sharing_profile,
    pr_input = \<lparr>ssi_profile = lit ''k'', ssi_plaintext = lit ''S''\<rparr>\<rparr>"
  have k: "create_kmac_with_algorithm commit_crates = (\<lambda>_ _ _ _. Inr [4])" "json_size_ok commit_crates"
    using url_crates_ok(4) by (simp_all add: commit_crates_def json_size_ok_def)
      (simp add: url_crates_def vault_crates_def example_crates_def)
  obtain out where run: "share_split commit_crates fixed_random zero_rng ?q = Inr out" "length (sso_shares out) = 3"
    using zero_shares [OF zero_encode [OF commit_crates_ok(1) k(1)]] by simp
  have "sharing_get (sharing_from_profiles [example_sharing_profile]) (lit ''k'') = Some (pr_profile ?q)"
    by (simp add: example_sharing_get)
  from split_shares_fit [OF commit_crates_ok(2,3,5) k(2) commit_crates_ok(6) fixed_random_ok example_sharing_load this run(1)]
  show ?thesis using run by blast
qed

end
