(* ===== verification/Index_Ops.thy ===== *)
theory Index_Ops
  imports Profile_Ops
begin

text \<open>
  \<open>src/ops/indexes.rs\<close>: requests on blind indexes. The index of a value is its authentication code under a MAC profile;
  creating one gives the row to store, verifying one asks whether its row is stored.
\<close>

definition INTERNAL_INDEX_BATCH :: nat where "INTERNAL_INDEX_BATCH = 128"

record index_verify_input =
  xv_kid :: ustr
  xv_input :: plain_input

record index_verify_batch_input =
  xvb_kid :: ustr
  xvb_batch :: plain_batch_input

record index_create_output =
  xo_ref :: ustr
  xo_kid :: ustr
  xo_profile :: ustr
  xo_digest :: ustr

record index_create_batch_output =
  xbo_kid :: ustr
  xbo_profile :: ustr
  xbo_items :: "(ustr \<times> ustr) list"

record index_verify_output =
  xvo_ref :: ustr
  xvo_kid :: ustr
  xvo_profile :: ustr
  xvo_matched :: bool
  xvo_digest :: ustr

text \<open>The items of a verified batch are a reference, whether it matched, and the index.\<close>

record index_verify_batch_output =
  xvbo_kid :: ustr
  xvbo_profile :: ustr
  xvbo_items :: "(ustr \<times> bool \<times> ustr) list"

definition index_verify_of_json :: "json \<Rightarrow> index_verify_input option" where
  "index_verify_of_json v =
     (case request_struct [lit ''ref'', lit ''kid'', lit ''profile'', lit ''plaintext''] None v of
        Some ([r, kid, profile, plain], _) \<Rightarrow>
          Option.bind (as_str r) (\<lambda>r. Option.bind (as_str kid) (\<lambda>kid. Option.bind (as_str profile) (\<lambda>profile.
          Option.bind (as_str plain) (\<lambda>plain.
            Some \<lparr>xv_kid = kid, xv_input = \<lparr>pn_profile = profile, pn_item = \<lparr>pi_ref = r, pi_plaintext = plain\<rparr>\<rparr>\<rparr>))))
      | _ \<Rightarrow> None)"

definition index_verify_batch_of_json :: "json \<Rightarrow> index_verify_batch_input option" where
  "index_verify_batch_of_json v =
     (case request_struct [lit ''kid'', lit ''profile'', lit ''items''] None v of
        Some ([kid, profile, items], _) \<Rightarrow>
          Option.bind (as_str kid) (\<lambda>kid. Option.bind (as_str profile) (\<lambda>profile.
          Option.bind (items_of_json plain_item_of_json items) (\<lambda>items.
            Some \<lparr>xvb_kid = kid, xvb_batch = \<lparr>pb_profile = profile, pb_items = items\<rparr>\<rparr>)))
      | _ \<Rightarrow> None)"

definition index_parse_create_input :: "(json \<Rightarrow> ustr) \<Rightarrow> json \<Rightarrow> plain_input result" where
  "index_parse_create_input serde_error req = parse_json_request serde_error plain_input_of_json req (lit ''index request'')"

definition index_parse_verify_input :: "(json \<Rightarrow> ustr) \<Rightarrow> json \<Rightarrow> index_verify_input result" where
  "index_parse_verify_input serde_error req = parse_json_request serde_error index_verify_of_json req (lit ''index request'')"

definition index_parse_batch_input :: "(json \<Rightarrow> ustr) \<Rightarrow> json \<Rightarrow> plain_batch_input result" where
  "index_parse_batch_input serde_error req =
     bindR (reject_oversized_value req INTERNAL_INDEX_BATCH (lit ''index'')) (\<lambda>_.
       parse_json_request serde_error plain_batch_of_json req (lit ''index request''))"

definition index_parse_verify_batch_input :: "(json \<Rightarrow> ustr) \<Rightarrow> json \<Rightarrow> index_verify_batch_input result" where
  "index_parse_verify_batch_input serde_error req =
     bindR (reject_oversized_value req INTERNAL_INDEX_BATCH (lit ''index'')) (\<lambda>_.
       parse_json_request serde_error index_verify_batch_of_json req (lit ''index request''))"

definition index_validate_create_input :: "plain_input \<Rightarrow> plain_input result" where
  "index_validate_create_input i = validate_plain_input i"

definition index_validate_verify_input :: "index_verify_input \<Rightarrow> index_verify_input result" where
  "index_validate_verify_input i =
     (let j = xv_input i in
      bindR (validate_ref (pi_ref (pn_item j))) (\<lambda>ref_id.
      bindR (validate_kid_field (xv_kid i)) (\<lambda>_.
      bindR (validate_aad_config_name (lit ''profile'') (pn_profile j)) (\<lambda>_.
      bindR (validate_text_field (lit ''plaintext'') (pi_plaintext (pn_item j))) (\<lambda>_.
        Inr (i\<lparr>xv_input := j\<lparr>pn_item := (pn_item j)\<lparr>pi_ref := ref_id\<rparr>\<rparr>\<rparr>))))))"

definition index_validate_batch_input :: "plain_batch_input \<Rightarrow> plain_batch_input result" where
  "index_validate_batch_input i = validate_plain_batch INTERNAL_INDEX_BATCH (lit ''index'') i"

definition index_validate_verify_batch_input :: "index_verify_batch_input \<Rightarrow> index_verify_batch_input result" where
  "index_validate_verify_batch_input i =
     bindR (validate_kid_field (xvb_kid i)) (\<lambda>_.
     bindR (validate_plain_batch INTERNAL_INDEX_BATCH (lit ''index'') (xvb_batch i)) (\<lambda>batch.
       Inr (i\<lparr>xvb_batch := batch\<rparr>)))"

definition index_prepare_create ::
    "keys_db_state \<Rightarrow> ustr \<Rightarrow> mac_profile \<Rightarrow> plain_input \<Rightarrow> (mac_profile, plain_input) prepared result" where
  "index_prepare_create st kid profile i =
     bindR (prepare_profile_use st kid (mc_kid profile) (lit ''index'') NewUse) (\<lambda>_.
       Inr \<lparr>pr_kid = kid, pr_profile = profile, pr_input = i\<rparr>)"

definition index_prepare_verify ::
    "keys_db_state \<Rightarrow> mac_profile \<Rightarrow> index_verify_input \<Rightarrow> (mac_profile, index_verify_input) prepared result" where
  "index_prepare_verify st profile i =
     bindR (prepare_profile_use st (xv_kid i) (mc_kid profile) (lit ''index'') Verify) (\<lambda>_.
       Inr \<lparr>pr_kid = xv_kid i, pr_profile = profile, pr_input = i\<rparr>)"

definition index_prepare_create_batch ::
    "keys_db_state \<Rightarrow> ustr \<Rightarrow> mac_profile \<Rightarrow> plain_batch_input \<Rightarrow> (mac_profile, plain_batch_input) prepared result" where
  "index_prepare_create_batch st kid profile i =
     bindR (prepare_profile_use st kid (mc_kid profile) (lit ''index'') NewUse) (\<lambda>_.
       Inr \<lparr>pr_kid = kid, pr_profile = profile, pr_input = i\<rparr>)"

definition index_prepare_verify_batch ::
    "keys_db_state \<Rightarrow> mac_profile \<Rightarrow> index_verify_batch_input \<Rightarrow> (mac_profile, index_verify_batch_input) prepared result" where
  "index_prepare_verify_batch st profile i =
     bindR (prepare_profile_use st (xvb_kid i) (mc_kid profile) (lit ''index'') Verify) (\<lambda>_.
       Inr \<lparr>pr_kid = xvb_kid i, pr_profile = profile, pr_input = i\<rparr>)"

definition index_create ::
    "crates \<Rightarrow> (mac_profile, plain_input) prepared \<Rightarrow> (index_row \<times> index_create_output) result" where
  "index_create C p =
     bindR (compute_digest C (pr_profile p) (pi_plaintext (pn_item (pr_input p)))) (\<lambda>tag.
     let digest = hex_encode C tag in
       Inr (\<lparr>ix_kid = pr_kid p, ix_digest = digest\<rparr>,
            \<lparr>xo_ref = pi_ref (pn_item (pr_input p)), xo_kid = pr_kid p, xo_profile = pn_profile (pr_input p),
             xo_digest = digest\<rparr>))"

definition index_batch_digests :: "crates \<Rightarrow> mac_profile \<Rightarrow> plain_item list \<Rightarrow> ustr list result" where
  "index_batch_digests C profile items =
     batch_map (\<lambda>_ item. bindR (compute_digest C profile (pi_plaintext item)) (\<lambda>tag. Inr (hex_encode C tag))) 0 items"

definition index_create_batch ::
    "crates \<Rightarrow> (mac_profile, plain_batch_input) prepared \<Rightarrow> (index_row list \<times> index_create_batch_output) result" where
  "index_create_batch C p =
     bindR (index_batch_digests C (pr_profile p) (pb_items (pr_input p))) (\<lambda>digests.
       Inr (map (\<lambda>digest. \<lparr>ix_kid = pr_kid p, ix_digest = digest\<rparr>) digests,
            \<lparr>xbo_kid = pr_kid p, xbo_profile = pb_profile (pr_input p),
             xbo_items = zip (map pi_ref (pb_items (pr_input p))) digests\<rparr>))"

definition index_verify :: "(mac_profile, index_verify_input) prepared \<Rightarrow> ustr \<Rightarrow> bool \<Rightarrow> index_verify_output" where
  "index_verify p digest matched =
     \<lparr>xvo_ref = pi_ref (pn_item (xv_input (pr_input p))), xvo_kid = pr_kid p, xvo_profile = pn_profile (xv_input (pr_input p)),
      xvo_matched = matched, xvo_digest = digest\<rparr>"

definition index_verify_batch ::
    "(mac_profile, index_verify_batch_input) prepared \<Rightarrow> ustr list \<Rightarrow> bool list \<Rightarrow> index_verify_batch_output result" where
  "index_verify_batch p digests matches =
     (let items = pb_items (xvb_batch (pr_input p)) in
      if length digests \<noteq> length items \<or> length matches \<noteq> length items
      then Inl (internal (lit ''index batch match count is invalid''))
      else Inr \<lparr>xvbo_kid = pr_kid p, xvbo_profile = pb_profile (xvb_batch (pr_input p)),
                xvbo_items = zip (map pi_ref items) (zip matches digests)\<rparr>)"

definition index_digest :: "crates \<Rightarrow> (mac_profile, index_verify_input) prepared \<Rightarrow> ustr result" where
  "index_digest C p =
     bindR (compute_digest C (pr_profile p) (pi_plaintext (pn_item (xv_input (pr_input p))))) (\<lambda>tag. Inr (hex_encode C tag))"

end
