(* ===== verification/Index_Endpoints.thy ===== *)
theory Index_Endpoints
  imports Profile_Endpoints Index_Ops
begin

text \<open>
  \<open>src/io/http/indexes.rs\<close>: the handlers of blind indexes, in the two forms of \<open>Profile_Endpoints\<close>. The last step
  computes the index in a blocking task and stores it, or asks the table for it.
\<close>

definition index_create_endpoint ::
    "crates \<Rightarrow> ciphers \<Rightarrow> profile_env \<Rightarrow> u8 list option \<Rightarrow> ustr \<Rightarrow> json \<Rightarrow> (http_error, index_create_output) hop" where
  "index_create_endpoint C E env header kid v =
     path_endpoint C E (pv_http env) ''index-create'' ''index.create'' header kid
       (bindR (index_parse_create_input (he_serde_error (pv_http env)) v) index_validate_create_input)
       (\<lambda>i. found_profile ''mac profile not found'' (mac_get (pv_mac env) (pn_profile i))) (\<lambda>profile _. retS profile)
       (\<lambda>st profile i. index_prepare_create st kid profile i)
       (\<lambda>p. bindS (spawn_blocking_crypto (pv_http env) (index_create C p)) (\<lambda>(row, out).
         bindS (on_storage (save_index (he_storage_env (pv_http env)) (ix_kid row) (ix_digest row))) (\<lambda>_. retS out)))"

definition index_create_batch_endpoint ::
    "crates \<Rightarrow> ciphers \<Rightarrow> profile_env \<Rightarrow> u8 list option \<Rightarrow> ustr \<Rightarrow> json \<Rightarrow> (http_error, index_create_batch_output) hop" where
  "index_create_batch_endpoint C E env header kid v =
     path_endpoint C E (pv_http env) ''index-create'' ''index.create.batch'' header kid
       (bindR (index_parse_batch_input (he_serde_error (pv_http env)) v) index_validate_batch_input)
       (\<lambda>i. found_profile ''mac profile not found'' (mac_get (pv_mac env) (pb_profile i))) (\<lambda>profile _. retS profile)
       (\<lambda>st profile i. index_prepare_create_batch st kid profile i)
       (\<lambda>p. bindS (spawn_blocking_crypto (pv_http env) (index_create_batch C p)) (\<lambda>(rows, out).
         bindS (on_storage (save_indexes_batch (he_storage_env (pv_http env)) rows)) (\<lambda>_. retS out)))"

definition index_verify_endpoint ::
    "crates \<Rightarrow> ciphers \<Rightarrow> profile_env \<Rightarrow> u8 list option \<Rightarrow> json \<Rightarrow> (http_error, index_verify_output) hop" where
  "index_verify_endpoint C E env header v =
     body_endpoint C E (pv_http env) ''index-verify'' ''index.verify'' False header
       (bindR (index_parse_verify_input (he_serde_error (pv_http env)) v) index_validate_verify_input) xv_kid
       (\<lambda>i. found_profile ''mac profile not found'' (mac_get (pv_mac env) (pn_profile (xv_input i)))) (\<lambda>profile _. retS profile)
       index_prepare_verify
       (\<lambda>p. bindS (spawn_blocking_crypto (pv_http env) (index_digest C p)) (\<lambda>digest.
         bindS (on_storage (index_exists (he_storage_env (pv_http env)) (xv_kid (pr_input p)) digest)) (\<lambda>matched.
           retS (index_verify p digest matched))))"

definition index_verify_batch_endpoint ::
    "crates \<Rightarrow> ciphers \<Rightarrow> profile_env \<Rightarrow> u8 list option \<Rightarrow> json \<Rightarrow> (http_error, index_verify_batch_output) hop" where
  "index_verify_batch_endpoint C E env header v =
     body_endpoint C E (pv_http env) ''index-verify'' ''index.verify.batch'' False header
       (bindR (index_parse_verify_batch_input (he_serde_error (pv_http env)) v) index_validate_verify_batch_input) xvb_kid
       (\<lambda>i. found_profile ''mac profile not found'' (mac_get (pv_mac env) (pb_profile (xvb_batch i)))) (\<lambda>profile _. retS profile)
       index_prepare_verify_batch
       (\<lambda>p. bindS (spawn_blocking_crypto (pv_http env)
                     (index_batch_digests C (pr_profile p) (pb_items (xvb_batch (pr_input p))))) (\<lambda>digests.
         bindS (on_storage (indexes_matching (he_storage_env (pv_http env)) (xvb_kid (pr_input p)) digests)) (\<lambda>present.
           liftS (index_verify_batch p digests (map (\<lambda>digest. digest \<in> present) digests)))))"

section \<open>The service\<close>

datatype index_request =
    IndexCreate ustr json
  | IndexCreateBatch ustr json
  | IndexVerify json
  | IndexVerifyBatch json

datatype index_answer =
    IndexCreated index_create_output
  | IndexBatchCreated index_create_batch_output
  | IndexVerified index_verify_output
  | IndexBatchVerified index_verify_batch_output

fun index_action :: "index_request \<Rightarrow> ustr" where
  "index_action (IndexCreate _ _) = lit ''index-create''"
| "index_action (IndexCreateBatch _ _) = lit ''index-create''"
| "index_action (IndexVerify _) = lit ''index-verify''"
| "index_action (IndexVerifyBatch _) = lit ''index-verify''"

definition handle_index ::
    "crates \<Rightarrow> ciphers \<Rightarrow> profile_env \<Rightarrow> u8 list option \<Rightarrow> index_request \<Rightarrow> (http_error, index_answer) hop" where
  "handle_index C E env header r =
     (case r of
        IndexCreate kid v \<Rightarrow> bindS (index_create_endpoint C E env header kid v) (\<lambda>x. retS (IndexCreated x))
      | IndexCreateBatch kid v \<Rightarrow> bindS (index_create_batch_endpoint C E env header kid v) (\<lambda>x. retS (IndexBatchCreated x))
      | IndexVerify v \<Rightarrow> bindS (index_verify_endpoint C E env header v) (\<lambda>x. retS (IndexVerified x))
      | IndexVerifyBatch v \<Rightarrow> bindS (index_verify_batch_endpoint C E env header v) (\<lambda>x. retS (IndexBatchVerified x)))"

end
