(* ===== verification/Index_Guarantees.thy ===== *)
theory Index_Guarantees
  imports Profile_Guarantees Index_Endpoints
begin

text \<open>
  Blind indexes as the clients of the service see them: a value matches exactly when the index of its code is stored
  under the key, creating an index stores it, and no request changes anything but the indexes of a key its client may
  use.
\<close>

section \<open>What a request changes\<close>

text \<open>Only indexes are added, and only of one key id.\<close>

definition only_index :: "ustr \<Rightarrow> database \<Rightarrow> database \<Rightarrow> bool" where
  "only_index kid db db' \<longleftrightarrow>
     db_opskeys db' = db_opskeys db \<and> db_tokens db' = db_tokens db \<and> db_subjects db' = db_subjects db \<and>
     set (db_indexes db) \<subseteq> set (db_indexes db') \<and>
     filter (\<lambda>r. ix_kid r \<noteq> kid) (db_indexes db') = filter (\<lambda>r. ix_kid r \<noteq> kid) (db_indexes db)"

lemma only_index_refl: "only_index kid db db"
  by (simp add: only_index_def)

lemma only_index_trans: "only_index kid a b \<Longrightarrow> only_index kid b c \<Longrightarrow> only_index kid a c"
  by (auto simp: only_index_def)

lemma inserted_indexes:
  assumes "list_all (\<lambda>r. ix_kid r = kid) rows" "adds_indexes rows db db'"
  shows "only_index kid db db'" "index_key ` set rows \<subseteq> index_key ` set (db_indexes db')"
proof -
  let ?ins = "foldl (\<lambda>ixs r. if index_key r \<in> index_key ` set ixs then ixs else ixs @ [r])"
  have step: "set xs \<subseteq> set (?ins xs rows)" for xs rows
    by (induction rows arbitrary: xs) (simp, (fastforce split: if_splits)+)
  have "filter (\<lambda>r. ix_kid r \<noteq> kid) (?ins xs rows) = filter (\<lambda>r. ix_kid r \<noteq> kid) xs"
    if "list_all (\<lambda>r. ix_kid r = kid) rows" for xs rows
    using that by (induction rows arbitrary: xs) auto
  moreover have "db' = db\<lparr>db_indexes := ?ins (db_indexes db) rows\<rparr>"
    using assms(2) by (simp add: adds_indexes_def sql_insert_indexes_def)
  ultimately show "only_index kid db db'"
    using assms(1) step [of "db_indexes db" rows] by (simp add: only_index_def)
  have "index_key ` set rows \<subseteq> index_key ` set (?ins xs rows)" for xs rows
  proof (induction rows arbitrary: xs)
    case (Cons r rows)
    let ?xs = "if index_key r \<in> index_key ` set xs then xs else xs @ [r]"
    have "index_key r \<in> index_key ` set ?xs" by auto
    moreover have "index_key ` set ?xs \<subseteq> index_key ` set (?ins ?xs rows)" by (rule image_mono [OF step])
    moreover have "?ins xs (r # rows) = ?ins ?xs rows" by simp
    ultimately show ?case using Cons [of ?xs] by (simp only: list.set image_insert) blast
  qed simp
  then show "index_key ` set rows \<subseteq> index_key ` set (db_indexes db')"
    using assms(2) unfolding adds_indexes_def sql_insert_indexes_def by fastforce
qed

lemma stores_indexes:
  assumes "list_all (\<lambda>r. ix_kid r = kid) rows"
  shows "scoped_on only_index kid (on_storage (save_indexes_batch env rows))"
    "\<And>digest. scoped_on only_index kid (on_storage (save_index env kid digest))"
proof -
  have save: "only_index kid (sd_db d) (sd_db (fst (save_indexes_batch env rows d)))"
    if "list_all (\<lambda>r. ix_kid r = kid) rows" for rows d
    using indexing.outcome [of env rows d, OF surjective_pairing] inserted_indexes(1) [OF that] only_index_refl
    by (auto simp: adds_valid_indexes_def)
  then show "scoped_on only_index kid (on_storage (save_indexes_batch env rows))"
    using save [OF assms] by (auto simp: scoped_on_def on_storage_def split: prod.splits) (metis fst_conv)
  show "scoped_on only_index kid (on_storage (save_index env kid digest))" for digest
    using save [of "[\<lparr>ix_kid = kid, ix_digest = digest\<rparr>]"] save_index_batch [of env kid digest]
    by (auto simp: scoped_on_def on_storage_def split: prod.splits) (metis fst_conv)
qed

text \<open>The last steps of the handlers.\<close>

abbreviation create_step :: "crates \<Rightarrow> http_env \<Rightarrow> (mac_profile, plain_input) prepared \<Rightarrow> (dyn_error, index_create_output) hop" where
  "create_step C env p \<equiv> bindS (spawn_blocking_crypto env (index_create C p)) (\<lambda>(row, out).
     bindS (on_storage (save_index (he_storage_env env) (ix_kid row) (ix_digest row))) (\<lambda>_. retS out))"

abbreviation create_batch_step ::
    "crates \<Rightarrow> http_env \<Rightarrow> (mac_profile, plain_batch_input) prepared \<Rightarrow> (dyn_error, index_create_batch_output) hop" where
  "create_batch_step C env p \<equiv> bindS (spawn_blocking_crypto env (index_create_batch C p)) (\<lambda>(rows, out).
     bindS (on_storage (save_indexes_batch (he_storage_env env) rows)) (\<lambda>_. retS out))"

abbreviation verify_step :: "crates \<Rightarrow> http_env \<Rightarrow> (mac_profile, index_verify_input) prepared \<Rightarrow> (dyn_error, index_verify_output) hop" where
  "verify_step C env p \<equiv> bindS (spawn_blocking_crypto env (index_digest C p)) (\<lambda>digest.
     bindS (on_storage (index_exists (he_storage_env env) (xv_kid (pr_input p)) digest)) (\<lambda>matched.
       retS (index_verify p digest matched)))"

abbreviation verify_batch_step ::
    "crates \<Rightarrow> http_env \<Rightarrow> (mac_profile, index_verify_batch_input) prepared \<Rightarrow> (dyn_error, index_verify_batch_output) hop" where
  "verify_batch_step C env p \<equiv>
     bindS (spawn_blocking_crypto env (index_batch_digests C (pr_profile p) (pb_items (xvb_batch (pr_input p))))) (\<lambda>digests.
     bindS (on_storage (indexes_matching (he_storage_env env) (xvb_kid (pr_input p)) digests)) (\<lambda>present.
       liftS (index_verify_batch p digests (map (\<lambda>digest. digest \<in> present) digests))))"

lemma silent_prod: "(\<And>a b. silent (f a b)) \<Longrightarrow> silent (case x of (a, b) \<Rightarrow> f a b)"
  by (cases x) simp

lemma index_steps_silent:
  "silent (create_step C env p)" "silent (create_batch_step C env q)" "silent (verify_step C env x)" "silent (verify_batch_step C env y)"
  by (rule handler_intros silent_prod)+

lemma scoped_on_stored:
  assumes R: "\<And>db. R kid db db" "\<And>a b c. R kid a b \<Longrightarrow> R kid b c \<Longrightarrow> R kid a c"
    and store: "\<And>x. g = Inr x \<Longrightarrow> scoped_on R kid (on_storage (m x))"
  shows "scoped_on R kid (bindS (spawn_blocking_crypto env g) (\<lambda>x. bindS (on_storage (m x)) (\<lambda>_. retS (out x))))"
proof (rule scoped_on_bind_returns [where R = R and kid = kid and P = "\<lambda>x. g = Inr x"], rule R(2), assumption+)
  show "scoped_on R kid (spawn_blocking_crypto env g)" by (intro frozen_scoped_on R(1) frozen_intros)
  show "returns (spawn_blocking_crypto env g) (\<lambda>x. g = Inr x)" by (rule returns_intros)
  fix x assume "g = Inr x"
  then show "scoped_on R kid (bindS (on_storage (m x)) (\<lambda>_. retS (out x)))"
    using R(2) store frozen_scoped_on [of R kid "retS (out x)", OF R(1) frozen_intros(1)]
    by (rule_tac scoped_on_bind_returns [where R = R and kid = kid and P = "\<lambda>_. True"]) (auto simp: returns_def)
qed

lemma index_steps_scoped:
  "pr_kid p = kid \<Longrightarrow> scoped_on only_index kid (create_step C env p)"
  "pr_kid q = kid \<Longrightarrow> scoped_on only_index kid (create_batch_step C env q)"
proof -
  show "scoped_on only_index kid (create_step C env p)" if "pr_kid p = kid"
    unfolding case_prod_beta
    by (rule scoped_on_stored [of only_index kid, OF only_index_refl only_index_trans])
      (use that stores_indexes(2) [of kid "[]"] in \<open>auto simp: index_create_def Let_def bindR_eq_Inr\<close>)
  show "scoped_on only_index kid (create_batch_step C env q)" if "pr_kid q = kid"
    unfolding case_prod_beta
    by (rule scoped_on_stored [of only_index kid, OF only_index_refl only_index_trans])
      (use that in \<open>auto intro!: stores_indexes(1) simp: index_create_batch_def list_all_iff bindR_eq_Inr\<close>)
qed

interpretation index_creating: silent_steps "\<lambda>p i. retS p" "\<lambda>q. create_step C env q" for C env
  by unfold_locales (rule index_steps_silent handler_intros)+

interpretation index_batch_creating: silent_steps "\<lambda>p i. retS p" "\<lambda>q. create_batch_step C env q" for C env
  by unfold_locales (rule index_steps_silent handler_intros)+

lemma index_steps_frozen: "frozen (verify_step C env x)" "frozen (verify_batch_step C env y)"
  by (intro frozen_bind frozen_intros frozen_reads reads_operations)+

interpretation index_verifying: handler_steps "\<lambda>p i. retS p" "\<lambda>q. verify_step C env q" for C env
  by unfold_locales (rule index_steps_silent handler_intros frozen_intros index_steps_frozen)+

interpretation index_batch_verifying: handler_steps "\<lambda>p i. retS p" "\<lambda>q. verify_batch_step C env q" for C env
  by unfold_locales (rule index_steps_silent handler_intros frozen_intros index_steps_frozen)+

lemmas index_endpoint_defs = index_create_endpoint_def index_create_batch_endpoint_def index_verify_endpoint_def
  index_verify_batch_endpoint_def

lemma handle_index_audited: "audited (handle_index C E env header r)"
  unfolding handle_index_def answering_def [symmetric]
  by (cases r) (simp_all only: index_request.case index_endpoint_defs, (rule audited_answering,
    rule index_creating.path_audited index_batch_creating.path_audited index_verifying.body_audited index_batch_verifying.body_audited)+)

lemma handle_index_discreet: "discreet (handle_index C E env header r)"
  unfolding handle_index_def
  by (cases r) (simp_all only: index_request.case index_endpoint_defs,
    (rule discreet_bind, rule path_discreet body_discreet, rule discreet_intros)+)

lemma index_prepared:
  "index_prepare_create st kid profile i = Inr p \<Longrightarrow> pr_kid p = kid"
  "index_prepare_create_batch st kid profile j = Inr q \<Longrightarrow> pr_kid q = kid"
  by (auto simp: index_prepare_create_def index_prepare_create_batch_def bindR_eq_Inr)

lemma handle_index_granted:
  "granted_on only_index (\<lambda>kid. \<exists>client. authenticates C (pv_http env) header client \<and>
      require_permission (he_permissions (pv_http env)) client (Some kid) (index_action r) = Inr ())
    (handle_index C E env header r)"
proof (cases r)
  case (IndexCreate kid v)
  show ?thesis
    unfolding IndexCreate handle_index_def answering_def [symmetric] index_request.case index_action.simps
    unfolding index_create_endpoint_def
    by (rule granted_answering, rule path_granted_on [where R = only_index])
      (rule only_index_refl frozen_intros index_steps_scoped index_prepared | assumption | erule (1) only_index_trans)+
next
  case (IndexCreateBatch kid v)
  show ?thesis
    unfolding IndexCreateBatch handle_index_def answering_def [symmetric] index_request.case index_action.simps
    unfolding index_create_batch_endpoint_def
    by (rule granted_answering, rule path_granted_on [where R = only_index])
      (rule only_index_refl frozen_intros index_steps_scoped index_prepared | assumption | erule (1) only_index_trans)+
next
  case (IndexVerify v)
  show ?thesis
    unfolding IndexVerify handle_index_def answering_def [symmetric] index_request.case index_action.simps
    unfolding index_verify_endpoint_def
    by (rule granted_answering, rule body_granted_on [where R = only_index])
      (rule only_index_refl frozen_intros frozen_scoped_on index_steps_frozen | assumption | erule (1) only_index_trans)+
next
  case (IndexVerifyBatch v)
  show ?thesis
    unfolding IndexVerifyBatch handle_index_def answering_def [symmetric] index_request.case index_action.simps
    unfolding index_verify_batch_endpoint_def
    by (rule granted_answering, rule body_granted_on [where R = only_index])
      (rule only_index_refl frozen_intros frozen_scoped_on index_steps_frozen | assumption | erule (1) only_index_trans)+
qed

section \<open>Runs of the handlers\<close>

lemma index_fields_valid:
  assumes "hex_format_ok C" "tag_size_ok C" "compute_digest C p plain = Inr tag" "validate_key_id kid = Inr ()"
  shows "validate_index_fields kid (hex_encode C tag) = Inr ()"
proof -
  have t: "0 < length tag" "length tag \<le> 64"
    using keyed_tag_size [OF assms(2)] assms(3) unfolding compute_digest_def by blast+
  have "length (hex_encode C tag) = 2 * length tag" "list_all is_lower_hexdigit (hex_encode C tag)"
    using assms(1) by (simp_all add: hex_format_ok_def)
  moreover have "is_lower_hexdigit c \<Longrightarrow> is_ascii c" for c by (auto simp: char_simps)
  ultimately have "str_len (hex_encode C tag) = 2 * length tag" using str_len_ascii by (simp add: list_all_iff)
  moreover have "validate_storage_kid f kid = Inr ()" for f
    using assms(4) by (simp add: validate_storage_kid_def validate_key_id_ok validate_hash_hex_field_ok)
  ultimately show ?thesis
    using t hex_tag_valid [OF assms(1) t(1)]
    by (simp add: validate_index_fields_def validate_index_digest_def STORAGE_INDEX_DIGEST_MAX_CHARS_def)
qed

lemma selected_indexes: "filter (\<lambda>r. ix_kid r = kid \<and> ix_digest r = digest) ixs \<noteq> [] \<longleftrightarrow> (kid, digest) \<in> index_key ` set ixs"
  by (force simp: filter_empty_conv)

lemma yields_verify_step:
  assumes "reliable (he_storage_env env)" "he_admission env = (\<lambda>_. None)"
    and digest: "index_digest C q = Inr digest" "validate_index_fields (xv_kid (pr_input q)) digest = Inr ()"
  shows "yields (verify_step C env q) (db, K)
      (index_verify q digest ((xv_kid (pr_input q), digest) \<in> index_key ` set (db_indexes db))) (db, K)"
proof -
  let ?kid = "xv_kid (pr_input q)"
  have "yields (on_storage (index_exists (he_storage_env env) ?kid digest)) (db, K)
      ((?kid, digest) \<in> index_key ` set (db_indexes db)) (db, K)"
    using assms(1) digest(2) selected_indexes
    by (intro yields_on_storage) (simp add: index_exists_def sqlite_index_exists_def bindS_def liftS_def retS_def
        reliable_request sql_select_indexes_def)
  then show ?thesis
    by (intro yields_bind [OF yields_task [OF assms(2) digest(1)]] yields_bind [OF _ yields_intros(1)])
qed

lemma save_index_Inr:
  "save_index env kid digest d = (d', Inr row) \<Longrightarrow> row = \<lparr>ix_kid = kid, ix_digest = digest\<rparr> \<and> adds_indexes [row] (sd_db d) (sd_db d')"
  by (auto simp: save_index_def sqlite_save_index_def sop_simps Let_def adds_indexes_def sql_insert_indexes_def result_simps)

lemma index_createE:
  assumes "index_create_endpoint C E env header kid v s = (s', Inr out)" "plain_input_of_json v = Some i"
  obtains p tag where "validate_aad_config_name (lit ''profile'') (pn_profile i) = Inr ()"
    "mac_get (pv_mac env) (pn_profile i) = Some p" "mc_kid p = kid"
    "compute_digest C p (pi_plaintext (pn_item i)) = Inr tag"
    "out = \<lparr>xo_ref = pi_ref (pn_item i), xo_kid = kid, xo_profile = pn_profile i, xo_digest = hex_encode C tag\<rparr>"
    "(kid, hex_encode C tag) \<in> index_key ` set (db_indexes (sd_db (hs_storage s')))"
proof -
  from assms(1) obtain s1 s2 j p q where
      j: "bindR (index_parse_create_input (he_serde_error (pv_http env)) v) index_validate_create_input = Inr j"
    and p: "found_profile ''mac profile not found'' (mac_get (pv_mac env) (pn_profile j)) = Inr p"
    and q: "index_prepare_create (hs_keys s1) kid p j = Inr q"
    and run: "create_step C (pv_http env) q s1 = (s2, Inr out)" "view s' = view s2"
    unfolding index_create_endpoint_def by (rule path_endpoint_run)
  note jv = plain_input_valid [OF j [unfolded index_parse_create_input_def index_validate_create_input_def]]
  have ji: "j = i" using jv(1) assms(2) by simp
  have qf: "q = \<lparr>pr_kid = kid, pr_profile = p, pr_input = i\<rparr>" "mc_kid p = kid"
    using q verify_after_new(2) [of "hs_keys s1" kid "mc_kid p"] by (auto simp: index_prepare_create_def bindR_unit_eq ji)
  from run(1) obtain s3 row where made: "index_create C q = Inr (row, out)"
    and saved: "on_storage (save_index (he_storage_env (pv_http env)) (ix_kid row) (ix_digest row)) s3 = (s2, Inr row)"
    by (auto simp: sop_simps dest!: spawn_Inr split: prod.splits)
      (auto simp: on_storage_def save_index_def sqlite_save_index_def sop_simps Let_def split: prod.splits)
  from saved have "index_key row \<in> index_key ` set (db_indexes (sd_db (hs_storage s2)))"
    using inserted_indexes(2) [of "ix_kid row" "[row]"] save_index_Inr
    by (fastforce simp: on_storage_def split: prod.splits)
  then show thesis
    using that jv(3) p qf made run(2) unfolding ji
    by (auto simp: index_create_def Let_def bindR_eq_Inr found_profile_def ok_or_eq_Inr view_def)
qed

section \<open>An example\<close>

text \<open>The environment of the profile services with one MAC profile, whose codes depend on the value.\<close>

definition index_crates :: crates where
  "index_crates = commit_crates\<lparr>create_kmac_with_algorithm := \<lambda>_ _ _ m. Inr (take 64 (4 # m))\<rparr>"

definition example_mac :: mac_profile where
  "example_mac = \<lparr>mc_name = lit ''k'', mc_kid = example_kid, mc_context = lit ''a=b'', mc_public_algorithm = lit ''KMAC-256'',
     mc_botan_algorithm = lit ''KMAC-256(256)'', mc_customization = lit ''c'', mc_mac_key = replicate 32 7\<rparr>"

definition index_env :: profile_env where
  "index_env = profile_service_env\<lparr>pv_mac := mac_from_profiles [example_mac]\<rparr>"

definition index_request_of :: "string \<Rightarrow> json" where
  "index_request_of plain = JObject [(lit ''ref'', JString (lit ''2'')), (lit ''kid'', JString example_kid),
     (lit ''profile'', JString (lit ''k'')), (lit ''plaintext'', JString (lit plain))]"

definition example_digest :: "string \<Rightarrow> ustr" where
  "example_digest plain = hex_encode index_crates (take 64 (4 # utf8 (lit plain)))"

lemma index_crates_ok:
  "hex_codec_ok index_crates" "hex_format_ok index_crates" "tag_size_ok index_crates"
  "create_hmac_with_algorithm index_crates = (\<lambda>_ _ _. Inr (replicate 32 3))"
  "hex_encode index_crates = (\<lambda>bs. concat (map hex_byte bs))"
  "compute_digest index_crates example_mac (lit plain) = Inr (take 64 (4 # utf8 (lit plain)))"
  using commit_crates_ok(4-8)
  by (auto simp: index_crates_def hex_codec_ok_def hex_format_ok_def tag_size_ok_def compute_digest_def example_mac_def
      compute_keyed_tag_def is_kmac_algorithm_def starts_with_def lit_def)

lemma index_env_facts:
  "pv_http index_env = service_env" "mac_get (pv_mac index_env) (lit ''k'') = Some example_mac"
  by (simp_all add: index_env_def profile_service_facts mac_from_profiles_def mac_get_def index_by_name_def example_mac_def list_get_def)

lemma index_requests:
  "bindR (index_parse_create_input (he_serde_error service_env) commit_request) index_validate_create_input =
     Inr \<lparr>pn_profile = lit ''k'', pn_item = \<lparr>pi_ref = lit ''1'', pi_plaintext = lit ''4111''\<rparr>\<rparr>"
  "index_parse_verify_input (he_serde_error service_env) (index_request_of plain) =
     Inr \<lparr>xv_kid = example_kid, xv_input = \<lparr>pn_profile = lit ''k'', pn_item = \<lparr>pi_ref = lit ''2'', pi_plaintext = lit plain\<rparr>\<rparr>\<rparr>"
proof -
  have canon: "validate_canonical_json_value f commit_request = Inr ()"
      "validate_canonical_json_value f (index_request_of plain) = Inr ()" for f
    unfolding index_request_of_def commit_request_def
    by (rule canonical_object, simp add: SERDE_JSON_PRIVATE_KEY_PREFIX_def starts_with_def lit_def)+
  show "bindR (index_parse_create_input (he_serde_error service_env) commit_request) index_validate_create_input =
     Inr \<lparr>pn_profile = lit ''k'', pn_item = \<lparr>pi_ref = lit ''1'', pi_plaintext = lit ''4111''\<rparr>\<rparr>"
    using commit_requests(2)
    unfolding index_parse_create_input_def index_validate_create_input_def commit_parse_create_input_def commit_validate_create_input_def
      parse_json_request_def
    by (simp add: commit_requests(1) bindR_eq_Inr ok_or_eq_Inr canon)
  show "index_parse_verify_input (he_serde_error service_env) (index_request_of plain) =
     Inr \<lparr>xv_kid = example_kid, xv_input = \<lparr>pn_profile = lit ''k'', pn_item = \<lparr>pi_ref = lit ''2'', pi_plaintext = lit plain\<rparr>\<rparr>\<rparr>"
    by (simp add: index_parse_verify_input_def parse_json_request_def canon) (simp add: index_request_of_def index_verify_of_json_def lit_def)
qed

lemma yields_create_step:
  assumes "reliable (he_storage_env env)" "he_admission env = (\<lambda>_. None)"
    and row: "index_create C q = Inr (row, out)" "validate_index_row row = Inr ()"
  shows "yields (create_step C env q) (db, K) out
    (db\<lparr>db_indexes := if index_key row \<in> index_key ` set (db_indexes db) then db_indexes db else db_indexes db @ [row]\<rparr>, K)"
proof -
  have "yields (on_storage (save_index (he_storage_env env) (ix_kid row) (ix_digest row))) (db, K) row
    (db\<lparr>db_indexes := if index_key row \<in> index_key ` set (db_indexes db) then db_indexes db else db_indexes db @ [row]\<rparr>, K)"
    using assms(1) row(2)
    by (intro yields_on_storage) (simp add: save_index_def sqlite_save_index_def bindS_def liftS_def retS_def Let_def
        reliable_request sql_insert_indexes_def validate_index_row_def)
  then show ?thesis
    by (intro yields_bind [OF yields_task [OF assms(2) row(1)]]) (simp only: prod.case, rule yields_bind [OF _ yields_intros(1)])
qed

lemma index_created:
  "yields (index_create_endpoint index_crates vault_ciphers index_env service_header example_kid commit_request)
     (view service_state) \<lparr>xo_ref = lit ''1'', xo_kid = example_kid, xo_profile = lit ''k'', xo_digest = example_digest ''4111''\<rparr>
     (fst (view service_state)\<lparr>db_indexes := [\<lparr>ix_kid = example_kid, ix_digest = example_digest ''4111''\<rparr>]\<rparr>, hs_keys service_state)"
proof -
  let ?i = "\<lparr>pn_profile = lit ''k'', pn_item = \<lparr>pi_ref = lit ''1'', pi_plaintext = lit ''4111''\<rparr>\<rparr>"
  let ?q = "\<lparr>pr_kid = example_kid, pr_profile = example_mac, pr_input = ?i\<rparr>"
  let ?row = "\<lparr>ix_kid = example_kid, ix_digest = example_digest ''4111''\<rparr>"
  have prep: "index_prepare_create (snd (view service_state)) example_kid example_mac ?i = Inr ?q"
    using profile_service_facts(4) by (simp add: index_prepare_create_def view_def example_mac_def)
  have "validate_index_row ?row = Inr ()"
    using index_fields_valid [OF index_crates_ok(2,3,6) example_key_id] by (simp add: validate_index_row_def example_digest_def)
  moreover have "index_create index_crates ?q = Inr (?row, \<lparr>xo_ref = lit ''1'', xo_kid = example_kid, xo_profile = lit ''k'',
      xo_digest = example_digest ''4111''\<rparr>)"
    by (simp add: index_create_def index_crates_ok(6) example_digest_def Let_def)
  moreover have "db_indexes (fst (view service_state)) = []"
    by (simp add: view_def service_state_def empty_storage_def)
  ultimately have step: "yields (create_step index_crates service_env ?q) (view service_state)
      \<lparr>xo_ref = lit ''1'', xo_kid = example_kid, xo_profile = lit ''k'', xo_digest = example_digest ''4111''\<rparr>
      (fst (view service_state)\<lparr>db_indexes := [?row]\<rparr>, hs_keys service_state)"
    using yields_create_step [OF service_env_ok, of index_crates ?q ?row _ "fst (view service_state)" "hs_keys service_state"]
    by (simp add: view_def)
  show ?thesis
    unfolding index_create_endpoint_def index_env_facts(1)
    by (rule yields_path_any [where i = ?i and p = example_mac and q = ?q,
          OF profile_service_auth [OF index_crates_ok(4,1,5)] root_permission example_key_id _ index_requests(1)];
      (rule step prep | use service_context_facts(5) in \<open>simp add: view_def found_profile_def index_env_facts\<close>))
qed

section \<open>Properties\<close>

text \<open>C33: a blind index request is confined, audited and discreet. It either ends in an error and leaves storage, keys
  and admissions as they were, or its API key belongs to a client who may perform its action on a key id, and then the
  tables change only in that indexes of this key id are added; its last audit event says success exactly when the
  client is answered with a success, and an error answer has a status of the list and a public text.\<close>

theorem index_service_confined:
  "let (s', r) = handle_index C E env header q s in
     (untouched s s' \<and> isl r \<or>
      (\<exists>kid client. authenticates C (pv_http env) header client \<and>
         require_permission (he_permissions (pv_http env)) client (Some kid) (index_action q) = Inr () \<and>
         only_index kid (sd_db (hs_storage s)) (sd_db (hs_storage s')))) \<and>
     (\<exists>es. hs_audit s' = hs_audit s @ es \<and> es \<noteq> [] \<and> (ev_outcome (last es) = lit ''success'' \<longleftrightarrow> \<not> isl r)) \<and>
     (case r of
        Inl (status, message) \<Rightarrow>
          status \<in> {400, 401, 403, 404, 409, 413, 429, 500} \<and> 0 < length message \<and> length message \<le> 256 \<and>
          list_all (\<lambda>c. \<not> is_control c) message \<and>
          (if status = 500 then message \<in> {lit ''internal server error'',
             lit ''internal server error final app can'' @ [39] @ lit ''t be reached''} else True)
      | Inr _ \<Rightarrow> True)"
proof -
  obtain s' r where run: "handle_index C E env header q s = (s', r)" by fastforce
  have "untouched s s' \<and> isl r \<or>
      (\<exists>kid client. authenticates C (pv_http env) header client \<and>
         require_permission (he_permissions (pv_http env)) client (Some kid) (index_action q) = Inr () \<and>
         only_index kid (sd_db (hs_storage s)) (sd_db (hs_storage s')))"
    using handle_index_granted [of C env header q E] run unfolding granted_on_def by blast
  from conjI [OF this audited_public [OF handle_index_audited handle_index_discreet run]]
  show ?thesis unfolding run Let_def prod.case .
qed

text \<open>C32: a blind index matches exactly the stored values. After a client was answered with the index of a value, a
  verify request under the same profile, at any later time at which the index is stored and the key may still verify,
  answers the index of its plaintext and whether that index is stored under the key id, so it matches when the
  plaintext is the indexed value; verifying changes nothing.\<close>

theorem index_service_exact:
  assumes crates: "hex_format_ok C" "tag_size_ok C"
    and env: "he_admission (pv_http env) = (\<lambda>_. None)" "reliable (he_storage_env (pv_http env))"
    and created: "index_create_endpoint C E env header kid v s = (s', Inr out)" "plain_input_of_json v = Some i"
    and later: "index_key ` set (db_indexes (sd_db (hs_storage s'))) \<subseteq> index_key ` set (db_indexes (sd_db (hs_storage t)))"
    and key: "prepare_profile_use (hs_keys t) kid kid (lit ''index'') Verify = Inr ()"
    and auth: "authenticates C (pv_http env) header' client"
      "require_permission (he_permissions (pv_http env)) client (Some kid) (lit ''index-verify'') = Inr ()"
    and verifying: "index_parse_verify_input (he_serde_error (pv_http env)) w =
        Inr \<lparr>xv_kid = xo_kid out, xv_input = \<lparr>pn_profile = xo_profile out, pn_item = \<lparr>pi_ref = r, pi_plaintext = plain\<rparr>\<rparr>\<rparr>"
      "validate_ref r = Inr r" "validate_text_field (lit ''plaintext'') plain = Inr ()"
    and tag: "mac_get (pv_mac env) (pn_profile i) = Some p" "compute_digest C p plain = Inr tag"
  shows "\<exists>t' matched. index_verify_endpoint C E env header' w t =
      (t', Inr \<lparr>xvo_ref = r, xvo_kid = kid, xvo_profile = pn_profile i, xvo_matched = matched, xvo_digest = hex_encode C tag\<rparr>) \<and>
    view t' = view t \<and>
    (matched \<longleftrightarrow> (kid, hex_encode C tag) \<in> index_key ` set (db_indexes (sd_db (hs_storage t)))) \<and>
    (plain = pi_plaintext (pn_item i) \<longrightarrow> matched \<and> hex_encode C tag = xo_digest out)"
proof -
  obtain p' tag' where get: "validate_aad_config_name (lit ''profile'') (pn_profile i) = Inr ()"
      "mac_get (pv_mac env) (pn_profile i) = Some p'" "mc_kid p' = kid"
      "compute_digest C p' (pi_plaintext (pn_item i)) = Inr tag'"
    and out: "out = \<lparr>xo_ref = pi_ref (pn_item i), xo_kid = kid, xo_profile = pn_profile i, xo_digest = hex_encode C tag'\<rparr>"
    and stored: "(kid, hex_encode C tag') \<in> index_key ` set (db_indexes (sd_db (hs_storage s')))"
    using created by (rule index_createE)
  have p: "p' = p" using get(2) tag(1) by simp
  let ?i = "\<lparr>xv_kid = kid, xv_input = \<lparr>pn_profile = pn_profile i, pn_item = \<lparr>pi_ref = r, pi_plaintext = plain\<rparr>\<rparr>\<rparr>"
  let ?q = "\<lparr>pr_kid = kid, pr_profile = p, pr_input = ?i\<rparr>"
  let ?found = "(kid, hex_encode C tag) \<in> index_key ` set (db_indexes (sd_db (hs_storage t)))"
  have kid: "validate_key_id kid = Inr ()" "keys_get (snd (view t)) kid \<noteq> None"
    using verify_after_new(2) [OF key] by (simp_all add: view_def)
  have parsed: "bindR (index_parse_verify_input (he_serde_error (pv_http env)) w) index_validate_verify_input = Inr ?i"
    using verifying get(1) kid(1) by (simp add: index_validate_verify_input_def out validate_kid_field_def del: validate_key_id_ok)
  have prep: "index_prepare_verify (snd (view t)) p ?i = Inr ?q"
    using key get(3) by (simp add: index_prepare_verify_def view_def p)
  have "index_digest C ?q = Inr (hex_encode C tag)" using tag(2) by (simp add: index_digest_def)
  from yields_verify_step [OF env(2,1) this, of "fst (view t)" "snd (view t)"]
  have step: "yields (verify_step C (pv_http env) ?q) (view t) (index_verify ?q (hex_encode C tag) ?found) (view t)"
    using index_fields_valid [OF crates tag(2) kid(1)] by (simp add: view_def)
  have "yields (index_verify_endpoint C E env header' w) (view t) (index_verify ?q (hex_encode C tag) ?found) (view t)"
    unfolding index_verify_endpoint_def
    by (rule yields_body_any [where i = ?i and p = p and q = ?q, OF auth(1) _ _ _ parsed];
      (rule step prep | use auth(2) kid tag(1) in \<open>simp add: found_profile_def del: validate_key_id_ok\<close>))
  from yieldsD [OF this] obtain t' where "index_verify_endpoint C E env header' w t = (t', Inr (index_verify ?q (hex_encode C tag) ?found))"
    "view t' = view t" by blast
  moreover have "plain = pi_plaintext (pn_item i) \<longrightarrow> ?found \<and> hex_encode C tag = xo_digest out"
    using get(4) tag(2) stored later by (auto simp: p out)
  ultimately show ?thesis unfolding index_verify_def by auto
qed

theorem index_service_exact_witness:
  "\<exists>s' t' t''. index_create_endpoint index_crates vault_ciphers index_env service_header example_kid commit_request service_state =
       (s', Inr \<lparr>xo_ref = lit ''1'', xo_kid = example_kid, xo_profile = lit ''k'', xo_digest = example_digest ''4111''\<rparr>) \<and>
     index_verify_endpoint index_crates vault_ciphers index_env service_header (index_request_of ''4111'') s' =
       (t', Inr \<lparr>xvo_ref = lit ''2'', xvo_kid = example_kid, xvo_profile = lit ''k'', xvo_matched = True, xvo_digest = example_digest ''4111''\<rparr>) \<and>
     index_verify_endpoint index_crates vault_ciphers index_env service_header (index_request_of ''4112'') s' =
       (t'', Inr \<lparr>xvo_ref = lit ''2'', xvo_kid = example_kid, xvo_profile = lit ''k'', xvo_matched = False, xvo_digest = example_digest ''4112''\<rparr>)"
proof -
  let ?i = "\<lparr>pn_profile = lit ''k'', pn_item = \<lparr>pi_ref = lit ''1'', pi_plaintext = lit ''4111''\<rparr>\<rparr>"
  obtain s' where run: "index_create_endpoint index_crates vault_ciphers index_env service_header example_kid commit_request service_state =
       (s', Inr \<lparr>xo_ref = lit ''1'', xo_kid = example_kid, xo_profile = lit ''k'', xo_digest = example_digest ''4111''\<rparr>)"
    and s': "db_indexes (sd_db (hs_storage s')) = [\<lparr>ix_kid = example_kid, ix_digest = example_digest ''4111''\<rparr>]"
      "hs_keys s' = hs_keys service_state"
    using yieldsD [OF index_created] by (auto simp: view_def)
  have key: "prepare_profile_use (hs_keys s') example_kid example_kid (lit ''index'') Verify = Inr ()"
    using verify_after_new(1) [OF profile_service_facts(4)] by (simp add: s')
  have env: "he_admission (pv_http index_env) = (\<lambda>_. None)" "reliable (he_storage_env (pv_http index_env))"
    "authenticates index_crates (pv_http index_env) service_header (ac_root_client [])"
    "require_permission (he_permissions (pv_http index_env)) (ac_root_client []) (Some example_kid) (lit ''index-verify'') = Inr ()"
    using service_env_ok profile_service_auth [OF index_crates_ok(4,1,5)] root_permission by (simp_all add: index_env_facts)
  have r: "validate_ref (lit ''2'') = Inr (lit ''2'')" and plain: "validate_text_field f (lit ''4111'') = Inr ()"
    "validate_text_field f (lit ''4112'') = Inr ()" for f
    by (simp_all add: validate_ref_def validate_bounded_text_field_def validate_text_field_def INTERNAL_REF_MAX_CHARS_def
        char_simps lit_def)
  have other: "example_digest ''4111'' \<noteq> example_digest ''4112''"
  proof
    assume "example_digest ''4111'' = example_digest ''4112''"
    then have "Some (take 64 (4 # utf8 (lit ''4111''))) = Some (take 64 (4 # utf8 (lit ''4112'')))"
      using hex_codec [OF index_crates_ok(1)] unfolding example_digest_def by metis
    then show False by (simp add: utf8_def utf8_char_def lit_def)
  qed
  have exact: "\<exists>t' matched. index_verify_endpoint index_crates vault_ciphers index_env service_header (index_request_of plain) s' =
       (t', Inr \<lparr>xvo_ref = lit ''2'', xvo_kid = example_kid, xvo_profile = lit ''k'', xvo_matched = matched, xvo_digest = example_digest plain\<rparr>) \<and>
     (matched \<longleftrightarrow> example_digest plain = example_digest ''4111'')" if "\<And>f. validate_text_field f (lit plain) = Inr ()" for plain
    using index_service_exact [OF index_crates_ok(2,3) env(1,2) run commit_requests(1) subset_refl key env(3,4) _ r that,
        of "index_request_of plain" example_mac] index_requests(2) index_crates_ok(6)
    by (fastforce simp: index_env_facts s' example_digest_def)
  show ?thesis using run exact [OF plain(1)] exact [OF plain(2)] other by auto
qed

end
