(* ===== verification/Signatures.thy ===== *)
theory Signatures
  imports Messages Token_Ops
begin

text \<open>
  \<open>src/ops/sign.rs\<close>: compact signatures. A payload is written as canonical JSON and signed with EdDSA and ML-DSA; the
  signature text is the header, the payload and the two signatures in base64url, separated by dots. The signing
  service signs time stamps of message hashes under an operational key, and the configuration file is signed under the
  keys of the instance.

  The time of day is an argument. A payload is given by its JSON and by the reader of its type.
\<close>

section \<open>Data\<close>

definition TIMESTAMP_TOKEN_TYPE :: ustr where "TIMESTAMP_TOKEN_TYPE = lit ''vectis-sign''"
definition CONFIG_TOKEN_TYPE :: ustr where "CONFIG_TOKEN_TYPE = lit ''vectis-config''"
definition SIGN_INIT_KEYS_KID :: ustr where "SIGN_INIT_KEYS_KID = lit ''init-keys''"
definition PAYLOAD_SERIAL_RANDOM_BYTES :: nat where "PAYLOAD_SERIAL_RANDOM_BYTES = 32"
definition COMPACT_SIGNATURE_VERSION :: ustr where "COMPACT_SIGNATURE_VERSION = lit ''vectis-signature-v1''"
definition COMPACT_SIGNATURE_SEGMENTS :: nat where "COMPACT_SIGNATURE_SEGMENTS = 4"
definition COMPACT_SIGNATURE_MAX_CHARS :: nat where "COMPACT_SIGNATURE_MAX_CHARS = 64 * 1024"

record message_hash =
  mh_alg :: ustr
  mh_hex :: ustr

record timestamp_payload =
  tsp_version :: ustr
  tsp_token_type :: ustr
  tsp_created_at :: ustr
  tsp_info :: ustr
  tsp_kid :: ustr
  tsp_serial :: ustr
  tsp_message_hash :: message_hash

record compact_signature_token =
  cst_kid :: ustr
  cst_signature :: ustr

record compact_signature_parts =
  csp_header :: ustr
  csp_payload :: ustr
  csp_header_bytes :: "u8 list"
  csp_payload_bytes :: "u8 list"
  csp_eddsa_signature_bytes :: "u8 list"
  csp_ml_dsa_signature_bytes :: "u8 list"

datatype compact_signature_failure = MlDsaFailed | EdDsaFailed

datatype 'a compact_signature_verification = ValidSignature 'a | FailedSignature compact_signature_failure

record verification_status =
  vst_eddsa :: ustr
  vst_ml_dsa :: ustr

record verification_output =
  vfo_status :: verification_status
  vfo_valid :: ustr

section \<open>JSON\<close>

text \<open>Structs of strings that deny unknown fields, and the payload as the canonical encoding writes it, with its keys
  in order.\<close>

definition strict_strings :: "ustr list \<Rightarrow> json \<Rightarrow> ustr list option" where
  "strict_strings ks v = Option.bind (request_struct ks None v) (\<lambda>(vs, _). those (map as_str vs))"

definition message_hash_of_json :: "json \<Rightarrow> message_hash option" where
  "message_hash_of_json v =
     (case strict_strings [lit ''alg'', lit ''hex''] v of
        Some [alg, hex] \<Rightarrow> Some \<lparr>mh_alg = alg, mh_hex = hex\<rparr>
      | _ \<Rightarrow> None)"

definition sign_input_of_json :: "json \<Rightarrow> message_hash option" where
  "sign_input_of_json v =
     (case request_struct [lit ''message_hash''] None v of
        Some ([hash], _) \<Rightarrow> message_hash_of_json hash
      | _ \<Rightarrow> None)"

definition timestamp_payload_json :: "timestamp_payload \<Rightarrow> json" where
  "timestamp_payload_json p =
     JObject [(lit ''created_at'', JString (tsp_created_at p)), (lit ''info'', JString (tsp_info p)),
       (lit ''kid'', JString (tsp_kid p)),
       (lit ''message_hash'', JObject [(lit ''alg'', JString (mh_alg (tsp_message_hash p))),
          (lit ''hex'', JString (mh_hex (tsp_message_hash p)))]),
       (lit ''serial'', JString (tsp_serial p)), (lit ''type'', JString (tsp_token_type p)),
       (lit ''version'', JString (tsp_version p))]"

definition timestamp_payload_of_json :: "json \<Rightarrow> timestamp_payload option" where
  "timestamp_payload_of_json v =
     (case request_struct [lit ''version'', lit ''type'', lit ''created_at'', lit ''info'', lit ''kid'', lit ''serial'',
             lit ''message_hash''] None v of
        Some ([version, token_type, created_at, info, kid, serial, hash], _) \<Rightarrow>
          Option.bind (as_str version) (\<lambda>version. Option.bind (as_str token_type) (\<lambda>token_type.
          Option.bind (as_str created_at) (\<lambda>created_at. Option.bind (as_str info) (\<lambda>info.
          Option.bind (as_str kid) (\<lambda>kid. Option.bind (as_str serial) (\<lambda>serial.
          Option.bind (message_hash_of_json hash) (\<lambda>hash.
            Some \<lparr>tsp_version = version, tsp_token_type = token_type, tsp_created_at = created_at, tsp_info = info,
                  tsp_kid = kid, tsp_serial = serial, tsp_message_hash = hash\<rparr>)))))))
      | _ \<Rightarrow> None)"

definition compact_signature_header_json :: "ustr \<Rightarrow> json" where
  "compact_signature_header_json version = JObject [(lit ''version'', JString version)]"

definition compact_signature_header_of_json :: "json \<Rightarrow> ustr option" where
  "compact_signature_header_of_json v =
     (case strict_strings [lit ''version''] v of Some [version] \<Rightarrow> Some version | _ \<Rightarrow> None)"

definition compact_signature_token_of_json :: "json \<Rightarrow> compact_signature_token option" where
  "compact_signature_token_of_json v =
     (case strict_strings [lit ''kid'', lit ''signature''] v of
        Some [kid, signature] \<Rightarrow> Some \<lparr>cst_kid = kid, cst_signature = signature\<rparr>
      | _ \<Rightarrow> None)"

definition compact_signature_file_of_json :: "json \<Rightarrow> ustr option" where
  "compact_signature_file_of_json v =
     (case strict_strings [lit ''signature''] v of Some [signature] \<Rightarrow> Some signature | _ \<Rightarrow> None)"

section \<open>Signing\<close>

definition create_payload_serial :: "crates \<Rightarrow> ('priv, 'pub) pk_crate \<Rightarrow> ustr \<Rightarrow> ustr result" where
  "create_payload_serial C P created_at =
     bindR (pk_random P PAYLOAD_SERIAL_RANDOM_BYTES) (\<lambda>random.
     bindR (hash_bytes C INTERNAL_KEYS_HASH (utf8 created_at @ random)) (\<lambda>hash. Inr (hex_encode C hash)))"

text \<open>46 is the dot.\<close>

definition sign_compact_hybrid_payload ::
    "crates \<Rightarrow> ('priv, 'pub) pk_crate \<Rightarrow> json \<Rightarrow> variant_der_key_pair \<Rightarrow> variant_der_key_pair \<Rightarrow> ustr result" where
  "sign_compact_hybrid_payload C P payload eddsa ml_dsa =
     bindR (canonical_json_v1 C (compact_signature_header_json COMPACT_SIGNATURE_VERSION)) (\<lambda>header_bytes.
     bindR (canonical_json_v1 C payload) (\<lambda>payload_bytes.
     let signing_input = url_encode C header_bytes @ [46] @ url_encode C payload_bytes in
     bindR (load_private_key_der_hex C P (vd_private_key_der_hex eddsa)) (\<lambda>eddsa_private_key.
     bindR (load_private_key_der_hex C P (vd_private_key_der_hex ml_dsa)) (\<lambda>ml_dsa_private_key.
     bindR (sign_message_with_rng P eddsa_private_key signing_input) (\<lambda>eddsa_signature.
     bindR (sign_ml_dsa_message_with_rng P ml_dsa_private_key signing_input) (\<lambda>ml_dsa_signature.
     let signature = signing_input @ [46] @ url_encode C eddsa_signature @ [46] @ url_encode C ml_dsa_signature in
       if COMPACT_SIGNATURE_MAX_CHARS < str_len signature
       then Inl (internal (lit ''compact signature exceeds the maximum supported size''))
       else Inr signature))))))"

definition validate_message_hash :: "message_hash \<Rightarrow> unit result" where
  "validate_message_hash h =
     bindR (validate_allowed_value (lit ''message_hash.alg'') (mh_alg h) HASH_ALGORITHMS) (\<lambda>_.
       validate_hash_hex_field (lit ''message_hash.hex'') (mh_hex h) (mh_alg h))"

definition parse_sign_input :: "(json \<Rightarrow> ustr) \<Rightarrow> json \<Rightarrow> message_hash result" where
  "parse_sign_input serde_error req = parse_json_request serde_error sign_input_of_json req (lit ''sign request'')"

definition validate_sign_input :: "message_hash \<Rightarrow> message_hash result" where
  "validate_sign_input input =
     bindR (validate_allowed_value (lit ''message_hash.alg'') (mh_alg input) HASH_ALGORITHMS) (\<lambda>_.
     bindR (validate_hash_hex_field (lit ''message_hash.hex'') (mh_hex input) (mh_alg input)) (\<lambda>_. Inr input))"

definition sign_timestamp ::
    "crates \<Rightarrow> ('priv, 'pub) pk_crate \<Rightarrow> ustr result \<Rightarrow> loaded_ops_key \<Rightarrow> message_hash \<Rightarrow> compact_signature_token result" where
  "sign_timestamp C P now loaded_key input =
     bindR (require_lifecycle_for_new_use loaded_key) (\<lambda>_.
     bindR now (\<lambda>created_at.
     bindR (pk_new_rng P) (\<lambda>_.
     bindR (create_payload_serial C P created_at) (\<lambda>serial.
     let payload = \<lparr>tsp_version = PROTOCOL_VERSION_V1, tsp_token_type = TIMESTAMP_TOKEN_TYPE, tsp_created_at = created_at,
           tsp_info = lk_aad loaded_key, tsp_kid = lk_id loaded_key, tsp_serial = serial, tsp_message_hash = input\<rparr>;
         k = ko_keys (lk_key_material loaded_key) in
     bindR (sign_compact_hybrid_payload C P (timestamp_payload_json payload) (km_eddsa k) (km_ml_dsa k)) (\<lambda>signature.
       Inr \<lparr>cst_kid = lk_id loaded_key, cst_signature = signature\<rparr>)))))"

definition sign_timestamp_with_loaded_key ::
    "crates \<Rightarrow> ('priv, 'pub) pk_crate \<Rightarrow> ustr result \<Rightarrow> loaded_ops_key \<Rightarrow> message_hash \<Rightarrow> compact_signature_token result" where
  "sign_timestamp_with_loaded_key C P now loaded_key input =
     bindR (validate_sign_input input) (sign_timestamp C P now loaded_key)"

section \<open>Verifying\<close>

definition decode_compact_segment :: "crates \<Rightarrow> ustr \<Rightarrow> u8 list result" where
  "decode_compact_segment C segment =
     ok_or (invalid_signature (lit ''compact signature contains invalid base64url'')) (url_decode C segment)"

definition split_compact_signature :: "crates \<Rightarrow> ustr \<Rightarrow> compact_signature_parts result" where
  "split_compact_signature C signature =
     (if signature = [] \<or> COMPACT_SIGNATURE_MAX_CHARS < str_len signature \<or> \<not> list_all is_ascii signature \<or>
         list_ex is_whitespace signature \<or> list_ex is_control signature
      then Inl (invalid_signature (lit ''compact signature is malformed''))
      else
        let segments = split_on 46 signature in
        if length segments \<noteq> COMPACT_SIGNATURE_SEGMENTS \<or> list_ex (\<lambda>segment. segment = []) segments
        then Inl (invalid_signature (lit ''compact signature is malformed''))
        else
          bindR (decode_compact_segment C (segments ! 0)) (\<lambda>header_bytes.
          bindR (decode_compact_segment C (segments ! 1)) (\<lambda>payload_bytes.
          bindR (decode_compact_segment C (segments ! 2)) (\<lambda>eddsa_signature_bytes.
          bindR (decode_compact_segment C (segments ! 3)) (\<lambda>ml_dsa_signature_bytes.
            Inr \<lparr>csp_header = segments ! 0, csp_payload = segments ! 1, csp_header_bytes = header_bytes,
                 csp_payload_bytes = payload_bytes, csp_eddsa_signature_bytes = eddsa_signature_bytes,
                 csp_ml_dsa_signature_bytes = ml_dsa_signature_bytes\<rparr>)))))"

definition validate_compact_signature_encoding :: "crates \<Rightarrow> ustr \<Rightarrow> unit result" where
  "validate_compact_signature_encoding C signature = bindR (split_compact_signature C signature) (\<lambda>_. Inr ())"

definition parse_canonical_compact_segment ::
    "crates \<Rightarrow> (json \<Rightarrow> 'a option) \<Rightarrow> ('a \<Rightarrow> json) \<Rightarrow> u8 list \<Rightarrow> 'a result" where
  "parse_canonical_compact_segment C of_json to_json bytes =
     bindR (ok_or (invalid_signature (lit ''compact signature contains invalid JSON''))
              (Option.bind (json_from_slice C bytes) of_json)) (\<lambda>v.
     bindR (canonical_json_v1 C (to_json v)) (\<lambda>canonical.
       if canonical \<noteq> bytes then Inl (invalid_signature (lit ''compact signature JSON is not canonical''))
       else Inr v))"

definition verify_compact_hybrid_signature_with_public_keys ::
    "crates \<Rightarrow> ('priv, 'pub) pk_crate \<Rightarrow> (json \<Rightarrow> 'a option) \<Rightarrow> ('a \<Rightarrow> json) \<Rightarrow> ustr \<Rightarrow> ustr \<Rightarrow> ustr \<Rightarrow>
     'a compact_signature_verification result" where
  "verify_compact_hybrid_signature_with_public_keys C P of_json to_json signature eddsa_public_key_der_hex
       ml_dsa_public_key_der_hex =
     bindR (split_compact_signature C signature) (\<lambda>parts.
     let signing_input = csp_header parts @ [46] @ csp_payload parts in
     bindR (load_public_key_der_hex C P ml_dsa_public_key_der_hex) (\<lambda>ml_dsa_public_key.
     bindR (verify_ml_dsa_message P ml_dsa_public_key signing_input (csp_ml_dsa_signature_bytes parts)) (\<lambda>ml_dsa_valid.
       if \<not> ml_dsa_valid then Inr (FailedSignature MlDsaFailed)
       else
         bindR (load_public_key_der_hex C P eddsa_public_key_der_hex) (\<lambda>eddsa_public_key.
         bindR (verify_message P eddsa_public_key signing_input (csp_eddsa_signature_bytes parts)) (\<lambda>eddsa_valid.
           if \<not> eddsa_valid then Inr (FailedSignature EdDsaFailed)
           else
             bindR (parse_canonical_compact_segment C compact_signature_header_of_json compact_signature_header_json
                      (csp_header_bytes parts)) (\<lambda>version.
               if version \<noteq> COMPACT_SIGNATURE_VERSION
               then Inl (invalid_signature (lit ''compact signature version is not supported''))
               else
                 bindR (parse_canonical_compact_segment C of_json to_json (csp_payload_bytes parts)) (\<lambda>payload.
                   Inr (ValidSignature payload))))))))"

definition verify_compact_hybrid_signature_with_public_keys_strict ::
    "crates \<Rightarrow> ('priv, 'pub) pk_crate \<Rightarrow> (json \<Rightarrow> 'a option) \<Rightarrow> ('a \<Rightarrow> json) \<Rightarrow> ustr \<Rightarrow> ustr \<Rightarrow> ustr \<Rightarrow> 'a result" where
  "verify_compact_hybrid_signature_with_public_keys_strict C P of_json to_json signature eddsa_public_key_der_hex
       ml_dsa_public_key_der_hex =
     bindR (verify_compact_hybrid_signature_with_public_keys C P of_json to_json signature eddsa_public_key_der_hex
              ml_dsa_public_key_der_hex) (\<lambda>result.
       case result of
         ValidSignature payload \<Rightarrow> Inr payload
       | FailedSignature MlDsaFailed \<Rightarrow> Inl (invalid_signature (lit ''compact signature ML-DSA verification failed''))
       | FailedSignature EdDsaFailed \<Rightarrow> Inl (invalid_signature (lit ''compact signature EdDSA verification failed'')))"

definition verify_compact_hybrid_signature ::
    "crates \<Rightarrow> ('priv, 'pub) pk_crate \<Rightarrow> (json \<Rightarrow> 'a option) \<Rightarrow> ('a \<Rightarrow> json) \<Rightarrow> ustr \<Rightarrow> variant_der_key_pair \<Rightarrow>
     variant_der_key_pair \<Rightarrow> 'a result" where
  "verify_compact_hybrid_signature C P of_json to_json signature eddsa ml_dsa =
     bindR (verify_compact_hybrid_signature_with_public_keys C P of_json to_json signature (vd_public_key_der_hex eddsa)
              (vd_public_key_der_hex ml_dsa)) (\<lambda>result.
       case result of
         ValidSignature payload \<Rightarrow> Inr payload
       | FailedSignature MlDsaFailed \<Rightarrow> Inl (invalid_signature (lit ''compact signature ML-DSA verification failed''))
       | FailedSignature EdDsaFailed \<Rightarrow> Inl (invalid_signature (lit ''compact signature EdDSA verification failed'')))"

definition validate_signed_payload_fields ::
    "crates \<Rightarrow> timestamp_payload \<Rightarrow> ustr \<Rightarrow> (ustr \<Rightarrow> unit result) \<Rightarrow> unit result" where
  "validate_signed_payload_fields C payload expected_type check_kid =
     bindR (validate_protocol_version (lit ''payload.version'') (tsp_version payload)) (\<lambda>_.
     bindR (validate_allowed_value (lit ''payload.type'') (tsp_token_type payload) [expected_type]) (\<lambda>_.
     bindR (validate_text_field (lit ''payload.created_at'') (tsp_created_at payload)) (\<lambda>_.
     bindR (validate_text_field (lit ''payload.info'') (tsp_info payload)) (\<lambda>_.
     bindR (check_kid (tsp_kid payload)) (\<lambda>_.
     bindR (validate_hex_field (lit ''payload.serial'') (tsp_serial payload)) (\<lambda>_.
     bindR (hash_bytes C INTERNAL_KEYS_HASH []) (\<lambda>hash.
     let expected_serial_len = length hash * 2 in
       if str_len (tsp_serial payload) \<noteq> expected_serial_len
       then Inl (invalid_input (lit ''payload.serial must be '' @ show_nat expected_serial_len @
              lit '' hex characters, got '' @ show_nat (str_len (tsp_serial payload))))
       else validate_message_hash (tsp_message_hash payload))))))))"

definition validate_compact_timestamp_payload :: "crates \<Rightarrow> timestamp_payload \<Rightarrow> ustr \<Rightarrow> unit result" where
  "validate_compact_timestamp_payload C payload expected_kid =
     validate_signed_payload_fields C payload TIMESTAMP_TOKEN_TYPE (\<lambda>kid.
       if kid \<noteq> expected_kid then Inl (invalid_input (lit ''payload.kid does not match request kid''))
       else map_err (\<lambda>err. invalid_input (lit ''payload.kid is invalid: '' @ to_string err)) (validate_key_id kid))"

definition parse_compact_signature_token :: "(json \<Rightarrow> ustr) \<Rightarrow> json \<Rightarrow> compact_signature_token result" where
  "parse_compact_signature_token serde_error req =
     bindR (parse_json_request serde_error compact_signature_token_of_json req (lit ''compact signature token'')) (\<lambda>token.
     bindR (map_err (\<lambda>err. invalid_input (lit ''kid is invalid: '' @ to_string err)) (validate_key_id (cst_kid token))) (\<lambda>_.
       Inr token))"

definition verification_ok :: verification_output where
  "verification_ok = \<lparr>vfo_status = \<lparr>vst_eddsa = lit ''ok'', vst_ml_dsa = lit ''ok''\<rparr>, vfo_valid = lit ''ok''\<rparr>"

fun verification_failure :: "compact_signature_failure \<Rightarrow> verification_output" where
  "verification_failure MlDsaFailed =
     \<lparr>vfo_status = \<lparr>vst_eddsa = lit ''not_checked'', vst_ml_dsa = lit ''fail''\<rparr>, vfo_valid = lit ''fail''\<rparr>"
| "verification_failure EdDsaFailed =
     \<lparr>vfo_status = \<lparr>vst_eddsa = lit ''fail'', vst_ml_dsa = lit ''ok''\<rparr>, vfo_valid = lit ''fail''\<rparr>"

definition verify_compact_timestamp_with_public_keys ::
    "crates \<Rightarrow> ('priv, 'pub) pk_crate \<Rightarrow> compact_signature_token \<Rightarrow> ustr \<Rightarrow> ustr \<Rightarrow>
     timestamp_payload compact_signature_verification result" where
  "verify_compact_timestamp_with_public_keys C P token eddsa_public_key_der_hex ml_dsa_public_key_der_hex =
     verify_compact_hybrid_signature_with_public_keys C P timestamp_payload_of_json timestamp_payload_json
       (cst_signature token) eddsa_public_key_der_hex ml_dsa_public_key_der_hex"

definition verify_compact_timestamp_with_loaded_key ::
    "crates \<Rightarrow> ('priv, 'pub) pk_crate \<Rightarrow> loaded_ops_key \<Rightarrow> compact_signature_token \<Rightarrow> verification_output result" where
  "verify_compact_timestamp_with_loaded_key C P loaded_key token =
     bindR (require_lifecycle_for_decrypt_or_verify loaded_key) (\<lambda>_.
     let k = ko_keys (lk_key_material loaded_key) in
     bindR (verify_compact_timestamp_with_public_keys C P token (vd_public_key_der_hex (km_eddsa k))
              (vd_public_key_der_hex (km_ml_dsa k))) (\<lambda>result.
       case result of
         ValidSignature payload \<Rightarrow>
           bindR (validate_compact_timestamp_payload C payload (cst_kid token)) (\<lambda>_.
             if tsp_info payload \<noteq> lk_aad loaded_key
             then Inl (invalid_input (lit ''payload.info does not match loaded key aad''))
             else Inr verification_ok)
       | FailedSignature failure \<Rightarrow> Inr (verification_failure failure)))"

definition verify_compact_timestamp_with_peer_keys ::
    "crates \<Rightarrow> ('priv, 'pub) pk_crate \<Rightarrow> compact_signature_token \<Rightarrow> public_keys \<Rightarrow> verification_output result" where
  "verify_compact_timestamp_with_peer_keys C P token peer =
     bindR (verify_compact_timestamp_with_public_keys C P token (pd_public_key_der_hex (pu_eddsa peer))
              (pd_public_key_der_hex (pu_ml_dsa peer))) (\<lambda>result.
       case result of
         ValidSignature payload \<Rightarrow>
           bindR (validate_compact_timestamp_payload C payload (cst_kid token)) (\<lambda>_. Inr verification_ok)
       | FailedSignature failure \<Rightarrow> Inr (verification_failure failure))"

section \<open>The configuration file\<close>

text \<open>\<open>canonical_config\<close> is the outcome of \<open>config_file::canonical_config_json\<close> on the content of the file, and \<open>k\<close> the
  keys of the instance. The text of a signed file is given as its bytes. 39 is the quote.\<close>

definition config_token_info :: "ustr result" where
  "config_token_info = build_validated_aad [(lit ''version'', PROTOCOL_VERSION_V1), (lit ''type'', CONFIG_TOKEN_TYPE)]"

definition validate_config_signature_payload :: "crates \<Rightarrow> timestamp_payload \<Rightarrow> unit result" where
  "validate_config_signature_payload C payload =
     validate_signed_payload_fields C payload CONFIG_TOKEN_TYPE (\<lambda>kid.
       if kid \<noteq> SIGN_INIT_KEYS_KID then Inl (invalid_input (lit ''payload.kid does not match expected signer'')) else Inr ())"

definition sign_config_file ::
    "crates \<Rightarrow> ('priv, 'pub) pk_crate \<Rightarrow> ustr result \<Rightarrow> key_material_keys \<Rightarrow> ustr result \<Rightarrow> ustr result" where
  "sign_config_file C P now k canonical_config =
     bindR canonical_config (\<lambda>canonical_config.
     bindR (hash_bytes C INTERNAL_KEYS_HASH (utf8 canonical_config)) (\<lambda>hash.
     bindR now (\<lambda>created_at.
     bindR (pk_new_rng P) (\<lambda>_.
     bindR config_token_info (\<lambda>info.
     bindR (create_payload_serial C P created_at) (\<lambda>serial.
       sign_compact_hybrid_payload C P (timestamp_payload_json
         \<lparr>tsp_version = PROTOCOL_VERSION_V1, tsp_token_type = CONFIG_TOKEN_TYPE, tsp_created_at = created_at, tsp_info = info,
          tsp_kid = SIGN_INIT_KEYS_KID, tsp_serial = serial,
          tsp_message_hash = \<lparr>mh_alg = INTERNAL_KEYS_HASH, mh_hex = hex_encode C hash\<rparr>\<rparr>)
         (km_eddsa k) (km_ml_dsa k)))))))"

definition verify_config_file_signature ::
    "crates \<Rightarrow> ('priv, 'pub) pk_crate \<Rightarrow> key_material_keys \<Rightarrow> ustr result \<Rightarrow> u8 list \<Rightarrow> unit result" where
  "verify_config_file_signature C P k canonical_config signature_content =
     bindR (ok_or (invalid_input (lit ''unsupported config signature format; run '' @ [39] @ lit ''vectis config sign'' @ [39]))
              (Option.bind (json_from_slice C signature_content) compact_signature_file_of_json)) (\<lambda>signature.
     bindR (map_err (\<lambda>_. invalid_signature (lit ''config signature verification failed''))
              (verify_compact_hybrid_signature C P timestamp_payload_of_json timestamp_payload_json signature
                 (km_eddsa k) (km_ml_dsa k))) (\<lambda>payload.
     bindR (validate_config_signature_payload C payload) (\<lambda>_.
     bindR config_token_info (\<lambda>expected_info.
       if tsp_info payload \<noteq> expected_info
       then Inl (invalid_input (lit ''config signature payload.info does not match config token''))
       else
         bindR canonical_config (\<lambda>canonical_config.
         bindR (hash_bytes C INTERNAL_KEYS_HASH (utf8 canonical_config)) (\<lambda>hash.
           if mh_alg (tsp_message_hash payload) \<noteq> INTERNAL_KEYS_HASH \<or>
              mh_hex (tsp_message_hash payload) \<noteq> hex_encode C hash
           then Inl (Vectis (ConfigSignatureStale (lit ''config signature message_hash does not match config content'')))
           else Inr ()))))))"

end
