(* ===== verification/Signatures_Correct.thy ===== *)
theory Signatures_Correct
  imports Signatures Messages_Correct Wire_Sizes
begin

text \<open>
  What compact signatures are relied on for: a signed payload verifies and is read back, and what verifies carries both
  signatures over the one text that stands for the payload. The payloads enter as \<open>signed_payload\<close>: a JSON form that is
  canonical and read back.
\<close>

section \<open>Payloads\<close>

locale signed_payload =
  fixes of_json :: "json \<Rightarrow> 'a option"
    and to_json :: "'a \<Rightarrow> json"
  assumes read_back: "of_json (to_json x) = Some x"
    and canonical_form: "canonical_json_v1 C (to_json x) = Inr (json_to_vec C (to_json x))"
    and wire_form: "wire_json 127 (to_json x)"
begin

lemma parse_canonical:
  "json_wire_ok C \<Longrightarrow> parse_canonical_compact_segment C of_json to_json (json_to_vec C (to_json x)) = Inr x"
  using wire_form by (simp add: json_wire_ok_def parse_canonical_compact_segment_def read_back canonical_form)

lemma parsed_canonical:
  "parse_canonical_compact_segment C of_json to_json bytes = Inr x \<Longrightarrow> bytes = json_to_vec C (to_json x)"
  by (auto simp: parse_canonical_compact_segment_def bindR_eq_Inr canonical_form split: if_splits)

end

interpretation signature_header: signed_payload compact_signature_header_of_json compact_signature_header_json
  by unfold_locales
    (simp_all add: compact_signature_header_of_json_def compact_signature_header_json_def strict_strings_def canonical_flat
      SERDE_JSON_PRIVATE_KEY_PREFIX_def starts_with_def lit_def numeral_eq_Suc)

interpretation timestamps: signed_payload timestamp_payload_of_json timestamp_payload_json
proof
  fix C and x :: timestamp_payload
  show "timestamp_payload_of_json (timestamp_payload_json x) = Some x"
    by (simp add: timestamp_payload_of_json_def timestamp_payload_json_def message_hash_of_json_def strict_strings_def lit_def)
  show "canonical_json_v1 C (timestamp_payload_json x) = Inr (json_to_vec C (timestamp_payload_json x))"
    by (simp add: canonical_json_v1_def validate_canonical_json_value_def timestamp_payload_json_def MAX_JSON_DEPTH_def
        validate_canonical_json_value_at_depth.simps SERDE_JSON_PRIVATE_KEY_PREFIX_def starts_with_def lit_def)
  show "wire_json 127 (timestamp_payload_json x)" by (simp add: timestamp_payload_json_def numeral_eq_Suc lit_def)
qed

section \<open>The four segments\<close>

text \<open>The text of a JSON value is never empty.\<close>

definition json_text_ok :: "crates \<Rightarrow> bool" where
  "json_text_ok C \<longleftrightarrow> (\<forall>v. json_to_vec C v \<noteq> [])"

definition compact_text :: "ustr \<Rightarrow> ustr \<Rightarrow> ustr \<Rightarrow> ustr \<Rightarrow> ustr" where
  "compact_text header body eddsa ml_dsa = header @ [46] @ body @ [46] @ eddsa @ [46] @ ml_dsa"

lemma url_segment:
  assumes "url_format_ok C" "url_size_ok C" "bs \<noteq> []"
  shows "url_encode C bs \<noteq> []" "46 \<notin> set (url_encode C bs)"
    "list_all (\<lambda>c. is_ascii c \<and> \<not> is_whitespace c \<and> \<not> is_control c) (url_encode C bs)"
proof -
  have "length (url_encode C bs) = (4 * length bs + 2) div 3" using assms(2) by (simp add: url_size_ok_def)
  then show "url_encode C bs \<noteq> []" using assms(3) by (cases "length bs") auto
  show "46 \<notin> set (url_encode C bs)" "list_all (\<lambda>c. is_ascii c \<and> \<not> is_whitespace c \<and> \<not> is_control c) (url_encode C bs)"
    using assms(1) by (auto simp: url_format_ok_def list_all_iff char_simps dest!: spec [of _ bs] bspec)
qed

lemma split_written:
  assumes C: "url_codec_ok C" "url_format_ok C" "url_size_ok C"
    and bs: "h \<noteq> []" "p \<noteq> []" "e \<noteq> []" "d \<noteq> []"
    and len: "str_len (compact_text (url_encode C h) (url_encode C p) (url_encode C e) (url_encode C d)) \<le> COMPACT_SIGNATURE_MAX_CHARS"
  shows "split_compact_signature C (compact_text (url_encode C h) (url_encode C p) (url_encode C e) (url_encode C d)) =
    Inr \<lparr>csp_header = url_encode C h, csp_payload = url_encode C p, csp_header_bytes = h, csp_payload_bytes = p,
      csp_eddsa_signature_bytes = e, csp_ml_dsa_signature_bytes = d\<rparr>"
proof -
  note seg = url_segment [OF C(2,3)]
  let ?t = "compact_text (url_encode C h) (url_encode C p) (url_encode C e) (url_encode C d)"
  have chars: "list_all (\<lambda>c. is_ascii c \<and> \<not> is_whitespace c \<and> \<not> is_control c) ?t"
    using seg(3) bs by (simp add: compact_text_def char_simps)
  have "split_on 46 ?t = [url_encode C h, url_encode C p, url_encode C e, url_encode C d]"
    using seg(2) bs by (simp add: compact_text_def split_on_append split_on_absent)
  moreover have "?t \<noteq> []" by (simp add: compact_text_def)
  moreover have "list_all is_ascii ?t" "\<not> list_ex is_whitespace ?t" "\<not> list_ex is_control ?t"
    using chars by (auto simp: list_all_iff list_ex_iff)
  ultimately show ?thesis
    using len seg(1) bs
    by (simp add: split_compact_signature_def COMPACT_SIGNATURE_SEGMENTS_def decode_compact_segment_def url_codec [OF C(1)])
qed

lemma split_compactE:
  assumes "split_compact_signature C signature = Inr parts"
  obtains e d where "signature = compact_text (csp_header parts) (csp_payload parts) e d"
    "46 \<notin> set (csp_header parts) \<union> set (csp_payload parts) \<union> set e \<union> set d"
    "url_decode C (csp_header parts) = Some (csp_header_bytes parts)"
    "url_decode C (csp_payload parts) = Some (csp_payload_bytes parts)"
    "url_decode C e = Some (csp_eddsa_signature_bytes parts)" "url_decode C d = Some (csp_ml_dsa_signature_bytes parts)"
proof -
  from assms have "length (split_on 46 signature) = 4"
    by (auto simp: split_compact_signature_def COMPACT_SIGNATURE_SEGMENTS_def Let_def split: if_splits)
  then obtain h p e d where s: "split_on 46 signature = [h, p, e, d]"
    by (auto simp: numeral_eq_Suc length_Suc_conv)
  then have "signature = compact_text h p e d"
    using join_split_on [of 46 signature] by (simp add: compact_text_def)
  moreover have "46 \<notin> set h \<union> set p \<union> set e \<union> set d" using split_on_parts [of _ 46 signature] by (simp add: s)
  ultimately show thesis
    using assms s that
    by (auto simp: split_compact_signature_def COMPACT_SIGNATURE_SEGMENTS_def Let_def decode_compact_segment_def bindR_eq_Inr
        ok_or_eq_Inr split: if_splits)
qed

section \<open>Signing and verifying\<close>

text \<open>A text signed with both keys over the canonical form of a payload.\<close>

definition signed_by ::
    "crates \<Rightarrow> ('priv, 'pub) pk_crate \<Rightarrow> json \<Rightarrow> ustr \<Rightarrow> ustr \<Rightarrow> ustr \<Rightarrow> bool" where
  "signed_by C P payload signature eddsa_public_key_der_hex ml_dsa_public_key_der_hex \<longleftrightarrow>
     (\<exists>header body e d eddsa_signature ml_dsa_signature eddsa ml_dsa.
        signature = compact_text header body e d \<and> 46 \<notin> set header \<union> set body \<union> set e \<union> set d \<and>
        url_decode C header = Some (json_to_vec C (compact_signature_header_json COMPACT_SIGNATURE_VERSION)) \<and>
        url_decode C body = Some (json_to_vec C payload) \<and>
        url_decode C e = Some eddsa_signature \<and> url_decode C d = Some ml_dsa_signature \<and>
        load_public_key_der_hex C P eddsa_public_key_der_hex = Inr eddsa \<and>
        load_public_key_der_hex C P ml_dsa_public_key_der_hex = Inr ml_dsa \<and>
        verify_message P eddsa (header @ [46] @ body) eddsa_signature = Inr True \<and>
        verify_ml_dsa_message P ml_dsa (header @ [46] @ body) ml_dsa_signature = Inr True)"

context signed_payload
begin

lemma verified_signed:
  assumes "verify_compact_hybrid_signature_with_public_keys C P of_json to_json signature eddsa ml_dsa = Inr (ValidSignature x)"
  shows "signed_by C P (to_json x) signature eddsa ml_dsa"
proof -
  from assms obtain parts ek dk where
    parts: "split_compact_signature C signature = Inr parts"
    and keys: "load_public_key_der_hex C P eddsa = Inr ek" "load_public_key_der_hex C P ml_dsa = Inr dk"
    and valid: "verify_message P ek (csp_header parts @ [46] @ csp_payload parts) (csp_eddsa_signature_bytes parts) = Inr True"
      "verify_ml_dsa_message P dk (csp_header parts @ [46] @ csp_payload parts) (csp_ml_dsa_signature_bytes parts) = Inr True"
    and header: "parse_canonical_compact_segment C compact_signature_header_of_json compact_signature_header_json
        (csp_header_bytes parts) = Inr COMPACT_SIGNATURE_VERSION"
    and body: "parse_canonical_compact_segment C of_json to_json (csp_payload_bytes parts) = Inr x"
    by (auto simp: verify_compact_hybrid_signature_with_public_keys_def Let_def bindR_eq_Inr split: if_splits)
  from parts obtain e d where "signature = compact_text (csp_header parts) (csp_payload parts) e d"
    "46 \<notin> set (csp_header parts) \<union> set (csp_payload parts) \<union> set e \<union> set d"
    "url_decode C (csp_header parts) = Some (csp_header_bytes parts)"
    "url_decode C (csp_payload parts) = Some (csp_payload_bytes parts)"
    "url_decode C e = Some (csp_eddsa_signature_bytes parts)" "url_decode C d = Some (csp_ml_dsa_signature_bytes parts)"
    by (rule split_compactE)
  then show ?thesis
    unfolding signed_by_def
    using keys valid signature_header.parsed_canonical [OF header] parsed_canonical [OF body] by metis
qed

text \<open>The text determines the payload.\<close>

lemma signed_payload_unique:
  assumes "json_wire_ok C" "signed_by C P (to_json x) signature e d" "signed_by C P (to_json y) signature e' d'"
  shows "x = y"
proof -
  have "split_on 46 (compact_text h b e d) = [h, b, e, d]" if "46 \<notin> set h \<union> set b \<union> set e \<union> set d" for h b e d
    using that by (simp add: compact_text_def split_on_append split_on_absent)
  then have body: "url_decode C (split_on 46 signature ! 1) = Some (json_to_vec C (to_json z))"
    if "signed_by C P (to_json z) signature e d" for z e d
    using that unfolding signed_by_def by fastforce
  have "json_to_vec C (to_json x) = json_to_vec C (to_json y)" using body [OF assms(2)] body [OF assms(3)] by simp
  then have "to_json x = to_json y" using assms(1) wire_form unfolding json_wire_ok_def by (metis option.inject)
  then show ?thesis by (metis option.inject read_back)
qed

lemma signed_verifies:
  assumes C: "url_codec_ok C" "url_format_ok C" "url_size_ok C" "json_wire_ok C" "json_text_ok C"
    and P: "signature_ok P EDDSA_PADDING EDDSA_PADDING" "signature_ok P ML_DSA_SIGNING_MODE ML_DSA_VERIFY_MODE"
    and pairs: "der_pair_ok C P eddsa" "der_pair_ok C P ml_dsa"
    and signed: "sign_compact_hybrid_payload C P (to_json x) eddsa ml_dsa = Inr signature"
  shows "verify_compact_hybrid_signature_with_public_keys C P of_json to_json signature (vd_public_key_der_hex eddsa)
    (vd_public_key_der_hex ml_dsa) = Inr (ValidSignature x)"
proof -
  let ?h = "json_to_vec C (compact_signature_header_json COMPACT_SIGNATURE_VERSION)" and ?p = "json_to_vec C (to_json x)"
  let ?input = "url_encode C ?h @ [46] @ url_encode C ?p"
  from signed obtain ek dk e d where
    sig: "pk_sign P ek EDDSA_PADDING (utf8 ?input) = Inr e" "pk_sign P dk ML_DSA_SIGNING_MODE (utf8 ?input) = Inr d"
    and keys: "load_private_key_der_hex C P (vd_private_key_der_hex eddsa) = Inr ek"
      "load_private_key_der_hex C P (vd_private_key_der_hex ml_dsa) = Inr dk"
    and text_: "signature = compact_text (url_encode C ?h) (url_encode C ?p) (url_encode C e) (url_encode C d)"
      "str_len signature \<le> COMPACT_SIGNATURE_MAX_CHARS"
    by (auto simp: sign_compact_hybrid_payload_def signature_header.canonical_form canonical_form Let_def bindR_eq_Inr
        sign_message_with_rng_def sign_ml_dsa_message_with_rng_def compact_text_def not_less simp del: str_len_append split: if_splits)
  from pairs keys obtain ep dp where pub: "load_public_key_der_hex C P (vd_public_key_der_hex eddsa) = Inr ep" "pk_public P ek = Inr ep"
    "load_public_key_der_hex C P (vd_public_key_der_hex ml_dsa) = Inr dp" "pk_public P dk = Inr dp"
    by (auto simp: der_pair_ok_def)
  note e = pk_verifies [OF P(1) pub(2) sig(1)] and d = pk_verifies [OF P(2) pub(4) sig(2)]
  have "split_compact_signature C signature = Inr \<lparr>csp_header = url_encode C ?h, csp_payload = url_encode C ?p,
      csp_header_bytes = ?h, csp_payload_bytes = ?p, csp_eddsa_signature_bytes = e, csp_ml_dsa_signature_bytes = d\<rparr>"
    using split_written [OF C(1-3), of ?h ?p e d] C(5) e(1) d(1) text_ by (simp add: json_text_ok_def)
  then show ?thesis
    using e(2) d(2) pub signature_header.parse_canonical [OF C(4)] parse_canonical [OF C(4)]
    by (simp add: verify_compact_hybrid_signature_with_public_keys_def verify_message_def verify_ml_dsa_message_def)
qed

end

end
