(* ===== verification/Sign_Endpoints.thy ===== *)
theory Sign_Endpoints
  imports Signatures Http_Server
begin

text \<open>
  \<open>src/io/http/sign.rs\<close>: the handlers that sign a time stamp and that verify one. Verification needs no API key; a key
  that cannot be loaded here is looked for among the keys of the remote routes.
\<close>

text \<open>A step, the step after its success, and the step after its error.\<close>

definition or_else :: "('e, unit) hop \<Rightarrow> ('e, 'a) hop \<Rightarrow> ('e \<Rightarrow> ('e, 'a) hop) \<Rightarrow> ('e, 'a) hop" where
  "or_else m n f s = (case m s of (s', Inr _) \<Rightarrow> n s' | (s', Inl e) \<Rightarrow> f e s')"

definition sign_endpoint ::
    "crates \<Rightarrow> ciphers \<Rightarrow> ('priv, 'pub) pk_crate \<Rightarrow> http_env \<Rightarrow> ustr result \<Rightarrow> u8 list option \<Rightarrow> ustr \<Rightarrow> json \<Rightarrow>
     (http_error, compact_signature_token) hop" where
  "sign_endpoint C E P env now header kid v =
     bindS (authorize_api_key C env header) (\<lambda>client.
     let actor = Some (actor_from_client client); action = lit ''sign''; failed = lit ''sign.failed'' in
     bindS (require_permission_for env client (Some kid) action (Some (lit ''sign.denied''))) (\<lambda>_.
     bindS (crypto_failed_response env failed actor (Some kid) (Some action) (liftS (validate_key_id kid))) (\<lambda>_.
     bindS (crypto_failed_response env failed actor (Some kid) (Some action) (ensure_keys_db_entry C E env kid)) (\<lambda>_.
     bindS (crypto_failed_response env failed actor (Some kid) (Some action)
              (liftS (parse_sign_input (he_serde_error env) v))) (\<lambda>input.
     bindS (crypto_failed_response env failed actor (Some kid) (Some action)
              (with_keys_db_state (\<lambda>st. get_loaded_key st kid))) (\<lambda>loaded_key.
     bindS (crypto_failed_response env failed actor (Some kid) (Some action)
              (spawn_blocking_crypto env (sign_timestamp_with_loaded_key C P now loaded_key input))) (\<lambda>response.
     bindS (record_event (operation_success env (lit ''sign.success'') actor (Some (cst_kid response)) None (Some action))) (\<lambda>_.
       retS response))))))))"

definition sign_verification_endpoint ::
    "crates \<Rightarrow> ciphers \<Rightarrow> ('priv, 'pub) pk_crate \<Rightarrow> http_env \<Rightarrow> remote_routes_state \<Rightarrow> json \<Rightarrow>
     (http_error, verification_output) hop" where
  "sign_verification_endpoint C E P env remote_routes v =
     bindS (crypto_failed_response env (lit ''verify.failed'') None None None
              (liftS (parse_compact_signature_token (he_serde_error env) v))) (\<lambda>token.
     let kid = cst_kid token in
     bindS (crypto_failed_response env (lit ''verify.failed'') None (Some kid) None
              (or_else (ensure_keys_db_entry C E env kid)
                 (bindS (with_keys_db_state (\<lambda>st. get_loaded_key st kid)) (\<lambda>loaded_key.
                    spawn_blocking_crypto env (verify_compact_timestamp_with_loaded_key C P loaded_key token)))
                 (\<lambda>local_err.
                    case public_keys_for remote_routes kid of
                      Some peer \<Rightarrow> spawn_blocking_crypto env (verify_compact_timestamp_with_peer_keys C P token peer)
                    | None \<Rightarrow> liftS (Inl local_err)))) (\<lambda>response.
     bindS (record_event (operation_success env (lit ''verify.success'') None (Some kid) None None)) (\<lambda>_.
       retS response)))"

end
