(* ===== verification/Sign_Guarantees.thy ===== *)
theory Sign_Guarantees
  imports Signatures_Correct Sign_Endpoints Profile_Guarantees Message_Guarantees
begin

text \<open>
  The signing service as its clients see it: what it signed verifies, what verifies was signed with both keys of the
  key id it names, nothing is signed without permission, and no table changes.
\<close>

section \<open>The handlers\<close>

lemma silent_or_else [handler_intros]:
  "silent m \<Longrightarrow> silent n \<Longrightarrow> (\<And>e. silent (f e)) \<Longrightarrow> silent (or_else m n f)"
  unfolding silent_def or_else_def by (fastforce split: prod.splits sum.splits)

lemma frozen_or_else: "frozen m \<Longrightarrow> frozen n \<Longrightarrow> (\<And>e. frozen (f e)) \<Longrightarrow> frozen (or_else m n f)"
  unfolding frozen_def or_else_def by (fastforce split: prod.splits sum.splits)

lemma peer_step:
  "silent (case peer of Some p \<Rightarrow> spawn_blocking_crypto env (g p) | None \<Rightarrow> liftS r)"
  "frozen (case peer of Some p \<Rightarrow> spawn_blocking_crypto env (g p) | None \<Rightarrow> liftS r)"
  by (cases peer; simp add: silent_intros frozen_intros)+

lemma sign_endpoint_steps:
  "audited (sign_endpoint C E P env now header kid v)" "discreet (sign_endpoint C E P env now header kid v)"
  "frozen (sign_endpoint C E P env now header kid v)"
  "granted (\<lambda>k. \<exists>client. authenticates C env header client \<and>
      require_permission (he_permissions env) client (Some k) (lit ''sign'') = Inr ())
    (sign_endpoint C E P env now header kid v)"
proof -
  show "audited (sign_endpoint C E P env now header kid v)"
    unfolding sign_endpoint_def Let_def by (rule audited_intros handler_intros)+
  show "discreet (sign_endpoint C E P env now header kid v)"
    unfolding sign_endpoint_def Let_def by (rule discreet_intros discreet_bind)+
  show "frozen (sign_endpoint C E P env now header kid v)"
    unfolding sign_endpoint_def Let_def by (intro frozen_bind frozen_failed frozen_intros frozen_ensure_keys)
  show "granted (\<lambda>k. \<exists>client. authenticates C env header client \<and>
      require_permission (he_permissions env) client (Some k) (lit ''sign'') = Inr ())
    (sign_endpoint C E P env now header kid v)"
    unfolding sign_endpoint_def Let_def
    by (rule granted_authorize, rule granted_permission, blast)
      (intro frozen_scoped frozen_bind frozen_failed frozen_intros frozen_ensure_keys)
qed

lemma sign_verification_steps:
  "audited (sign_verification_endpoint C E P env remote v)" "discreet (sign_verification_endpoint C E P env remote v)"
  "frozen (sign_verification_endpoint C E P env remote v)"
proof -
  show "audited (sign_verification_endpoint C E P env remote v)"
    unfolding sign_verification_endpoint_def Let_def by (rule audited_intros handler_intros peer_step(1))+
  show "discreet (sign_verification_endpoint C E P env remote v)"
    unfolding sign_verification_endpoint_def Let_def by (rule discreet_intros discreet_bind)+
  show "frozen (sign_verification_endpoint C E P env remote v)"
    unfolding sign_verification_endpoint_def Let_def
    by (intro frozen_bind frozen_failed frozen_intros frozen_ensure_keys frozen_or_else peer_step(2))
qed

section \<open>Runs of the handlers\<close>

lemma sign_endpointE:
  assumes "sign_endpoint C E P env now header kid v s = (s', Inr out)"
  obtains input k where "parse_sign_input (he_serde_error env) v = Inr input" "keys_get (hs_keys s') kid = Some k"
    "validate_key_id kid = Inr ()" "sign_timestamp_with_loaded_key C P now k input = Inr out"
proof -
  from assms obtain s1 s2 input k where "parse_sign_input (he_serde_error env) v = Inr input" "get_loaded_key (hs_keys s1) kid = Inr k"
    "spawn_blocking_crypto env (sign_timestamp_with_loaded_key C P now k input) s1 = (s2, Inr out)" "hs_keys s' = hs_keys s2"
    by (auto simp: sign_endpoint_def Let_def sop_simps record_event_def)
  then show ?thesis
    using that spawn_Inr [of env "sign_timestamp_with_loaded_key C P now k input" s1 s2 out]
    by (auto simp: view_def get_loaded_key_def bindR_eq_Inr ok_or_eq_Inr simp del: validate_key_id_ok)
qed

lemma sign_timestampE:
  assumes "sign_timestamp_with_loaded_key C P now k input = Inr out"
  obtains created_at serial where "now = Inr created_at" "create_payload_serial C P created_at = Inr serial"
    "validate_message_hash input = Inr ()" "cst_kid out = lk_id k"
    "sign_compact_hybrid_payload C P (timestamp_payload_json
       \<lparr>tsp_version = PROTOCOL_VERSION_V1, tsp_token_type = TIMESTAMP_TOKEN_TYPE, tsp_created_at = created_at, tsp_info = lk_aad k,
        tsp_kid = lk_id k, tsp_serial = serial, tsp_message_hash = input\<rparr>)
       (km_eddsa (ko_keys (lk_key_material k))) (km_ml_dsa (ko_keys (lk_key_material k))) = Inr (cst_signature out)"
  using assms that
  by (auto simp: sign_timestamp_with_loaded_key_def sign_timestamp_def validate_sign_input_def validate_message_hash_def
      Let_def bindR_eq_Inr)

lemma signed_fields_ok:
  assumes "hex_format_ok C" "hash_size_ok C" "hash_bytes C INTERNAL_KEYS_HASH [] = Inr z"
    "create_payload_serial C P created_at = Inr serial" "validate_message_hash h = Inr ()" "check kid = Inr ()"
    "validate_text_field (lit ''payload.created_at'') created_at = Inr ()" "validate_text_field (lit ''payload.info'') info = Inr ()"
    "validate_text_field (lit ''payload.type'') ty = Inr ()"
  shows "validate_signed_payload_fields C \<lparr>tsp_version = PROTOCOL_VERSION_V1, tsp_token_type = ty,
    tsp_created_at = created_at, tsp_info = info, tsp_kid = kid, tsp_serial = serial, tsp_message_hash = h\<rparr> ty check = Inr ()"
proof -
  from assms(4) obtain r x where x: "hash_bytes C INTERNAL_KEYS_HASH (utf8 created_at @ r) = Inr x" "serial = hex_encode C x"
    by (auto simp: create_payload_serial_def bindR_eq_Inr)
  then have "length x = 32" "length z = 32" using assms(2,3) by (simp_all add: hash_size_ok_def)
  moreover from this have "x \<noteq> []" by auto
  moreover have "validate_allowed_value f PROTOCOL_VERSION_V1 [PROTOCOL_VERSION_V1] = Inr ()" for f
    by (simp add: validate_allowed_value_ok validate_text_field_ok PROTOCOL_VERSION_V1_def lit_def char_simps)
  moreover have "validate_allowed_value (lit ''payload.type'') ty [ty] = Inr ()"
    using assms(9) by (simp add: validate_allowed_value_ok validate_text_field_ok)
  ultimately show ?thesis
    using assms(3,5-8) hex_encoded(3) [OF assms(1), of x] hex_field_encoded [OF assms(1), of x]
    by (auto simp: validate_signed_payload_fields_def validate_protocol_version_def x(2))
qed

lemma payload_fields_ok:
  assumes "hex_format_ok C" "hash_size_ok C" "hash_bytes C INTERNAL_KEYS_HASH [] = Inr z"
    "create_payload_serial C P created_at = Inr serial" "validate_message_hash h = Inr ()" "validate_key_id kid = Inr ()"
    "validate_text_field (lit ''payload.created_at'') created_at = Inr ()" "validate_text_field (lit ''payload.info'') info = Inr ()"
  shows "validate_compact_timestamp_payload C \<lparr>tsp_version = PROTOCOL_VERSION_V1, tsp_token_type = TIMESTAMP_TOKEN_TYPE,
    tsp_created_at = created_at, tsp_info = info, tsp_kid = kid, tsp_serial = serial, tsp_message_hash = h\<rparr> kid = Inr ()"
  unfolding validate_compact_timestamp_payload_def
  by (rule signed_fields_ok [OF assms(1-5) _ assms(7,8)])
    (use assms(6) in \<open>simp_all add: validate_text_field_ok TIMESTAMP_TOKEN_TYPE_def lit_def char_simps del: validate_key_id_ok\<close>)

section \<open>The configuration file\<close>

lemma config_info: "config_token_info = Inr (lit ''version=v1;type=vectis-config'')"
  by (simp add: config_token_info_def build_validated_aad_ok build_aad_def PROTOCOL_VERSION_V1_def CONFIG_TOKEN_TYPE_def is_aad_key_char_def
      blank_def char_simps lit_def)

lemma internal_hash_allowed: "validate_allowed_value f INTERNAL_KEYS_HASH HASH_ALGORITHMS = Inr ()"
  by (simp add: validate_allowed_value_ok validate_text_field_ok INTERNAL_KEYS_HASH_def HASH_ALGORITHMS_def lit_def char_simps)

lemma internal_hash_valid:
  assumes "hex_format_ok C" "hash_size_ok C" "hash_bytes C INTERNAL_KEYS_HASH m = Inr x"
  shows "validate_message_hash \<lparr>mh_alg = INTERNAL_KEYS_HASH, mh_hex = hex_encode C x\<rparr> = Inr ()"
proof -
  have "length x = 32" using assms(2,3) by (simp add: hash_size_ok_def)
  then show ?thesis
    using hex_encoded(1,2) [OF assms(1), of x]
    by (simp add: validate_message_hash_def internal_hash_allowed validate_hash_hex_field_ok)
qed

text \<open>A signed configuration is accepted, and one that is accepted has the hash its signature was made for.\<close>

lemma config_signature_roundtrip:
  assumes crates: "url_codec_ok C" "url_format_ok C" "url_size_ok C" "json_wire_ok C" "json_text_ok C" "hex_format_ok C"
      "hash_size_ok C" "hash_bytes C INTERNAL_KEYS_HASH [] = Inr z"
    and pk: "pk_ok P" "der_pair_ok C P (km_eddsa k)" "der_pair_ok C P (km_ml_dsa k)"
    and signed: "sign_config_file C P (Inr created_at) k (Inr config) = Inr signature"
      "validate_text_field (lit ''payload.created_at'') created_at = Inr ()"
    and stored: "json_from_slice C content = Some (JObject [(lit ''signature'', JString signature)])"
  shows "verify_config_file_signature C P k (Inr config) content = Inr ()"
proof -
  let ?p = "\<lambda>serial x. \<lparr>tsp_version = PROTOCOL_VERSION_V1, tsp_token_type = CONFIG_TOKEN_TYPE, tsp_created_at = created_at,
    tsp_info = lit ''version=v1;type=vectis-config'', tsp_kid = SIGN_INIT_KEYS_KID, tsp_serial = serial,
    tsp_message_hash = \<lparr>mh_alg = INTERNAL_KEYS_HASH, mh_hex = hex_encode C x\<rparr>\<rparr>"
  from signed(1) obtain x serial where x: "hash_bytes C INTERNAL_KEYS_HASH (utf8 config) = Inr x"
    and serial: "create_payload_serial C P created_at = Inr serial"
    and sig: "sign_compact_hybrid_payload C P (timestamp_payload_json (?p serial x)) (km_eddsa k) (km_ml_dsa k) = Inr signature"
    by (auto simp: sign_config_file_def config_info bindR_eq_Inr)
  have "validate_config_signature_payload C (?p serial x) = Inr ()"
    unfolding validate_config_signature_payload_def
    by (rule signed_fields_ok [OF crates(6-8) serial internal_hash_valid [OF crates(6,7) x] _ signed(2)])
      (simp_all add: validate_text_field_ok CONFIG_TOKEN_TYPE_def lit_def char_simps)
  moreover have "verify_compact_hybrid_signature C P timestamp_payload_of_json timestamp_payload_json signature (km_eddsa k) (km_ml_dsa k) =
      Inr (?p serial x)"
    using timestamps.signed_verifies [OF crates(1-5) pk_signatures(1,2) [OF pk(1)] pk(2,3) sig]
    by (simp add: verify_compact_hybrid_signature_def)
  moreover have "compact_signature_file_of_json (JObject [(lit ''signature'', JString signature)]) = Some signature"
    by (simp add: compact_signature_file_of_json_def strict_strings_def lit_def)
  ultimately show ?thesis by (simp add: verify_config_file_signature_def stored config_info x)
qed

lemma config_signature_authentic:
  assumes "verify_config_file_signature C P k (Inr config) content = Inr ()"
  shows "\<exists>signature payload x. Option.bind (json_from_slice C content) compact_signature_file_of_json = Some signature \<and>
    signed_by C P (timestamp_payload_json payload) signature (vd_public_key_der_hex (km_eddsa k)) (vd_public_key_der_hex (km_ml_dsa k)) \<and>
    hash_bytes C INTERNAL_KEYS_HASH (utf8 config) = Inr x \<and>
    tsp_message_hash payload = \<lparr>mh_alg = INTERNAL_KEYS_HASH, mh_hex = hex_encode C x\<rparr> \<and> tsp_kid payload = SIGN_INIT_KEYS_KID"
proof -
  from assms obtain signature payload x where
    read: "Option.bind (json_from_slice C content) compact_signature_file_of_json = Some signature"
    and valid: "verify_compact_hybrid_signature C P timestamp_payload_of_json timestamp_payload_json signature (km_eddsa k) (km_ml_dsa k) = Inr payload"
    and rest: "validate_config_signature_payload C payload = Inr ()" "hash_bytes C INTERNAL_KEYS_HASH (utf8 config) = Inr x"
      "mh_alg (tsp_message_hash payload) = INTERNAL_KEYS_HASH" "mh_hex (tsp_message_hash payload) = hex_encode C x"
    by (auto simp: verify_config_file_signature_def config_info bindR_eq_Inr ok_or_eq_Inr map_err_eq_Inr split: if_splits)
  from valid obtain r where r: "verify_compact_hybrid_signature_with_public_keys C P timestamp_payload_of_json timestamp_payload_json signature
      (vd_public_key_der_hex (km_eddsa k)) (vd_public_key_der_hex (km_ml_dsa k)) = Inr r"
    by (auto simp: verify_compact_hybrid_signature_def bindR_eq_Inr)
  have "r = ValidSignature payload"
    using valid by (cases r) (auto simp: verify_compact_hybrid_signature_def r split: compact_signature_failure.splits)
  with r have "signed_by C P (timestamp_payload_json payload) signature (vd_public_key_der_hex (km_eddsa k)) (vd_public_key_der_hex (km_ml_dsa k))"
    using timestamps.verified_signed by blast
  moreover have "tsp_kid payload = SIGN_INIT_KEYS_KID"
    using rest(1) by (auto simp: validate_config_signature_payload_def validate_signed_payload_fields_def bindR_unit_eq split: if_splits)
  ultimately show ?thesis using read rest by (intro exI [of _ signature] exI [of _ payload] exI [of _ x]) simp
qed

lemma yields_or_else: "yields m V x V1 \<Longrightarrow> yields n V1 y V2 \<Longrightarrow> yields (or_else m n f) V y V2"
  unfolding yields_def or_else_def by fastforce

lemma yields_verification:
  assumes "he_admission env = (\<lambda>_. None)"
    and token: "parse_compact_signature_token (he_serde_error env) v = Inr token"
    and key: "keys_get (snd V) (cst_kid token) = Some k" "verify_compact_timestamp_with_loaded_key C P k token = Inr out"
  shows "yields (sign_verification_endpoint C E P env remote v) V out V"
proof -
  have kid: "validate_key_id (cst_kid token) = Inr ()"
    using token by (auto simp: parse_compact_signature_token_def bindR_eq_Inr map_err_eq_Inr simp del: validate_key_id_ok)
  have get: "get_loaded_key (snd V) (cst_kid token) = Inr k"
    using key(1) kid by (simp add: get_loaded_key_def del: validate_key_id_ok)
  have entry: "yields (ensure_keys_db_entry C E env (cst_kid token)) V () V" using key(1) kid by (intro yields_ensure_keys) simp_all
  have step: "yields (or_else (ensure_keys_db_entry C E env (cst_kid token))
      (bindS (with_keys_db_state (\<lambda>st. get_loaded_key st (cst_kid token))) (\<lambda>k.
         spawn_blocking_crypto env (verify_compact_timestamp_with_loaded_key C P k token))) f) V out V" for f
    by (rule yields_or_else [OF entry], rule yields_bind, rule yields_intros(4), rule get,
        rule yields_task [OF assms(1) key(2)])
  show ?thesis
    unfolding sign_verification_endpoint_def Let_def
    by (rule yields_bind [OF yields_intros(5) [OF yields_lift [OF token]]], rule yields_bind [OF yields_intros(5) [OF step]],
        rule yields_bind [OF yields_intros(3)], rule yields_intros(1))
qed

lemma sign_verificationE:
  assumes "sign_verification_endpoint C E P env remote v s = (s', Inr out)" "parse_compact_signature_token (he_serde_error env) v = Inr token"
  shows "(\<exists>k. keys_get (hs_keys s') (cst_kid token) = Some k \<and> verify_compact_timestamp_with_loaded_key C P k token = Inr out) \<or>
    (\<exists>peer. public_keys_for remote (cst_kid token) = Some peer \<and> verify_compact_timestamp_with_peer_keys C P token peer = Inr out)"
proof -
  let ?m = "bindS (with_keys_db_state (\<lambda>st. get_loaded_key st (cst_kid token))) (\<lambda>k.
     spawn_blocking_crypto env (verify_compact_timestamp_with_loaded_key C P k token))"
  let ?f = "\<lambda>e. case public_keys_for remote (cst_kid token) of
     Some peer \<Rightarrow> spawn_blocking_crypto env (verify_compact_timestamp_with_peer_keys C P token peer) | None \<Rightarrow> liftS (Inl e)"
  from assms obtain s1 where run: "or_else (ensure_keys_db_entry C E env (cst_kid token)) ?m ?f s = (s1, Inr out)"
    and keys: "hs_keys s' = hs_keys s1"
    by (auto simp: sign_verification_endpoint_def Let_def sop_simps record_event_def)
  then obtain s0 where "?m s0 = (s1, Inr out) \<or> (\<exists>e. ?f e s0 = (s1, Inr out))"
    unfolding or_else_def by (auto split: prod.splits sum.splits)
  then show ?thesis
  proof (elim disjE exE)
    assume "?m s0 = (s1, Inr out)"
    then obtain k where "get_loaded_key (hs_keys s0) (cst_kid token) = Inr k"
      "spawn_blocking_crypto env (verify_compact_timestamp_with_loaded_key C P k token) s0 = (s1, Inr out)"
      by (auto simp: sop_simps)
    then show ?thesis
      using spawn_Inr [of env "verify_compact_timestamp_with_loaded_key C P k token" s0 s1 out] keys
      by (auto simp: view_def get_loaded_key_def bindR_eq_Inr ok_or_eq_Inr)
  next
    fix e assume "?f e s0 = (s1, Inr out)"
    then show ?thesis by (auto simp: sop_simps dest!: spawn_Inr split: option.splits)
  qed
qed

lemma verified_timestamp:
  assumes "verify_compact_timestamp_with_public_keys C P token e d = Inr (ValidSignature payload)"
    "validate_compact_timestamp_payload C payload (cst_kid token) = Inr ()"
  shows "signed_by C P (timestamp_payload_json payload) (cst_signature token) e d" "tsp_kid payload = cst_kid token"
    "tsp_token_type payload = TIMESTAMP_TOKEN_TYPE" "validate_message_hash (tsp_message_hash payload) = Inr ()"
  using assms(1) timestamps.verified_signed assms(2)
  by (auto simp: verify_compact_timestamp_with_public_keys_def validate_compact_timestamp_payload_def
      validate_signed_payload_fields_def bindR_unit_eq bindR_eq_Inr Let_def validate_allowed_value_ok split: if_splits)

lemma verification_outputs: "verification_failure f \<noteq> verification_ok" "verification_failure f \<in> verification_failure ` {MlDsaFailed, EdDsaFailed}"
  by (cases f; simp add: verification_ok_def lit_def)+

section \<open>An example\<close>

lemma yields_sign:
  assumes env: "he_admission env = (\<lambda>_. None)"
    and auth: "authenticates C env header client" "require_permission (he_permissions env) client (Some kid) (lit ''sign'') = Inr ()"
    and key: "validate_key_id kid = Inr ()" "keys_get (snd V) kid = Some k"
    and steps: "parse_sign_input (he_serde_error env) v = Inr input" "sign_timestamp_with_loaded_key C P now k input = Inr out"
  shows "yields (sign_endpoint C E P env now header kid v) V out V"
proof -
  note failed = yields_intros(5)
  have get: "get_loaded_key (snd V) kid = Inr k" using key by (simp add: get_loaded_key_def del: validate_key_id_ok)
  have loaded: "keys_get (snd V) kid \<noteq> None" using key(2) by simp
  show ?thesis
    unfolding sign_endpoint_def Let_def
    by (rule yields_bind [OF yields_authorize [OF auth(1)]], rule yields_bind [OF yields_permission [OF auth(2)]],
        rule yields_bind [OF failed [OF yields_lift [OF key(1)]]], rule yields_bind [OF failed [OF yields_ensure_keys [OF loaded key(1)]]],
        rule yields_bind [OF failed [OF yields_lift [OF steps(1)]]], rule yields_bind [OF failed [OF yields_intros(4)]], rule get,
        rule yields_bind [OF failed [OF yields_task [OF env steps(2)]]], rule yields_bind [OF yields_intros(3)], rule yields_intros(1))
qed

definition sign_key :: loaded_ops_key where "sign_key = service_key\<lparr>lk_aad := lit ''i''\<rparr>"

definition sign_state :: http_state where "sign_state = service_state\<lparr>hs_keys := keys_from_keys [sign_key]\<rparr>"

definition sign_hash :: message_hash where "sign_hash = \<lparr>mh_alg = INTERNAL_KEYS_HASH, mh_hex = replicate 64 97\<rparr>"

definition sign_request :: json where
  "sign_request = JObject [(lit ''message_hash'', JObject [(lit ''alg'', JString (mh_alg sign_hash)), (lit ''hex'', JString (mh_hex sign_hash))])]"

definition sign_payload :: timestamp_payload where
  "sign_payload = \<lparr>tsp_version = PROTOCOL_VERSION_V1, tsp_token_type = TIMESTAMP_TOKEN_TYPE, tsp_created_at = lit ''7'', tsp_info = lit ''i'',
     tsp_kid = example_kid, tsp_serial = concat (map hex_byte (replicate 32 2)), tsp_message_hash = sign_hash\<rparr>"

definition sign_crates :: crates where
  "sign_crates = (vault_crates [compact_signature_header_json COMPACT_SIGNATURE_VERSION, timestamp_payload_json sign_payload])
     \<lparr>url_encode := url_text, url_decode := (\<lambda>s. Some (url_bytes s)), create_hmac_with_algorithm := \<lambda>_ _ _. Inr (replicate 32 3)\<rparr>"

definition sign_answer :: compact_signature_token where
  "sign_answer = \<lparr>cst_kid = example_kid, cst_signature = compact_text (url_text [1]) (url_text [1, 1]) (url_text [9]) (url_text [9])\<rparr>"

definition sign_token_request :: json where
  "sign_token_request = JObject [(lit ''kid'', JString example_kid), (lit ''signature'', JString (cst_signature sign_answer))]"

lemma sign_crates_ok:
  "url_codec_ok sign_crates" "url_format_ok sign_crates" "url_size_ok sign_crates" "json_wire_ok sign_crates" "json_text_ok sign_crates"
  "hex_format_ok sign_crates" "hash_size_ok sign_crates" "hash_bytes sign_crates INTERNAL_KEYS_HASH m = Inr (replicate 32 2)"
  "hex_codec_ok sign_crates" "create_hmac_with_algorithm sign_crates = (\<lambda>_ _ _. Inr (replicate 32 3))"
  "hex_encode sign_crates = (\<lambda>bs. concat (map hex_byte bs))"
proof -
  show "url_codec_ok sign_crates" "url_format_ok sign_crates" "url_size_ok sign_crates"
    by (simp_all add: sign_crates_def url_codec_ok_def url_format_ok_def url_size_ok_def url_bytes_text url_text_length url_text_format)
  let ?vs = "[compact_signature_header_json COMPACT_SIGNATURE_VERSION, timestamp_payload_json sign_payload]"
  show "json_wire_ok sign_crates" "hex_format_ok sign_crates" "hash_size_ok sign_crates" "hex_codec_ok sign_crates"
    using vault_crates_ok(4,5,7,8) [of ?vs]
    by (simp_all add: sign_crates_def json_wire_ok_def hex_format_ok_def hash_size_ok_def hex_codec_ok_def)
  show "json_text_ok sign_crates" "hash_bytes sign_crates INTERNAL_KEYS_HASH m = Inr (replicate 32 2)"
    "create_hmac_with_algorithm sign_crates = (\<lambda>_ _ _. Inr (replicate 32 3))" "hex_encode sign_crates = (\<lambda>bs. concat (map hex_byte bs))"
    by (simp_all add: sign_crates_def json_text_ok_def vault_crates_def example_crates_def vault_json_def)
qed

lemma sign_keys: "keys_get (hs_keys sign_state) example_kid = Some sign_key" "lk_id sign_key = example_kid"
  "lk_aad sign_key = lit ''i''" "lk_key_material sign_key = key_output" "require_lifecycle_for_new_use sign_key = Inr ()"
  "require_lifecycle_for_decrypt_or_verify sign_key = Inr ()"
  by (simp_all add: sign_state_def sign_key_def service_key_def keys_from_keys_def keys_get_def index_by_name_def list_get_def
      require_lifecycle_for_new_use_def require_lifecycle_for_decrypt_or_verify_def lifecycle_status_def create_ops_key_properties_def)

lemma sign_ders:
  "load_private_key_der_hex sign_crates key_pk (hex_byte b) = Inr ()" "load_public_key_der_hex sign_crates key_pk (hex_byte b) = Inr ()"
  using hex_codec [OF sign_crates_ok(9), of "[b]"]
  by (simp_all add: load_private_key_der_hex_def load_public_key_der_hex_def hex_decode_q_def key_pk_def sign_crates_ok(11))

lemma sign_signature:
  "sign_compact_hybrid_payload sign_crates key_pk (timestamp_payload_json sign_payload) (km_eddsa (ko_keys key_output))
     (km_ml_dsa (ko_keys key_output)) = Inr (cst_signature sign_answer)"
proof -
  have "compact_signature_header_json v \<noteq> timestamp_payload_json p" for v p
    by (simp add: compact_signature_header_json_def timestamp_payload_json_def)
  then have json: "json_to_vec sign_crates (compact_signature_header_json COMPACT_SIGNATURE_VERSION) = [1]"
      "json_to_vec sign_crates (timestamp_payload_json sign_payload) = [1, 1]" "url_encode sign_crates = url_text"
    by (simp_all add: sign_crates_def vault_crates_def vault_json_def)
  have "str_len (cst_signature sign_answer) \<le> 4 * length (cst_signature sign_answer)" by (rule str_len_le)
  also have "\<dots> \<le> COMPACT_SIGNATURE_MAX_CHARS"
    by (simp add: sign_answer_def compact_text_def url_text_length COMPACT_SIGNATURE_MAX_CHARS_def)
  finally show ?thesis
    by (simp add: sign_compact_hybrid_payload_def signature_header.canonical_form timestamps.canonical_form json example_material
        sign_ders sign_message_with_rng_def sign_ml_dsa_message_with_rng_def example_pk sign_answer_def compact_text_def
        Let_def not_less del: str_len_append)
qed

lemma sign_requests:
  "sign_input_of_json sign_request = Some sign_hash" "parse_sign_input (he_serde_error service_env) sign_request = Inr sign_hash"
  "parse_compact_signature_token (he_serde_error service_env) sign_token_request = Inr sign_answer"
proof -
  show r: "sign_input_of_json sign_request = Some sign_hash"
    by (simp add: sign_input_of_json_def sign_request_def message_hash_of_json_def strict_strings_def lit_def)
  have canon: "validate_canonical_json_value f sign_request = Inr ()" "validate_canonical_json_value f sign_token_request = Inr ()" for f
    by (simp_all add: sign_request_def sign_token_request_def validate_canonical_json_value_def MAX_JSON_DEPTH_def
        validate_canonical_json_value_at_depth.simps SERDE_JSON_PRIVATE_KEY_PREFIX_def starts_with_def lit_def)
  show "parse_sign_input (he_serde_error service_env) sign_request = Inr sign_hash"
    by (simp add: parse_sign_input_def parse_json_request_def canon r)
  have "compact_signature_token_of_json sign_token_request = Some sign_answer"
    by (simp add: compact_signature_token_of_json_def sign_token_request_def strict_strings_def lit_def) (simp add: sign_answer_def)
  then show "parse_compact_signature_token (he_serde_error service_env) sign_token_request = Inr sign_answer"
    by (simp add: parse_compact_signature_token_def parse_json_request_def canon sign_answer_def example_key_id del: validate_key_id_ok)
qed

lemma sign_pairs_ok: "der_pair_ok sign_crates key_pk (km_eddsa (ko_keys key_output))" "der_pair_ok sign_crates key_pk (km_ml_dsa (ko_keys key_output))"
  by (simp_all add: der_pair_ok_def example_material sign_ders) (simp_all add: key_pk_def)

lemma sign_fields:
  "validate_message_hash sign_hash = Inr ()" "create_payload_serial sign_crates key_pk (lit ''7'') = Inr (tsp_serial sign_payload)"
  "validate_text_field f (lit ''7'') = Inr ()" "validate_text_field f (lit ''i'') = Inr ()"
proof -
  have "validate_hash_hex_field f (replicate 64 97) INTERNAL_KEYS_HASH = Inr ()" for f
    by (simp add: validate_hash_hex_field_ok list_all_iff char_simps)
  then show "validate_message_hash sign_hash = Inr ()" by (simp add: validate_message_hash_def sign_hash_def internal_hash_allowed)
  show "create_payload_serial sign_crates key_pk (lit ''7'') = Inr (tsp_serial sign_payload)"
    by (simp add: create_payload_serial_def key_pk_def sign_crates_ok(8,11) sign_payload_def)
  show "validate_text_field f (lit ''7'') = Inr ()" "validate_text_field f (lit ''i'') = Inr ()"
    by (simp_all add: validate_text_field_ok lit_def char_simps)
qed

lemma sign_verified: "verify_compact_timestamp_with_loaded_key sign_crates key_pk sign_key sign_answer = Inr verification_ok"
proof -
  have "validate_compact_timestamp_payload sign_crates sign_payload example_kid = Inr ()"
    using payload_fields_ok [OF sign_crates_ok(6,7,8) sign_fields(2,1) example_key_id sign_fields(3,4)] by (simp add: sign_payload_def)
  then show ?thesis
    using timestamps.signed_verifies [OF sign_crates_ok(1-5) pk_signatures(1,2) [OF key_pk_ok] sign_pairs_ok sign_signature]
    by (simp add: verify_compact_timestamp_with_loaded_key_def verify_compact_timestamp_with_public_keys_def sign_keys)
      (simp add: sign_answer_def sign_payload_def)
qed

lemma sign_created:
  "yields (sign_endpoint sign_crates vault_ciphers key_pk service_env (Inr (lit ''7'')) service_header example_kid sign_request)
     (view sign_state) sign_answer (view sign_state)"
proof -
  have "validate_sign_input sign_hash = Inr sign_hash"
    using sign_fields(1) by (simp add: validate_sign_input_def validate_message_hash_def bindR_unit_eq)
  then have "sign_timestamp_with_loaded_key sign_crates key_pk (Inr (lit ''7'')) sign_key sign_hash = Inr sign_answer"
    using sign_signature sign_fields(2)
    by (simp add: sign_timestamp_with_loaded_key_def sign_timestamp_def sign_keys example_pk(1) sign_payload_def Let_def)
      (simp add: sign_answer_def)
  then show ?thesis
    using service_env_ok(2) profile_service_auth [OF sign_crates_ok(10,9,11)] root_permission [of "''sign''"] example_key_id sign_keys(1) sign_requests(2)
    by (intro yields_sign) (simp_all add: view_def del: validate_key_id_ok)
qed

section \<open>Properties\<close>

text \<open>C25: what verifies was signed. The answer of the verification endpoint is one of three and changes no table; when
  it says that both signatures are valid, the text of the token carries an EdDSA and an ML-DSA signature over one
  canonical time-stamp payload, which the text determines and which names the key id of the token, either under the
  keys loaded for this key id, which may still verify and whose information it repeats, or under the public keys of its
  active remote route.\<close>

theorem verification_authentic:
  assumes "json_wire_ok C" "sign_verification_endpoint C E P env remote v s = (s', Inr out)"
    and token: "parse_compact_signature_token (he_serde_error env) v = Inr token"
  shows "sd_db (hs_storage s') = sd_db (hs_storage s) \<and>
    (out = verification_ok \<or> out \<in> verification_failure ` {MlDsaFailed, EdDsaFailed}) \<and>
    (out = verification_ok \<longrightarrow>
      (\<exists>payload e d. signed_by C P (timestamp_payload_json payload) (cst_signature token) e d \<and>
         (\<forall>q e' d'. signed_by C P (timestamp_payload_json q) (cst_signature token) e' d' \<longrightarrow> q = payload) \<and>
         tsp_kid payload = cst_kid token \<and> tsp_token_type payload = TIMESTAMP_TOKEN_TYPE \<and>
         validate_message_hash (tsp_message_hash payload) = Inr () \<and>
         ((\<exists>k. keys_get (hs_keys s') (cst_kid token) = Some k \<and> require_lifecycle_for_decrypt_or_verify k = Inr () \<and>
             tsp_info payload = lk_aad k \<and> e = vd_public_key_der_hex (km_eddsa (ko_keys (lk_key_material k))) \<and>
             d = vd_public_key_der_hex (km_ml_dsa (ko_keys (lk_key_material k)))) \<or>
          (\<exists>peer. public_keys_for remote (cst_kid token) = Some peer \<and> e = pd_public_key_der_hex (pu_eddsa peer) \<and>
             d = pd_public_key_der_hex (pu_ml_dsa peer)))))"
proof -
  have frozen: "sd_db (hs_storage s') = sd_db (hs_storage s)"
    using sign_verification_steps(3) [of C E P env remote v] assms(2) unfolding frozen_def by blast
  note unique = timestamps.signed_payload_unique [OF assms(1)]
  from sign_verificationE [OF assms(2) token] show ?thesis
  proof (elim disjE exE conjE)
    fix k assume k: "keys_get (hs_keys s') (cst_kid token) = Some k" "verify_compact_timestamp_with_loaded_key C P k token = Inr out"
    let ?e = "vd_public_key_der_hex (km_eddsa (ko_keys (lk_key_material k)))" and ?d = "vd_public_key_der_hex (km_ml_dsa (ko_keys (lk_key_material k)))"
    from k(2) obtain r where r: "verify_compact_timestamp_with_public_keys C P token ?e ?d = Inr r"
      "require_lifecycle_for_decrypt_or_verify k = Inr ()"
      by (auto simp: verify_compact_timestamp_with_loaded_key_def Let_def bindR_eq_Inr)
    show ?thesis
    proof (cases r)
      case (ValidSignature payload)
      then have "validate_compact_timestamp_payload C payload (cst_kid token) = Inr ()" "tsp_info payload = lk_aad k" "out = verification_ok"
        using k(2) r by (auto simp: verify_compact_timestamp_with_loaded_key_def Let_def bindR_eq_Inr split: if_splits)
      then show ?thesis
        using verified_timestamp [OF r(1) [unfolded ValidSignature]] unique frozen k(1) r(2) by blast
    next
      case (FailedSignature f)
      then have "out = verification_failure f" using k(2) r by (simp add: verify_compact_timestamp_with_loaded_key_def)
      then show ?thesis using frozen verification_outputs by simp
    qed
  next
    fix peer assume p: "public_keys_for remote (cst_kid token) = Some peer" "verify_compact_timestamp_with_peer_keys C P token peer = Inr out"
    then obtain r where r: "verify_compact_timestamp_with_public_keys C P token (pd_public_key_der_hex (pu_eddsa peer))
        (pd_public_key_der_hex (pu_ml_dsa peer)) = Inr r"
      by (auto simp: verify_compact_timestamp_with_peer_keys_def bindR_eq_Inr)
    show ?thesis
    proof (cases r)
      case (ValidSignature payload)
      then have "validate_compact_timestamp_payload C payload (cst_kid token) = Inr ()" "out = verification_ok"
        using p(2) r by (auto simp: verify_compact_timestamp_with_peer_keys_def bindR_eq_Inr)
      then show ?thesis
        using verified_timestamp [OF r [unfolded ValidSignature]] unique frozen p(1) by blast
    next
      case (FailedSignature f)
      then have "out = verification_failure f" using p(2) r by (simp add: verify_compact_timestamp_with_peer_keys_def)
      then show ?thesis using frozen verification_outputs by simp
    qed
  qed
qed

theorem verification_authentic_witness:
  "\<exists>s' payload. sign_verification_endpoint sign_crates vault_ciphers key_pk service_env (remote_from_routes []) sign_token_request sign_state =
       (s', Inr verification_ok) \<and>
     signed_by sign_crates key_pk (timestamp_payload_json payload) (cst_signature sign_answer) (hex_byte 5) (hex_byte 5) \<and>
     tsp_kid payload = example_kid"
proof -
  from yields_verification [OF service_env_ok(2) sign_requests(3) _ sign_verified, of "view sign_state" vault_ciphers "remote_from_routes []"]
  obtain s' where run: "sign_verification_endpoint sign_crates vault_ciphers key_pk service_env (remote_from_routes []) sign_token_request sign_state =
       (s', Inr verification_ok)" "view s' = view sign_state"
    using sign_keys(1) yieldsD by (fastforce simp: sign_answer_def view_def)
  have "public_keys_for (remote_from_routes []) kid = None" for kid
    by (simp add: public_keys_for_def remote_get_def remote_from_routes_def index_by_name_def)
  with verification_authentic [OF sign_crates_ok(4) run(1) sign_requests(3)] run show ?thesis
    using sign_keys by (fastforce simp: view_def example_material sign_answer_def)
qed

text \<open>C26: what was signed verifies. The token a client is given for a message hash is valid at the verification endpoint,
  at any later time at which the key is loaded with the same material and may still verify, and its text is signed over
  a payload with that hash, that key id and the time of signing.\<close>

theorem sign_service_roundtrip:
  assumes crates: "url_codec_ok C" "url_format_ok C" "url_size_ok C" "json_wire_ok C" "json_text_ok C" "hex_format_ok C"
      "hash_size_ok C" "hash_bytes C INTERNAL_KEYS_HASH [] = Inr z"
    and pk: "pk_ok P" and env: "he_admission env = (\<lambda>_. None)"
    and signed: "sign_endpoint C E P env (Inr created_at) header kid v s = (s', Inr out)" "sign_input_of_json v = Some h"
      "validate_text_field (lit ''payload.created_at'') created_at = Inr ()"
    and key: "keys_get (hs_keys s') kid = Some k" "lk_id k = kid" "der_pair_ok C P (km_eddsa (ko_keys (lk_key_material k)))"
      "der_pair_ok C P (km_ml_dsa (ko_keys (lk_key_material k)))" "validate_text_field (lit ''payload.info'') (lk_aad k) = Inr ()"
    and later: "keys_get (hs_keys t) kid = Some k'" "lk_key_material k' = lk_key_material k" "lk_aad k' = lk_aad k"
      "require_lifecycle_for_decrypt_or_verify k' = Inr ()"
    and verifying: "parse_compact_signature_token (he_serde_error env) w = Inr out"
  shows "(\<exists>t'. sign_verification_endpoint C E P env remote w t = (t', Inr verification_ok) \<and> view t' = view t) \<and>
    (\<exists>payload. tsp_message_hash payload = h \<and> tsp_kid payload = kid \<and> tsp_created_at payload = created_at \<and>
       signed_by C P (timestamp_payload_json payload) (cst_signature out)
         (vd_public_key_der_hex (km_eddsa (ko_keys (lk_key_material k)))) (vd_public_key_der_hex (km_ml_dsa (ko_keys (lk_key_material k)))))"
proof -
  from signed(1) obtain input kx where input: "parse_sign_input (he_serde_error env) v = Inr input"
    and kx: "keys_get (hs_keys s') kid = Some kx" "validate_key_id kid = Inr ()"
    and run: "sign_timestamp_with_loaded_key C P (Inr created_at) kx input = Inr out"
    by (rule sign_endpointE)
  have same: "kx = k" "input = h"
    using key(1) kx(1) input signed(2) by (auto simp: parse_sign_input_def parse_json_request_def bindR_unit_eq ok_or_eq_Inr)
  let ?p = "\<lambda>serial. \<lparr>tsp_version = PROTOCOL_VERSION_V1, tsp_token_type = TIMESTAMP_TOKEN_TYPE, tsp_created_at = created_at,
    tsp_info = lk_aad k, tsp_kid = kid, tsp_serial = serial, tsp_message_hash = h\<rparr>"
  let ?m = "ko_keys (lk_key_material k)"
  from run obtain serial where serial: "create_payload_serial C P created_at = Inr serial" "validate_message_hash h = Inr ()" "cst_kid out = kid"
    and sig: "sign_compact_hybrid_payload C P (timestamp_payload_json (?p serial)) (km_eddsa ?m) (km_ml_dsa ?m) = Inr (cst_signature out)"
    unfolding same by (rule sign_timestampE) (auto simp: key(2))
  have fields: "validate_compact_timestamp_payload C (?p serial) kid = Inr ()"
    by (rule payload_fields_ok [OF crates(6-8) serial(1,2) kx(2) signed(3) key(5)])
  have valid: "verify_compact_timestamp_with_public_keys C P out (vd_public_key_der_hex (km_eddsa ?m))
      (vd_public_key_der_hex (km_ml_dsa ?m)) = Inr (ValidSignature (?p serial))"
    unfolding verify_compact_timestamp_with_public_keys_def
    by (rule timestamps.signed_verifies [OF crates(1-5) pk_signatures(1,2) [OF pk] key(3,4) sig])
  have "verify_compact_timestamp_with_loaded_key C P k' out = Inr verification_ok"
    using valid fields later serial(3) by (simp add: verify_compact_timestamp_with_loaded_key_def)
  from yields_verification [OF env verifying _ this, of "view t" E remote]
  have "yields (sign_verification_endpoint C E P env remote w) (view t) verification_ok (view t)"
    using later(1) serial(3) by (simp add: view_def)
  from yieldsD [OF this] show ?thesis
    using verified_timestamp(1) [OF valid] fields serial(3) by (intro conjI exI [of _ "?p serial"]) auto
qed

theorem sign_service_roundtrip_witness:
  "\<exists>s' t'. sign_endpoint sign_crates vault_ciphers key_pk service_env (Inr (lit ''7'')) service_header example_kid sign_request sign_state =
       (s', Inr sign_answer) \<and>
     sign_verification_endpoint sign_crates vault_ciphers key_pk service_env (remote_from_routes []) sign_token_request s' =
       (t', Inr verification_ok)"
proof -
  obtain s' where run: "sign_endpoint sign_crates vault_ciphers key_pk service_env (Inr (lit ''7'')) service_header example_kid sign_request
      sign_state = (s', Inr sign_answer)" and s': "hs_keys s' = hs_keys sign_state"
    using yieldsD [OF sign_created] by (auto simp: view_def)
  from sign_service_roundtrip [OF sign_crates_ok(1-8) key_pk_ok service_env_ok(2) run sign_requests(1) sign_fields(3) _ sign_keys(2) _ _ _ _ refl refl
      sign_keys(6) sign_requests(3), of s' "remote_from_routes []"] show ?thesis
    using run sign_keys sign_pairs_ok sign_fields(4) by (auto simp: s')
qed

end
