(* ===== verification/Spec2Isabelle.thy ===== *)
theory Spec2Isabelle
  imports Masking Share_Envelopes Permissions Fpe_Correct Audit_Log Storage_Schema Token_Guarantees Key_Guarantees
    Message_Guarantees Service_Guarantees Single_Flight Routes Share_Service Index_Guarantees Sign_Guarantees
begin

text \<open>
  \<^bold>\<open>Vectis\<close> is a cryptographic service: clients hold API keys, the service holds operational keys and answers requests to
  tokenize, mask, authenticate, commit to, share and encrypt values and to send messages to other instances. This
  development models the parts of the Rust sources under \<open>src/src/\<close> that decide what the service does, and proves the
  properties that make them correct. The root theory only gathers the library; a property stands in the theory of its
  component, after a text that names it \<open>C1\<close>, \<open>C2\<close>, \<open>\<dots>\<close>.

  \<^bold>\<open>The program and how its parts interact.\<close> A request enters a handler of \<open>io/http\<close>, which authenticates the API key
  and asks \<open>core/permissions.rs\<close> whether its client may perform the action on the key id, loads the operational key on
  demand (\<open>ops/keys.rs\<close>, through the shared loads of \<open>io/http/key_load.rs\<close>), finds the profile of the request in the
  configuration, lets a module of \<open>ops\<close> read, validate and prepare the body, performs the cryptographic work of a module
  of \<open>core\<close> in a blocking task, reads and writes the tables of \<open>core/storage\<close> where tokens, subjects and keys are kept,
  writes audit events, which the writer of \<open>core/audit_chain.rs\<close> chains and makes durable, and answers with a result or
  with an error of \<open>error.rs\<close> reduced to what a caller may see.

  \<^bold>\<open>How the code is represented.\<close> Structs are records, enums datatypes; a byte is \<open>8 word\<close>, a Rust string the list of
  its code points (\<open>ustr\<close>, with \<open>str_len\<close> the number of its UTF-8 bytes), \<open>Result\<close> is \<open>dyn_error + 'a\<close> with \<open>bindR\<close>
  for the question mark, and a panic is an error value of its own. State is passed explicitly: \<open>(s, e, 'a) op\<close> of
  \<open>Storage\<close> is a function from a state to a state and a result, with \<open>bindS\<close> for sequence, used with the database
  as state and again with the state of the server (\<open>hop\<close>). Error messages are the source's, because callers and tests
  observe them. Loops over lists are structural recursion; the UTF-8 reader takes the length of its input as fuel, and
  \<open>Utf8\<close> shows that it inverts the encoder at that fuel.

  \<^bold>\<open>Parameters.\<close> What other crates compute is an argument: \<open>crates\<close> (base64, hexadecimal and JSON codecs, hash, HMAC, KMAC,
  HKDF), \<open>ciphers\<close> (AEAD and SIV modes), \<open>pk_crate\<close> (asymmetric keys, agreement, encapsulation, signatures), \<open>fpe_crate\<close>
  (FF1), \<open>net\<close> (recognising addresses and domain names), \<open>audit_env\<close> (clock, serializer and file of the audit writer),
  \<open>storage_env\<close> (which requests to the database fail), the admission of blocking tasks, the texts of deserializer
  errors, the HTTP posts between instances, the waiter a tokio \<open>OnceCell\<close> admits, random bytes and the time of day. A
  theorem names the documented behaviour it needs (\<open>url_codec_ok\<close>, \<open>json_codec_ok\<close>, \<open>aead_ok\<close>, \<open>pk_ok\<close>, \<open>random_ok\<close>,
  \<open>once_cell_ok\<close>, \<open>json_size_ok\<close> and so on) as a hypothesis, and its witness instantiates the parameter by a concrete
  function that has that behaviour (\<open>example_crates\<close>, \<open>Vault_Example\<close>, \<open>Wire_Sizes\<close>).

  \<^bold>\<open>Foundations.\<close>
  \<^item> \<open>Prelude\<close>: the Rust data, the standard-library operations on strings and results, the shared lemmas and the
    collections \<open>result_simps\<close>, \<open>char_simps\<close>; \<open>Utf8\<close>: \<open>str::from_utf8\<close>; \<open>Errors\<close>: \<open>error.rs\<close>; \<open>Crypto\<close>: the tables and
    the comparison of \<open>core/crypto.rs\<close>; \<open>Crates\<close>: the record of parameters and \<open>core/canonical.rs\<close>.
  \<^item> \<open>Validation\<close>, \<open>Hosts\<close>: \<open>core/validation.rs\<close>, with AAD that is read back as it was built; \<open>Subject_Ids\<close>: the checks
    of \<open>core/subjects.rs\<close>; \<open>Envelopes\<close>: the sealed envelopes of stored secrets.
  \<^item> \<open>Profiles\<close>: the interface every family of profiles shares, as the locales \<open>profile_registry\<close> and
    \<open>profile_loader\<close>: a loaded state holds exactly the profiles of its configuration, each under its name. They are
    interpreted on masking, MAC, commitment, sharing, tokenization, FPE and deterministic profiles.

  \<^bold>\<open>Cryptographic profiles.\<close>
  \<^item> \<open>Masking\<close> (\<open>core/masking.rs\<close>): what is shown and what is hidden, without underflow. \<open>Mac\<close> (\<open>core/mac.rs\<close>) and
    \<open>Commitments\<close> (\<open>core/commitments.rs\<close>): key derivation, domain separation, keyed tags, and an injective payload.
  \<^item> \<open>GF256\<close>, \<open>Interpolation\<close>, \<open>Sharing\<close>, \<open>Share_Envelopes\<close> (\<open>core/sharing.rs\<close>): the bytes are a field under the
    branch-free arithmetic of the code; any threshold of shares gives the secret back, combining accepts exactly
    consistent shares, fewer shares than the threshold say nothing about the secret, and envelopes authenticate.
  \<^item> \<open>Fpe\<close>, \<open>Fpe_Correct\<close> (\<open>core/fpe.rs\<close>): encryption keeps the format, and decryption inverts it
    unless the ciphertext is blank, which it refuses.
  \<^item> \<open>Tokens\<close>, \<open>Subjects\<close>, \<open>Tokens_Correct\<close>, \<open>Token_Guarantees\<close> (\<open>core/tokenization.rs\<close>, \<open>core/subjects.rs\<close>): records
    and seeds are read back by the context that wrote them and by no other; \<open>Vault_Example\<close> is the concrete instance.
  \<^item> \<open>Deterministic_Tokens\<close>, \<open>Wire_Sizes\<close>, \<open>Deterministic_Guarantees\<close> (\<open>core/deterministic_tokenization.rs\<close>): one token for
    a plaintext, within the size limits, tied to key, profile, labels and subject.

  \<^bold>\<open>State.\<close>
  \<^item> \<open>Storage\<close>, \<open>Storage_Correct\<close>, \<open>Storage_Vault\<close>, \<open>Storage_Guarantees\<close>, \<open>Storage_Schema\<close> (\<open>core/storage/mod.rs\<close>,
    \<open>core/storage/sqlite.rs\<close>): every operation refines one on maps by primary key (\<open>vault_of\<close>) under any fault of the
    database, as the contract \<open>atomic_operation\<close>; the tables keep their invariant, batches are all or nothing, a token
    is consumed once, erasure is complete and bars writers that hold an earlier seed of the subject; the schemas that are
    accepted are characterised, and they include some whose primary key is wider than the operations rely on.
  \<^item> \<open>Key_Material\<close>, \<open>Ops_Keys\<close>, \<open>Ops_Keys_Correct\<close>, \<open>Key_Lifecycle\<close>, \<open>Key_Guarantees\<close> (\<open>ops/key_material.rs\<close>,
    \<open>ops/internal_keys.rs\<close>, \<open>ops/keys.rs\<close>): created keys are loaded back, the loaded set does not depend on the order of
    the tasks, and the status of a stored key moves along the transitions of the code only, as a step relation in which
    updates interleave.
  \<^item> \<open>Audit_Chain\<close>, \<open>Audit_Verify\<close>, \<open>Audit_Writer\<close>, \<open>Audit_Log\<close> (\<open>core/audit_chain.rs\<close>): the writer as a step relation; its
    log verifies, a log that verifies is determined by its head hashes, barriers are durable, a poisoned writer stops.
  \<^item> \<open>Permissions\<close> (\<open>core/permissions.rs\<close>): a request is granted exactly when the configuration says so. \<open>Routes\<close>
    (\<open>core/routes.rs\<close>): every key id is delivered to the application of its entry.

  \<^bold>\<open>Messages.\<close> \<open>Public_Keys\<close>, \<open>Messages\<close>, \<open>Messages_Correct\<close>, \<open>Internal_Messages\<close>, \<open>Message_Guarantees\<close> (\<open>ops/message.rs\<close>,
  \<open>ops/pubkey.rs\<close>, \<open>core/remote_routes.rs\<close>): what is sent arrives, what is accepted was signed, and messages for the
  instance itself are bound to their context.

  \<^bold>\<open>Signatures.\<close> \<open>Signatures\<close>, \<open>Signatures_Correct\<close> (\<open>ops/sign.rs\<close>), \<open>Sign_Endpoints\<close>, \<open>Sign_Guarantees\<close>
  (\<open>io/http/sign.rs\<close>): compact signatures of payloads that satisfy \<open>signed_payload\<close> (a canonical JSON form that is read
  back). A signed time stamp verifies, one that verifies carries both signatures over the one payload its text
  determines, and the same holds of the signature of the configuration file, whose canonical text is an argument.

  \<^bold>\<open>Services.\<close>
  \<^item> \<open>Token_Ops\<close>, \<open>Http_Server\<close>, \<open>Token_Endpoints\<close>, \<open>Http_Correct\<close>, \<open>Token_Service\<close>, \<open>Service_Guarantees\<close>
    (\<open>ops/tokenization.rs\<close>, \<open>ops/subjects.rs\<close>, \<open>io/http\<close>): the token handlers; judgements on operations (\<open>quiet\<close>,
    \<open>audited\<close>, \<open>granted\<close>, \<open>discreet\<close>, \<open>yields\<close>) with one rule for every way handlers are put together carry the
    permission, audit, error and round-trip properties.
  \<^item> \<open>Profile_Ops\<close>, \<open>Deterministic_Ops\<close>, \<open>Fpe_Ops\<close> (\<open>ops/mac.rs\<close>, \<open>ops/masking.rs\<close>, \<open>ops/commitments.rs\<close>, \<open>ops/sharing.rs\<close>,
    \<open>ops/deterministic_tokenization.rs\<close>, \<open>ops/fpe.rs\<close>), \<open>Profile_Endpoints\<close>, \<open>Profile_Service\<close>, \<open>Profile_Guarantees\<close>,
    \<open>Share_Service\<close>: the handlers of the profiles in their two forms; \<open>silent_steps\<close> and \<open>handler_steps\<close> are what the
    forms need of the step that builds a context and of the step that does the work, \<open>tag_verifier\<close> the contract of
    codes and commitments.
  \<^item> \<open>Index_Ops\<close>, \<open>Index_Endpoints\<close>, \<open>Index_Guarantees\<close> (\<open>ops/indexes.rs\<close>, \<open>io/http/indexes.rs\<close>): blind indexes, whose
    handlers have the same forms with a step that also uses the tables: a value matches exactly when its index is stored,
    and a request adds indexes of a permitted key id and changes nothing else.
  \<^item> \<open>Single_Flight\<close> (\<open>io/http/key_load.rs\<close>): concurrent requests for one key as interleaved steps with cancellation: at
    most one load runs for a key, every answer is that of the load the request joined, and loading ends.

  \<^bold>\<open>Not modelled, and why.\<close> The PostgreSQL backend (the contract of the SQLite one in another dialect and a pool); the
  network, TLS, files, environment and configuration files, the command line, unsealing over a socket and remote time
  sources (input and output of the process); the endpoints of keys, messages, configuration and health, whose
  operations have the shape of the ones modelled; the structural audit-line check used for fuzzing; the semaphores and time-outs of blocking tasks, which belong to the runtime and enter as their outcome;
  zeroization, logging and metrics, which no result depends on; rendering answers as JSON; floating-point numbers in
  JSON, which only the metadata of a token could hold. Handlers run to completion one at a time in this model except where
  interleaving is the point (\<open>Single_Flight\<close>, \<open>Key_Lifecycle\<close>, \<open>Audit_Writer\<close>).
\<close>

end
